(* ===== verification/Prelude.thy ===== *)
theory Prelude
  imports Complex_Main "HOL-Library.Char_ord" "HOL-Library.List_Lexorder" "HOL-Library.Product_Lexorder"
begin

text \<open>
  Shared vocabulary of the DevNest development.

  \<^item> Python strings are \<^typ>\<open>string\<close> (8-bit characters); the helpers \<open>py_strip\<close>, \<open>py_lower\<close>,
    \<open>str_int\<close> and so on are the pieces of the Python string library the control plane uses.
  \<^item> Instants are integers counting microseconds, the resolution of Python's \<^verbatim>\<open>datetime\<close>.
  \<^item> A database table is the list of its rows in insertion order. The generic operations
    \<open>row_find\<close> (\<^verbatim>\<open>Session.get\<close>), \<open>row_put\<close> (\<^verbatim>\<open>Session.add\<close> of a loaded, mutated row),
    \<open>row_del\<close> (\<^verbatim>\<open>Session.delete\<close>) and the freshness predicate \<open>keys_ok\<close> are shared by every table.
  \<^item> The locale \<open>row_store\<close> states the contract a table offers to its clients; each table of the
    schema (theory Model) interprets it.
\<close>

named_theorems frame \<open>what an operation leaves unchanged\<close>
named_theorems codec \<open>string renderings of enumerations and numbers\<close>

type_synonym time = int

section \<open>Python strings\<close>

definition py_space :: "char \<Rightarrow> bool" where
  "py_space c = ((of_char c :: nat) \<in> {9,10,11,12,13,28,29,30,31,32,133,160})"

definition py_lstrip :: "string \<Rightarrow> string" where
  "py_lstrip s = dropWhile py_space s"

definition py_strip :: "string \<Rightarrow> string" where
  "py_strip s = rev (dropWhile py_space (rev (dropWhile py_space s)))"

definition strip_chars :: "char \<Rightarrow> string \<Rightarrow> string" where
  "strip_chars d s = rev (dropWhile (\<lambda>c. c = d) (rev (dropWhile (\<lambda>c. c = d) s)))"

definition rstrip_chars :: "char \<Rightarrow> string \<Rightarrow> string" where
  "rstrip_chars d s = rev (dropWhile (\<lambda>c. c = d) (rev s))"

definition lower_char :: "char \<Rightarrow> char" where
  "lower_char c = (let n = (of_char c :: nat) in
     if (65 \<le> n \<and> n \<le> 90) \<or> (192 \<le> n \<and> n \<le> 222 \<and> n \<noteq> 215) then char_of (n + 32) else c)"

definition py_lower :: "string \<Rightarrow> string" where
  "py_lower s = map lower_char s"

definition upper_char :: "char \<Rightarrow> char" where
  "upper_char c = (let n = of_char c :: nat in if 97 \<le> n \<and> n \<le> 122 then char_of (n - 32) else c)"

definition starts_with :: "string \<Rightarrow> string \<Rightarrow> bool" where
  "starts_with p s = (take (length p) s = p)"

fun contains_str :: "string \<Rightarrow> string \<Rightarrow> bool" where
  "contains_str p [] = (p = [])"
| "contains_str p (c # s) = (starts_with p (c # s) \<or> contains_str p s)"

fun join_str :: "string \<Rightarrow> string list \<Rightarrow> string" where
  "join_str sep [] = []"
| "join_str sep [x] = x"
| "join_str sep (x # y # xs) = x @ sep @ join_str sep (y # xs)"

fun split_on :: "char \<Rightarrow> string \<Rightarrow> string list" where
  "split_on c [] = [[]]"
| "split_on c (x # xs) =
     (if x = c then [] # split_on c xs
      else case split_on c xs of [] \<Rightarrow> [[x]] | p # ps \<Rightarrow> (x # p) # ps)"

text \<open>\<^verbatim>\<open>int(s, 10)\<close>: optional sign, decimal digits, single underscores between digits; \<open>None\<close> is
  \<^verbatim>\<open>ValueError\<close>. The accumulator is absent until the first digit and after an underscore the next
  character must be a digit.\<close>

definition is_digit :: "char \<Rightarrow> bool" where
  "is_digit c = (48 \<le> (of_char c :: nat) \<and> (of_char c :: nat) \<le> 57)"

fun parse_digits :: "bool \<Rightarrow> int \<Rightarrow> string \<Rightarrow> int option" where
  "parse_digits prev_digit acc [] = (if prev_digit then Some acc else None)"
| "parse_digits prev_digit acc (c # cs) =
     (if is_digit c then parse_digits True (10 * acc + (of_char c - 48)) cs
      else if c = CHR ''_'' \<and> prev_digit then parse_digits False acc cs
      else None)"

definition parse_int :: "string \<Rightarrow> int option" where
  "parse_int s0 = (case py_strip s0 of
       [] \<Rightarrow> None
     | c # cs \<Rightarrow> if c = CHR ''-'' then map_option uminus (parse_digits False 0 cs)
                 else if c = CHR ''+'' then parse_digits False 0 cs
                 else parse_digits False 0 (c # cs))"

text \<open>\<^verbatim>\<open>s or ""\<close> and \<^verbatim>\<open>(s or "").strip() or None\<close>.\<close>

definition str_or_empty :: "string option \<Rightarrow> string" where
  "str_or_empty x = (case x of None \<Rightarrow> [] | Some s \<Rightarrow> s)"

definition none_if_empty :: "string \<Rightarrow> string option" where
  "none_if_empty s = (if s = [] then None else Some s)"

definition strip_or_none :: "string option \<Rightarrow> string option" where
  "strip_or_none x = none_if_empty (py_strip (str_or_empty x))"

text \<open>\<^verbatim>\<open>repr\<close> of a string without characters that need escaping.\<close>

definition py_repr :: "string \<Rightarrow> string" where
  "py_repr s = [CHR 0x27] @ s @ [CHR 0x27]"

definition digit_char :: "nat \<Rightarrow> char" where
  "digit_char d = char_of (48 + d)"

fun str_nat :: "nat \<Rightarrow> string" where
  "str_nat n = (if n < 10 then [digit_char n] else str_nat (n div 10) @ [digit_char (n mod 10)])"

declare str_nat.simps [simp del]

definition str_int :: "int \<Rightarrow> string" where
  "str_int i = (if i < 0 then ''-'' @ str_nat (nat (- i)) else str_nat (nat i))"

definition digit_val :: "char \<Rightarrow> nat" where
  "digit_val c = of_char c - 48"

definition read_nat :: "string \<Rightarrow> nat" where
  "read_nat s = foldl (\<lambda>n c. 10 * n + digit_val c) 0 s"

lemma digit_val_char [simp]: "d < 10 \<Longrightarrow> digit_val (digit_char d) = d"
  by (simp add: digit_val_def digit_char_def of_char_of)

lemma read_nat_str_nat [simp]: "read_nat (str_nat n) = n"
proof (induction n rule: str_nat.induct)
  case (1 n)
  show ?case
  proof (cases "n < 10")
    case True
    then show ?thesis by (subst str_nat.simps) (simp add: read_nat_def)
  next
    case False
    then show ?thesis using 1 by (subst str_nat.simps) (simp add: read_nat_def)
  qed
qed

lemma str_nat_inj: "str_nat m = str_nat n \<longleftrightarrow> m = n"
  by (metis read_nat_str_nat)

lemma str_nat_nonempty [simp]: "str_nat n \<noteq> []"
  by (subst str_nat.simps) simp

lemma digit_char_not_minus: "d < 10 \<Longrightarrow> digit_char d \<noteq> CHR ''-''"
proof
  assume d: "d < 10" and e: "digit_char d = CHR ''-''"
  from e have "(of_char (digit_char d) :: nat) = of_char (CHR ''-'')" by simp
  then show False using d by (simp add: digit_char_def of_char_of)
qed

lemma str_nat_no_minus: "CHR ''-'' \<notin> set (str_nat n)"
proof (induction n rule: str_nat.induct)
  case (1 n)
  have m: "n < 10 \<Longrightarrow> CHR ''-'' \<noteq> digit_char n" "CHR ''-'' \<noteq> digit_char (n mod 10)"
    using digit_char_not_minus [of n] digit_char_not_minus [of "n mod 10"] by auto
  show ?case
  proof (cases "n < 10")
    case True
    then show ?thesis using m by (subst str_nat.simps) simp
  next
    case False
    then show ?thesis using 1 m by (subst str_nat.simps) simp
  qed
qed

lemma str_int_inj: "str_int a = str_int b \<longleftrightarrow> a = b"
proof
  assume e: "str_int a = str_int b"
  have neq: "\<And>m n. ''-'' @ str_nat m \<noteq> str_nat n"
    using str_nat_no_minus by (metis Cons_eq_appendI list.set_intros(1))
  show "a = b"
    using e neq [of "nat (- a)" "nat b"] neq [of "nat (- b)" "nat a"]
    by (auto simp: str_int_def str_nat_inj split: if_splits)
qed simp

lemma take_length_le: "length (take n s) \<le> n"
  by simp

lemma starts_with_append [simp]: "starts_with p (p @ s)"
  by (simp add: starts_with_def)

lemma str_or_empty_simps [simp]: "str_or_empty (Some s) = s" "str_or_empty None = []"
  by (simp_all add: str_or_empty_def)

lemma none_if_empty_cases: "none_if_empty s = Some t \<longleftrightarrow> s = t \<and> t \<noteq> []"
  by (auto simp: none_if_empty_def)

text \<open>Stripped texts.\<close>

lemma py_strip_tidy: "\<not> py_space (hd s) \<Longrightarrow> \<not> py_space (last s) \<Longrightarrow> py_strip s = s"
proof (cases "s = []")
  case False
  assume a: "\<not> py_space (hd s)" "\<not> py_space (last s)"
  have "dropWhile py_space s = s" using a(1) by (cases s) simp_all
  moreover have "dropWhile py_space (rev s) = rev s" using a(2) False by (cases s rule: rev_cases) simp_all
  ultimately show ?thesis by (simp add: py_strip_def)
qed (simp add: py_strip_def)

lemma py_strip_ends:
  assumes "py_strip s \<noteq> []"
  shows "\<not> py_space (hd (py_strip s))" "\<not> py_space (last (py_strip s))"
proof -
  define t where "t = dropWhile py_space s"
  define u where "u = dropWhile py_space (rev t)"
  have u: "py_strip s = rev u" "u \<noteq> []" using assms by (auto simp: py_strip_def t_def u_def)
  show "\<not> py_space (last (py_strip s))" using u hd_dropWhile [of py_space "rev t"] by (simp add: u_def last_rev)
  have "t = rev u @ rev (takeWhile py_space (rev t))"
    by (metis rev_append rev_rev_ident takeWhile_dropWhile_id u_def)
  then have "hd t = hd (rev u)" using u(2) by (metis hd_append2 rev_is_Nil_conv)
  moreover have "t \<noteq> []" using u(2) by (auto simp: u_def)
  ultimately show "\<not> py_space (hd (py_strip s))" using u(1) hd_dropWhile [of py_space s] by (simp add: t_def)
qed

lemma py_strip_idem [simp]: "py_strip (py_strip s) = py_strip s"
  by (cases "py_strip s = []") (simp_all add: py_strip_ends py_strip_tidy, simp add: py_strip_def)

lemma strip_or_none_tidy: "strip_or_none x = Some s \<Longrightarrow> py_strip s = s"
  by (auto simp: strip_or_none_def none_if_empty_def split: if_splits)

section \<open>Rounding\<close>

text \<open>\<^verbatim>\<open>round(x, n)\<close> on exact values: nearest multiple of \<open>1/10^n\<close>, ties to even.\<close>

definition py_round :: "nat \<Rightarrow> rat \<Rightarrow> rat" where
  "py_round n x = (let y = x * 10 ^ n; f = \<lfloor>y\<rfloor>; frac = y - of_int f;
       m = (if frac < 1/2 then f else if frac > 1/2 then f + 1 else if even f then f else f + 1)
     in of_int m / 10 ^ n)"

lemma py_round_grid: "x * 10 ^ n = of_int k \<Longrightarrow> py_round n x = x"
proof -
  assume e: "x * 10 ^ n = of_int k"
  then have "py_round n x = of_int k / 10 ^ n" by (simp add: py_round_def Let_def)
  also have "\<dots> = x" using e by (simp add: field_simps)
  finally show ?thesis .
qed

section \<open>Tables\<close>

text \<open>\<^verbatim>\<open>dict\<close> assignment keeps the position of a key that is already there.\<close>

fun dict_set :: "('k \<times> 'v) list \<Rightarrow> 'k \<Rightarrow> 'v \<Rightarrow> ('k \<times> 'v) list" where
  "dict_set [] k v = [(k, v)]"
| "dict_set ((k', v') # ts) k v = (if k' = k then (k, v) # ts else (k', v') # dict_set ts k v)"

definition row_find :: "('r \<Rightarrow> 'k) \<Rightarrow> 'k \<Rightarrow> 'r list \<Rightarrow> 'r option" where
  "row_find key k rows = find (\<lambda>r. key r = k) rows"

definition row_put :: "('r \<Rightarrow> 'k) \<Rightarrow> 'r \<Rightarrow> 'r list \<Rightarrow> 'r list" where
  "row_put key r rows = map (\<lambda>q. if key q = key r then r else q) rows"

definition row_del :: "('r \<Rightarrow> 'k) \<Rightarrow> 'k \<Rightarrow> 'r list \<Rightarrow> 'r list" where
  "row_del key k rows = filter (\<lambda>r. key r \<noteq> k) rows"

text \<open>Primary keys come from a sequence: they are pairwise distinct and below its next value.\<close>

definition keys_ok :: "('r \<Rightarrow> int) \<Rightarrow> 'r list \<Rightarrow> int \<Rightarrow> bool" where
  "keys_ok key rows nxt = (distinct (map key rows) \<and> (\<forall>r\<in>set rows. key r < nxt))"

definition first_row :: "'r list \<Rightarrow> 'r option" where
  "first_row rows = (case rows of [] \<Rightarrow> None | r # _ \<Rightarrow> Some r)"

definition count_rows :: "('r \<Rightarrow> bool) \<Rightarrow> 'r list \<Rightarrow> int" where
  "count_rows p rows = int (length (filter p rows))"

lemma first_row_simps [simp]:
  "first_row [] = None" "first_row (r # rs) = Some r"
  by (simp_all add: first_row_def)

lemma first_row_None [simp]: "first_row rs = None \<longleftrightarrow> rs = []"
  by (cases rs) simp_all

lemma first_row_in: "first_row rs = Some r \<Longrightarrow> r \<in> set rs"
  by (cases rs) simp_all

lemma row_find_simps [simp]:
  "row_find key k [] = None"
  "row_find key k (r # rs) = (if key r = k then Some r else row_find key k rs)"
  by (simp_all add: row_find_def)

lemma row_find_Some_key: "row_find key k rows = Some r \<Longrightarrow> key r = k"
  by (induction rows) (auto split: if_splits)

lemma row_find_Some_in: "row_find key k rows = Some r \<Longrightarrow> r \<in> set rows"
  by (induction rows) (auto split: if_splits)

lemma row_find_None: "row_find key k rows = None \<longleftrightarrow> (\<forall>r\<in>set rows. key r \<noteq> k)"
  by (induction rows) auto

lemma row_find_distinct:
  "distinct (map key rows) \<Longrightarrow> r \<in> set rows \<Longrightarrow> row_find key (key r) rows = Some r"
  by (induction rows) auto

lemma row_find_unique:
  assumes "distinct (map key rows)" "row_find key k rows = Some r" "q \<in> set rows" "key q = k"
  shows "q = r"
  using row_find_distinct [OF assms(1,3)] assms by simp

lemma row_put_keys [simp]: "map key (row_put key r rows) = map key rows"
  by (induction rows) (auto simp: row_put_def)

lemma row_put_length [simp]: "length (row_put key r rows) = length rows"
  by (simp add: row_put_def)

lemma row_find_put:
  "row_find key k (row_put key r rows) =
     (if key r = k \<and> row_find key k rows \<noteq> None then Some r else row_find key k rows)"
  by (induction rows) (auto simp: row_put_def)

lemma row_put_in: "row_find key (key r) rows \<noteq> None \<Longrightarrow> r \<in> set (row_put key r rows)"
  by (induction rows) (auto simp: row_put_def)

lemma row_put_other: "q \<in> set rows \<Longrightarrow> key q \<noteq> key r \<Longrightarrow> q \<in> set (row_put key r rows)"
  by (force simp: row_put_def)

lemma in_row_put: "q \<in> set (row_put key r rows) \<Longrightarrow> q = r \<or> (q \<in> set rows \<and> key q \<noteq> key r)"
  by (auto simp: row_put_def split: if_splits)

lemma row_find_append:
  "row_find key k (rows @ qs) = (case row_find key k rows of None \<Rightarrow> row_find key k qs | Some r \<Rightarrow> Some r)"
  by (induction rows) auto

lemma row_find_del [simp]:
  "row_find key j (row_del key k rows) = (if j = k then None else row_find key j rows)"
  by (induction rows) (auto simp: row_del_def)

lemma keys_ok_put [simp]: "keys_ok key rows n \<Longrightarrow> keys_ok key (row_put key r rows) n"
  unfolding keys_ok_def
proof (intro conjI)
  assume a: "distinct (map key rows) \<and> (\<forall>r\<in>set rows. key r < n)"
  show "distinct (map key (row_put key r rows))" using a by simp
  have "set (map key (row_put key r rows)) = set (map key rows)" by simp
  then show "\<forall>r\<in>set (row_put key r rows). key r < n"
    using a by (metis (no_types, lifting) imageE imageI list.set_map)
qed

lemma keys_ok_snoc [simp]:
  "keys_ok key rows n \<Longrightarrow> key r = n \<Longrightarrow> keys_ok key (rows @ [r]) (n + 1)"
  by (auto simp: keys_ok_def)

lemma keys_ok_del [simp]: "keys_ok key rows n \<Longrightarrow> keys_ok key (row_del key k rows) n"
  by (auto simp: keys_ok_def row_del_def distinct_map_filter)

lemma keys_ok_mono: "keys_ok key rows n \<Longrightarrow> n \<le> m \<Longrightarrow> keys_ok key rows m"
  by (auto simp: keys_ok_def)

lemma keys_ok_fresh: "keys_ok key rows n \<Longrightarrow> row_find key n rows = None"
  by (auto simp: keys_ok_def row_find_None)

lemma keys_ok_distinct [simp]: "keys_ok key rows n \<Longrightarrow> distinct (map key rows)"
  by (simp add: keys_ok_def)

lemma count_rows_nonneg [simp]: "0 \<le> count_rows p rows"
  by (simp add: count_rows_def)

lemma count_rows_append [simp]: "count_rows p (rows @ qs) = count_rows p rows + count_rows p qs"
  by (simp add: count_rows_def)

lemma count_rows_zero: "count_rows p rows = 0 \<longleftrightarrow> (\<forall>r\<in>set rows. \<not> p r)"
  by (simp add: count_rows_def filter_empty_conv)

section \<open>The contract of a table\<close>

text \<open>
  What the services rely on when they talk to one table through a SQLAlchemy session: a primary-key
  lookup, saving a loaded row, and inserting a row whose key the sequence chooses. \<open>ok\<close> is the
  integrity condition of the table. The lemmas below the laws are what the clients use.
\<close>

datatype 'r row_op = SaveRow 'r | InsertRow 'r

locale row_store =
  fixes key :: "'r \<Rightarrow> int"
    and setkey :: "int \<Rightarrow> 'r \<Rightarrow> 'r"
    and ok :: "'s \<Rightarrow> bool"
    and look :: "'s \<Rightarrow> int \<Rightarrow> 'r option"
    and save :: "'r \<Rightarrow> 's \<Rightarrow> 's"
    and ins :: "'r \<Rightarrow> 's \<Rightarrow> int \<times> 's"
  assumes key_setkey: "key (setkey i r) = i"
    and look_key: "look s k = Some r \<Longrightarrow> key r = k"
    and look_save: "look (save r s) k = (if key r = k \<and> look s k \<noteq> None then Some r else look s k)"
    and ins_fresh: "ok s \<Longrightarrow> look s (fst (ins r s)) = None"
    and look_ins: "ok s \<Longrightarrow> look (snd (ins r s)) k = (if k = fst (ins r s) then Some (setkey k r) else look s k)"
    and ok_save: "ok s \<Longrightarrow> ok (save r s)"
    and ok_ins: "ok s \<Longrightarrow> ok (snd (ins r s))"
begin

lemma save_read_back: "look s (key r) \<noteq> None \<Longrightarrow> look (save r s) (key r) = Some r"
  by (simp add: look_save)

lemma save_other: "key r \<noteq> k \<Longrightarrow> look (save r s) k = look s k"
  by (simp add: look_save)

lemma save_missing: "look s (key r) = None \<Longrightarrow> look (save r s) k = look s k"
  by (auto simp: look_save)

lemma save_last_wins: "key r = key q \<Longrightarrow> look (save r (save q s)) k = look (save r s) k"
  by (auto simp: look_save)

lemma save_commute: "key r \<noteq> key q \<Longrightarrow> look (save r (save q s)) k = look (save q (save r s)) k"
  by (auto simp: look_save)

lemma insert_read_back: "ok s \<Longrightarrow> look (snd (ins r s)) (fst (ins r s)) = Some (setkey (fst (ins r s)) r)"
  by (simp add: look_ins)

lemma insert_keeps: "ok s \<Longrightarrow> look s k = Some q \<Longrightarrow> look (snd (ins r s)) k = Some q"
  using ins_fresh [of s r] by (auto simp: look_ins)

definition apply_op :: "'r row_op \<Rightarrow> 's \<Rightarrow> 's" where
  "apply_op op s = (case op of SaveRow r \<Rightarrow> save r s | InsertRow r \<Rightarrow> snd (ins r s))"

lemma ok_apply_op: "ok s \<Longrightarrow> ok (apply_op op s)"
  by (simp add: apply_op_def ok_save ok_ins split: row_op.split)

lemma ok_history: "ok s \<Longrightarrow> ok (fold apply_op ops s)"
  by (induction ops arbitrary: s) (auto simp: ok_apply_op)

lemma row_persists: "ok s \<Longrightarrow> look s k \<noteq> None \<Longrightarrow> look (fold apply_op ops s) k \<noteq> None"
proof (induction ops arbitrary: s)
  case (Cons op ops)
  have "look (apply_op op s) k \<noteq> None"
    using Cons.prems by (cases op) (auto simp: apply_op_def look_save look_ins)
  then show ?case using Cons by (simp add: ok_apply_op)
qed simp

lemma key_never_reused:
  assumes "ok s" "look s k \<noteq> None"
  shows "fst (ins r (fold apply_op ops s)) \<noteq> k"
  using row_persists [OF assms] ins_fresh [OF ok_history [OF assms(1), of ops], of r] by metis

end

end
