(* ===== verification/Model.thy ===== *)
theory Model
  imports Prelude
begin

text \<open>
  The relational schema of the control plane (\<^verbatim>\<open>backend/app/services/*/models\<close>): the enumerations
  as datatypes, one record per table row, and the database as the record of its tables together with
  the primary-key sequence of each table. Columns that no modelled operation reads or writes are left
  out. Floating-point columns (CPU cores) are exact rationals.

  The second half gives every table its \<^verbatim>\<open>Session.get\<close> / \<^verbatim>\<open>Session.add\<close> / insert
  operations and interprets the contract \<open>row_store\<close> on them, and it defines the two ambient
  records: \<open>settings\<close> (\<^verbatim>\<open>get_settings()\<close>) and \<open>env\<close> (clock, correlation context and the
  formatting of floats).
\<close>

section \<open>Enumerations\<close>

datatype ws_status = WS_CREATING | WS_PENDING | WS_STARTING | WS_RUNNING | WS_STOPPING | WS_STOPPED
  | WS_RESTARTING | WS_UPDATING | WS_ERROR | WS_DELETING | WS_DELETED

datatype job_type = JT_CREATE | JT_START | JT_STOP | JT_RESTART | JT_DELETE | JT_UPDATE
  | JT_RECONCILE_RUNTIME | JT_SNAPSHOT_CREATE | JT_SNAPSHOT_RESTORE | JT_REPO_IMPORT
  | JT_OTHER string

datatype snap_status = SN_CREATING | SN_AVAILABLE | SN_FAILED | SN_RESTORING

datatype job_status = JS_QUEUED | JS_RUNNING | JS_SUCCEEDED | JS_FAILED | JS_CANCELLED

datatype health = H_UNKNOWN | H_HEALTHY | H_DEGRADED | H_UNHEALTHY | H_CLEANUP_REQUIRED

datatype failure_stage = FS_STORAGE | FS_NETWORK | FS_CONTAINER | FS_PROXY | FS_PLACEMENT
  | FS_CAPACITY | FS_AUTH | FS_UNKNOWN

datatype cleanup_status = CT_PENDING | CT_SUCCEEDED

datatype sess_status = SS_ACTIVE | SS_REVOKED | SS_EXPIRED

datatype scope_type = SCOPE_GLOBAL | SCOPE_USER | SCOPE_WORKSPACE

datatype node_status = NS_PROVISIONING | NS_READY | NS_NOT_READY | NS_DRAINING | NS_TERMINATING
  | NS_TERMINATED | NS_ERROR

datatype provider_type = PT_LOCAL | PT_EC2 | PT_UNSPECIFIED

datatype exec_mode = EM_LOCAL_DOCKER | EM_SSH_DOCKER | EM_SSM_DOCKER

datatype resource_status = RS_OK | RS_LOW_DISK | RS_LOW_MEMORY

datatype actor_type = ACTOR_USER | ACTOR_SYSTEM | ACTOR_INTERNAL_SERVICE

datatype audit_outcome = AO_SUCCESS | AO_FAILURE | AO_DENIED

text \<open>The string stored in the database, used where the code formats a status into text.\<close>

fun ws_status_str :: "ws_status \<Rightarrow> string" where
  "ws_status_str WS_CREATING = ''CREATING''"
| "ws_status_str WS_PENDING = ''PENDING''"
| "ws_status_str WS_STARTING = ''STARTING''"
| "ws_status_str WS_RUNNING = ''RUNNING''"
| "ws_status_str WS_STOPPING = ''STOPPING''"
| "ws_status_str WS_STOPPED = ''STOPPED''"
| "ws_status_str WS_RESTARTING = ''RESTARTING''"
| "ws_status_str WS_UPDATING = ''UPDATING''"
| "ws_status_str WS_ERROR = ''ERROR''"
| "ws_status_str WS_DELETING = ''DELETING''"
| "ws_status_str WS_DELETED = ''DELETED''"

fun job_type_str :: "job_type \<Rightarrow> string" where
  "job_type_str JT_CREATE = ''CREATE''"
| "job_type_str JT_START = ''START''"
| "job_type_str JT_STOP = ''STOP''"
| "job_type_str JT_RESTART = ''RESTART''"
| "job_type_str JT_DELETE = ''DELETE''"
| "job_type_str JT_UPDATE = ''UPDATE''"
| "job_type_str JT_RECONCILE_RUNTIME = ''RECONCILE_RUNTIME''"
| "job_type_str JT_SNAPSHOT_CREATE = ''SNAPSHOT_CREATE''"
| "job_type_str JT_SNAPSHOT_RESTORE = ''SNAPSHOT_RESTORE''"
| "job_type_str JT_REPO_IMPORT = ''REPO_IMPORT''"
| "job_type_str (JT_OTHER s) = s"

fun snap_status_str :: "snap_status \<Rightarrow> string" where
  "snap_status_str SN_CREATING = ''CREATING''"
| "snap_status_str SN_AVAILABLE = ''AVAILABLE''"
| "snap_status_str SN_FAILED = ''FAILED''"
| "snap_status_str SN_RESTORING = ''RESTORING''"

fun health_str :: "health \<Rightarrow> string" where
  "health_str H_UNKNOWN = ''UNKNOWN''"
| "health_str H_HEALTHY = ''HEALTHY''"
| "health_str H_DEGRADED = ''DEGRADED''"
| "health_str H_UNHEALTHY = ''UNHEALTHY''"
| "health_str H_CLEANUP_REQUIRED = ''CLEANUP_REQUIRED''"

fun failure_stage_str :: "failure_stage \<Rightarrow> string" where
  "failure_stage_str FS_STORAGE = ''STORAGE''"
| "failure_stage_str FS_NETWORK = ''NETWORK''"
| "failure_stage_str FS_CONTAINER = ''CONTAINER''"
| "failure_stage_str FS_PROXY = ''PROXY''"
| "failure_stage_str FS_PLACEMENT = ''PLACEMENT''"
| "failure_stage_str FS_CAPACITY = ''CAPACITY''"
| "failure_stage_str FS_AUTH = ''AUTH''"
| "failure_stage_str FS_UNKNOWN = ''UNKNOWN''"

fun node_status_str :: "node_status \<Rightarrow> string" where
  "node_status_str NS_PROVISIONING = ''PROVISIONING''"
| "node_status_str NS_READY = ''READY''"
| "node_status_str NS_NOT_READY = ''NOT_READY''"
| "node_status_str NS_DRAINING = ''DRAINING''"
| "node_status_str NS_TERMINATING = ''TERMINATING''"
| "node_status_str NS_TERMINATED = ''TERMINATED''"
| "node_status_str NS_ERROR = ''ERROR''"

lemma ws_status_str_inj: "ws_status_str a = ws_status_str b \<longleftrightarrow> a = b"
  by (cases a; cases b) simp_all

section \<open>JSON columns\<close>

datatype json = JNull | JBool bool | JInt int | JFloat rat | JNonFinite | JStr string
  | JList "json list" | JObj "(string \<times> json) list"

type_synonym jobj = "(string \<times> json) list"

definition jget :: "jobj \<Rightarrow> string \<Rightarrow> json" where
  "jget ob k = (case map_of ob k of None \<Rightarrow> JNull | Some v \<Rightarrow> v)"

text \<open>\<^verbatim>\<open>dict(x or {})\<close> of a value that is an object or missing.\<close>

definition jdict :: "json \<Rightarrow> jobj" where
  "jdict v = (case v of JObj ps \<Rightarrow> ps | _ \<Rightarrow> [])"

fun jset :: "jobj \<Rightarrow> string \<Rightarrow> json \<Rightarrow> jobj" where
  "jset [] k v = [(k, v)]"
| "jset ((k', v') # ps) k v = (if k' = k then (k, v) # ps else (k', v') # jset ps k v)"

lemma map_of_jset: "map_of (jset ob k v) = (map_of ob)(k \<mapsto> v)"
  by (induction ob k v rule: jset.induct) auto

lemma jget_jset [simp]: "jget (jset ob k v) k' = (if k' = k then v else jget ob k')"
  by (simp add: jget_def map_of_jset)

text \<open>Python truthiness of a decoded JSON value.\<close>

fun truthy :: "json \<Rightarrow> bool" where
  "truthy JNull = False"
| "truthy (JBool b) = b"
| "truthy (JInt i) = (i \<noteq> 0)"
| "truthy (JFloat r) = (r \<noteq> 0)"
| "truthy JNonFinite = True"
| "truthy (JStr s) = (s \<noteq> [])"
| "truthy (JList xs) = (xs \<noteq> [])"
| "truthy (JObj xs) = (xs \<noteq> [])"

definition jopt :: "('a \<Rightarrow> json) \<Rightarrow> 'a option \<Rightarrow> json" where
  "jopt f x = (case x of None \<Rightarrow> JNull | Some a \<Rightarrow> f a)"

section \<open>Rows\<close>

record workspace =
  ws_id :: int
  ws_execution_node_id :: "int option"
  ws_project_storage_key :: "string option"
  ws_name :: string
  ws_url_slug :: string
  ws_description :: "string option"
  ws_owner_user_id :: int
  ws_status :: ws_status
  ws_status_reason :: "string option"
  ws_last_error_code :: "string option"
  ws_last_error_message :: "string option"
  ws_endpoint_ref :: "string option"
  ws_public_host :: "string option"
  ws_gateway_path_prefix :: "string option"
  ws_active_sessions_count :: int
  ws_is_private :: bool
  ws_created_at :: time
  ws_updated_at :: time
  ws_last_started :: "time option"
  ws_last_stopped :: "time option"

record ws_config =
  cfg_id :: int
  cfg_workspace_id :: int
  cfg_version :: int
  cfg_json :: jobj

record job =
  job_id :: int
  job_workspace_id :: int
  job_snapshot_id :: "int option"
  job_type :: job_type
  job_status :: job_status
  job_requested_by :: int
  job_config_version :: int
  job_attempt :: int
  job_error_msg :: "string option"
  job_created_at :: time
  job_started_at :: "time option"
  job_finished_at :: "time option"
  job_correlation_id :: "string option"
  job_max_attempts :: int
  job_failure_stage :: "failure_stage option"
  job_failure_code :: "string option"
  job_next_attempt_after :: "time option"

record runtime =
  rt_id :: int
  rt_workspace_id :: int
  rt_node_id :: "string option"
  rt_container_id :: "string option"
  rt_container_state :: "string option"
  rt_topology_id :: "int option"
  rt_internal_endpoint :: "string option"
  rt_gateway_route_target :: "string option"
  rt_config_version :: "int option"
  rt_health :: health
  rt_reserved_cpu :: rat
  rt_reserved_memory_mb :: int
  rt_reserved_disk_mb :: int
  rt_applied_cpu :: "rat option"
  rt_applied_memory_mb :: "int option"
  rt_applied_pids :: "int option"
  rt_applied_security :: "jobj option"
  rt_last_heartbeat_at :: "time option"
  rt_updated_at :: time

record ws_session =
  sess_id :: int
  sess_workspace_id :: int
  sess_user_id :: int
  sess_status :: sess_status
  sess_token_hash :: string
  sess_issued_at :: time
  sess_expires_at :: time
  sess_last_seen_at :: time
  sess_client_metadata :: jobj
  sess_updated_at :: time

record snapshot =
  snap_id :: int
  snap_workspace_id :: int
  snap_name :: string
  snap_description :: "string option"
  snap_storage_uri :: string
  snap_status :: snap_status
  snap_size_bytes :: "int option"
  snap_created_by :: int
  snap_created_at :: time
  snap_metadata :: "jobj option"

record cleanup_task =
  ct_id :: int
  ct_workspace_id :: int
  ct_scope :: string
  ct_detail :: "string option"
  ct_status :: cleanup_status
  ct_attempts :: int
  ct_created_at :: time
  ct_updated_at :: time

record ws_event =
  ev_id :: int
  ev_workspace_id :: int
  ev_type :: string
  ev_status :: "string option"
  ev_message :: "string option"
  ev_payload :: jobj
  ev_created_at :: time

record audit_row =
  au_id :: int
  au_actor_user_id :: "int option"
  au_actor_type :: actor_type
  au_action :: string
  au_resource_type :: string
  au_resource_id :: "string option"
  au_workspace_id :: "int option"
  au_job_id :: "int option"
  au_node_id :: "string option"
  au_outcome :: audit_outcome
  au_reason :: "string option"
  au_metadata :: "jobj option"
  au_correlation_id :: "string option"
  au_created_at :: time

record usage_row =
  us_id :: int
  us_workspace_id :: "int option"
  us_owner_user_id :: "int option"
  us_event_type :: string
  us_quantity :: int
  us_node_id :: "string option"
  us_job_id :: "int option"
  us_metadata :: jobj
  us_correlation_id :: "string option"
  us_created_at :: time

record quota =
  q_id :: int
  q_scope_type :: scope_type
  q_scope_id :: "int option"
  q_max_workspaces :: "int option"
  q_max_running_workspaces :: "int option"
  q_max_cpu :: "rat option"
  q_max_memory_mb :: "int option"
  q_max_sessions :: "int option"
  q_max_snapshots :: "int option"
  q_max_runtime_hours :: "rat option"

record policy =
  pol_id :: int
  pol_name :: string
  pol_type :: string
  pol_scope_type :: scope_type
  pol_scope_id :: "int option"
  pol_rules :: jobj
  pol_is_active :: bool
  pol_created_at :: time

record node =
  node_pk :: int
  node_key :: string
  node_name :: string
  node_provider_type :: provider_type
  node_provider_instance_id :: "string option"
  node_hostname :: "string option"
  node_private_ip :: "string option"
  node_execution_mode :: exec_mode
  node_ssh_host :: "string option"
  node_status :: node_status
  node_schedulable :: bool
  node_total_cpu :: rat
  node_total_memory_mb :: int
  node_allocatable_cpu :: rat
  node_allocatable_memory_mb :: int
  node_max_workspaces :: int
  node_allocatable_disk_mb :: int
  node_metadata :: jobj
  node_default_topology_id :: "int option"
  node_last_heartbeat_at :: "time option"
  node_last_error_code :: "string option"
  node_last_error_message :: "string option"
  node_created_at :: time
  node_updated_at :: time
  node_disk_total_mb :: "int option"
  node_disk_free_mb :: "int option"
  node_memory_total_mb :: "int option"
  node_memory_free_mb :: "int option"
  node_last_resource_check_at :: "time option"
  node_resource_status :: "resource_status option"
  node_resource_warning :: "string option"
  node_region :: "string option"
  node_availability_zone :: "string option"
  node_instance_type :: "string option"
  node_public_ip :: "string option"
  node_iam_instance_profile_name :: "string option"
  node_ssh_user :: "string option"
  node_last_synced_at :: "time option"

record user =
  user_id :: int
  user_username :: string
  user_route_slug :: "string option"

record ws_secret =
  sec_id :: int
  sec_workspace_id :: int
  sec_name :: string
  sec_encrypted :: string
  sec_updated_at :: time

record topology =
  topo_id :: int
  topo_name :: string
  topo_version :: string

section \<open>The database\<close>

text \<open>One constructor per table with a primary-key sequence.\<close>

datatype tbl = T_WORKSPACE | T_CONFIG | T_JOB | T_RUNTIME | T_SESSION | T_SNAPSHOT | T_CLEANUP
  | T_EVENT | T_AUDIT | T_USAGE | T_NODE | T_SECRET

record db =
  workspaces :: "workspace list"
  configs :: "ws_config list"
  jobs :: "job list"
  runtimes :: "runtime list"
  sessions :: "ws_session list"
  snapshots :: "snapshot list"
  cleanups :: "cleanup_task list"
  events :: "ws_event list"
  audits :: "audit_row list"
  usages :: "usage_row list"
  nodes :: "node list"
  quotas :: "quota list"
  policies :: "policy list"
  users :: "user list"
  topologies :: "topology list"
  secrets :: "ws_secret list"
  seqs :: "tbl \<Rightarrow> int"

definition bump :: "tbl \<Rightarrow> db \<Rightarrow> db" where
  "bump t d = d\<lparr>seqs := (seqs d)(t := seqs d t + 1)\<rparr>"

definition get_ws :: "db \<Rightarrow> int \<Rightarrow> workspace option" where
  "get_ws d k = row_find ws_id k (workspaces d)"

definition put_ws :: "workspace \<Rightarrow> db \<Rightarrow> db" where
  "put_ws w d = d\<lparr>workspaces := row_put ws_id w (workspaces d)\<rparr>"

definition add_ws :: "workspace \<Rightarrow> db \<Rightarrow> int \<times> db" where
  "add_ws w d = (seqs d T_WORKSPACE,
     bump T_WORKSPACE (d\<lparr>workspaces := workspaces d @ [w\<lparr>ws_id := seqs d T_WORKSPACE\<rparr>]\<rparr>))"

definition get_job :: "db \<Rightarrow> int \<Rightarrow> job option" where
  "get_job d k = row_find job_id k (jobs d)"

definition put_job :: "job \<Rightarrow> db \<Rightarrow> db" where
  "put_job j d = d\<lparr>jobs := row_put job_id j (jobs d)\<rparr>"

definition add_job :: "job \<Rightarrow> db \<Rightarrow> int \<times> db" where
  "add_job j d = (seqs d T_JOB,
     bump T_JOB (d\<lparr>jobs := jobs d @ [j\<lparr>job_id := seqs d T_JOB\<rparr>]\<rparr>))"

definition get_rt_pk :: "db \<Rightarrow> int \<Rightarrow> runtime option" where
  "get_rt_pk d k = row_find rt_id k (runtimes d)"

definition put_rt :: "runtime \<Rightarrow> db \<Rightarrow> db" where
  "put_rt r d = d\<lparr>runtimes := row_put rt_id r (runtimes d)\<rparr>"

definition add_rt :: "runtime \<Rightarrow> db \<Rightarrow> int \<times> db" where
  "add_rt r d = (seqs d T_RUNTIME,
     bump T_RUNTIME (d\<lparr>runtimes := runtimes d @ [r\<lparr>rt_id := seqs d T_RUNTIME\<rparr>]\<rparr>))"

definition add_cfg :: "ws_config \<Rightarrow> db \<Rightarrow> int \<times> db" where
  "add_cfg c d = (seqs d T_CONFIG,
     bump T_CONFIG (d\<lparr>configs := configs d @ [c\<lparr>cfg_id := seqs d T_CONFIG\<rparr>]\<rparr>))"

definition get_sess :: "db \<Rightarrow> int \<Rightarrow> ws_session option" where
  "get_sess d k = row_find sess_id k (sessions d)"

definition put_sess :: "ws_session \<Rightarrow> db \<Rightarrow> db" where
  "put_sess s d = d\<lparr>sessions := row_put sess_id s (sessions d)\<rparr>"

definition add_sess :: "ws_session \<Rightarrow> db \<Rightarrow> int \<times> db" where
  "add_sess s d = (seqs d T_SESSION,
     bump T_SESSION (d\<lparr>sessions := sessions d @ [s\<lparr>sess_id := seqs d T_SESSION\<rparr>]\<rparr>))"

definition get_snap :: "db \<Rightarrow> int \<Rightarrow> snapshot option" where
  "get_snap d k = row_find snap_id k (snapshots d)"

definition put_snap :: "snapshot \<Rightarrow> db \<Rightarrow> db" where
  "put_snap s d = d\<lparr>snapshots := row_put snap_id s (snapshots d)\<rparr>"

definition add_snap :: "snapshot \<Rightarrow> db \<Rightarrow> int \<times> db" where
  "add_snap s d = (seqs d T_SNAPSHOT,
     bump T_SNAPSHOT (d\<lparr>snapshots := snapshots d @ [s\<lparr>snap_id := seqs d T_SNAPSHOT\<rparr>]\<rparr>))"

definition del_snap :: "int \<Rightarrow> db \<Rightarrow> db" where
  "del_snap k d = d\<lparr>snapshots := row_del snap_id k (snapshots d)\<rparr>"

definition get_ct :: "db \<Rightarrow> int \<Rightarrow> cleanup_task option" where
  "get_ct d k = row_find ct_id k (cleanups d)"

definition put_ct :: "cleanup_task \<Rightarrow> db \<Rightarrow> db" where
  "put_ct c d = d\<lparr>cleanups := row_put ct_id c (cleanups d)\<rparr>"

definition add_ct :: "cleanup_task \<Rightarrow> db \<Rightarrow> int \<times> db" where
  "add_ct c d = (seqs d T_CLEANUP,
     bump T_CLEANUP (d\<lparr>cleanups := cleanups d @ [c\<lparr>ct_id := seqs d T_CLEANUP\<rparr>]\<rparr>))"

definition get_node :: "db \<Rightarrow> int \<Rightarrow> node option" where
  "get_node d k = row_find node_pk k (nodes d)"

definition put_node :: "node \<Rightarrow> db \<Rightarrow> db" where
  "put_node n d = d\<lparr>nodes := row_put node_pk n (nodes d)\<rparr>"

definition add_node :: "node \<Rightarrow> db \<Rightarrow> int \<times> db" where
  "add_node n d = (seqs d T_NODE,
     bump T_NODE (d\<lparr>nodes := nodes d @ [n\<lparr>node_pk := seqs d T_NODE\<rparr>]\<rparr>))"

definition get_topology :: "db \<Rightarrow> int \<Rightarrow> topology option" where
  "get_topology d k = row_find topo_id k (topologies d)"

definition get_user :: "db \<Rightarrow> int \<Rightarrow> user option" where
  "get_user d k = row_find user_id k (users d)"

text \<open>Primary-key integrity of the whole database.\<close>

definition db_keys_ok :: "db \<Rightarrow> bool" where
  "db_keys_ok d = (
     keys_ok ws_id (workspaces d) (seqs d T_WORKSPACE) \<and>
     keys_ok cfg_id (configs d) (seqs d T_CONFIG) \<and>
     keys_ok job_id (jobs d) (seqs d T_JOB) \<and>
     keys_ok rt_id (runtimes d) (seqs d T_RUNTIME) \<and>
     keys_ok sess_id (sessions d) (seqs d T_SESSION) \<and>
     keys_ok snap_id (snapshots d) (seqs d T_SNAPSHOT) \<and>
     keys_ok ct_id (cleanups d) (seqs d T_CLEANUP) \<and>
     keys_ok ev_id (events d) (seqs d T_EVENT) \<and>
     keys_ok au_id (audits d) (seqs d T_AUDIT) \<and>
     keys_ok us_id (usages d) (seqs d T_USAGE) \<and>
     keys_ok node_pk (nodes d) (seqs d T_NODE) \<and>
     keys_ok sec_id (secrets d) (seqs d T_SECRET))"

lemmas db_ops = bump_def get_ws_def put_ws_def add_ws_def get_job_def put_job_def add_job_def
  get_rt_pk_def put_rt_def add_rt_def add_cfg_def get_sess_def put_sess_def add_sess_def
  get_snap_def put_snap_def add_snap_def del_snap_def get_ct_def put_ct_def add_ct_def
  get_node_def put_node_def add_node_def

section \<open>The tables meet the contract\<close>

lemmas row_laws = row_find_put row_find_append keys_ok_fresh

interpretation ws_tab: row_store ws_id "\<lambda>i. ws_id_update (\<lambda>_. i)"
    "\<lambda>d. keys_ok ws_id (workspaces d) (seqs d T_WORKSPACE)" get_ws put_ws add_ws
  by unfold_locales (simp_all add: db_ops row_laws, auto simp: keys_ok_fresh dest: row_find_Some_key split: option.splits)

interpretation job_tab: row_store job_id "\<lambda>i. job_id_update (\<lambda>_. i)"
    "\<lambda>d. keys_ok job_id (jobs d) (seqs d T_JOB)" get_job put_job add_job
  by unfold_locales (simp_all add: db_ops row_laws, auto simp: keys_ok_fresh dest: row_find_Some_key split: option.splits)

interpretation rt_tab: row_store rt_id "\<lambda>i. rt_id_update (\<lambda>_. i)"
    "\<lambda>d. keys_ok rt_id (runtimes d) (seqs d T_RUNTIME)" get_rt_pk put_rt add_rt
  by unfold_locales (simp_all add: db_ops row_laws, auto simp: keys_ok_fresh dest: row_find_Some_key split: option.splits)

interpretation sess_tab: row_store sess_id "\<lambda>i. sess_id_update (\<lambda>_. i)"
    "\<lambda>d. keys_ok sess_id (sessions d) (seqs d T_SESSION)" get_sess put_sess add_sess
  by unfold_locales (simp_all add: db_ops row_laws, auto simp: keys_ok_fresh dest: row_find_Some_key split: option.splits)

interpretation snap_tab: row_store snap_id "\<lambda>i. snap_id_update (\<lambda>_. i)"
    "\<lambda>d. keys_ok snap_id (snapshots d) (seqs d T_SNAPSHOT)" get_snap put_snap add_snap
  by unfold_locales (simp_all add: db_ops row_laws, auto simp: keys_ok_fresh dest: row_find_Some_key split: option.splits)

interpretation ct_tab: row_store ct_id "\<lambda>i. ct_id_update (\<lambda>_. i)"
    "\<lambda>d. keys_ok ct_id (cleanups d) (seqs d T_CLEANUP)" get_ct put_ct add_ct
  by unfold_locales (simp_all add: db_ops row_laws, auto simp: keys_ok_fresh dest: row_find_Some_key split: option.splits)

interpretation nodes_tab: row_store node_pk "\<lambda>i. node_pk_update (\<lambda>_. i)"
    "\<lambda>d. keys_ok node_pk (nodes d) (seqs d T_NODE)" get_node put_node add_node
  by unfold_locales (simp_all add: db_ops row_laws, auto simp: keys_ok_fresh dest: row_find_Some_key split: option.splits)

section \<open>Frame facts of the table operations\<close>

lemma put_ws_frame [frame, simp]:
  "configs (put_ws x d) = configs d"
  "jobs (put_ws x d) = jobs d"
  "runtimes (put_ws x d) = runtimes d"
  "sessions (put_ws x d) = sessions d"
  "snapshots (put_ws x d) = snapshots d"
  "cleanups (put_ws x d) = cleanups d"
  "events (put_ws x d) = events d"
  "audits (put_ws x d) = audits d"
  "usages (put_ws x d) = usages d"
  "nodes (put_ws x d) = nodes d"
  "quotas (put_ws x d) = quotas d"
  "policies (put_ws x d) = policies d"
  "users (put_ws x d) = users d"
  "topologies (put_ws x d) = topologies d"
  "secrets (put_ws x d) = secrets d"
  "seqs (put_ws x d) = seqs d"
  "workspaces (put_ws x d) = row_put ws_id x (workspaces d)"
  by (simp_all add: put_ws_def bump_def)

lemma put_job_frame [frame, simp]:
  "workspaces (put_job x d) = workspaces d"
  "configs (put_job x d) = configs d"
  "runtimes (put_job x d) = runtimes d"
  "sessions (put_job x d) = sessions d"
  "snapshots (put_job x d) = snapshots d"
  "cleanups (put_job x d) = cleanups d"
  "events (put_job x d) = events d"
  "audits (put_job x d) = audits d"
  "usages (put_job x d) = usages d"
  "nodes (put_job x d) = nodes d"
  "quotas (put_job x d) = quotas d"
  "policies (put_job x d) = policies d"
  "users (put_job x d) = users d"
  "topologies (put_job x d) = topologies d"
  "secrets (put_job x d) = secrets d"
  "seqs (put_job x d) = seqs d"
  "jobs (put_job x d) = row_put job_id x (jobs d)"
  by (simp_all add: put_job_def bump_def)

lemma put_rt_frame [frame, simp]:
  "workspaces (put_rt x d) = workspaces d"
  "configs (put_rt x d) = configs d"
  "jobs (put_rt x d) = jobs d"
  "sessions (put_rt x d) = sessions d"
  "snapshots (put_rt x d) = snapshots d"
  "cleanups (put_rt x d) = cleanups d"
  "events (put_rt x d) = events d"
  "audits (put_rt x d) = audits d"
  "usages (put_rt x d) = usages d"
  "nodes (put_rt x d) = nodes d"
  "quotas (put_rt x d) = quotas d"
  "policies (put_rt x d) = policies d"
  "users (put_rt x d) = users d"
  "topologies (put_rt x d) = topologies d"
  "secrets (put_rt x d) = secrets d"
  "seqs (put_rt x d) = seqs d"
  "runtimes (put_rt x d) = row_put rt_id x (runtimes d)"
  by (simp_all add: put_rt_def bump_def)

lemma put_sess_frame [frame, simp]:
  "workspaces (put_sess x d) = workspaces d"
  "configs (put_sess x d) = configs d"
  "jobs (put_sess x d) = jobs d"
  "runtimes (put_sess x d) = runtimes d"
  "snapshots (put_sess x d) = snapshots d"
  "cleanups (put_sess x d) = cleanups d"
  "events (put_sess x d) = events d"
  "audits (put_sess x d) = audits d"
  "usages (put_sess x d) = usages d"
  "nodes (put_sess x d) = nodes d"
  "quotas (put_sess x d) = quotas d"
  "policies (put_sess x d) = policies d"
  "users (put_sess x d) = users d"
  "topologies (put_sess x d) = topologies d"
  "secrets (put_sess x d) = secrets d"
  "seqs (put_sess x d) = seqs d"
  "sessions (put_sess x d) = row_put sess_id x (sessions d)"
  by (simp_all add: put_sess_def bump_def)

lemma put_snap_frame [frame, simp]:
  "workspaces (put_snap x d) = workspaces d"
  "configs (put_snap x d) = configs d"
  "jobs (put_snap x d) = jobs d"
  "runtimes (put_snap x d) = runtimes d"
  "sessions (put_snap x d) = sessions d"
  "cleanups (put_snap x d) = cleanups d"
  "events (put_snap x d) = events d"
  "audits (put_snap x d) = audits d"
  "usages (put_snap x d) = usages d"
  "nodes (put_snap x d) = nodes d"
  "quotas (put_snap x d) = quotas d"
  "policies (put_snap x d) = policies d"
  "users (put_snap x d) = users d"
  "topologies (put_snap x d) = topologies d"
  "secrets (put_snap x d) = secrets d"
  "seqs (put_snap x d) = seqs d"
  "snapshots (put_snap x d) = row_put snap_id x (snapshots d)"
  by (simp_all add: put_snap_def bump_def)

lemma del_snap_frame [frame, simp]:
  "workspaces (del_snap k d) = workspaces d"
  "configs (del_snap k d) = configs d"
  "jobs (del_snap k d) = jobs d"
  "runtimes (del_snap k d) = runtimes d"
  "sessions (del_snap k d) = sessions d"
  "cleanups (del_snap k d) = cleanups d"
  "events (del_snap k d) = events d"
  "audits (del_snap k d) = audits d"
  "usages (del_snap k d) = usages d"
  "nodes (del_snap k d) = nodes d"
  "quotas (del_snap k d) = quotas d"
  "policies (del_snap k d) = policies d"
  "users (del_snap k d) = users d"
  "topologies (del_snap k d) = topologies d"
  "secrets (del_snap k d) = secrets d"
  "seqs (del_snap k d) = seqs d"
  "snapshots (del_snap k d) = row_del snap_id k (snapshots d)"
  by (simp_all add: del_snap_def bump_def)

lemma put_ct_frame [frame, simp]:
  "workspaces (put_ct x d) = workspaces d"
  "configs (put_ct x d) = configs d"
  "jobs (put_ct x d) = jobs d"
  "runtimes (put_ct x d) = runtimes d"
  "sessions (put_ct x d) = sessions d"
  "snapshots (put_ct x d) = snapshots d"
  "events (put_ct x d) = events d"
  "audits (put_ct x d) = audits d"
  "usages (put_ct x d) = usages d"
  "nodes (put_ct x d) = nodes d"
  "quotas (put_ct x d) = quotas d"
  "policies (put_ct x d) = policies d"
  "users (put_ct x d) = users d"
  "topologies (put_ct x d) = topologies d"
  "secrets (put_ct x d) = secrets d"
  "seqs (put_ct x d) = seqs d"
  "cleanups (put_ct x d) = row_put ct_id x (cleanups d)"
  by (simp_all add: put_ct_def bump_def)

lemma put_node_frame [frame, simp]:
  "workspaces (put_node x d) = workspaces d"
  "configs (put_node x d) = configs d"
  "jobs (put_node x d) = jobs d"
  "runtimes (put_node x d) = runtimes d"
  "sessions (put_node x d) = sessions d"
  "snapshots (put_node x d) = snapshots d"
  "cleanups (put_node x d) = cleanups d"
  "events (put_node x d) = events d"
  "audits (put_node x d) = audits d"
  "usages (put_node x d) = usages d"
  "quotas (put_node x d) = quotas d"
  "policies (put_node x d) = policies d"
  "users (put_node x d) = users d"
  "topologies (put_node x d) = topologies d"
  "secrets (put_node x d) = secrets d"
  "seqs (put_node x d) = seqs d"
  "nodes (put_node x d) = row_put node_pk x (nodes d)"
  by (simp_all add: put_node_def bump_def)

lemma add_ws_frame [frame, simp]:
  "configs (snd (add_ws x d)) = configs d"
  "jobs (snd (add_ws x d)) = jobs d"
  "runtimes (snd (add_ws x d)) = runtimes d"
  "sessions (snd (add_ws x d)) = sessions d"
  "snapshots (snd (add_ws x d)) = snapshots d"
  "cleanups (snd (add_ws x d)) = cleanups d"
  "events (snd (add_ws x d)) = events d"
  "audits (snd (add_ws x d)) = audits d"
  "usages (snd (add_ws x d)) = usages d"
  "nodes (snd (add_ws x d)) = nodes d"
  "quotas (snd (add_ws x d)) = quotas d"
  "policies (snd (add_ws x d)) = policies d"
  "users (snd (add_ws x d)) = users d"
  "topologies (snd (add_ws x d)) = topologies d"
  "secrets (snd (add_ws x d)) = secrets d"
  "seqs (snd (add_ws x d)) = (seqs d)(T_WORKSPACE := seqs d T_WORKSPACE + 1)"
  "workspaces (snd (add_ws x d)) = workspaces d @ [x\<lparr>ws_id := seqs d T_WORKSPACE\<rparr>]"
  "fst (add_ws x d) = seqs d T_WORKSPACE"
  by (simp_all add: add_ws_def bump_def)

lemma add_cfg_frame [frame, simp]:
  "workspaces (snd (add_cfg x d)) = workspaces d"
  "jobs (snd (add_cfg x d)) = jobs d"
  "runtimes (snd (add_cfg x d)) = runtimes d"
  "sessions (snd (add_cfg x d)) = sessions d"
  "snapshots (snd (add_cfg x d)) = snapshots d"
  "cleanups (snd (add_cfg x d)) = cleanups d"
  "events (snd (add_cfg x d)) = events d"
  "audits (snd (add_cfg x d)) = audits d"
  "usages (snd (add_cfg x d)) = usages d"
  "nodes (snd (add_cfg x d)) = nodes d"
  "quotas (snd (add_cfg x d)) = quotas d"
  "policies (snd (add_cfg x d)) = policies d"
  "users (snd (add_cfg x d)) = users d"
  "topologies (snd (add_cfg x d)) = topologies d"
  "secrets (snd (add_cfg x d)) = secrets d"
  "seqs (snd (add_cfg x d)) = (seqs d)(T_CONFIG := seqs d T_CONFIG + 1)"
  "configs (snd (add_cfg x d)) = configs d @ [x\<lparr>cfg_id := seqs d T_CONFIG\<rparr>]"
  "fst (add_cfg x d) = seqs d T_CONFIG"
  by (simp_all add: add_cfg_def bump_def)

lemma add_job_frame [frame, simp]:
  "workspaces (snd (add_job x d)) = workspaces d"
  "configs (snd (add_job x d)) = configs d"
  "runtimes (snd (add_job x d)) = runtimes d"
  "sessions (snd (add_job x d)) = sessions d"
  "snapshots (snd (add_job x d)) = snapshots d"
  "cleanups (snd (add_job x d)) = cleanups d"
  "events (snd (add_job x d)) = events d"
  "audits (snd (add_job x d)) = audits d"
  "usages (snd (add_job x d)) = usages d"
  "nodes (snd (add_job x d)) = nodes d"
  "quotas (snd (add_job x d)) = quotas d"
  "policies (snd (add_job x d)) = policies d"
  "users (snd (add_job x d)) = users d"
  "topologies (snd (add_job x d)) = topologies d"
  "secrets (snd (add_job x d)) = secrets d"
  "seqs (snd (add_job x d)) = (seqs d)(T_JOB := seqs d T_JOB + 1)"
  "jobs (snd (add_job x d)) = jobs d @ [x\<lparr>job_id := seqs d T_JOB\<rparr>]"
  "fst (add_job x d) = seqs d T_JOB"
  by (simp_all add: add_job_def bump_def)

lemma add_rt_frame [frame, simp]:
  "workspaces (snd (add_rt x d)) = workspaces d"
  "configs (snd (add_rt x d)) = configs d"
  "jobs (snd (add_rt x d)) = jobs d"
  "sessions (snd (add_rt x d)) = sessions d"
  "snapshots (snd (add_rt x d)) = snapshots d"
  "cleanups (snd (add_rt x d)) = cleanups d"
  "events (snd (add_rt x d)) = events d"
  "audits (snd (add_rt x d)) = audits d"
  "usages (snd (add_rt x d)) = usages d"
  "nodes (snd (add_rt x d)) = nodes d"
  "quotas (snd (add_rt x d)) = quotas d"
  "policies (snd (add_rt x d)) = policies d"
  "users (snd (add_rt x d)) = users d"
  "topologies (snd (add_rt x d)) = topologies d"
  "secrets (snd (add_rt x d)) = secrets d"
  "seqs (snd (add_rt x d)) = (seqs d)(T_RUNTIME := seqs d T_RUNTIME + 1)"
  "runtimes (snd (add_rt x d)) = runtimes d @ [x\<lparr>rt_id := seqs d T_RUNTIME\<rparr>]"
  "fst (add_rt x d) = seqs d T_RUNTIME"
  by (simp_all add: add_rt_def bump_def)

lemma add_sess_frame [frame, simp]:
  "workspaces (snd (add_sess x d)) = workspaces d"
  "configs (snd (add_sess x d)) = configs d"
  "jobs (snd (add_sess x d)) = jobs d"
  "runtimes (snd (add_sess x d)) = runtimes d"
  "snapshots (snd (add_sess x d)) = snapshots d"
  "cleanups (snd (add_sess x d)) = cleanups d"
  "events (snd (add_sess x d)) = events d"
  "audits (snd (add_sess x d)) = audits d"
  "usages (snd (add_sess x d)) = usages d"
  "nodes (snd (add_sess x d)) = nodes d"
  "quotas (snd (add_sess x d)) = quotas d"
  "policies (snd (add_sess x d)) = policies d"
  "users (snd (add_sess x d)) = users d"
  "topologies (snd (add_sess x d)) = topologies d"
  "secrets (snd (add_sess x d)) = secrets d"
  "seqs (snd (add_sess x d)) = (seqs d)(T_SESSION := seqs d T_SESSION + 1)"
  "sessions (snd (add_sess x d)) = sessions d @ [x\<lparr>sess_id := seqs d T_SESSION\<rparr>]"
  "fst (add_sess x d) = seqs d T_SESSION"
  by (simp_all add: add_sess_def bump_def)

lemma add_snap_frame [frame, simp]:
  "workspaces (snd (add_snap x d)) = workspaces d"
  "configs (snd (add_snap x d)) = configs d"
  "jobs (snd (add_snap x d)) = jobs d"
  "runtimes (snd (add_snap x d)) = runtimes d"
  "sessions (snd (add_snap x d)) = sessions d"
  "cleanups (snd (add_snap x d)) = cleanups d"
  "events (snd (add_snap x d)) = events d"
  "audits (snd (add_snap x d)) = audits d"
  "usages (snd (add_snap x d)) = usages d"
  "nodes (snd (add_snap x d)) = nodes d"
  "quotas (snd (add_snap x d)) = quotas d"
  "policies (snd (add_snap x d)) = policies d"
  "users (snd (add_snap x d)) = users d"
  "topologies (snd (add_snap x d)) = topologies d"
  "secrets (snd (add_snap x d)) = secrets d"
  "seqs (snd (add_snap x d)) = (seqs d)(T_SNAPSHOT := seqs d T_SNAPSHOT + 1)"
  "snapshots (snd (add_snap x d)) = snapshots d @ [x\<lparr>snap_id := seqs d T_SNAPSHOT\<rparr>]"
  "fst (add_snap x d) = seqs d T_SNAPSHOT"
  by (simp_all add: add_snap_def bump_def)

lemma add_ct_frame [frame, simp]:
  "workspaces (snd (add_ct x d)) = workspaces d"
  "configs (snd (add_ct x d)) = configs d"
  "jobs (snd (add_ct x d)) = jobs d"
  "runtimes (snd (add_ct x d)) = runtimes d"
  "sessions (snd (add_ct x d)) = sessions d"
  "snapshots (snd (add_ct x d)) = snapshots d"
  "events (snd (add_ct x d)) = events d"
  "audits (snd (add_ct x d)) = audits d"
  "usages (snd (add_ct x d)) = usages d"
  "nodes (snd (add_ct x d)) = nodes d"
  "quotas (snd (add_ct x d)) = quotas d"
  "policies (snd (add_ct x d)) = policies d"
  "users (snd (add_ct x d)) = users d"
  "topologies (snd (add_ct x d)) = topologies d"
  "secrets (snd (add_ct x d)) = secrets d"
  "seqs (snd (add_ct x d)) = (seqs d)(T_CLEANUP := seqs d T_CLEANUP + 1)"
  "cleanups (snd (add_ct x d)) = cleanups d @ [x\<lparr>ct_id := seqs d T_CLEANUP\<rparr>]"
  "fst (add_ct x d) = seqs d T_CLEANUP"
  by (simp_all add: add_ct_def bump_def)

lemma add_node_frame [frame, simp]:
  "workspaces (snd (add_node x d)) = workspaces d"
  "configs (snd (add_node x d)) = configs d"
  "jobs (snd (add_node x d)) = jobs d"
  "runtimes (snd (add_node x d)) = runtimes d"
  "sessions (snd (add_node x d)) = sessions d"
  "snapshots (snd (add_node x d)) = snapshots d"
  "cleanups (snd (add_node x d)) = cleanups d"
  "events (snd (add_node x d)) = events d"
  "audits (snd (add_node x d)) = audits d"
  "usages (snd (add_node x d)) = usages d"
  "quotas (snd (add_node x d)) = quotas d"
  "policies (snd (add_node x d)) = policies d"
  "users (snd (add_node x d)) = users d"
  "topologies (snd (add_node x d)) = topologies d"
  "secrets (snd (add_node x d)) = secrets d"
  "seqs (snd (add_node x d)) = (seqs d)(T_NODE := seqs d T_NODE + 1)"
  "nodes (snd (add_node x d)) = nodes d @ [x\<lparr>node_pk := seqs d T_NODE\<rparr>]"
  "fst (add_node x d) = seqs d T_NODE"
  by (simp_all add: add_node_def bump_def)

lemma db_keys_ok_ops [simp]:
  "db_keys_ok d \<Longrightarrow> db_keys_ok (put_ws x1 d)"
  "db_keys_ok d \<Longrightarrow> db_keys_ok (put_job x2 d)"
  "db_keys_ok d \<Longrightarrow> db_keys_ok (put_rt x3 d)"
  "db_keys_ok d \<Longrightarrow> db_keys_ok (put_sess x4 d)"
  "db_keys_ok d \<Longrightarrow> db_keys_ok (put_snap x5 d)"
  "db_keys_ok d \<Longrightarrow> db_keys_ok (del_snap k d)"
  "db_keys_ok d \<Longrightarrow> db_keys_ok (put_ct x7 d)"
  "db_keys_ok d \<Longrightarrow> db_keys_ok (put_node x8 d)"
  "db_keys_ok d \<Longrightarrow> db_keys_ok (snd (add_ws x9 d))"
  "db_keys_ok d \<Longrightarrow> db_keys_ok (snd (add_cfg x10 d))"
  "db_keys_ok d \<Longrightarrow> db_keys_ok (snd (add_job x11 d))"
  "db_keys_ok d \<Longrightarrow> db_keys_ok (snd (add_rt x12 d))"
  "db_keys_ok d \<Longrightarrow> db_keys_ok (snd (add_sess x13 d))"
  "db_keys_ok d \<Longrightarrow> db_keys_ok (snd (add_snap x14 d))"
  "db_keys_ok d \<Longrightarrow> db_keys_ok (snd (add_ct x15 d))"
  "db_keys_ok d \<Longrightarrow> db_keys_ok (snd (add_node x16 d))"
  by (simp_all add: db_keys_ok_def)

text \<open>Lookups depend on their own table only.\<close>

lemma get_cong:
  "workspaces d = workspaces d' \<Longrightarrow> get_ws d k = get_ws d' k"
  "jobs d = jobs d' \<Longrightarrow> get_job d k = get_job d' k"
  "sessions d = sessions d' \<Longrightarrow> get_sess d k = get_sess d' k"
  "snapshots d = snapshots d' \<Longrightarrow> get_snap d k = get_snap d' k"
  "cleanups d = cleanups d' \<Longrightarrow> get_ct d k = get_ct d' k"
  "nodes d = nodes d' \<Longrightarrow> get_node d k = get_node d' k"
  by (simp_all add: db_ops)

text \<open>The database with no rows, the starting point of concrete examples.\<close>

definition empty_db :: db where
  "empty_db = \<lparr>workspaces = [], configs = [], jobs = [], runtimes = [], sessions = [], snapshots = [],
     cleanups = [], events = [], audits = [], usages = [], nodes = [], quotas = [], policies = [],
     users = [], topologies = [], secrets = [], seqs = (\<lambda>_. 1)\<rparr>"

section \<open>Settings and ambient context\<close>

text \<open>The fields of \<^verbatim>\<open>Settings\<close> the modelled code reads.\<close>

record settings =
  s_gateway_enabled :: bool
  s_base_domain :: string
  s_public_base_domain :: string
  s_gateway_public_scheme :: string
  s_gateway_public_port :: int
  s_workspace_domain_mode :: string
  s_tenant_subdomain_routing :: bool
  s_workspace_projects_base :: string
  s_session_ttl_seconds :: int
  s_job_max_attempts :: int
  s_job_retry_backoff_seconds :: int
  s_capacity_retry_timeout_seconds :: int
  s_capacity_retry_backoff_seconds :: int
  s_job_stuck_timeout_seconds :: int
  s_reconcile_lease_ttl_seconds :: int
  s_multi_node_scheduling :: bool
  s_node_provider :: string
  s_devnest_env :: string
  s_require_fresh_heartbeat :: bool
  s_heartbeat_enabled :: bool
  s_heartbeat_max_age_seconds :: int
  s_resource_monitor_enabled :: bool
  s_min_free_disk_mb :: int
  s_min_free_memory_mb :: int
  s_required_cpu :: rat
  s_required_memory_mb :: int
  s_required_disk_mb :: int
  s_required_slots :: int
  s_allow_pinned_create :: bool
  s_pinned_create_node_ids :: string
  s_resource_check_interval_seconds :: int
  s_allow_runtime_env_fallback :: bool
  s_database_url :: string
  s_public_scheme :: string
  s_public_port :: int

text \<open>
  What an operation reads of its surroundings: the clock (one instant per operation), the settings,
  the context variable of \<^verbatim>\<open>get_correlation_id()\<close>, the identifier \<^verbatim>\<open>generate_correlation_id()\<close>
  would return, Python's rendering of a finite float and of an
  instant (\<^verbatim>\<open>datetime.isoformat\<close>), its parsing of a float, \<^verbatim>\<open>random.randint\<close>, and the environment variables
  \<^verbatim>\<open>DEVNEST_NODE_ID\<close> and \<^verbatim>\<open>DEVNEST_TOPOLOGY_ID\<close>.
\<close>

record env =
  now :: time
  cfg :: settings
  ctx_cid :: "string option"
  gen_cid :: string
  str_float :: "rat \<Rightarrow> string"
  str_iso :: "time \<Rightarrow> string"
  parse_float :: "string \<Rightarrow> rat option"
  randint :: "int \<Rightarrow> int \<Rightarrow> int"
  os_node_id :: "string option"
  os_topology_id :: "string option"

definition seconds :: "int \<Rightarrow> time" where
  "seconds n = n * 1000000"

end
