(* ===== verification/Ledger.thy ===== *)
theory Ledger
  imports Model
begin

text \<open>
  The append-only ledgers: workspace events
  (\<^verbatim>\<open>workspace_service/services/workspace_event_service.py\<close>), the audit log
  (\<^verbatim>\<open>audit_service/service.py\<close>) and usage records (\<^verbatim>\<open>usage_service/service.py\<close>).
  Writers add one row and leave every other table alone (collection \<open>frame\<close>); readers filter,
  order and page. The SSE push to in-process listeners is best effort and has no state here.
\<close>

section \<open>Event types and audit actions\<close>

abbreviation (input) EV_INTENT_QUEUED where "EV_INTENT_QUEUED \<equiv> ''controlplane.intent_queued''"
abbreviation (input) EV_JOB_RUNNING where "EV_JOB_RUNNING \<equiv> ''controlplane.job_running''"
abbreviation (input) EV_JOB_SUCCEEDED where "EV_JOB_SUCCEEDED \<equiv> ''controlplane.job_succeeded''"
abbreviation (input) EV_JOB_FAILED where "EV_JOB_FAILED \<equiv> ''controlplane.job_failed''"
abbreviation (input) EV_JOB_RETRY_SCHEDULED where "EV_JOB_RETRY_SCHEDULED \<equiv> ''controlplane.job_retry_scheduled''"
abbreviation (input) EV_JOB_RETRY_EXHAUSTED where "EV_JOB_RETRY_EXHAUSTED \<equiv> ''controlplane.job_retry_exhausted''"
abbreviation (input) EV_RECONCILE_RETRY_SCHEDULED where "EV_RECONCILE_RETRY_SCHEDULED \<equiv> ''controlplane.reconcile_retry_scheduled''"
abbreviation (input) EV_RECONCILE_FAILED_TERMINAL where "EV_RECONCILE_FAILED_TERMINAL \<equiv> ''controlplane.reconcile_failed_terminal''"
abbreviation (input) EV_RECONCILE_STARTED where "EV_RECONCILE_STARTED \<equiv> ''controlplane.reconcile_started''"
abbreviation (input) EV_RECONCILE_FIXED_ROUTE where "EV_RECONCILE_FIXED_ROUTE \<equiv> ''controlplane.reconcile_fixed_route''"
abbreviation (input) EV_RECONCILE_FIXED_RUNTIME where "EV_RECONCILE_FIXED_RUNTIME \<equiv> ''controlplane.reconcile_fixed_runtime''"
abbreviation (input) EV_RECONCILE_CLEANED_ORPHAN where "EV_RECONCILE_CLEANED_ORPHAN \<equiv> ''controlplane.reconcile_cleaned_orphan''"
abbreviation (input) EV_RECONCILE_NOOP where "EV_RECONCILE_NOOP \<equiv> ''controlplane.reconcile_noop''"
abbreviation (input) EV_RECONCILE_FAILED where "EV_RECONCILE_FAILED \<equiv> ''controlplane.reconcile_failed''"
abbreviation (input) EV_SNAPSHOT_CREATED where "EV_SNAPSHOT_CREATED \<equiv> ''workspace.snapshot.created''"
abbreviation (input) EV_SNAPSHOT_FAILED where "EV_SNAPSHOT_FAILED \<equiv> ''workspace.snapshot.failed''"
abbreviation (input) EV_SNAPSHOT_RESTORED where "EV_SNAPSHOT_RESTORED \<equiv> ''workspace.snapshot.restored''"
abbreviation (input) EV_SNAPSHOT_DELETED where "EV_SNAPSHOT_DELETED \<equiv> ''workspace.snapshot.deleted''"

section \<open>Workspace events\<close>

definition record_workspace_event ::
  "env \<Rightarrow> int \<Rightarrow> string \<Rightarrow> string option \<Rightarrow> string option \<Rightarrow> jobj \<Rightarrow> db \<Rightarrow> int \<times> db" where
  "record_workspace_event E wid event_type status message payload d =
     (let eid = seqs d T_EVENT;
          row = \<lparr>ev_id = eid, ev_workspace_id = wid, ev_type = event_type, ev_status = status,
                 ev_message = message, ev_payload = payload, ev_created_at = now E\<rparr>
      in (eid, bump T_EVENT (d\<lparr>events := events d @ [row]\<rparr>)))"

abbreviation log_event :: "env \<Rightarrow> int \<Rightarrow> string \<Rightarrow> string option \<Rightarrow> string option \<Rightarrow> jobj \<Rightarrow> db \<Rightarrow> db" where
  "log_event E wid t st m p d \<equiv> snd (record_workspace_event E wid t st m p d)"

definition assert_workspace_owner :: "db \<Rightarrow> int \<Rightarrow> int \<Rightarrow> bool" where
  "assert_workspace_owner d wid owner =
     (case get_ws d wid of None \<Rightarrow> False | Some w \<Rightarrow> ws_owner_user_id w = owner)"

text \<open>\<open>None\<close> is \<^verbatim>\<open>WorkspaceNotFoundError\<close>.\<close>

definition list_workspace_events :: "db \<Rightarrow> int \<Rightarrow> int \<Rightarrow> int \<Rightarrow> int \<Rightarrow> ws_event list option" where
  "list_workspace_events d wid owner after_id limit =
     (if \<not> assert_workspace_owner d wid owner then None
      else let lmt = min (max 1 limit) 1000 in
        Some (take (nat lmt)
          (sort_key ev_id
            (filter (\<lambda>e. ev_workspace_id e = wid \<and> ev_id e > after_id) (events d)))))"

abbreviation EVENT_PAGE_LIMIT :: int where "EVENT_PAGE_LIMIT \<equiv> 250"

text \<open>
  The loop of \<^verbatim>\<open>stream_workspace_events\<close>: one database per poll, each read in a session of its own, and the cursor that is
  the largest id sent so far. The stream ends when the workspace is gone, with an error line, or with the last poll.
\<close>

datatype sse_item = SseEvent ws_event | SseNotFound

definition advance :: "ws_event list \<Rightarrow> int \<Rightarrow> int" where
  "advance es last_id = fold (\<lambda>e c. max c (ev_id e)) es last_id"

fun stream_workspace_events :: "db list \<Rightarrow> int \<Rightarrow> int \<Rightarrow> int \<Rightarrow> sse_item list" where
  "stream_workspace_events [] wid uid last_id = []"
| "stream_workspace_events (d # ds) wid uid last_id =
     (case list_workspace_events d wid uid last_id EVENT_PAGE_LIMIT of
        None \<Rightarrow> [SseNotFound]
      | Some es \<Rightarrow> map SseEvent es @ stream_workspace_events ds wid uid (advance es last_id))"

section \<open>Audit log\<close>

definition record_audit ::
  "env \<Rightarrow> string \<Rightarrow> string \<Rightarrow> audit_outcome \<Rightarrow> int option \<Rightarrow> actor_type \<Rightarrow> string option \<Rightarrow> int option \<Rightarrow>
   int option \<Rightarrow> string option \<Rightarrow> string option \<Rightarrow> jobj \<Rightarrow> string option \<Rightarrow> db \<Rightarrow> db" where
  "record_audit E action resource_type outcome actor_user actor_ty resource_id wid jid nid reason meta correlation d =
     (let cid = strip_or_none (if str_or_empty correlation \<noteq> [] then correlation else ctx_cid E);
          row = \<lparr>au_id = seqs d T_AUDIT, au_actor_user_id = actor_user, au_actor_type = actor_ty,
                 au_action = action, au_resource_type = resource_type, au_resource_id = resource_id,
                 au_workspace_id = wid, au_job_id = jid, au_node_id = nid, au_outcome = outcome,
                 au_reason = none_if_empty (take 4096 (str_or_empty reason)),
                 au_metadata = (if meta = [] then None else Some meta),
                 au_correlation_id = map_option (take 64) cid, au_created_at = now E\<rparr>
      in bump T_AUDIT (d\<lparr>audits := audits d @ [row]\<rparr>))"

text \<open>
  The filters \<^verbatim>\<open>if action:\<close> and \<^verbatim>\<open>if outcome:\<close> apply only to non-empty values. The outcome filter
  of the API is a string; it is compared with the stored outcome.
\<close>

fun audit_outcome_str :: "audit_outcome \<Rightarrow> string" where
  "audit_outcome_str AO_SUCCESS = ''success''"
| "audit_outcome_str AO_FAILURE = ''failure''"
| "audit_outcome_str AO_DENIED = ''denied''"

definition apply_filters :: "string option \<Rightarrow> string option \<Rightarrow> audit_row \<Rightarrow> bool" where
  "apply_filters action outcome a =
     ((str_or_empty action \<noteq> [] \<longrightarrow> au_action a = str_or_empty action) \<and>
      (str_or_empty outcome \<noteq> [] \<longrightarrow> audit_outcome_str (au_outcome a) = str_or_empty outcome))"

definition page :: "int \<Rightarrow> int \<Rightarrow> 'a list \<Rightarrow> 'a list" where
  "page offset limit xs = take (nat limit) (drop (nat offset) xs)"

definition list_audit_logs_for_workspace ::
  "db \<Rightarrow> int \<Rightarrow> int \<Rightarrow> int \<Rightarrow> string option \<Rightarrow> string option \<Rightarrow> audit_row list" where
  "list_audit_logs_for_workspace d wid limit offset action outcome =
     page offset (min limit 1000)
       (sort_key (\<lambda>a. - au_created_at a)
         (filter (\<lambda>a. au_workspace_id a = Some wid \<and> apply_filters action outcome a) (audits d)))"

definition count_audit_logs_for_workspace :: "db \<Rightarrow> int \<Rightarrow> string option \<Rightarrow> string option \<Rightarrow> int" where
  "count_audit_logs_for_workspace d wid action outcome =
     count_rows (\<lambda>a. au_workspace_id a = Some wid \<and> apply_filters action outcome a) (audits d)"

definition list_audit_logs_for_user ::
  "db \<Rightarrow> int \<Rightarrow> int \<Rightarrow> int \<Rightarrow> string option \<Rightarrow> string option \<Rightarrow> audit_row list" where
  "list_audit_logs_for_user d uid limit offset action outcome =
     page offset (min limit 1000)
       (sort_key (\<lambda>a. - au_created_at a)
         (filter (\<lambda>a. au_actor_user_id a = Some uid \<and> apply_filters action outcome a) (audits d)))"

definition count_audit_logs_for_user :: "db \<Rightarrow> int \<Rightarrow> string option \<Rightarrow> string option \<Rightarrow> int" where
  "count_audit_logs_for_user d uid action outcome =
     count_rows (\<lambda>a. au_actor_user_id a = Some uid \<and> apply_filters action outcome a) (audits d)"

section \<open>Usage records\<close>

definition record_usage ::
  "env \<Rightarrow> int option \<Rightarrow> int option \<Rightarrow> string \<Rightarrow> int \<Rightarrow> string option \<Rightarrow> int option \<Rightarrow> jobj \<Rightarrow>
   string option \<Rightarrow> db \<Rightarrow> db" where
  "record_usage E wid owner event_type quantity nid jid meta correlation d =
     (let cid = strip_or_none (if str_or_empty correlation \<noteq> [] then correlation else ctx_cid E);
          row = \<lparr>us_id = seqs d T_USAGE, us_workspace_id = wid, us_owner_user_id = owner,
                 us_event_type = event_type, us_quantity = max 0 quantity, us_node_id = nid,
                 us_job_id = jid, us_metadata = meta,
                 us_correlation_id = map_option (take 64) cid, us_created_at = now E\<rparr>
      in bump T_USAGE (d\<lparr>usages := usages d @ [row]\<rparr>))"

text \<open>The per-type totals of a \<^verbatim>\<open>GROUP BY event_type\<close> over the selected rows.\<close>

definition usage_totals :: "usage_row list \<Rightarrow> (string \<times> int) list" where
  "usage_totals rows =
     map (\<lambda>t. (t, sum_list (map us_quantity (filter (\<lambda>u. us_event_type u = t) rows))))
       (remdups (map us_event_type rows))"

definition get_workspace_usage_summary :: "db \<Rightarrow> int \<Rightarrow> int \<times> int \<times> (string \<times> int) list" where
  "get_workspace_usage_summary d wid =
     (let rows = filter (\<lambda>u. us_workspace_id u = Some wid) (usages d)
      in (wid,
          (case rows of [] \<Rightarrow> 0 | u # _ \<Rightarrow> (case us_owner_user_id u of None \<Rightarrow> 0 | Some o1 \<Rightarrow> o1)),
          usage_totals rows))"

definition get_user_usage_summary :: "db \<Rightarrow> int \<Rightarrow> int \<times> (string \<times> int) list" where
  "get_user_usage_summary d uid =
     (uid, usage_totals (filter (\<lambda>u. us_owner_user_id u = Some uid) (usages d)))"

section \<open>Frame facts\<close>

lemma record_workspace_event_frame [frame, simp]:
  "workspaces (log_event E w t st m p d) = workspaces d"
  "configs (log_event E w t st m p d) = configs d"
  "jobs (log_event E w t st m p d) = jobs d"
  "runtimes (log_event E w t st m p d) = runtimes d"
  "sessions (log_event E w t st m p d) = sessions d"
  "snapshots (log_event E w t st m p d) = snapshots d"
  "cleanups (log_event E w t st m p d) = cleanups d"
  "audits (log_event E w t st m p d) = audits d"
  "usages (log_event E w t st m p d) = usages d"
  "nodes (log_event E w t st m p d) = nodes d"
  "quotas (log_event E w t st m p d) = quotas d"
  "policies (log_event E w t st m p d) = policies d"
  "users (log_event E w t st m p d) = users d"
  "topologies (log_event E w t st m p d) = topologies d"
  "secrets (log_event E w t st m p d) = secrets d"
  by (simp_all add: record_workspace_event_def bump_def Let_def)

lemma record_audit_frame [frame, simp]:
  "workspaces (record_audit E a rt oc au ak rid w j n r m c d) = workspaces d"
  "configs (record_audit E a rt oc au ak rid w j n r m c d) = configs d"
  "jobs (record_audit E a rt oc au ak rid w j n r m c d) = jobs d"
  "runtimes (record_audit E a rt oc au ak rid w j n r m c d) = runtimes d"
  "sessions (record_audit E a rt oc au ak rid w j n r m c d) = sessions d"
  "snapshots (record_audit E a rt oc au ak rid w j n r m c d) = snapshots d"
  "cleanups (record_audit E a rt oc au ak rid w j n r m c d) = cleanups d"
  "events (record_audit E a rt oc au ak rid w j n r m c d) = events d"
  "usages (record_audit E a rt oc au ak rid w j n r m c d) = usages d"
  "nodes (record_audit E a rt oc au ak rid w j n r m c d) = nodes d"
  "quotas (record_audit E a rt oc au ak rid w j n r m c d) = quotas d"
  "policies (record_audit E a rt oc au ak rid w j n r m c d) = policies d"
  "users (record_audit E a rt oc au ak rid w j n r m c d) = users d"
  "topologies (record_audit E a rt oc au ak rid w j n r m c d) = topologies d"
  "secrets (record_audit E a rt oc au ak rid w j n r m c d) = secrets d"
  by (simp_all add: record_audit_def bump_def Let_def)

lemma record_usage_frame [frame, simp]:
  "workspaces (record_usage E w ow t q n j m c d) = workspaces d"
  "configs (record_usage E w ow t q n j m c d) = configs d"
  "jobs (record_usage E w ow t q n j m c d) = jobs d"
  "runtimes (record_usage E w ow t q n j m c d) = runtimes d"
  "sessions (record_usage E w ow t q n j m c d) = sessions d"
  "snapshots (record_usage E w ow t q n j m c d) = snapshots d"
  "cleanups (record_usage E w ow t q n j m c d) = cleanups d"
  "events (record_usage E w ow t q n j m c d) = events d"
  "audits (record_usage E w ow t q n j m c d) = audits d"
  "nodes (record_usage E w ow t q n j m c d) = nodes d"
  "quotas (record_usage E w ow t q n j m c d) = quotas d"
  "policies (record_usage E w ow t q n j m c d) = policies d"
  "users (record_usage E w ow t q n j m c d) = users d"
  "topologies (record_usage E w ow t q n j m c d) = topologies d"
  "secrets (record_usage E w ow t q n j m c d) = secrets d"
  by (simp_all add: record_usage_def bump_def Let_def)

lemma ledger_seqs [frame, simp]:
  "t \<noteq> T_EVENT \<Longrightarrow> seqs (log_event E w ty st m p d) t = seqs d t"
  "t \<noteq> T_AUDIT \<Longrightarrow> seqs (record_audit E a rt oc au ak rid w2 j n r mt c d) t = seqs d t"
  "t \<noteq> T_USAGE \<Longrightarrow> seqs (record_usage E w3 ow ty q n j mt c d) t = seqs d t"
  by (simp_all add: record_workspace_event_def record_audit_def record_usage_def bump_def Let_def)

lemma ledger_keys_ok [simp]:
  "db_keys_ok d \<Longrightarrow> db_keys_ok (log_event E w ty st m p d)"
  "db_keys_ok d \<Longrightarrow> db_keys_ok (record_audit E a rt oc au ak rid w2 j n r mt c d)"
  "db_keys_ok d \<Longrightarrow> db_keys_ok (record_usage E w3 ow ty q n j mt c d)"
  by (simp_all add: db_keys_ok_def record_workspace_event_def record_audit_def record_usage_def bump_def Let_def)

section \<open>Paging\<close>

lemma page_length: "length (page off lmt xs) \<le> nat lmt"
  by (simp add: page_def)

definition backlog :: "db \<Rightarrow> int \<Rightarrow> int \<Rightarrow> ws_event list" where
  "backlog d wid after =
     sort_key ev_id (filter (\<lambda>e. ev_workspace_id e = wid \<and> ev_id e > after) (events d))"

lemma list_workspace_events_backlog:
  "assert_workspace_owner d wid owner \<Longrightarrow>
   list_workspace_events d wid owner after lmt =
     Some (take (nat (min (max 1 lmt) 1000)) (backlog d wid after))"
  by (simp add: list_workspace_events_def backlog_def Let_def)

lemma sort_key_filter_gt:
  "distinct (map f xs) \<Longrightarrow> sort_key f (filter P xs) = filter P (sort_key f xs)"
  by (simp add: filter_sort)

lemma drop_sorted_gt:
  fixes f :: "'a \<Rightarrow> int"
  assumes "sorted (map f xs)" "distinct (map f xs)" "0 < k" "k \<le> length xs"
  shows "filter (\<lambda>x. f x > f (last (take k xs))) xs = drop k xs"
proof -
  let ?p = "\<lambda>x. f x > f (last (take k xs))"
  have l: "last (take k xs) = xs ! (k - 1)" 
    using assms(3,4) by (subst last_conv_nth) (auto simp: min_absorb2)
  have mono: "i < j \<Longrightarrow> j < length xs \<Longrightarrow> f (xs ! i) < f (xs ! j)" for i j
    using assms(1,2) by (auto simp: sorted_iff_nth_mono_less distinct_conv_nth less_le)
  have le: "i < k \<Longrightarrow> f (xs ! i) \<le> f (xs ! (k - 1))" for i
  proof (cases "i = k - 1")
    case False
    assume "i < k"
    with False have "i < k - 1" "k - 1 < length xs" using assms by arith+
    then show ?thesis by (rule mono [THEN less_imp_le])
  qed simp
  have gt: "k \<le> i \<Longrightarrow> i < length xs \<Longrightarrow> f (xs ! (k - 1)) < f (xs ! i)" for i
    using mono [of "k - 1" i] assms by auto
  have a: "filter ?p (take k xs) = []"
    using le assms by (auto simp: filter_empty_conv l in_set_conv_nth not_less)
  have b: "filter ?p (drop k xs) = drop k xs"
    using gt assms by (auto simp: filter_id_conv l in_set_conv_nth)
  have "filter ?p xs = filter ?p (take k xs) @ filter ?p (drop k xs)"
    by (metis append_take_drop_id filter_append)
  then show ?thesis using a b by simp
qed

lemma backlog_after:
  assumes "keys_ok ev_id (events d) n" "0 < k" "k \<le> length (backlog d wid after)"
  shows "backlog d wid (ev_id (last (take k (backlog d wid after)))) = drop k (backlog d wid after)"
proof -
  let ?b = "backlog d wid after" and ?l = "ev_id (last (take k (backlog d wid after)))"
  have dist: "distinct (map ev_id (events d))" using assms(1) by simp
  have db: "distinct (map ev_id ?b)" using dist
    by (auto simp: backlog_def distinct_map intro: inj_on_subset)
  have "last (take k ?b) \<in> set ?b" using assms(2,3)
    by (metis in_set_takeD last_in_set length_greater_0_conv less_le_trans take_eq_Nil neq0_conv)
  then have "after < ?l" by (auto simp: backlog_def)
  then have "backlog d wid ?l = filter (\<lambda>e. ev_id e > ?l) ?b"
    by (auto simp: backlog_def filter_sort intro!: arg_cong [where f = "sort_key ev_id"] filter_cong)
  also have "\<dots> = drop k ?b"
    using assms db by (intro drop_sorted_gt) (auto simp: backlog_def)
  finally show ?thesis .
qed

end
