(* ===== verification/Faults.thy ===== *)
theory Faults
  imports Ledger
begin

text \<open>
  Exceptions as values. A service call returns either an exception together with the database as the
  call left it, or a value and the new database. When a request handler fails the pair holds the
  \<^emph>\<open>committed\<close> database: ordinary failures roll back and leave it unchanged, whereas quota and
  policy denials commit one audit row before raising.

  The locale \<open>admission\<close> is the contract of such a guard; the quota and the policy checks interpret
  it, and the handlers that chain several guards rely on \<open>admission.chain\<close>.
\<close>

datatype pynum = NInt int | NFloat rat

datatype error =
    WorkspaceNotFoundError string
  | WorkspaceBusyError string
  | WorkspaceInvalidStateError string
  | WorkspaceGatewayUnavailableError string
  | WorkspaceAccessDeniedError string
  | SnapshotNotFoundError string
  | SnapshotConflictError string
  | WorkspaceSchedulingInvalidError string
  | WorkspaceOperatorPinnedDisabledError string
  | WorkspaceOperatorPinnedNotAllowlistedError string
  | WorkspaceOperatorPinnedNodeInvalidError string
  | QuotaExceededError string pynum pynum string
  | PolicyViolationError string string string
  | NoSchedulableNodeError string
  | ExecutionNodeNotFoundError string
  | InvalidPlacementParametersError string
  | AuthoritativePlacementError string
  | AppOrchestratorBindingError string
  | OrchestratorException string string string
  | ValueError string
  | AttributeError string

type_synonym 'a result = "(error \<times> db) + ('a \<times> db)"

definition andthen :: "'a result \<Rightarrow> ('a \<Rightarrow> db \<Rightarrow> 'b result) \<Rightarrow> 'b result" where
  "andthen m f = (case m of Inl e \<Rightarrow> Inl e | Inr (a, d) \<Rightarrow> f a d)"

definition guard :: "bool \<Rightarrow> error \<Rightarrow> db \<Rightarrow> unit result" where
  "guard b e d = (if b then Inr ((), d) else Inl (e, d))"

lemma andthen_simps [simp]:
  "andthen (Inl e) f = Inl e"
  "andthen (Inr (a, d)) f = f a d"
  by (simp_all add: andthen_def)

lemma andthen_Inr: "andthen m f = Inr r \<longleftrightarrow> (\<exists>a d. m = Inr (a, d) \<and> f a d = Inr r)"
  by (auto simp: andthen_def split: sum.splits)

lemma andthen_Inl: "andthen m f = Inl e \<longleftrightarrow> m = Inl e \<or> (\<exists>a d. m = Inr (a, d) \<and> f a d = Inl e)"
  by (auto simp: andthen_def split: sum.splits)

lemma guard_simps [simp]:
  "guard True e d = Inr ((), d)"
  "guard False e d = Inl (e, d)"
  by (simp_all add: guard_def)

lemma guard_Inr [simp]: "guard b e d = Inr (u, d') \<longleftrightarrow> b \<and> d' = d"
  by (auto simp: guard_def)

lemma guard_Inl [simp]: "guard b e d = Inl (e', d') \<longleftrightarrow> \<not> b \<and> e' = e \<and> d' = d"
  by (auto simp: guard_def)

fun str_num :: "env \<Rightarrow> pynum \<Rightarrow> string" where
  "str_num E (NInt i) = str_int i"
| "str_num E (NFloat r) = str_float E r"

fun json_num :: "pynum \<Rightarrow> json" where
  "json_num (NInt i) = JInt i"
| "json_num (NFloat r) = JFloat r"

section \<open>Guards that commit a denial\<close>

text \<open>The database after a denial: one more audit row, with outcome \<^verbatim>\<open>denied\<close>, and nothing else.\<close>

definition one_denial :: "db \<Rightarrow> db \<Rightarrow> bool" where
  "one_denial d d' = (\<exists>a. au_outcome a = AO_DENIED \<and> au_id a = seqs d T_AUDIT \<and>
      d' = bump T_AUDIT (d\<lparr>audits := audits d @ [a]\<rparr>))"

lemma one_denial_frame:
  assumes "one_denial d d'"
  shows "workspaces d' = workspaces d" "configs d' = configs d" "jobs d' = jobs d"
    "runtimes d' = runtimes d" "sessions d' = sessions d" "snapshots d' = snapshots d"
    "cleanups d' = cleanups d" "events d' = events d" "usages d' = usages d" "nodes d' = nodes d"
    "quotas d' = quotas d" "policies d' = policies d" "users d' = users d" "topologies d' = topologies d" "secrets d' = secrets d"
    "t \<noteq> T_AUDIT \<Longrightarrow> seqs d' t = seqs d t"
    "length (audits d') = length (audits d) + 1"
  using assms by (auto simp: one_denial_def bump_def)

lemma one_denial_keys_ok: "one_denial d d' \<Longrightarrow> db_keys_ok d \<Longrightarrow> db_keys_ok d'"
  by (auto simp: one_denial_def db_keys_ok_def bump_def)

lemma record_audit_one_denial:
  "one_denial d (record_audit E a rt AO_DENIED au ak rid w j n r m c d)"
  unfolding one_denial_def record_audit_def Let_def
  by (rule exI, rule conjI [rotated], rule conjI [rotated], rule refl, simp_all)

locale admission =
  fixes chk :: "db \<Rightarrow> unit result"
  assumes pass_same: "chk d = Inr (u, d') \<Longrightarrow> d' = d"
    and deny_one: "chk d = Inl (e, d') \<Longrightarrow> one_denial d d'"
begin

lemma verdict: "chk d = Inr ((), d) \<or> (\<exists>e d'. chk d = Inl (e, d') \<and> one_denial d d')"
proof (cases "chk d")
  case (Inl p)
  then show ?thesis using deny_one by (cases p) auto
next
  case (Inr p)
  then show ?thesis using pass_same by (cases p) auto
qed

lemma chain: "admission chk2 \<Longrightarrow> admission (\<lambda>d. andthen (chk d) (\<lambda>_. chk2))"
  by (unfold_locales) (auto simp: andthen_Inr andthen_Inl dest: pass_same deny_one
      admission.pass_same admission.deny_one)

end

lemma admission_trivial: "admission (\<lambda>d. Inr ((), d))"
  by unfold_locales simp_all

lemma admission_when: "admission chk \<Longrightarrow> admission (\<lambda>d. if b then chk d else Inr ((), d))"
  by (cases b) (simp_all add: admission_trivial)

lemma admission_deny:
  "admission (\<lambda>d. if p d then Inl (e d, record_audit E a rt AO_DENIED au ak rid w j n (r d) (m d) c d) else Inr ((), d))"
  by unfold_locales (auto simp: record_audit_one_denial split: if_splits)

end
