(* ===== verification/Samples.thy ===== *)
theory Samples
  imports Faults
begin

text \<open>
  Concrete settings, rows and databases, on which the witnesses of the development evaluate its
  definitions: a development-mode control plane with one ready local node, one running workspace of
  user 7 and its configuration, runtime and user rows.
\<close>

definition ex_settings :: settings where
  "ex_settings = \<lparr>s_gateway_enabled = True, s_base_domain = ''app.devnest.local'', s_public_base_domain = [],
     s_gateway_public_scheme = ''http'', s_gateway_public_port = 80, s_workspace_domain_mode = [],
     s_tenant_subdomain_routing = False, s_workspace_projects_base = [], s_session_ttl_seconds = 3600,
     s_job_max_attempts = 3, s_job_retry_backoff_seconds = 5, s_capacity_retry_timeout_seconds = 600,
     s_capacity_retry_backoff_seconds = 20, s_job_stuck_timeout_seconds = 300,
     s_reconcile_lease_ttl_seconds = 60, s_multi_node_scheduling = False, s_node_provider = ''local'',
     s_devnest_env = ''development'', s_require_fresh_heartbeat = False, s_heartbeat_enabled = True,
     s_heartbeat_max_age_seconds = 60, s_resource_monitor_enabled = False, s_min_free_disk_mb = 1024,
     s_min_free_memory_mb = 512, s_required_cpu = 1, s_required_memory_mb = 512, s_required_disk_mb = 4096,
     s_required_slots = 1, s_allow_pinned_create = False, s_pinned_create_node_ids = [],
     s_resource_check_interval_seconds = 60, s_allow_runtime_env_fallback = False,
     s_database_url = ''postgresql://db'', s_public_scheme = [], s_public_port = 0\<rparr>"

definition ex_env :: env where
  "ex_env = \<lparr>now = 1000000000, cfg = ex_settings, ctx_cid = None, gen_cid = ''cid-1'',
     str_float = (\<lambda>_. ''1.0''), str_iso = (\<lambda>t. str_int t), parse_float = (\<lambda>_. None),
     randint = (\<lambda>a b. a), os_node_id = Some ''node-1'', os_topology_id = Some ''1''\<rparr>"

definition ex_ws :: workspace where
  "ex_ws = \<lparr>ws_id = 1, ws_execution_node_id = Some 1, ws_project_storage_key = Some ''k1'', ws_name = ''Alpha'',
     ws_url_slug = ''alpha'', ws_description = None, ws_owner_user_id = 7, ws_status = WS_RUNNING,
     ws_status_reason = None, ws_last_error_code = None, ws_last_error_message = None,
     ws_endpoint_ref = Some ''10.0.0.2:8080'', ws_public_host = None, ws_gateway_path_prefix = None,
     ws_active_sessions_count = 0, ws_is_private = True, ws_created_at = 0, ws_updated_at = 0,
     ws_last_started = Some 0, ws_last_stopped = None\<rparr>"

definition ex_cfg :: ws_config where
  "ex_cfg = \<lparr>cfg_id = 1, cfg_workspace_id = 1, cfg_version = 1, cfg_json = []\<rparr>"

definition ex_rt :: runtime where
  "ex_rt = \<lparr>rt_id = 1, rt_workspace_id = 1, rt_node_id = Some ''node-1'', rt_container_id = Some ''c1'',
     rt_container_state = Some ''running'', rt_topology_id = Some 1, rt_internal_endpoint = Some ''10.0.0.2:8080'',
     rt_gateway_route_target = None, rt_config_version = Some 1, rt_health = H_HEALTHY, rt_reserved_cpu = 1,
     rt_reserved_memory_mb = 512, rt_reserved_disk_mb = 4096, rt_applied_cpu = None, rt_applied_memory_mb = None,
     rt_applied_pids = None, rt_applied_security = None, rt_last_heartbeat_at = None, rt_updated_at = 0\<rparr>"

definition ex_node :: node where
  "ex_node = \<lparr>node_pk = 1, node_key = ''node-1'', node_name = ''local'', node_provider_type = PT_LOCAL,
     node_provider_instance_id = None, node_hostname = None, node_private_ip = None,
     node_execution_mode = EM_LOCAL_DOCKER, node_ssh_host = None, node_status = NS_READY, node_schedulable = True,
     node_total_cpu = 8, node_total_memory_mb = 16384, node_allocatable_cpu = 8, node_allocatable_memory_mb = 16384,
     node_max_workspaces = 4, node_allocatable_disk_mb = 102400, node_metadata = [], node_default_topology_id = Some 1,
     node_last_heartbeat_at = Some 999000000, node_last_error_code = None, node_last_error_message = None,
     node_created_at = 0, node_updated_at = 0, node_disk_total_mb = None, node_disk_free_mb = None,
     node_memory_total_mb = None, node_memory_free_mb = None, node_last_resource_check_at = None,
     node_resource_status = None, node_resource_warning = None, node_region = None, node_availability_zone = None,
     node_instance_type = None, node_public_ip = None, node_iam_instance_profile_name = None,
     node_ssh_user = None, node_last_synced_at = None\<rparr>"

definition ex_user :: user where
  "ex_user = \<lparr>user_id = 7, user_username = ''dev'', user_route_slug = None\<rparr>"

definition ex_topology :: topology where
  "ex_topology = \<lparr>topo_id = 1, topo_name = ''default'', topo_version = ''1''\<rparr>"

text \<open>The same workspace seen in another lifecycle state.\<close>

definition ex_db_in :: "ws_status \<Rightarrow> db" where
  "ex_db_in st = empty_db\<lparr>workspaces := [ex_ws\<lparr>ws_status := st\<rparr>], configs := [ex_cfg], runtimes := [ex_rt],
     nodes := [ex_node], users := [ex_user], topologies := [ex_topology], seqs := (\<lambda>_. 2)\<rparr>"

definition ex_db :: db where
  "ex_db = ex_db_in WS_RUNNING"

definition ex_job :: "job_type \<Rightarrow> job_status \<Rightarrow> job" where
  "ex_job jt js = \<lparr>job_id = 1, job_workspace_id = 1, job_snapshot_id = None, job_type = jt, job_status = js,
     job_requested_by = 7, job_config_version = 1, job_attempt = 0, job_error_msg = None, job_created_at = 0,
     job_started_at = None, job_finished_at = None, job_correlation_id = Some ''cid-0'', job_max_attempts = 2,
     job_failure_stage = None, job_failure_code = None, job_next_attempt_after = None\<rparr>"

lemmas ex_defs = ex_settings_def ex_env_def ex_ws_def ex_cfg_def ex_rt_def ex_node_def ex_user_def
  ex_topology_def ex_db_in_def ex_db_def ex_job_def empty_db_def

end
