(* ===== verification/Quota.thy ===== *)
theory Quota
  imports Samples
begin

text \<open>
  Quota enforcement (\<^verbatim>\<open>quota_service/service.py\<close>): resolution of the effective quota and the
  \<^verbatim>\<open>check_*\<close> entry points. Every check either returns with the database untouched or raises
  \<^verbatim>\<open>QuotaExceededError\<close> after committing one \<^verbatim>\<open>quota.exceeded\<close> audit row.
\<close>

section \<open>Calendar\<close>

text \<open>
  \<^verbatim>\<open>datetime(now.year, now.month, 1, tzinfo=utc)\<close>: the first instant of the UTC month containing
  an instant, by the proleptic Gregorian calendar in 400-year eras.
\<close>

definition day_us :: int where "day_us = 86400000000"

definition dom_of_doy :: "int \<Rightarrow> int" where
  "dom_of_doy doy = doy - (153 * ((5 * doy + 2) div 153) + 2) div 5 + 1"

definition day_of_month :: "int \<Rightarrow> int" where
  "day_of_month days =
     (let z = days + 719468;
          doe = z mod 146097;
          yoe = (doe - doe div 1460 + doe div 36524 - doe div 146096) div 365;
          doy = doe - (365 * yoe + yoe div 4 - yoe div 100)
      in dom_of_doy doy)"

definition month_start :: "time \<Rightarrow> time" where
  "month_start t = (let days = t div day_us in (days - day_of_month days + 1) * day_us)"

section \<open>Resolution\<close>

definition active_ws_status :: "ws_status \<Rightarrow> bool" where
  "active_ws_status s = (s \<in> {WS_CREATING, WS_PENDING, WS_STARTING, WS_RUNNING, WS_STOPPING, WS_STOPPED,
     WS_RESTARTING, WS_UPDATING, WS_ERROR})"

definition running_ws_status :: "ws_status \<Rightarrow> bool" where
  "running_ws_status s = (s \<in> {WS_RUNNING, WS_PENDING, WS_STARTING, WS_RESTARTING})"

definition quota_snapshot_status :: "snap_status \<Rightarrow> bool" where
  "quota_snapshot_status s = (s \<in> {SN_CREATING, SN_AVAILABLE, SN_RESTORING})"

definition get_effective_quota :: "db \<Rightarrow> int option \<Rightarrow> int option \<Rightarrow> quota option" where
  "get_effective_quota d owner wid =
     (let global = first_row (filter (\<lambda>q. q_scope_type q = SCOPE_GLOBAL \<and> q_scope_id q = None) (quotas d));
          user = (case owner of None \<Rightarrow> None | Some u \<Rightarrow>
            first_row (filter (\<lambda>q. q_scope_type q = SCOPE_USER \<and> q_scope_id q = Some u) (quotas d)));
          ws = (case wid of None \<Rightarrow> None | Some w \<Rightarrow>
            first_row (filter (\<lambda>q. q_scope_type q = SCOPE_WORKSPACE \<and> q_scope_id q = Some w) (quotas d)))
      in case ws of Some q \<Rightarrow> Some q | None \<Rightarrow> (case user of Some q \<Rightarrow> Some q | None \<Rightarrow> global))"

definition or_ctx :: "env \<Rightarrow> string option \<Rightarrow> string option" where
  "or_ctx E c = (if str_or_empty c \<noteq> [] then c else ctx_cid E)"

definition actor_of :: "int option \<Rightarrow> actor_type" where
  "actor_of u = (case u of None \<Rightarrow> ACTOR_SYSTEM | Some i \<Rightarrow> if i = 0 then ACTOR_SYSTEM else ACTOR_USER)"

definition exceed_and_raise ::
  "env \<Rightarrow> string \<Rightarrow> pynum \<Rightarrow> pynum \<Rightarrow> string \<Rightarrow> int option \<Rightarrow> int option \<Rightarrow> string option \<Rightarrow> db \<Rightarrow> 'a result" where
  "exceed_and_raise E quota_field limit current scope owner wid correlation d =
     Inl (QuotaExceededError quota_field limit current scope,
       record_audit E ''quota.exceeded'' ''quota'' AO_DENIED owner (actor_of owner) None wid None None
         (Some (''Quota exceeded: '' @ quota_field @ '' limit='' @ str_num E limit @ '' current='' @
                str_num E current @ '' scope='' @ scope))
         [(''quota_field'', JStr quota_field), (''limit'', json_num limit), (''current'', json_num current),
          (''scope'', JStr scope)]
         (or_ctx E correlation) d)"

section \<open>Checks\<close>

definition check_workspace_quota :: "env \<Rightarrow> int \<Rightarrow> string option \<Rightarrow> db \<Rightarrow> unit result" where
  "check_workspace_quota E owner correlation d =
     (case get_effective_quota d (Some owner) None of
        None \<Rightarrow> Inr ((), d)
      | Some q \<Rightarrow> (case q_max_workspaces q of
          None \<Rightarrow> Inr ((), d)
        | Some lmt \<Rightarrow>
            let current = count_rows (\<lambda>w. ws_owner_user_id w = owner \<and> active_ws_status (ws_status w)) (workspaces d)
            in if current \<ge> lmt
               then exceed_and_raise E ''max_workspaces'' (NInt lmt) (NInt current)
                      (''user:'' @ str_int owner) (Some owner) None correlation d
               else Inr ((), d)))"

definition stopped_seconds_this_month :: "env \<Rightarrow> int \<Rightarrow> db \<Rightarrow> int" where
  "stopped_seconds_this_month E owner d =
     sum_list (map us_quantity (filter (\<lambda>u. us_owner_user_id u = Some owner \<and>
        us_event_type u = ''workspace.stopped'' \<and> us_created_at u \<ge> month_start (now E)) (usages d)))"

definition check_monthly_runtime_hours_quota :: "env \<Rightarrow> int \<Rightarrow> string option \<Rightarrow> db \<Rightarrow> unit result" where
  "check_monthly_runtime_hours_quota E owner correlation d =
     (case get_effective_quota d (Some owner) None of
        None \<Rightarrow> Inr ((), d)
      | Some q \<Rightarrow> (case q_max_runtime_hours q of
          None \<Rightarrow> Inr ((), d)
        | Some lmt \<Rightarrow>
            let hours = of_int (stopped_seconds_this_month E owner d) / 3600
            in if hours \<ge> lmt
               then exceed_and_raise E ''max_runtime_hours'' (NFloat lmt) (NFloat (py_round 4 hours))
                      (''user:'' @ str_int owner) (Some owner) None correlation d
               else Inr ((), d)))"

text \<open>The runtime rows joined with the owner's workspaces, less the ignored one.\<close>

definition owner_runtimes :: "db \<Rightarrow> int \<Rightarrow> int option \<Rightarrow> runtime list" where
  "owner_runtimes d owner ignore =
     filter (\<lambda>r. case get_ws d (rt_workspace_id r) of None \<Rightarrow> False
       | Some w \<Rightarrow> ws_owner_user_id w = owner \<and> (ignore = None \<or> ignore \<noteq> Some (ws_id w))) (runtimes d)"

definition check_owner_compute_quota ::
  "env \<Rightarrow> int \<Rightarrow> rat \<Rightarrow> int \<Rightarrow> int option \<Rightarrow> string option \<Rightarrow> db \<Rightarrow> unit result" where
  "check_owner_compute_quota E owner proposed_cpu proposed_memory ignore correlation d =
     (case get_effective_quota d (Some owner) None of
        None \<Rightarrow> Inr ((), d)
      | Some q \<Rightarrow>
          let rs = owner_runtimes d owner ignore;
              new_cpu = sum_list (map rt_reserved_cpu rs) + proposed_cpu;
              new_mem = sum_list (map rt_reserved_memory_mb rs) + proposed_memory;
              cpu_chk = (case q_max_cpu q of None \<Rightarrow> Inr ((), d)
                | Some lmt \<Rightarrow> if new_cpu > lmt + 1 / 1000000000
                    then exceed_and_raise E ''max_cpu'' (NFloat lmt) (NFloat (py_round 4 new_cpu))
                           (''user:'' @ str_int owner) (Some owner) None correlation d
                    else Inr ((), d))
          in andthen cpu_chk (\<lambda>_ d. case q_max_memory_mb q of None \<Rightarrow> Inr ((), d)
                | Some lmt \<Rightarrow> if new_mem > lmt
                    then exceed_and_raise E ''max_memory_mb'' (NInt lmt) (NInt new_mem)
                           (''user:'' @ str_int owner) (Some owner) None correlation d
                    else Inr ((), d)))"

definition check_running_workspace_quota :: "env \<Rightarrow> int \<Rightarrow> int option \<Rightarrow> string option \<Rightarrow> db \<Rightarrow> unit result" where
  "check_running_workspace_quota E owner wid correlation d =
     (case get_effective_quota d (Some owner) None of
        None \<Rightarrow> Inr ((), d)
      | Some q \<Rightarrow> (case q_max_running_workspaces q of
          None \<Rightarrow> Inr ((), d)
        | Some lmt \<Rightarrow>
            let current = count_rows (\<lambda>w. ws_owner_user_id w = owner \<and> running_ws_status (ws_status w) \<and>
                  (wid = None \<or> wid \<noteq> Some (ws_id w))) (workspaces d)
            in if current \<ge> lmt
               then exceed_and_raise E ''max_running_workspaces'' (NInt lmt) (NInt current)
                      (''user:'' @ str_int owner) (Some owner) wid correlation d
               else Inr ((), d)))"

definition check_snapshot_quota :: "env \<Rightarrow> int \<Rightarrow> int \<Rightarrow> string option \<Rightarrow> db \<Rightarrow> unit result" where
  "check_snapshot_quota E wid owner correlation d =
     (case get_effective_quota d (Some owner) (Some wid) of
        None \<Rightarrow> Inr ((), d)
      | Some q \<Rightarrow> (case q_max_snapshots q of
          None \<Rightarrow> Inr ((), d)
        | Some lmt \<Rightarrow>
            let current = count_rows (\<lambda>s. snap_workspace_id s = wid \<and> quota_snapshot_status (snap_status s)) (snapshots d)
            in if current \<ge> lmt
               then exceed_and_raise E ''max_snapshots'' (NInt lmt) (NInt current)
                      (''workspace:'' @ str_int wid) (Some owner) (Some wid) correlation d
               else Inr ((), d)))"

definition check_session_quota :: "env \<Rightarrow> int \<Rightarrow> int \<Rightarrow> int \<Rightarrow> string option \<Rightarrow> db \<Rightarrow> unit result" where
  "check_session_quota E wid owner current_session_count correlation d =
     (case get_effective_quota d (Some owner) (Some wid) of
        None \<Rightarrow> Inr ((), d)
      | Some q \<Rightarrow> (case q_max_sessions q of
          None \<Rightarrow> Inr ((), d)
        | Some lmt \<Rightarrow>
            if current_session_count \<ge> lmt
            then exceed_and_raise E ''max_sessions'' (NInt lmt) (NInt current_session_count)
                   (''workspace:'' @ str_int wid) (Some owner) (Some wid) correlation d
            else Inr ((), d)))"

section \<open>The checks are admission guards\<close>

lemma exceed_not_Inr [simp]: "exceed_and_raise E f l c s ow w co d \<noteq> Inr r"
  by (simp add: exceed_and_raise_def)

lemma exceed_Inl: "exceed_and_raise E f l c s ow w co d = Inl (e, d') \<Longrightarrow>
   one_denial d d' \<and> e = QuotaExceededError f l c s"
  by (auto simp: exceed_and_raise_def record_audit_one_denial)

lemmas quota_splits = option.splits if_splits

interpretation ws_quota: admission "check_workspace_quota E owner co" for E owner co
  by unfold_locales (auto simp: check_workspace_quota_def Let_def dest: exceed_Inl split: quota_splits)

interpretation hours_quota: admission "check_monthly_runtime_hours_quota E owner co" for E owner co
  by unfold_locales (auto simp: check_monthly_runtime_hours_quota_def Let_def dest: exceed_Inl split: quota_splits)

interpretation compute_quota: admission "check_owner_compute_quota E owner cpu mem ign co" for E owner cpu mem ign co
  by unfold_locales (auto simp: check_owner_compute_quota_def Let_def andthen_Inr andthen_Inl
      dest: exceed_Inl split: quota_splits)

interpretation running_quota: admission "check_running_workspace_quota E owner w co" for E owner w co
  by unfold_locales (auto simp: check_running_workspace_quota_def Let_def dest: exceed_Inl split: quota_splits)

interpretation snap_quota: admission "check_snapshot_quota E w owner co" for E w owner co
  by unfold_locales (auto simp: check_snapshot_quota_def Let_def dest: exceed_Inl split: quota_splits)

interpretation sess_quota: admission "check_session_quota E w owner n co" for E w owner n co
  by unfold_locales (auto simp: check_session_quota_def Let_def dest: exceed_Inl split: quota_splits)

section \<open>Calendar facts\<close>

lemma dom_of_doy_pos: "1 \<le> dom_of_doy x"
proof -
  have "153 * ((5 * x + 2) div 153) + 2 \<le> 5 * x + 4"
    by (simp add: minus_mod_eq_mult_div [symmetric])
  then have "(153 * ((5 * x + 2) div 153) + 2) div 5 \<le> x" by linarith
  then show ?thesis by (simp add: dom_of_doy_def)
qed

lemma day_of_month_pos: "1 \<le> day_of_month days"
  by (simp only: day_of_month_def Let_def dom_of_doy_pos)

lemma month_start_le: "month_start t \<le> t"
proof -
  let ?n = "t div day_us"
  have "(?n - day_of_month ?n + 1) * day_us \<le> ?n * day_us"
    using day_of_month_pos [of ?n] by (intro mult_right_mono) (auto simp: day_us_def)
  also have "?n * day_us \<le> t" by (simp add: day_us_def minus_mod_eq_div_mult [symmetric])
  finally show ?thesis by (simp add: month_start_def Let_def)
qed

lemma month_start_midnight: "day_us dvd month_start t"
  by (simp add: month_start_def Let_def)

end
