(* ===== verification/Policy.thy ===== *)
theory Policy
  imports Quota
begin

text \<open>
  Policy evaluation (\<^verbatim>\<open>policy_service/service.py\<close>): the applicable active policies, oldest first,
  and the \<^verbatim>\<open>evaluate_*\<close> entry points. The first policy with a violated rule decides: its denial is
  audited and committed, and \<^verbatim>\<open>PolicyViolationError\<close> carries its name.
\<close>

definition policy_applies :: "int option \<Rightarrow> int option \<Rightarrow> policy \<Rightarrow> bool" where
  "policy_applies owner wid p =
     (pol_scope_type p = SCOPE_GLOBAL \<or>
      (owner \<noteq> None \<and> pol_scope_type p = SCOPE_USER \<and> pol_scope_id p = owner) \<or>
      (wid \<noteq> None \<and> pol_scope_type p = SCOPE_WORKSPACE \<and> pol_scope_id p = wid))"

definition load_applicable_policies :: "db \<Rightarrow> int option \<Rightarrow> int option \<Rightarrow> policy list" where
  "load_applicable_policies d owner wid =
     sort_key pol_created_at (filter (\<lambda>p. pol_is_active p \<and> policy_applies owner wid p) (policies d))"

definition deny_and_raise ::
  "env \<Rightarrow> policy \<Rightarrow> string \<Rightarrow> string \<Rightarrow> int option \<Rightarrow> int option \<Rightarrow> string option \<Rightarrow> db \<Rightarrow> 'a result" where
  "deny_and_raise E p action reason owner wid correlation d =
     Inl (PolicyViolationError (pol_name p) action reason,
       record_audit E ''policy.denied'' ''policy'' AO_DENIED owner (actor_of owner)
         (Some (str_int (pol_id p))) wid None None (Some (take 4096 reason))
         [(''policy_name'', JStr (pol_name p)), (''policy_type'', JStr (pol_type p)),
          (''attempted_action'', JStr action)]
         (or_ctx E correlation) d)"

text \<open>\<^verbatim>\<open>_rule\<close>: a missing or null rule reads as its default.\<close>

definition rule_val :: "jobj \<Rightarrow> string \<Rightarrow> json \<Rightarrow> json" where
  "rule_val rules key dflt = (if jget rules key = JNull then dflt else jget rules key)"

text \<open>The \<^verbatim>\<open>for policy in policies\<close> loops: \<open>verdict p\<close> is the reason of the first violated rule of \<open>p\<close>.\<close>

fun run_policies ::
  "env \<Rightarrow> (policy \<Rightarrow> string option) \<Rightarrow> string \<Rightarrow> int option \<Rightarrow> int option \<Rightarrow> string option \<Rightarrow> policy list \<Rightarrow> db \<Rightarrow> unit result" where
  "run_policies E verdict action owner wid co [] d = Inr ((), d)"
| "run_policies E verdict action owner wid co (p # ps) d =
     (case verdict p of
        Some reason \<Rightarrow> deny_and_raise E p action reason owner wid co d
      | None \<Rightarrow> run_policies E verdict action owner wid co ps d)"

definition creation_verdict :: "string option \<Rightarrow> bool \<Rightarrow> policy \<Rightarrow> string option" where
  "creation_verdict rimage is_private p =
     (let rules = pol_rules p;
          img = str_or_empty rimage;
          allowed = rule_val rules ''allowed_runtime_images'' JNull
      in if \<not> truthy (rule_val rules ''allow_workspace_creation'' (JBool True))
         then Some ''Workspace creation is disabled by policy''
         else if img \<noteq> [] \<and> allowed \<noteq> JNull \<and>
                 (case allowed of JList xs \<Rightarrow> JStr img \<notin> set xs | _ \<Rightarrow> False)
         then Some (''Runtime image '' @ [CHR 0x27] @ img @ [CHR 0x27] @ '' is not in the allowed list'')
         else if \<not> is_private \<and> truthy (rule_val rules ''require_private_workspaces'' (JBool False))
         then Some ''Policy requires all workspaces to be private''
         else None)"

definition flag_verdict :: "string \<Rightarrow> string \<Rightarrow> policy \<Rightarrow> string option" where
  "flag_verdict key reason p =
     (if truthy (rule_val (pol_rules p) key (JBool True)) then None else Some reason)"

definition evaluate_workspace_creation ::
  "env \<Rightarrow> int \<Rightarrow> string option \<Rightarrow> bool \<Rightarrow> string option \<Rightarrow> db \<Rightarrow> unit result" where
  "evaluate_workspace_creation E owner rimage is_private co d =
     run_policies E (creation_verdict rimage is_private) ''workspace.create'' (Some owner) None co
       (load_applicable_policies d (Some owner) None) d"

definition evaluate_workspace_start :: "env \<Rightarrow> int \<Rightarrow> int \<Rightarrow> string option \<Rightarrow> db \<Rightarrow> unit result" where
  "evaluate_workspace_start E owner wid co d =
     run_policies E (flag_verdict ''allow_workspace_start'' ''Workspace start is disabled by policy'')
       ''workspace.start'' (Some owner) (Some wid) co
       (load_applicable_policies d (Some owner) (Some wid)) d"

definition evaluate_snapshot_creation :: "env \<Rightarrow> int \<Rightarrow> int \<Rightarrow> string option \<Rightarrow> db \<Rightarrow> unit result" where
  "evaluate_snapshot_creation E owner wid co d =
     run_policies E (flag_verdict ''allow_snapshot_creation'' ''Snapshot creation is disabled by policy'')
       ''workspace.snapshot.create'' (Some owner) (Some wid) co
       (load_applicable_policies d (Some owner) (Some wid)) d"

definition evaluate_session_creation :: "env \<Rightarrow> int \<Rightarrow> int \<Rightarrow> string option \<Rightarrow> db \<Rightarrow> unit result" where
  "evaluate_session_creation E owner wid co d =
     run_policies E (flag_verdict ''allow_session_creation'' ''Session creation is disabled by policy'')
       ''workspace.session.create'' (Some owner) (Some wid) co
       (load_applicable_policies d (Some owner) (Some wid)) d"

definition evaluate_node_provisioning :: "env \<Rightarrow> string option \<Rightarrow> db \<Rightarrow> unit result" where
  "evaluate_node_provisioning E co d =
     run_policies E (flag_verdict ''allow_node_provisioning'' ''Node provisioning is disabled by policy'')
       ''node.provision'' None None co (load_applicable_policies d None None) d"

section \<open>Policies as guards\<close>

lemma deny_and_raise_cases:
  "deny_and_raise E p a r ow w co d = Inl (e, d') \<longleftrightarrow>
     e = PolicyViolationError (pol_name p) a r \<and>
     d' = snd (projl (deny_and_raise E p a r ow w co d :: 'a result))"
  "deny_and_raise E p a r ow w co d \<noteq> (Inr x :: 'a result)"
  by (auto simp: deny_and_raise_def)

lemma run_policies_admission: "admission (run_policies E v a ow w co ps)"
proof (induction ps)
  case Nil
  then show ?case by unfold_locales simp_all
next
  case (Cons p ps)
  show ?case
  proof (cases "v p")
    case None
    then show ?thesis using Cons by (simp add: admission_def)
  next
    case (Some r)
    then show ?thesis by unfold_locales (auto simp: deny_and_raise_def record_audit_one_denial)
  qed
qed

lemma run_loaded_admission: "admission (\<lambda>d. run_policies E v a ow w co (load_applicable_policies d ow2 w2) d)"
  using run_policies_admission by (auto simp: admission_def)

interpretation pol_create: admission "evaluate_workspace_creation E owner img priv co" for E owner img priv co
  using run_loaded_admission by (simp add: evaluate_workspace_creation_def [abs_def])

interpretation pol_start: admission "evaluate_workspace_start E owner w co" for E owner w co
  using run_loaded_admission by (simp add: evaluate_workspace_start_def [abs_def])

interpretation pol_snap: admission "evaluate_snapshot_creation E owner w co" for E owner w co
  using run_loaded_admission by (simp add: evaluate_snapshot_creation_def [abs_def])

interpretation pol_sess: admission "evaluate_session_creation E owner w co" for E owner w co
  using run_loaded_admission by (simp add: evaluate_session_creation_def [abs_def])

interpretation pol_node: admission "evaluate_node_provisioning E co" for E co
  using run_loaded_admission by (simp add: evaluate_node_provisioning_def [abs_def])

text \<open>The decision of a run of policies: the first policy in order with a verdict.\<close>

lemma run_policies_first:
  "run_policies E v a ow w co ps d =
     (case find (\<lambda>p. v p \<noteq> None) ps of
        None \<Rightarrow> Inr ((), d)
      | Some p \<Rightarrow> deny_and_raise E p a (the (v p)) ow w co d)"
  by (induction ps) (auto split: option.splits)

lemma find_sorted_least:
  fixes f :: "'a \<Rightarrow> int"
  assumes "find P (sort_key f xs) = Some x"
  shows "P x" "x \<in> set xs" "\<forall>y\<in>set xs. P y \<longrightarrow> f x \<le> f y"
proof -
  from assms obtain i where i: "i < length (sort_key f xs)" "P (sort_key f xs ! i)" "x = sort_key f xs ! i"
    and before: "\<forall>j<i. \<not> P (sort_key f xs ! j)"
    by (auto simp: find_Some_iff)
  show "P x" using i by simp
  show "x \<in> set xs" using i by (metis nth_mem set_sort)
  show "\<forall>y\<in>set xs. P y \<longrightarrow> f x \<le> f y"
  proof (intro ballI impI)
    fix y assume y: "y \<in> set xs" "P y"
    then obtain j where j: "j < length (sort_key f xs)" "y = sort_key f xs ! j"
      by (metis in_set_conv_nth set_sort)
    with before y i have "i \<le> j" by (metis not_le)
    then show "f x \<le> f y"
      using i j sorted_sort_key [of f xs] by (auto simp: sorted_iff_nth_mono)
  qed
qed

end
