(* ===== verification/Sessions.thy ===== *)
theory Sessions
  imports Samples
begin

text \<open>
  Workspace sessions (\<^verbatim>\<open>workspace_service/services/workspace_session_service.py\<close>): issuing a
  token, resolving it on access, bulk revocation, and the cached counter
  \<^verbatim>\<open>Workspace.active_sessions_count\<close>.

  The keyed hash (HMAC-SHA-256 with the JWT secret) is the parameter \<open>hash_token\<close>, the random token
  of \<^verbatim>\<open>secrets.token_urlsafe\<close> the argument \<open>rnd\<close>.

  Database sessions are created with \<^verbatim>\<open>autoflush=False\<close>: a query sees the rows as last flushed, not
  pending attribute changes. \<open>revoke_all_workspace_sessions\<close> therefore recounts on the rows as they
  were before its own updates.
\<close>

definition WORKSPACE_SESSION_TOKEN_PREFIX :: string where
  "WORKSPACE_SESSION_TOKEN_PREFIX = ''dnws_''"

definition generate_workspace_session_token :: "string \<Rightarrow> string" where
  "generate_workspace_session_token rnd = WORKSPACE_SESSION_TOKEN_PREFIX @ rnd"

definition effective_session :: "int \<Rightarrow> time \<Rightarrow> ws_session \<Rightarrow> bool" where
  "effective_session wid ts s =
     (sess_workspace_id s = wid \<and> sess_status s = SS_ACTIVE \<and> sess_expires_at s > ts)"

definition count_effective_active_sessions :: "db \<Rightarrow> int \<Rightarrow> time \<Rightarrow> int" where
  "count_effective_active_sessions d wid ts = count_rows (effective_session wid ts) (sessions d)"

text \<open>\<open>flushed\<close> is the database the query sees, \<open>d\<close> the session state that is updated.\<close>

definition reconcile_count_on :: "db \<Rightarrow> int \<Rightarrow> time \<Rightarrow> db \<Rightarrow> int \<times> db" where
  "reconcile_count_on flushed wid ts d =
     (case get_ws d wid of
        None \<Rightarrow> (0, d)
      | Some w \<Rightarrow>
          let cnt = count_effective_active_sessions flushed wid ts
          in (cnt, put_ws (w\<lparr>ws_active_sessions_count := cnt, ws_updated_at := ts\<rparr>) d))"

definition reconcile_workspace_active_session_count :: "int \<Rightarrow> time \<Rightarrow> db \<Rightarrow> int \<times> db" where
  "reconcile_workspace_active_session_count wid ts d = reconcile_count_on d wid ts d"

definition create_workspace_session ::
  "(string \<Rightarrow> string) \<Rightarrow> string \<Rightarrow> env \<Rightarrow> int \<Rightarrow> int \<Rightarrow> jobj \<Rightarrow> db \<Rightarrow> (string \<times> int) \<times> db" where
  "create_workspace_session hash_token rnd E wid uid client_metadata d =
     (let ttl = max 60 (s_session_ttl_seconds (cfg E));
          token = generate_workspace_session_token rnd;
          row = \<lparr>sess_id = 0, sess_workspace_id = wid, sess_user_id = uid, sess_status = SS_ACTIVE,
                 sess_token_hash = hash_token token, sess_issued_at = now E,
                 sess_expires_at = now E + seconds ttl, sess_last_seen_at = now E,
                 sess_client_metadata = client_metadata, sess_updated_at = now E\<rparr>;
          (sid, d1) = add_sess row d;
          (_, d2) = reconcile_workspace_active_session_count wid (now E) d1
      in ((token, sid), d2))"

definition resolve_workspace_session_for_access ::
  "(string \<Rightarrow> string) \<Rightarrow> env \<Rightarrow> int \<Rightarrow> int \<Rightarrow> string \<Rightarrow> db \<Rightarrow> int result" where
  "resolve_workspace_session_for_access hash_token E wid uid token_plain d =
     (let raw = py_strip token_plain in
      if raw = [] then
        Inl (WorkspaceAccessDeniedError
          ''Workspace session token required (use POST /workspaces/attach/{id} first).'', d)
      else case first_row (filter (\<lambda>s. sess_token_hash s = hash_token raw) (sessions d)) of
        None \<Rightarrow> Inl (WorkspaceAccessDeniedError ''Invalid workspace session token.'', d)
      | Some row \<Rightarrow>
          if sess_workspace_id row \<noteq> wid \<or> sess_user_id row \<noteq> uid then
            Inl (WorkspaceAccessDeniedError ''Invalid workspace session token.'', d)
          else if sess_status row \<noteq> SS_ACTIVE then
            Inl (WorkspaceAccessDeniedError ''Workspace session is no longer active.'', d)
          else if sess_expires_at row \<le> now E then
            Inl (WorkspaceAccessDeniedError ''Workspace session expired; attach again.'',
              snd (reconcile_count_on d wid (now E)
                (put_sess (row\<lparr>sess_status := SS_EXPIRED, sess_updated_at := now E\<rparr>) d)))
          else
            Inr (sess_id row,
              put_sess (row\<lparr>sess_last_seen_at := now E, sess_updated_at := now E\<rparr>) d))"

definition revoke_rows :: "int \<Rightarrow> time \<Rightarrow> ws_session list \<Rightarrow> ws_session list" where
  "revoke_rows wid ts rows =
     map (\<lambda>s. if sess_workspace_id s = wid \<and> sess_status s = SS_ACTIVE
              then s\<lparr>sess_status := SS_REVOKED, sess_updated_at := ts\<rparr> else s) rows"

definition revoke_all_workspace_sessions :: "env \<Rightarrow> int \<Rightarrow> db \<Rightarrow> int \<times> db" where
  "revoke_all_workspace_sessions E wid d =
     (let n = count_rows (\<lambda>s. sess_workspace_id s = wid \<and> sess_status s = SS_ACTIVE) (sessions d);
          d1 = d\<lparr>sessions := revoke_rows wid (now E) (sessions d)\<rparr>
      in if n = 0 then (n, d1) else (n, snd (reconcile_count_on d wid (now E) d1)))"

section \<open>Lemmas\<close>

lemma reconcile_count_on_frame [frame, simp]:
  "configs (snd (reconcile_count_on f w t d)) = configs d"
  "jobs (snd (reconcile_count_on f w t d)) = jobs d"
  "runtimes (snd (reconcile_count_on f w t d)) = runtimes d"
  "sessions (snd (reconcile_count_on f w t d)) = sessions d"
  "snapshots (snd (reconcile_count_on f w t d)) = snapshots d"
  "cleanups (snd (reconcile_count_on f w t d)) = cleanups d"
  "nodes (snd (reconcile_count_on f w t d)) = nodes d"
  "seqs (snd (reconcile_count_on f w t d)) = seqs d"
  "topologies (snd (reconcile_count_on f w t d)) = topologies d"
  "secrets (snd (reconcile_count_on f w t d)) = secrets d"
  "events (snd (reconcile_count_on f w t d)) = events d"
  "audits (snd (reconcile_count_on f w t d)) = audits d"
  "usages (snd (reconcile_count_on f w t d)) = usages d"
  "quotas (snd (reconcile_count_on f w t d)) = quotas d"
  "policies (snd (reconcile_count_on f w t d)) = policies d"
  "users (snd (reconcile_count_on f w t d)) = users d"
  by (simp_all add: reconcile_count_on_def Let_def split: option.split)

lemma get_ws_key: "get_ws d k = Some w \<Longrightarrow> ws_id w = k"
  unfolding get_ws_def by (rule row_find_Some_key)

lemma get_ws_reconcile:
  "get_ws (snd (reconcile_count_on f w t d)) k =
     (if k = w then map_option (\<lambda>r. r\<lparr>ws_active_sessions_count := count_effective_active_sessions f w t,
                                      ws_updated_at := t\<rparr>) (get_ws d w)
      else get_ws d k)"
  by (auto simp: reconcile_count_on_def Let_def ws_tab.look_save dest: get_ws_key split: option.split)

lemma revoke_all_frame [frame, simp]:
  "configs (snd (revoke_all_workspace_sessions E w d)) = configs d"
  "jobs (snd (revoke_all_workspace_sessions E w d)) = jobs d"
  "runtimes (snd (revoke_all_workspace_sessions E w d)) = runtimes d"
  "snapshots (snd (revoke_all_workspace_sessions E w d)) = snapshots d"
  "cleanups (snd (revoke_all_workspace_sessions E w d)) = cleanups d"
  "nodes (snd (revoke_all_workspace_sessions E w d)) = nodes d"
  "seqs (snd (revoke_all_workspace_sessions E w d)) = seqs d"
  "topologies (snd (revoke_all_workspace_sessions E w d)) = topologies d"
  "secrets (snd (revoke_all_workspace_sessions E w d)) = secrets d"
  "events (snd (revoke_all_workspace_sessions E w d)) = events d"
  "audits (snd (revoke_all_workspace_sessions E w d)) = audits d"
  "usages (snd (revoke_all_workspace_sessions E w d)) = usages d"
  "quotas (snd (revoke_all_workspace_sessions E w d)) = quotas d"
  "policies (snd (revoke_all_workspace_sessions E w d)) = policies d"
  "users (snd (revoke_all_workspace_sessions E w d)) = users d"
  by (simp_all add: revoke_all_workspace_sessions_def Let_def)

lemma revoke_all_sessions [simp]:
  "sessions (snd (revoke_all_workspace_sessions E w d)) = revoke_rows w (now E) (sessions d)"
  by (simp add: revoke_all_workspace_sessions_def Let_def)

lemma get_ws_update_sessions [simp]: "get_ws (d\<lparr>sessions := x\<rparr>) k = get_ws d k"
  by (simp add: get_ws_def)

lemma get_ws_revoke_all:
  "get_ws (snd (revoke_all_workspace_sessions E w d)) k =
     (if k = w \<and> (\<exists>s\<in>set (sessions d). sess_workspace_id s = w \<and> sess_status s = SS_ACTIVE)
      then map_option (\<lambda>r. r\<lparr>ws_active_sessions_count := count_effective_active_sessions d w (now E),
                             ws_updated_at := now E\<rparr>) (get_ws d w)
      else get_ws d k)"
  by (auto simp: revoke_all_workspace_sessions_def Let_def get_ws_reconcile count_rows_zero)

lemma revoke_rows_none_effective: "count_rows (effective_session w t) (revoke_rows w ts rows) = 0"
  by (simp add: count_rows_def revoke_rows_def effective_session_def filter_map filter_empty_conv) blast

lemma revoke_rows_keys [simp]: "map sess_id (revoke_rows w ts rows) = map sess_id rows"
  by (simp add: revoke_rows_def)

lemma workspaces_reconcile_keys [simp]:
  "map ws_id (workspaces (snd (reconcile_count_on f w t d))) = map ws_id (workspaces d)"
  by (simp add: reconcile_count_on_def Let_def split: option.split)

lemma count_rows_add_sess:
  "count_effective_active_sessions (snd (add_sess s d)) w t =
     count_effective_active_sessions d w t + (if effective_session w t (s\<lparr>sess_id := seqs d T_SESSION\<rparr>) then 1 else 0)"
  by (simp add: count_effective_active_sessions_def add_sess_def bump_def count_rows_def)

end
