(* ===== verification/Records_Correct.thy ===== *)
theory Records_Correct
  imports Policy Sessions
begin

text \<open>
  Properties of the record-keeping services: the event stream, quota checks, policies and sessions.
\<close>

section \<open>Events\<close>

text \<open>Between two polls, commits only add events whose ids are larger than those of all events that were visible.\<close>

definition in_order :: "int \<Rightarrow> db \<Rightarrow> db \<Rightarrow> bool" where
  "in_order wid d d' \<longleftrightarrow>
     (\<forall>e\<in>set (events d). ev_workspace_id e = wid \<longrightarrow> e \<in> set (events d')) \<and>
     (\<forall>e\<in>set (events d'). ev_workspace_id e = wid \<longrightarrow> e \<in> set (events d) \<or>
        (\<forall>o1\<in>set (events d). ev_workspace_id o1 = wid \<longrightarrow> ev_id o1 < ev_id e))"

definition readable :: "int \<Rightarrow> int \<Rightarrow> db \<Rightarrow> bool" where
  "readable wid uid d \<longleftrightarrow> distinct (map ev_id (events d)) \<and> assert_workspace_owner d wid uid"

lemma backlog_sorted:
  "sorted (map ev_id (backlog d wid a))"
  "distinct (map ev_id (events d)) \<Longrightarrow> distinct (map ev_id (backlog d wid a))"
  "set (backlog d wid a) = {e \<in> set (events d). ev_workspace_id e = wid \<and> a < ev_id e}"
  by (auto simp: backlog_def distinct_map intro: inj_on_subset)

lemma advance_sorted:
  "sorted (map ev_id es) \<Longrightarrow> \<forall>e\<in>set es. a < ev_id e \<Longrightarrow> advance es a = (if es = [] then a else ev_id (last es))"
proof (induction es arbitrary: a)
  case (Cons e es)
  have a: "advance (e # es) a = advance es (ev_id e)" using Cons.prems(2) by (simp add: advance_def max_absorb2)
  have mono: "sorted (map ev_id es) \<Longrightarrow> \<forall>x\<in>set es. c \<le> ev_id x \<Longrightarrow> advance es c = (if es = [] then c else ev_id (last es))" for c es
    by (induction es arbitrary: c) (auto simp: advance_def max_absorb2)
  show ?case unfolding a using mono [of es "ev_id e"] Cons.prems(1) by simp
qed (simp add: advance_def)

lemma backlog_extends:
  assumes "distinct (map ev_id (events d))" "distinct (map ev_id (events d'))" "in_order wid d d'"
  shows "\<exists>new. backlog d' wid a = backlog d wid a @ new"
proof -
  let ?new = "sort_key ev_id (filter (\<lambda>e. ev_workspace_id e = wid \<and> a < ev_id e \<and> e \<notin> set (events d)) (events d'))"
  have set_new: "set ?new = {e \<in> set (events d'). ev_workspace_id e = wid \<and> a < ev_id e \<and> e \<notin> set (events d)}" by simp
  have apart: "ev_id x < ev_id y" if "x \<in> set (backlog d wid a)" "y \<in> set ?new" for x y
    using that assms(3) by (auto simp: backlog_sorted(3) in_order_def)
  have "inj_on ev_id (set (backlog d' wid a))" using backlog_sorted(2) [OF assms(2), of wid a] by (simp only: distinct_map)
  moreover have same: "set (backlog d' wid a) = set (backlog d wid a @ ?new)"
    using assms(3) unfolding set_append set_new backlog_sorted(3) in_order_def by blast
  ultimately have inj: "inj_on ev_id (set (backlog d' wid a) \<union> set (backlog d wid a @ ?new))" by simp
  have "distinct (map ev_id ?new)" using assms(2) by (auto simp: distinct_map intro: inj_on_subset)
  then have "distinct (map ev_id (backlog d wid a @ ?new))"
    using backlog_sorted(2) [OF assms(1)] apart by fastforce
  moreover have "sorted (map ev_id (backlog d wid a @ ?new))"
    using backlog_sorted(1) apart by (fastforce simp: sorted_append)
  ultimately have "backlog d' wid a = backlog d wid a @ ?new"
    by (intro map_sorted_distinct_set_unique [OF inj backlog_sorted(1) backlog_sorted(2) [OF assms(2)] _ _ same])
  then show ?thesis by blast
qed

text \<open>One poll: its page and the backlog after the new cursor make up the backlog of every later database.\<close>

abbreviation page_of :: "db \<Rightarrow> int \<Rightarrow> int \<Rightarrow> ws_event list" where
  "page_of d wid a \<equiv> take 250 (backlog d wid a)"

lemma poll_page: "readable wid uid d \<Longrightarrow> list_workspace_events d wid uid a EVENT_PAGE_LIMIT = Some (page_of d wid a)"
  by (simp add: readable_def list_workspace_events_backlog)

lemma advance_page: "advance (page_of d wid a) a = (if backlog d wid a = [] then a else ev_id (last (page_of d wid a)))"
proof -
  have "sorted (map ev_id (page_of d wid a))" using backlog_sorted(1) [of d wid a] by (simp add: sorted_wrt_take flip: take_map)
  moreover have "\<forall>e\<in>set (page_of d wid a). a < ev_id e" by (auto simp: backlog_sorted(3) dest: in_set_takeD)
  ultimately show ?thesis by (simp add: advance_sorted)
qed

lemma backlog_after_page:
  assumes "distinct (map ev_id (events d))" "distinct (map ev_id (events d'))" "in_order wid d d' \<or> d' = d"
  shows "page_of d wid a @ backlog d' wid (advance (page_of d wid a) a) = backlog d' wid a"
proof -
  obtain new where new: "backlog d' wid a = backlog d wid a @ new" using backlog_extends [OF assms(1,2), of wid a] assms(3) by auto
  let ?j = "min 250 (length (backlog d wid a))"
  have page: "page_of d wid a = take ?j (backlog d' wid a)" by (simp add: new min_def)
  show ?thesis
  proof (cases "backlog d wid a = []")
    case False
    have keys: "keys_ok ev_id (events d') (Max (insert 0 (ev_id ` set (events d'))) + 1)"
      using assms(2) by (auto simp: keys_ok_def le_imp_less_or_eq zless_add1_eq)
    have "backlog d' wid (ev_id (last (take ?j (backlog d' wid a)))) = drop ?j (backlog d' wid a)"
      by (rule backlog_after [OF keys]) (use False new in auto)
    moreover have "advance (page_of d wid a) a = ev_id (last (take ?j (backlog d' wid a)))"
      using False by (simp add: advance_page flip: page)
    ultimately show ?thesis by (simp only: page append_take_drop_id)
  qed (simp add: advance_def)
qed

fun cursor_after :: "db list \<Rightarrow> int \<Rightarrow> int \<Rightarrow> int" where
  "cursor_after [] wid a = a"
| "cursor_after (d # ds) wid a = cursor_after ds wid (advance (page_of d wid a) a)"

lemma stream_append:
  assumes "\<forall>d\<in>set ds. readable wid uid d"
  shows "stream_workspace_events (ds @ es) wid uid a = stream_workspace_events ds wid uid a @ stream_workspace_events es wid uid (cursor_after ds wid a)"
  using assms by (induction ds arbitrary: a) (simp_all add: poll_page)

text \<open>What has been sent and what is still to come make up the backlog of a database that later commits lead to.\<close>

lemma stream_prefix:
  assumes "\<forall>d\<in>set ds. readable wid uid d \<and> in_order wid d d'" "readable wid uid d'"
  shows "stream_workspace_events ds wid uid a @ map SseEvent (backlog d' wid (cursor_after ds wid a)) = map SseEvent (backlog d' wid a)"
  using assms(1)
proof (induction ds arbitrary: a)
  case (Cons d ds)
  let ?c = "advance (page_of d wid a) a"
  have "page_of d wid a @ backlog d' wid ?c = backlog d' wid a"
    by (rule backlog_after_page) (use Cons.prems assms(2) in \<open>auto simp: readable_def\<close>)
  then show ?case using Cons.IH [of ?c] Cons.prems by (simp add: poll_page) (metis map_append)
qed simp

lemma stream_quiet:
  assumes "readable wid uid d" "length (backlog d wid a) \<le> 250 * n"
  shows "stream_workspace_events (replicate n d) wid uid a = map SseEvent (backlog d wid a)"
  using assms(2)
proof (induction n arbitrary: a)
  case (Suc n)
  let ?c = "advance (page_of d wid a) a"
  have split: "page_of d wid a @ backlog d wid ?c = backlog d wid a"
    by (rule backlog_after_page) (use assms(1) in \<open>auto simp: readable_def\<close>)
  from arg_cong [OF split, of length] have "length (backlog d wid ?c) \<le> 250 * n" using Suc.prems by simp
  from Suc.IH [OF this] split show ?case by (simp add: poll_page [OF assms(1)]) (metis map_append)
qed simp

text \<open>C35: the event stream of a workspace over any number of polls, each of which sees the commits made by then. When commits
  only ever add events with larger ids than those already visible, the stream sends exactly the events of the
  workspace after the starting cursor, in ascending id order, none lost and none repeated, as soon as no more events are
  committed for as many polls as the rest has pages of 250.\<close>

theorem event_stream_complete:
  assumes "\<forall>d\<in>set (ds @ [d']). distinct (map ev_id (events d)) \<and> assert_workspace_owner d wid uid"
    and "\<forall>d\<in>set ds. in_order wid d d'" "int (length (events d')) \<le> EVENT_PAGE_LIMIT * int n"
  shows "stream_workspace_events (ds @ replicate n d') wid uid after =
    map SseEvent (sort_key ev_id (filter (\<lambda>e. ev_workspace_id e = wid \<and> after < ev_id e) (events d')))"
proof -
  have r: "\<forall>d\<in>set ds. readable wid uid d" "readable wid uid d'" using assms(1) by (auto simp: readable_def)
  let ?c = "cursor_after ds wid after"
  have "length (backlog d' wid ?c) \<le> length (events d')" unfolding backlog_def length_sort by (rule length_filter_le)
  then have "length (backlog d' wid ?c) \<le> 250 * n" using assms(3) by linarith
  then show ?thesis
    using stream_append [OF r(1), of "replicate n d'" after] stream_quiet [OF r(2)] stream_prefix [of ds wid uid d' after] r assms(2)
    by (simp add: backlog_def)
qed

text \<open>The cursor never goes back; what is sent was visible and is at or below the cursor afterwards.\<close>

lemma advance_up: "a \<le> advance es a" "x \<in> set es \<Longrightarrow> ev_id x \<le> advance es a"
proof (induction es arbitrary: a)
  case (Cons y es)
  { case 1 show ?case using Cons(1) [of "max a (ev_id y)"] by (simp add: advance_def) }
  { case 2 then show ?case using Cons(1,2) [of "max a (ev_id y)"] by (auto simp: advance_def) }
qed (simp_all add: advance_def)

lemma cursor_up: "a \<le> cursor_after ds wid a"
  by (induction ds arbitrary: a) (auto intro: order_trans [OF advance_up(1)])

lemma stream_sent:
  "SseEvent x \<in> set (stream_workspace_events ds wid uid a) \<Longrightarrow> \<forall>d\<in>set ds. readable wid uid d \<Longrightarrow>
   ev_id x \<le> cursor_after ds wid a \<and> (\<exists>d\<in>set ds. x \<in> set (events d))"
proof (induction ds arbitrary: a)
  case (Cons d ds)
  let ?c = "advance (page_of d wid a) a"
  from Cons.prems consider "x \<in> set (page_of d wid a)" | "SseEvent x \<in> set (stream_workspace_events ds wid uid ?c)"
    by (auto simp: poll_page)
  then show ?case
  proof cases
    case 1
    then have "ev_id x \<le> cursor_after ds wid ?c" using advance_up(2) cursor_up order_trans by blast
    then show ?thesis using in_set_takeD [OF 1] by (auto simp: backlog_sorted(3))
  qed (use Cons in auto)
qed simp

lemma stream_beyond: "SseEvent x \<in> set (stream_workspace_events ds wid uid a) \<Longrightarrow> a < ev_id x"
proof (induction ds arbitrary: a)
  case (Cons d ds)
  show ?case
  proof (cases "list_workspace_events d wid uid a EVENT_PAGE_LIMIT")
    case (Some p)
    then have "y \<in> set p \<Longrightarrow> a < ev_id y" for y
      by (auto simp: list_workspace_events_def Let_def split: if_splits dest!: in_set_takeD)
    then show ?thesis using Cons Some advance_up(1) [of a p] by fastforce
  qed (use Cons in simp)
qed simp

text \<open>C31: an event whose transaction commits late is never streamed. Ids are drawn when a row is flushed and transactions commit
  in any order; once the stream has sent an event with a larger id, an event that no poll so far could see stays
  unsent, whatever is committed and polled later.\<close>

theorem late_event_never_streamed:
  assumes "\<forall>d\<in>set ds. distinct (map ev_id (events d)) \<and> assert_workspace_owner d wid uid"
    and "SseEvent e' \<in> set (stream_workspace_events ds wid uid after)"
    and "ev_id e \<le> ev_id e'" "\<forall>d\<in>set ds. e \<notin> set (events d)"
  shows "SseEvent e \<notin> set (stream_workspace_events (ds @ later) wid uid after)"
proof -
  have r: "\<forall>d\<in>set ds. readable wid uid d" using assms(1) by (simp add: readable_def)
  show ?thesis
    using stream_sent [OF assms(2) r] stream_sent [of e ds wid uid after, OF _ r] stream_beyond [of e later wid uid "cursor_after ds wid after"] assms(3,4)
    by (auto simp: stream_append [OF r])
qed

text \<open>Two events of workspace 1, of which the one with the smaller id is committed second.\<close>

definition ex_event :: "int \<Rightarrow> ws_event" where
  "ex_event i = \<lparr>ev_id = i, ev_workspace_id = 1, ev_type = EV_JOB_RUNNING, ev_status = None, ev_message = None, ev_payload = [],
     ev_created_at = 0\<rparr>"

lemma ex_stream_db:
  "assert_workspace_owner (ex_db\<lparr>events := es\<rparr>) 1 7" "events (ex_db\<lparr>events := es\<rparr>) = es"
  "ev_id (ex_event i) = i" "ev_workspace_id (ex_event i) = 1"
  by (simp_all add: assert_workspace_owner_def get_ws_def ex_defs ex_event_def)

theorem event_stream_complete_witness:
  "stream_workspace_events [ex_db\<lparr>events := [ex_event 1]\<rparr>, ex_db\<lparr>events := [ex_event 1, ex_event 2]\<rparr>] 1 7 0 = [SseEvent (ex_event 1), SseEvent (ex_event 2)]"
  using event_stream_complete [of "[ex_db\<lparr>events := [ex_event 1]\<rparr>]" "ex_db\<lparr>events := [ex_event 1, ex_event 2]\<rparr>" 1 7 1 0]
  by (simp add: ex_stream_db in_order_def)

theorem late_event_never_streamed_witness:
  "SseEvent (ex_event 1) \<notin> set (stream_workspace_events
     [ex_db\<lparr>events := [ex_event 2]\<rparr>, ex_db\<lparr>events := [ex_event 2, ex_event 1]\<rparr>] 1 7 0)"
proof -
  let ?d = "ex_db\<lparr>events := [ex_event 2]\<rparr>"
  have "SseEvent (ex_event 2) \<in> set (stream_workspace_events [?d] 1 7 0)"
    by (simp add: list_workspace_events_def ex_stream_db)
  from late_event_never_streamed [OF _ this, of "ex_event 1" "[ex_db\<lparr>events := [ex_event 2, ex_event 1]\<rparr>]"] show ?thesis
    by (simp add: ex_stream_db ex_event_def)
qed

section \<open>Quotas and policies\<close>

text \<open>When the effective quota of an owner limits the number of workspaces, the check passes exactly
  while the owner has fewer live workspaces than the limit; a refusal names the limit and the current
  count and commits exactly one denial audit row.\<close>

theorem workspace_quota_exact:
  fixes E :: env and d :: db and owner :: int and co :: "string option"
  defines "n \<equiv> count_rows (\<lambda>w. ws_owner_user_id w = owner \<and> active_ws_status (ws_status w)) (workspaces d)"
  assumes "get_effective_quota d (Some owner) None = Some q" "q_max_workspaces q = Some lmt"
  shows "if n < lmt then check_workspace_quota E owner co d = Inr ((), d)
    else (\<exists>d'. check_workspace_quota E owner co d
            = Inl (QuotaExceededError ''max_workspaces'' (NInt lmt) (NInt n) (''user:'' @ str_int owner), d')
          \<and> one_denial d d')"
  using assms by (auto simp: check_workspace_quota_def Let_def exceed_and_raise_def record_audit_one_denial)

definition ex_quota :: quota where
  "ex_quota = \<lparr>q_id = 1, q_scope_type = SCOPE_USER, q_scope_id = Some 7, q_max_workspaces = Some 1,
     q_max_running_workspaces = Some 1, q_max_cpu = None, q_max_memory_mb = None, q_max_sessions = None,
     q_max_snapshots = None, q_max_runtime_hours = None\<rparr>"

theorem workspace_quota_exact_witness:
  "\<exists>d'. check_workspace_quota ex_env 7 None (ex_db\<lparr>quotas := [ex_quota]\<rparr>)
      = Inl (QuotaExceededError ''max_workspaces'' (NInt 1) (NInt 1) (''user:'' @ str_int 7), d')
    \<and> one_denial (ex_db\<lparr>quotas := [ex_quota]\<rparr>) d'"
  using workspace_quota_exact [of "ex_db\<lparr>quotas := [ex_quota]\<rparr>" 7 ex_quota 1 ex_env None]
  by (simp add: get_effective_quota_def ex_quota_def ex_defs count_rows_def active_ws_status_def)

text \<open>When any applicable active policy forbids starting a workspace, the request is denied by the oldest
  such policy: the error carries its name, no applicable active policy that forbids the start is older,
  and exactly one denial audit row is committed.\<close>

theorem policy_oldest_denial_decides:
  assumes "p0 \<in> set (policies d)" "pol_is_active p0" "policy_applies (Some owner) (Some wid) p0"
    "\<not> truthy (rule_val (pol_rules p0) ''allow_workspace_start'' (JBool True))"
  shows "\<exists>p d'. evaluate_workspace_start E owner wid co d
      = Inl (PolicyViolationError (pol_name p) ''workspace.start'' ''Workspace start is disabled by policy'', d')
    \<and> one_denial d d'
    \<and> p \<in> set (policies d) \<and> pol_is_active p \<and> policy_applies (Some owner) (Some wid) p
    \<and> pol_created_at p \<le> pol_created_at p0"
proof -
  let ?v = "flag_verdict ''allow_workspace_start'' ''Workspace start is disabled by policy''"
  let ?ps = "filter (\<lambda>p. pol_is_active p \<and> policy_applies (Some owner) (Some wid) p) (policies d)"
  have p0: "p0 \<in> set ?ps" "?v p0 \<noteq> None" using assms by (auto simp: flag_verdict_def)
  then have "find (\<lambda>p. ?v p \<noteq> None) (sort_key pol_created_at ?ps) \<noteq> None"
    unfolding find_None_iff by auto
  then obtain p where p: "find (\<lambda>p. ?v p \<noteq> None) (sort_key pol_created_at ?ps) = Some p" by auto
  note least = find_sorted_least [OF p]
  let ?d' = "snd (projl (deny_and_raise E p ''workspace.start'' (the (?v p)) (Some owner) (Some wid) co d :: unit result))"
  have "evaluate_workspace_start E owner wid co d
      = Inl (PolicyViolationError (pol_name p) ''workspace.start'' ''Workspace start is disabled by policy'', ?d')"
    using p least(1) by (auto simp: evaluate_workspace_start_def load_applicable_policies_def run_policies_first
        deny_and_raise_def flag_verdict_def split: if_splits)
  then show ?thesis
    using least p0 pol_start.deny_one by (intro exI [of _ p] exI [of _ ?d']) auto
qed

definition ex_policy :: policy where
  "ex_policy = \<lparr>pol_id = 3, pol_name = ''freeze'', pol_type = ''system'', pol_scope_type = SCOPE_GLOBAL,
     pol_scope_id = None, pol_rules = [(''allow_workspace_start'', JBool False)], pol_is_active = True, pol_created_at = 5\<rparr>"

theorem policy_oldest_denial_decides_witness:
  "\<exists>d'. evaluate_workspace_start ex_env 7 1 None (ex_db\<lparr>policies := [ex_policy]\<rparr>)
      = Inl (PolicyViolationError ''freeze'' ''workspace.start'' ''Workspace start is disabled by policy'', d')"
  using policy_oldest_denial_decides [of ex_policy "ex_db\<lparr>policies := [ex_policy]\<rparr>" 7 1 ex_env None]
  by (auto simp: policy_applies_def ex_policy_def rule_val_def jget_def)

section \<open>Sessions\<close>

text \<open>A freshly issued session token opens the workspace it was issued for, to the user it was issued
  to, at any later instant before its expiry (at least sixty seconds), and the access records the
  instant it was last seen. The hash of the token is assumed to be new among the stored hashes.\<close>

theorem session_token_round_trip:
  assumes "create_workspace_session hash_token rnd E wid uid meta d = ((token, sid), d1)"
    and fresh: "\<forall>s\<in>set (sessions d). sess_token_hash s \<noteq> hash_token token"
    and printable: "py_strip token = token"
    and live: "now E' < now E + seconds (max 60 (s_session_ttl_seconds (cfg E)))"
  shows "\<exists>d2 s. resolve_workspace_session_for_access hash_token E' wid uid token d1 = Inr (sid, d2)
    \<and> s \<in> set (sessions d2) \<and> sess_id s = sid \<and> sess_status s = SS_ACTIVE \<and> sess_last_seen_at s = now E'"
proof -
  let ?tok = "generate_workspace_session_token rnd"
  define row where "row = \<lparr>sess_id = seqs d T_SESSION, sess_workspace_id = wid, sess_user_id = uid, sess_status = SS_ACTIVE,
     sess_token_hash = hash_token ?tok, sess_issued_at = now E,
     sess_expires_at = now E + seconds (max 60 (s_session_ttl_seconds (cfg E))), sess_last_seen_at = now E,
     sess_client_metadata = meta, sess_updated_at = now E\<rparr>"
  have t: "token = ?tok" and i: "sid = seqs d T_SESSION" and s: "sessions d1 = sessions d @ [row]"
    using assms(1) by (auto simp: create_workspace_session_def reconcile_workspace_active_session_count_def
        row_def Let_def case_prod_unfold)
  have ne: "py_strip ?tok \<noteq> []"
    using printable t by (simp add: generate_workspace_session_token_def WORKSPACE_SESSION_TOKEN_PREFIX_def)
  have none: "filter (\<lambda>s. sess_token_hash s = hash_token ?tok) (sessions d) = []"
    using fresh t by (simp add: filter_empty_conv)
  define seen where "seen = row\<lparr>sess_last_seen_at := now E', sess_updated_at := now E'\<rparr>"
  have f: "first_row (filter (\<lambda>s. sess_token_hash s = hash_token ?tok) (sessions d1)) = Some row"
    using none by (simp add: s row_def)
  have "resolve_workspace_session_for_access hash_token E' wid uid token d1 = Inr (sid, put_sess seen d1)"
    using printable t ne live i f
    by (simp add: resolve_workspace_session_for_access_def Let_def row_def seen_def)
  moreover have "row_find sess_id (sess_id seen) (sessions d1) \<noteq> None"
    unfolding row_find_None by (auto simp: s seen_def row_def)
  then have "seen \<in> set (sessions (put_sess seen d1))"
    by (simp add: row_put_in)
  ultimately show ?thesis using i by (intro exI [of _ "put_sess seen d1"] exI [of _ seen]) (simp add: seen_def row_def)
qed

theorem session_token_round_trip_witness:
  "\<exists>d1 d2. create_workspace_session id ''abc'' ex_env 1 7 [] ex_db = ((''dnws_abc'', 2), d1)
    \<and> resolve_workspace_session_for_access id (ex_env\<lparr>now := 1000000001\<rparr>) 1 7 ''dnws_abc'' d1 = Inr (2, d2)"
proof -
  let ?c = "create_workspace_session id ''abc'' ex_env 1 7 [] ex_db"
  have a: "fst ?c = (''dnws_abc'', 2)"
    by (simp add: create_workspace_session_def Let_def case_prod_unfold generate_workspace_session_token_def
        WORKSPACE_SESSION_TOKEN_PREFIX_def ex_defs)
  obtain d1 where b: "?c = ((''dnws_abc'', 2), d1)" using a by (cases ?c) auto
  have c: "\<forall>s\<in>set (sessions ex_db). sess_token_hash s \<noteq> id ''dnws_abc''" by (simp add: ex_defs)
  have e: "py_strip ''dnws_abc'' = ''dnws_abc''" by (simp add: py_strip_def py_space_def)
  have f: "now (ex_env\<lparr>now := 1000000001\<rparr>) < now ex_env + seconds (max 60 (s_session_ttl_seconds (cfg ex_env)))"
    by (simp add: ex_defs seconds_def)
  from session_token_round_trip [OF b c e f] b show ?thesis by blast
qed

text \<open>After a bulk revocation no token opens the workspace any more, whoever presents it and whenever.\<close>

theorem revoke_all_closes_workspace:
  "\<exists>m d'. resolve_workspace_session_for_access hash_token E' wid uid token
      (snd (revoke_all_workspace_sessions E wid d)) = Inl (WorkspaceAccessDeniedError m, d')"
proof -
  have a: "\<forall>s\<in>set (revoke_rows wid (now E) (sessions d)). sess_workspace_id s = wid \<longrightarrow> sess_status s \<noteq> SS_ACTIVE"
    by (simp add: revoke_rows_def ball_Un)
  show ?thesis
  proof (cases "first_row (filter (\<lambda>s. sess_token_hash s = hash_token (py_strip token)) (revoke_rows wid (now E) (sessions d)))")
    case None
    then show ?thesis
      by (simp add: resolve_workspace_session_for_access_def Let_def del: first_row_None)
  next
    case (Some s)
    then have "s \<in> set (revoke_rows wid (now E) (sessions d))" using first_row_in [OF Some] by simp
    with a have "sess_workspace_id s \<noteq> wid \<or> sess_status s \<noteq> SS_ACTIVE" by blast
    then show ?thesis using Some
      by (auto simp: resolve_workspace_session_for_access_def Let_def)
  qed
qed

text \<open>The cached session counter after a bulk revocation still shows the sessions that were effective
  before it, although none is effective afterwards: the recount queries rows whose revocation has not
  been flushed.\<close>

theorem revoke_all_leaves_stale_counter:
  assumes "get_ws d wid = Some w" "s \<in> set (sessions d)" "effective_session wid (now E) s"
  defines "d' \<equiv> snd (revoke_all_workspace_sessions E wid d)"
  shows "\<exists>w'. get_ws d' wid = Some w' \<and> 1 \<le> ws_active_sessions_count w'
    \<and> ws_active_sessions_count w' = count_effective_active_sessions d wid (now E)
    \<and> count_effective_active_sessions d' wid (now E) = 0"
proof -
  have act: "\<exists>s\<in>set (sessions d). sess_workspace_id s = wid \<and> sess_status s = SS_ACTIVE"
    using assms by (auto simp: effective_session_def)
  have "count_effective_active_sessions d wid (now E) \<noteq> 0"
    using assms by (auto simp: count_effective_active_sessions_def count_rows_zero)
  then have pos: "1 \<le> count_effective_active_sessions d wid (now E)"
    using count_rows_nonneg [of "effective_session wid (now E)" "sessions d"]
    unfolding count_effective_active_sessions_def by linarith
  show ?thesis
    using assms(1) act pos unfolding d'_def
    by (simp add: get_ws_revoke_all count_effective_active_sessions_def revoke_rows_none_effective)
qed

definition ex_session :: ws_session where
  "ex_session = \<lparr>sess_id = 1, sess_workspace_id = 1, sess_user_id = 7, sess_status = SS_ACTIVE,
     sess_token_hash = ''h'', sess_issued_at = 0, sess_expires_at = 2000000000, sess_last_seen_at = 0,
     sess_client_metadata = [], sess_updated_at = 0\<rparr>"

theorem revoke_all_leaves_stale_counter_witness:
  "\<exists>w'. get_ws (snd (revoke_all_workspace_sessions ex_env 1 (ex_db\<lparr>sessions := [ex_session]\<rparr>))) 1 = Some w'
     \<and> ws_active_sessions_count w' = 1"
  using revoke_all_leaves_stale_counter [of "ex_db\<lparr>sessions := [ex_session]\<rparr>" 1 ex_ws ex_session ex_env]
  by (auto simp: ex_session_def effective_session_def get_ws_def ex_defs count_effective_active_sessions_def count_rows_def)

end
