(* ===== verification/Capacity.thy ===== *)
theory Capacity
  imports Samples
begin

text \<open>
  Node capacity and liveness: the reservation ledger
  (\<^verbatim>\<open>placement_service/capacity.py\<close>), the host disk/memory gate
  (\<^verbatim>\<open>placement_service/host_resource.py\<close>), node heartbeats
  (\<^verbatim>\<open>placement_service/node_heartbeat.py\<close>) and the bootstrap of the local node
  (\<^verbatim>\<open>placement_service/bootstrap.py\<close>).

  The reserved capacity of a node is not stored: it is the sum of the reservations of the runtime
  rows pinned to its key whose workspace still holds a slot. A SQL join on the workspace primary key
  is a lookup.
\<close>

section \<open>Reservations\<close>

text \<open>\<^verbatim>\<open>Workspace.status.not_in(_WORKSPACE_STATUSES_EXCLUDED_FROM_RESERVATION_SUM)\<close>\<close>

definition holds_slot :: "ws_status \<Rightarrow> bool" where
  "holds_slot s = (s \<notin> {WS_STOPPED, WS_DELETED, WS_ERROR})"

definition rt_counts :: "db \<Rightarrow> string \<Rightarrow> runtime \<Rightarrow> bool" where
  "rt_counts d key r =
     (rt_node_id r = Some key \<and> key \<noteq> [] \<and>
      (case get_ws d (rt_workspace_id r) of None \<Rightarrow> False | Some w \<Rightarrow> holds_slot (ws_status w)))"

definition pinned_runtimes :: "db \<Rightarrow> string \<Rightarrow> runtime list" where
  "pinned_runtimes d key = filter (rt_counts d key) (runtimes d)"

definition reserved_cpu_sum :: "db \<Rightarrow> string \<Rightarrow> rat" where
  "reserved_cpu_sum d key = sum_list (map rt_reserved_cpu (pinned_runtimes d key))"

definition reserved_memory_sum :: "db \<Rightarrow> string \<Rightarrow> int" where
  "reserved_memory_sum d key = sum_list (map rt_reserved_memory_mb (pinned_runtimes d key))"

definition reserved_disk_sum :: "db \<Rightarrow> string \<Rightarrow> int" where
  "reserved_disk_sum d key = sum_list (map rt_reserved_disk_mb (pinned_runtimes d key))"

definition effective_free_cpu :: "db \<Rightarrow> node \<Rightarrow> rat" where
  "effective_free_cpu d n = node_allocatable_cpu n - reserved_cpu_sum d (node_key n)"

definition effective_free_memory_mb :: "db \<Rightarrow> node \<Rightarrow> int" where
  "effective_free_memory_mb d n = node_allocatable_memory_mb n - reserved_memory_sum d (node_key n)"

definition effective_free_disk_mb :: "db \<Rightarrow> node \<Rightarrow> int" where
  "effective_free_disk_mb d n = node_allocatable_disk_mb n - reserved_disk_sum d (node_key n)"

definition total_reserved_on_node_key :: "db \<Rightarrow> string \<Rightarrow> rat \<times> int" where
  "total_reserved_on_node_key d key0 =
     (let key = py_strip key0 in
      if key = [] then (0, 0)
      else (max 0 (reserved_cpu_sum d key), max 0 (reserved_memory_sum d key)))"

definition total_reserved_disk_mb_on_node_key :: "db \<Rightarrow> string \<Rightarrow> int" where
  "total_reserved_disk_mb_on_node_key d key0 =
     (let key = py_strip key0 in if key = [] then 0 else max 0 (reserved_disk_sum d key))"

definition active_workload_count :: "db \<Rightarrow> string \<Rightarrow> int" where
  "active_workload_count d key = count_rows (rt_counts d key) (runtimes d)"

definition count_active_workloads_on_node_key :: "db \<Rightarrow> string \<Rightarrow> int" where
  "count_active_workloads_on_node_key d key0 =
     (let key = py_strip key0 in if key = [] then 0 else active_workload_count d key)"

definition workspace_slot_claim_count :: "db \<Rightarrow> int \<Rightarrow> int" where
  "workspace_slot_claim_count d node_id =
     count_rows (\<lambda>w. ws_execution_node_id w = Some node_id \<and> holds_slot (ws_status w)) (workspaces d)"

definition count_workspace_slot_claims_on_node_id :: "db \<Rightarrow> int option \<Rightarrow> int" where
  "count_workspace_slot_claims_on_node_id d node_id =
     (case node_id of None \<Rightarrow> 0 | Some i \<Rightarrow> workspace_slot_claim_count d i)"

definition max_effective_free_resources_across_schedulable :: "db \<Rightarrow> (node \<Rightarrow> bool) \<Rightarrow> rat \<times> int" where
  "max_effective_free_resources_across_schedulable d base =
     foldl (\<lambda>(best_cpu, best_mem) n.
         let k = py_strip (node_key n) in
         if k = [] then (best_cpu, best_mem)
         else let (used_cpu, used_mem) = total_reserved_on_node_key d k
              in (max best_cpu (max 0 (node_allocatable_cpu n - used_cpu)),
                  max best_mem (max 0 (node_allocatable_memory_mb n - used_mem))))
       (0, 0) (filter base (nodes d))"

definition max_effective_free_cpu_across_schedulable :: "db \<Rightarrow> (node \<Rightarrow> bool) \<Rightarrow> rat" where
  "max_effective_free_cpu_across_schedulable d base =
     fst (max_effective_free_resources_across_schedulable d base)"

section \<open>Host resource gate\<close>

definition resource_stale_cutoff_utc :: "env \<Rightarrow> time" where
  "resource_stale_cutoff_utc E =
     (let interval = max 10 (s_resource_check_interval_seconds (cfg E));
          stale = max (interval * 3) (interval + 120)
      in now E - seconds stale)"

text \<open>The SQL predicate added to placement; \<open>True\<close> when the monitor is off.\<close>

definition ec2_host_resource_ok :: "env \<Rightarrow> node \<Rightarrow> bool" where
  "ec2_host_resource_ok E n =
     (\<not> s_resource_monitor_enabled (cfg E) \<or>
      node_provider_type n \<noteq> PT_EC2 \<or>
      ((case node_disk_free_mb n of None \<Rightarrow> False | Some v \<Rightarrow> v \<ge> s_min_free_disk_mb (cfg E)) \<and>
       (case node_memory_free_mb n of None \<Rightarrow> False | Some v \<Rightarrow> v \<ge> s_min_free_memory_mb (cfg E)) \<and>
       (case node_last_resource_check_at n of None \<Rightarrow> False | Some t \<Rightarrow> t \<ge> resource_stale_cutoff_utc E) \<and>
       (case node_resource_status n of None \<Rightarrow> True | Some s \<Rightarrow> s \<notin> {RS_LOW_DISK, RS_LOW_MEMORY})))"

definition ec2_node_host_resource_failure_reason :: "env \<Rightarrow> node \<Rightarrow> string option" where
  "ec2_node_host_resource_failure_reason E n =
     (if \<not> s_resource_monitor_enabled (cfg E) then None
      else if node_provider_type n \<noteq> PT_EC2 then None
      else if node_resource_status n = Some RS_LOW_DISK \<or> node_resource_status n = Some RS_LOW_MEMORY
        then Some ''resource_status''
      else case node_last_resource_check_at n of
        None \<Rightarrow> Some ''no_check''
      | Some ts \<Rightarrow>
          if ts < resource_stale_cutoff_utc E then Some ''stale_check''
          else case (node_disk_free_mb n, node_memory_free_mb n) of
            (Some df, Some mf) \<Rightarrow>
              if df < s_min_free_disk_mb (cfg E) then Some ''low_disk''
              else if mf < s_min_free_memory_mb (cfg E) then Some ''low_memory''
              else None
          | _ \<Rightarrow> Some ''missing_telemetry'')"

text \<open>\<^verbatim>\<open>str.splitlines()\<close> on the line boundaries of the 8-bit range, with CR LF as one boundary.\<close>

definition line_break :: "char \<Rightarrow> bool" where
  "line_break c = ((of_char c :: nat) \<in> {10, 11, 12, 13, 28, 29, 30, 133})"

fun splitlines :: "string \<Rightarrow> string list" where
  "splitlines [] = []"
| "splitlines [c] = (if line_break c then [[]] else [[c]])"
| "splitlines (c # c' # s) =
     (if (of_char c :: nat) = 13 \<and> (of_char c' :: nat) = 10 then [] # splitlines s
      else if line_break c then [] # splitlines (c' # s)
      else case splitlines (c' # s) of [] \<Rightarrow> [[c]]
        | l # ls \<Rightarrow> (if line_break c' then [c] # splitlines (c' # s) else (c # l) # ls))"

definition safe_pos_int :: "string \<Rightarrow> int option" where
  "safe_pos_int raw = (case parse_int raw of None \<Rightarrow> None | Some n \<Rightarrow> if n \<ge> 0 then Some n else None)"

record host_probe =
  hp_disk_total_mb :: "int option"
  hp_disk_free_mb :: "int option"
  hp_memory_total_mb :: "int option"
  hp_memory_free_mb :: "int option"
  hp_docker_system_df :: "string option"

definition parse_probe_line :: "string \<Rightarrow> host_probe \<Rightarrow> host_probe" where
  "parse_probe_line line0 out =
     (let line = py_strip line0 in
      if CHR ''='' \<notin> set line \<or> \<not> starts_with ''DEVNEST_'' line then out
      else let key = py_strip (takeWhile (\<lambda>c. c \<noteq> CHR ''='') line);
               val = py_strip (tl (dropWhile (\<lambda>c. c \<noteq> CHR ''='') line))
           in if key = ''DEVNEST_DISK_TOTAL_MB'' then out\<lparr>hp_disk_total_mb := safe_pos_int val\<rparr>
              else if key = ''DEVNEST_DISK_FREE_MB'' then out\<lparr>hp_disk_free_mb := safe_pos_int val\<rparr>
              else if key = ''DEVNEST_MEMORY_TOTAL_MB'' then out\<lparr>hp_memory_total_mb := safe_pos_int val\<rparr>
              else if key = ''DEVNEST_MEMORY_FREE_MB'' then out\<lparr>hp_memory_free_mb := safe_pos_int val\<rparr>
              else if key = ''DEVNEST_DOCKER_SYSTEM_DF'' then
                out\<lparr>hp_docker_system_df := (if val = [] then None else Some (take 512 val))\<rparr>
              else out)"

definition parse_host_resource_ssm_stdout :: "string \<Rightarrow> host_probe" where
  "parse_host_resource_ssm_stdout stdout =
     fold parse_probe_line (splitlines stdout)
       \<lparr>hp_disk_total_mb = None, hp_disk_free_mb = None, hp_memory_total_mb = None,
        hp_memory_free_mb = None, hp_docker_system_df = None\<rparr>"

section \<open>Heartbeats\<close>

text \<open>\<^verbatim>\<open>int(getattr(s, "devnest_node_heartbeat_max_age_seconds", 300) or 300)\<close>\<close>

definition heartbeat_max_age :: "env \<Rightarrow> int" where
  "heartbeat_max_age E = (let a = s_heartbeat_max_age_seconds (cfg E) in if a = 0 then 300 else a)"

definition heartbeat_fresh :: "env \<Rightarrow> node \<Rightarrow> bool" where
  "heartbeat_fresh E n =
     (case node_last_heartbeat_at n of None \<Rightarrow> False | Some t \<Rightarrow> t \<ge> now E - seconds (heartbeat_max_age E))"

definition heartbeat_gate_ok :: "env \<Rightarrow> node \<Rightarrow> bool" where
  "heartbeat_gate_ok E n = (\<not> s_require_fresh_heartbeat (cfg E) \<or> heartbeat_fresh E n)"

definition execution_node_heartbeat_age_seconds :: "env \<Rightarrow> node option \<Rightarrow> int option" where
  "execution_node_heartbeat_age_seconds E n =
     (case n of None \<Rightarrow> None | Some nd \<Rightarrow>
        (case node_last_heartbeat_at nd of None \<Rightarrow> None
         | Some ts \<Rightarrow> Some (max 0 ((now E - ts) div 1000000))))"

definition merge_heartbeat_metadata :: "jobj \<Rightarrow> jobj \<Rightarrow> jobj" where
  "merge_heartbeat_metadata existing payload =
     (let hb = (case jget existing ''heartbeat'' of JObj h \<Rightarrow> h | _ \<Rightarrow> [])
      in jset existing ''heartbeat'' (JObj (fold (\<lambda>(k, v) h. jset h k v) payload hb)))"

definition find_node_by_key :: "db \<Rightarrow> string \<Rightarrow> node option" where
  "find_node_by_key d key = first_row (filter (\<lambda>n. node_key n = key) (nodes d))"

definition record_execution_node_heartbeat ::
  "env \<Rightarrow> string option \<Rightarrow> int option \<Rightarrow> bool \<Rightarrow> int \<Rightarrow> int \<Rightarrow> string \<Rightarrow> db \<Rightarrow> node result" where
  "record_execution_node_heartbeat E key_opt id_opt docker_ok disk_free slots version d =
     (let found = (case id_opt of
           Some i \<Rightarrow> (case get_node d i of None \<Rightarrow> Inl (''execution node id='' @ str_int i @ '' not found'') | Some n \<Rightarrow> Inr n)
         | None \<Rightarrow> (case strip_or_none key_opt of
               None \<Rightarrow> Inl ''node_key or execution_node_id is required''
             | Some k \<Rightarrow> (case find_node_by_key d k of None \<Rightarrow> Inl (''execution node key='' @ py_repr k @ '' not found'') | Some n \<Rightarrow> Inr n)))
      in case found of
           Inl msg \<Rightarrow> Inl (ExecutionNodeNotFoundError msg, d)
         | Inr row \<Rightarrow>
             let payload = [(''received_at'', JStr (str_iso E (now E))), (''docker_ok'', JBool docker_ok),
                   (''disk_free_mb'', JInt (max 0 disk_free)), (''slots_in_use'', JInt (max 0 slots)),
                   (''version'', JStr (take 128 version))];
                 row1 = row\<lparr>node_last_heartbeat_at := Some (now E), node_updated_at := now E,
                            node_metadata := merge_heartbeat_metadata (node_metadata row) payload\<rparr>;
                 row2 = (if docker_ok
                   then row1\<lparr>node_last_error_code := None, node_last_error_message := None,
                             node_status := (if node_schedulable row \<and> node_status row = NS_NOT_READY
                                             then NS_READY else node_status row)\<rparr>
                   else row1\<lparr>node_last_error_code := Some ''DOCKER_UNREACHABLE'',
                             node_last_error_message := Some ''Heartbeat reported docker_ok=false''\<rparr>)
             in Inr (row2, put_node row2 d))"

text \<open>\<open>placement_service/node_placement.py\<close>: the liveness hook.\<close>

definition touch_node_heartbeat :: "env \<Rightarrow> node \<Rightarrow> db \<Rightarrow> db" where
  "touch_node_heartbeat E n d =
     put_node (n\<lparr>node_last_heartbeat_at := Some (now E), node_updated_at := now E\<rparr>) d"

section \<open>Bootstrap of the local node\<close>

definition default_local_node_key :: "env \<Rightarrow> string" where
  "default_local_node_key E =
     (let raw = (case os_node_id E of None \<Rightarrow> ''node-1'' | Some s \<Rightarrow> if s = [] then ''node-1'' else s);
          k = py_strip raw
      in if k = [] then ''node-1'' else k)"

definition system_default_topology_id :: int where
  "system_default_topology_id = 1"

definition is_development_env :: "env \<Rightarrow> bool" where
  "is_development_env E =
     (let v = s_devnest_env (cfg E)
      in py_lower (py_strip (if v = [] then ''development'' else v)) = ''development'')"

definition ensure_topology_row_for_local_dev :: "env \<Rightarrow> int \<Rightarrow> db \<Rightarrow> db" where
  "ensure_topology_row_for_local_dev E tid d =
     (if \<not> is_development_env E then d
      else if get_topology d tid = None
      then d\<lparr>topologies := topologies d @
             [\<lparr>topo_id = tid, topo_name = ''dev-local-topology-'' @ str_int tid, topo_version = ''v1''\<rparr>]\<rparr>
      else d)"

definition ensure_execution_node_default_topology :: "env \<Rightarrow> node \<Rightarrow> db \<Rightarrow> node \<times> bool \<times> db" where
  "ensure_execution_node_default_topology E n d =
     (case node_default_topology_id n of
        Some _ \<Rightarrow> (n, False, d)
      | None \<Rightarrow>
          let n' = n\<lparr>node_default_topology_id := Some system_default_topology_id\<rparr>
          in (n', True, ensure_topology_row_for_local_dev E system_default_topology_id (put_node n' d)))"

definition ensure_default_local_execution_node :: "env \<Rightarrow> db \<Rightarrow> node \<times> db" where
  "ensure_default_local_execution_node E d =
     (let key = default_local_node_key E in
      case find_node_by_key d key of
        Some existing \<Rightarrow>
          let (n1, _, d1) = ensure_execution_node_default_topology E existing d;
              n2 = (if node_max_workspaces n1 \<le> 0 then n1\<lparr>node_max_workspaces := 32\<rparr> else n1);
              n3 = (if node_allocatable_disk_mb n2 \<le> 0 then n2\<lparr>node_allocatable_disk_mb := 102400\<rparr> else n2);
              d2 = put_node n3 d1
          in (n3, (case node_default_topology_id n3 of None \<Rightarrow> d2
                   | Some t \<Rightarrow> ensure_topology_row_for_local_dev E t d2))
      | None \<Rightarrow>
          let url = s_database_url (cfg E);
              hint = (if url = [] then [] else hd (split_on (CHR ''/'') (last (split_on (CHR ''@'') url))));
              row = \<lparr>node_pk = 0, node_key = key, node_name = ''local-'' @ key,
                node_provider_type = PT_LOCAL, node_provider_instance_id = None,
                node_hostname = Some ''localhost'', node_private_ip = None,
                node_execution_mode = EM_LOCAL_DOCKER, node_ssh_host = None, node_status = NS_READY,
                node_schedulable = True, node_total_cpu = 4, node_total_memory_mb = 8192,
                node_allocatable_cpu = 4, node_allocatable_memory_mb = 8192, node_max_workspaces = 32,
                node_allocatable_disk_mb = 102400,
                node_metadata = [(''bootstrap'', JStr ''local_v1''),
                                 (''db_host_hint'', jopt JStr (none_if_empty hint))],
                node_default_topology_id = Some system_default_topology_id,
                node_last_heartbeat_at = None, node_last_error_code = None, node_last_error_message = None,
                node_created_at = now E, node_updated_at = now E, node_disk_total_mb = None,
                node_disk_free_mb = None, node_memory_total_mb = None, node_memory_free_mb = None,
                node_last_resource_check_at = None, node_resource_status = None,
                node_resource_warning = None, node_region = None, node_availability_zone = None,
                node_instance_type = None, node_public_ip = None, node_iam_instance_profile_name = None,
                node_ssh_user = None, node_last_synced_at = None\<rparr>;
              (pk, d1) = add_node row d
          in (row\<lparr>node_pk := pk\<rparr>, ensure_topology_row_for_local_dev E system_default_topology_id d1))"

section \<open>Lemmas\<close>

lemma reserved_nonneg:
  assumes "\<forall>r\<in>set (runtimes d). 0 \<le> rt_reserved_cpu r \<and> 0 \<le> rt_reserved_memory_mb r \<and> 0 \<le> rt_reserved_disk_mb r"
  shows "0 \<le> reserved_cpu_sum d k" "0 \<le> reserved_memory_sum d k" "0 \<le> reserved_disk_sum d k"
  using assms by (auto simp: reserved_cpu_sum_def reserved_memory_sum_def reserved_disk_sum_def
      pinned_runtimes_def intro!: sum_list_nonneg)

lemma ec2_gate_agrees:
  "ec2_host_resource_ok E n \<longleftrightarrow> ec2_node_host_resource_failure_reason E n = None"
  by (auto simp: ec2_host_resource_ok_def ec2_node_host_resource_failure_reason_def not_less not_le
      split: option.splits)

lemma heartbeat_sets_fresh:
  assumes "record_execution_node_heartbeat E k i ok dsk sl v d = Inr (n, d')" "0 \<le> heartbeat_max_age E"
  shows "heartbeat_fresh E n"
proof -
  have "node_last_heartbeat_at n = Some (now E)"
    using assms(1) by (auto simp: record_execution_node_heartbeat_def Let_def split: sum.splits if_splits)
  then show ?thesis using assms(2) by (simp add: heartbeat_fresh_def seconds_def)
qed

end
