(* ===== verification/Placement.thy ===== *)
theory Placement
  imports Capacity "HOL-Library.Multiset"
begin

text \<open>
  Node selection: the SQL placement of \<^verbatim>\<open>placement_service/node_placement.py\<close> and the Python
  ranking of \<^verbatim>\<open>scheduler_service/policy.py\<close> and \<^verbatim>\<open>scheduler_service/service.py\<close>.
  \<^verbatim>\<open>WHERE\<close> clauses are predicates on a node, \<^verbatim>\<open>ORDER BY\<close> lists are tuple keys of a stable sort.
  Exception texts keep the fixed leading phrase; the interpolated diagnostics are left out. CPU amounts are exact
  rationals where the code and the database add floats, and node keys are compared by code points, as a database with
  the C collation does.
\<close>

record compute_request =
  req_cpu :: rat
  req_memory_mb :: int
  req_disk_mb :: int
  req_slots :: int

section \<open>The placement pool\<close>

definition provider_type_ok :: "env \<Rightarrow> node \<Rightarrow> bool" where
  "provider_type_ok E n =
     (let raw = s_node_provider (cfg E);
          mode = py_lower (py_strip (if raw = [] then ''all'' else raw))
      in if mode = ''local'' then node_provider_type n \<in> {PT_LOCAL, PT_UNSPECIFIED}
         else if mode = ''ec2'' then node_provider_type n = PT_EC2
         else True)"

definition ready_schedulable :: "env \<Rightarrow> node \<Rightarrow> bool" where
  "ready_schedulable E n = (node_schedulable n \<and> node_status n = NS_READY \<and> provider_type_ok E n)"

definition min_ready_id :: "env \<Rightarrow> db \<Rightarrow> int option" where
  "min_ready_id E d = (case filter (ready_schedulable E) (nodes d) of
      [] \<Rightarrow> None | n # ns \<Rightarrow> Some (fold min (map node_pk ns) (node_pk n)))"

definition single_node_primary_ok :: "env \<Rightarrow> db \<Rightarrow> node \<Rightarrow> bool" where
  "single_node_primary_ok E d n =
     (s_multi_node_scheduling (cfg E) \<or> min_ready_id E d = Some (node_pk n))"

definition schedulable_base :: "env \<Rightarrow> db \<Rightarrow> node \<Rightarrow> bool" where
  "schedulable_base E d n =
     (ready_schedulable E n \<and> single_node_primary_ok E d n \<and> ec2_host_resource_ok E n)"

definition count_ready_schedulable_nodes :: "env \<Rightarrow> db \<Rightarrow> int" where
  "count_ready_schedulable_nodes E d = count_rows (schedulable_base E d) (nodes d)"

definition list_schedulable_nodes :: "env \<Rightarrow> db \<Rightarrow> node list" where
  "list_schedulable_nodes E d = sort_key node_key (filter (schedulable_base E d) (nodes d))"

text \<open>\<^verbatim>\<open>get_node\<close> of \<open>node_placement.py\<close>\<close>

definition lookup_node :: "db \<Rightarrow> int option \<Rightarrow> string option \<Rightarrow> node result" where
  "lookup_node d id_opt key_opt =
     (case id_opt of
        Some i \<Rightarrow> (case get_node d i of
            None \<Rightarrow> Inl (ExecutionNodeNotFoundError (''execution node id='' @ str_int i @ '' not found''), d)
          | Some n \<Rightarrow> Inr (n, d))
      | None \<Rightarrow> (case strip_or_none key_opt of
            None \<Rightarrow> Inl (ExecutionNodeNotFoundError ''node_id or node_key is required'', d)
          | Some k \<Rightarrow> (case find_node_by_key d k of
                None \<Rightarrow> Inl (ExecutionNodeNotFoundError (''execution node key='' @ py_repr k @ '' not found''), d)
              | Some n \<Rightarrow> Inr (n, d))))"

section \<open>SQL selection\<close>

definition assign_missing_default_topology :: "env \<Rightarrow> db \<Rightarrow> db" where
  "assign_missing_default_topology E d =
     fold (\<lambda>n d'. snd (snd (ensure_execution_node_default_topology E n d')))
       (filter (\<lambda>n. node_status n = NS_READY \<and> node_schedulable n \<and> node_default_topology_id n = None) (nodes d)) d"

definition effective_request :: "env \<Rightarrow> rat option \<Rightarrow> int option \<Rightarrow> int option \<Rightarrow> int option \<Rightarrow> compute_request" where
  "effective_request E cpu mem disk slots =
     \<lparr>req_cpu = (case cpu of None \<Rightarrow> s_required_cpu (cfg E) | Some c \<Rightarrow> c),
      req_memory_mb = (case mem of None \<Rightarrow> s_required_memory_mb (cfg E) | Some m \<Rightarrow> m),
      req_disk_mb = (case disk of None \<Rightarrow> s_required_disk_mb (cfg E) | Some m \<Rightarrow> m),
      req_slots = (case slots of None \<Rightarrow> s_required_slots (cfg E) | Some m \<Rightarrow> m)\<rparr>"

definition node_fits :: "db \<Rightarrow> compute_request \<Rightarrow> node \<Rightarrow> bool" where
  "node_fits d r n =
     (effective_free_cpu d n \<ge> req_cpu r \<and>
      effective_free_memory_mb d n \<ge> req_memory_mb r \<and>
      effective_free_disk_mb d n \<ge> req_disk_mb r \<and>
      workspace_slot_claim_count d (node_pk n) \<le> node_max_workspaces n - req_slots r \<and>
      active_workload_count d (node_key n) \<le> node_max_workspaces n - req_slots r)"

definition packing_order :: "db \<Rightarrow> compute_request \<Rightarrow> node \<Rightarrow> rat \<times> int \<times> int \<times> int \<times> string" where
  "packing_order d r n =
     (effective_free_cpu d n - req_cpu r,
      effective_free_memory_mb d n - req_memory_mb r,
      effective_free_disk_mb d n - req_disk_mb r,
      - active_workload_count d (node_key n),
      node_key n)"

definition placement_candidates :: "env \<Rightarrow> db \<Rightarrow> compute_request \<Rightarrow> node list" where
  "placement_candidates E d r =
     filter (\<lambda>n. schedulable_base E d n \<and> heartbeat_gate_ok E n \<and> node_fits d r n) (nodes d)"

definition select_node_for_workspace ::
  "env \<Rightarrow> int \<Rightarrow> rat option \<Rightarrow> int option \<Rightarrow> int option \<Rightarrow> int option \<Rightarrow> db \<Rightarrow> node result" where
  "select_node_for_workspace E wid cpu mem disk slots d =
     (let d1 = assign_missing_default_topology E d;
          r = effective_request E cpu mem disk slots
      in if req_cpu r \<le> 0 \<or> req_memory_mb r \<le> 0 \<or> req_disk_mb r \<le> 0 \<or> req_slots r \<le> 0
         then Inl (InvalidPlacementParametersError
                ''placement requires positive requested_cpu, requested_memory_mb, requested_disk_mb, and requested_slots'', d1)
         else case first_row (sort_key (packing_order d1 r) (placement_candidates E d1 r)) of
             None \<Rightarrow> Inl (NoSchedulableNodeError ''no execution node matches placement policy'', d1)
           | Some n \<Rightarrow> Inr (n, d1))"

text \<open>\<^verbatim>\<open>reserve_node_for_workspace\<close> adds \<^verbatim>\<open>FOR UPDATE\<close>: the row lock serialises placements of
  concurrent transactions, which here are already sequential.\<close>

definition reserve_node_for_workspace ::
  "env \<Rightarrow> int \<Rightarrow> rat option \<Rightarrow> int option \<Rightarrow> int option \<Rightarrow> int option \<Rightarrow> db \<Rightarrow> node result" where
  "reserve_node_for_workspace E wid cpu mem disk slots d = select_node_for_workspace E wid cpu mem disk slots d"

section \<open>Python ranking\<close>

definition scheduling_sort_key_spread :: "rat \<Rightarrow> int \<Rightarrow> int \<Rightarrow> string \<Rightarrow> rat \<times> int \<times> int \<times> string" where
  "scheduling_sort_key_spread free_cpu free_mem workload_count key = (- free_cpu, - free_mem, workload_count, py_strip key)"

definition scheduling_sort_key_packing ::
  "rat \<Rightarrow> int \<Rightarrow> int \<Rightarrow> int \<Rightarrow> compute_request \<Rightarrow> string \<Rightarrow> rat \<times> int \<times> int \<times> int \<times> string" where
  "scheduling_sort_key_packing free_cpu free_mem free_disk workload_count r key =
     (py_round 6 (free_cpu - req_cpu r), free_mem - req_memory_mb r, free_disk - req_disk_mb r,
      - workload_count, py_strip key)"

definition can_fit_workspace_effective :: "rat \<Rightarrow> int \<Rightarrow> int \<Rightarrow> compute_request \<Rightarrow> bool" where
  "can_fit_workspace_effective free_cpu free_mem free_disk r =
     (\<not> free_cpu < req_cpu r \<and> \<not> free_mem < req_memory_mb r \<and> \<not> free_disk < req_disk_mb r)"

definition can_fit_workspace :: "node \<Rightarrow> compute_request \<Rightarrow> bool" where
  "can_fit_workspace n r =
     (\<not> node_allocatable_cpu n < req_cpu r \<and> \<not> node_allocatable_memory_mb n < req_memory_mb r \<and>
      \<not> node_allocatable_disk_mb n < req_disk_mb r \<and> \<not> node_max_workspaces n \<le> 0)"

definition is_v1_scheduling_candidate :: "node \<Rightarrow> bool" where
  "is_v1_scheduling_candidate n = (node_schedulable n \<and> node_status n = NS_READY)"

definition free_cpu_py :: "db \<Rightarrow> node \<Rightarrow> rat" where
  "free_cpu_py d n = max 0 (node_allocatable_cpu n - fst (total_reserved_on_node_key d (py_strip (node_key n))))"

definition free_mem_py :: "db \<Rightarrow> node \<Rightarrow> int" where
  "free_mem_py d n = max 0 (node_allocatable_memory_mb n - snd (total_reserved_on_node_key d (py_strip (node_key n))))"

definition free_disk_py :: "db \<Rightarrow> node \<Rightarrow> int" where
  "free_disk_py d n = max 0 (node_allocatable_disk_mb n - total_reserved_disk_mb_on_node_key d (py_strip (node_key n)))"

definition rank_key :: "db \<Rightarrow> compute_request \<Rightarrow> node \<Rightarrow> rat \<times> int \<times> int \<times> int \<times> string" where
  "rank_key d r n =
     scheduling_sort_key_packing (free_cpu_py d n) (free_mem_py d n) (free_disk_py d n)
       (count_active_workloads_on_node_key d (py_strip (node_key n))) r (py_strip (node_key n))"

definition rank_keeps :: "db \<Rightarrow> compute_request \<Rightarrow> node \<Rightarrow> bool" where
  "rank_keeps d r n =
     (let wcount = count_active_workloads_on_node_key d (py_strip (node_key n));
          slot_claims = count_workspace_slot_claims_on_node_id d (Some (node_pk n));
          free_slots = max 0 (node_max_workspaces n - max wcount slot_claims)
      in is_v1_scheduling_candidate n \<and>
         can_fit_workspace_effective (free_cpu_py d n) (free_mem_py d n) (free_disk_py d n) r \<and>
         \<not> free_slots < req_slots r)"

definition rank_candidate_nodes :: "db \<Rightarrow> node list \<Rightarrow> compute_request \<Rightarrow> node list" where
  "rank_candidate_nodes d ns r = sort_key (rank_key d r) (filter (rank_keeps d r) ns)"

section \<open>Scheduling a workspace\<close>

record schedule_result =
  sched_node :: "node option"
  sched_insufficient :: bool
  sched_invalid :: bool
  sched_message :: string

fun error_text :: "error \<Rightarrow> string" where
  "error_text (WorkspaceNotFoundError s) = s"
| "error_text (WorkspaceBusyError s) = s"
| "error_text (WorkspaceInvalidStateError s) = s"
| "error_text (WorkspaceGatewayUnavailableError s) = s"
| "error_text (WorkspaceAccessDeniedError s) = s"
| "error_text (SnapshotNotFoundError s) = s"
| "error_text (SnapshotConflictError s) = s"
| "error_text (WorkspaceSchedulingInvalidError s) = s"
| "error_text (WorkspaceOperatorPinnedDisabledError s) = s"
| "error_text (WorkspaceOperatorPinnedNotAllowlistedError s) = s"
| "error_text (WorkspaceOperatorPinnedNodeInvalidError s) = s"
| "error_text (NoSchedulableNodeError s) = s"
| "error_text (ExecutionNodeNotFoundError s) = s"
| "error_text (InvalidPlacementParametersError s) = s"
| "error_text (AuthoritativePlacementError s) = s"
| "error_text (AppOrchestratorBindingError s) = s"
| "error_text (ValueError s) = s"
| "error_text (AttributeError s) = s"
| "error_text _ = []"

text \<open>Other exceptions of the selection would propagate; it raises only these two.\<close>

definition schedule_workspace ::
  "env \<Rightarrow> int \<Rightarrow> rat option \<Rightarrow> int option \<Rightarrow> int option \<Rightarrow> db \<Rightarrow> schedule_result \<times> db" where
  "schedule_workspace E wid cpu mem disk d =
     (let r = effective_request E cpu mem disk None in
      case reserve_node_for_workspace E wid (Some (req_cpu r)) (Some (req_memory_mb r)) (Some (req_disk_mb r)) None d of
        Inr (n, d1) \<Rightarrow> (\<lparr>sched_node = Some n, sched_insufficient = False, sched_invalid = False, sched_message = ''ok''\<rparr>, d1)
      | Inl (InvalidPlacementParametersError m, d1) \<Rightarrow>
          (\<lparr>sched_node = None, sched_insufficient = False, sched_invalid = True, sched_message = m\<rparr>, d1)
      | Inl (e, d1) \<Rightarrow>
          (\<lparr>sched_node = None, sched_insufficient = True, sched_invalid = False, sched_message = error_text e\<rparr>, d1))"

section \<open>Lemmas on selection\<close>

lemma first_sorted_least:
  fixes f :: "'a \<Rightarrow> 'b::linorder"
  assumes "first_row (sort_key f xs) = Some x"
  shows "x \<in> set xs" "\<forall>y\<in>set xs. f x \<le> f y"
proof -
  obtain ys where s: "sort_key f xs = x # ys" using assms by (cases "sort_key f xs") auto
  have "sorted (map f (x # ys))" by (metis s sorted_sort_key)
  moreover have "set xs = set (x # ys)" by (metis s set_sort)
  ultimately show "x \<in> set xs" "\<forall>y\<in>set xs. f x \<le> f y" by auto
qed

lemma sort_key_perm_inj:
  fixes f :: "'a \<Rightarrow> 'b::linorder"
  assumes "distinct xs" "distinct ys" "set xs = set ys" "inj_on f (set xs)"
  shows "sort_key f xs = sort_key f ys"
proof (rule properties_for_sort_key [symmetric, where f = f and xs = ys])
  show "mset (sort_key f xs) = mset ys"
    using assms by (simp add: set_eq_iff_mset_eq_distinct [symmetric])
  show "sorted (map f (sort_key f xs))" by simp
  fix k assume "k \<in> set (sort_key f xs)"
  have one: "filter (\<lambda>x. f k = f x) zs = filter (\<lambda>x. k = x) zs" if "set zs = set xs" for zs
    using that assms(4) \<open>k \<in> set (sort_key f xs)\<close> by (auto simp: inj_on_def intro!: filter_cong)
  have single: "filter (\<lambda>x. k = x) zs = [k]" if "distinct zs" "k \<in> set zs" for zs
    using that by (induction zs) (auto simp: filter_empty_conv)
  show "filter (\<lambda>x. f k = f x) (sort_key f xs) = filter (\<lambda>x. f k = f x) ys"
    using assms \<open>k \<in> set (sort_key f xs)\<close> by (simp add: one single)
qed

lemma select_node_cases:
  assumes "select_node_for_workspace E wid cpu mem disk slots d = Inr (n, d')"
  defines "r \<equiv> effective_request E cpu mem disk slots"
  shows "d' = assign_missing_default_topology E d" "n \<in> set (nodes d')" "schedulable_base E d' n"
    "heartbeat_gate_ok E n" "node_fits d' r n"
    "\<forall>m\<in>set (placement_candidates E d' r). packing_order d' r n \<le> packing_order d' r m"
    "0 < req_cpu r" "0 < req_memory_mb r" "0 < req_disk_mb r" "0 < req_slots r"
proof -
  let ?d = "assign_missing_default_topology E d"
  have pos: "0 < req_cpu r" "0 < req_memory_mb r" "0 < req_disk_mb r" "0 < req_slots r" and
    f: "first_row (sort_key (packing_order ?d r) (placement_candidates E ?d r)) = Some n" and d': "d' = ?d"
    using assms(1) unfolding select_node_for_workspace_def Let_def r_def [symmetric]
    by (auto split: if_splits option.splits)
  show "d' = ?d" by (rule d')
  have mem: "n \<in> set (placement_candidates E d' r)" using first_sorted_least(1) [OF f] d' by simp
  then show "n \<in> set (nodes d')" "schedulable_base E d' n" "heartbeat_gate_ok E n" "node_fits d' r n"
    by (simp_all add: placement_candidates_def)
  show "\<forall>m\<in>set (placement_candidates E d' r). packing_order d' r n \<le> packing_order d' r m"
    using first_sorted_least(2) [OF f] d' by simp
  show "0 < req_cpu r" "0 < req_memory_mb r" "0 < req_disk_mb r" "0 < req_slots r" by (fact pos)+
qed

text \<open>Assigning default topologies touches only the topology column of nodes and the topology catalog.\<close>

lemma ensure_topology_frame [simp]:
  "workspaces (ensure_topology_row_for_local_dev E t d) = workspaces d"
  "configs (ensure_topology_row_for_local_dev E t d) = configs d"
  "jobs (ensure_topology_row_for_local_dev E t d) = jobs d"
  "runtimes (ensure_topology_row_for_local_dev E t d) = runtimes d"
  "sessions (ensure_topology_row_for_local_dev E t d) = sessions d"
  "snapshots (ensure_topology_row_for_local_dev E t d) = snapshots d"
  "cleanups (ensure_topology_row_for_local_dev E t d) = cleanups d"
  "events (ensure_topology_row_for_local_dev E t d) = events d"
  "audits (ensure_topology_row_for_local_dev E t d) = audits d"
  "usages (ensure_topology_row_for_local_dev E t d) = usages d"
  "nodes (ensure_topology_row_for_local_dev E t d) = nodes d"
  "quotas (ensure_topology_row_for_local_dev E t d) = quotas d"
  "policies (ensure_topology_row_for_local_dev E t d) = policies d"
  "users (ensure_topology_row_for_local_dev E t d) = users d"
  "secrets (ensure_topology_row_for_local_dev E t d) = secrets d"
  "seqs (ensure_topology_row_for_local_dev E t d) = seqs d"
  by (simp_all add: ensure_topology_row_for_local_dev_def)

definition same_but_nodes :: "db \<Rightarrow> db \<Rightarrow> bool" where
  "same_but_nodes d d' =
     (workspaces d' = workspaces d \<and> configs d' = configs d \<and> jobs d' = jobs d \<and> runtimes d' = runtimes d \<and>
      sessions d' = sessions d \<and> snapshots d' = snapshots d \<and> cleanups d' = cleanups d \<and>
      events d' = events d \<and> audits d' = audits d \<and> usages d' = usages d \<and> quotas d' = quotas d \<and>
      policies d' = policies d \<and> users d' = users d \<and> secrets d' = secrets d \<and> seqs d' = seqs d \<and>
      map node_pk (nodes d') = map node_pk (nodes d))"

lemma same_but_nodes_refl [simp]: "same_but_nodes d d"
  by (simp add: same_but_nodes_def)

lemma same_but_nodes_trans: "same_but_nodes a b \<Longrightarrow> same_but_nodes b c \<Longrightarrow> same_but_nodes a c"
  by (simp add: same_but_nodes_def)

lemma ensure_default_topology_same:
  "same_but_nodes d (snd (snd (ensure_execution_node_default_topology E n d)))"
  by (simp add: ensure_execution_node_default_topology_def same_but_nodes_def Let_def split: option.split)

lemma assign_missing_same: "same_but_nodes d (assign_missing_default_topology E d)"
proof -
  have "same_but_nodes d d' \<Longrightarrow>
    same_but_nodes d (fold (\<lambda>n d'. snd (snd (ensure_execution_node_default_topology E n d'))) ns d')" for ns d'
  proof (induction ns arbitrary: d')
    case (Cons a ns)
    show ?case using Cons.IH [OF same_but_nodes_trans [OF Cons.prems ensure_default_topology_same]] by simp
  qed simp
  then show ?thesis by (simp add: assign_missing_default_topology_def)
qed

lemma schedule_workspace_same: "same_but_nodes d (snd (schedule_workspace E wid cpu mem disk d))"
proof -
  have sel: "reserve_node_for_workspace E w c m k s d = Inl (e, d1) \<Longrightarrow> same_but_nodes d d1"
    "reserve_node_for_workspace E w c m k s d = Inr (n, d1) \<Longrightarrow> same_but_nodes d d1" for w c m k s e n d1
    using assign_missing_same
    by (auto simp: reserve_node_for_workspace_def select_node_for_workspace_def Let_def
        split: if_splits option.splits)
  show ?thesis
    by (auto simp: schedule_workspace_def Let_def split: sum.splits error.splits prod.splits dest: sel)
qed

section \<open>The filters of the SQL selection and of the Python ranking agree\<close>

definition tidy_key :: "string \<Rightarrow> bool" where
  "tidy_key k = (k \<noteq> [] \<and> py_strip k = k)"

lemma free_py_raw:
  assumes "tidy_key (node_key n)"
    "\<forall>r\<in>set (runtimes d). 0 \<le> rt_reserved_cpu r \<and> 0 \<le> rt_reserved_memory_mb r \<and> 0 \<le> rt_reserved_disk_mb r"
  shows "free_cpu_py d n = max 0 (effective_free_cpu d n)"
    "free_mem_py d n = max 0 (effective_free_memory_mb d n)"
    "free_disk_py d n = max 0 (effective_free_disk_mb d n)"
    "count_active_workloads_on_node_key d (py_strip (node_key n)) = active_workload_count d (node_key n)"
  using assms reserved_nonneg [OF assms(2), of "node_key n"]
  by (simp_all add: tidy_key_def free_cpu_py_def free_mem_py_def free_disk_py_def
      total_reserved_on_node_key_def total_reserved_disk_mb_on_node_key_def Let_def
      effective_free_cpu_def effective_free_memory_mb_def effective_free_disk_mb_def
      count_active_workloads_on_node_key_def)

lemma rank_keeps_iff:
  assumes "tidy_key (node_key n)"
    "\<forall>r\<in>set (runtimes d). 0 \<le> rt_reserved_cpu r \<and> 0 \<le> rt_reserved_memory_mb r \<and> 0 \<le> rt_reserved_disk_mb r"
    "0 < req_cpu r" "0 < req_memory_mb r" "0 < req_disk_mb r" "0 < req_slots r"
  shows "rank_keeps d r n \<longleftrightarrow> is_v1_scheduling_candidate n \<and> node_fits d r n"
  using assms(3-6)
  by (auto simp: rank_keeps_def Let_def free_py_raw [OF assms(1,2)] can_fit_workspace_effective_def node_fits_def
      count_workspace_slot_claims_on_node_id_def not_less)

end
