(* ===== verification/Binding.thy ===== *)
theory Binding
  imports Placement
begin

text \<open>
  From a job to the node and topology it runs on
  (\<^verbatim>\<open>placement_service/orchestrator_binding.py\<close>, \<^verbatim>\<open>runtime_policy.py\<close> and
  \<^verbatim>\<open>operator_pinned_create.py\<close>). Exception texts keep their fixed leading phrase.
\<close>

section \<open>Runtime policy\<close>

definition runtime_placement_row_complete :: "runtime option \<Rightarrow> bool" where
  "runtime_placement_row_complete rt =
     (case rt of None \<Rightarrow> False
      | Some r \<Rightarrow> py_strip (str_or_empty (rt_node_id r)) \<noteq> [] \<and> rt_topology_id r \<noteq> None)"

definition runtime_env_fallback_allowed :: "env \<Rightarrow> bool" where
  "runtime_env_fallback_allowed E =
     (s_devnest_env (cfg E) = ''development'' \<and> s_allow_runtime_env_fallback (cfg E))"

definition placement_strict_enforced :: "env \<Rightarrow> bool" where
  "placement_strict_enforced E = (\<not> runtime_env_fallback_allowed E)"

definition authoritative_container_ref_required :: "env \<Rightarrow> bool" where
  "authoritative_container_ref_required E = placement_strict_enforced E"

section \<open>Operator-pinned create\<close>

definition PINNED_OPERATOR_TEST_WORKSPACE_NAME_PREFIX :: string where
  "PINNED_OPERATOR_TEST_WORKSPACE_NAME_PREFIX = ''devnest-op-pinned-test-''"

definition parse_pinned_create_execution_node_ids :: "settings \<Rightarrow> int list" where
  "parse_pinned_create_execution_node_ids s =
     List.map_filter (\<lambda>part. let p = py_strip part in if p = [] then None else parse_int p)
       (split_on (CHR '','') (py_strip (s_pinned_create_node_ids s)))"

definition workspace_uses_operator_pinned_create :: "env \<Rightarrow> workspace \<Rightarrow> bool" where
  "workspace_uses_operator_pinned_create E w =
     (s_allow_pinned_create (cfg E) \<and>
      (case ws_execution_node_id w of None \<Rightarrow> False
       | Some i \<Rightarrow> i \<in> set (parse_pinned_create_execution_node_ids (cfg E))) \<and>
      starts_with PINNED_OPERATOR_TEST_WORKSPACE_NAME_PREFIX (py_strip (ws_name w)))"

definition validate_operator_pinned_create_node_gates :: "env \<Rightarrow> node \<Rightarrow> db \<Rightarrow> unit result" where
  "validate_operator_pinned_create_node_gates E n d =
     (if \<not> s_multi_node_scheduling (cfg E)
      then Inl (InvalidPlacementParametersError
             ''Pinned operator CREATE requires DEVNEST_ENABLE_MULTI_NODE_SCHEDULING=true'', d)
      else if \<not> heartbeat_fresh E n
      then Inl (InvalidPlacementParametersError
             ''Pinned operator CREATE requires a fresh execution node heartbeat'', d)
      else Inr ((), d))"

section \<open>Resolution\<close>

definition topology_id_from_env :: "env \<Rightarrow> int" where
  "topology_id_from_env E =
     (let raw = py_strip (case os_topology_id E of None \<Rightarrow> ''1'' | Some s \<Rightarrow> if s = [] then ''1'' else s)
      in case parse_int raw of None \<Rightarrow> 1 | Some i \<Rightarrow> i)"

definition node_key_from_env :: "env \<Rightarrow> string" where
  "node_key_from_env E = default_local_node_key E"

definition runtime_row :: "db \<Rightarrow> int \<Rightarrow> runtime option" where
  "runtime_row d wid = first_row (filter (\<lambda>r. rt_workspace_id r = wid) (runtimes d))"

definition validate_topology_catalog_exists :: "int \<Rightarrow> db \<Rightarrow> unit result" where
  "validate_topology_catalog_exists tid d =
     (case get_topology d tid of
        None \<Rightarrow> Inl (InvalidPlacementParametersError
          (''topology id '' @ str_int tid @ '' has no Topology catalog row.''), d)
      | Some _ \<Rightarrow> Inr ((), d))"

text \<open>The topology of a node chosen for new work: its default, or the environment outside strict mode.\<close>

definition node_topology :: "env \<Rightarrow> string \<Rightarrow> node \<Rightarrow> db \<Rightarrow> int result" where
  "node_topology E msg n d =
     (case node_default_topology_id n of
        Some t \<Rightarrow> Inr (t, d)
      | None \<Rightarrow> if placement_strict_enforced E then Inl (InvalidPlacementParametersError msg, d)
                else Inr (topology_id_from_env E, d))"

definition schedule_workspace_placement :: "env \<Rightarrow> int \<Rightarrow> db \<Rightarrow> (string \<times> int) result" where
  "schedule_workspace_placement E wid d =
     (let (sch, d1) = schedule_workspace E wid None None None d in
      if sched_invalid sch then Inl (InvalidPlacementParametersError (sched_message sch), d1)
      else case sched_node sch of
        None \<Rightarrow> Inl (NoSchedulableNodeError (sched_message sch), d1)
      | Some n \<Rightarrow>
          andthen (node_topology E ''Strict production/staging placement requires execution_node.default_topology_id for new workload placement'' n d1)
            (\<lambda>tid d2. andthen (validate_topology_catalog_exists tid d2) (\<lambda>_ d3. Inr ((node_key n, tid), d3))))"

definition pinned_operator_create_placement :: "env \<Rightarrow> workspace \<Rightarrow> db \<Rightarrow> (string \<times> int) result" where
  "pinned_operator_create_placement E w d =
     (case ws_execution_node_id w of
        None \<Rightarrow> Inl (ValueError ''AssertionError'', d)
      | Some i \<Rightarrow> (case get_node d i of
          None \<Rightarrow> Inl (InvalidPlacementParametersError (''pinned CREATE: execution_node id='' @ str_int i @ '' not found''), d)
        | Some n \<Rightarrow>
            if node_status n \<noteq> NS_READY
            then Inl (InvalidPlacementParametersError (''pinned CREATE: execution_node '' @ py_repr (node_key n) @
                   '' is not READY (status='' @ py_repr (node_status_str (node_status n)) @ '')''), d)
            else if \<not> node_schedulable n
            then Inl (InvalidPlacementParametersError (''pinned CREATE: execution_node '' @ py_repr (node_key n) @
                   '' is not schedulable''), d)
            else andthen (validate_operator_pinned_create_node_gates E n d) (\<lambda>_ d1.
              andthen (node_topology E ''Strict production/staging placement requires execution_node.default_topology_id for pinned operator CREATE; set it on the target ExecutionNode.'' n d1) (\<lambda>tid d2.
              andthen (validate_topology_catalog_exists tid d2) (\<lambda>_ d3.
                let nk = py_strip (node_key n) in
                if nk = [] then Inl (InvalidPlacementParametersError ''pinned CREATE: execution_node has empty node_key'', d3)
                else Inr ((nk, tid), d3))))))"

definition jobs_need_runtime_placement :: "job_type \<Rightarrow> bool" where
  "jobs_need_runtime_placement t = (t \<in> {JT_START, JT_STOP, JT_DELETE, JT_RECONCILE_RUNTIME, JT_RESTART,
     JT_UPDATE, JT_SNAPSHOT_CREATE, JT_SNAPSHOT_RESTORE, JT_REPO_IMPORT})"

definition snapshot_job_type :: "job_type \<Rightarrow> bool" where
  "snapshot_job_type t = (t \<in> {JT_SNAPSHOT_CREATE, JT_SNAPSHOT_RESTORE})"

definition execution_node_by_key :: "db \<Rightarrow> string \<Rightarrow> node option" where
  "execution_node_by_key d key = (let nk = py_strip key in if nk = [] then None else find_node_by_key d nk)"

definition snapshot_placement_from_runtime_or_workspace ::
  "env \<Rightarrow> workspace \<Rightarrow> runtime option \<Rightarrow> db \<Rightarrow> (string \<times> int) option result" where
  "snapshot_placement_from_runtime_or_workspace E w rt d =
     (let nk0 = (case rt of None \<Rightarrow> [] | Some r \<Rightarrow> py_strip (str_or_empty (rt_node_id r)));
          tid0 = (case rt of None \<Rightarrow> None | Some r \<Rightarrow> rt_topology_id r);
          node_ws = (case ws_execution_node_id w of None \<Rightarrow> None | Some i \<Rightarrow> get_node d i);
          nk = (if nk0 = [] then (case node_ws of None \<Rightarrow> [] | Some n \<Rightarrow> py_strip (node_key n)) else nk0)
      in if nk = [] then Inr (None, d)
         else let catalog = (case node_ws of
                  Some n \<Rightarrow> if py_strip (node_key n) = nk then Some n else execution_node_by_key d nk
                | None \<Rightarrow> execution_node_by_key d nk)
              in case catalog of
                None \<Rightarrow> Inr (None, d)
              | Some n \<Rightarrow>
                  andthen (case tid0 of Some t \<Rightarrow> Inr (t, d)
                           | None \<Rightarrow> node_topology E (''snapshot placement: node '' @ py_repr nk @
                               '' has no default_topology_id; cannot infer topology'') n d)
                    (\<lambda>tid d1. andthen (validate_topology_catalog_exists tid d1)
                      (\<lambda>_ d2. Inr (Some (nk, tid), d2))))"

definition env_placement :: "env \<Rightarrow> db \<Rightarrow> (string \<times> int) result" where
  "env_placement E d =
     (let tid = topology_id_from_env E
      in andthen (validate_topology_catalog_exists tid d) (\<lambda>_ d1. Inr ((node_key_from_env E, tid), d1)))"

definition resolve_orchestrator_placement :: "env \<Rightarrow> workspace \<Rightarrow> job \<Rightarrow> db \<Rightarrow> (string \<times> int) result" where
  "resolve_orchestrator_placement E w j d =
     (let wid = ws_id w; jt = job_type j; rt = runtime_row d wid; strict = placement_strict_enforced E in
      if jt = JT_CREATE then
        (if workspace_uses_operator_pinned_create E w then pinned_operator_create_placement E w d
         else schedule_workspace_placement E wid d)
      else if \<not> jobs_need_runtime_placement jt then
        (if runtime_env_fallback_allowed E then env_placement E d
         else Inl (AuthoritativePlacementError (''Job type '' @ py_repr (job_type_str jt) @
                '' has no authoritative placement rule''), d))
      else case (if runtime_placement_row_complete rt then rt else None) of
        Some r \<Rightarrow> Inr ((py_strip (str_or_empty (rt_node_id r)), the (rt_topology_id r)), d)
      | None \<Rightarrow>
          if snapshot_job_type jt then
            andthen (snapshot_placement_from_runtime_or_workspace E w rt d) (\<lambda>sp d1.
              case sp of Some p \<Rightarrow> Inr (p, d1)
              | None \<Rightarrow> Inl (AuthoritativePlacementError ''Snapshot job requires placement'', d1))
          else if jt = JT_START then
            (if rt \<noteq> None \<and> strict
             then Inl (AuthoritativePlacementError
                    ''START requires complete WorkspaceRuntime (node_id and topology_id) in production/staging'', d)
             else schedule_workspace_placement E wid d)
          else if strict then
            Inl (AuthoritativePlacementError (''Job '' @ job_type_str jt @
              '' requires WorkspaceRuntime with node_id and topology_id; none found for workspace_id='' @ str_int wid @ ''.''), d)
          else if runtime_env_fallback_allowed E then env_placement E d
          else Inl (AuthoritativePlacementError ''WorkspaceRuntime placement is incomplete and env fallback is disabled'', d))"

section \<open>Lemmas\<close>

text \<open>Exceptions raised by the resolution, and its effect on the database.\<close>

definition placement_error :: "error \<Rightarrow> bool" where
  "placement_error e = (case e of NoSchedulableNodeError _ \<Rightarrow> True | InvalidPlacementParametersError _ \<Rightarrow> True
     | AuthoritativePlacementError _ \<Rightarrow> True | _ \<Rightarrow> False)"

definition state_of :: "'a result \<Rightarrow> db" where
  "state_of r = (case r of Inl (_, d) \<Rightarrow> d | Inr (_, d) \<Rightarrow> d)"

lemma state_of_simps [simp]: "state_of (Inl (e, d)) = d" "state_of (Inr (a, d)) = d"
  by (simp_all add: state_of_def)

lemma state_of_andthen:
  "state_of (andthen m f) = (case m of Inl (e, d) \<Rightarrow> d | Inr (a, d) \<Rightarrow> state_of (f a d))"
  by (auto simp: state_of_def andthen_def split: sum.splits)

lemma validate_topology_state [simp]: "state_of (validate_topology_catalog_exists t d) = d"
  by (simp add: validate_topology_catalog_exists_def split: option.split)

lemma validate_topology_Inr: "validate_topology_catalog_exists t d = Inr (u, d') \<longleftrightarrow> d' = d \<and> get_topology d t \<noteq> None"
  by (auto simp: validate_topology_catalog_exists_def split: option.splits)

lemma validate_topology_Inl:
  "validate_topology_catalog_exists t d = Inl (e, d') \<Longrightarrow> d' = d \<and> placement_error e \<and> get_topology d t = None"
  by (auto simp: validate_topology_catalog_exists_def placement_error_def split: option.splits)

lemma node_topology_Inr: "node_topology E m n d = Inr (t, d') \<Longrightarrow> d' = d"
  by (auto simp: node_topology_def split: option.splits if_splits)

lemma node_topology_Inl: "node_topology E m n d = Inl (e, d') \<Longrightarrow> d' = d \<and> placement_error e"
  by (auto simp: node_topology_def placement_error_def split: option.splits if_splits)

lemma schedule_placement_effect:
  "schedule_workspace_placement E w d = Inr (p, d') \<Longrightarrow> same_but_nodes d d' \<and> get_topology d' (snd p) \<noteq> None"
  "schedule_workspace_placement E w d = Inl (e, d') \<Longrightarrow> same_but_nodes d d' \<and> placement_error e"
  using schedule_workspace_same [of d E w None None None]
  by (auto simp: schedule_workspace_placement_def Let_def andthen_Inr andthen_Inl validate_topology_Inr
      placement_error_def split: prod.splits if_splits option.splits
      dest!: node_topology_Inr node_topology_Inl validate_topology_Inl)

lemma pinned_placement_effect:
  "pinned_operator_create_placement E w d = Inr (p, d') \<Longrightarrow> d' = d \<and> get_topology d' (snd p) \<noteq> None"
  by (auto simp: pinned_operator_create_placement_def validate_operator_pinned_create_node_gates_def
      andthen_Inr validate_topology_Inr Let_def split: option.splits if_splits dest!: node_topology_Inr)

lemma pinned_placement_error:
  "ws_execution_node_id w \<noteq> None \<Longrightarrow> pinned_operator_create_placement E w d = Inl (e, d') \<Longrightarrow> d' = d \<and> placement_error e"
  by (auto simp: pinned_operator_create_placement_def validate_operator_pinned_create_node_gates_def
      andthen_Inl andthen_Inr validate_topology_Inr Let_def placement_error_def split: option.splits if_splits
      dest!: node_topology_Inr node_topology_Inl validate_topology_Inl)

lemma snapshot_placement_effect:
  "snapshot_placement_from_runtime_or_workspace E w rt d = Inr (sp, d') \<Longrightarrow>
     d' = d \<and> (\<forall>p. sp = Some p \<longrightarrow> get_topology d (snd p) \<noteq> None)"
  "snapshot_placement_from_runtime_or_workspace E w rt d = Inl (e, d') \<Longrightarrow> d' = d \<and> placement_error e"
  by (auto simp: snapshot_placement_from_runtime_or_workspace_def andthen_Inr andthen_Inl validate_topology_Inr Let_def
      split: option.splits if_splits dest!: node_topology_Inr node_topology_Inl validate_topology_Inl)

text \<open>A resolution changes nothing but node topologies, and fails only with a placement error.\<close>

definition placed_ok :: "db \<Rightarrow> 'a result \<Rightarrow> bool" where
  "placed_ok d r = (case r of Inr (_, d') \<Rightarrow> same_but_nodes d d'
     | Inl (e, d') \<Rightarrow> same_but_nodes d d' \<and> placement_error e)"

lemma placed_ok_simps [simp]:
  "placed_ok d (Inr (a, d')) = same_but_nodes d d'"
  "placed_ok d (Inl (e, d')) = (same_but_nodes d d' \<and> placement_error e)"
  by (simp_all add: placed_ok_def)

lemma placed_ok_intro:
  "(\<And>a d'. r = Inr (a, d') \<Longrightarrow> same_but_nodes d d') \<Longrightarrow>
   (\<And>e d'. r = Inl (e, d') \<Longrightarrow> same_but_nodes d d' \<and> placement_error e) \<Longrightarrow> placed_ok d r"
  by (auto simp: placed_ok_def split: sum.split)

lemma placed_ok_schedule: "placed_ok d (schedule_workspace_placement E w d)"
  by (rule placed_ok_intro) (blast dest: schedule_placement_effect)+

lemma placed_ok_pinned:
  "ws_execution_node_id w \<noteq> None \<Longrightarrow> placed_ok d (pinned_operator_create_placement E w d)"
  by (rule placed_ok_intro) (use pinned_placement_effect pinned_placement_error same_but_nodes_refl in metis)+

lemma placed_ok_env: "placed_ok d (env_placement E d)"
  by (rule placed_ok_intro)
    (auto simp: env_placement_def Let_def andthen_Inr andthen_Inl validate_topology_Inr dest: validate_topology_Inl)

lemma placed_ok_snapshot:
  "placed_ok d (andthen (snapshot_placement_from_runtime_or_workspace E w rt d) (\<lambda>sp d1.
      case sp of Some p \<Rightarrow> Inr (p, d1)
      | None \<Rightarrow> Inl (AuthoritativePlacementError m, d1)))"
  by (rule placed_ok_intro)
    (auto simp: andthen_Inr andthen_Inl placement_error_def split: option.splits
      dest!: snapshot_placement_effect(1) dest: snapshot_placement_effect(2) [unfolded placement_error_def])

lemma placed_ok_authoritative [simp]: "placed_ok d (Inl (AuthoritativePlacementError m, d))"
  by (simp add: placement_error_def)

lemma resolve_placed_ok: "placed_ok d (resolve_orchestrator_placement E w j d)"
proof -
  have p: "workspace_uses_operator_pinned_create E w \<Longrightarrow> ws_execution_node_id w \<noteq> None"
    by (auto simp: workspace_uses_operator_pinned_create_def split: option.splits)
  show ?thesis
    unfolding resolve_orchestrator_placement_def Let_def
    using p by (simp add: placed_ok_schedule placed_ok_pinned placed_ok_env placed_ok_snapshot
        del: placed_ok_simps(2) split: option.split)
qed

lemma resolve_placement_same: "same_but_nodes d (state_of (resolve_orchestrator_placement E w j d))"
  using resolve_placed_ok [of d E w j] by (auto simp: placed_ok_def state_of_def split: sum.splits)

lemma resolve_placement_error:
  "resolve_orchestrator_placement E w j d = Inl (e, d') \<Longrightarrow> placement_error e"
  using resolve_placed_ok [of d E w j] by simp

end
