(* ===== verification/Placement_Correct.thy ===== *)
theory Placement_Correct
  imports Binding
begin

text \<open>Properties of capacity accounting, node selection and placement resolution.\<close>

section \<open>Selection\<close>

text \<open>The order of the selection, spelled out on the residual amounts.\<close>

lemma packing_order_residual:
  "packing_order d r n \<le> packing_order d r m \<Longrightarrow>
   effective_free_cpu d n < effective_free_cpu d m \<or> effective_free_cpu d n = effective_free_cpu d m \<and>
   (effective_free_memory_mb d n < effective_free_memory_mb d m \<or> effective_free_memory_mb d n = effective_free_memory_mb d m \<and>
   (effective_free_disk_mb d n < effective_free_disk_mb d m \<or> effective_free_disk_mb d n = effective_free_disk_mb d m \<and>
    active_workload_count d (node_key m) \<le> active_workload_count d (node_key n)))"
  by (auto simp: packing_order_def less_eq_prod_def)

text \<open>C7: the node chosen for a workspace is ready, schedulable and of the configured provider, and has
  room for the request on top of everything already reserved on it (CPU, memory, disk and both slot
  counts). Among the nodes that qualify it packs: no other one has less CPU left, or the same CPU and less memory, or
  the same of both and less disk, or the same of all three and more active workloads. This is the
  \<^verbatim>\<open>ORDER BY\<close> of the code and the sort policy its docstring lists; a later paragraph of the same docstring and two design
  documents describe the opposite, spreading over the emptiest nodes. CPU amounts are exact rationals where the code has floats.\<close>

theorem placement_best_fit:
  assumes "select_node_for_workspace E wid cpu mem disk slots d = Inr (n, d')"
  defines "r \<equiv> effective_request E cpu mem disk slots"
    and "free_cpu \<equiv> \<lambda>m. node_allocatable_cpu m - reserved_cpu_sum d' (node_key m)"
    and "free_mem \<equiv> \<lambda>m. node_allocatable_memory_mb m - reserved_memory_sum d' (node_key m)"
    and "free_disk \<equiv> \<lambda>m. node_allocatable_disk_mb m - reserved_disk_sum d' (node_key m)"
    and "load \<equiv> \<lambda>m. active_workload_count d' (node_key m)"
  shows "n \<in> set (nodes d') \<and> node_status n = NS_READY \<and> node_schedulable n \<and> provider_type_ok E n
    \<and> req_cpu r \<le> free_cpu n \<and> req_memory_mb r \<le> free_mem n \<and> req_disk_mb r \<le> free_disk n
    \<and> workspace_slot_claim_count d' (node_pk n) + req_slots r \<le> node_max_workspaces n
    \<and> load n + req_slots r \<le> node_max_workspaces n
    \<and> (\<forall>m\<in>set (nodes d'). schedulable_base E d' m \<and> heartbeat_gate_ok E m \<and> node_fits d' r m \<longrightarrow>
         free_cpu n < free_cpu m \<or> free_cpu n = free_cpu m \<and>
         (free_mem n < free_mem m \<or> free_mem n = free_mem m \<and>
         (free_disk n < free_disk m \<or> free_disk n = free_disk m \<and> load m \<le> load n)))"
proof -
  note c = select_node_cases [OF assms(1), folded r_def]
  have least: "packing_order d' r n \<le> packing_order d' r m"
    if "m \<in> set (nodes d')" "schedulable_base E d' m \<and> heartbeat_gate_ok E m \<and> node_fits d' r m" for m
    using c(6) that by (simp add: placement_candidates_def)
  have pool: "node_status n = NS_READY" "node_schedulable n" "provider_type_ok E n"
    using c(3) by (simp_all add: schedulable_base_def ready_schedulable_def)
  have free: "free_cpu = effective_free_cpu d'" "free_mem = effective_free_memory_mb d'" "free_disk = effective_free_disk_mb d'"
    by (simp_all add: fun_eq_iff free_cpu_def free_mem_def free_disk_def effective_free_cpu_def effective_free_memory_mb_def
        effective_free_disk_mb_def)
  have "load n + req_slots r \<le> node_max_workspaces n" "workspace_slot_claim_count d' (node_pk n) + req_slots r \<le> node_max_workspaces n"
    "req_cpu r \<le> free_cpu n" "req_memory_mb r \<le> free_mem n" "req_disk_mb r \<le> free_disk n"
    using c(5) by (simp_all add: node_fits_def free load_def)
  then show ?thesis using c(2) pool packing_order_residual [OF least] unfolding free load_def by blast
qed

lemmas placement_eval = select_node_for_workspace_def effective_request_def assign_missing_default_topology_def
  placement_candidates_def schedulable_base_def ready_schedulable_def provider_type_ok_def single_node_primary_ok_def
  min_ready_id_def ec2_host_resource_ok_def heartbeat_gate_ok_def node_fits_def effective_free_cpu_def
  effective_free_memory_mb_def effective_free_disk_mb_def reserved_cpu_sum_def reserved_memory_sum_def
  reserved_disk_sum_def pinned_runtimes_def rt_counts_def get_ws_def holds_slot_def workspace_slot_claim_count_def
  active_workload_count_def count_rows_def py_lower_def py_strip_def py_space_def lower_char_def Let_def

lemma ex_selects_node: "select_node_for_workspace ex_env 2 None None None None ex_db = Inr (ex_node, ex_db)"
  by (simp add: placement_eval ex_defs)

theorem placement_best_fit_witness:
  "select_node_for_workspace ex_env 2 None None None None ex_db = Inr (ex_node, ex_db)
   \<and> reserved_cpu_sum ex_db ''node-1'' + 1 \<le> 8 \<and> active_workload_count ex_db ''node-1'' + 1 \<le> 4"
  using placement_best_fit [OF ex_selects_node] ex_selects_node
  by (simp add: effective_request_def ex_defs algebra_simps)

text \<open>Placement never gives up while a node qualifies: with a positive request and a node in the pool
  that passes every gate and fits the request, a node is returned.\<close>

theorem placement_succeeds_when_possible:
  fixes E :: env and d :: db and cpu :: "rat option" and mem disk slots :: "int option"
  defines "d1 \<equiv> assign_missing_default_topology E d" and "r \<equiv> effective_request E cpu mem disk slots"
  assumes "0 < req_cpu r" "0 < req_memory_mb r" "0 < req_disk_mb r" "0 < req_slots r"
    and "m \<in> set (nodes d1)" "schedulable_base E d1 m" "heartbeat_gate_ok E m" "node_fits d1 r m"
  shows "\<exists>n. select_node_for_workspace E wid cpu mem disk slots d = Inr (n, d1)"
proof -
  have "m \<in> set (sort_key (packing_order d1 r) (placement_candidates E d1 r))"
    using assms(7-10) by (simp add: placement_candidates_def)
  then obtain n where "first_row (sort_key (packing_order d1 r) (placement_candidates E d1 r)) = Some n"
    by (cases "sort_key (packing_order d1 r) (placement_candidates E d1 r)") auto
  then show ?thesis
    using assms(3-6) unfolding select_node_for_workspace_def Let_def d1_def [symmetric] r_def [symmetric] by simp
qed

theorem placement_succeeds_when_possible_witness:
  "\<exists>n. select_node_for_workspace ex_env 2 None None None None ex_db = Inr (n, assign_missing_default_topology ex_env ex_db)"
  using placement_succeeds_when_possible [of ex_env None None None None ex_node ex_db 2]
  by (simp add: placement_eval ex_defs)

section \<open>Nodes\<close>

text \<open>The SQL predicate that keeps EC2 nodes without healthy telemetry out of placement and the diagnostic
  that explains a skipped node agree: a node passes the gate exactly when there is no reason to skip it.\<close>

theorem ec2_gate_matches_diagnosis:
  "ec2_host_resource_ok E n \<longleftrightarrow> ec2_node_host_resource_failure_reason E n = None"
  by (rule ec2_gate_agrees)

text \<open>A node that reports a heartbeat is fresh at that instant, passes the heartbeat gate of placement and
  stays fresh for the configured age; a schedulable node that was marked unready comes back into the
  pool when the report says its engine works, and no other node changes.\<close>

theorem heartbeat_revives_node:
  assumes "record_execution_node_heartbeat E key_opt id_opt docker_ok disk_free slots version d = Inr (n, d')"
    "now E \<le> t" "t \<le> now E + seconds (heartbeat_max_age E)"
  shows "heartbeat_gate_ok (E\<lparr>now := t\<rparr>) n \<and> get_node d' (node_pk n) = Some n
    \<and> (\<forall>m. get_node d (node_pk n) = Some m \<and> docker_ok \<and> node_schedulable m \<and> node_status m = NS_NOT_READY
          \<longrightarrow> db_keys_ok d \<longrightarrow> node_status n = NS_READY)
    \<and> (\<forall>k. k \<noteq> node_pk n \<longrightarrow> get_node d' k = get_node d k)"
proof -
  let ?found = "case id_opt of
      Some i \<Rightarrow> (case get_node d i of None \<Rightarrow> Inl (''execution node id='' @ str_int i @ '' not found'') | Some n \<Rightarrow> Inr n)
    | None \<Rightarrow> (case strip_or_none key_opt of
          None \<Rightarrow> Inl ''node_key or execution_node_id is required''
        | Some k \<Rightarrow> (case find_node_by_key d k of None \<Rightarrow> Inl (''execution node key='' @ py_repr k @ '' not found'') | Some n \<Rightarrow> Inr n))"
  have found_in: "?found = Inr m \<Longrightarrow> m \<in> set (nodes d)" for m
    by (auto simp: find_node_by_key_def get_node_def split: option.splits dest: row_find_Some_in first_row_in)
  obtain row where f: "?found = Inr row"
    using assms(1) by (cases ?found) (simp_all add: record_execution_node_heartbeat_def)
  have row: "node_pk n = node_pk row" "node_last_heartbeat_at n = Some (now E)" "d' = put_node n d"
      "docker_ok \<Longrightarrow> node_schedulable row \<Longrightarrow> node_status row = NS_NOT_READY \<Longrightarrow> node_status n = NS_READY"
    using assms(1) by (auto simp: record_execution_node_heartbeat_def f Let_def)
  have hit: "row \<in> set (nodes d)" by (rule found_in [OF f])
  have found: "get_node d (node_pk n) \<noteq> None" using hit row(1) by (auto simp: get_node_def row_find_None)
  have fresh: "heartbeat_gate_ok (E\<lparr>now := t\<rparr>) n"
    using assms(2,3) row(2) by (simp add: heartbeat_gate_ok_def heartbeat_fresh_def heartbeat_max_age_def)
  have same: "get_node d (node_pk n) = Some row" if "db_keys_ok d"
    unfolding get_node_def row(1) using that hit by (intro row_find_distinct) (auto simp: db_keys_ok_def)
  show ?thesis using fresh found row same by (auto simp: nodes_tab.look_save)
qed

lemma ex_heartbeat: "\<exists>n. record_execution_node_heartbeat ex_env (Some ''node-1'') None True 5 1 ''v1'' ex_db = Inr (n, put_node n ex_db) \<and> node_pk n = 1"
  by (simp add: record_execution_node_heartbeat_def strip_or_none_def none_if_empty_def py_strip_def py_space_def
      find_node_by_key_def Let_def ex_defs)

theorem heartbeat_revives_node_witness:
  "\<exists>n. record_execution_node_heartbeat ex_env (Some ''node-1'') None True 5 1 ''v1'' ex_db = Inr (n, put_node n ex_db)
     \<and> heartbeat_gate_ok (ex_env\<lparr>now := 1000000007\<rparr>) n"
proof -
  obtain n where n: "record_execution_node_heartbeat ex_env (Some ''node-1'') None True 5 1 ''v1'' ex_db = Inr (n, put_node n ex_db)"
    using ex_heartbeat by blast
  have "now ex_env \<le> 1000000007" "1000000007 \<le> now ex_env + seconds (heartbeat_max_age ex_env)"
    by (simp_all add: ex_defs heartbeat_max_age_def seconds_def)
  from heartbeat_revives_node [OF n this] n show ?thesis by blast
qed

section \<open>Resolution\<close>

text \<open>Resolving the placement of a job never touches workspaces, jobs, runtimes, sessions, snapshots or the
  ledgers, whatever it returns, and it fails only with one of the three placement errors the worker
  handles.\<close>

theorem placement_resolution_contained:
  "case resolve_orchestrator_placement E w j d of
     Inr (p, d') \<Rightarrow> same_but_nodes d d'
   | Inl (e, d') \<Rightarrow> same_but_nodes d d' \<and> placement_error e"
  using resolve_placed_ok [of d E w j] by (auto simp: placed_ok_def split: sum.splits)

text \<open>A freshly scheduled CREATE lands on a node the selection policy chose, on a topology that exists in
  the catalog.\<close>

theorem create_placement_on_catalog_topology:
  assumes "resolve_orchestrator_placement E w j d = Inr ((key, tid), d')" "job_type j = JT_CREATE"
  shows "get_topology d' tid \<noteq> None"
  using assms schedule_placement_effect(1) [of E "ws_id w" d "(key, tid)" d'] pinned_placement_effect [of E w d "(key, tid)" d']
  by (auto simp: resolve_orchestrator_placement_def Let_def split: if_splits)

theorem create_placement_on_catalog_topology_witness:
  "resolve_orchestrator_placement ex_env (ex_ws\<lparr>ws_id := 2\<rparr>) (ex_job JT_CREATE JS_RUNNING) ex_db = Inr ((''node-1'', 1), ex_db)
   \<and> get_topology ex_db 1 \<noteq> None"
proof -
  have p: "\<not> workspace_uses_operator_pinned_create ex_env (ex_ws\<lparr>ws_id := 2\<rparr>)"
    by (simp add: workspace_uses_operator_pinned_create_def ex_defs)
  have s: "schedule_workspace ex_env 2 None None None ex_db
     = (\<lparr>sched_node = Some ex_node, sched_insufficient = False, sched_invalid = False, sched_message = ''ok''\<rparr>, ex_db)"
    by (simp add: schedule_workspace_def reserve_node_for_workspace_def placement_eval ex_defs)
  have f: "job_type (ex_job JT_CREATE JS_RUNNING) = JT_CREATE" "node_default_topology_id ex_node = Some 1"
    "node_key ex_node = ''node-1''" "get_topology ex_db 1 = Some ex_topology"
    by (simp_all add: get_topology_def ex_defs)
  have r: "resolve_orchestrator_placement ex_env (ex_ws\<lparr>ws_id := 2\<rparr>) (ex_job JT_CREATE JS_RUNNING) ex_db = Inr ((''node-1'', 1), ex_db)"
    using p f by (simp add: resolve_orchestrator_placement_def schedule_workspace_placement_def s node_topology_def
        validate_topology_catalog_exists_def)
  show ?thesis using r create_placement_on_catalog_topology [OF r] by (simp add: ex_job_def)
qed

end
