(* ===== verification/Routing.thy ===== *)
theory Routing
  imports Samples
begin

text \<open>
  Workspace URLs (\<^verbatim>\<open>libs/routing/workspace_routing.py\<close>): slugs, public hosts and URLs, and the
  allocation loops for unique slugs. The \<^verbatim>\<open>while True\<close> loops are recursion with fuel one above the
  number of rows that can collide; \<open>alloc_loop_total\<close> shows that this is enough, so the loops always
  return.
\<close>

section \<open>Slugs\<close>

function collapse_spaces :: "string \<Rightarrow> string" where
  "collapse_spaces [] = []"
| "collapse_spaces (c # cs) =
     (if py_space c then CHR ''-'' # collapse_spaces (dropWhile py_space cs) else c # collapse_spaces cs)"
  by pat_completeness auto
termination
  by (relation "measure length") (auto simp: less_Suc_eq_le length_dropWhile_le)

definition slug_char :: "char \<Rightarrow> bool" where
  "slug_char c = (let n = (of_char c :: nat) in (97 \<le> n \<and> n \<le> 122) \<or> (48 \<le> n \<and> n \<le> 57) \<or> c = CHR ''-'')"

fun collapse_hyphens :: "string \<Rightarrow> string" where
  "collapse_hyphens [] = []"
| "collapse_hyphens [c] = [c]"
| "collapse_hyphens (c # c' # cs) =
     (if c = CHR ''-'' \<and> c' = CHR ''-'' then collapse_hyphens (c' # cs) else c # collapse_hyphens (c' # cs))"

definition slugify_workspace_name :: "string \<Rightarrow> string" where
  "slugify_workspace_name raw =
     (let s = py_lower (py_strip raw);
          s1 = collapse_spaces s;
          s2 = filter slug_char s1;
          s3 = strip_chars (CHR ''-'') (collapse_hyphens s2)
      in take 128 s3)"

section \<open>Domains and URLs\<close>

definition effective_public_base_domain :: "settings \<Rightarrow> string" where
  "effective_public_base_domain s =
     (let explicit = strip_chars (CHR ''.'') (py_strip (s_public_base_domain s))
      in if explicit \<noteq> [] then explicit else strip_chars (CHR ''.'') (py_strip (s_base_domain s)))"

definition tenant_workspace_urls_enabled :: "settings \<Rightarrow> bool" where
  "tenant_workspace_urls_enabled s =
     (let mode = py_lower (py_strip (s_workspace_domain_mode s))
      in if mode = ''legacy'' then False else if mode = ''tenant'' then True
         else s_tenant_subdomain_routing s)"

definition effective_public_scheme :: "settings \<Rightarrow> string" where
  "effective_public_scheme s =
     (let pub = rstrip_chars (CHR '':'') (py_lower (py_strip (s_public_scheme s)))
      in if pub \<noteq> [] then pub
         else if tenant_workspace_urls_enabled s then ''https''
         else rstrip_chars (CHR '':'') (py_lower (py_strip
                (if s_gateway_public_scheme s = [] then ''http'' else s_gateway_public_scheme s))))"

definition effective_browser_port :: "settings \<Rightarrow> int" where
  "effective_browser_port s =
     (if s_public_port s > 0 then s_public_port s
      else if tenant_workspace_urls_enabled s then 0 else s_gateway_public_port s)"

definition gateway_public_host_with_port :: "string \<Rightarrow> string \<Rightarrow> int \<Rightarrow> string" where
  "gateway_public_host_with_port host scheme port =
     (if port \<le> 0 then host
      else let sch = rstrip_chars (CHR '':'') (py_lower (py_strip (if scheme = [] then ''http'' else scheme)))
           in if sch = ''http'' \<and> port = 80 then host
              else if sch = ''https'' \<and> port = 443 then host
              else host @ '':'' @ str_int port)"

definition build_workspace_url :: "settings \<Rightarrow> user \<Rightarrow> workspace \<Rightarrow> string" where
  "build_workspace_url s u w =
     (let scheme = effective_public_scheme s;
          port = effective_browser_port s;
          sub = py_lower (py_strip (str_or_empty (user_route_slug u)));
          slug = py_lower (py_strip (ws_url_slug w))
      in if tenant_workspace_urls_enabled s \<and> sub \<noteq> [] \<and> slug \<noteq> []
         then scheme @ ''://'' @ gateway_public_host_with_port (sub @ ''.'' @ effective_public_base_domain s) scheme port
                @ ''/workspaces/'' @ slug
         else let explicit = py_strip (str_or_empty (ws_public_host w));
                  dom = strip_chars (CHR ''.'') (py_strip (if s_base_domain s = [] then ''app.devnest.local'' else s_base_domain s));
                  host = (if explicit \<noteq> []
                          then gateway_public_host_with_port (hd (split_on (CHR '':'') explicit)) scheme port
                          else gateway_public_host_with_port (''ws-'' @ str_int (ws_id w) @ ''.'' @ dom) scheme port)
              in scheme @ ''://'' @ host @ ''/'')"

definition ends_with :: "string \<Rightarrow> string \<Rightarrow> bool" where
  "ends_with suf s = (length suf \<le> length s \<and> drop (length s - length suf) s = suf)"

definition parse_workspace_host :: "string \<Rightarrow> string \<Rightarrow> string option" where
  "parse_workspace_host host base_domain =
     (let h = py_lower (hd (split_on (CHR '':'') (py_strip host)));
          dom = strip_chars (CHR ''.'') (py_lower (py_strip base_domain))
      in if h = [] \<or> dom = [] then None
         else let suffix = ''.'' @ dom in
           if \<not> ends_with suffix h then None
           else let label = strip_chars (CHR ''.'') (py_strip (take (length h - length suffix) h))
                in if label = [] \<or> CHR ''.'' \<in> set label then None else Some label)"

text \<open>The branch for a path without a leading slash goes through \<^verbatim>\<open>urllib.parse.urlparse\<close>, the
  parameter \<open>url_path\<close>.\<close>

definition extract_workspace_slug_from_path :: "(string \<Rightarrow> string) \<Rightarrow> string \<Rightarrow> string option" where
  "extract_workspace_slug_from_path url_path path_or_uri =
     (let raw = py_strip path_or_uri in
      if raw = [] then None
      else let p0 = hd (split_on (CHR ''?'') raw);
               path = (case p0 of [] \<Rightarrow> p0
                 | c # _ \<Rightarrow> if c = CHR ''/'' then p0 else (if url_path raw = [] then ''/'' else url_path raw))
           in if \<not> starts_with ''/workspaces/'' path then None
              else let seg = takeWhile (\<lambda>c. c \<noteq> CHR ''/'') (drop (length ''/workspaces/'') path)
                   in if seg = [] then None else none_if_empty (py_lower (py_strip seg)))"

definition is_legacy_workspace_hostname :: "string \<Rightarrow> bool" where
  "is_legacy_workspace_hostname prefix =
     (let p = py_lower (py_strip prefix)
      in starts_with ''ws-'' p \<and> (case drop 3 p of [] \<Rightarrow> False | c # _ \<Rightarrow> is_digit c))"

section \<open>Allocation\<close>

definition nth_candidate :: "string \<Rightarrow> nat \<Rightarrow> string" where
  "nth_candidate base n = (if n < 2 then base else base @ ''-'' @ str_nat n)"

fun alloc_loop :: "nat \<Rightarrow> (string \<Rightarrow> bool) \<Rightarrow> string \<Rightarrow> nat \<Rightarrow> string \<Rightarrow> string option" where
  "alloc_loop 0 taken base n candidate = None"
| "alloc_loop (Suc fuel) taken base n candidate =
     (if taken candidate then alloc_loop fuel taken base (n + 1) (base @ ''-'' @ str_nat n)
      else Some candidate)"

definition url_slug_taken :: "db \<Rightarrow> int \<Rightarrow> string \<Rightarrow> bool" where
  "url_slug_taken d owner c =
     list_ex (\<lambda>w. ws_owner_user_id w = owner \<and> ws_url_slug w = c \<and> ws_status w \<noteq> WS_DELETED) (workspaces d)"

definition allocate_unique_workspace_url_slug :: "db \<Rightarrow> int \<Rightarrow> string \<Rightarrow> string option" where
  "allocate_unique_workspace_url_slug d owner display_name =
     (let s = slugify_workspace_name display_name;
          base = (if s = [] then ''workspace'' else s)
      in alloc_loop (length (workspaces d) + 1) (url_slug_taken d owner) base 2 base)"

definition route_slug_taken :: "db \<Rightarrow> string \<Rightarrow> bool" where
  "route_slug_taken d c = list_ex (\<lambda>u. user_route_slug u = Some c) (users d)"

definition allocate_unique_route_subdomain_slug :: "db \<Rightarrow> string \<Rightarrow> string option" where
  "allocate_unique_route_subdomain_slug d preferred =
     (let s = slugify_workspace_name preferred;
          base = (if s = [] then ''user'' else s)
      in alloc_loop (length (users d) + 1) (route_slug_taken d) base 2 base)"

section \<open>The loops return and what they return is free\<close>

lemma alloc_loop_free: "alloc_loop fuel taken base n c = Some r \<Longrightarrow> \<not> taken r"
  by (induction fuel arbitrary: n c) (auto split: if_splits)

lemma nth_candidate_inj: "nth_candidate base i = nth_candidate base j \<Longrightarrow> 1 \<le> i \<Longrightarrow> 1 \<le> j \<Longrightarrow> i = j"
  by (auto simp: nth_candidate_def str_nat_inj split: if_splits)

text \<open>Some candidate among the first \<open>fuel\<close> is free, whatever the starting index.\<close>

lemma alloc_loop_finds:
  "\<exists>i<fuel. \<not> taken (nth_candidate base (n + i)) \<Longrightarrow> 1 \<le> n \<Longrightarrow>
   \<exists>i<fuel. alloc_loop fuel taken base (Suc n) (nth_candidate base n) = Some (nth_candidate base (n + i)) \<and>
     (\<forall>j<i. taken (nth_candidate base (n + j)))"
proof (induction fuel arbitrary: n)
  case (Suc fuel)
  show ?case
  proof (cases "taken (nth_candidate base n)")
    case False
    then show ?thesis by (intro exI [of _ 0]) simp
  next
    case True
    obtain i where i: "i < Suc fuel" "\<not> taken (nth_candidate base (n + i))" using Suc.prems by auto
    with True have "i \<noteq> 0" by (cases i) auto
    with i have "\<exists>k<fuel. \<not> taken (nth_candidate base (Suc n + k))"
      by (intro exI [of _ "i - 1"]) auto
    from Suc.IH [OF this] obtain k where k: "k < fuel"
      "alloc_loop fuel taken base (Suc (Suc n)) (nth_candidate base (Suc n)) = Some (nth_candidate base (Suc n + k))"
      "\<forall>j<k. taken (nth_candidate base (Suc n + j))" by auto
    have c: "base @ CHR ''-'' # str_nat (Suc n) = nth_candidate base (Suc n)"
      using Suc.prems(2) by (simp add: nth_candidate_def)
    have all: "\<forall>j<Suc k. taken (nth_candidate base (n + j))"
    proof (intro allI impI)
      fix j assume "j < Suc k"
      then show "taken (nth_candidate base (n + j))"
        using True k(3) by (cases j) auto
    qed
    show ?thesis using True k(1,2) all by (intro exI [of _ "Suc k"]) (simp add: c)
  qed
qed simp

text \<open>Finitely many taken names cannot block one more candidate than there are names.\<close>

lemma pigeonhole_free:
  assumes "finite S" "card S < fuel" "\<And>c. taken c \<Longrightarrow> c \<in> S"
  shows "\<exists>i<fuel. \<not> taken (nth_candidate base (1 + i))"
proof (rule ccontr)
  assume "\<not> ?thesis"
  then have sub: "(\<lambda>i. nth_candidate base (1 + i)) ` {..<fuel} \<subseteq> S" using assms(3) by auto
  have inj: "inj_on (\<lambda>i. nth_candidate base (1 + i)) {..<fuel}"
    by (rule inj_onI) (use nth_candidate_inj in fastforce)
  have "fuel = card ((\<lambda>i. nth_candidate base (1 + i)) ` {..<fuel})" using inj by (simp add: card_image)
  also have "\<dots> \<le> card S" using sub assms(1) by (rule card_mono [rotated])
  finally show False using assms(2) by simp
qed

lemma alloc_loop_total:
  assumes "finite S" "card S < fuel" "\<And>c. taken c \<Longrightarrow> c \<in> S"
  obtains i where "i < fuel" "alloc_loop fuel taken base 2 base = Some (nth_candidate base (1 + i))"
    "\<forall>j<i. taken (nth_candidate base (1 + j))"
proof -
  have b: "nth_candidate base 1 = base" by (simp add: nth_candidate_def)
  have "\<exists>i<fuel. \<not> taken (nth_candidate base (1 + i))" by (rule pigeonhole_free [OF assms])
  from alloc_loop_finds [OF this] obtain i where "i < fuel" "alloc_loop fuel taken base (Suc 1) (nth_candidate base 1) = Some (nth_candidate base (1 + i))"
    "\<forall>j<i. taken (nth_candidate base (1 + j))" by auto
  then show ?thesis using that [of i] b by (simp add: numeral_2_eq_2)
qed

lemma url_slug_taken_subset: "url_slug_taken d owner c \<Longrightarrow> c \<in> ws_url_slug ` set (workspaces d)"
  by (auto simp: url_slug_taken_def list_ex_iff)

lemma route_slug_taken_subset: "route_slug_taken d c \<Longrightarrow> c \<in> (\<lambda>u. str_or_empty (user_route_slug u)) ` set (users d)"
  by (force simp: route_slug_taken_def list_ex_iff str_or_empty_def)

section \<open>Shape of a slug\<close>

lemma strip_chars_subset: "set (strip_chars c s) \<subseteq> set s"
  by (auto simp: strip_chars_def dest!: set_dropWhileD)

lemma collapse_hyphens_subset: "set (collapse_hyphens s) \<subseteq> set s"
  by (induction s rule: collapse_hyphens.induct) auto

lemma slugify_chars: "list_all slug_char (slugify_workspace_name raw)"
proof -
  have "set (slugify_workspace_name raw) \<subseteq> set (filter slug_char (collapse_spaces (py_lower (py_strip raw))))"
    unfolding slugify_workspace_name_def Let_def
    using strip_chars_subset collapse_hyphens_subset by (meson order_trans set_take_subset)
  then show ?thesis by (auto simp: list_all_iff)
qed

lemma slugify_length: "length (slugify_workspace_name raw) \<le> 128"
  by (simp add: slugify_workspace_name_def Let_def)

end
