(* ===== verification/Gateway.thy ===== *)
theory Gateway
  imports Routing
begin

text \<open>
  Pure routing decisions shared by the intent service, the worker and reconcile: the Traefik upstream
  of a workspace (\<^verbatim>\<open>gateway_client/workspace_route_upstream.py\<close>) and the comparison of a
  registered route with the desired one (\<^verbatim>\<open>reconcile_service/decisions.py\<close>). A route-admin row
  is the record of the four string fields the code reads.
\<close>

record route_row =
  rr_workspace_id :: string
  rr_target :: "string option"
  rr_public_host :: "string option"
  rr_path_prefix :: "string option"

section \<open>Upstream\<close>

definition compose_traefik_upstream_target ::
  "string option \<Rightarrow> (int \<times> int) list \<Rightarrow> string option \<Rightarrow> int \<Rightarrow> string option" where
  "compose_traefik_upstream_target routing_host resolved_ports internal_endpoint ide_port =
     (let topo = py_strip (str_or_empty internal_endpoint);
          host = py_strip (str_or_empty routing_host);
          host_port = map_option fst (find (\<lambda>(hp, cp). cp = ide_port \<and> hp > 0) resolved_ports)
      in case host_port of
           Some p \<Rightarrow> if host \<noteq> [] then Some (''http://'' @ host @ '':'' @ str_int p) else none_if_empty topo
         | None \<Rightarrow> none_if_empty topo)"

definition registration_upstream :: "string option \<Rightarrow> string option \<Rightarrow> string" where
  "registration_upstream target endpoint =
     (let t = py_strip (str_or_empty target) in if t \<noteq> [] then t else py_strip (str_or_empty endpoint))"

definition traefik_upstream_for_workspace_gateway :: "workspace option \<Rightarrow> runtime \<Rightarrow> string" where
  "traefik_upstream_for_workspace_gateway ws rt =
     (let u = registration_upstream (rt_gateway_route_target rt) (rt_internal_endpoint rt)
      in if u \<noteq> [] then u
         else case ws of None \<Rightarrow> [] | Some w \<Rightarrow> py_strip (str_or_empty (ws_endpoint_ref w)))"

definition traefik_upstream_for_registration :: "runtime \<Rightarrow> string" where
  "traefik_upstream_for_registration rt = traefik_upstream_for_workspace_gateway None rt"

section \<open>Route comparison\<close>

definition normalize_http_target :: "string option \<Rightarrow> string" where
  "normalize_http_target raw =
     (let t = py_strip (str_or_empty raw) in
      if t = [] then []
      else let t1 = (if contains_str ''://'' t then t else ''http://'' @ t)
           in if \<not> (starts_with ''http://'' t1 \<or> starts_with ''https://'' t1) then []
              else rstrip_chars (CHR ''/'') t1)"

definition targets_equivalent :: "string option \<Rightarrow> string option \<Rightarrow> bool" where
  "targets_equivalent a b = (normalize_http_target a = normalize_http_target b)"

definition route_row_for_workspace :: "route_row list \<Rightarrow> int \<Rightarrow> route_row option" where
  "route_row_for_workspace routes wid = find (\<lambda>r. rr_workspace_id r = str_int wid) routes"

definition norm_public_host :: "string option \<Rightarrow> string" where
  "norm_public_host raw = py_lower (py_strip (str_or_empty raw))"

definition norm_path_prefix :: "string option \<Rightarrow> string" where
  "norm_path_prefix raw = rstrip_chars (CHR ''/'') (py_strip (str_or_empty raw))"

definition gateway_route_needs_repair ::
  "route_row option \<Rightarrow> string option \<Rightarrow> string option \<Rightarrow> string option \<Rightarrow> bool" where
  "gateway_route_needs_repair row observed expected_public_host expected_path_prefix =
     (let ep = py_strip (str_or_empty observed) in
      if ep = [] then False
      else if normalize_http_target (Some ep) = [] then False
      else case row of None \<Rightarrow> True
        | Some r \<Rightarrow>
            if \<not> targets_equivalent (rr_target r) observed then True
            else let want = norm_public_host expected_public_host in
              if want \<noteq> [] \<and> norm_public_host (rr_public_host r) \<noteq> want then True
              else norm_path_prefix expected_path_prefix \<noteq> norm_path_prefix (rr_path_prefix r))"

section \<open>Lemmas\<close>

text \<open>Registering the desired upstream under the desired host and prefix leaves nothing to repair.\<close>

lemma registered_route_settles:
  "\<not> gateway_route_needs_repair
      (Some \<lparr>rr_workspace_id = sid, rr_target = Some up, rr_public_host = Some host, rr_path_prefix = pre\<rparr>)
      (Some up) (Some host) pre"
  by (simp add: gateway_route_needs_repair_def Let_def targets_equivalent_def)

lemma route_row_for_workspace_id:
  "route_row_for_workspace routes w = Some r \<Longrightarrow> rr_workspace_id r = str_int w \<and> r \<in> set routes"
  by (auto simp: route_row_for_workspace_def find_Some_iff)

end
