(* ===== verification/Intent.thy ===== *)
theory Intent
  imports Policy Sessions Binding Gateway
begin

text \<open>
  The intent service (\<^verbatim>\<open>workspace_service/services/workspace_intent_service.py\<close>): request
  handlers that check ownership, state, quotas and policies, then change the workspace status and
  queue one job, atomically with an event and an audit row. Also the encrypted workspace secrets
  (\<^verbatim>\<open>workspace_secret_service.py\<close>) and the read side (detail and listing).

  The host file system consulted before a reopen is the parameter \<open>host_fs\<close>, encryption of a secret
  the parameter \<open>encrypt\<close>, random identifiers the arguments \<open>uuid_hex\<close>. Metrics and logs carry no
  state. A failed request leaves the database as it was, except that a quota or policy denial commits
  its audit row.
\<close>

section \<open>Shared helpers\<close>

record host_fs =
  fs_realpath :: "string \<Rightarrow> string"
  fs_is_dir :: "string \<Rightarrow> bool"
  fs_project_data :: "string \<Rightarrow> bool"

definition busy :: "ws_status \<Rightarrow> bool" where
  "busy s = (s \<in> {WS_CREATING, WS_PENDING, WS_STARTING, WS_STOPPING, WS_RESTARTING, WS_UPDATING, WS_DELETING})"

definition latest_config :: "db \<Rightarrow> int \<Rightarrow> ws_config option" where
  "latest_config d wid =
     first_row (sort_key (\<lambda>c. - cfg_version c) (filter (\<lambda>c. cfg_workspace_id c = wid) (configs d)))"

definition latest_config_version :: "db \<Rightarrow> int \<Rightarrow> int option" where
  "latest_config_version d wid = map_option cfg_version (latest_config d wid)"

definition get_owned_workspace :: "db \<Rightarrow> int \<Rightarrow> int \<Rightarrow> bool \<Rightarrow> error + workspace" where
  "get_owned_workspace d wid owner include_deleted =
     (case get_ws d wid of
        None \<Rightarrow> Inl (WorkspaceNotFoundError ''Workspace not found'')
      | Some w \<Rightarrow>
          if ws_owner_user_id w \<noteq> owner then Inl (WorkspaceNotFoundError ''Workspace not found'')
          else if ws_status w = WS_DELETED \<and> \<not> include_deleted then Inl (WorkspaceNotFoundError ''Workspace not found'')
          else Inr w)"

definition gateway_unique_public_host :: "int \<Rightarrow> string \<Rightarrow> string option \<Rightarrow> string" where
  "gateway_unique_public_host wid base_domain key =
     (let dom = strip_chars (CHR ''.'') (py_strip (if base_domain = [] then ''app.devnest.local'' else base_domain));
          suffix = py_lower (py_strip (str_or_empty key));
          label = ''ws-'' @ str_int wid
      in (if suffix \<noteq> [] then label @ ''-'' @ suffix else label) @ ''.'' @ dom)"

text \<open>\<^verbatim>\<open>workspace_project_dir_name\<close> on a valid id and key.\<close>

definition workspace_project_dir_name :: "string \<Rightarrow> string option \<Rightarrow> string" where
  "workspace_project_dir_name wid key =
     (let k = py_strip (str_or_empty key) in if k = [] then wid else wid @ ''-'' @ k)"

definition PROJECT_DATA_MISSING_SHORT_ISSUE :: string where
  "PROJECT_DATA_MISSING_SHORT_ISSUE = ''Persisted project data is missing on the execution host.''"

definition stale_host_issue :: "settings \<Rightarrow> workspace \<Rightarrow> string list" where
  "stale_host_issue s w =
     (if s_gateway_enabled s \<and> \<not> tenant_workspace_urls_enabled s
      then let expected = gateway_unique_public_host (ws_id w) (s_base_domain s) (strip_or_none (ws_project_storage_key w));
               stored = py_strip (str_or_empty (ws_public_host w))
           in if stored \<noteq> [] \<and> py_lower stored \<noteq> py_lower expected
              then [''Stored gateway hostname does not match the current DEVNEST_BASE_DOMAIN pattern; routing may target the wrong edge host until a reconcile updates public_host.'']
              else []
      else [])"

definition workspace_project_storage_reopen_assessment ::
  "host_fs \<Rightarrow> settings \<Rightarrow> workspace \<Rightarrow> string list \<times> bool option" where
  "workspace_project_storage_reopen_assessment fs s w =
     (if ws_status w = WS_DELETED then ([], None)
      else
        let wid = str_int (ws_id w);
            key = strip_or_none (ws_project_storage_key w);
            issues = stale_host_issue s w;
            base = py_strip (s_workspace_projects_base s);
            root = fs_realpath fs base
        in if base \<noteq> [] \<and> ws_status w \<in> {WS_RUNNING, WS_STOPPED, WS_ERROR} \<and> fs_is_dir fs root
           then
             let canon = root @ ''/'' @ workspace_project_dir_name wid key;
                 legacy = [''/tmp/devnest-workspaces/ws-'' @ wid, ''/tmp/devnest-workspaces/'' @ wid]
                    @ (case key of None \<Rightarrow> [] | Some k \<Rightarrow> [''/tmp/devnest-workspaces/'' @ wid @ ''-'' @ k]);
                 legacy_hits = filter (fs_is_dir fs) legacy
             in if \<not> fs_is_dir fs canon
                then (issues @ [PROJECT_DATA_MISSING_SHORT_ISSUE] @
                      (if legacy_hits \<noteq> [] then [''Legacy workspace data may exist outside WORKSPACE_PROJECTS_BASE; see server logs for paths.''] else []),
                      Some True)
                else if \<not> fs_project_data fs canon
                then (issues @ [PROJECT_DATA_MISSING_SHORT_ISSUE], Some True)
                else (issues @
                      (if legacy_hits \<noteq> [] then [''Legacy workspace directories still exist under temporary paths; remove or migrate them to avoid confusion.''] else []),
                      Some False)
           else (issues, None))"

definition ensure_workspace_reopen_allowed :: "host_fs \<Rightarrow> env \<Rightarrow> workspace \<Rightarrow> db \<Rightarrow> unit result" where
  "ensure_workspace_reopen_allowed fs E w d =
     (let blockers = fst (workspace_project_storage_reopen_assessment fs (cfg E) w)
      in guard (blockers = []) (WorkspaceInvalidStateError (join_str ''; '' blockers)) d)"

definition require_not_busy :: "workspace \<Rightarrow> db \<Rightarrow> unit result" where
  "require_not_busy w d =
     guard (\<not> busy (ws_status w))
       (WorkspaceBusyError (''Workspace is busy (status='' @ ws_status_str (ws_status w) @ '')'')) d"

definition effective_correlation_id :: "env \<Rightarrow> string option \<Rightarrow> string" where
  "effective_correlation_id E passed =
     (let s = py_strip (str_or_empty passed) in if s \<noteq> [] then take 64 s else gen_cid E)"

definition intent_config_version :: "int \<Rightarrow> db \<Rightarrow> int result" where
  "intent_config_version wid d =
     (case latest_config_version d wid of
        None \<Rightarrow> Inl (WorkspaceInvalidStateError ''Workspace has no configuration version'', d)
      | Some v \<Rightarrow> Inr (v, d))"

text \<open>A freshly queued job row, with the column defaults of \<^verbatim>\<open>WorkspaceJob\<close>.\<close>

definition new_job :: "env \<Rightarrow> int \<Rightarrow> job_type \<Rightarrow> int \<Rightarrow> int \<Rightarrow> int option \<Rightarrow> string \<Rightarrow> job" where
  "new_job E wid jt uid cfgv snap cid =
     \<lparr>job_id = 0, job_workspace_id = wid, job_snapshot_id = snap, job_type = jt, job_status = JS_QUEUED,
      job_requested_by = uid, job_config_version = cfgv, job_attempt = 0, job_error_msg = None,
      job_created_at = now E, job_started_at = None, job_finished_at = None,
      job_correlation_id = Some cid, job_max_attempts = 2, job_failure_stage = None,
      job_failure_code = None, job_next_attempt_after = None\<rparr>"

record intent_result =
  ir_workspace_id :: int
  ir_status :: ws_status
  ir_job_id :: int
  ir_job_type :: job_type
  ir_config_version :: int

fun intent_audit_action :: "job_type \<Rightarrow> string" where
  "intent_audit_action JT_START = ''workspace.start.requested''"
| "intent_audit_action JT_STOP = ''workspace.stop.requested''"
| "intent_audit_action JT_RESTART = ''workspace.restart.requested''"
| "intent_audit_action JT_DELETE = ''workspace.delete.requested''"
| "intent_audit_action JT_UPDATE = ''workspace.update.requested''"
| "intent_audit_action t = ''workspace.'' @ py_lower (job_type_str t) @ ''.requested''"

text \<open>\<^verbatim>\<open>float(x)\<close> and \<^verbatim>\<open>int(x)\<close> of a decoded JSON value; \<open>None\<close> is an exception.\<close>

fun json_float :: "env \<Rightarrow> json \<Rightarrow> rat option" where
  "json_float E (JInt i) = Some (of_int i)"
| "json_float E (JFloat r) = Some r"
| "json_float E (JBool b) = Some (if b then 1 else 0)"
| "json_float E (JStr s) = parse_float E s"
| "json_float E _ = None"

fun json_int :: "json \<Rightarrow> int option" where
  "json_int (JInt i) = Some i"
| "json_int (JFloat r) = Some (if r < 0 then \<lceil>r\<rceil> else \<lfloor>r\<rfloor>)"
| "json_int (JBool b) = Some (if b then 1 else 0)"
| "json_int (JStr s) = parse_int s"
| "json_int _ = None"

definition DEFAULT_WORKSPACE_REQUEST_CPU :: rat where "DEFAULT_WORKSPACE_REQUEST_CPU = 1"
definition DEFAULT_WORKSPACE_REQUEST_MEMORY_MB :: int where "DEFAULT_WORKSPACE_REQUEST_MEMORY_MB = 512"
definition DEFAULT_WORKSPACE_REQUEST_DISK_MB :: int where "DEFAULT_WORKSPACE_REQUEST_DISK_MB = 4096"

definition proposed_cpu :: "env \<Rightarrow> jobj \<Rightarrow> rat option" where
  "proposed_cpu E c =
     (let v = jget c ''cpu_limit_cores'' in if truthy v then json_float E v else Some DEFAULT_WORKSPACE_REQUEST_CPU)"

definition proposed_memory :: "jobj \<Rightarrow> int option" where
  "proposed_memory c =
     (let v = jget c ''memory_limit_mib'' in if truthy v then json_int v else Some DEFAULT_WORKSPACE_REQUEST_MEMORY_MB)"

section \<open>Accepting an intent\<close>

definition start_guards :: "env \<Rightarrow> workspace \<Rightarrow> string option \<Rightarrow> db \<Rightarrow> unit result" where
  "start_guards E w cid d =
     andthen (check_running_workspace_quota E (ws_owner_user_id w) (Some (ws_id w)) cid d) (\<lambda>_ d.
     andthen (check_monthly_runtime_hours_quota E (ws_owner_user_id w) cid d) (\<lambda>_ d.
       let cj = (case latest_config d (ws_id w) of None \<Rightarrow> [] | Some c \<Rightarrow> cfg_json c)
       in case (proposed_cpu E cj, proposed_memory cj) of
            (Some p_cpu, Some p_mem) \<Rightarrow>
              andthen (check_owner_compute_quota E (ws_owner_user_id w) p_cpu p_mem (Some (ws_id w)) cid d) (\<lambda>_ d.
                evaluate_workspace_start E (ws_owner_user_id w) (ws_id w) cid d)
          | _ \<Rightarrow> Inl (ValueError ''could not convert workspace resource limits'', d)))"

definition persist_intent ::
  "env \<Rightarrow> workspace \<Rightarrow> ws_status \<Rightarrow> job_type \<Rightarrow> int \<Rightarrow> int \<Rightarrow> string option \<Rightarrow> db \<Rightarrow> intent_result result" where
  "persist_intent E w new_status jt uid cfgv co d =
     (let cid = effective_correlation_id E co in
      andthen (if jt \<in> {JT_START, JT_RESTART} then start_guards E w (Some cid) d else Inr ((), d)) (\<lambda>_ d.
        let d1 = put_ws (w\<lparr>ws_status := new_status, ws_updated_at := now E\<rparr>) d;
            (jid, d2) = add_job (new_job E (ws_id w) jt uid cfgv None cid) d1;
            d3 = log_event E (ws_id w) EV_INTENT_QUEUED (Some (ws_status_str new_status))
                   (Some ''Intent accepted; job queued'')
                   [(''job_id'', JInt jid), (''job_type'', JStr (job_type_str jt)),
                    (''requested_config_version'', JInt cfgv)] d2;
            d4 = record_audit E (intent_audit_action jt) ''workspace'' AO_SUCCESS (Some uid) ACTOR_USER
                   (Some (str_int (ws_id w))) (Some (ws_id w)) (Some jid) None None
                   [(''job_type'', JStr (job_type_str jt)), (''new_status'', JStr (ws_status_str new_status))]
                   (Some cid) d3
        in Inr (\<lparr>ir_workspace_id = ws_id w, ir_status = new_status, ir_job_id = jid, ir_job_type = jt,
                 ir_config_version = cfgv\<rparr>, d4)))"

definition with_owned :: "db \<Rightarrow> int \<Rightarrow> int \<Rightarrow> bool \<Rightarrow> (workspace \<Rightarrow> 'a result) \<Rightarrow> 'a result" where
  "with_owned d wid owner incl f =
     (case get_owned_workspace d wid owner incl of Inl e \<Rightarrow> Inl (e, d) | Inr w \<Rightarrow> f w)"

definition request_start_workspace ::
  "host_fs \<Rightarrow> env \<Rightarrow> int \<Rightarrow> int \<Rightarrow> int \<Rightarrow> string option \<Rightarrow> db \<Rightarrow> intent_result result" where
  "request_start_workspace fs E wid owner uid co d =
     with_owned d wid owner False (\<lambda>w.
     andthen (require_not_busy w d) (\<lambda>_ d.
     andthen (guard (ws_status w \<in> {WS_STOPPED, WS_ERROR}) (WorkspaceInvalidStateError
        (''Start is only allowed when stopped or error (current='' @ ws_status_str (ws_status w) @ '')'')) d) (\<lambda>_ d.
     andthen (ensure_workspace_reopen_allowed fs E w d) (\<lambda>_ d.
     andthen (intent_config_version wid d) (\<lambda>v d.
     persist_intent E w WS_STARTING JT_START uid v co d)))))"

definition request_stop_workspace ::
  "env \<Rightarrow> int \<Rightarrow> int \<Rightarrow> int \<Rightarrow> string option \<Rightarrow> db \<Rightarrow> intent_result result" where
  "request_stop_workspace E wid owner uid co d =
     with_owned d wid owner False (\<lambda>w.
     andthen (require_not_busy w d) (\<lambda>_ d.
     andthen (guard (ws_status w = WS_RUNNING) (WorkspaceInvalidStateError
        (''Stop is only allowed when running (current='' @ ws_status_str (ws_status w) @ '')'')) d) (\<lambda>_ d.
     andthen (intent_config_version wid d) (\<lambda>v d.
     persist_intent E w WS_STOPPING JT_STOP uid v co d))))"

definition request_restart_workspace ::
  "host_fs \<Rightarrow> env \<Rightarrow> int \<Rightarrow> int \<Rightarrow> int \<Rightarrow> string option \<Rightarrow> db \<Rightarrow> intent_result result" where
  "request_restart_workspace fs E wid owner uid co d =
     with_owned d wid owner False (\<lambda>w.
     andthen (require_not_busy w d) (\<lambda>_ d.
     andthen (guard (ws_status w \<in> {WS_RUNNING, WS_STOPPED}) (WorkspaceInvalidStateError
        (''Restart is only allowed when running or stopped (current='' @ ws_status_str (ws_status w) @ '')'')) d) (\<lambda>_ d.
     andthen (ensure_workspace_reopen_allowed fs E w d) (\<lambda>_ d.
     andthen (intent_config_version wid d) (\<lambda>v d.
     persist_intent E w WS_RESTARTING JT_RESTART uid v co d)))))"

definition request_delete_workspace ::
  "env \<Rightarrow> int \<Rightarrow> int \<Rightarrow> int \<Rightarrow> string option \<Rightarrow> db \<Rightarrow> intent_result result" where
  "request_delete_workspace E wid owner uid co d =
     with_owned d wid owner True (\<lambda>w.
     andthen (require_not_busy w d) (\<lambda>_ d.
     andthen (guard (ws_status w \<in> {WS_RUNNING, WS_STOPPED, WS_ERROR, WS_DELETED}) (WorkspaceInvalidStateError
        (''Delete is only allowed when running, stopped, error, or deleted (current='' @ ws_status_str (ws_status w) @ '')'')) d) (\<lambda>_ d.
     andthen (intent_config_version wid d) (\<lambda>v d.
     persist_intent E w WS_DELETING JT_DELETE uid v co d))))"

text \<open>The runtime section of a request body and its \<^verbatim>\<open>to_config_dict\<close>.\<close>

record runtime_spec =
  sp_image :: "string option"
  sp_cpu_limit_cores :: "rat option"
  sp_memory_limit_mib :: "int option"
  sp_pids_limit :: "int option"
  sp_env :: jobj
  sp_ports :: "json list"
  sp_topology_id :: "int option"
  sp_storage :: jobj
  sp_features :: jobj

definition to_config_dict :: "runtime_spec \<Rightarrow> jobj" where
  "to_config_dict r =
     [(''image'', jopt JStr (sp_image r)), (''cpu_limit_cores'', jopt JFloat (sp_cpu_limit_cores r)),
      (''memory_limit_mib'', jopt JInt (sp_memory_limit_mib r)), (''pids_limit'', jopt JInt (sp_pids_limit r)),
      (''env'', JObj (sp_env r)), (''ports'', JList (sp_ports r)), (''topology_id'', jopt JInt (sp_topology_id r)),
      (''storage'', JObj (sp_storage r)), (''features'', JObj (sp_features r))]"

definition request_update_workspace ::
  "env \<Rightarrow> int \<Rightarrow> int \<Rightarrow> int \<Rightarrow> runtime_spec \<Rightarrow> string option \<Rightarrow> db \<Rightarrow> intent_result result" where
  "request_update_workspace E wid owner uid spec co d =
     with_owned d wid owner False (\<lambda>w.
     andthen (require_not_busy w d) (\<lambda>_ d.
     andthen (guard (ws_status w \<in> {WS_RUNNING, WS_STOPPED, WS_ERROR}) (WorkspaceInvalidStateError
        (''Update is only allowed when running, stopped, or error (current='' @ ws_status_str (ws_status w) @ '')'')) d) (\<lambda>_ d.
     andthen (intent_config_version wid d) (\<lambda>latest d.
       let next_version = latest + 1;
           cid = effective_correlation_id E co;
           d1 = put_ws (w\<lparr>ws_status := WS_UPDATING, ws_updated_at := now E\<rparr>) d;
           d2 = snd (add_cfg \<lparr>cfg_id = 0, cfg_workspace_id = wid, cfg_version = next_version,
                              cfg_json = to_config_dict spec\<rparr> d1);
           (jid, d3) = add_job (new_job E wid JT_UPDATE uid next_version None cid) d2;
           d4 = log_event E wid EV_INTENT_QUEUED (Some (ws_status_str WS_UPDATING))
                  (Some ''Update intent accepted; job queued'')
                  [(''job_id'', JInt jid), (''job_type'', JStr ''UPDATE''),
                   (''requested_config_version'', JInt next_version)] d3
       in Inr (\<lparr>ir_workspace_id = wid, ir_status = WS_UPDATING, ir_job_id = jid, ir_job_type = JT_UPDATE,
                ir_config_version = next_version\<rparr>, d4)))))"

section \<open>Reconcile intent\<close>

definition check_reconcile_lease :: "env \<Rightarrow> int \<Rightarrow> db \<Rightarrow> unit result" where
  "check_reconcile_lease E wid d =
     (case first_row (filter (\<lambda>j. job_workspace_id j = wid \<and> job_type j = JT_RECONCILE_RUNTIME \<and>
                                 job_status j \<in> {JS_QUEUED, JS_RUNNING}) (jobs d)) of
        None \<Rightarrow> Inr ((), d)
      | Some j \<Rightarrow>
          if job_status j = JS_QUEUED
          then Inl (WorkspaceBusyError (''A RECONCILE_RUNTIME job is already queued (job_id='' @ str_int (job_id j) @
                      ''). Skip or wait until it completes.''), d)
          else let ttl = s_reconcile_lease_ttl_seconds (cfg E) in
            case job_started_at j of
              None \<Rightarrow> Inr ((), d)
            | Some started \<Rightarrow>
                let age = now E - started in
                if age < seconds ttl
                then Inl (WorkspaceBusyError (''A RECONCILE_RUNTIME job is already running (job_id='' @ str_int (job_id j) @
                            '', age='' @ str_int (age div 1000000) @ ''s < lease_ttl='' @ str_int ttl @ ''s).''), d)
                else Inr ((), d))"

definition enqueue_reconcile_runtime_job :: "env \<Rightarrow> int \<Rightarrow> string option \<Rightarrow> db \<Rightarrow> intent_result result" where
  "enqueue_reconcile_runtime_job E wid co d =
     (case get_ws d wid of
        None \<Rightarrow> Inl (WorkspaceNotFoundError ''Workspace not found'', d)
      | Some w \<Rightarrow>
          andthen (require_not_busy w d) (\<lambda>_ d.
          andthen (guard (ws_status w \<in> {WS_RUNNING, WS_STOPPED, WS_ERROR, WS_DELETED}) (WorkspaceInvalidStateError
            (''Reconcile is only allowed when running, stopped, error, or deleted (current='' @ ws_status_str (ws_status w) @ '')'')) d) (\<lambda>_ d.
          andthen (check_reconcile_lease E wid d) (\<lambda>_ d.
          andthen (intent_config_version wid d) (\<lambda>v d.
            let cid = effective_correlation_id E co;
                (jid, d1) = add_job (new_job E wid JT_RECONCILE_RUNTIME (ws_owner_user_id w) v None cid) d;
                d2 = log_event E wid EV_INTENT_QUEUED (Some (ws_status_str (ws_status w)))
                       (Some ''Reconcile job queued'')
                       [(''job_id'', JInt jid), (''job_type'', JStr ''RECONCILE_RUNTIME''),
                        (''requested_config_version'', JInt v)] d1
            in Inr (\<lparr>ir_workspace_id = wid, ir_status = ws_status w, ir_job_id = jid,
                     ir_job_type = JT_RECONCILE_RUNTIME, ir_config_version = v\<rparr>, d2))))))"

section \<open>Secrets\<close>

definition ai_provider_secret_env :: "string \<Rightarrow> string option" where
  "ai_provider_secret_env p =
     (if p = ''openai'' then Some ''OPENAI_API_KEY''
      else if p = ''anthropic'' then Some ''ANTHROPIC_API_KEY'' else None)"

definition owned_ws_exists :: "db \<Rightarrow> int \<Rightarrow> int \<Rightarrow> bool" where
  "owned_ws_exists d wid owner = list_ex (\<lambda>w. ws_id w = wid \<and> ws_owner_user_id w = owner) (workspaces d)"

definition find_secret :: "db \<Rightarrow> int \<Rightarrow> string \<Rightarrow> ws_secret option" where
  "find_secret d wid name = first_row (filter (\<lambda>s. sec_workspace_id s = wid \<and> sec_name s = name) (secrets d))"

definition upsert_workspace_ai_secret ::
  "(string \<Rightarrow> string) \<Rightarrow> env \<Rightarrow> int \<Rightarrow> int \<Rightarrow> string \<Rightarrow> string \<Rightarrow> db \<Rightarrow> unit result" where
  "upsert_workspace_ai_secret encrypt E wid owner provider api_key d =
     (case ai_provider_secret_env (py_lower (py_strip provider)) of
        None \<Rightarrow> Inl (ValueError ''unsupported_ai_provider'', d)
      | Some name \<Rightarrow>
          let key_value = py_strip api_key in
          if key_value = [] then Inl (ValueError ''api_key_required'', d)
          else if \<not> owned_ws_exists d wid owner then Inl (ValueError ''workspace_not_found_or_not_owned'', d)
          else case find_secret d wid name of
            None \<Rightarrow> Inr ((), d\<lparr>secrets := secrets d @ [\<lparr>sec_id = seqs d T_SECRET, sec_workspace_id = wid,
                        sec_name = name, sec_encrypted = encrypt key_value, sec_updated_at = now E\<rparr>],
                      seqs := (seqs d)(T_SECRET := seqs d T_SECRET + 1)\<rparr>)
          | Some s \<Rightarrow> Inr ((), d\<lparr>secrets := row_put sec_id
                        (s\<lparr>sec_encrypted := encrypt key_value, sec_updated_at := now E\<rparr>) (secrets d)\<rparr>))"

definition delete_workspace_ai_secret :: "int \<Rightarrow> int \<Rightarrow> string \<Rightarrow> db \<Rightarrow> bool result" where
  "delete_workspace_ai_secret wid owner provider d =
     (case ai_provider_secret_env (py_lower (py_strip provider)) of
        None \<Rightarrow> Inl (ValueError ''unsupported_ai_provider'', d)
      | Some name \<Rightarrow>
          if \<not> owned_ws_exists d wid owner then Inl (ValueError ''workspace_not_found_or_not_owned'', d)
          else case find_secret d wid name of
            None \<Rightarrow> Inr (False, d)
          | Some s \<Rightarrow> Inr (True, d\<lparr>secrets := row_del sec_id (sec_id s) (secrets d)\<rparr>))"

text \<open>\<open>None\<close>: one of the stored values does not decrypt (\<^verbatim>\<open>ValueError\<close>).\<close>

definition resolve_workspace_runtime_secret_env ::
  "(string \<Rightarrow> string option) \<Rightarrow> db \<Rightarrow> int \<Rightarrow> (string \<rightharpoonup> string) option" where
  "resolve_workspace_runtime_secret_env decrypt d wid =
     fold (\<lambda>s acc. case (acc, decrypt (sec_encrypted s)) of
             (Some m, Some v) \<Rightarrow> Some (m(sec_name s \<mapsto> v)) | _ \<Rightarrow> None)
       (filter (\<lambda>s. sec_workspace_id s = wid) (secrets d)) (Some Map.empty)"

section \<open>Creating a workspace\<close>

definition assign_workspace_gateway_public_identity :: "env \<Rightarrow> workspace \<Rightarrow> int \<Rightarrow> db \<Rightarrow> workspace \<times> db" where
  "assign_workspace_gateway_public_identity E w owner d =
     (if \<not> s_gateway_enabled (cfg E) then (w, d)
      else case get_user d owner of
        None \<Rightarrow> (w, d)
      | Some u \<Rightarrow>
          let sub = py_lower (py_strip (str_or_empty (user_route_slug u)));
              slug = py_lower (py_strip (ws_url_slug w));
              w' = (if tenant_workspace_urls_enabled (cfg E) \<and> sub \<noteq> [] \<and> slug \<noteq> []
                    then w\<lparr>ws_public_host := Some (sub @ ''.'' @ effective_public_base_domain (cfg E)),
                           ws_gateway_path_prefix := Some (''/workspaces/'' @ slug)\<rparr>
                    else w\<lparr>ws_public_host := Some (gateway_unique_public_host (ws_id w) (s_base_domain (cfg E))
                                                    (ws_project_storage_key w)),
                           ws_gateway_path_prefix := None\<rparr>)
          in (w', put_ws w' d))"

record create_request =
  cr_name :: string
  cr_description :: "string option"
  cr_is_private :: bool
  cr_runtime :: runtime_spec
  cr_ai_secret :: "(string \<times> string) option"

record create_result =
  cres_workspace_id :: int
  cres_job_id :: int
  cres_config_version :: int
  cres_status :: ws_status

definition create_guards :: "env \<Rightarrow> int \<Rightarrow> create_request \<Rightarrow> string option \<Rightarrow> db \<Rightarrow> unit result" where
  "create_guards E owner body cid d =
     andthen (check_workspace_quota E owner cid d) (\<lambda>_ d.
     andthen (check_running_workspace_quota E owner None cid d) (\<lambda>_ d.
     andthen (check_monthly_runtime_hours_quota E owner cid d) (\<lambda>_ d.
     andthen (check_owner_compute_quota E owner
        (case sp_cpu_limit_cores (cr_runtime body) of None \<Rightarrow> DEFAULT_WORKSPACE_REQUEST_CPU
           | Some c \<Rightarrow> if c = 0 then DEFAULT_WORKSPACE_REQUEST_CPU else c)
        (case sp_memory_limit_mib (cr_runtime body) of None \<Rightarrow> DEFAULT_WORKSPACE_REQUEST_MEMORY_MB
           | Some m \<Rightarrow> if m = 0 then DEFAULT_WORKSPACE_REQUEST_MEMORY_MB else m)
        None cid d) (\<lambda>_ d.
     evaluate_workspace_creation E owner (sp_image (cr_runtime body)) (cr_is_private body) cid d))))"

text \<open>The row inserted by the create handlers; columns not named take the model's defaults.\<close>

definition new_workspace :: "env \<Rightarrow> int \<Rightarrow> create_request \<Rightarrow> string \<Rightarrow> string \<Rightarrow> ws_status \<Rightarrow> int option \<Rightarrow> string option \<Rightarrow> workspace" where
  "new_workspace E owner body slug key st node reason =
     \<lparr>ws_id = 0, ws_execution_node_id = node, ws_project_storage_key = Some key, ws_name = cr_name body,
      ws_url_slug = slug, ws_description = cr_description body, ws_owner_user_id = owner, ws_status = st,
      ws_status_reason = reason, ws_last_error_code = None, ws_last_error_message = None,
      ws_endpoint_ref = None, ws_public_host = None, ws_gateway_path_prefix = None,
      ws_active_sessions_count = 0, ws_is_private = cr_is_private body, ws_created_at = now E,
      ws_updated_at = now E, ws_last_started = None, ws_last_stopped = None\<rparr>"

text \<open>
  The tail shared by both create handlers: configuration version 1, the optional secret, the
  \<^verbatim>\<open>CREATE\<close> job, its event, audit row and usage record. A rejected secret rolls back to \<open>d0\<close>.
\<close>

definition finish_create ::
  "(string \<Rightarrow> string) \<Rightarrow> env \<Rightarrow> int \<Rightarrow> create_request \<Rightarrow> string \<Rightarrow> workspace \<Rightarrow> actor_type \<Rightarrow> string \<Rightarrow> jobj \<Rightarrow> jobj \<Rightarrow>
   db \<Rightarrow> db \<Rightarrow> create_result result" where
  "finish_create encrypt E owner body cid w actor msg extra meta d0 d =
     (let wid = ws_id w;
          d1 = snd (add_cfg \<lparr>cfg_id = 0, cfg_workspace_id = wid, cfg_version = 1,
                             cfg_json = to_config_dict (cr_runtime body)\<rparr> d);
          sec = (case cr_ai_secret body of None \<Rightarrow> Inr ((), d1)
                 | Some (prov, key) \<Rightarrow> upsert_workspace_ai_secret encrypt E wid owner prov key d1)
      in case sec of
           Inl (e, _) \<Rightarrow> Inl (e, d0)
         | Inr (_, d2) \<Rightarrow>
             let (jid, d3) = add_job (new_job E wid JT_CREATE owner 1 None cid) d2;
                 d4 = log_event E wid EV_INTENT_QUEUED (Some (ws_status_str (ws_status w))) (Some msg)
                        ([(''job_id'', JInt jid), (''job_type'', JStr ''CREATE''),
                          (''requested_config_version'', JInt 1)] @ extra) d3;
                 d5 = record_audit E ''workspace.create.requested'' ''workspace'' AO_SUCCESS (Some owner) actor
                        (Some (str_int wid)) (Some wid) (Some jid) None None
                        ((''name'', JStr (ws_name w)) # meta) (Some cid) d4;
                 d6 = record_usage E (Some wid) (Some owner) ''workspace.created'' 1 None None [] (Some cid) d5
             in Inr (\<lparr>cres_workspace_id = wid, cres_job_id = jid, cres_config_version = 1,
                      cres_status = ws_status w\<rparr>, d6))"

text \<open>Insert the workspace row under a free slug and give it its public identity.\<close>

definition insert_workspace ::
  "env \<Rightarrow> int \<Rightarrow> create_request \<Rightarrow> string \<Rightarrow> string \<Rightarrow> ws_status \<Rightarrow> int option \<Rightarrow> string option \<Rightarrow> db \<Rightarrow> workspace \<times> db" where
  "insert_workspace E owner body slug key st node reason d =
     (let row = new_workspace E owner body slug key st node reason;
          (wid, d1) = add_ws row d
      in assign_workspace_gateway_public_identity E (row\<lparr>ws_id := wid\<rparr>) owner d1)"

definition create_workspace ::
  "(string \<Rightarrow> string) \<Rightarrow> string \<Rightarrow> env \<Rightarrow> int \<Rightarrow> create_request \<Rightarrow> string option \<Rightarrow> db \<Rightarrow> create_result result" where
  "create_workspace encrypt uuid_hex E owner body co d =
     (let cid = effective_correlation_id E co in
      andthen (create_guards E owner body (Some cid) d) (\<lambda>_ d.
        let rt_cpu = (case sp_cpu_limit_cores (cr_runtime body) of None \<Rightarrow> DEFAULT_WORKSPACE_REQUEST_CPU
               | Some c \<Rightarrow> if c = 0 then DEFAULT_WORKSPACE_REQUEST_CPU else c);
            rt_mem = (case sp_memory_limit_mib (cr_runtime body) of None \<Rightarrow> DEFAULT_WORKSPACE_REQUEST_MEMORY_MB
               | Some m \<Rightarrow> if m = 0 then DEFAULT_WORKSPACE_REQUEST_MEMORY_MB else m);
            d1 = snd (ensure_default_local_execution_node E d)
        in if rt_cpu \<le> 0 \<or> rt_mem \<le> 0 \<or> DEFAULT_WORKSPACE_REQUEST_DISK_MB \<le> 0
           then Inl (WorkspaceSchedulingInvalidError ''placement requires positive requested_cpu, memory_limit_mib, and disk budget'', d)
           else case allocate_unique_workspace_url_slug d1 owner (cr_name body) of
             None \<Rightarrow> Inl (ValueError ''unreachable: slug allocation always returns'', d)
           | Some slug \<Rightarrow>
               let (w, d2) = insert_workspace E owner body slug uuid_hex WS_PENDING None (Some ''Preparing capacity...'') d1
               in finish_create encrypt E owner body cid w ACTOR_USER
                    ''Workspace creation accepted; provisioning asynchronously''
                    [(''async_placement'', JBool True)] [(''async_placement'', JBool True)] d d2))"

definition create_operator_pinned_test_workspace ::
  "(string \<Rightarrow> string) \<Rightarrow> string \<Rightarrow> string \<Rightarrow> env \<Rightarrow> int \<Rightarrow> int \<Rightarrow> runtime_spec \<Rightarrow> string option \<Rightarrow> string option \<Rightarrow> db \<Rightarrow> create_result result" where
  "create_operator_pinned_test_workspace encrypt name_uuid_hex uuid_hex E owner eid spec description co d =
     (if \<not> s_allow_pinned_create (cfg E) then
        Inl (WorkspaceOperatorPinnedDisabledError ''Pinned operator CREATE is disabled (set DEVNEST_ALLOW_PINNED_CREATE_PLACEMENT=true).'', d)
      else let allow = parse_pinned_create_execution_node_ids (cfg E) in
      if allow = [] then
        Inl (WorkspaceOperatorPinnedNotAllowlistedError ''Set DEVNEST_PINNED_CREATE_EXECUTION_NODE_IDS to a comma-separated list of execution_node.id values permitted for pinned operator test workspaces.'', d)
      else if eid \<notin> set allow then
        Inl (WorkspaceOperatorPinnedNotAllowlistedError (''execution_node_id='' @ str_int eid @ '' is not listed in DEVNEST_PINNED_CREATE_EXECUTION_NODE_IDS.''), d)
      else case get_node d eid of
        None \<Rightarrow> Inl (WorkspaceOperatorPinnedNodeInvalidError (''execution_node id='' @ str_int eid @ '' not found.''), d)
      | Some n \<Rightarrow>
          if node_status n \<noteq> NS_READY then
            Inl (WorkspaceOperatorPinnedNodeInvalidError (''execution_node '' @ py_repr (node_key n) @
              '' must be READY (got status='' @ py_repr (node_status_str (node_status n)) @ '').''), d)
          else if \<not> node_schedulable n then
            Inl (WorkspaceOperatorPinnedNodeInvalidError (''execution_node '' @ py_repr (node_key n) @
              '' must be schedulable=true for pinned bring-up.''), d)
          else case validate_operator_pinned_create_node_gates E n d of
            Inl (e, _) \<Rightarrow> Inl (WorkspaceOperatorPinnedNodeInvalidError (error_text e), d)
          | Inr _ \<Rightarrow>
              let body = \<lparr>cr_name = PINNED_OPERATOR_TEST_WORKSPACE_NAME_PREFIX @ take 12 name_uuid_hex,
                          cr_description = description, cr_is_private = True, cr_runtime = spec, cr_ai_secret = None\<rparr>;
                  cid = effective_correlation_id E co
              in andthen (create_guards E owner body (Some cid) d) (\<lambda>_ d.
                   let d1 = snd (ensure_default_local_execution_node E d) in
                   case allocate_unique_workspace_url_slug d1 owner (cr_name body) of
                     None \<Rightarrow> Inl (ValueError ''unreachable: slug allocation always returns'', d)
                   | Some slug \<Rightarrow>
                       let (w, d2) = insert_workspace E owner body slug uuid_hex WS_CREATING (Some eid) None d1
                       in finish_create encrypt E owner body cid w ACTOR_SYSTEM
                            ''Pinned operator test workspace creation accepted; job queued''
                            [(''pinned_operator_create'', JBool True), (''execution_node_id'', JInt eid)]
                            [(''pinned_operator_create'', JBool True), (''execution_node_id'', JInt eid)] d d2))"

section \<open>Lemmas: what an accepted and a refused intent do\<close>

text \<open>A refused request changes nothing, up to one committed denial.\<close>

definition refused :: "db \<Rightarrow> db \<Rightarrow> bool" where
  "refused d d' = (d' = d \<or> one_denial d d')"

lemma refused_refl [simp]: "refused d d"
  by (simp add: refused_def)

lemma refused_keys_ok: "refused d d' \<Longrightarrow> db_keys_ok d \<Longrightarrow> db_keys_ok d'"
  by (auto simp: refused_def one_denial_keys_ok)

lemma refused_frame:
  assumes "refused d d'"
  shows "workspaces d' = workspaces d" "configs d' = configs d" "jobs d' = jobs d"
    "runtimes d' = runtimes d" "sessions d' = sessions d" "snapshots d' = snapshots d"
    "cleanups d' = cleanups d" "events d' = events d" "nodes d' = nodes d"
  using assms one_denial_frame [of d d'] by (auto simp: refused_def)

lemmas admission_verdicts = running_quota.pass_same running_quota.deny_one
  hours_quota.pass_same hours_quota.deny_one compute_quota.pass_same compute_quota.deny_one
  ws_quota.pass_same ws_quota.deny_one pol_start.pass_same pol_start.deny_one
  pol_create.pass_same pol_create.deny_one

lemma start_guards_pass: "start_guards E w c d = Inr (u, d') \<Longrightarrow> d' = d"
  by (auto simp: start_guards_def andthen_Inr Let_def split: option.splits dest!: admission_verdicts)

lemma start_guards_fail: "start_guards E w c d = Inl (e, d') \<Longrightarrow> refused d d'"
  by (auto simp: start_guards_def andthen_Inl andthen_Inr Let_def refused_def split: option.splits
      dest!: running_quota.pass_same hours_quota.pass_same compute_quota.pass_same
      dest: running_quota.deny_one hours_quota.deny_one compute_quota.deny_one pol_start.deny_one)

lemma create_guards_pass: "create_guards E ow b c d = Inr (u, d') \<Longrightarrow> d' = d"
  by (auto simp: create_guards_def andthen_Inr dest!: admission_verdicts)

lemma create_guards_fail: "create_guards E ow b c d = Inl (e, d') \<Longrightarrow> refused d d'"
  by (auto simp: create_guards_def andthen_Inl andthen_Inr refused_def
      dest!: running_quota.pass_same hours_quota.pass_same compute_quota.pass_same ws_quota.pass_same
      dest: running_quota.deny_one hours_quota.deny_one compute_quota.deny_one ws_quota.deny_one pol_create.deny_one)

lemma reopen_Inr: "ensure_workspace_reopen_allowed fs E w d = Inr (u, d') \<Longrightarrow> d' = d"
  by (simp add: ensure_workspace_reopen_allowed_def Let_def)

lemma reopen_Inl: "ensure_workspace_reopen_allowed fs E w d = Inl (e, d') \<Longrightarrow> d' = d"
  by (simp add: ensure_workspace_reopen_allowed_def Let_def)

lemma not_busy_Inr: "require_not_busy w d = Inr (u, d') \<longleftrightarrow> \<not> busy (ws_status w) \<and> d' = d"
  by (simp add: require_not_busy_def)

lemma not_busy_Inl: "require_not_busy w d = Inl (e, d') \<longleftrightarrow> busy (ws_status w) \<and> d' = d \<and>
   e = WorkspaceBusyError (''Workspace is busy (status='' @ ws_status_str (ws_status w) @ '')'')"
  by (auto simp: require_not_busy_def)

lemma config_version_Inr: "intent_config_version w d = Inr (v, d') \<longleftrightarrow> latest_config_version d w = Some v \<and> d' = d"
  by (auto simp: intent_config_version_def split: option.splits)

lemma config_version_Inl: "intent_config_version w d = Inl (e, d') \<Longrightarrow> d' = d"
  by (auto simp: intent_config_version_def split: option.splits)

lemma with_owned_Inr:
  "with_owned d wid ow incl f = Inr r \<longleftrightarrow>
     (\<exists>w. get_ws d wid = Some w \<and> ws_owner_user_id w = ow \<and> (ws_status w = WS_DELETED \<longrightarrow> incl) \<and> f w = Inr r)"
  by (auto simp: with_owned_def get_owned_workspace_def split: option.splits)

lemma with_owned_Inl:
  "with_owned d wid ow incl f = Inl (e, d') \<Longrightarrow>
     (d' = d \<and> e = WorkspaceNotFoundError ''Workspace not found'') \<or>
     (\<exists>w. get_ws d wid = Some w \<and> ws_owner_user_id w = ow \<and> f w = Inl (e, d'))"
  by (auto simp: with_owned_def get_owned_workspace_def split: option.splits if_splits)

text \<open>
  The effect of an accepted lifecycle intent: the workspace takes the transitional status, exactly one
  queued job is appended, one event is appended, and the runtime, session, snapshot, cleanup and node
  tables are untouched.
\<close>

definition accepted :: "env \<Rightarrow> workspace \<Rightarrow> ws_status \<Rightarrow> job \<Rightarrow> db \<Rightarrow> db \<Rightarrow> bool" where
  "accepted E w st j d d' =
     (workspaces d' = row_put ws_id (w\<lparr>ws_status := st, ws_updated_at := now E\<rparr>) (workspaces d) \<and>
      jobs d' = jobs d @ [j\<lparr>job_id := seqs d T_JOB\<rparr>] \<and>
      seqs d' T_JOB = seqs d T_JOB + 1 \<and> seqs d' T_WORKSPACE = seqs d T_WORKSPACE \<and>
      length (events d') = length (events d) + 1 \<and>
      runtimes d' = runtimes d \<and> sessions d' = sessions d \<and> snapshots d' = snapshots d \<and>
      cleanups d' = cleanups d \<and> nodes d' = nodes d)"

lemma length_log_event [simp]: "length (events (log_event E w t st m p d)) = Suc (length (events d))"
  by (simp add: record_workspace_event_def bump_def Let_def)

lemma persist_intent_accept:
  assumes "persist_intent E w st jt uid v co d = Inr (r, d')"
  shows "accepted E w st (new_job E (ws_id w) jt uid v None (effective_correlation_id E co)) d d'"
    "configs d' = configs d" "length (audits d') = length (audits d) + 1"
    "r = \<lparr>ir_workspace_id = ws_id w, ir_status = st, ir_job_id = seqs d T_JOB, ir_job_type = jt, ir_config_version = v\<rparr>"
    "db_keys_ok d \<Longrightarrow> db_keys_ok d'"
proof -
  let ?cid = "effective_correlation_id E co"
  obtain d0 where g: "(if jt \<in> {JT_START, JT_RESTART} then start_guards E w (Some ?cid) d else Inr ((), d)) = Inr ((), d0)"
    using assms by (auto simp: persist_intent_def Let_def andthen_Inr split: if_splits)
  then have d0: "d0 = d" by (auto split: if_splits dest: start_guards_pass)
  have eqs: "d' = record_audit E (intent_audit_action jt) ''workspace'' AO_SUCCESS (Some uid) ACTOR_USER
      (Some (str_int (ws_id w))) (Some (ws_id w)) (Some (seqs d T_JOB)) None None
      [(''job_type'', JStr (job_type_str jt)), (''new_status'', JStr (ws_status_str st))] (Some ?cid)
      (log_event E (ws_id w) EV_INTENT_QUEUED (Some (ws_status_str st)) (Some ''Intent accepted; job queued'')
        [(''job_id'', JInt (seqs d T_JOB)), (''job_type'', JStr (job_type_str jt)), (''requested_config_version'', JInt v)]
        (snd (add_job (new_job E (ws_id w) jt uid v None ?cid)
          (put_ws (w\<lparr>ws_status := st, ws_updated_at := now E\<rparr>) d))))"
    "r = \<lparr>ir_workspace_id = ws_id w, ir_status = st, ir_job_id = seqs d T_JOB, ir_job_type = jt, ir_config_version = v\<rparr>"
    using assms g d0 by (auto simp: persist_intent_def Let_def case_prod_unfold)
  show "accepted E w st (new_job E (ws_id w) jt uid v None ?cid) d d'"
    by (simp add: accepted_def eqs)
  show "configs d' = configs d" by (simp add: eqs)
  show "length (audits d') = length (audits d) + 1"
    by (simp add: eqs(1) record_audit_def bump_def Let_def)
  show "r = \<lparr>ir_workspace_id = ws_id w, ir_status = st, ir_job_id = seqs d T_JOB, ir_job_type = jt, ir_config_version = v\<rparr>"
    by (rule eqs(2))
  show "db_keys_ok d'" if "db_keys_ok d" using that by (simp add: eqs(1))
qed

lemma persist_intent_refuse: "persist_intent E w st jt uid v co d = Inl (e, d') \<Longrightarrow> refused d d'"
  by (auto simp: persist_intent_def Let_def andthen_Inl case_prod_unfold split: if_splits dest: start_guards_fail)

lemmas request_defs = request_start_workspace_def request_stop_workspace_def
  request_restart_workspace_def request_delete_workspace_def

lemmas request_Inr = with_owned_Inr andthen_Inr not_busy_Inr config_version_Inr

lemma latest_config_max:
  assumes "latest_config_version d w = Some v"
  shows "\<exists>c\<in>set (configs d). cfg_workspace_id c = w \<and> cfg_version c = v"
    "\<forall>c\<in>set (configs d). cfg_workspace_id c = w \<longrightarrow> cfg_version c \<le> v"
proof -
  obtain c where c: "first_row (sort_key (\<lambda>c. - cfg_version c) (filter (\<lambda>c. cfg_workspace_id c = w) (configs d))) = Some c"
    "v = cfg_version c"
    using assms by (auto simp: latest_config_version_def latest_config_def)
  show "\<exists>c\<in>set (configs d). cfg_workspace_id c = w \<and> cfg_version c = v"
    using first_sorted_least(1) [OF c(1)] c(2) by auto
  show "\<forall>c\<in>set (configs d). cfg_workspace_id c = w \<longrightarrow> cfg_version c \<le> v"
    using first_sorted_least(2) [OF c(1)] c(2) by auto
qed

end
