(* ===== verification/Failure.thy ===== *)
theory Failure
  imports Intent
begin

text \<open>
  Failure classification and bounded retry scheduling of workspace jobs
  (\<^verbatim>\<open>workers/workspace_job_worker/failure_handling.py\<close>).

  The worker mutates ORM objects in place. The model identifies an object with its row: \<open>upd_ws\<close>,
  \<open>upd_job\<close> and \<open>upd_rt\<close> apply a change to the row with the given key (for \<open>upd_rt\<close>: the runtime row
  of the given workspace), and a change that finds no row does nothing. Metrics and log lines carry no
  state.
\<close>

section \<open>In-place changes of rows\<close>

definition upd_ws :: "int \<Rightarrow> (workspace \<Rightarrow> workspace) \<Rightarrow> db \<Rightarrow> db" where
  "upd_ws k f d = (case get_ws d k of None \<Rightarrow> d | Some w \<Rightarrow> put_ws ((f w)\<lparr>ws_id := k\<rparr>) d)"

definition upd_job :: "int \<Rightarrow> (job \<Rightarrow> job) \<Rightarrow> db \<Rightarrow> db" where
  "upd_job k f d = (case get_job d k of None \<Rightarrow> d | Some j \<Rightarrow> put_job ((f j)\<lparr>job_id := k\<rparr>) d)"

definition upd_snap :: "int \<Rightarrow> (snapshot \<Rightarrow> snapshot) \<Rightarrow> db \<Rightarrow> db" where
  "upd_snap k f d = (case get_snap d k of None \<Rightarrow> d | Some s \<Rightarrow> put_snap ((f s)\<lparr>snap_id := k\<rparr>) d)"

definition upd_ct :: "int \<Rightarrow> (cleanup_task \<Rightarrow> cleanup_task) \<Rightarrow> db \<Rightarrow> db" where
  "upd_ct k f d = (case get_ct d k of None \<Rightarrow> d | Some c \<Rightarrow> put_ct ((f c)\<lparr>ct_id := k\<rparr>) d)"

definition upd_node :: "int \<Rightarrow> (node \<Rightarrow> node) \<Rightarrow> db \<Rightarrow> db" where
  "upd_node k f d = (case get_node d k of None \<Rightarrow> d | Some n \<Rightarrow> put_node ((f n)\<lparr>node_pk := k\<rparr>) d)"

definition upd_rt :: "int \<Rightarrow> (runtime \<Rightarrow> runtime) \<Rightarrow> db \<Rightarrow> db" where
  "upd_rt wid f d = (case runtime_row d wid of None \<Rightarrow> d
     | Some r \<Rightarrow> put_rt ((f r)\<lparr>rt_id := rt_id r, rt_workspace_id := wid\<rparr>) d)"

section \<open>Classification\<close>

definition truncate_msg :: "nat \<Rightarrow> string \<Rightarrow> string" where
  "truncate_msg n s = (let t = py_strip s in if length t \<le> n then t else take (n - 3) t @ ''...'')"

definition classify_placement_error :: "error \<Rightarrow> failure_stage \<times> bool" where
  "classify_placement_error e = (case e of NoSchedulableNodeError _ \<Rightarrow> (FS_CAPACITY, True) | _ \<Rightarrow> (FS_PLACEMENT, True))"

definition orchestrator_binding_retryable :: "failure_stage \<times> bool" where
  "orchestrator_binding_retryable = (FS_NETWORK, True)"

definition lifecycle_result_failure_retryable :: "job_type \<Rightarrow> bool" where
  "lifecycle_result_failure_retryable t =
     (t \<in> {JT_CREATE, JT_START, JT_RESTART, JT_UPDATE, JT_SNAPSHOT_CREATE, JT_SNAPSHOT_RESTORE})"

definition orchestrator_exception_retryable :: "job_type \<Rightarrow> bool" where
  "orchestrator_exception_retryable t =
     (t \<in> {JT_CREATE, JT_START, JT_RESTART, JT_UPDATE, JT_RECONCILE_RUNTIME, JT_SNAPSHOT_CREATE, JT_SNAPSHOT_RESTORE})"

definition classify_reconcile_failure :: "string \<Rightarrow> failure_stage \<times> bool" where
  "classify_reconcile_failure message =
     (let m = py_lower (py_strip message) in
      if contains_str ''reconcile:advisory_lock_contended'' m then (FS_PLACEMENT, True)
      else if contains_str ''reconcile:workspace_busy'' m \<or> contains_str ''reconcile:unsupported_workspace_status'' m
      then (FS_UNKNOWN, False)
      else if contains_str ''gateway_'' m \<or> contains_str ''gateway:'' m then (FS_PROXY, True)
      else if contains_str ''health_check_failed'' m \<or> contains_str ''runtime_not_healthy'' m then (FS_CONTAINER, True)
      else if contains_str ''stop_failed'' m then (FS_CONTAINER, True)
      else (FS_UNKNOWN, True))"

section \<open>Retry scheduling\<close>

definition effective_max_attempts :: "settings \<Rightarrow> job \<Rightarrow> int" where
  "effective_max_attempts s j = (if job_max_attempts j \<ge> 1 then job_max_attempts j else max 1 (s_job_max_attempts s))"

definition requeue :: "time \<Rightarrow> string \<Rightarrow> failure_stage \<Rightarrow> string \<Rightarrow> job \<Rightarrow> job" where
  "requeue retry_at message stage code j =
     j\<lparr>job_status := JS_QUEUED, job_finished_at := None, job_started_at := None,
       job_error_msg := Some (truncate_msg 8192 message), job_failure_stage := Some stage,
       job_failure_code := Some code, job_next_attempt_after := Some retry_at\<rparr>"

text \<open>The retry helpers return whether a retry was scheduled.\<close>

definition try_schedule_workspace_job_retry ::
  "env \<Rightarrow> int \<Rightarrow> string \<Rightarrow> failure_stage \<Rightarrow> string option \<Rightarrow> db \<Rightarrow> bool \<times> db" where
  "try_schedule_workspace_job_retry E jid message stage failure_code d =
     (case get_job d jid of None \<Rightarrow> (False, d)
      | Some j \<Rightarrow>
          if job_attempt j \<ge> effective_max_attempts (cfg E) j then (False, d)
          else
            let backoff = max 0 (s_job_retry_backoff_seconds (cfg E));
                code = take 64 (if str_or_empty failure_code \<noteq> [] then str_or_empty failure_code else failure_stage_str stage)
            in (True, upd_job jid (requeue (now E + seconds backoff) message stage code) d))"

definition capacity_retry_timeout_seconds :: "settings \<Rightarrow> int" where
  "capacity_retry_timeout_seconds s = max 1 (s_capacity_retry_timeout_seconds s)"

definition capacity_retry_backoff_seconds :: "env \<Rightarrow> int" where
  "capacity_retry_backoff_seconds E =
     (let v = s_capacity_retry_backoff_seconds (cfg E) in
      if v \<le> 0 then 0 else if v < 15 then v else randint E 15 (min v 30))"

definition capacity_wait_timed_out :: "env \<Rightarrow> job \<Rightarrow> bool" where
  "capacity_wait_timed_out E j = (now E - job_created_at j \<ge> seconds (capacity_retry_timeout_seconds (cfg E)))"

definition schedule_capacity_class_retry :: "env \<Rightarrow> int \<Rightarrow> string \<Rightarrow> string \<Rightarrow> db \<Rightarrow> bool \<times> db" where
  "schedule_capacity_class_retry E jid message code d =
     (case get_job d jid of None \<Rightarrow> (False, d)
      | Some j \<Rightarrow>
          if capacity_wait_timed_out E j then (False, d)
          else (True, upd_job jid
                 (requeue (now E + seconds (capacity_retry_backoff_seconds E)) message FS_CAPACITY code) d))"

definition try_schedule_capacity_retry :: "env \<Rightarrow> int \<Rightarrow> string \<Rightarrow> db \<Rightarrow> bool \<times> db" where
  "try_schedule_capacity_retry E jid message d = schedule_capacity_class_retry E jid message ''no_schedulable_node'' d"

definition try_schedule_node_readiness_retry :: "env \<Rightarrow> int \<Rightarrow> string \<Rightarrow> db \<Rightarrow> bool \<times> db" where
  "try_schedule_node_readiness_retry E jid message d = schedule_capacity_class_retry E jid message ''node_readiness'' d"

definition queued_job_eligible :: "time \<Rightarrow> job \<Rightarrow> bool" where
  "queued_job_eligible ts j =
     (job_status j = JS_QUEUED \<and> (case job_next_attempt_after j of None \<Rightarrow> True | Some t \<Rightarrow> t \<le> ts))"

section \<open>Lemmas\<close>

lemma get_key:
  "get_ws d k = Some w \<Longrightarrow> ws_id w = k"
  "get_job d k = Some j \<Longrightarrow> job_id j = k"
  "get_snap d k = Some s \<Longrightarrow> snap_id s = k"
  "get_ct d k = Some c \<Longrightarrow> ct_id c = k"
  "get_node d k = Some n \<Longrightarrow> node_pk n = k"
  unfolding get_ws_def get_job_def get_snap_def get_ct_def get_node_def by (rule row_find_Some_key, assumption)+

lemma get_upd:
  "get_ws (upd_ws k f d) k' = (if k' = k then map_option (\<lambda>w. (f w)\<lparr>ws_id := k\<rparr>) (get_ws d k) else get_ws d k')"
  "get_job (upd_job k g d) k' = (if k' = k then map_option (\<lambda>w. (g w)\<lparr>job_id := k\<rparr>) (get_job d k) else get_job d k')"
  "get_snap (upd_snap k h d) k' = (if k' = k then map_option (\<lambda>w. (h w)\<lparr>snap_id := k\<rparr>) (get_snap d k) else get_snap d k')"
  "get_ct (upd_ct k p d) k' = (if k' = k then map_option (\<lambda>w. (p w)\<lparr>ct_id := k\<rparr>) (get_ct d k) else get_ct d k')"
  "get_node (upd_node k q d) k' = (if k' = k then map_option (\<lambda>w. (q w)\<lparr>node_pk := k\<rparr>) (get_node d k) else get_node d k')"
  by (auto simp: upd_ws_def upd_job_def upd_snap_def upd_ct_def upd_node_def ws_tab.look_save job_tab.look_save
      snap_tab.look_save ct_tab.look_save nodes_tab.look_save split: option.split)

text \<open>Two tables of one database do not interfere.\<close>

lemma upd_ws_frame [frame, simp]:
  "configs (upd_ws k f d) = configs d"
  "jobs (upd_ws k f d) = jobs d"
  "runtimes (upd_ws k f d) = runtimes d"
  "sessions (upd_ws k f d) = sessions d"
  "snapshots (upd_ws k f d) = snapshots d"
  "cleanups (upd_ws k f d) = cleanups d"
  "events (upd_ws k f d) = events d"
  "audits (upd_ws k f d) = audits d"
  "usages (upd_ws k f d) = usages d"
  "nodes (upd_ws k f d) = nodes d"
  "quotas (upd_ws k f d) = quotas d"
  "policies (upd_ws k f d) = policies d"
  "users (upd_ws k f d) = users d"
  "topologies (upd_ws k f d) = topologies d"
  "secrets (upd_ws k f d) = secrets d"
  "seqs (upd_ws k f d) = seqs d"
  by (simp_all add: upd_ws_def split: option.split)

lemma upd_job_frame [frame, simp]:
  "workspaces (upd_job k f d) = workspaces d"
  "configs (upd_job k f d) = configs d"
  "runtimes (upd_job k f d) = runtimes d"
  "sessions (upd_job k f d) = sessions d"
  "snapshots (upd_job k f d) = snapshots d"
  "cleanups (upd_job k f d) = cleanups d"
  "events (upd_job k f d) = events d"
  "audits (upd_job k f d) = audits d"
  "usages (upd_job k f d) = usages d"
  "nodes (upd_job k f d) = nodes d"
  "quotas (upd_job k f d) = quotas d"
  "policies (upd_job k f d) = policies d"
  "users (upd_job k f d) = users d"
  "topologies (upd_job k f d) = topologies d"
  "secrets (upd_job k f d) = secrets d"
  "seqs (upd_job k f d) = seqs d"
  by (simp_all add: upd_job_def split: option.split)

lemma upd_snap_frame [frame, simp]:
  "workspaces (upd_snap k f d) = workspaces d"
  "configs (upd_snap k f d) = configs d"
  "jobs (upd_snap k f d) = jobs d"
  "runtimes (upd_snap k f d) = runtimes d"
  "sessions (upd_snap k f d) = sessions d"
  "cleanups (upd_snap k f d) = cleanups d"
  "events (upd_snap k f d) = events d"
  "audits (upd_snap k f d) = audits d"
  "usages (upd_snap k f d) = usages d"
  "nodes (upd_snap k f d) = nodes d"
  "quotas (upd_snap k f d) = quotas d"
  "policies (upd_snap k f d) = policies d"
  "users (upd_snap k f d) = users d"
  "topologies (upd_snap k f d) = topologies d"
  "secrets (upd_snap k f d) = secrets d"
  "seqs (upd_snap k f d) = seqs d"
  by (simp_all add: upd_snap_def split: option.split)

lemma upd_ct_frame [frame, simp]:
  "workspaces (upd_ct k f d) = workspaces d"
  "configs (upd_ct k f d) = configs d"
  "jobs (upd_ct k f d) = jobs d"
  "runtimes (upd_ct k f d) = runtimes d"
  "sessions (upd_ct k f d) = sessions d"
  "snapshots (upd_ct k f d) = snapshots d"
  "events (upd_ct k f d) = events d"
  "audits (upd_ct k f d) = audits d"
  "usages (upd_ct k f d) = usages d"
  "nodes (upd_ct k f d) = nodes d"
  "quotas (upd_ct k f d) = quotas d"
  "policies (upd_ct k f d) = policies d"
  "users (upd_ct k f d) = users d"
  "topologies (upd_ct k f d) = topologies d"
  "secrets (upd_ct k f d) = secrets d"
  "seqs (upd_ct k f d) = seqs d"
  by (simp_all add: upd_ct_def split: option.split)

lemma upd_node_frame [frame, simp]:
  "workspaces (upd_node k f d) = workspaces d"
  "configs (upd_node k f d) = configs d"
  "jobs (upd_node k f d) = jobs d"
  "runtimes (upd_node k f d) = runtimes d"
  "sessions (upd_node k f d) = sessions d"
  "snapshots (upd_node k f d) = snapshots d"
  "cleanups (upd_node k f d) = cleanups d"
  "events (upd_node k f d) = events d"
  "audits (upd_node k f d) = audits d"
  "usages (upd_node k f d) = usages d"
  "quotas (upd_node k f d) = quotas d"
  "policies (upd_node k f d) = policies d"
  "users (upd_node k f d) = users d"
  "topologies (upd_node k f d) = topologies d"
  "secrets (upd_node k f d) = secrets d"
  "seqs (upd_node k f d) = seqs d"
  by (simp_all add: upd_node_def split: option.split)

lemma upd_rt_frame [frame, simp]:
  "workspaces (upd_rt k f d) = workspaces d"
  "configs (upd_rt k f d) = configs d"
  "jobs (upd_rt k f d) = jobs d"
  "sessions (upd_rt k f d) = sessions d"
  "snapshots (upd_rt k f d) = snapshots d"
  "cleanups (upd_rt k f d) = cleanups d"
  "events (upd_rt k f d) = events d"
  "audits (upd_rt k f d) = audits d"
  "usages (upd_rt k f d) = usages d"
  "nodes (upd_rt k f d) = nodes d"
  "quotas (upd_rt k f d) = quotas d"
  "policies (upd_rt k f d) = policies d"
  "users (upd_rt k f d) = users d"
  "topologies (upd_rt k f d) = topologies d"
  "secrets (upd_rt k f d) = secrets d"
  "seqs (upd_rt k f d) = seqs d"
  by (simp_all add: upd_rt_def split: option.split)

lemma upd_keys_ok [simp]:
  "db_keys_ok d \<Longrightarrow> db_keys_ok (upd_ws k f d)"
  "db_keys_ok d \<Longrightarrow> db_keys_ok (upd_job k g d)"
  "db_keys_ok d \<Longrightarrow> db_keys_ok (upd_snap k h d)"
  "db_keys_ok d \<Longrightarrow> db_keys_ok (upd_ct k p d)"
  "db_keys_ok d \<Longrightarrow> db_keys_ok (upd_node k q d)"
  "db_keys_ok d \<Longrightarrow> db_keys_ok (upd_rt k r d)"
  by (simp_all add: upd_ws_def upd_job_def upd_snap_def upd_ct_def upd_node_def upd_rt_def split: option.split)

lemma truncate_length: "n \<ge> 3 \<Longrightarrow> length (truncate_msg n s) \<le> n"
  by (auto simp: truncate_msg_def Let_def)

lemma effective_max_attempts_pos: "1 \<le> effective_max_attempts s j"
  by (simp add: effective_max_attempts_def)

section \<open>The contract of a retry scheduler\<close>

text \<open>
  Every retry helper either declines and changes nothing, or moves exactly its job back to
  \<^verbatim>\<open>QUEUED\<close> with an error text and a wake-up time. The worker relies on nothing else.
\<close>

locale job_retry =
  fixes sched :: "db \<Rightarrow> bool \<times> db" and jid :: int
  assumes declined: "sched d = (False, d') \<Longrightarrow> d' = d"
    and scheduled: "sched d = (True, d') \<Longrightarrow>
      \<exists>t m st c. get_job d jid \<noteq> None \<and> d' = upd_job jid (requeue t m st c) d"
begin

lemma only_jobs: "jobs (snd (sched d)) = jobs d \<or> fst (sched d)"
  using declined [of d] by (cases "sched d") auto

lemma frame_ws: "workspaces (snd (sched d)) = workspaces d"
  using declined [of d] scheduled [of d] by (cases "sched d"; cases "fst (sched d)") auto

lemma other_jobs: "k \<noteq> jid \<Longrightarrow> get_job (snd (sched d)) k = get_job d k"
  using declined [of d] scheduled [of d] by (cases "sched d"; cases "fst (sched d)") (auto simp: get_upd)

lemma queued_again:
  assumes "fst (sched d)"
  shows "\<exists>j. get_job (snd (sched d)) jid = Some j \<and> job_status j = JS_QUEUED \<and> job_next_attempt_after j \<noteq> None
    \<and> job_started_at j = None \<and> job_finished_at j = None"
  using assms scheduled [of d "snd (sched d)"] by (cases "sched d") (auto simp: get_upd requeue_def)

lemma keys_kept: "db_keys_ok d \<Longrightarrow> db_keys_ok (snd (sched d))"
  using declined [of d] scheduled [of d] by (cases "sched d"; cases "fst (sched d)") auto

end

interpretation attempt_retry: job_retry "try_schedule_workspace_job_retry E j m st c" j for E j m st c
  by unfold_locales (auto simp: try_schedule_workspace_job_retry_def Let_def split: option.splits if_splits)

lemma capacity_class_job_retry: "job_retry (schedule_capacity_class_retry E j m c) j"
  by unfold_locales (auto simp: schedule_capacity_class_retry_def split: option.splits if_splits)

interpretation capacity_retry: job_retry "try_schedule_capacity_retry E j m" j for E j m
  unfolding try_schedule_capacity_retry_def by (rule capacity_class_job_retry)

interpretation readiness_retry: job_retry "try_schedule_node_readiness_retry E j m" j for E j m
  unfolding try_schedule_node_readiness_retry_def by (rule capacity_class_job_retry)

end
