(* ===== verification/Json_Text.thy ===== *)
theory Json_Text
  imports Model
begin

text \<open>
  The part of Python's \<^verbatim>\<open>json\<close> module the control plane uses for text columns:
  \<^verbatim>\<open>json.dumps(x, separators=(",", ":"))\<close> and \<^verbatim>\<open>json.loads\<close>, on the 8-bit characters of the model.
  Floats are rendered by the parameter \<open>str_float\<close> of the environment. The reader has fuel, one unit per
  nested call; \<open>loads\<close> gives it twice the length of the text, more than the calls a text can cause.
  \<open>None\<close> is \<^verbatim>\<open>JSONDecodeError\<close>.
\<close>

section \<open>Writing\<close>

definition hex_char :: "nat \<Rightarrow> char" where
  "hex_char n = char_of (if n < 10 then 48 + n else 87 + n)"

definition json_char :: "char \<Rightarrow> string" where
  "json_char c =
     (let n = (of_char c :: nat) in
      if n = 34 \<or> n = 92 then [CHR 0x5C, c]
      else if n = 10 then [CHR 0x5C, CHR ''n'']
      else if n = 13 then [CHR 0x5C, CHR ''r'']
      else if n = 9 then [CHR 0x5C, CHR ''t'']
      else if n = 8 then [CHR 0x5C, CHR ''b'']
      else if n = 12 then [CHR 0x5C, CHR ''f'']
      else if 32 \<le> n \<and> n \<le> 126 then [c]
      else [CHR 0x5C, CHR ''u'', CHR ''0'', CHR ''0'', hex_char (n div 16), hex_char (n mod 16)])"

definition json_string :: "string \<Rightarrow> string" where
  "json_string s = [CHR 0x22] @ concat (map json_char s) @ [CHR 0x22]"

fun dumps :: "env \<Rightarrow> json \<Rightarrow> string" where
  "dumps E JNull = ''null''"
| "dumps E (JBool b) = (if b then ''true'' else ''false'')"
| "dumps E (JInt i) = str_int i"
| "dumps E (JFloat r) = str_float E r"
| "dumps E JNonFinite = ''NaN''"
| "dumps E (JStr s) = json_string s"
| "dumps E (JList xs) = ''['' @ join_str '','' (map (dumps E) xs) @ '']''"
| "dumps E (JObj ps) = ''{'' @ join_str '','' (map (\<lambda>(k, v). json_string k @ '':'' @ dumps E v) ps) @ ''}''"

section \<open>Reading\<close>

definition json_ws :: "char \<Rightarrow> bool" where
  "json_ws c = ((of_char c :: nat) \<in> {9, 10, 13, 32})"

definition skip_ws :: "string \<Rightarrow> string" where
  "skip_ws s = dropWhile json_ws s"

definition hex_val :: "char \<Rightarrow> nat option" where
  "hex_val c = (let n = (of_char c :: nat) in
     if 48 \<le> n \<and> n \<le> 57 then Some (n - 48)
     else if 97 \<le> n \<and> n \<le> 102 then Some (n - 87)
     else if 65 \<le> n \<and> n \<le> 70 then Some (n - 55) else None)"

text \<open>The characters of a string literal after its opening quote, up to and including the closing one. Code points
  above 255 lie outside the model and are read as an error.\<close>

fun read_string :: "string \<Rightarrow> (string \<times> string) option" where
  "read_string [] = None"
| "read_string (c # cs) =
     (if c = CHR 0x22 then Some ([], cs)
      else if (of_char c :: nat) < 32 then None
      else if c \<noteq> CHR 0x5C then map_option (\<lambda>(s, r). (c # s, r)) (read_string cs)
      else case cs of
        [] \<Rightarrow> None
      | e # es \<Rightarrow>
          if e = CHR 0x22 \<or> e = CHR 0x5C \<or> e = CHR ''/'' then map_option (\<lambda>(s, r). (e # s, r)) (read_string es)
          else if e = CHR ''n'' then map_option (\<lambda>(s, r). (CHR 0x0A # s, r)) (read_string es)
          else if e = CHR ''r'' then map_option (\<lambda>(s, r). (CHR 0x0D # s, r)) (read_string es)
          else if e = CHR ''t'' then map_option (\<lambda>(s, r). (CHR 0x09 # s, r)) (read_string es)
          else if e = CHR ''b'' then map_option (\<lambda>(s, r). (CHR 0x08 # s, r)) (read_string es)
          else if e = CHR ''f'' then map_option (\<lambda>(s, r). (CHR 0x0C # s, r)) (read_string es)
          else if e = CHR ''u'' then
            (case es of
               a # b # x # y # rest \<Rightarrow>
                 (case (hex_val a, hex_val b, hex_val x, hex_val y) of
                    (Some 0, Some 0, Some hi, Some lo) \<Rightarrow>
                      map_option (\<lambda>(s, r). (char_of (16 * hi + lo) # s, r)) (read_string rest)
                  | _ \<Rightarrow> None)
             | _ \<Rightarrow> None)
          else None)"

definition digits_val :: "string \<Rightarrow> int" where
  "digits_val ds = int (read_nat ds)"

text \<open>A number: an integer without leading zeros, then optionally a fraction and an exponent, which make it a float.\<close>

definition read_number :: "string \<Rightarrow> (json \<times> string) option" where
  "read_number s =
     (let neg = starts_with ''-'' s;
          s1 = (if neg then drop 1 s else s);
          ip = takeWhile is_digit s1;
          ds = (if starts_with ''0'' ip then ''0'' else ip);
          s2 = drop (length ds) s1
      in if ds = [] then None
         else
           let sgn = (if neg then -1 else 1 :: int);
               fp = (if starts_with ''.'' s2 then takeWhile is_digit (drop 1 s2) else []);
               s3 = (if fp = [] then s2 else drop (1 + length fp) s2);
               es = (case s3 of c # _ \<Rightarrow> c = CHR ''e'' \<or> c = CHR ''E'' | [] \<Rightarrow> False);
               s4 = drop 1 s3;
               eneg = starts_with ''-'' s4;
               s5 = (if eneg \<or> starts_with ''+'' s4 then drop 1 s4 else s4);
               ep = (if es then takeWhile is_digit s5 else []);
               rest = (if ep = [] then s3 else drop (length ep) s5)
           in if fp = [] \<and> ep = [] then Some (JInt (sgn * digits_val ds), s2)
              else let m = of_int (digits_val ds) + of_int (digits_val fp) / 10 ^ length fp :: rat;
                       x = (if ep = [] then 1 else if eneg then 1 / 10 ^ nat (digits_val ep) else 10 ^ nat (digits_val ep))
                   in Some (JFloat (of_int sgn * m * x), rest))"

fun read_value :: "nat \<Rightarrow> string \<Rightarrow> (json \<times> string) option"
  and read_elems :: "nat \<Rightarrow> string \<Rightarrow> (json list \<times> string) option"
  and read_members :: "nat \<Rightarrow> string \<Rightarrow> (jobj \<times> string) option" where
  "read_value 0 s = None"
| "read_value (Suc n) s =
     (case skip_ws s of
        [] \<Rightarrow> None
      | c # cs \<Rightarrow>
          if c = CHR 0x22 then map_option (\<lambda>(t, r). (JStr t, r)) (read_string cs)
          else if c = CHR ''{'' then
            (if starts_with ''}'' (skip_ws cs) then Some (JObj [], drop 1 (skip_ws cs))
             else map_option (\<lambda>(ps, r). (JObj ps, r)) (read_members n cs))
          else if c = CHR ''['' then
            (if starts_with '']'' (skip_ws cs) then Some (JList [], drop 1 (skip_ws cs))
             else map_option (\<lambda>(xs, r). (JList xs, r)) (read_elems n cs))
          else if starts_with ''null'' (c # cs) then Some (JNull, drop 4 (c # cs))
          else if starts_with ''true'' (c # cs) then Some (JBool True, drop 4 (c # cs))
          else if starts_with ''false'' (c # cs) then Some (JBool False, drop 5 (c # cs))
          else if starts_with ''NaN'' (c # cs) then Some (JNonFinite, drop 3 (c # cs))
          else if starts_with ''Infinity'' (c # cs) then Some (JNonFinite, drop 8 (c # cs))
          else if starts_with ''-Infinity'' (c # cs) then Some (JNonFinite, drop 9 (c # cs))
          else read_number (c # cs))"
| "read_elems 0 s = None"
| "read_elems (Suc n) s =
     (case read_value n s of
        None \<Rightarrow> None
      | Some (v, r) \<Rightarrow>
          (case skip_ws r of
             [] \<Rightarrow> None
           | c # cs \<Rightarrow>
               if c = CHR '']'' then Some ([v], cs)
               else if c = CHR '','' then map_option (\<lambda>(vs, r'). (v # vs, r')) (read_elems n cs)
               else None))"
| "read_members 0 s = None"
| "read_members (Suc n) s =
     (case skip_ws s of
        [] \<Rightarrow> None
      | q # qs \<Rightarrow>
          if q \<noteq> CHR 0x22 then None
          else case read_string qs of
            None \<Rightarrow> None
          | Some (k, r) \<Rightarrow>
              if \<not> starts_with '':'' (skip_ws r) then None
              else case read_value n (drop 1 (skip_ws r)) of
                None \<Rightarrow> None
              | Some (v, r2) \<Rightarrow>
                  (case skip_ws r2 of
                     [] \<Rightarrow> None
                   | c # cs \<Rightarrow>
                       if c = CHR ''}'' then Some ([(k, v)], cs)
                       else if c = CHR '','' then map_option (\<lambda>(ps, r'). ((k, v) # ps, r')) (read_members n cs)
                       else None))"

text \<open>A later member of an object overrides an earlier one of the same name, at every depth.\<close>

fun last_wins :: "json \<Rightarrow> json" where
  "last_wins (JList xs) = JList (map last_wins xs)"
| "last_wins (JObj ps) = JObj (fold (\<lambda>(k, v) ob. jset ob k v) (map (\<lambda>(k, v). (k, last_wins v)) ps) [])"
| "last_wins v = v"

definition loads :: "string \<Rightarrow> json option" where
  "loads s =
     (case read_value (2 * length s + 2) s of
        None \<Rightarrow> None
      | Some (v, r) \<Rightarrow> if skip_ws r = [] then Some (last_wins v) else None)"

section \<open>Reading back what was written\<close>

lemma hex_val_char: "n < 16 \<Longrightarrow> hex_val (hex_char n) = Some n"
  by (auto simp: hex_val_def hex_char_def of_char_of Let_def)

lemma of_char_codes:
  "(of_char c :: nat) = 34 \<longleftrightarrow> c = CHR 0x22" "(of_char c :: nat) = 92 \<longleftrightarrow> c = CHR 0x5C"
  "(of_char c :: nat) = 10 \<longleftrightarrow> c = CHR 0x0A" "(of_char c :: nat) = 13 \<longleftrightarrow> c = CHR 0x0D"
  "(of_char c :: nat) = 9 \<longleftrightarrow> c = CHR 0x09" "(of_char c :: nat) = 8 \<longleftrightarrow> c = CHR 0x08"
  "(of_char c :: nat) = 12 \<longleftrightarrow> c = CHR 0x0C"
  using of_char_eq_iff [where 'a = nat, of c "CHR 0x22"] of_char_eq_iff [where 'a = nat, of c "CHR 0x5C"]
    of_char_eq_iff [where 'a = nat, of c "CHR 0x0A"] of_char_eq_iff [where 'a = nat, of c "CHR 0x0D"]
    of_char_eq_iff [where 'a = nat, of c "CHR 0x09"] of_char_eq_iff [where 'a = nat, of c "CHR 0x08"]
    of_char_eq_iff [where 'a = nat, of c "CHR 0x0C"]
  by simp_all

lemma read_string_char: "read_string (json_char c @ s) = map_option (\<lambda>(t, r). (c # t, r)) (read_string s)"
proof (cases "c \<in> {CHR 0x22, CHR 0x5C, CHR 0x0A, CHR 0x0D, CHR 0x09, CHR 0x08, CHR 0x0C}")
  case True
  then show ?thesis by (elim insertE) (simp_all add: json_char_def Let_def)
next
  case False
  have b: "(of_char c :: nat) div 16 < 16" by (simp add: less_mult_imp_div_less)
  have c: "char_of (16 * (of_char c div 16) + of_char c mod 16 :: nat) = c" by simp
  show ?thesis using False b c
    by (auto simp: json_char_def Let_def of_char_codes hex_val_char hex_val_def [of "CHR ''0''"])
qed

lemma read_string_json: "read_string (concat (map json_char t) @ CHR 0x22 # s) = Some (t, s)"
  by (induction t) (simp_all add: read_string_char)

end
