(* ===== verification/Orchestrator.thy ===== *)
theory Orchestrator
  imports Failure Json_Text
begin

text \<open>
  The interfaces the worker and reconcile call and receive as arguments: the orchestrator contract
  (\<^verbatim>\<open>orchestrator_service/interfaces.py\<close>, \<^verbatim>\<open>results.py\<close> and \<^verbatim>\<open>errors.py\<close>), route-admin behind the
  gateway client, and the snapshot storage provider. An operation that can raise returns the exception
  on the left. Fields the callers do not read are left out.

  The orchestrator may be asked to stop a runtime several times within one job (once per cleanup task);
  the first argument of \<open>o_stop\<close> numbers these calls, so their outcomes may differ.
\<close>

section \<open>Results\<close>

text \<open>The fields shared by the bring-up, restart, update and health results.\<close>

record run_obs =
  ro_success :: bool
  ro_node_id :: "string option"
  ro_topology_id :: "string option"
  ro_container_id :: "string option"
  ro_container_state :: "string option"
  ro_internal_endpoint :: "string option"
  ro_gateway_route_target :: "string option"
  ro_probe_healthy :: "bool option"
  ro_issues :: "string list option"
  ro_applied_cpu :: "rat option"
  ro_applied_memory_mib :: "int option"
  ro_applied_pids :: "int option"
  ro_applied_security :: "jobj option"

record bringup_result = run_obs +
  bu_rollback_attempted :: bool
  bu_rollback_succeeded :: "bool option"
  bu_rollback_issues :: "string list option"

record update_result = run_obs +
  up_requested_config_version :: int
  up_no_op :: bool

record stop_result =
  st_success :: bool
  st_container_id :: "string option"
  st_container_state :: "string option"
  st_topology_detached :: "bool option"
  st_issues :: "string list option"

record delete_result =
  de_success :: bool
  de_issues :: "string list option"

record snapshot_op_result =
  so_success :: bool
  so_size_bytes :: "int option"
  so_issues :: "string list option"

datatype orch_exn =
    WorkspaceBringUpError string bool "bool option" "string list option" "string option" "string option"
  | WorkspaceStopError string
  | WorkspaceDeleteError string
  | WorkspaceRestartError string
  | WorkspaceUpdateError string
  | WorkspaceSnapshotError string
  | UnsupportedWorkspaceJobTypeError string
  | OtherException string

fun exn_text :: "orch_exn \<Rightarrow> string" where
  "exn_text (WorkspaceBringUpError m _ _ _ _ _) = m"
| "exn_text (WorkspaceStopError m) = m"
| "exn_text (WorkspaceDeleteError m) = m"
| "exn_text (WorkspaceRestartError m) = m"
| "exn_text (WorkspaceUpdateError m) = m"
| "exn_text (WorkspaceSnapshotError m) = m"
| "exn_text (UnsupportedWorkspaceJobTypeError m) = m"
| "exn_text (OtherException m) = m"

section \<open>The orchestrator\<close>

record bring_up_args =
  ba_workspace_id :: string
  ba_project_storage_key :: "string option"
  ba_config_version :: int
  ba_cpu :: "rat option"
  ba_memory_mib :: "int option"
  ba_pids :: "int option"
  ba_env :: "(string \<rightharpoonup> string)"
  ba_features :: jobj
  ba_launch_mode :: string

record stop_args =
  sa_workspace_id :: string
  sa_container_id :: "string option"
  sa_requested_by :: "string option"
  sa_release_ip_lease :: bool

record cycle_args =
  ca_workspace_id :: string
  ca_project_storage_key :: "string option"
  ca_container_id :: "string option"
  ca_requested_by :: string
  ca_config_version :: int

record orch =
  o_node_id :: "string option"
  o_bring_up :: "bring_up_args \<Rightarrow> orch_exn + bringup_result"
  o_stop :: "nat \<Rightarrow> stop_args \<Rightarrow> orch_exn + stop_result"
  o_delete :: "stop_args \<Rightarrow> orch_exn + delete_result"
  o_restart :: "cycle_args \<Rightarrow> orch_exn + run_obs"
  o_update :: "cycle_args \<Rightarrow> orch_exn + update_result"
  o_health :: "string \<Rightarrow> string option \<Rightarrow> orch_exn + bringup_result"
  o_export :: "string \<Rightarrow> string option \<Rightarrow> string \<Rightarrow> string option \<Rightarrow> orch_exn + snapshot_op_result"
  o_import :: "string \<Rightarrow> string option \<Rightarrow> string \<Rightarrow> orch_exn + snapshot_op_result"

section \<open>Route-admin and storage\<close>

text \<open>A request sent to route-admin.\<close>

datatype gw_call =
    GwRegister string string string "string option" "string option" "int option"
  | GwDeregister string

text \<open>
  \<open>x_gw_list\<close> and \<open>x_gw_call\<close> are the answers of route-admin (\<open>Inl\<close> and \<open>Some\<close> carry the text of a
  \<^verbatim>\<open>GatewayClientError\<close>). The storage provider is local or S3; upload and download exist only for the
  latter. \<open>x_remote_export\<close> is the SSM export of a running container to S3, \<open>x_lock\<close> the advisory lock of
  reconcile, \<open>x_validate_flags\<close> the pydantic validation of feature flags (\<open>Inl\<close>: rejected), \<open>x_str_json\<close> Python's \<^verbatim>\<open>str\<close> of a
  decoded JSON value, \<open>x_decrypt\<close> Fernet decryption, and \<open>x_provision\<close> the autoscaler's reaction to a placement that found no
  node. \<open>x_pending_repo\<close> says whether a repository row of a workspace awaits its clone, and \<open>x_clone\<close> is
  the outcome of \<^verbatim>\<open>git clone\<close> in the container (\<open>Inl\<close>: an exception).
\<close>

record outside =
  x_gw_list :: "string + route_row list"
  x_gw_call :: "gw_call \<Rightarrow> string option"
  x_is_s3 :: bool
  x_storage_uri :: "int \<Rightarrow> int \<Rightarrow> string"
  x_archive_path :: "int \<Rightarrow> int \<Rightarrow> string"
  x_upload :: "int \<Rightarrow> int \<Rightarrow> string option"
  x_download :: "int \<Rightarrow> int \<Rightarrow> string option"
  x_delete_archive :: "int \<Rightarrow> int \<Rightarrow> string option"
  x_has_archive :: "int \<Rightarrow> int \<Rightarrow> bool"
  x_remote_export :: "node \<Rightarrow> int \<Rightarrow> int \<Rightarrow> string \<Rightarrow> snapshot_op_result"
  x_lock :: "int \<Rightarrow> bool"
  x_validate_flags :: "jobj \<Rightarrow> string + jobj"
  x_str_json :: "json \<Rightarrow> string"
  x_decrypt :: "string \<Rightarrow> string option"
  x_provision :: "db \<Rightarrow> db"
  x_pending_repo :: "int \<Rightarrow> bool"
  x_clone :: "runtime \<Rightarrow> string + bool"

end
