(* ===== verification/Cleanup.thy ===== *)
theory Cleanup
  imports Orchestrator
begin

text \<open>
  Durable cleanup tasks (\<^verbatim>\<open>cleanup_service/service.py\<close>): a failed rollback or an incomplete stop
  leaves a task behind, and worker ticks and reconcile retry the stop until it succeeds.

  An unfinished task is found by workspace and scope. The loop over the pending tasks of a workspace is
  recursion over their ids; \<open>n\<close> numbers the stop calls.

  The column of the detail holds 8192 characters. \<^verbatim>\<open>ensure_durable_cleanup_task\<close> writes the issues without cutting them, so
  with a longer text the database refuses the flush; the definition stands for details within the column. The later
  writers, the deferral note among them, cut their text.
\<close>

definition CLEANUP_SCOPE_BRINGUP_ROLLBACK :: string where
  "CLEANUP_SCOPE_BRINGUP_ROLLBACK = ''bringup_rollback''"

definition CLEANUP_SCOPE_STOP_INCOMPLETE :: string where
  "CLEANUP_SCOPE_STOP_INCOMPLETE = ''stop_incomplete''"

definition find_cleanup_task :: "db \<Rightarrow> int \<Rightarrow> string \<Rightarrow> cleanup_task option" where
  "find_cleanup_task d wid scope =
     first_row (filter (\<lambda>c. ct_workspace_id c = wid \<and> ct_scope c = scope) (cleanups d))"

definition ensure_durable_cleanup_task :: "env \<Rightarrow> int \<Rightarrow> string \<Rightarrow> string list \<Rightarrow> db \<Rightarrow> db" where
  "ensure_durable_cleanup_task E wid scope detail d =
     (let detail_str = (if detail = [] then None else Some (dumps E (JObj [(''issues'', JList (map JStr detail))])))
      in case find_cleanup_task d wid scope of
           None \<Rightarrow> snd (add_ct \<lparr>ct_id = 0, ct_workspace_id = wid, ct_scope = scope, ct_detail = detail_str,
                     ct_status = CT_PENDING, ct_attempts = 0, ct_created_at = now E, ct_updated_at = now E\<rparr> d)
         | Some row \<Rightarrow>
             if ct_status row \<noteq> CT_SUCCEEDED
             then upd_ct (ct_id row) (\<lambda>c. c\<lparr>ct_detail := (if detail_str = None then ct_detail c else detail_str),
                    ct_status := CT_PENDING, ct_updated_at := now E\<rparr>) d
             else d)"

definition pending_cleanup_ids :: "db \<Rightarrow> int \<Rightarrow> int list" where
  "pending_cleanup_ids d wid =
     map ct_id (filter (\<lambda>c. ct_workspace_id c = wid \<and> ct_status c = CT_PENDING) (cleanups d))"

text \<open>One iteration: a retry of the stop for one task; the flag says whether the task succeeded.\<close>

definition attempt_cleanup :: "env \<Rightarrow> orch \<Rightarrow> int \<Rightarrow> string option \<Rightarrow> nat \<Rightarrow> int \<Rightarrow> db \<Rightarrow> bool \<times> db" where
  "attempt_cleanup E orc wid cid n tid d =
     (let d1 = upd_ct tid (\<lambda>c. c\<lparr>ct_attempts := ct_attempts c + 1, ct_updated_at := now E\<rparr>) d;
          attempts = (case get_ct d1 tid of None \<Rightarrow> 0 | Some c \<Rightarrow> ct_attempts c)
      in case o_stop orc n \<lparr>sa_workspace_id = str_int wid, sa_container_id = cid, sa_requested_by = None,
                            sa_release_ip_lease = True\<rparr> of
           Inl e \<Rightarrow> (False, upd_ct tid (\<lambda>c. c\<lparr>ct_detail := Some (take 8192 (dumps E (JObj
                       [(''error'', JStr (exn_text e)), (''attempt'', JInt attempts)]))), ct_updated_at := now E\<rparr>) d1)
         | Inr res \<Rightarrow>
             if st_success res
             then (True, upd_rt wid (\<lambda>r. if rt_health r = H_CLEANUP_REQUIRED
                             then r\<lparr>rt_health := H_UNKNOWN, rt_updated_at := now E\<rparr> else r)
                     (upd_ct tid (\<lambda>c. c\<lparr>ct_status := CT_SUCCEEDED, ct_updated_at := now E\<rparr>) d1))
             else (False, upd_ct tid (\<lambda>c. c\<lparr>ct_detail := Some (take 8192 (dumps E (JObj
                       [(''issues'', JList (map JStr (case st_issues res of None \<Rightarrow> [] | Some is \<Rightarrow> is))),
                        (''attempt'', JInt attempts)]))), ct_updated_at := now E\<rparr>) d1))"

fun cleanup_loop :: "env \<Rightarrow> orch \<Rightarrow> int \<Rightarrow> string option \<Rightarrow> nat \<Rightarrow> int list \<Rightarrow> db \<Rightarrow> nat \<times> db" where
  "cleanup_loop E orc wid cid n [] d = (0, d)"
| "cleanup_loop E orc wid cid n (tid # tids) d =
     (let (ok, d1) = attempt_cleanup E orc wid cid n tid d;
          (k, d2) = cleanup_loop E orc wid cid (Suc n) tids d1
      in ((if ok then Suc k else k), d2))"

text \<open>The result also carries how many stop calls were made.\<close>

definition process_durable_cleanup_tasks_for_workspace ::
  "env \<Rightarrow> orch \<Rightarrow> int \<Rightarrow> db \<Rightarrow> (nat \<times> nat) \<times> db" where
  "process_durable_cleanup_tasks_for_workspace E orc wid d =
     (let tasks = pending_cleanup_ids d wid; rt = runtime_row d wid in
      if tasks = [] then ((0, 0), d)
      else if \<not> runtime_placement_row_complete rt then ((0, 0), d)
      else let cid = (case rt of None \<Rightarrow> None | Some r \<Rightarrow> strip_or_none (rt_container_id r));
               (k, d1) = cleanup_loop E orc wid cid 0 tasks d
           in ((k, length tasks), d1))"

section \<open>Draining on worker ticks\<close>

text \<open>\<open>None\<close>: the stored detail is not an object, or its workspace id is not a number, and the tick fails.\<close>

definition deferred_payload :: "string \<Rightarrow> int \<Rightarrow> jobj \<Rightarrow> string option \<Rightarrow> jobj option option" where
  "deferred_payload reason wid extra detail =
     (let payload = (case detail of None \<Rightarrow> Some []
           | Some t \<Rightarrow> if t = [] then Some []
               else (case loads t of None \<Rightarrow> Some [(''previous_detail'', JStr (take 512 t))]
                     | Some (JObj p) \<Rightarrow> Some p | Some _ \<Rightarrow> None))
      in case payload of
           None \<Rightarrow> None
         | Some p \<Rightarrow>
             let prev = jget p ''deferred_workspace_id'';
                 prev_id = (if truthy prev then json_int prev else Some 0);
                 new = fold (\<lambda>(k, v) ob. jset ob k v) extra
                   (jset (jset p ''deferred_reason'' (JStr reason)) ''deferred_workspace_id'' (JInt wid))
             in if jget p ''deferred_reason'' = JStr reason
                then (case prev_id of None \<Rightarrow> None | Some i \<Rightarrow> Some (if i = wid then None else Some new))
                else Some (Some new))"

fun merge_cleanup_deferred_note :: "env \<Rightarrow> string \<Rightarrow> int \<Rightarrow> jobj \<Rightarrow> int list \<Rightarrow> db \<Rightarrow> db option" where
  "merge_cleanup_deferred_note E reason wid extra [] d = Some d"
| "merge_cleanup_deferred_note E reason wid extra (tid # tids) d =
     (case get_ct d tid of
        None \<Rightarrow> merge_cleanup_deferred_note E reason wid extra tids d
      | Some c \<Rightarrow>
          (case deferred_payload reason wid extra (ct_detail c) of
             None \<Rightarrow> None
           | Some None \<Rightarrow> merge_cleanup_deferred_note E reason wid extra tids d
           | Some (Some p) \<Rightarrow> merge_cleanup_deferred_note E reason wid extra tids
               (upd_ct tid (\<lambda>c. c\<lparr>ct_detail := Some (take 8192 (dumps E (JObj p))), ct_updated_at := now E\<rparr>) d)))"

text \<open>\<open>mk_orch\<close> is \<^verbatim>\<open>build_default_orchestrator_for_session\<close>; \<open>Inl\<close> carries the text of its exception.\<close>

definition drain_workspace ::
  "env \<Rightarrow> (string \<Rightarrow> int \<Rightarrow> string + orch) \<Rightarrow> int \<Rightarrow> db \<Rightarrow> (nat \<times> db) option" where
  "drain_workspace E mk_orch wid d =
     (let tasks = pending_cleanup_ids d wid in
      if get_ws d wid = None \<or> tasks = [] then Some (0, d)
      else case (if runtime_placement_row_complete (runtime_row d wid) then runtime_row d wid else None) of
        None \<Rightarrow> map_option (Pair 0) (merge_cleanup_deferred_note E ''runtime_placement_incomplete'' wid [] tasks d)
      | Some r \<Rightarrow>
          (case mk_orch (py_strip (str_or_empty (rt_node_id r))) (the (rt_topology_id r)) of
             Inl msg \<Rightarrow> map_option (Pair 0) (merge_cleanup_deferred_note E ''orchestrator_binding_failed'' wid
                          [(''error'', JStr (take 500 msg))] tasks d)
           | Inr orc \<Rightarrow> (let ((k, _), d1) = process_durable_cleanup_tasks_for_workspace E orc wid d in Some (k, d1))))"

fun drain_workspaces ::
  "env \<Rightarrow> (string \<Rightarrow> int \<Rightarrow> string + orch) \<Rightarrow> int list \<Rightarrow> db \<Rightarrow> (nat \<times> db) option" where
  "drain_workspaces E mk_orch [] d = Some (0, d)"
| "drain_workspaces E mk_orch (wid # wids) d =
     (case drain_workspace E mk_orch wid d of
        None \<Rightarrow> None
      | Some (k, d1) \<Rightarrow> map_option (\<lambda>(k', d2). (k + k', d2)) (drain_workspaces E mk_orch wids d1))"

text \<open>\<^verbatim>\<open>SELECT DISTINCT workspace_id ... LIMIT n\<close>: the database may return any selection; the model keeps the order
  of the table.\<close>

definition drain_pending_cleanup_tasks ::
  "env \<Rightarrow> (string \<Rightarrow> int \<Rightarrow> string + orch) \<Rightarrow> int \<Rightarrow> db \<Rightarrow> (nat \<times> db) option" where
  "drain_pending_cleanup_tasks E mk_orch limit_workspaces d =
     (let wids = take (nat (max 1 limit_workspaces))
           (remdups (map ct_workspace_id (filter (\<lambda>c. ct_status c = CT_PENDING) (cleanups d))))
      in drain_workspaces E mk_orch wids d)"

end
