(* ===== verification/Worker_Ops.thy ===== *)
theory Worker_Ops
  imports Cleanup
begin

text \<open>
  The building blocks of the job worker (\<^verbatim>\<open>workers/workspace_job_worker/worker.py\<close>): changes of the
  runtime row, of jobs and of workspaces, gateway notifications, and the finalizers that turn an
  orchestrator result into rows. Jobs and workspaces are addressed by key, as the ORM objects of one
  session. A finalizer returns the database and the requests it sent to route-admin; the best-effort
  gateway calls swallow every error. Metrics, log lines and user notifications are not modelled.
\<close>

section \<open>Texts\<close>

definition format_issues :: "string list option \<Rightarrow> string option" where
  "format_issues issues =
     (case issues of None \<Rightarrow> None
      | Some xs \<Rightarrow> if xs = [] then None
          else Some (truncate_msg 8192 (join_str ''; '' (filter (\<lambda>x. py_strip x \<noteq> []) xs))))"

text \<open>\<^verbatim>\<open>_format_issues(x) or text\<close>\<close>

definition issues_or :: "string list option \<Rightarrow> string \<Rightarrow> string" where
  "issues_or issues text = (if str_or_empty (format_issues issues) = [] then text else str_or_empty (format_issues issues))"

definition update_noop_issues_imply_stopped_workspace :: "string list option \<Rightarrow> bool" where
  "update_noop_issues_imply_stopped_workspace issues =
     (case issues of None \<Rightarrow> False
      | Some xs \<Rightarrow> list_ex (\<lambda>raw. starts_with ''update:noop:workspace_runtime_not_found'' (py_strip raw) \<or>
                            starts_with ''update:noop:container_not_running:'' (py_strip raw)) xs)"

definition parse_topology_id :: "string option \<Rightarrow> int option" where
  "parse_topology_id val = (case val of None \<Rightarrow> None
     | Some v \<Rightarrow> let s = py_strip v in if s = [] then None else parse_int s)"

definition health_from_probe :: "bool option \<Rightarrow> health" where
  "health_from_probe probe = (case probe of Some True \<Rightarrow> H_HEALTHY | Some False \<Rightarrow> H_UNHEALTHY | None \<Rightarrow> H_UNKNOWN)"

text \<open>Resource overrides of a configuration; \<open>Inl\<close> is \<^verbatim>\<open>ValueError\<close>.\<close>

definition positive_int_override :: "jobj \<Rightarrow> string \<Rightarrow> string + int option" where
  "positive_int_override c key =
     (case map_of c key of None \<Rightarrow> Inr None | Some JNull \<Rightarrow> Inr None
      | Some v \<Rightarrow> (case json_int v of None \<Rightarrow> Inl (key @ '' must be a positive integer'')
          | Some n \<Rightarrow> Inr (if n \<le> 0 then None else Some n)))"

definition cpu_override :: "env \<Rightarrow> jobj \<Rightarrow> string + rat option" where
  "cpu_override E c =
     (case map_of c ''cpu_limit_cores'' of None \<Rightarrow> Inr None | Some JNull \<Rightarrow> Inr None | Some JNonFinite \<Rightarrow> Inr None
      | Some v \<Rightarrow> (case json_float E v of None \<Rightarrow> Inl ''cpu_limit_cores must be a positive number''
          | Some x \<Rightarrow> Inr (if x \<le> 0 then None else Some x)))"

definition workspace_job_runtime_overrides_from_config ::
  "env \<Rightarrow> jobj \<Rightarrow> string + (rat option \<times> int option \<times> int option)" where
  "workspace_job_runtime_overrides_from_config E c =
     (case cpu_override E c of Inl m \<Rightarrow> Inl m
      | Inr cpu \<Rightarrow> (case positive_int_override c ''memory_limit_mib'' of Inl m \<Rightarrow> Inl m
          | Inr mem \<Rightarrow> (case positive_int_override c ''pids_limit'' of Inl m \<Rightarrow> Inl m
              | Inr pids \<Rightarrow> Inr (cpu, mem, pids))))"

section \<open>The runtime row\<close>

definition get_persisted_container_id :: "db \<Rightarrow> int \<Rightarrow> string option" where
  "get_persisted_container_id d wid = (case runtime_row d wid of None \<Rightarrow> None | Some r \<Rightarrow> rt_container_id r)"

definition blank_runtime :: "env \<Rightarrow> int \<Rightarrow> runtime" where
  "blank_runtime E wid =
     \<lparr>rt_id = 0, rt_workspace_id = wid, rt_node_id = None, rt_container_id = None, rt_container_state = None,
      rt_topology_id = None, rt_internal_endpoint = None, rt_gateway_route_target = None, rt_config_version = None,
      rt_health = H_UNKNOWN, rt_reserved_cpu = 0, rt_reserved_memory_mb = 0, rt_reserved_disk_mb = 0,
      rt_applied_cpu = None, rt_applied_memory_mb = None, rt_applied_pids = None, rt_applied_security = None,
      rt_last_heartbeat_at = None, rt_updated_at = now E\<rparr>"

definition ensure_runtime :: "env \<Rightarrow> int \<Rightarrow> db \<Rightarrow> db" where
  "ensure_runtime E wid d = (if runtime_row d wid = None then snd (add_rt (blank_runtime E wid) d) else d)"

text \<open>Zero reservations and no recorded quotas.\<close>

definition release_runtime :: "runtime \<Rightarrow> runtime" where
  "release_runtime r = r\<lparr>rt_reserved_cpu := 0, rt_reserved_memory_mb := 0, rt_reserved_disk_mb := 0,
     rt_applied_cpu := None, rt_applied_memory_mb := None, rt_applied_pids := None, rt_applied_security := None\<rparr>"

definition clear_runtime_capacity_reservation :: "env \<Rightarrow> int \<Rightarrow> db \<Rightarrow> db" where
  "clear_runtime_capacity_reservation E wid d =
     upd_rt wid (\<lambda>r. if rt_reserved_cpu r \<le> 0 \<and> rt_reserved_memory_mb r \<le> 0 \<and> rt_reserved_disk_mb r \<le> 0 then r
       else r\<lparr>rt_reserved_cpu := 0, rt_reserved_memory_mb := 0, rt_reserved_disk_mb := 0, rt_updated_at := now E\<rparr>) d"

text \<open>What the runtime row looks like after a bring-up with observation \<open>ob\<close>.\<close>

definition running_runtime :: "env \<Rightarrow> 'a run_obs_scheme \<Rightarrow> string option \<Rightarrow> int \<Rightarrow> runtime \<Rightarrow> runtime" where
  "running_runtime E ob target cfgv r =
     (let r1 = r\<lparr>rt_node_id := ro_node_id ob, rt_topology_id := parse_topology_id (ro_topology_id ob),
                 rt_container_id := ro_container_id ob, rt_container_state := ro_container_state ob,
                 rt_internal_endpoint := ro_internal_endpoint ob, rt_gateway_route_target := target,
                 rt_config_version := Some cfgv\<rparr>;
          r2 = (if py_strip (str_or_empty (ro_node_id ob)) \<noteq> []
                then r1\<lparr>rt_reserved_cpu := s_required_cpu (cfg E), rt_reserved_memory_mb := s_required_memory_mb (cfg E),
                        rt_reserved_disk_mb := s_required_disk_mb (cfg E), rt_applied_cpu := ro_applied_cpu ob,
                        rt_applied_memory_mb := ro_applied_memory_mib ob, rt_applied_pids := ro_applied_pids ob,
                        rt_applied_security := ro_applied_security ob\<rparr>
                else release_runtime r1)
      in r2\<lparr>rt_health := health_from_probe (ro_probe_healthy ob),
            rt_last_heartbeat_at := (if ro_probe_healthy ob = Some True then Some (now E) else rt_last_heartbeat_at r2),
            rt_updated_at := now E\<rparr>)"

definition apply_runtime_bringup_like ::
  "env \<Rightarrow> int \<Rightarrow> 'a run_obs_scheme \<Rightarrow> string option \<Rightarrow> int \<Rightarrow> db \<Rightarrow> db" where
  "apply_runtime_bringup_like E wid ob target cfgv d =
     upd_rt wid (running_runtime E ob target cfgv) (ensure_runtime E wid d)"

definition set_if_some :: "'a option \<Rightarrow> 'a option \<Rightarrow> 'a option" where
  "set_if_some new old = (if new = None then old else new)"

text \<open>The row after a compensating rollback that succeeded.\<close>

definition rolled_back_runtime ::
  "env \<Rightarrow> string option \<Rightarrow> string option \<Rightarrow> string option \<Rightarrow> string option \<Rightarrow> runtime \<Rightarrow> runtime" where
  "rolled_back_runtime E cid cstate endpoint target r =
     (release_runtime r)\<lparr>rt_container_id := set_if_some cid (rt_container_id r),
        rt_container_state := set_if_some cstate (rt_container_state r),
        rt_internal_endpoint := endpoint, rt_gateway_route_target := target, rt_health := H_UNKNOWN,
        rt_updated_at := now E\<rparr>"

definition issues_list :: "string list option \<Rightarrow> string list" where
  "issues_list x = (case x of None \<Rightarrow> [] | Some xs \<Rightarrow> xs)"

definition mark_cleanup_required :: "env \<Rightarrow> int \<Rightarrow> string list \<Rightarrow> db \<Rightarrow> db" where
  "mark_cleanup_required E wid detail d =
     upd_rt wid (\<lambda>r. r\<lparr>rt_health := H_CLEANUP_REQUIRED, rt_updated_at := now E\<rparr>)
       (ensure_durable_cleanup_task E wid CLEANUP_SCOPE_BRINGUP_ROLLBACK detail d)"

definition sync_runtime_after_failed_bringup :: "env \<Rightarrow> int \<Rightarrow> bringup_result \<Rightarrow> db \<Rightarrow> db" where
  "sync_runtime_after_failed_bringup E wid res d =
     (if \<not> bu_rollback_attempted res \<or> runtime_row d wid = None then d
      else if bu_rollback_succeeded res = Some True
      then upd_rt wid (rolled_back_runtime E (ro_container_id res) (ro_container_state res)
             (ro_internal_endpoint res) (ro_gateway_route_target res)) d
      else mark_cleanup_required E wid
             (if issues_list (bu_rollback_issues res) \<noteq> [] then issues_list (bu_rollback_issues res)
              else issues_list (ro_issues res)) d)"

definition sync_runtime_after_bringup_exception ::
  "env \<Rightarrow> int \<Rightarrow> bool option \<Rightarrow> string list option \<Rightarrow> string option \<Rightarrow> string option \<Rightarrow> db \<Rightarrow> db" where
  "sync_runtime_after_bringup_exception E wid rb_ok rb_issues cid cstate d =
     (if runtime_row d wid = None then d
      else if rb_ok = Some True then upd_rt wid (rolled_back_runtime E cid cstate None None) d
      else mark_cleanup_required E wid (issues_list rb_issues) d)"

definition stopped_runtime :: "env \<Rightarrow> stop_result \<Rightarrow> runtime \<Rightarrow> runtime" where
  "stopped_runtime E res r =
     (release_runtime r)\<lparr>rt_container_id := set_if_some (st_container_id res) (rt_container_id r),
        rt_container_state := set_if_some (st_container_state res) (rt_container_state r),
        rt_topology_id := (if st_topology_detached res \<noteq> Some False then None else rt_topology_id r),
        rt_internal_endpoint := None, rt_gateway_route_target := None, rt_health := H_UNKNOWN,
        rt_last_heartbeat_at := None, rt_updated_at := now E\<rparr>"

definition apply_runtime_stop :: "env \<Rightarrow> int \<Rightarrow> stop_result \<Rightarrow> db \<Rightarrow> db" where
  "apply_runtime_stop E wid res d = upd_rt wid (stopped_runtime E res) (ensure_runtime E wid d)"

definition clear_runtime_after_delete :: "int \<Rightarrow> db \<Rightarrow> db" where
  "clear_runtime_after_delete wid d =
     (case runtime_row d wid of None \<Rightarrow> d | Some r \<Rightarrow> d\<lparr>runtimes := row_del rt_id (rt_id r) (runtimes d)\<rparr>)"

section \<open>Jobs and workspaces\<close>

definition mark_job_running :: "env \<Rightarrow> int \<Rightarrow> db \<Rightarrow> db" where
  "mark_job_running E jid d =
     upd_job jid (\<lambda>j. j\<lparr>job_status := JS_RUNNING, job_started_at := Some (now E), job_attempt := job_attempt j + 1\<rparr>) d"

definition mark_job_succeeded :: "env \<Rightarrow> int \<Rightarrow> db \<Rightarrow> db" where
  "mark_job_succeeded E jid d =
     upd_job jid (\<lambda>j. j\<lparr>job_status := JS_SUCCEEDED, job_finished_at := Some (now E), job_error_msg := None,
       job_failure_stage := None, job_failure_code := None, job_next_attempt_after := None\<rparr>) d"

text \<open>\<^verbatim>\<open>failure_code or failure_stage\<close>\<close>

definition mark_job_failed ::
  "env \<Rightarrow> int \<Rightarrow> string \<Rightarrow> failure_stage option \<Rightarrow> string option \<Rightarrow> db \<Rightarrow> db" where
  "mark_job_failed E jid message stage code d =
     upd_job jid (\<lambda>j. j\<lparr>job_status := JS_FAILED, job_finished_at := Some (now E),
       job_error_msg := Some (truncate_msg 8192 message), job_failure_stage := stage,
       job_failure_code := (if str_or_empty code \<noteq> [] then code else map_option failure_stage_str stage),
       job_next_attempt_after := None\<rparr>) d"

definition workspace_clear_errors :: "workspace \<Rightarrow> workspace" where
  "workspace_clear_errors w = w\<lparr>ws_last_error_code := None, ws_last_error_message := None, ws_status_reason := None\<rparr>"

definition workspace_set_error :: "string \<Rightarrow> string \<Rightarrow> workspace \<Rightarrow> workspace" where
  "workspace_set_error code message w =
     w\<lparr>ws_last_error_code := Some (truncate_msg 64 code), ws_last_error_message := Some (truncate_msg 4096 message),
       ws_status_reason := Some (truncate_msg 1024 message)\<rparr>"

definition touch_workspace :: "env \<Rightarrow> int \<Rightarrow> db \<Rightarrow> db" where
  "touch_workspace E wid d = upd_ws wid (\<lambda>w. w\<lparr>ws_updated_at := now E\<rparr>) d"

text \<open>\<^verbatim>\<open>ws.status = ERROR; _workspace_set_error(...); _touch_workspace(...)\<close>\<close>

definition fail_workspace :: "env \<Rightarrow> int \<Rightarrow> string \<Rightarrow> string \<Rightarrow> db \<Rightarrow> db" where
  "fail_workspace E wid code message d =
     upd_ws wid (\<lambda>w. (workspace_set_error code message w)\<lparr>ws_status := WS_ERROR, ws_updated_at := now E\<rparr>) d"

definition begin_create_bringup_after_placement :: "env \<Rightarrow> int \<Rightarrow> job_type \<Rightarrow> db \<Rightarrow> db" where
  "begin_create_bringup_after_placement E wid jt d =
     (if jt \<noteq> JT_CREATE then d
      else upd_ws wid (\<lambda>w. if ws_status w \<noteq> WS_PENDING then w
        else w\<lparr>ws_status := WS_CREATING, ws_status_reason := Some ''Provisioning workspace runtime...'',
               ws_last_error_message := None, ws_last_error_code := None, ws_updated_at := now E\<rparr>) d)"

section \<open>Gateway\<close>

text \<open>\<^verbatim>\<open>urllib.parse.urlsplit\<close> as far as \<^verbatim>\<open>netloc\<close>, \<^verbatim>\<open>path\<close> and \<^verbatim>\<open>port\<close> go. \<open>None\<close> is its
  \<^verbatim>\<open>ValueError\<close> for unbalanced brackets.\<close>

definition scheme_char :: "char \<Rightarrow> bool" where
  "scheme_char c = (let n = (of_char c :: nat) in (97 \<le> n \<and> n \<le> 122) \<or> (65 \<le> n \<and> n \<le> 90) \<or> is_digit c \<or>
     c \<in> {CHR ''+'', CHR ''-'', CHR ''.''})"

definition ascii_alpha :: "char \<Rightarrow> bool" where
  "ascii_alpha c = (let n = (of_char c :: nat) in (97 \<le> n \<and> n \<le> 122) \<or> (65 \<le> n \<and> n \<le> 90))"

definition urlsplit_netloc_path :: "string \<Rightarrow> (string \<times> string) option" where
  "urlsplit_netloc_path raw =
     (let u = filter (\<lambda>c. (of_char c :: nat) \<notin> {9, 10, 13}) (dropWhile (\<lambda>c. (of_char c :: nat) \<le> 32) raw);
          pre = takeWhile (\<lambda>c. c \<noteq> CHR '':'') u;
          rest = (if CHR '':'' \<in> set u \<and> pre \<noteq> [] \<and> ascii_alpha (hd pre) \<and> list_all scheme_char pre
                  then drop (Suc (length pre)) u else u);
          netloc = (if starts_with ''//'' rest then takeWhile (\<lambda>c. c \<notin> {CHR ''/'', CHR ''?'', CHR ''#''}) (drop 2 rest) else []);
          after = (if starts_with ''//'' rest then drop (2 + length netloc) rest else rest);
          path = takeWhile (\<lambda>c. c \<notin> {CHR ''?'', CHR ''#''}) after
      in if (CHR ''['' \<in> set netloc) \<noteq> (CHR '']'' \<in> set netloc) then None else Some (netloc, path))"

definition after_last :: "char \<Rightarrow> string \<Rightarrow> string" where
  "after_last c s = rev (takeWhile (\<lambda>x. x \<noteq> c) (rev s))"

definition after_first :: "char \<Rightarrow> string \<Rightarrow> string" where
  "after_first c s = tl (dropWhile (\<lambda>x. x \<noteq> c) s)"

definition netloc_port_text :: "string \<Rightarrow> string" where
  "netloc_port_text netloc =
     (let hostinfo = after_last (CHR ''@'') netloc in
      if CHR ''['' \<in> set hostinfo
      then after_first (CHR '':'') (after_first (CHR '']'') (after_first (CHR ''['') hostinfo))
      else after_first (CHR '':'') hostinfo)"

definition route_target_port :: "string option \<Rightarrow> orch_exn + int option" where
  "route_target_port val =
     (let raw = py_strip (str_or_empty val) in
      if raw = [] then Inr None
      else case urlsplit_netloc_path (if contains_str ''://'' raw then raw else ''http://'' @ raw) of
        None \<Rightarrow> Inl (OtherException ''Invalid IPv6 URL'')
      | Some (netloc, path) \<Rightarrow>
          let pt = netloc_port_text netloc;
              host_port = (if netloc \<noteq> [] then netloc else path);
              tail = after_last (CHR '':'') host_port
          in if pt \<noteq> []
             then (if list_all is_digit pt \<and> read_nat pt \<le> 65535 then Inr (Some (int (read_nat pt))) else Inr None)
             else if CHR '':'' \<in> set host_port \<and> tail \<noteq> [] \<and> list_all is_digit tail then Inr (Some (int (read_nat tail)))
             else Inr None)"

definition node_by_key :: "db \<Rightarrow> string \<Rightarrow> node option" where
  "node_by_key d key = first_row (filter (\<lambda>n. node_key n = key) (nodes d))"

definition is_remote_node :: "node \<Rightarrow> bool" where
  "is_remote_node n = (node_provider_type n = PT_EC2 \<or> node_execution_mode n \<in> {EM_SSM_DOCKER, EM_SSH_DOCKER})"

definition bringup_error :: "string \<Rightarrow> orch_exn" where
  "bringup_error m = WorkspaceBringUpError m False None None None None"

definition remote_gateway_route_target_for_node ::
  "db \<Rightarrow> string option \<Rightarrow> int option \<Rightarrow> string option \<Rightarrow> string option \<Rightarrow> orch_exn + string option" where
  "remote_gateway_route_target_for_node d nkey eid target endpoint =
     (let key = py_strip (str_or_empty nkey);
          n1 = (if key \<noteq> [] then node_by_key d key else None);
          n2 = (if n1 = None then (case eid of None \<Rightarrow> None | Some i \<Rightarrow> get_node d i) else n1)
      in case n2 of
           None \<Rightarrow> Inr (strip_or_none target)
         | Some n \<Rightarrow>
             if \<not> is_remote_node n then Inr (strip_or_none target)
             else let ip = py_strip (str_or_empty (node_private_ip n)) in
               if ip = [] then Inl (bringup_error ''remote EC2 route target requires execution_node.private_ip'')
               else case route_target_port target of Inl e \<Rightarrow> Inl e
                 | Inr p1 \<Rightarrow>
                     (case (if p1 \<noteq> None \<and> p1 \<noteq> Some 0 then Inr p1 else route_target_port endpoint) of
                        Inl e \<Rightarrow> Inl e
                      | Inr None \<Rightarrow> Inl (bringup_error ''remote EC2 route target requires a published IDE host port'')
                      | Inr (Some p) \<Rightarrow> Inr (Some (ip @ '':'' @ str_int p))))"

definition gateway_default_public_host :: "int \<Rightarrow> string \<Rightarrow> string" where
  "gateway_default_public_host wid base_domain =
     ''ws-'' @ str_int wid @ ''.'' @
     strip_chars (CHR ''.'') (py_strip (if base_domain = [] then ''app.devnest.local'' else base_domain))"

definition workspace_public_host :: "env \<Rightarrow> workspace \<Rightarrow> string" where
  "workspace_public_host E w =
     (let h = py_strip (str_or_empty (ws_public_host w))
      in if h \<noteq> [] then h else gateway_default_public_host (ws_id w) (s_base_domain (cfg E)))"

text \<open>The request that registers a running workspace, when there is one to send.\<close>

definition register_call :: "env \<Rightarrow> workspace \<Rightarrow> string option \<Rightarrow> string \<Rightarrow> gw_call" where
  "register_call E w node_id upstream =
     GwRegister (str_int (ws_id w)) upstream (workspace_public_host E w) (strip_or_none (ws_gateway_path_prefix w))
       (strip_or_none node_id) (ws_execution_node_id w)"

definition gateway_try_register_running :: "env \<Rightarrow> int \<Rightarrow> db \<Rightarrow> gw_call list" where
  "gateway_try_register_running E wid d =
     (if \<not> s_gateway_enabled (cfg E) then []
      else case (get_ws d wid, runtime_row d wid) of
        (Some w, Some r) \<Rightarrow>
          (let upstream = traefik_upstream_for_workspace_gateway (Some w) r
           in if upstream = [] then [] else [register_call E w (rt_node_id r) upstream])
      | _ \<Rightarrow> [])"

definition gateway_try_deregister :: "env \<Rightarrow> int \<Rightarrow> gw_call list" where
  "gateway_try_deregister E wid = (if s_gateway_enabled (cfg E) then [GwDeregister (str_int wid)] else [])"

section \<open>Finalizers\<close>

type_synonym fin = "db \<times> gw_call list"

definition job_cid :: "db \<Rightarrow> int \<Rightarrow> string option" where
  "job_cid d jid = (case get_job d jid of None \<Rightarrow> None | Some j \<Rightarrow> job_correlation_id j)"

definition job_actor :: "db \<Rightarrow> int \<Rightarrow> int option" where
  "job_actor d jid = map_option job_requested_by (get_job d jid)"

definition job_type_of :: "db \<Rightarrow> int \<Rightarrow> job_type" where
  "job_type_of d jid = (case get_job d jid of None \<Rightarrow> JT_OTHER [] | Some j \<Rightarrow> job_type j)"

definition ws_owner_of :: "db \<Rightarrow> int \<Rightarrow> int option" where
  "ws_owner_of d wid = map_option ws_owner_user_id (get_ws d wid)"

definition audit_job ::
  "env \<Rightarrow> string \<Rightarrow> audit_outcome \<Rightarrow> int \<Rightarrow> int \<Rightarrow> string option \<Rightarrow> string option \<Rightarrow> jobj \<Rightarrow> db \<Rightarrow> db" where
  "audit_job E action outcome wid jid nid reason meta d =
     record_audit E action ''workspace'' outcome (job_actor d jid) ACTOR_SYSTEM (Some (str_int wid)) (Some wid)
       (Some jid) nid reason meta (job_cid d jid) d"

definition finalize_job_failed_workspace_error ::
  "env \<Rightarrow> int \<Rightarrow> int \<Rightarrow> string \<Rightarrow> failure_stage option \<Rightarrow> db \<Rightarrow> db" where
  "finalize_job_failed_workspace_error E wid jid message stage d =
     (let d1 = mark_job_failed E jid message stage (map_option failure_stage_str stage) d;
          d2 = fail_workspace E wid ''WORKSPACE_JOB_FAILED'' message d1;
          d3 = clear_runtime_capacity_reservation E wid d2;
          d4 = audit_job E ''workspace.job.failed'' AO_FAILURE wid jid None (Some (take 4096 message))
                 [(''job_type'', JStr (job_type_str (job_type_of d3 jid))),
                  (''failure_stage'', jopt (JStr \<circ> failure_stage_str) stage)] d3
      in record_usage E (Some wid) (ws_owner_of d4 wid) ''workspace.job.failed'' 1 None (Some jid) [] (job_cid d4 jid) d4)"

definition resolve_orchestrator_result_failure ::
  "env \<Rightarrow> int \<Rightarrow> int \<Rightarrow> string \<Rightarrow> failure_stage \<Rightarrow> bool \<Rightarrow> db \<Rightarrow> db" where
  "resolve_orchestrator_result_failure E wid jid message stage retryable d =
     (let (scheduled, d1) = (if retryable
            then try_schedule_workspace_job_retry E jid message stage (Some (failure_stage_str stage)) d else (False, d))
      in if scheduled then touch_workspace E wid d1
         else finalize_job_failed_workspace_error E wid jid message (Some stage) d1)"

definition sync_workspace_execution_node_id :: "int \<Rightarrow> string option \<Rightarrow> db \<Rightarrow> db" where
  "sync_workspace_execution_node_id wid nid d =
     (let key = py_strip (str_or_empty nid) in
      if key = [] then d
      else case node_by_key d key of None \<Rightarrow> d
        | Some n \<Rightarrow> upd_ws wid (\<lambda>w. w\<lparr>ws_execution_node_id := Some (node_pk n)\<rparr>) d)"

definition first_text :: "string option \<Rightarrow> string option \<Rightarrow> string option" where
  "first_text a b = (if str_or_empty a \<noteq> [] then a else b)"

definition finalize_runtime_running_success ::
  "env \<Rightarrow> int \<Rightarrow> int \<Rightarrow> int \<Rightarrow> 'a run_obs_scheme \<Rightarrow> db \<Rightarrow> orch_exn + fin" where
  "finalize_runtime_running_success E wid jid cfgv ob d =
     (case remote_gateway_route_target_for_node d (ro_node_id ob)
             (case get_ws d wid of None \<Rightarrow> None | Some w \<Rightarrow> ws_execution_node_id w)
             (ro_gateway_route_target ob) (ro_internal_endpoint ob) of
        Inl e \<Rightarrow> Inl e
      | Inr target \<Rightarrow>
          let d1 = apply_runtime_bringup_like E wid ob target cfgv d;
              d2 = sync_workspace_execution_node_id wid (ro_node_id ob) d1;
              d3 = mark_job_succeeded E jid d2;
              d4 = upd_ws wid (\<lambda>w. (workspace_clear_errors w)\<lparr>ws_status := WS_RUNNING,
                     ws_endpoint_ref := first_text target (first_text (ro_internal_endpoint ob) (ws_endpoint_ref w)),
                     ws_last_started := Some (now E), ws_updated_at := now E\<rparr>) d3;
              d5 = snd (revoke_all_workspace_sessions E wid d4);
              calls = gateway_try_register_running E wid d5;
              d6 = audit_job E ''workspace.job.succeeded'' AO_SUCCESS wid jid (ro_node_id ob) None
                     [(''job_type'', JStr (job_type_str (job_type_of d5 jid))), (''new_status'', JStr ''RUNNING'')] d5;
              d7 = record_usage E (Some wid) (ws_owner_of d6 wid) ''workspace.started'' 1 (ro_node_id ob) (Some jid) []
                     (job_cid d6 jid) d6
          in Inr (d7, calls))"

definition finalize_bringup_result ::
  "env \<Rightarrow> int \<Rightarrow> int \<Rightarrow> int \<Rightarrow> bringup_result \<Rightarrow> db \<Rightarrow> orch_exn + fin" where
  "finalize_bringup_result E wid jid cfgv res d =
     (if ro_success res then finalize_runtime_running_success E wid jid cfgv res d
      else
        let d1 = sync_runtime_after_failed_bringup E wid res d;
            extra = str_or_empty (format_issues (bu_rollback_issues res));
            base = issues_or (ro_issues res) ''Bring-up completed without success'';
            msg = (if bu_rollback_succeeded res = Some False \<and> extra \<noteq> [] then base @ ''; rollback_failed: '' @ extra else base)
        in Inr (resolve_orchestrator_result_failure E wid jid msg FS_CONTAINER
                  (lifecycle_result_failure_retryable (job_type_of d1 jid)) d1, []))"

definition runtime_seconds :: "env \<Rightarrow> db \<Rightarrow> int \<Rightarrow> int" where
  "runtime_seconds E d wid =
     (case get_ws d wid of None \<Rightarrow> 0
      | Some w \<Rightarrow> (case ws_last_started w of None \<Rightarrow> 0
          | Some t \<Rightarrow> max 0 (let us = now E - t in if us < 0 then - ((- us) div 1000000) else us div 1000000)))"

definition finalize_stop_result :: "env \<Rightarrow> int \<Rightarrow> int \<Rightarrow> stop_result \<Rightarrow> db \<Rightarrow> fin" where
  "finalize_stop_result E wid jid res d =
     (if st_success res then
        let d1 = apply_runtime_stop E wid res d;
            d2 = mark_job_succeeded E jid d1;
            d3 = upd_ws wid (\<lambda>w. (workspace_clear_errors w)\<lparr>ws_status := WS_STOPPED, ws_last_stopped := Some (now E),
                   ws_updated_at := now E\<rparr>) d2;
            d4 = snd (revoke_all_workspace_sessions E wid d3);
            d5 = audit_job E ''workspace.job.succeeded'' AO_SUCCESS wid jid None None
                   [(''job_type'', JStr (job_type_str (job_type_of d4 jid))), (''new_status'', JStr ''STOPPED'')] d4;
            d6 = record_usage E (Some wid) (ws_owner_of d5 wid) ''workspace.stopped'' (runtime_seconds E d5 wid) None
                   (Some jid) [] (job_cid d5 jid) d5
        in (d6, gateway_try_deregister E wid)
      else
        let msg = issues_or (st_issues res) ''Stop completed without success'';
            d1 = ensure_durable_cleanup_task E wid CLEANUP_SCOPE_STOP_INCOMPLETE (issues_list (st_issues res)) d
        in (resolve_orchestrator_result_failure E wid jid msg FS_CONTAINER False d1, []))"

text \<open>The common tail of both delete finalizers; \<open>meta\<close> is the part of the audit metadata in which they differ.\<close>

definition settle_deleted :: "env \<Rightarrow> int \<Rightarrow> int \<Rightarrow> jobj \<Rightarrow> db \<Rightarrow> fin" where
  "settle_deleted E wid jid meta d =
     (let d4 = snd (revoke_all_workspace_sessions E wid d);
          d5 = audit_job E ''workspace.job.succeeded'' AO_SUCCESS wid jid None None
                 ([(''job_type'', JStr (job_type_str (job_type_of d4 jid))), (''new_status'', JStr ''DELETED'')] @ meta) d4;
          d6 = record_usage E (Some wid) (ws_owner_of d5 wid) ''workspace.deleted'' 1 None (Some jid) [] (job_cid d5 jid) d5
      in (d6, gateway_try_deregister E wid))"

definition set_deleted :: "env \<Rightarrow> int \<Rightarrow> db \<Rightarrow> db" where
  "set_deleted E wid d = upd_ws wid (\<lambda>w. (workspace_clear_errors w)\<lparr>ws_status := WS_DELETED, ws_updated_at := now E\<rparr>) d"

definition finalize_delete_result :: "env \<Rightarrow> int \<Rightarrow> int \<Rightarrow> delete_result \<Rightarrow> db \<Rightarrow> fin" where
  "finalize_delete_result E wid jid res d =
     settle_deleted E wid jid [(''orchestrator_success'', JBool (de_success res))]
       (clear_runtime_after_delete wid (set_deleted E wid (mark_job_succeeded E jid d)))"

definition finalize_delete_runtime_missing_idempotent :: "env \<Rightarrow> int \<Rightarrow> int \<Rightarrow> db \<Rightarrow> fin" where
  "finalize_delete_runtime_missing_idempotent E wid jid d =
     settle_deleted E wid jid [(''idempotent_runtime_missing'', JBool True)]
       (set_deleted E wid (mark_job_succeeded E jid d))"

definition finalize_restart_result ::
  "env \<Rightarrow> int \<Rightarrow> int \<Rightarrow> int \<Rightarrow> run_obs \<Rightarrow> db \<Rightarrow> orch_exn + fin" where
  "finalize_restart_result E wid jid cfgv res d =
     (if ro_success res then finalize_runtime_running_success E wid jid cfgv res d
      else Inr (resolve_orchestrator_result_failure E wid jid (issues_or (ro_issues res) ''Restart completed without success'')
                  FS_CONTAINER (lifecycle_result_failure_retryable (job_type_of d jid)) d, []))"

definition noop_stopped_runtime :: "env \<Rightarrow> update_result \<Rightarrow> int \<Rightarrow> runtime \<Rightarrow> runtime" where
  "noop_stopped_runtime E res cfgv r =
     (release_runtime r)\<lparr>rt_node_id := ro_node_id res, rt_topology_id := parse_topology_id (ro_topology_id res),
        rt_container_id := ro_container_id res, rt_container_state := ro_container_state res,
        rt_internal_endpoint := ro_internal_endpoint res, rt_gateway_route_target := ro_gateway_route_target res,
        rt_config_version := Some cfgv, rt_health := H_UNKNOWN, rt_last_heartbeat_at := None, rt_updated_at := now E\<rparr>"

definition finalize_update_result :: "env \<Rightarrow> int \<Rightarrow> int \<Rightarrow> update_result \<Rightarrow> db \<Rightarrow> orch_exn + fin" where
  "finalize_update_result E wid jid res d =
     (let cfgv = (if up_requested_config_version res \<noteq> 0 then up_requested_config_version res
                  else (case get_job d jid of None \<Rightarrow> 0 | Some j \<Rightarrow> job_config_version j));
          msg = issues_or (ro_issues res) ''Update completed without success''
      in if ro_success res then finalize_runtime_running_success E wid jid cfgv res d
         else if up_no_op res \<and> update_noop_issues_imply_stopped_workspace (ro_issues res) then
           let d1 = upd_rt wid (noop_stopped_runtime E res cfgv) (ensure_runtime E wid d);
               d2 = mark_job_succeeded E jid d1;
               d3 = upd_ws wid (\<lambda>w. (workspace_clear_errors w)\<lparr>ws_status := WS_STOPPED,
                      ws_status_reason := Some (truncate_msg 1024 msg), ws_updated_at := now E\<rparr>) d2
           in Inr (snd (revoke_all_workspace_sessions E wid d3), [])
         else Inr (resolve_orchestrator_result_failure E wid jid msg FS_CONTAINER
                     (lifecycle_result_failure_retryable (job_type_of d jid)) d, []))"

end
