(* ===== verification/Reconcile.thy ===== *)
theory Reconcile
  imports Worker_Ops
begin

text \<open>
  \<^verbatim>\<open>RECONCILE_RUNTIME\<close> jobs (\<^verbatim>\<open>reconcile_service/reconcile_runtime.py\<close>): drift detection and safe
  repairs for settled workspaces. \<open>X\<close> answers for route-admin and the advisory lock, \<open>orc\<close> is the
  orchestrator, \<open>k\<close> the number of stop calls made so far in the job. The topology janitor works on tables
  of theory \<open>Topology\<close>, which nothing here reads, and its failures are swallowed.
\<close>

type_synonym job_out = "(orch_exn \<times> db) + fin"

definition ws_status_text :: "db \<Rightarrow> int \<Rightarrow> string option" where
  "ws_status_text d wid = map_option (ws_status_str \<circ> ws_status) (get_ws d wid)"

definition reconcile_event :: "env \<Rightarrow> int \<Rightarrow> int \<Rightarrow> string \<Rightarrow> string \<Rightarrow> db \<Rightarrow> db" where
  "reconcile_event E wid jid ev msg d = log_event E wid ev (ws_status_text d wid) (Some msg) [(''job_id'', JInt jid)] d"

definition strict_list_routes :: "env \<Rightarrow> outside \<Rightarrow> string + route_row list" where
  "strict_list_routes E X = (if \<not> s_gateway_enabled (cfg E) then Inr [] else x_gw_list X)"

text \<open>Send a request; the error text, when route-admin refuses it, comes first.\<close>

definition strict_deregister_route :: "env \<Rightarrow> outside \<Rightarrow> int \<Rightarrow> string option \<times> gw_call list" where
  "strict_deregister_route E X wid =
     (if \<not> s_gateway_enabled (cfg E) then (None, [])
      else (x_gw_call X (GwDeregister (str_int wid)), [GwDeregister (str_int wid)]))"

definition strict_register_route ::
  "env \<Rightarrow> outside \<Rightarrow> int \<Rightarrow> string \<Rightarrow> db \<Rightarrow> string option \<times> gw_call list" where
  "strict_register_route E X wid upstream d =
     (case get_ws d wid of None \<Rightarrow> (None, [])
      | Some w \<Rightarrow>
          let call = register_call E w (case runtime_row d wid of None \<Rightarrow> None | Some r \<Rightarrow> rt_node_id r) upstream
          in (x_gw_call X call, [call]))"

definition best_effort_remove_orphan_gateway_route ::
  "env \<Rightarrow> outside \<Rightarrow> int \<Rightarrow> int \<Rightarrow> string \<Rightarrow> db \<Rightarrow> fin" where
  "best_effort_remove_orphan_gateway_route E X wid jid message d =
     (if \<not> s_gateway_enabled (cfg E) then (d, [])
      else case strict_list_routes E X of
        Inl _ \<Rightarrow> (d, [])
      | Inr routes \<Rightarrow>
          if route_row_for_workspace routes wid = None then (d, [])
          else case strict_deregister_route E X wid of
            (Some _, calls) \<Rightarrow> (d, calls)
          | (None, calls) \<Rightarrow> (reconcile_event E wid jid EV_RECONCILE_CLEANED_ORPHAN message d, calls))"

definition repair_runtime_capacity_ledger :: "env \<Rightarrow> int \<Rightarrow> db \<Rightarrow> db" where
  "repair_runtime_capacity_ledger E wid d =
     (case get_ws d wid of None \<Rightarrow> d
      | Some w \<Rightarrow>
          upd_rt wid (\<lambda>r.
            if ws_status w \<in> {WS_STOPPED, WS_ERROR, WS_DELETED} then
              (if rt_reserved_cpu r > 0 \<or> rt_reserved_memory_mb r > 0 \<or> rt_reserved_disk_mb r > 0
               then r\<lparr>rt_reserved_cpu := 0, rt_reserved_memory_mb := 0, rt_reserved_disk_mb := 0, rt_updated_at := now E\<rparr>
               else r)
            else if ws_status w = WS_RUNNING \<and> py_strip (str_or_empty (rt_node_id r)) \<noteq> [] \<and>
                    rt_reserved_cpu r \<le> 0 \<and> rt_reserved_memory_mb r \<le> 0 \<and> rt_reserved_disk_mb r \<le> 0
            then r\<lparr>rt_reserved_cpu := DEFAULT_WORKSPACE_REQUEST_CPU,
                   rt_reserved_memory_mb := DEFAULT_WORKSPACE_REQUEST_MEMORY_MB,
                   rt_reserved_disk_mb := DEFAULT_WORKSPACE_REQUEST_DISK_MB, rt_updated_at := now E\<rparr>
            else r) d)"

definition runtime_snapshot :: "db \<Rightarrow> int \<Rightarrow> string option \<times> string option \<times> string option \<times> health option" where
  "runtime_snapshot d wid =
     (case runtime_row d wid of None \<Rightarrow> (None, None, None, None)
      | Some r \<Rightarrow> (rt_container_id r, rt_internal_endpoint r, rt_gateway_route_target r, Some (rt_health r)))"

section \<open>Failing\<close>

definition fail_reconcile :: "env \<Rightarrow> int \<Rightarrow> int \<Rightarrow> string \<Rightarrow> db \<Rightarrow> db" where
  "fail_reconcile E wid jid message d =
     (let (stage, retryable) = classify_reconcile_failure message;
          (scheduled, d1) = (if retryable
            then try_schedule_workspace_job_retry E jid message stage (Some (failure_stage_str stage)) d else (False, d))
      in if scheduled then touch_workspace E wid d1
         else
           let d2 = record_audit E ''reconcile.failed'' ''workspace'' AO_FAILURE None ACTOR_INTERNAL_SERVICE
                      (Some (str_int wid)) (Some wid) (Some jid) None (Some (take 4096 message))
                      [(''failure_stage'', JStr (failure_stage_str stage)),
                       (''workspace_status'', jopt JStr (ws_status_text d1 wid))] (job_cid d1 jid) d1
           in case get_ws d2 wid of None \<Rightarrow> d2
              | Some w \<Rightarrow>
                  if ws_status w \<in> {WS_STOPPED, WS_ERROR, WS_DELETED}
                  then touch_workspace E wid (mark_job_failed E jid message (Some stage) (Some (failure_stage_str stage)) d2)
                  else finalize_job_failed_workspace_error E wid jid message (Some stage) d2)"

section \<open>The four settled states\<close>

text \<open>The removal of an orphan route, shared by the deleted and the error case: list, look, deregister.\<close>

definition remove_orphan_route :: "env \<Rightarrow> outside \<Rightarrow> int \<Rightarrow> int \<Rightarrow> string \<Rightarrow> string \<Rightarrow> db \<Rightarrow> fin" where
  "remove_orphan_route E X wid jid noop_msg cleaned_msg d =
     (case strict_list_routes E X of
        Inl e \<Rightarrow> (fail_reconcile E wid jid (''reconcile:gateway_list_failed:'' @ e) d, [])
      | Inr routes \<Rightarrow>
          if route_row_for_workspace routes wid = None
          then (mark_job_succeeded E jid (reconcile_event E wid jid EV_RECONCILE_NOOP noop_msg d), [])
          else case strict_deregister_route E X wid of
            (Some e, calls) \<Rightarrow> (fail_reconcile E wid jid (''reconcile:gateway_deregister_failed:'' @ e) d, calls)
          | (None, calls) \<Rightarrow>
              (mark_job_succeeded E jid (reconcile_event E wid jid EV_RECONCILE_CLEANED_ORPHAN cleaned_msg d), calls))"

definition reconcile_deleted :: "env \<Rightarrow> outside \<Rightarrow> int \<Rightarrow> int \<Rightarrow> db \<Rightarrow> fin" where
  "reconcile_deleted E X wid jid d =
     (if \<not> s_gateway_enabled (cfg E)
      then (mark_job_succeeded E jid (reconcile_event E wid jid EV_RECONCILE_NOOP ''Reconcile noop (gateway disabled)'' d), [])
      else remove_orphan_route E X wid jid ''Reconcile noop (no gateway route for deleted workspace)''
             ''Removed orphan gateway route for deleted workspace'' d)"

definition reconcile_error_cleanup :: "env \<Rightarrow> outside \<Rightarrow> orch \<Rightarrow> nat \<Rightarrow> int \<Rightarrow> int \<Rightarrow> db \<Rightarrow> job_out" where
  "reconcile_error_cleanup E X orc k wid jid d =
     (case o_stop orc k \<lparr>sa_workspace_id = str_int wid, sa_container_id = get_persisted_container_id d wid,
                         sa_requested_by = None, sa_release_ip_lease = True\<rparr> of
        Inl (WorkspaceStopError m) \<Rightarrow> Inr (fail_reconcile E wid jid (''reconcile:error_cleanup_stop_failed:'' @ m) d, [])
      | Inl e \<Rightarrow> Inl (e, d)
      | Inr res \<Rightarrow>
          let d1 = (if st_success res
                then reconcile_event E wid jid EV_RECONCILE_FIXED_RUNTIME
                       ''Reconcile: cleaned orphan workspace engine/topology lease for ERROR workspace''
                       (apply_runtime_stop E wid res d)
                else d)
          in Inr (if \<not> s_gateway_enabled (cfg E)
                  then (mark_job_succeeded E jid (reconcile_event E wid jid EV_RECONCILE_NOOP
                          ''Reconcile noop (gateway disabled; engine cleanup attempted)'' d1), [])
                  else remove_orphan_route E X wid jid ''Reconcile noop (no orphan gateway route after engine cleanup)''
                         ''Removed orphan gateway route while workspace in ERROR'' d1))"

definition job_status_of :: "db \<Rightarrow> int \<Rightarrow> job_status option" where
  "job_status_of d jid = map_option job_status (get_job d jid)"

definition job_error_of :: "db \<Rightarrow> int \<Rightarrow> string" where
  "job_error_of d jid = (case get_job d jid of None \<Rightarrow> [] | Some j \<Rightarrow> str_or_empty (job_error_msg j))"

definition reconcile_lingering_runtime ::
  "env \<Rightarrow> outside \<Rightarrow> orch \<Rightarrow> nat \<Rightarrow> int \<Rightarrow> int \<Rightarrow> string \<Rightarrow> db \<Rightarrow> job_out" where
  "reconcile_lingering_runtime E X orc k wid jid requested_by d =
     (case o_stop orc k \<lparr>sa_workspace_id = str_int wid, sa_container_id = get_persisted_container_id d wid,
                         sa_requested_by = Some requested_by, sa_release_ip_lease = False\<rparr> of
        Inl (WorkspaceStopError m) \<Rightarrow> Inr (fail_reconcile E wid jid (''reconcile:stop_failed:'' @ m) d, [])
      | Inl e \<Rightarrow> Inl (e, d)
      | Inr res \<Rightarrow>
          let (d1, calls) = finalize_stop_result E wid jid res d in
          if job_status_of d1 jid \<noteq> Some JS_SUCCEEDED
          then Inr (reconcile_event E wid jid EV_RECONCILE_FAILED
                 (if job_error_of d1 jid \<noteq> [] then job_error_of d1 jid else ''reconcile:stop_finalize_failed'') d1, calls)
          else
            let d2 = reconcile_event E wid jid EV_RECONCILE_FIXED_RUNTIME ''Stopped lingering runtime while workspace was STOPPED'' d1;
                (d3, more) = best_effort_remove_orphan_gateway_route E X wid jid
                   ''Removed orphan gateway route after stop reconcile (strict cleanup)'' d2
            in Inr (d3, calls @ more))"

definition reconcile_stopped ::
  "env \<Rightarrow> outside \<Rightarrow> orch \<Rightarrow> nat \<Rightarrow> int \<Rightarrow> int \<Rightarrow> string \<Rightarrow> db \<Rightarrow> job_out" where
  "reconcile_stopped E X orc k wid jid requested_by d =
     (case o_health orc (str_int wid) (get_persisted_container_id d wid) of
        Inl (WorkspaceBringUpError m _ _ _ _ _) \<Rightarrow> Inr (fail_reconcile E wid jid (''reconcile:health_check_failed:'' @ m) d, [])
      | Inl e \<Rightarrow> Inl (e, d)
      | Inr health \<Rightarrow>
          if ro_success health then reconcile_lingering_runtime E X orc k wid jid requested_by d
          else if \<not> s_gateway_enabled (cfg E)
          then Inr (mark_job_succeeded E jid (reconcile_event E wid jid EV_RECONCILE_NOOP
                 ''Reconcile noop (already aligned with STOPPED)'' d), [])
          else Inr (remove_orphan_route E X wid jid ''Reconcile noop (already aligned with STOPPED)''
                 ''Removed orphan gateway route while workspace was STOPPED'' d))"

text \<open>The gateway half of reconciling a running workspace; the flag says whether a route was repaired, and a
  failed job ends the reconcile.\<close>

definition reconcile_route ::
  "env \<Rightarrow> outside \<Rightarrow> int \<Rightarrow> int \<Rightarrow> string \<Rightarrow> db \<Rightarrow> (db \<times> gw_call list) + (bool \<times> db \<times> gw_call list)" where
  "reconcile_route E X wid jid upstream d =
     (if \<not> (s_gateway_enabled (cfg E) \<and> upstream \<noteq> []) then Inr (False, d, [])
      else case (strict_list_routes E X, get_ws d wid) of
        (Inl e, _) \<Rightarrow> Inl (fail_reconcile E wid jid (''reconcile:gateway_list_failed:'' @ e) d, [])
      | (Inr routes, None) \<Rightarrow> Inr (False, d, [])
      | (Inr routes, Some w) \<Rightarrow>
          if gateway_route_needs_repair (route_row_for_workspace routes wid) (Some upstream)
               (Some (workspace_public_host E w)) (strip_or_none (ws_gateway_path_prefix w))
          then (case strict_register_route E X wid upstream d of
                  (Some e, calls) \<Rightarrow> Inl (fail_reconcile E wid jid (''reconcile:gateway_register_failed:'' @ e) d, calls)
                | (None, calls) \<Rightarrow>
                    Inr (True, reconcile_event E wid jid EV_RECONCILE_FIXED_ROUTE ''Re-registered gateway route'' d, calls))
          else Inr (False, d, []))"

definition reconcile_running :: "env \<Rightarrow> outside \<Rightarrow> orch \<Rightarrow> int \<Rightarrow> int \<Rightarrow> int \<Rightarrow> db \<Rightarrow> job_out" where
  "reconcile_running E X orc wid jid cfgv d =
     (case o_health orc (str_int wid) (get_persisted_container_id d wid) of
        Inl (WorkspaceBringUpError m _ _ _ _ _) \<Rightarrow> Inr (fail_reconcile E wid jid (''reconcile:health_check_failed:'' @ m) d, [])
      | Inl e \<Rightarrow> Inl (e, d)
      | Inr health \<Rightarrow>
          if \<not> ro_success health
          then Inr (fail_reconcile E wid jid (issues_or (ro_issues health) ''reconcile:runtime_not_healthy'') d, [])
          else case remote_gateway_route_target_for_node d (ro_node_id health)
                 (case get_ws d wid of None \<Rightarrow> None | Some w \<Rightarrow> ws_execution_node_id w)
                 (ro_gateway_route_target health) (ro_internal_endpoint health) of
            Inl e \<Rightarrow> Inl (e, d)
          | Inr target \<Rightarrow>
              let before = runtime_snapshot d wid;
                  seen = health\<lparr>ro_applied_cpu := None, ro_applied_memory_mib := None, ro_applied_pids := None,
                                ro_applied_security := None\<rparr>;
                  d1 = apply_runtime_bringup_like E wid seen target cfgv d;
                  changed = (runtime_snapshot d1 wid \<noteq> before);
                  endpoint = str_or_empty (first_text target (ro_internal_endpoint health));
                  d2 = upd_ws wid (\<lambda>w. w\<lparr>ws_endpoint_ref := (if endpoint \<noteq> [] then Some endpoint else ws_endpoint_ref w),
                                          ws_updated_at := now E\<rparr>) d1;
                  d3 = (if changed then reconcile_event E wid jid EV_RECONCILE_FIXED_RUNTIME
                          ''Synced WorkspaceRuntime from observed health'' d2 else d2);
                  upstream = (case runtime_row d3 wid of
                      Some r \<Rightarrow> traefik_upstream_for_workspace_gateway (get_ws d3 wid) r
                    | None \<Rightarrow> registration_upstream target (ro_internal_endpoint health))
              in case reconcile_route E X wid jid upstream d3 of
                   Inl failed \<Rightarrow> Inr failed
                 | Inr (fixed, d4, calls) \<Rightarrow>
                     let d5 = (if \<not> changed \<and> \<not> fixed then reconcile_event E wid jid EV_RECONCILE_NOOP
                                 ''Reconcile noop (runtime and gateway already aligned)'' d4 else d4)
                     in Inr (mark_job_succeeded E jid d5, calls))"

section \<open>The job\<close>

definition begin_reconcile :: "env \<Rightarrow> orch \<Rightarrow> int \<Rightarrow> int \<Rightarrow> db \<Rightarrow> nat \<times> db" where
  "begin_reconcile E orc wid jid d =
     (let ((_, k), d1) = process_durable_cleanup_tasks_for_workspace E orc wid d;
          d2 = log_event E wid EV_RECONCILE_STARTED (ws_status_text d1 wid) (Some ''Reconcile started'')
                 [(''job_id'', JInt jid), (''job_type'', JStr (job_type_str (job_type_of d1 jid)))] d1;
          d3 = record_audit E ''reconcile.started'' ''workspace'' AO_SUCCESS None ACTOR_INTERNAL_SERVICE
                 (Some (str_int wid)) (Some wid) (Some jid) None None
                 [(''workspace_status'', jopt JStr (ws_status_text d2 wid))] (job_cid d2 jid) d2
      in (k, repair_runtime_capacity_ledger E wid d3))"

definition execute_reconcile_runtime_job :: "env \<Rightarrow> outside \<Rightarrow> orch \<Rightarrow> int \<Rightarrow> int \<Rightarrow> db \<Rightarrow> job_out" where
  "execute_reconcile_runtime_job E X orc wid jid d =
     (if \<not> x_lock X wid then Inr (fail_reconcile E wid jid ''reconcile:advisory_lock_contended'' d, [])
      else
        let (k, d1) = begin_reconcile E orc wid jid d in
        case (get_ws d1 wid, get_job d1 jid) of
          (Some w, Some j) \<Rightarrow>
            (case ws_status w of
               WS_DELETED \<Rightarrow> Inr (reconcile_deleted E X wid jid d1)
             | WS_ERROR \<Rightarrow> reconcile_error_cleanup E X orc k wid jid d1
             | WS_STOPPED \<Rightarrow> reconcile_stopped E X orc k wid jid (str_int (job_requested_by j)) d1
             | WS_RUNNING \<Rightarrow> reconcile_running E X orc wid jid (job_config_version j) d1
             | st \<Rightarrow> Inr (fail_reconcile E wid jid (''reconcile:workspace_busy (status='' @ ws_status_str st @ '')'') d1, []))
        | _ \<Rightarrow> Inr (d1, []))"

end
