(* ===== verification/Snapshots.thy ===== *)
theory Snapshots
  imports Worker_Ops
begin

text \<open>
  Workspace snapshots: the request handlers of \<^verbatim>\<open>workspace_service/services/snapshot_service.py\<close> and the two
  job bodies of the worker that materialise and restore an archive. The storage provider is part of
  \<open>outside\<close>; deleting an archive may raise, which \<open>x_delete_archive\<close> reports.
\<close>

section \<open>Requests\<close>

definition snapshot_create_allowed :: "ws_status \<Rightarrow> bool" where
  "snapshot_create_allowed s = (s \<in> {WS_RUNNING, WS_STOPPED})"

text \<open>\<^verbatim>\<open>int(v or 1)\<close> of the maximal version\<close>

definition snapshot_config_version :: "db \<Rightarrow> int \<Rightarrow> int" where
  "snapshot_config_version d wid =
     (case latest_config_version d wid of None \<Rightarrow> 1 | Some v \<Rightarrow> if v = 0 then 1 else v)"

definition pending_snapshot_jobs :: "db \<Rightarrow> int \<Rightarrow> bool" where
  "pending_snapshot_jobs d wid =
     list_ex (\<lambda>j. job_workspace_id j = wid \<and> job_status j \<in> {JS_QUEUED, JS_RUNNING} \<and>
                  job_type j \<in> {JT_SNAPSHOT_CREATE, JT_SNAPSHOT_RESTORE}) (jobs d)"

definition get_snapshot_for_owner :: "db \<Rightarrow> int \<Rightarrow> int \<Rightarrow> error + snapshot" where
  "get_snapshot_for_owner d sid owner =
     (case get_snap d sid of
        None \<Rightarrow> Inl (SnapshotNotFoundError ''Snapshot not found'')
      | Some s \<Rightarrow> (case get_ws d (snap_workspace_id s) of
          None \<Rightarrow> Inl (SnapshotNotFoundError ''Snapshot not found'')
        | Some w \<Rightarrow> if ws_owner_user_id w \<noteq> owner then Inl (SnapshotNotFoundError ''Snapshot not found'') else Inr s))"

definition snapshot_correlation_id :: "env \<Rightarrow> string option \<Rightarrow> string" where
  "snapshot_correlation_id E co =
     (let s = py_strip (if str_or_empty co \<noteq> [] then str_or_empty co else gen_cid E) in if s \<noteq> [] then s else gen_cid E)"

record snapshot_result =
  sr_workspace_id :: int
  sr_snapshot_id :: int
  sr_job_id :: int

definition snapshot_audit ::
  "env \<Rightarrow> string \<Rightarrow> audit_outcome \<Rightarrow> int option \<Rightarrow> actor_type \<Rightarrow> int \<Rightarrow> int \<Rightarrow> int option \<Rightarrow> string option \<Rightarrow> jobj \<Rightarrow>
   string option \<Rightarrow> db \<Rightarrow> db" where
  "snapshot_audit E action oc user ak sid wid jid reason meta cid d =
     record_audit E action ''workspace_snapshot'' oc user ak (Some (str_int sid)) (Some wid) jid None reason meta cid d"

definition queue_snapshot_job ::
  "env \<Rightarrow> workspace \<Rightarrow> job_type \<Rightarrow> int \<Rightarrow> int \<Rightarrow> string \<Rightarrow> string \<Rightarrow> string \<Rightarrow> jobj \<Rightarrow> db \<Rightarrow> snapshot_result \<times> db" where
  "queue_snapshot_job E w jt owner sid cid msg action meta d =
     (let wid = ws_id w;
          cfgv = snapshot_config_version d wid;
          (jid, d1) = add_job (new_job E wid jt owner cfgv (Some sid) cid) d;
          d2 = log_event E wid EV_INTENT_QUEUED (Some (ws_status_str (ws_status w))) (Some msg)
                 [(''job_id'', JInt jid), (''job_type'', JStr (job_type_str jt)), (''workspace_snapshot_id'', JInt sid),
                  (''requested_config_version'', JInt cfgv)] d1;
          d3 = snapshot_audit E action AO_SUCCESS (Some owner) ACTOR_USER sid wid (Some jid) None meta (Some cid) d2
      in (\<lparr>sr_workspace_id = wid, sr_snapshot_id = sid, sr_job_id = jid\<rparr>, d3))"

definition create_snapshot ::
  "outside \<Rightarrow> env \<Rightarrow> int \<Rightarrow> int \<Rightarrow> string \<Rightarrow> string option \<Rightarrow> jobj \<Rightarrow> string option \<Rightarrow> db \<Rightarrow> snapshot_result result" where
  "create_snapshot X E wid owner name description metadata co d =
     (if \<not> assert_workspace_owner d wid owner then Inl (WorkspaceNotFoundError ''Workspace not found'', d)
      else case get_ws d wid of
        None \<Rightarrow> Inl (WorkspaceNotFoundError ''Workspace not found'', d)
      | Some w \<Rightarrow>
          if \<not> snapshot_create_allowed (ws_status w)
          then Inl (WorkspaceInvalidStateError (''Snapshots can only be created for RUNNING or STOPPED workspaces (current='' @
                 ws_status_str (ws_status w) @ '')''), d)
          else if pending_snapshot_jobs d wid
          then Inl (SnapshotConflictError ''A snapshot or restore job is already in progress for this workspace'', d)
          else
            andthen (check_snapshot_quota E wid owner co d) (\<lambda>_ d.
            andthen (evaluate_snapshot_creation E owner wid co d) (\<lambda>_ d.
              let cid = snapshot_correlation_id E co;
                  sid = seqs d T_SNAPSHOT;
                  row = \<lparr>snap_id = 0, snap_workspace_id = wid, snap_name = take 255 (py_strip name),
                         snap_description = none_if_empty (take 8192 (py_strip (str_or_empty description))),
                         snap_storage_uri = x_storage_uri X wid sid, snap_status = SN_CREATING, snap_size_bytes = None,
                         snap_created_by = owner, snap_created_at = now E, snap_metadata = Some metadata\<rparr>;
                  d1 = snd (add_snap row d)
              in Inr (queue_snapshot_job E w JT_SNAPSHOT_CREATE owner sid cid ''Snapshot create job queued''
                        ''workspace.snapshot.create.requested'' [(''snapshot_name'', JStr (take 255 (py_strip name)))] d1))))"

text \<open>\<open>None\<close> is \<^verbatim>\<open>WorkspaceNotFoundError\<close>.\<close>

definition list_snapshots :: "db \<Rightarrow> int \<Rightarrow> int \<Rightarrow> snapshot list option" where
  "list_snapshots d wid owner =
     (if \<not> assert_workspace_owner d wid owner then None
      else Some (sort_key (\<lambda>s. - snap_created_at s) (filter (\<lambda>s. snap_workspace_id s = wid) (snapshots d))))"

definition resolve_owned_snapshot_archive_for_download ::
  "outside \<Rightarrow> int \<Rightarrow> int \<Rightarrow> int option \<Rightarrow> db \<Rightarrow> error + (int \<times> int)" where
  "resolve_owned_snapshot_archive_for_download X wid owner sid_opt d =
     (case list_snapshots d wid owner of
        None \<Rightarrow> Inl (WorkspaceNotFoundError ''Workspace not found'')
      | Some rows \<Rightarrow>
          let found = (case sid_opt of
                Some sid \<Rightarrow> (case get_snapshot_for_owner d sid owner of Inl e \<Rightarrow> Inl e
                   | Inr s \<Rightarrow> if snap_workspace_id s \<noteq> wid then Inl (SnapshotNotFoundError ''Snapshot not found'') else Inr s)
              | None \<Rightarrow> (case find (\<lambda>s. snap_status s = SN_AVAILABLE \<and> x_has_archive X wid (snap_id s)) rows of
                    None \<Rightarrow> Inl (SnapshotNotFoundError ''No snapshot with a completed archive is available yet.'')
                  | Some s \<Rightarrow> Inr s))
          in case found of Inl e \<Rightarrow> Inl e
             | Inr s \<Rightarrow>
                 if snap_status s \<noteq> SN_AVAILABLE
                 then Inl (WorkspaceInvalidStateError (''Snapshot must be AVAILABLE (current='' @ snap_status_str (snap_status s) @ '')''))
                 else if \<not> x_has_archive X (snap_workspace_id s) (snap_id s)
                 then Inl (WorkspaceInvalidStateError ''Snapshot archive is missing or empty on storage'')
                 else Inr (snap_workspace_id s, snap_id s))"

definition delete_snapshot :: "outside \<Rightarrow> env \<Rightarrow> int \<Rightarrow> int \<Rightarrow> db \<Rightarrow> unit result" where
  "delete_snapshot X E sid owner d =
     (case get_snapshot_for_owner d sid owner of
        Inl e \<Rightarrow> Inl (e, d)
      | Inr s \<Rightarrow>
          if list_ex (\<lambda>j. job_snapshot_id j = Some sid \<and> job_status j \<in> {JS_QUEUED, JS_RUNNING}) (jobs d)
          then Inl (SnapshotConflictError ''Cannot delete snapshot while a job references it'', d)
          else case x_delete_archive X (snap_workspace_id s) sid of
            Some m \<Rightarrow> Inl (ValueError m, d)
          | None \<Rightarrow>
              let wid = snap_workspace_id s;
                  d1 = log_event E wid EV_SNAPSHOT_DELETED (map_option (ws_status_str \<circ> ws_status) (get_ws d wid))
                         (Some ''Workspace snapshot deleted'') [(''workspace_snapshot_id'', JInt sid)] d;
                  d2 = snapshot_audit E ''workspace.snapshot.deleted'' AO_SUCCESS (Some owner) ACTOR_USER sid wid None None [] None d1
              in Inr ((), del_snap sid d2))"

definition restore_snapshot ::
  "outside \<Rightarrow> env \<Rightarrow> int \<Rightarrow> int \<Rightarrow> string option \<Rightarrow> db \<Rightarrow> snapshot_result result" where
  "restore_snapshot X E sid owner co d =
     (case get_snapshot_for_owner d sid owner of
        Inl e \<Rightarrow> Inl (e, d)
      | Inr s \<Rightarrow> (case get_ws d (snap_workspace_id s) of
          None \<Rightarrow> Inl (SnapshotNotFoundError ''Snapshot not found'', d)
        | Some w \<Rightarrow>
            if snap_status s \<noteq> SN_AVAILABLE
            then Inl (WorkspaceInvalidStateError (''Snapshot must be AVAILABLE (current='' @ snap_status_str (snap_status s) @ '')''), d)
            else if ws_status w \<noteq> WS_STOPPED
            then Inl (WorkspaceInvalidStateError ''Workspace must be STOPPED before restore'', d)
            else if pending_snapshot_jobs d (ws_id w)
            then Inl (SnapshotConflictError ''A snapshot or restore job is already in progress for this workspace'', d)
            else if \<not> x_has_archive X (ws_id w) sid
            then Inl (WorkspaceInvalidStateError ''Snapshot archive is missing or empty on storage; cannot restore (check storage root / drift)'', d)
            else Inr (queue_snapshot_job E w JT_SNAPSHOT_RESTORE owner sid (snapshot_correlation_id E co)
                        ''Snapshot restore job queued'' ''workspace.snapshot.restore.requested'' []
                        (put_snap (s\<lparr>snap_status := SN_RESTORING\<rparr>) d))))"

section \<open>Job bodies\<close>

definition is_remote_ec2_ssm_snapshot_node :: "node option \<Rightarrow> bool" where
  "is_remote_ec2_ssm_snapshot_node n =
     (case n of None \<Rightarrow> False | Some nd \<Rightarrow> node_provider_type nd = PT_EC2 \<or> node_execution_mode nd = EM_SSM_DOCKER)"

text \<open>The container to snapshot: only that of a running workspace whose runtime row says \<open>running\<close>.\<close>

definition snapshot_container :: "workspace \<Rightarrow> runtime option \<Rightarrow> string option" where
  "snapshot_container w rt =
     (case rt of None \<Rightarrow> None
      | Some r \<Rightarrow> if ws_status w = WS_RUNNING \<and> py_lower (py_strip (str_or_empty (rt_container_state r))) = ''running''
                 then strip_or_none (rt_container_id r) else None)"

definition set_snapshot_status :: "int \<Rightarrow> snap_status \<Rightarrow> db \<Rightarrow> db" where
  "set_snapshot_status sid st d = upd_snap sid (\<lambda>s. s\<lparr>snap_status := st\<rparr>) d"

definition join_issues :: "string list option \<Rightarrow> string \<Rightarrow> string" where
  "join_issues issues dflt = join_str ''; '' (if issues_list issues = [] then [dflt] else issues_list issues)"

text \<open>What both bodies check first. The result is the snapshot row, or the database with the failed job.\<close>

definition load_job_snapshot :: "env \<Rightarrow> int \<Rightarrow> int \<Rightarrow> int option \<Rightarrow> string \<Rightarrow> bool \<Rightarrow> db \<Rightarrow> db + snapshot" where
  "load_job_snapshot E wid jid sid_opt what mark d =
     (case sid_opt of
        None \<Rightarrow> Inl (touch_workspace E wid (mark_job_failed E jid (what @ '' job missing workspace_snapshot_id'')
                  (Some FS_UNKNOWN) (Some ''SNAPSHOT_JOB_INVALID'') d))
      | Some sid \<Rightarrow> (case get_snap d sid of
          None \<Rightarrow> Inl (touch_workspace E wid (mark_job_failed E jid ''Snapshot row missing or workspace mismatch''
                    (Some FS_UNKNOWN) (Some ''SNAPSHOT_ROW_INVALID'') d))
        | Some s \<Rightarrow>
            if snap_workspace_id s \<noteq> wid
            then Inl (touch_workspace E wid (
                   (if mark then set_snapshot_status sid SN_FAILED else id)
                     (mark_job_failed E jid ''Snapshot row missing or workspace mismatch''
                       (Some FS_UNKNOWN) (Some ''SNAPSHOT_ROW_INVALID'') d)))
            else Inr s))"

definition snapshot_created :: "env \<Rightarrow> outside \<Rightarrow> int \<Rightarrow> int \<Rightarrow> int \<Rightarrow> snapshot_op_result \<Rightarrow> db \<Rightarrow> db" where
  "snapshot_created E X wid jid sid res d =
     (let size = (case so_size_bytes res of None \<Rightarrow> 0 | Some n \<Rightarrow> n);
          uri = x_storage_uri X wid sid;
          d1 = upd_snap sid (\<lambda>s. s\<lparr>snap_storage_uri := uri, snap_size_bytes := Some size, snap_status := SN_AVAILABLE\<rparr>) d;
          d2 = touch_workspace E wid (mark_job_succeeded E jid d1);
          d3 = log_event E wid EV_SNAPSHOT_CREATED (map_option (ws_status_str \<circ> ws_status) (get_ws d2 wid))
                 (Some ''Workspace snapshot materialized'')
                 [(''job_id'', JInt jid), (''workspace_snapshot_id'', JInt sid), (''size_bytes'', JInt size), (''storage_uri'', JStr uri)] d2;
          d4 = snapshot_audit E ''workspace.snapshot.created'' AO_SUCCESS (job_actor d3 jid) ACTOR_SYSTEM sid wid (Some jid) None
                 [(''size_bytes'', JInt size)] (job_cid d3 jid) d3
      in record_usage E (Some wid) (ws_owner_of d4 wid) ''snapshot.created'' size None (Some jid) [] (job_cid d4 jid) d4)"

definition snapshot_failed_event :: "env \<Rightarrow> int \<Rightarrow> int \<Rightarrow> int \<Rightarrow> string \<Rightarrow> db \<Rightarrow> db" where
  "snapshot_failed_event E wid jid sid msg d =
     log_event E wid EV_SNAPSHOT_FAILED (map_option (ws_status_str \<circ> ws_status) (get_ws d wid)) (Some msg)
       [(''job_id'', JInt jid), (''workspace_snapshot_id'', JInt sid)] d"

definition execute_snapshot_create_job :: "env \<Rightarrow> outside \<Rightarrow> orch \<Rightarrow> int \<Rightarrow> int \<Rightarrow> db \<Rightarrow> orch_exn + db" where
  "execute_snapshot_create_job E X orc wid jid d =
     (case (get_ws d wid, get_job d jid) of
        (Some w, Some j) \<Rightarrow>
          (case load_job_snapshot E wid jid (job_snapshot_id j) ''SNAPSHOT_CREATE'' True d of
             Inl d' \<Rightarrow> Inr d'
           | Inr s \<Rightarrow>
               let sid = snap_id s;
                   cid = snapshot_container w (runtime_row d wid);
                   node = (case ws_execution_node_id w of None \<Rightarrow> None | Some i \<Rightarrow> get_node d i);
                   remote = (cid \<noteq> None \<and> x_is_s3 X \<and> is_remote_ec2_ssm_snapshot_node node);
                   out = (if remote then Inr (x_remote_export X (the node) wid sid (str_or_empty cid))
                          else o_export orc (str_int wid) (ws_project_storage_key w) (x_archive_path X wid sid) cid)
               in case out of
                    Inl e \<Rightarrow> Inl e
                  | Inr res \<Rightarrow>
                      if so_success res then
                        (case (if x_is_s3 X \<and> \<not> remote then x_upload X wid sid else None) of
                           Some m \<Rightarrow> Inr (touch_workspace E wid (mark_job_failed E jid (''snapshot:create:upload_failed:'' @ m)
                                       (Some FS_STORAGE) (Some ''SNAPSHOT_CREATE_UPLOAD_FAILED'') (set_snapshot_status sid SN_FAILED d)))
                         | None \<Rightarrow> Inr (snapshot_created E X wid jid sid res d))
                      else
                        let msg = join_issues (so_issues res) ''snapshot:create:failed'';
                            d1 = touch_workspace E wid (mark_job_failed E jid msg (Some FS_STORAGE) (Some ''SNAPSHOT_CREATE_FAILED'')
                                   (set_snapshot_status sid SN_FAILED d));
                            d2 = snapshot_failed_event E wid jid sid msg d1
                        in Inr (snapshot_audit E ''workspace.snapshot.create.failed'' AO_FAILURE (job_actor d2 jid) ACTOR_SYSTEM
                                  sid wid (Some jid) (Some msg) [] (job_cid d2 jid) d2))
      | _ \<Rightarrow> Inr d)"

definition snapshot_restored :: "env \<Rightarrow> int \<Rightarrow> int \<Rightarrow> int \<Rightarrow> snapshot_op_result \<Rightarrow> db \<Rightarrow> db" where
  "snapshot_restored E wid jid sid res d =
     (let d1 = touch_workspace E wid (mark_job_succeeded E jid (set_snapshot_status sid SN_AVAILABLE d));
          d2 = log_event E wid EV_SNAPSHOT_RESTORED (map_option (ws_status_str \<circ> ws_status) (get_ws d1 wid))
                 (Some ''Workspace files restored from snapshot'')
                 [(''job_id'', JInt jid), (''workspace_snapshot_id'', JInt sid), (''size_bytes'', jopt JInt (so_size_bytes res))] d1;
          d3 = snapshot_audit E ''workspace.snapshot.restored'' AO_SUCCESS (job_actor d2 jid) ACTOR_SYSTEM sid wid (Some jid) None []
                 (job_cid d2 jid) d2
      in record_usage E (Some wid) (ws_owner_of d3 wid) ''snapshot.restored'' 1 None (Some jid) [] (job_cid d3 jid) d3)"

text \<open>A restore that fails leaves the archive available again.\<close>

definition restore_failed :: "env \<Rightarrow> int \<Rightarrow> int \<Rightarrow> int \<Rightarrow> string \<Rightarrow> string \<Rightarrow> db \<Rightarrow> db" where
  "restore_failed E wid jid sid msg code d =
     touch_workspace E wid (mark_job_failed E jid msg (Some FS_STORAGE) (Some code) (set_snapshot_status sid SN_AVAILABLE d))"

definition execute_snapshot_restore_job :: "env \<Rightarrow> outside \<Rightarrow> orch \<Rightarrow> int \<Rightarrow> int \<Rightarrow> db \<Rightarrow> orch_exn + db" where
  "execute_snapshot_restore_job E X orc wid jid d =
     (case (get_ws d wid, get_job d jid) of
        (Some w, Some j) \<Rightarrow>
          (case load_job_snapshot E wid jid (job_snapshot_id j) ''SNAPSHOT_RESTORE'' False d of
             Inl d' \<Rightarrow> Inr d'
           | Inr s \<Rightarrow>
               let sid = snap_id s; path = x_archive_path X wid sid in
               case (if x_is_s3 X then x_download X wid sid else None) of
                 Some m \<Rightarrow> Inr (restore_failed E wid jid sid (''snapshot:restore:download_failed:'' @ m) ''SNAPSHOT_RESTORE_DOWNLOAD_FAILED'' d)
               | None \<Rightarrow>
                   if \<not> x_has_archive X wid sid then
                     let msg = ''snapshot:restore:archive_missing_or_empty:'' @ path
                     in Inr (snapshot_failed_event E wid jid sid msg
                          (restore_failed E wid jid sid msg ''SNAPSHOT_RESTORE_MISSING_ARCHIVE'' d))
                   else case o_import orc (str_int wid) (ws_project_storage_key w) path of
                     Inl e \<Rightarrow> Inl e
                   | Inr res \<Rightarrow>
                       if so_success res then Inr (snapshot_restored E wid jid sid res d)
                       else let msg = join_issues (so_issues res) ''snapshot:restore:failed''
                            in Inr (snapshot_failed_event E wid jid sid msg
                                 (restore_failed E wid jid sid msg ''SNAPSHOT_RESTORE_FAILED'' d)))
      | _ \<Rightarrow> Inr d)"

end
