(* ===== verification/Worker.thy ===== *)
theory Worker
  imports Reconcile Snapshots
begin

text \<open>
  The job worker (\<^verbatim>\<open>workers/workspace_job_worker/worker.py\<close>): claiming, dispatch, exception handling,
  outcome events, reclaiming of stuck jobs and the worker tick.

  The functions here describe a job as its session sees it, from the claim to the outcome, undisturbed by others.
  An exception that the worker does not translate into a job outcome is returned on the left without a database: the
  session rolls back what it had not committed. The orchestrator's topology adapter works on the same session
  and commits or rolls back in the middle of a job; which states other sessions see then, and what they may commit
  before the outcome is written, is the matter of theories \<open>Flight\<close> and \<open>System\<close>, where a job is cut at these points. What the
  world answers during one job is the record \<open>tick\<close>: the clock and settings, the parties outside, the
  construction of an orchestrator for a node and topology, and the jobs locked by other workers, which
  \<^verbatim>\<open>SKIP LOCKED\<close> passes over.
\<close>

record tick =
  tk_env :: env
  tk_out :: outside
  tk_orch :: "string \<Rightarrow> int \<Rightarrow> string + orch"
  tk_locked :: "int list"

section \<open>Placement and binding failures\<close>

definition CAPACITY_WAIT_MESSAGE :: string where
  "CAPACITY_WAIT_MESSAGE = ''Waiting for execution capacity''"

definition CAPACITY_TIMEOUT_MESSAGE :: string where
  "CAPACITY_TIMEOUT_MESSAGE = ''Timed out waiting for execution capacity. Please try again later.''"

definition NODE_READINESS_WAIT_MESSAGE :: string where
  "NODE_READINESS_WAIT_MESSAGE = ''Waiting for node readiness''"

definition NODE_READINESS_TIMEOUT_MESSAGE :: string where
  "NODE_READINESS_TIMEOUT_MESSAGE = ''Timed out waiting for node readiness. Please try again later.''"

text \<open>The workspace goes back to \<^verbatim>\<open>PENDING\<close> while its job waits for capacity.\<close>

definition park_workspace :: "env \<Rightarrow> int \<Rightarrow> string \<Rightarrow> string \<Rightarrow> db \<Rightarrow> db" where
  "park_workspace E wid message reason d =
     upd_ws wid (\<lambda>w. w\<lparr>ws_status := WS_PENDING, ws_last_error_message := Some message, ws_last_error_code := None,
       ws_status_reason := Some reason, ws_updated_at := now E\<rparr>) d"

text \<open>Terminal failure of a job and its workspace: both are marked and the reservation is released.\<close>

definition fail_job_and_workspace ::
  "env \<Rightarrow> int \<Rightarrow> int \<Rightarrow> string \<Rightarrow> failure_stage \<Rightarrow> string \<Rightarrow> string \<Rightarrow> db \<Rightarrow> db" where
  "fail_job_and_workspace E wid jid message stage job_code ws_code d =
     clear_runtime_capacity_reservation E wid
       (fail_workspace E wid ws_code message (mark_job_failed E jid message (Some stage) (Some job_code) d))"

definition fail_job_from_placement :: "env \<Rightarrow> int \<Rightarrow> int \<Rightarrow> error \<Rightarrow> string \<Rightarrow> db \<Rightarrow> db" where
  "fail_job_from_placement E wid jid e reason d =
     (let stage = fst (classify_placement_error e) in
      case e of
        NoSchedulableNodeError m \<Rightarrow>
          (let (scheduled, d1) = try_schedule_capacity_retry E jid CAPACITY_WAIT_MESSAGE d in
           if scheduled then park_workspace E wid CAPACITY_WAIT_MESSAGE ''Preparing capacity...'' d1
           else
             let timed_out = (case get_job d1 jid of None \<Rightarrow> False | Some j \<Rightarrow> capacity_wait_timed_out E j);
                 message = (if timed_out then CAPACITY_TIMEOUT_MESSAGE else m)
             in fail_job_and_workspace E wid jid message stage reason ''PLACEMENT_FAILED'' d1)
      | _ \<Rightarrow>
          (let (scheduled, d1) = try_schedule_workspace_job_retry E jid (error_text e) stage (Some reason) d in
           if scheduled then touch_workspace E wid d1
           else fail_job_and_workspace E wid jid (error_text e) stage reason ''PLACEMENT_FAILED'' d1))"

text \<open>\<^verbatim>\<open>re.search(r"node ['\"]([^'\"]+)['\"]")\<close>\<close>

definition is_quote :: "char \<Rightarrow> bool" where
  "is_quote c = (c = CHR 0x27 \<or> c = CHR 0x22)"

definition quoted_here :: "string \<Rightarrow> string option" where
  "quoted_here s =
     (if starts_with ''node '' s \<and> drop 5 s \<noteq> [] \<and> is_quote (hd (drop 5 s)) then
        (let body = takeWhile (\<lambda>c. \<not> is_quote c) (drop 6 s) in
         if body \<noteq> [] \<and> drop (6 + length body) s \<noteq> [] then Some body else None)
      else None)"

fun node_key_from_error_message :: "string \<Rightarrow> string option" where
  "node_key_from_error_message [] = None"
| "node_key_from_error_message (c # s) =
     (case quoted_here (c # s) of Some k \<Rightarrow> Some k | None \<Rightarrow> node_key_from_error_message s)"

definition readiness_markers :: "string list" where
  "readiness_markers =
     [''ssm connectivity check failed'', ''invocationdoesnotexist'', ''undeliverable'',
      ''ssm runshellscript failed'', ''docker: command not found'', ''docker not found'',
      ''failed to pull image'', ''docker pull'', ''readygatepending'', ''node.ready_gate'']"

definition is_node_readiness_error :: "string \<Rightarrow> bool" where
  "is_node_readiness_error message =
     (let m = py_lower (py_strip message) in m \<noteq> [] \<and> list_ex (\<lambda>k. contains_str k m) readiness_markers)"

definition node_readiness_retry_allowed :: "job_type \<Rightarrow> bool" where
  "node_readiness_retry_allowed t = (t \<in> {JT_CREATE, JT_START, JT_RESTART, JT_UPDATE})"

definition mark_node_not_ready_for_retry :: "env \<Rightarrow> string option \<Rightarrow> string \<Rightarrow> db \<Rightarrow> db" where
  "mark_node_not_ready_for_retry E key reason d =
     (let k = py_strip (str_or_empty key) in
      if k = [] then d
      else case node_by_key d k of
        None \<Rightarrow> d
      | Some n \<Rightarrow>
          if node_provider_type n \<noteq> PT_EC2 then d
          else upd_node (node_pk n) (\<lambda>n. n\<lparr>node_status := NS_PROVISIONING, node_schedulable := False,
                 node_last_error_code := Some ''ReadyGatePending'',
                 node_last_error_message := Some (truncate_msg 4096 reason), node_updated_at := now E\<rparr>) d)"

text \<open>Wait for a node that is still bootstrapping, or give up after the capacity timeout.\<close>

definition await_node_readiness :: "env \<Rightarrow> int \<Rightarrow> int \<Rightarrow> string option \<Rightarrow> string \<Rightarrow> string \<Rightarrow> db \<Rightarrow> db" where
  "await_node_readiness E wid jid key reason ws_code d =
     (let d0 = mark_node_not_ready_for_retry E key reason d;
          (scheduled, d1) = try_schedule_node_readiness_retry E jid NODE_READINESS_WAIT_MESSAGE d0
      in if scheduled then park_workspace E wid NODE_READINESS_WAIT_MESSAGE ''Waiting for available node...'' d1
         else fail_job_and_workspace E wid jid NODE_READINESS_TIMEOUT_MESSAGE FS_CAPACITY ''node_readiness'' ws_code d1)"

definition fail_job_from_orchestrator_binding :: "env \<Rightarrow> int \<Rightarrow> int \<Rightarrow> string \<Rightarrow> db \<Rightarrow> db" where
  "fail_job_from_orchestrator_binding E wid jid message d =
     (if node_readiness_retry_allowed (job_type_of d jid) \<and> is_node_readiness_error message
      then await_node_readiness E wid jid (node_key_from_error_message message) message ''ORCHESTRATOR_BINDING_FAILED'' d
      else
        let stage = fst orchestrator_binding_retryable;
            (scheduled, d1) = try_schedule_workspace_job_retry E jid message stage (Some ''orchestrator_binding'') d
        in if scheduled then touch_workspace E wid d1
           else fail_job_and_workspace E wid jid message stage ''orchestrator_binding'' ''ORCHESTRATOR_BINDING_FAILED'' d1)"

section \<open>Job bodies\<close>

text \<open>
  \<^verbatim>\<open>REPO_IMPORT\<close>. Every failure path reads \<^verbatim>\<open>FailureStage.ORCHESTRATION\<close>, which the enumeration does
  not have, so it raises \<^verbatim>\<open>AttributeError\<close> instead of failing the job. The repository row is outside the
  model.
\<close>

definition missing_failure_stage :: orch_exn where
  "missing_failure_stage = OtherException ''ORCHESTRATION''"

definition execute_repo_import_job :: "env \<Rightarrow> outside \<Rightarrow> int \<Rightarrow> int \<Rightarrow> db \<Rightarrow> orch_exn + db" where
  "execute_repo_import_job E X wid jid d =
     (if \<not> x_pending_repo X wid then Inl missing_failure_stage
      else case runtime_row d wid of
        None \<Rightarrow> Inl missing_failure_stage
      | Some r \<Rightarrow>
          if str_or_empty (rt_container_id r) = [] then Inl missing_failure_stage
          else case x_clone X r of
            Inl _ \<Rightarrow> Inl missing_failure_stage
          | Inr False \<Rightarrow> Inl missing_failure_stage
          | Inr True \<Rightarrow> Inr (mark_job_succeeded E jid d))"

definition json_text :: "outside \<Rightarrow> json \<Rightarrow> string" where
  "json_text X v = (case v of JStr s \<Rightarrow> s | _ \<Rightarrow> x_str_json X v)"

text \<open>The container environment: the configured variables, overridden by the secrets.\<close>

definition runtime_env :: "outside \<Rightarrow> db \<Rightarrow> int \<Rightarrow> jobj \<Rightarrow> (string \<rightharpoonup> string) option" where
  "runtime_env X d wid c =
     (case resolve_workspace_runtime_secret_env (x_decrypt X) d wid of
        None \<Rightarrow> None
      | Some sec \<Rightarrow>
          Some ((case jget c ''env'' of JObj kvs \<Rightarrow> map_of (map (\<lambda>(k, v). (k, json_text X v)) kvs) | _ \<Rightarrow> Map.empty) ++ sec))"

definition get_workspace_features :: "outside \<Rightarrow> jobj \<Rightarrow> string + jobj" where
  "get_workspace_features X c = x_validate_flags X (case jget c ''features'' of JObj f \<Rightarrow> f | _ \<Rightarrow> [])"

definition execute_bringup_job :: "env \<Rightarrow> outside \<Rightarrow> orch \<Rightarrow> workspace \<Rightarrow> job \<Rightarrow> db \<Rightarrow> job_out" where
  "execute_bringup_job E X orc w j d =
     (let wid = ws_id w; jid = job_id j;
          config = (case latest_config d wid of None \<Rightarrow> [] | Some c \<Rightarrow> cfg_json c)
      in case workspace_job_runtime_overrides_from_config E config of
           Inl msg \<Rightarrow> Inr (fail_workspace E wid ''INVALID_RUNTIME_LIMITS'' msg
                        (mark_job_failed E jid msg (Some FS_UNKNOWN) (Some ''INVALID_RUNTIME_LIMITS'') d), [])
         | Inr (cpu, mem, pids) \<Rightarrow>
             (case (runtime_env X d wid config, get_workspace_features X config) of
                (None, _) \<Rightarrow> Inl (OtherException ''token_decryption_failed'', d)
              | (Some _, Inl m) \<Rightarrow> Inl (OtherException m, d)
              | (Some vars, Inr features) \<Rightarrow>
                  (case o_bring_up orc \<lparr>ba_workspace_id = str_int wid, ba_project_storage_key = ws_project_storage_key w,
                          ba_config_version = job_config_version j, ba_cpu = cpu, ba_memory_mib = mem, ba_pids = pids,
                          ba_env = vars, ba_features = features,
                          ba_launch_mode = (if job_type j = JT_CREATE then ''new'' else ''resume'')\<rparr> of
                     Inl e \<Rightarrow> Inl (e, d)
                   | Inr res \<Rightarrow>
                       (case finalize_bringup_result E wid jid (job_config_version j) res d of
                          Inl e \<Rightarrow> Inl (e, d) | Inr out \<Rightarrow> Inr out))))"

definition lift_body :: "db \<Rightarrow> orch_exn + fin \<Rightarrow> job_out" where
  "lift_body d r = (case r of Inl e \<Rightarrow> Inl (e, d) | Inr out \<Rightarrow> Inr out)"

definition lift_db :: "db \<Rightarrow> orch_exn + db \<Rightarrow> job_out" where
  "lift_db d r = (case r of Inl e \<Rightarrow> Inl (e, d) | Inr d' \<Rightarrow> Inr (d', []))"

text \<open>Dispatch on the job type; only \<^verbatim>\<open>REPO_IMPORT\<close> runs without an orchestrator.\<close>

definition execute_job_body :: "env \<Rightarrow> outside \<Rightarrow> orch option \<Rightarrow> workspace \<Rightarrow> job \<Rightarrow> db \<Rightarrow> job_out" where
  "execute_job_body E X orc_opt w j d =
     (let wid = ws_id w; jid = job_id j; by = str_int (job_requested_by j); cfgv = job_config_version j;
          cid = get_persisted_container_id d wid;
          stop = \<lparr>sa_workspace_id = str_int wid, sa_container_id = cid, sa_requested_by = Some by, sa_release_ip_lease = False\<rparr>;
          cycle = \<lparr>ca_workspace_id = str_int wid, ca_project_storage_key = ws_project_storage_key w,
                   ca_container_id = cid, ca_requested_by = by, ca_config_version = cfgv\<rparr>
      in case orc_opt of
           None \<Rightarrow> if job_type j = JT_REPO_IMPORT then lift_db d (execute_repo_import_job E X wid jid d)
                   else Inl (OtherException ''AssertionError'', d)
         | Some orc \<Rightarrow>
             (case job_type j of
                JT_REPO_IMPORT \<Rightarrow> lift_db d (execute_repo_import_job E X wid jid d)
              | JT_CREATE \<Rightarrow> execute_bringup_job E X orc w j d
              | JT_START \<Rightarrow> execute_bringup_job E X orc w j d
              | JT_STOP \<Rightarrow> lift_body d (case o_stop orc 0 stop of Inl e \<Rightarrow> Inl e
                  | Inr res \<Rightarrow> Inr (finalize_stop_result E wid jid res d))
              | JT_DELETE \<Rightarrow> lift_body d (case o_delete orc stop of Inl e \<Rightarrow> Inl e
                  | Inr res \<Rightarrow> Inr (finalize_delete_result E wid jid res d))
              | JT_RESTART \<Rightarrow> lift_body d (case o_restart orc cycle of Inl e \<Rightarrow> Inl e
                  | Inr res \<Rightarrow> finalize_restart_result E wid jid cfgv res d)
              | JT_UPDATE \<Rightarrow> lift_body d (case o_update orc cycle of Inl e \<Rightarrow> Inl e
                  | Inr res \<Rightarrow> finalize_update_result E wid jid res d)
              | JT_RECONCILE_RUNTIME \<Rightarrow> execute_reconcile_runtime_job E X orc wid jid d
              | JT_SNAPSHOT_CREATE \<Rightarrow> lift_db d (execute_snapshot_create_job E X orc wid jid d)
              | JT_SNAPSHOT_RESTORE \<Rightarrow> lift_db d (execute_snapshot_restore_job E X orc wid jid d)
              | JT_OTHER t \<Rightarrow> Inl (UnsupportedWorkspaceJobTypeError (''Unsupported WorkspaceJob.type='' @ py_repr t), d)))"

section \<open>Outcome events\<close>

definition outcome_payload :: "env \<Rightarrow> workspace \<Rightarrow> job \<Rightarrow> jobj" where
  "outcome_payload E w j =
     [(''job_id'', JInt (job_id j)), (''job_type'', JStr (job_type_str (job_type j))),
      (''workspace_status'', JStr (ws_status_str (ws_status w))), (''attempt'', JInt (job_attempt j)),
      (''max_attempts'', JInt (effective_max_attempts (cfg E) j))]"

definition retry_payload :: "env \<Rightarrow> workspace \<Rightarrow> job \<Rightarrow> jobj" where
  "retry_payload E w j = outcome_payload E w j @
     [(''failure_stage'', jopt (JStr \<circ> failure_stage_str) (job_failure_stage j)),
      (''failure_code'', jopt JStr (job_failure_code j)), (''error_msg'', jopt JStr (job_error_msg j)),
      (''next_attempt_after'', jopt (JStr \<circ> str_iso E) (job_next_attempt_after j)), (''retryable'', JBool True)]"

definition retries_exhausted :: "env \<Rightarrow> job \<Rightarrow> bool" where
  "retries_exhausted E j = (job_attempt j \<ge> effective_max_attempts (cfg E) j)"

definition terminal_payload :: "env \<Rightarrow> workspace \<Rightarrow> job \<Rightarrow> jobj" where
  "terminal_payload E w j = outcome_payload E w j @
     [(''error_msg'', jopt JStr (job_error_msg j)), (''failure_stage'', jopt (JStr \<circ> failure_stage_str) (job_failure_stage j)),
      (''failure_code'', jopt JStr (job_failure_code j)), (''terminal'', JBool True),
      (''retry_exhausted'', JBool (retries_exhausted E j)),
      (''last_error_code'', jopt JStr (ws_last_error_code w)), (''last_error_message'', jopt JStr (ws_last_error_message w))]"

text \<open>The event types an outcome produces, in order, with their message; user notifications are not modelled.\<close>

definition outcome_events :: "env \<Rightarrow> job \<Rightarrow> (string \<times> string) list" where
  "outcome_events E j =
     (if job_status j = JS_QUEUED \<and> job_next_attempt_after j \<noteq> None \<and> py_strip (str_or_empty (job_error_msg j)) \<noteq> [] then
        (EV_JOB_RETRY_SCHEDULED, ''Workspace job retry scheduled after transient failure'') #
        (if job_type j = JT_RECONCILE_RUNTIME then [(EV_RECONCILE_RETRY_SCHEDULED, ''Reconcile job retry scheduled'')] else [])
      else if job_status j = JS_SUCCEEDED then [(EV_JOB_SUCCEEDED, ''Workspace job succeeded'')]
      else if job_status j = JS_FAILED then
        (if retries_exhausted E j then [(EV_JOB_RETRY_EXHAUSTED, ''Workspace job retries exhausted'')] else []) @
        [(EV_JOB_FAILED, ''Workspace job failed'')] @
        (if job_type j = JT_RECONCILE_RUNTIME then [(EV_RECONCILE_FAILED_TERMINAL, ''Reconcile job failed (terminal)'')] else [])
      else [])"

definition outcome_event_payload :: "env \<Rightarrow> workspace \<Rightarrow> job \<Rightarrow> jobj" where
  "outcome_event_payload E w j =
     (case job_status j of JS_SUCCEEDED \<Rightarrow> outcome_payload E w j | JS_FAILED \<Rightarrow> terminal_payload E w j
      | _ \<Rightarrow> retry_payload E w j)"

definition emit_job_outcome_event :: "env \<Rightarrow> int \<Rightarrow> int \<Rightarrow> db \<Rightarrow> db" where
  "emit_job_outcome_event E wid jid d =
     (case (get_ws d wid, get_job d jid) of
        (Some w, Some j) \<Rightarrow>
          fold (\<lambda>(ev, msg). log_event E wid ev (Some (ws_status_str (ws_status w))) (Some msg) (outcome_event_payload E w j))
            (outcome_events E j) d
      | _ \<Rightarrow> d)"

section \<open>Running a claimed job\<close>

definition rollback_note :: "orch_exn \<Rightarrow> string" where
  "rollback_note e =
     (case e of WorkspaceBringUpError m _ rb_ok rb_issues _ _ \<Rightarrow>
        (let rb = str_or_empty (format_issues rb_issues)
         in if rb_ok = Some False \<and> rb \<noteq> [] then m @ ''; rollback_failed: '' @ rb else m)
      | _ \<Rightarrow> exn_text e)"

text \<open>What becomes of the snapshot of a snapshot job that failed for good.\<close>

definition settle_failed_snapshot :: "job \<Rightarrow> db \<Rightarrow> db" where
  "settle_failed_snapshot j d =
     (case job_snapshot_id j of
        None \<Rightarrow> d
      | Some sid \<Rightarrow>
          if job_type j = JT_SNAPSHOT_CREATE
          then upd_snap sid (\<lambda>s. if snap_status s = SN_CREATING then s\<lparr>snap_status := SN_FAILED\<rparr> else s) d
          else if job_type j = JT_SNAPSHOT_RESTORE then set_snapshot_status sid SN_AVAILABLE d
          else d)"

text \<open>The handler of the orchestrator's own exceptions; \<open>j\<close> is the job as it was claimed.\<close>

definition handle_orchestrator_exception :: "env \<Rightarrow> orch option \<Rightarrow> int \<Rightarrow> job \<Rightarrow> orch_exn \<Rightarrow> db \<Rightarrow> db" where
  "handle_orchestrator_exception E orc_opt wid j e d =
     (let jid = job_id j; jt = job_type j;
          d1 = (case e of WorkspaceBringUpError _ attempted rb_ok rb_issues cid cstate \<Rightarrow>
                  if attempted then sync_runtime_after_bringup_exception E wid rb_ok rb_issues cid cstate d else d
                | _ \<Rightarrow> d);
          msg = rollback_note e
      in if node_readiness_retry_allowed jt \<and> is_node_readiness_error msg
         then await_node_readiness E wid jid (case orc_opt of None \<Rightarrow> None | Some orc \<Rightarrow> o_node_id orc) msg
                ''ORCHESTRATOR_EXCEPTION'' d1
         else
           let stage = (if snapshot_job_type jt then FS_STORAGE else FS_CONTAINER);
               retry = (orchestrator_exception_retryable jt \<and>
                        (case e of WorkspaceStopError _ \<Rightarrow> False | WorkspaceDeleteError _ \<Rightarrow> False | _ \<Rightarrow> True));
               (scheduled, d2) = (if retry
                  then try_schedule_workspace_job_retry E jid msg stage (Some ''ORCHESTRATOR_EXCEPTION'') d1 else (False, d1))
           in if scheduled then touch_workspace E wid d2
              else if snapshot_job_type jt
              then touch_workspace E wid (settle_failed_snapshot j
                     (mark_job_failed E jid msg (Some stage) (Some ''ORCHESTRATOR_EXCEPTION'') d2))
              else fail_job_and_workspace E wid jid msg stage ''ORCHESTRATOR_EXCEPTION'' ''ORCHESTRATOR_EXCEPTION'' d2)"

definition job_missing_workspace :: "env \<Rightarrow> int \<Rightarrow> db \<Rightarrow> db" where
  "job_missing_workspace E jid d =
     mark_job_failed E jid ''Workspace row not found for job'' (Some FS_UNKNOWN) (Some ''missing_workspace'') d"

text \<open>
  The part of a claimed job from the orchestrator call to the outcome event, with the rows \<open>w\<close> and \<open>j\<close> as the worker
  holds them. \<open>Inl\<close>: the exception leaves the function and the caller rolls back.
\<close>

definition finish_claimed_job :: "env \<Rightarrow> outside \<Rightarrow> orch option \<Rightarrow> workspace \<Rightarrow> job \<Rightarrow> db \<Rightarrow> orch_exn + fin" where
  "finish_claimed_job E X orc_opt w j d =
     (let wid = ws_id w; jid = job_id j in
      case execute_job_body E X orc_opt w j d of
        Inr (d2, calls) \<Rightarrow> Inr (emit_job_outcome_event E wid jid d2, calls)
      | Inl (OtherException m, _) \<Rightarrow> Inl (OtherException m)
      | Inl (UnsupportedWorkspaceJobTypeError m, d2) \<Rightarrow>
          Inr (emit_job_outcome_event E wid jid
            (fail_job_and_workspace E wid jid m FS_UNKNOWN ''WORKSPACE_JOB_FAILED'' ''WORKSPACE_JOB_FAILED'' d2), [])
      | Inl (e, d2) \<Rightarrow>
          Inr (emit_job_outcome_event E wid jid (handle_orchestrator_exception E orc_opt wid j e d2), []))"

definition log_job_running :: "env \<Rightarrow> workspace \<Rightarrow> job \<Rightarrow> db \<Rightarrow> db" where
  "log_job_running E w j d =
     log_event E (ws_id w) EV_JOB_RUNNING (Some (ws_status_str (ws_status w))) (Some ''Workspace job started'')
       [(''job_id'', JInt (job_id j)), (''job_type'', JStr (job_type_str (job_type j))), (''attempt'', JInt (job_attempt j))] d"

definition process_claimed_running_job :: "env \<Rightarrow> outside \<Rightarrow> orch option \<Rightarrow> int \<Rightarrow> db \<Rightarrow> orch_exn + fin" where
  "process_claimed_running_job E X orc_opt jid d =
     (case get_job d jid of
        None \<Rightarrow> Inr (d, [])
      | Some j \<Rightarrow>
          (case get_ws d (job_workspace_id j) of
             None \<Rightarrow> Inr (job_missing_workspace E jid d, [])
           | Some w \<Rightarrow> finish_claimed_job E X orc_opt w j (log_job_running E w j d)))"

section \<open>Claiming\<close>

text \<open>Oldest first among the eligible jobs no other worker holds; a claim starts the job and counts the attempt.\<close>

definition load_next_queued_workspace_job :: "time \<Rightarrow> db \<Rightarrow> job option" where
  "load_next_queued_workspace_job ts d = first_row (sort_key job_created_at (filter (queued_job_eligible ts) (jobs d)))"

definition claimable :: "env \<Rightarrow> int list \<Rightarrow> job \<Rightarrow> bool" where
  "claimable E locked j = (queued_job_eligible (now E) j \<and> job_id j \<notin> set locked)"

definition try_claim_next_queued_workspace_job :: "env \<Rightarrow> int list \<Rightarrow> db \<Rightarrow> (int \<times> db) option" where
  "try_claim_next_queued_workspace_job E locked d =
     (case first_row (sort_key job_created_at (filter (claimable E locked) (jobs d))) of
        None \<Rightarrow> None
      | Some j \<Rightarrow> Some (job_id j, mark_job_running E (job_id j) d))"

definition try_claim_queued_workspace_job_by_id :: "env \<Rightarrow> int list \<Rightarrow> int \<Rightarrow> db \<Rightarrow> db option" where
  "try_claim_queued_workspace_job_by_id E locked jid d =
     (case get_job d jid of
        None \<Rightarrow> None
      | Some j \<Rightarrow> if claimable E locked j then Some (mark_job_running E jid d) else None)"

section \<open>One job\<close>

definition correlation_scope :: "string option \<Rightarrow> env \<Rightarrow> env" where
  "correlation_scope cid E =
     (let c = py_strip (str_or_empty cid) in E\<lparr>ctx_cid := Some (take 64 (if c \<noteq> [] then c else gen_cid E))\<rparr>)"

text \<open>\<^verbatim>\<open>build_orchestrator_for_workspace_job\<close>; a repository import resolves its placement only.\<close>

definition bind_orchestrator ::
  "env \<Rightarrow> (string \<Rightarrow> int \<Rightarrow> string + orch) \<Rightarrow> workspace \<Rightarrow> job \<Rightarrow> db \<Rightarrow> orch option result" where
  "bind_orchestrator E mk w j d =
     andthen (resolve_orchestrator_placement E w j d) (\<lambda>(key, tid) d1.
       if job_type j = JT_REPO_IMPORT then Inr (None, d1)
       else case mk key tid of
         Inl m \<Rightarrow> Inl (AppOrchestratorBindingError m, d1)
       | Inr orc \<Rightarrow> Inr (Some orc, d1))"

definition record_placement_failed_scale_out_signal :: "env \<Rightarrow> int \<Rightarrow> job \<Rightarrow> string \<Rightarrow> db \<Rightarrow> db" where
  "record_placement_failed_scale_out_signal E wid j detail d =
     record_audit E ''placement.no_schedulable_node'' ''workspace'' AO_FAILURE None ACTOR_INTERNAL_SERVICE
       (Some (str_int wid)) (if wid > 0 then Some wid else None) (Some (job_id j)) None
       (Some (take 4096 (if detail \<noteq> [] then detail else ''placement failed: no schedulable execution node'')))
       [(''job_type'', JStr (job_type_str (job_type j))), (''requested_cpu'', JNull), (''requested_memory_mb'', JNull),
        (''requested_disk_mb'', JNull), (''autoscaler_demand_signal'', JBool True)] (job_correlation_id j) d"

text \<open>A failed placement or binding as a job outcome; any other exception propagates.\<close>

definition settle_binding_error :: "env \<Rightarrow> outside \<Rightarrow> int \<Rightarrow> job \<Rightarrow> error \<Rightarrow> db \<Rightarrow> orch_exn + fin" where
  "settle_binding_error E X wid j e d =
     (let jid = job_id j in
      case e of
        AppOrchestratorBindingError m \<Rightarrow>
          Inr (emit_job_outcome_event E wid jid (fail_job_from_orchestrator_binding E wid jid m d), [])
      | NoSchedulableNodeError m \<Rightarrow>
          (let d1 = x_provision X (record_placement_failed_scale_out_signal E wid j m d)
           in Inr (emit_job_outcome_event E wid jid (fail_job_from_placement E wid jid e ''no_schedulable_node'' d1), []))
      | _ \<Rightarrow>
          if placement_error e
          then Inr (emit_job_outcome_event E wid jid (fail_job_from_placement E wid jid e ''placement'' d), [])
          else Inl (OtherException (error_text e)))"

text \<open>
  From a claimed job to its outcome. The tick finishes a \<^verbatim>\<open>DELETE\<close> without runtime row at once
  (\<open>shortcut\<close>); running a job by id does not.
\<close>

definition run_claimed :: "tick \<Rightarrow> bool \<Rightarrow> int \<Rightarrow> db \<Rightarrow> orch_exn + fin" where
  "run_claimed T shortcut jid d =
     (case get_job d jid of
        None \<Rightarrow> Inr (d, [])
      | Some j \<Rightarrow>
          let E = correlation_scope (job_correlation_id j) (tk_env T); X = tk_out T; wid = job_workspace_id j in
          (case get_ws d wid of
             None \<Rightarrow> Inr (job_missing_workspace E jid d, [])
           | Some w \<Rightarrow>
               if shortcut \<and> job_type j = JT_DELETE \<and> runtime_row d wid = None then
                 (let (d1, calls) = finalize_delete_runtime_missing_idempotent E wid jid d
                  in Inr (emit_job_outcome_event E wid jid d1, calls))
               else case bind_orchestrator E (tk_orch T) w j d of
                 Inl (e, d1) \<Rightarrow> settle_binding_error E X wid j e d1
               | Inr (orc_opt, d1) \<Rightarrow>
                   process_claimed_running_job E X orc_opt jid
                     (begin_create_bringup_after_placement E wid (job_type j) d1)))"

definition process_next_queued_job_return_id :: "tick \<Rightarrow> db \<Rightarrow> orch_exn + (int option \<times> fin)" where
  "process_next_queued_job_return_id T d =
     (case try_claim_next_queued_workspace_job (tk_env T) (tk_locked T) d of
        None \<Rightarrow> Inr (None, d, [])
      | Some (jid, d1) \<Rightarrow>
          (case run_claimed T True jid d1 of Inl e \<Rightarrow> Inl e | Inr out \<Rightarrow> Inr (Some jid, out)))"

section \<open>The worker tick\<close>

text \<open>
  The outcome of a run: the exception that ended it, if any, how many jobs were committed, the last of
  them, the database and the requests sent to route-admin.
\<close>

record run_result =
  rr_exn :: "orch_exn option"
  rr_processed :: int
  rr_last :: "int option"
  rr_db :: db
  rr_calls :: "gw_call list"

text \<open>\<open>T i\<close> answers during the i-th job; an exception rolls back its own job only.\<close>

fun job_loop :: "(nat \<Rightarrow> tick) \<Rightarrow> nat \<Rightarrow> nat \<Rightarrow> run_result \<Rightarrow> run_result" where
  "job_loop T i 0 r = r"
| "job_loop T i (Suc n) r =
     (case process_next_queued_job_return_id (T i) (rr_db r) of
        Inl e \<Rightarrow> r\<lparr>rr_exn := Some e\<rparr>
      | Inr (None, _) \<Rightarrow> r
      | Inr (Some jid, d, calls) \<Rightarrow>
          job_loop T (Suc i) n (r\<lparr>rr_processed := rr_processed r + 1, rr_last := Some jid, rr_db := d,
                                 rr_calls := rr_calls r @ calls\<rparr>))"

text \<open>After the jobs, due cleanup tasks are retried; a failure there is rolled back and swallowed.\<close>

definition run_pending_jobs :: "(nat \<Rightarrow> tick) \<Rightarrow> tick \<Rightarrow> int \<Rightarrow> db \<Rightarrow> run_result" where
  "run_pending_jobs T C limit d =
     (let r = job_loop T 0 (nat (max 1 limit))
            \<lparr>rr_exn = None, rr_processed = 0, rr_last = None, rr_db = d, rr_calls = []\<rparr>
      in if rr_exn r \<noteq> None then r
         else case drain_pending_cleanup_tasks (tk_env C) (tk_orch C) (max 8 (max 1 limit)) (rr_db r) of
           None \<Rightarrow> r
         | Some (_, d1) \<Rightarrow> r\<lparr>rr_db := d1\<rparr>)"

definition run_one_pending_workspace_job :: "tick \<Rightarrow> tick \<Rightarrow> db \<Rightarrow> run_result" where
  "run_one_pending_workspace_job T C d = run_pending_jobs (\<lambda>_. T) C 1 d"

definition run_queued_workspace_job_by_id :: "tick \<Rightarrow> int \<Rightarrow> db \<Rightarrow> run_result" where
  "run_queued_workspace_job_by_id T jid d =
     (let none = \<lparr>rr_exn = None, rr_processed = 0, rr_last = None, rr_db = d, rr_calls = []\<rparr> in
      case try_claim_queued_workspace_job_by_id (tk_env T) (tk_locked T) jid d of
        None \<Rightarrow> none
      | Some d1 \<Rightarrow>
          (case run_claimed T False jid d1 of
             Inl e \<Rightarrow> none\<lparr>rr_exn := Some e\<rparr>
           | Inr (d2, calls) \<Rightarrow> none\<lparr>rr_processed := 1, rr_last := Some jid, rr_db := d2, rr_calls := calls\<rparr>))"

section \<open>Stuck jobs\<close>

definition stuck_job :: "time \<Rightarrow> job \<Rightarrow> bool" where
  "stuck_job cutoff j =
     (job_status j = JS_RUNNING \<and> (case job_started_at j of None \<Rightarrow> False | Some t \<Rightarrow> t \<le> cutoff))"

definition lifecycle_job_type :: "job_type \<Rightarrow> bool" where
  "lifecycle_job_type t = (t \<in> {JT_CREATE, JT_START, JT_STOP, JT_RESTART, JT_UPDATE, JT_DELETE})"

text \<open>\<open>str_time\<close> is Python's \<^verbatim>\<open>str\<close> of a timestamp.\<close>

definition stuck_message :: "(time \<Rightarrow> string) \<Rightarrow> job \<Rightarrow> string" where
  "stuck_message str_time j = ''stuck_running_reclaimed:job_id='' @ str_int (job_id j) @ '',started_at='' @
     (case job_started_at j of None \<Rightarrow> ''None'' | Some t \<Rightarrow> str_time t)"

definition reclaim_job :: "env \<Rightarrow> (time \<Rightarrow> string) \<Rightarrow> job \<Rightarrow> db \<Rightarrow> db" where
  "reclaim_job E str_time j d =
     (let jid = job_id j; wid = job_workspace_id j;
          message = stuck_message str_time j;
          (retried, d1) = try_schedule_workspace_job_retry E jid message FS_UNKNOWN (Some ''STUCK_RUNNING_RECLAIMED'') d
      in if retried then touch_workspace E wid d1
         else
           let d2 = mark_job_failed E jid message (Some FS_UNKNOWN) (Some ''STUCK_RUNNING_TERMINAL'') d1
           in if get_ws d2 wid \<noteq> None \<and> lifecycle_job_type (job_type j)
              then clear_runtime_capacity_reservation E wid (fail_workspace E wid ''STUCK_RUNNING_TERMINAL'' message d2)
              else d2)"

definition reclaim_stuck_running_jobs :: "env \<Rightarrow> (time \<Rightarrow> string) \<Rightarrow> db \<Rightarrow> int \<times> db" where
  "reclaim_stuck_running_jobs E str_time d =
     (if s_job_stuck_timeout_seconds (cfg E) \<le> 0 then (0, d)
      else
        let stuck = take 20 (filter (stuck_job (now E - seconds (s_job_stuck_timeout_seconds (cfg E)))) (jobs d))
        in (int (length stuck), fold (reclaim_job E str_time) stuck d))"

end
