(* ===== verification/Outcome.thy ===== *)
theory Outcome
  imports Worker
begin

text \<open>
  What one job may do to the database. \<open>confined w j d d'\<close> says that between \<open>d\<close> and \<open>d'\<close> no other
  workspace and no other job changed, that none appeared or vanished, that the job kept its identity,
  and that primary keys stayed sound. \<open>ws_state\<close> and \<open>job_state\<close> observe the two status columns the
  life cycle depends on; the collection \<open>view\<close> computes them through the operations of the worker.
\<close>

named_theorems view

definition ws_state :: "db \<Rightarrow> int \<Rightarrow> ws_status option" where
  "ws_state d wid = map_option ws_status (get_ws d wid)"

definition job_state :: "db \<Rightarrow> int \<Rightarrow> (job_status \<times> bool) option" where
  "job_state d jid = map_option (\<lambda>j. (job_status j, job_next_attempt_after j \<noteq> None)) (get_job d jid)"

definition job_ident :: "db \<Rightarrow> int \<Rightarrow> (job_type \<times> int) option" where
  "job_ident d jid = map_option (\<lambda>j. (job_type j, job_workspace_id j)) (get_job d jid)"

definition confined :: "int \<Rightarrow> int \<Rightarrow> db \<Rightarrow> db \<Rightarrow> bool" where
  "confined w j d d' \<longleftrightarrow>
     (\<forall>k. k \<noteq> w \<longrightarrow> get_ws d' k = get_ws d k) \<and> (\<forall>k. k \<noteq> j \<longrightarrow> get_job d' k = get_job d k) \<and>
     (get_ws d' w = None \<longleftrightarrow> get_ws d w = None) \<and> job_ident d' j = job_ident d j \<and>
     (db_keys_ok d \<longrightarrow> db_keys_ok d')"

lemma confined_refl [simp, view]: "confined w j d d"
  by (simp add: confined_def)

lemma confined_trans: "confined w j d d1 \<Longrightarrow> confined w j d1 d2 \<Longrightarrow> confined w j d d2"
  by (simp add: confined_def)

section \<open>Tables that the life cycle does not read\<close>

definition same_rows :: "db \<Rightarrow> db \<Rightarrow> bool" where
  "same_rows d d' \<longleftrightarrow> workspaces d' = workspaces d \<and> jobs d' = jobs d \<and> (db_keys_ok d \<longrightarrow> db_keys_ok d')"

lemma same_rows_confined: "same_rows d1 d2 \<Longrightarrow> confined w j d d1 \<Longrightarrow> confined w j d d2"
  by (auto simp: same_rows_def confined_def get_ws_def get_job_def job_ident_def)

lemma same_rows_state:
  "same_rows d d' \<Longrightarrow> ws_state d' k = ws_state d k"
  "same_rows d d' \<Longrightarrow> job_state d' k = job_state d k"
  "same_rows d d' \<Longrightarrow> get_job d' k = get_job d k"
  "same_rows d d' \<Longrightarrow> get_ws d' k = get_ws d k"
  by (auto simp: same_rows_def ws_state_def job_state_def get_ws_def get_job_def)

lemma same_rows_refl [simp]: "same_rows d d"
  by (simp add: same_rows_def)

lemma same_rows_trans: "same_rows d d1 \<Longrightarrow> same_rows d1 d2 \<Longrightarrow> same_rows d d2"
  by (simp add: same_rows_def)

lemma clear_runtime_same: "same_rows d (clear_runtime_after_delete w d)"
  by (auto simp: clear_runtime_after_delete_def same_rows_def db_keys_ok_def keys_ok_del split: option.split)

lemma same_rows_step [simp]:
  "same_rows d d1 \<Longrightarrow> same_rows d (upd_snap k f d1)"
  "same_rows d d1 \<Longrightarrow> same_rows d (upd_ct k g d1)"
  "same_rows d d1 \<Longrightarrow> same_rows d (upd_node k h d1)"
  "same_rows d d1 \<Longrightarrow> same_rows d (upd_rt k r d1)"
  "same_rows d d1 \<Longrightarrow> same_rows d (snd (add_ct tsk d1))"
  "same_rows d d1 \<Longrightarrow> same_rows d (snd (add_rt x d1))"
  "same_rows d d1 \<Longrightarrow> same_rows d (log_event E w t st m p d1)"
  "same_rows d d1 \<Longrightarrow> same_rows d (record_audit E a rt oc au ak rid ow oj n rs mm c d1)"
  "same_rows d d1 \<Longrightarrow> same_rows d (record_usage E uw uo ut q un uj um uc d1)"
  by (simp_all add: same_rows_def)

lemma runtime_ops_same [simp]:
  "same_rows d (ensure_runtime E w d)"
  "same_rows d (clear_runtime_capacity_reservation E w d)"
  "same_rows d (ensure_durable_cleanup_task E w sc dt d)"
  "same_rows d (apply_runtime_stop E w sr d)"
  "same_rows d (apply_runtime_bringup_like E w ob tg cv d)"
  "same_rows d (repair_runtime_capacity_ledger E w d)"
  by (simp_all add: ensure_runtime_def clear_runtime_capacity_reservation_def ensure_durable_cleanup_task_def Let_def
      apply_runtime_stop_def apply_runtime_bringup_like_def repair_runtime_capacity_ledger_def split: option.split)

lemma rollback_ops_same [simp]:
  "same_rows d (mark_cleanup_required E w dt d)"
  "same_rows d (sync_runtime_after_failed_bringup E w br d)"
  "same_rows d (sync_runtime_after_bringup_exception E w ok is cid cs d)"
  by (simp_all add: mark_cleanup_required_def sync_runtime_after_failed_bringup_def sync_runtime_after_bringup_exception_def)

lemma record_ops_same [simp]:
  "same_rows d (reconcile_event E w j ev msg d)"
  "same_rows d (audit_job E ac oc w j nd rs mt d)"
  "same_rows d (mark_node_not_ready_for_retry E key rs2 d)"
  "same_rows d (record_placement_failed_scale_out_signal E w jb dt d)"
  "same_rows d (set_snapshot_status k st d)"
  "same_rows d (snapshot_audit E sac soc sau sak sid w sj srs smt scid d)"
  "same_rows d (snapshot_failed_event E w j sid msg d)"
  by (simp_all add: reconcile_event_def audit_job_def mark_node_not_ready_for_retry_def
      record_placement_failed_scale_out_signal_def set_snapshot_status_def snapshot_audit_def snapshot_failed_event_def
      Let_def split: option.split)

lemma attempt_cleanup_same [simp]: "same_rows d (snd (attempt_cleanup E orc w cid n tid d))"
  by (simp add: attempt_cleanup_def Let_def split: sum.split)

lemma cleanup_loop_same: "same_rows d (snd (cleanup_loop E orc w cid n tids d))"
proof (induction tids arbitrary: n d)
  case (Cons tid tids)
  have "same_rows d (snd (attempt_cleanup E orc w cid n tid d))" by simp
  from same_rows_trans [OF this Cons.IH] show ?case by (simp add: Let_def split_beta)
qed simp

lemma process_cleanup_same [simp]: "same_rows d (snd (process_durable_cleanup_tasks_for_workspace E orc w d))"
  by (simp add: process_durable_cleanup_tasks_for_workspace_def Let_def split_beta cleanup_loop_same)

lemma merge_note_same: "merge_cleanup_deferred_note E r w ex tids d = Some d' \<Longrightarrow> same_rows d d'"
proof (induction tids arbitrary: d)
  case (Cons tid tids)
  then show ?case
    by (auto split: option.splits dest: same_rows_trans [OF same_rows_step(2) [OF same_rows_refl]])
qed simp

lemma drain_workspace_same: "drain_workspace E mk w d = Some (k, d') \<Longrightarrow> same_rows d d'"
  by (auto simp: drain_workspace_def Let_def split_beta split: if_splits option.splits sum.splits dest: merge_note_same)

lemma drain_workspaces_same: "drain_workspaces E mk wids d = Some (k, d') \<Longrightarrow> same_rows d d'"
proof (induction wids arbitrary: d k)
  case (Cons w wids)
  then obtain k1 d1 k2 where one: "drain_workspace E mk w d = Some (k1, d1)" and rest: "drain_workspaces E mk wids d1 = Some (k2, d')"
    by (auto split: option.splits)
  show ?case using drain_workspace_same [OF one] Cons.IH [OF rest] by (rule same_rows_trans)
qed simp

lemma drain_pending_same: "drain_pending_cleanup_tasks E mk n d = Some (k, d') \<Longrightarrow> same_rows d d'"
  by (auto simp: drain_pending_cleanup_tasks_def Let_def dest: drain_workspaces_same)

lemmas frame_facts = same_rows_step [OF same_rows_refl] runtime_ops_same rollback_ops_same record_ops_same
  process_cleanup_same clear_runtime_same

lemmas frame_view [view] =
  frame_facts [THEN same_rows_confined]
  frame_facts [THEN same_rows_state(1)]
  frame_facts [THEN same_rows_state(2)]
  frame_facts [THEN same_rows_state(3)]
  frame_facts [THEN same_rows_state(4)]

section \<open>Changes of a workspace or a job\<close>

lemma ws_state_upd_ws [view]:
  "ws_state (upd_ws k f d) k' = (if k' = k then map_option (\<lambda>w. ws_status (f w)) (get_ws d k) else ws_state d k')"
  by (simp add: ws_state_def get_upd option.map_comp o_def)

lemma map_const_ws_state [view]: "map_option (\<lambda>_. c) (get_ws d k) = map_option (\<lambda>_. c) (ws_state d k)"
  by (simp add: ws_state_def option.map_comp o_def)

lemma upd_ws_view [view]:
  "job_state (upd_ws k f d) j = job_state d j" "get_job (upd_ws k f d) j = get_job d j"
  by (simp_all add: job_state_def get_job_def)

lemma ws_state_kept [view]:
  "ws_state (touch_workspace E w d) k = ws_state d k"
  "ws_state (snd (revoke_all_workspace_sessions E w d)) k = ws_state d k"
  "ws_state (sync_workspace_execution_node_id w n d) k = ws_state d k"
  by (auto simp: touch_workspace_def sync_workspace_execution_node_id_def Let_def ws_state_def get_upd get_ws_revoke_all
      option.map_comp o_def split: option.split)

lemma get_job_kept [view]:
  "get_job (touch_workspace E w d) k = get_job d k"
  "get_job (snd (revoke_all_workspace_sessions E w d)) k = get_job d k"
  "get_job (sync_workspace_execution_node_id w n d) k = get_job d k"
  "get_job (fail_workspace E w c m d) k = get_job d k"
  "get_job (park_workspace E w m rs d) k = get_job d k"
  "get_job (set_deleted E w d) k = get_job d k"
  "get_job (begin_create_bringup_after_placement E w jt d) k = get_job d k"
  by (simp_all add: touch_workspace_def sync_workspace_execution_node_id_def Let_def fail_workspace_def park_workspace_def
      set_deleted_def begin_create_bringup_after_placement_def get_job_def split: option.split)

lemmas job_state_kept [view] = get_job_kept [THEN arg_cong, of "map_option (\<lambda>j. (job_status j, job_next_attempt_after j \<noteq> None))",
    folded job_state_def]

lemma ws_state_fail [view]:
  "ws_state (fail_workspace E w c m d) k = (if k = w then map_option (\<lambda>_. WS_ERROR) (ws_state d w) else ws_state d k)"
  "ws_state (park_workspace E w m rs d) k = (if k = w then map_option (\<lambda>_. WS_PENDING) (ws_state d w) else ws_state d k)"
  "ws_state (set_deleted E w d) k = (if k = w then map_option (\<lambda>_. WS_DELETED) (ws_state d w) else ws_state d k)"
  by (simp_all add: fail_workspace_def park_workspace_def set_deleted_def view workspace_set_error_def)

lemma ws_state_begin [view]:
  "ws_state (begin_create_bringup_after_placement E w jt d) k =
     (if k = w \<and> jt = JT_CREATE \<and> ws_state d w = Some WS_PENDING then Some WS_CREATING else ws_state d k)"
  by (cases "get_ws d w")
    (auto simp: begin_create_bringup_after_placement_def view, auto simp: ws_state_def)

lemma job_state_mark [view]:
  "job_state (mark_job_running E j d) k = (if k = j then map_option (\<lambda>(_, b). (JS_RUNNING, b)) (job_state d j) else job_state d k)"
  "job_state (mark_job_succeeded E j d) k = (if k = j then map_option (\<lambda>_. (JS_SUCCEEDED, False)) (job_state d j) else job_state d k)"
  "job_state (mark_job_failed E j m st c d) k = (if k = j then map_option (\<lambda>_. (JS_FAILED, False)) (job_state d j) else job_state d k)"
  by (simp_all add: mark_job_running_def mark_job_succeeded_def mark_job_failed_def job_state_def get_upd option.map_comp o_def)

lemma get_ws_mark [view]:
  "get_ws (mark_job_running E j d) k = get_ws d k"
  "get_ws (mark_job_succeeded E j d) k = get_ws d k"
  "get_ws (mark_job_failed E j m st c d) k = get_ws d k"
  "get_ws (snd (try_schedule_workspace_job_retry E j m2 fs fc d)) k = get_ws d k"
  "get_ws (snd (try_schedule_capacity_retry E j m3 d)) k = get_ws d k"
  "get_ws (snd (try_schedule_node_readiness_retry E j m4 d)) k = get_ws d k"
  by (simp_all add: mark_job_running_def mark_job_succeeded_def mark_job_failed_def get_ws_def
      attempt_retry.frame_ws capacity_retry.frame_ws readiness_retry.frame_ws)

lemmas ws_state_mark [view] = get_ws_mark [THEN arg_cong, of "map_option ws_status", folded ws_state_def]

lemma confined_upd_job:
  "confined w j d0 d \<Longrightarrow> (\<And>r. job_type (f r) = job_type r \<and> job_workspace_id (f r) = job_workspace_id r) \<Longrightarrow>
   confined w j d0 (upd_job j f d)"
  by (auto simp: confined_def get_upd job_ident_def get_ws_def option.map_comp o_def)

context job_retry
begin

lemma queued_state:
  "job_state (snd (sched d)) k = (if k = jid \<and> fst (sched d) then Some (JS_QUEUED, True) else job_state d k)"
  using queued_again [of d] other_jobs [of k d] declined [of d] by (cases "sched d") (auto simp: job_state_def)

lemma retry_confined: "confined w jid d0 d \<Longrightarrow> confined w jid d0 (snd (sched d))"
  using declined [of d] scheduled [of d]
  by (cases "sched d"; cases "fst (sched d)") (auto intro: confined_upd_job simp: requeue_def)

end

lemmas retry_view [view] =
  attempt_retry.queued_state capacity_retry.queued_state readiness_retry.queued_state
  attempt_retry.retry_confined capacity_retry.retry_confined readiness_retry.retry_confined

lemma confined_upd_ws [view]: "confined w j d0 d \<Longrightarrow> confined w j d0 (upd_ws w f d)"
  by (auto simp: confined_def get_upd job_ident_def get_job_def)

lemma confined_marks [view]:
  "confined w j d0 d \<Longrightarrow> confined w j d0 (mark_job_running E j d)"
  "confined w j d0 d \<Longrightarrow> confined w j d0 (mark_job_succeeded E j d)"
  "confined w j d0 d \<Longrightarrow> confined w j d0 (mark_job_failed E j m st c d)"
  by (simp_all add: mark_job_running_def mark_job_succeeded_def mark_job_failed_def confined_upd_job)

lemma confined_ws_ops [view]:
  "confined w j d0 d \<Longrightarrow> confined w j d0 (touch_workspace E w d)"
  "confined w j d0 d \<Longrightarrow> confined w j d0 (fail_workspace E w c m d)"
  "confined w j d0 d \<Longrightarrow> confined w j d0 (park_workspace E w m rs d)"
  "confined w j d0 d \<Longrightarrow> confined w j d0 (set_deleted E w d)"
  "confined w j d0 d \<Longrightarrow> confined w j d0 (sync_workspace_execution_node_id w n d)"
  "confined w j d0 d \<Longrightarrow> confined w j d0 (begin_create_bringup_after_placement E w jt d)"
  by (simp_all add: touch_workspace_def fail_workspace_def park_workspace_def set_deleted_def Let_def
      sync_workspace_execution_node_id_def begin_create_bringup_after_placement_def view split: option.split)

lemma reconcile_count_keys_ok: "db_keys_ok d \<Longrightarrow> db_keys_ok (snd (reconcile_count_on f w t d))"
  by (simp add: reconcile_count_on_def Let_def split: option.split)

lemma keys_ok_same_keys:
  assumes "map k rows' = map k rows"
  shows "keys_ok k rows' n = keys_ok k rows n"
proof -
  have "keys_ok k xs n \<longleftrightarrow> distinct (map k xs) \<and> (\<forall>x\<in>set (map k xs). x < n)" for xs
    by (simp add: keys_ok_def)
  then show ?thesis by (simp only: assms)
qed

lemma revoke_all_keys_ok: "db_keys_ok d \<Longrightarrow> db_keys_ok (snd (revoke_all_workspace_sessions E w d))"
proof -
  assume "db_keys_ok d"
  then have "db_keys_ok (d\<lparr>sessions := revoke_rows w (now E) (sessions d)\<rparr>)"
    by (simp add: db_keys_ok_def keys_ok_same_keys [OF revoke_rows_keys])
  then show ?thesis by (simp add: revoke_all_workspace_sessions_def Let_def reconcile_count_keys_ok)
qed

lemma confined_revoke [view]: "confined w j d0 d \<Longrightarrow> confined w j d0 (snd (revoke_all_workspace_sessions E w d))"
  by (auto simp: confined_def get_ws_revoke_all job_ident_def get_job_def revoke_all_keys_ok)

section \<open>The contract of a job\<close>

text \<open>The states in which a successful life-cycle job leaves its workspace.\<close>

fun job_target :: "job_type \<Rightarrow> ws_status set" where
  "job_target JT_CREATE = {WS_RUNNING}"
| "job_target JT_START = {WS_RUNNING}"
| "job_target JT_RESTART = {WS_RUNNING}"
| "job_target JT_UPDATE = {WS_RUNNING, WS_STOPPED}"
| "job_target JT_STOP = {WS_STOPPED}"
| "job_target JT_DELETE = {WS_DELETED}"
| "job_target _ = {}"

text \<open>
  How a job of type \<open>t\<close> may leave a workspace that was in state \<open>s\<close>: success reaches the target state,
  failure ends in \<^verbatim>\<open>ERROR\<close>, a retry keeps the job queued with a wake-up time. Jobs outside the life cycle
  leave the state alone or, at worst, move the workspace to \<^verbatim>\<open>ERROR\<close>.
\<close>

fun good_outcome :: "job_type \<Rightarrow> ws_status \<Rightarrow> ws_status \<Rightarrow> job_status \<times> bool \<Rightarrow> bool" where
  "good_outcome t s s' (JS_SUCCEEDED, _) = (if lifecycle_job_type t then s' \<in> job_target t else s' = s)"
| "good_outcome t s s' (JS_FAILED, _) = (s' = WS_ERROR \<or> \<not> lifecycle_job_type t \<and> s' = s)"
| "good_outcome t s s' (JS_QUEUED, wake) =
     (wake \<and> (s' = s \<or> lifecycle_job_type t \<and> s' = WS_PENDING \<or> t = JT_CREATE \<and> s' = WS_CREATING))"
| "good_outcome t s s' (_, _) = False"

lemma target_lifecycle: "s \<in> job_target t \<Longrightarrow> lifecycle_job_type t"
  by (cases t) (simp_all add: lifecycle_job_type_def)

definition settles :: "job_type \<Rightarrow> int \<Rightarrow> int \<Rightarrow> db \<Rightarrow> db \<Rightarrow> bool" where
  "settles t w j d d' \<longleftrightarrow> confined w j d d' \<and>
     (\<exists>s s' js. ws_state d w = Some s \<and> ws_state d' w = Some s' \<and> job_state d' j = Some js \<and> good_outcome t s s' js)"

text \<open>A settling step may be preceded and followed by steps that keep both status columns.\<close>

lemma settles_before: "settles t w j d1 d2 \<Longrightarrow> same_rows d d1 \<Longrightarrow> settles t w j d d2"
  unfolding settles_def
  by (metis confined_refl confined_trans same_rows_confined same_rows_state(1))

lemma settles_after: "settles t w j d d1 \<Longrightarrow> same_rows d1 d2 \<Longrightarrow> settles t w j d d2"
  unfolding settles_def by (metis same_rows_confined same_rows_state(1,2))

text \<open>The workspace and the job exist.\<close>

definition ready :: "int \<Rightarrow> int \<Rightarrow> db \<Rightarrow> bool" where
  "ready w j d \<longleftrightarrow> ws_state d w \<noteq> None \<and> job_state d j \<noteq> None"

lemma ready_same: "same_rows d d' \<Longrightarrow> ready w j d \<Longrightarrow> ready w j d'"
  by (simp add: ready_def same_rows_state)

lemma settlesI:
  assumes "ready w j d" "confined w j d d'"
    and "\<And>s js0. ws_state d w = Some s \<Longrightarrow> job_state d j = Some js0 \<Longrightarrow>
      \<exists>s' js. ws_state d' w = Some s' \<and> job_state d' j = Some js \<and> good_outcome t s s' js"
  shows "settles t w j d d'"
  using assms unfolding settles_def ready_def by blast

lemma fail_job_and_workspace_settles: "ready w j d \<Longrightarrow> settles t w j d (fail_job_and_workspace E w j m st jc wc d)"
  by (rule settlesI) (auto simp: fail_job_and_workspace_def view)

lemma finalize_job_failed_settles: "ready w j d \<Longrightarrow> settles t w j d (finalize_job_failed_workspace_error E w j m st d)"
  by (rule settlesI) (auto simp: finalize_job_failed_workspace_error_def Let_def view)

lemma touched_retry_settles:
  assumes "ready w j d" "fst (try_schedule_workspace_job_retry E j m st c d)"
  shows "settles t w j d (touch_workspace E w (snd (try_schedule_workspace_job_retry E j m st c d)))"
  using assms by (intro settlesI) (auto simp: view)

lemma declined_same: "\<not> fst (try_schedule_workspace_job_retry E j m st c d) \<Longrightarrow> snd (try_schedule_workspace_job_retry E j m st c d) = d"
  using attempt_retry.declined [of E j m st c d] by (cases "try_schedule_workspace_job_retry E j m st c d") auto

lemma resolve_failure_settles:
  assumes "ready w j d"
  shows "settles t w j d (resolve_orchestrator_result_failure E w j m st rt d)"
proof (cases "rt \<and> fst (try_schedule_workspace_job_retry E j m st (Some (failure_stage_str st)) d)")
  case True
  then show ?thesis using touched_retry_settles [OF assms] by (simp add: resolve_orchestrator_result_failure_def split_beta)
next
  case False
  then show ?thesis using finalize_job_failed_settles [OF assms] declined_same
    by (auto simp: resolve_orchestrator_result_failure_def split_beta)
qed

text \<open>The finalizers.\<close>

lemma running_success_settles:
  assumes "ready w j d" "finalize_runtime_running_success E w j cv ob d = Inr (d', calls)" "WS_RUNNING \<in> job_target t"
  shows "settles t w j d d'"
  using assms target_lifecycle [OF assms(3)]
  by (intro settlesI) (auto simp: finalize_runtime_running_success_def Let_def view workspace_clear_errors_def split: sum.splits)

lemma bringup_settles:
  assumes "ready w j d" "finalize_bringup_result E w j cv res d = Inr (d', calls)" "WS_RUNNING \<in> job_target t"
  shows "settles t w j d d'"
proof (cases "ro_success res")
  case True
  then show ?thesis using assms running_success_settles by (auto simp: finalize_bringup_result_def)
next
  case False
  have "same_rows d (sync_runtime_after_failed_bringup E w res d)" by simp
  then show ?thesis using False assms(2) settles_before [OF resolve_failure_settles [OF ready_same [OF _ assms(1)]]]
    by (auto simp: finalize_bringup_result_def Let_def)
qed

lemma stop_settles:
  assumes "ready w j d" "finalize_stop_result E w j res d = (d', calls)" "WS_STOPPED \<in> job_target t \<or> \<not> lifecycle_job_type t \<and> ws_state d w = Some WS_STOPPED"
  shows "settles t w j d d'"
proof (cases "st_success res")
  case True
  then show ?thesis using assms by (intro settlesI) (auto simp: finalize_stop_result_def Let_def view workspace_clear_errors_def dest: target_lifecycle)
next
  case False
  have "same_rows d (ensure_durable_cleanup_task E w CLEANUP_SCOPE_STOP_INCOMPLETE (issues_list (st_issues res)) d)" by simp
  then show ?thesis using False assms(2) settles_before [OF resolve_failure_settles [OF ready_same [OF _ assms(1)]]]
    by (auto simp: finalize_stop_result_def Let_def)
qed

lemma delete_settles:
  assumes "ready w j d"
  shows "settles JT_DELETE w j d (fst (finalize_delete_result E w j res d))"
    and "settles JT_DELETE w j d (fst (finalize_delete_runtime_missing_idempotent E w j d))"
  using assms
  by (auto intro!: settlesI simp: finalize_delete_result_def finalize_delete_runtime_missing_idempotent_def settle_deleted_def
      Let_def view lifecycle_job_type_def)

lemma restart_settles:
  assumes "ready w j d" "finalize_restart_result E w j cv res d = Inr (d', calls)"
  shows "settles JT_RESTART w j d d'"
  using assms running_success_settles [of w j d E cv res d' calls JT_RESTART] resolve_failure_settles [OF assms(1)]
  by (auto simp: finalize_restart_result_def split: if_splits)

lemma update_settles:
  assumes "ready w j d" "finalize_update_result E w j res d = Inr (d', calls)"
  shows "settles JT_UPDATE w j d d'"
proof (cases "ro_success res \<or> \<not> (up_no_op res \<and> update_noop_issues_imply_stopped_workspace (ro_issues res))")
  case True
  then show ?thesis using assms running_success_settles [of w j d E _ res d' calls JT_UPDATE] resolve_failure_settles [OF assms(1)]
    by (auto simp: finalize_update_result_def Let_def split: if_splits)
next
  case False
  then show ?thesis using assms
    by (intro settlesI) (auto simp: finalize_update_result_def Let_def view workspace_clear_errors_def lifecycle_job_type_def)
qed

end
