(* ===== verification/Job_Run.thy ===== *)
theory Job_Run
  imports Outcome
begin

text \<open>
  Every path of the worker through one job settles it: the reconcile and snapshot bodies, the handlers of
  failed placements and orchestrator exceptions, and at the end \<open>run_claimed\<close>.
\<close>

text \<open>A body settles its job, or raises with both status columns as they were.\<close>

definition body_ok :: "job_type \<Rightarrow> int \<Rightarrow> int \<Rightarrow> db \<Rightarrow> job_out \<Rightarrow> bool" where
  "body_ok t w j d out = (case out of Inl p \<Rightarrow> same_rows d (snd p) | Inr q \<Rightarrow> settles t w j d (fst q))"

lemma body_ok_simps [simp]:
  "body_ok t w j d (Inl p) = same_rows d (snd p)"
  "body_ok t w j d (Inr q) = settles t w j d (fst q)"
  by (simp_all add: body_ok_def)

lemma body_ok_before: "body_ok t w j d1 out \<Longrightarrow> same_rows d d1 \<Longrightarrow> body_ok t w j d out"
  by (auto simp: body_ok_def split: sum.splits intro: same_rows_trans settles_before)

section \<open>Reconcile\<close>

lemma succeeded_settles: "ready w j d \<Longrightarrow> \<not> lifecycle_job_type t \<Longrightarrow> settles t w j d (mark_job_succeeded E j d)"
  by (rule settlesI) (auto simp: view)

lemma failed_settles:
  "ready w j d \<Longrightarrow> \<not> lifecycle_job_type t \<Longrightarrow> settles t w j d (touch_workspace E w (mark_job_failed E j m st c d))"
  by (rule settlesI) (auto simp: view)

lemma fail_reconcile_settles:
  assumes r: "ready w j d" and t: "\<not> lifecycle_job_type t"
  shows "settles t w j d (fail_reconcile E w j m d)"
proof -
  obtain st rt where cl: "classify_reconcile_failure m = (st, rt)" by fastforce
  let ?sch = "try_schedule_workspace_job_retry E j m st (Some (failure_stage_str st)) d"
  show ?thesis
  proof (cases "rt \<and> fst ?sch")
    case True
    then show ?thesis using touched_retry_settles [OF r] cl by (simp add: fail_reconcile_def split_beta)
  next
    case False
    then have d1: "(if rt then ?sch else (False, d)) = (False, d)" 
      using declined_same [of E j m st "Some (failure_stage_str st)" d] by (auto simp: prod_eq_iff)
    let ?d2 = "record_audit E ''reconcile.failed'' ''workspace'' AO_FAILURE None ACTOR_INTERNAL_SERVICE
                      (Some (str_int w)) (Some w) (Some j) None (Some (take 4096 m))
                      [(''failure_stage'', JStr (failure_stage_str st)),
                       (''workspace_status'', jopt JStr (ws_status_text d w))] (job_cid d j) d"
    have same: "same_rows d ?d2" by simp
    note r2 = ready_same [OF same r]
    have "settles t w j ?d2 (touch_workspace E w (mark_job_failed E j m (Some st) (Some (failure_stage_str st)) ?d2))"
      "settles t w j ?d2 (finalize_job_failed_workspace_error E w j m (Some st) ?d2)"
      by (rule failed_settles [OF r2 t], rule finalize_job_failed_settles [OF r2])
    moreover have "get_ws ?d2 w \<noteq> None" using r2 by (auto simp: ready_def ws_state_def)
    ultimately show ?thesis using settles_before [OF _ same] d1 cl
      by (auto simp: fail_reconcile_def Let_def)
  qed
qed

lemma settled_event: "settles t w j d d1 \<Longrightarrow> settles t w j d (reconcile_event E w k ev m d1)"
  by (erule settles_after) simp

lemma event_settles:
  "ready w j d \<Longrightarrow> \<not> lifecycle_job_type t \<Longrightarrow> settles t w j d (mark_job_succeeded E j (reconcile_event E w j ev m d))"
  by (rule settles_before [OF succeeded_settles]) (auto intro: ready_same [rotated])

lemmas reconcile_settles = succeeded_settles fail_reconcile_settles event_settles

lemma remove_orphan_settles:
  "ready w j d \<Longrightarrow> \<not> lifecycle_job_type t \<Longrightarrow> settles t w j d (fst (remove_orphan_route E X w j m1 m2 d))"
  by (simp add: remove_orphan_route_def reconcile_settles split: sum.split prod.split option.split)

lemma reconcile_deleted_settles:
  "ready w j d \<Longrightarrow> \<not> lifecycle_job_type t \<Longrightarrow> settles t w j d (fst (reconcile_deleted E X w j d))"
  by (simp add: reconcile_deleted_def reconcile_settles remove_orphan_settles)

lemma reconcile_error_settles:
  assumes "ready w j d" "\<not> lifecycle_job_type t"
  shows "body_ok t w j d (reconcile_error_cleanup E X orc k w j d)"
proof -
  have step: "settles t w j d (mark_job_succeeded E j (reconcile_event E w j ev m d1))"
    "settles t w j d (fst (remove_orphan_route E X w j m1 m2 d1))" if "same_rows d d1" for d1 ev m m1 m2
    using assms that by (auto intro: settles_before event_settles remove_orphan_settles ready_same)
  have same: "same_rows d (reconcile_event E w j ev m (apply_runtime_stop E w res d))" for ev m res
    using same_rows_trans [OF runtime_ops_same(4) record_ops_same(1)] .
  show ?thesis using assms step [OF same] step [OF same_rows_refl] fail_reconcile_settles
    by (simp add: reconcile_error_cleanup_def Let_def split: sum.split orch_exn.split)
qed

lemma best_effort_same: "same_rows d (fst (best_effort_remove_orphan_gateway_route E X w j m d))"
  by (simp add: best_effort_remove_orphan_gateway_route_def split: sum.split prod.split option.split)

lemma lingering_settles:
  assumes r: "ready w j d" and t: "\<not> lifecycle_job_type t" and st: "ws_state d w = Some WS_STOPPED"
  shows "body_ok t w j d (reconcile_lingering_runtime E X orc k w j by d)"
proof (cases "o_stop orc k \<lparr>sa_workspace_id = str_int w, sa_container_id = get_persisted_container_id d w,
                         sa_requested_by = Some by, sa_release_ip_lease = False\<rparr>")
  case (Inl e)
  then show ?thesis using fail_reconcile_settles [OF r t]
    by (simp add: reconcile_lingering_runtime_def split: orch_exn.split)
next
  case (Inr res)
  obtain d1 calls where fin: "finalize_stop_result E w j res d = (d1, calls)" by fastforce
  have s1: "settles t w j d d1" using stop_settles [OF r fin] t st by simp
  have "same_rows d1 (fst (best_effort_remove_orphan_gateway_route E X w j m2 (reconcile_event E w j ev m d1)))" for ev m m2
    using same_rows_trans [OF record_ops_same(1) best_effort_same] .
  then show ?thesis using settles_after [OF s1] settled_event [OF s1] Inr fin
    by (simp add: reconcile_lingering_runtime_def Let_def split_beta)
qed

lemma reconcile_stopped_settles:
  assumes "ready w j d" "\<not> lifecycle_job_type t" "ws_state d w = Some WS_STOPPED"
  shows "body_ok t w j d (reconcile_stopped E X orc k w j by d)"
  using assms lingering_settles [OF assms] event_settles remove_orphan_settles fail_reconcile_settles
  by (simp add: reconcile_stopped_def split: sum.split orch_exn.split)

lemma reconcile_route_settles:
  assumes "ready w j d" "\<not> lifecycle_job_type t"
  shows "case reconcile_route E X w j up d of Inl (d', _) \<Rightarrow> settles t w j d d' | Inr (_, d', _) \<Rightarrow> same_rows d d'"
  using assms fail_reconcile_settles by (simp add: reconcile_route_def split: sum.split option.split prod.split)

text \<open>The synchronised row before the route is looked at.\<close>

lemma reconcile_running_settles:
  assumes r: "ready w j d" and t: "\<not> lifecycle_job_type t"
  shows "body_ok t w j d (reconcile_running E X orc w j cv d)"
proof -
  have keep: "body_ok t w j d (case reconcile_route E X w j up d3 of
                   Inl failed \<Rightarrow> Inr failed
                 | Inr (fixed, d4, calls) \<Rightarrow>
                     Inr (mark_job_succeeded E j (if \<not> ch \<and> \<not> fixed then reconcile_event E w j ev msg d4 else d4), calls))"
    if d3: "confined w j d d3" "ws_state d3 w = ws_state d w" "job_state d3 j = job_state d j" for up d3 ch ev msg
  proof -
    have lift: "settles t w j d d'" if "settles t w j d3 d'" for d'
      using that d3 confined_trans [OF d3(1)] by (auto simp: settles_def)
    have r3: "ready w j d3" using r d3 by (simp add: ready_def)
    have ends: "settles t w j d (mark_job_succeeded E j d5)" if "same_rows d3 d5" for d5
      using lift [OF settles_before [OF succeeded_settles [OF ready_same [OF that r3] t] that]] .
    show ?thesis using reconcile_route_settles [OF r3 t, of E X up] lift ends same_rows_trans [OF _ record_ops_same(1)]
      by (auto simp: Let_def split: sum.splits)
  qed
  show ?thesis
    unfolding reconcile_running_def
    apply (cases "o_health orc (str_int w) (get_persisted_container_id d w)")
    subgoal for e using fail_reconcile_settles [OF r t] by (simp split: orch_exn.split)
    subgoal for h
      using fail_reconcile_settles [OF r t]
      apply (simp split: sum.split)
      apply (intro impI allI)
      apply (unfold Let_def)
      apply (rule keep)
        apply (simp_all add: view ws_state_def [symmetric])
      done
    done
qed

lemma begin_reconcile_same: "same_rows d (snd (begin_reconcile E orc w j d))"
proof -
  have "same_rows d (repair_runtime_capacity_ledger E w d1)" if "same_rows d d1" for d1
    using same_rows_trans [OF that runtime_ops_same(6)] .
  then show ?thesis by (simp add: begin_reconcile_def Let_def split_beta)
qed

lemma reconcile_job_settles:
  assumes r: "ready w j d" and t: "\<not> lifecycle_job_type t"
  shows "body_ok t w j d (execute_reconcile_runtime_job E X orc w j d)"
proof (cases "x_lock X w")
  case False
  then show ?thesis using fail_reconcile_settles [OF r t] by (simp add: execute_reconcile_runtime_job_def)
next
  case True
  obtain k d1 where b: "begin_reconcile E orc w j d = (k, d1)" by fastforce
  have same: "same_rows d d1" using begin_reconcile_same [of d E orc w j] b by simp
  note r1 = ready_same [OF same r]
  obtain wr jr where rows: "get_ws d1 w = Some wr" "get_job d1 j = Some jr"
    using r1 by (auto simp: ready_def ws_state_def job_state_def)
  have "body_ok t w j d1 (execute_reconcile_runtime_job E X orc w j d)"
    using True b rows fail_reconcile_settles [OF r1 t] reconcile_deleted_settles [OF r1 t] reconcile_error_settles [OF r1 t]
      reconcile_running_settles [OF r1 t] reconcile_stopped_settles [OF r1 t]
    by (simp add: execute_reconcile_runtime_job_def ws_state_def split: ws_status.split)
  then show ?thesis using same by (rule body_ok_before)
qed

section \<open>Snapshots and repository import\<close>

lemma snapshot_failed_settles:
  assumes "ready w j d" "\<not> lifecycle_job_type t" "same_rows d d1"
  shows "settles t w j d (touch_workspace E w (mark_job_failed E j m st c d1))"
  using settles_before [OF failed_settles [OF ready_same [OF assms(3,1)] assms(2)] assms(3)] .

lemma restore_failed_settles:
  "ready w j d \<Longrightarrow> \<not> lifecycle_job_type t \<Longrightarrow> settles t w j d (restore_failed E w j sid m c d)"
  by (simp add: restore_failed_def snapshot_failed_settles)

lemma snapshot_created_settles:
  "ready w j d \<Longrightarrow> \<not> lifecycle_job_type t \<Longrightarrow> settles t w j d (snapshot_created E X w j sid res d)"
  by (rule settlesI) (auto simp: snapshot_created_def Let_def view)

lemma snapshot_restored_settles:
  "ready w j d \<Longrightarrow> \<not> lifecycle_job_type t \<Longrightarrow> settles t w j d (snapshot_restored E w j sid res d)"
  by (rule settlesI) (auto simp: snapshot_restored_def Let_def view)

lemma load_snapshot_settles:
  assumes "ready w j d" "\<not> lifecycle_job_type t" "load_job_snapshot E w j so what mk d = Inl d'"
  shows "settles t w j d d'"
proof -
  have "settles t w j d (touch_workspace E w (set_snapshot_status sid SN_FAILED (mark_job_failed E j m st c d)))" for sid m st c
    using assms(1,2) by (intro settlesI) (auto simp: view)
  then show ?thesis using assms failed_settles [OF assms(1,2)]
    by (auto simp: load_job_snapshot_def split: option.splits if_splits)
qed

lemma lift_db_ok: "body_ok t w j d (lift_db d r) \<longleftrightarrow> (\<forall>d'. r = Inr d' \<longrightarrow> settles t w j d d')"
  by (simp add: lift_db_def split: sum.split)

lemma snapshot_create_settles:
  assumes r: "ready w j d" and t: "\<not> lifecycle_job_type t"
  shows "body_ok t w j d (lift_db d (execute_snapshot_create_job E X orc w j d))"
proof -
  obtain wr jr where rows: "get_ws d w = Some wr" "get_job d j = Some jr"
    using r by (auto simp: ready_def ws_state_def job_state_def)
  have fail: "settles t w j d (snapshot_audit E a oc au ak sid w jo rs mt ci (snapshot_failed_event E w j sid m
      (touch_workspace E w (mark_job_failed E j m st c (set_snapshot_status sid SN_FAILED d)))))" for a oc au ak sid jo rs mt ci m st c
    using r t by (intro settlesI) (auto simp: view)
  show ?thesis using rows fail snapshot_created_settles [OF r t] snapshot_failed_settles [OF r t] load_snapshot_settles [OF r t]
    by (auto simp: lift_db_ok execute_snapshot_create_job_def Let_def split: sum.splits if_splits option.splits)
qed

lemma snapshot_restore_settles:
  assumes r: "ready w j d" and t: "\<not> lifecycle_job_type t"
  shows "body_ok t w j d (lift_db d (execute_snapshot_restore_job E X orc w j d))"
proof -
  obtain wr jr where rows: "get_ws d w = Some wr" "get_job d j = Some jr"
    using r by (auto simp: ready_def ws_state_def job_state_def)
  have fail: "settles t w j d (snapshot_failed_event E w j sid m (restore_failed E w j sid m c d))" for sid m c
    using settles_after [OF restore_failed_settles [OF r t] record_ops_same(7)] .
  show ?thesis using rows fail snapshot_restored_settles [OF r t] restore_failed_settles [OF r t] load_snapshot_settles [OF r t]
    by (auto simp: lift_db_ok execute_snapshot_restore_job_def Let_def split: sum.splits if_splits option.splits)
qed

lemma repo_import_settles:
  "ready w j d \<Longrightarrow> \<not> lifecycle_job_type t \<Longrightarrow> body_ok t w j d (lift_db d (execute_repo_import_job E X w j d))"
  by (auto simp: lift_db_ok execute_repo_import_job_def succeeded_settles split: if_splits option.splits sum.splits bool.splits)

section \<open>Dispatch\<close>

lemma lift_body_ok: "body_ok t w j d (lift_body d r) \<longleftrightarrow> (\<forall>d' c. r = Inr (d', c) \<longrightarrow> settles t w j d d')"
  by (simp add: lift_body_def split: sum.split)

lemma invalid_limits_settles:
  "ready w j d \<Longrightarrow> settles t w j d (fail_workspace E w c m (mark_job_failed E j m st c2 d))"
  by (rule settlesI) (auto simp: view)

lemma bringup_job_settles:
  assumes "ready (ws_id w) (job_id j) d" "job_type j \<in> {JT_CREATE, JT_START}"
  shows "body_ok (job_type j) (ws_id w) (job_id j) d (execute_bringup_job E X orc w j d)"
proof -
  have target: "WS_RUNNING \<in> job_target (job_type j)" using assms(2) by auto
  show ?thesis using bringup_settles [OF assms(1) _ target] invalid_limits_settles [OF assms(1)]
    by (auto simp: execute_bringup_job_def Let_def split: sum.split option.split)
qed

lemma job_body_settles:
  assumes r: "ready (ws_id w) (job_id j) d"
  shows "body_ok (job_type j) (ws_id w) (job_id j) d (execute_job_body E X orc w j d)"
proof -
  note r' = reconcile_job_settles [OF r] snapshot_create_settles [OF r] snapshot_restore_settles [OF r]
    repo_import_settles [OF r] bringup_job_settles [OF r]
  have "body_ok JT_DELETE (ws_id w) (job_id j) d (lift_body d (case x of Inl e \<Rightarrow> Inl e
      | Inr res \<Rightarrow> Inr (finalize_delete_result E (ws_id w) (job_id j) res d)))" for x
    using delete_settles(1) [OF r] by (cases x) (auto simp: lift_body_def)
  moreover have "body_ok JT_STOP (ws_id w) (job_id j) d (lift_body d (case x of Inl e \<Rightarrow> Inl e
      | Inr res \<Rightarrow> Inr (finalize_stop_result E (ws_id w) (job_id j) res d)))" for x
    using stop_settles [OF r] by (auto simp: lift_body_ok split: sum.splits)
  moreover have "body_ok JT_RESTART (ws_id w) (job_id j) d (lift_body d (case x of Inl e \<Rightarrow> Inl e
      | Inr res \<Rightarrow> finalize_restart_result E (ws_id w) (job_id j) cv res d))" for x cv
    using restart_settles [OF r] by (auto simp: lift_body_ok split: sum.splits)
  moreover have "body_ok JT_UPDATE (ws_id w) (job_id j) d (lift_body d (case x of Inl e \<Rightarrow> Inl e
      | Inr res \<Rightarrow> finalize_update_result E (ws_id w) (job_id j) res d))" for x
    using update_settles [OF r] by (auto simp: lift_body_ok split: sum.splits)
  ultimately show ?thesis using r'
    by (cases "job_type j") (auto simp: execute_job_body_def Let_def lifecycle_job_type_def split: option.split)
qed

section \<open>Exceptions and failed placements\<close>

lemma park_settles:
  assumes "ready w j d" "lifecycle_job_type t" "sched = try_schedule_capacity_retry E j m \<or> sched = try_schedule_node_readiness_retry E j m"
    and "fst (sched d)"
  shows "settles t w j d (park_workspace E w pm rs (snd (sched d)))"
  using assms by (intro settlesI) (auto simp: view)

lemma capacity_declined: "\<not> fst (try_schedule_capacity_retry E j m d) \<Longrightarrow> snd (try_schedule_capacity_retry E j m d) = d"
  using capacity_retry.declined [of E j m d] by (cases "try_schedule_capacity_retry E j m d") auto

lemma readiness_declined:
  "\<not> fst (try_schedule_node_readiness_retry E j m d) \<Longrightarrow> snd (try_schedule_node_readiness_retry E j m d) = d"
  using readiness_retry.declined [of E j m d] by (cases "try_schedule_node_readiness_retry E j m d") auto

lemma retry_or_fail_settles:
  assumes r: "ready w j d"
  shows "settles t w j d (let (sch, d1) = try_schedule_workspace_job_retry E j m st c d in
           if sch then touch_workspace E w d1 else fail_job_and_workspace E w j m st jc wc d1)"
  using touched_retry_settles [OF r] fail_job_and_workspace_settles [OF r] declined_same
  by (cases "fst (try_schedule_workspace_job_retry E j m st c d)") (simp_all add: split_beta)

lemma placement_failure_settles:
  assumes r: "ready w j d" and e: "(\<exists>m. e = NoSchedulableNodeError m) \<longrightarrow> lifecycle_job_type t"
  shows "settles t w j d (fail_job_from_placement E w j e rs d)"
proof (cases "\<exists>m. e = NoSchedulableNodeError m")
  case True
  then show ?thesis using e park_settles [OF r, of t "try_schedule_capacity_retry E j CAPACITY_WAIT_MESSAGE" E CAPACITY_WAIT_MESSAGE]
      fail_job_and_workspace_settles [OF r] capacity_declined
    by (cases "fst (try_schedule_capacity_retry E j CAPACITY_WAIT_MESSAGE d)")
      (auto simp: fail_job_from_placement_def split_beta Let_def)
next
  case False
  then have "fail_job_from_placement E w j e rs d =
      (let (sch, d1) = try_schedule_workspace_job_retry E j (error_text e) (fst (classify_placement_error e)) (Some rs) d in
       if sch then touch_workspace E w d1
       else fail_job_and_workspace E w j (error_text e) (fst (classify_placement_error e)) rs ''PLACEMENT_FAILED'' d1)"
    unfolding fail_job_from_placement_def Let_def by (cases e) auto
  then show ?thesis using retry_or_fail_settles [OF r] by simp
qed

lemma readiness_settles:
  assumes r: "ready w j d" and t: "lifecycle_job_type t"
  shows "settles t w j d (await_node_readiness E w j key rs wc d)"
proof -
  have same: "same_rows d (mark_node_not_ready_for_retry E key rs d)" by simp
  note r1 = ready_same [OF same r]
  let ?d = "mark_node_not_ready_for_retry E key rs d"
  have "settles t w j ?d (await_node_readiness E w j key rs wc d)"
    using t park_settles [OF r1, of t "try_schedule_node_readiness_retry E j NODE_READINESS_WAIT_MESSAGE" E NODE_READINESS_WAIT_MESSAGE]
      fail_job_and_workspace_settles [OF r1] readiness_declined
    by (cases "fst (try_schedule_node_readiness_retry E j NODE_READINESS_WAIT_MESSAGE ?d)")
      (auto simp: await_node_readiness_def split_beta Let_def)
  then show ?thesis using same by (rule settles_before)
qed

lemma readiness_lifecycle: "node_readiness_retry_allowed t \<Longrightarrow> lifecycle_job_type t"
  by (auto simp: node_readiness_retry_allowed_def lifecycle_job_type_def)

lemma binding_failure_settles:
  assumes r: "ready w j d"
  shows "settles (job_type_of d j) w j d (fail_job_from_orchestrator_binding E w j m d)"
  using readiness_settles [OF r readiness_lifecycle] retry_or_fail_settles [OF r]
  by (auto simp: fail_job_from_orchestrator_binding_def Let_def split_beta)

lemma exception_settles:
  assumes r: "ready w (job_id j) d"
  shows "settles (job_type j) w (job_id j) d (handle_orchestrator_exception E orc w j e d)"
proof -
  define d1 where "d1 = (case e of WorkspaceBringUpError _ attempted rb_ok rb_issues cid cstate \<Rightarrow>
                  if attempted then sync_runtime_after_bringup_exception E w rb_ok rb_issues cid cstate d else d
                | _ \<Rightarrow> d)"
  have same: "same_rows d d1" by (simp add: d1_def split: orch_exn.split)
  note r1 = ready_same [OF same r]
  have snap: "settles (job_type j) w (job_id j) d1 (touch_workspace E w (settle_failed_snapshot j
      (mark_job_failed E (job_id j) m st c d1)))" if "snapshot_job_type (job_type j)" for m st c
    using r1 that
    by (intro settlesI) (auto simp: settle_failed_snapshot_def snapshot_job_type_def lifecycle_job_type_def view split: option.split)
  have "settles (job_type j) w (job_id j) d1 (handle_orchestrator_exception E orc w j e d)"
    unfolding handle_orchestrator_exception_def Let_def d1_def [symmetric]
    using readiness_settles [OF r1 readiness_lifecycle] touched_retry_settles [OF r1] fail_job_and_workspace_settles [OF r1]
      snap declined_same
    by (auto simp: split_beta)
  then show ?thesis using same by (rule settles_before)
qed

lemma emit_same: "same_rows d (emit_job_outcome_event E w j d)"
proof -
  have "same_rows d d' \<Longrightarrow> same_rows d (fold (\<lambda>(ev, msg). log_event E w ev s (Some msg) p) evs d')" for s p evs d'
    by (induction evs arbitrary: d') (auto simp: split_beta)
  then show ?thesis by (simp add: emit_job_outcome_event_def split: option.split)
qed

lemma settles_emit: "settles t w j d d1 \<Longrightarrow> settles t w j d (emit_job_outcome_event E w j d1)"
  using settles_after emit_same by blast

lemma body_exception_settles:
  assumes "body_ok (job_type j) w (job_id j) d (Inl (e, d2))" "ready w (job_id j) d"
  shows "settles (job_type j) w (job_id j) d (handle_orchestrator_exception E orc w j e d2)"
    and "settles (job_type j) w (job_id j) d (fail_job_and_workspace E w (job_id j) m st jc wc d2)"
  using assms settles_before [OF exception_settles [OF ready_same]] settles_before [OF fail_job_and_workspace_settles [OF ready_same]]
  by auto

text \<open>From the orchestrator call on, the rows the worker holds need not be the current ones; what counts is their identity.\<close>

lemma finished_job_settles:
  assumes r: "ready (ws_id w) (job_id j) d" and run: "finish_claimed_job E X orc w j d = Inr (d', calls)"
  shows "settles (job_type j) (ws_id w) (job_id j) d d'"
proof -
  have body: "body_ok (job_type j) (ws_id w) (job_id j) d (execute_job_body E X orc w j d)" by (rule job_body_settles [OF r])
  show ?thesis
  proof (cases "execute_job_body E X orc w j d")
    case (Inl p)
    obtain e d2 where p: "p = (e, d2)" by fastforce
    note ok = body_exception_settles [OF body [unfolded Inl p] r]
    show ?thesis using run Inl p settles_emit [OF ok(1)] settles_emit [OF ok(2)]
      by (cases e) (auto simp: finish_claimed_job_def Let_def)
  next
    case (Inr q)
    then show ?thesis using run body settles_emit by (auto simp: finish_claimed_job_def Let_def split: prod.splits)
  qed
qed

lemma log_running_same: "same_rows d (log_job_running E w j d)"
  by (simp add: log_job_running_def)

lemma claimed_job_settles:
  assumes rows: "get_job d jid = Some j" "get_ws d (job_workspace_id j) = Some w"
    and run: "process_claimed_running_job E X orc jid d = Inr (d', calls)"
  shows "settles (job_type j) (ws_id w) jid d d'"
proof -
  have id: "job_id j = jid" "job_workspace_id j = ws_id w" using rows get_key(1,2) by auto
  have r: "ready (ws_id w) (job_id j) (log_job_running E w j d)"
    by (rule ready_same [OF log_running_same]) (use rows id in \<open>simp add: ready_def ws_state_def job_state_def\<close>)
  have "finish_claimed_job E X orc w j (log_job_running E w j d) = Inr (d', calls)"
    using run rows id by (simp add: process_claimed_running_job_def)
  from finished_job_settles [OF r this] show ?thesis using settles_before [OF _ log_running_same] id by simp
qed

section \<open>One job from claim to outcome\<close>

lemma same_but_nodes_rows: "same_but_nodes d d' \<Longrightarrow> same_rows d d'"
  using keys_ok_same_keys [of node_pk "nodes d'" "nodes d"]
  by (auto simp: same_but_nodes_def same_rows_def db_keys_ok_def)

definition no_capacity_error :: "'a result \<Rightarrow> bool" where
  "no_capacity_error r \<longleftrightarrow> (\<exists>m d. r = Inl (NoSchedulableNodeError m, d))"

lemma no_capacity_simps [simp]:
  "\<not> no_capacity_error (Inr p)"
  "no_capacity_error (Inl (e, d)) \<longleftrightarrow> (\<exists>m. e = NoSchedulableNodeError m)"
  by (auto simp: no_capacity_error_def)

lemma no_capacity_andthen:
  "no_capacity_error (andthen m f) \<longleftrightarrow> no_capacity_error m \<or> (\<exists>a d. m = Inr (a, d) \<and> no_capacity_error (f a d))"
  by (auto simp: andthen_def no_capacity_error_def split: sum.splits)

lemma no_capacity_parts [simp]:
  "\<not> no_capacity_error (validate_topology_catalog_exists t d)"
  "\<not> no_capacity_error (node_topology E msg n d)"
  "\<not> no_capacity_error (env_placement E d)"
  by (auto simp: validate_topology_catalog_exists_def node_topology_def env_placement_def Let_def no_capacity_andthen
      split: option.split)

lemma no_capacity_snapshot [simp]: "\<not> no_capacity_error (snapshot_placement_from_runtime_or_workspace E w rt d)"
  by (simp add: snapshot_placement_from_runtime_or_workspace_def Let_def no_capacity_andthen split: option.split)

lemma placement_no_capacity:
  "no_capacity_error (resolve_orchestrator_placement E w j d) \<Longrightarrow> job_type j \<in> {JT_CREATE, JT_START}"
  by (auto simp: resolve_orchestrator_placement_def Let_def no_capacity_andthen split: if_splits option.splits)

lemma bind_orchestrator_effect:
  "bind_orchestrator E mk w j d = Inr (orc, d') \<Longrightarrow> same_rows d d'"
  "bind_orchestrator E mk w j d = Inl (e, d') \<Longrightarrow>
     same_rows d d' \<and> ((\<exists>m. e = NoSchedulableNodeError m) \<longrightarrow> lifecycle_job_type (job_type j))"
  using resolve_placed_ok [of d E w j] placement_no_capacity [of E w j d, unfolded no_capacity_error_def]
  by (auto simp: bind_orchestrator_def andthen_Inr andthen_Inl same_but_nodes_rows lifecycle_job_type_def
      split: if_splits sum.splits)

text \<open>The autoscaler's reaction leaves workspaces and jobs alone.\<close>

definition provision_contained :: "outside \<Rightarrow> bool" where
  "provision_contained X \<longleftrightarrow> (\<forall>d. same_rows d (x_provision X d))"

lemma binding_error_settles:
  assumes r: "ready w (job_id j) d" and X: "provision_contained X"
    and job: "get_job d (job_id j) = Some j"
    and e: "(\<exists>m. e = NoSchedulableNodeError m) \<longrightarrow> lifecycle_job_type (job_type j)"
    and out: "settle_binding_error E X w j e d = Inr (d', calls)"
  shows "settles (job_type j) w (job_id j) d d'"
proof (cases e)
  case (AppOrchestratorBindingError m)
  have "job_type_of d (job_id j) = job_type j" using job by (simp add: job_type_of_def)
  then have "settles (job_type j) w (job_id j) d (fail_job_from_orchestrator_binding E w (job_id j) m d)"
    using binding_failure_settles [OF r] by metis
  then show ?thesis using settles_emit out AppOrchestratorBindingError
    by (auto simp: settle_binding_error_def Let_def)
next
  case (NoSchedulableNodeError m)
  let ?d = "x_provision X (record_placement_failed_scale_out_signal E w j m d)"
  have same: "same_rows d ?d"
    using X same_rows_trans [OF record_ops_same(4) [of d E w j m]] by (auto simp: provision_contained_def)
  have "settles (job_type j) w (job_id j) ?d (fail_job_from_placement E w (job_id j) e rs ?d)" for rs
    by (rule placement_failure_settles [OF ready_same [OF same r] e])
  then show ?thesis using settles_emit settles_before [OF _ same] out NoSchedulableNodeError
    by (auto simp: settle_binding_error_def Let_def)
qed (use placement_failure_settles [OF r e] settles_emit out in \<open>auto simp: settle_binding_error_def Let_def placement_error_def\<close>)

lemma settles_begin:
  assumes "settles t w j (begin_create_bringup_after_placement E w t d) d'"
  shows "settles t w j d d'"
proof -
  have conf: "confined w j d (begin_create_bringup_after_placement E w t d)" by (simp add: view)
  from assms obtain s s' js where s: "ws_state (begin_create_bringup_after_placement E w t d) w = Some s"
    and o: "confined w j (begin_create_bringup_after_placement E w t d) d'" "ws_state d' w = Some s'" "job_state d' j = Some js"
      "good_outcome t s s' js"
    by (auto simp: settles_def)
  obtain s0 where s0: "ws_state d w = Some s0" and eq: "s = s0 \<or> (t = JT_CREATE \<and> s = WS_CREATING)"
    using s by (auto simp: view split: if_splits)
  from eq have "good_outcome t s0 s' js"
  proof
    assume "t = JT_CREATE \<and> s = WS_CREATING"
    then show ?thesis using o(4) by (cases js; cases "fst js") (auto simp: lifecycle_job_type_def)
  qed (use o(4) in simp)
  then show ?thesis using s0 o confined_trans [OF conf o(1)] unfolding settles_def by blast
qed

lemma run_claimed_settles:
  assumes rows: "get_job d jid = Some j" "get_ws d (job_workspace_id j) = Some w"
    and X: "provision_contained (tk_out T)" and run: "run_claimed T b jid d = Inr (d', calls)"
  shows "settles (job_type j) (ws_id w) jid d d'"
proof -
  define E where "E = correlation_scope (job_correlation_id j) (tk_env T)"
  have id: "job_id j = jid" "job_workspace_id j = ws_id w" using rows get_key(1,2) by auto
  have r: "ready (ws_id w) jid d" using rows id by (simp add: ready_def ws_state_def job_state_def)
  note unf = run_claimed_def Let_def E_def [symmetric] split_beta
  show ?thesis
  proof (cases "b \<and> job_type j = JT_DELETE \<and> runtime_row d (ws_id w) = None")
    case True
    then show ?thesis using settles_emit [OF delete_settles(2) [OF r]] run rows id by (auto simp: unf)
  next
    case False
    show ?thesis
    proof (cases "bind_orchestrator E (tk_orch T) w j d")
      case (Inl p)
      obtain e d1 where p: "p = (e, d1)" by fastforce
      note eff = bind_orchestrator_effect(2) [OF Inl [unfolded p]]
      have "settle_binding_error E (tk_out T) (ws_id w) j e d1 = Inr (d', calls)" using run rows id False Inl p by (auto simp: unf)
      then have "settles (job_type j) (ws_id w) (job_id j) d1 d'"
        by (rule binding_error_settles [rotated -1]) (use eff r id X rows in \<open>auto simp: same_rows_state(3) intro: ready_same\<close>)
      then show ?thesis using eff id by (auto intro: settles_before)
    next
      case (Inr q)
      obtain orc d1 where q: "q = (orc, d1)" by fastforce
      note same = bind_orchestrator_effect(1) [OF Inr [unfolded q]]
      let ?d = "begin_create_bringup_after_placement E (ws_id w) (job_type j) d1"
      have run': "process_claimed_running_job E (tk_out T) orc jid ?d = Inr (d', calls)"
        using run rows id False Inr q by (auto simp: unf)
      have j': "get_job ?d jid = Some j" using rows same by (simp add: view same_rows_state(3))
      obtain w' where w': "get_ws ?d (job_workspace_id j) = Some w'"
        using rows same id confined_ws_ops(6) [OF confined_refl, of "ws_id w" jid d1 E "job_type j"]
        by (auto simp: confined_def same_rows_state(4))
      have "settles (job_type j) (ws_id w') jid ?d d'" by (rule claimed_job_settles [OF j' w' run'])
      moreover have "ws_id w' = ws_id w" using w' id get_key(1) by metis
      ultimately show ?thesis using settles_before [OF settles_begin _] same by metis
    qed
  qed
qed

end
