(* ===== verification/Intent_Correct.thy ===== *)
theory Intent_Correct
  imports Failure
begin

text \<open>
  Properties of the intent service, the secrets and the workspace URLs. The lifecycle requests are
  specified by a transition table: for every request the states it is allowed from, the transitional
  state it moves to and the job it queues. The handlers are shown to follow the table.
\<close>

section \<open>The transition table\<close>

datatype lifecycle = LStart | LStop | LRestart | LDelete

fun lifecycle_sources :: "lifecycle \<Rightarrow> ws_status set" where
  "lifecycle_sources LStart = {WS_STOPPED, WS_ERROR}"
| "lifecycle_sources LStop = {WS_RUNNING}"
| "lifecycle_sources LRestart = {WS_RUNNING, WS_STOPPED}"
| "lifecycle_sources LDelete = {WS_RUNNING, WS_STOPPED, WS_ERROR, WS_DELETED}"

fun lifecycle_status :: "lifecycle \<Rightarrow> ws_status" where
  "lifecycle_status LStart = WS_STARTING"
| "lifecycle_status LStop = WS_STOPPING"
| "lifecycle_status LRestart = WS_RESTARTING"
| "lifecycle_status LDelete = WS_DELETING"

fun lifecycle_job :: "lifecycle \<Rightarrow> job_type" where
  "lifecycle_job LStart = JT_START"
| "lifecycle_job LStop = JT_STOP"
| "lifecycle_job LRestart = JT_RESTART"
| "lifecycle_job LDelete = JT_DELETE"

fun request_lifecycle ::
  "lifecycle \<Rightarrow> host_fs \<Rightarrow> env \<Rightarrow> int \<Rightarrow> int \<Rightarrow> int \<Rightarrow> string option \<Rightarrow> db \<Rightarrow> intent_result result" where
  "request_lifecycle LStart fs E wid owner uid co d = request_start_workspace fs E wid owner uid co d"
| "request_lifecycle LStop fs E wid owner uid co d = request_stop_workspace E wid owner uid co d"
| "request_lifecycle LRestart fs E wid owner uid co d = request_restart_workspace fs E wid owner uid co d"
| "request_lifecycle LDelete fs E wid owner uid co d = request_delete_workspace E wid owner uid co d"

lemma lifecycle_persisted:
  assumes "request_lifecycle a fs E wid owner uid co d = Inr (r, d')"
  obtains w v where "get_ws d wid = Some w" "ws_owner_user_id w = owner" "ws_status w \<in> lifecycle_sources a"
    "latest_config_version d wid = Some v"
    "persist_intent E w (lifecycle_status a) (lifecycle_job a) uid v co d = Inr (r, d')"
  using assms
  by (cases a) (auto simp: request_defs request_Inr dest!: reopen_Inr)

lemma lifecycle_refused:
  assumes "request_lifecycle a fs E wid owner uid co d = Inl (e, d')"
  shows "refused d d'"
  using assms
  by (cases a)
    (auto simp: request_defs andthen_Inl andthen_Inr not_busy_Inr not_busy_Inl config_version_Inr
      dest!: with_owned_Inl reopen_Inr persist_intent_refuse reopen_Inl config_version_Inl)

text \<open>C6: an accepted start, stop, restart or delete request follows the transition table: the workspace
  belongs to the caller and was in an allowed, settled state; it moves to the transitional state of the
  request, exactly one queued job of the matching type is appended for the latest configuration
  version, one event and one audit row are written, and nothing else changes.\<close>

theorem lifecycle_intent_accepted:
  assumes "request_lifecycle a fs E wid owner uid co d = Inr (r, d')"
  shows "\<exists>w v. get_ws d wid = Some w \<and> ws_owner_user_id w = owner \<and> ws_status w \<in> lifecycle_sources a
    \<and> \<not> busy (ws_status w) \<and> latest_config_version d wid = Some v
    \<and> accepted E w (lifecycle_status a)
        (new_job E wid (lifecycle_job a) uid v None (effective_correlation_id E co)) d d'
    \<and> length (audits d') = length (audits d) + 1
    \<and> r = \<lparr>ir_workspace_id = wid, ir_status = lifecycle_status a, ir_job_id = seqs d T_JOB,
           ir_job_type = lifecycle_job a, ir_config_version = v\<rparr>"
proof -
  obtain w v where w: "get_ws d wid = Some w" "ws_owner_user_id w = owner" "ws_status w \<in> lifecycle_sources a"
    "latest_config_version d wid = Some v" and p: "persist_intent E w (lifecycle_status a) (lifecycle_job a) uid v co d = Inr (r, d')"
    using assms by (rule lifecycle_persisted)
  have "\<not> busy (ws_status w)" using w(3) by (cases a) (auto simp: busy_def)
  then show ?thesis
    using w persist_intent_accept(1,3,4) [OF p] get_ws_key [OF w(1)] by (intro exI [of _ w] exI [of _ v]) simp
qed

lemma ex_stop_accepted: "\<exists>r d'. request_stop_workspace ex_env 1 7 7 None ex_db = Inr (r, d')"
  by (simp add: request_stop_workspace_def with_owned_def get_owned_workspace_def get_ws_def require_not_busy_def
      busy_def intent_config_version_def latest_config_version_def latest_config_def persist_intent_def Let_def
      case_prod_unfold ex_defs)

theorem lifecycle_intent_accepted_witness:
  "\<exists>r d'. request_lifecycle LStop undefined ex_env 1 7 7 None ex_db = Inr (r, d') \<and> ir_status r = WS_STOPPING
     \<and> ir_job_type r = JT_STOP \<and> length (jobs d') = 1"
proof -
  obtain r d' where a: "request_lifecycle LStop undefined ex_env 1 7 7 None ex_db = Inr (r, d')"
    using ex_stop_accepted by auto
  from lifecycle_intent_accepted [OF a] a show ?thesis
    by (auto simp: accepted_def ex_defs)
qed

text \<open>C8: a refused lifecycle request leaves the database untouched, except that a quota or policy denial
  commits its one audit row; in particular no workspace, job, runtime, session or event changes.\<close>

theorem lifecycle_intent_refused:
  assumes "request_lifecycle a fs E wid owner uid co d = Inl (e, d')"
  shows "d' = d \<or> one_denial d d'"
  using lifecycle_refused [OF assms] by (simp add: refused_def)

theorem lifecycle_intent_refused_witness:
  "\<exists>e d'. request_lifecycle LStop undefined ex_env 1 8 8 None ex_db = Inl (e, d') \<and> (d' = ex_db \<or> one_denial ex_db d')"
proof -
  have a: "request_lifecycle LStop undefined ex_env 1 8 8 None ex_db = Inl (WorkspaceNotFoundError ''Workspace not found'', ex_db)"
    by (simp add: request_stop_workspace_def with_owned_def get_owned_workspace_def get_ws_def ex_defs)
  from lifecycle_intent_refused [OF a] a show ?thesis by blast
qed

text \<open>While a workspace is in a transitional state, every lifecycle request of its owner is rejected as
  busy and changes nothing: a second intent cannot overtake a pending one.\<close>

theorem busy_workspace_refuses_intents:
  assumes "get_ws d wid = Some w" "ws_owner_user_id w = owner" "busy (ws_status w)"
  shows "request_lifecycle a fs E wid owner uid co d
    = Inl (WorkspaceBusyError (''Workspace is busy (status='' @ ws_status_str (ws_status w) @ '')''), d)"
  using assms by (cases a) (auto simp: request_defs with_owned_def get_owned_workspace_def require_not_busy_def busy_def)

theorem busy_workspace_refuses_intents_witness:
  "request_lifecycle LDelete undefined ex_env 1 7 7 None (ex_db_in WS_STARTING)
    = Inl (WorkspaceBusyError (''Workspace is busy (status='' @ ''STARTING'' @ '')''), ex_db_in WS_STARTING)"
  using busy_workspace_refuses_intents [of "ex_db_in WS_STARTING" 1 "ex_ws\<lparr>ws_status := WS_STARTING\<rparr>" 7 LDelete undefined ex_env 7 None]
  by (simp add: get_ws_def busy_def ex_defs)

section \<open>Quota at the door\<close>

lemma count_row_put_le:
  assumes "distinct (map key rows)"
  shows "count_rows P (row_put key r rows) \<le> count_rows (\<lambda>q. P q \<and> key q \<noteq> key r) rows + 1"
  using assms
proof (induction rows)
  case (Cons a rows)
  have none: "row_put key r rows = rows" "filter (\<lambda>q. P q \<and> key q \<noteq> key r) rows = filter P rows" if "key a = key r"
    using that Cons.prems by (auto simp: row_put_def intro!: map_idI filter_cong) (metis image_eqI)+
  have *: "row_put key r (a # rows) = (if key a = key r then r else a) # row_put key r rows" by (simp add: row_put_def)
  show ?case
  proof (cases "key a = key r")
    case True
    then show ?thesis using none by (simp add: count_rows_def *)
  next
    case False
    then show ?thesis using Cons by (simp add: count_rows_def *)
  qed
qed (simp add: row_put_def count_rows_def)

text \<open>C21: the running-workspace quota holds after every accepted start: if the effective quota of the owner
  allows at most so many running workspaces, then after the request is accepted the owner has at most
  that many workspaces that are running, pending, starting or restarting.\<close>

theorem start_respects_running_quota:
  assumes "request_start_workspace fs E wid owner uid co d = Inr (r, d')" "db_keys_ok d"
    and "get_effective_quota d (Some owner) None = Some q" "q_max_running_workspaces q = Some lmt"
  shows "count_rows (\<lambda>w. ws_owner_user_id w = owner \<and> running_ws_status (ws_status w)) (workspaces d') \<le> lmt"
proof -
  let ?P = "\<lambda>w. ws_owner_user_id w = owner \<and> running_ws_status (ws_status w)"
  obtain w v where w: "get_ws d wid = Some w" "ws_owner_user_id w = owner"
    and p: "persist_intent E w WS_STARTING JT_START uid v co d = Inr (r, d')"
    using lifecycle_persisted [of LStart fs E wid owner uid co d r d'] assms(1)
    by (metis lifecycle_job.simps(1) lifecycle_status.simps(1) request_lifecycle.simps(1))
  have id: "ws_id w = wid" by (rule get_ws_key [OF w(1)])
  have "\<exists>c d0. check_running_workspace_quota E owner (Some wid) c d = Inr ((), d0)"
    using p w(2) id by (auto simp: persist_intent_def Let_def andthen_Inr start_guards_def)
  then have lt: "count_rows (\<lambda>q. ?P q \<and> ws_id q \<noteq> wid) (workspaces d) < lmt"
    using assms(3,4) by (auto simp: check_running_workspace_quota_def Let_def conj_assoc neq_commute split: if_splits)
  have dist: "distinct (map ws_id (workspaces d))" using assms(2) by (simp add: db_keys_ok_def keys_ok_def)
  have "workspaces d' = row_put ws_id (w\<lparr>ws_status := WS_STARTING, ws_updated_at := now E\<rparr>) (workspaces d)"
    using persist_intent_accept(1) [OF p] by (simp add: accepted_def)
  then have "count_rows ?P (workspaces d') \<le> count_rows (\<lambda>q. ?P q \<and> ws_id q \<noteq> wid) (workspaces d) + 1"
    using count_row_put_le [OF dist, of ?P "w\<lparr>ws_status := WS_STARTING, ws_updated_at := now E\<rparr>"] id by simp
  then show ?thesis using lt by simp
qed

definition ex_running_quota :: quota where
  "ex_running_quota = \<lparr>q_id = 1, q_scope_type = SCOPE_GLOBAL, q_scope_id = None, q_max_workspaces = None,
     q_max_running_workspaces = Some 1, q_max_cpu = None, q_max_memory_mb = None, q_max_sessions = None,
     q_max_snapshots = None, q_max_runtime_hours = None\<rparr>"

definition ex_stopped_db :: db where
  "ex_stopped_db = (ex_db_in WS_STOPPED)\<lparr>quotas := [ex_running_quota]\<rparr>"

definition ex_fs :: host_fs where
  "ex_fs = \<lparr>fs_realpath = id, fs_is_dir = (\<lambda>_. True), fs_project_data = (\<lambda>_. True)\<rparr>"

lemma ex_start_guards: "start_guards ex_env (ex_ws\<lparr>ws_status := WS_STOPPED\<rparr>) c ex_stopped_db = Inr ((), ex_stopped_db)"
  by (simp add: start_guards_def check_running_workspace_quota_def check_monthly_runtime_hours_quota_def
      check_owner_compute_quota_def evaluate_workspace_start_def load_applicable_policies_def get_effective_quota_def
      proposed_cpu_def proposed_memory_def jget_def latest_config_def count_rows_def running_ws_status_def Let_def
      ex_stopped_db_def ex_running_quota_def ex_defs)

lemma ex_start_accepted: "\<exists>r d'. request_start_workspace ex_fs ex_env 1 7 7 None ex_stopped_db = Inr (r, d')"
proof -
  have w: "get_ws ex_stopped_db 1 = Some (ex_ws\<lparr>ws_status := WS_STOPPED\<rparr>)"
    by (simp add: get_ws_def ex_stopped_db_def ex_defs)
  have v: "latest_config_version ex_stopped_db 1 = Some 1"
    by (simp add: latest_config_version_def latest_config_def ex_stopped_db_def ex_defs)
  have o: "ensure_workspace_reopen_allowed ex_fs ex_env (ex_ws\<lparr>ws_status := WS_STOPPED\<rparr>) ex_stopped_db = Inr ((), ex_stopped_db)"
    by (simp add: ensure_workspace_reopen_allowed_def workspace_project_storage_reopen_assessment_def stale_host_issue_def
        py_strip_def Let_def ex_defs)
  have f: "ws_owner_user_id ex_ws = 7" by (simp add: ex_ws_def)
  show ?thesis
    by (simp add: request_start_workspace_def with_owned_def get_owned_workspace_def w o f require_not_busy_def busy_def
        intent_config_version_def v persist_intent_def ex_start_guards Let_def case_prod_unfold)
qed

theorem start_respects_running_quota_witness:
  "\<exists>r d'. request_start_workspace ex_fs ex_env 1 7 7 None ex_stopped_db = Inr (r, d')
    \<and> count_rows (\<lambda>w. ws_owner_user_id w = 7 \<and> running_ws_status (ws_status w)) (workspaces d') \<le> 1"
proof -
  obtain r d' where a: "request_start_workspace ex_fs ex_env 1 7 7 None ex_stopped_db = Inr (r, d')"
    using ex_start_accepted by blast
  have "db_keys_ok ex_stopped_db" by (simp add: db_keys_ok_def keys_ok_def ex_stopped_db_def ex_defs)
  moreover have "get_effective_quota ex_stopped_db (Some 7) None = Some ex_running_quota"
    by (simp add: get_effective_quota_def ex_stopped_db_def ex_running_quota_def ex_defs)
  ultimately show ?thesis
    using start_respects_running_quota [OF a] a by (simp add: ex_running_quota_def)
qed

end
