(* ===== verification/Flight.thy ===== *)
theory Flight
  imports Job_Run Intent_Correct
begin

text \<open>
  Jobs that are visible while they run. The topology adapter of the orchestrator works on the session of the worker
  (\<^verbatim>\<open>app_factory.py\<close> passes the session to \<^verbatim>\<open>DbTopologyAdapter\<close>) and commits or rolls it back in the middle of a
  job. Sessions are made with \<^verbatim>\<open>expire_on_commit=False\<close>: after such a commit the worker keeps the job and the workspace
  row it has in memory, and its next flush writes the columns that differ from them. A rollback expires them, so they
  are read again. A \<open>flight\<close> is a job in this phase: its claim is decided, the orchestrator is at work, and requests,
  other workers and the reclaiming of stuck jobs may commit before its outcome is written.
\<close>

section \<open>Queuing a repository import\<close>

text \<open>
  \<^verbatim>\<open>import_repo\<close>; the repository table is outside the model, \<open>taken\<close> says that the workspace has a row there. A refusal
  is an HTTP status with its detail.
\<close>

record import_request =
  imp_repo_url :: string
  imp_branch :: string
  imp_clone_dir :: string

definition enqueue_repo_import_job :: "env \<Rightarrow> int \<Rightarrow> int \<Rightarrow> db \<Rightarrow> int \<times> db" where
  "enqueue_repo_import_job E wid owner d =
     add_job ((new_job E wid JT_REPO_IMPORT owner (case latest_config d wid of None \<Rightarrow> 1 | Some c \<Rightarrow> cfg_version c) None [])
       \<lparr>job_correlation_id := None\<rparr>) d"

definition import_repo :: "env \<Rightarrow> bool \<Rightarrow> int \<Rightarrow> import_request \<Rightarrow> int \<Rightarrow> db \<Rightarrow> (int \<times> string) + (int \<times> db)" where
  "import_repo E taken wid body user d =
     (case get_ws d wid of
        None \<Rightarrow> Inl (404, ''Workspace not found'')
      | Some w \<Rightarrow>
          if ws_owner_user_id w \<noteq> user then Inl (403, ''Not your workspace'')
          else if taken
          then Inl (409, ''Workspace already has an associated repository. DELETE it before importing a new one.'')
          else let (jid, d1) = enqueue_repo_import_job E wid user d
               in Inr (jid, record_audit E ''integration.repo.imported'' ''workspace'' AO_SUCCESS (Some user) ACTOR_USER
                    (Some (str_int wid)) (Some wid) None None None
                    [(''repo_url'', JStr (imp_repo_url body)), (''branch'', JStr (imp_branch body)),
                     (''clone_dir'', JStr (imp_clone_dir body))] None d1))"

section \<open>Flights\<close>

record flight =
  fl_env :: env
  fl_out :: outside
  fl_orch :: "orch option"
  fl_job :: job
  fl_ws :: workspace

abbreviation fl_id :: "flight \<Rightarrow> int" where
  "fl_id f \<equiv> job_id (fl_job f)"

text \<open>
  A claimed job up to its orchestrator call: placement, binding, the status of a creation, the started event. The flight
  holds the rows as they are then. Jobs that end before the call, because the workspace is gone, the binding fails or a
  deletion has nothing to stop, do not take off.
\<close>

definition depart :: "tick \<Rightarrow> bool \<Rightarrow> int \<Rightarrow> db \<Rightarrow> (flight \<times> db) option" where
  "depart T shortcut jid d =
     (case get_job d jid of
        None \<Rightarrow> None
      | Some j \<Rightarrow>
          let E = correlation_scope (job_correlation_id j) (tk_env T); wid = job_workspace_id j in
          (case get_ws d wid of
             None \<Rightarrow> None
           | Some w \<Rightarrow>
               if shortcut \<and> job_type j = JT_DELETE \<and> runtime_row d wid = None then None
               else case bind_orchestrator E (tk_orch T) w j d of
                 Inl _ \<Rightarrow> None
               | Inr (orc_opt, d1) \<Rightarrow>
                   let d2 = begin_create_bringup_after_placement E wid (job_type j) d1 in
                   (case (get_job d2 jid, get_ws d2 wid) of
                      (Some j2, Some w2) \<Rightarrow>
                        Some (\<lparr>fl_env = E, fl_out = tk_out T, fl_orch = orc_opt, fl_job = j2, fl_ws = w2\<rparr>,
                              log_job_running E w2 j2 d2)
                    | _ \<Rightarrow> None)))"

text \<open>The columns of an \<^verbatim>\<open>UPDATE\<close> are those whose value in memory differs from the value that was loaded.\<close>

definition changed :: "'a \<Rightarrow> 'a \<Rightarrow> 'a \<Rightarrow> 'a" where
  "changed loaded new stored = (if new = loaded then stored else new)"

definition merge_ws :: "workspace \<Rightarrow> workspace \<Rightarrow> workspace \<Rightarrow> workspace" where
  "merge_ws a b c =
     \<lparr>ws_id = ws_id c,
      ws_execution_node_id = changed (ws_execution_node_id a) (ws_execution_node_id b) (ws_execution_node_id c),
      ws_project_storage_key = changed (ws_project_storage_key a) (ws_project_storage_key b) (ws_project_storage_key c),
      ws_name = changed (ws_name a) (ws_name b) (ws_name c),
      ws_url_slug = changed (ws_url_slug a) (ws_url_slug b) (ws_url_slug c),
      ws_description = changed (ws_description a) (ws_description b) (ws_description c),
      ws_owner_user_id = changed (ws_owner_user_id a) (ws_owner_user_id b) (ws_owner_user_id c),
      ws_status = changed (ws_status a) (ws_status b) (ws_status c),
      ws_status_reason = changed (ws_status_reason a) (ws_status_reason b) (ws_status_reason c),
      ws_last_error_code = changed (ws_last_error_code a) (ws_last_error_code b) (ws_last_error_code c),
      ws_last_error_message = changed (ws_last_error_message a) (ws_last_error_message b) (ws_last_error_message c),
      ws_endpoint_ref = changed (ws_endpoint_ref a) (ws_endpoint_ref b) (ws_endpoint_ref c),
      ws_public_host = changed (ws_public_host a) (ws_public_host b) (ws_public_host c),
      ws_gateway_path_prefix = changed (ws_gateway_path_prefix a) (ws_gateway_path_prefix b) (ws_gateway_path_prefix c),
      ws_active_sessions_count = changed (ws_active_sessions_count a) (ws_active_sessions_count b) (ws_active_sessions_count c),
      ws_is_private = changed (ws_is_private a) (ws_is_private b) (ws_is_private c),
      ws_created_at = changed (ws_created_at a) (ws_created_at b) (ws_created_at c),
      ws_updated_at = changed (ws_updated_at a) (ws_updated_at b) (ws_updated_at c),
      ws_last_started = changed (ws_last_started a) (ws_last_started b) (ws_last_started c),
      ws_last_stopped = changed (ws_last_stopped a) (ws_last_stopped b) (ws_last_stopped c)\<rparr>"

definition merge_job :: "job \<Rightarrow> job \<Rightarrow> job \<Rightarrow> job" where
  "merge_job a b c =
     \<lparr>job_id = job_id c,
      job_workspace_id = changed (job_workspace_id a) (job_workspace_id b) (job_workspace_id c),
      job_snapshot_id = changed (job_snapshot_id a) (job_snapshot_id b) (job_snapshot_id c),
      job_type = changed (job_type a) (job_type b) (job_type c),
      job_status = changed (job_status a) (job_status b) (job_status c),
      job_requested_by = changed (job_requested_by a) (job_requested_by b) (job_requested_by c),
      job_config_version = changed (job_config_version a) (job_config_version b) (job_config_version c),
      job_attempt = changed (job_attempt a) (job_attempt b) (job_attempt c),
      job_error_msg = changed (job_error_msg a) (job_error_msg b) (job_error_msg c),
      job_created_at = changed (job_created_at a) (job_created_at b) (job_created_at c),
      job_started_at = changed (job_started_at a) (job_started_at b) (job_started_at c),
      job_finished_at = changed (job_finished_at a) (job_finished_at b) (job_finished_at c),
      job_correlation_id = changed (job_correlation_id a) (job_correlation_id b) (job_correlation_id c),
      job_max_attempts = changed (job_max_attempts a) (job_max_attempts b) (job_max_attempts c),
      job_failure_stage = changed (job_failure_stage a) (job_failure_stage b) (job_failure_stage c),
      job_failure_code = changed (job_failure_code a) (job_failure_code b) (job_failure_code c),
      job_next_attempt_after = changed (job_next_attempt_after a) (job_next_attempt_after b) (job_next_attempt_after c)\<rparr>"

text \<open>What the worker sees, and what its last transaction makes of the stored rows \<open>w\<close> and \<open>j\<close>.\<close>

definition seen_by :: "flight \<Rightarrow> db \<Rightarrow> db" where
  "seen_by f d = put_ws (fl_ws f) (put_job (fl_job f) d)"

definition write_back :: "flight \<Rightarrow> workspace \<Rightarrow> job \<Rightarrow> db \<Rightarrow> db" where
  "write_back f w j d =
     (case (get_ws d (ws_id (fl_ws f)), get_job d (fl_id f)) of
        (Some w', Some j') \<Rightarrow> put_ws (merge_ws (fl_ws f) w' w) (put_job (merge_job (fl_job f) j' j) d)
      | _ \<Rightarrow> d)"

text \<open>The rest of the job. An \<^verbatim>\<open>UPDATE\<close> of a row that is gone raises.\<close>

definition land :: "flight \<Rightarrow> db \<Rightarrow> orch_exn + fin" where
  "land f d =
     (case (get_ws d (ws_id (fl_ws f)), get_job d (fl_id f)) of
        (Some w, Some j) \<Rightarrow>
          (case finish_claimed_job (fl_env f) (fl_out f) (fl_orch f) (fl_ws f) (fl_job f) (seen_by f d) of
             Inl e \<Rightarrow> Inl e
           | Inr (d', calls) \<Rightarrow> Inr (write_back f w j d', calls))
      | _ \<Rightarrow> Inl (OtherException ''StaleDataError''))"

text \<open>The flight with the rows read again, after a rollback of its session.\<close>

definition reread :: "workspace \<Rightarrow> job \<Rightarrow> flight \<Rightarrow> flight" where
  "reread w j f = f\<lparr>fl_ws := w, fl_job := j\<rparr>"

section \<open>A flight that nothing disturbs\<close>

lemma row_put_stored: "distinct (map key rows) \<Longrightarrow> row_find key k rows = Some r \<Longrightarrow> row_put key r rows = rows"
  using row_find_unique [of key rows k r] row_find_Some_key [of key k rows r] unfolding row_put_def by (intro map_idI) metis

lemma put_stored:
  "db_keys_ok d \<Longrightarrow> get_ws d k = Some w \<Longrightarrow> put_ws w d = d"
  "db_keys_ok d \<Longrightarrow> get_job d i = Some j \<Longrightarrow> put_job j d = d"
  by (simp_all add: put_ws_def put_job_def get_ws_def get_job_def db_keys_ok_def keys_ok_def row_put_stored)

lemma changed_simps [simp]: "changed a b a = b" "changed a a c = c" "changed a b b = b"
  by (auto simp: changed_def)

lemma merge_current [simp]: "ws_id w' = ws_id w \<Longrightarrow> merge_ws w w' w = w'" "job_id j' = job_id j \<Longrightarrow> merge_job j j' j = j'"
  by (simp_all add: merge_ws_def merge_job_def)

lemma merge_keys [simp]:
  "ws_id (merge_ws a b c) = ws_id c" "ws_status (merge_ws a b c) = changed (ws_status a) (ws_status b) (ws_status c)"
  "job_id (merge_job i j k) = job_id k" "job_status (merge_job i j k) = changed (job_status i) (job_status j) (job_status k)"
  "job_type (merge_job i j k) = changed (job_type i) (job_type j) (job_type k)"
  "job_workspace_id (merge_job i j k) = changed (job_workspace_id i) (job_workspace_id j) (job_workspace_id k)"
  by (simp_all add: merge_ws_def merge_job_def)

text \<open>What a flight holds when it takes off, and that taking off is the first part of \<open>run_claimed\<close>.\<close>

lemma depart_cases:
  assumes "depart T b jid d = Some (f, d')"
  shows "\<exists>j w d1. get_job d jid = Some j \<and> get_ws d (job_workspace_id j) = Some w \<and>
    bind_orchestrator (fl_env f) (tk_orch T) w j d = Inr (fl_orch f, d1) \<and>
    get_job (begin_create_bringup_after_placement (fl_env f) (job_workspace_id j) (job_type j) d1) jid = Some (fl_job f) \<and>
    get_ws (begin_create_bringup_after_placement (fl_env f) (job_workspace_id j) (job_type j) d1) (job_workspace_id j) = Some (fl_ws f) \<and>
    d' = log_job_running (fl_env f) (fl_ws f) (fl_job f)
       (begin_create_bringup_after_placement (fl_env f) (job_workspace_id j) (job_type j) d1) \<and>
    fl_env f = correlation_scope (job_correlation_id j) (tk_env T) \<and> fl_out f = tk_out T \<and>
    \<not> (b \<and> job_type j = JT_DELETE \<and> runtime_row d (job_workspace_id j) = None)"
  using assms by (auto simp: depart_def Let_def split: option.splits if_splits sum.splits)

lemma undisturbed_flight:
  assumes "depart T b jid d = Some (f, d')" "db_keys_ok d"
  shows "land f d' = run_claimed T b jid d"
proof -
  obtain j w d1 where 1: "get_job d jid = Some j" "get_ws d (job_workspace_id j) = Some w"
    "bind_orchestrator (fl_env f) (tk_orch T) w j d = Inr (fl_orch f, d1)"
    "get_job (begin_create_bringup_after_placement (fl_env f) (job_workspace_id j) (job_type j) d1) jid = Some (fl_job f)"
    "get_ws (begin_create_bringup_after_placement (fl_env f) (job_workspace_id j) (job_type j) d1) (job_workspace_id j) = Some (fl_ws f)"
    "d' = log_job_running (fl_env f) (fl_ws f) (fl_job f)
       (begin_create_bringup_after_placement (fl_env f) (job_workspace_id j) (job_type j) d1)"
    "fl_env f = correlation_scope (job_correlation_id j) (tk_env T)" "fl_out f = tk_out T"
    "\<not> (b \<and> job_type j = JT_DELETE \<and> runtime_row d (job_workspace_id j) = None)"
    using depart_cases [OF assms(1)] by blast
  note same1 = bind_orchestrator_effect(1) [OF 1(3)]
  let ?d2 = "begin_create_bringup_after_placement (fl_env f) (job_workspace_id j) (job_type j) d1"
  have key: "fl_id f = jid" "ws_id (fl_ws f) = job_workspace_id j" "job_id j = jid" using 1(1,4,5) get_key(1,2) by blast+
  have "confined (job_workspace_id j) jid d1 ?d2" by (simp add: view)
  then have k2: "db_keys_ok ?d2" using same1 assms(2) by (simp add: confined_def same_rows_def)
  have same: "same_rows ?d2 d'" unfolding 1(6) by (rule log_running_same)
  have rows: "get_ws d' (ws_id (fl_ws f)) = Some (fl_ws f)" "get_job d' (fl_id f) = Some (fl_job f)" "db_keys_ok d'"
    unfolding key same_rows_state(3,4) [OF same] using 1(4,5) k2 same by (simp_all add: same_rows_def [of ?d2])
  have seen: "seen_by f d' = d'" unfolding seen_by_def using put_stored(1) [OF rows(3,1)] put_stored(2) [OF rows(3,2)] by simp
  have run: "run_claimed T b jid d = finish_claimed_job (fl_env f) (fl_out f) (fl_orch f) (fl_ws f) (fl_job f) d'"
  proof -
    have j2: "job_workspace_id (fl_job f) = job_workspace_id j"
      using 1(1,4) same1 \<open>confined (job_workspace_id j) jid d1 ?d2\<close> by (auto simp: confined_def job_ident_def same_rows_state(3))
    have "process_claimed_running_job (fl_env f) (tk_out T) (fl_orch f) jid ?d2 =
        finish_claimed_job (fl_env f) (tk_out T) (fl_orch f) (fl_ws f) (fl_job f) d'"
      using 1(4-6) by (simp add: process_claimed_running_job_def j2)
    then show ?thesis using 1(9) 1(1-3) by (auto simp: run_claimed_def Let_def 1(8) simp flip: 1(7))
  qed
  have "write_back f (fl_ws f) (fl_job f) d2 = d2"
    if "finish_claimed_job (fl_env f) (fl_out f) (fl_orch f) (fl_ws f) (fl_job f) d' = Inr (d2, calls)" for d2 calls
  proof -
    have "ready (ws_id (fl_ws f)) (fl_id f) d'" using rows by (simp add: ready_def ws_state_def job_state_def)
    from finished_job_settles [OF this that] have "confined (ws_id (fl_ws f)) (fl_id f) d' d2" by (simp add: settles_def)
    then have "db_keys_ok d2" using rows(3) by (simp add: confined_def)
    then show ?thesis using put_stored [of d2] get_key(1,2) [of d2]
      by (auto simp: write_back_def split: option.split)
  qed
  then show ?thesis by (auto simp: land_def rows seen run split: sum.split)
qed

section \<open>The transition system\<close>

text \<open>
  One committed transaction that is no part of a job: handlers contribute the state they commit, whether they accept or
  refuse; \<open>background\<close> is any transaction that leaves the jobs and the status of every workspace alone, such as the
  commits of the topology adapter and of a cleanup pass.
\<close>

inductive step :: "db \<Rightarrow> db \<Rightarrow> bool" where
  lifecycle: "step d (state_of (request_lifecycle a fs E wid owner uid co d))"
| update: "step d (state_of (request_update_workspace E wid owner uid spec co d))"
| create: "step d (state_of (create_workspace enc uuid E owner body co d))"
| create_pinned: "step d (state_of (create_operator_pinned_test_workspace enc nu uuid E owner eid spec desc co d))"
| reconcile: "step d (state_of (enqueue_reconcile_runtime_job E wid co d))"
| import: "import_repo E taken wid body user d = Inr (jid, d') \<Longrightarrow> step d d'"
| snapshot: "step d (state_of (create_snapshot X E wid owner nm ds mt co d))"
| restore: "step d (state_of (restore_snapshot X E sid owner co d))"
| drop_snapshot: "step d (state_of (delete_snapshot X E sid owner d))"
| set_secret: "step d (state_of (upsert_workspace_ai_secret enc E wid owner prov key d))"
| drop_secret: "step d (state_of (delete_workspace_ai_secret wid owner prov d))"
| attach: "step d (snd (create_workspace_session h rnd E wid uid md d))"
| access: "step d (state_of (resolve_workspace_session_for_access h E wid uid tok d))"
| heartbeat: "step d (state_of (record_execution_node_heartbeat E ko io ok df sl ver d))"
| reclaim: "step d (snd (reclaim_stuck_running_jobs E f d))"
| cleanup: "drain_pending_cleanup_tasks E mk n d = Some (m, d') \<Longrightarrow> step d d'"
| background: "jobs d' = jobs d \<Longrightarrow> (\<forall>k. ws_state d' k = ws_state d k) \<Longrightarrow> (db_keys_ok d \<longrightarrow> db_keys_ok d') \<Longrightarrow> step d d'"

text \<open>A worker claims a job, the oldest one (\<open>oldest\<close>) or the one with a given id.\<close>

definition claims :: "tick \<Rightarrow> bool \<Rightarrow> int \<Rightarrow> db \<Rightarrow> db \<Rightarrow> bool" where
  "claims T oldest jid d d1 \<longleftrightarrow>
     (if oldest then try_claim_next_queued_workspace_job (tk_env T) (tk_locked T) d = Some (jid, d1)
      else try_claim_queued_workspace_job_by_id (tk_env T) (tk_locked T) jid d = Some d1)"

text \<open>
  A state is the committed database and the jobs in flight. A step that claims a job is labelled with it.

  \<^item> \<open>commit\<close>: any other transaction, the reclaiming of jobs in flight included.
  \<^item> \<open>work\<close>: a job from claim to outcome with no commit on the way. If it raises, nothing is committed.
  \<^item> \<open>depart\<close>: the claim of a job becomes visible by a commit of the adapter.
  \<^item> \<open>undo\<close>: the adapter rolls the session back before anything of the job was committed. The claim is undone and its
    row lock released, and the worker goes on with the rows as they are stored.
  \<^item> \<open>refresh\<close>: a later rollback makes the worker read its rows again.
  \<^item> \<open>land\<close>: the worker writes the outcome, whatever has happened to the rows since.
  \<^item> \<open>fail\<close>: the worker dies or an exception leaves the job; what was committed stays.

  The reaction of the autoscaler to a failed placement is assumed to leave workspaces and jobs alone.
\<close>

type_synonym sys = "db \<times> flight list"

inductive sys_step :: "sys \<Rightarrow> int option \<Rightarrow> sys \<Rightarrow> bool" where
  commit: "step d d' \<Longrightarrow> sys_step (d, F) None (d', F)"
| work: "provision_contained (tk_out T) \<Longrightarrow> claims T b jid d d1 \<Longrightarrow> run_claimed T b jid d1 = Inr (d', calls) \<Longrightarrow>
    sys_step (d, F) (Some jid) (d', F)"
| depart: "claims T b jid d d1 \<Longrightarrow> depart T b jid d1 = Some (f, d') \<Longrightarrow> sys_step (d, F) (Some jid) (d', f # F)"
| undo: "claims T b jid d d1 \<Longrightarrow> depart T b jid d1 = Some (f, d2) \<Longrightarrow> get_ws d (ws_id (fl_ws f)) = Some w \<Longrightarrow>
    get_job d jid = Some j \<Longrightarrow> sys_step (d, F) (Some jid) (d, reread w j f # F)"
| refresh: "get_ws d (ws_id (fl_ws f)) = Some w \<Longrightarrow> get_job d (fl_id f) = Some j \<Longrightarrow>
    sys_step (d, F1 @ f # F2) None (d, F1 @ reread w j f # F2)"
| land: "land f d = Inr (d', calls) \<Longrightarrow> sys_step (d, F1 @ f # F2) None (d', F1 @ F2)"
| fail: "sys_step (d, F1 @ f # F2) None (d, F1 @ F2)"

text \<open>No worker claims a job that another worker is still running.\<close>

definition undisputed :: "sys \<Rightarrow> int option \<Rightarrow> bool" where
  "undisputed S c \<longleftrightarrow> (\<forall>i. c = Some i \<longrightarrow> i \<notin> fl_id ` set (snd S))"

text \<open>
  An installation starts without workspaces and jobs, with whatever nodes, users, quotas and policies its
  operator has set up. \<open>reachable True\<close> is restricted to runs whose claims are undisputed, \<open>reachable False\<close> is not: there
  a job that was reclaimed while its worker was slow may be claimed and run a second time.
\<close>

inductive reachable :: "bool \<Rightarrow> sys \<Rightarrow> bool" for sole where
  start: "workspaces d = [] \<Longrightarrow> jobs d = [] \<Longrightarrow> db_keys_ok d \<Longrightarrow> reachable sole (d, [])"
| more: "reachable sole S \<Longrightarrow> sys_step S c S' \<Longrightarrow> (sole \<longrightarrow> undisputed S c) \<Longrightarrow> reachable sole S'"

end
