(* ===== verification/System.thy ===== *)
theory System
  imports Flight
begin

text \<open>
  The control plane as a transition system (theory \<open>Flight\<close>): requests of users and operators, job workers that commit
  in the middle of their jobs, the reclaiming of stuck jobs, cleanup passes, heartbeats and workspace sessions act on one
  database in any order. What one transaction does to the jobs and to the status of the workspaces is \<open>evolves\<close>. The
  invariant \<open>tracked\<close>: primary keys are unique and below their sequence, and the rows of every job in flight exist. The
  invariant \<open>guarded\<close> of undisputed runs: every workspace in a transitional state has a queued or running life-cycle job
  that cannot leave it behind, so that no workspace is left waiting for a job that does not exist.
\<close>

definition covers :: "db \<Rightarrow> int \<Rightarrow> int \<Rightarrow> bool" where
  "covers d k i \<longleftrightarrow> (\<exists>j. get_job d i = Some j \<and> job_workspace_id j = k \<and> lifecycle_job_type (job_type j) \<and>
     job_status j \<in> {JS_QUEUED, JS_RUNNING})"

text \<open>
  The life cycle of one workspace as an automaton over its status column: a request moves a settled
  workspace to a transitional state, and any other change is the outcome of a job that was active for the
  workspace or that a worker still runs. Rows appear as \<^verbatim>\<open>PENDING\<close> or \<^verbatim>\<open>CREATING\<close> and never disappear.
\<close>

definition active_type :: "db \<Rightarrow> int \<Rightarrow> job_type \<Rightarrow> bool" where
  "active_type d k t \<longleftrightarrow> (\<exists>i j. get_job d i = Some j \<and> job_workspace_id j = k \<and> job_type j = t \<and> job_status j \<in> {JS_QUEUED, JS_RUNNING})"

definition requestable :: "ws_status \<Rightarrow> ws_status \<Rightarrow> bool" where
  "requestable s s' \<longleftrightarrow> (\<exists>a. s \<in> lifecycle_sources a \<and> s' = lifecycle_status a) \<or> s \<in> {WS_RUNNING, WS_STOPPED, WS_ERROR} \<and> s' = WS_UPDATING"

text \<open>A job that is queued or running, or that a worker still runs although it was reclaimed.\<close>

definition engaged :: "db \<Rightarrow> flight list \<Rightarrow> int \<Rightarrow> job_type \<Rightarrow> bool" where
  "engaged d F k t \<longleftrightarrow> active_type d k t \<or> (\<exists>f\<in>set F. job_workspace_id (fl_job f) = k \<and> job_type (fl_job f) = t)"

definition moves :: "db \<Rightarrow> flight list \<Rightarrow> int \<Rightarrow> ws_status option \<Rightarrow> ws_status option \<Rightarrow> bool" where
  "moves d F k from to \<longleftrightarrow> to = from \<or> from = None \<and> to \<in> {Some WS_PENDING, Some WS_CREATING} \<or>
     (\<exists>s s'. from = Some s \<and> to = Some s' \<and> (requestable s s' \<or> (\<exists>t js. engaged d F k t \<and> good_outcome t s s' js)))"

lemma engaged_mono: "engaged d [] k t \<Longrightarrow> engaged d F k t"
  by (simp add: engaged_def)

lemma moves_mono: "moves d [] k from to \<Longrightarrow> moves d F k from to"
  using engaged_mono by (fastforce simp: moves_def)

lemma requestable_busy: "requestable s s' \<Longrightarrow> busy s'"
  unfolding requestable_def busy_def by (auto elim: lifecycle_status.elims [OF sym])

lemma moves_refl [simp]: "moves d F k s s"
  by (simp add: moves_def)

lemma moves_exists: "moves d F k from to \<Longrightarrow> from \<noteq> None \<Longrightarrow> to \<noteq> None"
  by (auto simp: moves_def)

text \<open>
  What a transaction must do to keep the invariants, and to follow the automaton; \<open>J\<close> holds the job it works on. A
  transitional state is either new, with a new job or the job worked on to cover it, or it stays and so do all jobs
  that cover it. Other jobs change only if they are running.
\<close>

definition safe :: "int set \<Rightarrow> db \<Rightarrow> db \<Rightarrow> bool" where
  "safe J d d' \<longleftrightarrow> (db_keys_ok d \<longrightarrow> db_keys_ok d' \<and>
     (\<forall>k s. ws_state d' k = Some s \<longrightarrow> busy s \<longrightarrow> (\<exists>i. covers d' k i \<and> (i \<in> J \<or> get_job d i = None)) \<or>
        ws_state d k = Some s \<and> (\<forall>i. covers d k i \<longrightarrow> covers d' k i)) \<and>
     (\<forall>i. job_ident d i \<noteq> None \<longrightarrow> job_ident d' i = job_ident d i) \<and>
     (\<forall>i j. get_job d i = Some j \<longrightarrow> i \<notin> J \<longrightarrow> job_status j \<noteq> JS_RUNNING \<longrightarrow> get_job d' i = Some j))"

definition evolves :: "int set \<Rightarrow> db \<Rightarrow> db \<Rightarrow> bool" where
  "evolves J d d' \<longleftrightarrow> safe J d d' \<and> (db_keys_ok d \<longrightarrow> (\<forall>k. moves d [] k (ws_state d k) (ws_state d' k)))"

lemma safeI:
  assumes "db_keys_ok d \<Longrightarrow> db_keys_ok d'"
    and "\<And>k s. db_keys_ok d \<Longrightarrow> ws_state d' k = Some s \<Longrightarrow> busy s \<Longrightarrow> (\<exists>i. covers d' k i \<and> (i \<in> J \<or> get_job d i = None)) \<or>
      ws_state d k = Some s \<and> (\<forall>i. covers d k i \<longrightarrow> covers d' k i)"
    and "\<And>i. job_ident d i \<noteq> None \<Longrightarrow> job_ident d' i = job_ident d i"
    and "\<And>i j. get_job d i = Some j \<Longrightarrow> i \<notin> J \<Longrightarrow> job_status j \<noteq> JS_RUNNING \<Longrightarrow> get_job d' i = Some j"
  shows "safe J d d'"
  unfolding safe_def using assms by blast

lemma job_ident_None: "job_ident d i = None \<longleftrightarrow> get_job d i = None"
  by (simp add: job_ident_def)

lemma safe_trans:
  assumes "safe {} d d1" "safe {} d1 d2"
  shows "safe {} d d2"
proof (cases "db_keys_ok d")
  case True
  note a = assms(1) [unfolded safe_def, rule_format, OF True]
  note b = assms(2) [unfolded safe_def, rule_format, OF conjunct1 [OF a]]
  have new: "get_job d1 i = None \<Longrightarrow> get_job d i = None" for i using a job_ident_None by metis
  have "(\<exists>i. covers d2 k i \<and> get_job d i = None) \<or> ws_state d k = Some s \<and> (\<forall>i. covers d k i \<longrightarrow> covers d2 k i)"
    if "ws_state d2 k = Some s" "busy s" for k s
    using a b that new by (metis empty_iff)
  then show ?thesis using a b unfolding safe_def by (metis empty_iff)
qed (simp add: safe_def)

lemma confined_evolves_ws:
  assumes "ws_state d' = ws_state d" "jobs d' = jobs d" "db_keys_ok d \<Longrightarrow> db_keys_ok d'"
  shows "evolves J d d'"
proof -
  have "get_job d' = get_job d" "job_ident d' = job_ident d" "covers d' = covers d"
    using assms(2) by (simp_all add: fun_eq_iff get_job_def job_ident_def covers_def)
  then show ?thesis using assms by (simp add: evolves_def safe_def)
qed

lemma evolves_same: "same_rows d d' \<Longrightarrow> evolves J d d'"
  by (rule confined_evolves_ws) (auto simp: same_rows_state, simp_all add: same_rows_def)

lemma evolves_refl [simp]: "evolves J d d"
  by (simp add: evolves_same)

lemma safe_refl [simp]: "safe J d d"
  by (rule conjunct1 [OF evolves_refl [unfolded evolves_def]])

lemma evolves_after: "evolves J d d1 \<Longrightarrow> same_rows d1 d2 \<Longrightarrow> evolves J d d2"
  by (auto simp: evolves_def safe_def covers_def job_ident_def same_rows_state) (simp_all add: same_rows_def)

lemma evolves_refused: "refused d d' \<Longrightarrow> evolves J d d'"
  using refused_frame [of d d'] refused_keys_ok [of d d'] by (intro evolves_same) (auto simp: same_rows_def)

section \<open>Requests\<close>

lemma get_job_add:
  "db_keys_ok d \<Longrightarrow> get_job (snd (add_job j d)) i = (if i = seqs d T_JOB then Some (j\<lparr>job_id := seqs d T_JOB\<rparr>) else get_job d i)"
  using job_tab.look_ins [of d j i] by (simp add: db_keys_ok_def add_job_def)

text \<open>Queuing a job, possibly with a change of its workspace in the same transaction.\<close>

lemma enqueue_evolves:
  assumes keys: "db_keys_ok d \<Longrightarrow> db_keys_ok d1" and jobs: "jobs d1 = jobs d"
    and ws: "\<And>k s. ws_state d1 k = Some s \<Longrightarrow> ws_state d k = Some s \<or> k = job_workspace_id j \<and> lifecycle_job_type (job_type j)"
    and mv: "\<And>k. db_keys_ok d \<Longrightarrow> moves d [] k (ws_state d k) (ws_state d1 k)"
    and queued: "job_status j = JS_QUEUED" and after: "same_rows (snd (add_job j d1)) d'"
  shows "evolves {} d d'"
proof (cases "db_keys_ok d")
  case True
  let ?d = "snd (add_job j d1)" and ?n = "seqs d1 T_JOB"
  have old: "get_job d = get_job d1" using jobs by (simp add: fun_eq_iff get_job_def)
  have g: "get_job ?d i = (if i = ?n then Some (j\<lparr>job_id := ?n\<rparr>) else get_job d i)" for i
    unfolding old by (rule get_job_add [OF keys [OF True]])
  have fresh: "get_job d ?n = None"
    unfolding old using keys [OF True] job_tab.ins_fresh [of d1 j] by (simp add: db_keys_ok_def add_job_def)
  have st: "ws_state ?d k = ws_state d1 k" for k by (simp add: ws_state_def get_ws_def)
  have keep: "covers d k i \<Longrightarrow> covers ?d k i" for k i using fresh by (auto simp: covers_def g)
  have "(\<exists>i. covers ?d k i \<and> get_job d i = None) \<or> ws_state d k = Some s \<and> (\<forall>i. covers d k i \<longrightarrow> covers ?d k i)"
    if "ws_state ?d k = Some s" for k s
  proof (cases "ws_state d k = Some s")
    case False
    then have "covers ?d k ?n" using ws [of k s] that queued by (simp add: st covers_def g)
    then show ?thesis using fresh by blast
  qed (use keep in blast)
  moreover have "job_ident d i \<noteq> None \<Longrightarrow> job_ident ?d i = job_ident d i" "get_job d i = Some r \<Longrightarrow> get_job ?d i = Some r" for i r
    using fresh by (auto simp: job_ident_def g)
  ultimately have "evolves {} d ?d"
    using keys [OF True] mv [OF True] by (simp add: evolves_def safe_def st)
  then show ?thesis using after by (rule evolves_after)
qed (simp add: evolves_def safe_def)

lemma ws_state_put:
  "get_ws d (ws_id w) = Some w0 \<Longrightarrow> ws_state (put_ws w d) k = (if k = ws_id w then Some (ws_status w) else ws_state d k)"
  by (auto simp: ws_state_def ws_tab.look_save)

lemma ws_state_frame: "workspaces d' = workspaces d \<Longrightarrow> ws_state d' k = ws_state d k"
  by (simp add: ws_state_def get_ws_def)

lemma new_job_fields [simp]:
  "job_workspace_id (new_job E w t u v s c) = w" "job_type (new_job E w t u v s c) = t"
  "job_status (new_job E w t u v s c) = JS_QUEUED"
  by (simp_all add: new_job_def)

lemma lifecycle_jobs [simp]: "lifecycle_job_type (lifecycle_job a)" "lifecycle_job_type JT_UPDATE" "lifecycle_job_type JT_CREATE"
  by (cases a) (simp_all add: lifecycle_job_type_def)

text \<open>Start, stop, restart and delete.\<close>

lemma persist_evolves:
  assumes "persist_intent E w st jt uid v co d = Inr (r, d')" "get_ws d (ws_id w) = Some w" "lifecycle_job_type jt"
    and "requestable (ws_status w) st"
  shows "evolves {} d d'"
proof -
  let ?j = "new_job E (ws_id w) jt uid v None (effective_correlation_id E co)"
  let ?d1 = "put_ws (w\<lparr>ws_status := st, ws_updated_at := now E\<rparr>) d"
  have acc: "workspaces d' = workspaces ?d1" "jobs d' = jobs (snd (add_job ?j ?d1))" "db_keys_ok d \<Longrightarrow> db_keys_ok d'"
    using persist_intent_accept(1,5) [OF assms(1)] by (simp_all add: accepted_def put_ws_def add_job_def bump_def)
  show ?thesis
  proof (cases "db_keys_ok d")
    case True
    show ?thesis
      by (rule enqueue_evolves [of d ?d1 ?j])
        (use acc assms(2-4) True in \<open>auto simp: same_rows_def ws_state_put moves_def ws_state_def [of d] split: if_splits\<close>)
  qed (simp add: evolves_def safe_def)
qed

lemma lifecycle_evolves: "evolves {} d (state_of (request_lifecycle a fs E wid owner uid co d))"
proof (cases "request_lifecycle a fs E wid owner uid co d")
  case (Inl p)
  then show ?thesis using lifecycle_refused [of a fs E wid owner uid co d "fst p" "snd p"] evolves_refused by (cases p) auto
next
  case (Inr q)
  obtain r d' where q: "q = (r, d')" by fastforce
  obtain w v where w: "get_ws d wid = Some w" "ws_status w \<in> lifecycle_sources a"
    and p: "persist_intent E w (lifecycle_status a) (lifecycle_job a) uid v co d = Inr (r, d')"
    using lifecycle_persisted [OF Inr [unfolded q]] by metis
  have "get_ws d (ws_id w) = Some w" using w(1) get_ws_key by metis
  moreover have "requestable (ws_status w) (lifecycle_status a)" using w(2) unfolding requestable_def by blast
  ultimately show ?thesis using persist_evolves [OF p] Inr q by simp
qed

lemma update_evolves: "evolves {} d (state_of (request_update_workspace E wid owner uid spec co d))"
proof (cases "request_update_workspace E wid owner uid spec co d")
  case (Inl p)
  obtain e d' where p: "p = (e, d')" by fastforce
  have "d' = d" using Inl p
    by (auto simp: request_update_workspace_def Let_def andthen_Inl andthen_Inr not_busy_Inl not_busy_Inr config_version_Inr
        split_beta dest!: with_owned_Inl config_version_Inl)
  then show ?thesis using Inl p by simp
next
  case (Inr q)
  obtain r d' where q: "q = (r, d')" by fastforce
  let ?cid = "effective_correlation_id E co"
  obtain w v c ev st m p where w: "get_ws d wid = Some w" "ws_status w \<in> {WS_RUNNING, WS_STOPPED, WS_ERROR}"
    and d': "d' = log_event E wid ev st m p (snd (add_job (new_job E wid JT_UPDATE uid v None ?cid)
       (snd (add_cfg c (put_ws (w\<lparr>ws_status := WS_UPDATING, ws_updated_at := now E\<rparr>) d)))))"
    using Inr q by (auto simp: request_update_workspace_def request_Inr Let_def split_beta)
  have id: "ws_id w = wid" by (rule get_ws_key [OF w(1)])
  have "evolves {} d d'"
  proof (rule enqueue_evolves)
    let ?d1 = "snd (add_cfg c (put_ws (w\<lparr>ws_status := WS_UPDATING, ws_updated_at := now E\<rparr>) d))"
    show "same_rows (snd (add_job (new_job E wid JT_UPDATE uid v None ?cid) ?d1)) d'" by (simp add: d')
    show "ws_state d k = Some s \<or> k = job_workspace_id (new_job E wid JT_UPDATE uid v None ?cid) \<and>
        lifecycle_job_type (job_type (new_job E wid JT_UPDATE uid v None ?cid))" if "ws_state ?d1 k = Some s" for k s
      using that w id by (auto simp: ws_state_put ws_state_frame [of ?d1 "put_ws (w\<lparr>ws_status := WS_UPDATING, ws_updated_at := now E\<rparr>) d"])
    have "ws_state ?d1 k = (if k = wid then Some WS_UPDATING else ws_state d k)" for k
      using w id by (simp add: ws_state_put ws_state_frame [of ?d1 "put_ws (w\<lparr>ws_status := WS_UPDATING, ws_updated_at := now E\<rparr>) d"])
    then show "moves d [] k (ws_state d k) (ws_state ?d1 k)" for k
      using w by (auto simp: moves_def requestable_def ws_state_def [of d])
  qed simp_all
  then show ?thesis using Inr q by simp
qed

text \<open>Reconcile and snapshot requests add a job and leave every workspace as it is.\<close>

lemma reconcile_request_evolves: "evolves {} d (state_of (enqueue_reconcile_runtime_job E wid co d))"
proof (cases "enqueue_reconcile_runtime_job E wid co d")
  case (Inl p)
  obtain e d' where p: "p = (e, d')" by fastforce
  have "d' = d" using Inl p
    by (auto simp: enqueue_reconcile_runtime_job_def Let_def andthen_Inl andthen_Inr not_busy_Inl not_busy_Inr config_version_Inr
        check_reconcile_lease_def split_beta split: option.splits if_splits dest!: config_version_Inl)
  then show ?thesis using Inl p by simp
next
  case (Inr q)
  obtain r d' where q: "q = (r, d')" by fastforce
  obtain j ev st m p where d': "d' = log_event E wid ev st m p (snd (add_job j d))" and j: "job_status j = JS_QUEUED"
    using Inr q by (auto simp: enqueue_reconcile_runtime_job_def andthen_Inr not_busy_Inr config_version_Inr Let_def
        check_reconcile_lease_def split_beta split: option.splits if_splits)
  have "evolves {} d d'" by (rule enqueue_evolves [of d d j]) (auto simp: d' j)
  then show ?thesis using Inr q by simp
qed

lemma queue_snapshot_evolves:
  assumes "same_rows d d1"
  shows "evolves {} d (snd (queue_snapshot_job E w jt owner sid cid msg act meta d1))"
proof -
  let ?j = "new_job E (ws_id w) jt owner (snapshot_config_version d1 (ws_id w)) (Some sid) cid"
  have "same_rows (snd (add_job ?j d1)) (snd (queue_snapshot_job E w jt owner sid cid msg act meta d1))"
    by (simp add: queue_snapshot_job_def Let_def split_beta snapshot_audit_def)
  then show ?thesis
    by (rule enqueue_evolves [rotated -1]) (use assms in \<open>auto simp: same_rows_def ws_state_def get_ws_def\<close>)
qed

lemma add_snap_same: "same_rows d (snd (add_snap x d))" "same_rows d (put_snap y d)" "same_rows d (del_snap k d)"
  by (simp_all add: same_rows_def)

lemma state_of_pair: "state_of (Inr p) = snd p" "state_of (Inl q) = snd q"
  by (simp_all add: state_of_def split_beta)

text \<open>A guard that only ever denies or passes can stand in front of any handler.\<close>

lemma guarded_evolves:
  assumes "admission chk" "evolves {} d (state_of (f () d))"
  shows "evolves {} d (state_of (andthen (chk d) f))"
  using admission.verdict [OF assms(1), of d] assms(2) by (auto simp: evolves_refused refused_def)

lemma create_snapshot_evolves: "evolves {} d (state_of (create_snapshot X E wid owner nm ds mt co d))"
  unfolding create_snapshot_def Let_def
  by (auto simp: state_of_pair split: option.split
      intro!: guarded_evolves snap_quota.admission_axioms pol_snap.admission_axioms queue_snapshot_evolves add_snap_same)

lemma restore_snapshot_evolves: "evolves {} d (state_of (restore_snapshot X E sid owner co d))"
  unfolding restore_snapshot_def
  by (auto simp: state_of_pair split: option.split sum.split intro!: queue_snapshot_evolves add_snap_same)

lemma delete_snapshot_evolves: "evolves {} d (state_of (delete_snapshot X E sid owner d))"
  unfolding delete_snapshot_def Let_def
  by (auto simp: state_of_pair split: option.split sum.split
      intro!: evolves_same same_rows_trans [OF _ add_snap_same(3)] simp: snapshot_audit_def)

text \<open>A repository import adds a job.\<close>

lemma import_evolves:
  assumes "import_repo E taken wid body user d = Inr (jid, d')"
  shows "evolves {} d d'"
proof -
  let ?j = "(new_job E wid JT_REPO_IMPORT user (case latest_config d wid of None \<Rightarrow> 1 | Some c \<Rightarrow> cfg_version c) None [])\<lparr>job_correlation_id := None\<rparr>"
  have "same_rows (snd (add_job ?j d)) d'"
    using assms by (auto simp: import_repo_def enqueue_repo_import_job_def Let_def split_beta split: option.splits if_splits)
  then show ?thesis by (rule enqueue_evolves [rotated -1]) simp_all
qed

section \<open>Creating a workspace\<close>

lemma ensure_local_node_same: "same_rows d (snd (ensure_default_local_execution_node E d))"
proof -
  have top: "same_rows d1 (ensure_topology_row_for_local_dev E t d1)" for t d1
    by (simp add: same_rows_def db_keys_ok_def)
  have def: "same_rows d (snd (snd (ensure_execution_node_default_topology E n d)))" for n
    by (rule same_but_nodes_rows [OF ensure_default_topology_same])
  have put: "same_rows d (put_node n d1)" if "same_rows d d1" for n d1
    using that by (simp add: same_rows_def)
  have add: "same_rows d (snd (add_node n d))" for n by (simp add: same_rows_def)
  show ?thesis
    unfolding ensure_default_local_execution_node_def Let_def
    by (auto simp: split_beta split: option.split intro: top same_rows_trans [OF _ top] put def same_rows_trans [OF add top])
qed

lemma insert_workspace_effect:
  assumes "insert_workspace E owner body slug key st node reason d = (w, d')"
  shows "ws_status w = st" "jobs d' = jobs d" "db_keys_ok d \<Longrightarrow> db_keys_ok d'"
    "db_keys_ok d \<Longrightarrow> ws_state d' k = (if k = ws_id w then Some st else ws_state d k)"
    "db_keys_ok d \<Longrightarrow> ws_state d (ws_id w) = None"
proof -
  let ?row = "new_workspace E owner body slug key st node reason"
  have g: "get_ws (snd (add_ws ?row d)) k = (if k = fst (add_ws ?row d) then Some (?row\<lparr>ws_id := k\<rparr>) else get_ws d k)"
    if "db_keys_ok d" for k using that ws_tab.look_ins [of d ?row k] by (simp add: db_keys_ok_def)
  obtain w' where w': "w = w'" "ws_id w' = fst (add_ws ?row d)" "ws_status w' = st"
    "d' = snd (add_ws ?row d) \<or> d' = put_ws w' (snd (add_ws ?row d))"
    using assms
    by (auto simp: insert_workspace_def assign_workspace_gateway_public_identity_def Let_def split_beta new_workspace_def
        split: option.splits if_splits)
  show "ws_status w = st" using w' by simp
  show "jobs d' = jobs d" using w'(4) by auto
  show "db_keys_ok d'" if "db_keys_ok d" using w'(4) that by auto
  show "ws_state d' k = (if k = ws_id w then Some st else ws_state d k)" if "db_keys_ok d"
    using w' g [OF that] by (auto simp: ws_state_def ws_tab.look_save new_workspace_def)
  show "ws_state d (ws_id w) = None" if "db_keys_ok d"
    using w'(1,2) that ws_tab.ins_fresh [of d ?row] by (simp add: db_keys_ok_def ws_state_def)
qed

lemma secret_rows_same:
  "same_rows d (d\<lparr>secrets := secrets d @ [r\<lparr>sec_id := seqs d T_SECRET\<rparr>], seqs := (seqs d)(T_SECRET := seqs d T_SECRET + 1)\<rparr>)"
  "same_rows d (d\<lparr>secrets := row_put sec_id r (secrets d)\<rparr>)"
  "same_rows d (d\<lparr>secrets := row_del sec_id i (secrets d)\<rparr>)"
  unfolding same_rows_def db_keys_ok_def by (simp_all add: keys_ok_snoc)

lemma upsert_secret_same: "upsert_workspace_ai_secret enc E wid owner prov key d = Inr (u, d') \<Longrightarrow> same_rows d d'"
  using secret_rows_same(1) [of d "\<lparr>sec_id = 0, sec_workspace_id = w, sec_name = n, sec_encrypted = c, sec_updated_at = t\<rparr>" for w n c t]
    secret_rows_same(2) [of d]
  by (simp add: upsert_workspace_ai_secret_def Let_def split: option.splits if_splits) metis+

lemma delete_secret_same: "delete_workspace_ai_secret wid owner prov d = Inr (b, d') \<Longrightarrow> same_rows d d'"
  using secret_rows_same(3) [of d]
  by (simp add: delete_workspace_ai_secret_def split: option.splits if_splits) metis+

lemma secret_evolves:
  "evolves {} d (state_of (upsert_workspace_ai_secret enc E wid owner prov key d))"
  "evolves {} d (state_of (delete_workspace_ai_secret wid owner prov d))"
proof -
  have "upsert_workspace_ai_secret enc E wid owner prov key d = Inl (e, d') \<Longrightarrow> d' = d"
    "delete_workspace_ai_secret wid owner prov d = Inl (e, d') \<Longrightarrow> d' = d" for e d'
    by (simp_all add: upsert_workspace_ai_secret_def delete_workspace_ai_secret_def Let_def split: option.splits if_splits)
  then show "evolves {} d (state_of (upsert_workspace_ai_secret enc E wid owner prov key d))"
    "evolves {} d (state_of (delete_workspace_ai_secret wid owner prov d))"
    using upsert_secret_same [of enc E wid owner prov key d] delete_secret_same [of wid owner prov d]
    by (cases "upsert_workspace_ai_secret enc E wid owner prov key d", auto simp: evolves_same)
      (cases "delete_workspace_ai_secret wid owner prov d", auto simp: evolves_same)
qed

lemma finish_create_evolves:
  assumes keys: "db_keys_ok d0 \<Longrightarrow> db_keys_ok d" and jobs: "jobs d = jobs d0"
    and ws: "\<And>k s. db_keys_ok d0 \<Longrightarrow> ws_state d k = Some s \<Longrightarrow> ws_state d0 k = Some s \<or> k = ws_id w"
    and mv: "\<And>k. db_keys_ok d0 \<Longrightarrow> moves d0 [] k (ws_state d0 k) (ws_state d k)"
  shows "evolves {} d0 (state_of (finish_create enc E owner body cid w actor msg extra meta d0 d))"
proof (cases "db_keys_ok d0")
  case True
  let ?d1 = "snd (add_cfg \<lparr>cfg_id = 0, cfg_workspace_id = ws_id w, cfg_version = 1, cfg_json = to_config_dict (cr_runtime body)\<rparr> d)"
  have d1: "jobs ?d1 = jobs d0" "db_keys_ok ?d1" "ws_state ?d1 k = ws_state d k" for k
    using keys True jobs by (simp_all add: ws_state_def get_ws_def)
  have "evolves {} d0 d'" if same: "same_rows ?d1 d2" and d': "same_rows (snd (add_job (new_job E (ws_id w) JT_CREATE owner 1 None cid) d2)) d'"
    for d2 d'
  proof (rule enqueue_evolves [OF _ _ _ _ _ d'])
    show "ws_state d0 k = Some s \<or> k = job_workspace_id (new_job E (ws_id w) JT_CREATE owner 1 None cid) \<and>
        lifecycle_job_type (job_type (new_job E (ws_id w) JT_CREATE owner 1 None cid))" if "ws_state d2 k = Some s" for k s
      using that same_rows_state(1) [OF same] d1(3) ws [OF True] by auto
    show "moves d0 [] k (ws_state d0 k) (ws_state d2 k)" for k
      using mv [OF True, of k] same_rows_state(1) [OF same, of k] d1(3) by simp
  qed (use same d1 in \<open>auto simp: same_rows_def\<close>)
  then have "evolves {} d0 (record_usage E uw uo ut q un uj um uc (record_audit E ac rt oc au ak rid ow oj n rs mm c
      (log_event E lw t st m p (snd (add_job (new_job E (ws_id w) JT_CREATE owner 1 None cid) d2)))))"
    if "same_rows ?d1 d2" for uw uo ut q un uj um uc ac rt oc au ak rid ow oj n rs mm c lw t st m p d2
    using that by simp
  then show ?thesis using upsert_secret_same unfolding finish_create_def Let_def
    by (auto simp: state_of_pair split_beta split: option.split sum.split)
qed (simp add: evolves_def safe_def)

lemma create_tail_evolves:
  assumes "insert_workspace E owner body slug key st node reason (snd (ensure_default_local_execution_node E d)) = (w, d2)"
    and "st \<in> {WS_PENDING, WS_CREATING}"
  shows "evolves {} d (state_of (finish_create enc E owner body cid w actor msg extra meta d d2))"
proof (rule finish_create_evolves)
  note same = ensure_local_node_same [of d E]
  note eff = insert_workspace_effect [OF assms(1)]
  show "db_keys_ok d \<Longrightarrow> db_keys_ok d2" using eff(3) same by (simp add: same_rows_def)
  show "jobs d2 = jobs d" using eff(2) same by (simp add: same_rows_def)
  show "ws_state d k = Some s \<or> k = ws_id w" if "db_keys_ok d" "ws_state d2 k = Some s" for k s
    using that eff(4) [of k] same same_rows_state(1) [OF same, of k] by (auto simp: same_rows_def split: if_splits)
  show "moves d [] k (ws_state d k) (ws_state d2 k)" if "db_keys_ok d" for k
    using that eff(4) [of k] eff(5) assms(2) same same_rows_state(1) [OF same] by (auto simp: same_rows_def moves_def)
qed

lemma create_guarded_evolves:
  assumes "evolves {} d (state_of (f () d))"
  shows "evolves {} d (state_of (andthen (create_guards E owner body c d) f))"
proof (cases "create_guards E owner body c d")
  case (Inl p)
  then show ?thesis using create_guards_fail [of E owner body c d "fst p" "snd p"] by (cases p) (auto simp: evolves_refused)
next
  case (Inr q)
  then show ?thesis using create_guards_pass [of E owner body c d "()" "snd q"] assms by (cases q) auto
qed

lemma create_evolves: "evolves {} d (state_of (create_workspace enc uuid E owner body co d))"
  unfolding create_workspace_def Let_def
  by (rule create_guarded_evolves)
    (auto simp: state_of_pair split: option.split prod.split intro: create_tail_evolves)

lemma pinned_create_evolves: "evolves {} d (state_of (create_operator_pinned_test_workspace enc nu uuid E owner eid spec desc co d))"
  unfolding create_operator_pinned_test_workspace_def Let_def
  by (auto simp: state_of_pair split: option.split sum.split prod.split intro!: create_guarded_evolves intro: create_tail_evolves)

section \<open>Sessions, heartbeats and the worker\<close>

lemma ws_state_count [simp]: "ws_state (snd (reconcile_count_on f w t d)) = ws_state d"
  by (auto simp: ws_state_def get_ws_reconcile option.map_comp o_def)

lemma session_evolves:
  "evolves {} d (snd (create_workspace_session h rnd E wid uid md d))"
  "evolves {} d (state_of (resolve_workspace_session_for_access h E wid uid tok d))"
  "evolves {} d (snd (revoke_all_workspace_sessions E wid d))"
proof -
  have put: "ws_state (put_sess r d) = ws_state d" "ws_state (snd (add_sess r d)) = ws_state d" for r
    by (simp_all add: ws_state_def get_ws_def fun_eq_iff)
  show "evolves {} d (snd (create_workspace_session h rnd E wid uid md d))"
    by (rule confined_evolves_ws)
      (simp_all add: create_workspace_session_def Let_def split_beta reconcile_workspace_active_session_count_def put reconcile_count_keys_ok)
  show "evolves {} d (state_of (resolve_workspace_session_for_access h E wid uid tok d))"
    by (rule confined_evolves_ws)
      (simp_all add: resolve_workspace_session_for_access_def Let_def put reconcile_count_keys_ok split: option.split)
  show "evolves {} d (snd (revoke_all_workspace_sessions E wid d))"
    by (rule confined_evolves_ws) (auto simp: view revoke_all_keys_ok)
qed

lemma heartbeat_evolves: "evolves {} d (state_of (record_execution_node_heartbeat E ko io ok df sl ver d))"
proof -
  have "same_rows d (put_node n d)" for n by (simp add: same_rows_def)
  then show ?thesis
    by (auto simp: record_execution_node_heartbeat_def Let_def state_of_pair split: option.split sum.split intro!: evolves_same)
qed

text \<open>Running a job: a terminal outcome leaves its workspace settled, a retry leaves the job active.\<close>

lemma good_outcome_covers:
  assumes "good_outcome t s s' js" "busy s'"
  shows "lifecycle_job_type t \<and> fst js = JS_QUEUED \<or> \<not> lifecycle_job_type t \<and> s' = s"
  using assms by (cases js; cases "fst js"; cases t) (auto simp: busy_def lifecycle_job_type_def split: if_splits)

lemma settled_evolves:
  assumes settles: "settles (job_type j) (job_workspace_id j) jid d d'" and job: "get_job d jid = Some j"
    and act: "job_status j \<in> {JS_QUEUED, JS_RUNNING}"
  shows "evolves {jid} d d'"
proof -
  let ?w = "job_workspace_id j"
  from settles obtain s0 s1 js where o: "confined ?w jid d d'" "ws_state d ?w = Some s0" "ws_state d' ?w = Some s1"
    "job_state d' jid = Some js" "good_outcome (job_type j) s0 s1 js" by (auto simp: settles_def)
  have others: "get_job d' i = get_job d i" if "i \<noteq> jid" for i using o(1) that by (simp add: confined_def)
  have ident: "job_ident d' i = job_ident d i" for i using o(1) others by (cases "i = jid") (simp_all add: confined_def job_ident_def)
  obtain j' where j': "get_job d' jid = Some j'" "job_type j' = job_type j" "job_workspace_id j' = ?w" "job_status j' = fst js"
    using o(1,4) job by (auto simp: confined_def job_ident_def job_state_def)
  have keep: "covers d' k i" if "covers d k i" "k \<noteq> ?w \<or> \<not> lifecycle_job_type (job_type j)" for k i
  proof -
    have "i \<noteq> jid" using that job by (auto simp: covers_def)
    then show ?thesis using that(1) others by (simp add: covers_def)
  qed
  have busy: "covers d' k jid \<or> ws_state d k = Some s \<and> (\<forall>i. covers d k i \<longrightarrow> covers d' k i)"
    if k: "ws_state d' k = Some s" "busy s" for k s
  proof (cases "k = ?w")
    case True
    then have s: "s = s1" using k(1) o(3) by simp
    then consider "lifecycle_job_type (job_type j)" "fst js = JS_QUEUED" | "\<not> lifecycle_job_type (job_type j)" "s1 = s0"
      using good_outcome_covers [OF o(5)] k(2) by blast
    then show ?thesis
    proof cases
      case 1
      then show ?thesis using j' True by (simp add: covers_def)
    qed (use keep [of k] True o(2) s in simp)
  next
    case False
    then have "ws_state d k = Some s" using k(1) o(1) by (simp add: confined_def ws_state_def)
    then show ?thesis using keep [of k] False by simp
  qed
  have "safe {jid} d d'"
  proof (rule safeI)
    show "(\<exists>i. covers d' k i \<and> (i \<in> {jid} \<or> get_job d i = None)) \<or> ws_state d k = Some s \<and> (\<forall>i. covers d k i \<longrightarrow> covers d' k i)"
      if "ws_state d' k = Some s" "busy s" for k s using busy [OF that] by blast
  qed (use o(1) others ident in \<open>simp_all add: confined_def\<close>)
  moreover have "moves d [] k (ws_state d k) (ws_state d' k)" for k
  proof (cases "k = ?w")
    case True
    have "engaged d [] ?w (job_type j)" unfolding engaged_def active_type_def using job act by blast
    then show ?thesis unfolding moves_def using True o(2,3,5) by blast
  qed (use o(1) in \<open>simp add: confined_def ws_state_def\<close>)
  ultimately show ?thesis by (simp add: evolves_def)
qed

text \<open>A job whose workspace is gone protects no workspace.\<close>

lemma orphan_evolves:
  assumes conf: "confined w jid d d'" and ws: "get_ws d w = None" and job: "\<And>j. get_job d jid = Some j \<Longrightarrow> job_workspace_id j = w"
  shows "evolves {jid} d d'"
proof -
  have st: "ws_state d' k = ws_state d k" for k
    using conf ws by (cases "k = w") (auto simp: confined_def ws_state_def)
  have others: "get_job d' i = get_job d i" if "i \<noteq> jid" for i using conf that by (simp add: confined_def)
  have "covers d' k i" if "covers d k i" "ws_state d k \<noteq> None" for k i
  proof -
    have "i \<noteq> jid" using that ws job by (auto simp: covers_def ws_state_def)
    then show ?thesis using that(1) others by (simp add: covers_def)
  qed
  moreover have "job_ident d' i = job_ident d i" for i
    using conf others by (cases "i = jid") (simp_all add: confined_def job_ident_def)
  ultimately show ?thesis using conf others by (auto simp: evolves_def safe_def st confined_def)
qed

lemma missing_workspace_evolves:
  assumes "get_job d jid = Some j" "get_ws d (job_workspace_id j) = None"
  shows "evolves {jid} d (job_missing_workspace E jid d)"
  by (rule orphan_evolves [of _ jid, OF _ assms(2)]) (use assms(1) in \<open>simp_all add: job_missing_workspace_def view\<close>)

lemma run_claimed_evolves:
  assumes "provision_contained (tk_out T)" "run_claimed T b jid d = Inr (d', calls)"
    and "\<And>j. get_job d jid = Some j \<Longrightarrow> job_status j \<in> {JS_QUEUED, JS_RUNNING}"
  shows "evolves {jid} d d'"
proof (cases "get_job d jid")
  case None
  then show ?thesis using assms(2) by (simp add: run_claimed_def)
next
  case (Some j)
  show ?thesis
  proof (cases "get_ws d (job_workspace_id j)")
    case None
    then show ?thesis using assms(2) Some missing_workspace_evolves [OF Some None] by (auto simp: run_claimed_def Let_def)
  next
    case (Some w)
    have "ws_id w = job_workspace_id j" using Some get_ws_key by metis
    then show ?thesis
      using run_claimed_settles [OF \<open>get_job d jid = Some j\<close> Some assms(1,2)] settled_evolves [OF _ \<open>get_job d jid = Some j\<close>]
        assms(3) [OF \<open>get_job d jid = Some j\<close>] by simp
  qed
qed

text \<open>Claiming only turns a queued job into a running one.\<close>

lemma claim_keeps:
  "ws_state (mark_job_running E jid d) k = ws_state d k"
  "get_job d jid = Some j \<Longrightarrow> job_status j = JS_QUEUED \<Longrightarrow> covers (mark_job_running E jid d) k i = covers d k i"
  "db_keys_ok d \<Longrightarrow> db_keys_ok (mark_job_running E jid d)"
  "get_job d jid = Some j \<Longrightarrow> job_status j = JS_QUEUED \<Longrightarrow> active_type (mark_job_running E jid d) k t = active_type d k t"
  "get_job (mark_job_running E jid d) jid = Some r \<Longrightarrow> job_status r = JS_RUNNING"
  "job_ident (mark_job_running E jid d) i = job_ident d i"
  "i \<noteq> jid \<Longrightarrow> get_job (mark_job_running E jid d) i = get_job d i"
proof -
  show "get_job (mark_job_running E jid d) jid = Some r \<Longrightarrow> job_status r = JS_RUNNING" by (auto simp: mark_job_running_def get_upd)
  show "ws_state (mark_job_running E jid d) k = ws_state d k" by (simp add: view)
  show "db_keys_ok d \<Longrightarrow> db_keys_ok (mark_job_running E jid d)" by (simp add: mark_job_running_def)
  show "job_ident (mark_job_running E jid d) i = job_ident d i"
    by (auto simp: job_ident_def mark_job_running_def get_upd option.map_comp o_def)
  show "i \<noteq> jid \<Longrightarrow> get_job (mark_job_running E jid d) i = get_job d i" by (simp add: mark_job_running_def get_upd)
  assume j: "get_job d jid = Some j" "job_status j = JS_QUEUED"
  let ?j = "j\<lparr>job_status := JS_RUNNING, job_started_at := Some (now E), job_attempt := job_attempt j + 1, job_id := jid\<rparr>"
  have g: "get_job (mark_job_running E jid d) i = (if i = jid then Some ?j else get_job d i)" for i
    using j by (simp add: mark_job_running_def get_upd)
  show "covers (mark_job_running E jid d) k i = covers d k i" using j by (simp add: covers_def g)
  have alt: "active_type d' k t \<longleftrightarrow> (\<exists>i. case get_job d' i of None \<Rightarrow> False | Some r \<Rightarrow> job_workspace_id r = k \<and>
      job_type r = t \<and> job_status r \<in> {JS_QUEUED, JS_RUNNING})" for d'
    by (auto simp: active_type_def split: option.splits)
  show "active_type (mark_job_running E jid d) k t = active_type d k t"
    unfolding alt by (intro ex_cong1) (simp add: g j)
qed

lemma claim_evolves:
  assumes "get_job d jid = Some j" "job_status j = JS_QUEUED" "evolves {jid} (mark_job_running E jid d) d'"
  shows "evolves {jid} d d'"
proof -
  note cov = claim_keeps(2) [OF assms(1,2)] and typed = claim_keeps(4) [OF assms(1,2)]
  have none: "get_job (mark_job_running E jid d) i = None \<longleftrightarrow> get_job d i = None" for i
    using claim_keeps(6) [of E jid d i] by (simp flip: job_ident_None)
  have "i \<noteq> jid \<Longrightarrow> get_job d i = Some r \<Longrightarrow> job_status r \<noteq> JS_RUNNING \<Longrightarrow> db_keys_ok d \<Longrightarrow> get_job d' i = Some r" for i r
    using assms(3) claim_keeps(3) [of d E jid] claim_keeps(7) [of i jid E d] unfolding evolves_def safe_def by simp
  then show ?thesis
    using assms(3) by (simp add: evolves_def safe_def moves_def engaged_def claim_keeps(1,3,6) cov typed none)
qed

lemma claim_next_queued:
  assumes "try_claim_next_queued_workspace_job E lk d = Some (jid, d1)" "db_keys_ok d"
  shows "\<exists>j. get_job d jid = Some j \<and> claimable E lk j \<and> d1 = mark_job_running E jid d \<and>
     (\<forall>q\<in>set (jobs d). claimable E lk q \<longrightarrow> job_created_at j \<le> job_created_at q)"
proof -
  obtain j where j: "first_row (sort_key job_created_at (filter (claimable E lk) (jobs d))) = Some j"
    "jid = job_id j" "d1 = mark_job_running E jid d"
    using assms(1) by (auto simp: try_claim_next_queued_workspace_job_def split: option.splits)
  note least = first_sorted_least [OF j(1)]
  have "get_job d jid = Some j" unfolding get_job_def j(2)
    by (rule row_find_distinct) (use least(1) assms(2) in \<open>auto simp: db_keys_ok_def keys_ok_def\<close>)
  then show ?thesis using least j(3) by auto
qed

lemma claims_queued:
  assumes "claims T b jid d d1" "db_keys_ok d"
  shows "\<exists>j. get_job d jid = Some j \<and> job_status j = JS_QUEUED \<and> d1 = mark_job_running (tk_env T) jid d"
proof (cases b)
  case True
  then have "try_claim_next_queued_workspace_job (tk_env T) (tk_locked T) d = Some (jid, d1)" using assms(1) by (simp add: claims_def)
  from claim_next_queued [OF this assms(2)] show ?thesis by (auto simp: claimable_def queued_job_eligible_def)
qed (use assms in \<open>auto simp: claims_def try_claim_queued_workspace_job_by_id_def claimable_def queued_job_eligible_def
  split: option.splits if_splits\<close>)

lemma work_evolves:
  assumes "provision_contained (tk_out T)" "claims T b jid d d1" "run_claimed T b jid d1 = Inr (d', calls)"
  shows "evolves {jid} d d'"
proof (cases "db_keys_ok d")
  case True
  obtain j where j: "get_job d jid = Some j" "job_status j = JS_QUEUED" "d1 = mark_job_running (tk_env T) jid d"
    using claims_queued [OF assms(2) True] by blast
  have "evolves {jid} d1 d'" by (rule run_claimed_evolves [OF assms(1,3)]) (use j(3) claim_keeps(5) in simp)
  then show ?thesis using claim_evolves [OF j(1,2)] j(3) by simp
qed (simp add: evolves_def safe_def)

text \<open>The commit of a claim in the middle of the job: the rows of the flight are those of the database.\<close>

lemma depart_evolves:
  assumes "claims T b jid d d1" "depart T b jid d1 = Some (f, d')"
  shows "evolves {jid} d d'"
proof (cases "db_keys_ok d")
  case True
  obtain j where j: "get_job d jid = Some j" "job_status j = JS_QUEUED" "d1 = mark_job_running (tk_env T) jid d"
    using claims_queued [OF assms(1) True] by blast
  obtain r w d2 where r: "get_job d1 jid = Some r" "get_ws d1 (job_workspace_id r) = Some w"
    "bind_orchestrator (fl_env f) (tk_orch T) w r d1 = Inr (fl_orch f, d2)"
    "d' = log_job_running (fl_env f) (fl_ws f) (fl_job f)
       (begin_create_bringup_after_placement (fl_env f) (job_workspace_id r) (job_type r) d2)"
    using depart_cases [OF assms(2)] by blast
  let ?w = "job_workspace_id r" and ?d3 = "begin_create_bringup_after_placement (fl_env f) (job_workspace_id r) (job_type r) d2"
  have same: "same_rows d1 d2" by (rule bind_orchestrator_effect(1) [OF r(3)])
  have run: "job_status r = JS_RUNNING" using r(1) j(3) claim_keeps(5) by blast
  have jobs: "get_job ?d3 i = get_job d1 i" for i using same by (simp add: view same_rows_state(3))
  have st: "ws_state ?d3 k = ws_state d1 k \<or> k = ?w \<and> job_type r = JT_CREATE \<and> ws_state ?d3 k = Some WS_CREATING" for k
    using same by (auto simp: view same_rows_state(1))
  have conf: "confined ?w jid d2 ?d3" by (simp add: view)
  have cov: "covers ?d3 k i = covers d1 k i" "job_ident ?d3 i = job_ident d1 i" for k i
    by (simp_all add: covers_def job_ident_def jobs)
  have own: "job_type r = JT_CREATE \<Longrightarrow> covers d1 ?w jid" using r(1) run by (simp add: covers_def)
  have "safe {jid} d1 ?d3"
  proof (rule safeI)
    show "(\<exists>i. covers ?d3 k i \<and> (i \<in> {jid} \<or> get_job d1 i = None)) \<or> ws_state d1 k = Some s \<and> (\<forall>i. covers d1 k i \<longrightarrow> covers ?d3 k i)"
      if "ws_state ?d3 k = Some s" for k s using st [of k] own that cov(1) by auto
  qed (use same conf in \<open>simp_all add: cov jobs same_rows_def confined_def\<close>)
  moreover have "moves d1 [] k (ws_state d1 k) (ws_state ?d3 k)" for k
  proof -
    have "engaged d1 [] ?w (job_type r)" unfolding engaged_def active_type_def using r(1) run by blast
    moreover have "good_outcome JT_CREATE s WS_CREATING (JS_QUEUED, True)" for s by simp
    moreover have "ws_state d1 ?w \<noteq> None" using r(2) by (simp add: ws_state_def)
    ultimately show ?thesis using st [of k] unfolding moves_def by (metis option.exhaust)
  qed
  ultimately have "evolves {jid} d1 ?d3" by (simp add: evolves_def)
  then have "evolves {jid} d1 d'" unfolding r(4) using log_running_same by (rule evolves_after)
  then show ?thesis using claim_evolves [OF j(1,2)] j(3) by simp
qed (simp add: evolves_def safe_def)

text \<open>Reclaiming keeps the invariant: a retried job is queued again, an exhausted life-cycle job ends in \<^verbatim>\<open>ERROR\<close>.\<close>

lemma reclaim_settles:
  assumes "ready (job_workspace_id j) (job_id j) d"
  shows "settles (job_type j) (job_workspace_id j) (job_id j) d (reclaim_job E f j d)"
proof -
  let ?sch = "try_schedule_workspace_job_retry E (job_id j) (stuck_message f j) FS_UNKNOWN (Some ''STUCK_RUNNING_RECLAIMED'') d"
  show ?thesis
  proof (cases "fst ?sch")
    case True
    then show ?thesis using touched_retry_settles [OF assms True] by (simp add: reclaim_job_def Let_def split_beta)
  next
    case False
    have "get_ws d (job_workspace_id j) \<noteq> None" using assms by (auto simp: ready_def ws_state_def)
    then show ?thesis using assms declined_same [OF False] False
      by (intro settlesI) (auto simp: reclaim_job_def Let_def split_beta view)
  qed
qed

lemma reclaim_confined: "confined (job_workspace_id j) (job_id j) d (reclaim_job E f j d)"
  by (simp add: reclaim_job_def Let_def split_beta view)

lemma reclaim_other: "k \<noteq> job_id j \<Longrightarrow> get_job (reclaim_job E f j d) k = get_job d k"
  using reclaim_confined [of j d E f] by (simp add: confined_def)

lemma reclaim_ws_state:
  "ws_state (reclaim_job E f j d) k = ws_state d k \<or>
   k = job_workspace_id j \<and> ws_state d k \<noteq> None \<and> ws_state (reclaim_job E f j d) k = Some WS_ERROR"
  by (auto simp: reclaim_job_def Let_def split_beta view ws_state_def [of d])

lemma reclaim_safe:
  assumes job: "get_job d (job_id j) = Some j" "job_status j = JS_RUNNING"
  shows "safe {} d (reclaim_job E f j d)"
proof -
  let ?d = "reclaim_job E f j d" and ?w = "job_workspace_id j"
  have conf: "confined ?w (job_id j) d ?d" by (rule reclaim_confined)
  have ident: "job_ident ?d i = job_ident d i" for i
    using conf reclaim_other [of i j E f d] by (cases "i = job_id j") (simp_all add: confined_def job_ident_def)
  have own: "covers ?d ?w (job_id j)" if l: "lifecycle_job_type (job_type j)" "ws_state d ?w = Some s" "ws_state ?d ?w = Some s" "busy s" for s
  proof -
    have "ready ?w (job_id j) d" using job(1) l(2) by (simp add: ready_def job_state_def)
    then obtain js where js: "job_state ?d (job_id j) = Some js" "good_outcome (job_type j) s s js"
      using reclaim_settles [of j d E f] l(2,3) by (auto simp: settles_def)
    then have "fst js = JS_QUEUED" using good_outcome_covers [OF js(2) l(4)] l(1) by blast
    then show ?thesis using js(1) ident [of "job_id j"] job(1) l(1) by (auto simp: covers_def job_state_def job_ident_def)
  qed
  have "ws_state d k = Some s \<and> (\<forall>i. covers d k i \<longrightarrow> covers ?d k i)" if k: "ws_state ?d k = Some s" "busy s" for k s
  proof -
    have s: "ws_state d k = Some s" using reclaim_ws_state [of E f j d k] k by (auto simp: busy_def)
    have "covers ?d k i" if c: "covers d k i" for i
    proof (cases "i = job_id j")
      case True
      then have "k = ?w" "lifecycle_job_type (job_type j)" using c job(1) by (auto simp: covers_def)
      then show ?thesis using own [of s] s k True by simp
    qed (use c reclaim_other in \<open>simp add: covers_def\<close>)
    then show ?thesis using s by blast
  qed
  moreover have "get_job ?d i = Some r" if "get_job d i = Some r" "job_status r \<noteq> JS_RUNNING" for i r
    using that job reclaim_other [of i j E f d] by (cases "i = job_id j") auto
  ultimately show ?thesis using conf ident by (simp add: safe_def confined_def)
qed

text \<open>The loop over the stuck jobs: every round is safe, and a workspace keeps its state or fails with one of its jobs.\<close>

lemma reclaim_loop_safe:
  assumes "distinct (map job_id js)" "\<forall>j\<in>set js. get_job d (job_id j) = Some j \<and> job_status j = JS_RUNNING"
  shows "safe {} d (fold (reclaim_job E f) js d)"
  using assms
proof (induction js arbitrary: d)
  case (Cons j js)
  let ?d = "reclaim_job E f j d"
  have "\<forall>q\<in>set js. get_job ?d (job_id q) = Some q \<and> job_status q = JS_RUNNING"
    using Cons.prems reclaim_other [of _ j E f d] by (metis (mono_tags) distinct.simps(2) image_eqI list.set_intros(2) list.set_map list.simps(9))
  from safe_trans [OF reclaim_safe Cons.IH [OF _ this]] Cons.prems show ?case by simp
qed simp

lemma reclaim_loop_ws_state:
  "ws_state (fold (reclaim_job E f) js d) k = ws_state d k \<or>
   (\<exists>j\<in>set js. job_workspace_id j = k) \<and> ws_state d k \<noteq> None \<and> ws_state (fold (reclaim_job E f) js d) k = Some WS_ERROR"
proof (induction js arbitrary: d)
  case (Cons j js)
  show ?case using Cons.IH [of "reclaim_job E f j d"] reclaim_ws_state [of E f j d k] by auto
qed simp

lemma stuck_rows:
  assumes "db_keys_ok d"
  shows "distinct (map job_id (take n (filter (stuck_job t) (jobs d))))"
    "j \<in> set (take n (filter (stuck_job t) (jobs d))) \<Longrightarrow> get_job d (job_id j) = Some j \<and> job_status j = JS_RUNNING"
proof -
  have d: "distinct (map job_id (jobs d))" using assms by (simp add: db_keys_ok_def keys_ok_def)
  show "distinct (map job_id (take n (filter (stuck_job t) (jobs d))))"
    unfolding take_map [symmetric] by (intro distinct_take distinct_map_filter d)
  assume "j \<in> set (take n (filter (stuck_job t) (jobs d)))"
  then have j: "j \<in> set (jobs d)" "stuck_job t j" by (auto dest: in_set_takeD)
  show "get_job d (job_id j) = Some j \<and> job_status j = JS_RUNNING"
    using row_find_distinct [OF d j(1)] j(2) by (simp add: get_job_def stuck_job_def)
qed

lemma reclaim_moves:
  assumes "db_keys_ok d"
  shows "moves d [] k (ws_state d k) (ws_state (snd (reclaim_stuck_running_jobs E f d)) k)"
proof -
  let ?js = "take 20 (filter (stuck_job (now E - seconds (s_job_stuck_timeout_seconds (cfg E)))) (jobs d))"
  have "moves d [] k (Some s) (Some WS_ERROR)" if "j \<in> set ?js" "job_workspace_id j = k" for j s
  proof -
    have "engaged d [] k (job_type j)" unfolding engaged_def active_type_def using stuck_rows(2) [OF assms that(1)] that(2) by blast
    moreover have "good_outcome (job_type j) s WS_ERROR (JS_FAILED, False)" by simp
    ultimately show ?thesis unfolding moves_def by blast
  qed
  then show ?thesis using reclaim_loop_ws_state [of E f ?js d k]
    by (auto simp: reclaim_stuck_running_jobs_def Let_def)
qed

lemma reclaim_evolves: "evolves {} d (snd (reclaim_stuck_running_jobs E f d))"
proof (cases "db_keys_ok d")
  case True
  have "safe {} d (snd (reclaim_stuck_running_jobs E f d))"
    using stuck_rows [OF True] reclaim_loop_safe by (auto simp: reclaim_stuck_running_jobs_def Let_def)
  then show ?thesis using reclaim_moves [OF True] by (simp add: evolves_def)
qed (simp add: evolves_def safe_def)

lemmas request_evolves = lifecycle_evolves update_evolves create_evolves pinned_create_evolves reconcile_request_evolves
  import_evolves create_snapshot_evolves restore_snapshot_evolves delete_snapshot_evolves secret_evolves session_evolves
  heartbeat_evolves reclaim_evolves

lemma step_evolves: "step d d' \<Longrightarrow> evolves {} d d'"
proof (induction rule: step.induct)
  case (cleanup E mk n d m d')
  then show ?case using drain_pending_same evolves_same by blast
next
  case (background d' d)
  then show ?case by (intro confined_evolves_ws) (auto simp: fun_eq_iff)
qed (auto intro: request_evolves)

section \<open>Invariants\<close>

definition tracked :: "db \<Rightarrow> flight list \<Rightarrow> bool" where
  "tracked d F \<longleftrightarrow> db_keys_ok d \<and>
     (\<forall>f\<in>set F. job_ident d (fl_id f) = Some (job_type (fl_job f), job_workspace_id (fl_job f)) \<and>
        ws_id (fl_ws f) = job_workspace_id (fl_job f) \<and> ws_state d (ws_id (fl_ws f)) \<noteq> None)"

text \<open>A job shields a workspace when it covers it and no flight of the job can end without settling the workspace.\<close>

definition shields :: "db \<Rightarrow> flight list \<Rightarrow> int \<Rightarrow> int \<Rightarrow> bool" where
  "shields d F k i \<longleftrightarrow> covers d k i \<and> (\<forall>f\<in>set F. fl_id f = i \<longrightarrow> busy (ws_status (fl_ws f)))"

definition guarded :: "db \<Rightarrow> flight list \<Rightarrow> bool" where
  "guarded d F \<longleftrightarrow> distinct (map fl_id F) \<and>
     (\<forall>f\<in>set F. job_status (fl_job f) = JS_QUEUED \<longrightarrow> (\<exists>j. get_job d (fl_id f) = Some j \<and> job_status j = JS_QUEUED)) \<and>
     (\<forall>k s. ws_state d k = Some s \<longrightarrow> busy s \<longrightarrow> (\<exists>i. shields d F k i))"

lemma evolves_tracked:
  assumes "evolves J d d'" "tracked d F"
  shows "tracked d' F"
proof -
  have "db_keys_ok d" using assms(2) by (simp add: tracked_def)
  then have e: "db_keys_ok d'" "\<And>i. job_ident d i \<noteq> None \<Longrightarrow> job_ident d' i = job_ident d i"
    "\<And>k. moves d [] k (ws_state d k) (ws_state d' k)" using assms(1) by (simp_all add: evolves_def safe_def)
  show ?thesis using assms(2) e(1,2) moves_exists [OF e(3)] unfolding tracked_def by (metis option.distinct(1))
qed

lemma evolves_guarded:
  assumes "evolves J d d'" "tracked d F" "guarded d F" "J \<inter> fl_id ` set F = {}"
  shows "guarded d' F"
proof -
  have "db_keys_ok d" using assms(2) by (simp add: tracked_def)
  then have cov: "\<And>k s. ws_state d' k = Some s \<Longrightarrow> busy s \<Longrightarrow> (\<exists>i. covers d' k i \<and> (i \<in> J \<or> get_job d i = None)) \<or>
        ws_state d k = Some s \<and> (\<forall>i. covers d k i \<longrightarrow> covers d' k i)"
    and row: "\<And>i j. get_job d i = Some j \<Longrightarrow> i \<notin> J \<Longrightarrow> job_status j \<noteq> JS_RUNNING \<Longrightarrow> get_job d' i = Some j"
    using assms(1) by (simp_all add: evolves_def safe_def)
  have known: "f \<in> set F \<Longrightarrow> fl_id f \<notin> J \<and> get_job d (fl_id f) \<noteq> None" for f
    using assms(2,4) job_ident_None [of d "fl_id f"] by (auto simp: tracked_def)
  have "\<exists>i. shields d' F k i" if k: "ws_state d' k = Some s" "busy s" for k s
    using cov [OF k]
  proof
    assume "\<exists>i. covers d' k i \<and> (i \<in> J \<or> get_job d i = None)"
    then show ?thesis using known unfolding shields_def by blast
  next
    assume "ws_state d k = Some s \<and> (\<forall>i. covers d k i \<longrightarrow> covers d' k i)"
    then show ?thesis using assms(3) k(2) unfolding guarded_def shields_def by blast
  qed
  moreover have "\<exists>j. get_job d' (fl_id f) = Some j \<and> job_status j = JS_QUEUED"
    if "f \<in> set F" "job_status (fl_job f) = JS_QUEUED" for f
    using that assms(3) known [OF that(1)] row unfolding guarded_def by fastforce
  ultimately show ?thesis using assms(3) unfolding guarded_def by blast
qed

text \<open>Jobs take off, read their rows again, and end without an outcome.\<close>

lemma board:
  assumes "tracked d (F1 @ F2)" "get_ws d (ws_id (fl_ws f)) = Some (fl_ws f)" "get_job d (fl_id f) = Some (fl_job f)"
    and "ws_id (fl_ws f) = job_workspace_id (fl_job f)"
  shows "tracked d (F1 @ f # F2)"
    and "guarded d (F1 @ F2) \<Longrightarrow> fl_id f \<notin> fl_id ` set (F1 @ F2) \<Longrightarrow> guarded d (F1 @ f # F2)"
proof -
  have "job_ident d (fl_id f) = Some (job_type (fl_job f), job_workspace_id (fl_job f))" "ws_state d (ws_id (fl_ws f)) \<noteq> None"
    using assms(2,3) by (simp_all add: job_ident_def ws_state_def)
  then show "tracked d (F1 @ f # F2)" using assms(1,4) unfolding tracked_def by (metis Un_iff set_append set_ConsD list.set_intros)
  assume g: "guarded d (F1 @ F2)" "fl_id f \<notin> fl_id ` set (F1 @ F2)"
  have "shields d (F1 @ f # F2) k i" if "shields d (F1 @ F2) k i" "ws_state d k = Some s" "busy s" for k i s
  proof -
    have "fl_id f = i \<Longrightarrow> k = ws_id (fl_ws f)" using that(1) assms(3,4) by (auto simp: shields_def covers_def)
    then have "fl_id f = i \<Longrightarrow> busy (ws_status (fl_ws f))" using that(2,3) assms(2) by (auto simp: ws_state_def)
    then show ?thesis using that(1) by (auto simp: shields_def)
  qed
  then have "\<exists>i. shields d (F1 @ f # F2) k i" if "ws_state d k = Some s" "busy s" for k s
    using g(1) that unfolding guarded_def by blast
  then show "guarded d (F1 @ f # F2)" using g assms(3) unfolding guarded_def by auto
qed

lemma leave:
  "tracked d (F1 @ f # F2) \<Longrightarrow> tracked d (F1 @ F2)"
  "guarded d (F1 @ f # F2) \<Longrightarrow> guarded d (F1 @ F2)"
  "guarded d (F1 @ f # F2) \<Longrightarrow> fl_id f \<notin> fl_id ` set (F1 @ F2)"
proof -
  have sub: "set (F1 @ F2) \<subseteq> set (F1 @ f # F2)" by auto
  show "tracked d (F1 @ f # F2) \<Longrightarrow> tracked d (F1 @ F2)" unfolding tracked_def using sub by blast
  assume g: "guarded d (F1 @ f # F2)"
  then show "fl_id f \<notin> fl_id ` set (F1 @ F2)" by (auto simp: guarded_def)
  have "shields d (F1 @ f # F2) k i \<Longrightarrow> shields d (F1 @ F2) k i" for k i unfolding shields_def using sub by blast
  moreover have "distinct (map fl_id (F1 @ F2))" using g by (auto simp: guarded_def)
  ultimately show "guarded d (F1 @ F2)" using g sub unfolding guarded_def by blast
qed

section \<open>Landing\<close>

text \<open>An outcome computed from the rows in memory is an outcome for the stored status too, when it changes the status at all.\<close>

lemma good_outcome_shift: "good_outcome t m s' js \<Longrightarrow> s' \<noteq> m \<Longrightarrow> good_outcome t s s' js"
  by (cases js; cases "fst js") (auto split: if_splits)

lemma put_frames: "get_ws (put_job x d) k = get_ws d k" "get_job (put_ws y d) i = get_job d i"
  by (simp_all add: get_ws_def get_job_def put_ws_def put_job_def)

lemma land_outcome:
  assumes flown: "job_ident d (fl_id f) = Some (job_type (fl_job f), job_workspace_id (fl_job f))"
    "ws_id (fl_ws f) = job_workspace_id (fl_job f)" and run: "land f d = Inr (d', calls)"
  shows "\<exists>w j s' js j'. get_ws d (ws_id (fl_ws f)) = Some w \<and> get_job d (fl_id f) = Some j \<and>
    good_outcome (job_type (fl_job f)) (ws_status (fl_ws f)) s' js \<and>
    ws_state d' (ws_id (fl_ws f)) = Some (changed (ws_status (fl_ws f)) s' (ws_status w)) \<and>
    get_job d' (fl_id f) = Some j' \<and> job_status j' = changed (job_status (fl_job f)) (fst js) (job_status j) \<and>
    (\<forall>i. job_ident d' i = job_ident d i) \<and> (\<forall>i. i \<noteq> fl_id f \<longrightarrow> get_job d' i = get_job d i) \<and>
    (\<forall>k. k \<noteq> ws_id (fl_ws f) \<longrightarrow> ws_state d' k = ws_state d k) \<and> (db_keys_ok d \<longrightarrow> db_keys_ok d')"
proof -
  let ?k = "ws_id (fl_ws f)" and ?i = "fl_id f" and ?d = "seen_by f d"
  obtain w j d2 where w: "get_ws d ?k = Some w" and j: "get_job d ?i = Some j"
    and fin: "finish_claimed_job (fl_env f) (fl_out f) (fl_orch f) (fl_ws f) (fl_job f) ?d = Inr (d2, calls)"
    and d': "d' = write_back f w j d2"
    using run by (auto simp: land_def split: option.splits sum.splits)
  have gw: "get_ws ?d k = (if k = ?k then Some (fl_ws f) else get_ws d k)" for k
    using w by (simp add: seen_by_def ws_tab.look_save put_frames)
  have gj: "get_job ?d i = (if i = ?i then Some (fl_job f) else get_job d i)" for i
    using j by (simp add: seen_by_def job_tab.look_save put_frames)
  have "ready ?k ?i ?d" by (simp add: ready_def ws_state_def job_state_def gw gj)
  from finished_job_settles [OF this fin] obtain s' js where o: "confined ?k ?i ?d d2" "ws_state d2 ?k = Some s'" "job_state d2 ?i = Some js"
    "good_outcome (job_type (fl_job f)) (ws_status (fl_ws f)) s' js"
    by (auto simp: settles_def ws_state_def [of ?d] gw)
  obtain w' j' where w': "get_ws d2 ?k = Some w'" "ws_status w' = s'" and j': "get_job d2 ?i = Some j'" "job_status j' = fst js"
    using o(2,3) by (auto simp: ws_state_def job_state_def)
  have same: "job_type j' = job_type (fl_job f)" "job_workspace_id j' = job_workspace_id (fl_job f)"
    using o(1) j'(1) by (auto simp: confined_def job_ident_def gj)
  let ?W = "merge_ws (fl_ws f) w' w" and ?J = "merge_job (fl_job f) j' j"
  have id: "ws_id ?W = ?k" "job_id ?J = ?i" using get_key(1) [OF w] get_key(2) [OF j] by simp_all
  have d'': "d' = put_ws ?W (put_job ?J d2)" using w'(1) j'(1) by (simp add: d' write_back_def)
  have gw': "get_ws d' k = (if k = ?k then Some ?W else get_ws d2 k)" for k
    using w'(1) id by (simp add: d'' ws_tab.look_save put_frames)
  have gj': "get_job d' i = (if i = ?i then Some ?J else get_job d2 i)" for i
    using j'(1) id by (simp add: d'' job_tab.look_save put_frames)
  have ident: "job_ident d' i = job_ident d i" for i
    using o(1) flown(1) j same by (cases "i = ?i") (simp_all add: job_ident_def gj' confined_def gj)
  have keys: "db_keys_ok d \<Longrightarrow> db_keys_ok d'" using o(1) by (simp add: d'' confined_def seen_by_def)
  have frame: "\<forall>i. i \<noteq> ?i \<longrightarrow> get_job d' i = get_job d i" "\<forall>k. k \<noteq> ?k \<longrightarrow> ws_state d' k = ws_state d k"
    using o(1) by (simp_all add: ws_state_def gw' gj' confined_def gw gj)
  have "ws_state d' ?k = Some (changed (ws_status (fl_ws f)) s' (ws_status w))" "get_job d' ?i = Some ?J"
    "job_status ?J = changed (job_status (fl_job f)) (fst js) (job_status j)"
    using w'(2) j'(2) by (simp_all add: ws_state_def gw' gj')
  then show ?thesis using w j o(4) ident keys frame by blast
qed

lemma land_tracked:
  assumes "tracked d (F1 @ f # F2)" "land f d = Inr (d', calls)"
  shows "tracked d' (F1 @ F2)"
proof -
  have fl: "job_ident d (fl_id f) = Some (job_type (fl_job f), job_workspace_id (fl_job f))" "ws_id (fl_ws f) = job_workspace_id (fl_job f)"
    using assms(1) by (simp_all add: tracked_def)
  obtain s1 where o: "ws_state d' (ws_id (fl_ws f)) = Some s1" "\<forall>i. job_ident d' i = job_ident d i"
    "\<forall>k. k \<noteq> ws_id (fl_ws f) \<longrightarrow> ws_state d' k = ws_state d k" "db_keys_ok d \<longrightarrow> db_keys_ok d'"
    using land_outcome [OF fl assms(2)] by blast
  have "ws_state d k \<noteq> None \<Longrightarrow> ws_state d' k \<noteq> None" for k using o(1,3) by (cases "k = ws_id (fl_ws f)") simp_all
  then show ?thesis using leave(1) [OF assms(1)] o(2,4) unfolding tracked_def by metis
qed

lemma land_moves:
  assumes "tracked d (F1 @ f # F2)" "land f d = Inr (d', calls)"
  shows "moves d (F1 @ f # F2) k (ws_state d k) (ws_state d' k)"
proof -
  have fl: "job_ident d (fl_id f) = Some (job_type (fl_job f), job_workspace_id (fl_job f))" "ws_id (fl_ws f) = job_workspace_id (fl_job f)"
    using assms(1) by (simp_all add: tracked_def)
  obtain w s' js where o: "get_ws d (ws_id (fl_ws f)) = Some w" "good_outcome (job_type (fl_job f)) (ws_status (fl_ws f)) s' js"
    "ws_state d' (ws_id (fl_ws f)) = Some (changed (ws_status (fl_ws f)) s' (ws_status w))"
    "\<forall>k. k \<noteq> ws_id (fl_ws f) \<longrightarrow> ws_state d' k = ws_state d k"
    using land_outcome [OF fl assms(2)] by blast
  show ?thesis
  proof (cases "k = ws_id (fl_ws f) \<and> s' \<noteq> ws_status (fl_ws f)")
    case True
    then have "ws_state d' k = Some s'" "ws_state d k = Some (ws_status w)" using o(1,3) by (simp_all add: changed_def ws_state_def)
    moreover have "engaged d (F1 @ f # F2) k (job_type (fl_job f))" using True fl(2) by (simp add: engaged_def)
    ultimately show ?thesis unfolding moves_def using good_outcome_shift [OF o(2)] True by blast
  next
    case False
    then have "ws_state d' k = ws_state d k" using o(1,3,4) by (cases "k = ws_id (fl_ws f)") (simp_all add: changed_def ws_state_def [of d])
    then show ?thesis by simp
  qed
qed

lemma land_guarded:
  assumes tr: "tracked d (F1 @ f # F2)" and gd: "guarded d (F1 @ f # F2)" and run: "land f d = Inr (d', calls)"
  shows "guarded d' (F1 @ F2)"
proof -
  let ?k = "ws_id (fl_ws f)" and ?i = "fl_id f" and ?t = "job_type (fl_job f)" and ?m = "ws_status (fl_ws f)"
  have fl: "job_ident d ?i = Some (?t, job_workspace_id (fl_job f))" "?k = job_workspace_id (fl_job f)"
    using tr by (simp_all add: tracked_def)
  obtain w j s' js j' where o: "get_ws d ?k = Some w" "get_job d ?i = Some j" "good_outcome ?t ?m s' js"
    "ws_state d' ?k = Some (changed ?m s' (ws_status w))" "get_job d' ?i = Some j'"
    "job_status j' = changed (job_status (fl_job f)) (fst js) (job_status j)"
    "\<forall>i. job_ident d' i = job_ident d i" "\<forall>i. i \<noteq> ?i \<longrightarrow> get_job d' i = get_job d i" "\<forall>k. k \<noteq> ?k \<longrightarrow> ws_state d' k = ws_state d k"
    using land_outcome [OF fl run] by blast
  note rest = leave(2,3) [OF gd]
  have type: "job_type j = ?t" "job_workspace_id j = ?k" "job_type j' = ?t" "job_workspace_id j' = ?k"
    using fl o(2,5) o(7) [rule_format, of ?i] by (auto simp: job_ident_def)
  have other: "shields d' (F1 @ F2) k i" if "shields d (F1 @ f # F2) k i" "i \<noteq> ?i" for k i
    using that o(8) by (auto simp: shields_def covers_def)
  have old: "\<exists>i. shields d (F1 @ f # F2) k i" if "ws_state d k = Some s" "busy s" for k s
    using gd that unfolding guarded_def by blast
  have "\<exists>i. shields d' (F1 @ F2) k i" if k: "ws_state d' k = Some s" "busy s" for k s
  proof (cases "k = ?k")
    case False
    then obtain i where i: "shields d (F1 @ f # F2) k i" using old k o(9) by metis
    then have "i \<noteq> ?i" using False o(2) type(2) by (auto simp: shields_def covers_def)
    then show ?thesis using other [OF i] by blast
  next
    case True
    show ?thesis
    proof (cases "lifecycle_job_type ?t \<and> fst js = JS_QUEUED")
      case retry: True
      have "job_status j = JS_QUEUED" if "job_status (fl_job f) = JS_QUEUED"
        using gd that o(2) by (auto simp: guarded_def)
      then have "job_status j' = JS_QUEUED" using o(6) retry by (auto simp: changed_def)
      then have "covers d' ?k ?i" unfolding covers_def using o(5) type(3,4) retry by (intro exI [of _ j']) simp
      moreover have "fl_id g \<noteq> ?i" if "g \<in> set (F1 @ F2)" for g using rest(2) that by (metis imageI)
      ultimately have "shields d' (F1 @ F2) k ?i" using True by (simp add: shields_def)
      then show ?thesis ..
    next
      case final: False
      have m: "s' = ?m"
      proof (rule ccontr)
        assume "s' \<noteq> ?m"
        then have "s = s'" using o(4) k(1) True by (simp add: changed_def)
        then show False using good_outcome_covers [OF o(3)] final k(2) \<open>s' \<noteq> ?m\<close> by blast
      qed
      then have "s = ws_status w" using o(4) k(1) True by (simp add: changed_def)
      then have "ws_state d k = Some s" using o(1) True by (simp add: ws_state_def)
      then obtain i where i: "shields d (F1 @ f # F2) k i" using old k(2) by blast
      have "i \<noteq> ?i"
      proof
        assume "i = ?i"
        then have "busy ?m" "lifecycle_job_type ?t" using i o(2) type(1) by (auto simp: shields_def covers_def)
        then show False using good_outcome_covers [OF o(3)] m final by auto
      qed
      then show ?thesis using other [OF i] by blast
    qed
  qed
  moreover have "\<exists>j. get_job d' (fl_id g) = Some j \<and> job_status j = JS_QUEUED"
    if "g \<in> set (F1 @ F2)" "job_status (fl_job g) = JS_QUEUED" for g
  proof -
    have "fl_id g \<noteq> ?i" using rest(2) that(1) by (metis imageI)
    then show ?thesis using rest(1) that o(8) unfolding guarded_def by auto
  qed
  ultimately show ?thesis using rest(1) unfolding guarded_def by blast
qed

section \<open>The system\<close>

definition sound :: "bool \<Rightarrow> sys \<Rightarrow> bool" where
  "sound sole S \<longleftrightarrow> tracked (fst S) (snd S) \<and> (sole \<longrightarrow> guarded (fst S) (snd S))"

lemma departed_rows:
  assumes "depart T b jid d1 = Some (f, d')"
  shows "fl_id f = jid" "get_ws d' (ws_id (fl_ws f)) = Some (fl_ws f)" "get_job d' (fl_id f) = Some (fl_job f)"
    "ws_id (fl_ws f) = job_workspace_id (fl_job f)"
    "get_job d1 jid = Some j \<Longrightarrow> job_workspace_id j = ws_id (fl_ws f)"
proof -
  obtain r w d2 where r: "get_job d1 jid = Some r" "bind_orchestrator (fl_env f) (tk_orch T) w r d1 = Inr (fl_orch f, d2)"
    "get_job (begin_create_bringup_after_placement (fl_env f) (job_workspace_id r) (job_type r) d2) jid = Some (fl_job f)"
    "get_ws (begin_create_bringup_after_placement (fl_env f) (job_workspace_id r) (job_type r) d2) (job_workspace_id r) = Some (fl_ws f)"
    "d' = log_job_running (fl_env f) (fl_ws f) (fl_job f)
       (begin_create_bringup_after_placement (fl_env f) (job_workspace_id r) (job_type r) d2)"
    using depart_cases [OF assms] by blast
  note same = log_running_same [of "begin_create_bringup_after_placement (fl_env f) (job_workspace_id r) (job_type r) d2" "fl_env f" "fl_ws f" "fl_job f", folded r(5)]
  have id: "fl_id f = jid" "ws_id (fl_ws f) = job_workspace_id r" using get_key(1,2) r(3,4) by blast+
  have "get_job d2 jid = Some (fl_job f)" using r(3) by (simp add: view)
  then have "fl_job f = r" using r(1) same_rows_state(3) [OF bind_orchestrator_effect(1) [OF r(2)], of jid] by simp
  then show "fl_id f = jid" "get_ws d' (ws_id (fl_ws f)) = Some (fl_ws f)" "get_job d' (fl_id f) = Some (fl_job f)"
    "ws_id (fl_ws f) = job_workspace_id (fl_job f)" "get_job d1 jid = Some j \<Longrightarrow> job_workspace_id j = ws_id (fl_ws f)"
    using id r(1,3,4) same_rows_state(3,4) [OF same] by auto
qed

lemma reread_fields [simp]: "fl_ws (reread w j f) = w" "fl_job (reread w j f) = j"
  by (simp_all add: reread_def)

lemma sys_step_sound:
  assumes "sys_step S c S'" "sound sole S" "sole \<longrightarrow> undisputed S c"
  shows "sound sole S'"
  using assms
proof (induction rule: sys_step.induct)
  case (commit d d' F)
  then show ?case using evolves_tracked [OF step_evolves] evolves_guarded [OF step_evolves, of d d' F] by (auto simp: sound_def)
next
  case (work T b jid d d1 d' calls F)
  then show ?case using evolves_tracked [OF work_evolves] evolves_guarded [OF work_evolves, of T b jid d d1 d' calls F]
    by (auto simp: sound_def undisputed_def)
next
  case (depart T b jid d d1 f d' F)
  note ev = depart_evolves [OF depart.hyps] and rows = departed_rows [OF depart.hyps(2)]
  have tr: "tracked d' ([] @ F)" using evolves_tracked [OF ev] depart.prems by (simp add: sound_def)
  have "sole \<Longrightarrow> guarded d' ([] @ F) \<and> fl_id f \<notin> fl_id ` set ([] @ F)"
    using evolves_guarded [OF ev, of F] depart.prems rows(1) by (auto simp: sound_def undisputed_def)
  then show ?case using board [OF tr rows(2-4)] by (auto simp: sound_def)
next
  case (undo T b jid d d1 f d2 w j F)
  have ok: "db_keys_ok d" using undo.prems by (simp add: sound_def tracked_def)
  have j: "ws_id w = job_workspace_id j" "ws_id w = ws_id (fl_ws f)" "job_id j = jid"
    using departed_rows(5) [OF undo.hyps(2)] claims_queued [OF undo.hyps(1) ok] undo.hyps(3,4) claim_keeps(6) [of "tk_env T" jid d jid]
      get_key(1,2) by (auto simp: job_ident_def)
  have tr: "tracked d ([] @ F)" using undo.prems by (simp add: sound_def)
  note board = board [OF tr, of "reread w j f", simplified]
  show ?case using board undo j by (auto simp: sound_def undisputed_def)
next
  case (refresh d f w j F1 F2)
  have fl: "ws_id (fl_ws f) = job_workspace_id (fl_job f)" "job_ident d (fl_id f) = Some (job_type (fl_job f), job_workspace_id (fl_job f))"
    using refresh.prems by (simp_all add: sound_def tracked_def)
  have j: "ws_id w = job_workspace_id j" "ws_id w = ws_id (fl_ws f)" "job_id j = fl_id f"
    using fl refresh.hyps get_key(1,2) by (auto simp: job_ident_def)
  have tr: "tracked d (F1 @ F2)" using refresh.prems leave(1) [of d F1 f F2] by (simp add: sound_def)
  note board = board [OF tr, of "reread w j f", simplified]
  show ?case using board refresh j leave(2,3) [of d F1 f F2] by (auto simp: sound_def)
next
  case (land f d d' calls F1 F2)
  then show ?case using land_tracked [of d F1 f F2 d' calls] land_guarded [of d F1 f F2 d' calls] by (simp add: sound_def)
next
  case (fail d F1 f F2)
  then show ?case using leave(1,2) [of d F1 f F2] by (simp add: sound_def)
qed

lemma sys_step_moves:
  assumes "sys_step S c S'" "tracked (fst S) (snd S)"
  shows "moves (fst S) (snd S) k (ws_state (fst S) k) (ws_state (fst S') k)"
proof -
  have ev: "moves d F k (ws_state d k) (ws_state d' k)" if "evolves J d d'" "tracked d F" for J d d' F
    using that by (auto simp: evolves_def tracked_def intro: moves_mono)
  show ?thesis using assms
  proof (induction rule: sys_step.induct)
    case (commit d d' F)
    then show ?case using ev [OF step_evolves] by simp
  next
    case (work T b jid d d1 d' calls F)
    then show ?case using ev [OF work_evolves] by simp
  next
    case (depart T b jid d d1 f d' F)
    then show ?case using ev [OF depart_evolves] by simp
  next
    case (land f d d' calls F1 F2)
    then show ?case using land_moves [of d F1 f F2 d' calls k] by simp
  qed simp_all
qed

lemma reachable_sound: "reachable sole S \<Longrightarrow> sound sole S"
proof (induction rule: reachable.induct)
  case (start d)
  then show ?case by (simp add: sound_def tracked_def guarded_def ws_state_def get_ws_def)
next
  case (more S c S')
  then show ?case using sys_step_sound by blast
qed

end
