(* ===== verification/Worker_Correct.thy ===== *)
theory Worker_Correct
  imports System
begin

text \<open>
  Properties of the job worker, the cleanup tasks, reconcile and the snapshots, with the concrete
  databases on which their witnesses run.
\<close>

section \<open>A sample world\<close>

definition ex_stop_ok :: stop_result where
  "ex_stop_ok = \<lparr>st_success = True, st_container_id = Some ''c1'', st_container_state = Some ''exited'',
     st_topology_detached = Some True, st_issues = None\<rparr>"

definition ex_bring_ok :: bringup_result where
  "ex_bring_ok = \<lparr>ro_success = True, ro_node_id = Some ''node-1'', ro_topology_id = Some ''1'', ro_container_id = Some ''c2'',
     ro_container_state = Some ''running'', ro_internal_endpoint = Some ''10.0.0.3:8080'', ro_gateway_route_target = None,
     ro_probe_healthy = Some True, ro_issues = None, ro_applied_cpu = None, ro_applied_memory_mib = None,
     ro_applied_pids = None, ro_applied_security = None, bu_rollback_attempted = False, bu_rollback_succeeded = None,
     bu_rollback_issues = None\<rparr>"

text \<open>An orchestrator on which stopping and deleting work and everything else raises.\<close>

definition ex_orch :: orch where
  "ex_orch = \<lparr>o_node_id = Some ''node-1'', o_bring_up = (\<lambda>_. Inr ex_bring_ok), o_stop = (\<lambda>_ _. Inr ex_stop_ok),
     o_delete = (\<lambda>_. Inr \<lparr>de_success = True, de_issues = None\<rparr>), o_restart = (\<lambda>_. Inl (WorkspaceRestartError ''down'')),
     o_update = (\<lambda>_. Inl (WorkspaceUpdateError ''down'')), o_health = (\<lambda>_ _. Inr ex_bring_ok),
     o_export = (\<lambda>_ _ _ _. Inl (WorkspaceSnapshotError ''down'')), o_import = (\<lambda>_ _ _. Inl (WorkspaceSnapshotError ''down''))\<rparr>"

definition ex_outside :: outside where
  "ex_outside = \<lparr>x_gw_list = Inr [], x_gw_call = (\<lambda>_. None), x_is_s3 = False, x_storage_uri = (\<lambda>_ _. ''file:///a''),
     x_archive_path = (\<lambda>_ _. ''/a''), x_upload = (\<lambda>_ _. None), x_download = (\<lambda>_ _. None), x_delete_archive = (\<lambda>_ _. None),
     x_has_archive = (\<lambda>_ _. True), x_remote_export = (\<lambda>_ _ _ _. \<lparr>so_success = False, so_size_bytes = None, so_issues = None\<rparr>),
     x_lock = (\<lambda>_. True), x_validate_flags = Inr, x_str_json = (\<lambda>_. []), x_decrypt = Some, x_provision = id,
     x_pending_repo = (\<lambda>_. False), x_clone = (\<lambda>_. Inr False)\<rparr>"

definition ex_tick :: tick where
  "ex_tick = \<lparr>tk_env = ex_env, tk_out = ex_outside, tk_orch = (\<lambda>_ _. Inr ex_orch), tk_locked = []\<rparr>"

definition ex_queue :: "job_type \<Rightarrow> ws_status \<Rightarrow> db" where
  "ex_queue jt st = (ex_db_in st)\<lparr>jobs := [ex_job jt JS_QUEUED]\<rparr>"

definition ex_claimed :: "job_type \<Rightarrow> ws_status \<Rightarrow> db" where
  "ex_claimed jt st = (ex_db_in st)\<lparr>jobs := [ex_job jt JS_RUNNING]\<rparr>"

lemma ex_provision_contained: "provision_contained (tk_out ex_tick)"
  by (simp add: provision_contained_def ex_tick_def ex_outside_def)

lemma ex_rows:
  "get_ws (ex_claimed jt st) 1 = Some (ex_ws\<lparr>ws_status := st\<rparr>)" "get_job (ex_claimed jt st) 1 = Some (ex_job jt JS_RUNNING)"
  "get_ws (ex_queue jt st) 1 = Some (ex_ws\<lparr>ws_status := st\<rparr>)" "get_job (ex_queue jt st) 1 = Some (ex_job jt JS_QUEUED)"
  "runtime_row (ex_claimed jt st) 1 = Some ex_rt" "runtime_row (ex_queue jt st) 1 = Some ex_rt"
  by (simp_all add: get_ws_def get_job_def runtime_row_def ex_claimed_def ex_queue_def ex_defs)

lemma ex_job_fields [simp]:
  "job_id (ex_job jt js) = 1" "job_workspace_id (ex_job jt js) = 1" "job_type (ex_job jt js) = jt" "job_status (ex_job jt js) = js"
  by (simp_all add: ex_job_def)

lemma ex_job_ws: "get_ws (ex_claimed jt st) (job_workspace_id (ex_job jt js)) = Some (ex_ws\<lparr>ws_status := st\<rparr>)"
  by (simp add: ex_rows)

lemma ex_ws_status: "ws_status (ex_ws\<lparr>ws_status := st\<rparr>) = st"
  by simp

section \<open>Claiming\<close>

text \<open>C5: the worker claims the oldest eligible job that no other worker holds, marks it running and counts the
  attempt; it reports an empty queue only when there is no such job.\<close>

theorem claim_takes_oldest:
  assumes "db_keys_ok d"
  shows "case try_claim_next_queued_workspace_job E locked d of
      None \<Rightarrow> \<forall>j\<in>set (jobs d). \<not> (queued_job_eligible (now E) j \<and> job_id j \<notin> set locked)
    | Some (jid, d') \<Rightarrow> \<exists>j\<in>set (jobs d). job_id j = jid \<and> queued_job_eligible (now E) j \<and> jid \<notin> set locked
        \<and> (\<forall>q\<in>set (jobs d). queued_job_eligible (now E) q \<and> job_id q \<notin> set locked \<longrightarrow> job_created_at j \<le> job_created_at q)
        \<and> get_job d' jid = Some (j\<lparr>job_status := JS_RUNNING, job_started_at := Some (now E), job_attempt := job_attempt j + 1\<rparr>)"
proof (cases "try_claim_next_queued_workspace_job E locked d")
  case None
  then have "filter (claimable E locked) (jobs d) = []"
    by (auto simp: try_claim_next_queued_workspace_job_def first_row_None split: option.splits) (metis set_empty set_sort)
  then show ?thesis using None by (auto simp: filter_empty_conv claimable_def)
next
  case (Some p)
  obtain jid d' where p: "p = (jid, d')" by fastforce
  obtain j where j: "get_job d jid = Some j" "claimable E locked j" "d' = mark_job_running E jid d"
    "\<forall>q\<in>set (jobs d). claimable E locked q \<longrightarrow> job_created_at j \<le> job_created_at q"
    using claim_next_queued [OF Some [unfolded p] assms] by blast
  have "j \<in> set (jobs d)" "job_id j = jid" using j(1) row_find_Some_in get_key(2) unfolding get_job_def by metis+
  then show ?thesis using Some p j by (auto simp: claimable_def mark_job_running_def get_upd intro!: bexI [of _ j])
qed

theorem claim_takes_oldest_witness:
  "case try_claim_next_queued_workspace_job ex_env [] (ex_queue JT_STOP WS_STOPPING) of None \<Rightarrow> False
    | Some (jid, d') \<Rightarrow> jid = 1 \<and> map_option job_status (get_job d' 1) = Some JS_RUNNING"
proof -
  have keys: "db_keys_ok (ex_queue JT_STOP WS_STOPPING)" by (simp add: db_keys_ok_def keys_ok_def ex_queue_def ex_defs)
  have "try_claim_next_queued_workspace_job ex_env [] (ex_queue JT_STOP WS_STOPPING) =
      Some (1, mark_job_running ex_env 1 (ex_queue JT_STOP WS_STOPPING))"
    by (simp add: try_claim_next_queued_workspace_job_def claimable_def queued_job_eligible_def ex_queue_def ex_defs)
  then show ?thesis using claim_takes_oldest [OF keys, of ex_env "[]"] by auto
qed

section \<open>From claim to outcome\<close>

text \<open>C2: whatever the orchestrator, the placement and the gateway answer, a claimed job that the worker finishes
  has a definite outcome. A life-cycle job that succeeded left its workspace in the target state of its
  type, one that failed left it in ERROR, and a retried one is queued again with a wake-up time while the
  workspace keeps its state or waits as PENDING (CREATING for a create). Reconcile, snapshot and import
  jobs keep the state or, at worst, move it to ERROR. No other workspace and no other job changes.\<close>

theorem job_run_has_outcome:
  assumes "get_job d jid = Some j" "get_ws d (job_workspace_id j) = Some w"
    and "\<forall>d. same_rows d (x_provision (tk_out T) d)" and "run_claimed T shortcut jid d = Inr (d', calls)"
  shows "\<exists>w' j'. get_ws d' (job_workspace_id j) = Some w' \<and> get_job d' jid = Some j' \<and> job_type j' = job_type j
      \<and> good_outcome (job_type j) (ws_status w) (ws_status w') (job_status j', job_next_attempt_after j' \<noteq> None)
      \<and> (\<forall>k. k \<noteq> job_workspace_id j \<longrightarrow> get_ws d' k = get_ws d k) \<and> (\<forall>k. k \<noteq> jid \<longrightarrow> get_job d' k = get_job d k)"
proof -
  have id: "ws_id w = job_workspace_id j" using assms(2) get_ws_key by metis
  have "settles (job_type j) (ws_id w) jid d d'"
    using run_claimed_settles [OF assms(1,2) _ assms(4)] assms(3) by (simp add: provision_contained_def)
  then show ?thesis using assms(1,2) id
    by (auto simp: settles_def confined_def ws_state_def job_state_def job_ident_def)
qed

lemma ex_placement:
  assumes "job_type j \<in> {JT_START, JT_STOP, JT_RESTART, JT_UPDATE, JT_DELETE, JT_REPO_IMPORT, JT_RECONCILE_RUNTIME}"
    "runtime_row d 1 = Some ex_rt"
  shows "resolve_orchestrator_placement E (ex_ws\<lparr>ws_status := st\<rparr>) j d = Inr ((''node-1'', 1), d)"
proof -
  have "runtime_placement_row_complete (Some ex_rt)" "py_strip (str_or_empty (rt_node_id ex_rt)) = ''node-1''" "rt_topology_id ex_rt = Some 1"
    by (simp_all add: runtime_placement_row_complete_def ex_rt_def py_strip_def py_lstrip_def py_space_def)
  then show ?thesis using assms
    by (auto simp: resolve_orchestrator_placement_def jobs_need_runtime_placement_def Let_def ex_ws_def)
qed

lemma ex_orch_stops: "o_stop ex_orch wid a = Inr ex_stop_ok"
  by (simp add: ex_orch_def)

lemma execute_stop:
  "job_type j = JT_STOP \<Longrightarrow> (\<And>a. o_stop orc 0 a = Inr res) \<Longrightarrow>
   execute_job_body E X (Some orc) w j d = Inr (finalize_stop_result E (ws_id w) (job_id j) res d)"
  by (simp add: execute_job_body_def Let_def lift_body_def)

text \<open>A body that returns is followed by the outcome events only.\<close>

lemma process_claimed_eq:
  assumes "get_job d jid = Some j" "get_ws d (job_workspace_id j) = Some w"
    and "\<And>d1. execute_job_body E X orc w j d1 = Inr (out d1)"
  shows "\<exists>d1. same_rows d d1 \<and> process_claimed_running_job E X orc jid d =
      Inr (emit_job_outcome_event E (ws_id w) jid (fst (out d1)), snd (out d1))"
proof -
  let ?d1 = "log_job_running E w j d"
  have "job_id j = jid" using assms(1) get_key(2) by blast
  then have "process_claimed_running_job E X orc jid d = Inr (emit_job_outcome_event E (ws_id w) jid (fst (out ?d1)), snd (out ?d1))"
    using assms(1,2) by (simp add: process_claimed_running_job_def finish_claimed_job_def Let_def assms(3) split: prod.split)
  moreover have "same_rows d ?d1" by (rule log_running_same)
  ultimately show ?thesis by blast
qed

text \<open>In the sample world a claimed STOP job of workspace 1 ends in STOPPED.\<close>

lemma finalize_stop_state:
  "ws_state d wid \<noteq> None \<Longrightarrow> st_success res \<Longrightarrow> ws_state (fst (finalize_stop_result E wid jid res d)) wid = Some WS_STOPPED"
  by (auto simp: finalize_stop_result_def Let_def view)

lemma ex_stop_result:
  assumes "get_job d 1 = Some j" "job_type j = JT_STOP" "job_workspace_id j = 1"
    and "get_ws d 1 = Some (ex_ws\<lparr>ws_status := st\<rparr>)" "runtime_row d 1 = Some ex_rt"
  shows "\<exists>d' calls. run_claimed ex_tick b 1 d = Inr (d', calls) \<and> ws_state d' 1 = Some WS_STOPPED"
proof -
  let ?E = "correlation_scope (job_correlation_id j) ex_env" and ?w = "ex_ws\<lparr>ws_status := st\<rparr>"
  have id: "job_id j = 1" "ws_id ?w = 1" using get_key(2) [OF assms(1)] by (simp_all add: ex_ws_def)
  have "bind_orchestrator ?E (\<lambda>_ _. Inr ex_orch) ?w j d = Inr (Some ex_orch, d)"
    using ex_placement [of j d ?E st] assms(2,5) by (simp add: bind_orchestrator_def)
  then have run: "run_claimed ex_tick b 1 d = process_claimed_running_job ?E ex_outside (Some ex_orch) 1 d"
    using assms by (simp add: run_claimed_def Let_def ex_tick_def begin_create_bringup_after_placement_def)
  have body: "execute_job_body ?E ex_outside (Some ex_orch) ?w j d1 = Inr (finalize_stop_result ?E 1 1 ex_stop_ok d1)" for d1
    using execute_stop [of j ex_orch ex_stop_ok, OF assms(2) ex_orch_stops] id by simp
  have ws: "get_ws d (job_workspace_id j) = Some ?w" using assms(3,4) by simp
  obtain d1 where d1: "same_rows d d1" "process_claimed_running_job ?E ex_outside (Some ex_orch) 1 d =
      Inr (emit_job_outcome_event ?E 1 1 (fst (finalize_stop_result ?E 1 1 ex_stop_ok d1)), snd (finalize_stop_result ?E 1 1 ex_stop_ok d1))"
    using process_claimed_eq [OF assms(1) ws body] id(2) by metis
  have "ws_state d1 1 \<noteq> None" using same_rows_state(1) [OF d1(1), of 1] assms(4) by (auto simp: ws_state_def)
  then have "ws_state (fst (finalize_stop_result ?E 1 1 ex_stop_ok d1)) 1 = Some WS_STOPPED"
    by (rule finalize_stop_state) (simp add: ex_stop_ok_def)
  then show ?thesis using run d1(2) same_rows_state(1) [OF emit_same] by simp
qed

lemma ex_stop_runs: "\<exists>d' calls. run_claimed ex_tick True 1 (ex_claimed JT_STOP WS_STOPPING) = Inr (d', calls)"
  using ex_stop_result [OF ex_rows(2) ex_job_fields(3,2) ex_rows(1,5)] by blast

theorem job_run_has_outcome_witness:
  "\<exists>d' calls w'. run_claimed ex_tick True 1 (ex_claimed JT_STOP WS_STOPPING) = Inr (d', calls) \<and> get_ws d' 1 = Some w'
     \<and> ws_status w' \<in> {WS_STOPPED, WS_ERROR, WS_STOPPING, WS_PENDING}"
proof -
  obtain d' calls where run: "run_claimed ex_tick True 1 (ex_claimed JT_STOP WS_STOPPING) = Inr (d', calls)"
    using ex_stop_runs by blast
  obtain w' j' where o: "get_ws d' 1 = Some w'" "get_job d' 1 = Some j'"
    "good_outcome JT_STOP WS_STOPPING (ws_status w') (job_status j', job_next_attempt_after j' \<noteq> None)"
    using job_run_has_outcome [OF ex_rows(2) ex_job_ws ex_provision_contained [unfolded provision_contained_def] run]
    unfolding ex_job_fields ex_ws_status by blast
  then show ?thesis using run by (cases "job_status j'") (auto simp: lifecycle_job_type_def)
qed

end
