(* ===== verification/Finalize_Correct.thy ===== *)
theory Finalize_Correct
  imports Worker_Correct
begin

text \<open>
  What a finished stop, bring-up and delete leave in the workspace, runtime and session rows, and what
  they tell route-admin.
\<close>

section \<open>The runtime row of a workspace\<close>

lemma runtime_row_upd_rt:
  "runtime_row (upd_rt wid f d) wid = map_option (\<lambda>r. (f r)\<lparr>rt_id := rt_id r, rt_workspace_id := wid\<rparr>) (runtime_row d wid)"
proof (cases "runtime_row d wid")
  case (Some r)
  have "first_row (filter (\<lambda>r. rt_workspace_id r = wid) rows) = Some r \<Longrightarrow> rt_workspace_id x = wid \<Longrightarrow> rt_id x = rt_id r \<Longrightarrow>
      first_row (filter (\<lambda>r. rt_workspace_id r = wid) (row_put rt_id x rows)) = Some x" for rows x
    by (induction rows) (auto simp: row_put_def first_row_def split: if_splits)
  with Some show ?thesis by (simp add: upd_rt_def runtime_row_def put_rt_def)
qed (simp add: upd_rt_def)

lemma runtime_row_ensure: "runtime_row (ensure_runtime E wid d) wid \<noteq> None"
  by (auto simp: ensure_runtime_def runtime_row_def add_rt_def bump_def blank_runtime_def)

lemma runtime_row_cong: "runtimes d' = runtimes d \<Longrightarrow> runtime_row d' wid = runtime_row d wid"
  by (simp add: runtime_row_def)

lemma stop_runtime_row:
  "\<exists>r0. runtime_row (apply_runtime_stop E wid res d) wid = Some ((stopped_runtime E res r0)\<lparr>rt_id := rt_id r0, rt_workspace_id := wid\<rparr>)"
  using runtime_row_ensure [of E wid d] by (auto simp: apply_runtime_stop_def runtime_row_upd_rt)

lemma bringup_runtime_row:
  "\<exists>r0. runtime_row (apply_runtime_bringup_like E wid ob target v d) wid =
     Some ((running_runtime E ob target v r0)\<lparr>rt_id := rt_id r0, rt_workspace_id := wid\<rparr>)"
  using runtime_row_ensure [of E wid d] by (auto simp: apply_runtime_bringup_like_def runtime_row_upd_rt)

text \<open>Records, events and session revocation leave the runtime row alone.\<close>

lemma runtimes_kept:
  "runtimes (mark_job_succeeded E jid d) = runtimes d"
  "runtimes (audit_job E a oc wid jid nid rs mt d) = runtimes d"
  "runtimes (sync_workspace_execution_node_id wid nid d) = runtimes d"
  by (simp_all add: mark_job_succeeded_def audit_job_def sync_workspace_execution_node_id_def Let_def split: option.split)

lemma workspaces_kept:
  "workspaces (audit_job E a oc wid jid nid rs mt d) = workspaces d"
  "workspaces (mark_job_succeeded E jid d) = workspaces d"
  "workspaces (apply_runtime_stop E wid res d) = workspaces d"
  "workspaces (apply_runtime_bringup_like E wid ob tg v d) = workspaces d"
  by (simp_all add: audit_job_def mark_job_succeeded_def apply_runtime_stop_def apply_runtime_bringup_like_def ensure_runtime_def)

lemma sessions_kept: "sessions (audit_job E a oc wid jid nid rs mt d) = sessions d"
  by (simp add: audit_job_def)

lemma get_ws_cong: "workspaces d' = workspaces d \<Longrightarrow> get_ws d' k = get_ws d k"
  by (simp add: get_ws_def)

text \<open>A revocation touches the counter and the time stamp only.\<close>

lemma get_ws_after_revoke:
  "get_ws d wid = Some w \<Longrightarrow> \<exists>c t. get_ws (snd (revoke_all_workspace_sessions E wid d)) wid
     = Some (w\<lparr>ws_active_sessions_count := c, ws_updated_at := t\<rparr>)"
proof (cases "\<exists>s\<in>set (sessions d). sess_workspace_id s = wid \<and> sess_status s = SS_ACTIVE")
  case True
  assume "get_ws d wid = Some w"
  then have "get_ws (snd (revoke_all_workspace_sessions E wid d)) wid = Some (w\<lparr>ws_active_sessions_count :=
      count_effective_active_sessions d wid (now E), ws_updated_at := now E\<rparr>)"
    unfolding get_ws_revoke_all using True by (simp only: if_True simp_thms option.map)
  then show ?thesis by blast
next
  case False
  assume "get_ws d wid = Some w"
  then have "get_ws (snd (revoke_all_workspace_sessions E wid d)) wid
      = Some (w\<lparr>ws_active_sessions_count := ws_active_sessions_count w, ws_updated_at := ws_updated_at w\<rparr>)"
    unfolding get_ws_revoke_all using False by (simp only: if_False simp_thms) simp
  then show ?thesis by blast
qed

section \<open>Stop\<close>

text \<open>No session of the workspace is active.\<close>

definition sessions_closed :: "db \<Rightarrow> int \<Rightarrow> bool" where
  "sessions_closed d wid \<longleftrightarrow> (\<forall>s\<in>set (sessions d). sess_workspace_id s = wid \<longrightarrow> sess_status s \<noteq> SS_ACTIVE)"

lemma revoke_closes: "sessions_closed (snd (revoke_all_workspace_sessions E wid d)) wid"
  by (simp add: sessions_closed_def revoke_rows_def ball_Un)

lemma sessions_closed_cong: "sessions d' = sessions d \<Longrightarrow> sessions_closed d' wid = sessions_closed d wid"
  by (simp add: sessions_closed_def)

text \<open>The workspace row of a stopped workspace before its sessions are revoked.\<close>

definition stopped_db :: "env \<Rightarrow> int \<Rightarrow> int \<Rightarrow> stop_result \<Rightarrow> db \<Rightarrow> db" where
  "stopped_db E wid jid res d = upd_ws wid (\<lambda>w. (workspace_clear_errors w)\<lparr>ws_status := WS_STOPPED,
     ws_last_stopped := Some (now E), ws_updated_at := now E\<rparr>) (mark_job_succeeded E jid (apply_runtime_stop E wid res d))"

lemma stop_tables:
  assumes "st_success res" "finalize_stop_result E wid jid res d = (d', calls)"
  shows "runtimes d' = runtimes (apply_runtime_stop E wid res d)"
    "sessions d' = sessions (snd (revoke_all_workspace_sessions E wid (stopped_db E wid jid res d)))"
    "workspaces d' = workspaces (snd (revoke_all_workspace_sessions E wid (stopped_db E wid jid res d)))"
    "calls = gateway_try_deregister E wid"
  using assms by (auto simp: finalize_stop_result_def stopped_db_def Let_def runtimes_kept sessions_kept workspaces_kept)

lemma stop_runtime:
  assumes "st_success res" "finalize_stop_result E wid jid res d = (d', calls)"
  shows "\<exists>r0. runtime_row d' wid = Some ((stopped_runtime E res r0)\<lparr>rt_id := rt_id r0, rt_workspace_id := wid\<rparr>)"
  using stop_runtime_row [of E wid res d] runtime_row_cong [OF stop_tables(1) [OF assms]] by simp

text \<open>C22: a successful stop leaves the workspace STOPPED without error texts, releases its reservation and
  forgets its endpoint, route target and, unless the topology reports that it is still attached, its
  topology; every session of the workspace is closed, and route-admin is asked to drop the route exactly
  when the gateway is enabled.\<close>

theorem stop_releases_everything:
  assumes "get_ws d wid = Some w" "st_success res" "finalize_stop_result E wid jid res d = (d', calls)"
  shows "\<exists>w' r. get_ws d' wid = Some w' \<and> ws_status w' = WS_STOPPED \<and> ws_last_error_code w' = None \<and> ws_last_error_message w' = None
    \<and> runtime_row d' wid = Some r \<and> rt_reserved_cpu r = 0 \<and> rt_reserved_memory_mb r = 0 \<and> rt_reserved_disk_mb r = 0
    \<and> rt_internal_endpoint r = None \<and> rt_gateway_route_target r = None
    \<and> (st_topology_detached res \<noteq> Some False \<longrightarrow> rt_topology_id r = None)
    \<and> sessions_closed d' wid \<and> calls = (if s_gateway_enabled (cfg E) then [GwDeregister (str_int wid)] else [])"
proof -
  let ?stop = "apply_runtime_stop E wid res d" and ?ws = "stopped_db E wid jid res d"
  note tables = stop_tables [OF assms(2,3)]
  obtain r0 where r: "runtime_row d' wid = Some ((stopped_runtime E res r0)\<lparr>rt_id := rt_id r0, rt_workspace_id := wid\<rparr>)"
    using stop_runtime [OF assms(2,3)] by blast
  have "get_ws (mark_job_succeeded E jid ?stop) wid = Some w"
    using assms(1) get_ws_cong [of "mark_job_succeeded E jid ?stop" d wid] by (simp add: workspaces_kept)
  then have "get_ws ?ws wid = Some ((workspace_clear_errors w)\<lparr>ws_status := WS_STOPPED, ws_last_stopped := Some (now E),
      ws_updated_at := now E, ws_id := wid\<rparr>)"
    by (simp add: get_upd stopped_db_def)
  from get_ws_after_revoke [OF this, of E]
  have "\<exists>w'. get_ws d' wid = Some w' \<and> ws_status w' = WS_STOPPED \<and> ws_last_error_code w' = None \<and> ws_last_error_message w' = None"
    unfolding get_ws_cong [OF tables(3)] by (auto simp: workspace_clear_errors_def)
  then show ?thesis
    using r tables(4) revoke_closes [of E wid ?ws] sessions_closed_cong [OF tables(2)]
    by (simp add: stopped_runtime_def release_runtime_def gateway_try_deregister_def)
qed

theorem stop_releases_everything_witness:
  "\<exists>w' r. get_ws (fst (finalize_stop_result ex_env 1 1 ex_stop_ok (ex_claimed JT_STOP WS_STOPPING))) 1 = Some w' \<and> ws_status w' = WS_STOPPED
    \<and> runtime_row (fst (finalize_stop_result ex_env 1 1 ex_stop_ok (ex_claimed JT_STOP WS_STOPPING))) 1 = Some r
    \<and> rt_reserved_cpu r = 0 \<and> rt_topology_id r = None"
proof -
  have ok: "st_success ex_stop_ok" "st_topology_detached ex_stop_ok \<noteq> Some False" by (simp_all add: ex_stop_ok_def)
  show ?thesis using stop_releases_everything [OF ex_rows(1) ok(1) surjective_pairing] ok(2) by blast
qed

section \<open>Start after a stop\<close>

text \<open>In a strict environment (production or staging) a stop makes the next start impossible. The stop
  erases the topology id of the runtime row, and the placement of a START refuses a runtime row without
  one, on every attempt.\<close>

theorem strict_start_after_stop_refused:
  assumes "st_success res" "st_topology_detached res \<noteq> Some False"
    and "finalize_stop_result E wid jid res d = (d', calls)"
    and "placement_strict_enforced E'" "job_type j = JT_START" "ws_id w' = wid" "runtimes d2 = runtimes d'"
  shows "\<exists>m. resolve_orchestrator_placement E' w' j d2 = Inl (AuthoritativePlacementError m, d2)"
proof -
  obtain r where r: "runtime_row d' wid = Some r" "rt_topology_id r = None"
    using stop_runtime [OF assms(1,3)] assms(2) by (auto simp: stopped_runtime_def)
  then have "runtime_row d2 wid = Some r" "\<not> runtime_placement_row_complete (Some r)"
    using runtime_row_cong [OF assms(7)] by (simp_all add: runtime_placement_row_complete_def)
  then show ?thesis
    using assms by (simp add: resolve_orchestrator_placement_def Let_def jobs_need_runtime_placement_def snapshot_job_type_def)
qed

theorem strict_start_after_stop_refused_witness:
  "\<exists>m d'. resolve_orchestrator_placement ex_env ex_ws (ex_job JT_START JS_RUNNING)
     (fst (finalize_stop_result ex_env 1 1 ex_stop_ok (ex_claimed JT_STOP WS_STOPPING))) = Inl (AuthoritativePlacementError m, d')"
proof -
  have ok: "st_success ex_stop_ok" "st_topology_detached ex_stop_ok \<noteq> Some False" "placement_strict_enforced ex_env" "ws_id ex_ws = 1"
    by (simp_all add: ex_stop_ok_def placement_strict_enforced_def runtime_env_fallback_allowed_def ex_env_def ex_settings_def ex_ws_def)
  show ?thesis
    using strict_start_after_stop_refused [OF ok(1,2) surjective_pairing ok(3) ex_job_fields(3) ok(4) refl] by blast
qed

section \<open>Bring-up\<close>

text \<open>The rows between the runtime write and the revocation of the sessions.\<close>

definition running_db :: "env \<Rightarrow> int \<Rightarrow> int \<Rightarrow> int \<Rightarrow> 'a run_obs_scheme \<Rightarrow> string option \<Rightarrow> db \<Rightarrow> db" where
  "running_db E wid jid v ob target d = upd_ws wid (\<lambda>w. (workspace_clear_errors w)\<lparr>ws_status := WS_RUNNING,
     ws_endpoint_ref := first_text target (first_text (ro_internal_endpoint ob) (ws_endpoint_ref w)),
     ws_last_started := Some (now E), ws_updated_at := now E\<rparr>)
       (mark_job_succeeded E jid (sync_workspace_execution_node_id wid (ro_node_id ob) (apply_runtime_bringup_like E wid ob target v d)))"

lemma running_tables:
  assumes "finalize_runtime_running_success E wid jid v ob d = Inr (d', calls)"
  shows "\<exists>target. runtimes d' = runtimes (apply_runtime_bringup_like E wid ob target v d)
    \<and> sessions d' = sessions (snd (revoke_all_workspace_sessions E wid (running_db E wid jid v ob target d)))
    \<and> workspaces d' = workspaces (snd (revoke_all_workspace_sessions E wid (running_db E wid jid v ob target d)))
    \<and> calls = gateway_try_register_running E wid (snd (revoke_all_workspace_sessions E wid (running_db E wid jid v ob target d)))"
  using assms
  by (auto simp: finalize_runtime_running_success_def running_db_def Let_def runtimes_kept sessions_kept workspaces_kept
      split: sum.splits)

lemma get_ws_sync: "get_ws d wid = Some w \<Longrightarrow>
    \<exists>n. get_ws (sync_workspace_execution_node_id wid key d) wid = Some (w\<lparr>ws_execution_node_id := n, ws_id := wid\<rparr>)"
  using get_key(1) [of d wid w]
  by (auto simp: sync_workspace_execution_node_id_def Let_def get_upd split: option.split)
    (auto intro: exI [of _ "ws_execution_node_id w"])

text \<open>C23: a successful bring-up, restart or update leaves the workspace RUNNING without error texts; its runtime
  row names the node, the container and the configuration version that were observed and carries the
  configured reservation, or none when no node is known; old sessions are closed. When the gateway is enabled and the
  workspace has an upstream, exactly one request goes to route-admin, the registration of that upstream; otherwise
  none does.\<close>

theorem running_success_reserves:
  assumes "get_ws d wid = Some w" "finalize_runtime_running_success E wid jid v ob d = Inr (d', calls)"
  shows "\<exists>w' r. get_ws d' wid = Some w' \<and> ws_status w' = WS_RUNNING \<and> ws_last_error_code w' = None
    \<and> runtime_row d' wid = Some r \<and> rt_node_id r = ro_node_id ob \<and> rt_container_id r = ro_container_id ob \<and> rt_config_version r = Some v
    \<and> (rt_reserved_cpu r, rt_reserved_memory_mb r, rt_reserved_disk_mb r) =
       (if py_strip (str_or_empty (ro_node_id ob)) \<noteq> []
        then (s_required_cpu (cfg E), s_required_memory_mb (cfg E), s_required_disk_mb (cfg E)) else (0, 0, 0))
    \<and> sessions_closed d' wid
    \<and> (let u = traefik_upstream_for_workspace_gateway (Some w') r in
       calls = (if s_gateway_enabled (cfg E) \<and> u \<noteq> [] then [register_call E w' (rt_node_id r) u] else []))"
proof -
  obtain target where t: "runtimes d' = runtimes (apply_runtime_bringup_like E wid ob target v d)"
    "sessions d' = sessions (snd (revoke_all_workspace_sessions E wid (running_db E wid jid v ob target d)))"
    "workspaces d' = workspaces (snd (revoke_all_workspace_sessions E wid (running_db E wid jid v ob target d)))"
    "calls = gateway_try_register_running E wid (snd (revoke_all_workspace_sessions E wid (running_db E wid jid v ob target d)))"
    using running_tables [OF assms(2)] by blast
  let ?up = "apply_runtime_bringup_like E wid ob target v d" and ?run = "running_db E wid jid v ob target d"
  let ?rev = "snd (revoke_all_workspace_sessions E wid ?run)"
  obtain r0 where r: "runtime_row d' wid = Some ((running_runtime E ob target v r0)\<lparr>rt_id := rt_id r0, rt_workspace_id := wid\<rparr>)"
    using bringup_runtime_row [of E wid ob target v d] runtime_row_cong [OF t(1)] by auto
  have "get_ws ?up wid = Some w" using assms(1) by (simp add: get_ws_cong [OF workspaces_kept(4)])
  from get_ws_sync [OF this] obtain n where
    "get_ws (mark_job_succeeded E jid (sync_workspace_execution_node_id wid (ro_node_id ob) ?up)) wid = Some (w\<lparr>ws_execution_node_id := n, ws_id := wid\<rparr>)"
    using get_ws_cong [OF workspaces_kept(2)] by metis
  then obtain w1 where w1: "get_ws ?run wid = Some w1" "ws_status w1 = WS_RUNNING" "ws_last_error_code w1 = None"
    by (auto simp: running_db_def get_upd workspace_clear_errors_def)
  obtain w' where w': "get_ws ?rev wid = Some w'" "ws_status w' = WS_RUNNING" "ws_last_error_code w' = None"
    using get_ws_after_revoke [OF w1(1), of E] w1(2,3) by auto
  have rev_rt: "runtime_row ?rev wid = runtime_row d' wid"
    by (rule runtime_row_cong) (simp add: t(1) running_db_def runtimes_kept)
  have "get_ws d' wid = Some w'" using w'(1) get_ws_cong [OF t(3)] by simp
  moreover have "sessions_closed d' wid" using revoke_closes sessions_closed_cong [OF t(2)] by simp
  ultimately show ?thesis using r w' t(4) rev_rt
    by (simp add: gateway_try_register_running_def Let_def) (simp add: running_runtime_def release_runtime_def Let_def)
qed

lemma ex_bringup_finishes:
  "\<exists>d' calls. finalize_runtime_running_success ex_env 1 1 1 ex_bring_ok (ex_claimed JT_START WS_STARTING) = Inr (d', calls)"
proof -
  have "\<exists>t. remote_gateway_route_target_for_node (ex_claimed JT_START WS_STARTING) (ro_node_id ex_bring_ok) e
      (ro_gateway_route_target ex_bring_ok) (ro_internal_endpoint ex_bring_ok) = Inr t" for e
  proof -
    have "node_by_key (ex_claimed JT_START WS_STARTING) (py_strip ''node-1'') = Some ex_node" "\<not> is_remote_node ex_node" "py_strip ''node-1'' \<noteq> []"
      by (simp_all add: node_by_key_def ex_claimed_def ex_db_in_def ex_node_def is_remote_node_def py_strip_def py_lstrip_def py_space_def)
    then show ?thesis by (simp add: remote_gateway_route_target_for_node_def ex_bring_ok_def)
  qed
  then show ?thesis by (auto simp: finalize_runtime_running_success_def Let_def split: sum.split) (metis Inl_Inr_False)
qed

theorem running_success_reserves_witness:
  "\<exists>d' calls w' r. finalize_runtime_running_success ex_env 1 1 1 ex_bring_ok (ex_claimed JT_START WS_STARTING) = Inr (d', calls)
     \<and> get_ws d' 1 = Some w' \<and> ws_status w' = WS_RUNNING \<and> runtime_row d' 1 = Some r \<and> rt_container_id r = Some ''c2''"
proof -
  obtain d' calls where run: "finalize_runtime_running_success ex_env 1 1 1 ex_bring_ok (ex_claimed JT_START WS_STARTING) = Inr (d', calls)"
    using ex_bringup_finishes by blast
  have "ro_container_id ex_bring_ok = Some ''c2''" by (simp add: ex_bring_ok_def)
  then show ?thesis using running_success_reserves [OF ex_rows(1) run] run by metis
qed

section \<open>Delete\<close>

lemma row_del_workspace:
  "distinct (map rt_workspace_id rows) \<Longrightarrow> first_row (filter (\<lambda>r. rt_workspace_id r = wid) rows) = Some r \<Longrightarrow>
   filter (\<lambda>r. rt_workspace_id r = wid) (row_del rt_id (rt_id r) rows) = []"
proof -
  assume d: "distinct (map rt_workspace_id rows)" and r: "first_row (filter (\<lambda>r. rt_workspace_id r = wid) rows) = Some r"
  have "q = r" if "q \<in> set rows" "rt_workspace_id q = wid" for q
    using d that first_row_in [OF r] by (auto simp: distinct_map inj_on_def)
  then show ?thesis by (auto simp: row_del_def filter_empty_conv)
qed

lemma settle_deleted_effect:
  assumes "settle_deleted E wid jid meta d = (d', calls)" "get_ws d wid = Some w" "ws_status w = WS_DELETED" "runtime_row d wid = None"
  shows "\<exists>w'. get_ws d' wid = Some w' \<and> ws_status w' = WS_DELETED \<and> runtime_row d' wid = None \<and> sessions_closed d' wid"
proof -
  let ?rev = "snd (revoke_all_workspace_sessions E wid d)"
  have t: "runtimes d' = runtimes d" "sessions d' = sessions ?rev" "workspaces d' = workspaces ?rev"
    using assms(1) by (auto simp: settle_deleted_def Let_def runtimes_kept sessions_kept workspaces_kept)
  have "\<exists>w'. get_ws d' wid = Some w' \<and> ws_status w' = WS_DELETED"
    using get_ws_after_revoke [OF assms(2), of E] assms(3) get_ws_cong [OF t(3)] by auto
  then show ?thesis
    using assms(4) runtime_row_cong [OF t(1)] revoke_closes sessions_closed_cong [OF t(2)] by simp
qed

lemma runtime_row_cleared:
  "distinct (map rt_workspace_id (runtimes d)) \<Longrightarrow> runtime_row (clear_runtime_after_delete wid d) wid = None"
  using row_del_workspace [of "runtimes d" wid]
  by (cases "runtime_row d wid") (simp_all add: clear_runtime_after_delete_def runtime_row_def)

lemma set_deleted_row:
  "get_ws d wid = Some w \<Longrightarrow> \<exists>w'. get_ws (set_deleted E wid (mark_job_succeeded E jid d)) wid = Some w' \<and> ws_status w' = WS_DELETED"
  using get_ws_cong [OF workspaces_kept(2)] by (auto simp: set_deleted_def get_upd)

text \<open>Deleting ends with the workspace DELETED whatever the orchestrator reports: its runtime row is gone and
  its sessions are closed. A second delete, which finds no runtime row, ends in the same state. Runtime
  rows are unique per workspace, as the table's constraint demands.\<close>

theorem delete_leaves_nothing:
  assumes "get_ws d wid = Some w" "distinct (map rt_workspace_id (runtimes d))" "finalize_delete_result E wid jid res d = (d1, calls)"
    and "finalize_delete_runtime_missing_idempotent E' wid jid' d1 = (d2, calls')" and "d' \<in> {d1, d2}"
  shows "\<exists>w'. get_ws d' wid = Some w' \<and> ws_status w' = WS_DELETED \<and> runtime_row d' wid = None \<and> sessions_closed d' wid"
proof -
  let ?gone = "set_deleted E wid (mark_job_succeeded E jid d)"
  have rts: "runtimes (set_deleted E wid (mark_job_succeeded E jid d)) = runtimes d" for E jid d
    by (simp add: set_deleted_def runtimes_kept)
  obtain w0 where w0: "get_ws ?gone wid = Some w0" "ws_status w0 = WS_DELETED" using set_deleted_row [OF assms(1)] by blast
  have "get_ws (clear_runtime_after_delete wid ?gone) wid = Some w0"
    using w0(1) by (simp add: clear_runtime_after_delete_def get_ws_def split: option.split)
  moreover have "runtime_row (clear_runtime_after_delete wid ?gone) wid = None"
    by (rule runtime_row_cleared) (simp add: rts assms(2))
  ultimately have one: "\<exists>w'. get_ws d1 wid = Some w' \<and> ws_status w' = WS_DELETED \<and> runtime_row d1 wid = None \<and> sessions_closed d1 wid"
    using settle_deleted_effect [OF assms(3) [unfolded finalize_delete_result_def]] w0(2) by simp
  then obtain w1 where w1: "get_ws d1 wid = Some w1" "runtime_row d1 wid = None" by blast
  obtain w2 where w2: "get_ws (set_deleted E' wid (mark_job_succeeded E' jid' d1)) wid = Some w2" "ws_status w2 = WS_DELETED"
    using set_deleted_row [OF w1(1)] by blast
  have "runtime_row (set_deleted E' wid (mark_job_succeeded E' jid' d1)) wid = None"
    using w1(2) runtime_row_cong [OF rts] by simp
  from settle_deleted_effect [OF assms(4) [unfolded finalize_delete_runtime_missing_idempotent_def] w2 this] one
  show ?thesis using assms(5) by blast
qed

theorem delete_leaves_nothing_witness:
  "\<exists>w'. get_ws (fst (finalize_delete_result ex_env 1 1 \<lparr>de_success = False, de_issues = None\<rparr> (ex_claimed JT_DELETE WS_DELETING))) 1 = Some w'
     \<and> ws_status w' = WS_DELETED"
proof -
  have "distinct (map rt_workspace_id (runtimes (ex_claimed JT_DELETE WS_DELETING)))" by (simp add: ex_claimed_def ex_db_in_def)
  from delete_leaves_nothing [OF ex_rows(1) this surjective_pairing surjective_pairing insertI1] show ?thesis by blast
qed

end
