(* ===== verification/Recovery_Correct.thy ===== *)
theory Recovery_Correct
  imports Worker_Correct
begin

text \<open>
  Properties of what happens when things go wrong: failing imports, stuck jobs, durable cleanup
  tasks and reconcile on a workspace that is not settled.
\<close>

section \<open>A failing import\<close>

lemma import_raises:
  "(\<And>r. x_clone X r \<noteq> Inr True) \<Longrightarrow> execute_repo_import_job E X wid jid d = Inl missing_failure_stage"
  by (auto simp: execute_repo_import_job_def split: option.split sum.split bool.split)

lemma claimed_import_raises:
  assumes "get_job d jid = Some j" "job_type j = JT_REPO_IMPORT" "get_ws d (job_workspace_id j) = Some w" "\<And>r. x_clone X r \<noteq> Inr True"
  shows "process_claimed_running_job E X None jid d = Inl missing_failure_stage"
  using assms import_raises [OF assms(4)]
  by (simp add: process_claimed_running_job_def finish_claimed_job_def execute_job_body_def Let_def lift_db_def missing_failure_stage_def)

text \<open>C29: a repository import whose clone does not succeed blocks the queue. When it is the job the tick claims
  first, the tick ends in an exception, no job is processed and the database is as before, so the next
  tick claims the same job again.\<close>

theorem failing_import_blocks_queue:
  assumes "try_claim_next_queued_workspace_job (tk_env (T 0)) (tk_locked (T 0)) d = Some (jid, d1)"
    and "get_job d1 jid = Some j" "job_type j = JT_REPO_IMPORT" "get_ws d1 (job_workspace_id j) = Some w"
    and "bind_orchestrator (correlation_scope (job_correlation_id j) (tk_env (T 0))) (tk_orch (T 0)) w j d1 = Inr (None, d2)"
    and "\<And>r. x_clone (tk_out (T 0)) r \<noteq> Inr True"
  shows "rr_exn (run_pending_jobs T C limit d) = Some missing_failure_stage \<and> rr_processed (run_pending_jobs T C limit d) = 0
    \<and> rr_db (run_pending_jobs T C limit d) = d"
proof -
  let ?E = "correlation_scope (job_correlation_id j) (tk_env (T 0))"
  have same: "same_rows d1 d2" by (rule bind_orchestrator_effect(1) [OF assms(5)])
  have "begin_create_bringup_after_placement ?E (job_workspace_id j) JT_REPO_IMPORT d2 = d2"
    by (simp add: begin_create_bringup_after_placement_def)
  moreover have "process_claimed_running_job ?E (tk_out (T 0)) None jid d2 = Inl missing_failure_stage"
    by (rule claimed_import_raises [where j = j and w = w]) (use assms same in \<open>simp_all add: same_rows_state(3,4)\<close>)
  ultimately have "run_claimed (T 0) True jid d1 = Inl missing_failure_stage"
    using assms(2-5) by (simp add: run_claimed_def Let_def)
  then have "process_next_queued_job_return_id (T 0) d = Inl missing_failure_stage"
    using assms(1) by (simp add: process_next_queued_job_return_id_def)
  moreover obtain n where "nat (max 1 limit) = Suc n" by (cases "nat (max 1 limit)") auto
  ultimately show ?thesis by (simp add: run_pending_jobs_def Let_def)
qed

lemma ex_tick_fields: "tk_env ex_tick = ex_env" "tk_locked ex_tick = []"
  by (simp_all add: ex_tick_def)

lemma ex_claim:
  "try_claim_next_queued_workspace_job ex_env [] (ex_queue jt st) = Some (1, mark_job_running ex_env 1 (ex_queue jt st))"
  by (simp add: try_claim_next_queued_workspace_job_def claimable_def queued_job_eligible_def ex_queue_def ex_defs)

lemma ex_queued_stop:
  "\<exists>d' calls. process_next_queued_job_return_id ex_tick (ex_queue JT_STOP WS_STOPPING) = Inr (Some 1, d', calls) \<and> ws_state d' 1 = Some WS_STOPPED"
proof -
  let ?d1 = "mark_job_running ex_env 1 (ex_queue JT_STOP WS_STOPPING)"
  obtain j where j: "get_job ?d1 1 = Some j" "job_type j = JT_STOP" "job_workspace_id j = 1"
    using ex_rows(4) [of JT_STOP WS_STOPPING] by (simp add: mark_job_running_def get_upd)
  have "get_ws ?d1 1 = Some (ex_ws\<lparr>ws_status := WS_STOPPING\<rparr>)" "runtime_row ?d1 1 = Some ex_rt"
    using ex_rows(3,6) by (simp_all add: mark_job_running_def get_ws_def runtime_row_def)
  from ex_stop_result [OF j this, of True] show ?thesis by (auto simp: process_next_queued_job_return_id_def ex_tick_fields ex_claim)
qed

theorem failing_import_blocks_queue_witness:
  "rr_exn (run_pending_jobs (\<lambda>_. ex_tick) ex_tick 5 (ex_queue JT_REPO_IMPORT WS_RUNNING)) \<noteq> None
   \<and> rr_db (run_pending_jobs (\<lambda>_. ex_tick) ex_tick 5 (ex_queue JT_REPO_IMPORT WS_RUNNING)) = ex_queue JT_REPO_IMPORT WS_RUNNING"
proof -
  let ?d = "ex_queue JT_REPO_IMPORT WS_RUNNING" and ?d1 = "mark_job_running ex_env 1 (ex_queue JT_REPO_IMPORT WS_RUNNING)"
  have tick: "tk_env ex_tick = ex_env" "tk_locked ex_tick = []" "\<And>r. x_clone (tk_out ex_tick) r \<noteq> Inr True"
    by (simp_all add: ex_tick_def ex_outside_def)
  obtain j where j: "get_job ?d1 1 = Some j" "job_type j = JT_REPO_IMPORT" "job_workspace_id j = 1"
    using ex_rows(4) [of JT_REPO_IMPORT WS_RUNNING] by (simp add: mark_job_running_def get_upd)
  have ws: "get_ws ?d1 (job_workspace_id j) = Some (ex_ws\<lparr>ws_status := WS_RUNNING\<rparr>)"
    using ex_rows(3) [of JT_REPO_IMPORT WS_RUNNING] by (simp add: mark_job_running_def get_ws_def j)
  have "runtime_row ?d1 1 = Some ex_rt" using ex_rows(6) by (simp add: mark_job_running_def runtime_row_def)
  then have "bind_orchestrator E mk (ex_ws\<lparr>ws_status := WS_RUNNING\<rparr>) j ?d1 = Inr (None, ?d1)" for E mk
    using ex_placement [of j ?d1 E WS_RUNNING] j(2) by (simp add: bind_orchestrator_def andthen_def)
  from failing_import_blocks_queue [of "\<lambda>_. ex_tick" ?d, unfolded tick, OF ex_claim j(1,2) ws this tick(3), of ex_tick 5]
  show ?thesis by simp
qed

section \<open>Reconcile on an unsettled workspace\<close>

definition busy_message :: "ws_status \<Rightarrow> string" where
  "busy_message st = ''reconcile:workspace_busy (status='' @ ws_status_str st @ '')''"

lemma busy_message_final: "busy st \<Longrightarrow> classify_reconcile_failure (busy_message st) = (FS_UNKNOWN, False)"
  by (cases st) (simp_all add: busy_def, code_simp+)

lemma fail_reconcile_final:
  assumes "classify_reconcile_failure m = (st, False)" "get_ws d wid = Some w" "busy (ws_status w)" "get_job d jid = Some j"
  shows "ws_state (fail_reconcile E wid jid m d) wid = Some WS_ERROR
    \<and> map_option fst (job_state (fail_reconcile E wid jid m d) jid) = Some JS_FAILED"
proof -
  define d2 where "d2 = record_audit E ''reconcile.failed'' ''workspace'' AO_FAILURE None ACTOR_INTERNAL_SERVICE
                      (Some (str_int wid)) (Some wid) (Some jid) None (Some (take 4096 m))
                      [(''failure_stage'', JStr (failure_stage_str st)),
                       (''workspace_status'', jopt JStr (ws_status_text d wid))] (job_cid d jid) d"
  have same: "same_rows d d2" by (simp add: d2_def)
  have rows: "get_ws d2 wid = Some w" "get_job d2 jid = Some j" using assms(2,4) same by (simp_all add: same_rows_state)
  have "fail_reconcile E wid jid m d = finalize_job_failed_workspace_error E wid jid m (Some st) d2"
    using assms(1,3) rows(1) by (auto simp: fail_reconcile_def Let_def d2_def [symmetric] busy_def)
  moreover have "ws_state d2 wid = Some (ws_status w)" "\<exists>b. job_state d2 jid = Some b" using rows by (simp_all add: ws_state_def job_state_def)
  ultimately show ?thesis by (auto simp: finalize_job_failed_workspace_error_def Let_def view)
qed

text \<open>A reconcile job that meets a workspace in a transitional state does not leave it alone: it ends with the
  workspace in ERROR, while every other job, among them the life-cycle job the workspace is waiting for,
  is unchanged.\<close>

theorem reconcile_fails_busy_workspace:
  assumes "get_ws d wid = Some w" "busy (ws_status w)" "get_job d jid = Some j" "job_type j = JT_RECONCILE_RUNTIME" "x_lock X wid"
  shows "\<exists>d' w' j'. execute_reconcile_runtime_job E X orc wid jid d = Inr (d', []) \<and> get_ws d' wid = Some w' \<and> ws_status w' = WS_ERROR
    \<and> get_job d' jid = Some j' \<and> job_status j' = JS_FAILED \<and> (\<forall>k. k \<noteq> jid \<longrightarrow> get_job d' k = get_job d k)"
proof -
  obtain k d1 where b: "begin_reconcile E orc wid jid d = (k, d1)" by fastforce
  have same: "same_rows d d1" using begin_reconcile_same [of d E orc wid jid] b by simp
  have rows: "get_ws d1 wid = Some w" "get_job d1 jid = Some j" using assms(1,3) same by (simp_all add: same_rows_state)
  let ?d' = "fail_reconcile E wid jid (busy_message (ws_status w)) d1"
  have run: "execute_reconcile_runtime_job E X orc wid jid d = Inr (?d', [])"
    using assms(2,5) rows b by (cases "ws_status w") (simp_all add: execute_reconcile_runtime_job_def busy_message_def busy_def)
  have fin: "ws_state ?d' wid = Some WS_ERROR" "map_option fst (job_state ?d' jid) = Some JS_FAILED"
    using fail_reconcile_final [OF busy_message_final [OF assms(2)] rows(1) assms(2) rows(2)] by simp_all
  have "ready wid jid d1" using rows by (simp add: ready_def ws_state_def job_state_def)
  then have "confined wid jid d1 ?d'"
    using fail_reconcile_settles [of wid jid d1 "job_type j"] assms(4) by (simp add: settles_def lifecycle_job_type_def)
  then have "\<forall>k. k \<noteq> jid \<longrightarrow> get_job ?d' k = get_job d k" using same by (simp add: confined_def same_rows_state)
  then show ?thesis using run fin by (auto simp: ws_state_def job_state_def)
qed

theorem reconcile_fails_busy_workspace_witness:
  "\<exists>d' w'. execute_reconcile_runtime_job ex_env ex_outside ex_orch 1 1 (ex_claimed JT_RECONCILE_RUNTIME WS_STARTING) = Inr (d', [])
     \<and> get_ws d' 1 = Some w' \<and> ws_status w' = WS_ERROR"
proof -
  have "busy (ws_status (ex_ws\<lparr>ws_status := WS_STARTING\<rparr>))" "x_lock ex_outside 1" by (simp_all add: busy_def ex_outside_def)
  from reconcile_fails_busy_workspace [OF ex_rows(1) this(1) ex_rows(2) ex_job_fields(3) this(2)] show ?thesis by metis
qed

section \<open>Stuck jobs\<close>

lemma reclaim_job_state:
  "job_state d (job_id j) \<noteq> None \<Longrightarrow> \<exists>s b. job_state (reclaim_job E f j d) (job_id j) = Some (s, b) \<and> s \<in> {JS_QUEUED, JS_FAILED}"
  by (cases "fst (try_schedule_workspace_job_retry E (job_id j) (stuck_message f j) FS_UNKNOWN (Some ''STUCK_RUNNING_RECLAIMED'') d)")
    (auto simp: reclaim_job_def Let_def split_beta view declined_same)

lemma reclaim_loop:
  assumes "distinct (map job_id js)" "\<forall>j\<in>set js. get_job d (job_id j) \<noteq> None"
  shows "(\<forall>j\<in>set js. \<exists>j'. get_job (fold (reclaim_job E f) js d) (job_id j) = Some j' \<and> job_status j' \<in> {JS_QUEUED, JS_FAILED})
    \<and> (\<forall>k. k \<notin> job_id ` set js \<longrightarrow> get_job (fold (reclaim_job E f) js d) k = get_job d k)"
  using assms
proof (induction js arbitrary: d)
  case (Cons j js)
  let ?d = "reclaim_job E f j d"
  have "\<exists>j'. get_job ?d (job_id j) = Some j' \<and> job_status j' \<in> {JS_QUEUED, JS_FAILED}"
    using reclaim_job_state [of d j E f] Cons.prems(2) by (auto simp: job_state_def)
  moreover have "\<forall>q\<in>set js. get_job ?d (job_id q) \<noteq> None"
    using Cons.prems by (metis (no_types, lifting) distinct.simps(2) image_eqI list.set_intros(2) list.set_map list.simps(9) reclaim_other)
  ultimately show ?case using Cons.IH [of ?d] Cons.prems(1) reclaim_other [of _ j E f d] by auto
qed simp

text \<open>C24: reclaiming leaves none of the jobs it selected running: each is queued again or failed. Jobs it did
  not select are unchanged, and the reported number is the number selected, at most twenty.\<close>

theorem reclaim_settles_stuck_jobs:
  assumes "db_keys_ok d" "0 < s_job_stuck_timeout_seconds (cfg E)" "reclaim_stuck_running_jobs E f d = (n, d')"
  defines "stuck \<equiv> take 20 (filter (stuck_job (now E - seconds (s_job_stuck_timeout_seconds (cfg E)))) (jobs d))"
  shows "n = int (length stuck) \<and> (\<forall>j\<in>set stuck. \<exists>j'. get_job d' (job_id j) = Some j' \<and> job_status j' \<in> {JS_QUEUED, JS_FAILED})
    \<and> (\<forall>k. k \<notin> job_id ` set stuck \<longrightarrow> get_job d' k = get_job d k)"
proof -
  have "distinct (map job_id stuck)" "\<forall>j\<in>set stuck. get_job d (job_id j) \<noteq> None"
    using stuck_rows [OF assms(1)] unfolding stuck_def by auto
  moreover have "n = int (length stuck)" "d' = fold (reclaim_job E f) stuck d"
    using assms(2,3) by (simp_all add: reclaim_stuck_running_jobs_def Let_def stuck_def)
  ultimately show ?thesis using reclaim_loop [of stuck d E f] by simp
qed

theorem reclaim_settles_stuck_jobs_witness:
  "\<exists>n d' j'. reclaim_stuck_running_jobs ex_env str_int ((ex_claimed JT_START WS_STARTING)\<lparr>jobs :=
       [(ex_job JT_START JS_RUNNING)\<lparr>job_started_at := Some 0\<rparr>]\<rparr>) = (n, d')
     \<and> n = 1 \<and> get_job d' 1 = Some j' \<and> job_status j' \<in> {JS_QUEUED, JS_FAILED}"
proof -
  let ?j = "(ex_job JT_START JS_RUNNING)\<lparr>job_started_at := Some 0\<rparr>"
  let ?d = "(ex_claimed JT_START WS_STARTING)\<lparr>jobs := [?j]\<rparr>"
  obtain n d' where r: "reclaim_stuck_running_jobs ex_env str_int ?d = (n, d')" by fastforce
  have k: "db_keys_ok ?d" by (simp add: db_keys_ok_def keys_ok_def ex_claimed_def ex_defs)
  have t: "0 < s_job_stuck_timeout_seconds (cfg ex_env)" by (simp add: ex_env_def ex_settings_def)
  have "filter (stuck_job (now ex_env - seconds (s_job_stuck_timeout_seconds (cfg ex_env)))) (jobs ?d) = [?j]"
    by (simp add: stuck_job_def ex_env_def ex_settings_def seconds_def)
  with reclaim_settles_stuck_jobs [OF k t r] r show ?thesis by auto
qed

section \<open>Durable cleanup\<close>

text \<open>A stop that succeeds finishes its task and touches no other.\<close>

lemma pending_upd_other: "set (pending_cleanup_ids (upd_ct tid f d) wid) - {tid} = set (pending_cleanup_ids d wid) - {tid}"
  by (auto simp: pending_cleanup_ids_def upd_ct_def put_ct_def row_put_def image_iff split: option.splits if_splits)

lemma pending_upd_done:
  assumes "\<And>c. ct_status (f c) \<noteq> CT_PENDING"
  shows "tid \<notin> set (pending_cleanup_ids (upd_ct tid f d) wid)"
proof (cases "get_ct d tid")
  case None
  then have "upd_ct tid f d = d" "\<forall>c\<in>set (cleanups d). ct_id c \<noteq> tid"
    by (simp add: upd_ct_def, simp add: get_ct_def row_find_None)
  then show ?thesis by (auto simp: pending_cleanup_ids_def)
next
  case (Some c)
  define c' where "c' = (f c)\<lparr>ct_id := tid\<rparr>"
  have c': "ct_id c' = tid" "ct_status c' \<noteq> CT_PENDING" using assms [of c] by (simp_all add: c'_def)
  have "cleanups (upd_ct tid f d) = row_put ct_id c' (cleanups d)" using Some by (simp add: upd_ct_def put_ct_def c'_def)
  then show ?thesis using c' by (auto simp: pending_cleanup_ids_def dest!: in_row_put)
qed

lemma pending_cong: "cleanups d' = cleanups d \<Longrightarrow> pending_cleanup_ids d' wid = pending_cleanup_ids d wid"
  by (simp add: pending_cleanup_ids_def)

lemma attempt_success:
  assumes "\<And>a. o_stop orc n a = Inr res" "st_success res"
  shows "set (pending_cleanup_ids (snd (attempt_cleanup E orc wid cid n tid d)) wid) = set (pending_cleanup_ids d wid) - {tid}"
    "fst (attempt_cleanup E orc wid cid n tid d)"
proof -
  let ?d1 = "upd_ct tid (\<lambda>c. c\<lparr>ct_attempts := ct_attempts c + 1, ct_updated_at := now E\<rparr>) d"
  let ?d2 = "upd_ct tid (\<lambda>c. c\<lparr>ct_status := CT_SUCCEEDED, ct_updated_at := now E\<rparr>) ?d1"
  have same: "cleanups (snd (attempt_cleanup E orc wid cid n tid d)) = cleanups ?d2"
    using assms by (simp add: attempt_cleanup_def Let_def)
  have "tid \<notin> set (pending_cleanup_ids ?d2 wid)" by (rule pending_upd_done) simp
  then have "set (pending_cleanup_ids ?d2 wid) = set (pending_cleanup_ids ?d2 wid) - {tid}" by simp
  also have "\<dots> = set (pending_cleanup_ids d wid) - {tid}" by (simp only: pending_upd_other)
  finally show "set (pending_cleanup_ids (snd (attempt_cleanup E orc wid cid n tid d)) wid) = set (pending_cleanup_ids d wid) - {tid}"
    unfolding pending_cong [OF same] .
  show "fst (attempt_cleanup E orc wid cid n tid d)" using assms by (simp add: attempt_cleanup_def Let_def)
qed

lemma cleanup_loop_success:
  assumes "\<And>n a. o_stop orc n a = Inr res" "st_success res"
  shows "set (pending_cleanup_ids (snd (cleanup_loop E orc wid cid n tids d)) wid) = set (pending_cleanup_ids d wid) - set tids
    \<and> fst (cleanup_loop E orc wid cid n tids d) = length tids"
proof (induction tids arbitrary: n d)
  case (Cons tid tids)
  show ?case using attempt_success [OF assms, of E wid cid n tid d] Cons.IH [of "Suc n" "snd (attempt_cleanup E orc wid cid n tid d)"]
    by (auto simp: Let_def split_beta)
qed simp

text \<open>C25: the cleanup tasks of a workspace are worked off as soon as the orchestrator can stop its runtime: with a
  complete runtime row and stops that succeed, one pass finishes every pending task of the workspace
  with one stop call per task, and reports their number.\<close>

theorem cleanup_pass_finishes_tasks:
  assumes "runtime_placement_row_complete (runtime_row d wid)" "\<And>n a. o_stop orc n a = Inr res" "st_success res"
  shows "\<exists>d'. process_durable_cleanup_tasks_for_workspace E orc wid d =
      ((length (pending_cleanup_ids d wid), length (pending_cleanup_ids d wid)), d') \<and> pending_cleanup_ids d' wid = []"
proof (cases "pending_cleanup_ids d wid = []")
  case False
  define cid where "cid = (case runtime_row d wid of None \<Rightarrow> None | Some r \<Rightarrow> strip_or_none (rt_container_id r))"
  let ?loop = "cleanup_loop E orc wid cid 0 (pending_cleanup_ids d wid) d"
  have "fst ?loop = length (pending_cleanup_ids d wid)" "pending_cleanup_ids (snd ?loop) wid = []"
    using cleanup_loop_success [OF assms(2,3), of E wid cid 0 "pending_cleanup_ids d wid" d] by (simp_all add: set_empty [symmetric] del: set_empty)
  then show ?thesis using False assms(1)
    by (simp add: process_durable_cleanup_tasks_for_workspace_def Let_def split_beta cid_def [symmetric])
qed (simp add: process_durable_cleanup_tasks_for_workspace_def Let_def)

definition ex_task :: "cleanup_status \<Rightarrow> cleanup_task" where
  "ex_task st = \<lparr>ct_id = 1, ct_workspace_id = 1, ct_scope = CLEANUP_SCOPE_STOP_INCOMPLETE, ct_detail = None, ct_status = st,
     ct_attempts = 0, ct_created_at = 0, ct_updated_at = 0\<rparr>"

lemma ex_rt_complete: "runtime_placement_row_complete (Some ex_rt)"
  by (simp add: runtime_placement_row_complete_def ex_rt_def py_strip_def py_lstrip_def py_space_def)

theorem cleanup_pass_finishes_tasks_witness:
  "\<exists>d'. process_durable_cleanup_tasks_for_workspace ex_env ex_orch 1 (ex_db\<lparr>cleanups := [ex_task CT_PENDING]\<rparr>) = ((1, 1), d')
     \<and> pending_cleanup_ids d' 1 = []"
proof -
  let ?d = "ex_db\<lparr>cleanups := [ex_task CT_PENDING]\<rparr>"
  have "runtime_row ?d 1 = Some ex_rt" by (simp add: runtime_row_def ex_db_def ex_db_in_def ex_rt_def)
  then have c: "runtime_placement_row_complete (runtime_row ?d 1)" by (simp add: ex_rt_complete)
  have "st_success ex_stop_ok" "pending_cleanup_ids ?d 1 = [1]" by (simp_all add: ex_stop_ok_def pending_cleanup_ids_def ex_task_def)
  with cleanup_pass_finishes_tasks [OF c ex_orch_stops, of ex_env] show ?thesis by simp
qed

text \<open>A stop that comes back incomplete is not always recorded for cleanup. Once an earlier task of the workspace
  for incomplete stops has succeeded, a new incomplete stop leaves no pending task, so neither the drain of
  the worker tick nor a reconcile stops the left-over runtime again.\<close>

theorem finished_task_hides_incomplete_stop:
  assumes "find_cleanup_task d wid CLEANUP_SCOPE_STOP_INCOMPLETE = Some c" "ct_status c = CT_SUCCEEDED"
    and "pending_cleanup_ids d wid = []" "\<not> st_success res" "finalize_stop_result E wid jid res d = (d', calls)"
  shows "pending_cleanup_ids d' wid = [] \<and> process_durable_cleanup_tasks_for_workspace E' orc wid d' = ((0, 0), d')
    \<and> drain_workspace E' mk wid d' = Some (0, d')"
proof -
  have "ensure_durable_cleanup_task E wid CLEANUP_SCOPE_STOP_INCOMPLETE is d = d" for "is"
    using assms(1,2) by (simp add: ensure_durable_cleanup_task_def Let_def)
  then have "cleanups d' = cleanups d"
    using assms(4,5) by (auto simp: finalize_stop_result_def Let_def resolve_orchestrator_result_failure_def
        finalize_job_failed_workspace_error_def mark_job_failed_def fail_workspace_def clear_runtime_capacity_reservation_def audit_job_def)
  then have "pending_cleanup_ids d' wid = []" using assms(3) by (simp add: pending_cleanup_ids_def)
  then show ?thesis by (simp add: process_durable_cleanup_tasks_for_workspace_def drain_workspace_def)
qed

theorem finished_task_hides_incomplete_stop_witness:
  "pending_cleanup_ids (fst (finalize_stop_result ex_env 1 1 (ex_stop_ok\<lparr>st_success := False\<rparr>)
     ((ex_claimed JT_STOP WS_STOPPING)\<lparr>cleanups := [ex_task CT_SUCCEEDED]\<rparr>))) 1 = []"
proof -
  let ?d = "(ex_claimed JT_STOP WS_STOPPING)\<lparr>cleanups := [ex_task CT_SUCCEEDED]\<rparr>"
  have "find_cleanup_task ?d 1 CLEANUP_SCOPE_STOP_INCOMPLETE = Some (ex_task CT_SUCCEEDED)" "ct_status (ex_task CT_SUCCEEDED) = CT_SUCCEEDED"
    "pending_cleanup_ids ?d 1 = []" "\<not> st_success (ex_stop_ok\<lparr>st_success := False\<rparr>)"
    by (simp_all add: find_cleanup_task_def ex_task_def pending_cleanup_ids_def)
  from finished_task_hides_incomplete_stop [OF this surjective_pairing] show ?thesis by blast
qed

section \<open>Texts fit their columns\<close>

text \<open>Whatever the length of the error, the texts a terminal failure writes fit their columns: 8192 characters for
  the job, 4096, 1024 and 64 for the message, the reason and the code of the workspace; a scheduled retry
  keeps the same bounds on its job, code included.\<close>

theorem failure_texts_fit_columns:
  assumes "get_ws d wid = Some w" "get_job d jid = Some j"
  shows "\<exists>w' j'. get_ws (fail_job_and_workspace E wid jid m st jc wc d) wid = Some w'
      \<and> get_job (fail_job_and_workspace E wid jid m st jc wc d) jid = Some j'
      \<and> length (str_or_empty (job_error_msg j')) \<le> 8192 \<and> length (str_or_empty (ws_last_error_message w')) \<le> 4096
      \<and> length (str_or_empty (ws_status_reason w')) \<le> 1024 \<and> length (str_or_empty (ws_last_error_code w')) \<le> 64
    \<and> (fst (try_schedule_workspace_job_retry E jid m st c d) \<longrightarrow>
       (\<exists>r. get_job (snd (try_schedule_workspace_job_retry E jid m st c d)) jid = Some r
          \<and> length (str_or_empty (job_error_msg r)) \<le> 8192 \<and> length (str_or_empty (job_failure_code r)) \<le> 64))"
proof -
  let ?d1 = "mark_job_failed E jid m (Some st) (Some jc) d" and ?d = "fail_job_and_workspace E wid jid m st jc wc d"
  have ws: "workspaces ?d = workspaces (fail_workspace E wid wc m ?d1)" and jb: "jobs ?d = jobs ?d1"
    by (simp_all add: fail_job_and_workspace_def clear_runtime_capacity_reservation_def fail_workspace_def)
  have "get_ws ?d1 wid = Some w" using assms(1) by (simp add: mark_job_failed_def get_ws_def)
  then have "\<exists>w'. get_ws ?d wid = Some w' \<and> ws_last_error_message w' = Some (truncate_msg 4096 m)
      \<and> ws_status_reason w' = Some (truncate_msg 1024 m) \<and> ws_last_error_code w' = Some (truncate_msg 64 wc)"
    using ws by (simp add: get_ws_def) (simp add: get_ws_def [symmetric] fail_workspace_def get_upd workspace_set_error_def)
  moreover have "\<exists>j'. get_job ?d jid = Some j' \<and> job_error_msg j' = Some (truncate_msg 8192 m)"
    using jb assms(2) by (simp add: get_job_def) (simp add: get_job_def [symmetric] mark_job_failed_def get_upd)
  moreover have "\<exists>r. get_job (snd (try_schedule_workspace_job_retry E jid m st c d)) jid = Some r
      \<and> job_error_msg r = Some (truncate_msg 8192 m) \<and> length (str_or_empty (job_failure_code r)) \<le> 64"
    if "fst (try_schedule_workspace_job_retry E jid m st c d)"
    using that assms(2)
    by (auto simp: try_schedule_workspace_job_retry_def Let_def get_upd requeue_def str_or_empty_def split: if_splits)
  ultimately show ?thesis using truncate_length by (fastforce simp: str_or_empty_def)
qed

theorem failure_texts_fit_columns_witness:
  "\<exists>j'. get_job (fail_job_and_workspace ex_env 1 1 (replicate 9000 (CHR ''x'')) FS_CONTAINER ''c'' ''w'' (ex_claimed JT_START WS_STARTING)) 1 = Some j'
     \<and> length (str_or_empty (job_error_msg j')) \<le> 8192"
  using failure_texts_fit_columns [OF ex_rows(1,2)] by blast

end
