(* ===== verification/Requests_Correct.thy ===== *)
theory Requests_Correct
  imports Worker_Correct
begin

text \<open>
  Properties of the requests that create things: workspaces and their URL names, secrets and snapshots.
\<close>

section \<open>URL names\<close>

definition slug_base :: "string \<Rightarrow> string" where
  "slug_base name = (let s = slugify_workspace_name name in if s = [] then ''workspace'' else s)"

lemma slug_found:
  "\<exists>i. i \<le> length (workspaces d) \<and> allocate_unique_workspace_url_slug d owner name = Some (nth_candidate (slug_base name) (1 + i))"
proof -
  have card: "card (ws_url_slug ` set (workspaces d)) < length (workspaces d) + 1"
    by (metis Suc_eq_plus1 card_image_le card_length finite_set le_imp_less_Suc order_trans)
  obtain i where i: "i < length (workspaces d) + 1"
    "alloc_loop (length (workspaces d) + 1) (url_slug_taken d owner) (slug_base name) 2 (slug_base name) = Some (nth_candidate (slug_base name) (1 + i))"
    by (rule alloc_loop_total [OF finite_imageI [OF finite_set] card, where taken = "url_slug_taken d owner" and base = "slug_base name"])
      (auto dest: url_slug_taken_subset)
  then show ?thesis
    by (intro exI [of _ i]) (simp add: allocate_unique_workspace_url_slug_def slug_base_def Let_def)
qed

text \<open>C27: the search for a URL name ends: one more candidate than there are workspaces is
  always enough, and the name returned is not used by a live workspace of the owner.\<close>

theorem slug_allocation_returns:
  "\<exists>i \<le> length (workspaces d). allocate_unique_workspace_url_slug d owner name = Some (nth_candidate (slug_base name) (1 + i))
     \<and> \<not> url_slug_taken d owner (nth_candidate (slug_base name) (1 + i))"
  using slug_found [of d owner name] unfolding allocate_unique_workspace_url_slug_def Let_def by (blast dest: alloc_loop_free)

section \<open>Creating a workspace\<close>

lemma insert_workspace_row:
  assumes "insert_workspace E owner body slug key st node reason d = (w, d')" "db_keys_ok d"
  shows "ws_owner_user_id w = owner \<and> ws_url_slug w = slug \<and> ws_status w = st \<and> get_ws d (ws_id w) = None \<and> get_ws d' (ws_id w) = Some w
    \<and> (\<forall>k. k \<noteq> ws_id w \<longrightarrow> get_ws d' k = get_ws d k) \<and> configs d' = configs d \<and> jobs d' = jobs d \<and> seqs d' T_JOB = seqs d T_JOB"
proof -
  let ?row = "new_workspace E owner body slug key st node reason"
  have g: "get_ws (snd (add_ws ?row d)) k = (if k = fst (add_ws ?row d) then Some (?row\<lparr>ws_id := k\<rparr>) else get_ws d k)" for k
    using assms(2) ws_tab.look_ins [of d ?row k] by (simp add: db_keys_ok_def)
  have fresh: "get_ws d (fst (add_ws ?row d)) = None" using assms(2) ws_tab.ins_fresh [of d ?row] by (simp add: db_keys_ok_def)
  have "w = ?row\<lparr>ws_id := fst (add_ws ?row d)\<rparr> \<and> d' = snd (add_ws ?row d) \<or>
      ws_id w = fst (add_ws ?row d) \<and> ws_owner_user_id w = owner \<and> ws_url_slug w = slug \<and> ws_status w = st \<and> d' = put_ws w (snd (add_ws ?row d))"
    using assms(1)
    by (auto simp: insert_workspace_def assign_workspace_gateway_public_identity_def Let_def split_beta new_workspace_def
        split: option.splits if_splits)
  then show ?thesis using g fresh by (auto simp: ws_tab.look_save new_workspace_def add_ws_def bump_def)
qed

lemma upsert_secret_tables:
  "upsert_workspace_ai_secret enc E wid owner prov key d = Inr (u, d') \<Longrightarrow>
     workspaces d' = workspaces d \<and> configs d' = configs d \<and> jobs d' = jobs d \<and> seqs d' T_JOB = seqs d T_JOB"
  by (auto simp: upsert_workspace_ai_secret_def Let_def split: option.splits if_splits)

lemma finish_create_tables:
  assumes "finish_create enc E owner body cid w actor msg extra meta d0 d = Inr (r, d')"
  shows "r = \<lparr>cres_workspace_id = ws_id w, cres_job_id = seqs d T_JOB, cres_config_version = 1, cres_status = ws_status w\<rparr>"
    "workspaces d' = workspaces d"
    "jobs d' = jobs d @ [(new_job E (ws_id w) JT_CREATE owner 1 None cid)\<lparr>job_id := seqs d T_JOB\<rparr>]"
    "configs d' = configs d @ [\<lparr>cfg_id = seqs d T_CONFIG, cfg_workspace_id = ws_id w, cfg_version = 1, cfg_json = to_config_dict (cr_runtime body)\<rparr>]"
proof -
  let ?d1 = "snd (add_cfg \<lparr>cfg_id = 0, cfg_workspace_id = ws_id w, cfg_version = 1, cfg_json = to_config_dict (cr_runtime body)\<rparr> d)"
  let ?job = "new_job E (ws_id w) JT_CREATE owner 1 None cid"
  obtain u d2 where sec: "(case cr_ai_secret body of None \<Rightarrow> Inr ((), ?d1) | Some (prov, key) \<Rightarrow> upsert_workspace_ai_secret enc E (ws_id w) owner prov key ?d1) = Inr (u, d2)"
    and r: "r = \<lparr>cres_workspace_id = ws_id w, cres_job_id = fst (add_job ?job d2), cres_config_version = 1, cres_status = ws_status w\<rparr>"
    and d': "workspaces d' = workspaces (snd (add_job ?job d2))" "configs d' = configs (snd (add_job ?job d2))" "jobs d' = jobs (snd (add_job ?job d2))"
    using assms by (simp only: finish_create_def Let_def split_beta split: sum.splits) auto
  have d2: "workspaces d2 = workspaces ?d1 \<and> configs d2 = configs ?d1 \<and> jobs d2 = jobs ?d1 \<and> seqs d2 T_JOB = seqs ?d1 T_JOB"
    using sec upsert_secret_tables [of enc E "ws_id w" owner _ _ ?d1 u d2] by (cases "cr_ai_secret body") auto
  show "r = \<lparr>cres_workspace_id = ws_id w, cres_job_id = seqs d T_JOB, cres_config_version = 1, cres_status = ws_status w\<rparr>"
    using r d2 by (simp add: add_job_def add_cfg_def bump_def)
  show "workspaces d' = workspaces d" using d'(1) d2 by simp
  show "jobs d' = jobs d @ [(new_job E (ws_id w) JT_CREATE owner 1 None cid)\<lparr>job_id := seqs d T_JOB\<rparr>]"
    using d'(3) d2 by (simp add: add_job_def add_cfg_def bump_def)
  show "configs d' = configs d @ [\<lparr>cfg_id = seqs d T_CONFIG, cfg_workspace_id = ws_id w, cfg_version = 1, cfg_json = to_config_dict (cr_runtime body)\<rparr>]"
    using d'(2) d2 by (simp add: add_cfg_def bump_def)
qed

lemma create_workspace_effect:
  assumes "db_keys_ok d" "create_workspace enc uuid E owner body co d = Inr (r, d')"
  defines "wid \<equiv> cres_workspace_id r" and "jid \<equiv> cres_job_id r"
  shows "\<exists>w j. get_ws d wid = None \<and> get_ws d' wid = Some w \<and> ws_status w = WS_PENDING \<and> ws_owner_user_id w = owner
    \<and> \<not> url_slug_taken d owner (ws_url_slug w) \<and> (\<forall>k. k \<noteq> wid \<longrightarrow> get_ws d' k = get_ws d k)
    \<and> get_job d jid = None \<and> get_job d' jid = Some j \<and> job_type j = JT_CREATE \<and> job_status j = JS_QUEUED \<and> job_workspace_id j = wid
    \<and> (\<forall>k. k \<noteq> jid \<longrightarrow> get_job d' k = get_job d k)
    \<and> (\<exists>c\<in>set (configs d'). cfg_workspace_id c = wid \<and> cfg_version c = 1 \<and> cfg_json c = to_config_dict (cr_runtime body))"
proof -
  let ?d1 = "snd (ensure_default_local_execution_node E d)"
  have same: "same_rows d ?d1" by (rule ensure_local_node_same)
  then have keys: "db_keys_ok ?d1" using assms(1) by (simp add: same_rows_def)
  obtain slug cid w d2 msg extra meta where slug: "allocate_unique_workspace_url_slug ?d1 owner (cr_name body) = Some slug"
    and ins: "insert_workspace E owner body slug uuid WS_PENDING None (Some ''Preparing capacity...'') ?d1 = (w, d2)"
    and fin: "finish_create enc E owner body cid w ACTOR_USER msg extra meta d d2 = Inr (r, d')"
    using assms(2) unfolding create_workspace_def Let_def andthen_Inr
    by (auto dest!: create_guards_pass split: if_splits option.splits prod.splits)
  note row = insert_workspace_row [OF ins keys] and fin = finish_create_tables [OF fin]
  have ids: "wid = ws_id w" "jid = seqs ?d1 T_JOB" using fin(1) row by (simp_all add: wid_def jid_def)
  let ?j = "new_job E (ws_id w) JT_CREATE owner 1 None cid"
  have "jobs d' = jobs (snd (add_job ?j ?d1))" using fin(3) row by (simp add: add_job_def bump_def)
  then have jobs: "get_job d' k = (if k = jid then Some (?j\<lparr>job_id := jid\<rparr>) else get_job ?d1 k)" for k
    using get_job_add [OF keys, of ?j k] unfolding ids(2) by (simp add: get_job_def)
  have fresh: "get_job ?d1 jid = None"
    using keys job_tab.ins_fresh [of ?d1 ?j] unfolding ids(2) by (simp add: db_keys_ok_def add_job_def)
  have "\<not> url_slug_taken ?d1 owner slug"
    using slug unfolding allocate_unique_workspace_url_slug_def Let_def by (rule alloc_loop_free)
  then have "\<not> url_slug_taken d owner slug" using same by (simp add: url_slug_taken_def same_rows_def)
  moreover have "get_ws d' k = get_ws d2 k" for k using fin(2) by (simp add: get_ws_def)
  moreover have "get_job d' jid = Some (?j\<lparr>job_id := jid\<rparr>)" "\<forall>k. k \<noteq> jid \<longrightarrow> get_job d' k = get_job d k" "get_job d jid = None"
    using jobs fresh same_rows_state(3) [OF same] by simp_all
  moreover have "\<exists>c\<in>set (configs d'). cfg_workspace_id c = ws_id w \<and> cfg_version c = 1 \<and> cfg_json c = to_config_dict (cr_runtime body)"
    using fin(4) by simp
  ultimately show ?thesis
    using row same_rows_state(4) [OF same] unfolding ids(1)
    by (intro exI [of _ w] exI [of _ "?j\<lparr>job_id := jid\<rparr>"]) (simp add: new_job_def)
qed

text \<open>C26: an accepted creation request adds one workspace of the caller in state PENDING, under a URL name that no live
  workspace of the caller uses, with configuration version 1 and one queued CREATE job; every other
  workspace and job is unchanged.\<close>

theorem create_workspace_accepted:
  assumes "db_keys_ok d" "create_workspace enc uuid E owner body co d = Inr (r, d')"
  defines "wid \<equiv> cres_workspace_id r" and "jid \<equiv> cres_job_id r"
  shows "\<exists>w j. get_ws d wid = None \<and> get_ws d' wid = Some w \<and> ws_status w = WS_PENDING \<and> ws_owner_user_id w = owner
    \<and> \<not> url_slug_taken d owner (ws_url_slug w) \<and> (\<forall>k. k \<noteq> wid \<longrightarrow> get_ws d' k = get_ws d k)
    \<and> get_job d jid = None \<and> get_job d' jid = Some j \<and> job_type j = JT_CREATE \<and> job_status j = JS_QUEUED \<and> job_workspace_id j = wid
    \<and> (\<forall>k. k \<noteq> jid \<longrightarrow> get_job d' k = get_job d k)
    \<and> (\<exists>c\<in>set (configs d'). cfg_workspace_id c = wid \<and> cfg_version c = 1 \<and> cfg_json c = to_config_dict (cr_runtime body))"
  using create_workspace_effect [OF assms(1,2)] unfolding wid_def jid_def .

text \<open>An installation with one node and one user, before the first workspace.\<close>

definition ex_new_db :: db where
  "ex_new_db = ex_db\<lparr>workspaces := [], configs := [], runtimes := []\<rparr>"

definition ex_body :: create_request where
  "ex_body = \<lparr>cr_name = ''My Box'', cr_description = None, cr_is_private = True,
     cr_runtime = \<lparr>sp_image = None, sp_cpu_limit_cores = None, sp_memory_limit_mib = None, sp_pids_limit = None,
        sp_env = [], sp_ports = [], sp_topology_id = None, sp_storage = [], sp_features = []\<rparr>, cr_ai_secret = None\<rparr>"

lemma ex_create_guards: "create_guards ex_env 7 ex_body c ex_new_db = Inr ((), ex_new_db)"
  by (simp add: create_guards_def check_workspace_quota_def check_running_workspace_quota_def check_monthly_runtime_hours_quota_def
      check_owner_compute_quota_def evaluate_workspace_creation_def load_applicable_policies_def get_effective_quota_def
      Let_def ex_body_def ex_new_db_def ex_defs)

lemma ex_create_accepted: "\<exists>r d'. create_workspace id ''abcd'' ex_env 7 ex_body None ex_new_db = Inr (r, d')"
proof -
  let ?d1 = "snd (ensure_default_local_execution_node ex_env ex_new_db)"
  obtain slug where slug: "allocate_unique_workspace_url_slug ?d1 7 (cr_name ex_body) = Some slug" using slug_found by blast
  have fin: "\<exists>r d'. finish_create id ex_env 7 ex_body cid w ac msg extra meta d0 d = Inr (r, d')" for cid w ac msg extra meta d0 d
    by (simp add: finish_create_def ex_body_def Let_def split_beta)
  have none: "sp_cpu_limit_cores (cr_runtime ex_body) = None" "sp_memory_limit_mib (cr_runtime ex_body) = None" by (simp_all add: ex_body_def)
  show ?thesis
    unfolding create_workspace_def Let_def
    by (simp add: ex_create_guards slug none fin split_beta DEFAULT_WORKSPACE_REQUEST_CPU_def DEFAULT_WORKSPACE_REQUEST_MEMORY_MB_def
        DEFAULT_WORKSPACE_REQUEST_DISK_MB_def)
qed

lemma ex_new_keys: "db_keys_ok ex_new_db"
  by (simp add: db_keys_ok_def keys_ok_def ex_new_db_def ex_defs)

lemma ex_created_row:
  assumes "create_workspace id ''abcd'' ex_env 7 ex_body None ex_new_db = Inr (r, d')"
  shows "\<exists>w. get_ws d' (cres_workspace_id r) = Some w \<and> ws_status w = WS_PENDING"
  using create_workspace_effect [OF ex_new_keys assms] by blast

theorem create_workspace_accepted_witness:
  "\<exists>r d' w. create_workspace id ''abcd'' ex_env 7 ex_body None ex_new_db = Inr (r, d') \<and> get_ws d' (cres_workspace_id r) = Some w
     \<and> ws_status w = WS_PENDING"
  using ex_create_accepted create_workspace_accepted [OF ex_new_keys] by metis

section \<open>Secrets\<close>

definition decode_rows :: "(string \<Rightarrow> string option) \<Rightarrow> ws_secret list \<Rightarrow> (string \<rightharpoonup> string) option \<Rightarrow> (string \<rightharpoonup> string) option" where
  "decode_rows decrypt rows acc = fold (\<lambda>s acc. case (acc, decrypt (sec_encrypted s)) of
     (Some m, Some v) \<Rightarrow> Some (m(sec_name s \<mapsto> v)) | _ \<Rightarrow> None) rows acc"

lemma decode_rows_simps [simp]:
  "decode_rows dec [] acc = acc"
  "decode_rows dec (s # rows) acc = decode_rows dec rows (case (acc, dec (sec_encrypted s)) of (Some m, Some v) \<Rightarrow> Some (m(sec_name s \<mapsto> v)) | _ \<Rightarrow> None)"
  "decode_rows dec (rows @ rows') acc = decode_rows dec rows' (decode_rows dec rows acc)"
  by (simp_all add: decode_rows_def)

lemma decode_rows_None [simp]: "decode_rows dec rows None = None"
  by (induction rows) simp_all

text \<open>An entry under a name that no later row uses survives.\<close>

lemma decode_rows_upd:
  "n \<notin> sec_name ` set rows \<Longrightarrow> decode_rows dec rows (Some m0) = Some m \<Longrightarrow> decode_rows dec rows (Some (m0(n \<mapsto> v))) = Some (m(n \<mapsto> v))"
proof (induction rows arbitrary: m0)
  case (Cons s rows)
  then obtain a where a: "dec (sec_encrypted s) = Some a" by (cases "dec (sec_encrypted s)") auto
  have eq: "m0(n \<mapsto> v, sec_name s \<mapsto> a) = m0(sec_name s \<mapsto> a, n \<mapsto> v)" using Cons.prems(1) by (intro fun_upd_twist) auto
  have prem: "decode_rows dec rows (Some (m0(sec_name s \<mapsto> a))) = Some m"
    using Cons.prems(2) unfolding decode_rows_simps a prod.case option.case .
  have "n \<notin> sec_name ` set rows" using Cons.prems(1) by simp
  from Cons.IH [OF this prem] show ?case by (simp only: decode_rows_simps a prod.case option.case eq)
qed simp

lemma decode_rows_replace:
  assumes "decode_rows dec (xs @ s # ys) (Some m0) = Some m" "sec_name s \<notin> sec_name ` set ys"
    and "sec_name s' = sec_name s" "dec (sec_encrypted s') = Some v"
  shows "decode_rows dec (xs @ s' # ys) (Some m0) = Some (m(sec_name s \<mapsto> v))"
proof -
  obtain m1 where m1: "decode_rows dec xs (Some m0) = Some m1" using assms(1) by (cases "decode_rows dec xs (Some m0)") auto
  obtain v1 where v1: "dec (sec_encrypted s) = Some v1" using assms(1) m1 by (cases "dec (sec_encrypted s)") auto
  have "decode_rows dec ys (Some (m1(sec_name s \<mapsto> v1))) = Some m" using assms(1) m1 v1 by simp
  from decode_rows_upd [OF assms(2) this, of v] show ?thesis using m1 assms(3,4) by simp
qed

text \<open>The environment of a workspace contains the AI key its owner stored last, without the surrounding white
  space, and every other entry as before. Encryption is assumed to be inverted by decryption, and secret
  names are unique per workspace, as the table's constraint demands.\<close>

theorem ai_secret_round_trip:
  assumes "upsert_workspace_ai_secret encrypt E wid owner provider key d = Inr (u, d')"
    and "\<And>s. decrypt (encrypt s) = Some s"
    and "distinct (map (\<lambda>s. (sec_workspace_id s, sec_name s)) (secrets d))" "distinct (map sec_id (secrets d))"
    and "resolve_workspace_runtime_secret_env decrypt d wid = Some m"
  shows "\<exists>name. ai_provider_secret_env (py_lower (py_strip provider)) = Some name
    \<and> resolve_workspace_runtime_secret_env decrypt d' wid = Some (m(name \<mapsto> py_strip key))"
proof -
  obtain name where name: "ai_provider_secret_env (py_lower (py_strip provider)) = Some name"
    using assms(1) by (auto simp: upsert_workspace_ai_secret_def split: option.splits)
  have dec: "resolve_workspace_runtime_secret_env decrypt d wid = decode_rows decrypt (filter (\<lambda>s. sec_workspace_id s = wid) (secrets d)) (Some Map.empty)" for d
    by (simp add: resolve_workspace_runtime_secret_env_def decode_rows_def)
  show ?thesis
  proof (cases "find_secret d wid name")
    case None
    then have "secrets d' = secrets d @ [\<lparr>sec_id = seqs d T_SECRET, sec_workspace_id = wid, sec_name = name,
        sec_encrypted = encrypt (py_strip key), sec_updated_at = now E\<rparr>]"
      using assms(1) name by (auto simp: upsert_workspace_ai_secret_def Let_def split: if_splits)
    then show ?thesis using name assms(2,5) by (simp add: dec)
  next
    case (Some s)
    let ?s = "s\<lparr>sec_encrypted := encrypt (py_strip key), sec_updated_at := now E\<rparr>"
    have d': "secrets d' = row_put sec_id ?s (secrets d)"
      using assms(1) name Some by (auto simp: upsert_workspace_ai_secret_def Let_def split: if_splits)
    have s: "s \<in> set (secrets d)" "sec_workspace_id s = wid" "sec_name s = name"
      using first_row_in [OF Some [unfolded find_secret_def]] by auto
    obtain xs ys where split: "secrets d = xs @ s # ys" using s(1) by (meson split_list)
    have "\<forall>q\<in>set xs \<union> set ys. sec_id q \<noteq> sec_id s"
      using assms(4) unfolding split by auto (metis imageI)+
    then have put: "row_put sec_id ?s (secrets d) = xs @ ?s # ys" unfolding split row_put_def by (simp add: map_idI)
    have "(sec_workspace_id s, sec_name s) \<notin> (\<lambda>s. (sec_workspace_id s, sec_name s)) ` set ys" using assms(3) unfolding split by simp
    then have "sec_name s \<notin> sec_name ` set (filter (\<lambda>s. sec_workspace_id s = wid) ys)" unfolding s(2) image_iff by auto
    note later = this
    let ?of = "filter (\<lambda>s. sec_workspace_id s = wid)"
    have new: "?of (secrets d') = ?of xs @ ?s # ?of ys" unfolding d' put using s(2) by simp
    have old: "?of (secrets d) = ?of xs @ s # ?of ys" unfolding split using s(2) by simp
    have "decode_rows decrypt (?of (secrets d')) (Some Map.empty) = Some (m(sec_name s \<mapsto> py_strip key))"
      unfolding new by (rule decode_rows_replace [OF assms(5) [unfolded dec old] later]) (simp_all add: assms(2))
    then show ?thesis using name unfolding dec s(3) by blast
  qed
qed

theorem ai_secret_round_trip_witness:
  "resolve_workspace_runtime_secret_env Some (state_of (upsert_workspace_ai_secret id ex_env 1 7 ''openai'' ''sk-1 '' ex_db)) 1
     = Some [''OPENAI_API_KEY'' \<mapsto> ''sk-1'']"
proof -
  have p: "py_lower (py_strip ''openai'') = ''openai''" "py_strip ''sk-1 '' = ''sk-1''" by code_simp+
  then have up: "\<exists>d'. upsert_workspace_ai_secret id ex_env 1 7 ''openai'' ''sk-1 '' ex_db = Inr ((), d')"
    by (simp add: upsert_workspace_ai_secret_def ai_provider_secret_env_def owned_ws_exists_def find_secret_def ex_defs)
  then obtain d' where up: "upsert_workspace_ai_secret id ex_env 1 7 ''openai'' ''sk-1 '' ex_db = Inr ((), d')" by blast
  have "distinct (map (\<lambda>s. (sec_workspace_id s, sec_name s)) (secrets ex_db))" "distinct (map sec_id (secrets ex_db))"
    "resolve_workspace_runtime_secret_env Some ex_db 1 = Some Map.empty" "\<And>s. Some (id s) = Some s"
    by (simp_all add: resolve_workspace_runtime_secret_env_def ex_defs)
  from ai_secret_round_trip [where decrypt = Some, OF up this(4,1,2,3)] show ?thesis by (simp add: p up ai_provider_secret_env_def)
qed

section \<open>Snapshots\<close>

lemma queue_snapshot_pending:
  "jt \<in> {JT_SNAPSHOT_CREATE, JT_SNAPSHOT_RESTORE} \<Longrightarrow> pending_snapshot_jobs (snd (queue_snapshot_job E w jt owner sid cid msg act meta d)) (ws_id w)"
  by (auto simp: pending_snapshot_jobs_def queue_snapshot_job_def Let_def split_beta snapshot_audit_def add_job_def bump_def)

lemma pending_refuses_create: "pending_snapshot_jobs d wid \<Longrightarrow> \<exists>e. create_snapshot X E wid owner nm ds mt co d = Inl (e, d)"
  by (auto simp: create_snapshot_def split: option.split)

lemma pending_refuses_restore:
  assumes "pending_snapshot_jobs d wid" "get_snap d sid = Some s" "snap_workspace_id s = wid"
  shows "\<exists>e. restore_snapshot X E sid owner co d = Inl (e, d)"
  using assms get_key(1) [of d wid]
  by (auto simp: restore_snapshot_def get_snapshot_for_owner_def split: option.split)

lemma create_snapshot_Inr:
  "create_snapshot X E wid owner nm ds mt co d = Inr (r, d') \<Longrightarrow>
     \<exists>w d1 sid cid msg act meta. get_ws d wid = Some w \<and> d' = snd (queue_snapshot_job E w JT_SNAPSHOT_CREATE owner sid cid msg act meta d1)"
  by (auto simp: create_snapshot_def Let_def andthen_Inr split: if_splits option.splits) (metis snd_conv)

text \<open>At most one snapshot operation per workspace is in flight: once a snapshot has been requested, every further
  snapshot or restore request for the workspace is refused and changes nothing, until the job is done.\<close>

theorem snapshot_single_flight:
  assumes "create_snapshot X E wid owner nm ds mt co d = Inr (r, d')"
  shows "(\<exists>e. create_snapshot X' E' wid owner' nm' ds' mt' co' d' = Inl (e, d'))
    \<and> (\<forall>sid s. get_snap d' sid = Some s \<longrightarrow> snap_workspace_id s = wid \<longrightarrow> (\<exists>e. restore_snapshot X' E' sid owner' co' d' = Inl (e, d')))"
proof -
  obtain w d1 sid cid msg act meta where w: "get_ws d wid = Some w"
    and d': "d' = snd (queue_snapshot_job E w JT_SNAPSHOT_CREATE owner sid cid msg act meta d1)"
    using create_snapshot_Inr [OF assms] by blast
  have "pending_snapshot_jobs d' wid" unfolding d' using get_key(1) [OF w] queue_snapshot_pending by (metis insertI1)
  then show ?thesis using pending_refuses_create pending_refuses_restore by blast
qed

lemma ex_snapshot_accepted: "\<exists>r d'. create_snapshot ex_outside ex_env 1 7 ''s'' None [] None ex_db = Inr (r, d')"
  by (simp add: create_snapshot_def assert_workspace_owner_def get_ws_def snapshot_create_allowed_def pending_snapshot_jobs_def
      check_snapshot_quota_def evaluate_snapshot_creation_def load_applicable_policies_def get_effective_quota_def Let_def ex_defs)

theorem snapshot_single_flight_witness:
  "\<exists>r d' e. create_snapshot ex_outside ex_env 1 7 ''s'' None [] None ex_db = Inr (r, d')
     \<and> create_snapshot ex_outside ex_env 1 7 ''t'' None [] None d' = Inl (e, d')"
proof -
  obtain r d' where r: "create_snapshot ex_outside ex_env 1 7 ''s'' None [] None ex_db = Inr (r, d')" using ex_snapshot_accepted by blast
  obtain e where "create_snapshot ex_outside ex_env 1 7 ''t'' None [] None d' = Inl (e, d')"
    using snapshot_single_flight [OF r, of ex_outside ex_env 7 "''t''" None "[]" None] by blast
  with r show ?thesis by blast
qed

end
