(* ===== verification/Deferral_Correct.thy ===== *)
theory Deferral_Correct
  imports Cleanup Samples
begin

text \<open>
  A cleanup task stores its issues as JSON text, and a deferred cleanup reads that text back and adds a
  note to it. This theory shows that the issues survive.
\<close>

section \<open>Deferred cleanups keep their issues\<close>

lemma json_string_quote: "json_string t = CHR 0x22 # (concat (map json_char t) @ [CHR 0x22])"
  by (simp add: json_string_def)

lemma read_value_string: "read_value (Suc n) (json_string t @ r) = Some (JStr t, r)"
  by (simp add: json_string_quote skip_ws_def json_ws_def read_string_json)

lemma join_str_Cons: "xs \<noteq> [] \<Longrightarrow> join_str sep (x # xs) = x @ sep @ join_str sep xs"
  by (cases xs) simp_all

lemma read_elems_strings:
  "xs \<noteq> [] \<Longrightarrow> length xs < n \<Longrightarrow> read_elems n (join_str '','' (map json_string xs) @ CHR '']'' # r) = Some (map JStr xs, r)"
proof (induction xs arbitrary: n)
  case (Cons x xs)
  obtain m where n: "n = Suc (Suc m)" using Cons.prems(2) by (cases n; cases "n - 1") auto
  show ?case
  proof (cases "xs = []")
    case True
    then show ?thesis by (simp add: n read_value_string skip_ws_def json_ws_def del: read_value.simps)
  next
    case False
    then have "join_str '','' (map json_string (x # xs)) @ CHR '']'' # r = json_string x @ CHR '','' # join_str '','' (map json_string xs) @ CHR '']'' # r"
      by (simp add: join_str_Cons)
    then show ?thesis using Cons.IH [of "Suc m"] Cons.prems False by (simp add: n read_value_string skip_ws_def json_ws_def del: read_value.simps)
  qed
qed simp

definition issues_object :: "string list \<Rightarrow> jobj" where
  "issues_object detail = [(''issues'', JList (map JStr detail))]"

lemma dumps_issues:
  "detail \<noteq> [] \<Longrightarrow> dumps E (JObj (issues_object detail)) =
     CHR ''{'' # json_string ''issues'' @ CHR '':'' # CHR ''['' # join_str '','' (map json_string detail) @ CHR '']'' # ''}''"
  by (simp add: issues_object_def o_def)

lemma join_str_length: "sep \<noteq> [] \<Longrightarrow> length xs \<le> Suc (length (join_str sep xs))"
proof (induction sep xs rule: join_str.induct)
  case (3 sep x y xs)
  then show ?case by (cases sep) auto
qed auto

lemma skip_ws_stop: "\<not> json_ws c \<Longrightarrow> skip_ws (c # s) = c # s"
  by (simp add: skip_ws_def)

lemma not_ws [simp]:
  "\<not> json_ws (CHR 0x22)" "\<not> json_ws (CHR ''{'')" "\<not> json_ws (CHR ''}'')" "\<not> json_ws (CHR ''['')" "\<not> json_ws (CHR '']'')"
  "\<not> json_ws (CHR '':'')" "\<not> json_ws (CHR '','')"
  by (simp_all add: json_ws_def)

lemma join_strings_head: "xs \<noteq> [] \<Longrightarrow> \<exists>s. join_str '','' (map json_string xs) = CHR 0x22 # s"
  by (cases xs; cases "tl xs") (auto simp: json_string_quote)

lemma read_value_strings:
  assumes "xs \<noteq> []" "length xs < n"
  shows "read_value (Suc n) (CHR ''['' # join_str '','' (map json_string xs) @ CHR '']'' # r) = Some (JList (map JStr xs), r)"
  using read_elems_strings [OF assms, of r] join_strings_head [OF assms(1)]
  by (auto simp: skip_ws_stop starts_with_def)

lemma read_issues:
  assumes "detail \<noteq> []" "length detail + 3 < n"
  shows "read_value n (dumps E (JObj (issues_object detail))) = Some (JObj (issues_object detail), [])"
proof -
  define m where "m = n - 3"
  have n: "n = Suc (Suc (Suc m))" "length detail < m" using assms by (cases detail; simp add: m_def)+
  let ?rest = "CHR ''['' # join_str '','' (map json_string detail) @ CHR '']'' # ''}''"
  have key: "read_string (tl (json_string ''issues'' @ CHR '':'' # ?rest)) = Some (''issues'', CHR '':'' # ?rest)"
    using read_string_json [of "''issues''" "CHR '':'' # ?rest"] by (simp only: json_string_quote append.simps list.sel append_assoc)
  have "read_members (Suc (Suc m)) (json_string ''issues'' @ CHR '':'' # ?rest) = Some ([(''issues'', JList (map JStr detail))], [])"
    using key read_value_strings [OF assms(1) n(2), of "''}''"]
    by (simp add: json_string_quote skip_ws_stop starts_with_def del: read_value.simps)
  then show ?thesis unfolding dumps_issues [OF assms(1)] n(1)
    by (simp add: json_string_quote skip_ws_stop starts_with_def issues_object_def)
qed

lemma loads_issues:
  assumes "detail \<noteq> []"
  shows "loads (dumps E (JObj (issues_object detail))) = Some (JObj (issues_object detail))"
proof -
  let ?t = "dumps E (JObj (issues_object detail))"
  have "length detail \<le> Suc (length (join_str '','' (map json_string detail)))"
    using join_str_length [of "'',''" "map json_string detail"] by simp
  then have "length detail + 3 < 2 * length ?t + 2" unfolding dumps_issues [OF assms] by simp
  from read_issues [OF assms this] show ?thesis
    by (simp add: loads_def skip_ws_def issues_object_def comp_def)
qed

lemma map_of_fold_jset: "k \<notin> fst ` set extra \<Longrightarrow> map_of (fold (\<lambda>(k, v) ob. jset ob k v) extra p) k = map_of p k"
  by (induction extra arbitrary: p) (auto simp: map_of_jset split_beta)

text \<open>C28: when the cleanup of a workspace has to wait, the note added to its task keeps the issues it was recorded
  with: the stored text is read back, and the new text is that of an object with the same issues, the
  reason and the workspace (cut to the 8192 characters of the column).\<close>

theorem deferral_keeps_issues:
  assumes "db_keys_ok d" "find_cleanup_task d wid scope = None" "detail \<noteq> []"
    and "{''issues'', ''deferred_reason'', ''deferred_workspace_id''} \<inter> fst ` set extra = {}"
  defines "tid \<equiv> seqs d T_CLEANUP"
  shows "\<exists>d' c p. merge_cleanup_deferred_note E' reason wid extra [tid] (ensure_durable_cleanup_task E wid scope detail d) = Some d'
    \<and> get_ct d' tid = Some c \<and> ct_status c = CT_PENDING \<and> ct_detail c = Some (take 8192 (dumps E' (JObj p)))
    \<and> jget p ''issues'' = JList (map JStr detail) \<and> jget p ''deferred_reason'' = JStr reason \<and> jget p ''deferred_workspace_id'' = JInt wid"
proof -
  let ?row = "\<lparr>ct_id = 0, ct_workspace_id = wid, ct_scope = scope, ct_detail = Some (dumps E (JObj (issues_object detail))),
     ct_status = CT_PENDING, ct_attempts = 0, ct_created_at = now E, ct_updated_at = now E\<rparr>"
  let ?d = "ensure_durable_cleanup_task E wid scope detail d"
  have "?d = snd (add_ct ?row d)" using assms(2,3) by (simp add: ensure_durable_cleanup_task_def Let_def issues_object_def)
  then have row: "get_ct ?d tid = Some (?row\<lparr>ct_id := tid\<rparr>)"
    using assms(1) ct_tab.look_ins [of d ?row tid] by (simp add: db_keys_ok_def tid_def add_ct_def)
  define p where "p = fold (\<lambda>(k, v) ob. jset ob k v) extra
      (jset (jset (issues_object detail) ''deferred_reason'' (JStr reason)) ''deferred_workspace_id'' (JInt wid))"
  have none: "dumps E (JObj (issues_object detail)) \<noteq> []" unfolding dumps_issues [OF assms(3)] by simp
  have pay: "deferred_payload reason wid extra (Some (dumps E (JObj (issues_object detail)))) = Some (Some p)"
  proof -
    have "jget (issues_object detail) ''deferred_reason'' = JNull" by (simp add: jget_def issues_object_def)
    then show ?thesis using none by (simp add: deferred_payload_def Let_def loads_issues [OF assms(3)] p_def del: dumps.simps)
  qed
  have fields: "jget p ''issues'' = JList (map JStr detail)" "jget p ''deferred_reason'' = JStr reason" "jget p ''deferred_workspace_id'' = JInt wid"
    using assms(4) by (simp_all add: p_def jget_def map_of_fold_jset map_of_jset issues_object_def)
  show ?thesis using row pay fields by (auto simp: get_upd simp del: dumps.simps)
qed

theorem deferral_keeps_issues_witness:
  "\<exists>d' c. merge_cleanup_deferred_note ex_env ''runtime_placement_incomplete'' 1 [] [2] (ensure_durable_cleanup_task ex_env 1 ''s'' [''x''] ex_db) = Some d'
     \<and> get_ct d' 2 = Some c \<and> ct_status c = CT_PENDING"
proof -
  have k: "db_keys_ok ex_db" "find_cleanup_task ex_db 1 ''s'' = None" "[''x''] \<noteq> []" "seqs ex_db T_CLEANUP = 2"
    "{''issues'', ''deferred_reason'', ''deferred_workspace_id''} \<inter> fst ` set [] = {}"
    by (simp_all add: db_keys_ok_def keys_ok_def find_cleanup_task_def ex_defs)
  from deferral_keeps_issues [OF k(1,2,3,5), unfolded k(4), of ex_env] show ?thesis by blast
qed

end
