(* ===== verification/Ipv4.thy ===== *)
theory Ipv4
  imports Prelude
begin

text \<open>
  The part of Python's \<^verbatim>\<open>ipaddress\<close> module the topology adapter uses. An address is its number below
  \<open>2 ^ 32\<close>, a network its lowest address and its prefix length; applying a net mask clears the low bits,
  which is rounding down to a multiple of the size of the network. \<open>None\<close> is \<^verbatim>\<open>ValueError\<close>. Texts of IPv6
  addresses and networks are outside the model and count as malformed.
\<close>

section \<open>Addresses\<close>

text \<open>One decimal octet: one to three ASCII digits, no leading zero, at most 255.\<close>

definition octet :: "string \<Rightarrow> nat option" where
  "octet s =
     (if s = [] \<or> \<not> list_all is_digit s \<or> length s > 3 \<or> length s > 1 \<and> starts_with ''0'' s \<or> read_nat s > 255
      then None else Some (read_nat s))"

definition parse_ip4 :: "string \<Rightarrow> nat option" where
  "parse_ip4 s =
     (case map octet (split_on (CHR ''.'') s) of
        [Some a, Some b, Some c, Some d] \<Rightarrow> Some (((a * 256 + b) * 256 + c) * 256 + d)
      | _ \<Rightarrow> None)"

definition ip4_text :: "nat \<Rightarrow> string" where
  "ip4_text a = join_str ''.'' (map str_nat [a div 16777216, a div 65536 mod 256, a div 256 mod 256, a mod 256])"

section \<open>Networks\<close>

record net4 =
  net_base :: nat
  net_len :: nat

definition size_of_len :: "nat \<Rightarrow> nat" where
  "size_of_len k = 2 ^ (32 - k)"

definition net_size :: "net4 \<Rightarrow> nat" where
  "net_size n = size_of_len (net_len n)"

definition make_net :: "nat \<Rightarrow> nat \<Rightarrow> net4" where
  "make_net a k = \<lparr>net_base = a div size_of_len k * size_of_len k, net_len = k\<rparr>"

text \<open>A prefix length, a net mask or a host mask, in this order.\<close>

definition parse_prefix :: "string \<Rightarrow> nat option" where
  "parse_prefix s =
     (if s \<noteq> [] \<and> list_all is_digit s \<and> read_nat s \<le> 32 then Some (read_nat s)
      else case parse_ip4 s of
        None \<Rightarrow> None
      | Some m \<Rightarrow>
          (case find (\<lambda>k. m = 2 ^ 32 - size_of_len k) [0..<33] of
             Some k \<Rightarrow> Some k
           | None \<Rightarrow> find (\<lambda>k. m = size_of_len k - 1) [0..<33]))"

definition parse_net :: "string \<Rightarrow> net4 option" where
  "parse_net s =
     (case split_on (CHR ''/'') s of
        [a] \<Rightarrow> map_option (\<lambda>x. make_net x 32) (parse_ip4 a)
      | [a, p] \<Rightarrow> (case (parse_ip4 a, parse_prefix p) of (Some x, Some k) \<Rightarrow> Some (make_net x k) | _ \<Rightarrow> None)
      | _ \<Rightarrow> None)"

definition net_text :: "net4 \<Rightarrow> string" where
  "net_text n = ip4_text (net_base n) @ ''/'' @ str_nat (net_len n)"

definition in_net :: "nat \<Rightarrow> net4 \<Rightarrow> bool" where
  "in_net a n = (a div net_size n * net_size n = net_base n)"

definition net_last :: "net4 \<Rightarrow> nat" where
  "net_last n = net_base n + net_size n - 1"

text \<open>\<^verbatim>\<open>hosts()\<close>: without the first and last address, except in networks of one or two addresses.\<close>

definition net_hosts :: "net4 \<Rightarrow> nat list" where
  "net_hosts n =
     (if net_len n \<ge> 31 then [net_base n..<net_base n + net_size n]
      else [net_base n + 1..<net_base n + net_size n - 1])"

definition net_overlaps :: "net4 \<Rightarrow> net4 \<Rightarrow> bool" where
  "net_overlaps x y = (in_net (net_base y) x \<or> in_net (net_last y) x \<or> in_net (net_base x) y \<or> in_net (net_last x) y)"

definition net_subnets :: "nat \<Rightarrow> net4 \<Rightarrow> net4 list" where
  "net_subnets k n =
     map (\<lambda>i. \<lparr>net_base = net_base n + i * size_of_len k, net_len = k\<rparr>) [0..<2 ^ (k - net_len n)]"

section \<open>Well-formed networks\<close>

definition net_ok :: "net4 \<Rightarrow> bool" where
  "net_ok n \<longleftrightarrow> net_len n \<le> 32 \<and> net_size n dvd net_base n \<and> net_base n + net_size n \<le> 2 ^ 32"

lemma net_size_pos [simp]: "0 < net_size n" "0 < size_of_len k"
  by (simp_all add: net_size_def size_of_len_def)

lemma net_size_nonzero [simp]: "net_size n \<noteq> 0" "size_of_len k \<noteq> 0"
  by (simp_all add: net_size_def size_of_len_def)

lemma octet_bound: "octet s = Some a \<Longrightarrow> a < 256"
  by (auto simp: octet_def split: if_splits)

lemma parse_ip4_cases:
  assumes "parse_ip4 s = Some a"
  obtains p q r t where "p < 256" "q < 256" "r < 256" "t < 256" "a = ((p * 256 + q) * 256 + r) * 256 + t"
proof -
  obtain p q r t where m: "map octet (split_on (CHR ''.'') s) = [Some p, Some q, Some r, Some t]" "a = ((p * 256 + q) * 256 + r) * 256 + t"
    using assms by (auto simp: parse_ip4_def split: list.splits option.splits)
  have "Some x \<in> set (map octet (split_on (CHR ''.'') s)) \<Longrightarrow> x < 256" for x using octet_bound by auto
  then show ?thesis using that m by (metis list.set_intros(1,2))
qed

lemma parse_ip4_bound: "parse_ip4 s = Some a \<Longrightarrow> a < 2 ^ 32"
  by (elim parse_ip4_cases) simp

lemma find_bound: "find P [0..<33] = Some k \<Longrightarrow> k \<le> 32"
  by (auto simp: find_Some_iff)

lemma parse_prefix_bound: "parse_prefix s = Some k \<Longrightarrow> k \<le> 32"
  by (auto simp: parse_prefix_def split: if_splits option.splits dest!: find_bound)

lemma make_net_ok: "a < 2 ^ 32 \<Longrightarrow> k \<le> 32 \<Longrightarrow> net_ok (make_net a k)"
proof -
  assume a: "a < 2 ^ 32" and k: "k \<le> 32"
  let ?s = "size_of_len k"
  have "(2::nat) ^ 32 = 2 ^ k * ?s" using k by (simp add: size_of_len_def power_add [symmetric])
  then have "a div ?s < 2 ^ k" using a by (simp add: less_mult_imp_div_less)
  then have "(a div ?s + 1) * ?s \<le> 2 ^ k * ?s" by (intro mult_le_mono1) simp
  then have "a div ?s * ?s + ?s \<le> 2 ^ 32" using \<open>(2::nat) ^ 32 = 2 ^ k * ?s\<close> by (simp add: algebra_simps)
  then show ?thesis using k by (simp add: net_ok_def make_net_def net_size_def)
qed

lemma parse_net_ok: "parse_net s = Some n \<Longrightarrow> net_ok n"
  by (auto simp: parse_net_def split: list.splits option.splits dest!: parse_ip4_bound parse_prefix_bound intro!: make_net_ok)

text \<open>Membership is an interval.\<close>

lemma in_net_iff: "net_ok n \<Longrightarrow> in_net a n \<longleftrightarrow> net_base n \<le> a \<and> a \<le> net_last n"
proof -
  assume ok: "net_ok n"
  let ?s = "net_size n"
  obtain q where q: "net_base n = q * ?s" using ok unfolding net_ok_def by (metis dvd_def mult.commute)
  have pos: "0 < ?s" by simp
  have "in_net a n \<longleftrightarrow> a div ?s = q" using pos by (simp add: in_net_def q)
  also have "\<dots> \<longleftrightarrow> q * ?s \<le> a \<and> a < q * ?s + ?s"
  proof
    assume "a div ?s = q"
    then show "q * ?s \<le> a \<and> a < q * ?s + ?s"
      using times_div_less_eq_dividend [of ?s a] dividend_less_times_div [OF pos, of a] by (simp add: mult.commute add.commute)
  next
    assume "q * ?s \<le> a \<and> a < q * ?s + ?s"
    then show "a div ?s = q" by (intro div_nat_eqI) (simp_all add: mult.commute add.commute)
  qed
  also have "a < q * ?s + ?s \<longleftrightarrow> a \<le> q * ?s + ?s - 1" using pos by linarith
  finally show ?thesis by (simp add: net_last_def q)
qed

lemma net_last_bounds: "net_base n \<le> net_last n" "net_ok n \<Longrightarrow> net_last n < 2 ^ 32"
  using net_size_pos(1) [of n] unfolding net_last_def net_ok_def by linarith+

lemma net_base_in [simp]: "net_ok n \<Longrightarrow> in_net (net_base n) n"
  by (simp add: in_net_iff net_last_bounds)

text \<open>Two networks overlap exactly when they share an address.\<close>

lemma net_overlaps_iff:
  assumes "net_ok x" "net_ok y"
  shows "net_overlaps x y \<longleftrightarrow> (\<exists>a. in_net a x \<and> in_net a y)"
  using net_last_bounds(1) [of x] net_last_bounds(1) [of y]
  unfolding net_overlaps_def in_net_iff [OF assms(1)] in_net_iff [OF assms(2)] by (meson le_cases order_trans order_refl)

lemma net_overlaps_sym: "net_overlaps x y = net_overlaps y x"
  by (auto simp: net_overlaps_def)

lemma net_hosts_in: "net_ok n \<Longrightarrow> a \<in> set (net_hosts n) \<Longrightarrow> in_net a n"
  by (auto simp: net_hosts_def in_net_iff net_last_def split: if_splits)

lemma net_hosts_distinct [simp]: "distinct (net_hosts n)"
  by (simp add: net_hosts_def)

lemma net_hosts_inner: "net_len n < 31 \<Longrightarrow> a \<in> set (net_hosts n) \<Longrightarrow> net_base n < a \<and> a < net_last n"
  by (auto simp: net_hosts_def net_last_def)

section \<open>Writing and reading back\<close>

lemma split_on_plain: "c \<notin> set x \<Longrightarrow> split_on c x = [x]"
  by (induction x) auto

lemma split_on_append: "c \<notin> set x \<Longrightarrow> split_on c (x @ c # y) = x # split_on c y"
  by (induction x) auto

lemma digit_char_is_digit: "d < 10 \<Longrightarrow> is_digit (digit_char d)"
  by (simp add: is_digit_def digit_char_def of_char_of)

lemma str_nat_digits: "list_all is_digit (str_nat n)"
proof (induction n rule: str_nat.induct)
  case (1 n)
  then show ?case by (subst str_nat.simps) (simp add: digit_char_is_digit)
qed

lemma str_nat_no: "\<not> is_digit c \<Longrightarrow> c \<notin> set (str_nat n)"
  using str_nat_digits [of n] by (auto simp: list_all_iff)

lemma not_digits [simp]: "\<not> is_digit (CHR ''.'')" "\<not> is_digit (CHR ''/'')"
  by (simp_all add: is_digit_def)

lemma str_nat_short: "n < 1000 \<Longrightarrow> length (str_nat n) \<le> 3"
proof -
  assume n: "n < 1000"
  have one: "m < 10 \<Longrightarrow> length (str_nat m) = 1" for m by (subst str_nat.simps) simp
  have two: "m < 100 \<Longrightarrow> length (str_nat m) \<le> 2" for m
    by (subst str_nat.simps) (use one [of "m div 10"] in auto)
  show ?thesis using n by (subst str_nat.simps) (use two [of "n div 10"] in auto)
qed

lemma digit_char_zero: "d < 10 \<Longrightarrow> digit_char d = CHR ''0'' \<longleftrightarrow> d = 0"
proof -
  assume d: "d < 10"
  have "digit_char d = CHR ''0'' \<longleftrightarrow> (of_char (digit_char d) :: nat) = of_char (CHR ''0'')"
    by (simp only: of_char_eq_iff)
  also have "\<dots> \<longleftrightarrow> d = 0" using d by (simp add: digit_char_def of_char_of)
  finally show ?thesis .
qed

lemma str_nat_head: "0 < n \<Longrightarrow> hd (str_nat n) \<noteq> CHR ''0''"
proof (induction n rule: str_nat.induct)
  case (1 n)
  show ?case
  proof (cases "n < 10")
    case True
    then show ?thesis using 1(2) by (subst str_nat.simps) (simp add: digit_char_zero)
  next
    case False
    then have "hd (str_nat (n div 10)) \<noteq> CHR ''0''" using 1(1) by simp
    then show ?thesis using False by (subst str_nat.simps) (simp add: hd_append)
  qed
qed

lemma octet_str_nat: "n < 256 \<Longrightarrow> octet (str_nat n) = Some n"
proof -
  assume n: "n < 256"
  have "\<not> (length (str_nat n) > 1 \<and> starts_with ''0'' (str_nat n))"
  proof (cases "n = 0")
    case True
    then show ?thesis by (subst str_nat.simps) (simp add: True)
  next
    case False
    then show ?thesis using str_nat_head [of n] by (cases "str_nat n") (auto simp: starts_with_def)
  qed
  then show ?thesis using n str_nat_short [of n] str_nat_digits [of n] by (simp add: octet_def)
qed

lemma ip4_text_no_slash: "CHR ''/'' \<notin> set (ip4_text a)"
  by (simp add: ip4_text_def str_nat_no)

lemma parse_ip4_text: "a < 2 ^ 32 \<Longrightarrow> parse_ip4 (ip4_text a) = Some a"
proof -
  assume a: "a < 2 ^ 32"
  have "split_on (CHR ''.'') (ip4_text a) = map str_nat [a div 16777216, a div 65536 mod 256, a div 256 mod 256, a mod 256]"
    by (simp add: ip4_text_def split_on_append split_on_plain str_nat_no)
  moreover have "a div 16777216 < 256" using a by simp
  ultimately have "parse_ip4 (ip4_text a) = Some (((a div 16777216 * 256 + a div 65536 mod 256) * 256 + a div 256 mod 256) * 256 + a mod 256)"
    by (simp add: parse_ip4_def octet_str_nat)
  moreover have "((a div 16777216 * 256 + a div 65536 mod 256) * 256 + a div 256 mod 256) * 256 + a mod 256 = a"
  proof -
    have "a div 65536 = a div 16777216 * 256 + a div 65536 mod 256" using div_mult_mod_eq [of "a div 65536" 256] by (simp add: div_mult2_eq [symmetric])
    moreover have "a div 256 = a div 65536 * 256 + a div 256 mod 256" using div_mult_mod_eq [of "a div 256" 256] by (simp add: div_mult2_eq [symmetric])
    moreover have "a = a div 256 * 256 + a mod 256" by simp
    ultimately show ?thesis by simp
  qed
  ultimately show ?thesis by simp
qed

lemma parse_net_text: "net_ok n \<Longrightarrow> parse_net (net_text n) = Some n"
proof -
  assume ok: "net_ok n"
  have "split_on (CHR ''/'') (net_text n) = [ip4_text (net_base n), str_nat (net_len n)]"
    by (simp add: net_text_def split_on_append split_on_plain ip4_text_no_slash str_nat_no)
  moreover have "net_base n < 2 ^ 32" using net_last_bounds [of n] ok by linarith
  moreover have "make_net (net_base n) (net_len n) = n" using ok by (simp add: make_net_def net_ok_def net_size_def dvd_div_mult_self)
  ultimately show ?thesis using ok str_nat_digits [of "net_len n"]
    by (simp add: parse_net_def parse_ip4_text parse_prefix_def net_ok_def)
qed

text \<open>Texts of addresses and networks have no surrounding white space.\<close>

lemma py_strip_digits:
  assumes "s \<noteq> []" "is_digit (hd s)" "is_digit (last s)"
  shows "py_strip s = s"
proof -
  have "is_digit c \<Longrightarrow> \<not> py_space c" for c by (auto simp: is_digit_def py_space_def)
  then show ?thesis using assms by (intro py_strip_tidy) blast+
qed

lemma hd_last_str_nat: "is_digit (hd (str_nat n))" "is_digit (last (str_nat n))"
  using str_nat_digits [of n] str_nat_nonempty [of n] by (auto simp: list_all_iff)

lemma py_strip_ip4_text [simp]: "py_strip (ip4_text a) = ip4_text a"
  by (rule py_strip_digits) (simp_all add: ip4_text_def hd_append hd_last_str_nat)

lemma py_strip_net_text [simp]: "py_strip (net_text n) = net_text n"
  by (rule py_strip_digits) (simp_all add: net_text_def ip4_text_def hd_append hd_last_str_nat)

lemma text_nonempty [simp]: "ip4_text a \<noteq> []" "net_text n \<noteq> []"
  by (simp_all add: ip4_text_def net_text_def)

section \<open>Reading printed integers\<close>

lemma parse_digits_read: "list_all is_digit s \<Longrightarrow> s \<noteq> [] \<Longrightarrow>
   parse_digits b (int k) s = Some (int (foldl (\<lambda>n c. 10 * n + digit_val c) k s))"
proof (induction s arbitrary: b k)
  case (Cons c s)
  have c: "10 * int k + (of_char c - 48) = int (10 * k + digit_val c)"
    using Cons.prems(1) by (simp add: is_digit_def digit_val_def of_nat_diff of_nat_of_char)
  show ?case
  proof (cases "s = []")
    case True
    then show ?thesis using Cons.prems c by simp
  next
    case False
    then show ?thesis using Cons.prems Cons.IH [of True "10 * k + digit_val c"] c by simp
  qed
qed simp

lemma parse_int_str_int [simp]: "parse_int (str_int i) = Some i"
proof -
  define n where "n = nat (if i < 0 then - i else i)"
  have p: "parse_digits False 0 (str_nat n) = Some (int n)"
    using parse_digits_read [OF str_nat_digits, of n False 0] read_nat_str_nat [of n] by (simp add: read_nat_def)
  obtain c cs where s: "str_nat n = c # cs" by (cases "str_nat n") simp_all
  have c: "c \<noteq> CHR ''-''" "c \<noteq> CHR ''+''" using hd_last_str_nat(1) [of n] s by (auto simp: is_digit_def)
  have strip: "py_strip (str_nat n) = str_nat n" by (rule py_strip_digits) (simp_all add: hd_last_str_nat)
  have "\<not> py_space (last (str_nat n))" using hd_last_str_nat(2) [of n] by (auto simp: is_digit_def py_space_def)
  then have minus: "py_strip (CHR ''-'' # str_nat n) = CHR ''-'' # str_nat n" by (intro py_strip_tidy) (simp_all add: py_space_def)
  show ?thesis using p c s strip minus by (cases "i < 0") (simp_all add: parse_int_def str_int_def n_def)
qed

end
