(* ===== verification/Topology.thy ===== *)
theory Topology
  imports Model Ipv4
begin

text \<open>
  The topology adapter (\<^verbatim>\<open>libs/topology/db_topology_adapter.py\<close>): per node a bridge with a subnet, leases of
  workspace addresses and attachments of workspace containers.

  The adapter owns three tables, kept in the record \<open>tdb\<close> with the specifications of the topology catalog.
  Every operation commits as it goes, so an error carries the database it leaves behind. Between the reads
  and the commit of one attempt to reserve a subnet or an address, other workers may commit: \<open>tw_race\<close> gives
  the database they leave, and the commit is then checked against the unique constraints of the tables
  (\<^verbatim>\<open>IntegrityError\<close>). The other operations are taken to run between the commits of other workers. Any commit
  may fail for another reason (\<open>tw_commit\<close>).

  What the host answers to the \<^verbatim>\<open>ip\<close> and \<^verbatim>\<open>nsenter\<close> commands issued through \<^verbatim>\<open>libs/topology/system\<close>, the
  SHA-256 digest and the texts of foreign exceptions are fields of the record \<open>topo_world\<close>.
\<close>

section \<open>Tables\<close>

datatype topo_rt_status = TRS_READY | TRS_DEGRADED | TRS_FAILED | TRS_DELETING

fun topo_rt_status_str :: "topo_rt_status \<Rightarrow> string" where
  "topo_rt_status_str TRS_READY = ''READY''"
| "topo_rt_status_str TRS_DEGRADED = ''DEGRADED''"
| "topo_rt_status_str TRS_FAILED = ''FAILED''"
| "topo_rt_status_str TRS_DELETING = ''DELETING''"

datatype att_status = AS_ATTACHING | AS_ATTACHED | AS_DETACHING | AS_DETACHED | AS_FAILED

fun att_status_str :: "att_status \<Rightarrow> string" where
  "att_status_str AS_ATTACHING = ''ATTACHING''"
| "att_status_str AS_ATTACHED = ''ATTACHED''"
| "att_status_str AS_DETACHING = ''DETACHING''"
| "att_status_str AS_DETACHED = ''DETACHED''"
| "att_status_str AS_FAILED = ''FAILED''"

record topo_runtime =
  tr_id :: int
  tr_topology_id :: int
  tr_node_id :: string
  tr_status :: topo_rt_status
  tr_bridge_name :: "string option"
  tr_cidr :: "string option"
  tr_gateway_ip :: "string option"
  tr_last_checked_at :: "time option"
  tr_last_error_code :: "string option"
  tr_last_error_message :: "string option"
  tr_updated_at :: time

record ip_lease =
  ia_id :: int
  ia_topology_id :: int
  ia_node_id :: string
  ia_workspace_id :: int
  ia_ip :: string
  ia_leased_at :: time
  ia_released_at :: "time option"

record attachment =
  at_id :: int
  at_topology_id :: int
  at_node_id :: string
  at_workspace_id :: int
  at_container_id :: "string option"
  at_status :: att_status
  at_workspace_ip :: "string option"
  at_interface_host :: "string option"
  at_interface_container :: "string option"
  at_bridge_name :: "string option"
  at_gateway_ip :: "string option"
  at_updated_at :: time

record tdb =
  t_catalog :: "(int \<times> json) list"
  t_runtimes :: "topo_runtime list"
  t_leases :: "ip_lease list"
  t_atts :: "attachment list"
  t_runtime_seq :: int
  t_lease_seq :: int
  t_att_seq :: int

datatype topo_error =
    TopologyRuntimeCreateError string
  | TopologyRuntimeNotFoundError string
  | TopologyDeleteError string
  | WorkspaceIPAllocationError string
  | WorkspaceAttachmentError string
  | WorkspaceDetachError string
  | TopologyValueError string
  | TopologyHostError string
  | TopologyDatabaseError string

type_synonym 'a tresult = "(topo_error \<times> tdb) + ('a \<times> tdb)"

definition tthen :: "'a tresult \<Rightarrow> ('a \<Rightarrow> tdb \<Rightarrow> 'b tresult) \<Rightarrow> 'b tresult" where
  "tthen m f = (case m of Inl e \<Rightarrow> Inl e | Inr (a, d) \<Rightarrow> f a d)"

text \<open>
  The last three are \<^verbatim>\<open>ValueError\<close>, \<^verbatim>\<open>RuntimeError\<close> and database errors that leave the adapter as they are.

  A host command fails with \<^verbatim>\<open>ValueError\<close> (\<open>(True, m)\<close>) or \<^verbatim>\<open>RuntimeError\<close> (\<open>(False, m)\<close>). \<open>tw_value_error s\<close>
  is the text of the \<^verbatim>\<open>ValueError\<close> for a malformed address or network \<open>s\<close>. \<open>tw_commit p n\<close> is the failure of the
  commit at point \<open>p\<close>, in attempt \<open>n\<close> where there are several, other than a violated constraint;
  \<open>tw_stale\<close> is the text of the error of an update whose row is gone. \<open>tw_plumbing i\<close> is the \<open>i\<close>-th inspection
  of the wiring during one call.
\<close>

datatype commit_point = CP_RUNTIME | CP_BRIDGE | CP_LEASE | CP_ATTACHING | CP_ATTACHED | CP_FAILED | CP_RELEASE | CP_DETACH | CP_DELETE

type_synonym host_exn = "bool \<times> string"

record topo_world =
  tw_now :: time
  tw_apply_bridge :: bool
  tw_apply_attach :: bool
  tw_sha256 :: "string \<Rightarrow> string"
  tw_str_json :: "json \<Rightarrow> string"
  tw_value_error :: "string \<Rightarrow> string"
  tw_stale :: string
  tw_race :: "nat \<Rightarrow> tdb \<Rightarrow> tdb"
  tw_commit :: "commit_point \<Rightarrow> nat \<Rightarrow> string option"
  tw_bridge_sync :: "string \<Rightarrow> string \<Rightarrow> string \<Rightarrow> host_exn option"
  tw_bridge_remove :: "string \<Rightarrow> host_exn option"
  tw_bridge_exists :: "string \<Rightarrow> host_exn + bool"
  tw_bridge_up :: "string \<Rightarrow> host_exn + bool"
  tw_bridge_address :: "string \<Rightarrow> string \<Rightarrow> string \<Rightarrow> host_exn + bool"
  tw_netns :: "string \<Rightarrow> string + string"
  tw_nsenter_error :: "string option"
  tw_attach_cmd :: "string \<Rightarrow> host_exn option"
  tw_veth_remove :: "string \<Rightarrow> host_exn option"
  tw_plumbing :: "nat \<Rightarrow> host_exn + string list"
  tw_init_pid :: "string \<Rightarrow> string \<times> string option"
  tw_interface_exists :: "string \<Rightarrow> host_exn + bool"
  tw_enslaved :: "string \<Rightarrow> string \<Rightarrow> host_exn + bool"
  tw_master_lists :: "string \<Rightarrow> string \<Rightarrow> host_exn + bool"

definition host_error :: "host_exn \<Rightarrow> topo_error" where
  "host_error e = (if fst e then TopologyValueError (snd e) else TopologyHostError (snd e))"

fun topo_error_text :: "topo_error \<Rightarrow> string" where
  "topo_error_text (TopologyRuntimeCreateError m) = m"
| "topo_error_text (TopologyRuntimeNotFoundError m) = m"
| "topo_error_text (TopologyDeleteError m) = m"
| "topo_error_text (WorkspaceIPAllocationError m) = m"
| "topo_error_text (WorkspaceAttachmentError m) = m"
| "topo_error_text (WorkspaceDetachError m) = m"
| "topo_error_text (TopologyValueError m) = m"
| "topo_error_text (TopologyHostError m) = m"
| "topo_error_text (TopologyDatabaseError m) = m"

definition V1_MODE :: string where
  "V1_MODE = ''node_bridge''"

definition V1_PARENT_POOL_CIDR :: string where
  "V1_PARENT_POOL_CIDR = ''10.128.0.0/9''"

definition V1_CHILD_PREFIXLEN :: nat where
  "V1_CHILD_PREFIXLEN = 20"

definition V1_INFRA_RESERVED_USABLE_HOSTS :: nat where
  "V1_INFRA_RESERVED_USABLE_HOSTS = 10"

definition ENSURE_NODE_CIDR_MAX_ATTEMPTS :: nat where
  "ENSURE_NODE_CIDR_MAX_ATTEMPTS = 16"

definition ALLOCATE_IP_MAX_ATTEMPTS :: nat where
  "ALLOCATE_IP_MAX_ATTEMPTS = 24"

text \<open>\<^verbatim>\<open>x and str(x).strip()\<close>\<close>

definition filled :: "string option \<Rightarrow> bool" where
  "filled x = (py_strip (str_or_empty x) \<noteq> [])"

text \<open>\<^verbatim>\<open>node_id.strip()[:128]\<close>\<close>

definition clean_node :: "string \<Rightarrow> string" where
  "clean_node nid = take 128 (py_strip nid)"

definition find_runtime :: "tdb \<Rightarrow> int \<Rightarrow> string \<Rightarrow> topo_runtime option" where
  "find_runtime d tid nid = first_row (filter (\<lambda>r. tr_topology_id r = tid \<and> tr_node_id r = nid) (t_runtimes d))"

definition find_lease :: "tdb \<Rightarrow> int \<Rightarrow> string \<Rightarrow> int \<Rightarrow> ip_lease option" where
  "find_lease d tid nid wid =
     first_row (filter (\<lambda>l. ia_topology_id l = tid \<and> ia_node_id l = nid \<and> ia_workspace_id l = wid) (t_leases d))"

definition find_active_lease :: "tdb \<Rightarrow> int \<Rightarrow> string \<Rightarrow> int \<Rightarrow> ip_lease option" where
  "find_active_lease d tid nid wid =
     first_row (filter (\<lambda>l. ia_topology_id l = tid \<and> ia_node_id l = nid \<and> ia_workspace_id l = wid \<and> ia_released_at l = None) (t_leases d))"

definition find_att :: "tdb \<Rightarrow> int \<Rightarrow> string \<Rightarrow> int \<Rightarrow> attachment option" where
  "find_att d tid nid wid =
     first_row (filter (\<lambda>a. at_topology_id a = tid \<and> at_node_id a = nid \<and> at_workspace_id a = wid) (t_atts d))"

definition put_runtime :: "topo_runtime \<Rightarrow> tdb \<Rightarrow> tdb" where
  "put_runtime r d = d\<lparr>t_runtimes := row_put tr_id r (t_runtimes d)\<rparr>"

definition put_lease :: "ip_lease \<Rightarrow> tdb \<Rightarrow> tdb" where
  "put_lease l d = d\<lparr>t_leases := row_put ia_id l (t_leases d)\<rparr>"

definition put_att :: "attachment \<Rightarrow> tdb \<Rightarrow> tdb" where
  "put_att a d = d\<lparr>t_atts := row_put at_id a (t_atts d)\<rparr>"

definition add_runtime :: "topo_runtime \<Rightarrow> tdb \<Rightarrow> tdb" where
  "add_runtime r d = d\<lparr>t_runtimes := t_runtimes d @ [r\<lparr>tr_id := t_runtime_seq d\<rparr>], t_runtime_seq := t_runtime_seq d + 1\<rparr>"

definition add_lease :: "ip_lease \<Rightarrow> tdb \<Rightarrow> tdb" where
  "add_lease l d = d\<lparr>t_leases := t_leases d @ [l\<lparr>ia_id := t_lease_seq d\<rparr>], t_lease_seq := t_lease_seq d + 1\<rparr>"

definition add_att :: "attachment \<Rightarrow> tdb \<Rightarrow> tdb" where
  "add_att a d = d\<lparr>t_atts := t_atts d @ [a\<lparr>at_id := t_att_seq d\<rparr>], t_att_seq := t_att_seq d + 1\<rparr>"

text \<open>The unique constraints: two rows clash when no table may hold both.\<close>

definition runtime_clash :: "topo_runtime \<Rightarrow> topo_runtime \<Rightarrow> bool" where
  "runtime_clash q r =
     (tr_topology_id q = tr_topology_id r \<and> (tr_node_id q = tr_node_id r \<or> tr_cidr r \<noteq> None \<and> tr_cidr q = tr_cidr r))"

definition lease_clash :: "ip_lease \<Rightarrow> ip_lease \<Rightarrow> bool" where
  "lease_clash q l =
     (ia_topology_id q = ia_topology_id l \<and> ia_node_id q = ia_node_id l \<and>
      (ia_workspace_id q = ia_workspace_id l \<or> ia_released_at q = None \<and> ia_released_at l = None \<and> ia_ip q = ia_ip l))"

definition att_clash :: "attachment \<Rightarrow> attachment \<Rightarrow> bool" where
  "att_clash q a =
     (at_topology_id q = at_topology_id a \<and> at_node_id q = at_node_id a \<and> at_workspace_id q = at_workspace_id a)"

definition runtime_conflict :: "topo_runtime \<Rightarrow> tdb \<Rightarrow> bool" where
  "runtime_conflict r d = list_ex (\<lambda>q. tr_id q \<noteq> tr_id r \<and> runtime_clash q r) (t_runtimes d)"

definition lease_conflict :: "ip_lease \<Rightarrow> tdb \<Rightarrow> bool" where
  "lease_conflict l d = list_ex (\<lambda>q. ia_id q \<noteq> ia_id l \<and> lease_clash q l) (t_leases d)"

text \<open>
  A commit of one row: done, refused by a unique constraint, or broken otherwise. An update writes the
  assigned columns (\<open>f\<close>) into the row as the database holds it at that moment.
\<close>

datatype commit_out = Committed tdb | Conflict tdb | Broken string tdb

definition commit_new_runtime :: "topo_world \<Rightarrow> nat \<Rightarrow> topo_runtime \<Rightarrow> tdb \<Rightarrow> commit_out" where
  "commit_new_runtime W n r d =
     (let e = tw_race W n d in
      case tw_commit W CP_RUNTIME n of
        Some m \<Rightarrow> Broken m e
      | None \<Rightarrow> if runtime_conflict (r\<lparr>tr_id := t_runtime_seq e\<rparr>) e then Conflict e else Committed (add_runtime r e))"

definition commit_runtime :: "topo_world \<Rightarrow> nat \<Rightarrow> int \<Rightarrow> (topo_runtime \<Rightarrow> topo_runtime) \<Rightarrow> tdb \<Rightarrow> commit_out" where
  "commit_runtime W n rid f d =
     (let e = tw_race W n d in
      case tw_commit W CP_RUNTIME n of
        Some m \<Rightarrow> Broken m e
      | None \<Rightarrow>
          (case row_find tr_id rid (t_runtimes e) of
             None \<Rightarrow> Broken (tw_stale W) e
           | Some r \<Rightarrow> if runtime_conflict (f r) e then Conflict e else Committed (put_runtime (f r) e)))"

definition commit_new_lease :: "topo_world \<Rightarrow> nat \<Rightarrow> ip_lease \<Rightarrow> tdb \<Rightarrow> commit_out" where
  "commit_new_lease W n l d =
     (let e = tw_race W n d in
      case tw_commit W CP_LEASE n of
        Some m \<Rightarrow> Broken m e
      | None \<Rightarrow> if lease_conflict (l\<lparr>ia_id := t_lease_seq e\<rparr>) e then Conflict e else Committed (add_lease l e))"

definition commit_lease :: "topo_world \<Rightarrow> nat \<Rightarrow> int \<Rightarrow> (ip_lease \<Rightarrow> ip_lease) \<Rightarrow> tdb \<Rightarrow> commit_out" where
  "commit_lease W n lid f d =
     (let e = tw_race W n d in
      case tw_commit W CP_LEASE n of
        Some m \<Rightarrow> Broken m e
      | None \<Rightarrow>
          (case row_find ia_id lid (t_leases e) of
             None \<Rightarrow> Broken (tw_stale W) e
           | Some l \<Rightarrow> if lease_conflict (f l) e then Conflict e else Committed (put_lease (f l) e)))"

section \<open>Subnets\<close>

definition ord_sum :: "string \<Rightarrow> int" where
  "ord_sum s = sum_list (map of_char s)"

definition bridge_name_for :: "topo_world \<Rightarrow> int \<Rightarrow> string \<Rightarrow> string" where
  "bridge_name_for W tid nid = take 15 (''dn'' @ str_int tid @ take 4 (tw_sha256 W nid))"

definition spec_mode :: "topo_world \<Rightarrow> jobj \<Rightarrow> string" where
  "spec_mode W spec =
     (case jget spec ''mode'' of
        JNull \<Rightarrow> V1_MODE
      | JStr s \<Rightarrow> map (\<lambda>c. if c = CHR ''-'' then CHR ''_'' else c) (py_lower (py_strip s))
      | v \<Rightarrow> tw_str_json W v)"

definition spec_text :: "jobj \<Rightarrow> string \<Rightarrow> string option" where
  "spec_text spec key = (case jget spec key of JStr s \<Rightarrow> strip_or_none (Some s) | _ \<Rightarrow> None)"

definition node_bridge_plan ::
  "topo_world \<Rightarrow> int \<Rightarrow> json \<Rightarrow> string \<Rightarrow> topo_error + (string option \<times> string option \<times> string)" where
  "node_bridge_plan W tid spec_json nid =
     (let spec = (case spec_json of JObj ob \<Rightarrow> ob | _ \<Rightarrow> []); mode = spec_mode W spec in
      if mode \<noteq> V1_MODE
      then Inl (TopologyRuntimeCreateError (''topology V1 supports mode '' @ py_repr V1_MODE @ '' only; got '' @ py_repr mode))
      else Inr (spec_text spec ''cidr'', spec_text spec ''gateway_ip'',
             (case spec_text spec ''bridge_name'' of Some b \<Rightarrow> take 15 b | None \<Rightarrow> bridge_name_for W tid nid)))"

definition list_used_runtime_networks :: "tdb \<Rightarrow> int \<Rightarrow> string \<Rightarrow> net4 list" where
  "list_used_runtime_networks d tid exclude =
     List.map_filter (\<lambda>r. if filled (tr_cidr r) then parse_net (py_strip (str_or_empty (tr_cidr r))) else None)
       (filter (\<lambda>r. tr_topology_id r = tid \<and> tr_node_id r \<noteq> exclude) (t_runtimes d))"

definition net_overlaps_any :: "net4 \<Rightarrow> net4 list \<Rightarrow> bool" where
  "net_overlaps_any n used = list_ex (net_overlaps n) used"

definition pool_child_subnets :: "net4 list" where
  "pool_child_subnets =
     (case parse_net V1_PARENT_POOL_CIDR of None \<Rightarrow> [] | Some parent \<Rightarrow> net_subnets V1_CHILD_PREFIXLEN parent)"

definition scan_start :: "int \<Rightarrow> string \<Rightarrow> nat \<Rightarrow> nat \<Rightarrow> nat" where
  "scan_start tid nid retry_index n =
     (if retry_index > 0 then nat ((int retry_index * 7919 + tid * 17 + ord_sum nid) mod int n) else 0)"

definition allocate_child_subnet :: "tdb \<Rightarrow> int \<Rightarrow> string \<Rightarrow> nat \<Rightarrow> topo_error + net4" where
  "allocate_child_subnet d tid nid retry_index =
     (let used = list_used_runtime_networks d tid nid;
          children = pool_child_subnets;
          n = length children;
          start = scan_start tid nid retry_index n
      in if n = 0 then Inl (TopologyRuntimeCreateError (''parent pool '' @ py_repr V1_PARENT_POOL_CIDR @ '' produced no /20 children''))
         else case find (\<lambda>c. \<not> net_overlaps_any c used) (map (\<lambda>k. children ! ((start + k) mod n)) [0..<n]) of
           Some c \<Rightarrow> Inr c
         | None \<Rightarrow> Inl (TopologyRuntimeCreateError (''no free /20 subnets remaining in parent pool '' @ py_repr V1_PARENT_POOL_CIDR)))"

definition first_usable_host :: "net4 \<Rightarrow> topo_error + nat" where
  "first_usable_host n =
     (case net_hosts n of h # _ \<Rightarrow> Inr h
      | [] \<Rightarrow> Inl (TopologyRuntimeCreateError (''no usable hosts in CIDR '' @ py_repr (net_text n))))"

text \<open>The subnet with its default gateway, or with a given one that must lie inside (\<open>bad\<close>: the error if not).\<close>

definition with_gateway :: "topo_world \<Rightarrow> net4 \<Rightarrow> string option \<Rightarrow> string \<Rightarrow> topo_error + (string \<times> string)" where
  "with_gateway W n gw what =
     (case gw of
        None \<Rightarrow> (case first_usable_host n of Inl e \<Rightarrow> Inl e | Inr h \<Rightarrow> Inr (net_text n, ip4_text h))
      | Some g \<Rightarrow>
          (case parse_ip4 g of
             None \<Rightarrow> Inl (TopologyRuntimeCreateError (''invalid gateway_ip in spec: '' @ py_repr g))
           | Some a \<Rightarrow> if in_net a n then Inr (net_text n, ip4_text a)
               else Inl (TopologyRuntimeCreateError (''gateway_ip '' @ ip4_text a @ '' not in '' @ what @ '' '' @ net_text n))))"

definition choose_new_cidr_and_gateway ::
  "topo_world \<Rightarrow> tdb \<Rightarrow> int \<Rightarrow> string \<Rightarrow> string option \<Rightarrow> string option \<Rightarrow> nat \<Rightarrow> topo_error + (string \<times> string)" where
  "choose_new_cidr_and_gateway W d tid nid spec_cidr spec_gw retry_index =
     (case spec_cidr of
        Some c \<Rightarrow>
          (case parse_net c of
             None \<Rightarrow> Inl (TopologyRuntimeCreateError (''invalid cidr in topology spec: '' @ py_repr c))
           | Some n \<Rightarrow>
               if net_overlaps_any n (list_used_runtime_networks d tid nid)
               then Inl (TopologyRuntimeCreateError (''spec cidr '' @ py_repr (net_text n) @
                      '' conflicts with an existing topology runtime CIDR''))
               else with_gateway W n spec_gw ''network'')
      | None \<Rightarrow>
          (case allocate_child_subnet d tid nid retry_index of
             Inl e \<Rightarrow> Inl e
           | Inr n \<Rightarrow> with_gateway W n spec_gw ''allocated subnet''))"

definition choose_runtime_cidr_and_gateway ::
  "topo_world \<Rightarrow> tdb \<Rightarrow> int \<Rightarrow> string \<Rightarrow> topo_runtime option \<Rightarrow> string option \<Rightarrow> string option \<Rightarrow> nat \<Rightarrow>
   topo_error + (string \<times> string)" where
  "choose_runtime_cidr_and_gateway W d tid nid existing spec_cidr spec_gw retry_index =
     (case existing of
        None \<Rightarrow> choose_new_cidr_and_gateway W d tid nid spec_cidr spec_gw retry_index
      | Some r \<Rightarrow>
          if \<not> filled (tr_cidr r) then choose_new_cidr_and_gateway W d tid nid spec_cidr spec_gw retry_index
          else
            (let c = py_strip (str_or_empty (tr_cidr r)) in
             case parse_net c of
               None \<Rightarrow> Inl (TopologyRuntimeCreateError (''invalid cidr on existing runtime: '' @ py_repr c))
             | Some n \<Rightarrow>
                 if filled (tr_gateway_ip r) then
                   (let gw = py_strip (str_or_empty (tr_gateway_ip r)) in
                    case parse_ip4 gw of
                      None \<Rightarrow> Inl (TopologyValueError (tw_value_error W gw))
                    | Some a \<Rightarrow> if in_net a n then Inr (net_text n, gw)
                        else Inl (TopologyRuntimeCreateError (''existing gateway_ip '' @ py_repr gw @ '' not in runtime CIDR '' @
                               py_repr (net_text n))))
                 else with_gateway W n None []))"

definition runtime_row_complete :: "topo_runtime \<Rightarrow> bool" where
  "runtime_row_complete r = (filled (tr_bridge_name r) \<and> filled (tr_cidr r) \<and> filled (tr_gateway_ip r))"

section \<open>Node topologies\<close>

text \<open>The bridge on the host is brought in line with the row, and the row records how that went.\<close>

definition synced :: "topo_world \<Rightarrow> topo_rt_status \<Rightarrow> string option \<Rightarrow> string option \<Rightarrow> topo_runtime \<Rightarrow> topo_runtime" where
  "synced W s code message r =
     r\<lparr>tr_status := s, tr_last_error_code := code, tr_last_error_message := message,
       tr_last_checked_at := Some (tw_now W), tr_updated_at := tw_now W\<rparr>"

definition sync_linux_node_bridge :: "topo_world \<Rightarrow> topo_runtime \<Rightarrow> tdb \<Rightarrow> topo_runtime tresult" where
  "sync_linux_node_bridge W r d =
     (let commit = (\<lambda>e q. case tw_commit W CP_BRIDGE 0 of Some m \<Rightarrow> Inl (e m, d) | None \<Rightarrow> Inr (q, put_runtime q d)) in
      if \<not> tw_apply_bridge W then commit TopologyDatabaseError (synced W TRS_READY None None r)
      else if \<not> runtime_row_complete r
      then commit TopologyDatabaseError (synced W TRS_DEGRADED (Some ''INCOMPLETE_RUNTIME'')
             (Some ''topology runtime missing bridge_name, cidr, or gateway_ip'') r)
      else
        let guarded = commit (\<lambda>m. TopologyRuntimeCreateError (''failed to persist topology runtime after bridge sync: '' @ m)) in
        case tw_bridge_sync W (str_or_empty (tr_bridge_name r)) (py_strip (str_or_empty (tr_gateway_ip r)))
               (py_strip (str_or_empty (tr_cidr r))) of
          Some (value_error, m) \<Rightarrow>
            guarded (synced W TRS_DEGRADED (Some (if value_error then ''BRIDGE_CONFIG'' else ''BRIDGE_OS'')) (Some (take 2048 m)) r)
        | None \<Rightarrow> guarded (synced W TRS_READY None None r))"

definition new_runtime :: "topo_world \<Rightarrow> int \<Rightarrow> string \<Rightarrow> string \<Rightarrow> string \<Rightarrow> string \<Rightarrow> topo_runtime" where
  "new_runtime W tid nid bridge cidr gw =
     \<lparr>tr_id = 0, tr_topology_id = tid, tr_node_id = nid, tr_status = TRS_READY, tr_bridge_name = Some bridge, tr_cidr = Some cidr,
      tr_gateway_ip = Some gw, tr_last_checked_at = None, tr_last_error_code = None, tr_last_error_message = None,
      tr_updated_at = tw_now W\<rparr>"

definition fill_if_missing :: "string option \<Rightarrow> string \<Rightarrow> string option \<Rightarrow> string option" where
  "fill_if_missing seen v x = (if filled seen then x else Some v)"

text \<open>The columns missing in the row as read (\<open>seen\<close>) are assigned.\<close>

definition completed :: "topo_world \<Rightarrow> topo_runtime \<Rightarrow> string \<Rightarrow> string \<Rightarrow> string \<Rightarrow> topo_runtime \<Rightarrow> topo_runtime" where
  "completed W seen bridge cidr gw r =
     r\<lparr>tr_bridge_name := fill_if_missing (tr_bridge_name seen) bridge (tr_bridge_name r),
       tr_cidr := fill_if_missing (tr_cidr seen) cidr (tr_cidr r),
       tr_gateway_ip := fill_if_missing (tr_gateway_ip seen) gw (tr_gateway_ip r), tr_updated_at := tw_now W\<rparr>"

definition complete_runtime :: "tdb \<Rightarrow> int \<Rightarrow> string \<Rightarrow> topo_runtime option" where
  "complete_runtime d tid nid =
     (case find_runtime d tid nid of None \<Rightarrow> None | Some r \<Rightarrow> if runtime_row_complete r then Some r else None)"

text \<open>One attempt of the loop; \<open>left\<close> is the number of attempts that remain including this one.\<close>

fun ensure_loop ::
  "topo_world \<Rightarrow> int \<Rightarrow> string \<Rightarrow> (string option \<times> string option \<times> string) \<Rightarrow> nat \<Rightarrow> nat \<Rightarrow> tdb \<Rightarrow> unit tresult" where
  "ensure_loop W tid nid plan attempt 0 d = Inr ((), d)"
| "ensure_loop W tid nid plan attempt (Suc left) d =
     (let (spec_cidr, spec_gw, bridge) = plan; existing = find_runtime d tid nid in
      if complete_runtime d tid nid \<noteq> None then Inr ((), d)
      else
        case choose_runtime_cidr_and_gateway W d tid nid existing spec_cidr spec_gw attempt of
          Inl (TopologyRuntimeCreateError m) \<Rightarrow> Inl (TopologyRuntimeCreateError m, d)
        | Inl e \<Rightarrow> Inl (TopologyRuntimeCreateError (''failed to persist topology runtime: '' @ topo_error_text e), d)
        | Inr (cidr, gw) \<Rightarrow>
            (case (case existing of
                     None \<Rightarrow> commit_new_runtime W attempt (new_runtime W tid nid bridge cidr gw) d
                   | Some r \<Rightarrow> commit_runtime W attempt (tr_id r) (completed W r bridge cidr gw) d) of
               Committed e \<Rightarrow> Inr ((), e)
             | Broken m e \<Rightarrow> Inl (TopologyRuntimeCreateError (''failed to persist topology runtime: '' @ m), e)
             | Conflict e \<Rightarrow>
                 if left = 0
                 then Inl (TopologyRuntimeCreateError ''failed to allocate a unique runtime CIDR after repeated DB conflicts'', e)
                 else ensure_loop W tid nid plan (Suc attempt) left e))"

record ensure_result =
  er_topology_runtime_id :: int
  er_bridge_name :: "string option"
  er_cidr :: "string option"
  er_gateway_ip :: "string option"
  er_status :: topo_rt_status

definition runtime_to_ensure_result :: "topo_runtime \<Rightarrow> ensure_result" where
  "runtime_to_ensure_result r =
     \<lparr>er_topology_runtime_id = tr_id r, er_bridge_name = tr_bridge_name r, er_cidr = tr_cidr r, er_gateway_ip = tr_gateway_ip r,
      er_status = tr_status r\<rparr>"

definition sync_and_report :: "topo_world \<Rightarrow> topo_runtime \<Rightarrow> tdb \<Rightarrow> ensure_result tresult" where
  "sync_and_report W r d = tthen (sync_linux_node_bridge W r d) (\<lambda>q e. Inr (runtime_to_ensure_result q, e))"

definition ensure_node_topology :: "topo_world \<Rightarrow> int \<Rightarrow> string \<Rightarrow> tdb \<Rightarrow> ensure_result tresult" where
  "ensure_node_topology W tid node d =
     (if py_strip node = [] then Inl (TopologyRuntimeCreateError ''node_id is required'', d)
      else
        let nid = clean_node node in
        case map_of (t_catalog d) tid of
          None \<Rightarrow> Inl (TopologyRuntimeCreateError (''topology id '' @ str_int tid @ '' not found''), d)
        | Some spec \<Rightarrow>
            (case node_bridge_plan W tid spec nid of
               Inl e \<Rightarrow> Inl (e, d)
             | Inr plan \<Rightarrow>
                 (case complete_runtime d tid nid of
                    Some r \<Rightarrow> sync_and_report W r d
                  | None \<Rightarrow>
                      tthen (ensure_loop W tid nid plan 0 ENSURE_NODE_CIDR_MAX_ATTEMPTS d) (\<lambda>_ e.
                        case find_runtime e tid nid of
                          None \<Rightarrow> Inl (TopologyRuntimeCreateError ''failed to ensure topology runtime row'', e)
                        | Some q \<Rightarrow> sync_and_report W q e))))"

end
