(* ===== verification/Attachment.thy ===== *)
theory Attachment
  imports Topology
begin

text \<open>
  Workspace addresses and attachments of the topology adapter: leasing an address on a node, wiring a
  container to the bridge of the node. Dashes in messages are written as hyphens.
\<close>

section \<open>Leasing an address\<close>

record alloc_result =
  al_workspace_ip :: string
  al_leased_existing :: bool

definition gateway_as_address :: "topo_world \<Rightarrow> string \<Rightarrow> string \<Rightarrow> topo_error + nat" where
  "gateway_as_address W cidr gateway_ip =
     (case parse_ip4 gateway_ip of
        None \<Rightarrow> Inl (WorkspaceIPAllocationError (''invalid gateway_ip on runtime: '' @ py_repr gateway_ip))
      | Some g \<Rightarrow>
          (case parse_net cidr of
             None \<Rightarrow> Inl (TopologyValueError (tw_value_error W cidr))
           | Some n \<Rightarrow> if in_net g n then Inr g
               else Inl (WorkspaceIPAllocationError (''gateway '' @ ip4_text g @ '' not in runtime CIDR '' @ net_text n))))"

text \<open>
  Candidates are the usable hosts except the gateway and the first ten; in a subnet of at most ten usable
  hosts, which the reservation would empty, only the gateway is excepted.
\<close>

definition candidate_hosts :: "net4 \<Rightarrow> nat \<Rightarrow> nat list" where
  "candidate_hosts n gw =
     (let hosts = net_hosts n; out = filter (\<lambda>h. h \<noteq> gw) (drop V1_INFRA_RESERVED_USABLE_HOSTS hosts) in
      if out = [] \<and> 0 < length hosts \<and> length hosts \<le> V1_INFRA_RESERVED_USABLE_HOSTS
      then filter (\<lambda>h. h \<noteq> gw) hosts else out)"

definition iter_candidate_workspace_hosts :: "topo_world \<Rightarrow> string \<Rightarrow> string \<Rightarrow> topo_error + nat list" where
  "iter_candidate_workspace_hosts W cidr gateway_ip =
     (case parse_net cidr of
        None \<Rightarrow> Inl (TopologyValueError (tw_value_error W cidr))
      | Some n \<Rightarrow>
          (case gateway_as_address W cidr gateway_ip of Inl e \<Rightarrow> Inl e | Inr gw \<Rightarrow> Inr (candidate_hosts n gw)))"

definition pick_first_free_host :: "nat list \<Rightarrow> nat list \<Rightarrow> nat \<Rightarrow> nat option" where
  "pick_first_free_host candidates used scan_offset =
     (let n = length candidates in
      if n = 0 then None
      else let offset = scan_offset mod n
           in find (\<lambda>h. h \<notin> set used) (map (\<lambda>i. candidates ! ((offset + i) mod n)) [0..<n]))"

definition topology_runtime_not_ready_detail :: "topo_runtime \<Rightarrow> string" where
  "topology_runtime_not_ready_detail r =
     join_str '', '' ([''status='' @ py_repr (topo_rt_status_str (tr_status r))]
       @ (if str_or_empty (tr_last_error_code r) \<noteq> [] then [''last_error_code='' @ py_repr (str_or_empty (tr_last_error_code r))] else [])
       @ (if str_or_empty (tr_last_error_message r) \<noteq> []
          then [''last_error_message='' @ py_repr (str_or_empty (tr_last_error_message r))] else []))"

definition no_runtime_error :: "int \<Rightarrow> string \<Rightarrow> topo_error" where
  "no_runtime_error tid nid =
     TopologyRuntimeNotFoundError (''no topology runtime for topology_id='' @ str_int tid @ '' node_id='' @ py_repr nid)"

text \<open>The runtime an allocation may use; checked before the first attempt, in each attempt and after each conflict.\<close>

definition allocatable_runtime :: "tdb \<Rightarrow> int \<Rightarrow> string \<Rightarrow> topo_error + topo_runtime" where
  "allocatable_runtime d tid nid =
     (case find_runtime d tid nid of
        None \<Rightarrow> Inl (no_runtime_error tid nid)
      | Some r \<Rightarrow>
          if tr_status r \<noteq> TRS_READY
          then Inl (WorkspaceIPAllocationError (''topology runtime is not READY; cannot allocate workspace IP until bridge/sync is healthy ('' @
                 topology_runtime_not_ready_detail r @ '')''))
          else if str_or_empty (tr_cidr r) = [] \<or> str_or_empty (tr_gateway_ip r) = []
          then Inl (WorkspaceIPAllocationError ''topology runtime missing cidr or gateway_ip'')
          else Inr r)"

definition active_ips :: "tdb \<Rightarrow> int \<Rightarrow> string \<Rightarrow> string list" where
  "active_ips d tid nid =
     map ia_ip (filter (\<lambda>l. ia_topology_id l = tid \<and> ia_node_id l = nid \<and> ia_released_at l = None) (t_leases d))"

text \<open>\<^verbatim>\<open>{ipaddress.ip_address(s) for s in ...}\<close>; the first malformed text raises.\<close>

definition used_addresses :: "topo_world \<Rightarrow> string list \<Rightarrow> topo_error + nat list" where
  "used_addresses W texts =
     (case find (\<lambda>s. parse_ip4 s = None) texts of
        Some s \<Rightarrow> Inl (TopologyValueError (tw_value_error W s))
      | None \<Rightarrow> Inr (List.map_filter parse_ip4 texts))"

definition scan_offset_for :: "nat \<Rightarrow> int \<Rightarrow> string \<Rightarrow> nat \<Rightarrow> nat" where
  "scan_offset_for retry_index wid nid n =
     (if retry_index > 0 then nat ((int retry_index * 10007 + wid * 31 + ord_sum nid) mod int n) else 0)"

definition choose_address :: "topo_world \<Rightarrow> tdb \<Rightarrow> topo_runtime \<Rightarrow> int \<Rightarrow> string \<Rightarrow> int \<Rightarrow> nat \<Rightarrow> topo_error + nat" where
  "choose_address W d r tid nid wid retry_index =
     (case iter_candidate_workspace_hosts W (str_or_empty (tr_cidr r)) (str_or_empty (tr_gateway_ip r)) of
        Inl e \<Rightarrow> Inl e
      | Inr candidates \<Rightarrow>
          (case used_addresses W (active_ips d tid nid) of
             Inl e \<Rightarrow> Inl e
           | Inr used \<Rightarrow>
               (case pick_first_free_host candidates used (scan_offset_for retry_index wid nid (length candidates)) of
                  None \<Rightarrow> Inl (WorkspaceIPAllocationError ''no free IPv4 addresses in topology CIDR'')
                | Some h \<Rightarrow> Inr h)))"

definition new_lease :: "topo_world \<Rightarrow> int \<Rightarrow> string \<Rightarrow> int \<Rightarrow> string \<Rightarrow> ip_lease" where
  "new_lease W tid nid wid ip =
     \<lparr>ia_id = 0, ia_topology_id = tid, ia_node_id = nid, ia_workspace_id = wid, ia_ip = ip, ia_leased_at = tw_now W, ia_released_at = None\<rparr>"

definition renewed :: "topo_world \<Rightarrow> string \<Rightarrow> ip_lease \<Rightarrow> ip_lease" where
  "renewed W ip l = l\<lparr>ia_ip := ip, ia_leased_at := tw_now W, ia_released_at := None\<rparr>"

datatype alloc_out = Leased alloc_result tdb | Retry tdb | AllocFailed topo_error tdb

text \<open>\<open>Retry\<close> is the \<^verbatim>\<open>IntegrityError\<close> the caller handles; a released row of the workspace is used again.\<close>

definition persist_lease :: "topo_world \<Rightarrow> int \<Rightarrow> string \<Rightarrow> int \<Rightarrow> nat \<Rightarrow> ip_lease option \<Rightarrow> string \<Rightarrow> tdb \<Rightarrow> commit_out" where
  "persist_lease W tid nid wid retry_index row ip d =
     (case row of
        None \<Rightarrow> commit_new_lease W retry_index (new_lease W tid nid wid ip) d
      | Some l \<Rightarrow> commit_lease W retry_index (ia_id l) (renewed W ip) d)"

definition lease_address :: "topo_world \<Rightarrow> topo_runtime \<Rightarrow> int \<Rightarrow> string \<Rightarrow> int \<Rightarrow> nat \<Rightarrow> ip_lease option \<Rightarrow> tdb \<Rightarrow> alloc_out" where
  "lease_address W r tid nid wid retry_index row d =
     (case choose_address W d r tid nid wid retry_index of
        Inl e \<Rightarrow> AllocFailed e d
      | Inr h \<Rightarrow>
          (case persist_lease W tid nid wid retry_index row (ip4_text h) d of
             Committed e \<Rightarrow> Leased \<lparr>al_workspace_ip = ip4_text h, al_leased_existing = False\<rparr> e
           | Conflict e \<Rightarrow> Retry e
           | Broken m e \<Rightarrow> AllocFailed (WorkspaceIPAllocationError (''failed to persist IP allocation: '' @ m)) e))"

definition allocate_workspace_ip_attempt :: "topo_world \<Rightarrow> int \<Rightarrow> string \<Rightarrow> int \<Rightarrow> nat \<Rightarrow> tdb \<Rightarrow> alloc_out" where
  "allocate_workspace_ip_attempt W tid nid wid retry_index d =
     (case allocatable_runtime d tid nid of
        Inl e \<Rightarrow> AllocFailed e d
      | Inr r \<Rightarrow>
          (case find_lease d tid nid wid of
             None \<Rightarrow> lease_address W r tid nid wid retry_index None d
           | Some l \<Rightarrow>
               if ia_released_at l = None then Leased \<lparr>al_workspace_ip = ia_ip l, al_leased_existing = True\<rparr> d
               else lease_address W r tid nid wid retry_index (Some l) d))"

definition allocation_gave_up :: topo_error where
  "allocation_gave_up = WorkspaceIPAllocationError
     (''IP allocation hit repeated database conflicts (likely concurrent requests); giving up after '' @
      str_nat ALLOCATE_IP_MAX_ATTEMPTS @ '' attempts'')"

definition allocation_fell_through :: topo_error where
  "allocation_fell_through =
     WorkspaceIPAllocationError ''internal error: IP allocation loop exited without result or handled exception''"

fun allocate_loop :: "topo_world \<Rightarrow> int \<Rightarrow> string \<Rightarrow> int \<Rightarrow> nat \<Rightarrow> nat \<Rightarrow> tdb \<Rightarrow> alloc_result tresult" where
  "allocate_loop W tid nid wid attempt 0 d = Inl (allocation_fell_through, d)"
| "allocate_loop W tid nid wid attempt (Suc left) d =
     (case allocate_workspace_ip_attempt W tid nid wid attempt d of
        Leased res e \<Rightarrow> Inr (res, e)
      | AllocFailed err e \<Rightarrow> Inl (err, e)
      | Retry e \<Rightarrow>
          (case allocatable_runtime e tid nid of
             Inl err \<Rightarrow> Inl (err, e)
           | Inr _ \<Rightarrow> if left = 0 then Inl (allocation_gave_up, e)
               else allocate_loop W tid nid wid (Suc attempt) left e))"

definition allocate_workspace_ip :: "topo_world \<Rightarrow> int \<Rightarrow> string \<Rightarrow> int \<Rightarrow> tdb \<Rightarrow> alloc_result tresult" where
  "allocate_workspace_ip W tid node wid d =
     (let nid = clean_node node in
      case allocatable_runtime d tid nid of
        Inl e \<Rightarrow> Inl (e, d)
      | Inr _ \<Rightarrow> allocate_loop W tid nid wid 0 ALLOCATE_IP_MAX_ATTEMPTS d)"

definition release_workspace_ip_lease :: "topo_world \<Rightarrow> int \<Rightarrow> string \<Rightarrow> int \<Rightarrow> tdb \<Rightarrow> bool tresult" where
  "release_workspace_ip_lease W tid node wid d =
     (case find_active_lease d tid (clean_node node) wid of
        None \<Rightarrow> Inr (False, d)
      | Some l \<Rightarrow>
          (case tw_commit W CP_RELEASE 0 of
             Some m \<Rightarrow> Inl (WorkspaceIPAllocationError (''failed to release workspace IP lease: '' @ m), d)
           | None \<Rightarrow> Inr (True, put_lease (l\<lparr>ia_released_at := Some (tw_now W)\<rparr>) d)))"

section \<open>Attaching\<close>

record attach_result =
  ar_attachment_id :: int
  ar_workspace_ip :: string
  ar_bridge_name :: "string option"
  ar_gateway_ip :: "string option"
  ar_internal_endpoint :: string

definition WORKSPACE_IDE_CONTAINER_PORT :: int where
  "WORKSPACE_IDE_CONTAINER_PORT = 8080"

definition attach_result_of :: "int \<Rightarrow> string \<Rightarrow> topo_runtime \<Rightarrow> attach_result" where
  "attach_result_of aid ip r =
     \<lparr>ar_attachment_id = aid, ar_workspace_ip = ip, ar_bridge_name = tr_bridge_name r, ar_gateway_ip = tr_gateway_ip r,
      ar_internal_endpoint = ip @ '':'' @ str_int WORKSPACE_IDE_CONTAINER_PORT\<rparr>"

definition veth_pair_names :: "topo_world \<Rightarrow> int \<Rightarrow> string \<Rightarrow> int \<Rightarrow> string \<times> string" where
  "veth_pair_names W tid nid wid =
     (let h = take 6 (tw_sha256 W (str_int tid @ '':'' @ nid @ '':'' @ str_int wid)) in (''vh'' @ h, ''vc'' @ h))"

definition run_linux_attach :: "topo_world \<Rightarrow> string \<Rightarrow> host_exn option" where
  "run_linux_attach W host_if =
     (case tw_nsenter_error W of
        Some m \<Rightarrow> Some (False, m)
      | None \<Rightarrow>
          (case tw_attach_cmd W host_if of
             Some e \<Rightarrow> Some e
           | None \<Rightarrow>
               (case tw_plumbing W 2 of
                  Inl e \<Rightarrow> Some e
                | Inr [] \<Rightarrow> None
                | Inr fails \<Rightarrow> Some (False, ''post-attach verification failed (Linux plumbing incomplete): '' @ join_str ''; '' fails))))"

definition linux_detach_host_veth :: "topo_world \<Rightarrow> int \<Rightarrow> string \<Rightarrow> int \<Rightarrow> string option \<Rightarrow> topo_error option" where
  "linux_detach_host_veth W tid nid wid interface_host =
     (let host_nm = (if filled interface_host then py_strip (str_or_empty interface_host) else fst (veth_pair_names W tid nid wid)) in
      case tw_veth_remove W host_nm of
        None \<Rightarrow> None
      | Some (value_error, m) \<Rightarrow>
          Some (if value_error then TopologyValueError m else WorkspaceDetachError (''linux detach failed: '' @ m)))"

text \<open>After a failed attach: the attachment is marked, and its lease released when this call created the attachment.\<close>

definition attach_failure_best_effort :: "topo_world \<Rightarrow> int \<Rightarrow> string \<Rightarrow> int \<Rightarrow> int \<Rightarrow> string \<Rightarrow> bool \<Rightarrow> tdb \<Rightarrow> tdb" where
  "attach_failure_best_effort W tid nid wid aid ip release_ip d =
     (let d1 = (case row_find at_id aid (t_atts d) of
                  None \<Rightarrow> d
                | Some a \<Rightarrow> if tw_commit W CP_FAILED 0 = None
                    then put_att (a\<lparr>at_status := AS_FAILED, at_updated_at := tw_now W\<rparr>) d else d)
      in if \<not> release_ip then d1
         else
           case find_active_lease d1 tid nid wid of
             None \<Rightarrow> d1
           | Some l \<Rightarrow> if ia_ip l = ip \<and> tw_commit W CP_RELEASE 0 = None
               then put_lease (l\<lparr>ia_released_at := Some (tw_now W)\<rparr>) d1 else d1)"

text \<open>The runtime and the lease an attachment needs.\<close>

definition attachable_runtime :: "tdb \<Rightarrow> int \<Rightarrow> string \<Rightarrow> topo_error + topo_runtime" where
  "attachable_runtime d tid nid =
     (case find_runtime d tid nid of
        None \<Rightarrow> Inl (no_runtime_error tid nid)
      | Some r \<Rightarrow>
          if tr_status r \<noteq> TRS_READY
          then Inl (WorkspaceAttachmentError (''topology runtime is not READY; cannot attach workspace ('' @
                 topology_runtime_not_ready_detail r @ '')''))
          else if \<not> filled (tr_bridge_name r) then Inl (WorkspaceAttachmentError ''topology runtime missing bridge_name'')
          else if \<not> (filled (tr_cidr r) \<and> filled (tr_gateway_ip r))
          then Inl (WorkspaceAttachmentError ''topology runtime missing cidr or gateway_ip'')
          else Inr r)"

definition lease_not_active :: topo_error where
  "lease_not_active =
     WorkspaceAttachmentError ''workspace_ip must match an active allocation; call allocate_workspace_ip first''"

definition check_attach_address :: "topo_world \<Rightarrow> tdb \<Rightarrow> topo_runtime \<Rightarrow> int \<Rightarrow> string \<Rightarrow> int \<Rightarrow> string \<Rightarrow> topo_error option" where
  "check_attach_address W d r tid nid wid ip =
     (let cidr = py_strip (str_or_empty (tr_cidr r));
          invalid = (\<lambda>s. Some (WorkspaceAttachmentError (''invalid workspace_ip or runtime cidr: '' @ tw_value_error W s)))
      in if (case find_active_lease d tid nid wid of None \<Rightarrow> True | Some l \<Rightarrow> ia_ip l \<noteq> ip) then Some lease_not_active
         else
           case parse_ip4 ip of
             None \<Rightarrow> invalid ip
           | Some a \<Rightarrow>
               (case parse_net cidr of
                  None \<Rightarrow> invalid cidr
                | Some n \<Rightarrow> if in_net a n then None
                    else Some (WorkspaceAttachmentError (''workspace_ip '' @ py_repr ip @ '' is not within runtime CIDR '' @
                           py_repr (str_or_empty (tr_cidr r))))))"

definition check_netns :: "topo_world \<Rightarrow> string \<Rightarrow> topo_error option" where
  "check_netns W netns_ref =
     (if tw_apply_attach W then
        (case tw_netns W netns_ref of
           Inl m \<Rightarrow> Some (WorkspaceAttachmentError m)
         | Inr _ \<Rightarrow> map_option WorkspaceAttachmentError (tw_nsenter_error W))
      else if py_strip netns_ref = [] then Some (WorkspaceAttachmentError ''netns_ref is required'') else None)"

text \<open>The attachment row as the attach writes it before touching the host.\<close>

definition attaching :: "topo_world \<Rightarrow> topo_runtime \<Rightarrow> string \<Rightarrow> string \<Rightarrow> string \<times> string \<Rightarrow> attachment \<Rightarrow> attachment" where
  "attaching W r cid ip veth a =
     a\<lparr>at_container_id := Some cid, at_status := AS_ATTACHING, at_workspace_ip := Some ip, at_bridge_name := tr_bridge_name r,
       at_gateway_ip := tr_gateway_ip r, at_interface_host := Some (fst veth), at_interface_container := Some (snd veth),
       at_updated_at := tw_now W\<rparr>"

definition blank_att :: "topo_world \<Rightarrow> int \<Rightarrow> string \<Rightarrow> int \<Rightarrow> attachment" where
  "blank_att W tid nid wid =
     \<lparr>at_id = 0, at_topology_id = tid, at_node_id = nid, at_workspace_id = wid, at_container_id = None, at_status = AS_ATTACHING,
      at_workspace_ip = None, at_interface_host = None, at_interface_container = None, at_bridge_name = None, at_gateway_ip = None,
      at_updated_at = tw_now W\<rparr>"

definition persist_attaching ::
  "topo_world \<Rightarrow> topo_runtime \<Rightarrow> int \<Rightarrow> string \<Rightarrow> int \<Rightarrow> string \<Rightarrow> string \<Rightarrow> string \<times> string \<Rightarrow> attachment option \<Rightarrow> tdb \<Rightarrow> attachment tresult" where
  "persist_attaching W r tid nid wid cid ip veth att d =
     (case tw_commit W CP_ATTACHING 0 of
        Some m \<Rightarrow> Inl (WorkspaceAttachmentError (''failed to persist topology attachment: '' @ m), d)
      | None \<Rightarrow>
          (case att of
             None \<Rightarrow> (let a = (attaching W r cid ip veth (blank_att W tid nid wid))\<lparr>at_id := t_att_seq d\<rparr> in Inr (a, add_att a d))
           | Some a \<Rightarrow> (let b = attaching W r cid ip veth a in Inr (b, put_att b d))))"

definition attach_hint :: string where
  "attach_hint =
     '' (If the workspace is still healthy, this is often ``ip`` running in the wrong network '' @
     ''namespace vs the Docker host: set DEVNEST_TOPOLOGY_IP_VIA_HOST_NSENTER=1 for local '' @
     ''docker.sock workers - see docker-compose.integration.yml. Also verify `pid: host` on '' @
     ''the worker and that /proc/<pid> exists in the process that runs ``ip``.)''"

definition attach_hint_for :: "string \<Rightarrow> string" where
  "attach_hint_for m =
     (if contains_str ''invalid'' (py_lower m) \<and> contains_str ''netns'' (py_lower m) then attach_hint else [])"

text \<open>From the committed ATTACHING row to the outcome: wiring, the ATTACHED commit and the final inspection.\<close>

definition finish_attach ::
  "topo_world \<Rightarrow> topo_runtime \<Rightarrow> int \<Rightarrow> string \<Rightarrow> int \<Rightarrow> string \<Rightarrow> string \<Rightarrow> bool \<Rightarrow> attachment \<Rightarrow> tdb \<Rightarrow> attach_result tresult" where
  "finish_attach W r tid nid wid ip host_if was_new a d =
     (let failed = attach_failure_best_effort W tid nid wid (at_id a) ip was_new;
          result = attach_result_of (at_id a) ip r;
          attached = put_att (a\<lparr>at_status := AS_ATTACHED, at_updated_at := tw_now W\<rparr>) d
      in case (if tw_apply_attach W then run_linux_attach W host_if else None) of
           Some e \<Rightarrow> Inl (WorkspaceAttachmentError (''linux attach failed: '' @ snd e @ attach_hint_for (snd e)), failed d)
         | None \<Rightarrow>
             (case tw_commit W CP_ATTACHED 0 of
                Some m \<Rightarrow> Inl (WorkspaceAttachmentError (''failed to persist topology attachment: '' @ m), failed d)
              | None \<Rightarrow>
                  if \<not> tw_apply_attach W then Inr (result, attached)
                  else
                    (case tw_plumbing W 3 of
                       Inl e \<Rightarrow> Inl (host_error e, attached)
                     | Inr [] \<Rightarrow> Inr (result, attached)
                     | Inr fails \<Rightarrow> Inl (WorkspaceAttachmentError
                           (''topology attach reported success and persisted ATTACHED, but Linux plumbing did not match DB state '' @
                            ''(repair attempted - re-run attach): '' @ join_str ''; '' fails), failed attached))))"

definition already_attached :: "attachment option \<Rightarrow> string \<Rightarrow> string \<Rightarrow> bool" where
  "already_attached att cid ip =
     (case att of None \<Rightarrow> False
      | Some a \<Rightarrow> at_status a = AS_ATTACHED \<and> str_or_empty (at_container_id a) = cid \<and> str_or_empty (at_workspace_ip a) = ip)"

text \<open>
  The fast path for a workspace that is attached already (\<open>Some\<close>: the call ends here): the row is trusted when the
  host is not managed, and otherwise when an inspection of the wiring finds nothing.
\<close>

definition attach_fast_path ::
  "topo_world \<Rightarrow> topo_runtime \<Rightarrow> attachment option \<Rightarrow> string \<Rightarrow> string \<Rightarrow> tdb \<Rightarrow> attach_result tresult option" where
  "attach_fast_path W r att cid ip d =
     (if \<not> already_attached att cid ip then None
      else case att of
        None \<Rightarrow> None
      | Some a \<Rightarrow>
          if \<not> tw_apply_attach W then Some (Inr (attach_result_of (at_id a) ip r, d))
          else
            (case tw_plumbing W 0 of
               Inl e \<Rightarrow> Some (Inl (host_error e, d))
             | Inr [] \<Rightarrow> Some (Inr (attach_result_of (at_id a) ip r, d))
             | Inr _ \<Rightarrow> (case tw_plumbing W 1 of Inl e \<Rightarrow> Some (Inl (host_error e, d)) | Inr _ \<Rightarrow> None)))"

definition stale_veth_error :: "topo_world \<Rightarrow> attachment option \<Rightarrow> topo_error option" where
  "stale_veth_error W att =
     (case att of None \<Rightarrow> None
      | Some a \<Rightarrow>
          if tw_apply_attach W \<and> str_or_empty (at_interface_host a) \<noteq> []
          then (case tw_veth_remove W (py_strip (str_or_empty (at_interface_host a))) of
                  Some (True, m) \<Rightarrow> Some (TopologyValueError m) | _ \<Rightarrow> None)
          else None)"

definition attach_workspace ::
  "topo_world \<Rightarrow> int \<Rightarrow> string \<Rightarrow> int \<Rightarrow> string \<Rightarrow> string \<Rightarrow> string \<Rightarrow> tdb \<Rightarrow> attach_result tresult" where
  "attach_workspace W tid node wid container netns_ref address d =
     (if py_strip container = [] then Inl (WorkspaceAttachmentError ''container_id is required'', d)
      else
        let cid = take 128 (py_strip container); nid = clean_node node; ip = py_strip address in
        tthen (ensure_node_topology W tid nid d) (\<lambda>_ d.
        case attachable_runtime d tid nid of
          Inl e \<Rightarrow> Inl (e, d)
        | Inr r \<Rightarrow>
            (case check_attach_address W d r tid nid wid ip of
               Some e \<Rightarrow> Inl (e, d)
             | None \<Rightarrow>
                 let att = find_att d tid nid wid; veth = veth_pair_names W tid nid wid in
                 (case check_netns W netns_ref of
                    Some e \<Rightarrow> Inl (e, d)
                  | None \<Rightarrow>
                      (case attach_fast_path W r att cid ip d of
                         Some out \<Rightarrow> out
                       | None \<Rightarrow>
                           (case stale_veth_error W att of
                              Some e \<Rightarrow> Inl (e, d)
                            | None \<Rightarrow>
                                tthen (persist_attaching W r tid nid wid cid ip veth att d) (\<lambda>a d.
                                finish_attach W r tid nid wid ip (fst veth) (att = None) a d)))))))"

end
