(* ===== verification/Topology_Repair.thy ===== *)
theory Topology_Repair
  imports Attachment
begin

text \<open>
  Detaching, deleting and checking node topologies, and the janitor that repairs what interrupted
  operations leave behind.
\<close>

section \<open>Detaching and deleting\<close>

record detach_result =
  dr_detached :: bool
  dr_workspace_ip :: "string option"

definition detached :: "topo_world \<Rightarrow> attachment \<Rightarrow> attachment" where
  "detached W a =
     a\<lparr>at_status := AS_DETACHED, at_container_id := None, at_interface_host := None, at_interface_container := None,
       at_updated_at := tw_now W\<rparr>"

text \<open>The remaining fields of the result are constants: status DETACHED, the workspace and no released address.\<close>

definition detach_workspace :: "topo_world \<Rightarrow> int \<Rightarrow> string \<Rightarrow> int \<Rightarrow> tdb \<Rightarrow> detach_result tresult" where
  "detach_workspace W tid node wid d =
     (let nid = clean_node node in
      case find_att d tid nid wid of
        None \<Rightarrow> Inr (\<lparr>dr_detached = False, dr_workspace_ip = None\<rparr>, d)
      | Some a \<Rightarrow>
          if at_status a = AS_DETACHED then Inr (\<lparr>dr_detached = False, dr_workspace_ip = at_workspace_ip a\<rparr>, d)
          else
            case (if tw_apply_attach W then linux_detach_host_veth W tid nid wid (at_interface_host a) else None) of
              Some e \<Rightarrow> Inl (e, d)
            | None \<Rightarrow>
                (case tw_commit W CP_DETACH 0 of
                   Some m \<Rightarrow> Inl (WorkspaceDetachError (''failed to persist workspace detach: '' @ m), d)
                 | None \<Rightarrow> Inr (\<lparr>dr_detached = True, dr_workspace_ip = at_workspace_ip a\<rparr>, put_att (detached W a) d)))"

definition on_node :: "int \<Rightarrow> string \<Rightarrow> attachment \<Rightarrow> bool" where
  "on_node tid nid a = (at_topology_id a = tid \<and> at_node_id a = nid)"

definition drop_attachments :: "int \<Rightarrow> string \<Rightarrow> tdb \<Rightarrow> tdb" where
  "drop_attachments tid nid d = d\<lparr>t_atts := filter (\<lambda>a. \<not> on_node tid nid a) (t_atts d)\<rparr>"

definition attachments_remain :: topo_error where
  "attachments_remain =
     TopologyDeleteError ''cannot delete topology runtime: non-DETACHED attachments remain (detach workspaces first)''"

definition delete_topology :: "topo_world \<Rightarrow> int \<Rightarrow> string \<Rightarrow> tdb \<Rightarrow> unit tresult" where
  "delete_topology W tid node d =
     (if py_strip node = [] then Inl (TopologyDeleteError ''node_id is required'', d)
      else
        let nid = clean_node node in
        if list_ex (\<lambda>a. on_node tid nid a \<and> at_status a \<noteq> AS_DETACHED) (t_atts d) then Inl (attachments_remain, d)
        else
          case find_runtime d tid nid of
            None \<Rightarrow> Inr ((), if tw_commit W CP_DELETE 0 = None then drop_attachments tid nid d else d)
          | Some r \<Rightarrow>
              (case tw_commit W CP_DELETE 0 of
                 Some m \<Rightarrow> Inl (TopologyDeleteError (''failed to persist topology deletion: '' @ m), d)
               | None \<Rightarrow>
                   let e = (drop_attachments tid nid d)\<lparr>t_runtimes := row_del tr_id (tr_id r) (t_runtimes d)\<rparr>;
                       bridge = py_strip (str_or_empty (tr_bridge_name r))
                   in if tw_apply_bridge W \<and> bridge \<noteq> [] then
                        (case tw_bridge_remove W bridge of
                           None \<Rightarrow> Inr ((), e)
                         | Some (True, m) \<Rightarrow> Inl (TopologyDeleteError (''cannot delete bridge '' @ py_repr bridge @ '': '' @ m), e)
                         | Some (False, m) \<Rightarrow> Inl (TopologyDeleteError (''linux bridge removal failed: '' @ m), e))
                      else Inr ((), e)))"

section \<open>Health checks\<close>

definition runtime_consistency_issues :: "topo_world \<Rightarrow> string option \<Rightarrow> string option \<Rightarrow> string list" where
  "runtime_consistency_issues W cidr gateway_ip =
     (if \<not> filled cidr then []
      else
        let c = py_strip (str_or_empty cidr); g = py_strip (str_or_empty gateway_ip) in
        case parse_net c of
          None \<Rightarrow> [''runtime: cidr is invalid ('' @ tw_value_error W c @ '')'']
        | Some n \<Rightarrow>
            if \<not> filled gateway_ip then []
            else
              case parse_ip4 g of
                None \<Rightarrow> [''runtime: gateway_ip is invalid ('' @ tw_value_error W g @ '')'']
              | Some a \<Rightarrow> if in_net a n then [] else [''runtime: gateway_ip is not within cidr''])"

text \<open>An issue list from a check of the host: a failing probe is itself an issue.\<close>

definition probe :: "host_exn + bool \<Rightarrow> (host_exn \<Rightarrow> string list) \<Rightarrow> string \<Rightarrow> string list \<Rightarrow> string list" where
  "probe out failing issue rest =
     (case out of Inl e \<Rightarrow> failing e | Inr False \<Rightarrow> [issue] | Inr True \<Rightarrow> rest)"

definition bridge_failing :: "host_exn \<Rightarrow> string list" where
  "bridge_failing e =
     [(if fst e then ''linux: bridge check skipped or invalid ('' else ''linux: bridge check failed ('') @ snd e @ '')'']"

definition bridge_issues :: "topo_world \<Rightarrow> topo_runtime \<Rightarrow> string list" where
  "bridge_issues W r =
     (let bn = py_strip (str_or_empty (tr_bridge_name r)); gw = py_strip (str_or_empty (tr_gateway_ip r)); cidr = py_strip (str_or_empty (tr_cidr r)) in
      if \<not> tw_apply_bridge W \<or> bn = [] then []
      else
        probe (tw_bridge_exists W bn) bridge_failing ''linux: bridge network device not found on host''
          (probe (tw_bridge_up W bn) bridge_failing ''linux: bridge interface is not UP''
             (if cidr \<noteq> [] \<and> gw \<noteq> []
              then probe (tw_bridge_address W bn gw cidr) bridge_failing
                     ''linux: bridge lacks expected IPv4/gateway address from topology runtime'' []
              else [])))"

record check_topology_result =
  cr_healthy :: bool
  cr_status :: topo_rt_status
  cr_issues :: "string list"
  cr_topology_runtime_id :: "int option"
  cr_bridge_name :: "string option"
  cr_cidr :: "string option"
  cr_gateway_ip :: "string option"

definition check_topology :: "topo_world \<Rightarrow> int \<Rightarrow> string \<Rightarrow> tdb \<Rightarrow> check_topology_result" where
  "check_topology W tid node d =
     (case find_runtime d tid (clean_node node) of
        None \<Rightarrow>
          \<lparr>cr_healthy = False, cr_status = TRS_FAILED, cr_issues = [''db: topology runtime not found for this topology and node''],
           cr_topology_runtime_id = None, cr_bridge_name = None, cr_cidr = None, cr_gateway_ip = None\<rparr>
      | Some r \<Rightarrow>
          let db_issues = (if filled (tr_bridge_name r) then [] else [''db: bridge_name is not set''])
                @ (if filled (tr_cidr r) then [] else [''db: cidr is not set''])
                @ (if filled (tr_gateway_ip r) then [] else [''db: gateway_ip is not set''])
                @ (if tr_status r = TRS_READY then []
                   else [''db: runtime status is '' @ topo_rt_status_str (tr_status r) @ '', expected READY for V1 healthy'']);
              issues = db_issues @ runtime_consistency_issues W (tr_cidr r) (tr_gateway_ip r) @ bridge_issues W r
          in \<lparr>cr_healthy = (issues = []), cr_status = tr_status r, cr_issues = issues, cr_topology_runtime_id = Some (tr_id r),
              cr_bridge_name = tr_bridge_name r, cr_cidr = tr_cidr r, cr_gateway_ip = tr_gateway_ip r\<rparr>)"

record check_attachment_result =
  ca_healthy :: bool
  ca_status :: att_status
  ca_workspace_ip :: "string option"
  ca_internal_endpoint :: "string option"
  ca_issues :: "string list"
  ca_attachment_id :: "int option"

definition att_db_issues :: "attachment \<Rightarrow> ip_lease option \<Rightarrow> string list" where
  "att_db_issues a lease =
     (if at_status a = AS_ATTACHED then []
      else [''db: attachment status is '' @ att_status_str (at_status a) @ '', expected ATTACHED for healthy V1''])
     @ (if filled (at_container_id a) then [] else [''db: container_id is not set''])
     @ (if filled (at_workspace_ip a) then [] else [''db: workspace_ip is not set''])
     @ (if filled (at_bridge_name a) then [] else [''db: bridge_name is not set''])
     @ (if filled (at_gateway_ip a) then [] else [''db: gateway_ip is not set''])
     @ (case lease of
          None \<Rightarrow> [''db: no active IpAllocation for this workspace'']
        | Some l \<Rightarrow>
            if str_or_empty (at_workspace_ip a) \<noteq> [] \<and> ia_ip l \<noteq> str_or_empty (at_workspace_ip a)
            then [''db: workspace_ip on attachment does not match active lease ip''] else [])"

definition att_runtime_issues :: "topo_world \<Rightarrow> attachment \<Rightarrow> topo_runtime option \<Rightarrow> string list" where
  "att_runtime_issues W a runtime =
     (case runtime of
        None \<Rightarrow> [''runtime: topology runtime not found for this node'']
      | Some r \<Rightarrow>
          let issues = runtime_consistency_issues W (tr_cidr r) (tr_gateway_ip r);
              c = py_strip (str_or_empty (tr_cidr r)); ip = py_strip (str_or_empty (at_workspace_ip a));
              invalid = (\<lambda>s. [''runtime: workspace_ip/cidr validation failed ('' @ tw_value_error W s @ '')''])
          in issues @
             (if str_or_empty (at_workspace_ip a) \<noteq> [] \<and> filled (tr_cidr r) \<and> \<not> list_ex (starts_with ''runtime: cidr is'') issues
              then (case parse_net c of
                      None \<Rightarrow> invalid c
                    | Some n \<Rightarrow>
                        (case parse_ip4 ip of
                           None \<Rightarrow> invalid ip
                         | Some x \<Rightarrow> if in_net x n then [] else [''runtime: workspace_ip is not within runtime cidr'']))
              else []))"

definition interface_failing :: "host_exn \<Rightarrow> string list" where
  "interface_failing e = [''linux: host interface check failed ('' @ snd e @ '')'']"

definition att_linux_issues :: "topo_world \<Rightarrow> int \<Rightarrow> string \<Rightarrow> int \<Rightarrow> attachment \<Rightarrow> ip_lease option \<Rightarrow> topo_runtime option \<Rightarrow> string list" where
  "att_linux_issues W tid nid wid a lease runtime =
     (let names = veth_pair_names W tid nid wid;
          host_if = (if filled (at_interface_host a) then py_strip (str_or_empty (at_interface_host a)) else fst names);
          brn = py_strip (str_or_empty (at_bridge_name a));
          (pid, pid_err) = tw_init_pid W (py_strip (str_or_empty (at_container_id a)));
          pid_issues = (if str_or_empty pid_err \<noteq> [] \<and> pid = [] then [''linux: '' @ str_or_empty pid_err] else [])
      in if \<not> tw_apply_attach W
           \<or> \<not> (at_status a = AS_ATTACHED \<and> filled (at_container_id a) \<and> filled (at_workspace_ip a) \<and> filled (at_bridge_name a)
                \<and> (case lease of None \<Rightarrow> False | Some l \<Rightarrow> Some (ia_ip l) = at_workspace_ip a))
         then []
         else pid_issues @
           (if pid \<noteq> [] \<and> list_all is_digit pid \<and> (case runtime of None \<Rightarrow> False | Some r \<Rightarrow> filled (tr_cidr r)) \<and> filled (at_gateway_ip a)
            then (case tw_plumbing W 0 of
                    Inl e \<Rightarrow> interface_failing e
                  | Inr [] \<Rightarrow> []
                  | Inr fails \<Rightarrow>
                      ''linux: DB reports ATTACHED but Linux bridge/netns plumbing does not match (stale attach or missing bridge slave - service probes may fail)''
                      # map (\<lambda>f. ''linux: '' @ f) fails)
            else
              probe (tw_interface_exists W host_if) interface_failing ''linux: host-side veth for workspace attachment not found on node''
                (probe (tw_enslaved W host_if brn) interface_failing ''linux: host veth is not enslaved to expected topology bridge''
                   (probe (tw_master_lists W host_if brn) interface_failing
                      (''linux: topology bridge does not list the host veth under `ip link show master` (expected port for '' @
                       py_repr host_if @ '' on '' @ py_repr brn @ '')'') []))))"

definition check_attachment :: "topo_world \<Rightarrow> int \<Rightarrow> string \<Rightarrow> int \<Rightarrow> tdb \<Rightarrow> check_attachment_result" where
  "check_attachment W tid node wid d =
     (let nid = clean_node node in
      case find_att d tid nid wid of
        None \<Rightarrow>
          \<lparr>ca_healthy = False, ca_status = AS_DETACHED, ca_workspace_ip = None, ca_internal_endpoint = None,
           ca_issues = [''db: topology attachment not found''], ca_attachment_id = None\<rparr>
      | Some a \<Rightarrow>
          let lease = find_active_lease d tid nid wid; runtime = find_runtime d tid nid;
              issues = att_db_issues a lease @ att_runtime_issues W a runtime @ att_linux_issues W tid nid wid a lease runtime
          in \<lparr>ca_healthy = (issues = []), ca_status = at_status a, ca_workspace_ip = at_workspace_ip a,
              ca_internal_endpoint = (if str_or_empty (at_workspace_ip a) = [] then None
                 else Some (str_or_empty (at_workspace_ip a) @ '':'' @ str_int WORKSPACE_IDE_CONTAINER_PORT)),
              ca_issues = issues, ca_attachment_id = Some (at_id a)\<rparr>)"

section \<open>Janitor\<close>

record janitor_result =
  jr_stale_attachments_cleaned :: nat
  jr_orphan_ip_leases_released :: nat
  jr_drift_repairs :: nat
  jr_issues :: "string list"

definition issue_text :: "string \<Rightarrow> int \<Rightarrow> topo_error \<Rightarrow> string" where
  "issue_text what wid e = ''janitor:'' @ what @ '':'' @ str_int wid @ '':'' @ topo_error_text e"

text \<open>
  One stuck attachment: detach, then release the lease. Only the failure of the detach keeps the attachment from being
  counted. \<open>W\<close> is the world of this round, so that a commit or a command may fail in one round and not in another.
\<close>

definition clean_stuck :: "topo_world \<Rightarrow> int \<Rightarrow> string \<Rightarrow> int \<Rightarrow> janitor_result \<times> tdb \<Rightarrow> janitor_result \<times> tdb" where
  "clean_stuck W tid nid wid s =
     (let (res, d) = s in
      case detach_workspace W tid nid wid d of
        Inl (e, d1) \<Rightarrow> (res\<lparr>jr_issues := jr_issues res @ [issue_text ''stuck_detach'' wid e]\<rparr>, d1)
      | Inr (_, d1) \<Rightarrow>
          (case release_workspace_ip_lease W tid nid wid d1 of
             Inl (e, d2) \<Rightarrow> (res\<lparr>jr_issues := jr_issues res @ [issue_text ''stuck_ip_release'' wid e],
                               jr_stale_attachments_cleaned := Suc (jr_stale_attachments_cleaned res)\<rparr>, d2)
           | Inr (_, d2) \<Rightarrow> (res\<lparr>jr_stale_attachments_cleaned := Suc (jr_stale_attachments_cleaned res)\<rparr>, d2)))"

definition release_orphan :: "topo_world \<Rightarrow> int \<Rightarrow> string \<Rightarrow> int \<Rightarrow> janitor_result \<times> tdb \<Rightarrow> janitor_result \<times> tdb" where
  "release_orphan W tid nid wid s =
     (let (res, d) = s in
      if (case find_att d tid nid wid of None \<Rightarrow> False | Some a \<Rightarrow> at_status a = AS_ATTACHED) then s
      else
        case release_workspace_ip_lease W tid nid wid d of
          Inl (e, d1) \<Rightarrow> (res\<lparr>jr_issues := jr_issues res @ [issue_text ''orphan_ip'' wid e]\<rparr>, d1)
        | Inr (released, d1) \<Rightarrow>
            (if released then res\<lparr>jr_orphan_ip_leases_released := Suc (jr_orphan_ip_leases_released res)\<rparr> else res, d1))"

definition repair_drift :: "topo_world \<Rightarrow> int \<Rightarrow> string \<Rightarrow> int \<Rightarrow> janitor_result \<times> tdb \<Rightarrow> janitor_result \<times> tdb" where
  "repair_drift W tid nid wid s =
     (let (res, d) = s in
      case detach_workspace W tid nid wid d of
        Inl (e, d1) \<Rightarrow> (res\<lparr>jr_issues := jr_issues res @ [issue_text ''drift_detach'' wid e]\<rparr>, d1)
      | Inr (_, d1) \<Rightarrow>
          (res\<lparr>jr_drift_repairs := Suc (jr_drift_repairs res)\<rparr>,
           case release_workspace_ip_lease W tid nid wid d1 of Inl (_, d2) \<Rightarrow> d2 | Inr (_, d2) \<Rightarrow> d2))"

definition stuck_attachment :: "time \<Rightarrow> int \<Rightarrow> string \<Rightarrow> attachment \<Rightarrow> bool" where
  "stuck_attachment cutoff tid nid a =
     (on_node tid nid a \<and> at_status a \<in> {AS_ATTACHING, AS_FAILED} \<and> at_updated_at a < cutoff)"

definition drifted :: "db \<Rightarrow> int \<Rightarrow> string \<Rightarrow> attachment \<Rightarrow> bool" where
  "drifted ws tid nid a =
     (on_node tid nid a \<and> at_status a = AS_ATTACHED \<and>
      (case get_ws ws (at_workspace_id a) of None \<Rightarrow> False | Some w \<Rightarrow> ws_status w \<in> {WS_STOPPED, WS_ERROR, WS_DELETED}))"

text \<open>\<open>Ws k\<close> is the world in the \<open>k\<close>-th round of the three loops, counted through.\<close>

fun rounds :: "(nat \<Rightarrow> topo_world) \<Rightarrow> nat \<Rightarrow> (topo_world \<Rightarrow> int \<Rightarrow> 's \<Rightarrow> 's) \<Rightarrow> int list \<Rightarrow> 's \<Rightarrow> 's" where
  "rounds Ws k f [] s = s"
| "rounds Ws k f (wid # wids) s = rounds Ws (Suc k) f wids (f (Ws k) wid s)"

definition run_topology_janitor ::
  "(nat \<Rightarrow> topo_world) \<Rightarrow> db \<Rightarrow> int \<Rightarrow> string \<Rightarrow> int \<Rightarrow> tdb \<Rightarrow> janitor_result \<times> tdb" where
  "run_topology_janitor Ws ws tid node stale_attaching_seconds d =
     (let nid = clean_node node;
          cutoff = tw_now (Ws 0) - seconds (max 0 stale_attaching_seconds);
          none = \<lparr>jr_stale_attachments_cleaned = 0, jr_orphan_ip_leases_released = 0, jr_drift_repairs = 0, jr_issues = []\<rparr>;
          stuck = map at_workspace_id (filter (stuck_attachment cutoff tid nid) (t_atts d));
          s1 = rounds Ws 0 (\<lambda>W. clean_stuck W tid nid) stuck (none, d);
          orphans = map ia_workspace_id (filter (\<lambda>l. ia_topology_id l = tid \<and> ia_node_id l = nid \<and> ia_released_at l = None) (t_leases (snd s1)));
          s2 = rounds Ws (length stuck) (\<lambda>W. release_orphan W tid nid) orphans s1;
          drift = map at_workspace_id (filter (drifted ws tid nid) (t_atts (snd s2)))
      in rounds Ws (length stuck + length orphans) (\<lambda>W. repair_drift W tid nid) drift s2)"

end
