(* ===== verification/Topology_Correct.thy ===== *)
theory Topology_Correct
  imports Topology_Repair
begin

text \<open>
  Correctness of the topology adapter: the unique constraints are an invariant of every operation, leased
  addresses are exclusive and usable, subnets of a topology stay disjoint, and one pass of the janitor
  leaves nothing to repair.
\<close>

section \<open>Tables under a unique constraint\<close>

definition table_ok :: "('r \<Rightarrow> int) \<Rightarrow> ('r \<Rightarrow> 'r \<Rightarrow> bool) \<Rightarrow> 'r list \<Rightarrow> int \<Rightarrow> bool" where
  "table_ok key clash rows nxt \<longleftrightarrow> keys_ok key rows nxt \<and> (\<forall>q\<in>set rows. \<forall>r\<in>set rows. clash q r \<longrightarrow> key q = key r)"

text \<open>The contract of a table: the constraint does not depend on the order of the two rows.\<close>

locale constrained_table =
  fixes key :: "'r \<Rightarrow> int" and clash :: "'r \<Rightarrow> 'r \<Rightarrow> bool"
  assumes clash_sym: "clash q r \<Longrightarrow> clash r q"
begin

lemma same_row:
  assumes "table_ok key clash rows n" "q \<in> set rows" "r \<in> set rows" "clash q r"
  shows "q = r"
proof -
  have "key q = key r" "distinct (map key rows)" using assms by (auto simp: table_ok_def keys_ok_def)
  then show ?thesis using assms(2,3) by (auto simp: distinct_map dest: inj_onD)
qed

lemma add:
  assumes "table_ok key clash rows n" "key r = n" "\<not> list_ex (\<lambda>q. key q \<noteq> key r \<and> clash q r) rows"
  shows "table_ok key clash (rows @ [r]) (n + 1)"
proof -
  have "\<forall>q\<in>set rows. \<not> clash q r" using assms by (fastforce simp: table_ok_def keys_ok_def list_ex_iff)
  then have "\<forall>q\<in>set rows. \<not> clash r q" using clash_sym by blast
  then show ?thesis using assms \<open>\<forall>q\<in>set rows. \<not> clash q r\<close> by (fastforce simp: table_ok_def keys_ok_def)
qed

lemma put:
  assumes "table_ok key clash rows n" "\<not> list_ex (\<lambda>q. key q \<noteq> key r \<and> clash q r) rows"
  shows "table_ok key clash (row_put key r rows) n"
proof -
  have "\<not> clash q r \<and> \<not> clash r q" if "q \<in> set rows" "key q \<noteq> key r" for q
    using assms(2) that clash_sym by (auto simp: list_ex_iff)
  then show ?thesis using assms(1) unfolding table_ok_def by (auto dest!: in_row_put)
qed

lemma keep:
  assumes "table_ok key clash rows n"
  shows "table_ok key clash (filter P rows) n"
  using assms by (auto simp: table_ok_def keys_ok_def distinct_map_filter)

text \<open>A row may be rewritten freely as long as it clashes with no more rows than before.\<close>

lemma rewrite:
  assumes "table_ok key clash rows n" "r \<in> set rows" "key r' = key r" "\<And>q. clash q r' \<Longrightarrow> clash q r"
  shows "table_ok key clash (row_put key r' rows) n"
proof (rule put [OF assms(1)])
  show "\<not> list_ex (\<lambda>q. key q \<noteq> key r' \<and> clash q r') rows"
    using assms by (auto simp: table_ok_def list_ex_iff)
qed

end

interpretation rt: constrained_table tr_id runtime_clash
  by unfold_locales (auto simp: runtime_clash_def)

interpretation ls: constrained_table ia_id lease_clash
  by unfold_locales (auto simp: lease_clash_def)

interpretation at: constrained_table at_id att_clash
  by unfold_locales (auto simp: att_clash_def)

definition topo_ok :: "tdb \<Rightarrow> bool" where
  "topo_ok d \<longleftrightarrow> table_ok tr_id runtime_clash (t_runtimes d) (t_runtime_seq d) \<and>
     table_ok ia_id lease_clash (t_leases d) (t_lease_seq d) \<and> table_ok at_id att_clash (t_atts d) (t_att_seq d)"

text \<open>
  Other workers write through the same database: their commits keep the constraints, and no operation changes
  the topology, node or workspace of a lease.
\<close>

definition lease_owner :: "ip_lease \<Rightarrow> int \<times> string \<times> int" where
  "lease_owner l = (ia_topology_id l, ia_node_id l, ia_workspace_id l)"

definition fair_race :: "topo_world \<Rightarrow> bool" where
  "fair_race W \<longleftrightarrow> (\<forall>n d. topo_ok d \<longrightarrow> topo_ok (tw_race W n d) \<and>
     (\<forall>l\<in>set (t_leases d). \<forall>l'\<in>set (t_leases (tw_race W n d)). ia_id l' = ia_id l \<longrightarrow> lease_owner l' = lease_owner l))"

lemma first_filter: "first_row (filter P rows) = Some r \<Longrightarrow> r \<in> set rows \<and> P r"
  using first_row_in [of "filter P rows" r] by simp

lemmas found = find_runtime_def find_lease_def find_active_lease_def find_att_def

lemma find_runtime_Some: "find_runtime d tid nid = Some r \<Longrightarrow> r \<in> set (t_runtimes d) \<and> tr_topology_id r = tid \<and> tr_node_id r = nid"
  unfolding found by (drule first_filter) simp

lemma find_lease_Some:
  "find_lease d tid nid wid = Some l \<Longrightarrow> l \<in> set (t_leases d) \<and> ia_topology_id l = tid \<and> ia_node_id l = nid \<and> ia_workspace_id l = wid"
  unfolding found by (drule first_filter) simp

lemma find_active_Some:
  "find_active_lease d tid nid wid = Some l \<Longrightarrow>
   l \<in> set (t_leases d) \<and> ia_topology_id l = tid \<and> ia_node_id l = nid \<and> ia_workspace_id l = wid \<and> ia_released_at l = None"
  unfolding found by (drule first_filter) simp

lemma find_att_Some:
  "find_att d tid nid wid = Some a \<Longrightarrow> a \<in> set (t_atts d) \<and> at_topology_id a = tid \<and> at_node_id a = nid \<and> at_workspace_id a = wid"
  unfolding found by (drule first_filter) simp

text \<open>In a constrained table a row is found by its columns.\<close>

lemma first_unique:
  assumes "r \<in> set rows" "P r" "\<And>q. q \<in> set rows \<Longrightarrow> P q \<Longrightarrow> q = r"
  shows "first_row (filter P rows) = Some r"
proof -
  obtain q where "first_row (filter P rows) = Some q" using assms(1,2) by (cases "filter P rows") (auto simp: filter_empty_conv)
  moreover from this have "q = r" using first_filter assms(3) by metis
  ultimately show ?thesis by simp
qed

lemma find_active_unique:
  assumes "topo_ok d" "l \<in> set (t_leases d)" "ia_released_at l = None"
  shows "find_active_lease d (ia_topology_id l) (ia_node_id l) (ia_workspace_id l) = Some l"
  unfolding find_active_lease_def
  by (rule first_unique) (use assms ls.same_row [OF _ _ assms(2)] in \<open>auto simp: topo_ok_def lease_clash_def\<close>)

lemma find_lease_unique:
  assumes "topo_ok d" "l \<in> set (t_leases d)"
  shows "find_lease d (ia_topology_id l) (ia_node_id l) (ia_workspace_id l) = Some l"
  unfolding find_lease_def
  by (rule first_unique) (use assms ls.same_row [OF _ _ assms(2)] in \<open>auto simp: topo_ok_def lease_clash_def\<close>)

lemma find_att_unique:
  assumes "topo_ok d" "a \<in> set (t_atts d)"
  shows "find_att d (at_topology_id a) (at_node_id a) (at_workspace_id a) = Some a"
  unfolding find_att_def
  by (rule first_unique) (use assms at.same_row [OF _ _ assms(2)] in \<open>auto simp: topo_ok_def att_clash_def\<close>)

section \<open>Leases\<close>

lemma lease_fields [simp]:
  "ia_id (renewed W ip l) = ia_id l" "ia_ip (renewed W ip l) = ip" "ia_released_at (renewed W ip l) = None"
  "ia_topology_id (renewed W ip l) = ia_topology_id l" "ia_node_id (renewed W ip l) = ia_node_id l"
  "ia_workspace_id (renewed W ip l) = ia_workspace_id l"
  "ia_ip (new_lease W tid nid wid ip) = ip" "ia_released_at (new_lease W tid nid wid ip) = None"
  "ia_topology_id (new_lease W tid nid wid ip) = tid" "ia_node_id (new_lease W tid nid wid ip) = nid"
  "ia_workspace_id (new_lease W tid nid wid ip) = wid"
  by (simp_all add: renewed_def new_lease_def)

text \<open>The workspace holds an active lease of the address.\<close>

definition holds :: "tdb \<Rightarrow> int \<Rightarrow> string \<Rightarrow> int \<Rightarrow> string \<Rightarrow> bool" where
  "holds d tid nid wid ip \<longleftrightarrow> map_option ia_ip (find_active_lease d tid nid wid) = Some ip"

lemma holdsI: "topo_ok d \<Longrightarrow> l \<in> set (t_leases d) \<Longrightarrow> ia_released_at l = None \<Longrightarrow> ia_topology_id l = tid \<Longrightarrow> ia_node_id l = nid
   \<Longrightarrow> ia_workspace_id l = wid \<Longrightarrow> ia_ip l = ip \<Longrightarrow> holds d tid nid wid ip"
  using find_active_unique [of d l] by (simp add: holds_def)

text \<open>Two workspaces never hold the same address of a node.\<close>

lemma holds_exclusive:
  assumes "topo_ok d" "holds d tid nid wid ip" "holds d tid nid wid' ip"
  shows "wid = wid'"
proof -
  obtain l l' where l: "find_active_lease d tid nid wid = Some l" "ia_ip l = ip" "find_active_lease d tid nid wid' = Some l'" "ia_ip l' = ip"
    using assms(2,3) by (auto simp: holds_def)
  have "l = l'" using ls.same_row [of "t_leases d" "t_lease_seq d" l l'] assms(1) find_active_Some [OF l(1)] find_active_Some [OF l(3)] l(2,4)
    by (simp add: topo_ok_def lease_clash_def)
  then show ?thesis using find_active_Some [OF l(1)] find_active_Some [OF l(3)] by simp
qed

text \<open>Committing a lease keeps the constraints; when it succeeds the workspace holds the address.\<close>

fun commit_state :: "commit_out \<Rightarrow> tdb" where
  "commit_state (Committed e) = e"
| "commit_state (Conflict e) = e"
| "commit_state (Broken m e) = e"

lemma new_lease_commit:
  assumes "topo_ok d" "fair_race W"
  shows "topo_ok (commit_state (commit_new_lease W k (new_lease W tid nid wid ip) d))"
    and "commit_new_lease W k (new_lease W tid nid wid ip) d = Committed e \<Longrightarrow> holds e tid nid wid ip"
proof -
  let ?r = "tw_race W k d" and ?l = "(new_lease W tid nid wid ip)\<lparr>ia_id := t_lease_seq (tw_race W k d)\<rparr>"
  have r: "topo_ok ?r" using assms by (simp add: fair_race_def)
  have add: "topo_ok (add_lease (new_lease W tid nid wid ip) ?r)" if "\<not> lease_conflict ?l ?r"
    using r that ls.add [of "t_leases ?r" "t_lease_seq ?r" ?l] by (simp add: topo_ok_def add_lease_def lease_conflict_def)
  show "topo_ok (commit_state (commit_new_lease W k (new_lease W tid nid wid ip) d))"
    using r add by (simp add: commit_new_lease_def Let_def split: option.split)
  assume "commit_new_lease W k (new_lease W tid nid wid ip) d = Committed e"
  then have "e = add_lease (new_lease W tid nid wid ip) ?r" "\<not> lease_conflict ?l ?r"
    by (auto simp: commit_new_lease_def Let_def split: option.splits if_splits)
  then show "holds e tid nid wid ip" using add holdsI [of e ?l] by (simp add: add_lease_def)
qed

lemma old_lease_commit:
  assumes "topo_ok d" "fair_race W" "l \<in> set (t_leases d)" "lease_owner l = (tid, nid, wid)"
  shows "topo_ok (commit_state (commit_lease W k (ia_id l) (renewed W ip) d))"
    and "commit_lease W k (ia_id l) (renewed W ip) d = Committed e \<Longrightarrow> holds e tid nid wid ip"
proof -
  let ?r = "tw_race W k d"
  have r: "topo_ok ?r" using assms by (simp add: fair_race_def)
  have put: "topo_ok (put_lease (renewed W ip q) ?r)" if "\<not> lease_conflict (renewed W ip q) ?r" for q
    using r that ls.put [of "t_leases ?r" "t_lease_seq ?r" "renewed W ip q"] by (simp add: topo_ok_def put_lease_def lease_conflict_def)
  show "topo_ok (commit_state (commit_lease W k (ia_id l) (renewed W ip) d))"
    using r put by (simp add: commit_lease_def Let_def split: option.split)
  assume "commit_lease W k (ia_id l) (renewed W ip) d = Committed e"
  then obtain q where q: "row_find ia_id (ia_id l) (t_leases ?r) = Some q" "e = put_lease (renewed W ip q) ?r" "\<not> lease_conflict (renewed W ip q) ?r"
    by (auto simp: commit_lease_def Let_def split: option.splits if_splits)
  have qr: "q \<in> set (t_leases ?r)" "ia_id q = ia_id l" using q(1) by (auto simp: row_find_def find_Some_iff)
  then have "lease_owner q = (tid, nid, wid)" using assms unfolding fair_race_def by metis
  moreover have "renewed W ip q \<in> set (t_leases e)" using q(1) qr by (auto simp: q(2) put_lease_def intro!: row_put_in)
  ultimately show "holds e tid nid wid ip" using put [OF q(3)] holdsI [of e "renewed W ip q"] q(2) by (simp add: lease_owner_def)
qed

definition alloc_state :: "alloc_out \<Rightarrow> tdb" where
  "alloc_state out = (case out of Leased _ e \<Rightarrow> e | Retry e \<Rightarrow> e | AllocFailed _ e \<Rightarrow> e)"

lemma persist_lease_commit:
  assumes "topo_ok d" "fair_race W" "row = None \<or> row = find_lease d tid nid wid"
  shows "topo_ok (commit_state (persist_lease W tid nid wid k row ip d))"
    and "persist_lease W tid nid wid k row ip d = Committed e \<Longrightarrow> holds e tid nid wid ip"
proof -
  have "topo_ok (commit_state (persist_lease W tid nid wid k row ip d)) \<and>
    (persist_lease W tid nid wid k row ip d = Committed e \<longrightarrow> holds e tid nid wid ip)" for e
  proof (cases row)
    case None
    then show ?thesis using new_lease_commit [OF assms(1,2)] by (simp add: persist_lease_def)
  next
    case (Some l)
    then have "find_lease d tid nid wid = Some l" using assms(3) by simp
    then have "l \<in> set (t_leases d)" "lease_owner l = (tid, nid, wid)" using find_lease_Some [of d tid nid wid l] by (simp_all add: lease_owner_def)
    from old_lease_commit [OF assms(1,2) this] Some show ?thesis by (simp add: persist_lease_def)
  qed
  then show "topo_ok (commit_state (persist_lease W tid nid wid k row ip d))"
    and "persist_lease W tid nid wid k row ip d = Committed e \<Longrightarrow> holds e tid nid wid ip" by blast+
qed

lemma lease_address_state:
  "alloc_state (lease_address W r tid nid wid k row d) =
     (case choose_address W d r tid nid wid k of Inl _ \<Rightarrow> d | Inr h \<Rightarrow> commit_state (persist_lease W tid nid wid k row (ip4_text h) d))"
  by (simp add: lease_address_def alloc_state_def split: sum.split commit_out.split)

lemma lease_address_Leased:
  assumes "lease_address W r tid nid wid k row d = Leased res e"
  obtains h where "choose_address W d r tid nid wid k = Inr h" "al_workspace_ip res = ip4_text h" "\<not> al_leased_existing res"
    "persist_lease W tid nid wid k row (ip4_text h) d = Committed e"
  using assms by (auto simp: lease_address_def split: sum.splits commit_out.splits)

lemma lease_address_ok:
  assumes "topo_ok d" "fair_race W" "row = None \<or> row = find_lease d tid nid wid"
  shows "topo_ok (alloc_state (lease_address W r tid nid wid k row d))"
    and "lease_address W r tid nid wid k row d = Leased res e \<Longrightarrow> holds e tid nid wid (al_workspace_ip res)"
  using assms(1) persist_lease_commit [OF assms]
  by (simp add: lease_address_state split: sum.split) (metis lease_address_Leased persist_lease_commit(2) [OF assms])

lemma attempt_ok:
  assumes "topo_ok d" "fair_race W"
  shows "topo_ok (alloc_state (allocate_workspace_ip_attempt W tid nid wid k d))"
    and "allocate_workspace_ip_attempt W tid nid wid k d = Leased res e \<Longrightarrow> holds e tid nid wid (al_workspace_ip res)"
proof -
  show "topo_ok (alloc_state (allocate_workspace_ip_attempt W tid nid wid k d))"
    using assms lease_address_ok(1) [OF assms]
    by (auto simp: allocate_workspace_ip_attempt_def alloc_state_def split: sum.split option.split)
  assume a: "allocate_workspace_ip_attempt W tid nid wid k d = Leased res e"
  show "holds e tid nid wid (al_workspace_ip res)"
  proof (cases "\<exists>l. find_lease d tid nid wid = Some l \<and> ia_released_at l = None")
    case True
    then obtain l where l: "find_lease d tid nid wid = Some l" "ia_released_at l = None" by blast
    then have "e = d" "al_workspace_ip res = ia_ip l" using a by (auto simp: allocate_workspace_ip_attempt_def split: sum.splits)
    then show ?thesis using holdsI [OF assms(1), of l] find_lease_Some [OF l(1)] l(2) by simp
  next
    case False
    then obtain r row where "lease_address W r tid nid wid k row d = Leased res e" "row = None \<or> row = find_lease d tid nid wid"
      using a by (auto simp: allocate_workspace_ip_attempt_def split: sum.splits option.splits)
    then show ?thesis using lease_address_ok(2) [OF assms] by blast
  qed
qed

definition tstate :: "'a tresult \<Rightarrow> tdb" where
  "tstate out = (case out of Inl (_, d) \<Rightarrow> d | Inr (_, d) \<Rightarrow> d)"

lemma tstate_simps [simp]: "tstate (Inl (e, d)) = d" "tstate (Inr (a, d)) = d"
  by (simp_all add: tstate_def)

lemma alloc_state_simps [simp]: "alloc_state (Leased res d) = d" "alloc_state (Retry d) = d" "alloc_state (AllocFailed err d) = d"
  by (simp_all add: alloc_state_def)

lemma allocate_loop_ok:
  assumes "fair_race W"
  shows "topo_ok d \<Longrightarrow> topo_ok (tstate (allocate_loop W tid nid wid k left d)) \<and>
     (\<forall>res e. allocate_loop W tid nid wid k left d = Inr (res, e) \<longrightarrow> holds e tid nid wid (al_workspace_ip res))"
proof (induction left arbitrary: k d)
  case (Suc left)
  note ok = attempt_ok [OF Suc.prems assms, of tid nid wid k]
  show ?case
  proof (cases "allocate_workspace_ip_attempt W tid nid wid k d")
    case (Leased res e)
    then show ?thesis using ok by simp
  next
    case (Retry e)
    then have "topo_ok e" using ok(1) by simp
    then show ?thesis using Retry Suc.IH [of e "Suc k"] by (simp split: sum.split)
  next
    case (AllocFailed err e)
    then show ?thesis using ok(1) by simp
  qed
qed simp

lemma allocate_state_ok:
  assumes "topo_ok d" "fair_race W"
  shows "topo_ok (tstate (allocate_workspace_ip W tid node wid d))"
  using assms(1) allocate_loop_ok [OF assms(2,1)] by (simp add: allocate_workspace_ip_def Let_def split: sum.split)

text \<open>C9: addresses are leased exclusively, whatever other workers commit meanwhile. Every outcome of an allocation keeps the
  unique constraints of the tables; when it returns an address, the workspace holds an active lease of it and no other
  workspace of the node does.\<close>

theorem leased_address_exclusive:
  assumes "topo_ok d" "fair_race W"
  shows "topo_ok (tstate (allocate_workspace_ip W tid node wid d)) \<and>
    (\<forall>res d'. allocate_workspace_ip W tid node wid d = Inr (res, d') \<longrightarrow>
       holds d' tid (clean_node node) wid (al_workspace_ip res) \<and>
       (\<forall>other. holds d' tid (clean_node node) other (al_workspace_ip res) \<longrightarrow> other = wid))"
proof -
  note ok = allocate_loop_ok [OF assms(2,1), of tid "clean_node node" wid 0 ALLOCATE_IP_MAX_ATTEMPTS]
  have "holds d' tid (clean_node node) wid (al_workspace_ip res)" "topo_ok d'"
    if "allocate_workspace_ip W tid node wid d = Inr (res, d')" for res d'
    using that ok allocate_state_ok [OF assms, of tid node wid] by (auto simp: allocate_workspace_ip_def Let_def split: sum.splits)
  then show ?thesis using allocate_state_ok [OF assms] holds_exclusive by blast
qed

section \<open>Chosen addresses\<close>

lemma pick_first_free_host_Some:
  "pick_first_free_host candidates used k = Some h \<Longrightarrow> h \<in> set candidates \<and> h \<notin> set used"
  by (auto simp: pick_first_free_host_def Let_def find_Some_iff split: if_splits)

text \<open>Scanning from any offset meets every candidate.\<close>

lemma rotation_set: "n = length xs \<Longrightarrow> 0 < n \<Longrightarrow> set (map (\<lambda>i. xs ! ((k + i) mod n)) [0..<n]) = set xs"
proof
  assume n: "n = length xs" "0 < n"
  show "set (map (\<lambda>i. xs ! ((k + i) mod n)) [0..<n]) \<subseteq> set xs" using n by auto
  show "set xs \<subseteq> set (map (\<lambda>i. xs ! ((k + i) mod n)) [0..<n])"
  proof
    fix x assume "x \<in> set xs"
    then obtain j where j: "j < n" "x = xs ! j" using n by (auto simp: in_set_conv_nth)
    let ?i = "(j + (n - k mod n)) mod n"
    have "(k + ?i) mod n = (k mod n + (j + (n - k mod n))) mod n" by (metis mod_add_eq mod_add_left_eq mod_mod_trivial)
    also have "\<dots> = (j + n) mod n" using mod_less_divisor [OF n(2), of k] by (simp add: add.commute)
    also have "\<dots> = j" using j by simp
    finally have "x = xs ! ((k + ?i) mod n)" using j by simp
    moreover have "?i \<in> set [0..<n]" using n by simp
    ultimately show "x \<in> set (map (\<lambda>i. xs ! ((k + i) mod n)) [0..<n])" by (metis (no_types, lifting) image_eqI set_map)
  qed
qed

lemma pick_first_free_host_None:
  assumes "pick_first_free_host candidates used k = None"
  shows "set candidates \<subseteq> set used"
proof (cases "candidates = []")
  case False
  then have "\<forall>h\<in>set (map (\<lambda>i. candidates ! ((k mod length candidates + i) mod length candidates)) [0..<length candidates]). h \<in> set used"
    using assms by (simp add: pick_first_free_host_def Let_def find_None_iff)
  then show ?thesis using rotation_set [OF refl, of candidates "k mod length candidates"] False
    by (simp only: length_greater_0_conv simp_thms) blast
qed simp

lemma candidate_hosts_usable:
  assumes "h \<in> set (candidate_hosts n g)"
  shows "h \<in> set (net_hosts n)" "h \<noteq> g"
    "V1_INFRA_RESERVED_USABLE_HOSTS < length (net_hosts n) \<Longrightarrow> h \<notin> set (take V1_INFRA_RESERVED_USABLE_HOSTS (net_hosts n))"
proof -
  let ?hs = "net_hosts n" and ?k = "V1_INFRA_RESERVED_USABLE_HOSTS"
  have sub: "h \<in> set (drop ?k ?hs) \<or> (h \<in> set ?hs \<and> length ?hs \<le> ?k)" and gw: "h \<noteq> g"
    using assms by (auto simp: candidate_hosts_def Let_def split: if_splits)
  show "h \<in> set ?hs" using sub by (meson in_set_dropD)
  show "h \<noteq> g" by (rule gw)
  assume "?k < length ?hs"
  then have "h \<in> set (drop ?k ?hs)" using sub by simp
  then show "h \<notin> set (take ?k ?hs)" using set_take_disj_set_drop_if_distinct [OF net_hosts_distinct, of ?k ?k n] by blast
qed

lemma map_filter_set: "a \<in> set (List.map_filter f xs) \<longleftrightarrow> (\<exists>x\<in>set xs. f x = Some a)"
  by (force simp: List.map_filter_def)

lemma choose_address_Inr:
  assumes "choose_address W d r tid nid wid k = Inr h"
  obtains n g where "parse_net (str_or_empty (tr_cidr r)) = Some n" "parse_ip4 (str_or_empty (tr_gateway_ip r)) = Some g"
    "in_net g n" "h \<in> set (candidate_hosts n g)" "\<forall>s\<in>set (active_ips d tid nid). parse_ip4 s \<noteq> Some h"
proof -
  obtain n g used where o: "parse_net (str_or_empty (tr_cidr r)) = Some n" "parse_ip4 (str_or_empty (tr_gateway_ip r)) = Some g" "in_net g n"
    "used_addresses W (active_ips d tid nid) = Inr used" "\<exists>k. pick_first_free_host (candidate_hosts n g) used k = Some h"
    using assms by (auto simp: choose_address_def iter_candidate_workspace_hosts_def gateway_as_address_def split: sum.splits option.splits if_splits)
  have "\<forall>s\<in>set (active_ips d tid nid). \<forall>a. parse_ip4 s = Some a \<longrightarrow> a \<in> set used"
    using o(4) by (auto simp: used_addresses_def map_filter_set split: option.splits)
  then show ?thesis using that o pick_first_free_host_Some by blast
qed

text \<open>A host for a workspace: usable in the subnet of the runtime, not its gateway and, unless the subnet is tiny, not reserved.\<close>

definition workspace_host :: "topo_runtime \<Rightarrow> string \<Rightarrow> bool" where
  "workspace_host r ip \<longleftrightarrow> (\<exists>n g h. parse_net (str_or_empty (tr_cidr r)) = Some n \<and> parse_ip4 (str_or_empty (tr_gateway_ip r)) = Some g \<and>
     in_net g n \<and> ip = ip4_text h \<and> h \<in> set (net_hosts n) \<and> h \<noteq> g \<and>
     (V1_INFRA_RESERVED_USABLE_HOSTS < length (net_hosts n) \<longrightarrow> h \<notin> set (take V1_INFRA_RESERVED_USABLE_HOSTS (net_hosts n))))"

lemma choose_address_host: "choose_address W d r tid nid wid k = Inr h \<Longrightarrow> workspace_host r (ip4_text h)"
  by (erule choose_address_Inr) (metis workspace_host_def candidate_hosts_usable)

lemma allocatable_runtime_Inr:
  "allocatable_runtime d tid nid = Inr r \<longleftrightarrow>
     find_runtime d tid nid = Some r \<and> tr_status r = TRS_READY \<and> str_or_empty (tr_cidr r) \<noteq> [] \<and> str_or_empty (tr_gateway_ip r) \<noteq> []"
  by (auto simp: allocatable_runtime_def split: option.splits if_splits)

lemma Retry_race:
  "allocate_workspace_ip_attempt W tid nid wid k d = Retry e \<Longrightarrow> e = tw_race W k d"
  by (auto simp: allocate_workspace_ip_attempt_def lease_address_def persist_lease_def commit_new_lease_def commit_lease_def Let_def
      split: sum.splits option.splits if_splits commit_out.splits)

lemma allocate_loop_host:
  assumes "\<And>n e. find_runtime (tw_race W n e) tid nid = find_runtime e tid nid"
  shows "find_runtime d tid nid = Some r \<Longrightarrow> allocate_loop W tid nid wid k left d = Inr (res, e) \<Longrightarrow>
     \<not> al_leased_existing res \<Longrightarrow> workspace_host r (al_workspace_ip res)"
proof (induction left arbitrary: k d)
  case (Suc left)
  show ?case
  proof (cases "allocate_workspace_ip_attempt W tid nid wid k d")
    case (Leased res' e')
    then obtain row where "lease_address W r tid nid wid k row d = Leased res e"
      using Suc.prems by (auto simp: allocate_workspace_ip_attempt_def allocatable_runtime_Inr split: sum.splits option.splits if_splits)
    then show ?thesis by (metis lease_address_Leased choose_address_host)
  next
    case (Retry e')
    then have "find_runtime e' tid nid = Some r" using assms Retry_race Suc.prems(1) by metis
    then show ?thesis using Retry Suc.IH [of e' "Suc k"] Suc.prems by (simp split: sum.splits if_splits)
  next
    case (AllocFailed err e')
    then show ?thesis using Suc.prems by simp
  qed
qed simp

text \<open>C34: a fresh lease is for a usable address. While the runtime of the node stays as it is, a newly leased address is a host
  address of its subnet, neither the gateway nor, in a subnet of more than ten hosts, one of the ten reserved ones.\<close>

theorem leased_address_usable:
  assumes "find_runtime d tid (clean_node node) = Some r" "\<And>n e. find_runtime (tw_race W n e) tid (clean_node node) = find_runtime e tid (clean_node node)"
    "allocate_workspace_ip W tid node wid d = Inr (res, d')" "\<not> al_leased_existing res"
  shows "workspace_host r (al_workspace_ip res)"
  using assms allocate_loop_host [OF assms(2,1)] by (auto simp: allocate_workspace_ip_def Let_def split: sum.splits)

text \<open>Reading back a stored address gives the chosen host, so a host that no active lease has passes the constraint.\<close>

lemma persist_lease_free:
  assumes "topo_ok d" "tw_race W 0 d = d" "tw_commit W CP_LEASE 0 = None" "h < 2 ^ 32"
    "\<forall>s\<in>set (active_ips d tid nid). parse_ip4 s \<noteq> Some h" "find_lease d tid nid wid = row" "\<forall>l. row = Some l \<longrightarrow> ia_released_at l \<noteq> None"
  shows "\<exists>e. persist_lease W tid nid wid 0 row (ip4_text h) d = Committed e"
proof -
  have free: "ia_ip q \<noteq> ip4_text h" if "q \<in> set (t_leases d)" "ia_topology_id q = tid" "ia_node_id q = nid" "ia_released_at q = None" for q
    using assms(5) that parse_ip4_text [OF assms(4)] by (auto simp: active_ips_def)
  have alone: "q = l" if "q \<in> set (t_leases d)" "ia_topology_id q = tid" "ia_node_id q = nid" "ia_workspace_id q = wid" "row = Some l" for q l
    using find_lease_unique [OF assms(1) that(1)] that assms(6) by simp
  show ?thesis
  proof (cases row)
    case None
    then have "q \<in> set (t_leases d) \<Longrightarrow> ia_topology_id q = tid \<Longrightarrow> ia_node_id q = nid \<Longrightarrow> ia_workspace_id q \<noteq> wid" for q
      using assms(6) by (auto simp: find_lease_def filter_empty_conv)
    then have "\<not> lease_conflict ((new_lease W tid nid wid (ip4_text h))\<lparr>ia_id := t_lease_seq d\<rparr>) d"
      using free by (auto simp: lease_conflict_def lease_clash_def list_ex_iff)
    then show ?thesis using None assms(2,3) by (simp add: persist_lease_def commit_new_lease_def)
  next
    case (Some l)
    have l: "l \<in> set (t_leases d)" "ia_topology_id l = tid" "ia_node_id l = nid" "ia_workspace_id l = wid"
      using Some assms(6) find_lease_Some by auto
    have "row_find ia_id (ia_id l) (t_leases d) = Some l"
      using assms(1) l(1) by (simp add: topo_ok_def table_ok_def keys_ok_def row_find_distinct)
    moreover have "\<not> lease_conflict (renewed W (ip4_text h) l) d"
    proof -
      have "ia_id q = ia_id l" if q: "q \<in> set (t_leases d)" "lease_clash q (renewed W (ip4_text h) l)" for q
      proof (rule arg_cong [of q l ia_id], rule alone [OF q(1) _ _ _ Some])
        show "ia_topology_id q = tid" "ia_node_id q = nid" using q(2) l by (simp_all add: lease_clash_def)
        then show "ia_workspace_id q = wid" using q(2) free [OF q(1)] l by (auto simp: lease_clash_def)
      qed
      then show ?thesis by (simp add: lease_conflict_def list_ex_iff) blast
    qed
    ultimately show ?thesis using Some assms(2,3) by (simp add: persist_lease_def commit_lease_def)
  qed
qed

lemma in_net_bound: "net_ok n \<Longrightarrow> in_net h n \<Longrightarrow> h < 2 ^ 32"
  using net_last_bounds [of n] by (simp add: in_net_iff)

lemma used_addresses_Inr:
  assumes "\<forall>s\<in>set texts. parse_ip4 s \<noteq> None"
  shows "used_addresses W texts = Inr (List.map_filter parse_ip4 texts)"
proof -
  have "find (\<lambda>s. parse_ip4 s = None) texts = None" using assms by (simp add: find_None_iff)
  then show ?thesis by (simp add: used_addresses_def)
qed

lemma choose_address_succeeds:
  assumes "parse_net (str_or_empty (tr_cidr r)) = Some n" "parse_ip4 (str_or_empty (tr_gateway_ip r)) = Some g" "in_net g n"
    "\<forall>s\<in>set (active_ips d tid nid). parse_ip4 s \<noteq> None"
    "h \<in> set (candidate_hosts n g)" "\<forall>s\<in>set (active_ips d tid nid). parse_ip4 s \<noteq> Some h"
  shows "\<exists>h'. choose_address W d r tid nid wid k = Inr h'"
proof -
  have "h \<notin> set (List.map_filter parse_ip4 (active_ips d tid nid))" using assms(6) by (simp add: map_filter_set)
  then have "pick_first_free_host (candidate_hosts n g) (List.map_filter parse_ip4 (active_ips d tid nid)) j \<noteq> None" for j
    using pick_first_free_host_None assms(5) by blast
  then show ?thesis using assms(1-3) used_addresses_Inr [OF assms(4)]
    by (simp add: choose_address_def iter_candidate_workspace_hosts_def gateway_as_address_def split: option.split)
qed

lemma persist_lease_atts:
  assumes "tw_race W k d = d" "persist_lease W tid nid wid k row ip d = Committed e"
  shows "t_atts e = t_atts d"
  using assms by (auto simp: persist_lease_def commit_new_lease_def commit_lease_def Let_def add_lease_def put_lease_def
      split: option.splits if_splits)

lemma allocation_progress:
  assumes "topo_ok d" "tw_race W 0 d = d" "tw_commit W CP_LEASE 0 = None"
    "find_runtime d tid (clean_node node) = Some r" "tr_status r = TRS_READY"
    "parse_net (str_or_empty (tr_cidr r)) = Some n" "parse_ip4 (str_or_empty (tr_gateway_ip r)) = Some g" "in_net g n"
    "\<forall>s\<in>set (active_ips d tid (clean_node node)). parse_ip4 s \<noteq> None"
    "h \<in> set (candidate_hosts n g)" "\<forall>s\<in>set (active_ips d tid (clean_node node)). parse_ip4 s \<noteq> Some h"
  obtains res d' where "allocate_workspace_ip W tid node wid d = Inr (res, d')" "t_atts d' = t_atts d"
    "find_lease d tid (clean_node node) wid = None \<Longrightarrow> \<not> al_leased_existing res"
proof -
  let ?nid = "clean_node node"
  have ne: "parse_net [] = None" "parse_ip4 [] = None" by (simp_all add: parse_net_def parse_ip4_def octet_def)
  then have r: "allocatable_runtime d tid ?nid = Inr r" using assms(4-7) by (auto simp: allocatable_runtime_Inr)
  obtain h' where h': "choose_address W d r tid ?nid wid 0 = Inr h'" using choose_address_succeeds [OF assms(6-11)] by blast
  then have "h' < 2 ^ 32" "\<forall>s\<in>set (active_ips d tid ?nid). parse_ip4 s \<noteq> Some h'"
    by (metis choose_address_Inr candidate_hosts_usable(1) parse_net_ok in_net_bound net_hosts_in)+
  note commit = persist_lease_free [OF assms(1-3) this]
  have leased: "\<exists>res e. lease_address W r tid ?nid wid 0 row d = Leased res e \<and> t_atts e = t_atts d \<and> \<not> al_leased_existing res"
    if row: "find_lease d tid ?nid wid = row" "\<forall>l. row = Some l \<longrightarrow> ia_released_at l \<noteq> None" for row
  proof -
    obtain e where e: "persist_lease W tid ?nid wid 0 row (ip4_text h') d = Committed e" using commit [OF row] by blast
    then have "t_atts e = t_atts d" using persist_lease_atts [OF assms(2) e] by simp
    then show ?thesis using e h' by (simp add: lease_address_def)
  qed
  have "\<exists>res e. allocate_workspace_ip_attempt W tid ?nid wid 0 d = Leased res e \<and> t_atts e = t_atts d \<and>
      (find_lease d tid ?nid wid = None \<longrightarrow> \<not> al_leased_existing res)"
    using r leased by (cases "find_lease d tid ?nid wid") (auto simp: allocate_workspace_ip_attempt_def)
  then show ?thesis using that r by (auto simp: allocate_workspace_ip_def Let_def ALLOCATE_IP_MAX_ATTEMPTS_def numeral_eq_Suc)
qed

text \<open>Allocation succeeds whenever an address is free. On a READY runtime with a consistent subnet, when nobody interferes and the
  commit works, a workspace gets an address if some candidate host is not actively leased.\<close>

theorem allocation_succeeds_when_possible:
  assumes "topo_ok d" "tw_race W 0 d = d" "tw_commit W CP_LEASE 0 = None"
    "find_runtime d tid (clean_node node) = Some r" "tr_status r = TRS_READY"
    "parse_net (str_or_empty (tr_cidr r)) = Some n" "parse_ip4 (str_or_empty (tr_gateway_ip r)) = Some g" "in_net g n"
    "\<forall>s\<in>set (active_ips d tid (clean_node node)). parse_ip4 s \<noteq> None"
    "h \<in> set (candidate_hosts n g)" "\<forall>s\<in>set (active_ips d tid (clean_node node)). parse_ip4 s \<noteq> Some h"
  shows "\<exists>res d'. allocate_workspace_ip W tid node wid d = Inr (res, d')"
  using allocation_progress [OF assms] by metis

section \<open>Subnets\<close>

definition runtime_net :: "topo_runtime \<Rightarrow> net4 option" where
  "runtime_net r = (if filled (tr_cidr r) then parse_net (py_strip (str_or_empty (tr_cidr r))) else None)"

text \<open>The subnets of the nodes of one topology share no address.\<close>

definition subnets_disjoint :: "tdb \<Rightarrow> bool" where
  "subnets_disjoint d \<longleftrightarrow> (\<forall>q\<in>set (t_runtimes d). \<forall>r\<in>set (t_runtimes d). \<forall>m n.
     tr_topology_id q = tr_topology_id r \<longrightarrow> tr_id q \<noteq> tr_id r \<longrightarrow> runtime_net q = Some m \<longrightarrow> runtime_net r = Some n \<longrightarrow>
     \<not> (\<exists>a. in_net a m \<and> in_net a n))"

lemma used_networks: "m \<in> set (list_used_runtime_networks d tid nid) \<longleftrightarrow>
   (\<exists>q\<in>set (t_runtimes d). tr_topology_id q = tid \<and> tr_node_id q \<noteq> nid \<and> runtime_net q = Some m)"
  by (auto simp: list_used_runtime_networks_def map_filter_set runtime_net_def)

lemma runtime_net_ok: "runtime_net r = Some n \<Longrightarrow> net_ok n"
  by (auto simp: runtime_net_def split: if_splits intro: parse_net_ok)

lemma filled_texts [simp]: "filled (Some (net_text n))" "filled (Some (ip4_text a))"
  by (simp_all add: filled_def str_or_empty_def)

text \<open>What a free choice yields: a well-formed subnet, apart from those in use, and a gateway inside.\<close>

definition free_choice :: "tdb \<Rightarrow> int \<Rightarrow> string \<Rightarrow> string \<Rightarrow> string \<Rightarrow> bool" where
  "free_choice d tid nid cidr gw \<longleftrightarrow> (\<exists>n a. net_ok n \<and> cidr = net_text n \<and> gw = ip4_text a \<and> in_net a n \<and>
     \<not> net_overlaps_any n (list_used_runtime_networks d tid nid))"

lemma with_gateway_Inr:
  assumes "with_gateway W n gw what = Inr (c, g)" "net_ok n"
  obtains a where "c = net_text n" "g = ip4_text a" "in_net a n"
  using assms net_hosts_in [OF assms(2)]
  by (auto simp: with_gateway_def first_usable_host_def split: option.splits sum.splits list.splits if_splits)

lemma pool_ok: "c \<in> set pool_child_subnets \<Longrightarrow> net_ok c"
proof -
  have "V1_PARENT_POOL_CIDR = net_text \<lparr>net_base = 176160768, net_len = 9\<rparr>"
    by (simp add: V1_PARENT_POOL_CIDR_def net_text_def ip4_text_def str_nat.simps digit_char_def char_of_def bit_0)
  then have p: "parse_net V1_PARENT_POOL_CIDR = Some \<lparr>net_base = 176160768, net_len = 9\<rparr>"
    using parse_net_text [of "\<lparr>net_base = 176160768, net_len = 9\<rparr>"] by (simp add: net_ok_def net_size_def size_of_len_def)
  assume "c \<in> set pool_child_subnets"
  then obtain i where "i < 2048" "c = \<lparr>net_base = 176160768 + i * 4096, net_len = 20\<rparr>"
    by (auto simp: pool_child_subnets_def p net_subnets_def V1_CHILD_PREFIXLEN_def size_of_len_def)
  then show ?thesis by (simp add: net_ok_def net_size_def size_of_len_def)
qed

lemma allocate_child_subnet_Inr:
  assumes "allocate_child_subnet d tid nid k = Inr n"
  shows "net_ok n" "\<not> net_overlaps_any n (list_used_runtime_networks d tid nid)"
proof -
  let ?N = "length pool_child_subnets"
  obtain s where "?N \<noteq> 0" and f: "find (\<lambda>c. \<not> net_overlaps_any c (list_used_runtime_networks d tid nid))
      (map (\<lambda>k. pool_child_subnets ! ((s + k) mod ?N)) [0..<?N]) = Some n"
    using assms by (auto simp: allocate_child_subnet_def Let_def split: if_splits option.splits)
  then have "n \<in> set pool_child_subnets" by (auto simp: find_Some_iff)
  then show "net_ok n" by (rule pool_ok)
  show "\<not> net_overlaps_any n (list_used_runtime_networks d tid nid)" using f by (auto simp: find_Some_iff)
qed

lemma choose_new_free:
  assumes "choose_new_cidr_and_gateway W d tid nid sc sg k = Inr (c, g)"
  shows "free_choice d tid nid c g"
  using assms allocate_child_subnet_Inr [of d tid nid k]
  by (auto simp: choose_new_cidr_and_gateway_def free_choice_def split: option.splits if_splits sum.splits
      dest: parse_net_ok elim!: with_gateway_Inr) 

text \<open>
  A row written by the loop, new or completed: its subnet is what the row had, or a free choice. Without races
  the subnets of a topology stay disjoint.
\<close>

lemma free_choice_net:
  assumes "free_choice d tid nid c g" "tr_cidr r = Some c" "q \<in> set (t_runtimes d)" "tr_topology_id q = tid" "tr_node_id q \<noteq> nid"
    "runtime_net q = Some m" "runtime_net r = Some n"
  shows "\<not> (\<exists>a. in_net a m \<and> in_net a n)"
proof -
  obtain n' where n': "net_ok n'" "c = net_text n'" "\<not> net_overlaps_any n' (list_used_runtime_networks d tid nid)"
    using assms(1) by (auto simp: free_choice_def)
  have "n = n'" using assms(2,7) n' parse_net_text by (simp add: runtime_net_def str_or_empty_def)
  moreover have "m \<in> set (list_used_runtime_networks d tid nid)" using assms(3-6) used_networks by blast
  ultimately have "\<not> net_overlaps n m" using n'(3) by (auto simp: net_overlaps_any_def list_ex_iff)
  then show ?thesis using net_overlaps_iff [of n m] runtime_net_ok assms(6,7) by blast
qed

lemma subnets_disjoint_add:
  assumes "subnets_disjoint d" "tr_topology_id r = tid" "tr_node_id r = nid" "find_runtime d tid nid = None"
    "free_choice d tid nid c g" "tr_cidr r = Some c"
  shows "subnets_disjoint (add_runtime r d)"
proof -
  have other: "tr_node_id q \<noteq> nid" if "q \<in> set (t_runtimes d)" "tr_topology_id q = tid" for q
    using assms(4) that by (auto simp: find_runtime_def filter_empty_conv)
  have cidr: "tr_cidr (r\<lparr>tr_id := i\<rparr>) = Some c" "tr_topology_id (r\<lparr>tr_id := i\<rparr>) = tid" for i using assms(2,6) by simp_all
  have new: "\<not> (\<exists>a. in_net a m \<and> in_net a n)"
    if "q \<in> set (t_runtimes d)" "tr_topology_id q = tid" "runtime_net q = Some m" "runtime_net (r\<lparr>tr_id := i\<rparr>) = Some n" for q m n i
    using free_choice_net [OF assms(5) cidr(1) that(1,2) other [OF that(1,2)] that(3,4)] .
  show ?thesis unfolding subnets_disjoint_def add_runtime_def
    using assms(1) new cidr(2) by (simp add: subnets_disjoint_def) blast
qed

text \<open>Rewriting a row keeps disjointness if its subnet stays or is a free choice.\<close>

lemma subnets_disjoint_put:
  assumes "subnets_disjoint d" "topo_ok d" "r \<in> set (t_runtimes d)" "tr_id r' = tr_id r" "tr_topology_id r' = tr_topology_id r"
    "runtime_net r' = runtime_net r \<or> (\<exists>c g. free_choice d (tr_topology_id r) (tr_node_id r) c g \<and> tr_cidr r' = Some c)"
  shows "subnets_disjoint (put_runtime r' d)"
proof -
  have other: "tr_node_id q \<noteq> tr_node_id r" if "q \<in> set (t_runtimes d)" "tr_topology_id q = tr_topology_id r" "tr_id q \<noteq> tr_id r" for q
    using assms(2,3) that rt.same_row [of "t_runtimes d" "t_runtime_seq d" q r] unfolding topo_ok_def runtime_clash_def by metis
  have new: "\<not> (\<exists>a. in_net a m \<and> in_net a n)"
    if q: "q \<in> set (t_runtimes d)" "tr_topology_id q = tr_topology_id r" "tr_id q \<noteq> tr_id r" "runtime_net q = Some m" "runtime_net r' = Some n" for q m n
    using assms(6)
  proof
    assume "runtime_net r' = runtime_net r"
    then show ?thesis using assms(1,3) q unfolding subnets_disjoint_def by metis
  next
    assume "\<exists>c g. free_choice d (tr_topology_id r) (tr_node_id r) c g \<and> tr_cidr r' = Some c"
    then show ?thesis using free_choice_net [OF _ _ q(1,2) other [OF q(1-3)] q(4,5)] by blast
  qed
  show ?thesis unfolding subnets_disjoint_def put_runtime_def
  proof (intro ballI allI impI)
    fix q s m n assume qs: "q \<in> set (t_runtimes (d\<lparr>t_runtimes := row_put tr_id r' (t_runtimes d)\<rparr>))"
      "s \<in> set (t_runtimes (d\<lparr>t_runtimes := row_put tr_id r' (t_runtimes d)\<rparr>))"
      "tr_topology_id q = tr_topology_id s" "tr_id q \<noteq> tr_id s" "runtime_net q = Some m" "runtime_net s = Some n"
    then have "q = r' \<or> q \<in> set (t_runtimes d) \<and> tr_id q \<noteq> tr_id r'" "s = r' \<or> s \<in> set (t_runtimes d) \<and> tr_id s \<noteq> tr_id r'"
      by (auto dest!: in_row_put)
    then consider "q = r'" "s \<in> set (t_runtimes d)" "tr_id s \<noteq> tr_id r" | "s = r'" "q \<in> set (t_runtimes d)" "tr_id q \<noteq> tr_id r"
      | "q \<in> set (t_runtimes d)" "s \<in> set (t_runtimes d)" using qs(4) assms(4) by auto
    then show "\<not> (\<exists>a. in_net a m \<and> in_net a n)"
    proof cases
      case 1
      then show ?thesis using new [of s n m] qs assms(5) by auto
    next
      case 2
      then show ?thesis using new [of q m n] qs assms(5) by auto
    next
      case 3
      then show ?thesis using assms(1) qs(3-6) unfolding subnets_disjoint_def by metis
    qed
  qed
qed

lemma synced_net [simp]: "runtime_net (synced W s c m r) = runtime_net r" "tr_id (synced W s c m r) = tr_id r"
  "tr_topology_id (synced W s c m r) = tr_topology_id r"
  by (simp_all add: synced_def runtime_net_def)

lemma sync_state:
  "\<exists>s c m. tstate (sync_linux_node_bridge W r d) \<in> {d, put_runtime (synced W s c m r) d}"
  by (auto simp: sync_linux_node_bridge_def Let_def split: option.split)

lemma sync_keeps_disjoint:
  assumes "subnets_disjoint d" "topo_ok d" "r \<in> set (t_runtimes d)"
  shows "subnets_disjoint (tstate (sync_and_report W r d))"
proof -
  have "tstate (sync_and_report W r d) = tstate (sync_linux_node_bridge W r d)"
    by (auto simp: sync_and_report_def tthen_def tstate_def split: sum.split prod.split)
  moreover have "subnets_disjoint (put_runtime (synced W s c m r) d)" for s c m
    by (rule subnets_disjoint_put [OF assms]) simp_all
  ultimately show ?thesis using sync_state [of W r d] assms(1) by (metis empty_iff insert_iff)
qed

definition quiet :: "topo_world \<Rightarrow> bool" where
  "quiet W \<longleftrightarrow> (\<forall>n d. tw_race W n d = d)"

definition net_inv :: "tdb \<Rightarrow> bool" where
  "net_inv d \<longleftrightarrow> topo_ok d \<and> subnets_disjoint d"

lemma new_runtime_fields [simp]:
  "tr_topology_id (new_runtime W tid nid b c g) = tid" "tr_node_id (new_runtime W tid nid b c g) = nid" "tr_cidr (new_runtime W tid nid b c g) = Some c"
  by (simp_all add: new_runtime_def)

lemma commit_new_runtime_keeps:
  assumes "net_inv d" "quiet W" "find_runtime d tid nid = None" "free_choice d tid nid c g"
  shows "net_inv (commit_state (commit_new_runtime W k (new_runtime W tid nid b c g) d))"
proof -
  let ?r = "new_runtime W tid nid b c g"
  have "net_inv (add_runtime ?r d)" if "\<not> runtime_conflict (?r\<lparr>tr_id := t_runtime_seq d\<rparr>) d"
  proof -
    have "topo_ok (add_runtime ?r d)"
      using assms(1) that rt.add [of "t_runtimes d" "t_runtime_seq d" "?r\<lparr>tr_id := t_runtime_seq d\<rparr>"]
      by (simp add: net_inv_def topo_ok_def add_runtime_def runtime_conflict_def)
    moreover have "subnets_disjoint (add_runtime ?r d)"
      by (rule subnets_disjoint_add [OF _ _ _ assms(3,4)]) (use assms(1) in \<open>simp_all add: net_inv_def\<close>)
    ultimately show ?thesis by (simp add: net_inv_def)
  qed
  then show ?thesis using assms(1,2) by (simp add: commit_new_runtime_def quiet_def Let_def split: option.split)
qed

lemma completed_fields [simp]:
  "tr_id (completed W seen b c g r) = tr_id r" "tr_topology_id (completed W seen b c g r) = tr_topology_id r"
  by (simp_all add: completed_def)

lemma completed_net:
  "filled (tr_cidr r) \<Longrightarrow> runtime_net (completed W r b c g r) = runtime_net r"
  "\<not> filled (tr_cidr r) \<Longrightarrow> tr_cidr (completed W r b c g r) = Some c"
  by (simp_all add: completed_def fill_if_missing_def runtime_net_def)

lemma commit_runtime_keeps:
  assumes "net_inv d" "quiet W" "find_runtime d tid nid = Some r" "filled (tr_cidr r) \<or> free_choice d tid nid c g"
  shows "net_inv (commit_state (commit_runtime W k (tr_id r) (completed W r b c g) d))"
proof -
  let ?c = "completed W r b c g r"
  have r: "r \<in> set (t_runtimes d)" "tr_topology_id r = tid" "tr_node_id r = nid" using find_runtime_Some [OF assms(3)] by simp_all
  have ok: "topo_ok d" "subnets_disjoint d" using assms(1) by (simp_all add: net_inv_def)
  have row: "row_find tr_id (tr_id r) (t_runtimes d) = Some r"
    using ok(1) r(1) by (simp add: topo_ok_def table_ok_def keys_ok_def row_find_distinct)
  have "net_inv (put_runtime ?c d)" if "\<not> runtime_conflict ?c d"
  proof -
    have "topo_ok (put_runtime ?c d)" using ok(1) that rt.put [of "t_runtimes d" "t_runtime_seq d" ?c]
      by (simp add: topo_ok_def put_runtime_def runtime_conflict_def)
    moreover have "subnets_disjoint (put_runtime ?c d)"
      by (rule subnets_disjoint_put [OF ok(2,1) r(1)]) (use assms(4) r completed_net in \<open>simp_all, blast\<close>)
    ultimately show ?thesis by (simp add: net_inv_def)
  qed
  then show ?thesis using assms(1,2) row by (simp add: commit_runtime_def quiet_def Let_def split: option.split)
qed

lemma choose_runtime_free:
  assumes "choose_runtime_cidr_and_gateway W d tid nid existing sc sg k = Inr (c, g)"
  shows "(case existing of None \<Rightarrow> False | Some r \<Rightarrow> filled (tr_cidr r)) \<or> free_choice d tid nid c g"
  using assms choose_new_free [of W d tid nid sc sg k c g]
  by (auto simp: choose_runtime_cidr_and_gateway_def split: option.splits if_splits)

lemma ensure_loop_keeps:
  assumes "quiet W"
  shows "net_inv d \<Longrightarrow> net_inv (tstate (ensure_loop W tid nid plan k left d))"
proof (induction left arbitrary: k d)
  case (Suc left)
  obtain sc sg b where plan: "plan = (sc, sg, b)" by (cases plan)
  let ?x = "find_runtime d tid nid"
  let ?commit = "\<lambda>c g. case ?x of None \<Rightarrow> commit_new_runtime W k (new_runtime W tid nid b c g) d
    | Some r \<Rightarrow> commit_runtime W k (tr_id r) (completed W r b c g) d"
  have keep: "net_inv (commit_state (?commit c g))" if "choose_runtime_cidr_and_gateway W d tid nid ?x sc sg k = Inr (c, g)" for c g
    using choose_runtime_free [OF that] commit_new_runtime_keeps [OF Suc.prems assms] commit_runtime_keeps [OF Suc.prems assms]
    by (simp split: option.splits)
  show ?case
  proof (cases "choose_runtime_cidr_and_gateway W d tid nid ?x sc sg k")
    case (Inl e)
    then show ?thesis using Suc.prems plan by (cases e) (simp_all add: Let_def)
  next
    case (Inr cg)
    obtain c g where cg: "cg = (c, g)" by (cases cg)
    then show ?thesis using Suc.prems plan Inr keep [of c g] Suc.IH by (cases "?commit c g") (simp_all add: Let_def)
  qed
qed simp

text \<open>C33: the subnets of a topology stay disjoint. Preparing a node, with any outcome, never lets the
  subnets of two nodes of a topology share an address, provided no other worker commits in between.\<close>

theorem node_subnets_disjoint:
  assumes "topo_ok d" "subnets_disjoint d" "\<And>n e. tw_race W n e = e"
  shows "subnets_disjoint (tstate (ensure_node_topology W tid node d))"
proof -
  let ?nid = "clean_node node"
  have q: "quiet W" and inv: "net_inv d" using assms by (simp_all add: quiet_def net_inv_def)
  have sync: "subnets_disjoint (tstate (sync_and_report W r e))" if "net_inv e" "find_runtime e tid ?nid = Some r" for r e
    using that sync_keeps_disjoint find_runtime_Some by (auto simp: net_inv_def)
  have loop: "subnets_disjoint (tstate (tthen (ensure_loop W tid ?nid plan 0 ENSURE_NODE_CIDR_MAX_ATTEMPTS d) (\<lambda>_ e.
      case find_runtime e tid ?nid of
        None \<Rightarrow> Inl (TopologyRuntimeCreateError ''failed to ensure topology runtime row'', e)
      | Some q \<Rightarrow> sync_and_report W q e)))" for plan
    using ensure_loop_keeps [OF q inv, of tid ?nid plan 0 ENSURE_NODE_CIDR_MAX_ATTEMPTS] sync
    by (cases "ensure_loop W tid ?nid plan 0 ENSURE_NODE_CIDR_MAX_ATTEMPTS d")
      (auto simp: tthen_def net_inv_def split: option.split)
  have "subnets_disjoint (tstate (sync_and_report W r d))" if "complete_runtime d tid ?nid = Some r" for r
    using that sync [OF inv] by (simp add: complete_runtime_def split: option.splits if_splits)
  then show ?thesis using assms(2) loop by (simp add: ensure_node_topology_def Let_def split: option.split sum.split)
qed

section \<open>A node with one small subnet\<close>

definition ex_tw :: topo_world where
  "ex_tw = \<lparr>tw_now = 2000000000, tw_apply_bridge = False, tw_apply_attach = False, tw_sha256 = id, tw_str_json = (\<lambda>_. []),
     tw_value_error = (\<lambda>_. []), tw_stale = [], tw_race = (\<lambda>_ d. d), tw_commit = (\<lambda>_ _. None), tw_bridge_sync = (\<lambda>_ _ _. None),
     tw_bridge_remove = (\<lambda>_. None), tw_bridge_exists = (\<lambda>_. Inr True), tw_bridge_up = (\<lambda>_. Inr True),
     tw_bridge_address = (\<lambda>_ _ _. Inr True), tw_netns = Inr, tw_nsenter_error = None, tw_attach_cmd = (\<lambda>_. None),
     tw_veth_remove = (\<lambda>_. None), tw_plumbing = (\<lambda>_. Inr []), tw_init_pid = (\<lambda>_. (''1'', None)),
     tw_interface_exists = (\<lambda>_. Inr True), tw_enslaved = (\<lambda>_ _. Inr True), tw_master_lists = (\<lambda>_ _. Inr True)\<rparr>"

definition ex_runtime :: topo_runtime where
  "ex_runtime = \<lparr>tr_id = 1, tr_topology_id = 1, tr_node_id = ''n1'', tr_status = TRS_READY, tr_bridge_name = Some ''br1'',
     tr_cidr = Some ''10.0.0.0/28'', tr_gateway_ip = Some ''10.0.0.1'', tr_last_checked_at = None, tr_last_error_code = None,
     tr_last_error_message = None, tr_updated_at = 0\<rparr>"

definition ex_tdb :: tdb where
  "ex_tdb = \<lparr>t_catalog = [(1, JObj [])], t_runtimes = [ex_runtime], t_leases = [], t_atts = [],
     t_runtime_seq = 2, t_lease_seq = 1, t_att_seq = 1\<rparr>"

definition ex_net :: net4 where
  "ex_net = \<lparr>net_base = 167772160, net_len = 28\<rparr>"

lemma ex_texts: "''10.0.0.0/28'' = net_text ex_net" "''10.0.0.1'' = ip4_text 167772161"
  by (simp_all add: ex_net_def net_text_def ip4_text_def str_nat.simps digit_char_def char_of_def bit_0)

lemma ex_subnet:
  "parse_net (str_or_empty (tr_cidr ex_runtime)) = Some ex_net" "parse_ip4 (str_or_empty (tr_gateway_ip ex_runtime)) = Some 167772161"
  "in_net 167772161 ex_net" "167772171 \<in> set (candidate_hosts ex_net 167772161)"
proof -
  have "net_ok ex_net" by (simp add: net_ok_def ex_net_def net_size_def size_of_len_def)
  then show "parse_net (str_or_empty (tr_cidr ex_runtime)) = Some ex_net"
    by (simp add: ex_runtime_def str_or_empty_def ex_texts parse_net_text)
  show "parse_ip4 (str_or_empty (tr_gateway_ip ex_runtime)) = Some 167772161"
    by (simp add: ex_runtime_def str_or_empty_def ex_texts parse_ip4_text)
  show "in_net 167772161 ex_net" by (simp add: in_net_def ex_net_def net_size_def size_of_len_def)
  show "167772171 \<in> set (candidate_hosts ex_net 167772161)"
    by (simp add: candidate_hosts_def ex_net_def net_hosts_def net_size_def size_of_len_def V1_INFRA_RESERVED_USABLE_HOSTS_def)
qed

lemma ex_clean [simp]: "clean_node ''n1'' = ''n1''" "clean_node ''n2'' = ''n2''"
  by (simp_all add: clean_node_def py_strip_def py_space_def)

lemma ex_tables: "topo_ok ex_tdb" "fair_race ex_tw" "subnets_disjoint ex_tdb" "find_runtime ex_tdb 1 ''n1'' = Some ex_runtime"
  "find_lease ex_tdb 1 ''n1'' 7 = None" "active_ips ex_tdb 1 ''n1'' = []"
proof -
  show "topo_ok ex_tdb" "subnets_disjoint ex_tdb" "find_runtime ex_tdb 1 ''n1'' = Some ex_runtime" "find_lease ex_tdb 1 ''n1'' 7 = None"
    "active_ips ex_tdb 1 ''n1'' = []"
    by (simp_all add: topo_ok_def table_ok_def keys_ok_def subnets_disjoint_def find_runtime_def find_lease_def active_ips_def ex_tdb_def ex_runtime_def)
  have "lease_owner l' = lease_owner l" if "topo_ok d" "l \<in> set (t_leases d)" "l' \<in> set (t_leases d)" "ia_id l' = ia_id l" for d l l'
  proof -
    have "distinct (map ia_id (t_leases d))" using that(1) by (simp add: topo_ok_def table_ok_def keys_ok_def)
    then show ?thesis using that(2-4) by (auto simp: distinct_map dest: inj_onD)
  qed
  moreover have "tw_race ex_tw n d = d" for n d by (simp add: ex_tw_def)
  ultimately show "fair_race ex_tw" unfolding fair_race_def by metis
qed

lemma ex_allocation:
  obtains res d' where "allocate_workspace_ip ex_tw 1 ''n1'' 7 ex_tdb = Inr (res, d')" "\<not> al_leased_existing res" "t_atts d' = []"
proof -
  have "tw_race ex_tw 0 ex_tdb = ex_tdb" "tw_commit ex_tw CP_LEASE 0 = None" "tr_status ex_runtime = TRS_READY"
    "t_atts ex_tdb = []" by (simp_all add: ex_tw_def ex_runtime_def ex_tdb_def)
  then show ?thesis
    using allocation_progress [of ex_tdb ex_tw 1 "''n1''" ex_runtime ex_net 167772161 167772171 7 thesis] ex_tables ex_subnet that by simp
qed

theorem leased_address_exclusive_witness:
  "\<exists>res d'. allocate_workspace_ip ex_tw 1 ''n1'' 7 ex_tdb = Inr (res, d') \<and> holds d' 1 ''n1'' 7 (al_workspace_ip res)"
proof -
  obtain res d' where "allocate_workspace_ip ex_tw 1 ''n1'' 7 ex_tdb = Inr (res, d')" by (rule ex_allocation)
  then show ?thesis using leased_address_exclusive [OF ex_tables(1,2), of 1 "''n1''" 7] by simp
qed

theorem leased_address_usable_witness:
  "\<exists>res d'. allocate_workspace_ip ex_tw 1 ''n1'' 7 ex_tdb = Inr (res, d') \<and> workspace_host ex_runtime (al_workspace_ip res)"
proof -
  obtain res d' where r: "allocate_workspace_ip ex_tw 1 ''n1'' 7 ex_tdb = Inr (res, d')" "\<not> al_leased_existing res" by (rule ex_allocation)
  have "find_runtime (tw_race ex_tw n e) 1 (clean_node ''n1'') = find_runtime e 1 (clean_node ''n1'')" for n e by (simp add: ex_tw_def)
  from leased_address_usable [OF _ this r] r(1) ex_tables(4) show ?thesis by simp
qed

theorem allocation_succeeds_when_possible_witness:
  "\<exists>res d'. allocate_workspace_ip ex_tw 1 ''n1'' 7 ex_tdb = Inr (res, d')"
proof -
  have "tw_race ex_tw 0 ex_tdb = ex_tdb" "tw_commit ex_tw CP_LEASE 0 = None" "tr_status ex_runtime = TRS_READY"
    by (simp_all add: ex_tw_def ex_runtime_def)
  then show ?thesis
    using allocation_succeeds_when_possible [of ex_tdb ex_tw 1 "''n1''" ex_runtime ex_net 167772161 167772171 7] ex_tables ex_subnet by simp
qed

theorem node_subnets_disjoint_witness: "subnets_disjoint (tstate (ensure_node_topology ex_tw 1 ''n2'' ex_tdb))"
  by (rule node_subnets_disjoint [OF ex_tables(1,3)]) (simp add: ex_tw_def)

end
