(* ===== verification/Janitor_Correct.thy ===== *)
theory Janitor_Correct
  imports Topology_Correct Samples
begin

text \<open>
  What a pass of the topology janitor does to the leases and attachments of its node, exactly; and what that
  means for a workspace that is being brought up at the same time.
\<close>

section \<open>Rewriting one row\<close>

lemma filter_map_same:
  assumes "\<And>q. q \<in> set rows \<Longrightarrow> P q \<or> P (f q) \<Longrightarrow> f q = q"
  shows "filter P (map f rows) = filter P rows"
  using assms by (induction rows) (auto, metis+)

lemma filter_map_commute:
  assumes "\<And>q. q \<in> set rows \<Longrightarrow> P (f q) = P q"
  shows "filter P (map f rows) = map f (filter P rows)"
  using assms by (induction rows) auto

lemma first_row_map: "first_row (map f rows) = map_option f (first_row rows)"
  by (cases rows) simp_all

lemma same_id:
  assumes "table_ok key clash rows n" "q \<in> set rows" "r \<in> set rows" "key q = key r"
  shows "q = r"
  using assms by (auto simp: table_ok_def keys_ok_def distinct_map dest: inj_onD)

lemma release_effect:
  fixes x :: time
  assumes "topo_ok d" "l \<in> set (t_leases d)"
  defines "d' \<equiv> put_lease (l\<lparr>ia_released_at := Some x\<rparr>) d"
  shows "topo_ok d'" "find_att d' = find_att d"
    "find_active_lease d' t n w = (if lease_owner l = (t, n, w) then None else find_active_lease d t n w)"
proof -
  have ls: "table_ok ia_id lease_clash (t_leases d) (t_lease_seq d)" using assms(1) by (simp add: topo_ok_def)
  show "topo_ok d'" using assms(1) ls.rewrite [OF ls assms(2), of "l\<lparr>ia_released_at := Some x\<rparr>"]
    by (simp add: topo_ok_def d'_def put_lease_def lease_clash_def)
  show "find_att d' = find_att d" by (simp add: fun_eq_iff d'_def put_lease_def find_att_def)
  let ?P = "\<lambda>q. ia_topology_id q = t \<and> ia_node_id q = n \<and> ia_workspace_id q = w \<and> ia_released_at q = None"
  let ?f = "\<lambda>q. if ia_id q = ia_id l then l\<lparr>ia_released_at := Some x\<rparr> else q"
  have rows: "find_active_lease d' t n w = first_row (filter ?P (map ?f (t_leases d)))"
    by (simp add: find_active_lease_def d'_def put_lease_def row_put_def)
  have only: "q = l" if "q \<in> set (t_leases d)" "lease_owner q = lease_owner l" for q
    using ls.same_row [OF ls that(1) assms(2)] that(2) by (simp add: lease_clash_def lease_owner_def)
  have id: "q = l" if "q \<in> set (t_leases d)" "ia_id q = ia_id l" for q using same_id [OF ls that(1) assms(2) that(2)] .
  show "find_active_lease d' t n w = (if lease_owner l = (t, n, w) then None else find_active_lease d t n w)"
  proof (cases "lease_owner l = (t, n, w)")
    case True
    have "\<not> ?P (?f q)" if "q \<in> set (t_leases d)" for q using only [OF that] True by (auto simp: lease_owner_def)
    then have "filter ?P (map ?f (t_leases d)) = []" unfolding filter_empty_conv set_map by blast
    then show ?thesis using True rows by simp
  next
    case False
    have "filter ?P (map ?f (t_leases d)) = filter ?P (t_leases d)"
    proof (rule filter_map_same)
      fix q assume q: "q \<in> set (t_leases d)" "?P q \<or> ?P (?f q)"
      then have "ia_id q \<noteq> ia_id l" using id [OF q(1)] False by (auto simp: lease_owner_def)
      then show "?f q = q" by simp
    qed
    then show ?thesis using False rows by (simp add: find_active_lease_def)
  qed
qed

lemma detach_effect:
  fixes W :: topo_world
  assumes "topo_ok d" "a \<in> set (t_atts d)"
  defines "d' \<equiv> put_att (detached W a) d"
  shows "topo_ok d'" "find_active_lease d' = find_active_lease d"
    "find_att d' t n w = (if find_att d t n w = Some a then Some (detached W a) else find_att d t n w)"
proof -
  have at: "table_ok at_id att_clash (t_atts d) (t_att_seq d)" using assms(1) by (simp add: topo_ok_def)
  have cols: "at_id (detached W a) = at_id a" "at_topology_id (detached W a) = at_topology_id a"
    "at_node_id (detached W a) = at_node_id a" "at_workspace_id (detached W a) = at_workspace_id a" by (simp_all add: detached_def)
  show "topo_ok d'" using assms(1) at.rewrite [OF at assms(2), of "detached W a"] cols
    by (simp add: topo_ok_def d'_def put_att_def att_clash_def)
  show "find_active_lease d' = find_active_lease d" by (simp add: fun_eq_iff d'_def put_att_def find_active_lease_def)
  let ?P = "\<lambda>q. at_topology_id q = t \<and> at_node_id q = n \<and> at_workspace_id q = w"
  let ?f = "\<lambda>q. if at_id q = at_id a then detached W a else q"
  have id: "q = a" if "q \<in> set (t_atts d)" "at_id q = at_id a" for q using same_id [OF at that(1) assms(2) that(2)] .
  have "filter ?P (map ?f (t_atts d)) = map ?f (filter ?P (t_atts d))"
    by (rule filter_map_commute) (use id cols in auto)
  then have f: "find_att d' t n w = map_option ?f (find_att d t n w)"
    by (simp add: find_att_def d'_def put_att_def row_put_def cols(1) first_row_map)
  show "find_att d' t n w = (if find_att d t n w = Some a then Some (detached W a) else find_att d t n w)"
  proof (cases "find_att d t n w")
    case (Some q)
    then have "q \<in> set (t_atts d)" using find_att_Some by blast
    then show ?thesis using f Some id by auto
  qed (simp add: f)
qed

section \<open>One round\<close>

text \<open>Commits and host commands work.\<close>

definition working :: "topo_world \<Rightarrow> bool" where
  "working W \<longleftrightarrow> tw_commit W CP_DETACH 0 = None \<and> tw_commit W CP_RELEASE 0 = None \<and> (\<forall>h. tw_veth_remove W h = None)"

text \<open>The workspaces \<open>X\<close> of the node are detached and without lease, everything else is as before.\<close>

definition cleaned :: "int \<Rightarrow> string \<Rightarrow> int set \<Rightarrow> tdb \<Rightarrow> tdb \<Rightarrow> bool" where
  "cleaned tid nid X d d' \<longleftrightarrow> topo_ok d' \<and> (\<forall>t n w.
     if t = tid \<and> n = nid \<and> w \<in> X
     then map_option at_status (find_att d' t n w) = map_option (\<lambda>_. AS_DETACHED) (find_att d t n w) \<and> find_active_lease d' t n w = None
     else find_att d' t n w = find_att d t n w \<and> find_active_lease d' t n w = find_active_lease d t n w)"

lemma cleaned_empty: "topo_ok d \<Longrightarrow> cleaned tid nid {} d d"
  by (simp add: cleaned_def)

lemma cleaned_at:
  assumes "cleaned tid nid X d d'"
  shows "w \<in> X \<Longrightarrow> map_option at_status (find_att d' tid nid w) = map_option (\<lambda>_. AS_DETACHED) (find_att d tid nid w)"
    "w \<in> X \<Longrightarrow> find_active_lease d' tid nid w = None"
    "\<not> (t = tid \<and> n = nid \<and> w \<in> X) \<Longrightarrow> find_att d' t n w = find_att d t n w"
    "\<not> (t = tid \<and> n = nid \<and> w \<in> X) \<Longrightarrow> find_active_lease d' t n w = find_active_lease d t n w"
  using assms unfolding cleaned_def by (metis (full_types))+

lemma cleaned_trans:
  assumes c1: "cleaned tid nid X d e" and c2: "cleaned tid nid Y e d'"
  shows "cleaned tid nid (X \<union> Y) d d'"
  unfolding cleaned_def
proof (intro conjI allI)
  show "topo_ok d'" using c2 by (simp add: cleaned_def)
  fix t n w
  have empty: "find_att e tid nid w = None \<longleftrightarrow> find_att d tid nid w = None"
    using cleaned_at(1) [OF c1, of w] cleaned_at(3) [OF c1, of tid nid w]
    by (cases "w \<in> X"; cases "find_att d tid nid w"; cases "find_att e tid nid w") simp_all
  consider "t = tid" "n = nid" "w \<in> Y" | "t = tid" "n = nid" "w \<in> X" "w \<notin> Y" | "\<not> (t = tid \<and> n = nid \<and> w \<in> X \<union> Y)" by blast
  then show "if t = tid \<and> n = nid \<and> w \<in> X \<union> Y
     then map_option at_status (find_att d' t n w) = map_option (\<lambda>_. AS_DETACHED) (find_att d t n w) \<and> find_active_lease d' t n w = None
     else find_att d' t n w = find_att d t n w \<and> find_active_lease d' t n w = find_active_lease d t n w"
  proof cases
    case 1
    then show ?thesis using cleaned_at(1,2) [OF c2] empty by (cases "find_att d tid nid w"; cases "find_att e tid nid w") simp_all
  next
    case 2
    then show ?thesis using cleaned_at(1,2) [OF c1] cleaned_at(3,4) [OF c2] by simp
  next
    case 3
    then show ?thesis using cleaned_at(3,4) [OF c1] cleaned_at(3,4) [OF c2] by auto
  qed
qed

lemma release_working:
  assumes "working W" "topo_ok d" "clean_node nid = nid"
  shows "\<exists>b d'. release_workspace_ip_lease W tid nid wid d = Inr (b, d') \<and> topo_ok d' \<and> find_att d' = find_att d \<and>
     (\<forall>t n w. find_active_lease d' t n w = (if (t, n, w) = (tid, nid, wid) then None else find_active_lease d t n w))"
proof (cases "find_active_lease d tid nid wid")
  case None
  then have "release_workspace_ip_lease W tid nid wid d = Inr (False, d)" using assms(3) by (simp add: release_workspace_ip_lease_def)
  then show ?thesis using None assms(2) by auto
next
  case (Some l)
  note l = find_active_Some [OF Some]
  then have "lease_owner l = (tid, nid, wid)" by (simp add: lease_owner_def)
  then show ?thesis using release_effect [OF assms(2), of l "tw_now W"] l Some assms(1,3)
    by (auto simp: release_workspace_ip_lease_def working_def)
qed

lemma detach_working:
  assumes "working W" "topo_ok d" "clean_node nid = nid"
  shows "\<exists>b d'. detach_workspace W tid nid wid d = Inr (b, d') \<and> topo_ok d' \<and> find_active_lease d' = find_active_lease d \<and>
     map_option at_status (find_att d' tid nid wid) = map_option (\<lambda>_. AS_DETACHED) (find_att d tid nid wid) \<and>
     (\<forall>t n w. (t, n, w) \<noteq> (tid, nid, wid) \<longrightarrow> find_att d' t n w = find_att d t n w)"
proof (cases "find_att d tid nid wid")
  case None
  then show ?thesis using assms by (simp add: detach_workspace_def)
next
  case (Some a)
  note a = find_att_Some [OF Some]
  show ?thesis
  proof (cases "at_status a = AS_DETACHED")
    case True
    then show ?thesis using Some assms by (simp add: detach_workspace_def)
  next
    case False
    have "linux_detach_host_veth W tid nid wid ih = None" for ih using assms(1) by (simp add: linux_detach_host_veth_def working_def Let_def)
    then have d: "detach_workspace W tid nid wid d = Inr (\<lparr>dr_detached = True, dr_workspace_ip = at_workspace_ip a\<rparr>, put_att (detached W a) d)"
      using False Some assms(1,3) by (simp add: detach_workspace_def working_def)
    have other: "find_att d t n w \<noteq> Some a" if "(t, n, w) \<noteq> (tid, nid, wid)" for t n w
      using that find_att_Some [of d t n w a] conjunct2 [OF a] by (metis prod.inject)
    have "at_status (detached W a) = AS_DETACHED" by (simp add: detached_def)
    then have "map_option at_status (find_att (put_att (detached W a) d) tid nid wid) = map_option (\<lambda>_. AS_DETACHED) (find_att d tid nid wid)"
      using detach_effect(3) [OF assms(2) conjunct1 [OF a]] Some by simp
    moreover have "\<forall>t n w. (t, n, w) \<noteq> (tid, nid, wid) \<longrightarrow> find_att (put_att (detached W a) d) t n w = find_att d t n w"
      using detach_effect(3) [OF assms(2) conjunct1 [OF a]] other by simp
    ultimately show ?thesis using d detach_effect(1,2) [OF assms(2) conjunct1 [OF a]] by blast
  qed
qed

text \<open>The rounds of the first and the third loop: both detach one workspace and release its lease.\<close>

locale cleaning_round =
  fixes step :: "topo_world \<Rightarrow> int \<Rightarrow> string \<Rightarrow> int \<Rightarrow> janitor_result \<times> tdb \<Rightarrow> janitor_result \<times> tdb"
  assumes cleans: "working W \<Longrightarrow> topo_ok (snd s) \<Longrightarrow> clean_node nid = nid \<Longrightarrow>
    cleaned tid nid {wid} (snd s) (snd (step W tid nid wid s)) \<and> jr_issues (fst (step W tid nid wid s)) = jr_issues (fst s)"
begin

lemma rounds_clean:
  assumes "\<forall>k. working (Ws k)" "clean_node nid = nid"
  shows "topo_ok (snd s) \<Longrightarrow> cleaned tid nid (set wids) (snd s) (snd (rounds Ws k (\<lambda>W. step W tid nid) wids s)) \<and>
     jr_issues (fst (rounds Ws k (\<lambda>W. step W tid nid) wids s)) = jr_issues (fst s)"
proof (induction wids arbitrary: k s)
  case Nil
  then show ?case by (simp add: cleaned_empty)
next
  case (Cons w wids)
  have one: "cleaned tid nid {w} (snd s) (snd (step (Ws k) tid nid w s))" "jr_issues (fst (step (Ws k) tid nid w s)) = jr_issues (fst s)"
    using cleans [OF spec [OF assms(1)] Cons.prems assms(2)] by simp_all
  then have "topo_ok (snd (step (Ws k) tid nid w s))" by (simp add: cleaned_def)
  from Cons.IH [OF this] show ?case using one cleaned_trans [OF one(1)] by fastforce
qed

end

lemma detach_then_release:
  assumes "working W" "topo_ok d" "clean_node nid = nid"
  obtains x d1 y d2 where "detach_workspace W tid nid wid d = Inr (x, d1)" "release_workspace_ip_lease W tid nid wid d1 = Inr (y, d2)"
    "cleaned tid nid {wid} d d2"
proof -
  obtain x d1 where d1: "detach_workspace W tid nid wid d = Inr (x, d1)" "topo_ok d1" "find_active_lease d1 = find_active_lease d"
    "map_option at_status (find_att d1 tid nid wid) = map_option (\<lambda>_. AS_DETACHED) (find_att d tid nid wid)"
    "\<forall>t n w. (t, n, w) \<noteq> (tid, nid, wid) \<longrightarrow> find_att d1 t n w = find_att d t n w"
    using detach_working [OF assms] by blast
  obtain y d2 where d2: "release_workspace_ip_lease W tid nid wid d1 = Inr (y, d2)" "topo_ok d2" "find_att d2 = find_att d1"
    "\<forall>t n w. find_active_lease d2 t n w = (if (t, n, w) = (tid, nid, wid) then None else find_active_lease d1 t n w)"
    using release_working [OF assms(1) d1(2) assms(3)] by blast
  have "cleaned tid nid {wid} d d2" unfolding cleaned_def using d1(3-5) d2(2-4) by simp
  then show ?thesis using that d1(1) d2(1) by blast
qed

interpretation stuck: cleaning_round clean_stuck
proof
  fix W and s :: "janitor_result \<times> tdb" and nid tid wid assume a: "working W" "topo_ok (snd s)" "clean_node nid = nid"
  obtain x d1 y d2 where r: "detach_workspace W tid nid wid (snd s) = Inr (x, d1)" "release_workspace_ip_lease W tid nid wid d1 = Inr (y, d2)"
    "cleaned tid nid {wid} (snd s) d2" using detach_then_release [OF a] by blast
  show "cleaned tid nid {wid} (snd s) (snd (clean_stuck W tid nid wid s)) \<and> jr_issues (fst (clean_stuck W tid nid wid s)) = jr_issues (fst s)"
    using r by (simp add: clean_stuck_def split_beta)
qed

interpretation drift: cleaning_round repair_drift
proof
  fix W and s :: "janitor_result \<times> tdb" and nid tid wid assume a: "working W" "topo_ok (snd s)" "clean_node nid = nid"
  obtain x d1 y d2 where r: "detach_workspace W tid nid wid (snd s) = Inr (x, d1)" "release_workspace_ip_lease W tid nid wid d1 = Inr (y, d2)"
    "cleaned tid nid {wid} (snd s) d2" using detach_then_release [OF a] by blast
  show "cleaned tid nid {wid} (snd s) (snd (repair_drift W tid nid wid s)) \<and> jr_issues (fst (repair_drift W tid nid wid s)) = jr_issues (fst s)"
    using r by (simp add: repair_drift_def split_beta)
qed

definition is_attached :: "attachment option \<Rightarrow> bool" where
  "is_attached a = (map_option at_status a = Some AS_ATTACHED)"

lemma release_orphan_working:
  assumes "working W" "topo_ok (snd s)" "clean_node nid = nid"
  shows "topo_ok (snd (release_orphan W tid nid wid s))" "find_att (snd (release_orphan W tid nid wid s)) = find_att (snd s)"
    "find_active_lease (snd (release_orphan W tid nid wid s)) t n w =
       (if (t, n, w) = (tid, nid, wid) \<and> \<not> is_attached (find_att (snd s) t n w) then None else find_active_lease (snd s) t n w)"
    "jr_issues (fst (release_orphan W tid nid wid s)) = jr_issues (fst s)"
proof -
  obtain res d where s: "s = (res, d)" by (cases s)
  have att: "(case find_att d tid nid wid of None \<Rightarrow> False | Some a \<Rightarrow> at_status a = AS_ATTACHED) = is_attached (find_att d tid nid wid)"
    by (simp add: is_attached_def split: option.split)
  obtain b e where e: "release_workspace_ip_lease W tid nid wid d = Inr (b, e)" "topo_ok e" "find_att e = find_att d"
    "\<forall>t n w. find_active_lease e t n w = (if (t, n, w) = (tid, nid, wid) then None else find_active_lease d t n w)"
    using release_working [OF assms(1) _ assms(3)] assms(2) s by (metis snd_conv)
  have d: "topo_ok d" using assms(2) s by simp
  show "topo_ok (snd (release_orphan W tid nid wid s))" "find_att (snd (release_orphan W tid nid wid s)) = find_att (snd s)"
    "find_active_lease (snd (release_orphan W tid nid wid s)) t n w =
       (if (t, n, w) = (tid, nid, wid) \<and> \<not> is_attached (find_att (snd s) t n w) then None else find_active_lease (snd s) t n w)"
    "jr_issues (fst (release_orphan W tid nid wid s)) = jr_issues (fst s)"
    using d e by (auto simp: s release_orphan_def att)
qed

lemma orphans_released:
  assumes "\<forall>k. working (Ws k)" "clean_node nid = nid"
  shows "topo_ok (snd s) \<Longrightarrow> (let s' = rounds Ws k (\<lambda>W. release_orphan W tid nid) wids s in
     topo_ok (snd s') \<and> find_att (snd s') = find_att (snd s) \<and> jr_issues (fst s') = jr_issues (fst s) \<and>
     (\<forall>t n w. find_active_lease (snd s') t n w =
       (if t = tid \<and> n = nid \<and> w \<in> set wids \<and> \<not> is_attached (find_att (snd s) t n w) then None else find_active_lease (snd s) t n w)))"
proof (induction wids arbitrary: k s)
  case (Cons v wids)
  note one = release_orphan_working [OF spec [OF assms(1)] Cons.prems assms(2), of k tid v]
  from Cons.IH [OF one(1), of "Suc k"] one(2-4) show ?case unfolding rounds.simps Let_def by auto
qed simp

section \<open>A whole pass\<close>

lemma found_att_iff: "topo_ok d \<Longrightarrow> find_att d t n w = Some a \<longleftrightarrow> a \<in> set (t_atts d) \<and> at_topology_id a = t \<and> at_node_id a = n \<and> at_workspace_id a = w"
  using find_att_Some find_att_unique by blast

lemma found_lease_iff:
  "topo_ok d \<Longrightarrow> find_active_lease d t n w = Some l \<longleftrightarrow>
     l \<in> set (t_leases d) \<and> ia_topology_id l = t \<and> ia_node_id l = n \<and> ia_workspace_id l = w \<and> ia_released_at l = None"
  using find_active_Some find_active_unique by blast

lemma selected_atts:
  assumes "topo_ok d" "\<And>a. P a \<Longrightarrow> on_node tid nid a"
  shows "w \<in> set (map at_workspace_id (filter P (t_atts d))) \<longleftrightarrow> (\<exists>a. find_att d tid nid w = Some a \<and> P a)"
  using assms found_att_iff [OF assms(1)] by (auto simp: on_node_def)

lemma selected_leases:
  assumes "topo_ok d"
  shows "w \<in> set (map ia_workspace_id (filter (\<lambda>l. ia_topology_id l = tid \<and> ia_node_id l = nid \<and> ia_released_at l = None) (t_leases d)))
     \<longleftrightarrow> find_active_lease d tid nid w \<noteq> None"
  using found_lease_iff [OF assms] by auto

text \<open>What the janitor is meant to leave of one workspace of the node, given its attachment \<open>a\<close> and lease before.\<close>

definition abandoned :: "db \<Rightarrow> time \<Rightarrow> int \<Rightarrow> string \<Rightarrow> attachment option \<Rightarrow> bool" where
  "abandoned ws cutoff tid nid a \<longleftrightarrow> (\<exists>x. a = Some x \<and> (stuck_attachment cutoff tid nid x \<or> drifted ws tid nid x))"

lemma janitor_pass:
  assumes "topo_ok d" "\<forall>k. working (Ws k)" "clean_node node = node" "run_topology_janitor Ws ws tid node secs d = (res, d')"
  shows "jr_issues res = [] \<and> topo_ok d' \<and>
    (\<forall>w. if abandoned ws (tw_now (Ws 0) - seconds (max 0 secs)) tid node (find_att d tid node w)
         then map_option at_status (find_att d' tid node w) = Some AS_DETACHED \<and> find_active_lease d' tid node w = None
         else find_att d' tid node w = find_att d tid node w \<and>
              find_active_lease d' tid node w = (if is_attached (find_att d tid node w) then find_active_lease d tid node w else None)) \<and>
    (\<forall>t n w. (t, n) \<noteq> (tid, node) \<longrightarrow> find_att d' t n w = find_att d t n w \<and> find_active_lease d' t n w = find_active_lease d t n w)"
proof -
  define none where "none = \<lparr>jr_stale_attachments_cleaned = 0, jr_orphan_ip_leases_released = 0, jr_drift_repairs = 0, jr_issues = []\<rparr>"
  define cutoff where "cutoff = tw_now (Ws 0) - seconds (max 0 secs)"
  define st where "st = map at_workspace_id (filter (stuck_attachment cutoff tid node) (t_atts d))"
  define s1 where "s1 = rounds Ws 0 (\<lambda>W. clean_stuck W tid node) st (none, d)"
  define orph where "orph = map ia_workspace_id (filter (\<lambda>l. ia_topology_id l = tid \<and> ia_node_id l = node \<and> ia_released_at l = None) (t_leases (snd s1)))"
  define s2 where "s2 = rounds Ws (length st) (\<lambda>W. release_orphan W tid node) orph s1"
  define dr where "dr = map at_workspace_id (filter (drifted ws tid node) (t_atts (snd s2)))"
  have out: "(res, d') = rounds Ws (length st + length orph) (\<lambda>W. repair_drift W tid node) dr s2"
    using assms(3,4) by (simp add: run_topology_janitor_def Let_def none_def cutoff_def st_def s1_def orph_def s2_def dr_def)
  have c1: "cleaned tid node (set st) d (snd s1)" "jr_issues (fst s1) = []"
    using stuck.rounds_clean [OF assms(2,3), where s = "(none, d)" and tid = tid and wids = st and k = 0] assms(1) by (simp_all add: s1_def none_def)
  then have ok1: "topo_ok (snd s1)" by (simp add: cleaned_def)
  note o = orphans_released [OF assms(2,3) ok1, where k = "length st" and tid = tid and wids = orph, folded s2_def, unfolded Let_def]
  have c3: "cleaned tid node (set dr) (snd s2) d'" "jr_issues res = []"
    using drift.rounds_clean [OF assms(2,3), where s = s2 and tid = tid and wids = dr and k = "length st + length orph", folded out] o c1(2) by simp_all
  have st: "w \<in> set st \<longleftrightarrow> (\<exists>a. find_att d tid node w = Some a \<and> stuck_attachment cutoff tid node a)" for w
    unfolding st_def by (rule selected_atts [OF assms(1)]) (simp add: stuck_attachment_def)
  have dr: "w \<in> set dr \<longleftrightarrow> (\<exists>a. find_att (snd s1) tid node w = Some a \<and> drifted ws tid node a)" for w
    unfolding dr_def using selected_atts [of "snd s2" "drifted ws tid node" tid node w] o by (simp add: drifted_def)
  have orph: "w \<in> set orph \<longleftrightarrow> find_active_lease (snd s1) tid node w \<noteq> None" for w
    unfolding orph_def by (rule selected_leases [OF ok1])
  have other: "find_att d' t n w = find_att d t n w \<and> find_active_lease d' t n w = find_active_lease d t n w" if "(t, n) \<noteq> (tid, node)" for t n w
    using that cleaned_at(3,4) [OF c1(1), of t n w] cleaned_at(3,4) [OF c3(1), of t n w] o by auto
  have gone: "map_option at_status (find_att d' tid node w) = Some AS_DETACHED \<and> find_active_lease d' tid node w = None"
    if ab: "abandoned ws cutoff tid node (find_att d tid node w)" for w
  proof (cases "w \<in> set st")
    case True
    then have "map_option at_status (find_att (snd s1) tid node w) = Some AS_DETACHED" "find_active_lease (snd s1) tid node w = None"
      using cleaned_at(1,2) [OF c1(1) True] st by auto
    moreover from this have "w \<notin> set dr" using dr by (auto simp: drifted_def)
    ultimately show ?thesis using cleaned_at(3,4) [OF c3(1), of tid node w] o by auto
  next
    case False
    then obtain a where a: "find_att d tid node w = Some a" "drifted ws tid node a" using ab st by (auto simp: abandoned_def)
    then have "find_att (snd s1) tid node w = Some a" using False cleaned_at(3) [OF c1(1), of tid node w] by simp
    then show ?thesis using cleaned_at(1,2) [OF c3(1), of w] dr a o by auto
  qed
  have kept: "find_att d' tid node w = find_att d tid node w \<and>
      find_active_lease d' tid node w = (if is_attached (find_att d tid node w) then find_active_lease d tid node w else None)"
    if "\<not> abandoned ws cutoff tid node (find_att d tid node w)" for w
  proof -
    have "w \<notin> set st" using that st by (auto simp: abandoned_def)
    then have s: "find_att (snd s1) tid node w = find_att d tid node w" "find_active_lease (snd s1) tid node w = find_active_lease d tid node w"
      using cleaned_at(3,4) [OF c1(1), of tid node w] by simp_all
    then have "w \<notin> set dr" using that dr by (auto simp: abandoned_def)
    then show ?thesis using s cleaned_at(3,4) [OF c3(1), of tid node w] o orph [of w] by auto
  qed
  have "topo_ok d'" using c3(1) by (simp add: cleaned_def)
  then show ?thesis using other gone kept c3(2) unfolding cutoff_def by simp
qed

text \<open>C10: a pass of the janitor with working commits and commands repairs the node completely and touches nothing else. An attachment
  stuck in ATTACHING or FAILED since before the cutoff, or still ATTACHED for a stopped, failed or deleted workspace, ends
  DETACHED without lease; a workspace that is not ATTACHED loses its lease; an ATTACHED one in use, and every row of other
  nodes, is as before.\<close>

theorem janitor_repairs_node:
  assumes "topo_ok d" "\<forall>k. working (Ws k)" "clean_node node = node" "run_topology_janitor Ws ws tid node secs d = (res, d')"
  shows "jr_issues res = [] \<and> topo_ok d' \<and>
    (\<forall>w. if abandoned ws (tw_now (Ws 0) - seconds (max 0 secs)) tid node (find_att d tid node w)
         then map_option at_status (find_att d' tid node w) = Some AS_DETACHED \<and> find_active_lease d' tid node w = None
         else find_att d' tid node w = find_att d tid node w \<and>
              find_active_lease d' tid node w = (if is_attached (find_att d tid node w) then find_active_lease d tid node w else None)) \<and>
    (\<forall>t n w. (t, n) \<noteq> (tid, node) \<longrightarrow> find_att d' t n w = find_att d t n w \<and> find_active_lease d' t n w = find_active_lease d t n w)"
  by (rule janitor_pass [OF assms])

section \<open>The janitor and a concurrent bring-up\<close>

lemma ensure_keeps_leases:
  assumes "quiet W"
  shows "t_leases (tstate (ensure_node_topology W tid node d)) = t_leases d"
proof -
  have commit: "t_leases (commit_state (commit_new_runtime W k r e)) = t_leases e" "t_leases (commit_state (commit_runtime W k i f e)) = t_leases e"
    for k r i f e
    using assms by (simp_all add: commit_new_runtime_def commit_runtime_def quiet_def Let_def add_runtime_def put_runtime_def split: option.split)
  have loop: "t_leases (tstate (ensure_loop W tid nid plan k left e)) = t_leases e" for nid plan k left e
  proof (induction left arbitrary: k e)
    case (Suc left)
    obtain sc sg b where plan: "plan = (sc, sg, b)" by (cases plan)
    let ?x = "find_runtime e tid nid"
    let ?commit = "\<lambda>c g. case ?x of None \<Rightarrow> commit_new_runtime W k (new_runtime W tid nid b c g) e
      | Some r \<Rightarrow> commit_runtime W k (tr_id r) (completed W r b c g) e"
    have c: "t_leases (commit_state (?commit c g)) = t_leases e" for c g using commit by (simp split: option.split)
    show ?case
    proof (cases "choose_runtime_cidr_and_gateway W e tid nid ?x sc sg k")
      case (Inl err)
      then show ?thesis using plan by (cases err) (simp_all add: Let_def)
    next
      case (Inr cg)
      obtain c' g' where cg: "cg = (c', g')" by (cases cg)
      then show ?thesis using plan Inr c [of c' g'] Suc.IH by (cases "?commit c' g'") (simp_all add: Let_def)
    qed
  qed simp
  have sync: "t_leases (tstate (sync_and_report W r e)) = t_leases e" for r e
  proof -
    have "tstate (sync_and_report W r e) = tstate (sync_linux_node_bridge W r e)"
      by (auto simp: sync_and_report_def tthen_def tstate_def split: sum.split prod.split)
    then show ?thesis using sync_state [of W r e] by (auto simp: put_runtime_def)
  qed
  have "t_leases (tstate (tthen (ensure_loop W tid nid plan k left d) (\<lambda>_ e. case find_runtime e tid nid of
        None \<Rightarrow> Inl (TopologyRuntimeCreateError ''failed to ensure topology runtime row'', e) | Some q \<Rightarrow> sync_and_report W q e))) = t_leases d"
    for nid plan k left
    using loop [of nid plan k left d] sync by (cases "ensure_loop W tid nid plan k left d") (auto simp: tthen_def split: option.split)
  then show ?thesis using sync by (simp add: ensure_node_topology_def Let_def split: option.split sum.split)
qed

lemma attach_needs_lease:
  assumes "quiet W" "find_active_lease d tid (clean_node node) wid = None"
  shows "attach_workspace W tid node wid container netns_ref address d \<noteq> Inr out"
proof
  assume a: "attach_workspace W tid node wid container netns_ref address d = Inr out"
  then obtain x e where e: "ensure_node_topology W tid (clean_node node) d = Inr (x, e)"
    by (auto simp: attach_workspace_def tthen_def Let_def split: if_splits sum.splits)
  then have "t_leases e = t_leases d" using ensure_keeps_leases [OF assms(1), of tid "clean_node node" d] by simp
  then have "find_active_lease e tid (clean_node node) wid = None" using assms(2) by (simp add: find_active_lease_def)
  then have refused: "check_attach_address W e r tid (clean_node node) wid ip = Some lease_not_active" for r ip
    by (simp add: check_attach_address_def Let_def)
  show False using a e by (simp add: attach_workspace_def tthen_def Let_def refused split: if_splits sum.splits)
qed

text \<open>C32: a janitor pass breaks a bring-up in progress. When it runs on the node after a workspace has been given its address and before
  it is attached, it releases that lease, however fresh, and the attach of the workspace cannot succeed.\<close>

theorem janitor_breaks_bring_up:
  assumes "topo_ok d" "fair_race W" "clean_node node = node" "\<forall>k. working (Ws k)" "quiet W'"
    "allocate_workspace_ip W tid node wid d = Inr (lease, d1)" "find_att d1 tid node wid = None"
    "run_topology_janitor Ws ws tid node secs d1 = (res, d2)"
  shows "attach_workspace W' tid node wid container netns_ref (al_workspace_ip lease) d2 \<noteq> Inr out"
proof -
  have "topo_ok d1" using allocate_state_ok [OF assms(1,2), of tid node wid] assms(6) by simp
  then have "find_active_lease d2 tid node wid = None"
    using janitor_pass [OF _ assms(4,3,8)] assms(7) by (simp add: abandoned_def is_attached_def)
  then show ?thesis using attach_needs_lease [OF assms(5)] assms(3) by simp
qed

text \<open>Workspace 7 failed to attach long ago and still holds an address.\<close>

definition ex_failed_tdb :: tdb where
  "ex_failed_tdb = ex_tdb\<lparr>t_leases := [(new_lease ex_tw 1 ''n1'' 7 ''10.0.0.11'')\<lparr>ia_id := 1\<rparr>], t_lease_seq := 2,
     t_atts := [(blank_att ex_tw 1 ''n1'' 7)\<lparr>at_id := 1, at_status := AS_FAILED, at_updated_at := 0\<rparr>], t_att_seq := 2\<rparr>"

lemma ex_working: "\<forall>k. working ((\<lambda>_. ex_tw) k)" "quiet ex_tw"
  by (simp_all add: working_def quiet_def ex_tw_def)

theorem janitor_repairs_node_witness:
  "\<exists>res d'. run_topology_janitor (\<lambda>_. ex_tw) ex_db 1 ''n1'' 600 ex_failed_tdb = (res, d') \<and> jr_issues res = [] \<and>
     find_active_lease ex_failed_tdb 1 ''n1'' 7 \<noteq> None \<and> find_active_lease d' 1 ''n1'' 7 = None"
proof -
  obtain res d' where r: "run_topology_janitor (\<lambda>_. ex_tw) ex_db 1 ''n1'' 600 ex_failed_tdb = (res, d')" by fastforce
  have ok: "topo_ok ex_failed_tdb"
    by (simp add: topo_ok_def table_ok_def keys_ok_def ex_failed_tdb_def ex_tdb_def ex_runtime_def)
  have f: "find_active_lease ex_failed_tdb 1 ''n1'' 7 \<noteq> None"
    by (simp add: find_active_lease_def ex_failed_tdb_def new_lease_def)
  have "abandoned ex_db (tw_now ex_tw - seconds (max 0 600)) 1 ''n1'' (find_att ex_failed_tdb 1 ''n1'' 7)"
    by (simp add: abandoned_def stuck_attachment_def on_node_def find_att_def ex_failed_tdb_def blank_att_def ex_tw_def seconds_def)
  then show ?thesis using janitor_repairs_node [OF ok ex_working(1) ex_clean(1) r] r f by auto
qed

theorem janitor_breaks_bring_up_witness:
  "\<exists>lease d1 res d2. allocate_workspace_ip ex_tw 1 ''n1'' 7 ex_tdb = Inr (lease, d1) \<and>
     run_topology_janitor (\<lambda>_. ex_tw) ex_db 1 ''n1'' 600 d1 = (res, d2) \<and>
     (\<forall>out. attach_workspace ex_tw 1 ''n1'' 7 ''c1'' ''/proc/1/ns/net'' (al_workspace_ip lease) d2 \<noteq> Inr out)"
proof -
  obtain lease d1 where a: "allocate_workspace_ip ex_tw 1 ''n1'' 7 ex_tdb = Inr (lease, d1)" "t_atts d1 = []" by (rule ex_allocation)
  obtain res d2 where j: "run_topology_janitor (\<lambda>_. ex_tw) ex_db 1 ''n1'' 600 d1 = (res, d2)" by fastforce
  have "find_att d1 1 ''n1'' 7 = None" using a(2) by (simp add: find_att_def)
  from janitor_breaks_bring_up [OF ex_tables(1,2) ex_clean(1) ex_working a(1) this j] a j show ?thesis by blast
qed

end
