(* ===== verification/Ec2_Provider.thy ===== *)
theory Ec2_Provider
  imports Intent
begin

text \<open>
  Registration of EC2 instances as execution nodes (\<^verbatim>\<open>providers/ec2_provider.py\<close>).

  AWS is the parameter \<open>aws\<close>: \<open>aw_describe\<close> answers the calls of \<^verbatim>\<open>describe_instances\<close>, numbered within one
  operation, so that two calls may differ; the other fields answer one call each. A \<^verbatim>\<open>ClientError\<close> is its error
  code and its text. Retries of throttled calls are part of the answer. The settings the infrastructure
  services read are the record \<open>fleet\<close>, with the two environment variables that may name a workspace image.

  The functions flush and leave the commit to their caller, so an error carries the database of the session
  at that point.
\<close>

section \<open>AWS\<close>

datatype 'a aws_answer = ClientError string string | AwsOk 'a

record instance_dict =
  in_id :: "string option"
  in_state :: "string option"
  in_private_ip :: "string option"
  in_public_ip :: "string option"
  in_zone :: "string option"
  in_type :: "string option"
  in_tags :: "(string \<times> string option) list"
  in_profile_arn :: "string option"

record run_params =
  rp_image :: string
  rp_type :: string
  rp_subnet :: string
  rp_security_groups :: "string list"
  rp_tags :: "(string \<times> string) list"
  rp_profile :: "string option"
  rp_key_name :: "string option"
  rp_user_data :: "string option"

record aws =
  aw_region_name :: "string option"
  aw_describe :: "nat \<Rightarrow> string \<Rightarrow> instance_dict list list aws_answer"
  aw_list :: "instance_dict list list list aws_answer"
  aw_types :: "string \<Rightarrow> (rat option \<times> int option) list aws_answer"
  aw_run :: "run_params \<Rightarrow> instance_dict list aws_answer"
  aw_wait_running :: "string \<Rightarrow> string option"
  aw_terminate :: "string \<Rightarrow> unit aws_answer"
  aw_ssm :: "string \<Rightarrow> string \<Rightarrow> string + string \<times> string"

record fleet =
  f_aws_region :: string
  f_ami_id :: string
  f_instance_type :: string
  f_subnet_id :: string
  f_security_group_ids :: string
  f_instance_profile :: string
  f_key_name :: string
  f_tag_prefix :: string
  f_extra_tags :: string
  f_user_data :: string
  f_user_data_b64 :: string
  f_default_execution_mode :: string
  f_ssh_user_default :: string
  f_workspace_image :: string
  f_env_workspace_container_image :: string
  f_env_workspace_image :: string
  f_control_plane_instance_ids :: string
  f_ec2_projects_base :: string
  f_heartbeat_api_base_url :: string
  f_internal_api_base_url :: string
  f_internal_api_key_infrastructure :: string
  f_internal_api_key :: string
  f_bootstrap_prebaked :: bool
  f_heartbeat_interval_seconds :: int
  f_enabled :: bool
  f_evaluate_only :: bool
  f_provision_on_no_capacity :: bool
  f_min_nodes :: int
  f_max_nodes :: int
  f_min_idle_slots :: int
  f_max_concurrent_provisioning :: int
  f_scale_out_cooldown_seconds :: int
  f_scale_in_cooldown_seconds :: int
  f_suppress_recent_seconds :: int
  f_min_ec2_before_reclaim :: int
  f_scale_down_idle_seconds :: int
  f_recent_activity_window_seconds :: int

text \<open>
  The exceptions of \<^verbatim>\<open>providers/errors.py\<close> and \<^verbatim>\<open>infrastructure_service/errors.py\<close>. The not-found and invalid-id
  errors are subclasses of \<^verbatim>\<open>Ec2ProviderError\<close>. \<open>DbIntegrityError\<close> is a flush that violates a constraint of the
  node table.
\<close>

datatype infra_error =
    NodeNotFoundError error
  | NodeLifecycleError string
  | Ec2ProviderError string
  | Ec2InstanceNotFoundError string
  | Ec2InvalidInstanceIdError string
  | Ec2ProvisionConfigurationError string
  | DbIntegrityError

fun is_provider_error :: "infra_error \<Rightarrow> bool" where
  "is_provider_error (Ec2ProviderError _) = True"
| "is_provider_error (Ec2InstanceNotFoundError _) = True"
| "is_provider_error (Ec2InvalidInstanceIdError _) = True"
| "is_provider_error _ = False"

type_synonym 'a infra = "(infra_error \<times> db) + ('a \<times> db)"

section \<open>Describing an instance\<close>

definition hex_digit :: "char \<Rightarrow> bool" where
  "hex_digit c = (c \<in> set ''0123456789abcdefABCDEF'')"

definition valid_instance_id :: "string \<Rightarrow> bool" where
  "valid_instance_id s =
     (case s of a # b # hs \<Rightarrow> (a = CHR ''i'' \<or> a = CHR ''I'') \<and> b = CHR ''-'' \<and> 8 \<le> length hs \<and> length hs \<le> 32 \<and>
        list_all hex_digit hs | _ \<Rightarrow> False)"

definition require_instance_id :: "string \<Rightarrow> infra_error + string" where
  "require_instance_id raw =
     (let iid = py_strip raw in
      if valid_instance_id iid then Inr iid
      else Inl (Ec2InvalidInstanceIdError (''invalid EC2 instance id: '' @ py_repr raw)))"

fun name_from_tags :: "(string \<times> string option) list \<Rightarrow> string option" where
  "name_from_tags [] = None"
| "name_from_tags ((k, v) # ts) = (if k = ''Name'' then strip_or_none v else name_from_tags ts)"

definition profile_name_from_instance :: "instance_dict \<Rightarrow> string option" where
  "profile_name_from_instance i =
     (case strip_or_none (in_profile_arn i) of None \<Rightarrow> None
      | Some arn \<Rightarrow> if CHR ''/'' \<in> set arn then none_if_empty (py_strip (last (split_on (CHR ''/'') arn))) else None)"

record ec2_description =
  ed_instance_id :: string
  ed_state :: string
  ed_instance_type :: string
  ed_private_ip :: "string option"
  ed_public_ip :: "string option"
  ed_zone :: "string option"
  ed_region :: string
  ed_name_tag :: "string option"
  ed_profile :: "string option"

definition or_unknown :: "string \<Rightarrow> string" where
  "or_unknown s = (if s = [] then ''unknown'' else s)"

definition client_region :: "fleet \<Rightarrow> aws \<Rightarrow> string" where
  "client_region F W =
     (case aw_region_name W of Some (c # cs) \<Rightarrow> c # cs | _ \<Rightarrow> or_unknown (py_strip (f_aws_region F)))"

definition describe_fields :: "string \<Rightarrow> string \<Rightarrow> instance_dict \<Rightarrow> ec2_description" where
  "describe_fields region iid i =
     \<lparr>ed_instance_id = iid, ed_state = or_unknown (py_lower (py_strip (str_or_empty (in_state i)))),
      ed_instance_type = or_unknown (py_strip (str_or_empty (in_type i))),
      ed_private_ip = strip_or_none (in_private_ip i), ed_public_ip = strip_or_none (in_public_ip i),
      ed_zone = strip_or_none (in_zone i), ed_region = region, ed_name_tag = name_from_tags (in_tags i),
      ed_profile = profile_name_from_instance i\<rparr>"

definition EC2_CLIENT_AUTH_ERROR_CODES :: "string list" where
  "EC2_CLIENT_AUTH_ERROR_CODES =
     [''AuthFailure'', ''UnauthorizedOperation'', ''InvalidClientTokenId'', ''ExpiredToken'', ''RequestExpired'']"

definition denied_message :: "string \<Rightarrow> string \<Rightarrow> string" where
  "denied_message code e = ''AWS denied EC2 describe_instances ('' @ code @ ''); check credentials, region, and IAM: '' @ e"

definition describe_ec2_instance :: "fleet \<Rightarrow> aws \<Rightarrow> nat \<Rightarrow> string \<Rightarrow> infra_error + ec2_description" where
  "describe_ec2_instance F W n raw =
     (case require_instance_id raw of Inl e \<Rightarrow> Inl e
      | Inr iid \<Rightarrow>
          (let missing = Ec2InstanceNotFoundError (''EC2 instance not found: '' @ iid) in
           case aw_describe W n iid of
             ClientError code e \<Rightarrow>
               (if code = ''InvalidInstanceID.NotFound'' then Inl missing
                else if code \<in> set EC2_CLIENT_AUTH_ERROR_CODES then Inl (Ec2ProviderError (denied_message code e))
                else Inl (Ec2ProviderError (''describe_instances failed for '' @ iid @ '': '' @ e)))
           | AwsOk reservations \<Rightarrow>
               (case reservations of [] \<Rightarrow> Inl missing
                | instances # _ \<Rightarrow>
                    (case instances of [] \<Rightarrow> Inl missing
                     | inst # _ \<Rightarrow> Inr (describe_fields (client_region F W) iid inst)))))"

definition list_ec2_instances :: "fleet \<Rightarrow> aws \<Rightarrow> infra_error + ec2_description list" where
  "list_ec2_instances F W =
     (case aw_list W of
        ClientError code e \<Rightarrow>
          (if code \<in> set EC2_CLIENT_AUTH_ERROR_CODES then Inl (Ec2ProviderError (denied_message code e))
           else Inl (Ec2ProviderError (''describe_instances (list) failed: '' @ e)))
      | AwsOk pages \<Rightarrow>
          Inr (concat (map (\<lambda>i. case strip_or_none (in_id i) of None \<Rightarrow> []
                 | Some iid \<Rightarrow> [describe_fields (client_region F W) iid i]) (concat (concat pages)))))"

fun compute_status_schedulable_after_ec2_sync :: "node_status option \<Rightarrow> string \<Rightarrow> node_status \<times> bool" where
  "compute_status_schedulable_after_ec2_sync (Some NS_PROVISIONING) state =
     (if state \<in> {''terminated'', ''shutting-down'', ''stopped'', ''stopping''} then (NS_ERROR, False)
      else (NS_PROVISIONING, False))"
| "compute_status_schedulable_after_ec2_sync (Some NS_DRAINING) state = (NS_DRAINING, False)"
| "compute_status_schedulable_after_ec2_sync (Some NS_TERMINATING) state =
     (if state \<in> {''terminated'', ''shutting-down''} then (NS_TERMINATED, False) else (NS_TERMINATING, False))"
| "compute_status_schedulable_after_ec2_sync (Some NS_TERMINATED) state = (NS_TERMINATED, False)"
| "compute_status_schedulable_after_ec2_sync (Some NS_ERROR) state = (NS_ERROR, False)"
| "compute_status_schedulable_after_ec2_sync _ state =
     (if state = ''running'' then (NS_READY, True) else (NS_NOT_READY, False))"

definition ec2_instance_type_capacity :: "aws \<Rightarrow> string \<Rightarrow> rat \<times> int" where
  "ec2_instance_type_capacity W raw =
     (let it = py_strip raw in
      if it = [] \<or> it = ''unknown'' then (4, 8192)
      else (case aw_types W it of
          ClientError _ _ \<Rightarrow> (4, 8192)
        | AwsOk types \<Rightarrow>
            (case types of [] \<Rightarrow> (4, 8192)
             | (cpus, mib) # _ \<Rightarrow>
                 (max 1 (case cpus of None \<Rightarrow> 4 | Some c \<Rightarrow> if c = 0 then 4 else c),
                  max 512 (case mib of None \<Rightarrow> 8192 | Some m \<Rightarrow> if m = 0 then 8192 else m)))))"

section \<open>Registering an instance\<close>

definition DEFAULT_EXECUTION_NODE_MAX_WORKSPACES :: int where "DEFAULT_EXECUTION_NODE_MAX_WORKSPACES = 32"
definition DEFAULT_EXECUTION_NODE_ALLOCATABLE_DISK_MB :: int where "DEFAULT_EXECUTION_NODE_ALLOCATABLE_DISK_MB = 102400"

text \<open>An \<^verbatim>\<open>ExecutionNode\<close> with the defaults of its columns.\<close>

definition blank_node :: "env \<Rightarrow> string \<Rightarrow> node" where
  "blank_node E key = \<lparr>node_pk = 0, node_key = key, node_name = [], node_provider_type = PT_LOCAL,
     node_provider_instance_id = None, node_hostname = None, node_private_ip = None,
     node_execution_mode = EM_LOCAL_DOCKER, node_ssh_host = None, node_status = NS_READY, node_schedulable = True,
     node_total_cpu = 4, node_total_memory_mb = 8192, node_allocatable_cpu = 4, node_allocatable_memory_mb = 8192,
     node_max_workspaces = DEFAULT_EXECUTION_NODE_MAX_WORKSPACES,
     node_allocatable_disk_mb = DEFAULT_EXECUTION_NODE_ALLOCATABLE_DISK_MB, node_metadata = [],
     node_default_topology_id = None, node_last_heartbeat_at = None, node_last_error_code = None,
     node_last_error_message = None, node_created_at = now E, node_updated_at = now E, node_disk_total_mb = None,
     node_disk_free_mb = None, node_memory_total_mb = None, node_memory_free_mb = None,
     node_last_resource_check_at = None, node_resource_status = None, node_resource_warning = None,
     node_region = None, node_availability_zone = None, node_instance_type = None, node_public_ip = None,
     node_iam_instance_profile_name = None, node_ssh_user = None, node_last_synced_at = None\<rparr>"

definition resolve_execution_mode :: "fleet \<Rightarrow> string option \<Rightarrow> exec_mode" where
  "resolve_execution_mode F requested =
     (let default_em = py_lower (py_strip (f_default_execution_mode F));
          raw_em = py_lower (py_strip (case requested of Some (c # cs) \<Rightarrow> c # cs | _ \<Rightarrow> default_em));
          mode = (if raw_em \<in> {''ssh_docker'', ''ssm_docker''} then raw_em else default_em)
      in if mode = ''ssh_docker'' then EM_SSH_DOCKER else EM_SSM_DOCKER)"

fun exec_mode_str :: "exec_mode \<Rightarrow> string" where
  "exec_mode_str EM_LOCAL_DOCKER = ''local_docker''"
| "exec_mode_str EM_SSH_DOCKER = ''ssh_docker''"
| "exec_mode_str EM_SSM_DOCKER = ''ssm_docker''"

definition resolve_ssh_user :: "fleet \<Rightarrow> string option \<Rightarrow> string" where
  "resolve_ssh_user F requested =
     (case strip_or_none requested of Some u \<Rightarrow> u
      | None \<Rightarrow> (let u = py_strip (f_ssh_user_default F) in if u = [] then ''ubuntu'' else u))"

text \<open>\<^verbatim>\<open>dict.update\<close>\<close>

definition jupdate :: "jobj \<Rightarrow> jobj \<Rightarrow> jobj" where
  "jupdate ob patch = fold (\<lambda>(k, v) h. jset h k v) patch ob"

definition register_patch :: "env \<Rightarrow> string \<Rightarrow> bool \<Rightarrow> jobj" where
  "register_patch E state catalog_only =
     [(''state'', JStr state), (''synced_at'', JStr (str_iso E (now E)))] @
     (if catalog_only then [(''catalog_only'', JBool True)] else [])"

definition new_ec2_row :: "env \<Rightarrow> string \<Rightarrow> ec2_description \<Rightarrow> exec_mode \<Rightarrow> string \<Rightarrow> rat \<times> int \<Rightarrow> bool \<Rightarrow> node" where
  "new_ec2_row E key desc mode user capacity catalog_only =
     (let (status, sched) = compute_status_schedulable_after_ec2_sync None (ed_state desc) in
      (blank_node E key)\<lparr>node_name := (case ed_name_tag desc of Some nm \<Rightarrow> nm | None \<Rightarrow> key),
        node_provider_type := PT_EC2, node_provider_instance_id := Some (ed_instance_id desc),
        node_region := Some (ed_region desc), node_availability_zone := ed_zone desc,
        node_instance_type := Some (ed_instance_type desc), node_private_ip := ed_private_ip desc,
        node_public_ip := ed_public_ip desc, node_execution_mode := mode, node_ssh_user := Some user,
        node_status := status, node_schedulable := sched \<and> \<not> catalog_only,
        node_total_cpu := fst capacity, node_total_memory_mb := snd capacity,
        node_allocatable_cpu := fst capacity, node_allocatable_memory_mb := snd capacity,
        node_metadata := [(''ec2'', JObj (register_patch E (ed_state desc) catalog_only))],
        node_default_topology_id := Some system_default_topology_id,
        node_iam_instance_profile_name := ed_profile desc, node_last_synced_at := Some (now E)\<rparr>)"

definition left_provisioning_message :: "string \<Rightarrow> string" where
  "left_provisioning_message state =
     take 4096 (''EC2 left provisioning path: instance state is '' @ py_repr state @ '' (expected running for readiness)'')"

text \<open>The assignments to an existing row up to the default topology, and those after it.\<close>

definition refresh_row ::
  "env \<Rightarrow> string \<Rightarrow> ec2_description \<Rightarrow> exec_mode \<Rightarrow> string \<Rightarrow> rat \<times> int \<Rightarrow> bool \<Rightarrow> node \<Rightarrow> node" where
  "refresh_row E key desc mode user capacity catalog_only row =
     (let (status, sched) = compute_status_schedulable_after_ec2_sync (Some (node_status row)) (ed_state desc);
          row1 = (if status = NS_ERROR \<and> node_status row = NS_PROVISIONING
            then row\<lparr>node_last_error_code := Some ''Ec2NotRunningDuringProvisioning'',
                     node_last_error_message := Some (left_provisioning_message (ed_state desc))\<rparr>
            else row);
          row2 = row1\<lparr>node_key := key,
            node_name := (case ed_name_tag desc of Some nm \<Rightarrow> nm | None \<Rightarrow> if node_name row = [] then key else node_name row),
            node_provider_type := PT_EC2, node_provider_instance_id := Some (ed_instance_id desc),
            node_region := Some (ed_region desc), node_availability_zone := ed_zone desc,
            node_instance_type := Some (ed_instance_type desc), node_private_ip := ed_private_ip desc,
            node_public_ip := ed_public_ip desc, node_execution_mode := mode, node_ssh_user := Some user,
            node_status := status, node_schedulable := sched \<and> \<not> catalog_only\<rparr>;
          row3 = (if status = NS_READY then row2\<lparr>node_last_error_code := None, node_last_error_message := None\<rparr> else row2)
      in row3\<lparr>node_total_cpu := fst capacity, node_total_memory_mb := snd capacity,
           node_allocatable_cpu := fst capacity, node_allocatable_memory_mb := snd capacity,
           node_max_workspaces := (if node_max_workspaces row \<le> 0 then DEFAULT_EXECUTION_NODE_MAX_WORKSPACES else node_max_workspaces row),
           node_allocatable_disk_mb := (if node_allocatable_disk_mb row \<le> 0 then DEFAULT_EXECUTION_NODE_ALLOCATABLE_DISK_MB
                                        else node_allocatable_disk_mb row)\<rparr>)"

definition stamp_row :: "env \<Rightarrow> ec2_description \<Rightarrow> bool \<Rightarrow> node \<Rightarrow> node" where
  "stamp_row E desc catalog_only row =
     row\<lparr>node_iam_instance_profile_name := ed_profile desc, node_last_synced_at := Some (now E),
       node_metadata := jset (node_metadata row) ''ec2''
         (JObj (jupdate (jdict (jget (node_metadata row) ''ec2'')) (register_patch E (ed_state desc) catalog_only))),
       node_updated_at := now E\<rparr>"

definition find_node_by_instance :: "db \<Rightarrow> string \<Rightarrow> node option" where
  "find_node_by_instance d iid = first_row (filter (\<lambda>n. node_provider_instance_id n = Some iid) (nodes d))"

text \<open>Looking the row up: by instance id first, then by key, where a row of another instance is refused.\<close>

definition register_target :: "db \<Rightarrow> string \<Rightarrow> string \<Rightarrow> infra_error + node option" where
  "register_target d iid key =
     (case find_node_by_instance d iid of Some row \<Rightarrow> Inr (Some row)
      | None \<Rightarrow>
          (case find_node_by_key d key of None \<Rightarrow> Inr None
           | Some row \<Rightarrow>
               (let other = py_strip (str_or_empty (node_provider_instance_id row)) in
                if node_provider_type row = PT_LOCAL
                then Inl (Ec2ProviderError (''node_key '' @ py_repr key @ '' is already used by a local execution node; choose a different --node-key''))
                else if other \<noteq> [] \<and> py_lower other \<noteq> py_lower iid
                then Inl (Ec2ProviderError (''node_key '' @ py_repr key @ '' is already bound to instance '' @ py_repr other @
                       ''; choose another --node-key or remove the conflicting row''))
                else Inr (Some row))))"

text \<open>The unique constraint on \<^verbatim>\<open>execution_node.node_key\<close>, checked at the flush.\<close>

definition node_key_taken :: "db \<Rightarrow> int \<Rightarrow> string \<Rightarrow> bool" where
  "node_key_taken d pk key = (\<exists>n\<in>set (nodes d). node_key n = key \<and> node_pk n \<noteq> pk)"

definition register_ec2_instance ::
  "env \<Rightarrow> fleet \<Rightarrow> aws \<Rightarrow> nat \<Rightarrow> string \<Rightarrow> string option \<Rightarrow> string option \<Rightarrow> string option \<Rightarrow> bool \<Rightarrow> db \<Rightarrow> node infra" where
  "register_ec2_instance E F W n instance_id key_opt user_opt mode_opt catalog_only d =
     (case require_instance_id instance_id of Inl e \<Rightarrow> Inl (e, d)
      | Inr iid \<Rightarrow>
     (case describe_ec2_instance F W n iid of Inl e \<Rightarrow> Inl (e, d)
      | Inr desc \<Rightarrow>
          (let key = (case strip_or_none key_opt of Some k \<Rightarrow> k | None \<Rightarrow> ''ec2-'' @ iid);
               mode = resolve_execution_mode F mode_opt;
               user = resolve_ssh_user F user_opt;
               capacity = ec2_instance_type_capacity W (ed_instance_type desc)
           in case register_target d iid key of Inl e \<Rightarrow> Inl (e, d)
              | Inr None \<Rightarrow>
                  (let row = new_ec2_row E key desc mode user capacity catalog_only; (pk, d1) = add_node row d
                   in Inr (row\<lparr>node_pk := pk\<rparr>, d1))
              | Inr (Some row) \<Rightarrow>
                  (if node_key_taken d (node_pk row) key then Inl (DbIntegrityError, d)
                   else let (row1, _, d1) = ensure_execution_node_default_topology E
                              (refresh_row E key desc mode user capacity catalog_only row) d;
                            row2 = stamp_row E desc catalog_only row1
                        in Inr (row2, put_node row2 d1)))))"

fun register_each :: "env \<Rightarrow> fleet \<Rightarrow> aws \<Rightarrow> nat \<Rightarrow> string list \<Rightarrow> db \<Rightarrow> node list infra" where
  "register_each E F W n [] d = Inr ([], d)"
| "register_each E F W n (i # is) d =
     (case register_ec2_instance E F W n i None None None False d of Inl e \<Rightarrow> Inl e
      | Inr (row, d1) \<Rightarrow> (case register_each E F W (Suc n) is d1 of Inl e \<Rightarrow> Inl e
                          | Inr (rows, d2) \<Rightarrow> Inr (row # rows, d2)))"

definition sync_ec2_instances :: "env \<Rightarrow> fleet \<Rightarrow> aws \<Rightarrow> string list option \<Rightarrow> db \<Rightarrow> node list infra" where
  "sync_ec2_instances E F W instance_ids d =
     (case instance_ids of
        Some (i # is) \<Rightarrow> register_each E F W 0 (map py_strip (i # is)) d
      | _ \<Rightarrow> register_each E F W 0
          (filter (\<lambda>pid. pid \<noteq> []) (map (\<lambda>r. py_strip (str_or_empty (node_provider_instance_id r)))
             (filter (\<lambda>r. node_provider_type r = PT_EC2) (nodes d)))) d)"

end
