(* ===== verification/Node_Lifecycle.thy ===== *)
theory Node_Lifecycle
  imports Ec2_Provider
begin

text \<open>
  The life of an execution node (\<^verbatim>\<open>infrastructure_service/lifecycle.py\<close>): catalog stubs, draining, deregistering,
  terminating, the readiness gate and the synchronisation with EC2; the reconciliation of stale nodes
  (\<^verbatim>\<open>ec2_cleanup.py\<close>) and the host resource monitor (\<^verbatim>\<open>placement_service/node_resource_monitor.py\<close>).

  The functions read the clock several times; the model reads it once. The sweep of orphaned volumes and
  interfaces after a termination is work on AWS whose failures are swallowed.
\<close>

section \<open>Shared helpers\<close>

definition merge_entry :: "string \<times> json \<Rightarrow> jobj \<Rightarrow> jobj" where
  "merge_entry p base =
     (case (snd p, jget base (fst p)) of
        (JObj v, JObj inner) \<Rightarrow> jset base (fst p) (JObj (jupdate inner v))
      | _ \<Rightarrow> jset base (fst p) (snd p))"

definition merge_metadata :: "node \<Rightarrow> jobj \<Rightarrow> jobj" where
  "merge_metadata row patch = fold merge_entry patch (node_metadata row)"

definition assert_ec2_node :: "node \<Rightarrow> string \<Rightarrow> infra_error option" where
  "assert_ec2_node row opn =
     (if node_provider_type row \<noteq> PT_EC2
      then Some (NodeLifecycleError (opn @ '' requires provider_type=ec2 (node_key='' @ py_repr (node_key row) @ '')'')) else None)"

definition with_node :: "int option \<Rightarrow> string option \<Rightarrow> db \<Rightarrow> (node \<Rightarrow> 'a infra) \<Rightarrow> 'a infra" where
  "with_node id_opt key_opt d f =
     (case lookup_node d id_opt key_opt of Inl (e, _) \<Rightarrow> Inl (NodeNotFoundError e, d) | Inr (row, _) \<Rightarrow> f row)"

definition instance_of :: "node \<Rightarrow> string" where
  "instance_of row = py_strip (str_or_empty (node_provider_instance_id row))"

definition stamp :: "env \<Rightarrow> string \<Rightarrow> string \<times> json" where
  "stamp E k = (k, JStr (str_iso E (now E)))"

definition save :: "node \<Rightarrow> db \<Rightarrow> node infra" where
  "save row d = Inr (row, put_node row d)"

section \<open>Catalog stubs\<close>

definition register_existing_ec2_node ::
  "env \<Rightarrow> fleet \<Rightarrow> aws \<Rightarrow> string \<Rightarrow> string option \<Rightarrow> string option \<Rightarrow> string option \<Rightarrow> bool \<Rightarrow> db \<Rightarrow> node infra" where
  "register_existing_ec2_node E F W instance_id key_opt user_opt mode_opt catalog_only d =
     register_ec2_instance E F W 0 instance_id key_opt user_opt mode_opt catalog_only d"

record stub_request =
  sr_node_key :: string
  sr_name :: "string option"
  sr_provider_instance_id :: "string option"
  sr_private_ip :: "string option"
  sr_public_ip :: "string option"
  sr_region :: "string option"
  sr_availability_zone :: "string option"
  sr_instance_type :: "string option"
  sr_execution_mode :: "string option"
  sr_ssh_user :: "string option"
  sr_status :: "string option"
  sr_total_cpu :: "rat option"
  sr_total_memory_mb :: "int option"
  sr_allocatable_cpu :: "rat option"
  sr_allocatable_memory_mb :: "int option"
  sr_max_workspaces :: "int option"
  sr_allocatable_disk_mb :: "int option"
  sr_align_with_heartbeat :: bool

definition positive_or :: "('a :: {zero, ord}) option \<Rightarrow> 'a \<Rightarrow> 'a" where
  "positive_or x dflt = (case x of None \<Rightarrow> dflt | Some v \<Rightarrow> if 0 < v then v else dflt)"

text \<open>\<open>None\<close> is a status text other than \<^verbatim>\<open>READY\<close> and \<^verbatim>\<open>NOT_READY\<close>.\<close>

definition stub_status_text :: "string option \<Rightarrow> node_status option option" where
  "stub_status_text s =
     (let t = map upper_char (py_strip (str_or_empty s)) in
      if t = [] then Some None
      else if t = ''READY'' then Some (Some NS_READY)
      else if t = ''NOT_READY'' then Some (Some NS_NOT_READY)
      else None)"

definition stub_region :: "fleet \<Rightarrow> string option \<Rightarrow> string" where
  "stub_region F r =
     (let fallback = (let a = py_strip (f_aws_region F) in if a = [] then ''us-east-1'' else a);
          s = py_strip (case r of Some (c # cs) \<Rightarrow> c # cs | _ \<Rightarrow> fallback)
      in if s = [] then ''us-east-1'' else s)"

definition stub_resolve_status :: "env \<Rightarrow> bool \<Rightarrow> node_status option \<Rightarrow> node option \<Rightarrow> node_status" where
  "stub_resolve_status E align st_in row =
     (if align
      then (case row of None \<Rightarrow> NS_NOT_READY
            | Some r \<Rightarrow> (case node_last_heartbeat_at r of None \<Rightarrow> NS_NOT_READY
                | Some hb \<Rightarrow> if 0 \<le> now E - hb \<and> now E - hb \<le> seconds (heartbeat_max_age E) then NS_READY else NS_NOT_READY))
      else (case st_in of Some s \<Rightarrow> s
            | None \<Rightarrow> (case row of Some r \<Rightarrow> node_status r | None \<Rightarrow> NS_NOT_READY)))"

definition or_else :: "string option \<Rightarrow> string option \<Rightarrow> string option" where
  "or_else new old = (case strip_or_none new of Some s \<Rightarrow> Some s | None \<Rightarrow> old)"

definition stub_fields :: "env \<Rightarrow> fleet \<Rightarrow> stub_request \<Rightarrow> string \<Rightarrow> string \<Rightarrow> node_status \<Rightarrow> node \<Rightarrow> node" where
  "stub_fields E F q nk pid st row =
     (let vcpu = positive_or (sr_total_cpu q) 4; mem = positive_or (sr_total_memory_mb q) 8192 in
      row\<lparr>node_name := (case strip_or_none (sr_name q) of Some nm \<Rightarrow> nm | None \<Rightarrow> if node_name row = [] then nk else node_name row),
        node_provider_type := PT_EC2, node_provider_instance_id := Some pid,
        node_region := Some (stub_region F (sr_region q)),
        node_availability_zone := or_else (sr_availability_zone q) (node_availability_zone row),
        node_instance_type := or_else (sr_instance_type q) (node_instance_type row),
        node_private_ip := or_else (sr_private_ip q) (node_private_ip row),
        node_public_ip := or_else (sr_public_ip q) (node_public_ip row),
        node_execution_mode := resolve_execution_mode F (sr_execution_mode q),
        node_ssh_user := Some (resolve_ssh_user F (sr_ssh_user q)),
        node_total_cpu := vcpu, node_total_memory_mb := mem,
        node_allocatable_cpu := positive_or (sr_allocatable_cpu q) vcpu,
        node_allocatable_memory_mb := positive_or (sr_allocatable_memory_mb q) mem,
        node_max_workspaces := positive_or (sr_max_workspaces q) DEFAULT_EXECUTION_NODE_MAX_WORKSPACES,
        node_allocatable_disk_mb := positive_or (sr_allocatable_disk_mb q) DEFAULT_EXECUTION_NODE_ALLOCATABLE_DISK_MB,
        node_schedulable := False, node_status := st, node_updated_at := now E,
        node_metadata := jset (node_metadata row) ''catalog_ec2_stub''
          (JObj (jupdate (jdict (jget (node_metadata row) ''catalog_ec2_stub'')) [stamp E ''updated_at'']))\<rparr>)"

text \<open>The check constraints of the table that a stub request can violate.\<close>

definition capacity_within_total :: "node \<Rightarrow> bool" where
  "capacity_within_total n =
     (node_allocatable_cpu n \<le> node_total_cpu n \<and> node_allocatable_memory_mb n \<le> node_total_memory_mb n)"

definition stub_status_message :: "string option \<Rightarrow> string" where
  "stub_status_message st = ''catalog stub status must be READY or NOT_READY (got '' @
     py_repr (map upper_char (py_strip (str_or_empty st))) @ ''); omit status for default NOT_READY''"

definition register_catalog_ec2_stub :: "env \<Rightarrow> fleet \<Rightarrow> stub_request \<Rightarrow> db \<Rightarrow> node infra" where
  "register_catalog_ec2_stub E F q d =
     (let nk = py_strip (sr_node_key q);
          pid = (case strip_or_none (sr_provider_instance_id q) of Some p \<Rightarrow> p | None \<Rightarrow> ''catalog-pending:'' @ nk)
      in if nk = [] then Inl (NodeLifecycleError ''node_key is required'', d)
         else if length pid > 255 then Inl (NodeLifecycleError ''provider_instance_id exceeds 255 characters'', d)
         else (case stub_status_text (sr_status q) of
             None \<Rightarrow> Inl (NodeLifecycleError (stub_status_message (sr_status q)), d)
           | Some st_in \<Rightarrow>
               (case find_node_by_key d nk of
                  Some row \<Rightarrow>
                    (if node_provider_type row = PT_LOCAL
                     then Inl (NodeLifecycleError (''node_key '' @ py_repr nk @
                            '' is already a local execution node; choose another key or remove the row''), d)
                     else let row1 = stub_fields E F q nk pid (stub_resolve_status E (sr_align_with_heartbeat q) st_in (Some row)) row
                          in if capacity_within_total row1 then save row1 d else Inl (DbIntegrityError, d))
                | None \<Rightarrow>
                    (let row1 = stub_fields E F q nk pid (stub_resolve_status E (sr_align_with_heartbeat q) st_in None) (blank_node E nk)
                     in if capacity_within_total row1
                        then (let (pk, d1) = add_node row1 d in Inr (row1\<lparr>node_pk := pk\<rparr>, d1))
                        else Inl (DbIntegrityError, d)))))"

section \<open>Draining and deregistering\<close>

definition mark_node_draining :: "env \<Rightarrow> int option \<Rightarrow> string option \<Rightarrow> db \<Rightarrow> node infra" where
  "mark_node_draining E id_opt key_opt d = with_node id_opt key_opt d (\<lambda>row.
     if node_status row = NS_TERMINATED then Inr (row, d)
     else if node_status row = NS_DRAINING \<and> \<not> node_schedulable row then Inr (row, d)
     else save (row\<lparr>node_status := NS_DRAINING, node_schedulable := False, node_updated_at := now E,
            node_metadata := merge_metadata row [(''lifecycle'', JObj [stamp E ''draining_marked_at''])]\<rparr>) d)"

definition undrain_terminated_message :: "node \<Rightarrow> string" where
  "undrain_terminated_message row = ''cannot undrain TERMINATED node (node_key='' @ py_repr (node_key row) @
     ''); re-register the instance or restore from backup''"

definition undrain_unsupported_message :: "node \<Rightarrow> string" where
  "undrain_unsupported_message row = ''undrain supports DRAINING or READY+schedulable=false (node_key='' @
     py_repr (node_key row) @ '', status='' @ py_repr (node_status_str (node_status row)) @
     ''); for NOT_READY/PROVISIONING use POST /internal/execution-nodes/sync''"

definition undrain_node :: "env \<Rightarrow> int option \<Rightarrow> string option \<Rightarrow> db \<Rightarrow> node infra" where
  "undrain_node E id_opt key_opt d = with_node id_opt key_opt d (\<lambda>row.
     if node_status row = NS_TERMINATED then Inl (NodeLifecycleError (undrain_terminated_message row), d)
     else if node_status row = NS_READY \<and> node_schedulable row then Inr (row, d)
     else if node_status row = NS_DRAINING \<or> node_status row = NS_READY
     then save (row\<lparr>node_status := NS_READY, node_schedulable := True, node_updated_at := now E,
            node_metadata := merge_metadata row [(''lifecycle'', JObj [stamp E ''undrained_at''])]\<rparr>) d
     else Inl (NodeLifecycleError (undrain_unsupported_message row), d))"

definition deregister_node :: "env \<Rightarrow> int option \<Rightarrow> string option \<Rightarrow> db \<Rightarrow> node infra" where
  "deregister_node E id_opt key_opt d = with_node id_opt key_opt d (\<lambda>row.
     if node_status row = NS_TERMINATED \<and> \<not> node_schedulable row then Inr (row, d)
     else save (row\<lparr>node_status := NS_TERMINATED, node_schedulable := False, node_updated_at := now E,
            node_metadata := merge_metadata row
              [(''lifecycle'', JObj [stamp E ''deregistered_at'', (''control_plane_inactive'', JBool True)])]\<rparr>) d)"

section \<open>Terminating\<close>

definition mark_terminating :: "env \<Rightarrow> node \<Rightarrow> node" where
  "mark_terminating E row =
     (if node_status row = NS_TERMINATING then row
      else row\<lparr>node_status := NS_TERMINATING, node_schedulable := False, node_updated_at := now E,
             node_metadata := merge_metadata row [(''lifecycle'', JObj [stamp E ''terminate_requested_at''])]\<rparr>)"

definition terminate_failed :: "env \<Rightarrow> string \<Rightarrow> string \<Rightarrow> node \<Rightarrow> node" where
  "terminate_failed E code e row =
     row\<lparr>node_status := NS_ERROR, node_last_error_code := Some (if code = [] then ''TerminateFailed'' else take 64 code),
       node_last_error_message := Some (take 4096 e), node_updated_at := now E\<rparr>"

definition terminate_outcome :: "env \<Rightarrow> string \<Rightarrow> node \<Rightarrow> node" where
  "terminate_outcome E state row =
     row\<lparr>node_status := (if state \<in> {''terminated'', ''shutting-down''} then NS_TERMINATED else NS_TERMINATING),
       node_schedulable := False, node_updated_at := now E,
       node_metadata := merge_metadata row [(''ec2'', JObj [(''state'', JStr state), stamp E ''synced_at''])]\<rparr>"

fun state_after_terminate :: "infra_error + ec2_description \<Rightarrow> string" where
  "state_after_terminate (Inr desc) = ed_state desc"
| "state_after_terminate (Inl (Ec2InstanceNotFoundError _)) = ''terminated''"
| "state_after_terminate (Inl _) = ''unknown''"

text \<open>The wait for the instance to go away swallows its errors and has no effect on the row.\<close>

definition terminate_ec2_node :: "env \<Rightarrow> fleet \<Rightarrow> aws \<Rightarrow> int option \<Rightarrow> string option \<Rightarrow> db \<Rightarrow> node infra" where
  "terminate_ec2_node E F W id_opt key_opt d = with_node id_opt key_opt d (\<lambda>row.
     case assert_ec2_node row ''terminate_ec2_node'' of Some e \<Rightarrow> Inl (e, d)
     | None \<Rightarrow>
         if node_status row = NS_TERMINATED then Inr (row, d)
         else let iid = instance_of row in
           if iid = [] then Inl (NodeLifecycleError (''node '' @ py_repr (node_key row) @ '' has no provider_instance_id''), d)
           else let row1 = mark_terminating E row in
             (case aw_terminate W iid of
                ClientError code e \<Rightarrow>
                  Inl (Ec2ProviderError (''terminate_instances failed for '' @ iid @ '': '' @ e), put_node (terminate_failed E code e row1) d)
              | AwsOk _ \<Rightarrow> save (terminate_outcome E (state_after_terminate (describe_ec2_instance F W 0 iid)) row1) d))"

section \<open>Readiness\<close>

definition promotable :: "node_status \<Rightarrow> bool" where
  "promotable st = (st = NS_PROVISIONING \<or> st = NS_NOT_READY)"

definition metadata_state :: "node \<Rightarrow> string" where
  "metadata_state row = (case jget (jdict (jget (node_metadata row) ''ec2'')) ''state'' of JStr s \<Rightarrow> s | _ \<Rightarrow> [])"

definition ec2_heartbeat_readiness :: "env \<Rightarrow> node \<Rightarrow> string option \<Rightarrow> bool \<times> string \<times> int option" where
  "ec2_heartbeat_readiness E row ec2_state =
     (case node_last_heartbeat_at row of None \<Rightarrow> (False, ''missing_heartbeat'', None)
      | Some hb \<Rightarrow>
          (let age = now E - hb;
               state = py_lower (py_strip (case ec2_state of Some (c # cs) \<Rightarrow> c # cs | _ \<Rightarrow> metadata_state row));
               heartbeat = jdict (jget (node_metadata row) ''heartbeat'')
           in if age < 0 \<or> age > seconds (heartbeat_max_age E) then (False, ''stale_heartbeat'', None)
              else if state \<noteq> [] \<and> state \<noteq> ''running'' then (False, ''ec2_state_'' @ state, None)
              else if jget heartbeat ''docker_ok'' \<noteq> JBool True then (False, ''docker_not_ready'', None)
              else (case json_int (jget heartbeat ''disk_free_mb'') of
                  None \<Rightarrow> (False, ''missing_disk_free_mb'', None)
                | Some free \<Rightarrow>
                    if free < DEFAULT_WORKSPACE_REQUEST_DISK_MB then (False, ''insufficient_disk_free_mb'', Some free)
                    else (True, ''ready'', Some free))))"

text \<open>The script of the gate is the text \<open>ready_gate_script\<close> for the configured workspace image; AWS runs it.\<close>

definition workspace_image_for_ready_gate :: "fleet \<Rightarrow> string" where
  "workspace_image_for_ready_gate F =
     (case filter (\<lambda>i. i \<noteq> []) (map py_strip [f_workspace_image F, f_env_workspace_container_image F, f_env_workspace_image F]) of
        [] \<Rightarrow> ''devnest/workspace:latest'' | i # _ \<Rightarrow> i)"

definition run_ssm_ready_gate :: "fleet \<Rightarrow> aws \<Rightarrow> (string \<Rightarrow> string) \<Rightarrow> node \<Rightarrow> bool \<times> string" where
  "run_ssm_ready_gate F W ready_gate_script row =
     (let iid = instance_of row;
          region = py_strip (case node_region row of Some (c # cs) \<Rightarrow> c # cs | _ \<Rightarrow> f_aws_region F)
      in if iid = [] then (False, ''missing_provider_instance_id'')
         else if region = [] then (False, ''missing_region'')
         else if node_default_topology_id row = None then (False, ''missing_default_topology_id'')
         else (case aw_ssm W iid (ready_gate_script (workspace_image_for_ready_gate F)) of
             Inl e \<Rightarrow> (False, ''ssm_ready_gate_failed:'' @ e)
           | Inr (stdout, stderr) \<Rightarrow>
               (let out = stdout @ [CHR 0x0A] @ stderr in
                if \<not> contains_str ''node.ready_gate.image_pull_success'' out then (False, ''image_pull_missing_success_marker'')
                else if \<not> contains_str ''node.ready_gate.passed'' out then (False, ''ready_gate_missing_pass_marker'')
                else (True, ''ready_gate_passed''))))"

definition ready_gate_failure :: "env \<Rightarrow> string \<Rightarrow> node \<Rightarrow> node" where
  "ready_gate_failure E reason row =
     row\<lparr>node_status := NS_PROVISIONING, node_schedulable := False, node_last_error_code := Some ''ReadyGatePending'',
       node_last_error_message := Some (take 4096 reason), node_updated_at := now E,
       node_metadata := merge_metadata row
         [(''lifecycle'', JObj [(''ready_gate_last_failure'', JStr (take 1000 reason)), stamp E ''ready_gate_checked_at''])]\<rparr>"

definition promoted :: "env \<Rightarrow> string \<Rightarrow> int option \<Rightarrow> node \<Rightarrow> node" where
  "promoted E readiness disk_free row =
     row\<lparr>node_status := NS_READY, node_schedulable := True, node_last_error_code := None, node_last_error_message := None,
       node_updated_at := now E,
       node_metadata := merge_metadata row
         [(''lifecycle'', JObj [stamp E ''ready_at'', (''readiness'', JStr readiness), (''disk_free_mb'', jopt JInt disk_free)])]\<rparr>"

definition promote_ec2_node_if_heartbeat_ready ::
  "env \<Rightarrow> fleet \<Rightarrow> aws \<Rightarrow> (string \<Rightarrow> string) \<Rightarrow> string option \<Rightarrow> string \<Rightarrow> node \<Rightarrow> db \<Rightarrow> bool \<times> node \<times> db" where
  "promote_ec2_node_if_heartbeat_ready E F W scr ec2_state readiness row d =
     (if node_provider_type row \<noteq> PT_EC2 \<or> \<not> promotable (node_status row) \<or>
         map_of (node_metadata row) ''catalog_ec2_stub'' \<noteq> None then (False, row, d)
      else if node_execution_mode row = EM_SSM_DOCKER
      then (let (ok, reason) = run_ssm_ready_gate F W scr row in
            if ok then (let row1 = promoted E ''ssm_ready_gate'' None row in (True, row1, put_node row1 d))
            else (let row1 = ready_gate_failure E reason row in (False, row1, put_node row1 d)))
      else (let (ok, reason, disk_free) = ec2_heartbeat_readiness E row ec2_state in
            if ok then (let row1 = promoted E readiness disk_free row in (True, row1, put_node row1 d))
            else (False, row, d)))"

section \<open>Synchronising with EC2\<close>

text \<open>
  \<open>session.refresh\<close> reads the row of the node again: the registration finds its row by instance id and may
  have changed another one. A node the registration made ready is held back until the gate has decided.
\<close>

definition hold_back :: "node_status \<Rightarrow> node \<Rightarrow> node" where
  "hold_back original row =
     (if node_status row = NS_READY then row\<lparr>node_status := original, node_schedulable := False\<rparr> else row)"

definition sync_node_state ::
  "env \<Rightarrow> fleet \<Rightarrow> aws \<Rightarrow> (string \<Rightarrow> string) \<Rightarrow> int option \<Rightarrow> string option \<Rightarrow> bool \<Rightarrow> db \<Rightarrow> node infra" where
  "sync_node_state E F W scr id_opt key_opt promote d = with_node id_opt key_opt d (\<lambda>row0.
     case assert_ec2_node row0 ''sync_node_state'' of Some e \<Rightarrow> Inl (e, d)
     | None \<Rightarrow>
         let iid = instance_of row0 in
         if iid = [] then Inl (NodeLifecycleError (''node '' @ py_repr (node_key row0) @ '' has no provider_instance_id''), d)
         else (case register_ec2_instance E F W 0 iid (Some (node_key row0)) (node_ssh_user row0)
                      (Some (exec_mode_str (node_execution_mode row0))) False d of
             Inl e \<Rightarrow> Inl e
           | Inr (_, d1) \<Rightarrow>
               (let row = (case get_node d1 (node_pk row0) of Some r \<Rightarrow> r | None \<Rightarrow> row0) in
                if \<not> promote \<or> \<not> promotable (node_status row0) then Inr (row, d1)
                else (case describe_ec2_instance F W 1 iid of
                    Inl _ \<Rightarrow> Inr (row, d1)
                  | Inr desc \<Rightarrow>
                      if ed_state desc \<noteq> ''running'' then Inr (row, d1)
                      else let (ok, row2, d2) = promote_ec2_node_if_heartbeat_ready E F W scr (Some (ed_state desc))
                                 ''ec2_running_heartbeat'' (hold_back (node_status row0) row) d1
                           in if ok then Inr (row2, d2) else save row2 d2))))"

section \<open>Stale nodes\<close>

definition control_plane_instance_ids :: "fleet \<Rightarrow> string list" where
  "control_plane_instance_ids F =
     filter (\<lambda>x. x \<noteq> []) (map py_strip (split_on (CHR '','') (py_strip (f_control_plane_instance_ids F))))"

definition stale_candidate :: "node \<Rightarrow> bool" where
  "stale_candidate n \<longleftrightarrow> node_provider_type n = PT_EC2 \<and> node_provider_instance_id n \<notin> {None, Some []} \<and>
     (node_status n = NS_TERMINATING \<or> node_status n = NS_ERROR)"

text \<open>An error of \<^verbatim>\<open>describe_instances\<close> other than not-found ends the sweep with an exception.\<close>

fun reconcile_stale_each :: "env \<Rightarrow> fleet \<Rightarrow> aws \<Rightarrow> nat \<Rightarrow> node list \<Rightarrow> db \<Rightarrow> int infra" where
  "reconcile_stale_each E F W n [] d = Inr (0, d)"
| "reconcile_stale_each E F W n (row # rows) d =
     (let iid = instance_of row in
      if iid = [] \<or> starts_with ''catalog-pending:'' iid \<or> iid \<in> set (control_plane_instance_ids F)
      then reconcile_stale_each E F W n rows d
      else (let st = (case describe_ec2_instance F W n iid of Inr desc \<Rightarrow> Inr (ed_state desc)
                      | Inl (Ec2InstanceNotFoundError _) \<Rightarrow> Inr ''terminated'' | Inl e \<Rightarrow> Inl e)
            in case st of Inl e \<Rightarrow> Inl (e, d)
               | Inr state \<Rightarrow>
                   if state \<in> {''terminated'', ''shutting-down''}
                   then (case reconcile_stale_each E F W (Suc n) rows
                           (put_node (row\<lparr>node_status := NS_TERMINATED, node_schedulable := False, node_updated_at := now E\<rparr>) d) of
                           Inl e \<Rightarrow> Inl e | Inr (k, d') \<Rightarrow> Inr (k + 1, d'))
                   else reconcile_stale_each E F W (Suc n) rows d))"

definition reconcile_stale_ec2_execution_nodes :: "env \<Rightarrow> fleet \<Rightarrow> aws \<Rightarrow> db \<Rightarrow> int infra" where
  "reconcile_stale_ec2_execution_nodes E F W d =
     (if py_strip (f_aws_region F) = [] then Inr (0, d)
      else reconcile_stale_each E F W 0 (filter stale_candidate (nodes d)) d)"

section \<open>Host resources\<close>

definition low_parts :: "env \<Rightarrow> host_probe \<Rightarrow> bool \<times> bool" where
  "low_parts E m =
     ((case hp_disk_free_mb m of Some v \<Rightarrow> v < s_min_free_disk_mb (cfg E) | None \<Rightarrow> False),
      (case hp_memory_free_mb m of Some v \<Rightarrow> v < s_min_free_memory_mb (cfg E) | None \<Rightarrow> False))"

definition resource_message :: "env \<Rightarrow> host_probe \<Rightarrow> string option \<Rightarrow> string" where
  "resource_message E m note =
     (let (low_disk, low_mem) = low_parts E m;
          parts = (if low_disk then [''disk_free_mb='' @ str_int (the (hp_disk_free_mb m)) @ '' < min_free_disk_mb='' @
                     str_int (s_min_free_disk_mb (cfg E))] else []) @
                  (if low_mem then [''memory_free_mb='' @ str_int (the (hp_memory_free_mb m)) @ '' < min_free_memory_mb='' @
                     str_int (s_min_free_memory_mb (cfg E))] else []);
          msg = join_str ''; '' parts
      in take 512 (case note of Some (c # cs) \<Rightarrow> msg @ '' | docker_df='' @ take 400 (c # cs) | _ \<Rightarrow> msg))"

definition keep_known :: "'a option \<Rightarrow> 'a option \<Rightarrow> 'a option" where
  "keep_known new old = (case new of Some v \<Rightarrow> Some v | None \<Rightarrow> old)"

definition apply_resource_metrics :: "env \<Rightarrow> host_probe \<Rightarrow> string option \<Rightarrow> node \<Rightarrow> node" where
  "apply_resource_metrics E m note row =
     (let prev_low = (node_resource_status row = Some RS_LOW_DISK \<or> node_resource_status row = Some RS_LOW_MEMORY);
          (low_disk, low_mem) = low_parts E m;
          row1 = row\<lparr>node_disk_total_mb := keep_known (hp_disk_total_mb m) (node_disk_total_mb row),
            node_disk_free_mb := keep_known (hp_disk_free_mb m) (node_disk_free_mb row),
            node_memory_total_mb := keep_known (hp_memory_total_mb m) (node_memory_total_mb row),
            node_memory_free_mb := keep_known (hp_memory_free_mb m) (node_memory_free_mb row),
            node_last_resource_check_at := Some (now E), node_updated_at := now E\<rparr>
      in if low_disk \<or> low_mem
         then row1\<lparr>node_resource_status := Some (if low_disk then RS_LOW_DISK else RS_LOW_MEMORY),
                node_resource_warning := Some (resource_message E m note), node_schedulable := False\<rparr>
         else row1\<lparr>node_resource_status := Some RS_OK, node_resource_warning := None,
                node_schedulable := (node_schedulable row \<or> (node_status row = NS_READY \<and> prev_low \<and> heartbeat_gate_ok E row))\<rparr>)"

text \<open>\<open>probe\<close> is the output of the probe script on the instance of the node; \<open>None\<close> is any exception.\<close>

definition check_one_ec2_node_resources :: "env \<Rightarrow> (node \<Rightarrow> string option) \<Rightarrow> node \<Rightarrow> db \<Rightarrow> bool \<times> db" where
  "check_one_ec2_node_resources E probe row d =
     (case probe row of None \<Rightarrow> (False, d)
      | Some out \<Rightarrow>
          (let parsed = parse_host_resource_ssm_stdout out;
               note = map_option (take 450) (hp_docker_system_df parsed)
           in (True, put_node (apply_resource_metrics E parsed note row) d)))"

fun monitor_each :: "env \<Rightarrow> (node \<Rightarrow> string option) \<Rightarrow> node list \<Rightarrow> int \<Rightarrow> db \<Rightarrow> int \<times> db" where
  "monitor_each E probe [] ok d = (ok, d)"
| "monitor_each E probe (row # rows) ok d =
     (if instance_of row = [] then monitor_each E probe rows ok d
      else let (good, d1) = check_one_ec2_node_resources E probe row d
           in monitor_each E probe rows (if good then ok + 1 else ok) d1)"

definition run_ec2_node_resource_monitor_tick :: "env \<Rightarrow> (node \<Rightarrow> string option) \<Rightarrow> db \<Rightarrow> int \<times> db" where
  "run_ec2_node_resource_monitor_tick E probe d =
     (if \<not> s_resource_monitor_enabled (cfg E) then (0, d)
      else monitor_each E probe (sort_key node_key (filter (\<lambda>n. node_provider_type n = PT_EC2 \<and>
             node_status n = NS_READY \<and> node_execution_mode n = EM_SSM_DOCKER) (nodes d))) 0 d)"

end
