(* ===== verification/Provisioning.thy ===== *)
theory Provisioning
  imports Node_Lifecycle Json_Text
begin

text \<open>
  Launching an EC2 instance: the provisioning request (\<^verbatim>\<open>infrastructure_service/models.py\<close>), the tags of the launch
  (\<^verbatim>\<open>ec2_cleanup.py\<close>) and \<^verbatim>\<open>provision_ec2_node\<close> (\<^verbatim>\<open>lifecycle.py\<close>).

  The record \<open>texts\<close> holds what the standard library renders or decodes here: base64 with UTF-8 (\<open>None\<close> is
  malformed), Python's \<^verbatim>\<open>str\<close> of a decoded JSON value, and the generated bootstrap script as a function of its
  five inputs. Tagging after the launch swallows its errors.
\<close>

record texts =
  tx_b64 :: "string \<Rightarrow> string option"
  tx_str_json :: "json \<Rightarrow> string"
  tx_bootstrap :: "string \<Rightarrow> string \<Rightarrow> string \<Rightarrow> string \<Rightarrow> int \<Rightarrow> string"
  tx_ready_gate :: "string \<Rightarrow> string"

section \<open>Requests\<close>

record provision_request =
  pr_ami_id :: string
  pr_instance_type :: string
  pr_subnet_id :: string
  pr_security_group_ids :: "string list"
  pr_iam_profile :: "string option"
  pr_key_name :: "string option"
  pr_region :: "string option"
  pr_node_key :: "string option"
  pr_name_tag :: "string option"
  pr_execution_mode :: "string option"
  pr_ssh_user :: "string option"
  pr_user_data :: "string option"
  pr_extra_tags :: "(string \<times> string) list"

definition validate_request :: "provision_request \<Rightarrow> infra_error option" where
  "validate_request q =
     (if py_strip (pr_ami_id q) = [] then Some (Ec2ProvisionConfigurationError ''ami_id is required for EC2 provisioning'')
      else if py_strip (pr_subnet_id q) = [] then Some (Ec2ProvisionConfigurationError ''subnet_id is required for EC2 provisioning'')
      else if pr_security_group_ids q = []
      then Some (Ec2ProvisionConfigurationError ''security_group_ids must contain at least one security group for VPC instances'')
      else if py_strip (pr_instance_type q) = []
      then Some (Ec2ProvisionConfigurationError ''instance_type is required for EC2 provisioning'')
      else None)"

definition user_data_from_settings :: "texts \<Rightarrow> fleet \<Rightarrow> infra_error + string option" where
  "user_data_from_settings T F =
     (let raw_b64 = py_strip (f_user_data_b64 F); raw = f_user_data F in
      if raw_b64 \<noteq> []
      then (case tx_b64 T raw_b64 of Some s \<Rightarrow> Inr (Some s)
            | None \<Rightarrow> Inl (Ec2ProvisionConfigurationError ''DEVNEST_EC2_USER_DATA_B64 must be valid UTF-8 base64''))
      else Inr (if py_strip raw = [] then None else Some raw))"

fun tags_of_items :: "string list \<Rightarrow> (string \<times> string) list \<Rightarrow> infra_error + (string \<times> string) list" where
  "tags_of_items [] out = Inr out"
| "tags_of_items (part # parts) out =
     (let item = py_strip part in
      if item = [] then tags_of_items parts out
      else if CHR ''='' \<notin> set item
      then Inl (Ec2ProvisionConfigurationError ''DEVNEST_EC2_EXTRA_TAGS entries must use key=value'')
      else let k = py_strip (takeWhile (\<lambda>c. c \<noteq> CHR ''='') item); v = py_strip (tl (dropWhile (\<lambda>c. c \<noteq> CHR ''='') item))
           in tags_of_items parts (if k \<noteq> [] \<and> v \<noteq> [] then dict_set out k v else out))"

definition extra_tags_from_settings :: "texts \<Rightarrow> fleet \<Rightarrow> infra_error + (string \<times> string) list" where
  "extra_tags_from_settings T F =
     (let raw = py_strip (f_extra_tags F) in
      if raw = [] then Inr []
      else if starts_with ''{'' raw
      then (case loads raw of
          None \<Rightarrow> Inl (Ec2ProvisionConfigurationError ''DEVNEST_EC2_EXTRA_TAGS must be JSON or comma key=value pairs'')
        | Some (JObj ps) \<Rightarrow>
            Inr (fold (\<lambda>(k, v) out. let k' = py_strip k; v' = py_strip (tx_str_json T v)
                        in if k' \<noteq> [] \<and> v' \<noteq> [] then dict_set out k' v' else out) ps [])
        | Some _ \<Rightarrow> Inl (Ec2ProvisionConfigurationError ''DEVNEST_EC2_EXTRA_TAGS JSON must be an object''))
      else tags_of_items (split_on (CHR '','') (map (\<lambda>c. if c = CHR '';'' then CHR '','' else c) raw)) [])"

definition request_from_settings :: "texts \<Rightarrow> fleet \<Rightarrow> infra_error + provision_request" where
  "request_from_settings T F =
     (case user_data_from_settings T F of Inl e \<Rightarrow> Inl e
      | Inr user_data \<Rightarrow>
     (case extra_tags_from_settings T F of Inl e \<Rightarrow> Inl e
      | Inr tags \<Rightarrow>
          Inr \<lparr>pr_ami_id = py_strip (f_ami_id F),
            pr_instance_type = (let t = py_strip (f_instance_type F) in if t = [] then ''t3.medium'' else t),
            pr_subnet_id = py_strip (f_subnet_id F),
            pr_security_group_ids = filter (\<lambda>x. x \<noteq> []) (map py_strip (split_on (CHR '','') (py_strip (f_security_group_ids F)))),
            pr_iam_profile = none_if_empty (py_strip (f_instance_profile F)),
            pr_key_name = none_if_empty (py_strip (f_key_name F)), pr_region = none_if_empty (py_strip (f_aws_region F)),
            pr_node_key = None, pr_name_tag = None, pr_execution_mode = None, pr_ssh_user = None,
            pr_user_data = user_data, pr_extra_tags = tags\<rparr>))"

text \<open>The inputs the generated bootstrap script insists on.\<close>

definition build_default_user_data :: "texts \<Rightarrow> string \<Rightarrow> string \<Rightarrow> string \<Rightarrow> string \<Rightarrow> int \<Rightarrow> infra_error + string" where
  "build_default_user_data T key base secret projects interval =
     (let k = py_strip key; b = rstrip_chars (CHR ''/'') (py_strip base);
          p = (let q = py_strip projects in if q = [] then ''/var/lib/devnest/workspace-projects'' else q);
          i = max 5 (min (if interval = 0 then 30 else interval) 3600)
      in if k = [] then Inl (Ec2ProvisionConfigurationError ''node_key is required to render EC2 bootstrap user-data'')
         else if b = [] then Inl (Ec2ProvisionConfigurationError
           ''DEVNEST_EC2_HEARTBEAT_INTERNAL_API_BASE_URL or INTERNAL_API_BASE_URL is required to render EC2 bootstrap user-data'')
         else if secret = [] then Inl (Ec2ProvisionConfigurationError
           ''INTERNAL_API_KEY_INFRASTRUCTURE or INTERNAL_API_KEY is required to render EC2 bootstrap user-data'')
         else Inr (tx_bootstrap T k b secret p i))"

section \<open>Tags\<close>

definition tag_prefix :: "fleet \<Rightarrow> string" where
  "tag_prefix F = (let p = py_strip (if f_tag_prefix F = [] then ''devnest'' else f_tag_prefix F)
                   in if p = [] then ''devnest'' else p)"

definition PROTECTED_EXTRA_TAG_KEYS :: "string list" where
  "PROTECTED_EXTRA_TAG_KEYS = [''managedby'', ''project'', ''autocleanup'', ''executionnode'']"

definition merge_extra_tags :: "(string \<times> string) list \<Rightarrow> (string \<times> string) list \<Rightarrow> (string \<times> string) list" where
  "merge_extra_tags tags extra = tags @
     map (\<lambda>(k, v). (take 127 k, take 256 v))
       (filter (\<lambda>(k, v). k \<noteq> [] \<and> v \<noteq> [] \<and> py_lower k \<notin> set PROTECTED_EXTRA_TAG_KEYS)
         (map (\<lambda>(k, v). (py_strip k, py_strip v)) extra))"

definition build_launch_tags :: "fleet \<Rightarrow> string option \<Rightarrow> string \<Rightarrow> (string \<times> string) list \<Rightarrow> (string \<times> string) list" where
  "build_launch_tags F key display extra =
     (let nm = (let s = py_strip display in if s = [] then ''devnest-node'' else s);
          nk = py_strip (str_or_empty key);
          base = [(''ManagedBy'', ''DevNest''), (''Project'', ''DevNest''), (''AutoCleanup'', ''true''),
                  (''Name'', take 256 nm), (take 127 (tag_prefix F @ '':managed''), ''true'')];
          named = (if nk = [] then [] else [(''ExecutionNode'', take 256 nk), (take 127 (tag_prefix F @ '':node_key''), take 256 nk)])
      in merge_extra_tags (base @ named) extra)"

definition run_instances_params :: "fleet \<Rightarrow> provision_request \<Rightarrow> run_params" where
  "run_instances_params F q =
     (let explicit_key = py_strip (str_or_empty (pr_node_key q));
          nm = (case strip_or_none (pr_name_tag q) of Some s \<Rightarrow> s | None \<Rightarrow> if explicit_key \<noteq> [] then explicit_key else ''devnest-node'');
          ud = str_or_empty (pr_user_data q)
      in \<lparr>rp_image = py_strip (pr_ami_id q), rp_type = py_strip (pr_instance_type q), rp_subnet = py_strip (pr_subnet_id q),
          rp_security_groups = pr_security_group_ids q,
          rp_tags = build_launch_tags F (none_if_empty explicit_key) nm (pr_extra_tags q),
          rp_profile = strip_or_none (pr_iam_profile q), rp_key_name = strip_or_none (pr_key_name q),
          rp_user_data = (if py_strip ud = [] then None else Some ud)\<rparr>)"

section \<open>Launching\<close>

definition require_free_node_key :: "string \<Rightarrow> db \<Rightarrow> infra_error option" where
  "require_free_node_key key d =
     (if find_node_by_key d key \<noteq> None then Some (NodeLifecycleError (''node_key '' @ py_repr key @ '' already exists'')) else None)"

text \<open>
  The addresses of the instance, as the launch reported them and, after the wait for the instance to run, as
  it is described. A failing description is ignored, a failing wait is not.
\<close>

definition launch_network :: "fleet \<Rightarrow> aws \<Rightarrow> bool \<Rightarrow> string \<Rightarrow> instance_dict \<Rightarrow>
    infra_error + (string option \<times> string option \<times> string option)" where
  "launch_network F W wait iid inst =
     (let priv = strip_or_none (in_private_ip inst); pub = strip_or_none (in_public_ip inst); az = strip_or_none (in_zone inst) in
      if \<not> wait then Inr (priv, pub, az)
      else (case aw_wait_running W iid of
          Some e \<Rightarrow> Inl (Ec2ProvisionConfigurationError (''wait instance_running failed for '' @ iid @ '': '' @ e))
        | None \<Rightarrow>
            (case describe_ec2_instance F W 0 iid of
               Inl _ \<Rightarrow> Inr (priv, pub, az)
             | Inr desc \<Rightarrow> Inr (or_else (ed_private_ip desc) priv, or_else (ed_public_ip desc) pub, or_else (ed_zone desc) az))))"

definition client_region_for :: "fleet \<Rightarrow> aws \<Rightarrow> provision_request \<Rightarrow> string" where
  "client_region_for F W q =
     (case aw_region_name W of Some (c # cs) \<Rightarrow> c # cs
      | _ \<Rightarrow> or_unknown (py_strip (case pr_region q of Some (c # cs) \<Rightarrow> c # cs | _ \<Rightarrow> f_aws_region F)))"

definition launched_row :: "env \<Rightarrow> fleet \<Rightarrow> aws \<Rightarrow> provision_request \<Rightarrow> string \<Rightarrow> string \<Rightarrow> string \<Rightarrow>
    string option \<times> string option \<times> string option \<Rightarrow> node" where
  "launched_row E F W q uuid16 iid key net =
     (let (priv, pub, az) = net; (vcpu, mem) = ec2_instance_type_capacity W (pr_instance_type q) in
      (blank_node E key)\<lparr>node_name := (case strip_or_none (pr_name_tag q) of Some s \<Rightarrow> s | None \<Rightarrow> key),
        node_provider_type := PT_EC2, node_provider_instance_id := Some iid, node_region := Some (client_region_for F W q),
        node_availability_zone := az, node_instance_type := Some (pr_instance_type q), node_private_ip := priv,
        node_public_ip := pub, node_execution_mode := resolve_execution_mode F (pr_execution_mode q),
        node_ssh_user := Some (resolve_ssh_user F (pr_ssh_user q)), node_status := NS_PROVISIONING, node_schedulable := False,
        node_total_cpu := vcpu, node_total_memory_mb := mem, node_allocatable_cpu := vcpu, node_allocatable_memory_mb := mem,
        node_default_topology_id := Some system_default_topology_id,
        node_metadata := [(''ec2'', JObj [stamp E ''provisioned_at'', (''provision_correlation_id'', JStr uuid16),
          (''managed'', JBool True), (''region'', JStr (client_region_for F W q))])],
        node_iam_instance_profile_name := strip_or_none (pr_iam_profile q)\<rparr>)"

text \<open>\<open>uuid16\<close> is the random correlation id of the launch.\<close>

definition provision_ec2_node :: "env \<Rightarrow> texts \<Rightarrow> fleet \<Rightarrow> aws \<Rightarrow> string \<Rightarrow> provision_request option \<Rightarrow> bool \<Rightarrow> db \<Rightarrow> node infra" where
  "provision_ec2_node E T F W uuid16 request wait d =
     (case (case request of Some q \<Rightarrow> Inr q | None \<Rightarrow> request_from_settings T F) of Inl e \<Rightarrow> Inl (e, d)
      | Inr q \<Rightarrow>
     (case validate_request q of Some e \<Rightarrow> Inl (e, d)
      | None \<Rightarrow>
          (let explicit_key = py_strip (str_or_empty (pr_node_key q)) in
     (case (if explicit_key = [] then None else require_free_node_key explicit_key d) of Some e \<Rightarrow> Inl (e, d)
      | None \<Rightarrow>
     (case aw_run W (run_instances_params F q) of
        ClientError code e \<Rightarrow>
          (if code \<in> set EC2_CLIENT_AUTH_ERROR_CODES
           then Inl (Ec2ProviderError (''AWS denied ec2 RunInstances ('' @ code @ ''); check worker IAM and limits: '' @ e), d)
           else Inl (Ec2ProvisionConfigurationError (''ec2 RunInstances failed ('' @ code @ ''): '' @ e), d))
      | AwsOk [] \<Rightarrow> Inl (Ec2ProvisionConfigurationError ''run_instances returned no Instances'', d)
      | AwsOk (inst # _) \<Rightarrow>
     (case strip_or_none (in_id inst) of None \<Rightarrow> Inl (Ec2ProvisionConfigurationError ''run_instances returned empty InstanceId'', d)
      | Some iid \<Rightarrow>
     (case launch_network F W wait iid inst of Inl e \<Rightarrow> Inl (e, d)
      | Inr net \<Rightarrow>
          (let key = (if explicit_key \<noteq> [] then explicit_key else ''ec2-'' @ iid) in
     (case (if explicit_key \<noteq> [] then None else require_free_node_key key d) of Some e \<Rightarrow> Inl (e, d)
      | None \<Rightarrow>
          (let row = launched_row E F W q uuid16 iid key net; (pk, d1) = add_node row d
           in Inr (row\<lparr>node_pk := pk\<rparr>, d1)))))))))))"

end
