(* ===== verification/Autoscaler.thy ===== *)
theory Autoscaler
  imports Provisioning
begin

text \<open>
  The fleet autoscaler (\<^verbatim>\<open>autoscaler_service/service.py\<close>, \<^verbatim>\<open>models.py\<close> and \<^verbatim>\<open>workers/autoscaler_loop.py\<close>): a capacity
  rollup of the nodes, the decision of one tick, launching one node and draining and terminating an idle one.

  The texts that explain a decision are left out: they are logged and nothing reads them. Ages are compared
  in microseconds. A launch and a termination get the answers of AWS as \<open>aws\<close> records; the synchronisation
  of the nodes that are starting gets one record per node.
\<close>

section \<open>Counting\<close>

definition demand_job :: "job_type \<Rightarrow> bool" where
  "demand_job t = (t \<in> {JT_CREATE, JT_START, JT_RESTART, JT_UPDATE, JT_SNAPSHOT_RESTORE, JT_REPO_IMPORT})"

definition active_ec2_status :: "node_status \<Rightarrow> bool" where
  "active_ec2_status st = (st \<noteq> NS_TERMINATED)"

definition active_ec2 :: "node \<Rightarrow> bool" where
  "active_ec2 n = (node_provider_type n = PT_EC2 \<and> active_ec2_status (node_status n))"

definition provisioning_ec2 :: "node \<Rightarrow> bool" where
  "provisioning_ec2 n = (node_provider_type n = PT_EC2 \<and> node_status n = NS_PROVISIONING)"

definition ready_ec2 :: "node \<Rightarrow> bool" where
  "ready_ec2 n = (node_provider_type n = PT_EC2 \<and> node_status n = NS_READY \<and> node_schedulable n)"

definition count_ec2_provisioning_nodes :: "db \<Rightarrow> int" where
  "count_ec2_provisioning_nodes d = count_rows provisioning_ec2 (nodes d)"

definition active_ec2_nodes_count :: "db \<Rightarrow> int" where
  "active_ec2_nodes_count d = count_rows active_ec2 (nodes d)"

definition count_all_ready_schedulable_ec2 :: "db \<Rightarrow> int" where
  "count_all_ready_schedulable_ec2 d = count_rows ready_ec2 (nodes d)"

definition count_ec2_ready_schedulable :: "env \<Rightarrow> db \<Rightarrow> int" where
  "count_ec2_ready_schedulable E d = count_rows (\<lambda>n. schedulable_base E d n \<and> node_provider_type n = PT_EC2) (nodes d)"

definition workspace_undeleted :: "db \<Rightarrow> int \<Rightarrow> bool" where
  "workspace_undeleted d k = (case get_ws d k of None \<Rightarrow> False | Some w \<Rightarrow> ws_status w \<noteq> WS_DELETED)"

text \<open>The entry of \<^verbatim>\<open>_workload_counts_by_node_keys\<close> for one key.\<close>

definition workload_count_on_node :: "db \<Rightarrow> string \<Rightarrow> int" where
  "workload_count_on_node d key0 =
     (let key = py_strip key0 in
      if key = [] then 0
      else count_rows (\<lambda>r. rt_node_id r = Some key \<and> workspace_undeleted d (rt_workspace_id r)) (runtimes d))"

definition joined_nodes :: "db \<Rightarrow> int \<Rightarrow> string option list" where
  "joined_nodes d k =
     (case filter (\<lambda>r. rt_workspace_id r = k) (runtimes d) of [] \<Rightarrow> [None] | rs \<Rightarrow> map rt_node_id rs)"

definition active_workspace_count_for_scale_down :: "db \<Rightarrow> node \<Rightarrow> int" where
  "active_workspace_count_for_scale_down d n =
     (let key = py_strip (node_key n) in
      sum_list (map (\<lambda>w. count_rows (\<lambda>nid. ws_status w \<noteq> WS_DELETED \<and>
          (ws_execution_node_id w = Some (node_pk n) \<or> (key \<noteq> [] \<and> nid = Some key))) (joined_nodes d (ws_id w)))
        (workspaces d)))"

definition count_idle_ec2_nodes :: "env \<Rightarrow> db \<Rightarrow> int" where
  "count_idle_ec2_nodes E d = count_rows (\<lambda>n. schedulable_base E d n \<and> node_provider_type n = PT_EC2 \<and>
     workload_count_on_node d (node_key n) = 0) (nodes d)"

definition count_queued_jobs :: "db \<Rightarrow> (job_type \<Rightarrow> bool) \<Rightarrow> int" where
  "count_queued_jobs d types = count_rows (\<lambda>j. job_status j = JS_QUEUED \<and> types (job_type j)) (jobs d)"

definition count_active_or_queued_jobs :: "db \<Rightarrow> int" where
  "count_active_or_queued_jobs d = count_rows (\<lambda>j. job_status j = JS_QUEUED \<or> job_status j = JS_RUNNING) (jobs d)"

definition count_non_deleted_workspaces :: "db \<Rightarrow> int" where
  "count_non_deleted_workspaces d = count_rows (\<lambda>w. ws_status w \<noteq> WS_DELETED) (workspaces d)"

definition count_workspaces_pending_placement_compute :: "db \<Rightarrow> int" where
  "count_workspaces_pending_placement_compute d =
     count_rows (\<lambda>w. ws_status w \<in> {WS_CREATING, WS_PENDING, WS_STARTING, WS_RESTARTING, WS_UPDATING}) (workspaces d)"

definition placement_failure_signal_window_seconds :: "fleet \<Rightarrow> int" where
  "placement_failure_signal_window_seconds F = max 1 (f_recent_activity_window_seconds F)"

definition count_recent_placement_failure_signals :: "env \<Rightarrow> fleet \<Rightarrow> db \<Rightarrow> int" where
  "count_recent_placement_failure_signals E F d =
     count_rows (\<lambda>a. au_action a = ''placement.no_schedulable_node'' \<and>
       now E - seconds (placement_failure_signal_window_seconds F) \<le> au_created_at a) (audits d)"

definition effective_recent_placement_failure_signals :: "env \<Rightarrow> fleet \<Rightarrow> int \<Rightarrow> int \<Rightarrow> int \<Rightarrow> db \<Rightarrow> int" where
  "effective_recent_placement_failure_signals E F pending_jobs active_jobs workspaces_left d =
     (let raw = count_recent_placement_failure_signals E F d in
      if raw \<le> 0 then 0
      else if pending_jobs \<le> 0 \<and> active_jobs \<le> 0 \<and> workspaces_left \<le> 0 then 0
      else raw)"

section \<open>Capacity\<close>

definition used_slots :: "db \<Rightarrow> node \<Rightarrow> int" where
  "used_slots d n = max (count_active_workloads_on_node_key d (py_strip (node_key n)))
     (count_workspace_slot_claims_on_node_id d (Some (node_pk n)))"

definition node_can_fit_default_workspace :: "env \<Rightarrow> db \<Rightarrow> node \<Rightarrow> bool" where
  "node_can_fit_default_workspace E d n =
     (let key = py_strip (node_key n); (used_cpu, used_mem) = total_reserved_on_node_key d key in
      key \<noteq> [] \<and>
      \<not> max 0 (node_max_workspaces n - used_slots d n) < s_required_slots (cfg E) \<and>
      \<not> max 0 (node_allocatable_cpu n - used_cpu) < s_required_cpu (cfg E) \<and>
      \<not> max 0 (node_allocatable_memory_mb n - used_mem) < s_required_memory_mb (cfg E) \<and>
      \<not> max 0 (node_allocatable_disk_mb n - total_reserved_disk_mb_on_node_key d key) < s_required_disk_mb (cfg E))"

definition any_ready_node_can_fit :: "env \<Rightarrow> db \<Rightarrow> bool" where
  "any_ready_node_can_fit E d = list_ex (node_can_fit_default_workspace E d) (filter (schedulable_base E d) (nodes d))"

text \<open>How many default workspaces fit, for the resources that the settings ask for at all.\<close>

definition slots_by_resources :: "env \<Rightarrow> int \<Rightarrow> rat \<Rightarrow> int \<Rightarrow> int \<Rightarrow> int" where
  "slots_by_resources E fs cpu mem disk =
     (let by_cpu = (if s_required_cpu (cfg E) > 0 then \<lfloor>cpu / s_required_cpu (cfg E)\<rfloor> else fs);
          by_mem = (if s_required_memory_mb (cfg E) > 0 then mem div s_required_memory_mb (cfg E) else fs);
          by_disk = (if s_required_disk_mb (cfg E) > 0 then disk div s_required_disk_mb (cfg E) else fs)
      in max 0 (min fs (min by_cpu (min by_mem by_disk))))"

definition workspace_slots_from_free_resources :: "env \<Rightarrow> int \<Rightarrow> rat \<Rightarrow> int \<Rightarrow> int \<Rightarrow> int" where
  "workspace_slots_from_free_resources E free_slots cpu mem disk =
     (let fs = max 0 free_slots in if fs \<le> 0 then 0 else slots_by_resources E fs cpu mem disk)"

definition estimated_empty_workspace_capacity_on_node :: "env \<Rightarrow> node \<Rightarrow> int" where
  "estimated_empty_workspace_capacity_on_node E n =
     slots_by_resources E (max 0 (node_max_workspaces n)) (max 0 (node_allocatable_cpu n))
       (max 0 (node_allocatable_memory_mb n)) (max 0 (node_allocatable_disk_mb n))"

record fleet_capacity =
  fc_total_nodes :: int
  fc_ec2_nodes_active :: int
  fc_ready_schedulable_nodes :: int
  fc_ready_schedulable_ec2_nodes :: int
  fc_provisioning_nodes :: int
  fc_draining_nodes :: int
  fc_active_slots :: int
  fc_free_slots :: int
  fc_pending_workspace_jobs :: int
  fc_pending_placement_jobs :: int
  fc_recent_placement_failures :: int
  fc_filtered_failure_signals :: int
  fc_pending_demand_units :: int
  fc_ready_capacity :: int
  fc_provisioning_capacity :: int
  fc_total_available_capacity :: int
  fc_total_cpu :: rat
  fc_free_cpu :: rat
  fc_total_memory_mb :: int
  fc_free_memory_mb :: int
  fc_total_disk_mb :: int
  fc_free_disk_mb :: int
  fc_idle_ec2_nodes :: int

definition node_free_cpu :: "db \<Rightarrow> node \<Rightarrow> rat" where
  "node_free_cpu d n = max 0 (max 0 (node_allocatable_cpu n) - fst (total_reserved_on_node_key d (py_strip (node_key n))))"

definition node_free_memory :: "db \<Rightarrow> node \<Rightarrow> int" where
  "node_free_memory d n = max 0 (max 0 (node_allocatable_memory_mb n) - snd (total_reserved_on_node_key d (py_strip (node_key n))))"

definition node_free_disk :: "db \<Rightarrow> node \<Rightarrow> int" where
  "node_free_disk d n = max 0 (max 0 (node_allocatable_disk_mb n) - total_reserved_disk_mb_on_node_key d (py_strip (node_key n)))"

definition build_fleet_capacity_snapshot :: "env \<Rightarrow> fleet \<Rightarrow> db \<Rightarrow> fleet_capacity" where
  "build_fleet_capacity_snapshot E F d =
     (let ready = filter (schedulable_base E d) (nodes d);
          pool = filter (\<lambda>n. py_strip (node_key n) \<noteq> []) ready;
          free_slots = sum_list (map (\<lambda>n. max 0 (max 0 (node_max_workspaces n) - used_slots d n)) pool);
          free_cpu = sum_list (map (node_free_cpu d) pool);
          free_mem = sum_list (map (node_free_memory d) pool);
          free_disk = sum_list (map (node_free_disk d) pool);
          pending = count_queued_jobs d demand_job;
          recent = effective_recent_placement_failure_signals E F pending (count_active_or_queued_jobs d)
                     (count_non_deleted_workspaces d) d;
          filtered = (if recent > 1 then recent else 0);
          ready_capacity = workspace_slots_from_free_resources E free_slots free_cpu free_mem free_disk;
          incoming = sum_list (map (estimated_empty_workspace_capacity_on_node E) (filter provisioning_ec2 (nodes d)))
      in \<lparr>fc_total_nodes = int (length (nodes d)), fc_ec2_nodes_active = active_ec2_nodes_count d,
          fc_ready_schedulable_nodes = int (length ready),
          fc_ready_schedulable_ec2_nodes = count_rows (\<lambda>n. node_provider_type n = PT_EC2) ready,
          fc_provisioning_nodes = count_ec2_provisioning_nodes d,
          fc_draining_nodes = count_rows (\<lambda>n. node_provider_type n = PT_EC2 \<and> node_status n = NS_DRAINING) (nodes d),
          fc_active_slots = sum_list (map (used_slots d) pool), fc_free_slots = free_slots,
          fc_pending_workspace_jobs = count_queued_jobs d (\<lambda>_. True), fc_pending_placement_jobs = pending,
          fc_recent_placement_failures = recent, fc_filtered_failure_signals = filtered,
          fc_pending_demand_units = pending + filtered, fc_ready_capacity = ready_capacity,
          fc_provisioning_capacity = incoming, fc_total_available_capacity = ready_capacity + incoming,
          fc_total_cpu = py_round 4 (sum_list (map (\<lambda>n. max 0 (node_allocatable_cpu n)) pool)),
          fc_free_cpu = py_round 4 free_cpu,
          fc_total_memory_mb = sum_list (map (\<lambda>n. max 0 (node_allocatable_memory_mb n)) pool), fc_free_memory_mb = free_mem,
          fc_total_disk_mb = sum_list (map (\<lambda>n. max 0 (node_allocatable_disk_mb n)) pool), fc_free_disk_mb = free_disk,
          fc_idle_ec2_nodes = count_idle_ec2_nodes E d\<rparr>)"

text \<open>Whether \<^verbatim>\<open>_capacity_insufficient_for_one_workspace\<close> gives a reason.\<close>

definition capacity_insufficient_for_one_workspace :: "env \<Rightarrow> fleet_capacity \<Rightarrow> bool" where
  "capacity_insufficient_for_one_workspace E c =
     (fc_free_slots c < s_required_slots (cfg E) \<or> fc_free_cpu c < s_required_cpu (cfg E) \<or>
      fc_free_memory_mb c < s_required_memory_mb (cfg E) \<or> fc_free_disk_mb c < s_required_disk_mb (cfg E))"

definition effective_pending_demand_workspace_units :: "fleet_capacity \<Rightarrow> db \<Rightarrow> int" where
  "effective_pending_demand_workspace_units c d =
     (if fc_filtered_failure_signals c > 0 \<and> fc_pending_placement_jobs c = 0 \<and>
         count_workspaces_pending_placement_compute d = 0 then 0
      else fc_pending_placement_jobs c + fc_filtered_failure_signals c)"

section \<open>Ages\<close>

definition min_list_opt :: "int list \<Rightarrow> int option" where
  "min_list_opt xs = (case xs of [] \<Rightarrow> None | y # ys \<Rightarrow> Some (fold min ys y))"

definition max_list_opt :: "int list \<Rightarrow> int option" where
  "max_list_opt xs = (case xs of [] \<Rightarrow> None | y # ys \<Rightarrow> Some (fold max ys y))"

definition minimum_age_among_active_ec2_nodes :: "env \<Rightarrow> node list \<Rightarrow> int option" where
  "minimum_age_among_active_ec2_nodes E ns =
     min_list_opt (filter (\<lambda>a. 0 \<le> a) (map (\<lambda>n. now E - node_created_at n) (filter active_ec2 ns)))"

definition latest_ec2_created_at :: "node list \<Rightarrow> time option" where
  "latest_ec2_created_at ns = max_list_opt (map node_created_at
     (filter (\<lambda>n. node_provider_type n = PT_EC2 \<and> node_status n \<in> {NS_PROVISIONING, NS_READY}) ns))"

definition latest_ec2_scale_in_at :: "node list \<Rightarrow> time option" where
  "latest_ec2_scale_in_at ns = max_list_opt (map node_updated_at
     (filter (\<lambda>n. node_provider_type n = PT_EC2 \<and> node_status n \<in> {NS_DRAINING, NS_TERMINATING, NS_TERMINATED}) ns))"

definition within_cooldown :: "env \<Rightarrow> time option \<Rightarrow> int \<Rightarrow> bool" where
  "within_cooldown E ts cooldown =
     (case ts of None \<Rightarrow> False | Some t \<Rightarrow> 0 \<le> now E - t \<and> now E - t < seconds cooldown)"

section \<open>Configuration\<close>

definition provider_allows_ec2_autoscale :: "env \<Rightarrow> bool" where
  "provider_allows_ec2_autoscale E =
     (let raw = s_node_provider (cfg E) in py_lower (py_strip (if raw = [] then ''all'' else raw)) \<in> {''all'', ''ec2''})"

definition ec2_heartbeat_internal_api_base_url :: "fleet \<Rightarrow> string" where
  "ec2_heartbeat_internal_api_base_url F =
     (let u = py_strip (f_heartbeat_api_base_url F) in if u \<noteq> [] then u else py_strip (f_internal_api_base_url F))"

definition ec2_heartbeat_internal_api_key :: "fleet \<Rightarrow> string" where
  "ec2_heartbeat_internal_api_key F =
     (let k = py_strip (f_internal_api_key_infrastructure F) in if k \<noteq> [] then k else py_strip (f_internal_api_key F))"

definition workspace_projects_base_for_ec2 :: "env \<Rightarrow> fleet \<Rightarrow> string" where
  "workspace_projects_base_for_ec2 E F =
     (case filter (\<lambda>p. p \<noteq> []) (map py_strip [f_ec2_projects_base F, s_workspace_projects_base (cfg E)]) of
        [] \<Rightarrow> ''/var/lib/devnest/workspace-projects'' | p # _ \<Rightarrow> p)"

fun infra_error_text :: "infra_error \<Rightarrow> string" where
  "infra_error_text (NodeNotFoundError e) = error_text e"
| "infra_error_text (NodeLifecycleError m) = m"
| "infra_error_text (Ec2ProviderError m) = m"
| "infra_error_text (Ec2InstanceNotFoundError m) = m"
| "infra_error_text (Ec2InvalidInstanceIdError m) = m"
| "infra_error_text (Ec2ProvisionConfigurationError m) = m"
| "infra_error_text DbIntegrityError = []"

definition bootstrap_config_message :: string where
  "bootstrap_config_message = ''bootstrap config is required: set DEVNEST_EC2_USER_DATA_B64/DEVNEST_EC2_USER_DATA, '' @
     ''or set DEVNEST_EC2_HEARTBEAT_INTERNAL_API_BASE_URL (or INTERNAL_API_BASE_URL) plus '' @
     ''INTERNAL_API_KEY_INFRASTRUCTURE (or INTERNAL_API_KEY) so DevNest can generate Amazon Linux 2023 '' @
     ''user-data, or set DEVNEST_EC2_BOOTSTRAP_PREBAKED=true for an AMI that starts Docker and heartbeat''"

definition missing_settings :: "fleet \<Rightarrow> string list" where
  "missing_settings F =
     (let blank = (\<lambda>s. py_strip s = []);
          mode = py_lower (py_strip (if f_default_execution_mode F = [] then ''ssm_docker'' else f_default_execution_mode F))
      in (if blank (f_aws_region F) then [''AWS_REGION is required for EC2 autoscaler provisioning''] else []) @
         (if blank (f_ami_id F) then [''DEVNEST_EC2_AMI_ID is required''] else []) @
         (if blank (f_instance_type F) then [''DEVNEST_EC2_INSTANCE_TYPE is required''] else []) @
         (if blank (f_subnet_id F) then [''DEVNEST_EC2_SUBNET_ID is required''] else []) @
         (if list_all blank (split_on (CHR '','') (py_strip (f_security_group_ids F)))
          then [''DEVNEST_EC2_SECURITY_GROUP_IDS must contain at least one security group id''] else []) @
         (if mode = ''ssm_docker'' \<and> blank (f_instance_profile F)
          then [''DEVNEST_EC2_INSTANCE_PROFILE is required when DEVNEST_EC2_DEFAULT_EXECUTION_MODE=ssm_docker''] else []) @
         (if mode = ''ssh_docker'' \<and> blank (f_key_name F)
          then [''DEVNEST_EC2_KEY_NAME is required when DEVNEST_EC2_DEFAULT_EXECUTION_MODE=ssh_docker''] else []) @
         (if blank (f_user_data F) \<and> blank (f_user_data_b64 F) \<and>
             (ec2_heartbeat_internal_api_base_url F = [] \<or> ec2_heartbeat_internal_api_key F = []) \<and> \<not> f_bootstrap_prebaked F
          then [bootstrap_config_message] else []))"

definition ec2_autoscaler_provisioning_config_errors :: "texts \<Rightarrow> fleet \<Rightarrow> string list" where
  "ec2_autoscaler_provisioning_config_errors T F =
     (let errors = missing_settings F;
          problem = (case request_from_settings T F of Inl e \<Rightarrow> Some e | Inr q \<Rightarrow> validate_request q)
      in case problem of None \<Rightarrow> errors
         | Some e \<Rightarrow> (let msg = infra_error_text e in
             if msg \<noteq> [] \<and> list_all (\<lambda>x. \<not> contains_str msg x) errors then errors @ [msg] else errors))"

section \<open>Decisions\<close>

record scale_down_eval =
  sd_node_key :: "string option"
  sd_idle_ec2_ready_nodes :: int
  sd_min_before_reclaim :: int

definition scale_down_candidates :: "env \<Rightarrow> fleet \<Rightarrow> db \<Rightarrow> node list" where
  "scale_down_candidates E F d =
     filter (\<lambda>n. node_created_at n \<le> now E - seconds (max 0 (f_scale_down_idle_seconds F)))
       (filter (\<lambda>n. workload_count_on_node d (node_key n) = 0) (sort_key node_key (filter ready_ec2 (nodes d))))"

definition evaluate_scale_down :: "env \<Rightarrow> fleet \<Rightarrow> db \<Rightarrow> scale_down_eval" where
  "evaluate_scale_down E F d =
     (let n_ready = count_all_ready_schedulable_ec2 d; least = max 0 (f_min_ec2_before_reclaim F);
          pick = (if n_ready < least then None
            else (case sort_key (\<lambda>n. (node_allocatable_cpu n, node_allocatable_memory_mb n, node_key n)) (scale_down_candidates E F d) of
                    [] \<Rightarrow> None | n # _ \<Rightarrow> Some (node_key n)))
      in \<lparr>sd_node_key = pick, sd_idle_ec2_ready_nodes = n_ready, sd_min_before_reclaim = least\<rparr>)"

definition select_node_for_scale_down :: "env \<Rightarrow> fleet \<Rightarrow> db \<Rightarrow> node option" where
  "select_node_for_scale_down E F d =
     (case sd_node_key (evaluate_scale_down E F d) of Some (c # cs) \<Rightarrow> find_node_by_key d (c # cs) | _ \<Rightarrow> None)"

datatype scale_action = SUPPRESSED_BY_CONFIG | SUPPRESSED_BY_CAP | SUPPRESSED_BY_RECENT_PROVISIONING
  | SUPPRESSED_BY_COOLDOWN | SCALE_OUT_RECOMMENDED | SCALE_IN_RECOMMENDED | NO_ACTION

record fleet_decision =
  fd_action :: scale_action
  fd_scale_out_recommended :: bool
  fd_scale_in_recommended :: bool
  fd_suppressed_by_cooldown :: bool
  fd_suppressed_by_cap :: bool
  fd_suppressed_by_config :: bool
  fd_suppressed_by_recent :: bool
  fd_capacity :: fleet_capacity
  fd_scale_down :: scale_down_eval

definition live_demand :: "fleet_capacity \<Rightarrow> db \<Rightarrow> bool" where
  "live_demand c d = (effective_pending_demand_workspace_units c d > 0 \<or> fc_pending_workspace_jobs c > 0)"

definition schedulable_pool_exhausted_or_missing :: "env \<Rightarrow> fleet_capacity \<Rightarrow> bool" where
  "schedulable_pool_exhausted_or_missing E c =
     (capacity_insufficient_for_one_workspace E c \<and>
      (fc_ready_schedulable_nodes c > 0 \<or>
       (fc_ec2_nodes_active c > 0 \<and> fc_ready_schedulable_ec2_nodes c = 0 \<and> fc_provisioning_nodes c = 0)))"

definition demand_driven_scale_out :: "fleet \<Rightarrow> fleet_capacity \<Rightarrow> int \<Rightarrow> bool" where
  "demand_driven_scale_out F c pending =
     (pending > fc_total_available_capacity c \<or>
      (fc_total_available_capacity c = 0 \<and> pending > 0) \<or>
      (pending > 0 \<and> fc_free_slots c - pending < f_min_idle_slots F \<and> fc_provisioning_capacity c = 0))"

definition scale_out_wanted :: "env \<Rightarrow> fleet \<Rightarrow> fleet_capacity \<Rightarrow> db \<Rightarrow> bool" where
  "scale_out_wanted E F c d =
     (live_demand c d \<and>
      (demand_driven_scale_out F c (effective_pending_demand_workspace_units c d) \<or>
       (\<not> any_ready_node_can_fit E d \<and> schedulable_pool_exhausted_or_missing E c)))"

definition pick_action :: "bool \<Rightarrow> bool \<Rightarrow> bool \<Rightarrow> bool \<Rightarrow> bool \<Rightarrow> bool \<Rightarrow> scale_action" where
  "pick_action by_config by_cap by_recent by_cooldown out_rec in_rec =
     (if by_config then SUPPRESSED_BY_CONFIG
      else if by_cap then SUPPRESSED_BY_CAP
      else if by_recent then SUPPRESSED_BY_RECENT_PROVISIONING
      else if by_cooldown then SUPPRESSED_BY_COOLDOWN
      else if out_rec then SCALE_OUT_RECOMMENDED
      else if in_rec then SCALE_IN_RECOMMENDED
      else NO_ACTION)"

definition evaluate_fleet_autoscaler_tick :: "env \<Rightarrow> texts \<Rightarrow> fleet \<Rightarrow> db \<Rightarrow> fleet_decision" where
  "evaluate_fleet_autoscaler_tick E T F d =
     (let c = build_fleet_capacity_snapshot E F d;
          down = evaluate_scale_down E F d;
          scale_out = scale_out_wanted E F c d;
          scale_in = (case sd_node_key down of Some (_ # _) \<Rightarrow> True | _ \<Rightarrow> False);
          runs = (f_enabled F \<and> \<not> f_evaluate_only F);
          by_config = (if scale_out then \<not> runs \<or> \<not> provider_allows_ec2_autoscale E \<or>
                                     ec2_autoscaler_provisioning_config_errors T F \<noteq> []
                       else scale_in \<and> \<not> runs);
          by_cap = (if scale_out then fc_ec2_nodes_active c \<ge> f_max_nodes F \<or> fc_provisioning_nodes c \<ge> f_max_concurrent_provisioning F
                    else scale_in \<and> fc_ec2_nodes_active c \<le> f_min_nodes F);
          by_recent = (scale_out \<and> f_suppress_recent_seconds F > 0 \<and>
                       (case minimum_age_among_active_ec2_nodes E (nodes d) of None \<Rightarrow> False
                        | Some a \<Rightarrow> a < seconds (f_suppress_recent_seconds F)));
          by_cooldown = (if scale_out then within_cooldown E (latest_ec2_created_at (nodes d)) (f_scale_out_cooldown_seconds F)
                         else scale_in \<and> within_cooldown E (latest_ec2_scale_in_at (nodes d)) (f_scale_in_cooldown_seconds F))
      in \<lparr>fd_action = pick_action by_config by_cap by_recent by_cooldown scale_out scale_in,
          fd_scale_out_recommended = scale_out, fd_scale_in_recommended = scale_in,
          fd_suppressed_by_cooldown = by_cooldown, fd_suppressed_by_cap = by_cap, fd_suppressed_by_config = by_config,
          fd_suppressed_by_recent = by_recent, fd_capacity = c, fd_scale_down = down\<rparr>)"

record scale_up_eval =
  su_should_provision :: bool
  su_provisioning_in_flight :: int
  su_idle_ec2_nodes :: int

text \<open>A malformed setting makes \<^verbatim>\<open>from_settings\<close> raise; an incomplete request is a refusal.\<close>

definition evaluate_scale_up :: "env \<Rightarrow> texts \<Rightarrow> fleet \<Rightarrow> bool \<Rightarrow> db \<Rightarrow> infra_error + scale_up_eval" where
  "evaluate_scale_up E T F insufficient d =
     (let in_flight = count_ec2_provisioning_nodes d;
          no = (\<lambda>k. Inr \<lparr>su_should_provision = False, su_provisioning_in_flight = in_flight, su_idle_ec2_nodes = k\<rparr>);
          n_idle = count_idle_ec2_nodes E d
      in if \<not> f_enabled F then no 0
         else if \<not> insufficient then no 0
         else if \<not> provider_allows_ec2_autoscale E then no 0
         else if n_idle > 0 then no n_idle
         else if in_flight \<ge> f_max_concurrent_provisioning F then no 0
         else (case request_from_settings T F of Inl e \<Rightarrow> Inl e
           | Inr q \<Rightarrow> if validate_request q \<noteq> None then no 0
               else Inr \<lparr>su_should_provision = True, su_provisioning_in_flight = in_flight, su_idle_ec2_nodes = 0\<rparr>))"

end
