(* ===== verification/Scaling.thy ===== *)
theory Scaling
  imports Autoscaler
begin

text \<open>
  Acting on the decisions of the autoscaler: launching one node, draining and terminating one, and the ticks of
  the autoscaler loop (\<^verbatim>\<open>autoscaler_service/service.py\<close>, \<^verbatim>\<open>workers/autoscaler_loop.py\<close>).

  What the world answers during one tick is the record \<open>fleet_world\<close>: AWS for the synchronisation of the \<open>i\<close>-th
  node that is starting, AWS for a launch or a termination, the random parts of keys, and \<open>fw_race\<close>, the
  database that other transactions leave between the commit of a drain and the second look at the node.
\<close>

record fleet_world =
  fw_sync :: "nat \<Rightarrow> aws"
  fw_aws :: aws
  fw_uuid12 :: string
  fw_uuid16 :: string
  fw_race :: "db \<Rightarrow> db"

section \<open>Scaling out\<close>

text \<open>
  Errors of one synchronisation are logged and the loop goes on, except for a violated constraint: it makes the
  session unusable, so that the rest of the tick raises.
\<close>

fun sync_each :: "env \<Rightarrow> texts \<Rightarrow> fleet \<Rightarrow> (nat \<Rightarrow> aws) \<Rightarrow> nat \<Rightarrow> node list \<Rightarrow> db \<Rightarrow> unit infra" where
  "sync_each E T F Ws i [] d = Inr ((), d)"
| "sync_each E T F Ws i (row # rows) d =
     (case sync_node_state E F (Ws i) (tx_ready_gate T) None (Some (node_key row)) True d of
        Inl (e, d1) \<Rightarrow> if e = DbIntegrityError then Inl (e, d1) else sync_each E T F Ws (Suc i) rows d1
      | Inr (_, d1) \<Rightarrow> sync_each E T F Ws (Suc i) rows d1)"

definition sync_provisioning_ec2_nodes :: "env \<Rightarrow> texts \<Rightarrow> fleet \<Rightarrow> (nat \<Rightarrow> aws) \<Rightarrow> db \<Rightarrow> unit infra" where
  "sync_provisioning_ec2_nodes E T F Ws d =
     sync_each E T F Ws 0 (sort_key node_key (filter (\<lambda>n. node_provider_type n = PT_EC2 \<and> promotable (node_status n)) (nodes d))) d"

text \<open>\<^verbatim>\<open>str.replace\<close>\<close>

fun replace_str :: "string \<Rightarrow> string \<Rightarrow> string \<Rightarrow> string" where
  "replace_str pat new [] = []"
| "replace_str pat new (c # cs) =
     (if pat \<noteq> [] \<and> starts_with pat (c # cs) then new @ replace_str pat new (drop (length pat - 1) cs)
      else c # replace_str pat new cs)"

definition autoscaler_node_key :: "string \<Rightarrow> string" where
  "autoscaler_node_key uuid12 = ''ec2-autoscale-'' @ uuid12"

definition build_autoscaler_ec2_provision_request :: "env \<Rightarrow> texts \<Rightarrow> fleet \<Rightarrow> string \<Rightarrow> infra_error + provision_request" where
  "build_autoscaler_ec2_provision_request E T F uuid12 =
     (case request_from_settings T F of Inl e \<Rightarrow> Inl e
      | Inr q0 \<Rightarrow>
          (let key = autoscaler_node_key uuid12;
               q = q0\<lparr>pr_node_key := Some key, pr_name_tag := Some key\<rparr>;
               custom = str_or_empty (pr_user_data q)
           in if py_strip custom \<noteq> []
              then Inr (q\<lparr>pr_user_data := Some (replace_str ''{{DEVNEST_NODE_KEY}}'' key (replace_str ''{{NODE_KEY}}'' key custom))\<rparr>)
              else if \<not> f_bootstrap_prebaked F
              then (case build_default_user_data T key (ec2_heartbeat_internal_api_base_url F) (ec2_heartbeat_internal_api_key F)
                           (workspace_projects_base_for_ec2 E F) (f_heartbeat_interval_seconds F) of
                      Inl e \<Rightarrow> Inl e | Inr s \<Rightarrow> Inr (q\<lparr>pr_user_data := Some s\<rparr>))
              else Inr q))"

definition provision_one_from_fleet_decision :: "env \<Rightarrow> texts \<Rightarrow> fleet \<Rightarrow> fleet_world \<Rightarrow> fleet_decision \<Rightarrow> db \<Rightarrow> node option infra" where
  "provision_one_from_fleet_decision E T F V decision d =
     (if fd_action decision \<noteq> SCALE_OUT_RECOMMENDED then Inr (None, d)
      else (case build_autoscaler_ec2_provision_request E T F (fw_uuid12 V) of Inl e \<Rightarrow> Inl (e, d)
        | Inr q \<Rightarrow> (case provision_ec2_node E T F (fw_aws V) (fw_uuid16 V) (Some q) True d of Inl e \<Rightarrow> Inl e
            | Inr (n, d1) \<Rightarrow> Inr (Some n, d1))))"

definition run_scale_out_tick :: "env \<Rightarrow> texts \<Rightarrow> fleet \<Rightarrow> fleet_world \<Rightarrow> db \<Rightarrow> (fleet_decision \<times> node option) infra" where
  "run_scale_out_tick E T F V d =
     (case sync_provisioning_ec2_nodes E T F (fw_sync V) d of Inl e \<Rightarrow> Inl e
      | Inr (_, d1) \<Rightarrow>
          (let decision = evaluate_fleet_autoscaler_tick E T F d1 in
           case provision_one_from_fleet_decision E T F V decision d1 of Inl e \<Rightarrow> Inl e
           | Inr (n, d2) \<Rightarrow> Inr ((decision, n), d2)))"

definition provision_capacity_if_needed :: "env \<Rightarrow> texts \<Rightarrow> fleet \<Rightarrow> fleet_world \<Rightarrow> scale_up_eval \<Rightarrow> db \<Rightarrow> node option infra" where
  "provision_capacity_if_needed E T F V evaluation d =
     (if \<not> su_should_provision evaluation then Inr (None, d)
      else (case provision_ec2_node E T F (fw_aws V) (fw_uuid16 V) None True d of Inl e \<Rightarrow> Inl e
            | Inr (n, d1) \<Rightarrow> Inr (Some n, d1)))"

text \<open>
  The hook of the worker after a placement that found no node. Its errors are logged and the worker goes on with the same
  session. The errors are those of the decision and of the provider: a flush that the database refuses is swallowed as
  well and leaves the session unusable until a rollback, which is not modelled here.
\<close>

definition maybe_provision_on_no_schedulable_capacity :: "env \<Rightarrow> texts \<Rightarrow> fleet \<Rightarrow> fleet_world \<Rightarrow> db \<Rightarrow> node option \<times> db" where
  "maybe_provision_on_no_schedulable_capacity E T F V d =
     (if \<not> f_enabled F \<or> \<not> f_provision_on_no_capacity F then (None, d)
      else (let decision = evaluate_fleet_autoscaler_tick E T F d in
            if fd_action decision \<noteq> SCALE_OUT_RECOMMENDED then (None, d)
            else (case provision_one_from_fleet_decision E T F V decision d of
                    Inl (_, d1) \<Rightarrow> (None, d1) | Inr (n, d1) \<Rightarrow> (n, d1))))"

section \<open>Scaling in\<close>

definition node_has_recent_activity :: "env \<Rightarrow> string \<Rightarrow> int \<Rightarrow> db \<Rightarrow> bool" where
  "node_has_recent_activity E key window d =
     (if window \<le> 0 then False
      else list_ex (\<lambda>r. case rt_last_heartbeat_at r of None \<Rightarrow> False | Some t \<Rightarrow> t > now E - seconds window)
             (take 10 (filter (\<lambda>r. rt_node_id r = Some key \<and> rt_last_heartbeat_at r \<noteq> None) (runtimes d))))"

definition find_draining_node_past_delay :: "env \<Rightarrow> int \<Rightarrow> db \<Rightarrow> node option" where
  "find_draining_node_past_delay E delay d =
     (let draining = sort_key node_key (filter (\<lambda>n. node_provider_type n = PT_EC2 \<and> node_status n = NS_DRAINING) (nodes d))
      in first_row (if delay \<le> 0 then draining else filter (\<lambda>n. node_updated_at n \<le> now E - seconds delay) draining))"

text \<open>The guards before the drain; \<open>None\<close> is an early return.\<close>

definition scale_down_target :: "env \<Rightarrow> fleet \<Rightarrow> fleet_decision \<Rightarrow> db \<Rightarrow> (string \<times> string) option" where
  "scale_down_target E F decision d =
     (case sd_node_key (fd_scale_down decision) of None \<Rightarrow> None
      | Some raw \<Rightarrow>
          (let nk = py_strip raw in
           if fd_action decision \<noteq> SCALE_IN_RECOMMENDED \<or> raw = [] then None
           else if \<not> f_enabled F then None
           else if active_ec2_nodes_count d \<le> f_min_nodes F then None
           else if within_cooldown E (latest_ec2_scale_in_at (nodes d)) (f_scale_in_cooldown_seconds F) then None
           else if nk = [] then None
           else (case find_node_by_key d nk of None \<Rightarrow> None
             | Some n \<Rightarrow>
                 if \<not> ready_ec2 n then None
                 else if active_workspace_count_for_scale_down d n \<noteq> 0 then None
                 else if instance_of n = [] then None
                 else Some (nk, instance_of n))))"

text \<open>An error carries the database as committed: the drain is committed before anything can fail.\<close>

definition execute_scale_down :: "env \<Rightarrow> fleet \<Rightarrow> fleet_world \<Rightarrow> fleet_decision \<Rightarrow> db \<Rightarrow> node option infra" where
  "execute_scale_down E F V decision d =
     (case scale_down_target E F decision d of None \<Rightarrow> Inr (None, d)
      | Some (nk, iid) \<Rightarrow>
     (case mark_node_draining E None (Some nk) d of Inl e \<Rightarrow> Inl e
      | Inr (_, d1) \<Rightarrow>
          (let d2 = fw_race V d1 in
     (case find_node_by_key d2 nk of None \<Rightarrow> Inr (None, d2)
      | Some n \<Rightarrow>
          (if active_workspace_count_for_scale_down d2 n \<noteq> 0
           then (case undrain_node E None (Some nk) d2 of Inl (e, _) \<Rightarrow> Inl (e, d2) | Inr (_, d3) \<Rightarrow> Inr (None, d3))
           else (case terminate_ec2_node E F (fw_aws V) None (Some nk) d2 of
                   Inl (e, d3) \<Rightarrow> if is_provider_error e then Inr (None, d3) else Inl (e, d2)
                 | Inr (out, d3) \<Rightarrow> Inr (Some out, d3)))))))"

definition reclaim_one_idle_ec2_node :: "env \<Rightarrow> texts \<Rightarrow> fleet \<Rightarrow> fleet_world \<Rightarrow> db \<Rightarrow> node option infra" where
  "reclaim_one_idle_ec2_node E T F V d =
     (if \<not> f_enabled F then Inr (None, d)
      else (let decision = evaluate_fleet_autoscaler_tick E T F d in
            if fd_action decision \<noteq> SCALE_IN_RECOMMENDED then Inr (None, d) else execute_scale_down E F V decision d))"

section \<open>The loop\<close>

text \<open>A tick that raises is rolled back to its last commit.\<close>

definition run_autoscaler_loop_tick :: "env \<Rightarrow> texts \<Rightarrow> fleet \<Rightarrow> fleet_world \<Rightarrow> db \<Rightarrow> (scale_action \<times> string option) infra" where
  "run_autoscaler_loop_tick E T F V d =
     (case run_scale_out_tick E T F V d of Inl (e, _) \<Rightarrow> Inl (e, d)
      | Inr ((decision, launched), d1) \<Rightarrow>
          (if fd_action decision = SCALE_IN_RECOMMENDED
           then (case execute_scale_down E F V decision d1 of Inl e \<Rightarrow> Inl e
                 | Inr (reclaimed, d2) \<Rightarrow>
                     Inr ((fd_action decision, map_option node_key (case launched of Some n \<Rightarrow> Some n | None \<Rightarrow> reclaimed)), d2))
           else Inr ((fd_action decision, map_option node_key launched), d1)))"

definition run_autoscaler_scale_down_tick :: "env \<Rightarrow> texts \<Rightarrow> fleet \<Rightarrow> fleet_world \<Rightarrow> db \<Rightarrow> string option infra" where
  "run_autoscaler_scale_down_tick E T F V d =
     (case reclaim_one_idle_ec2_node E T F V d of Inl e \<Rightarrow> Inl e | Inr (n, d1) \<Rightarrow> Inr (map_option node_key n, d1))"

text \<open>
  One round of the loop: a tick, and a scale-down tick unless the tick already scaled in or the last one is
  less than a minute old. Clock readings are seconds of the monotonic clock; exceptions are logged.
\<close>

definition loop_round :: "env \<Rightarrow> texts \<Rightarrow> fleet \<Rightarrow> fleet_world \<Rightarrow> fleet_world \<Rightarrow> rat \<Rightarrow> rat \<Rightarrow> db \<Rightarrow> rat \<times> db" where
  "loop_round E T F V V' clock last_at d =
     (case run_autoscaler_loop_tick E T F V d of Inl (_, d1) \<Rightarrow> (last_at, d1)
      | Inr ((action, _), d1) \<Rightarrow>
          (if action = SCALE_IN_RECOMMENDED then (clock, d1)
           else if clock - last_at \<ge> 60
           then (case run_autoscaler_scale_down_tick E T F V' d1 of Inl (_, d2) \<Rightarrow> (last_at, d2) | Inr (_, d2) \<Rightarrow> (clock, d2))
           else (last_at, d1)))"

end
