(* ===== verification/Fleet.thy ===== *)
theory Fleet
  imports Scaling
begin

text \<open>
  What the writers of the node table guarantee. Every operation of the infrastructure services changes node
  rows only by \<open>lawful\<close> updates and lawful insertions. The locale \<open>node_guarantee\<close> states what a relation between
  two databases must allow for this (rely and guarantee), and shows each operation to stay within it; it is
  interpreted with the frame of the node table, with the integrity of the fleet, and with its size.
\<close>

section \<open>Lawful rows\<close>

definition pks :: "db \<Rightarrow> bool" where
  "pks d = keys_ok node_pk (nodes d) (seqs d T_NODE)"

definition gone :: "node \<Rightarrow> bool" where
  "gone n \<longleftrightarrow> node_status n = NS_TERMINATED \<and> \<not> node_schedulable n"

definition row_ok :: "node \<Rightarrow> bool" where
  "row_ok n \<longleftrightarrow> (node_schedulable n \<longrightarrow> node_status n = NS_READY) \<and> capacity_within_total n \<and> 0 < node_total_cpu n \<and>
     0 < node_total_memory_mb n \<and>
     (\<forall>i. node_provider_instance_id n = Some i \<longrightarrow> node_provider_type n = PT_EC2 \<and> py_strip i = i)"

definition rows_ok :: "db \<Rightarrow> bool" where
  "rows_ok d = list_all row_ok (nodes d)"

definition lawful :: "node \<Rightarrow> node \<Rightarrow> bool" where
  "lawful n n' \<longleftrightarrow> node_pk n' = node_pk n \<and> (row_ok n \<longrightarrow> row_ok n') \<and> (gone n \<longrightarrow> gone n') \<and>
     (node_provider_type n' = node_provider_type n \<or> node_provider_type n' = PT_EC2) \<and> node_created_at n' = node_created_at n"

lemmas row_defs = lawful_def row_ok_def gone_def capacity_within_total_def

lemma lawful_refl [simp]: "lawful n n"
  by (simp add: lawful_def)

lemma lawful_trans: "lawful a b \<Longrightarrow> lawful b c \<Longrightarrow> lawful a c"
  by (auto simp: lawful_def)

lemma capacity_positive: "1 \<le> fst (ec2_instance_type_capacity W t)" "512 \<le> snd (ec2_instance_type_capacity W t)"
  by (auto simp: ec2_instance_type_capacity_def Let_def split: aws_answer.split list.split option.split)

lemma sync_status_schedulable:
  "snd (compute_status_schedulable_after_ec2_sync s state) \<Longrightarrow> fst (compute_status_schedulable_after_ec2_sync s state) = NS_READY"
  by (cases "(s, state)" rule: compute_status_schedulable_after_ec2_sync.cases) (auto split: if_splits)

lemma sync_status_terminated:
  "compute_status_schedulable_after_ec2_sync (Some NS_TERMINATED) state = (NS_TERMINATED, False)"
  by simp

lemma described_id: "describe_ec2_instance F W n raw = Inr desc \<Longrightarrow> py_strip (ed_instance_id desc) = ed_instance_id desc"
  by (auto simp: describe_ec2_instance_def require_instance_id_def describe_fields_def Let_def
      split: if_splits sum.splits aws_answer.splits list.splits)

lemma new_ec2_row_ok:
  "py_strip (ed_instance_id desc) = ed_instance_id desc \<Longrightarrow>
   row_ok (new_ec2_row E key desc mode user (ec2_instance_type_capacity W t) co)"
  using capacity_positive [of W t] sync_status_schedulable [of None "ed_state desc"]
  by (simp add: new_ec2_row_def row_defs blank_node_def split_beta)

lemma refresh_row_fields:
  "node_pk (refresh_row E key desc mode user c co row) = node_pk row"
  "node_created_at (refresh_row E key desc mode user c co row) = node_created_at row"
  "node_provider_type (refresh_row E key desc mode user c co row) = PT_EC2"
  "node_key (refresh_row E key desc mode user c co row) = key"
  "node_status (refresh_row E key desc mode user c co row) = fst (compute_status_schedulable_after_ec2_sync (Some (node_status row)) (ed_state desc))"
  "node_schedulable (refresh_row E key desc mode user c co row) \<longleftrightarrow>
     snd (compute_status_schedulable_after_ec2_sync (Some (node_status row)) (ed_state desc)) \<and> \<not> co"
  "node_total_cpu (refresh_row E key desc mode user c co row) = fst c"
  "node_allocatable_cpu (refresh_row E key desc mode user c co row) = fst c"
  "node_total_memory_mb (refresh_row E key desc mode user c co row) = snd c"
  "node_allocatable_memory_mb (refresh_row E key desc mode user c co row) = snd c"
  "node_metadata (refresh_row E key desc mode user c co row) = node_metadata row"
  "node_provider_instance_id (refresh_row E key desc mode user c co row) = Some (ed_instance_id desc)"
  "node_execution_mode (refresh_row E key desc mode user c co row) = mode"
  by (simp_all add: refresh_row_def Let_def split_beta)

lemma refresh_row_lawful:
  assumes "py_strip (ed_instance_id desc) = ed_instance_id desc"
  shows "lawful row ((refresh_row E key desc mode user (ec2_instance_type_capacity W t) co row)\<lparr>node_default_topology_id := tid\<rparr>)"
  "lawful row (refresh_row E key desc mode user (ec2_instance_type_capacity W t) co row)"
  using assms capacity_positive [of W t] sync_status_schedulable [of "Some (node_status row)" "ed_state desc"]
  by (auto simp: row_defs refresh_row_fields)

lemma stamp_row_fields [simp]:
  "node_pk (stamp_row E desc co row) = node_pk row" "node_key (stamp_row E desc co row) = node_key row"
  "node_provider_type (stamp_row E desc co row) = node_provider_type row"
  "node_status (stamp_row E desc co row) = node_status row" "node_schedulable (stamp_row E desc co row) = node_schedulable row"
  "node_execution_mode (stamp_row E desc co row) = node_execution_mode row"
  by (simp_all add: stamp_row_def)

lemma stamp_row_lawful: "lawful row (stamp_row E desc co row)"
  by (simp add: row_defs stamp_row_def)

lemma drain_lawful: "node_status row \<noteq> NS_TERMINATED \<Longrightarrow>
  lawful row (row\<lparr>node_status := NS_DRAINING, node_schedulable := False, node_updated_at := t, node_metadata := m\<rparr>)"
  by (auto simp: row_defs)

lemma undrain_lawful: "node_status row \<noteq> NS_TERMINATED \<Longrightarrow>
  lawful row (row\<lparr>node_status := NS_READY, node_schedulable := True, node_updated_at := t, node_metadata := m\<rparr>)"
  by (auto simp: row_defs)

lemma deregister_lawful:
  "lawful row (row\<lparr>node_status := NS_TERMINATED, node_schedulable := False, node_updated_at := t, node_metadata := m\<rparr>)"
  "lawful row (row\<lparr>node_status := NS_TERMINATED, node_schedulable := False, node_updated_at := t\<rparr>)"
  by (auto simp: row_defs)

lemma terminate_lawful: "node_status row \<noteq> NS_TERMINATED \<Longrightarrow> lawful row (terminate_outcome E s (mark_terminating E row))"
  "node_status row \<noteq> NS_TERMINATED \<Longrightarrow> lawful row (terminate_failed E c e (mark_terminating E row))"
  by (auto simp: row_defs terminate_outcome_def terminate_failed_def mark_terminating_def)

lemma promote_lawful: "node_status row \<noteq> NS_TERMINATED \<Longrightarrow> lawful row (promoted E r f row)"
  "node_status row \<noteq> NS_TERMINATED \<Longrightarrow> lawful row (ready_gate_failure E m row)"
  by (auto simp: row_defs promoted_def ready_gate_failure_def)

lemma hold_back_lawful: "node_status row \<noteq> NS_TERMINATED \<Longrightarrow> lawful row (row\<lparr>node_status := s, node_schedulable := False\<rparr>)"
  by (auto simp: row_defs)

lemma metrics_lawful: "lawful row (apply_resource_metrics E m note row)"
  by (auto simp: row_defs apply_resource_metrics_def Let_def split_beta)

lemma launched_row_ok: "py_strip iid = iid \<Longrightarrow> row_ok (launched_row E F W q u iid key net)"
  using capacity_positive [of W "pr_instance_type q"]
  by (simp add: launched_row_def row_defs blank_node_def Let_def split_beta)

lemma row_update_fields [simp]:
  "node_pk (terminate_outcome E s row) = node_pk row" "node_key (terminate_outcome E s row) = node_key row"
  "node_provider_type (terminate_outcome E s row) = node_provider_type row"
  "node_pk (terminate_failed E c e row) = node_pk row" "node_key (terminate_failed E c e row) = node_key row"
  "node_provider_type (terminate_failed E c e row) = node_provider_type row"
  "node_pk (mark_terminating E row) = node_pk row" "node_key (mark_terminating E row) = node_key row"
  "node_provider_type (mark_terminating E row) = node_provider_type row"
  "node_pk (promoted E r f row) = node_pk row" "node_key (promoted E r f row) = node_key row"
  "node_provider_type (promoted E r f row) = node_provider_type row"
  "node_pk (ready_gate_failure E m row) = node_pk row" "node_key (ready_gate_failure E m row) = node_key row"
  "node_provider_type (ready_gate_failure E m row) = node_provider_type row"
  "node_pk (apply_resource_metrics E hm note row) = node_pk row" "node_key (apply_resource_metrics E hm note row) = node_key row"
  "node_provider_type (apply_resource_metrics E hm note row) = node_provider_type row"
  by (simp_all add: terminate_outcome_def terminate_failed_def mark_terminating_def promoted_def ready_gate_failure_def
      apply_resource_metrics_def Let_def split_beta)

section \<open>Finding rows\<close>

lemma find_node_by_key_in: "find_node_by_key d key = Some n \<Longrightarrow> n \<in> set (nodes d) \<and> node_key n = key"
  by (auto simp: find_node_by_key_def dest: first_row_in)

lemma find_node_by_key_None: "find_node_by_key d key = None \<longleftrightarrow> (\<forall>n\<in>set (nodes d). node_key n \<noteq> key)"
  by (simp add: find_node_by_key_def filter_empty_conv)

lemma find_node_by_instance_in:
  "find_node_by_instance d iid = Some n \<Longrightarrow> n \<in> set (nodes d) \<and> node_provider_instance_id n = Some iid"
  by (auto simp: find_node_by_instance_def dest: first_row_in)

lemma register_target_in: "register_target d iid key = Inr (Some n) \<Longrightarrow> n \<in> set (nodes d)"
  by (auto simp: register_target_def Let_def split: option.splits if_splits dest: find_node_by_key_in find_node_by_instance_in)

lemma register_target_new: "register_target d iid key = Inr None \<Longrightarrow> find_node_by_key d key = None"
  by (auto simp: register_target_def Let_def split: option.splits if_splits)

lemma lookup_node_in: "lookup_node d i k = Inr (n, d') \<Longrightarrow> n \<in> set (nodes d)"
  by (auto simp: lookup_node_def get_node_def split: option.splits dest: row_find_Some_in find_node_by_key_in)

lemma lookup_node_same: "lookup_node d i k = Inr (n, d') \<Longrightarrow> d' = d"
  by (auto simp: lookup_node_def split: option.splits)

lemma with_node_result:
  assumes "with_node i k d f = Inr x"
  obtains n where "n \<in> set (nodes d)" "lookup_node d i k = Inr (n, d)" "f n = Inr x"
  using assms lookup_node_in lookup_node_same unfolding with_node_def by (auto split: sum.splits)

lemma with_node_error:
  assumes "with_node i k d f = Inl (e, d')"
  obtains "d' = d" | n where "n \<in> set (nodes d)" "lookup_node d i k = Inr (n, d)" "f n = Inl (e, d')"
  using assms lookup_node_in lookup_node_same unfolding with_node_def by (auto split: sum.splits)

lemma get_node_in: "get_node d k = Some n \<Longrightarrow> n \<in> set (nodes d) \<and> node_pk n = k"
  by (auto simp: get_node_def dest: row_find_Some_in row_find_Some_key)

lemma in_get_node: "pks d \<Longrightarrow> n \<in> set (nodes d) \<Longrightarrow> get_node d (node_pk n) = Some n"
  by (simp add: pks_def get_node_def row_find_distinct)

lemma put_node_in: "n \<in> set (nodes d) \<Longrightarrow> node_pk n' = node_pk n \<Longrightarrow> n' \<in> set (nodes (put_node n' d))"
  using row_put_in [of node_pk n' "nodes d"] by (auto simp: row_find_None)


section \<open>Cases of a registration\<close>

definition register_key :: "string \<Rightarrow> string option \<Rightarrow> string" where
  "register_key iid key_opt = (case strip_or_none key_opt of Some k \<Rightarrow> k | None \<Rightarrow> ''ec2-'' @ iid)"

definition refreshed :: "env \<Rightarrow> ec2_description \<Rightarrow> bool \<Rightarrow> node \<Rightarrow> db \<Rightarrow> node \<times> db" where
  "refreshed E desc co row d =
     (let (row1, _, d1) = ensure_execution_node_default_topology E row d; row2 = stamp_row E desc co row1 in (row2, put_node row2 d1))"

lemma require_instance_id_strip: "require_instance_id raw = Inr iid \<Longrightarrow> iid = py_strip raw"
  by (auto simp: require_instance_id_def Let_def split: if_splits)

lemma register_cases:
  assumes "register_ec2_instance E F W n raw key_opt user_opt mode_opt co d = Inr (r, d')"
  obtains (new) iid desc where "require_instance_id raw = Inr iid" "describe_ec2_instance F W n iid = Inr desc"
    "register_target d iid (register_key iid key_opt) = Inr None"
    "r = (new_ec2_row E (register_key iid key_opt) desc (resolve_execution_mode F mode_opt) (resolve_ssh_user F user_opt)
           (ec2_instance_type_capacity W (ed_instance_type desc)) co)\<lparr>node_pk := seqs d T_NODE\<rparr>"
    "d' = snd (add_node (new_ec2_row E (register_key iid key_opt) desc (resolve_execution_mode F mode_opt) (resolve_ssh_user F user_opt)
           (ec2_instance_type_capacity W (ed_instance_type desc)) co) d)"
  | (old) iid desc row where "require_instance_id raw = Inr iid" "describe_ec2_instance F W n iid = Inr desc"
    "register_target d iid (register_key iid key_opt) = Inr (Some row)"
    "\<not> node_key_taken d (node_pk row) (register_key iid key_opt)"
    "(r, d') = refreshed E desc co (refresh_row E (register_key iid key_opt) desc (resolve_execution_mode F mode_opt)
           (resolve_ssh_user F user_opt) (ec2_instance_type_capacity W (ed_instance_type desc)) co row) d"
proof -
  obtain iid where i: "require_instance_id raw = Inr iid"
    using assms by (auto simp: register_ec2_instance_def split: sum.splits)
  obtain desc where e: "describe_ec2_instance F W n iid = Inr desc"
    using assms i by (auto simp: register_ec2_instance_def split: sum.splits)
  show thesis
  proof (cases "register_target d iid (register_key iid key_opt)")
    case (Inl x)
    then show ?thesis using assms i e by (simp add: register_ec2_instance_def Let_def flip: register_key_def)
  next
    case (Inr t)
    show ?thesis
    proof (cases t)
      case None
      show ?thesis
        by (rule new [OF i e]) (use assms i e Inr None in
            \<open>auto simp: register_ec2_instance_def Let_def add_node_def simp flip: register_key_def\<close>)
    next
      case (Some row)
      show ?thesis
        by (rule old [OF i e]) (use assms i e Inr Some in
            \<open>auto simp: register_ec2_instance_def Let_def refreshed_def split_beta simp flip: register_key_def split: if_splits\<close>)
    qed
  qed
qed

section \<open>Cases of a synchronisation\<close>

lemma hold_back_fields [simp]:
  "node_pk (hold_back s row) = node_pk row" "node_key (hold_back s row) = node_key row"
  "node_provider_type (hold_back s row) = node_provider_type row"
  by (simp_all add: hold_back_def)

lemma promote_result:
  assumes "promote_ec2_node_if_heartbeat_ready E F W scr st rd row d = (ok, row2, d2)"
  shows "(\<not> ok \<and> row2 = row \<and> d2 = d) \<or> (promotable (node_status row) \<and> d2 = put_node row2 d \<and> lawful row row2 \<and>
    node_key row2 = node_key row \<and> node_provider_type row2 = node_provider_type row)"
proof -
  have "promotable (node_status row) \<Longrightarrow> node_status row \<noteq> NS_TERMINATED" by (auto simp: promotable_def)
  then show ?thesis using assms
    by (auto simp: promote_ec2_node_if_heartbeat_ready_def Let_def split_beta promote_lawful split: if_splits prod.splits)
qed

lemma put_node_twice: "node_pk n' = node_pk n \<Longrightarrow> put_node n' (put_node n d) = put_node n' d"
  by (simp add: put_node_def row_put_def comp_def if_distrib cong: if_cong)

lemma sync_cases:
  assumes "sync_node_state E F W scr i k promote d = Inr (r, d')"
  obtains row0 r1 d1 row where "row0 \<in> set (nodes d)" "lookup_node d i k = Inr (row0, d)" "node_provider_type row0 = PT_EC2"
    "register_ec2_instance E F W 0 (instance_of row0) (Some (node_key row0)) (node_ssh_user row0)
       (Some (exec_mode_str (node_execution_mode row0))) False d = Inr (r1, d1)"
    "row = (case get_node d1 (node_pk row0) of Some q \<Rightarrow> q | None \<Rightarrow> row0)"
    "(r = row \<and> d' = d1) \<or>
     (\<exists>desc ok d2. promotable (node_status row0) \<and> describe_ec2_instance F W 1 (instance_of row0) = Inr desc \<and> ed_state desc = ''running'' \<and>
        promote_ec2_node_if_heartbeat_ready E F W scr (Some (ed_state desc)) ''ec2_running_heartbeat''
          (hold_back (node_status row0) row) d1 = (ok, r, d2) \<and> d' = (if ok then d2 else put_node r d2))"
proof -
  obtain row0 where r0: "row0 \<in> set (nodes d)" "lookup_node d i k = Inr (row0, d)"
    using assms unfolding sync_node_state_def by (rule with_node_result)
  have w: "with_node i k d f = f row0" for f :: "node \<Rightarrow> node infra" using r0(2) by (simp add: with_node_def)
  have ec2: "node_provider_type row0 = PT_EC2" and iid: "instance_of row0 \<noteq> []"
    using assms unfolding sync_node_state_def w by (auto simp: assert_ec2_node_def Let_def split: if_splits)
  obtain r1 d1 where reg: "register_ec2_instance E F W 0 (instance_of row0) (Some (node_key row0)) (node_ssh_user row0)
       (Some (exec_mode_str (node_execution_mode row0))) False d = Inr (r1, d1)"
    using assms iid ec2 unfolding sync_node_state_def w by (auto simp: assert_ec2_node_def Let_def split: sum.splits)
  define row where row: "row = (case get_node d1 (node_pk row0) of Some q \<Rightarrow> q | None \<Rightarrow> row0)"
  have rest: "sync_node_state E F W scr i k promote d =
    (if \<not> promote \<or> \<not> promotable (node_status row0) then Inr (row, d1)
     else case describe_ec2_instance F W 1 (instance_of row0) of Inl _ \<Rightarrow> Inr (row, d1)
       | Inr desc \<Rightarrow> if ed_state desc \<noteq> ''running'' then Inr (row, d1)
           else case promote_ec2_node_if_heartbeat_ready E F W scr (Some (ed_state desc)) ''ec2_running_heartbeat''
                  (hold_back (node_status row0) row) d1 of (ok, row2, d2) \<Rightarrow> if ok then Inr (row2, d2) else save row2 d2)"
    unfolding sync_node_state_def w Let_def row using iid ec2 reg by (simp add: assert_ec2_node_def)
  show thesis
  proof (cases "describe_ec2_instance F W 1 (instance_of row0)")
    case (Inl e)
    then show ?thesis using that [OF r0 ec2 reg row] assms unfolding rest by (auto split: if_splits)
  next
    case (Inr desc)
    obtain ok row2 d2 where p: "promote_ec2_node_if_heartbeat_ready E F W scr (Some (ed_state desc)) ''ec2_running_heartbeat''
       (hold_back (node_status row0) row) d1 = (ok, row2, d2)" by (rule prod_cases3)
    show ?thesis using that [OF r0 ec2 reg row] assms Inr p unfolding rest by (auto simp: save_def split: if_splits)
  qed
qed

lemma register_id: "register_ec2_instance E F W n raw key_opt user_opt mode_opt co d = Inr (r, d') \<Longrightarrow> py_strip raw \<noteq> []"
  by (auto simp: register_ec2_instance_def require_instance_id_def Let_def valid_instance_id_def split: sum.splits if_splits)

lemma register_keeps:
  assumes "register_ec2_instance E F W n raw key_opt user_opt mode_opt co d = Inr (r, d')"
  shows "node_pk ` set (nodes d) \<subseteq> node_pk ` set (nodes d')"
proof -
  have put: "node_pk ` set (row_put node_pk x ns) = node_pk ` set ns" for x ns
    by (metis list.set_map row_put_keys)
  from assms show ?thesis
  proof (cases rule: register_cases)
    case (new iid desc)
    then show ?thesis by (auto simp: add_node_def bump_def)
  next
    case (old iid desc row)
    then show ?thesis
      by (simp add: refreshed_def ensure_execution_node_default_topology_def Let_def put split: option.splits)
  qed
qed

text \<open>In a table of lawful rows the instance of a node leads to a row of EC2.\<close>

lemma register_target_synced:
  assumes "row0 \<in> set (nodes d)" "rows_ok d" "py_strip (instance_of row0) \<noteq> []"
  shows "\<exists>q. register_target d (instance_of row0) key = Inr (Some q) \<and> node_provider_type q = PT_EC2"
proof -
  note assms(2) [unfolded rows_ok_def list_all_iff]
  obtain i where i: "node_provider_instance_id row0 = Some i"
    using assms(3) by (cases "node_provider_instance_id row0") (auto simp: instance_of_def str_or_empty_def py_strip_def)
  then have "instance_of row0 = i" using assms(1) \<open>\<forall>x\<in>set (nodes d). row_ok x\<close> by (auto simp: instance_of_def str_or_empty_def row_ok_def)
  then obtain q where q: "find_node_by_instance d (instance_of row0) = Some q"
    using assms(1) i by (cases "find_node_by_instance d i") (auto simp: find_node_by_instance_def filter_empty_conv)
  then show ?thesis using \<open>\<forall>x\<in>set (nodes d). row_ok x\<close> find_node_by_instance_in [OF q] by (auto simp: register_target_def row_ok_def)
qed

lemma provision_cases:
  assumes "provision_ec2_node E T F W u request wait d = Inr (r, d')"
  obtains q iid key net where "py_strip iid = iid" "find_node_by_key d key = None"
    "r = (launched_row E F W q u iid key net)\<lparr>node_pk := seqs d T_NODE\<rparr>" "d' = snd (add_node (launched_row E F W q u iid key net) d)"
proof -
  obtain q where q: "(case request of Some q \<Rightarrow> Inr q | None \<Rightarrow> request_from_settings T F) = Inr q"
    using assms by (auto simp: provision_ec2_node_def split: sum.splits)
  let ?key = "py_strip (str_or_empty (pr_node_key q))"
  have v: "validate_request q = None" and k: "?key \<noteq> [] \<Longrightarrow> find_node_by_key d ?key = None"
    using assms q by (auto simp: provision_ec2_node_def Let_def require_free_node_key_def split: option.splits if_splits)
  obtain inst rest where run: "aw_run W (run_instances_params F q) = AwsOk (inst # rest)"
    using assms q v k
    by (auto simp: provision_ec2_node_def Let_def require_free_node_key_def split: option.splits if_splits aws_answer.splits list.splits)
  obtain iid where iid: "strip_or_none (in_id inst) = Some iid"
    using assms q v k run
    by (auto simp: provision_ec2_node_def Let_def require_free_node_key_def split: option.splits if_splits)
  obtain net where net: "launch_network F W wait iid inst = Inr net"
    using assms q v k run iid
    by (auto simp: provision_ec2_node_def Let_def require_free_node_key_def split: option.splits if_splits sum.splits)
  define key where key: "key = (if ?key \<noteq> [] then ?key else ''ec2-'' @ iid)"
  have free: "find_node_by_key d key = None"
    using assms q v k run iid net
    by (auto simp: provision_ec2_node_def Let_def require_free_node_key_def key split: option.splits if_splits)
  have "(r, d') = (let row = launched_row E F W q u iid key net; (pk, d1) = add_node row d in (row\<lparr>node_pk := pk\<rparr>, d1))"
    using assms q v k run iid net free
    by (auto simp: provision_ec2_node_def Let_def require_free_node_key_def key add_node_def split: option.splits if_splits)
  then show thesis using that [OF strip_or_none_tidy [OF iid] free, of q net] by (simp add: Let_def add_node_def)
qed

lemma launched_row_fields [simp]:
  "node_key (launched_row E F W q u iid key net) = key" "node_provider_type (launched_row E F W q u iid key net) = PT_EC2"
  "node_status (launched_row E F W q u iid key net) = NS_PROVISIONING"
  "\<not> node_schedulable (launched_row E F W q u iid key net)"
  by (simp_all add: launched_row_def blank_node_def Let_def split_beta)

lemma instance_of_tidy [simp]: "py_strip (instance_of row) = instance_of row"
  by (simp add: instance_of_def)

section \<open>Errors leave the session as it was\<close>

lemma register_error: "register_ec2_instance E F W n raw key_opt user_opt mode_opt co d = Inl (e, d') \<Longrightarrow> d' = d"
  by (auto simp: register_ec2_instance_def Let_def split_beta split: sum.splits option.splits if_splits prod.splits)

lemma sync_error: "sync_node_state E F W scr i k promote d = Inl (e, d') \<Longrightarrow> d' = d"
  unfolding sync_node_state_def
  by (erule with_node_error)
    (auto simp: Let_def save_def split_beta split: sum.splits option.splits if_splits dest: register_error)

lemma provision_error: "provision_ec2_node E T F W u q wait d = Inl (e, d') \<Longrightarrow> d' = d"
  by (auto simp: provision_ec2_node_def Let_def split_beta
      split: sum.splits option.splits if_splits aws_answer.splits list.splits)

section \<open>Heartbeats\<close>

definition heartbeat_row :: "env \<Rightarrow> bool \<Rightarrow> int \<Rightarrow> int \<Rightarrow> string \<Rightarrow> node \<Rightarrow> node" where
  "heartbeat_row E ok free slots v row =
     (let row1 = row\<lparr>node_last_heartbeat_at := Some (now E), node_updated_at := now E,
            node_metadata := merge_heartbeat_metadata (node_metadata row)
              [(''received_at'', JStr (str_iso E (now E))), (''docker_ok'', JBool ok), (''disk_free_mb'', JInt (max 0 free)),
               (''slots_in_use'', JInt (max 0 slots)), (''version'', JStr (take 128 v))]\<rparr>
      in if ok then row1\<lparr>node_last_error_code := None, node_last_error_message := None,
             node_status := (if node_schedulable row \<and> node_status row = NS_NOT_READY then NS_READY else node_status row)\<rparr>
         else row1\<lparr>node_last_error_code := Some ''DOCKER_UNREACHABLE'',
             node_last_error_message := Some ''Heartbeat reported docker_ok=false''\<rparr>)"

lemma heartbeat_row_lawful [simp]:
  "lawful row (heartbeat_row E ok free slots v row)" "node_key (heartbeat_row E ok free slots v row) = node_key row"
  "node_provider_type (heartbeat_row E ok free slots v row) = node_provider_type row"
  by (auto simp: heartbeat_row_def row_defs Let_def)

lemma heartbeat_cases:
  assumes "record_execution_node_heartbeat E k i ok free slots v d = Inr (r, d')"
  obtains row where "row \<in> set (nodes d)" "d' = put_node r d" "r = heartbeat_row E ok free slots v row"
proof -
  obtain row where f: "(case i of
           Some i \<Rightarrow> (case get_node d i of None \<Rightarrow> Inl (''execution node id='' @ str_int i @ '' not found'') | Some n \<Rightarrow> Inr n)
         | None \<Rightarrow> (case strip_or_none k of
               None \<Rightarrow> Inl ''node_key or execution_node_id is required''
             | Some k \<Rightarrow> (case find_node_by_key d k of None \<Rightarrow> Inl (''execution node key='' @ py_repr k @ '' not found'') | Some n \<Rightarrow> Inr n)))
      = Inr row" (is "?found = _")
    using assms unfolding record_execution_node_heartbeat_def Let_def by (cases ?found) simp_all
  have "row \<in> set (nodes d)" using f get_node_in find_node_by_key_in by (fastforce split: option.splits)
  moreover have "record_execution_node_heartbeat E k i ok free slots v d =
      Inr (heartbeat_row E ok free slots v row, put_node (heartbeat_row E ok free slots v row) d)"
    unfolding record_execution_node_heartbeat_def Let_def f heartbeat_row_def by simp
  ultimately show thesis using that assms by simp
qed

section \<open>Sets of rows to visit\<close>

definition visits :: "node list \<Rightarrow> db \<Rightarrow> bool" where
  "visits rows d \<longleftrightarrow> distinct (map node_pk rows) \<and> set rows \<subseteq> set (nodes d)"

lemma visits_filter: "pks d \<Longrightarrow> visits (filter P (nodes d)) d"
  by (auto simp: visits_def pks_def keys_ok_def distinct_map_filter)

lemma visits_sorted: "visits rows d \<Longrightarrow> visits (sort_key f rows) d"
  by (simp add: visits_def distinct_map)

lemma visits_Cons: "visits (row # rows) d \<Longrightarrow> row \<in> set (nodes d)" "visits (row # rows) d \<Longrightarrow> visits rows d"
  by (simp_all add: visits_def)

lemma visits_put: "visits (row # rows) d \<Longrightarrow> node_pk row' = node_pk row \<Longrightarrow> visits rows (put_node row' d)"
  by (auto simp: visits_def subset_eq image_iff intro!: row_put_other)

section \<open>The contract\<close>

locale node_guarantee =
  fixes G :: "db \<Rightarrow> db \<Rightarrow> bool" and tight :: bool
  assumes stay: "G d d"
    and chain: "G a b \<Longrightarrow> G b c \<Longrightarrow> G a c"
    and keep_pks: "G d d' \<Longrightarrow> pks d \<Longrightarrow> pks d'"
    and keep_rows: "G d d' \<Longrightarrow> rows_ok d \<Longrightarrow> rows_ok d'"
    and update: "pks d \<Longrightarrow> n \<in> set (nodes d) \<Longrightarrow> lawful n n' \<Longrightarrow> (tight \<longrightarrow> node_provider_type n' = node_provider_type n) \<Longrightarrow>
      node_key n' = node_key n \<or> \<not> node_key_taken d (node_pk n) (node_key n') \<Longrightarrow> G d (put_node n' d)"
    and insert: "\<not> tight \<Longrightarrow> pks d \<Longrightarrow> find_node_by_key d (node_key r) = None \<Longrightarrow> row_ok r \<Longrightarrow> G d (snd (add_node r d))"
    and topology: "G d (ensure_topology_row_for_local_dev E t d)"
begin

lemma same_key: "pks d \<Longrightarrow> n \<in> set (nodes d) \<Longrightarrow> lawful n n' \<Longrightarrow> node_provider_type n' = node_provider_type n \<Longrightarrow>
    node_key n' = node_key n \<Longrightarrow> G d (put_node n' d)"
  by (rule update [where n = n]) simp_all

lemma draining:
  assumes "pks d" "mark_node_draining E i k d = Inr (r, d')"
  shows "G d d'"
  using assms(2) unfolding mark_node_draining_def
  by (rule with_node_result) (auto simp: save_def stay split: if_splits intro!: same_key [OF assms(1)] drain_lawful)

lemma undraining:
  assumes "pks d" "undrain_node E i k d = Inr (r, d')"
  shows "G d d'"
  using assms(2) unfolding undrain_node_def
  by (rule with_node_result) (auto simp: save_def stay split: if_splits intro!: same_key [OF assms(1)] undrain_lawful)

lemma deregistering:
  assumes "pks d" "deregister_node E i k d = Inr (r, d')"
  shows "G d d'"
  using assms(2) unfolding deregister_node_def
  by (rule with_node_result) (auto simp: save_def stay split: if_splits intro!: same_key [OF assms(1)] deregister_lawful)

lemma terminating_rows:
  assumes "pks d" "n \<in> set (nodes d)" "node_status n \<noteq> NS_TERMINATED"
  shows "G d (put_node (terminate_outcome E s (mark_terminating E n)) d)"
    "G d (put_node (terminate_failed E c m (mark_terminating E n)) d)"
  by (rule same_key [OF assms(1,2)]; simp add: terminate_lawful assms(3))+

lemma terminating:
  assumes "pks d" "terminate_ec2_node E F W i k d = Inr (r, d')"
  shows "G d d'"
  using assms(2) unfolding terminate_ec2_node_def
  by (rule with_node_result)
    (auto simp: save_def stay Let_def split: if_splits option.splits aws_answer.splits intro!: terminating_rows [OF assms(1)])

lemma terminating_failed:
  assumes "pks d" "terminate_ec2_node E F W i k d = Inl (e, d')"
  shows "G d d'"
  using assms(2) unfolding terminate_ec2_node_def
  by (rule with_node_error)
    (auto simp: save_def stay Let_def split: if_splits option.splits aws_answer.splits intro!: terminating_rows [OF assms(1)])

lemma refreshing:
  assumes "pks d" "row \<in> set (nodes d)" "lawful row n" "lawful row (n\<lparr>node_default_topology_id := Some system_default_topology_id\<rparr>)"
    "tight \<longrightarrow> node_provider_type n = node_provider_type row"
    "node_key n = node_key row \<or> \<not> node_key_taken d (node_pk row) (node_key n)"
    "refreshed E desc co n d = (r, d')"
  shows "G d d'"
proof (cases "node_default_topology_id n")
  case (Some t)
  have "G d (put_node (stamp_row E desc co n) d)"
    by (rule update [OF assms(1,2) lawful_trans [OF assms(3) stamp_row_lawful]]) (use assms(5,6) in simp_all)
  then show ?thesis using assms(7) Some by (auto simp: refreshed_def ensure_execution_node_default_topology_def Let_def)
next
  case None
  let ?n = "n\<lparr>node_default_topology_id := Some system_default_topology_id\<rparr>"
  let ?d = "ensure_topology_row_for_local_dev E system_default_topology_id (put_node ?n d)"
  have "G d (put_node ?n d)" by (rule update [OF assms(1,2,4)]) (use assms(5,6) in simp_all)
  then have g: "G d ?d" using topology chain by blast
  have "?n \<in> set (nodes (put_node ?n d))" by (rule put_node_in [OF assms(2)]) (use assms(4) in \<open>simp add: lawful_def\<close>)
  then have "G ?d (put_node (stamp_row E desc co ?n) ?d)"
    by (intro same_key [OF keep_pks [OF g assms(1)], where n = ?n] stamp_row_lawful) simp_all
  then show ?thesis using g chain None assms(7) by (auto simp: refreshed_def ensure_execution_node_default_topology_def Let_def)
qed

lemma registering:
  assumes "pks d" "register_ec2_instance E F W n raw key_opt user_opt mode_opt co d = Inr (r, d')"
    and t: "tight \<Longrightarrow> \<exists>row. register_target d (py_strip raw) (register_key (py_strip raw) key_opt) = Inr (Some row) \<and>
      node_provider_type row = PT_EC2"
  shows "G d d'"
  using assms(2)
proof (cases rule: register_cases)
  case (new iid desc)
  have "\<not> tight" using t new(3) require_instance_id_strip [OF new(1)] by auto
  then show ?thesis unfolding new(5)
    by (rule insert [OF _ assms(1) _ new_ec2_row_ok [OF described_id [OF new(2)]]]) (use register_target_new [OF new(3)] in \<open>simp add: new_ec2_row_def blank_node_def split_beta\<close>)
next
  case (old iid desc row)
  have "tight \<longrightarrow> node_provider_type row = PT_EC2" using t old(3) require_instance_id_strip [OF old(1)] by auto
  then show ?thesis
    by (intro refreshing [OF assms(1) register_target_in [OF old(3)] refresh_row_lawful(2,1) [OF described_id [OF old(2)]] _ _ old(5) [symmetric]])
      (use old(4) in \<open>simp_all add: refresh_row_fields\<close>)
qed

lemma syncing:
  assumes "pks d" "sync_node_state E F W scr i k promote d = Inr (r, d')" and t: "tight \<Longrightarrow> rows_ok d"
  shows "G d d'"
  using assms(2)
proof (cases rule: sync_cases)
  case (1 row0 r1 d1 row)
  have target: "\<exists>q. register_target d (py_strip (instance_of row0)) key = Inr (Some q) \<and> node_provider_type q = PT_EC2"
    if tight for key
    using register_target_synced [OF 1(1) t [OF that] register_id [OF 1(4)]] by simp
  have g: "G d d1" by (rule registering [OF assms(1) 1(4)]) (rule target)
  have p1: "pks d1" by (rule keep_pks [OF g assms(1)])
  have "node_pk row0 \<in> node_pk ` set (nodes d1)" using register_keeps [OF 1(4)] 1(1) by blast
  then have "get_node d1 (node_pk row0) \<noteq> None" by (auto simp: get_node_def row_find_None)
  then have row: "row \<in> set (nodes d1)" "node_pk row = node_pk row0" using 1(5) get_node_in by auto
  show ?thesis
    using 1(6)
  proof (elim disjE exE conjE)
    fix desc ok d2
    assume pr: "promotable (node_status row0)" and p: "promote_ec2_node_if_heartbeat_ready E F W scr (Some (ed_state desc))
        ''ec2_running_heartbeat'' (hold_back (node_status row0) row) d1 = (ok, r, d2)"
      and d': "d' = (if ok then d2 else put_node r d2)"
    have h: "lawful row (hold_back (node_status row0) row)" by (auto simp: hold_back_def hold_back_lawful)
    have e: "d' = put_node r d1" "lawful row r" "node_key r = node_key row" "node_provider_type r = node_provider_type row"
      using promote_result [OF p] d' h by (auto simp: put_node_twice dest: lawful_trans)
    have "G d1 d'" unfolding e(1) by (rule same_key [OF p1 row(1) e(2,4,3)])
    then show ?thesis using g chain by blast
  qed (use g in simp)
qed

lemma provisioning:
  assumes "\<not> tight" "pks d" "provision_ec2_node E T F W u q wait d = Inr (r, d')"
  shows "G d d'"
  using assms(3)
proof (cases rule: provision_cases)
  case (1 q' iid key net)
  show ?thesis unfolding 1(4)
    by (rule insert [OF assms(1,2) _ launched_row_ok [OF 1(1)]]) (use 1(2) in simp)
qed

lemma heartbeat:
  assumes "pks d" "record_execution_node_heartbeat E k i ok free slots v d = Inr (r, d')"
  shows "G d d'"
proof -
  obtain row where row: "row \<in> set (nodes d)" "d' = put_node r d" "r = heartbeat_row E ok free slots v row"
    using assms(2) by (rule heartbeat_cases)
  show ?thesis unfolding row(2) by (rule same_key [OF assms(1) row(1)]) (simp_all add: row(3) heartbeat_row_lawful)
qed

lemma monitoring:
  "pks d \<Longrightarrow> visits rows d \<Longrightarrow> monitor_each E probe rows k d = (k', d') \<Longrightarrow> G d d'"
proof (induction rows arbitrary: k d)
  case Nil
  then show ?case using stay by simp
next
  case (Cons row rows)
  have row: "row \<in> set (nodes d)" using visits_Cons(1) [OF Cons.prems(2)] .
  let ?f = "\<lambda>p n. apply_resource_metrics E p n row"
  have g: "G d (put_node (?f p n) d)" for p n by (rule same_key [OF Cons.prems(1) row metrics_lawful]) simp_all
  have step: "monitor_each E probe rows k1 (put_node (?f p n) d) = (k', d') \<Longrightarrow> G d d'" for k1 p n
    using chain [OF g Cons.IH [OF keep_pks [OF g Cons.prems(1)] visits_put [OF Cons.prems(2)]]] by simp
  have same: "monitor_each E probe rows k1 d = (k', d') \<Longrightarrow> G d d'" for k1
    by (rule Cons.IH [OF Cons.prems(1) visits_Cons(2) [OF Cons.prems(2)]])
  show ?case using Cons.prems(3) step same
    by (auto simp: check_one_ec2_node_resources_def Let_def split: if_splits option.splits)
qed

lemma monitor_tick:
  assumes "pks d" "run_ec2_node_resource_monitor_tick E probe d = (k, d')"
  shows "G d d'"
  using assms monitoring [OF assms(1) visits_sorted [OF visits_filter [OF assms(1)]]] stay
  by (auto simp: run_ec2_node_resource_monitor_tick_def split: if_splits)

lemma stale_each:
  "pks d \<Longrightarrow> visits rows d \<Longrightarrow> reconcile_stale_each E F W m rows d = Inr (k, d') \<Longrightarrow> G d d'"
proof (induction rows arbitrary: m d k)
  case Nil
  then show ?case using stay by simp
next
  case (Cons row rows)
  have row: "row \<in> set (nodes d)" using visits_Cons(1) [OF Cons.prems(2)] .
  let ?row = "row\<lparr>node_status := NS_TERMINATED, node_schedulable := False, node_updated_at := now E\<rparr>"
  have g: "G d (put_node ?row d)" by (rule same_key [OF Cons.prems(1) row deregister_lawful(2)]) simp_all
  have step: "reconcile_stale_each E F W m1 rows (put_node ?row d) = Inr (k1, d') \<Longrightarrow> G d d'" for m1 k1
    using chain [OF g Cons.IH [OF keep_pks [OF g Cons.prems(1)] visits_put [OF Cons.prems(2)]]] by simp
  have same: "reconcile_stale_each E F W m1 rows d = Inr (k1, d') \<Longrightarrow> G d d'" for m1 k1
    by (rule Cons.IH [OF Cons.prems(1) visits_Cons(2) [OF Cons.prems(2)]])
  show ?case using Cons.prems(3) step same
    by (auto simp: Let_def split: if_splits sum.splits infra_error.splits)
qed

lemma stale:
  assumes "pks d" "reconcile_stale_ec2_execution_nodes E F W d = Inr (k, d')"
  shows "G d d'"
  using assms stale_each [OF assms(1) visits_filter [OF assms(1)]] stay
  by (auto simp: reconcile_stale_ec2_execution_nodes_def split: if_splits)

lemma registering_each:
  "\<not> tight \<Longrightarrow> pks d \<Longrightarrow> register_each E F W m ids d = Inr (rs, d') \<Longrightarrow> G d d'"
proof (induction ids arbitrary: m d rs)
  case Nil
  then show ?case using stay by simp
next
  case (Cons i ids)
  obtain r d1 rs1 where r: "register_ec2_instance E F W m i None None None False d = Inr (r, d1)"
      "register_each E F W (Suc m) ids d1 = Inr (rs1, d')"
    using Cons.prems(3) by (auto split: sum.splits)
  have g: "G d d1" by (rule registering [OF Cons.prems(2) r(1)]) (use Cons.prems(1) in simp)
  show ?case using chain [OF g Cons.IH [OF Cons.prems(1) keep_pks [OF g Cons.prems(2)] r(2)]] .
qed

lemma sync_all:
  assumes "\<not> tight" "pks d" "sync_ec2_instances E F W ids d = Inr (rs, d')"
  shows "G d d'"
  using assms(3) registering_each [OF assms(1,2)]
  by (auto simp: sync_ec2_instances_def simp del: register_each.simps split: option.splits list.splits)

lemma syncing_each:
  "pks d \<Longrightarrow> (tight \<Longrightarrow> rows_ok d) \<Longrightarrow> sync_each E T F Ws m rows d = Inr (u, d') \<Longrightarrow> G d d'"
proof (induction rows arbitrary: m d)
  case Nil
  then show ?case using stay by simp
next
  case (Cons row rows)
  show ?case
  proof (cases "sync_node_state E F (Ws m) (tx_ready_gate T) None (Some (node_key row)) True d")
    case (Inl p)
    obtain e d1 where p: "p = (e, d1)" by (cases p)
    then have "d1 = d" using Inl sync_error by blast
    then show ?thesis using Cons Inl p by (auto split: if_splits)
  next
    case (Inr p)
    obtain r d1 where p: "p = (r, d1)" by (cases p)
    have g: "G d d1" by (rule syncing [OF Cons.prems(1)]) (use Inr p Cons.prems(2) in auto)
    have "sync_each E T F Ws (Suc m) rows d1 = Inr (u, d')" using Cons.prems(3) Inr p by simp
    then show ?thesis using chain [OF g Cons.IH [OF keep_pks [OF g Cons.prems(1)]]] keep_rows [OF g] Cons.prems(2) by blast
  qed
qed

lemma syncing_starting:
  "pks d \<Longrightarrow> (tight \<Longrightarrow> rows_ok d) \<Longrightarrow> sync_provisioning_ec2_nodes E T F Ws d = Inr (u, d') \<Longrightarrow> G d d'"
  unfolding sync_provisioning_ec2_nodes_def by (rule syncing_each)

lemma launching:
  assumes "\<not> tight" "pks d" "provision_one_from_fleet_decision E T F V decision d = Inr (r, d')"
  shows "G d d'"
  using assms stay provisioning [OF assms(1,2)]
  by (auto simp: provision_one_from_fleet_decision_def split: if_splits sum.splits)

lemma scaling_out:
  assumes "\<not> tight" "pks d" "run_scale_out_tick E T F V d = Inr (r, d')"
  shows "G d d'"
proof -
  obtain d1 n where s: "sync_provisioning_ec2_nodes E T F (fw_sync V) d = Inr ((), d1)"
      "provision_one_from_fleet_decision E T F V (evaluate_fleet_autoscaler_tick E T F d1) d1 = Inr (n, d')"
    using assms(3) by (auto simp: run_scale_out_tick_def Let_def split: sum.splits)
  have g: "G d d1" by (rule syncing_starting [OF assms(2) _ s(1)]) (use assms(1) in simp)
  show ?thesis using chain [OF g launching [OF assms(1) keep_pks [OF g assms(2)] s(2)]] .
qed

lemma hooking:
  assumes "\<not> tight" "pks d"
  shows "G d (snd (maybe_provision_on_no_schedulable_capacity E T F V d))"
proof -
  have "G d d1" if "provision_one_from_fleet_decision E T F V c d = Inl (e, d1)" for c e d1
    using that stay by (auto simp: provision_one_from_fleet_decision_def dest: provision_error split: if_splits sum.splits)
  then show ?thesis using launching [OF assms] stay
    by (auto simp: maybe_provision_on_no_schedulable_capacity_def Let_def split: sum.splits)
qed

lemma scaling_in:
  assumes "pks d" and race: "\<And>x. G x (fw_race V x)"
  shows "execute_scale_down E F V decision d = Inr (r, d') \<Longrightarrow> G d d'"
    and "execute_scale_down E F V decision d = Inl (e, d') \<Longrightarrow> G d d'"
proof -
  have *: "G d d'" if "execute_scale_down E F V decision d = x" "x = Inr (r, d') \<or> x = Inl (e, d')" for x
  proof (cases "scale_down_target E F decision d")
    case None
    then show ?thesis using that stay by (auto simp: execute_scale_down_def)
  next
    case (Some t)
    obtain nk iid where t: "t = (nk, iid)" by (cases t)
    show ?thesis
    proof (cases "mark_node_draining E None (Some nk) d")
      case (Inl p)
      have "snd p = d" using Inl unfolding mark_node_draining_def
        by (cases p) (auto elim!: with_node_error simp: save_def split: if_splits)
      then show ?thesis using that Inl Some t stay by (auto simp: execute_scale_down_def)
    next
      case (Inr p)
      obtain q d1 where p: "p = (q, d1)" by (cases p)
      let ?d2 = "fw_race V d1"
      have g: "G d ?d2" using chain [OF draining [OF assms(1)] race] Inr p by blast
      note k = keep_pks [OF g assms(1)]
      have "G ?d2 d'"
        using that Some t Inr p undraining [OF k] terminating [OF k] terminating_failed [OF k] stay
        by (auto simp: execute_scale_down_def Let_def split: option.splits if_splits sum.splits)
      then show ?thesis using g chain by blast
    qed
  qed
  show "execute_scale_down E F V decision d = Inr (r, d') \<Longrightarrow> G d d'" using * by blast
  show "execute_scale_down E F V decision d = Inl (e, d') \<Longrightarrow> G d d'" using * by blast
qed

lemma reclaiming:
  assumes "pks d" and race: "\<And>x. G x (fw_race V x)"
  shows "run_autoscaler_scale_down_tick E T F V d = Inr (r, d') \<Longrightarrow> G d d'"
    and "run_autoscaler_scale_down_tick E T F V d = Inl (e, d') \<Longrightarrow> G d d'"
  using scaling_in [OF assms] stay
  by (auto simp: run_autoscaler_scale_down_tick_def reclaim_one_idle_ec2_node_def Let_def split: sum.splits if_splits)

lemma ticking:
  assumes "\<not> tight" "pks d" and race: "\<And>x. G x (fw_race V x)"
  shows "run_autoscaler_loop_tick E T F V d = Inr (r, d') \<Longrightarrow> G d d'"
    and "run_autoscaler_loop_tick E T F V d = Inl (e, d') \<Longrightarrow> G d d'"
proof -
  have *: "G d d'" if "run_autoscaler_loop_tick E T F V d = x" "x = Inr (r, d') \<or> x = Inl (e, d')" for x
  proof (cases "run_scale_out_tick E T F V d")
    case (Inl p)
    then show ?thesis using that stay by (auto simp: run_autoscaler_loop_tick_def split: prod.splits)
  next
    case (Inr p)
    obtain c n d1 where p: "p = ((c, n), d1)" by (metis prod.exhaust)
    have g: "G d d1" by (rule scaling_out [OF assms(1,2)]) (use Inr p in simp)
    note scaling_in [OF keep_pks [OF g assms(2)] race]
    then have "G d1 d'" using that Inr p stay by (auto simp: run_autoscaler_loop_tick_def split: if_splits sum.splits)
    then show ?thesis using g chain by blast
  qed
  show "run_autoscaler_loop_tick E T F V d = Inr (r, d') \<Longrightarrow> G d d'" using * by blast
  show "run_autoscaler_loop_tick E T F V d = Inl (e, d') \<Longrightarrow> G d d'" using * by blast
qed

end

end
