(* ===== verification/Fleet_Correct.thy ===== *)
theory Fleet_Correct
  imports Fleet Job_Run
begin

text \<open>
  Correctness of the infrastructure services: the integrity of the node table in every state the fleet can
  reach, the life of a terminated node, the gate before a node takes work, the bounds of the autoscaler, and
  the contract the job worker relies on.
\<close>

section \<open>Placement\<close>

text \<open>The default topology that a placement assigns to the nodes that have none.\<close>

context node_guarantee
begin

lemma assigning_one:
  assumes "pks d" "n \<in> set (nodes d)"
  shows "G d (snd (snd (ensure_execution_node_default_topology E n d)))"
proof -
  let ?n = "n\<lparr>node_default_topology_id := Some system_default_topology_id\<rparr>"
  have "G d (put_node ?n d)" by (rule same_key [OF assms]) (simp_all add: row_defs)
  then show ?thesis using stay chain topology
    by (auto simp: ensure_execution_node_default_topology_def Let_def split: option.splits)
qed

lemma assigning_each:
  "pks d \<Longrightarrow> visits rows d \<Longrightarrow> G d (fold (\<lambda>n b. snd (snd (ensure_execution_node_default_topology E n b))) rows d)"
proof (induction rows arbitrary: d)
  case Nil
  then show ?case using stay by simp
next
  case (Cons row rows)
  let ?d = "snd (snd (ensure_execution_node_default_topology E row d))"
  have g: "G d ?d" by (rule assigning_one [OF Cons.prems(1) visits_Cons(1) [OF Cons.prems(2)]])
  have "visits rows ?d"
    using visits_put [OF Cons.prems(2), of "row\<lparr>node_default_topology_id := Some system_default_topology_id\<rparr>"] visits_Cons(2) [OF Cons.prems(2)]
    by (auto simp: ensure_execution_node_default_topology_def Let_def visits_def split: option.splits)
  then show ?case using chain [OF g Cons.IH [OF keep_pks [OF g Cons.prems(1)]]] by simp
qed

lemma assigning: "pks d \<Longrightarrow> G d (assign_missing_default_topology E d)"
  unfolding assign_missing_default_topology_def by (rule assigning_each [OF _ visits_filter])

end

section \<open>Three guarantees\<close>

definition keeps :: "db \<Rightarrow> db \<Rightarrow> bool" where
  "keeps d d' \<longleftrightarrow> (pks d \<longrightarrow> pks d') \<and> (rows_ok d \<longrightarrow> rows_ok d')"

lemma keeps_trans: "keeps a b \<Longrightarrow> keeps b c \<Longrightarrow> keeps a c"
  by (simp add: keeps_def)

lemma keeps_put: "n \<in> set (nodes d) \<Longrightarrow> lawful n n' \<Longrightarrow> keeps d (put_node n' d)"
  by (auto simp: keeps_def pks_def rows_ok_def list_all_iff lawful_def dest!: in_row_put)

lemma row_ok_pk [simp]: "row_ok (r\<lparr>node_pk := k\<rparr>) = row_ok r"
  by (simp add: row_ok_def capacity_within_total_def)

lemma keeps_add: "row_ok r \<Longrightarrow> keeps d (snd (add_node r d))"
  by (simp add: keeps_def pks_def rows_ok_def list_all_iff add_node_def bump_def)

lemma keeps_topology: "keeps d (ensure_topology_row_for_local_dev E t d)"
  by (simp add: keeps_def pks_def rows_ok_def)

lemma topology_nodes: "nodes (ensure_topology_row_for_local_dev E t d) = nodes d"
  by simp

text \<open>Workspaces and jobs are not touched.\<close>

definition contained :: "db \<Rightarrow> db \<Rightarrow> bool" where
  "contained d d' \<longleftrightarrow> keeps d d' \<and> same_rows d d'"

interpretation frame: node_guarantee contained False
proof unfold_locales
  show "contained d d" for d by (simp add: contained_def keeps_def same_rows_def)
  show "contained a b \<Longrightarrow> contained b c \<Longrightarrow> contained a c" for a b c
    by (auto simp: contained_def same_rows_def dest: keeps_trans)
  show "contained d (ensure_topology_row_for_local_dev E t d)" for d E t
    by (simp add: contained_def keeps_topology same_rows_def db_keys_ok_def)
qed (simp_all add: contained_def keeps_put keeps_add same_rows_def, simp_all add: keeps_def)

text \<open>Node keys stay unique and every row changes lawfully.\<close>

definition sound_change :: "db \<Rightarrow> db \<Rightarrow> bool" where
  "sound_change d d' \<longleftrightarrow> keeps d d' \<and>
     (pks d \<longrightarrow> (distinct (map node_key (nodes d)) \<longrightarrow> distinct (map node_key (nodes d'))) \<and>
       (\<forall>k n. get_node d k = Some n \<longrightarrow> (\<exists>n'. get_node d' k = Some n' \<and> lawful n n')))"

lemma distinct_row_put:
  assumes "distinct (map key rows)" "distinct (map f rows)" "n \<in> set rows" "key r = key n"
    and "f r = f n \<or> (\<forall>q\<in>set rows. f q = f r \<longrightarrow> key q = key n)"
  shows "distinct (map f (row_put key r rows))"
  using assms
proof (induction rows)
  case (Cons q qs)
  have same: "row_put key r qs = qs" if "key q = key r"
    using Cons.prems(1) that by (auto simp: row_put_def image_iff intro!: map_idI)
  show ?case
  proof (cases "key q = key r")
    case True
    have "q = n" using True Cons.prems by (auto simp: image_iff)
    then show ?thesis using True same Cons.prems by (auto simp: row_put_def image_iff)
  next
    case False
    then have n: "n \<in> set qs" using Cons.prems(3,4) by auto
    have "f q \<noteq> f x" if "x \<in> set (row_put key r qs)" for x
      using in_row_put [OF that] Cons.prems n False by (auto simp: image_iff)
    then show ?thesis using False Cons n by (auto simp: row_put_def image_iff)
  qed
qed simp

lemma sound_put:
  assumes "pks d" "n \<in> set (nodes d)" "lawful n n'" "node_key n' = node_key n \<or> \<not> node_key_taken d (node_pk n) (node_key n')"
  shows "sound_change d (put_node n' d)"
proof -
  have pk: "node_pk n' = node_pk n" using assms(3) by (simp add: lawful_def)
  have "distinct (map node_key (row_put node_pk n' (nodes d)))" if "distinct (map node_key (nodes d))"
    using assms(1,4) pk unfolding pks_def
    by (intro distinct_row_put [OF keys_ok_distinct that assms(2)]) (auto simp: node_key_taken_def)
  moreover have "\<exists>q'. get_node (put_node n' d) k = Some q' \<and> lawful q q'" if "get_node d k = Some q" for k q
  proof (cases "k = node_pk n")
    case True
    then have "q = n" using that in_get_node [OF assms(1,2)] by simp
    then show ?thesis using that True assms(3) pk by (simp add: get_node_def row_find_put)
  next
    case False
    then show ?thesis using that pk by (simp add: get_node_def row_find_put)
  qed
  ultimately show ?thesis using keeps_put [OF assms(2,3)] by (simp add: sound_change_def)
qed

lemma sound_add:
  assumes "pks d" "find_node_by_key d (node_key r) = None" "row_ok r"
  shows "sound_change d (snd (add_node r d))"
  using assms keeps_add [OF assms(3), of d]
  by (auto simp: sound_change_def find_node_by_key_None add_node_def bump_def get_node_def row_find_append)

interpretation integrity: node_guarantee sound_change False
proof unfold_locales
  show "sound_change d d" for d by (auto simp: sound_change_def keeps_def)
  show "sound_change a c" if "sound_change a b" "sound_change b c" for a b c
  proof -
    have "\<exists>n'. get_node c k = Some n' \<and> lawful n n'" if g: "pks a" "get_node a k = Some n" for k n
    proof -
      obtain m where m: "get_node b k = Some m" "lawful n m" using \<open>sound_change a b\<close> g by (auto simp: sound_change_def)
      have "pks b" using \<open>sound_change a b\<close> g(1) by (simp add: sound_change_def keeps_def)
      then show ?thesis using \<open>sound_change b c\<close> m lawful_trans by (metis sound_change_def)
    qed
    then show ?thesis using that keeps_trans unfolding sound_change_def keeps_def by blast
  qed
  show "sound_change d (ensure_topology_row_for_local_dev E t d)" for d E t
    using keeps_topology [of d E t] by (auto simp: sound_change_def get_node_def)
  show "pks d \<Longrightarrow> n \<in> set (nodes d) \<Longrightarrow> lawful n n' \<Longrightarrow> (False \<longrightarrow> node_provider_type n' = node_provider_type n) \<Longrightarrow>
      node_key n' = node_key n \<or> \<not> node_key_taken d (node_pk n) (node_key n') \<Longrightarrow> sound_change d (put_node n' d)" for d n n'
    by (rule sound_put)
  show "\<not> False \<Longrightarrow> pks d \<Longrightarrow> find_node_by_key d (node_key r) = None \<Longrightarrow> row_ok r \<Longrightarrow> sound_change d (snd (add_node r d))" for d r
    by (rule sound_add)
qed (auto simp: sound_change_def keeps_def)

text \<open>The number of active EC2 nodes does not grow.\<close>

definition no_growth :: "db \<Rightarrow> db \<Rightarrow> bool" where
  "no_growth d d' \<longleftrightarrow> keeps d d' \<and> (pks d \<and> rows_ok d \<longrightarrow> active_ec2_nodes_count d' \<le> active_ec2_nodes_count d)"

lemma count_rows_map_le: "\<forall>r\<in>set rows. P (f r) \<longrightarrow> P r \<Longrightarrow> count_rows P (map f rows) \<le> count_rows P rows"
  by (induction rows) (auto simp: count_rows_def)

lemma no_growth_put:
  assumes "pks d" "n \<in> set (nodes d)" "lawful n n'" "node_provider_type n' = node_provider_type n"
  shows "no_growth d (put_node n' d)"
proof -
  have "active_ec2 n" if "active_ec2 n'" "row_ok n"
    using that assms(3,4) by (auto simp: active_ec2_def active_ec2_status_def lawful_def gone_def row_ok_def)
  moreover have "q = n" if "q \<in> set (nodes d)" "node_pk q = node_pk n'" for q
    using that assms(1-3) in_get_node by (metis lawful_def option.inject)
  ultimately have "count_rows active_ec2 (nodes (put_node n' d)) \<le> count_rows active_ec2 (nodes d)" if "rows_ok d"
    using that assms(2) unfolding put_node_frame row_put_def rows_ok_def list_all_iff by (intro count_rows_map_le) auto
  then show ?thesis using keeps_put [OF assms(2,3)] by (simp add: no_growth_def active_ec2_nodes_count_def)
qed

interpretation size: node_guarantee no_growth True
proof unfold_locales
  show "no_growth d (ensure_topology_row_for_local_dev E t d)" for d E t
    using keeps_topology [of d E t] by (simp add: no_growth_def active_ec2_nodes_count_def)
  show "pks d \<Longrightarrow> n \<in> set (nodes d) \<Longrightarrow> lawful n n' \<Longrightarrow> (True \<longrightarrow> node_provider_type n' = node_provider_type n) \<Longrightarrow>
      node_key n' = node_key n \<or> \<not> node_key_taken d (node_pk n) (node_key n') \<Longrightarrow> no_growth d (put_node n' d)" for d n n'
    by (rule no_growth_put) simp_all
  show "no_growth a b \<Longrightarrow> no_growth b c \<Longrightarrow> no_growth a c" for a b c
    unfolding no_growth_def keeps_def by fastforce
qed (auto simp: no_growth_def keeps_def)


section \<open>The contract of the worker\<close>

text \<open>The autoscaler hook that the job worker calls after a placement without a node discharges the hypothesis
  \<open>provision_contained\<close> of the worker's theorems. The database is taken to accept the insertion: a flush that fails inside
  the hook is not modelled.\<close>

lemma autoscaler_hook_same:
  "same_rows d (snd (maybe_provision_on_no_schedulable_capacity E T F V d))"
proof -
  have "same_rows d (snd (add_node r d))" for r by (simp add: same_rows_def)
  moreover have "same_rows d d1" if "provision_ec2_node E T F W u q b d = Inr (r, d1)" for W u q b r d1
    using that by (cases rule: provision_cases) (simp add: same_rows_def)
  ultimately show ?thesis using provision_error
    by (fastforce simp: maybe_provision_on_no_schedulable_capacity_def provision_one_from_fleet_decision_def Let_def same_rows_def
        split: sum.splits)
qed

section \<open>Reachable fleets\<close>

text \<open>
  One committed transaction of the infrastructure services that changes node rows lawfully. Between the two commits of a
  scale-down other transactions may do what the transactions here are shown to do. The remaining writers of the node
  table, the catalog registration \<^verbatim>\<open>register_catalog_ec2_stub\<close>, the worker and the bootstrap, are \<open>fleet_move\<close>s below.
\<close>

inductive fleet_step :: "db \<Rightarrow> db \<Rightarrow> bool" where
  drain: "mark_node_draining E i k d = Inr (r, d') \<Longrightarrow> fleet_step d d'"
| undrain: "undrain_node E i k d = Inr (r, d') \<Longrightarrow> fleet_step d d'"
| deregister: "deregister_node E i k d = Inr (r, d') \<Longrightarrow> fleet_step d d'"
| terminate: "terminate_ec2_node E F W i k d = Inr (r, d') \<Longrightarrow> fleet_step d d'"
| register: "register_ec2_instance E F W m iid key user mode catalog d = Inr (r, d') \<Longrightarrow> fleet_step d d'"
| sync: "sync_node_state E F W scr i k promote d = Inr (r, d') \<Longrightarrow> fleet_step d d'"
| sync_all: "sync_ec2_instances E F W ids d = Inr (rs, d') \<Longrightarrow> fleet_step d d'"
| stale: "reconcile_stale_ec2_execution_nodes E F W d = Inr (c, d') \<Longrightarrow> fleet_step d d'"
| monitor: "run_ec2_node_resource_monitor_tick E probe d = (c, d') \<Longrightarrow> fleet_step d d'"
| heartbeat: "record_execution_node_heartbeat E key i ok free slots v d = Inr (r, d') \<Longrightarrow> fleet_step d d'"
| placement: "d' = assign_missing_default_topology E d \<Longrightarrow> fleet_step d d'"
| provision: "provision_ec2_node E T F W u q wait d = Inr (r, d') \<Longrightarrow> fleet_step d d'"
| tick: "\<forall>x. sound_change x (fw_race V x) \<Longrightarrow> run_autoscaler_loop_tick E T F V d = Inr (o1, d') \<Longrightarrow> fleet_step d d'"
| tick_failed: "\<forall>x. sound_change x (fw_race V x) \<Longrightarrow> run_autoscaler_loop_tick E T F V d = Inl (e, d') \<Longrightarrow> fleet_step d d'"
| reclaim: "\<forall>x. sound_change x (fw_race V x) \<Longrightarrow> run_autoscaler_scale_down_tick E T F V d = Inr (o2, d') \<Longrightarrow> fleet_step d d'"
| reclaim_failed: "\<forall>x. sound_change x (fw_race V x) \<Longrightarrow> run_autoscaler_scale_down_tick E T F V d = Inl (e, d') \<Longrightarrow> fleet_step d d'"

lemma fleet_step_sound: "fleet_step d d' \<Longrightarrow> pks d \<Longrightarrow> sound_change d d'"
  by (induction rule: fleet_step.induct)
    (blast intro: integrity.draining integrity.undraining integrity.deregistering integrity.terminating integrity.registering
      integrity.syncing integrity.sync_all integrity.stale integrity.monitor_tick integrity.heartbeat integrity.assigning integrity.provisioning
      integrity.ticking integrity.reclaiming)+

text \<open>
  The reachable databases: from an empty node table, by the bootstrap of the local node, by the steps above, by
  catalog stubs, by the worker sending a node back to its gate, and by any transaction that leaves the node
  table alone.
\<close>

inductive fleet_reachable :: "db \<Rightarrow> bool" where
  start: "nodes d = [] \<Longrightarrow> fleet_reachable d"
| bootstrap: "fleet_reachable d \<Longrightarrow> ensure_default_local_execution_node E d = (r, d') \<Longrightarrow> fleet_reachable d'"
| step: "fleet_reachable d \<Longrightarrow> fleet_step d d' \<Longrightarrow> fleet_reachable d'"
| stub: "fleet_reachable d \<Longrightarrow> register_catalog_ec2_stub E F q d = Inr (r, d') \<Longrightarrow> fleet_reachable d'"
| worker: "fleet_reachable d \<Longrightarrow> fleet_reachable (mark_node_not_ready_for_retry E key reason d)"
| other: "fleet_reachable d \<Longrightarrow> nodes d' = nodes d \<Longrightarrow> seqs d' T_NODE = seqs d T_NODE \<Longrightarrow> fleet_reachable d'"

definition fleet_ok :: "db \<Rightarrow> bool" where
  "fleet_ok d \<longleftrightarrow> pks d \<and> rows_ok d \<and> distinct (map node_key (nodes d))"

lemma fleet_ok_change: "sound_change d d' \<Longrightarrow> fleet_ok d \<Longrightarrow> fleet_ok d'"
  by (simp add: fleet_ok_def sound_change_def keeps_def)

text \<open>Saving a row under its own key.\<close>

lemma fleet_ok_save:
  assumes "fleet_ok d" "n \<in> set (nodes d)" "node_pk n' = node_pk n" "node_key n' = node_key n" "row_ok n'"
  shows "fleet_ok (put_node n' d)"
proof -
  have "distinct (map node_key (row_put node_pk n' (nodes d)))"
    using assms by (intro distinct_row_put [OF _ _ assms(2)]) (auto simp: fleet_ok_def pks_def)
  moreover have "row_ok q" if "q \<in> set (row_put node_pk n' (nodes d))" for q
    using in_row_put [OF that] assms(1,5) by (auto simp: fleet_ok_def rows_ok_def list_all_iff)
  ultimately show ?thesis using assms(1) by (simp add: fleet_ok_def pks_def rows_ok_def list_all_iff)
qed

lemma fleet_ok_insert:
  assumes "fleet_ok d" "find_node_by_key d (node_key r) = None" "row_ok r"
  shows "fleet_ok (snd (add_node r d))"
  using fleet_ok_change [OF sound_add] assms by (simp add: fleet_ok_def)

lemma stub_id_tidy: "nk \<noteq> [] \<Longrightarrow> py_strip nk = nk \<Longrightarrow> py_strip (''catalog-pending:'' @ nk) = ''catalog-pending:'' @ nk"
  using py_strip_ends(2) [of nk] by (intro py_strip_tidy) (simp_all add: py_space_def)

lemma stub_fields_ok:
  "py_strip pid = pid \<Longrightarrow> capacity_within_total (stub_fields E F q nk pid st row) \<Longrightarrow> row_ok (stub_fields E F q nk pid st row)"
  "node_pk (stub_fields E F q nk pid st row) = node_pk row" "node_key (stub_fields E F q nk pid st row) = node_key row"
  by (simp_all add: stub_fields_def row_ok_def Let_def positive_or_def split: option.splits if_splits)

lemma fleet_ok_stub:
  assumes "fleet_ok d" "register_catalog_ec2_stub E F q d = Inr (r, d')"
  shows "fleet_ok d'"
proof -
  define nk where nk: "nk = py_strip (sr_node_key q)"
  define pid where pid: "pid = (case strip_or_none (sr_provider_instance_id q) of Some p \<Rightarrow> p | None \<Rightarrow> ''catalog-pending:'' @ nk)"
  have "nk \<noteq> []" using assms(2) by (auto simp: register_catalog_ec2_stub_def Let_def nk split: if_splits)
  then have tidy: "py_strip pid = pid" using stub_id_tidy [of nk] by (auto simp: pid nk strip_or_none_tidy split: option.split)
  obtain st where st: "stub_status_text (sr_status q) = Some st"
    using assms(2) by (auto simp: register_catalog_ec2_stub_def Let_def split: if_splits option.splits)
  show ?thesis
  proof (cases "find_node_by_key d nk")
    case None
    let ?row = "stub_fields E F q nk pid (stub_resolve_status E (sr_align_with_heartbeat q) st None) (blank_node E nk)"
    have "capacity_within_total ?row" "d' = snd (add_node ?row d)"
      using assms(2) None st \<open>nk \<noteq> []\<close> unfolding nk pid
      by (auto simp: register_catalog_ec2_stub_def Let_def add_node_def split: if_splits)
    then show ?thesis using fleet_ok_insert [OF assms(1), of ?row] None stub_fields_ok(1) [OF tidy]
      by (simp add: stub_fields_ok blank_node_def)
  next
    case (Some row)
    let ?row = "stub_fields E F q nk pid (stub_resolve_status E (sr_align_with_heartbeat q) st (Some row)) row"
    have "capacity_within_total ?row" "d' = put_node ?row d"
      using assms(2) Some st \<open>nk \<noteq> []\<close> unfolding nk pid
      by (auto simp: register_catalog_ec2_stub_def Let_def save_def split: if_splits)
    then show ?thesis using fleet_ok_save [OF assms(1), of row ?row] find_node_by_key_in [OF Some] stub_fields_ok(1) [OF tidy]
      by (simp add: stub_fields_ok(2,3))
  qed
qed


lemma fleet_ok_worker: "fleet_ok d \<Longrightarrow> fleet_ok (mark_node_not_ready_for_retry E key reason d)"
proof -
  assume ok: "fleet_ok d"
  have "fleet_ok (upd_node (node_pk n) (\<lambda>n. n\<lparr>node_status := NS_PROVISIONING, node_schedulable := False,
        node_last_error_code := c, node_last_error_message := m, node_updated_at := t\<rparr>) d)" for n :: node and c m t
  proof (cases "get_node d (node_pk n)")
    case (Some q)
    have "q \<in> set (nodes d)" "node_pk q = node_pk n" using get_node_in [OF Some] by simp_all
    moreover have "row_ok q" using ok \<open>q \<in> set (nodes d)\<close> by (simp add: fleet_ok_def rows_ok_def list_all_iff)
    ultimately show ?thesis unfolding upd_node_def Some option.case
      by (intro fleet_ok_save [OF ok]) (auto simp: row_ok_def capacity_within_total_def)
  qed (simp add: upd_node_def ok)
  then show ?thesis using ok by (simp add: mark_node_not_ready_for_retry_def Let_def split: option.split)
qed

lemma fleet_ok_bootstrap:
  assumes "fleet_ok d" "ensure_default_local_execution_node E d = (r, d')"
  shows "fleet_ok d'"
proof (cases "find_node_by_key d (default_local_node_key E)")
  case None
  have topo: "fleet_ok (ensure_topology_row_for_local_dev E t b)" if "fleet_ok b" for t b
    using that by (simp add: fleet_ok_def pks_def rows_ok_def)
  show ?thesis using assms None
    by (auto simp: ensure_default_local_execution_node_def Let_def split_beta row_ok_def capacity_within_total_def
        intro!: topo fleet_ok_insert)
next
  case (Some n)
  note n = find_node_by_key_in [OF Some]
  let ?f = "\<lambda>q. let q2 = (if node_max_workspaces q \<le> 0 then q\<lparr>node_max_workspaces := 32\<rparr> else q)
              in if node_allocatable_disk_mb q2 \<le> 0 then q2\<lparr>node_allocatable_disk_mb := 102400\<rparr> else q2"
  have f: "node_pk (?f q) = node_pk q" "node_key (?f q) = node_key q" "row_ok (?f q) = row_ok q" for q
    by (simp_all add: Let_def row_ok_def capacity_within_total_def)
  let ?e = "ensure_execution_node_default_topology E n d"
  have e: "fleet_ok (snd (snd ?e))" "fst ?e \<in> set (nodes (snd (snd ?e)))"
    using fleet_ok_change [OF integrity.assigning_one assms(1)] n assms(1) put_node_in
    by (auto simp: fleet_ok_def ensure_execution_node_default_topology_def Let_def split: option.splits)
  have "fleet_ok (put_node (?f (fst ?e)) (snd (snd ?e)))"
    using e by (intro fleet_ok_save [OF e(1,2)]) (auto simp only: f fleet_ok_def rows_ok_def list_all_iff)
  then show ?thesis using assms(2) Some
    by (auto simp: ensure_default_local_execution_node_def Let_def split_beta fleet_ok_def pks_def rows_ok_def split: option.splits)
qed

lemma fleet_reachable_ok: "fleet_reachable d \<Longrightarrow> fleet_ok d"
proof (induction rule: fleet_reachable.induct)
  case (start d)
  then show ?case by (simp add: fleet_ok_def pks_def rows_ok_def keys_ok_def)
next
  case (step d d')
  then show ?case using fleet_ok_change [OF fleet_step_sound] by (simp add: fleet_ok_def)
next
  case (other d d')
  then show ?case by (simp add: fleet_ok_def pks_def rows_ok_def)
qed (blast intro: fleet_ok_bootstrap fleet_ok_stub fleet_ok_worker)+


text \<open>Neither grows nor shrinks: synchronising does not add rows.\<close>

definition same_nodes :: "db \<Rightarrow> db \<Rightarrow> bool" where
  "same_nodes d d' \<longleftrightarrow> keeps d d' \<and> map node_pk (nodes d') = map node_pk (nodes d)"

interpretation shape: node_guarantee same_nodes True
  by unfold_locales (auto simp: same_nodes_def keeps_put keeps_topology, auto simp: keeps_def)

section \<open>A sample fleet\<close>

definition ex_fleet :: fleet where
  "ex_fleet = \<lparr>f_aws_region = ''eu'', f_ami_id = ''ami'', f_instance_type = ''t3'', f_subnet_id = ''sn'',
     f_security_group_ids = ''sg'', f_instance_profile = ''ip'', f_key_name = [], f_tag_prefix = [], f_extra_tags = [],
     f_user_data = [], f_user_data_b64 = [], f_default_execution_mode = ''ssm_docker'', f_ssh_user_default = ''ubuntu'',
     f_workspace_image = ''img'', f_env_workspace_container_image = [], f_env_workspace_image = [],
     f_control_plane_instance_ids = [], f_ec2_projects_base = [], f_heartbeat_api_base_url = [], f_internal_api_base_url = [],
     f_internal_api_key_infrastructure = [], f_internal_api_key = [], f_bootstrap_prebaked = True,
     f_heartbeat_interval_seconds = 30, f_enabled = True, f_evaluate_only = False, f_provision_on_no_capacity = True,
     f_min_nodes = 0, f_max_nodes = 3, f_min_idle_slots = 1, f_max_concurrent_provisioning = 2,
     f_scale_out_cooldown_seconds = 0, f_scale_in_cooldown_seconds = 0, f_suppress_recent_seconds = 0,
     f_min_ec2_before_reclaim = 0, f_scale_down_idle_seconds = 0, f_recent_activity_window_seconds = 300\<rparr>"

definition ex_instance :: "string \<Rightarrow> instance_dict" where
  "ex_instance iid = \<lparr>in_id = Some iid, in_state = Some ''running'', in_private_ip = None, in_public_ip = None, in_zone = None,
     in_type = Some ''t3'', in_tags = [], in_profile_arn = None\<rparr>"

definition ex_iid :: string where
  "ex_iid = ''i-00000001''"

text \<open>All instances run; every launch gives the same instance id; the gate of a node never passes.\<close>

definition ex_aws :: aws where
  "ex_aws = \<lparr>aw_region_name = Some ''eu'', aw_describe = (\<lambda>_ iid. AwsOk [[ex_instance iid]]), aw_list = AwsOk [],
     aw_types = (\<lambda>_. AwsOk [(Some 2, Some 4096)]), aw_run = (\<lambda>_. AwsOk [ex_instance ex_iid]), aw_wait_running = (\<lambda>_. None),
     aw_terminate = (\<lambda>_. AwsOk ()), aw_ssm = (\<lambda>_ _. Inl ''no agent'')\<rparr>"

definition ex_texts :: texts where
  "ex_texts = \<lparr>tx_b64 = (\<lambda>_. None), tx_str_json = (\<lambda>_. []), tx_bootstrap = (\<lambda>_ _ _ _ _. []), tx_ready_gate = id\<rparr>"

definition ex_fworld :: fleet_world where
  "ex_fworld = \<lparr>fw_sync = (\<lambda>_. ex_aws), fw_aws = ex_aws, fw_uuid12 = ''a1'', fw_uuid16 = ''b2'', fw_race = id\<rparr>"

definition ex_fenv :: env where
  "ex_fenv = ex_env\<lparr>cfg := ex_settings\<lparr>s_node_provider := ''all''\<rparr>\<rparr>"

definition ex_ec2_node :: node where
  "ex_ec2_node = (blank_node ex_fenv ''n1'')\<lparr>node_pk := 1, node_provider_type := PT_EC2, node_provider_instance_id := Some ex_iid,
     node_execution_mode := EM_SSM_DOCKER, node_default_topology_id := Some 1, node_created_at := 0\<rparr>"

definition ex_fleet_db :: "node list \<Rightarrow> db" where
  "ex_fleet_db ns = ex_db\<lparr>nodes := ns, workspaces := [], runtimes := [], seqs := (\<lambda>_. 9)\<rparr>"

lemmas ex_fleet_defs = ex_fleet_def ex_aws_def ex_texts_def ex_fworld_def ex_fenv_def ex_instance_def

lemma ex_iid_tidy [simp]: "py_strip ex_iid = ex_iid" "ex_iid \<noteq> []" "valid_instance_id ex_iid"
  by (simp_all add: ex_iid_def py_strip_def py_space_def valid_instance_id_def hex_digit_def)

lemma ex_describe: "describe_ec2_instance F ex_aws m ex_iid = Inr (describe_fields (client_region F ex_aws) ex_iid (ex_instance ex_iid))"
  by (simp add: describe_ec2_instance_def require_instance_id_def ex_aws_def Let_def)

lemma ex_aws_sel [simp]:
  "aw_run ex_aws ps = AwsOk [ex_instance ex_iid]" "aw_wait_running ex_aws i = None" "aw_terminate ex_aws i = AwsOk ()"
  "aw_ssm ex_aws i c = Inl ''no agent''" "strip_or_none (in_id (ex_instance ex_iid)) = Some ex_iid"
  by (simp_all add: ex_aws_def ex_instance_def strip_or_none_def none_if_empty_def str_or_empty_def)

lemma ex_network [simp]: "launch_network F ex_aws b ex_iid (ex_instance ex_iid) = Inr (None, None, None)"
proof -
  have n: "strip_or_none None = None" by (simp add: strip_or_none_def none_if_empty_def str_or_empty_def py_strip_def)
  have "launch_network F ex_aws b ex_iid i = Inr (None, None, None)"
    if "in_private_ip i = None" "in_public_ip i = None" "in_zone i = None" for i
    using that by (simp add: launch_network_def ex_describe n) (simp add: ex_describe describe_fields_def or_else_def ex_instance_def n)
  then show ?thesis by (simp add: ex_instance_def)
qed

lemma ex_request:
  "\<exists>q. request_from_settings ex_texts ex_fleet = Inr q \<and> validate_request q = None \<and> pr_node_key q = None \<and> pr_user_data q = None"
  by (simp add: request_from_settings_def user_data_from_settings_def extra_tags_from_settings_def validate_request_def
      ex_fleet_def py_strip_def py_space_def)

lemma ex_launch: "\<exists>r d'. provision_ec2_node ex_fenv ex_texts ex_fleet ex_aws u None b (ex_fleet_db []) = Inr (r, d') \<and>
   nodes d' = [r] \<and> node_pk r = 9 \<and> node_status r = NS_PROVISIONING \<and> node_provider_type r = PT_EC2"
proof -
  obtain q where q: "request_from_settings ex_texts ex_fleet = Inr q" "validate_request q = None" "pr_node_key q = None"
    using ex_request by blast
  show ?thesis
    by (simp add: provision_ec2_node_def q str_or_empty_def py_strip_def require_free_node_key_def find_node_by_key_def
        ex_fleet_db_def Let_def add_node_def bump_def)
qed

lemma ex_launched_reachable: "\<exists>d r. fleet_reachable d \<and> nodes d = [r] \<and> node_pk r = 9 \<and> node_status r = NS_PROVISIONING \<and>
   node_provider_type r = PT_EC2"
proof -
  obtain r d' where "provision_ec2_node ex_fenv ex_texts ex_fleet ex_aws [] None True (ex_fleet_db []) = Inr (r, d')"
      "nodes d' = [r]" "node_pk r = 9" "node_status r = NS_PROVISIONING" "node_provider_type r = PT_EC2"
    using ex_launch by blast
  moreover have "fleet_reachable (ex_fleet_db [])" by (rule fleet_reachable.start) (simp add: ex_fleet_db_def)
  ultimately show ?thesis using fleet_reachable.step [OF _ fleet_step.provision] by blast
qed

section \<open>Properties of the fleet\<close>

text \<open>In every state the fleet can reach, whatever AWS answers and in whatever order nodes are registered, launched,
  drained, terminated, monitored, heartbeat or rescaled, primary keys and node keys are unique, only READY
  nodes are schedulable, no node offers more CPU or memory than it has, and only EC2 nodes carry an instance id.\<close>

theorem fleet_integrity:
  assumes "fleet_reachable d"
  shows "distinct (map node_pk (nodes d)) \<and> distinct (map node_key (nodes d)) \<and>
    (\<forall>n\<in>set (nodes d). (node_schedulable n \<longrightarrow> node_status n = NS_READY) \<and> node_allocatable_cpu n \<le> node_total_cpu n \<and>
       node_allocatable_memory_mb n \<le> node_total_memory_mb n \<and> (node_provider_instance_id n \<noteq> None \<longrightarrow> node_provider_type n = PT_EC2))"
  using fleet_reachable_ok [OF assms]
  by (auto simp: fleet_ok_def pks_def rows_ok_def list_all_iff row_ok_def capacity_within_total_def)


theorem fleet_integrity_witness:
  "\<exists>d. fleet_reachable d \<and> nodes d \<noteq> [] \<and> distinct (map node_key (nodes d)) \<and>
     (\<forall>n\<in>set (nodes d). node_schedulable n \<longrightarrow> node_status n = NS_READY)"
proof -
  obtain d r where d: "fleet_reachable d" "nodes d = [r]" using ex_launched_reachable by blast
  then show ?thesis using fleet_integrity [OF d(1)] by (intro exI [of _ d]) auto
qed

text \<open>
  Every transaction that writes node rows, with its cause: the infrastructure services, the registration of a catalog
  stub under a key, the worker sending the node of a key back to its gate, the bootstrap of the local node.
\<close>

datatype fleet_cause = By_services | By_catalog string | By_worker string | By_bootstrap

inductive fleet_move :: "fleet_cause \<Rightarrow> db \<Rightarrow> db \<Rightarrow> bool" where
  services: "fleet_step d d' \<Longrightarrow> fleet_move By_services d d'"
| catalog: "register_catalog_ec2_stub E F q d = Inr (r, d') \<Longrightarrow> fleet_move (By_catalog (py_strip (sr_node_key q))) d d'"
| worker: "fleet_move (By_worker (py_strip (str_or_empty key))) d (mark_node_not_ready_for_retry E key reason d)"
| bootstrap: "ensure_default_local_execution_node E d = (r, d') \<Longrightarrow> fleet_move By_bootstrap d d'"

lemma get_node_put: "get_node (put_node m d) k = (if node_pk m = k \<and> get_node d k \<noteq> None then Some m else get_node d k)"
  by (rule nodes_tab.look_save)

text \<open>A stub rewrites the row of its own key only, as unschedulable; the worker likewise.\<close>

lemma stub_touches:
  assumes "register_catalog_ec2_stub E F q d = Inr (r, d')" "get_node d k = Some n" "fleet_ok d"
  shows "get_node d' k = Some n \<or> node_key n = py_strip (sr_node_key q) \<and> (\<exists>n'. get_node d' k = Some n' \<and> \<not> node_schedulable n' \<and>
     node_status n' \<in> {node_status n, NS_READY, NS_NOT_READY})"
proof -
  let ?nk = "py_strip (sr_node_key q)"
  define pid where "pid = (case strip_or_none (sr_provider_instance_id q) of Some p \<Rightarrow> p | None \<Rightarrow> ''catalog-pending:'' @ ?nk)"
  obtain st where st: "stub_status_text (sr_status q) = Some st"
    using assms(1) by (auto simp: register_catalog_ec2_stub_def Let_def split: if_splits option.splits)
  have st_in: "st \<in> {None, Some NS_READY, Some NS_NOT_READY}"
    using st by (auto simp: stub_status_text_def Let_def split: if_splits)
  show ?thesis
  proof (cases "find_node_by_key d ?nk")
    case None
    then obtain row where "d' = snd (add_node row d)"
      using assms(1) st by (auto simp: register_catalog_ec2_stub_def Let_def add_node_def split: if_splits)
    then show ?thesis using assms(2,3) nodes_tab.insert_keeps [of d k n row] by (simp add: fleet_ok_def pks_def)
  next
    case (Some row)
    let ?row = "stub_fields E F q ?nk pid (stub_resolve_status E (sr_align_with_heartbeat q) st (Some row)) row"
    have d': "d' = put_node ?row d"
      using assms(1) Some st unfolding pid_def by (auto simp: register_catalog_ec2_stub_def Let_def save_def split: if_splits)
    have row: "row \<in> set (nodes d)" "node_key row = ?nk" using find_node_by_key_in [OF Some] by simp_all
    have "get_node d (node_pk row) = Some row"
      unfolding get_node_def by (rule row_find_distinct) (use assms(3) row in \<open>auto simp: fleet_ok_def pks_def keys_ok_def\<close>)
    then have "node_pk row = k \<Longrightarrow> row = n" using assms(2) by simp
    moreover have "\<not> node_schedulable ?row" "node_status ?row \<in> {node_status row, NS_READY, NS_NOT_READY}"
      using st_in by (auto simp: stub_fields_def stub_resolve_status_def Let_def split: option.split)
    ultimately show ?thesis using assms(2) row(2) by (auto simp: d' get_node_put stub_fields_ok(2))
  qed
qed

lemma worker_touches:
  assumes "get_node d k = Some n" "fleet_ok d"
  shows "get_node (mark_node_not_ready_for_retry E key reason d) k = Some n \<or> node_key n = py_strip (str_or_empty key) \<and>
    (\<exists>n'. get_node (mark_node_not_ready_for_retry E key reason d) k = Some n' \<and> \<not> node_schedulable n' \<and> node_status n' = NS_PROVISIONING)"
proof (cases "node_by_key d (py_strip (str_or_empty key))")
  case (Some row)
  have row: "row \<in> set (nodes d)" "node_key row = py_strip (str_or_empty key)"
    using Some by (auto simp: node_by_key_def dest: first_row_in)
  have g: "get_node d (node_pk row) = Some row"
    unfolding get_node_def by (rule row_find_distinct) (use assms(2) row in \<open>auto simp: fleet_ok_def pks_def keys_ok_def\<close>)
  show ?thesis
  proof (cases "node_pk row = k")
    case True
    then show ?thesis using Some g assms(1) row(2)
      by (simp add: mark_node_not_ready_for_retry_def Let_def upd_node_def get_node_put)
  next
    case False
    then show ?thesis using Some g assms(1)
      by (simp add: mark_node_not_ready_for_retry_def Let_def upd_node_def get_node_put)
  qed
qed (use assms in \<open>simp add: mark_node_not_ready_for_retry_def Let_def\<close>)

definition node_state :: "db \<Rightarrow> int \<Rightarrow> (node_status \<times> bool) option" where
  "node_state d k = map_option (\<lambda>n. (node_status n, node_schedulable n)) (get_node d k)"

lemma node_state_put:
  "(node_pk m = k \<Longrightarrow> node_state d k = Some (node_status m, node_schedulable m)) \<Longrightarrow> node_state (put_node m d) k = node_state d k"
  by (auto simp: node_state_def get_node_put)

lemma node_state_topology [simp]: "node_state (ensure_topology_row_for_local_dev E t d) k = node_state d k"
  by (simp add: node_state_def get_node_def)

lemma bootstrap_touches:
  assumes "ensure_default_local_execution_node E d = (r, d')" "get_node d k = Some n" "fleet_ok d"
  shows "node_state d' k = node_state d k"
proof (cases "find_node_by_key d (default_local_node_key E)")
  case None
  then obtain row t where "d' = ensure_topology_row_for_local_dev E t (snd (add_node row d))"
    using assms(1) by (auto simp: ensure_default_local_execution_node_def Let_def split_beta)
  moreover have "node_state (snd (add_node row d)) k = node_state d k"
    using assms(2,3) nodes_tab.insert_keeps [of d k n row] by (simp add: fleet_ok_def pks_def node_state_def)
  ultimately show ?thesis by simp
next
  case (Some row)
  have "row \<in> set (nodes d)" using find_node_by_key_in [OF Some] by simp
  then have "get_node d (node_pk row) = Some row"
    unfolding get_node_def by (intro row_find_distinct) (use assms(3) in \<open>auto simp: fleet_ok_def pks_def keys_ok_def\<close>)
  then have st: "node_state d (node_pk row) = Some (node_status row, node_schedulable row)" by (simp add: node_state_def)
  obtain n1 b d1 where e: "ensure_execution_node_default_topology E row d = (n1, b, d1)" by (metis prod_cases3)
  have n1: "node_pk n1 = node_pk row" "node_status n1 = node_status row" "node_schedulable n1 = node_schedulable row"
    using e by (auto simp: ensure_execution_node_default_topology_def Let_def split: option.splits)
  have d1: "node_state d1 k = node_state d k"
    using e st by (auto simp: ensure_execution_node_default_topology_def Let_def split: option.splits intro!: node_state_put)
  obtain n2 where n2: "node_pk n2 = node_pk n1" "node_status n2 = node_status n1" "node_schedulable n2 = node_schedulable n1"
    and d': "node_state d' k = node_state (put_node n2 d1) k"
  proof
    let ?n2 = "if node_max_workspaces n1 \<le> 0 then n1\<lparr>node_max_workspaces := 32\<rparr> else n1"
    let ?n3 = "if node_allocatable_disk_mb ?n2 \<le> 0 then ?n2\<lparr>node_allocatable_disk_mb := 102400\<rparr> else ?n2"
    show "node_pk ?n3 = node_pk n1" "node_status ?n3 = node_status n1" "node_schedulable ?n3 = node_schedulable n1" by simp_all
    show "node_state d' k = node_state (put_node ?n3 d1) k"
      using assms(1) Some e by (auto simp: ensure_default_local_execution_node_def Let_def split: option.splits)
  qed
  have "node_state (put_node n2 d1) k = node_state d1 k"
    by (rule node_state_put) (use n1 n2 d1 st in \<open>auto simp del: prod.inject option.inject\<close>)
  then show ?thesis using d' d1 by simp
qed

text \<open>C18: a terminated node never becomes schedulable by any one transaction that writes node rows, and it leaves TERMINATED in
  two ways only: its catalog stub is registered again under its own key, which makes it READY or NOT_READY, or the worker
  sends it back to its gate because a bring-up on it failed for readiness, which makes it PROVISIONING. Registration
  of the instance, synchronisation, heartbeat, monitor, autoscaler ticks, draining, undraining, deregistration and
  termination leave it TERMINATED and unschedulable, whatever AWS answers.\<close>

theorem terminated_leaves_by_key:
  assumes "fleet_reachable d" "fleet_move c d d'" "get_node d k = Some n" "node_status n = NS_TERMINATED"
  shows "\<exists>n'. get_node d' k = Some n' \<and> \<not> node_schedulable n' \<and>
    (node_status n' = NS_TERMINATED \<or> c = By_catalog (node_key n) \<and> node_status n' \<in> {NS_READY, NS_NOT_READY} \<or>
     c = By_worker (node_key n) \<and> node_status n' = NS_PROVISIONING)"
proof -
  have ok: "fleet_ok d" by (rule fleet_reachable_ok [OF assms(1)])
  then have "row_ok n" using get_node_in [OF assms(3)] by (simp add: fleet_ok_def rows_ok_def list_all_iff)
  then have gone: "gone n" using assms(4) by (auto simp: gone_def row_ok_def)
  from assms(2) show ?thesis
  proof cases
    case services
    obtain n' where "get_node d' k = Some n'" "lawful n n'"
      using fleet_step_sound [OF services(2)] ok assms(3) by (auto simp: fleet_ok_def sound_change_def)
    then show ?thesis using gone by (auto simp: lawful_def gone_def)
  next
    case (catalog E F q r)
    then show ?thesis using stub_touches [OF catalog(2) assms(3) ok] gone assms(4) by (auto simp: gone_def)
  next
    case (worker key E reason)
    then show ?thesis using worker_touches [OF assms(3) ok, of E key reason] gone by (auto simp: gone_def)
  next
    case (bootstrap E r)
    then show ?thesis using bootstrap_touches [OF bootstrap(2) assms(3) ok] gone assms(3) by (auto simp: gone_def node_state_def)
  qed
qed

theorem terminated_leaves_by_key_witness:
  "\<exists>d d' n. fleet_reachable d \<and> fleet_move By_services d d' \<and> get_node d 9 = Some n \<and> node_status n = NS_TERMINATED \<and>
     (\<exists>n'. get_node d' 9 = Some n' \<and> node_status n' = NS_TERMINATED)"
proof -
  obtain d r where d: "fleet_reachable d" "nodes d = [r]" "node_pk r = 9" "node_status r = NS_PROVISIONING"
    using ex_launched_reachable by blast
  obtain n d1 where dr: "deregister_node ex_env (Some 9) None d = Inr (n, d1)" "get_node d1 9 = Some n" "node_status n = NS_TERMINATED"
    using d(2-4) by (simp add: deregister_node_def with_node_def lookup_node_def get_node_def save_def row_put_def)
  obtain r2 d2 where hb: "record_execution_node_heartbeat ex_env None (Some 9) True 0 0 [] d1 = Inr (r2, d2)"
    using dr(2) by (simp add: record_execution_node_heartbeat_def Let_def)
  have re: "fleet_reachable d1" using fleet_reachable.step [OF d(1) fleet_step.deregister [OF dr(1)]] .
  have mv: "fleet_move By_services d1 d2" by (rule fleet_move.services [OF fleet_step.heartbeat [OF hb]])
  from terminated_leaves_by_key [OF re mv dr(2,3)] re mv dr(2,3) show ?thesis by auto
qed

end
