(* ===== verification/Scaling_Correct.thy ===== *)
theory Scaling_Correct
  imports Fleet_Correct
begin

text \<open>
  Properties of the autoscaler and of the nodes it handles: what a tick may launch and terminate, and how a node
  is admitted to scheduling.
\<close>

section \<open>Scaling out\<close>

lemma pick_scale_out: "pick_action a b c e out i = SCALE_OUT_RECOMMENDED \<longleftrightarrow> \<not> a \<and> \<not> b \<and> \<not> c \<and> \<not> e \<and> out"
  by (simp add: pick_action_def)

lemma pick_scale_in: "pick_action a b c e out i = SCALE_IN_RECOMMENDED \<longleftrightarrow> \<not> a \<and> \<not> b \<and> \<not> c \<and> \<not> e \<and> \<not> out \<and> i"
  by (simp add: pick_action_def)

lemma snapshot_counts [simp]:
  "fc_ec2_nodes_active (build_fleet_capacity_snapshot E F d) = active_ec2_nodes_count d"
  "fc_provisioning_nodes (build_fleet_capacity_snapshot E F d) = count_ec2_provisioning_nodes d"
  "fc_pending_workspace_jobs (build_fleet_capacity_snapshot E F d) = count_queued_jobs d (\<lambda>_. True)"
  by (simp_all add: build_fleet_capacity_snapshot_def Let_def)

lemma scale_out_conditions:
  assumes "fd_action (evaluate_fleet_autoscaler_tick E T F d) = SCALE_OUT_RECOMMENDED"
  shows "f_enabled F" "\<not> f_evaluate_only F" "provider_allows_ec2_autoscale E" "ec2_autoscaler_provisioning_config_errors T F = []"
    "active_ec2_nodes_count d < f_max_nodes F" "count_ec2_provisioning_nodes d < f_max_concurrent_provisioning F"
    "\<not> within_cooldown E (latest_ec2_created_at (nodes d)) (f_scale_out_cooldown_seconds F)"
    "live_demand (build_fleet_capacity_snapshot E F d) d"
  using assms unfolding evaluate_fleet_autoscaler_tick_def Let_def fleet_decision.simps pick_scale_out scale_out_wanted_def
  by (auto split: if_splits)

lemma launch_adds_one:
  assumes "provision_one_from_fleet_decision E T F V decision d = Inr (r, d')"
  shows "case r of None \<Rightarrow> d' = d
    | Some n \<Rightarrow> fd_action decision = SCALE_OUT_RECOMMENDED \<and> nodes d' = nodes d @ [n] \<and> provisioning_ec2 n \<and> \<not> node_schedulable n"
proof (cases r)
  case None
  then show ?thesis using assms by (auto simp: provision_one_from_fleet_decision_def split: if_splits sum.splits)
next
  case (Some n)
  then obtain q where "fd_action decision = SCALE_OUT_RECOMMENDED"
      and p: "provision_ec2_node E T F (fw_aws V) (fw_uuid16 V) (Some q) True d = Inr (n, d')"
    using assms by (auto simp: provision_one_from_fleet_decision_def split: if_splits sum.splits)
  moreover from p have "nodes d' = nodes d @ [n] \<and> provisioning_ec2 n \<and> \<not> node_schedulable n"
  proof (cases rule: provision_cases)
    case (1 q' iid key net)
    then show ?thesis using 1(3,4) launched_row_fields [of E F "fw_aws V" q' "fw_uuid16 V" iid key net]
      by (simp add: add_node_def bump_def provisioning_ec2_def)
  qed
  ultimately show ?thesis using Some by simp
qed

text \<open>A scale-out tick launches at most one node. It launches one only when the autoscaler is enabled and not in
  evaluate-only mode, the provider and the configuration allow EC2, there is live demand, the fleet is below its
  size limit and its limit of concurrent launches, and the cooldown is over; the new node is PROVISIONING and
  takes no work. Synchronising the nodes that are starting adds and removes none.\<close>

theorem scale_out_guarded:
  assumes "fleet_reachable d" "run_scale_out_tick E T F V d = Inr ((decision, launched), d')"
  shows "\<exists>d1. map node_pk (nodes d1) = map node_pk (nodes d) \<and> decision = evaluate_fleet_autoscaler_tick E T F d1 \<and>
    (case launched of None \<Rightarrow> d' = d1
     | Some n \<Rightarrow> nodes d' = nodes d1 @ [n] \<and> provisioning_ec2 n \<and> \<not> node_schedulable n \<and> f_enabled F \<and> \<not> f_evaluate_only F \<and>
         provider_allows_ec2_autoscale E \<and> live_demand (build_fleet_capacity_snapshot E F d1) d1 \<and>
         active_ec2_nodes_count d1 < f_max_nodes F \<and> count_ec2_provisioning_nodes d1 < f_max_concurrent_provisioning F \<and>
         \<not> within_cooldown E (latest_ec2_created_at (nodes d1)) (f_scale_out_cooldown_seconds F))"
proof -
  obtain d1 where s: "sync_provisioning_ec2_nodes E T F (fw_sync V) d = Inr ((), d1)"
      "decision = evaluate_fleet_autoscaler_tick E T F d1" "provision_one_from_fleet_decision E T F V decision d1 = Inr (launched, d')"
    using assms(2) by (auto simp: run_scale_out_tick_def Let_def split: sum.splits)
  have "same_nodes d d1" using fleet_reachable_ok [OF assms(1)] by (intro shape.syncing_starting [OF _ _ s(1)]) (simp_all add: fleet_ok_def)
  then show ?thesis using s(2) launch_adds_one [OF s(3)] scale_out_conditions [of E T F d1]
    by (intro exI [of _ d1]) (auto simp: same_nodes_def split: option.splits)
qed

text \<open>An empty fleet with one creation waiting: a node is launched.\<close>

definition ex_demand_db :: db where
  "ex_demand_db = (ex_fleet_db [])\<lparr>jobs := [ex_job JT_CREATE JS_QUEUED]\<rparr>"

lemma ex_demand_nodes [simp]: "nodes ex_demand_db = []"
  by (simp add: ex_demand_db_def ex_fleet_db_def)

lemma ex_demand_sync: "sync_provisioning_ec2_nodes E T F Ws ex_demand_db = Inr ((), ex_demand_db)"
  by (simp add: sync_provisioning_ec2_nodes_def ex_demand_db_def ex_fleet_db_def)

lemma ex_demand_wanted: "scale_out_wanted ex_fenv ex_fleet (build_fleet_capacity_snapshot ex_fenv ex_fleet ex_demand_db) ex_demand_db"
  by (simp add: scale_out_wanted_def live_demand_def demand_driven_scale_out_def effective_pending_demand_workspace_units_def
      build_fleet_capacity_snapshot_def Let_def ex_demand_db_def ex_fleet_db_def count_queued_jobs_def count_rows_def ex_job_def
      demand_job_def workspace_slots_from_free_resources_def effective_recent_placement_failure_signals_def
      count_recent_placement_failure_signals_def ex_db_def ex_db_in_def empty_db_def)

lemma ex_no_config_errors: "ec2_autoscaler_provisioning_config_errors ex_texts ex_fleet = []"
proof -
  obtain q where "request_from_settings ex_texts ex_fleet = Inr q" "validate_request q = None" using ex_request by blast
  moreover have "missing_settings ex_fleet = []"
    by (simp add: missing_settings_def Let_def ex_fleet_def py_strip_def py_space_def py_lower_def lower_char_def)
  ultimately show ?thesis by (simp add: ec2_autoscaler_provisioning_config_errors_def)
qed

lemma ex_demand_action: "fd_action (evaluate_fleet_autoscaler_tick ex_fenv ex_texts ex_fleet ex_demand_db) = SCALE_OUT_RECOMMENDED"
  unfolding evaluate_fleet_autoscaler_tick_def Let_def fleet_decision.simps pick_scale_out
  using ex_demand_wanted ex_no_config_errors
  by (simp add: provider_allows_ec2_autoscale_def Let_def active_ec2_nodes_count_def count_ec2_provisioning_nodes_def count_rows_def
      within_cooldown_def latest_ec2_created_at_def max_list_opt_def ex_demand_db_def ex_fleet_db_def,
      simp add: ex_fleet_def ex_fenv_def py_strip_def py_space_def py_lower_def lower_char_def)

lemma ex_demand_launch:
  "\<exists>n d'. run_scale_out_tick ex_fenv ex_texts ex_fleet ex_fworld ex_demand_db =
     Inr ((evaluate_fleet_autoscaler_tick ex_fenv ex_texts ex_fleet ex_demand_db, Some n), d')"
proof -
  obtain q where q: "request_from_settings ex_texts ex_fleet = Inr q" "validate_request q = None" "pr_user_data q = None"
    using ex_request by blast
  define q' where "q' = q\<lparr>pr_node_key := Some (autoscaler_node_key ''a1''), pr_name_tag := Some (autoscaler_node_key ''a1'')\<rparr>"
  have "build_autoscaler_ec2_provision_request ex_fenv ex_texts ex_fleet ''a1'' = Inr q'"
    by (simp add: build_autoscaler_ec2_provision_request_def q Let_def str_or_empty_def py_strip_def q'_def, simp add: ex_fleet_def)
  moreover have "validate_request q' = None" using q(2) by (auto simp: validate_request_def q'_def split: if_splits)
  ultimately show ?thesis using ex_demand_action
    by (simp add: run_scale_out_tick_def ex_demand_sync provision_one_from_fleet_decision_def ex_fworld_def provision_ec2_node_def Let_def
        require_free_node_key_def find_node_by_key_def split_beta)
qed

lemma ex_demand_reachable: "fleet_reachable ex_demand_db"
  by (rule fleet_reachable.start) (simp add: ex_demand_db_def ex_fleet_db_def)

theorem scale_out_guarded_witness:
  "\<exists>n d' d1. run_scale_out_tick ex_fenv ex_texts ex_fleet ex_fworld ex_demand_db =
       Inr ((evaluate_fleet_autoscaler_tick ex_fenv ex_texts ex_fleet ex_demand_db, Some n), d') \<and>
     nodes d' = nodes d1 @ [n] \<and> provisioning_ec2 n \<and> active_ec2_nodes_count d1 < 3"
proof -
  obtain n d' where r: "run_scale_out_tick ex_fenv ex_texts ex_fleet ex_fworld ex_demand_db =
       Inr ((evaluate_fleet_autoscaler_tick ex_fenv ex_texts ex_fleet ex_demand_db, Some n), d')" using ex_demand_launch by blast
  have "f_max_nodes ex_fleet = 3" by (simp add: ex_fleet_def)
  then show ?thesis using scale_out_guarded [OF ex_demand_reachable r] r by auto
qed

text \<open>C20: the autoscaler does not let the fleet outgrow its limit: after a tick there are at most as many active EC2 nodes
  as before it, or as the limit allows. During the scale-down of the tick, transactions that do not add nodes
  may intervene.\<close>

theorem fleet_size_bounded:
  assumes "fleet_reachable d" "\<forall>x. no_growth x (fw_race V x)" "run_autoscaler_loop_tick E T F V d = Inr (res, d')"
  shows "active_ec2_nodes_count d' \<le> max (active_ec2_nodes_count d) (f_max_nodes F)"
proof -
  have ok: "pks d" "rows_ok d" using fleet_reachable_ok [OF assms(1)] by (simp_all add: fleet_ok_def)
  obtain decision launched d2 where t: "run_scale_out_tick E T F V d = Inr ((decision, launched), d2)"
    using assms(3) by (auto simp: run_autoscaler_loop_tick_def split: sum.splits)
  then obtain d1 where s: "sync_provisioning_ec2_nodes E T F (fw_sync V) d = Inr ((), d1)"
      "decision = evaluate_fleet_autoscaler_tick E T F d1" "provision_one_from_fleet_decision E T F V decision d1 = Inr (launched, d2)"
    by (auto simp: run_scale_out_tick_def Let_def split: sum.splits)
  have g: "no_growth d d1" by (rule size.syncing_starting [OF ok(1) _ s(1)]) (rule ok(2))
  then have le: "active_ec2_nodes_count d1 \<le> active_ec2_nodes_count d" and k: "pks d1" "rows_ok d1"
    using ok by (simp_all add: no_growth_def keeps_def)
  show ?thesis
  proof (cases launched)
    case None
    then have "d2 = d1" using launch_adds_one [OF s(3)] by simp
    have "no_growth d1 d'"
      using assms(3) t size.scaling_in(1) [OF k(1) assms(2) [rule_format]] size.stay unfolding \<open>d2 = d1\<close>
      by (auto simp: run_autoscaler_loop_tick_def split: if_splits sum.splits)
    then show ?thesis using le k by (auto simp: no_growth_def)
  next
    case (Some n)
    then have n: "fd_action decision = SCALE_OUT_RECOMMENDED" "nodes d2 = nodes d1 @ [n]" using launch_adds_one [OF s(3)] by simp_all
    then have "d' = d2" using assms(3) t by (auto simp: run_autoscaler_loop_tick_def)
    then have "active_ec2_nodes_count d' \<le> active_ec2_nodes_count d1 + 1"
      using n(2) by (simp add: active_ec2_nodes_count_def count_rows_def)
    then show ?thesis using scale_out_conditions(5) n(1) unfolding s(2) by fastforce
  qed
qed


theorem fleet_size_bounded_witness:
  "\<exists>res d'. run_autoscaler_loop_tick ex_fenv ex_texts ex_fleet ex_fworld ex_demand_db = Inr (res, d') \<and> active_ec2_nodes_count d' \<le> 3"
proof -
  obtain n d' where r: "run_scale_out_tick ex_fenv ex_texts ex_fleet ex_fworld ex_demand_db =
       Inr ((evaluate_fleet_autoscaler_tick ex_fenv ex_texts ex_fleet ex_demand_db, Some n), d')" using ex_demand_launch by blast
  then obtain res where t: "run_autoscaler_loop_tick ex_fenv ex_texts ex_fleet ex_fworld ex_demand_db = Inr (res, d')"
    using ex_demand_action by (simp add: run_autoscaler_loop_tick_def)
  have "\<forall>x. no_growth x (fw_race ex_fworld x)" by (simp add: ex_fworld_def size.stay)
  from fleet_size_bounded [OF ex_demand_reachable this t] t show ?thesis
    by (intro exI [of _ res] exI [of _ d'])
      (simp add: active_ec2_nodes_count_def count_rows_def ex_demand_db_def ex_fleet_db_def ex_fleet_def)
qed


section \<open>Scaling in\<close>

text \<open>No workspace that is not deleted refers to the node, by its row or by its runtime.\<close>

definition unused :: "db \<Rightarrow> node \<Rightarrow> bool" where
  "unused d n \<longleftrightarrow> (\<forall>w\<in>set (workspaces d). ws_status w = WS_DELETED \<or>
     (ws_execution_node_id w \<noteq> Some (node_pk n) \<and>
      (\<forall>r\<in>set (runtimes d). rt_workspace_id r = ws_id w \<longrightarrow> rt_node_id r \<noteq> Some (node_key n))))"

lemma joined_nodes_ne: "joined_nodes d k \<noteq> []"
  by (auto simp: joined_nodes_def split: list.split)

lemma joined_nodes_rt: "r \<in> set (runtimes d) \<Longrightarrow> rt_workspace_id r = k \<Longrightarrow> rt_node_id r \<in> set (joined_nodes d k)"
proof -
  assume r: "r \<in> set (runtimes d)" "rt_workspace_id r = k"
  define rs where "rs = filter (\<lambda>r. rt_workspace_id r = k) (runtimes d)"
  have "r \<in> set rs" using r by (simp add: rs_def)
  then show ?thesis unfolding joined_nodes_def rs_def [symmetric] by (cases rs) auto
qed

lemma joined_nodes_in:
  assumes "Some key \<in> set (joined_nodes d k)"
  shows "\<exists>r\<in>set (runtimes d). rt_workspace_id r = k \<and> rt_node_id r = Some key"
proof -
  define rs where "rs = filter (\<lambda>r. rt_workspace_id r = k) (runtimes d)"
  have "\<exists>r\<in>set rs. rt_node_id r = Some key" using assms unfolding joined_nodes_def rs_def [symmetric] by (cases rs) auto
  then show ?thesis by (auto simp: rs_def)
qed

lemma sum_list_zero: "(\<And>x. 0 \<le> (f x :: int)) \<Longrightarrow> sum_list (map f xs) = 0 \<longleftrightarrow> (\<forall>x\<in>set xs. f x = 0)"
proof -
  assume f: "\<And>x. 0 \<le> f x"
  have "0 \<le> sum_list (map f ys)" for ys using f by (induction ys) (auto simp: add_nonneg_nonneg)
  then show ?thesis using f by (induction xs) (auto simp: add_nonneg_eq_0_iff)
qed

lemma count_zero_unused:
  assumes "node_key n \<noteq> []" "py_strip (node_key n) = node_key n"
  shows "active_workspace_count_for_scale_down d n = 0 \<longleftrightarrow> unused d n"
proof -
  have "count_rows (\<lambda>nid. ws_status w \<noteq> WS_DELETED \<and> (ws_execution_node_id w = Some (node_pk n) \<or> nid = Some (node_key n)))
      (joined_nodes d (ws_id w)) = 0 \<longleftrightarrow>
    ws_status w = WS_DELETED \<or> (ws_execution_node_id w \<noteq> Some (node_pk n) \<and>
      (\<forall>r\<in>set (runtimes d). rt_workspace_id r = ws_id w \<longrightarrow> rt_node_id r \<noteq> Some (node_key n)))" for w :: workspace
    using joined_nodes_ne [of d "ws_id w"] joined_nodes_rt [of _ d "ws_id w"] joined_nodes_in [of "node_key n" d "ws_id w"]
    unfolding count_rows_zero by (metis list.set_sel(1))
  then show ?thesis using assms
    by (simp add: active_workspace_count_for_scale_down_def sum_list_zero unused_def)
qed


lemma scale_down_target_cases:
  assumes "scale_down_target E F decision d = Some (nk, iid)"
  obtains n where "fd_action decision = SCALE_IN_RECOMMENDED" "f_enabled F" "f_min_nodes F < active_ec2_nodes_count d"
    "\<not> within_cooldown E (latest_ec2_scale_in_at (nodes d)) (f_scale_in_cooldown_seconds F)"
    "find_node_by_key d nk = Some n" "ready_ec2 n" "unused d n" "nk \<noteq> []" "py_strip nk = nk" "node_key n = nk"
proof -
  obtain raw where raw: "sd_node_key (fd_scale_down decision) = Some raw" "nk = py_strip raw"
    using assms by (auto simp: scale_down_target_def Let_def split: option.splits if_splits)
  obtain n where n: "find_node_by_key d nk = Some n"
    using assms raw by (auto simp: scale_down_target_def Let_def split: option.splits if_splits)
  have c: "fd_action decision = SCALE_IN_RECOMMENDED" "f_enabled F" "f_min_nodes F < active_ec2_nodes_count d"
    "\<not> within_cooldown E (latest_ec2_scale_in_at (nodes d)) (f_scale_in_cooldown_seconds F)" "ready_ec2 n" "nk \<noteq> []"
    "active_workspace_count_for_scale_down d n = 0"
    using assms raw n by (auto simp: scale_down_target_def Let_def split: if_splits)
  have "node_key n = nk" using find_node_by_key_in [OF n] by simp
  then show thesis using that [OF c(1-4) n c(5)] c(6,7) raw(2) count_zero_unused [of n d] by simp
qed

lemma terminate_result:
  assumes "terminate_ec2_node E F W i k d = Inr (r, d')"
  obtains n where "lookup_node d i k = Inr (n, d)" "node_pk r = node_pk n" "d' = d \<or> d' = put_node r d"
    "node_status r = NS_TERMINATED \<or> (node_status r = NS_TERMINATING \<and> \<not> node_schedulable r)"
proof -
  obtain n where n: "n \<in> set (nodes d)" "lookup_node d i k = Inr (n, d)"
    using assms unfolding terminate_ec2_node_def by (rule with_node_result)
  show thesis
    by (rule that [OF n(2)]; use assms n in \<open>auto simp: terminate_ec2_node_def with_node_def save_def Let_def terminate_outcome_def
        split: option.splits if_splits aws_answer.splits\<close>)
qed

text \<open>C19: the autoscaler terminates a node only if nobody needs it. When a scale-down gives a terminated node back, the decision
  was to scale in, the autoscaler was enabled, the fleet was above its minimum and out of the cooldown, and the
  node was a ready EC2 node to which no workspace that is not deleted referred, by its row or by its runtime, both
  before the drain was committed and after it, whatever other transactions did in between. No other node changes.\<close>

theorem scale_in_spares_busy_nodes:
  assumes "execute_scale_down E F V decision d = Inr (Some out, d')"
  shows "fd_action decision = SCALE_IN_RECOMMENDED \<and> f_enabled F \<and> f_min_nodes F < active_ec2_nodes_count d \<and>
    \<not> within_cooldown E (latest_ec2_scale_in_at (nodes d)) (f_scale_in_cooldown_seconds F) \<and>
    (\<exists>n drained d1 m. find_node_by_key d (node_key n) = Some n \<and> ready_ec2 n \<and> unused d n \<and>
      mark_node_draining E None (Some (node_key n)) d = Inr (drained, d1) \<and>
      find_node_by_key (fw_race V d1) (node_key n) = Some m \<and> unused (fw_race V d1) m \<and> node_pk out = node_pk m \<and>
      (node_status out = NS_TERMINATED \<or> (node_status out = NS_TERMINATING \<and> \<not> node_schedulable out)) \<and>
      (\<forall>k. k \<noteq> node_pk m \<longrightarrow> get_node d' k = get_node (fw_race V d1) k))"
proof -
  obtain nk iid where t: "scale_down_target E F decision d = Some (nk, iid)"
    using assms by (auto simp: execute_scale_down_def split: option.splits)
  from t obtain n where n: "fd_action decision = SCALE_IN_RECOMMENDED" "f_enabled F" "f_min_nodes F < active_ec2_nodes_count d"
    "\<not> within_cooldown E (latest_ec2_scale_in_at (nodes d)) (f_scale_in_cooldown_seconds F)"
    "find_node_by_key d nk = Some n" "ready_ec2 n" "unused d n" "nk \<noteq> []" "py_strip nk = nk" "node_key n = nk"
    by (rule scale_down_target_cases)
  obtain drained d1 where dr: "mark_node_draining E None (Some nk) d = Inr (drained, d1)"
    using assms t by (auto simp: execute_scale_down_def split: sum.splits)
  obtain m where m: "find_node_by_key (fw_race V d1) nk = Some m"
    using assms t dr by (auto simp: execute_scale_down_def Let_def split: option.splits)
  have "active_workspace_count_for_scale_down (fw_race V d1) m = 0"
      and kill: "terminate_ec2_node E F (fw_aws V) None (Some nk) (fw_race V d1) = Inr (out, d')"
    using assms t dr m by (auto simp: execute_scale_down_def Let_def split: if_splits sum.splits)
  then have "unused (fw_race V d1) m"
    using count_zero_unused [of m "fw_race V d1"] n(8,9) find_node_by_key_in [OF m] by simp
  from kill obtain q where q: "lookup_node (fw_race V d1) None (Some nk) = Inr (q, fw_race V d1)" "node_pk out = node_pk q"
    "d' = fw_race V d1 \<or> d' = put_node out (fw_race V d1)"
    "node_status out = NS_TERMINATED \<or> (node_status out = NS_TERMINATING \<and> \<not> node_schedulable out)"
    by (rule terminate_result)
  have "q = m" using q(1) m n(8,9) by (simp add: lookup_node_def strip_or_none_def none_if_empty_def str_or_empty_def)
  have others: "\<forall>k. k \<noteq> node_pk m \<longrightarrow> get_node d' k = get_node (fw_race V d1) k"
    using q(2,3) \<open>q = m\<close> by (auto simp: get_node_def row_find_put)
  show ?thesis
    using n(1-4) n(5-7) [folded n(10)] dr [folded n(10)] m [folded n(10)] \<open>unused (fw_race V d1) m\<close> q(2,4) \<open>q = m\<close> others by blast
qed

text \<open>A fleet of one idle node, and one in which a workspace row still claims the first of two nodes.\<close>

definition ex_idle_decision :: fleet_decision where
  "ex_idle_decision = (evaluate_fleet_autoscaler_tick ex_fenv ex_texts ex_fleet (ex_fleet_db []))
     \<lparr>fd_action := SCALE_IN_RECOMMENDED, fd_scale_down := \<lparr>sd_node_key = Some ''n1'', sd_idle_ec2_ready_nodes = 1, sd_min_before_reclaim = 0\<rparr>\<rparr>"

lemma ex_n1 [simp]: "py_strip ''n1'' = ''n1''" "strip_or_none (Some ''n1'') = Some ''n1''"
  by (simp_all add: strip_or_none_def none_if_empty_def str_or_empty_def py_strip_def py_space_def)

lemma ex_ec2_node_fields [simp]:
  "node_key ex_ec2_node = ''n1''" "node_pk ex_ec2_node = 1" "node_provider_type ex_ec2_node = PT_EC2"
  "node_status ex_ec2_node = NS_READY" "node_schedulable ex_ec2_node" "instance_of ex_ec2_node = ex_iid"
  "node_provider_instance_id ex_ec2_node = Some ex_iid" "node_execution_mode ex_ec2_node = EM_SSM_DOCKER"
  "node_default_topology_id ex_ec2_node = Some 1" "node_created_at ex_ec2_node = 0" "node_metadata ex_ec2_node = []"
  by (simp_all add: ex_ec2_node_def blank_node_def instance_of_def str_or_empty_def)

lemma ex_idle_target: "scale_down_target ex_fenv ex_fleet ex_idle_decision (ex_fleet_db [ex_ec2_node]) = Some (''n1'', ex_iid)"
  by (simp add: scale_down_target_def ex_idle_decision_def ex_fleet_db_def Let_def active_ec2_nodes_count_def count_rows_def active_ec2_def
      active_ec2_status_def within_cooldown_def latest_ec2_scale_in_at_def max_list_opt_def find_node_by_key_def ready_ec2_def
      active_workspace_count_for_scale_down_def, simp add: ex_fleet_def)

lemma ex_idle_terminated:
  "\<exists>out d'. execute_scale_down ex_fenv ex_fleet ex_fworld ex_idle_decision (ex_fleet_db [ex_ec2_node]) = Inr (Some out, d')"
  unfolding execute_scale_down_def ex_idle_target
  by (simp add: mark_node_draining_def with_node_def lookup_node_def find_node_by_key_def ex_fleet_db_def save_def
      ex_fworld_def row_put_def Let_def active_workspace_count_for_scale_down_def terminate_ec2_node_def assert_ec2_node_def,
      simp add: instance_of_def str_or_empty_def)

theorem scale_in_spares_busy_nodes_witness:
  "\<exists>out d'. execute_scale_down ex_fenv ex_fleet ex_fworld ex_idle_decision (ex_fleet_db [ex_ec2_node]) = Inr (Some out, d') \<and>
     unused (ex_fleet_db [ex_ec2_node]) ex_ec2_node \<and> (node_status out = NS_TERMINATED \<or> node_status out = NS_TERMINATING)"
proof -
  obtain out d' where r: "execute_scale_down ex_fenv ex_fleet ex_fworld ex_idle_decision (ex_fleet_db [ex_ec2_node]) = Inr (Some out, d')"
    using ex_idle_terminated by blast
  have "unused (ex_fleet_db [ex_ec2_node]) ex_ec2_node" by (simp add: unused_def ex_fleet_db_def)
  with scale_in_spares_busy_nodes [OF r] r show ?thesis by blast
qed

text \<open>A node that is idle by its runtimes but claimed by a workspace row is proposed for termination and then passed
  over: the reclaiming tick changes nothing, so every later tick proposes the same node again and no idle node of
  the fleet is reclaimed, for as long as the claim lasts.\<close>

theorem claimed_node_blocks_scale_in:
  assumes "sd_node_key (evaluate_scale_down E F d) = Some nk" "find_node_by_key d nk = Some n"
    "active_workspace_count_for_scale_down d n \<noteq> 0" "py_strip nk = nk"
  shows "run_autoscaler_scale_down_tick E T F V d = Inr (None, d)"
proof -
  have "fd_scale_down (evaluate_fleet_autoscaler_tick E T F d) = evaluate_scale_down E F d"
    by (simp add: evaluate_fleet_autoscaler_tick_def Let_def)
  then have "scale_down_target E F (evaluate_fleet_autoscaler_tick E T F d) d = None"
    using assms by (auto simp: scale_down_target_def Let_def)
  then show ?thesis by (simp add: run_autoscaler_scale_down_tick_def reclaim_one_idle_ec2_node_def Let_def execute_scale_down_def)
qed


definition ex_big_node :: node where
  "ex_big_node = ex_ec2_node\<lparr>node_pk := 2, node_key := ''n2'', node_total_cpu := 8, node_allocatable_cpu := 8\<rparr>"

definition ex_claimed_db :: db where
  "ex_claimed_db = (ex_fleet_db [ex_ec2_node, ex_big_node])
     \<lparr>workspaces := [ex_ws\<lparr>ws_status := WS_CREATING, ws_execution_node_id := Some 1\<rparr>]\<rparr>"

lemma ex_claimed_pick: "sd_node_key (evaluate_scale_down ex_fenv ex_fleet ex_claimed_db) = Some ''n1''"
proof -
  have e: "nodes ex_claimed_db = [ex_ec2_node, ex_big_node]" "runtimes ex_claimed_db = []"
    by (simp_all add: ex_claimed_db_def ex_fleet_db_def)
  have b: "node_key ex_big_node = ''n2''" "ready_ec2 ex_big_node" "ready_ec2 ex_ec2_node" "node_created_at ex_big_node = 0"
      "node_allocatable_cpu ex_big_node = 8" "node_allocatable_cpu ex_ec2_node = 4"
    by (simp_all add: ex_big_node_def ready_ec2_def) (simp add: ex_ec2_node_def blank_node_def)
  have f: "f_min_ec2_before_reclaim ex_fleet = 0" "f_scale_down_idle_seconds ex_fleet = 0" "0 \<le> now ex_fenv"
    by (simp_all add: ex_fleet_def ex_fenv_def ex_env_def)
  have w: "workload_count_on_node ex_claimed_db k = 0" for k by (simp add: workload_count_on_node_def e Let_def count_rows_def)
  have c: "set (scale_down_candidates ex_fenv ex_fleet ex_claimed_db) = {ex_ec2_node, ex_big_node}"
    using f(3) by (auto simp: scale_down_candidates_def e b w f(2) seconds_def)
  let ?k = "\<lambda>n. (node_allocatable_cpu n, node_allocatable_memory_mb n, node_key n)"
  have "sort_key ?k (scale_down_candidates ex_fenv ex_fleet ex_claimed_db) \<noteq> []"
    using c by (metis empty_iff empty_set insert_iff set_sort)
  then obtain n ns where s: "sort_key ?k (scale_down_candidates ex_fenv ex_fleet ex_claimed_db) = n # ns"
    by (cases "sort_key ?k (scale_down_candidates ex_fenv ex_fleet ex_claimed_db)") auto
  have "sorted (map ?k (n # ns))" using s by (metis sorted_sort_key)
  moreover have m: "set (n # ns) = {ex_ec2_node, ex_big_node}" using s c by (metis set_sort)
  then have "ex_ec2_node \<in> set (n # ns)" by blast
  ultimately have "?k n \<le> ?k ex_ec2_node" by (metis (no_types, lifting) order_refl set_ConsD sorted_simps(2) list.simps(9) image_eqI list.set_map)
  then have "node_allocatable_cpu n \<le> node_allocatable_cpu ex_ec2_node" by (simp only: less_eq_prod_def fst_conv snd_conv) linarith
  moreover have "n = ex_ec2_node \<or> n = ex_big_node" using m by (metis insertCI insertE list.simps(15) singletonD)
  ultimately have "n = ex_ec2_node" using b(5,6) by auto
  then show ?thesis using s by (simp add: evaluate_scale_down_def f count_all_ready_schedulable_ec2_def count_rows_def Let_def)
qed

theorem claimed_node_blocks_scale_in_witness:
  "run_autoscaler_scale_down_tick ex_fenv ex_texts ex_fleet ex_fworld ex_claimed_db = Inr (None, ex_claimed_db) \<and>
   ready_ec2 ex_big_node \<and> unused ex_claimed_db ex_big_node \<and> ex_big_node \<in> set (scale_down_candidates ex_fenv ex_fleet ex_claimed_db)"
proof (intro conjI)
  have f: "find_node_by_key ex_claimed_db ''n1'' = Some ex_ec2_node" by (simp add: find_node_by_key_def ex_claimed_db_def ex_fleet_db_def)
  have a: "active_workspace_count_for_scale_down ex_claimed_db ex_ec2_node \<noteq> 0"
    by (simp add: active_workspace_count_for_scale_down_def Let_def ex_claimed_db_def ex_fleet_db_def joined_nodes_def count_rows_def ex_ws_def)
  show "run_autoscaler_scale_down_tick ex_fenv ex_texts ex_fleet ex_fworld ex_claimed_db = Inr (None, ex_claimed_db)"
    by (rule claimed_node_blocks_scale_in [OF ex_claimed_pick f a ex_n1(1)])
  show "ready_ec2 ex_big_node" by (simp add: ex_big_node_def ready_ec2_def)
  show "unused ex_claimed_db ex_big_node" by (simp add: unused_def ex_claimed_db_def ex_fleet_db_def ex_big_node_def)
  show "ex_big_node \<in> set (scale_down_candidates ex_fenv ex_fleet ex_claimed_db)"
    by (simp add: scale_down_candidates_def ex_claimed_db_def ex_fleet_db_def ready_ec2_def ex_big_node_def workload_count_on_node_def Let_def
        count_rows_def ex_fenv_def ex_env_def ex_fleet_def seconds_def)
qed

end
