(* ===== verification/Readiness_Correct.thy ===== *)
theory Readiness_Correct
  imports Scaling_Correct
begin

text \<open>
  How a node is admitted to scheduling: the gate of a node that is being provisioned, the synchronisation that
  re-admits a node without it, and draining.
\<close>

section \<open>A registered row\<close>

lemma refreshed_fields:
  assumes "refreshed E desc co q d = (r, d')" "n \<in> set (nodes d)" "node_pk q = node_pk n"
  shows "get_node d' (node_pk n) = Some r" "node_status r = node_status q" "node_schedulable r = node_schedulable q"
    "node_provider_type r = node_provider_type q" "node_provider_instance_id r = node_provider_instance_id q"
    "node_execution_mode r = node_execution_mode q" "node_default_topology_id r \<noteq> None" "node_region r = node_region q"
    "k \<noteq> ''ec2'' \<Longrightarrow> map_of (node_metadata r) k = map_of (node_metadata q) k" "j \<noteq> node_pk n \<Longrightarrow> get_node d' j = get_node d j"
proof -
  have "get_node d (node_pk n) \<noteq> None" using assms(2) by (auto simp: get_node_def row_find_None)
  then show "get_node d' (node_pk n) = Some r" "node_status r = node_status q" "node_schedulable r = node_schedulable q"
    "node_provider_type r = node_provider_type q" "node_provider_instance_id r = node_provider_instance_id q"
    "node_execution_mode r = node_execution_mode q" "node_default_topology_id r \<noteq> None" "node_region r = node_region q"
    "k \<noteq> ''ec2'' \<Longrightarrow> map_of (node_metadata r) k = map_of (node_metadata q) k" "j \<noteq> node_pk n \<Longrightarrow> get_node d' j = get_node d j"
    using assms(1,3)
    by (auto simp: refreshed_def ensure_execution_node_default_topology_def Let_def stamp_row_def get_node_def row_find_put map_of_jset
        split: option.splits)
qed

lemma refresh_row_region:
  "node_region (refresh_row E key desc mode user c co row) = Some (ed_region desc)"
  by (simp add: refresh_row_def Let_def split_beta)

text \<open>The row of the given instance, as a successful registration leaves it.\<close>

definition synced :: "env \<Rightarrow> fleet \<Rightarrow> aws \<Rightarrow> ec2_description \<Rightarrow> string option \<Rightarrow> node \<Rightarrow> node \<Rightarrow> bool" where
  "synced E F W desc mode n r \<longleftrightarrow>
     (node_status r, node_schedulable r) = compute_status_schedulable_after_ec2_sync (Some (node_status n)) (ed_state desc) \<and>
     node_provider_type r = PT_EC2 \<and> node_provider_instance_id r = Some (ed_instance_id desc) \<and> node_region r = Some (ed_region desc) \<and>
     node_execution_mode r = resolve_execution_mode F mode \<and> node_default_topology_id r \<noteq> None \<and> node_pk r = node_pk n \<and>
     map_of (node_metadata r) ''catalog_ec2_stub'' = map_of (node_metadata n) ''catalog_ec2_stub''"

lemma register_known:
  assumes "find_node_by_instance d iid = Some n" "valid_instance_id iid" "py_strip iid = iid"
    "describe_ec2_instance F W m iid = Inr desc" "\<not> node_key_taken d (node_pk n) (register_key iid key)"
  obtains r d1 where "register_ec2_instance E F W m iid key user mode False d = Inr (r, d1)"
    "get_node d1 (node_pk n) = Some r" "synced E F W desc mode n r"
proof -
  let ?q = "refresh_row E (register_key iid key) desc (resolve_execution_mode F mode) (resolve_ssh_user F user)
        (ec2_instance_type_capacity W (ed_instance_type desc)) False n"
  obtain r d1 where r: "refreshed E desc False ?q d = (r, d1)" by (metis surj_pair)
  have n: "n \<in> set (nodes d)" using find_node_by_instance_in [OF assms(1)] by simp
  have "register_ec2_instance E F W m iid key user mode False d = Inr (r, d1)"
    using assms r by (auto simp: register_ec2_instance_def require_instance_id_def register_target_def refreshed_def Let_def split_beta
        simp flip: register_key_def)
  moreover have "get_node d1 (node_pk n) = Some r" using refreshed_fields(1) [OF r n] by (simp add: refresh_row_fields)
  moreover have "node_pk r = node_pk n" using get_node_in [OF \<open>get_node d1 (node_pk n) = Some r\<close>] by simp
  then have "synced E F W desc mode n r"
    using refreshed_fields(2-8) [OF r n] refreshed_fields(9) [OF r n, of "''catalog_ec2_stub''"]
    by (simp add: synced_def refresh_row_fields refresh_row_region)
  ultimately show thesis by (rule that)
qed

lemma lookup_pk: "get_node d k = Some n \<Longrightarrow> lookup_node d (Some k) None = Inr (n, d)"
  by (simp add: lookup_node_def)

text \<open>Synchronising a node that its instance id identifies, up to the gate.\<close>

lemma sync_known:
  assumes "lookup_node d i k = Inr (n, d)" "node_provider_type n = PT_EC2" "node_provider_instance_id n = Some iid"
    "find_node_by_instance d iid = Some n" "valid_instance_id iid" "py_strip iid = iid"
    "describe_ec2_instance F W 0 iid = Inr desc" "\<not> node_key_taken d (node_pk n) (register_key iid (Some (node_key n)))"
  obtains r d1 where "synced E F W desc (Some (exec_mode_str (node_execution_mode n))) n r" "get_node d1 (node_pk n) = Some r"
    "sync_node_state E F W scr i k promote d =
    (if \<not> promote \<or> \<not> promotable (node_status n) then Inr (r, d1)
     else case describe_ec2_instance F W 1 iid of Inl _ \<Rightarrow> Inr (r, d1)
       | Inr desc' \<Rightarrow> if ed_state desc' \<noteq> ''running'' then Inr (r, d1)
           else case promote_ec2_node_if_heartbeat_ready E F W scr (Some (ed_state desc')) ''ec2_running_heartbeat''
                  (hold_back (node_status n) r) d1 of (ok, row2, d2) \<Rightarrow> if ok then Inr (row2, d2) else save row2 d2)"
proof -
  have iid: "instance_of n = iid" "iid \<noteq> []" using assms(3,5,6) by (auto simp: instance_of_def str_or_empty_def valid_instance_id_def)
  obtain r d1 where r: "register_ec2_instance E F W 0 iid (Some (node_key n)) (node_ssh_user n)
      (Some (exec_mode_str (node_execution_mode n))) False d = Inr (r, d1)" "get_node d1 (node_pk n) = Some r"
      "synced E F W desc (Some (exec_mode_str (node_execution_mode n))) n r"
    using assms(4-8) by (rule register_known)
  show thesis
    by (rule that [OF r(3,2)], unfold sync_node_state_def with_node_def Let_def)
      (use assms(1,2) iid r(1,2) in \<open>simp add: assert_ec2_node_def split: sum.split\<close>)
qed

text \<open>Synchronising re-admits a node without the gate. A node that is READY but was taken out of scheduling (as a
  catalog entry, or because its host ran short of disk or memory) and a NOT_READY node whose second description
  fails are READY and schedulable afterwards, as soon as EC2 reports their instance as running; no readiness check
  runs for them.\<close>

theorem sync_readmits_without_gate:
  assumes "get_node d k = Some n" "node_provider_type n = PT_EC2" "node_provider_instance_id n = Some iid"
    "find_node_by_instance d iid = Some n" "valid_instance_id iid" "py_strip iid = iid"
    "describe_ec2_instance F W 0 iid = Inr desc" "ed_state desc = ''running''"
    "\<not> node_key_taken d k (register_key iid (Some (node_key n)))"
    "node_status n = NS_READY \<or> (node_status n = NS_NOT_READY \<and> describe_ec2_instance F W 1 iid = Inl e)"
  shows "\<exists>r d'. sync_node_state E F W scr (Some k) None True d = Inr (r, d') \<and> get_node d' k = Some r \<and>
    node_status r = NS_READY \<and> node_schedulable r"
proof -
  have k: "node_pk n = k" using get_node_in [OF assms(1)] by simp
  obtain r d1 where r: "synced E F W desc (Some (exec_mode_str (node_execution_mode n))) n r" "get_node d1 (node_pk n) = Some r"
    "sync_node_state E F W scr (Some k) None True d =
    (if \<not> True \<or> \<not> promotable (node_status n) then Inr (r, d1)
     else case describe_ec2_instance F W 1 iid of Inl _ \<Rightarrow> Inr (r, d1)
       | Inr desc' \<Rightarrow> if ed_state desc' \<noteq> ''running'' then Inr (r, d1)
           else case promote_ec2_node_if_heartbeat_ready E F W scr (Some (ed_state desc')) ''ec2_running_heartbeat''
                  (hold_back (node_status n) r) d1 of (ok, row2, d2) \<Rightarrow> if ok then Inr (row2, d2) else save row2 d2)"
    using lookup_pk [OF assms(1)] assms(2-7) assms(9) [folded k] by (rule sync_known)
  have "sync_node_state E F W scr (Some k) None True d = Inr (r, d1)"
    using assms(10) unfolding r(3) by (auto simp: promotable_def)
  moreover have "node_status r = NS_READY \<and> node_schedulable r" using r(1) assms(8,10) by (auto simp: synced_def)
  ultimately show ?thesis using r(2) k by simp
qed


text \<open>A catalog entry on the sample instance.\<close>

definition ex_catalog_node :: node where
  "ex_catalog_node = ex_ec2_node\<lparr>node_schedulable := False, node_metadata := [(''ec2'', JObj [(''catalog_only'', JBool True)])]\<rparr>"

theorem sync_readmits_without_gate_witness:
  "\<not> node_schedulable ex_catalog_node \<and>
   (\<exists>r d'. sync_node_state ex_fenv ex_fleet ex_aws id (Some 1) None True (ex_fleet_db [ex_catalog_node]) = Inr (r, d') \<and>
      node_status r = NS_READY \<and> node_schedulable r)"
proof -
  let ?d = "ex_fleet_db [ex_catalog_node]"
  have n: "get_node ?d 1 = Some ex_catalog_node" "find_node_by_instance ?d ex_iid = Some ex_catalog_node"
      "node_provider_type ex_catalog_node = PT_EC2" "node_provider_instance_id ex_catalog_node = Some ex_iid"
      "node_status ex_catalog_node = NS_READY"
    by (simp_all add: ex_fleet_db_def get_node_def find_node_by_instance_def ex_catalog_node_def)
  have "ed_state (describe_fields (client_region ex_fleet ex_aws) ex_iid (ex_instance ex_iid)) = ''running''"
    by (simp add: describe_fields_def ex_instance_def str_or_empty_def py_strip_def py_space_def py_lower_def lower_char_def or_unknown_def)
  moreover have "\<not> node_key_taken ?d 1 key" for key by (simp add: node_key_taken_def ex_fleet_db_def ex_catalog_node_def)
  ultimately show ?thesis
    using sync_readmits_without_gate [OF n(1,3,4,2) ex_iid_tidy(3,1) ex_describe _ _ disjI1 [OF n(5)], where E = ex_fenv and F = ex_fleet and scr = id]
    by (auto simp: ex_catalog_node_def)
qed

section \<open>The gate\<close>

lemma register_status:
  assumes "register_ec2_instance E F W m raw key user mode co d = Inr (r1, d1)" "pks d" "get_node d k = Some n" "get_node d1 k = Some q"
  shows "q = n \<or> (\<exists>state. node_status q = fst (compute_status_schedulable_after_ec2_sync (Some (node_status n)) state))"
  using assms(1)
proof (cases rule: register_cases)
  case (new iid desc)
  then show ?thesis using assms(3,4) by (simp add: add_node_def bump_def get_node_def row_find_append)
next
  case (old iid desc row)
  note row = register_target_in [OF old(3)]
  show ?thesis
  proof (cases "k = node_pk row")
    case True
    then have "row = n" using in_get_node [OF assms(2) row] assms(3) by simp
    then show ?thesis using refreshed_fields(1,2) [OF old(5) [symmetric] row] assms(4) True by (auto simp: refresh_row_fields)
  next
    case False
    then show ?thesis using refreshed_fields(10) [OF old(5) [symmetric] row, of k] assms(3,4) by (simp add: refresh_row_fields)
  qed
qed

lemma promoted_needs_gate:
  assumes "promote_ec2_node_if_heartbeat_ready E F W scr st rd row d = (ok, r, d')" "node_status r = NS_READY" "node_status row \<noteq> NS_READY"
  shows "node_provider_type row = PT_EC2 \<and> map_of (node_metadata row) ''catalog_ec2_stub'' = None \<and>
    (if node_execution_mode row = EM_SSM_DOCKER then fst (run_ssm_ready_gate F W scr row) else fst (ec2_heartbeat_readiness E row st)) \<and>
    instance_of r = instance_of row \<and> node_execution_mode r = node_execution_mode row \<and>
    node_default_topology_id r = node_default_topology_id row \<and> node_last_heartbeat_at r = node_last_heartbeat_at row"
  using assms
  by (auto simp: promote_ec2_node_if_heartbeat_ready_def promoted_def ready_gate_failure_def Let_def split_beta instance_of_def
      split: if_splits prod.splits)

lemma ssm_gate_passed:
  "fst (run_ssm_ready_gate F W scr row) \<Longrightarrow> node_default_topology_id row \<noteq> None \<and>
   (\<exists>out err. aw_ssm W (instance_of row) (scr (workspace_image_for_ready_gate F)) = Inr (out, err) \<and>
      contains_str ''node.ready_gate.image_pull_success'' (out @ [CHR 0x0A] @ err) \<and>
      contains_str ''node.ready_gate.passed'' (out @ [CHR 0x0A] @ err))"
  by (auto simp: run_ssm_ready_gate_def Let_def split: if_splits sum.splits)

lemma heartbeat_gate_passed:
  "fst (ec2_heartbeat_readiness E row st) \<Longrightarrow> \<exists>hb. node_last_heartbeat_at row = Some hb \<and> hb \<le> now E \<and> now E - hb \<le> seconds (heartbeat_max_age E)"
  by (auto simp: ec2_heartbeat_readiness_def Let_def split: option.splits if_splits)

text \<open>C38: a node that is being provisioned becomes READY only through its gate. When a synchronisation turns a PROVISIONING
  node READY, EC2 reported its instance as running, and on an SSM node the gate script ran on the instance of the
  node and reported both the image pull and its end, and the node has a topology; on other nodes a fresh heartbeat
  had arrived.\<close>

theorem provisioning_node_needs_gate:
  assumes "pks d" "lookup_node d i k = Inr (n, d)" "node_status n = NS_PROVISIONING"
    "sync_node_state E F W scr i k promote d = Inr (r, d')" "node_status r = NS_READY"
  shows "(\<exists>desc. describe_ec2_instance F W 1 (instance_of n) = Inr desc \<and> ed_state desc = ''running'') \<and>
    (if node_execution_mode r = EM_SSM_DOCKER
     then node_default_topology_id r \<noteq> None \<and>
       (\<exists>out err. aw_ssm W (instance_of r) (scr (workspace_image_for_ready_gate F)) = Inr (out, err) \<and>
          contains_str ''node.ready_gate.image_pull_success'' (out @ [CHR 0x0A] @ err) \<and>
          contains_str ''node.ready_gate.passed'' (out @ [CHR 0x0A] @ err))
     else (\<exists>hb. node_last_heartbeat_at r = Some hb \<and> hb \<le> now E \<and> now E - hb \<le> seconds (heartbeat_max_age E)))"
  using assms(4)
proof (cases rule: sync_cases)
  case (1 row0 r1 d1 row)
  have n: "row0 = n" using 1(2) assms(2) by simp
  have row: "node_status row \<noteq> NS_READY"
  proof (cases "get_node d1 (node_pk n)")
    case None
    then show ?thesis using 1(5) n assms(3) by simp
  next
    case (Some q)
    have "get_node d (node_pk n) = Some n" using in_get_node [OF assms(1)] 1(1) n by simp
    from register_status [OF 1(4) assms(1) this Some] show ?thesis using 1(5) n assms(3) Some by (auto split: if_splits)
  qed
  then obtain desc ok d2 where p: "describe_ec2_instance F W 1 (instance_of n) = Inr desc" "ed_state desc = ''running''"
      "promote_ec2_node_if_heartbeat_ready E F W scr (Some (ed_state desc)) ''ec2_running_heartbeat'' row d1 = (ok, r, d2)"
    using 1(6) assms(5) n by (auto simp: hold_back_def)
  note g = promoted_needs_gate [OF p(3) assms(5) row]
  show ?thesis using p(1,2) g ssm_gate_passed [of F W scr row] heartbeat_gate_passed [of E row] by (auto split: if_splits)
qed


lemma described_instance: "describe_ec2_instance F W m raw = Inr desc \<Longrightarrow> ed_instance_id desc = py_strip raw"
  by (auto simp: describe_ec2_instance_def require_instance_id_def describe_fields_def Let_def
      split: if_splits sum.splits aws_answer.splits list.splits)

lemma resolve_ssm [simp]: "resolve_execution_mode F (Some ''ssm_docker'') = EM_SSM_DOCKER"
  by (simp add: resolve_execution_mode_def Let_def py_strip_def py_space_def py_lower_def lower_char_def)

text \<open>AWS lets a node pass: its instance runs and the gate script reports success.\<close>

definition passes :: "fleet \<Rightarrow> aws \<Rightarrow> (string \<Rightarrow> string) \<Rightarrow> string \<Rightarrow> bool" where
  "passes F W scr iid \<longleftrightarrow>
     (\<exists>desc desc' out err. describe_ec2_instance F W 0 iid = Inr desc \<and> ed_state desc = ''running'' \<and> py_strip (ed_region desc) \<noteq> [] \<and>
        describe_ec2_instance F W 1 iid = Inr desc' \<and> ed_state desc' = ''running'' \<and>
        aw_ssm W iid (scr (workspace_image_for_ready_gate F)) = Inr (out, err) \<and>
        contains_str ''node.ready_gate.image_pull_success'' (out @ [CHR 0x0A] @ err) \<and>
        contains_str ''node.ready_gate.passed'' (out @ [CHR 0x0A] @ err))"

lemma sync_promotes:
  assumes "lookup_node d i k = Inr (n, d)" "node_provider_type n = PT_EC2" "node_provider_instance_id n = Some iid"
    "find_node_by_instance d iid = Some n" "valid_instance_id iid" "py_strip iid = iid"
    "\<not> node_key_taken d (node_pk n) (register_key iid (Some (node_key n)))" "node_status n = NS_PROVISIONING"
    "node_execution_mode n = EM_SSM_DOCKER" "map_of (node_metadata n) ''catalog_ec2_stub'' = None" "passes F W scr iid"
  shows "\<exists>r d'. sync_node_state E F W scr i k True d = Inr (r, d') \<and> node_pk r = node_pk n \<and> node_status r = NS_READY \<and> node_schedulable r"
proof -
  obtain desc desc' out err where p: "describe_ec2_instance F W 0 iid = Inr desc" "ed_state desc = ''running''" "py_strip (ed_region desc) \<noteq> []"
      "describe_ec2_instance F W 1 iid = Inr desc'" "ed_state desc' = ''running''"
      "aw_ssm W iid (scr (workspace_image_for_ready_gate F)) = Inr (out, err)"
      "contains_str ''node.ready_gate.image_pull_success'' (out @ [CHR 0x0A] @ err)"
      "contains_str ''node.ready_gate.passed'' (out @ [CHR 0x0A] @ err)"
    using assms(11) unfolding passes_def by blast
  obtain r d1 where r: "synced E F W desc (Some (exec_mode_str (node_execution_mode n))) n r" "get_node d1 (node_pk n) = Some r"
    "sync_node_state E F W scr i k True d =
    (if \<not> True \<or> \<not> promotable (node_status n) then Inr (r, d1)
     else case describe_ec2_instance F W 1 iid of Inl _ \<Rightarrow> Inr (r, d1)
       | Inr desc' \<Rightarrow> if ed_state desc' \<noteq> ''running'' then Inr (r, d1)
           else case promote_ec2_node_if_heartbeat_ready E F W scr (Some (ed_state desc')) ''ec2_running_heartbeat''
                  (hold_back (node_status n) r) d1 of (ok, row2, d2) \<Rightarrow> if ok then Inr (row2, d2) else save row2 d2)"
    using assms(1-6) p(1) assms(7) by (rule sync_known)
  have s: "node_status r = NS_PROVISIONING" "node_provider_type r = PT_EC2" "instance_of r = iid" "node_execution_mode r = EM_SSM_DOCKER"
      "node_default_topology_id r \<noteq> None" "map_of (node_metadata r) ''catalog_ec2_stub'' = None" "node_region r = Some (ed_region desc)"
      "node_pk r = node_pk n"
    using r(1) assms(6,8-10) p(2) described_instance [OF p(1)] by (auto simp: synced_def instance_of_def str_or_empty_def)
  obtain c cs where reg: "ed_region desc = c # cs" using p(3) by (cases "ed_region desc") (auto simp: py_strip_def)
  have "run_ssm_ready_gate F W scr r = (True, ''ready_gate_passed'')"
    using s p(3,6-8) assms(5) by (auto simp: run_ssm_ready_gate_def Let_def reg valid_instance_id_def)
  then have "promote_ec2_node_if_heartbeat_ready E F W scr st rd r d1 = (True, promoted E ''ssm_ready_gate'' None r, put_node (promoted E ''ssm_ready_gate'' None r) d1)"
    for st rd using s by (simp add: promote_ec2_node_if_heartbeat_ready_def promotable_def Let_def)
  then show ?thesis using r(3) assms(8) p(4,5) s(1,8) by (simp add: promotable_def hold_back_def promoted_def)
qed

definition ex_passing_aws :: aws where
  "ex_passing_aws = ex_aws\<lparr>aw_ssm := (\<lambda>_ _. Inr (''node.ready_gate.image_pull_success node.ready_gate.passed'', []))\<rparr>"

lemma ex_passes: "passes ex_fleet ex_passing_aws scr ex_iid"
proof -
  have "describe_ec2_instance ex_fleet ex_passing_aws m ex_iid = Inr (describe_fields ''eu'' ex_iid (ex_instance ex_iid))" for m
    by (simp add: describe_ec2_instance_def require_instance_id_def ex_passing_aws_def ex_aws_def Let_def client_region_def)
  moreover have "ed_state (describe_fields ''eu'' ex_iid (ex_instance ex_iid)) = ''running''"
    by (simp add: describe_fields_def ex_instance_def str_or_empty_def py_strip_def py_space_def py_lower_def lower_char_def or_unknown_def)
  moreover have "py_strip (ed_region (describe_fields ''eu'' ex_iid (ex_instance ex_iid))) \<noteq> []"
    by (simp add: describe_fields_def py_strip_def py_space_def)
  ultimately show ?thesis by (simp add: passes_def) (simp add: ex_passing_aws_def starts_with_def)
qed

definition ex_starting_node :: node where
  "ex_starting_node = ex_ec2_node\<lparr>node_status := NS_PROVISIONING, node_schedulable := False\<rparr>"

theorem provisioning_node_needs_gate_witness:
  "\<exists>r d' out. sync_node_state ex_fenv ex_fleet ex_passing_aws id (Some 1) None True (ex_fleet_db [ex_starting_node]) = Inr (r, d') \<and>
     node_status r = NS_READY \<and> aw_ssm ex_passing_aws (instance_of r) (workspace_image_for_ready_gate ex_fleet) = Inr out"
proof -
  let ?d = "ex_fleet_db [ex_starting_node]"
  have l: "lookup_node ?d (Some 1) None = Inr (ex_starting_node, ?d)"
    by (simp add: lookup_node_def get_node_def ex_fleet_db_def ex_starting_node_def)
  have "\<exists>r d'. sync_node_state ex_fenv ex_fleet ex_passing_aws id (Some 1) None True ?d = Inr (r, d') \<and>
      node_pk r = node_pk ex_starting_node \<and> node_status r = NS_READY \<and> node_schedulable r"
    by (rule sync_promotes [OF l, where iid = ex_iid])
      (simp_all add: ex_starting_node_def ex_fleet_db_def find_node_by_instance_def node_key_taken_def ex_passes)
  then obtain r d' where r: "sync_node_state ex_fenv ex_fleet ex_passing_aws id (Some 1) None True ?d = Inr (r, d')" "node_status r = NS_READY"
    by blast
  have "pks ?d" by (simp add: pks_def keys_ok_def ex_fleet_db_def ex_starting_node_def)
  note provisioning_node_needs_gate [OF this l _ r]
  moreover have "aw_ssm ex_passing_aws (instance_of r) (workspace_image_for_ready_gate ex_fleet) =
      Inr (''node.ready_gate.image_pull_success node.ready_gate.passed'', [])" by (simp add: ex_passing_aws_def)
  ultimately show ?thesis using r by (auto simp: ex_starting_node_def)
qed


section \<open>Draining\<close>

text \<open>A row found first by a column is still found first after it is rewritten with that column.\<close>

lemma first_filter_put:
  assumes "first_row (filter P rows) = Some n" "\<forall>q\<in>set rows. key q = key n \<longrightarrow> q = n" "P n'" "key n' = key n"
  shows "first_row (filter P (row_put key n' rows)) = Some n'"
  using assms(1,2)
proof (induction rows)
  case (Cons q rows)
  show ?case
  proof (cases "key q = key n")
    case True
    then show ?thesis using assms(3,4) by (simp add: row_put_def first_row_def)
  next
    case False
    then have "\<not> P q" using Cons.prems(1) by (auto simp: first_row_def split: if_splits)
    then show ?thesis using Cons False assms(4) by (simp add: row_put_def)
  qed
qed (simp add: first_row_def)

lemma find_node_by_instance_put:
  assumes "pks d" "find_node_by_instance d iid = Some n" "node_provider_instance_id n' = Some iid" "node_pk n' = node_pk n"
  shows "find_node_by_instance (put_node n' d) iid = Some n'"
proof -
  have n: "n \<in> set (nodes d)" using find_node_by_instance_in [OF assms(2)] by simp
  have "\<forall>q\<in>set (nodes d). node_pk q = node_pk n \<longrightarrow> q = n"
    using in_get_node [OF assms(1)] n by (metis option.inject)
  then show ?thesis using first_filter_put [OF assms(2) [unfolded find_node_by_instance_def] _ _ assms(4)] assms(3)
    by (simp add: find_node_by_instance_def)
qed

text \<open>Undraining a drained node gives it back: a node that was ready and schedulable is ready and schedulable again, with
  every column as before except its time stamp and the life-cycle notes in its metadata, and no other row of the
  database differs.\<close>

theorem drain_undrain_round_trip:
  assumes "pks d" "get_node d k = Some n" "node_status n = NS_READY" "node_schedulable n"
  shows "\<exists>n1 d1 n2. mark_node_draining E (Some k) None d = Inr (n1, d1) \<and> node_status n1 = NS_DRAINING \<and> \<not> node_schedulable n1 \<and>
    undrain_node E' (Some k) None d1 = Inr (n2, put_node n2 d) \<and>
    n2 = n\<lparr>node_updated_at := now E', node_metadata := node_metadata n2\<rparr> \<and>
    (\<forall>key. key \<noteq> ''lifecycle'' \<longrightarrow> jget (node_metadata n2) key = jget (node_metadata n) key)"
proof -
  have k: "node_pk n = k" "get_node d k \<noteq> None" using get_node_in [OF assms(2)] assms(2) by simp_all
  have m: "key \<noteq> ''lifecycle'' \<Longrightarrow> jget (merge_metadata row [(''lifecycle'', JObj x)]) key = jget (node_metadata row) key" for row :: node and x key
    by (simp add: merge_metadata_def merge_entry_def split: json.split)
  define n1 where "n1 = n\<lparr>node_status := NS_DRAINING, node_schedulable := False, node_updated_at := now E,
      node_metadata := merge_metadata n [(''lifecycle'', JObj [stamp E ''draining_marked_at''])]\<rparr>"
  define n2 where "n2 = n1\<lparr>node_status := NS_READY, node_schedulable := True, node_updated_at := now E',
      node_metadata := merge_metadata n1 [(''lifecycle'', JObj [stamp E' ''undrained_at''])]\<rparr>"
  have pk: "node_pk n1 = k" "node_pk n2 = k" by (simp_all add: n1_def n2_def k)
  have a: "mark_node_draining E (Some k) None d = Inr (n1, put_node n1 d)"
    using assms(2,3) by (simp add: mark_node_draining_def with_node_def lookup_node_def save_def n1_def)
  have st: "node_status n1 = NS_DRAINING" "\<not> node_schedulable n1" by (simp_all add: n1_def)
  have g: "get_node (put_node n1 d) k = Some n1" using k(2) pk(1) by (simp add: get_node_def row_find_put)
  have b: "undrain_node E' (Some k) None (put_node n1 d) = Inr (n2, put_node n2 d)"
    unfolding undrain_node_def with_node_def lookup_pk [OF g] sum.case prod.case save_def n2_def [symmetric]
    using st put_node_twice [of n2 n1 d] pk by simp
  have c: "n2 = n\<lparr>node_updated_at := now E', node_metadata := node_metadata n2\<rparr>" using assms(3,4) by (simp add: n1_def n2_def)
  have e: "jget (node_metadata n2) key = jget (node_metadata n) key" if "key \<noteq> ''lifecycle''" for key
    using m [OF that, of n1] m [OF that, of n] by (simp add: n1_def n2_def)
  show ?thesis using a b c e by (intro exI [of _ n1] exI [of _ "put_node n1 d"] exI [of _ n2]) (simp add: n1_def)
qed

theorem drain_undrain_round_trip_witness:
  "\<exists>n1 d1 n2. mark_node_draining ex_env (Some 1) None (ex_fleet_db [ex_ec2_node]) = Inr (n1, d1) \<and> node_status n1 = NS_DRAINING \<and>
     undrain_node ex_env (Some 1) None d1 = Inr (n2, put_node n2 (ex_fleet_db [ex_ec2_node]))"
proof -
  have "pks (ex_fleet_db [ex_ec2_node])" "get_node (ex_fleet_db [ex_ec2_node]) 1 = Some ex_ec2_node"
    by (simp_all add: pks_def keys_ok_def ex_fleet_db_def get_node_def)
  from drain_undrain_round_trip [OF this, of ex_env ex_env] show ?thesis by auto
qed

text \<open>The worker undoes a drain. When a bring-up on a node has to wait for the node, the worker sends the node back to
  its gate without looking at its status: a node that an operator or the autoscaler had set to DRAINING, or one
  that is already TERMINATING or TERMINATED, is PROVISIONING afterwards, and the next synchronisation makes it READY
  and schedulable when its instance still runs and the gate passes.\<close>

theorem worker_undoes_drain:
  assumes "pks d" "find_node_by_key d key = Some n" "key \<noteq> []" "py_strip key = key" "node_provider_type n = PT_EC2"
    "node_provider_instance_id n = Some iid" "find_node_by_instance d iid = Some n" "valid_instance_id iid" "py_strip iid = iid"
    "\<not> node_key_taken d (node_pk n) key" "node_execution_mode n = EM_SSM_DOCKER"
    "map_of (node_metadata n) ''catalog_ec2_stub'' = None" "passes F W scr iid"
  shows "\<exists>r d'. sync_node_state E F W scr (Some (node_pk n)) None True (mark_node_not_ready_for_retry E (Some key) reason d) = Inr (r, d') \<and>
    node_pk r = node_pk n \<and> node_status r = NS_READY \<and> node_schedulable r"
proof -
  define n1 where "n1 = n\<lparr>node_status := NS_PROVISIONING, node_schedulable := False, node_last_error_code := Some ''ReadyGatePending'',
      node_last_error_message := Some (truncate_msg 4096 reason), node_updated_at := now E\<rparr>"
  note n = find_node_by_key_in [OF assms(2)]
  have g: "get_node d (node_pk n) = Some n" using in_get_node [OF assms(1)] n by simp
  have d1: "mark_node_not_ready_for_retry E (Some key) reason d = put_node n1 d"
    using assms(2-5) g by (simp add: mark_node_not_ready_for_retry_def node_by_key_def find_node_by_key_def str_or_empty_def upd_node_def n1_def)
  have g1: "get_node (put_node n1 d) (node_pk n) = Some n1" using g by (simp add: get_node_def row_find_put n1_def)
  have inst: "find_node_by_instance (put_node n1 d) iid = Some n1"
    by (rule find_node_by_instance_put [OF assms(1) assms(7)]) (simp_all add: n1_def assms(6))
  have taken: "\<not> node_key_taken (put_node n1 d) (node_pk n1) key"
    using assms(10) by (auto simp: node_key_taken_def n1_def dest!: in_row_put)
  have "register_key iid (Some key) = key" using assms(3,4) by (simp add: register_key_def strip_or_none_def none_if_empty_def str_or_empty_def)
  then have t: "\<not> node_key_taken (put_node n1 d) (node_pk n1) (register_key iid (Some (node_key n1)))"
    using taken n by (simp add: n1_def)
  have pk: "node_pk n1 = node_pk n" by (simp add: n1_def)
  have "\<exists>r d'. sync_node_state E F W scr (Some (node_pk n)) None True (put_node n1 d) = Inr (r, d') \<and> node_pk r = node_pk n1 \<and>
      node_status r = NS_READY \<and> node_schedulable r"
    by (rule sync_promotes [OF lookup_pk [OF g1] _ _ inst assms(8,9) t _ _ _ assms(13)]) (simp_all add: n1_def assms)
  then show ?thesis unfolding d1 pk .
qed

definition ex_drained_node :: node where
  "ex_drained_node = ex_ec2_node\<lparr>node_status := NS_DRAINING, node_schedulable := False\<rparr>"

theorem worker_undoes_drain_witness:
  "node_status ex_drained_node = NS_DRAINING \<and>
   (\<exists>r d'. sync_node_state ex_fenv ex_fleet ex_passing_aws id (Some 1) None True
       (mark_node_not_ready_for_retry ex_fenv (Some ''n1'') ''waiting'' (ex_fleet_db [ex_drained_node])) = Inr (r, d') \<and>
      node_status r = NS_READY \<and> node_schedulable r)"
proof -
  let ?d = "ex_fleet_db [ex_drained_node]"
  have "\<exists>r d'. sync_node_state ex_fenv ex_fleet ex_passing_aws id (Some (node_pk ex_drained_node)) None True
       (mark_node_not_ready_for_retry ex_fenv (Some ''n1'') ''waiting'' ?d) = Inr (r, d') \<and>
      node_pk r = node_pk ex_drained_node \<and> node_status r = NS_READY \<and> node_schedulable r"
    by (rule worker_undoes_drain [where iid = ex_iid])
      (simp_all add: ex_drained_node_def ex_fleet_db_def find_node_by_instance_def find_node_by_key_def node_key_taken_def ex_passes
        pks_def keys_ok_def)
  then show ?thesis by (auto simp: ex_drained_node_def)
qed

end
