(* ===== verification/Effects.thy ===== *)
theory Effects
  imports Prelude "HOL-Library.State_Monad"
begin

text \<open>
  Computations of the state monad that may raise, as the container runtimes, the probes and the orchestrator
  use them, and the calculus for reasoning about them: \<open>wp m Q s\<close> says that \<open>m\<close>, run in \<open>s\<close>, ends in a value and a
  state with \<open>Q\<close>. The rules in \<open>wp_rules\<close> push \<open>wp\<close> through the constructs of a computation; \<open>wp_mono\<close> brings in
  what is known of a call.
\<close>

named_theorems wp_rules

section \<open>Computations that may raise\<close>

definition raise :: "'e \<Rightarrow> ('s, 'e + 'a) state" where
  "raise e = State_Monad.return (Inl e)"

definition ret :: "'a \<Rightarrow> ('s, 'e + 'a) state" where
  "ret a = State_Monad.return (Inr a)"

definition andE :: "('s, 'e + 'a) state \<Rightarrow> ('a \<Rightarrow> ('s, 'e + 'b) state) \<Rightarrow> ('s, 'e + 'b) state" where
  "andE m f = State_Monad.bind m (\<lambda>r. case r of Inl e \<Rightarrow> raise e | Inr a \<Rightarrow> f a)"

text \<open>\<^verbatim>\<open>try\<close> with a handler for every exception.\<close>

definition catchE :: "('s, 'e + 'a) state \<Rightarrow> ('e \<Rightarrow> ('s, 'f + 'a) state) \<Rightarrow> ('s, 'f + 'a) state" where
  "catchE m h = State_Monad.bind m (\<lambda>r. case r of Inl e \<Rightarrow> h e | Inr a \<Rightarrow> ret a)"

lemma andE_simps [simp]: "andE (ret a) f = f a" "andE (raise e) f = raise e"
  by (simp_all add: andE_def ret_def raise_def)

lemma run_simps [simp]: "run_state (ret a) s = (Inr a, s)" "run_state (raise e) s = (Inl e, s)"
  by (simp_all add: ret_def raise_def State_Monad.return_def)

text \<open>Evaluation on a concrete state.\<close>

lemma run_bind: "run_state (State_Monad.bind m f) s = (case run_state m s of (a, t) \<Rightarrow> run_state (f a) t)"
  by (simp add: State_Monad.bind_def)

lemma run_return: "run_state (State_Monad.return a) s = (a, s)"
  by (simp add: State_Monad.return_def)

lemma run_andE: "run_state (andE m f) s = (case run_state m s of (Inl e, t) \<Rightarrow> (Inl e, t) | (Inr a, t) \<Rightarrow> run_state (f a) t)"
  by (auto simp: andE_def run_bind split: prod.split sum.split)

lemma run_catchE: "run_state (catchE m h) s = (case run_state m s of (Inl e, t) \<Rightarrow> run_state (h e) t | (Inr a, t) \<Rightarrow> (Inr a, t))"
  by (auto simp: catchE_def run_bind split: prod.split sum.split)

lemmas evaluation = run_bind run_return run_andE run_catchE

section \<open>Weakest preconditions\<close>

definition wp :: "('s, 'a) state \<Rightarrow> ('a \<Rightarrow> 's \<Rightarrow> bool) \<Rightarrow> 's \<Rightarrow> bool" where
  "wp m Q s \<longleftrightarrow> (case run_state m s of (a, t) \<Rightarrow> Q a t)"

text \<open>\<open>yields m P\<close>: whatever the state, a result that is no exception satisfies \<open>P\<close>.\<close>

definition yields :: "('s, 'e + 'a) state \<Rightarrow> ('a \<Rightarrow> bool) \<Rightarrow> bool" where
  "yields m P \<longleftrightarrow> (\<forall>s. wp m (\<lambda>r _. \<forall>a. r = Inr a \<longrightarrow> P a) s)"

lemma wp_return [wp_rules]: "wp (State_Monad.return a) Q s \<longleftrightarrow> Q a s"
  by (simp add: wp_def State_Monad.return_def)

lemma wp_bind [wp_rules]: "wp (State_Monad.bind m f) Q s \<longleftrightarrow> wp m (\<lambda>a. wp (f a) Q) s"
  by (simp add: wp_def State_Monad.bind_def split: prod.split)

lemma wp_raise [wp_rules]: "wp (raise e) Q s \<longleftrightarrow> Q (Inl e) s"
  by (simp add: raise_def wp_return)

lemma wp_ret [wp_rules]: "wp (ret a) Q s \<longleftrightarrow> Q (Inr a) s"
  by (simp add: ret_def wp_return)

lemma wp_andE [wp_rules]:
  "wp (andE m f) Q s \<longleftrightarrow> wp m (\<lambda>r. case r of Inl e \<Rightarrow> Q (Inl e) | Inr a \<Rightarrow> wp (f a) Q) s"
  unfolding andE_def wp_bind by (rule arg_cong [where f = "\<lambda>P. wp m P s"]) (auto simp: fun_eq_iff wp_raise split: sum.split)

lemma wp_catchE [wp_rules]:
  "wp (catchE m h) Q s \<longleftrightarrow> wp m (\<lambda>r. case r of Inl e \<Rightarrow> wp (h e) Q | Inr a \<Rightarrow> Q (Inr a)) s"
  unfolding catchE_def wp_bind by (rule arg_cong [where f = "\<lambda>P. wp m P s"]) (auto simp: fun_eq_iff wp_ret split: sum.split)

lemma wp_mono:
  assumes "wp m P s" "\<And>a t. P a t \<Longrightarrow> Q a t"
  shows "wp m Q s"
  using assms by (auto simp: wp_def split: prod.splits)

text \<open>The rules for two computations in sequence, with what holds in between.\<close>

lemma wp_bindI:
  assumes "wp m P s" "\<And>a t. P a t \<Longrightarrow> wp (f a) Q t"
  shows "wp (State_Monad.bind m f) Q s"
  unfolding wp_bind by (rule wp_mono [OF assms])

lemma wp_andEI:
  assumes "wp m P s" "\<And>e t. P (Inl e) t \<Longrightarrow> Q (Inl e) t" "\<And>a t. P (Inr a) t \<Longrightarrow> wp (f a) Q t"
  shows "wp (andE m f) Q s"
  unfolding wp_andE by (rule wp_mono [OF assms(1)]) (use assms(2,3) in \<open>auto split: sum.split\<close>)

lemma wp_catchEI:
  assumes "wp m P s" "\<And>e t. P (Inl e) t \<Longrightarrow> wp (h e) Q t" "\<And>a t. P (Inr a) t \<Longrightarrow> Q (Inr a) t"
  shows "wp (catchE m h) Q s"
  unfolding wp_catchE by (rule wp_mono [OF assms(1)]) (use assms(2,3) in \<open>auto split: sum.split\<close>)

lemma wp_if: "(b \<Longrightarrow> wp m Q s) \<Longrightarrow> (\<not> b \<Longrightarrow> wp n Q s) \<Longrightarrow> wp (if b then m else n) Q s"
  by simp

lemma wp_conj: "wp m (\<lambda>a t. P a t \<and> Q a t) s \<longleftrightarrow> wp m P s \<and> wp m Q s"
  by (simp add: wp_def split: prod.split)

lemma wp_true [simp]: "wp m (\<lambda>_ _. True) s"
  by (simp add: wp_def split: prod.split)

lemma wp_run: "wp m Q s \<Longrightarrow> run_state m s = (a, t) \<Longrightarrow> Q a t"
  by (simp add: wp_def)

section \<open>What a computation yields\<close>

lemma yields_ret [simp]: "yields (ret a) P \<longleftrightarrow> P a"
  by (simp add: yields_def wp_ret)

lemma yields_raise [simp]: "yields (raise e) P"
  by (simp add: yields_def wp_raise)

lemma yields_bind:
  assumes "\<And>a. yields (f a) P"
  shows "yields (State_Monad.bind m f) P"
  using assms unfolding yields_def wp_bind by (blast intro: wp_mono [OF wp_true])

lemma yields_andE_of:
  assumes "yields m P" "\<And>a. P a \<Longrightarrow> yields (f a) Q"
  shows "yields (andE m f) Q"
  unfolding yields_def wp_andE
proof
  fix s
  show "wp m (\<lambda>r. case r of Inl e \<Rightarrow> \<lambda>_. \<forall>a. Inl e = Inr a \<longrightarrow> Q a | Inr a \<Rightarrow> wp (f a) (\<lambda>r _. \<forall>a. r = Inr a \<longrightarrow> Q a)) s"
    by (rule wp_mono [OF spec [OF assms(1) [unfolded yields_def]]]) (use assms(2) in \<open>auto simp: yields_def split: sum.split\<close>)
qed

lemma yields_true [simp]: "yields m (\<lambda>_. True)"
  by (simp add: yields_def)

lemma yields_andE: "(\<And>a. yields (f a) P) \<Longrightarrow> yields (andE m f) P"
  by (rule yields_andE_of [OF yields_true])

lemma yields_if: "(b \<Longrightarrow> yields m P) \<Longrightarrow> (\<not> b \<Longrightarrow> yields n P) \<Longrightarrow> yields (if b then m else n) P"
  by simp

lemma yields_run: "yields m P \<Longrightarrow> run_state m s = (Inr a, t) \<Longrightarrow> P a"
  by (auto simp: yields_def wp_def split: prod.splits)

lemmas yields_intros = yields_bind yields_andE yields_if

section \<open>What a computation raises\<close>

definition throws :: "('s, 'e + 'a) state \<Rightarrow> ('e \<Rightarrow> bool) \<Rightarrow> bool" where
  "throws m P \<longleftrightarrow> (\<forall>s. wp m (\<lambda>r _. \<forall>e. r = Inl e \<longrightarrow> P e) s)"

lemma throws_simps [simp]: "throws (ret a) P" "throws (raise e) P \<longleftrightarrow> P e"
  by (simp_all add: throws_def wp_ret wp_raise)

lemma throws_bind:
  assumes "\<And>a. throws (f a) P"
  shows "throws (State_Monad.bind m f) P"
  using assms unfolding throws_def wp_bind by (blast intro: wp_mono [OF wp_true])

lemma throws_andE:
  assumes "throws m P" "\<And>a. throws (f a) P"
  shows "throws (andE m f) P"
  using assms unfolding throws_def by (blast intro: wp_andEI)

lemma throws_if: "(b \<Longrightarrow> throws m P) \<Longrightarrow> (\<not> b \<Longrightarrow> throws n P) \<Longrightarrow> throws (if b then m else n) P"
  by simp

end
