(* ===== verification/Container_Runtime.thy ===== *)
theory Container_Runtime
  imports Effects Attachment Json_Text Intent
begin

text \<open>
  Container runtimes (\<^verbatim>\<open>libs/runtime\<close>): the interface \<^verbatim>\<open>RuntimeAdapter\<close> with its result types, the adapter for a
  Docker engine (\<^verbatim>\<open>docker_runtime.py\<close>) and the sequence that brings one container up (\<^verbatim>\<open>runtime_orchestrator.py\<close>).

  What changes outside the process is a state of any type. The Docker SDK is the parameter \<open>docker\<close>, a record of
  operations on that state: every one of them may move it, so that two inspections may differ. An operation
  of the adapter is a computation of the state monad whose value is an exception or a result. Fields of the
  results that no caller reads (mount strings, health, the project mount) are left out. Texts keep their
  fixed phrases, with characters outside ASCII replaced.
\<close>

section \<open>Results\<close>

datatype runtime_exn =
    ContainerNotFoundError string
  | ContainerCreateError string
  | ContainerStartError string
  | ContainerStopError string
  | ContainerDeleteError string
  | NetnsRefError string
  | EngineError string

text \<open>\<open>EngineError\<close> is an exception of the SDK that leaves the adapter; the others are \<^verbatim>\<open>RuntimeAdapterError\<close>s.\<close>

fun runtime_text :: "runtime_exn \<Rightarrow> string" where
  "runtime_text (ContainerNotFoundError m) = m"
| "runtime_text (ContainerCreateError m) = m"
| "runtime_text (ContainerStartError m) = m"
| "runtime_text (ContainerStopError m) = m"
| "runtime_text (ContainerDeleteError m) = m"
| "runtime_text (NetnsRefError m) = m"
| "runtime_text (EngineError m) = m"

fun is_adapter_error :: "runtime_exn \<Rightarrow> bool" where
  "is_adapter_error (EngineError _) = False"
| "is_adapter_error _ = True"

record inspection =
  ci_exists :: bool
  ci_container_id :: "string option"
  ci_state :: string
  ci_pid :: "int option"
  ci_ports :: "(int \<times> int) list"
  ci_binds :: "(string \<times> string \<times> bool) list"
  ci_labels :: "(string \<times> string) list"
  ci_started_at :: "string option"
  ci_finished_at :: "string option"
  ci_exit_code :: "int option"

record action_result =
  ac_container_id :: string
  ac_state :: string
  ac_success :: bool
  ac_message :: "string option"

record ensured =
  en_container_id :: string
  en_created_new :: bool
  en_state :: string
  en_ports :: "(int \<times> int) list"

record netns_ref =
  nr_container_id :: string
  nr_pid :: int
  nr_ref :: string

record bind_spec =
  bs_host_path :: string
  bs_container_path :: string
  bs_read_only :: bool

record security_spec =
  se_security_opt :: "string list"
  se_cap_drop :: "string list"
  se_read_only_rootfs :: bool
  se_seccomp_mode :: string

record ensure_args =
  ea_name :: string
  ea_image :: "string option"
  ea_cpu_limit :: "rat option"
  ea_memory_bytes :: "int option"
  ea_pids_limit :: "int option"
  ea_security :: "security_spec option"
  ea_env :: "(string \<times> string) list"
  ea_publish :: "(int \<times> int) list"
  ea_labels :: "(string \<times> string) list"
  ea_project_mount :: "(string \<times> bool) option"
  ea_host_path :: "string option"
  ea_extra_binds :: "bind_spec list"
  ea_existing_id :: "string option"

record 's adapter =
  ra_inspect :: "string \<Rightarrow> ('s, runtime_exn + inspection) state"
  ra_log_tail :: "string \<Rightarrow> int \<Rightarrow> ('s, string) state"
  ra_ensure :: "ensure_args \<Rightarrow> ('s, runtime_exn + ensured) state"
  ra_start :: "string \<Rightarrow> ('s, runtime_exn + action_result) state"
  ra_stop :: "string \<Rightarrow> ('s, runtime_exn + action_result) state"
  ra_restart :: "string \<Rightarrow> ('s, runtime_exn + action_result) state"
  ra_delete :: "string \<Rightarrow> ('s, runtime_exn + action_result) state"
  ra_netns :: "string \<Rightarrow> ('s, runtime_exn + netns_ref) state"

section \<open>The Docker SDK\<close>

text \<open>
  A call of the SDK answers, or raises \<^verbatim>\<open>NotFound\<close>, \<^verbatim>\<open>ImageNotFound\<close>, another \<^verbatim>\<open>APIError\<close> or any other exception. The
  first two are \<^verbatim>\<open>APIError\<close>s. \<open>dk_get\<close> gives the attributes of a container as the engine reports them;
  \<open>dk_str\<close> and \<open>dk_repr\<close> are Python's \<^verbatim>\<open>str\<close> and \<^verbatim>\<open>repr\<close> of a decoded JSON value, and \<open>dk_proc_visible\<close> says
  whether a process directory can be seen (always, on a host without \<^verbatim>\<open>/proc\<close>).
\<close>

datatype 'a answer = Answer 'a | NotFound string | ImageNotFound string | ApiError string | SdkError string

record create_spec =
  cs_image :: string
  cs_name :: string
  cs_env :: "(string \<times> string) list"
  cs_labels :: "(string \<times> string) list"
  cs_binds :: "string list"
  cs_port_bindings :: "(int \<times> int option) list"
  cs_nano_cpus :: "int option"
  cs_mem_limit :: "int option"
  cs_pids_limit :: "int option"
  cs_security_opt :: "string list"
  cs_cap_drop :: "string list"
  cs_read_only :: bool

record 's docker =
  dk_get :: "string \<Rightarrow> ('s, jobj answer) state"
  dk_logs :: "string \<Rightarrow> int \<Rightarrow> ('s, string answer) state"
  dk_create :: "create_spec \<Rightarrow> ('s, string option answer) state"
  dk_pull :: "string \<Rightarrow> ('s, unit answer) state"
  dk_start :: "string \<Rightarrow> ('s, unit answer) state"
  dk_stop :: "string \<Rightarrow> ('s, unit answer) state"
  dk_restart :: "string \<Rightarrow> ('s, unit answer) state"
  dk_remove :: "bool \<Rightarrow> string \<Rightarrow> ('s, unit answer) state"
  dk_str :: "json \<Rightarrow> string"
  dk_repr :: "json \<Rightarrow> string"
  dk_proc_visible :: "int \<Rightarrow> bool"
  dk_default_image :: string

fun answer_text :: "'a answer \<Rightarrow> string" where
  "answer_text (Answer _) = []"
| "answer_text (NotFound m) = m"
| "answer_text (ImageNotFound m) = m"
| "answer_text (ApiError m) = m"
| "answer_text (SdkError m) = m"

fun not_found :: "'a answer \<Rightarrow> bool" where
  "not_found (NotFound _) = True"
| "not_found (ImageNotFound _) = True"
| "not_found _ = False"

text \<open>An answer that is handed on, with the exceptions of the SDK translated: \<open>api\<close> for \<^verbatim>\<open>APIError\<close>s.\<close>

fun answerE :: "(string \<Rightarrow> runtime_exn) \<Rightarrow> 'a answer \<Rightarrow> ('s, runtime_exn + 'a) state" where
  "answerE api (Answer a) = ret a"
| "answerE api (SdkError m) = raise (EngineError m)"
| "answerE api (NotFound m) = raise (api m)"
| "answerE api (ImageNotFound m) = raise (api m)"
| "answerE api (ApiError m) = raise (api m)"

section \<open>Inspection\<close>

definition container_state_needs_engine_stop :: "string \<Rightarrow> bool" where
  "container_state_needs_engine_stop st = (st = ''running'' \<or> st = ''restarting'' \<or> st = ''paused'')"

definition inspection_not_found :: inspection where
  "inspection_not_found = \<lparr>ci_exists = False, ci_container_id = None, ci_state = ''missing'', ci_pid = None, ci_ports = [],
     ci_binds = [], ci_labels = [], ci_started_at = None, ci_finished_at = None, ci_exit_code = None\<rparr>"

definition normalize_inspection_labels :: "(json \<Rightarrow> string) \<Rightarrow> jobj \<Rightarrow> (string \<times> string) list" where
  "normalize_inspection_labels str attrs =
     sort (map (\<lambda>(k, v). (k, if v = JNull then [] else str v)) (jdict (jget (jdict (jget attrs ''Config'')) ''Labels'')))"

definition normalize_engine_state :: "(json \<Rightarrow> string) \<Rightarrow> json \<Rightarrow> string" where
  "normalize_engine_state str raw =
     (let s = (if raw = JNull then [] else py_strip (str raw)) in if s = [] then ''unknown'' else py_lower s)"

definition jlist :: "json \<Rightarrow> json list" where
  "jlist v = (case v of JList xs \<Rightarrow> xs | _ \<Rightarrow> [])"

definition host_port :: "(json \<Rightarrow> string) \<Rightarrow> json \<Rightarrow> int option" where
  "host_port str b =
     (let hp = jget (jdict b) ''HostPort''; hs = (if hp = JNull then [] else py_strip (str hp)) in
      if hs \<noteq> [] \<and> list_all is_digit hs then parse_int hs else None)"

definition normalize_ports :: "(json \<Rightarrow> string) \<Rightarrow> jobj \<Rightarrow> (int \<times> int) list" where
  "normalize_ports str attrs =
     sort (concat (map (\<lambda>(spec, bindings).
         case parse_int (hd (split_on (CHR ''/'') spec)) of None \<Rightarrow> []
         | Some cport \<Rightarrow> map (\<lambda>hp. (hp, cport)) (List.map_filter (host_port str) (jlist bindings)))
       (jdict (jget (jdict (jget attrs ''NetworkSettings'')) ''Ports''))))"

definition bind_info :: "(json \<Rightarrow> string) \<Rightarrow> json \<Rightarrow> (string \<times> string \<times> bool) option" where
  "bind_info str m =
     (let field = (\<lambda>k. let v = jget (jdict m) k in if truthy v then str v else []);
          dest = py_strip (field ''Destination'')
      in if py_lower (field ''Type'') \<noteq> ''bind'' \<or> dest = [] then None
         else Some (py_strip (field ''Source''), dest, jget (jdict m) ''RW'' = JBool False))"

definition normalize_bind_mount_infos :: "(json \<Rightarrow> string) \<Rightarrow> jobj \<Rightarrow> (string \<times> string \<times> bool) list" where
  "normalize_bind_mount_infos str attrs = List.map_filter (bind_info str) (jlist (jget attrs ''Mounts''))"

definition positive_pid :: "json \<Rightarrow> int option" where
  "positive_pid v = (case json_int v of None \<Rightarrow> None | Some p \<Rightarrow> if p \<le> 0 then None else Some p)"

definition text_field :: "(json \<Rightarrow> string) \<Rightarrow> json \<Rightarrow> string option" where
  "text_field str v = (if v = JNull \<or> v = JStr [] then None else Some (py_strip (str v)))"

definition normalize_inspection :: "(json \<Rightarrow> string) \<Rightarrow> jobj \<Rightarrow> inspection" where
  "normalize_inspection str attrs =
     (let state = jdict (jget attrs ''State''); cid = jget attrs ''Id'' in
      \<lparr>ci_exists = True, ci_container_id = (if cid = JNull then None else none_if_empty (py_strip (str cid))),
       ci_state = normalize_engine_state str (jget state ''Status''), ci_pid = positive_pid (jget state ''Pid''),
       ci_ports = normalize_ports str attrs, ci_binds = normalize_bind_mount_infos str attrs,
       ci_labels = normalize_inspection_labels str attrs, ci_started_at = text_field str (jget state ''StartedAt''),
       ci_finished_at = text_field str (jget state ''FinishedAt''), ci_exit_code = json_int (jget state ''ExitCode'')\<rparr>)"

definition image_cmd_hint :: "(json \<Rightarrow> string) \<Rightarrow> jobj \<Rightarrow> string" where
  "image_cmd_hint repr attrs =
     (let cfg = jdict (jget attrs ''Config'') in
      ''; image entrypoint='' @ repr (jget cfg ''Entrypoint'') @ '' cmd='' @ repr (jget cfg ''Cmd''))"

section \<open>Creating a container\<close>

definition WORKSPACE_PROJECT_CONTAINER_PATH :: string where
  "WORKSPACE_PROJECT_CONTAINER_PATH = ''/home/coder/project''"

definition resolve_image :: "string \<Rightarrow> string option \<Rightarrow> string" where
  "resolve_image dflt requested =
     (case strip_or_none requested of Some i \<Rightarrow> i
      | None \<Rightarrow> (let d = py_strip dflt in if d = [] then ''devnest/workspace:latest'' else d))"

text \<open>The two adapters differ in the text for a relative path.\<close>

definition resolve_project_host_path :: "(string \<Rightarrow> string) \<Rightarrow> (string \<times> bool) option \<Rightarrow> string option \<Rightarrow> runtime_exn + (string \<times> bool)" where
  "resolve_project_host_path relative pm wh =
     (let pm_raw = (case pm of None \<Rightarrow> [] | Some (h, _) \<Rightarrow> py_strip h);
          wh_raw = py_strip (str_or_empty wh);
          chosen = (if pm_raw \<noteq> [] then pm_raw else wh_raw)
      in if pm_raw \<noteq> [] \<and> wh_raw \<noteq> [] \<and> pm_raw \<noteq> wh_raw
         then Inl (ContainerCreateError ''project_mount.host_path and workspace_host_path disagree; pass one consistent path'')
         else if chosen = []
         then Inl (ContainerCreateError (''project_mount or workspace_host_path is required to create a workspace container '' @
                ''(bind-mount host directory to '' @ WORKSPACE_PROJECT_CONTAINER_PATH @ '')''))
         else if \<not> starts_with ''/'' chosen then Inl (ContainerCreateError (relative chosen))
         else Inr (chosen, case pm of None \<Rightarrow> False | Some (_, ro) \<Rightarrow> ro))"

definition relative_path_message :: "string \<Rightarrow> string" where
  "relative_path_message chosen = ''project workspace host path must be absolute (Docker bind source); '' @
     ''sync storage layout before ensure_container, got '' @ py_repr chosen"

definition requested_bind_signatures :: "string option \<Rightarrow> bind_spec list \<Rightarrow> runtime_exn + (string \<times> string \<times> bool) list option" where
  "requested_bind_signatures wh extra =
     (let extras = map (\<lambda>b. (py_strip (bs_host_path b), rstrip_chars (CHR ''/'') (py_strip (bs_container_path b)), bs_read_only b)) extra
      in if py_strip (str_or_empty wh) \<noteq> []
         then (case resolve_project_host_path relative_path_message None wh of Inl e \<Rightarrow> Inl e
               | Inr (h, ro) \<Rightarrow> Inr (Some (sort ((h, WORKSPACE_PROJECT_CONTAINER_PATH, ro) # extras))))
         else Inr (if extras = [] then None else Some (sort extras)))"

definition existing_bind_signatures :: "(string \<times> string \<times> bool) list \<Rightarrow> (string \<times> string \<times> bool) list" where
  "existing_bind_signatures binds = sort (map (\<lambda>(h, c, ro). (py_strip h, rstrip_chars (CHR ''/'') c, ro)) binds)"

fun extra_bind_strings :: "string list \<Rightarrow> bind_spec list \<Rightarrow> runtime_exn + string list" where
  "extra_bind_strings seen [] = Inr []"
| "extra_bind_strings seen (b # bs) =
     (let hp = py_strip (bs_host_path b); cp = py_strip (bs_container_path b);
          dest = (let r = rstrip_chars (CHR ''/'') cp in if r = [] then ''/'' else r)
      in if hp = [] \<or> cp = []
         then Inl (ContainerCreateError ''extra_bind_mounts requires non-empty host_path and container_path on every entry'')
         else if dest = WORKSPACE_PROJECT_CONTAINER_PATH
         then Inl (ContainerCreateError (''extra_bind_mounts cannot target the project mount path ('' @
                WORKSPACE_PROJECT_CONTAINER_PATH @ ''); use project_mount / workspace_host_path only''))
         else if dest \<in> set seen then Inl (ContainerCreateError (''duplicate extra_bind_mounts container_path: '' @ py_repr cp))
         else (case extra_bind_strings (dest # seen) bs of Inl e \<Rightarrow> Inl e
               | Inr out \<Rightarrow> Inr ((hp @ '':'' @ cp @ '':'' @ (if bs_read_only b then ''ro'' else ''rw'')) # out)))"

text \<open>A later pair for the same container port replaces the earlier one and keeps its place.\<close>

fun port_bindings_from_spec :: "(int \<times> int option) list \<Rightarrow> (int \<times> int) list \<Rightarrow> runtime_exn + (int \<times> int option) list" where
  "port_bindings_from_spec acc [] = Inr acc"
| "port_bindings_from_spec acc ((hp, cp) # ps) =
     (if cp \<le> 0 then Inl (ContainerCreateError (''container port in ports= must be positive, got '' @ str_int cp))
      else port_bindings_from_spec (dict_set acc cp (if hp \<le> 0 then None else Some hp)) ps)"

definition resolved_ports_tuple :: "(int \<times> int option) list \<Rightarrow> (int \<times> int) list" where
  "resolved_ports_tuple bindings = sort (List.map_filter (\<lambda>(c, h). map_option (\<lambda>p. (p, c)) h) bindings)"

definition limit_error :: "ensure_args \<Rightarrow> runtime_exn option" where
  "limit_error a =
     (if (case ea_cpu_limit a of Some c \<Rightarrow> c \<le> 0 | None \<Rightarrow> False) then Some (ContainerCreateError ''cpu_limit must be positive when set'')
      else if (case ea_memory_bytes a of Some m \<Rightarrow> m \<le> 0 | None \<Rightarrow> False)
      then Some (ContainerCreateError ''memory_limit_bytes must be positive when set'')
      else if (case ea_pids_limit a of Some n \<Rightarrow> n \<le> 0 | None \<Rightarrow> False)
      then Some (ContainerCreateError ''pids_limit must be positive when set'')
      else None)"

text \<open>What the engine is asked to create.\<close>

definition engine_request :: "string \<Rightarrow> ensure_args \<Rightarrow> runtime_exn + create_spec" where
  "engine_request default_image a =
     (case resolve_project_host_path relative_path_message (ea_project_mount a) (ea_host_path a) of Inl e \<Rightarrow> Inl e
      | Inr (host, ro) \<Rightarrow>
     (case limit_error a of Some e \<Rightarrow> Inl e
      | None \<Rightarrow>
     (case port_bindings_from_spec [] (ea_publish a) of Inl e \<Rightarrow> Inl e
      | Inr bindings \<Rightarrow>
     (case extra_bind_strings [] (ea_extra_binds a) of Inl e \<Rightarrow> Inl e
      | Inr extra \<Rightarrow>
          Inr \<lparr>cs_image = resolve_image default_image (ea_image a), cs_name = ea_name a, cs_env = ea_env a, cs_labels = ea_labels a,
            cs_binds = (host @ '':'' @ WORKSPACE_PROJECT_CONTAINER_PATH @ '':'' @ (if ro then ''ro'' else ''rw'')) # extra,
            cs_port_bindings = bindings, cs_nano_cpus = map_option (\<lambda>c. \<lfloor>c * 1000000000\<rfloor>) (ea_cpu_limit a),
            cs_mem_limit = ea_memory_bytes a, cs_pids_limit = ea_pids_limit a,
            cs_security_opt = (case ea_security a of Some sp \<Rightarrow> se_security_opt sp | None \<Rightarrow> []),
            cs_cap_drop = (case ea_security a of Some sp \<Rightarrow> se_cap_drop sp | None \<Rightarrow> []),
            cs_read_only = (case ea_security a of Some sp \<Rightarrow> se_read_only_rootfs sp | None \<Rightarrow> False)\<rparr>))))"

section \<open>The Docker adapter\<close>

definition inspect_container :: "'s docker \<Rightarrow> string \<Rightarrow> ('s, runtime_exn + inspection) state" where
  "inspect_container K cid = do {
     r \<leftarrow> dk_get K cid;
     if not_found r then ret inspection_not_found
     else andE (answerE EngineError r) (\<lambda>attrs. ret (normalize_inspection (dk_str K) attrs)) }"

definition fetch_container_log_tail :: "'s docker \<Rightarrow> string \<Rightarrow> int \<Rightarrow> ('s, string) state" where
  "fetch_container_log_tail K cid lines = do {
     r \<leftarrow> dk_logs K cid (max 1 (min lines 4096));
     State_Monad.return (case r of Answer t \<Rightarrow> t | _ \<Rightarrow> []) }"

text \<open>The SDK addresses a container object by the identifier in its attributes.\<close>

definition engine_id :: "jobj \<Rightarrow> string" where
  "engine_id attrs = (case jget attrs ''Id'' of JStr i \<Rightarrow> i | _ \<Rightarrow> [])"

definition get_container_if_exists :: "'s docker \<Rightarrow> string \<Rightarrow> ('s, runtime_exn + jobj option) state" where
  "get_container_if_exists K ref = do {
     r \<leftarrow> dk_get K ref;
     if not_found r then ret None else andE (answerE EngineError r) (\<lambda>attrs. ret (Some attrs)) }"

definition find_existing :: "'s docker \<Rightarrow> ensure_args \<Rightarrow> ('s, runtime_exn + jobj option) state" where
  "find_existing K a =
     (let rid = py_strip (str_or_empty (ea_existing_id a)) in
      andE (if rid = [] then ret None else get_container_if_exists K rid) (\<lambda>found.
      case found of Some attrs \<Rightarrow> ret (Some attrs) | None \<Rightarrow> get_container_if_exists K (ea_name a)))"

text \<open>A container whose bind mounts differ from the requested ones is removed, and a new one is created.\<close>

definition keep_or_remove :: "'s docker \<Rightarrow> ensure_args \<Rightarrow> jobj option \<Rightarrow> ('s, runtime_exn + jobj option) state" where
  "keep_or_remove K a found =
     (case found of None \<Rightarrow> ret None
      | Some attrs \<Rightarrow>
          (case requested_bind_signatures (ea_host_path a) (ea_extra_binds a) of Inl e \<Rightarrow> raise e
           | Inr wanted \<Rightarrow>
               (if wanted = None \<or> Some (existing_bind_signatures (ci_binds (normalize_inspection (dk_str K) attrs))) = wanted
                then ret (Some attrs)
                else do {
                  r \<leftarrow> dk_remove K True (engine_id attrs);
                  if not_found r then ret None
                  else andE (answerE (\<lambda>m. ContainerCreateError (''failed to replace stale container '' @ py_repr (ea_name a) @
                         '' with mismatched bind mounts: '' @ m)) r) (\<lambda>_. ret None) })))"

definition create_once :: "'s docker \<Rightarrow> create_spec \<Rightarrow> ('s, runtime_exn + jobj answer) state" where
  "create_once K sp = do {
     r \<leftarrow> dk_create K sp;
     case r of
       Answer (Some (c # cs)) \<Rightarrow> do { a \<leftarrow> dk_get K (c # cs); ret a }
     | Answer _ \<Rightarrow> raise (ContainerCreateError ''create_container returned no Id'')
     | NotFound m \<Rightarrow> ret (NotFound m)
     | ImageNotFound m \<Rightarrow> ret (ImageNotFound m)
     | ApiError m \<Rightarrow> ret (ApiError m)
     | SdkError m \<Rightarrow> ret (SdkError m) }"

text \<open>A missing image is pulled once, and the creation repeated.\<close>

definition create_with_pull :: "'s docker \<Rightarrow> create_spec \<Rightarrow> ('s, runtime_exn + jobj) state" where
  "create_with_pull K sp =
     andE (create_once K sp) (\<lambda>r.
     case r of
       ImageNotFound _ \<Rightarrow> do {
         q \<leftarrow> dk_pull K (cs_image sp);
         andE (answerE (\<lambda>m. ContainerCreateError (''failed to pull image '' @ py_repr (cs_image sp) @ '': '' @ m)) q) (\<lambda>_.
         andE (create_once K sp) (answerE ContainerCreateError)) }
     | _ \<Rightarrow> answerE ContainerCreateError r)"

definition ensure_container :: "'s docker \<Rightarrow> ensure_args \<Rightarrow> ('s, runtime_exn + ensured) state" where
  "ensure_container K a =
     (if py_strip (ea_name a) = [] then raise (ContainerCreateError ''container name must be non-empty'')
      else andE (find_existing K a) (\<lambda>found.
      andE (keep_or_remove K a found) (\<lambda>kept.
      case kept of
        Some attrs \<Rightarrow>
          (let i = normalize_inspection (dk_str K) attrs in
           ret \<lparr>en_container_id = str_or_empty (ci_container_id i), en_created_new = False, en_state = ci_state i, en_ports = ci_ports i\<rparr>)
      | None \<Rightarrow>
          (case engine_request (dk_default_image K) a of Inl e \<Rightarrow> raise e
           | Inr sp \<Rightarrow>
               andE (create_with_pull K sp) (\<lambda>attrs0. do {
               r \<leftarrow> dk_get K (engine_id attrs0);
               andE (answerE EngineError r) (\<lambda>attrs.
                 let i = normalize_inspection (dk_str K) attrs in
                 ret \<lparr>en_container_id = str_or_empty (ci_container_id i), en_created_new = True, en_state = ci_state i,
                      en_ports = (if ci_ports i \<noteq> [] then ci_ports i else resolved_ports_tuple (cs_port_bindings sp))\<rparr>) })))))"

definition acted :: "string \<Rightarrow> inspection \<Rightarrow> action_result" where
  "acted cid i = \<lparr>ac_container_id = (case ci_container_id i of Some (c # cs) \<Rightarrow> c # cs | _ \<Rightarrow> cid), ac_state = ci_state i,
     ac_success = True, ac_message = None\<rparr>"

definition gone_result :: "string \<Rightarrow> action_result" where
  "gone_result cid = \<lparr>ac_container_id = cid, ac_state = ''missing'', ac_success = True, ac_message = None\<rparr>"

definition container_missing :: "string \<Rightarrow> runtime_exn" where
  "container_missing cid = ContainerNotFoundError (''container not found: '' @ py_repr cid)"

text \<open>The state after a start or restart; one that is not running is a failure with a hint from the image.\<close>

definition started_result :: "'s docker \<Rightarrow> string \<Rightarrow> string \<Rightarrow> inspection \<Rightarrow> ('s, runtime_exn + action_result) state" where
  "started_result K verb cid after =
     (if ci_state after = ''running'' then ret (acted cid after)
      else do {
        r \<leftarrow> dk_get K cid;
        ret ((acted cid after)\<lparr>ac_success := False, ac_message := Some (''unexpected state after '' @ verb @ '': '' @ ci_state after @
          (case r of Answer attrs \<Rightarrow> image_cmd_hint (dk_repr K) attrs | _ \<Rightarrow> []))\<rparr>) })"

definition start_container :: "'s docker \<Rightarrow> string \<Rightarrow> ('s, runtime_exn + action_result) state" where
  "start_container K cid =
     andE (inspect_container K cid) (\<lambda>i.
     if \<not> ci_exists i then raise (container_missing cid)
     else if ci_state i = ''running'' then ret (acted cid i)
     else do {
       r \<leftarrow> dk_get K cid;
       if not_found r then raise (container_missing cid)
       else andE (answerE EngineError r) (\<lambda>ctr. do {
       r2 \<leftarrow> dk_get K (engine_id ctr);
       andE (answerE EngineError r2) (\<lambda>attrs.
       let live = normalize_inspection (dk_str K) attrs in
       if ci_state live = ''running'' then ret (acted cid live)
       else do {
         s \<leftarrow> dk_start K (engine_id ctr);
         andE (answerE ContainerStartError s) (\<lambda>_.
         andE (inspect_container K cid) (started_result K ''start'' cid)) }) }) })"

definition stop_container :: "'s docker \<Rightarrow> string \<Rightarrow> ('s, runtime_exn + action_result) state" where
  "stop_container K cid =
     andE (inspect_container K cid) (\<lambda>i.
     if \<not> ci_exists i then ret (gone_result cid)
     else let cid_out = ac_container_id (acted cid i) in
       if \<not> container_state_needs_engine_stop (ci_state i) then ret (acted cid i)
       else do {
         r \<leftarrow> dk_get K cid;
         if not_found r then ret (gone_result cid_out)
         else andE (answerE EngineError r) (\<lambda>ctr. do {
         r2 \<leftarrow> dk_get K (engine_id ctr);
         andE (answerE EngineError r2) (\<lambda>attrs.
         let live = normalize_inspection (dk_str K) attrs in
         if \<not> container_state_needs_engine_stop (ci_state live) then ret (acted cid_out live)
         else do {
           s \<leftarrow> dk_stop K (engine_id ctr);
           andE (answerE ContainerStopError s) (\<lambda>_.
           andE (inspect_container K cid) (\<lambda>after.
           if \<not> ci_exists after then ret (gone_result cid_out)
           else if container_state_needs_engine_stop (ci_state after)
           then ret ((acted cid after)\<lparr>ac_success := False, ac_message := Some (''container still active after stop: '' @ ci_state after)\<rparr>)
           else ret (acted cid after))) }) }) })"

definition restart_container :: "'s docker \<Rightarrow> string \<Rightarrow> ('s, runtime_exn + action_result) state" where
  "restart_container K cid =
     andE (inspect_container K cid) (\<lambda>i.
     if \<not> ci_exists i then raise (container_missing cid)
     else do {
       r \<leftarrow> dk_get K cid;
       if not_found r then raise (container_missing cid)
       else andE (answerE EngineError r) (\<lambda>ctr. do {
       r2 \<leftarrow> dk_get K (engine_id ctr);
       andE (answerE EngineError r2) (\<lambda>_. do {
       s \<leftarrow> dk_restart K (engine_id ctr);
       andE (answerE ContainerStartError s) (\<lambda>_.
       andE (inspect_container K cid) (\<lambda>after.
       if \<not> ci_exists after then raise (ContainerNotFoundError (''container not found after restart: '' @ py_repr cid))
       else started_result K ''restart'' cid after)) }) }) })"

text \<open>Removing a container that is still active stops it first. A container that vanishes meanwhile counts as removed.\<close>

definition stop_before_remove :: "'s docker \<Rightarrow> string \<Rightarrow> inspection \<Rightarrow> ('s, runtime_exn + unit) state" where
  "stop_before_remove K eid live =
     (if container_state_needs_engine_stop (ci_state live)
      then do { s \<leftarrow> dk_stop K eid; answerE ContainerStopError s }
      else ret ())"

definition confirm_removed :: "'s docker \<Rightarrow> string \<Rightarrow> string \<Rightarrow> ('s, runtime_exn + action_result) state" where
  "confirm_removed K cid known =
     andE (inspect_container K cid) (\<lambda>final.
     if ci_exists final
     then ret ((acted known final)\<lparr>ac_success := False, ac_message := Some ''container still exists after delete''\<rparr>)
     else ret (gone_result known))"

definition delete_container :: "'s docker \<Rightarrow> string \<Rightarrow> ('s, runtime_exn + action_result) state" where
  "delete_container K cid =
     andE (inspect_container K cid) (\<lambda>i.
     if \<not> ci_exists i then ret (gone_result cid)
     else let known0 = ac_container_id (acted cid i) in do {
       r \<leftarrow> dk_get K cid;
       if not_found r then ret (gone_result known0)
       else andE (answerE EngineError r) (\<lambda>ctr. do {
       r2 \<leftarrow> dk_get K (engine_id ctr);
       andE (answerE EngineError r2) (\<lambda>attrs.
       let live = normalize_inspection (dk_str K) attrs; known = ac_container_id (acted known0 live) in
       andE (stop_before_remove K (engine_id ctr) live) (\<lambda>_. do {
       d \<leftarrow> dk_remove K False (engine_id ctr);
       if not_found d then ret (gone_result known)
       else andE (answerE ContainerDeleteError d) (\<lambda>_. confirm_removed K cid known) })) }) })"

definition netns_of :: "string \<Rightarrow> int \<Rightarrow> netns_ref" where
  "netns_of cid pid = \<lparr>nr_container_id = cid, nr_pid = pid, nr_ref = ''/proc/'' @ str_int pid @ ''/ns/net''\<rparr>"

definition no_pid_message :: "string \<Rightarrow> string \<Rightarrow> string \<Rightarrow> string" where
  "no_pid_message cid st hint = ''no host PID for container '' @ py_repr cid @ '' after waiting (state='' @ py_repr st @ ''). '' @
     ''If the container exited immediately, this is usually a workspace runtime startup failure '' @
     ''(e.g. code-server cannot write bind-mounted config under /home/coder/.config/code-server), '' @
     ''not a topology attachment issue.'' @ hint"

definition hidden_pid_message :: "int \<Rightarrow> string \<Rightarrow> string" where
  "hidden_pid_message pid cid = ''host PID '' @ str_int pid @ '' for container '' @ py_repr cid @ '' is not visible under /proc/'' @ str_int pid @
     '' in this process namespace - run the control plane with `pid: host` (Docker Compose) so `ip link set ... netns` '' @
     ''can resolve workspace PIDs''"

definition log_hint :: "'s docker \<Rightarrow> string \<Rightarrow> inspection \<Rightarrow> ('s, string) state" where
  "log_hint K cid i =
     (if ci_state i \<noteq> ''exited'' then State_Monad.return []
      else do {
        r \<leftarrow> dk_logs K cid 48;
        State_Monad.return (case r of
            Answer t \<Rightarrow> (let raw = py_strip t in if raw = [] then []
              else [CHR 0x0A] @ ''--- workspace container log tail (runtime startup; not topology) ---'' @ [CHR 0x0A] @
                   drop (length raw - 2000) raw)
          | _ \<Rightarrow> []) })"

text \<open>Up to \<open>n\<close> looks at a container whose process id is not visible yet.\<close>

fun netns_loop :: "'s docker \<Rightarrow> string \<Rightarrow> nat \<Rightarrow> inspection \<Rightarrow> ('s, runtime_exn + netns_ref) state" where
  "netns_loop K cid 0 seen = do {
     hint \<leftarrow> log_hint K (ac_container_id (acted cid seen)) seen;
     raise (NetnsRefError (no_pid_message (ac_container_id (acted cid seen)) (ci_state seen) hint)) }"
| "netns_loop K cid (Suc n) seen =
     andE (inspect_container K cid) (\<lambda>i.
     if \<not> ci_exists i \<or> ci_container_id i \<in> {None, Some []} then raise (NetnsRefError (''container not found: '' @ py_repr cid))
     else case ci_pid i of
       Some pid \<Rightarrow>
         if dk_proc_visible K pid then ret (netns_of (str_or_empty (ci_container_id i)) pid)
         else raise (NetnsRefError (hidden_pid_message pid (str_or_empty (ci_container_id i))))
     | None \<Rightarrow>
         if ci_state i \<in> {''running'', ''restarting'', ''created'', ''paused''} then netns_loop K cid n i
         else netns_loop K cid 0 i)"

definition get_container_netns_ref :: "'s docker \<Rightarrow> string \<Rightarrow> ('s, runtime_exn + netns_ref) state" where
  "get_container_netns_ref K cid = netns_loop K cid 50 inspection_not_found"

definition docker_adapter :: "'s docker \<Rightarrow> 's adapter" where
  "docker_adapter K = \<lparr>ra_inspect = inspect_container K, ra_log_tail = fetch_container_log_tail K, ra_ensure = ensure_container K,
     ra_start = start_container K, ra_stop = stop_container K, ra_restart = restart_container K, ra_delete = delete_container K,
     ra_netns = get_container_netns_ref K\<rparr>"

section \<open>Bringing a container up\<close>

record running =
  ru_container_id :: string
  ru_state :: string
  ru_pid :: int
  ru_netns_ref :: string
  ru_ports :: "(int \<times> int) list"

definition SKIP_NETNS_PLACEHOLDER_REF :: string where
  "SKIP_NETNS_PLACEHOLDER_REF = ''/devnest-skip-linux-topology-attachment''"

definition repr_text :: "string option \<Rightarrow> string" where
  "repr_text x = (case x of None \<Rightarrow> ''None'' | Some s \<Rightarrow> py_repr s)"

definition repr_int :: "int option \<Rightarrow> string" where
  "repr_int x = (case x of None \<Rightarrow> ''None'' | Some i \<Rightarrow> str_int i)"

definition workspace_container_log_tail :: "'s adapter \<Rightarrow> string \<Rightarrow> ('s, string) state" where
  "workspace_container_log_tail R cid = do { t \<leftarrow> ra_log_tail R cid 200; State_Monad.return (py_strip t) }"

definition brief :: "inspection \<Rightarrow> string" where
  "brief i = ''(state='' @ py_repr (ci_state i) @ '', pid='' @ repr_int (ci_pid i) @ '', exit_code='' @ repr_int (ci_exit_code i) @
     '', started_at='' @ repr_text (ci_started_at i) @ '', finished_at='' @ repr_text (ci_finished_at i) @ ''). ''"

definition with_tail :: "string \<Rightarrow> string \<Rightarrow> string" where
  "with_tail detail tail =
     (if tail = [] then detail
      else detail @ [CHR 0x0A] @ ''--- workspace container log tail ---'' @ [CHR 0x0A] @ drop (length tail - 8000) tail)"

definition exited_at_once :: "inspection \<Rightarrow> string" where
  "exited_at_once i = ''workspace container exited immediately after start '' @ brief i @
     ''Typical causes: code-server EACCES on bind-mounted config/data, bad ENTRYPOINT/CMD, or OOM. '' @
     ''If you only see exit 143 after a failed bring-up, orchestrator rollback issued SIGTERM via '' @
     ''`docker stop` - capture logs below *before* assuming 143 is the primary failure.''"

definition exited_after_start :: "inspection \<Rightarrow> string" where
  "exited_after_start i = ''workspace container exited after start '' @ brief i @
     ''If exit_code is 143 after bring-up failure, rollback SIGTERM is likely - see log tail for the original startup error.''"

definition never_ran :: "inspection \<Rightarrow> string" where
  "never_ran i = ''workspace container did not reach running with a host PID within the post-start window '' @ brief i @
     ''Topology attach requires a live init PID - fix workspace startup first, then retry.''"

definition start_error :: "'s adapter \<Rightarrow> string \<Rightarrow> string \<Rightarrow> ('s, runtime_exn + 'a) state" where
  "start_error R cid detail = do { tail \<leftarrow> workspace_container_log_tail R cid; raise (ContainerStartError (with_tail detail tail)) }"

definition has_pid :: "inspection \<Rightarrow> bool" where
  "has_pid i = (case ci_pid i of None \<Rightarrow> False | Some p \<Rightarrow> p > 0)"

definition container_dead :: "inspection \<Rightarrow> bool" where
  "container_dead i = (ci_state i = ''exited'' \<or> ci_state i = ''dead'')"

text \<open>
  The looks at a container after its start. The code looks every 50 milliseconds for two seconds; the number
  of looks before the deadline is an argument.
\<close>

fun wait_post_start_inspect :: "'s adapter \<Rightarrow> string \<Rightarrow> bool \<Rightarrow> nat \<Rightarrow> inspection option \<Rightarrow> ('s, runtime_exn + inspection) state" where
  "wait_post_start_inspect R cid skip_netns 0 seen =
     (case seen of None \<Rightarrow> raise (ContainerStartError ''inspect_container returned no result after start'')
      | Some i \<Rightarrow>
          if skip_netns then ret i
          else if container_dead i then start_error R cid (exited_after_start i)
          else if ci_state i \<noteq> ''running'' \<or> \<not> has_pid i then start_error R cid (never_ran i)
          else ret i)"
| "wait_post_start_inspect R cid skip_netns (Suc n) seen =
     andE (ra_inspect R cid) (\<lambda>i.
     if container_dead i then start_error R cid (exited_at_once i)
     else if ci_state i = ''running'' \<and> (skip_netns \<or> has_pid i) then ret i
     else wait_post_start_inspect R cid skip_netns n (Some i))"

definition ensure_running_runtime_only :: "'s adapter \<Rightarrow> nat \<Rightarrow> ensure_args \<Rightarrow> bool \<Rightarrow> ('s, runtime_exn + running) state" where
  "ensure_running_runtime_only R looks a skip_netns =
     andE (ra_ensure R a) (\<lambda>en.
     let cid0 = en_container_id en in
     if cid0 = [] then raise (ContainerCreateError ''ensure_container returned an empty container_id'')
     else andE (ra_start R cid0) (\<lambda>st.
     if \<not> ac_success st
     then start_error R cid0 (case ac_message st of Some (c # cs) \<Rightarrow> c # cs | _ \<Rightarrow> ''container did not reach running state'')
     else andE (wait_post_start_inspect R cid0 skip_netns looks None) (\<lambda>i.
     let cid = (case ci_container_id i of Some (c # cs) \<Rightarrow> c # cs | _ \<Rightarrow> cid0);
         ports = (if ci_ports i \<noteq> [] then ci_ports i else en_ports en)
     in andE (if skip_netns then ret \<lparr>nr_container_id = cid, nr_pid = 0, nr_ref = SKIP_NETNS_PLACEHOLDER_REF\<rparr>
              else ra_netns R cid0) (\<lambda>ns.
        ret \<lparr>ru_container_id = cid, ru_state = ci_state i, ru_pid = nr_pid ns, ru_netns_ref = nr_ref ns, ru_ports = ports\<rparr>))))"

end
