(* ===== verification/Probe.thy ===== *)
theory Probe
  imports Container_Runtime Topology_Repair
begin

text \<open>
  The health probes of a workspace (\<^verbatim>\<open>libs/probes/probe_runner.py\<close>): is the container running, is the workspace attached
  to the bridge of its node, does the editor answer. A probe looks at the container engine through the adapter and
  at the tables of the topology, so its state is a \<open>site\<close>: what is outside the process, of any type, the topology tables, and
  the number of calls to the topology adapter so far, which selects the behaviour of the host during the next one.
  The severity of an issue is always \<^verbatim>\<open>ERROR\<close> and is left out, as are latencies and the result fields no caller reads.
\<close>

section \<open>The site of a workspace\<close>

record 's site =
  si_engine :: 's
  si_topo :: tdb
  si_calls :: nat

definition engine :: "('s, 'a) state \<Rightarrow> ('s site, 'a) state" where
  "engine m = State (\<lambda>s. case run_state m (si_engine s) of (a, e) \<Rightarrow> (a, s\<lparr>si_engine := e\<rparr>))"

definition topo_read :: "(nat \<Rightarrow> topo_world) \<Rightarrow> (topo_world \<Rightarrow> tdb \<Rightarrow> 'a) \<Rightarrow> ('s site, 'a) state" where
  "topo_read Ws f = State (\<lambda>s. (f (Ws (si_calls s)) (si_topo s), s\<lparr>si_calls := Suc (si_calls s)\<rparr>))"

definition topo_call :: "(nat \<Rightarrow> topo_world) \<Rightarrow> (topo_world \<Rightarrow> tdb \<Rightarrow> 'a tresult) \<Rightarrow> ('s site, topo_error + 'a) state" where
  "topo_call Ws f = State (\<lambda>s.
     case f (Ws (si_calls s)) (si_topo s) of
       Inl (e, d) \<Rightarrow> (Inl e, s\<lparr>si_topo := d, si_calls := Suc (si_calls s)\<rparr>)
     | Inr (a, d) \<Rightarrow> (Inr a, s\<lparr>si_topo := d, si_calls := Suc (si_calls s)\<rparr>))"

section \<open>Results\<close>

record health_issue =
  hi_code :: string
  hi_component :: string
  hi_message :: string

record container_probe =
  cp_healthy :: bool
  cp_container_state :: "string option"
  cp_issues :: "health_issue list"

record topology_probe =
  tp_healthy :: bool
  tp_topology_id :: int
  tp_node_id :: string
  tp_workspace_id :: int
  tp_workspace_ip :: "string option"
  tp_internal_endpoint :: "string option"
  tp_issues :: "health_issue list"

record service_probe =
  sp_healthy :: bool
  sp_issues :: "health_issue list"

record workspace_health =
  wh_healthy :: bool
  wh_container_state :: "string option"
  wh_workspace_ip :: "string option"
  wh_internal_endpoint :: "string option"
  wh_issues :: "health_issue list"

definition make_issue :: "string \<Rightarrow> string \<Rightarrow> string \<Rightarrow> health_issue" where
  "make_issue component code message = \<lparr>hi_code = code, hi_component = component, hi_message = message\<rparr>"

section \<open>Network\<close>

text \<open>
  How a connection attempt ends; how an HTTP request ends (\<open>Inl\<close>: no answer; the status otherwise); the command runner on the
  execution host, if there is one (\<open>Some\<close>: the text of its \<^verbatim>\<open>RuntimeError\<close>); the diagnostics the topology adapter gathers for an
  unreachable service; the text of an exception while a table is read; the text of an exception that the probe does not
  catch, such as one of the runner that is no \<^verbatim>\<open>RuntimeError\<close>; \<^verbatim>\<open>str\<close> of a float; three settings.
\<close>

datatype dial = Connected | DialTimeout | DialRefused | DialUnresolved string | DialUnreachable string | DialFailed string

record 's net =
  nt_connect :: "string \<Rightarrow> int \<Rightarrow> rat \<Rightarrow> ('s, dial) state"
  nt_http :: "string \<Rightarrow> rat \<Rightarrow> ('s, string + int) state"
  nt_runner :: "(string list \<Rightarrow> ('s, string option) state) option"
  nt_diagnostics :: "int \<Rightarrow> string \<Rightarrow> int \<Rightarrow> ('s, string) state"
  nt_read_error :: "string \<Rightarrow> ('s, string option) state"
  nt_escape :: "('s, string option) state"
  nt_str_float :: "rat \<Rightarrow> string"
  nt_colocated :: bool
  nt_http_enabled :: bool
  nt_health_path :: string

section \<open>Container\<close>

definition runtime_issue :: "string \<Rightarrow> string \<Rightarrow> health_issue" where
  "runtime_issue code message = make_issue ''runtime'' code message"

definition container_verdict :: "inspection \<Rightarrow> container_probe" where
  "container_verdict i =
     (let state = py_lower (py_strip (ci_state i));
          bad = (\<lambda>code message. \<lparr>cp_healthy = False, cp_container_state = Some (ci_state i), cp_issues = [runtime_issue code message]\<rparr>)
      in if \<not> ci_exists i then bad ''RUNTIME_CONTAINER_MISSING'' ''container does not exist''
         else if state = [] \<or> state = ''unknown'' then bad ''RUNTIME_CONTAINER_STATE_UNKNOWN'' ''container state is unknown or unreadable''
         else if state \<noteq> ''running''
         then bad ''RUNTIME_NOT_RUNNING'' (''container state is '' @ py_repr (ci_state i) @ '', expected running'')
         else \<lparr>cp_healthy = True, cp_container_state = Some (ci_state i), cp_issues = []\<rparr>)"

definition check_container_running :: "'s adapter \<Rightarrow> string \<Rightarrow> ('s, container_probe) state" where
  "check_container_running R container_id =
     (let cid = py_strip container_id in
      if cid = []
      then State_Monad.return \<lparr>cp_healthy = False, cp_container_state = None,
             cp_issues = [make_issue ''probe'' ''PROBE_EXECUTION_FAILED'' ''container_id is empty'']\<rparr>
      else do {
        r \<leftarrow> ra_inspect R cid;
        State_Monad.return (case r of
            Inl e \<Rightarrow> \<lparr>cp_healthy = False, cp_container_state = None,
              cp_issues = [runtime_issue ''RUNTIME_CONTAINER_STATE_UNKNOWN'' (''inspect_container failed: '' @ runtime_text e)]\<rparr>
          | Inr i \<Rightarrow> container_verdict i) })"

section \<open>Topology\<close>

definition parse_non_negative_int :: "string \<Rightarrow> int option" where
  "parse_non_negative_int raw = (case parse_int raw of None \<Rightarrow> None | Some v \<Rightarrow> if v < 0 then None else Some v)"

definition endpoint_or_none :: "string option \<Rightarrow> int \<Rightarrow> string option" where
  "endpoint_or_none workspace_ip port =
     (let ip = py_strip (str_or_empty workspace_ip) in
      if ip = [] \<or> port < 1 \<or> port > 65535 then None else Some (ip @ '':'' @ str_int port))"

definition topology_issue :: "string \<Rightarrow> string \<Rightarrow> health_issue" where
  "topology_issue code message = make_issue ''topology'' code message"

definition detail_or :: "string list \<Rightarrow> string \<Rightarrow> string" where
  "detail_or issues dflt = (if issues = [] then dflt else join_str ''; '' issues)"

definition topology_verdict :: "int \<Rightarrow> string \<Rightarrow> int \<Rightarrow> int \<Rightarrow> check_topology_result \<Rightarrow> check_attachment_result \<Rightarrow> topology_probe" where
  "topology_verdict tid nid wid port topo att =
     (let ws_ip = strip_or_none (ca_workspace_ip att);
          endpoint = endpoint_or_none ws_ip port;
          issues =
            (if cr_healthy topo then []
             else [topology_issue ''TOPOLOGY_UNHEALTHY'' (detail_or (cr_issues topo) ''topology runtime unhealthy'')])
            @ (if ca_healthy att then []
               else [topology_issue ''TOPOLOGY_ATTACHMENT_MISSING'' (detail_or (ca_issues att) ''attachment unhealthy'')])
            @ (if ws_ip \<noteq> None then []
               else [topology_issue ''TOPOLOGY_WORKSPACE_IP_MISSING'' ''workspace_ip is not set on attachment or lease''])
            @ (if endpoint \<noteq> None then []
               else [topology_issue ''TOPOLOGY_INTERNAL_ENDPOINT_MISSING''
                 (if ws_ip \<noteq> None then ''cannot derive internal endpoint (invalid expected_port='' @ str_int port @ '')''
                  else ''cannot derive internal endpoint without workspace_ip'')])
      in \<lparr>tp_healthy = (issues = []), tp_topology_id = tid, tp_node_id = nid, tp_workspace_id = wid, tp_workspace_ip = ws_ip,
          tp_internal_endpoint = endpoint, tp_issues = issues\<rparr>)"

definition topology_probe_failed :: "int \<Rightarrow> string \<Rightarrow> int \<Rightarrow> string \<Rightarrow> topology_probe" where
  "topology_probe_failed tid nid wid message =
     \<lparr>tp_healthy = False, tp_topology_id = tid, tp_node_id = nid, tp_workspace_id = wid, tp_workspace_ip = None, tp_internal_endpoint = None,
      tp_issues = [make_issue ''probe'' ''PROBE_EXECUTION_FAILED'' message]\<rparr>"

definition check_topology_state ::
  "(nat \<Rightarrow> topo_world) \<Rightarrow> 's net \<Rightarrow> string \<Rightarrow> string \<Rightarrow> string \<Rightarrow> int \<Rightarrow> ('s site, topology_probe) state" where
  "check_topology_state Ws N topology_id node_id workspace_id port =
     (let nid = clean_node node_id in
      case (parse_non_negative_int topology_id, parse_non_negative_int workspace_id) of
        (Some tid, Some wid) \<Rightarrow> do {
          e1 \<leftarrow> engine (nt_read_error N ''check_topology'');
          case e1 of Some m \<Rightarrow> State_Monad.return (topology_probe_failed tid nid wid (''check_topology failed: '' @ m))
          | None \<Rightarrow> do {
              topo \<leftarrow> topo_read Ws (\<lambda>W. check_topology W tid nid);
              e2 \<leftarrow> engine (nt_read_error N ''check_attachment'');
              case e2 of Some m \<Rightarrow> State_Monad.return (topology_probe_failed tid nid wid (''check_attachment failed: '' @ m))
              | None \<Rightarrow> do {
                  att \<leftarrow> topo_read Ws (\<lambda>W. check_attachment W tid nid wid);
                  State_Monad.return (topology_verdict tid nid wid port topo att) } } }
      | (t, w) \<Rightarrow> State_Monad.return (topology_probe_failed (case t of None \<Rightarrow> 0 | Some v \<Rightarrow> v) nid (case w of None \<Rightarrow> 0 | Some v \<Rightarrow> v)
          ''topology_id and workspace_id must be non-negative integers''))"

section \<open>Service\<close>

definition service_issue :: "string \<Rightarrow> string \<Rightarrow> health_issue" where
  "service_issue code message = make_issue ''service'' code message"

definition service_up :: service_probe where
  "service_up = \<lparr>sp_healthy = True, sp_issues = []\<rparr>"

definition service_down :: "health_issue \<Rightarrow> service_probe" where
  "service_down i = \<lparr>sp_healthy = False, sp_issues = [i]\<rparr>"

definition ide_health_http_path :: "'s net \<Rightarrow> string" where
  "ide_health_http_path N =
     (let p0 = py_strip (nt_health_path N); p = (if p0 = [] then ''/healthz'' else p0) in if starts_with ''/'' p then p else ''/'' @ p)"

definition missing_probe_binary_from_runner_error :: "string \<Rightarrow> string option" where
  "missing_probe_binary_from_runner_error t =
     (if \<not> contains_str ''no such file or directory'' (py_lower t) \<and> \<not> contains_str ''exit=127)'' t then None
      else find (\<lambda>name. contains_str (py_repr name) t \<or> contains_str ([CHR 0x60] @ name @ [CHR 0x60]) t) [''nc'', ''timeout'', ''curl''])"

definition probe_runtime_binary_issue :: "string \<Rightarrow> string \<Rightarrow> health_issue" where
  "probe_runtime_binary_issue binary t =
     make_issue ''probe'' ''PROBE_RUNTIME_BINARY_MISSING''
       (take 2400 (''probe runtime missing required binary: '' @ binary @ '' ('' @
          (if binary = ''nc'' then ''install netcat-openbsd (nc) on the backend/workspace-worker image''
           else ''install the missing package on the probe image'') @ ''). Details: '' @ t))"

definition nc_hint :: "string \<Rightarrow> string" where
  "nc_hint t =
     (if contains_str ''exit=1)'' t \<and> contains_str ''nc'' (py_lower t)
      then '' [hint: netcat-openbsd often uses exit 1 for TCP refused or failed connect; '' @
        ''if the topology bridge is NO-CARRIER with no `ip link show master <bridge>` ports, '' @
        ''host L2 to the workspace netns is broken despite DB ATTACHED - see '' @
        ''topology_linux_attach_* logs / attach fast-path stale plumbing warning.]''
      else [])"

definition whole_seconds :: "rat \<Rightarrow> string" where
  "whole_seconds timeout = str_int (max 1 (min 60 \<lceil>timeout\<rceil>))"

text \<open>Both checks through the runner end alike: a missing program is told from a failing one.\<close>

definition runner_verdict :: "(string \<Rightarrow> health_issue) \<Rightarrow> string option \<Rightarrow> service_probe" where
  "runner_verdict failed r =
     (case r of None \<Rightarrow> service_up
      | Some t \<Rightarrow> service_down (case missing_probe_binary_from_runner_error t of
            Some binary \<Rightarrow> probe_runtime_binary_issue binary t | None \<Rightarrow> failed t))"

definition check_service_reachable_via_runner ::
  "(string list \<Rightarrow> ('s, string option) state) \<Rightarrow> string \<Rightarrow> int \<Rightarrow> rat \<Rightarrow> ('s, service_probe) state" where
  "check_service_reachable_via_runner run workspace_ip port timeout =
     (let ip = py_strip workspace_ip in
      if parse_ip4 ip = None
      then State_Monad.return (service_down (service_issue ''SERVICE_CONNECT_ERROR''
             (''remote service probe requires IPv4 workspace_ip (got '' @ py_repr workspace_ip @ ''); extend probe for IPv6 or use local routing'')))
      else do {
        r \<leftarrow> run [''timeout'', whole_seconds timeout, ''nc'', ''-z'', ip, str_int port];
        State_Monad.return (runner_verdict (\<lambda>t. service_issue ''SERVICE_UNREACHABLE''
          (''remote nc probe failed for '' @ py_repr ip @ '':'' @ str_int port @ '': '' @ t @ nc_hint t)) r) })"

fun dial_verdict :: "'s net \<Rightarrow> string \<Rightarrow> int \<Rightarrow> rat \<Rightarrow> dial \<Rightarrow> service_probe" where
  "dial_verdict N ip port timeout Connected = service_up"
| "dial_verdict N ip port timeout DialTimeout = service_down (service_issue ''SERVICE_TIMEOUT''
     (''TCP connect to '' @ py_repr ip @ '':'' @ str_int port @ '' timed out after '' @ nt_str_float N timeout @ ''s''))"
| "dial_verdict N ip port timeout DialRefused = service_down (service_issue ''SERVICE_UNREACHABLE''
     (''TCP connect to '' @ py_repr ip @ '':'' @ str_int port @ '' refused''))"
| "dial_verdict N ip port timeout (DialUnresolved m) = service_down (service_issue ''SERVICE_CONNECT_ERROR''
     (''TCP connect address resolution failed for '' @ py_repr ip @ '':'' @ str_int port @ '': '' @ m))"
| "dial_verdict N ip port timeout (DialUnreachable m) = service_down (service_issue ''SERVICE_UNREACHABLE''
     (''TCP connect to '' @ py_repr ip @ '':'' @ str_int port @ '' unreachable: '' @ m))"
| "dial_verdict N ip port timeout (DialFailed m) = service_down (service_issue ''SERVICE_CONNECT_ERROR''
     (''TCP connect to '' @ py_repr ip @ '':'' @ str_int port @ '' failed: '' @ m))"

definition check_service_reachable :: "'s net \<Rightarrow> string \<Rightarrow> int \<Rightarrow> rat \<Rightarrow> ('s, service_probe) state" where
  "check_service_reachable N workspace_ip port timeout =
     (let ip = py_strip workspace_ip; refuse = (\<lambda>m. State_Monad.return (service_down (service_issue ''SERVICE_CONNECT_ERROR'' m))) in
      if ip = [] then refuse ''workspace_ip is empty''
      else if port < 1 \<or> port > 65535 then refuse (''invalid port: '' @ str_int port)
      else if timeout \<le> 0 then refuse (''timeout_seconds must be a finite positive value, got '' @ nt_str_float N timeout)
      else case nt_runner N of
        Some run \<Rightarrow> check_service_reachable_via_runner run ip port timeout
      | None \<Rightarrow>
          if \<not> nt_colocated N
          then refuse (''TCP probe from this process is disabled (devnest_probe_assume_colocated_engine=false); '' @
                 ''use execution_node SSH/SSM so service_reachability_runner runs checks on the workspace host, or '' @
                 ''enable colocated mode for local/dev.'')
          else do { r \<leftarrow> nt_connect N ip port timeout; State_Monad.return (dial_verdict N ip port timeout r) })"

definition http_url :: "'s net \<Rightarrow> string \<Rightarrow> int \<Rightarrow> string" where
  "http_url N ip port = ''http://'' @ ip @ '':'' @ str_int port @ ide_health_http_path N"

definition http_issue :: "string \<Rightarrow> health_issue" where
  "http_issue message = service_issue ''SERVICE_HTTP_NOT_READY'' message"

definition check_service_http_via_runner ::
  "'s net \<Rightarrow> (string list \<Rightarrow> ('s, string option) state) \<Rightarrow> string \<Rightarrow> int \<Rightarrow> rat \<Rightarrow> ('s, service_probe) state" where
  "check_service_http_via_runner N run workspace_ip port timeout =
     (let ip = py_strip workspace_ip; url = http_url N ip port; w = whole_seconds timeout in
      if parse_ip4 ip = None
      then State_Monad.return (service_down (http_issue
             (''remote HTTP probe requires IPv4 workspace_ip (got '' @ py_repr workspace_ip @ ''); extend probe for IPv6 or use local HTTP check'')))
      else do {
        r \<leftarrow> run [''timeout'', w, ''curl'', ''-sf'', ''--max-time'', w, url];
        State_Monad.return (runner_verdict (\<lambda>t. http_issue (''remote curl HTTP probe failed for '' @ py_repr url @ '': '' @ t)) r) })"

definition check_service_http :: "'s net \<Rightarrow> string \<Rightarrow> int \<Rightarrow> rat \<Rightarrow> ('s, service_probe) state" where
  "check_service_http N workspace_ip port timeout =
     (case nt_runner N of
        Some run \<Rightarrow> check_service_http_via_runner N run workspace_ip port timeout
      | None \<Rightarrow>
          (let url = http_url N (py_strip workspace_ip) port in do {
             r \<leftarrow> nt_http N url timeout;
             State_Monad.return (case r of
                 Inl m \<Rightarrow> service_down (http_issue (''HTTP GET '' @ url @ '' failed: '' @ m))
               | Inr status \<Rightarrow> if status < 400 then service_up
                   else service_down (http_issue (''HTTP GET '' @ url @ '' returned '' @ str_int status))) }))"

section \<open>Roll-up\<close>

definition dial_issue :: "health_issue \<Rightarrow> bool" where
  "dial_issue i \<longleftrightarrow> hi_component i = ''service'' \<and> (hi_code i = ''SERVICE_UNREACHABLE'' \<or> hi_code i = ''SERVICE_TIMEOUT'')"

definition prepend_topology_ok_no_listener_hint :: "int \<Rightarrow> health_issue list \<Rightarrow> health_issue list" where
  "prepend_topology_ok_no_listener_hint port issues =
     (let prefix = ''workspace topology attached but nothing is listening on 0.0.0.0:'' @ str_int port @
            '' (IDE still starting or process exited); ''
      in map (\<lambda>i. if dial_issue i \<and> \<not> starts_with prefix (hi_message i)
                  then i\<lparr>hi_message := take 5000 (prefix @ hi_message i)\<rparr> else i) issues)"

fun with_diagnostics :: "string \<Rightarrow> health_issue list \<Rightarrow> health_issue list" where
  "with_diagnostics blob [] = []"
| "with_diagnostics blob (i # is) =
     (if dial_issue i then i\<lparr>hi_message := hi_message i @ ''; host/workspace diagnostics: '' @ blob\<rparr> # is
      else i # with_diagnostics blob is)"

definition augment_unreachable_service_probe ::
  "'s net \<Rightarrow> service_probe \<Rightarrow> int \<Rightarrow> string \<Rightarrow> int \<Rightarrow> ('s, service_probe) state" where
  "augment_unreachable_service_probe N svc tid nid wid =
     (if sp_healthy svc \<or> \<not> list_ex dial_issue (sp_issues svc) then State_Monad.return svc
      else do {
        text \<leftarrow> nt_diagnostics N tid nid wid;
        (let blob = take 2400 (py_strip text) in
         State_Monad.return (if blob = [] then svc else svc\<lparr>sp_issues := with_diagnostics blob (sp_issues svc)\<rparr>)) })"

text \<open>Whether the service is healthy, and the issues of the service part.\<close>

definition service_part :: "'s net \<Rightarrow> topology_probe \<Rightarrow> int \<Rightarrow> rat \<Rightarrow> ('s, service_probe) state" where
  "service_part N topo port timeout =
     (let ws_ip = py_strip (str_or_empty (tp_workspace_ip topo)) in
      if ws_ip = []
      then State_Monad.return \<lparr>sp_healthy = False,
             sp_issues = (if list_ex (\<lambda>i. hi_code i = ''TOPOLOGY_WORKSPACE_IP_MISSING'') (tp_issues topo) then []
               else [topology_issue ''TOPOLOGY_WORKSPACE_IP_MISSING'' ''service probe skipped: no workspace_ip from topology probe''])\<rparr>
      else do {
        svc0 \<leftarrow> check_service_reachable N ws_ip port timeout;
        svc \<leftarrow> augment_unreachable_service_probe N svc0 (tp_topology_id topo) (tp_node_id topo) (tp_workspace_id topo);
        if sp_healthy svc
        then (if nt_http_enabled N
              then do {
                h \<leftarrow> check_service_http N ws_ip port timeout;
                State_Monad.return \<lparr>sp_healthy = sp_healthy h, sp_issues = sp_issues svc @ sp_issues h\<rparr> }
              else State_Monad.return svc)
        else State_Monad.return \<lparr>sp_healthy = False,
               sp_issues = (if tp_healthy topo then prepend_topology_ok_no_listener_hint port (sp_issues svc) else sp_issues svc)\<rparr> })"

definition check_workspace_health ::
  "'s adapter \<Rightarrow> (nat \<Rightarrow> topo_world) \<Rightarrow> 's net \<Rightarrow> string \<Rightarrow> string \<Rightarrow> string \<Rightarrow> string \<Rightarrow> int \<Rightarrow> rat \<Rightarrow> ('s site, workspace_health) state" where
  "check_workspace_health R Ws N workspace_id topology_id node_id container_id port timeout = do {
     ctr \<leftarrow> engine (check_container_running R container_id);
     topo \<leftarrow> check_topology_state Ws N topology_id node_id workspace_id port;
     svc \<leftarrow> engine (service_part N topo port timeout);
     State_Monad.return
       \<lparr>wh_healthy = (cp_healthy ctr \<and> tp_healthy topo \<and> sp_healthy svc), wh_container_state = cp_container_state ctr,
        wh_workspace_ip = tp_workspace_ip topo, wh_internal_endpoint = tp_internal_endpoint topo,
        wh_issues = cp_issues ctr @ tp_issues topo @ sp_issues svc\<rparr> }"

end
