(* ===== verification/Teardown.thy ===== *)
theory Teardown
  imports Probe Orchestrator Binding
begin

text \<open>
  The orchestrator implementation (\<^verbatim>\<open>orchestrator_service/service.py\<close>), first part: the service with what it is
  built from, stopping and deleting a workspace runtime. An operation is a computation on the \<open>site\<close> of the workspace.
\<close>

section \<open>The service\<close>

text \<open>
  Directories on the execution host, whose preparation is work of the operating system, are parameters:
  \<open>hd_project_dir\<close> finds or makes the directory of a workspace (\<open>Inl\<close>: \<^verbatim>\<open>ValueError\<close>), \<open>hd_bind_path\<close> chooses the directory to mount in
  it (\<open>Inl\<close>: \<^verbatim>\<open>OSError\<close>), \<open>hd_dir_exists\<close> only looks (\<open>Inl\<close>: \<^verbatim>\<open>ValueError\<close>), \<open>hd_mounts\<close> prepares the directories of the editor's configuration and
  data (\<open>Inl\<close>: the text of the \<^verbatim>\<open>WorkspaceBringUpError\<close>), \<open>hd_verify\<close> checks owner and permissions of a mounted
  directory, and \<open>hd_finalize\<close> sets the owner once more (\<open>Some\<close>: the text of an \<^verbatim>\<open>OSError\<close>).
\<close>

record 's host_dirs =
  hd_project_dir :: "string \<Rightarrow> string option \<Rightarrow> bool \<Rightarrow> ('s, string + string) state"
  hd_bind_path :: "string \<Rightarrow> string option \<Rightarrow> ('s, string + string) state"
  hd_dir_exists :: "string \<Rightarrow> string option \<Rightarrow> ('s, string + bool) state"
  hd_mounts :: "string \<Rightarrow> string \<Rightarrow> string \<Rightarrow> string \<Rightarrow> ('s, string + (string \<times> string)) state"
  hd_verify :: "string \<Rightarrow> ('s, string option) state"
  hd_finalize :: "string \<Rightarrow> ('s, string option) state"

text \<open>The settings a bring-up reads. Limits are rational or integral, so never infinite.\<close>

record workspace_settings =
  wt_cpu_limit :: rat
  wt_memory_limit_mb :: int
  wt_pids_limit :: int
  wt_auth_mode :: string
  wt_password :: string
  wt_no_new_privileges :: bool
  wt_seccomp_default :: bool
  wt_cap_drop :: string
  wt_read_only_rootfs :: bool
  wt_tcp_wait_seconds :: rat

text \<open>
  The loops of the code look until a deadline; how often they get to look is the record \<open>looks\<close>. \<open>lk_per_try\<close> is the
  time limit of one attempt. \<open>sv_netns_visible\<close> is the check whether a network namespace can be seen from this process (\<open>Some\<close>: the text
  of its \<^verbatim>\<open>RuntimeError\<close>), \<open>sv_proc_visible\<close> whether a process can, \<open>sv_proc_repr\<close> how messages show the latter.
\<close>

record looks =
  lk_start :: nat
  lk_alive :: "string \<Rightarrow> nat"
  lk_tcp :: nat
  lk_http :: nat
  lk_health :: nat
  lk_per_try :: "nat \<Rightarrow> rat"

record 's service =
  sv_env :: env
  sv_settings :: workspace_settings
  sv_runtime :: "'s adapter"
  sv_topo :: "nat \<Rightarrow> topo_world"
  sv_net :: "'s net"
  sv_dirs :: "'s host_dirs"
  sv_looks :: looks
  sv_topology_id :: int
  sv_node_id :: string
  sv_routing_host :: "string option"
  sv_workspace_image :: "string option"
  sv_host_runner :: bool
  sv_attach_deferred :: bool
  sv_skip_attach :: bool
  sv_netns_visible :: "string \<Rightarrow> ('s, string option) state"
  sv_proc_visible :: "int \<Rightarrow> bool"
  sv_proc_repr :: "int option \<Rightarrow> string"

text \<open>An exception on its way through a bring-up: of the runtime adapter, of the topology adapter, of the orchestrator itself, or any other.\<close>

datatype step_exn = RuntimeExn runtime_exn | TopologyExn topo_error | OrchExn orch_exn | PyExn string

definition of_runtime :: "('s, runtime_exn + 'a) state \<Rightarrow> ('s site, step_exn + 'a) state" where
  "of_runtime m = do { r \<leftarrow> engine m; case r of Inl e \<Rightarrow> raise (RuntimeExn e) | Inr a \<Rightarrow> ret a }"

definition of_topology :: "'s service \<Rightarrow> (topo_world \<Rightarrow> tdb \<Rightarrow> 'a tresult) \<Rightarrow> ('s site, step_exn + 'a) state" where
  "of_topology S f = do { r \<leftarrow> topo_call (sv_topo S) f; case r of Inl e \<Rightarrow> raise (TopologyExn e) | Inr a \<Rightarrow> ret a }"

fun step_text :: "step_exn \<Rightarrow> string" where
  "step_text (RuntimeExn e) = runtime_text e"
| "step_text (TopologyExn e) = topo_error_text e"
| "step_text (OrchExn e) = exn_text e"
| "step_text (PyExn m) = m"

fun is_topology_error :: "topo_error \<Rightarrow> bool" where
  "is_topology_error (TopologyValueError _) = False"
| "is_topology_error (TopologyHostError _) = False"
| "is_topology_error (TopologyDatabaseError _) = False"
| "is_topology_error _ = True"

definition bring_up_error :: "string \<Rightarrow> orch_exn" where
  "bring_up_error m = WorkspaceBringUpError m False None None None None"

section \<open>Names and texts\<close>

definition name_char :: "char \<Rightarrow> bool" where
  "name_char c \<longleftrightarrow> (let n = of_char c :: nat in 97 \<le> n \<and> n \<le> 122 \<or> 65 \<le> n \<and> n \<le> 90 \<or> is_digit c \<or> c = CHR ''_'' \<or> c = CHR ''.'' \<or> c = CHR ''-'')"

text \<open>Each run of other characters becomes one dash; \<open>gap\<close> says that the previous character was one of them.\<close>

fun dash_runs :: "bool \<Rightarrow> string \<Rightarrow> string" where
  "dash_runs gap [] = []"
| "dash_runs gap (c # cs) = (if name_char c then c # dash_runs False cs else if gap then dash_runs True cs else CHR ''-'' # dash_runs True cs)"

definition sanitize_container_name :: "string \<Rightarrow> string" where
  "sanitize_container_name workspace_id =
     (let raw0 = dash_runs False (py_strip workspace_id);
          raw = (case raw0 of [] \<Rightarrow> ''workspace''
                 | c # _ \<Rightarrow> if c = CHR ''_'' \<or> c = CHR ''.'' \<or> c = CHR ''-'' then CHR ''w'' # raw0 else raw0)
      in take 120 (''devnest-ws-'' @ raw))"

definition parse_topology_workspace_id :: "string \<Rightarrow> orch_exn + int" where
  "parse_topology_workspace_id workspace_id =
     (case parse_int (py_strip workspace_id) of
        None \<Rightarrow> Inl (bring_up_error (''workspace_id must be a base-10 integer for V1 topology allocation: '' @ py_repr workspace_id))
      | Some v \<Rightarrow> if v < 0 then Inl (bring_up_error (''workspace_id must be non-negative: '' @ str_int v)) else Inr v)"

definition issues_or_none :: "string list \<Rightarrow> string list option" where
  "issues_or_none issues = (let cleaned = filter (\<lambda>x. x \<noteq> []) (map py_strip issues) in if cleaned = [] then None else Some cleaned)"

definition stop_workspace_success_roll_up :: "bool \<Rightarrow> bool option \<Rightarrow> string list \<Rightarrow> bool" where
  "stop_workspace_success_roll_up stop_success topology_detached issues =
     (if topology_detached = Some False \<and> list_ex (\<lambda>i. starts_with ''topology:detach_failed:'' (py_strip i)) issues then False
      else if list_ex (\<lambda>i. starts_with ''topology:ip_release_failed:'' (py_strip i)) issues then False
      else stop_success)"

definition detach_failed_issue :: "string \<Rightarrow> string" where
  "detach_failed_issue m = ''topology:detach_failed:'' @ m"

definition release_failed_issue :: "string \<Rightarrow> string" where
  "release_failed_issue m = ''topology:ip_release_failed:'' @ m"

text \<open>The identifier and the state an inspection gives, with the reference the caller used as a fallback.\<close>

definition known_container :: "string \<Rightarrow> inspection \<Rightarrow> string option" where
  "known_container ref i = none_if_empty (py_strip (case ci_container_id i of Some (c # cs) \<Rightarrow> c # cs | _ \<Rightarrow> ref))"

definition message_or :: "string option \<Rightarrow> string \<Rightarrow> string" where
  "message_or m dflt = (case m of Some (c # cs) \<Rightarrow> c # cs | _ \<Rightarrow> dflt)"

section \<open>Stop\<close>

definition stop_load_inspection ::
  "'s service \<Rightarrow> string \<Rightarrow> string \<Rightarrow> ('s site, orch_exn + (int \<times> string option \<times> string option)) state" where
  "stop_load_inspection S wid container_ref =
     (case parse_topology_workspace_id wid of Inl e \<Rightarrow> raise e
      | Inr ws_int \<Rightarrow> do {
          r \<leftarrow> engine (ra_inspect (sv_runtime S) container_ref);
          case r of
            Inl e \<Rightarrow> raise (WorkspaceStopError (''inspect_container failed: '' @ runtime_text e))
          | Inr i \<Rightarrow> ret (ws_int, known_container container_ref i, none_if_empty (py_strip (ci_state i))) })"

text \<open>Both return the issues they add.\<close>

definition detach_best_effort ::
  "(string \<Rightarrow> orch_exn) \<Rightarrow> 's service \<Rightarrow> int \<Rightarrow> ('s site, orch_exn + (bool option \<times> string list)) state" where
  "detach_best_effort unexpected S ws_int = do {
     r \<leftarrow> topo_call (sv_topo S) (\<lambda>W. detach_workspace W (sv_topology_id S) (sv_node_id S) ws_int);
     case r of
       Inr det \<Rightarrow> ret (Some (dr_detached det), [])
     | Inl e \<Rightarrow>
         if is_topology_error e then ret (Some False, [detach_failed_issue (topo_error_text e)])
         else raise (unexpected (''unexpected detach failure: '' @ topo_error_text e)) }"

definition stop_container_best_effort ::
  "'s service \<Rightarrow> string option \<Rightarrow> ('s site, orch_exn + (bool \<times> string option \<times> string list)) state" where
  "stop_container_best_effort S container_id =
     (case container_id of
        None \<Rightarrow> ret (False, None, [''runtime:container_id_missing''])
      | Some cid \<Rightarrow> do {
          r \<leftarrow> engine (ra_stop (sv_runtime S) cid);
          case r of
            Inr res \<Rightarrow> ret (ac_success res, none_if_empty (py_strip (ac_state res)),
              if ac_success res then []
              else [''runtime:stop_failed:'' @ message_or (ac_message res) ''stop_container returned success=False''])
          | Inl e \<Rightarrow>
              if is_adapter_error e then ret (False, None, [''runtime:stop_failed:'' @ runtime_text e])
              else raise (WorkspaceStopError (''unexpected stop failure: '' @ runtime_text e)) })"

text \<open>An exception other than a \<^verbatim>\<open>TopologyError\<close> is not caught.\<close>

definition release_lease :: "'s service \<Rightarrow> int \<Rightarrow> ('s site, orch_exn + string list) state" where
  "release_lease S ws_int = do {
     r \<leftarrow> topo_call (sv_topo S) (\<lambda>W. release_workspace_ip_lease W (sv_topology_id S) (sv_node_id S) ws_int);
     case r of
       Inr _ \<Rightarrow> ret []
     | Inl e \<Rightarrow> if is_topology_error e then ret [release_failed_issue (topo_error_text e)]
         else raise (OtherException (topo_error_text e)) }"

definition container_id_required :: "'s service \<Rightarrow> string \<Rightarrow> bool" where
  "container_id_required S cid_in \<longleftrightarrow> authoritative_container_ref_required (sv_env S) \<and> cid_in = []"

definition container_reference :: "string \<Rightarrow> string \<Rightarrow> string" where
  "container_reference cid_in wid = (if cid_in \<noteq> [] then cid_in else sanitize_container_name wid)"

definition stop_workspace_runtime ::
  "'s service \<Rightarrow> string \<Rightarrow> string option \<Rightarrow> bool \<Rightarrow> ('s site, orch_exn + stop_result) state" where
  "stop_workspace_runtime S workspace_id container_id release_ip_lease =
     (let wid = py_strip workspace_id; cid_in = py_strip (str_or_empty container_id) in
      if wid = [] then raise (WorkspaceStopError ''workspace_id is empty'')
      else if container_id_required S cid_in
      then ret \<lparr>st_success = False, st_container_id = None, st_container_state = None, st_topology_detached = None,
                st_issues = Some [''runtime:authoritative_container_id_required'']\<rparr>
      else andE (stop_load_inspection S wid (container_reference cid_in wid)) (\<lambda>(ws_int, cid, state_before).
        andE (detach_best_effort WorkspaceStopError S ws_int) (\<lambda>(detached, issues1).
        andE (stop_container_best_effort S cid) (\<lambda>(stop_success, stopped_state, issues2).
        andE (if release_ip_lease then release_lease S ws_int else ret []) (\<lambda>issues3.
        (let issues = issues1 @ issues2 @ issues3 in
         ret \<lparr>st_success = stop_workspace_success_roll_up stop_success detached issues, st_container_id = cid,
              st_container_state = (if stopped_state \<noteq> None then stopped_state else state_before),
              st_topology_detached = detached, st_issues = issues_or_none issues\<rparr>))))))"

section \<open>Delete\<close>

definition delete_load_inspection :: "'s service \<Rightarrow> string \<Rightarrow> string \<Rightarrow> ('s site, orch_exn + (int \<times> string option)) state" where
  "delete_load_inspection S wid container_ref =
     (case parse_topology_workspace_id wid of Inl e \<Rightarrow> raise (WorkspaceDeleteError (exn_text e))
      | Inr ws_int \<Rightarrow> do {
          r \<leftarrow> engine (ra_inspect (sv_runtime S) container_ref);
          case r of
            Inl e \<Rightarrow> raise (WorkspaceDeleteError (''inspect_container failed: '' @ runtime_text e))
          | Inr i \<Rightarrow> ret (ws_int, known_container container_ref i) })"

fun container_gone :: "runtime_exn \<Rightarrow> bool" where
  "container_gone (ContainerNotFoundError _) = True"
| "container_gone _ = False"

definition delete_container_best_effort ::
  "'s service \<Rightarrow> string option \<Rightarrow> ('s site, orch_exn + (bool \<times> string list)) state" where
  "delete_container_best_effort S container_id =
     (case container_id of
        None \<Rightarrow> ret (False, [''runtime:container_id_missing''])
      | Some cid \<Rightarrow> do {
          r \<leftarrow> engine (ra_delete (sv_runtime S) cid);
          case r of
            Inr res \<Rightarrow> ret (ac_success res,
              if ac_success res then []
              else [''runtime:delete_failed:'' @ message_or (ac_message res) ''delete_container returned success=False''])
          | Inl e \<Rightarrow>
              if container_gone e then ret (True, [])
              else if is_adapter_error e then ret (False, [''runtime:delete_failed:'' @ runtime_text e])
              else raise (WorkspaceDeleteError (''unexpected delete failure: '' @ runtime_text e)) })"

fun is_delete_error :: "topo_error \<Rightarrow> bool" where
  "is_delete_error (TopologyDeleteError _) = True"
| "is_delete_error _ = False"

definition delete_topology_best_effort :: "'s service \<Rightarrow> ('s site, orch_exn + string list) state" where
  "delete_topology_best_effort S = do {
     r \<leftarrow> topo_call (sv_topo S) (\<lambda>W. delete_topology W (sv_topology_id S) (sv_node_id S));
     case r of
       Inr _ \<Rightarrow> ret []
     | Inl e \<Rightarrow> if is_delete_error e then ret [''topology:delete_failed:'' @ topo_error_text e]
         else raise (WorkspaceDeleteError (''unexpected topology delete failure: '' @ topo_error_text e)) }"

definition delete_workspace_runtime :: "'s service \<Rightarrow> string \<Rightarrow> string option \<Rightarrow> ('s site, orch_exn + delete_result) state" where
  "delete_workspace_runtime S workspace_id container_id =
     (let wid = py_strip workspace_id; cid_in = py_strip (str_or_empty container_id) in
      if wid = [] then raise (WorkspaceDeleteError ''workspace_id is empty'')
      else if container_id_required S cid_in
      then ret \<lparr>de_success = False, de_issues = Some [''runtime:authoritative_container_id_required'']\<rparr>
      else andE (delete_load_inspection S wid (container_reference cid_in wid)) (\<lambda>(ws_int, cid).
        andE (detach_best_effort WorkspaceDeleteError S ws_int) (\<lambda>(detached, issues1).
        andE (delete_container_best_effort S cid) (\<lambda>(deleted, issues2).
        andE (delete_topology_best_effort S) (\<lambda>issues3.
        ret \<lparr>de_success = (deleted \<and> detached \<noteq> Some False), de_issues = issues_or_none (issues1 @ issues2 @ issues3)\<rparr>)))))"

end
