(* ===== verification/Bring_Up.thy ===== *)
theory Bring_Up
  imports Teardown
begin

text \<open>
  The orchestrator implementation, second part: bringing a workspace runtime up, with its compensating rollback
  (\<^verbatim>\<open>orchestrator_service/service.py\<close>, \<^verbatim>\<open>libs/runtime/workspace_container_policy.py\<close>).
\<close>

section \<open>Limits and security options\<close>

definition resolve_limits ::
  "workspace_settings \<Rightarrow> rat option \<Rightarrow> int option \<Rightarrow> int option \<Rightarrow> orch_exn + (rat \<times> int \<times> int)" where
  "resolve_limits T cpu_limit memory_limit pids_limit =
     (let cpu = (case cpu_limit of None \<Rightarrow> wt_cpu_limit T | Some c \<Rightarrow> c);
          mem = (case memory_limit of None \<Rightarrow> wt_memory_limit_mb T | Some m \<Rightarrow> m);
          pids = (case pids_limit of None \<Rightarrow> wt_pids_limit T | Some p \<Rightarrow> p)
      in if cpu \<le> 0 then Inl (bring_up_error ''runtime:cpu_limit_cores:must_be_positive_finite'')
         else if mem \<le> 0 then Inl (bring_up_error ''runtime:memory_limit_mib:must_be_positive'')
         else if pids \<le> 0 then Inl (bring_up_error ''runtime:pids_limit:must_be_positive'')
         else Inr (cpu, mem, pids))"

text \<open>Words between spaces and commas.\<close>

fun words_of :: "string \<Rightarrow> string \<Rightarrow> string list" where
  "words_of acc [] = (if acc = [] then [] else [rev acc])"
| "words_of acc (c # cs) =
     (if py_space c \<or> c = CHR '','' then (if acc = [] then words_of [] cs else rev acc # words_of [] cs) else words_of (c # acc) cs)"

definition parse_cap_drop_setting :: "string \<Rightarrow> string list" where
  "parse_cap_drop_setting raw = map (map upper_char) (words_of [] raw)"

definition build_security_spec :: "workspace_settings \<Rightarrow> security_spec" where
  "build_security_spec T =
     \<lparr>se_security_opt = (if wt_no_new_privileges T then [''no-new-privileges:true''] else [])
        @ (if wt_seccomp_default T then [] else [''seccomp=unconfined'']),
      se_cap_drop = parse_cap_drop_setting (wt_cap_drop T), se_read_only_rootfs = wt_read_only_rootfs T,
      se_seccomp_mode = (if wt_seccomp_default T then ''engine_default'' else ''unconfined'')\<rparr>"

definition to_applied_dict :: "security_spec \<Rightarrow> jobj" where
  "to_applied_dict sp =
     [(''security_opt'', JList (map JStr (se_security_opt sp))), (''cap_drop'', JList (map JStr (se_cap_drop sp))),
      (''read_only_rootfs'', JBool (se_read_only_rootfs sp)), (''seccomp'', JStr (se_seccomp_mode sp))]"

section \<open>Context\<close>

record bring_up_context =
  bc_wid :: string
  bc_ws_int :: int
  bc_container_name :: string
  bc_host_path :: string
  bc_launch_mode :: string
  bc_labels :: "(string \<times> string) list"

definition CONFIG_VERSION_LABEL :: string where
  "CONFIG_VERSION_LABEL = ''devnest.config_version''"

definition context_labels :: "string \<Rightarrow> int option \<Rightarrow> (string \<times> string) list" where
  "context_labels wid version =
     [(''devnest.workspace_id'', wid), (''devnest.managed_by'', ''orchestrator'')]
     @ (case version of None \<Rightarrow> [] | Some v \<Rightarrow> [(CONFIG_VERSION_LABEL, str_int v)])"

definition launch_mode_of :: "string option \<Rightarrow> string" where
  "launch_mode_of launch_mode =
     (let m = py_lower (py_strip (str_or_empty launch_mode)) in if m = [] then ''resume'' else m)"

definition bring_up_build_context ::
  "'s service \<Rightarrow> string \<Rightarrow> string option \<Rightarrow> int option \<Rightarrow> string option \<Rightarrow> ('s site, orch_exn + bring_up_context) state" where
  "bring_up_build_context S workspace_id key version launch_mode =
     (let wid = py_strip workspace_id; mode = launch_mode_of launch_mode;
          allow_create = (launch_mode = None \<or> mode = ''new'')
      in if wid = [] then raise (bring_up_error ''workspace_id is empty'')
         else case parse_topology_workspace_id wid of Inl e \<Rightarrow> raise e
         | Inr ws_int \<Rightarrow> do {
             r \<leftarrow> engine (hd_project_dir (sv_dirs S) wid key allow_create);
             case r of Inl m \<Rightarrow> raise (bring_up_error m)
             | Inr bundle \<Rightarrow> do {
                 p \<leftarrow> engine (hd_bind_path (sv_dirs S) bundle launch_mode);
                 case p of Inl m \<Rightarrow> raise (OtherException m)
                 | Inr host_path \<Rightarrow>
                     ret \<lparr>bc_wid = wid, bc_ws_int = ws_int, bc_container_name = sanitize_container_name wid, bc_host_path = host_path,
                          bc_launch_mode = mode, bc_labels = context_labels wid version\<rparr> } })"

section \<open>Starting the container\<close>

definition auth_mode_error :: string where
  "auth_mode_error = ''DEVNEST_WORKSPACE_AUTH_MODE must be either '' @ py_repr ''none'' @ '' or '' @ py_repr ''password''"

definition code_server_env :: "workspace_settings \<Rightarrow> string \<Rightarrow> string \<Rightarrow> string + (string \<times> string) list" where
  "code_server_env T workspace_id node =
     (let mode = py_lower (py_strip (if wt_auth_mode T = [] then ''none'' else wt_auth_mode T)) in
      if mode \<noteq> ''none'' \<and> mode \<noteq> ''password'' then Inl auth_mode_error
      else Inr ([(''CS_DISABLE_GETTING_STARTED_OVERRIDE'', ''1''), (''CODE_SERVER_AUTH'', mode), (''DEVNEST_WORKSPACE_AUTH_MODE'', mode),
                 (''DEVNEST_WORKSPACE_ID'', py_strip workspace_id), (''DEVNEST_NODE_KEY'', py_strip node),
                 (''PORT'', str_int WORKSPACE_IDE_CONTAINER_PORT)]
             @ (if mode = ''password'' \<and> wt_password T \<noteq> [] then [(''DEVNEST_WORKSPACE_PASSWORD'', wt_password T)] else [])))"

definition env_get :: "(string \<times> string) list \<Rightarrow> string \<Rightarrow> string" where
  "env_get env k = str_or_empty (map_of env k)"

text \<open>The environment of the container: the caller's values win, then the login mode is made consistent (\<open>Inl\<close>: refused).\<close>

definition container_env :: "workspace_settings \<Rightarrow> string \<Rightarrow> string \<Rightarrow> (string \<times> string) list \<Rightarrow> string + (string \<times> (string \<times> string) list)" where
  "container_env T wid node env =
     (case code_server_env T wid node of Inl m \<Rightarrow> Inl m
      | Inr base \<Rightarrow>
          (let merged = fold (\<lambda>(k, v) acc. dict_set acc k v) env base;
               given = (if env_get merged ''DEVNEST_WORKSPACE_AUTH_MODE'' \<noteq> [] then env_get merged ''DEVNEST_WORKSPACE_AUTH_MODE''
                        else if env_get merged ''CODE_SERVER_AUTH'' \<noteq> [] then env_get merged ''CODE_SERVER_AUTH'' else ''none'');
               mode = py_lower (py_strip given);
               moded = dict_set (dict_set merged ''DEVNEST_WORKSPACE_AUTH_MODE'' mode) ''CODE_SERVER_AUTH'' mode
           in if mode \<noteq> ''none'' \<and> mode \<noteq> ''password'' then Inl auth_mode_error
              else if mode = ''none''
              then Inr (mode, filter (\<lambda>(k, v). k \<noteq> ''PASSWORD'' \<and> k \<noteq> ''DEVNEST_WORKSPACE_PASSWORD'') moded)
              else if py_strip (env_get moded ''DEVNEST_WORKSPACE_PASSWORD'') = []
              then Inl ''DEVNEST_WORKSPACE_AUTH_MODE=password requires DEVNEST_WORKSPACE_PASSWORD''
              else Inr (mode, moded)))"

definition CODE_SERVER_CONFIG_CONTAINER_PATH :: string where
  "CODE_SERVER_CONFIG_CONTAINER_PATH = ''/home/coder/.config/code-server''"

definition CODE_SERVER_DATA_CONTAINER_PATH :: string where
  "CODE_SERVER_DATA_CONTAINER_PATH = ''/home/coder/.local/share/code-server''"

definition code_server_mounts :: "string \<Rightarrow> string \<Rightarrow> bind_spec list" where
  "code_server_mounts cfg_host data_host =
     [\<lparr>bs_host_path = cfg_host, bs_container_path = CODE_SERVER_CONFIG_CONTAINER_PATH, bs_read_only = False\<rparr>,
      \<lparr>bs_host_path = data_host, bs_container_path = CODE_SERVER_DATA_CONTAINER_PATH, bs_read_only = False\<rparr>]"

definition remote_host :: "'s service \<Rightarrow> bool" where
  "remote_host S \<longleftrightarrow> sv_attach_deferred S \<and> sv_host_runner S"

definition verify_dir :: "'s service \<Rightarrow> string \<Rightarrow> (string \<Rightarrow> string) \<Rightarrow> ('s site, step_exn + unit) state" where
  "verify_dir S path message =
     (if path = [] then ret ()
      else do {
        r \<leftarrow> engine (hd_verify (sv_dirs S) path);
        case r of None \<Rightarrow> ret () | Some m \<Rightarrow> raise (OrchExn (bring_up_error (message m))) })"

fun verify_mounts :: "'s service \<Rightarrow> bind_spec list \<Rightarrow> ('s site, step_exn + unit) state" where
  "verify_mounts S [] = ret ()"
| "verify_mounts S (b # bs) =
     andE (verify_dir S (py_strip (bs_host_path b)) (\<lambda>m. ''workspace host path not writable by runtime user '' @
        ''(pre-container final check failed for bind source '' @ py_repr (py_strip (bs_host_path b)) @ '' -> '' @
        py_repr (bs_container_path b) @ ''): '' @ m)) (\<lambda>_. verify_mounts S bs)"

definition host_checks :: "'s service \<Rightarrow> string \<Rightarrow> bind_spec list \<Rightarrow> ('s site, step_exn + unit) state" where
  "host_checks S project mounts =
     (if remote_host S then ret ()
      else andE (verify_mounts S mounts) (\<lambda>_.
           andE (verify_dir S project (\<lambda>m. ''workspace host path not writable by runtime user '' @
              ''(pre-container final check failed for project bind '' @ py_repr project @ ''): '' @ m)) (\<lambda>_.
           if project = [] then ret ()
           else do {
             r \<leftarrow> engine (hd_finalize (sv_dirs S) project);
             case r of None \<Rightarrow> ret () | Some m \<Rightarrow> raise (PyExn m) })))"

definition start_args ::
  "'s service \<Rightarrow> bring_up_context \<Rightarrow> rat \<times> int \<times> int \<Rightarrow> security_spec \<Rightarrow> (string \<times> string) list \<Rightarrow> bind_spec list \<Rightarrow> ensure_args" where
  "start_args S ctx limits sec env mounts =
     \<lparr>ea_name = bc_container_name ctx, ea_image = sv_workspace_image S, ea_cpu_limit = Some (fst limits),
      ea_memory_bytes = (if fst (snd limits) > 0 then Some (fst (snd limits) * 1024 * 1024) else None),
      ea_pids_limit = Some (snd (snd limits)), ea_security = Some sec, ea_env = env,
      ea_publish = [(0, WORKSPACE_IDE_CONTAINER_PORT)], ea_labels = bc_labels ctx, ea_project_mount = None,
      ea_host_path = Some (bc_host_path ctx), ea_extra_binds = mounts, ea_existing_id = None\<rparr>"

definition bring_up_start_container ::
  "'s service \<Rightarrow> bring_up_context \<Rightarrow> rat \<times> int \<times> int \<Rightarrow> security_spec \<Rightarrow> (string \<times> string) list \<Rightarrow> ('s site, step_exn + running) state" where
  "bring_up_start_container S ctx limits sec env =
     (case container_env (sv_settings S) (bc_wid ctx) (sv_node_id S) env of
        Inl m \<Rightarrow> raise (OrchExn (bring_up_error m))
      | Inr (auth_mode, merged) \<Rightarrow> do {
          r \<leftarrow> engine (hd_mounts (sv_dirs S) (bc_wid ctx) (bc_host_path ctx) (bc_launch_mode ctx) auth_mode);
          case r of
            Inl m \<Rightarrow> raise (OrchExn (bring_up_error m))
          | Inr (cfg_host, data_host) \<Rightarrow>
              (let mounts = code_server_mounts cfg_host data_host in
               andE (host_checks S (py_strip (bc_host_path ctx)) mounts) (\<lambda>_. do {
               u \<leftarrow> engine (ensure_running_runtime_only (sv_runtime S) (lk_start (sv_looks S)) (start_args S ctx limits sec merged mounts)
                     (sv_skip_attach S \<or> sv_attach_deferred S));
               case u of
                 Inr running \<Rightarrow> ret running
               | Inl e \<Rightarrow> if is_adapter_error e then raise (OrchExn (bring_up_error (''runtime bring-up failed: '' @ runtime_text e)))
                   else raise (RuntimeExn e) })) })"

section \<open>Attaching\<close>

definition tail_or_empty :: "string \<Rightarrow> string" where
  "tail_or_empty t = (if t = [] then ''(empty)'' else t)"

definition log_tail_text :: "string \<Rightarrow> string" where
  "log_tail_text t = [CHR 0x0A] @ ''docker log tail:'' @ [CHR 0x0A] @ tail_or_empty t"

definition exited_before_attach :: string where
  "exited_before_attach = ''workspace runtime exited before topology attach ''"

definition inspect_detail :: "inspection \<Rightarrow> string" where
  "inspect_detail i = ''state='' @ py_repr (ci_state i) @ '', pid='' @ repr_int (ci_pid i) @ '', started_at='' @ repr_text (ci_started_at i) @
     '', finished_at='' @ repr_text (ci_finished_at i) @ '', exit_code='' @ repr_int (ci_exit_code i)"

definition fail_with_tail :: "'s service \<Rightarrow> string \<Rightarrow> int \<Rightarrow> string \<Rightarrow> ('s site, step_exn + 'a) state" where
  "fail_with_tail S cid lines message = do {
     tail \<leftarrow> engine (ra_log_tail (sv_runtime S) cid lines);
     raise (OrchExn (bring_up_error (exited_before_attach @ message @ log_tail_text tail))) }"

definition vanished_text :: "string \<Rightarrow> string" where
  "vanished_text phase = ''(phase='' @ py_repr phase @ '', container missing). '' @
     ''If logs are empty, compensating rollback may have removed the container after an earlier failure.''"

definition dead_text :: "string \<Rightarrow> inspection \<Rightarrow> string" where
  "dead_text phase i = ''(phase='' @ py_repr phase @ '', '' @ inspect_detail i @ ''). '' @
     ''Note: exit 143 often follows SIGTERM from bring-up rollback after a *different* failure; '' @
     ''check this message and log tail for the first error, not only post-rollback inspect.''"

text \<open>The looks at a container before and during the attachment: one, and as many more as fit before the deadline.\<close>

fun wait_alive :: "'s service \<Rightarrow> string \<Rightarrow> string \<Rightarrow> string \<Rightarrow> nat \<Rightarrow> ('s site, step_exn + inspection) state" where
  "wait_alive S cid phase waited n =
     andE (of_runtime (ra_inspect (sv_runtime S) cid)) (\<lambda>i.
     if \<not> ci_exists i then fail_with_tail S cid 120 (vanished_text phase)
     else if container_dead i then fail_with_tail S cid 120 (dead_text phase i)
     else if ci_state i = ''running'' \<and> has_pid i then ret i
     else case n of
       0 \<Rightarrow> fail_with_tail S cid 120 (''(phase='' @ py_repr phase @ '', waited '' @ waited @ ''s: '' @ inspect_detail i @
              '', proc_pid_visible_control_plane='' @ sv_proc_repr S (ci_pid i) @ '').'')
     | Suc m \<Rightarrow> wait_alive S cid phase waited m)"

declare wait_alive.simps [simp del]

definition wait_workspace_alive_for_topology :: "'s service \<Rightarrow> running \<Rightarrow> string \<Rightarrow> string \<Rightarrow> ('s site, step_exn + inspection) state" where
  "wait_workspace_alive_for_topology S running phase waited =
     (if sv_skip_attach S then of_runtime (ra_inspect (sv_runtime S) (ru_container_id running))
      else wait_alive S (ru_container_id running) phase waited (lk_alive (sv_looks S) phase))"

definition netns_for_attach :: "'s service \<Rightarrow> running \<Rightarrow> ('s site, step_exn + string) state" where
  "netns_for_attach S running =
     (let cid = ru_container_id running in
      if sv_skip_attach S then ret (ru_netns_ref running)
      else andE (wait_workspace_alive_for_topology S running ''before_get_container_netns_ref'' ''3.0'') (\<lambda>_.
           andE (of_runtime (ra_netns (sv_runtime S) cid)) (\<lambda>ns.
           if nr_pid ns > 0 \<and> \<not> sv_proc_visible S (nr_pid ns) then ret (nr_ref ns)
           else do {
             r \<leftarrow> engine (sv_netns_visible S (nr_ref ns));
             case r of None \<Rightarrow> ret (nr_ref ns)
             | Some m \<Rightarrow> fail_with_tail S cid 160 (''(netns target not visible from control plane before linux attach: '' @ m @ '').'') })))"

definition attach_steps :: "'s service \<Rightarrow> bring_up_context \<Rightarrow> running \<Rightarrow> ('s site, step_exn + attach_result) state" where
  "attach_steps S ctx running =
     (let tid = sv_topology_id S; nid = sv_node_id S in
      andE (wait_workspace_alive_for_topology S running ''before_ensure_node_topology'' ''2.5'') (\<lambda>_.
      andE (of_topology S (\<lambda>W. ensure_node_topology W tid nid)) (\<lambda>_.
      andE (of_topology S (\<lambda>W. allocate_workspace_ip W tid nid (bc_ws_int ctx))) (\<lambda>ip.
      andE (wait_workspace_alive_for_topology S running ''after_allocate_workspace_ip_before_netns'' ''12.0'') (\<lambda>_.
      andE (netns_for_attach S running) (\<lambda>netns_ref.
      of_topology S (\<lambda>W. attach_workspace W tid nid (bc_ws_int ctx) (ru_container_id running) netns_ref (al_workspace_ip ip))))))))"

definition runtime_is_dead :: "inspection \<Rightarrow> bool" where
  "runtime_is_dead i \<longleftrightarrow> \<not> ci_exists i \<or> container_dead i \<or> \<not> has_pid i"

text \<open>A topology error is told from its usual cause, a container that is gone. An exception while looking is not caught.\<close>

definition explain_topology_error :: "'s service \<Rightarrow> running \<Rightarrow> topo_error \<Rightarrow> ('s site, step_exn + 'a) state" where
  "explain_topology_error S running e = do {
     r \<leftarrow> engine (ra_inspect (sv_runtime S) (ru_container_id running));
     case r of Inl x \<Rightarrow> raise (PyExn (runtime_text x))
     | Inr i \<Rightarrow> do {
         t \<leftarrow> engine (ra_log_tail (sv_runtime S) (ru_container_id running) 200);
         (let tail = py_strip t in
          raise (OrchExn (bring_up_error
            (if runtime_is_dead i
             then exited_before_attach @ ''(inspect: '' @ inspect_detail i @ ''). '' @
               ''Downstream topology error (often a symptom when init PID is gone): '' @ topo_error_text e @
               log_tail_text (drop (length tail - 8000) tail)
             else ''topology bring-up failed (after workspace runtime was running): '' @ topo_error_text e)))) } }"

definition explain_attach_failure :: "'s service \<Rightarrow> running \<Rightarrow> step_exn \<Rightarrow> ('s site, step_exn + 'a) state" where
  "explain_attach_failure S running x =
     (case x of
        TopologyExn e \<Rightarrow> if is_topology_error e then explain_topology_error S running e else raise x
      | RuntimeExn e \<Rightarrow> if is_adapter_error e
          then raise (OrchExn (bring_up_error (''workspace runtime not ready for topology (PID/netns handoff): '' @ runtime_text e)))
          else raise x
      | _ \<Rightarrow> raise x)"

definition bring_up_attach_topology :: "'s service \<Rightarrow> bring_up_context \<Rightarrow> running \<Rightarrow> ('s site, step_exn + attach_result) state" where
  "bring_up_attach_topology S ctx running =
     (if sv_attach_deferred S
      then ret \<lparr>ar_attachment_id = 0, ar_workspace_ip = [], ar_bridge_name = None, ar_gateway_ip = None, ar_internal_endpoint = []\<rparr>
      else catchE (attach_steps S ctx running) (explain_attach_failure S running))"

section \<open>Probing\<close>

definition issue_line :: "health_issue \<Rightarrow> string" where
  "issue_line i = hi_component i @ '':'' @ hi_code i @ '':'' @ hi_message i"

definition text_or :: "string option \<Rightarrow> string \<Rightarrow> string" where
  "text_or x dflt = (case x of Some (c # cs) \<Rightarrow> c # cs | _ \<Rightarrow> dflt)"

fun poll_tcp :: "'s net \<Rightarrow> looks \<Rightarrow> string \<Rightarrow> nat \<Rightarrow> ('s, bool) state" where
  "poll_tcp N L ip 0 = State_Monad.return False"
| "poll_tcp N L ip (Suc n) = do {
     r \<leftarrow> check_service_reachable N ip WORKSPACE_IDE_CONTAINER_PORT (lk_per_try L n);
     if sp_healthy r then State_Monad.return True else poll_tcp N L ip n }"

definition clamped_wait :: "'s service \<Rightarrow> rat" where
  "clamped_wait S = max 1 (min 600 (wt_tcp_wait_seconds (sv_settings S)))"

definition probe_workspace :: "'s service \<Rightarrow> string \<Rightarrow> string \<Rightarrow> rat \<Rightarrow> ('s site, workspace_health) state" where
  "probe_workspace S wid cid timeout =
     check_workspace_health (sv_runtime S) (sv_topo S) (sv_net S) wid (str_int (sv_topology_id S)) (sv_node_id S) cid
       WORKSPACE_IDE_CONTAINER_PORT timeout"

definition bring_up_observation ::
  "'s service \<Rightarrow> bool \<Rightarrow> string option \<Rightarrow> string option \<Rightarrow> (int \<times> int) list \<Rightarrow> string option \<Rightarrow> string list \<Rightarrow> bringup_result" where
  "bring_up_observation S healthy cid state ports endpoint issues =
     \<lparr>ro_success = healthy, ro_node_id = Some (sv_node_id S), ro_topology_id = Some (str_int (sv_topology_id S)), ro_container_id = cid,
      ro_container_state = state, ro_internal_endpoint = endpoint,
      ro_gateway_route_target = compose_traefik_upstream_target (sv_routing_host S) ports endpoint WORKSPACE_IDE_CONTAINER_PORT,
      ro_probe_healthy = Some healthy, ro_issues = issues_or_none issues, ro_applied_cpu = None, ro_applied_memory_mib = None,
      ro_applied_pids = None, ro_applied_security = None, bu_rollback_attempted = False, bu_rollback_succeeded = None,
      bu_rollback_issues = None\<rparr>"

fun poll_http :: "'s net \<Rightarrow> looks \<Rightarrow> int \<Rightarrow> nat \<Rightarrow> service_probe \<Rightarrow> ('s, service_probe) state" where
  "poll_http N L port 0 seen = State_Monad.return seen"
| "poll_http N L port (Suc n) seen = do {
     r \<leftarrow> check_service_http N ''127.0.0.1'' port (lk_per_try L n);
     if sp_healthy r then State_Monad.return \<lparr>sp_healthy = True, sp_issues = []\<rparr> else poll_http N L port n r }"

definition published_port :: "(int \<times> int) list \<Rightarrow> int option" where
  "published_port ports = map_option fst (find (\<lambda>(h, c). c = WORKSPACE_IDE_CONTAINER_PORT) ports)"

definition port_missing_text :: string where
  "port_missing_text = ''service:published_port_missing:no published host port for IDE container port '' @ str_int WORKSPACE_IDE_CONTAINER_PORT"

definition run_remote_host_port_probe :: "'s service \<Rightarrow> running \<Rightarrow> nat \<Rightarrow> ('s site, bringup_result) state" where
  "run_remote_host_port_probe S running tries = do {
     ctr \<leftarrow> engine (check_container_running (sv_runtime S) (ru_container_id running));
     let port = published_port (ru_ports running);
     svc \<leftarrow> (case port of
        None \<Rightarrow> State_Monad.return (False, [port_missing_text])
      | Some p \<Rightarrow> do {
          r \<leftarrow> engine (poll_http (sv_net S) (sv_looks S) p tries \<lparr>sp_healthy = False, sp_issues = []\<rparr>);
          State_Monad.return (sp_healthy r, map issue_line (sp_issues r)) });
     State_Monad.return (bring_up_observation S (cp_healthy ctr \<and> fst svc) (Some (ru_container_id running)) (Some (ru_state running)) (ru_ports running)
       (map_option (\<lambda>p. ''127.0.0.1:'' @ str_int p) port) (map issue_line (cp_issues ctr) @ snd svc)) }"

text \<open>An exception that escapes the probe becomes a bring-up error, except in the probe of a remote host, which is not guarded.\<close>

definition bring_up_run_probe ::
  "'s service \<Rightarrow> bring_up_context \<Rightarrow> running \<Rightarrow> attach_result \<Rightarrow> ('s site, step_exn + bringup_result) state" where
  "bring_up_run_probe S ctx running att =
     (if sv_attach_deferred S
      then do {
        esc \<leftarrow> engine (nt_escape (sv_net S));
        case esc of Some m \<Rightarrow> raise (PyExn m)
        | None \<Rightarrow> do { res \<leftarrow> run_remote_host_port_probe S running (lk_http (sv_looks S)); ret res } }
      else
        let ws_ip = py_strip (ar_workspace_ip att); wait_total = clamped_wait S in do {
          reached \<leftarrow> (if ws_ip = [] then State_Monad.return False else engine (poll_tcp (sv_net S) (sv_looks S) ws_ip (lk_tcp (sv_looks S))));
          esc \<leftarrow> engine (nt_escape (sv_net S));
          case esc of Some m \<Rightarrow> raise (OrchExn (bring_up_error (''probe health check failed: '' @ m)))
          | None \<Rightarrow> do {
              h \<leftarrow> probe_workspace S (bc_wid ctx) (ru_container_id running)
                (if ws_ip \<noteq> [] \<and> reached then min 45 (max 8 (wait_total / 6)) else 5);
              ret (bring_up_observation S (wh_healthy h) (Some (ru_container_id running))
                (Some (text_or (wh_container_state h) (ru_state running))) (ru_ports running)
                (Some (text_or (wh_internal_endpoint h) (ar_internal_endpoint att))) (map issue_line (wh_issues h))) } })"

section \<open>Rollback\<close>

definition incomplete_text :: "nat \<Rightarrow> stop_result \<Rightarrow> string" where
  "incomplete_text attempt out =
     ''rollback:stop_incomplete:'' @ str_nat attempt @ '':'' @
     join_str '','' (case st_issues out of Some (i # is) \<Rightarrow> i # is | _ \<Rightarrow> [''no_issues_field''])"

text \<open>One attempt: \<open>Inl\<close> an exception that is not caught, otherwise the issue it adds and the stop result, if any.\<close>

definition rollback_attempt ::
  "'s service \<Rightarrow> string \<Rightarrow> string option \<Rightarrow> nat \<Rightarrow> ('s site, orch_exn + (bool \<times> string list \<times> stop_result option)) state" where
  "rollback_attempt S wid cid attempt = do {
     r \<leftarrow> stop_workspace_runtime S wid cid True;
     case r of
       Inr out \<Rightarrow> ret (st_success out, if st_success out then [] else [incomplete_text attempt out], Some out)
     | Inl (WorkspaceStopError m) \<Rightarrow> ret (False, [''rollback:stop_error:'' @ str_nat attempt @ '':'' @ m], None)
     | Inl e \<Rightarrow> raise e }"

definition bring_up_compensating_rollback ::
  "'s service \<Rightarrow> bring_up_context \<Rightarrow> running option \<Rightarrow> ('s site, orch_exn + (bool \<times> string list \<times> stop_result option)) state" where
  "bring_up_compensating_rollback S ctx running =
     (let cid = (case running of None \<Rightarrow> None | Some u \<Rightarrow> none_if_empty (py_strip (ru_container_id u))) in
      andE (rollback_attempt S (bc_wid ctx) cid 1) (\<lambda>(ok1, issues1, out1).
      if ok1 then ret (True, issues1, out1)
      else andE (rollback_attempt S (bc_wid ctx) cid 2) (\<lambda>(ok2, issues2, out2).
      ret (ok2, issues1 @ issues2, case out2 of None \<Rightarrow> out1 | Some _ \<Rightarrow> out2))))"

text \<open>The evidence for the log: the container is inspected and its log read, whatever comes of it.\<close>

definition gather_failure_evidence :: "'s service \<Rightarrow> running option \<Rightarrow> ('s site, unit) state" where
  "gather_failure_evidence S running =
     (case running of None \<Rightarrow> State_Monad.return ()
      | Some u \<Rightarrow>
          (let cid = py_strip (ru_container_id u) in
           if cid = [] then State_Monad.return ()
           else do {
             r \<leftarrow> engine (ra_inspect (sv_runtime S) cid);
             case r of Inl _ \<Rightarrow> State_Monad.return ()
             | Inr _ \<Rightarrow> do { _ \<leftarrow> engine (ra_log_tail (sv_runtime S) cid 250); State_Monad.return () } }))"

definition failure_text :: "step_exn \<Rightarrow> string" where
  "failure_text x = (case x of OrchExn (WorkspaceBringUpError m _ _ _ _ _) \<Rightarrow> m | _ \<Rightarrow> ''unexpected bring-up failure: '' @ step_text x)"

definition abort_bring_up ::
  "'s service \<Rightarrow> bring_up_context \<Rightarrow> running option \<Rightarrow> step_exn \<Rightarrow> ('s site, orch_exn + bringup_result) state" where
  "abort_bring_up S ctx running x = do {
     _ \<leftarrow> gather_failure_evidence S running;
     andE (bring_up_compensating_rollback S ctx running) (\<lambda>(ok, issues, out).
     raise (WorkspaceBringUpError (failure_text x) True (Some ok) (if issues = [] then None else Some issues)
       (case out of Some o1 \<Rightarrow> (case st_container_id o1 of Some (c # cs) \<Rightarrow> Some (c # cs) | _ \<Rightarrow> map_option ru_container_id running)
        | None \<Rightarrow> map_option ru_container_id running)
       (case out of Some o1 \<Rightarrow> st_container_state o1 | None \<Rightarrow> None))) }"

definition undo_unhealthy ::
  "'s service \<Rightarrow> bring_up_context \<Rightarrow> running \<Rightarrow> bringup_result \<Rightarrow> ('s site, orch_exn + bringup_result) state" where
  "undo_unhealthy S ctx running res = do {
     _ \<leftarrow> gather_failure_evidence S (Some running);
     andE (bring_up_compensating_rollback S ctx (Some running)) (\<lambda>(ok, issues, out).
     (let pick = (\<lambda>f dflt. case out of None \<Rightarrow> dflt | Some o1 \<Rightarrow> (case f o1 of Some (c # cs) \<Rightarrow> Some (c # cs) | _ \<Rightarrow> dflt)) in
      ret (res\<lparr>ro_success := False, ro_container_id := pick st_container_id (ro_container_id res),
               ro_container_state := pick st_container_state (ro_container_state res),
               ro_internal_endpoint := (if ok then None else ro_internal_endpoint res),
               ro_gateway_route_target := (if ok then None else ro_gateway_route_target res), ro_probe_healthy := Some False,
               ro_issues := issues_or_none ((case ro_issues res of None \<Rightarrow> [] | Some l \<Rightarrow> l) @ issues), bu_rollback_attempted := True,
               bu_rollback_succeeded := Some ok, bu_rollback_issues := issues_or_none issues\<rparr>))) }"

definition with_applied :: "rat \<times> int \<times> int \<Rightarrow> security_spec \<Rightarrow> bringup_result \<Rightarrow> bringup_result" where
  "with_applied limits sec res =
     res\<lparr>ro_applied_cpu := Some (fst limits), ro_applied_memory_mib := Some (fst (snd limits)), ro_applied_pids := Some (snd (snd limits)),
        ro_applied_security := Some (to_applied_dict sec)\<rparr>"

section \<open>Bring-up\<close>

text \<open>The guarded part: the container that was started, if any, and the outcome.\<close>

definition bring_up_steps ::
  "'s service \<Rightarrow> bring_up_context \<Rightarrow> rat \<times> int \<times> int \<Rightarrow> security_spec \<Rightarrow> (string \<times> string) list
    \<Rightarrow> ('s site, running option \<times> (step_exn + bringup_result)) state" where
  "bring_up_steps S ctx limits sec env = do {
     r \<leftarrow> bring_up_start_container S ctx limits sec env;
     case r of
       Inl x \<Rightarrow> State_Monad.return (None, Inl x)
     | Inr running \<Rightarrow> do {
         a \<leftarrow> bring_up_attach_topology S ctx running;
         case a of
           Inl x \<Rightarrow> State_Monad.return (Some running, Inl x)
         | Inr att \<Rightarrow> do {
             res \<leftarrow> bring_up_run_probe S ctx running att;
             State_Monad.return (Some running, res) } } }"

definition settle_bring_up ::
  "'s service \<Rightarrow> bring_up_context \<Rightarrow> rat \<times> int \<times> int \<Rightarrow> security_spec \<Rightarrow> running option \<times> (step_exn + bringup_result)
    \<Rightarrow> ('s site, orch_exn + bringup_result) state" where
  "settle_bring_up S ctx limits sec out =
     (case out of
        (running, Inl x) \<Rightarrow> abort_bring_up S ctx running x
      | (Some running, Inr res) \<Rightarrow>
          andE (if ro_success res then ret res else undo_unhealthy S ctx running res) (\<lambda>res. ret (with_applied limits sec res))
      | (None, Inr res) \<Rightarrow> ret (with_applied limits sec res))"

definition bring_up_workspace_runtime ::
  "'s service \<Rightarrow> string \<Rightarrow> string option \<Rightarrow> int option \<Rightarrow> rat option \<Rightarrow> int option \<Rightarrow> int option \<Rightarrow> (string \<times> string) list \<Rightarrow> string option
    \<Rightarrow> ('s site, orch_exn + bringup_result) state" where
  "bring_up_workspace_runtime S workspace_id key version cpu mem pids env launch_mode =
     andE (bring_up_build_context S workspace_id key version launch_mode) (\<lambda>ctx.
     case resolve_limits (sv_settings S) cpu mem pids of Inl e \<Rightarrow> raise e
     | Inr limits \<Rightarrow>
         (let sec = build_security_spec (sv_settings S) in do {
            out \<leftarrow> bring_up_steps S ctx limits sec env;
            settle_bring_up S ctx limits sec out }))"

end
