(* ===== verification/Runtime_Cycle.thy ===== *)
theory Runtime_Cycle
  imports Bring_Up
begin

text \<open>
  The orchestrator implementation, third part: restart, update and the health check, composed of the operations before
  (\<^verbatim>\<open>orchestrator_service/service.py\<close>).
\<close>

section \<open>Restart\<close>

definition cycle_failed :: "'s service \<Rightarrow> stop_result \<Rightarrow> string list \<Rightarrow> run_obs" where
  "cycle_failed S stopped issues =
     \<lparr>ro_success = False, ro_node_id = Some (sv_node_id S), ro_topology_id = Some (str_int (sv_topology_id S)),
      ro_container_id = st_container_id stopped, ro_container_state = st_container_state stopped, ro_internal_endpoint = None,
      ro_gateway_route_target = None, ro_probe_healthy = None, ro_issues = issues_or_none issues, ro_applied_cpu = None,
      ro_applied_memory_mib = None, ro_applied_pids = None, ro_applied_security = None\<rparr>"

definition issue_list :: "string list option \<Rightarrow> string list" where
  "issue_list x = (case x of None \<Rightarrow> [] | Some l \<Rightarrow> l)"

definition cycle_done :: "'s service \<Rightarrow> bringup_result \<Rightarrow> string list \<Rightarrow> run_obs" where
  "cycle_done S up issues =
     \<lparr>ro_success = ro_success up, ro_node_id = Some (text_or (ro_node_id up) (sv_node_id S)),
      ro_topology_id = Some (text_or (ro_topology_id up) (str_int (sv_topology_id S))), ro_container_id = ro_container_id up,
      ro_container_state = ro_container_state up, ro_internal_endpoint = ro_internal_endpoint up,
      ro_gateway_route_target = ro_gateway_route_target up, ro_probe_healthy = ro_probe_healthy up,
      ro_issues = issues_or_none (issues @ issue_list (ro_issues up)), ro_applied_cpu = ro_applied_cpu up,
      ro_applied_memory_mib = ro_applied_memory_mib up, ro_applied_pids = ro_applied_pids up, ro_applied_security = ro_applied_security up\<rparr>"

text \<open>
  A stop that raises \<^verbatim>\<open>WorkspaceStopError\<close> ends the restart with \<^verbatim>\<open>WorkspaceRestartError\<close>; a bring-up that raises
  \<^verbatim>\<open>WorkspaceBringUpError\<close> is a failed restart; other exceptions leave as they are.
\<close>

definition restart_workspace_runtime ::
  "'s service \<Rightarrow> string \<Rightarrow> string option \<Rightarrow> string option \<Rightarrow> int option \<Rightarrow> ('s site, orch_exn + run_obs) state" where
  "restart_workspace_runtime S workspace_id key container_id version =
     (let wid = py_strip workspace_id in
      if wid = [] then raise (WorkspaceRestartError ''workspace_id is empty'')
      else case parse_topology_workspace_id wid of Inl e \<Rightarrow> raise (WorkspaceRestartError (exn_text e))
      | Inr _ \<Rightarrow> do {
          s \<leftarrow> stop_workspace_runtime S wid container_id False;
          case s of
            Inl (WorkspaceStopError m) \<Rightarrow> raise (WorkspaceRestartError m)
          | Inl e \<Rightarrow> raise e
          | Inr stopped \<Rightarrow>
              (let issues = issue_list (st_issues stopped) in
               if \<not> st_success stopped then ret (cycle_failed S stopped issues)
               else do {
                 x \<leftarrow> engine (hd_dir_exists (sv_dirs S) wid key);
                 case x of Inl m \<Rightarrow> raise (OtherException m)
                 | Inr there \<Rightarrow> do {
                     u \<leftarrow> bring_up_workspace_runtime S wid key version None None None [] (if there then Some ''resume'' else None);
                     case u of
                       Inr up \<Rightarrow> ret (cycle_done S up issues)
                     | Inl (WorkspaceBringUpError m a b c d e) \<Rightarrow> ret (cycle_failed S stopped (issues @ [''bringup:failed:'' @ m]))
                     | Inl e \<Rightarrow> raise e } }) })"

section \<open>Update\<close>

definition label_value :: "(string \<times> string) list \<Rightarrow> string \<Rightarrow> string option" where
  "label_value labels key = map_of labels key"

definition config_version_from_inspection :: "inspection \<Rightarrow> int" where
  "config_version_from_inspection i =
     (if \<not> ci_exists i then 0
      else case label_value (ci_labels i) CONFIG_VERSION_LABEL of
        None \<Rightarrow> 0
      | Some raw \<Rightarrow> (case parse_int (py_strip raw) of None \<Rightarrow> 0 | Some v \<Rightarrow> max 0 v))"

definition as_update :: "run_obs \<Rightarrow> int \<Rightarrow> bool \<Rightarrow> update_result" where
  "as_update r version no_op = run_obs.extend r \<lparr>up_requested_config_version = version, up_no_op = no_op\<rparr>"

definition blank_observation :: "'s service \<Rightarrow> string option \<Rightarrow> string option \<Rightarrow> string list \<Rightarrow> run_obs" where
  "blank_observation S cid state issues =
     \<lparr>ro_success = False, ro_node_id = Some (sv_node_id S), ro_topology_id = Some (str_int (sv_topology_id S)), ro_container_id = cid,
      ro_container_state = state, ro_internal_endpoint = None, ro_gateway_route_target = None, ro_probe_healthy = None,
      ro_issues = issues_or_none issues, ro_applied_cpu = None, ro_applied_memory_mib = None, ro_applied_pids = None,
      ro_applied_security = None\<rparr>"

definition state_or_unknown :: "inspection \<Rightarrow> string" where
  "state_or_unknown i = (let st = py_lower (py_strip (ci_state i)) in if st = [] then ''unknown'' else st)"

definition update_workspace_runtime_noop ::
  "'s service \<Rightarrow> string \<Rightarrow> inspection \<Rightarrow> string \<Rightarrow> int \<Rightarrow> ('s site, orch_exn + update_result) state" where
  "update_workspace_runtime_noop S wid i container_ref version =
     (let answer = (\<lambda>cid state issues. ret (as_update (blank_observation S cid state issues) version True)) in
      if \<not> ci_exists i then answer None None [''update:noop:workspace_runtime_not_found'']
      else if py_lower (py_strip (ci_state i)) \<noteq> ''running''
      then answer (known_container container_ref i) (Some (ci_state i)) [''update:noop:container_not_running:'' @ state_or_unknown i]
      else case known_container container_ref i of
        None \<Rightarrow> answer None (Some (ci_state i)) [''update:noop:container_id_missing'']
      | Some cid \<Rightarrow> do {
          h \<leftarrow> probe_workspace S wid cid 5;
          ret (as_update ((blank_observation S (Some cid) (Some (text_or (wh_container_state h) (ci_state i))) (map issue_line (wh_issues h)))
            \<lparr>ro_success := wh_healthy h, ro_internal_endpoint := wh_internal_endpoint h,
             ro_gateway_route_target := compose_traefik_upstream_target (sv_routing_host S) (ci_ports i) (wh_internal_endpoint h) WORKSPACE_IDE_CONTAINER_PORT,
             ro_probe_healthy := Some (wh_healthy h)\<rparr>) version True) })"

definition update_workspace_runtime ::
  "'s service \<Rightarrow> string \<Rightarrow> string option \<Rightarrow> string option \<Rightarrow> int \<Rightarrow> ('s site, orch_exn + update_result) state" where
  "update_workspace_runtime S workspace_id key container_id version =
     (let wid = py_strip workspace_id; cid_in = py_strip (str_or_empty container_id) in
      if version < 0 then raise (WorkspaceUpdateError ''requested_config_version must be non-negative'')
      else if wid = [] then raise (WorkspaceUpdateError ''workspace_id is empty'')
      else case parse_topology_workspace_id wid of Inl e \<Rightarrow> raise (WorkspaceUpdateError (exn_text e))
      | Inr _ \<Rightarrow>
          if container_id_required S cid_in
          then ret (as_update ((blank_observation S None None [''runtime:authoritative_container_id_required''])
                 \<lparr>ro_node_id := None, ro_topology_id := None\<rparr>) version False)
          else do {
            r \<leftarrow> engine (ra_inspect (sv_runtime S) (container_reference cid_in wid));
            case r of
              Inl e \<Rightarrow> raise (WorkspaceUpdateError (''inspect_container failed: '' @ runtime_text e))
            | Inr i \<Rightarrow>
                if config_version_from_inspection i = version
                then update_workspace_runtime_noop S wid i (container_reference cid_in wid) version
                else do {
                  x \<leftarrow> restart_workspace_runtime S wid key container_id (Some version);
                  case x of
                    Inl (WorkspaceRestartError m) \<Rightarrow> raise (WorkspaceUpdateError m)
                  | Inl e \<Rightarrow> raise e
                  | Inr obs \<Rightarrow> ret (as_update (obs\<lparr>ro_issues := issues_or_none (issue_list (ro_issues obs))\<rparr>) version False) } })"

section \<open>Health check\<close>

definition unhealthy :: "'s service \<Rightarrow> string option \<Rightarrow> string option \<Rightarrow> string \<Rightarrow> bringup_result" where
  "unhealthy S cid state issue =
     (bring_up_observation S False cid state [] None [issue])\<lparr>ro_gateway_route_target := None\<rparr>"

definition running_now :: "string \<Rightarrow> inspection \<Rightarrow> runtime_exn + netns_ref \<Rightarrow> running" where
  "running_now cid i ns =
     \<lparr>ru_container_id = cid, ru_state = ci_state i, ru_pid = (case ci_pid i of None \<Rightarrow> 0 | Some p \<Rightarrow> p),
      ru_netns_ref = text_or (case ns of Inl _ \<Rightarrow> None | Inr n \<Rightarrow> Some (nr_ref n)) ''remote-topology-deferred'', ru_ports = ci_ports i\<rparr>"

definition check_workspace_runtime_health ::
  "'s service \<Rightarrow> string \<Rightarrow> string option \<Rightarrow> ('s site, orch_exn + bringup_result) state" where
  "check_workspace_runtime_health S workspace_id container_id =
     (let wid = py_strip workspace_id; cid_in = py_strip (str_or_empty container_id); ref = container_reference cid_in wid in
      if wid = [] then raise (bring_up_error ''workspace_id is empty'')
      else case parse_topology_workspace_id wid of Inl e \<Rightarrow> raise e
      | Inr _ \<Rightarrow>
          if container_id_required S cid_in then ret (unhealthy S None None ''runtime:authoritative_container_id_required'')
          else do {
            r \<leftarrow> engine (ra_inspect (sv_runtime S) ref);
            case r of
              Inl e \<Rightarrow> raise (bring_up_error (''inspect_container failed: '' @ runtime_text e))
            | Inr i \<Rightarrow>
                if \<not> ci_exists i then ret (unhealthy S None (Some ''missing'') ''health:container:not_found'')
                else case known_container ref i of
                  None \<Rightarrow> ret (unhealthy S None (Some (ci_state i)) ''health:container:container_id_missing'')
                | Some cid \<Rightarrow>
                    if py_lower (py_strip (ci_state i)) \<noteq> ''running''
                    then ret (unhealthy S (Some cid) (Some (ci_state i)) (''health:container:not_running:'' @ state_or_unknown i))
                    else if sv_attach_deferred S
                    then do {
                      ns \<leftarrow> engine (ra_netns (sv_runtime S) cid);
                      res \<leftarrow> run_remote_host_port_probe S (running_now cid i ns) (lk_health (sv_looks S));
                      ret res }
                    else do {
                      h \<leftarrow> probe_workspace S wid cid 5;
                      _ \<leftarrow> engine (ra_netns (sv_runtime S) cid);
                      ret (bring_up_observation S (wh_healthy h) (Some cid) (Some (text_or (wh_container_state h) (ci_state i))) (ci_ports i)
                        (wh_internal_endpoint h) (map issue_line (wh_issues h))) } })"

end
