(* ===== verification/Ssm_Runtime.thy ===== *)
theory Ssm_Runtime
  imports Container_Runtime
begin

text \<open>
  The adapter that runs the \<^verbatim>\<open>docker\<close> command line on a remote host through AWS SSM
  (\<^verbatim>\<open>libs/runtime/ssm_docker_runtime.py\<close>). The command runner is the parameter \<open>run\<close>: a command line gives its
  output, or \<^verbatim>\<open>RuntimeError\<close> with a text, be it that the command failed on the host or that SSM did.
\<close>

record 's shell =
  sh_run :: "string list \<Rightarrow> ('s, string + string) state"
  sh_str :: "json \<Rightarrow> string"
  sh_repr :: "json \<Rightarrow> string"
  sh_str_cpus :: "rat \<Rightarrow> string"
  sh_stop_timeout :: int
  sh_default_image :: string

text \<open>A command whose failure is translated, and one whose result is not used.\<close>

definition command :: "'s shell \<Rightarrow> (string \<Rightarrow> runtime_exn) \<Rightarrow> string list \<Rightarrow> ('s, runtime_exn + string) state" where
  "command H err argv = do { r \<leftarrow> sh_run H argv; case r of Inl m \<Rightarrow> raise (err m) | Inr out \<Rightarrow> ret out }"

definition first_object :: "string \<Rightarrow> jobj option" where
  "first_object out = (case loads out of Some (JList (JObj attrs # _)) \<Rightarrow> Some attrs | _ \<Rightarrow> None)"

definition ssm_inspect_container :: "'s shell \<Rightarrow> string \<Rightarrow> ('s, runtime_exn + inspection) state" where
  "ssm_inspect_container H cid = do {
     r \<leftarrow> sh_run H [''docker'', ''inspect'', cid];
     ret (case r of Inl _ \<Rightarrow> inspection_not_found
          | Inr out \<Rightarrow> (case first_object out of None \<Rightarrow> inspection_not_found | Some attrs \<Rightarrow> normalize_inspection (sh_str H) attrs)) }"

definition ssm_fetch_container_log_tail :: "'s shell \<Rightarrow> string \<Rightarrow> int \<Rightarrow> ('s, string) state" where
  "ssm_fetch_container_log_tail H cid lines = do {
     r \<leftarrow> sh_run H [''docker'', ''logs'', ''--tail'', str_int (max 1 (min lines 4096)), cid];
     State_Monad.return (case r of Inl _ \<Rightarrow> [] | Inr out \<Rightarrow> py_strip out) }"

definition remote_path_message :: "string \<Rightarrow> string" where
  "remote_path_message chosen =
     ''remote workspace host path must be absolute POSIX path on the execution host; got '' @ py_repr chosen"

definition options :: "string \<Rightarrow> string list \<Rightarrow> string list" where
  "options flag values = concat (map (\<lambda>v. [flag, v]) values)"

definition create_argv :: "'s shell \<Rightarrow> ensure_args \<Rightarrow> string \<Rightarrow> string \<Rightarrow> string list \<Rightarrow> (int \<times> int option) list \<Rightarrow> string list" where
  "create_argv H a img project extra bindings =
     [''docker'', ''create'', ''--name'', ea_name a] @
     options ''--label'' (map (\<lambda>(k, v). k @ ''='' @ v) (sort (ea_labels a))) @
     options ''-e'' (map (\<lambda>(k, v). k @ ''='' @ v) (sort (ea_env a))) @
     options ''-v'' (project # extra) @
     options ''-p'' (map (\<lambda>(c, h). (case h of None \<Rightarrow> ''0'' | Some p \<Rightarrow> str_int p) @ '':'' @ str_int c)
       (sort_key (\<lambda>(c, h). str_int c @ ''/tcp'') bindings)) @
     (case ea_cpu_limit a of None \<Rightarrow> [] | Some c \<Rightarrow> [''--cpus'', sh_str_cpus H c]) @
     (case ea_memory_bytes a of None \<Rightarrow> [] | Some m \<Rightarrow> [''--memory'', str_int m]) @
     (case ea_pids_limit a of None \<Rightarrow> [] | Some n \<Rightarrow> [''--pids-limit'', str_int n]) @
     (case ea_security a of None \<Rightarrow> []
      | Some sp \<Rightarrow> options ''--security-opt'' (se_security_opt sp) @ options ''--cap-drop'' (se_cap_drop sp) @
          (if se_read_only_rootfs sp
           then [''--read-only'', ''--tmpfs'', ''/tmp:rw,nosuid,noexec,size=256m'', ''--tmpfs'', ''/run:rw,nosuid,size=64m''] else [])) @
     [img]"

definition ssm_reused :: "inspection \<Rightarrow> ensured" where
  "ssm_reused i = \<lparr>en_container_id = str_or_empty (ci_container_id i), en_created_new = False, en_state = ci_state i, en_ports = ci_ports i\<rparr>"

definition ssm_create :: "'s shell \<Rightarrow> ensure_args \<Rightarrow> ('s, runtime_exn + ensured) state" where
  "ssm_create H a =
     (case resolve_project_host_path remote_path_message (ea_project_mount a) (ea_host_path a) of Inl e \<Rightarrow> raise e
      | Inr (host, ro) \<Rightarrow>
     (case limit_error a of Some e \<Rightarrow> raise e
      | None \<Rightarrow>
     (case port_bindings_from_spec [] (ea_publish a) of Inl e \<Rightarrow> raise e
      | Inr bindings \<Rightarrow>
     (case extra_bind_strings [] (ea_extra_binds a) of Inl e \<Rightarrow> raise e
      | Inr extra \<Rightarrow>
          (let img = resolve_image (sh_default_image H) (ea_image a);
               project = host @ '':'' @ WORKSPACE_PROJECT_CONTAINER_PATH @ '':'' @ (if ro then ''ro'' else ''rw'')
           in andE (command H (\<lambda>m. ContainerCreateError (''failed to pull image '' @ py_repr img @ '': '' @ m)) [''docker'', ''pull'', img]) (\<lambda>_.
              andE (command H ContainerCreateError (create_argv H a img project extra bindings)) (\<lambda>out.
              case filter (\<lambda>l. l \<noteq> []) (map py_strip (splitlines (py_strip out))) of
                [] \<Rightarrow> raise (ContainerCreateError ''docker create returned empty id'')
              | l # ls \<Rightarrow>
                  (let cid = last (l # ls) in
                   andE (ssm_inspect_container H cid) (\<lambda>i.
                   ret \<lparr>en_container_id = (case ci_container_id i of Some (c # cs) \<Rightarrow> c # cs | _ \<Rightarrow> cid), en_created_new = True,
                        en_state = ci_state i,
                        en_ports = (if ci_ports i \<noteq> [] then ci_ports i else resolved_ports_tuple bindings)\<rparr>)))))))))"

definition ssm_ensure_container :: "'s shell \<Rightarrow> ensure_args \<Rightarrow> ('s, runtime_exn + ensured) state" where
  "ssm_ensure_container H a =
     (if py_strip (ea_name a) = [] then raise (ContainerCreateError ''container name must be non-empty'')
      else let rid = py_strip (str_or_empty (ea_existing_id a)) in
      andE (if rid = [] then ret inspection_not_found else ssm_inspect_container H rid) (\<lambda>i.
      if ci_exists i then ret (ssm_reused i)
      else andE (ssm_inspect_container H (ea_name a)) (\<lambda>j.
      if ci_exists j then ret (ssm_reused j) else ssm_create H a)))"

definition ssm_started :: "'s shell \<Rightarrow> string \<Rightarrow> string \<Rightarrow> inspection \<Rightarrow> ('s, runtime_exn + action_result) state" where
  "ssm_started H verb cid after =
     (if ci_state after = ''running'' then ret (acted cid after)
      else do {
        r \<leftarrow> sh_run H [''docker'', ''inspect'', cid];
        ret ((acted cid after)\<lparr>ac_success := False, ac_message := Some (''unexpected state after '' @ verb @ '': '' @ ci_state after @
          (case r of Inl _ \<Rightarrow> [] | Inr out \<Rightarrow> (case first_object out of None \<Rightarrow> [] | Some attrs \<Rightarrow> image_cmd_hint (sh_repr H) attrs)))\<rparr>) })"

definition ssm_start_container :: "'s shell \<Rightarrow> string \<Rightarrow> ('s, runtime_exn + action_result) state" where
  "ssm_start_container H cid =
     andE (ssm_inspect_container H cid) (\<lambda>i.
     if \<not> ci_exists i then raise (container_missing cid)
     else if ci_state i = ''running'' then ret (acted cid i)
     else andE (ssm_inspect_container H cid) (\<lambda>live.
     if ci_state live = ''running'' then ret (acted cid live)
     else andE (command H ContainerStartError [''docker'', ''start'', cid]) (\<lambda>_.
     andE (ssm_inspect_container H cid) (ssm_started H ''start'' cid))))"

definition stop_argv :: "'s shell \<Rightarrow> string \<Rightarrow> string list" where
  "stop_argv H cid = [''docker'', ''stop'', ''-t'', str_int (sh_stop_timeout H), cid]"

definition ssm_stop_container :: "'s shell \<Rightarrow> string \<Rightarrow> ('s, runtime_exn + action_result) state" where
  "ssm_stop_container H cid =
     andE (ssm_inspect_container H cid) (\<lambda>i.
     if \<not> ci_exists i then ret (gone_result cid)
     else let cid_out = ac_container_id (acted cid i) in
       if \<not> container_state_needs_engine_stop (ci_state i) then ret (acted cid i)
       else andE (ssm_inspect_container H cid) (\<lambda>live.
         if \<not> ci_exists live then ret (gone_result cid_out)
         else if \<not> container_state_needs_engine_stop (ci_state live) then ret (acted cid_out live)
         else andE (command H ContainerStopError (stop_argv H cid)) (\<lambda>_.
         andE (ssm_inspect_container H cid) (\<lambda>after.
         if \<not> ci_exists after then ret (gone_result cid_out)
         else if container_state_needs_engine_stop (ci_state after)
         then ret ((acted cid after)\<lparr>ac_success := False, ac_message := Some (''container still active after stop: '' @ ci_state after)\<rparr>)
         else ret (acted cid after)))))"

definition ssm_restart_container :: "'s shell \<Rightarrow> string \<Rightarrow> ('s, runtime_exn + action_result) state" where
  "ssm_restart_container H cid =
     andE (ssm_inspect_container H cid) (\<lambda>i.
     if \<not> ci_exists i then raise (container_missing cid)
     else andE (command H ContainerStartError [''docker'', ''restart'', ''-t'', str_int (sh_stop_timeout H), cid]) (\<lambda>_.
     andE (ssm_inspect_container H cid) (\<lambda>after.
     if \<not> ci_exists after then raise (ContainerNotFoundError (''container not found after restart: '' @ py_repr cid))
     else ssm_started H ''restart'' cid after)))"

text \<open>A failure of the removal counts as success when the container cannot be found afterwards.\<close>

definition ssm_remove :: "'s shell \<Rightarrow> string \<Rightarrow> string \<Rightarrow> inspection \<Rightarrow> ('s, runtime_exn + action_result) state" where
  "ssm_remove H cid known live = do {
     s \<leftarrow> (if container_state_needs_engine_stop (ci_state live) then sh_run H (stop_argv H cid) else State_Monad.return (Inr []));
     case s of
       Inl m \<Rightarrow> raise (ContainerStopError m)
     | Inr _ \<Rightarrow> do {
         d \<leftarrow> sh_run H [''docker'', ''rm'', ''-f'', cid];
         andE (ssm_inspect_container H cid) (\<lambda>final.
         if \<not> ci_exists final then ret (gone_result known)
         else case d of
           Inl m \<Rightarrow> raise (ContainerDeleteError m)
         | Inr _ \<Rightarrow> ret ((acted known final)\<lparr>ac_success := False, ac_message := Some ''container still exists after delete''\<rparr>)) } }"

definition ssm_delete_container :: "'s shell \<Rightarrow> string \<Rightarrow> ('s, runtime_exn + action_result) state" where
  "ssm_delete_container H cid =
     andE (ssm_inspect_container H cid) (\<lambda>i.
     if \<not> ci_exists i then ret (gone_result cid)
     else let known0 = ac_container_id (acted cid i) in
       andE (ssm_inspect_container H cid) (\<lambda>live.
       if \<not> ci_exists live then ret (gone_result known0)
       else ssm_remove H cid (ac_container_id (acted known0 live)) live))"

definition ssm_get_container_netns_ref :: "'s shell \<Rightarrow> string \<Rightarrow> ('s, runtime_exn + netns_ref) state" where
  "ssm_get_container_netns_ref H cid =
     andE (ssm_inspect_container H cid) (\<lambda>i.
     if \<not> ci_exists i \<or> ci_container_id i \<in> {None, Some []} then raise (NetnsRefError (''container not found: '' @ py_repr cid))
     else case ci_pid i of
       None \<Rightarrow> raise (NetnsRefError (''no host PID for container '' @ py_repr (str_or_empty (ci_container_id i)) @ '' (is the container running?)''))
     | Some pid \<Rightarrow> ret (netns_of (str_or_empty (ci_container_id i)) pid))"

definition ssm_adapter :: "'s shell \<Rightarrow> 's adapter" where
  "ssm_adapter H = \<lparr>ra_inspect = ssm_inspect_container H, ra_log_tail = ssm_fetch_container_log_tail H, ra_ensure = ssm_ensure_container H,
     ra_start = ssm_start_container H, ra_stop = ssm_stop_container H, ra_restart = ssm_restart_container H,
     ra_delete = ssm_delete_container H, ra_netns = ssm_get_container_netns_ref H\<rparr>"

end
