(* ===== verification/Runtime_Correct.thy ===== *)
theory Runtime_Correct
  imports Ssm_Runtime
begin

text \<open>
  What the callers of a container runtime rely on, as the locale \<open>runtime_contract\<close>, and that both adapters, the one
  on the Docker SDK and the one on the command line over SSM, keep it whatever the engine answers.
\<close>

definition live_netns :: "netns_ref \<Rightarrow> bool" where
  "live_netns n \<longleftrightarrow> 0 < nr_pid n \<and> nr_ref n = ''/proc/'' @ str_int (nr_pid n) @ ''/ns/net'' \<and> nr_container_id n \<noteq> []"

text \<open>The reported state of a container that no longer runs.\<close>

definition idle_state :: "string \<Rightarrow> bool" where
  "idle_state st \<longleftrightarrow> py_strip st = st \<and> st \<noteq> [] \<and> \<not> container_state_needs_engine_stop st"

locale runtime_contract =
  fixes R :: "'s adapter"
  assumes start_running: "yields (ra_start R cid) (\<lambda>r. ac_success r \<longrightarrow> ac_state r = ''running'')"
    and stop_inactive: "yields (ra_stop R cid) (\<lambda>r. ac_success r \<longrightarrow> idle_state (ac_state r))"
    and restart_running: "yields (ra_restart R cid) (\<lambda>r. ac_success r \<longrightarrow> ac_state r = ''running'')"
    and delete_missing: "yields (ra_delete R cid) (\<lambda>r. ac_success r \<longrightarrow> ac_state r = ''missing'')"
    and netns_live: "yields (ra_netns R cid) live_netns"
begin

lemma wait_running: "yields (wait_post_start_inspect R cid False n seen) (\<lambda>i. ci_state i = ''running'' \<and> has_pid i)"
  by (induction n arbitrary: seen)
     (auto simp: start_error_def split: option.split intro!: yields_intros)

text \<open>A container that is brought up runs, and its network namespace is that of a live process.\<close>

lemma brought_up:
  "yields (ensure_running_runtime_only R looks a False)
     (\<lambda>u. ru_container_id u \<noteq> [] \<and> ru_state u = ''running'' \<and> 0 < ru_pid u \<and> ru_netns_ref u = ''/proc/'' @ str_int (ru_pid u) @ ''/ns/net'')"
  unfolding ensure_running_runtime_only_def Let_def
  apply (rule yields_andE)
  apply (rule yields_if, simp)
  apply (rule yields_andE)
  apply (rule yields_if, simp add: start_error_def yields_bind)
  apply (rule yields_andE_of [OF wait_running])
  apply (simp only: if_False)
  apply (rule yields_andE_of [OF netns_live])
  apply (simp add: live_netns_def split: option.split list.split)
  done

text \<open>Without a namespace to hand over, the last look only excludes a container that has ended.\<close>

lemma wait_alive_only: "(\<And>i. seen = Some i \<Longrightarrow> \<not> container_dead i) \<Longrightarrow> yields (wait_post_start_inspect R cid True n seen) (\<lambda>i. \<not> container_dead i)"
  by (induction n arbitrary: seen)
     (auto simp: start_error_def split: option.split intro!: yields_intros)

lemma brought_up_unattached:
  "yields (ensure_running_runtime_only R looks a True)
     (\<lambda>u. ru_container_id u \<noteq> [] \<and> ru_state u \<notin> {''exited'', ''dead''} \<and> ru_pid u = 0 \<and> ru_netns_ref u = SKIP_NETNS_PLACEHOLDER_REF)"
  unfolding ensure_running_runtime_only_def Let_def
  apply (rule yields_andE)
  apply (rule yields_if, simp)
  apply (rule yields_andE)
  apply (rule yields_if, simp add: start_error_def yields_bind)
  apply (rule yields_andE_of [OF wait_alive_only], simp)
  apply (simp add: container_dead_def split: option.split list.split)
  done

end

section \<open>The adapters\<close>

lemma acted_simps [simp]: "ac_state (acted cid i) = ci_state i" "ac_success (acted cid i)"
  "ac_state (gone_result cid) = ''missing''" "ac_success (gone_result cid)"
  by (simp_all add: acted_def gone_result_def)

lemma missing_idle [simp]: "idle_state ''missing''"
  by (simp add: idle_state_def container_state_needs_engine_stop_def py_strip_def py_space_def)

lemma netns_of_simps [simp]: "nr_pid (netns_of cid pid) = pid" "nr_container_id (netns_of cid pid) = cid"
  "nr_ref (netns_of cid pid) = ''/proc/'' @ str_int pid @ ''/ns/net''"
  by (simp_all add: netns_of_def)

lemma positive_pid_pos: "positive_pid v = Some p \<Longrightarrow> 0 < p"
  by (auto simp: positive_pid_def split: option.splits if_splits)

text \<open>A process id an inspection reports is positive, and the state is a text without surrounding space.\<close>

definition sane :: "inspection \<Rightarrow> bool" where
  "sane i \<longleftrightarrow> (\<forall>p. ci_pid i = Some p \<longrightarrow> 0 < p) \<and> py_strip (ci_state i) = ci_state i \<and> ci_state i \<noteq> []"

lemma lower_no_space: "\<not> py_space c \<Longrightarrow> \<not> py_space (lower_char c)"
  by (auto simp: py_space_def lower_char_def Let_def of_char_of)

lemma engine_state_tidy: "py_strip (normalize_engine_state str raw) = normalize_engine_state str raw" "normalize_engine_state str raw \<noteq> []"
proof -
  have low: "py_strip (py_lower t) = py_lower t" if "py_strip t = t" "t \<noteq> []" for t
    using py_strip_ends [of t] that by (intro py_strip_tidy) (simp_all add: py_lower_def hd_map last_map lower_no_space)
  have "py_strip ''unknown'' = ''unknown''" by (simp add: py_strip_def py_space_def)
  then show "py_strip (normalize_engine_state str raw) = normalize_engine_state str raw"
    by (simp add: normalize_engine_state_def Let_def low)
  show "normalize_engine_state str raw \<noteq> []" by (simp add: normalize_engine_state_def Let_def py_lower_def)
qed

lemma normalize_sane [simp]: "sane (normalize_inspection str attrs)" "sane inspection_not_found"
  by (auto simp: sane_def normalize_inspection_def inspection_not_found_def Let_def positive_pid_pos engine_state_tidy)
     (simp add: py_strip_def py_space_def)

lemma idle_if_sane: "sane i \<Longrightarrow> \<not> container_state_needs_engine_stop (ci_state i) \<Longrightarrow> idle_state (ci_state i)"
  by (simp add: sane_def idle_state_def)

lemma inspect_sane: "yields (inspect_container K cid) sane" "yields (ssm_inspect_container H cid) sane"
  by (auto simp: inspect_container_def ssm_inspect_container_def intro!: yields_intros split: sum.split option.split)

lemma started_running:
  "yields (started_result K verb cid after) (\<lambda>r. ac_success r \<longrightarrow> ac_state r = ''running'')"
  "yields (ssm_started H verb cid after) (\<lambda>r. ac_success r \<longrightarrow> ac_state r = ''running'')"
  by (auto simp: started_result_def ssm_started_def intro!: yields_intros)

lemma live_netns_of: "0 < pid \<Longrightarrow> cid \<noteq> [] \<Longrightarrow> live_netns (netns_of cid pid)"
  by (simp add: live_netns_def)

lemma netns_loop_live: "yields (netns_loop K cid n seen) live_netns"
proof (induction n arbitrary: seen)
  case 0
  show ?case by (auto intro!: yields_bind)
next
  case (Suc n)
  show ?case unfolding netns_loop.simps(2)
  proof (rule yields_andE_of [OF inspect_sane(1)], rule yields_if)
    fix i assume "sane i" "\<not> (\<not> ci_exists i \<or> ci_container_id i \<in> {None, Some []})"
    then show "yields (case ci_pid i of Some pid \<Rightarrow>
         if dk_proc_visible K pid then ret (netns_of (str_or_empty (ci_container_id i)) pid)
         else raise (NetnsRefError (hidden_pid_message pid (str_or_empty (ci_container_id i))))
     | None \<Rightarrow> if ci_state i \<in> {''running'', ''restarting'', ''created'', ''paused''} then netns_loop K cid n i else netns_loop K cid 0 i) live_netns"
      using Suc.IH by (auto simp: sane_def str_or_empty_def intro!: live_netns_of yields_bind split: option.split)
  qed simp
qed

interpretation dk: runtime_contract "docker_adapter K" for K :: "'s docker"
proof
  fix cid
  show "yields (ra_start (docker_adapter K) cid) (\<lambda>r. ac_success r \<longrightarrow> ac_state r = ''running'')"
    by (auto simp: docker_adapter_def start_container_def Let_def intro!: yields_intros started_running)
  show "yields (ra_stop (docker_adapter K) cid) (\<lambda>r. ac_success r \<longrightarrow> idle_state (ac_state r))"
    unfolding docker_adapter_def stop_container_def Let_def adapter.simps
    by (rule yields_andE_of [OF inspect_sane(1)] yields_if yields_bind yields_andE | auto intro: idle_if_sane)+
  show "yields (ra_restart (docker_adapter K) cid) (\<lambda>r. ac_success r \<longrightarrow> ac_state r = ''running'')"
    by (auto simp: docker_adapter_def restart_container_def Let_def intro!: yields_intros started_running)
  show "yields (ra_delete (docker_adapter K) cid) (\<lambda>r. ac_success r \<longrightarrow> ac_state r = ''missing'')"
    by (auto simp: docker_adapter_def delete_container_def confirm_removed_def Let_def intro!: yields_intros)
  show "yields (ra_netns (docker_adapter K) cid) live_netns"
    by (simp only: docker_adapter_def adapter.simps get_container_netns_ref_def netns_loop_live)
qed

interpretation ssm: runtime_contract "ssm_adapter H" for H :: "'s shell"
proof
  fix cid
  show "yields (ra_start (ssm_adapter H) cid) (\<lambda>r. ac_success r \<longrightarrow> ac_state r = ''running'')"
    by (auto simp: ssm_adapter_def ssm_start_container_def Let_def intro!: yields_intros started_running)
  show "yields (ra_stop (ssm_adapter H) cid) (\<lambda>r. ac_success r \<longrightarrow> idle_state (ac_state r))"
    unfolding ssm_adapter_def ssm_stop_container_def Let_def adapter.simps
    by (rule yields_andE_of [OF inspect_sane(2)] yields_if yields_bind yields_andE | auto intro: idle_if_sane)+
  show "yields (ra_restart (ssm_adapter H) cid) (\<lambda>r. ac_success r \<longrightarrow> ac_state r = ''running'')"
    by (auto simp: ssm_adapter_def ssm_restart_container_def Let_def intro!: yields_intros started_running)
  show "yields (ra_delete (ssm_adapter H) cid) (\<lambda>r. ac_success r \<longrightarrow> ac_state r = ''missing'')"
    by (auto simp: ssm_adapter_def ssm_delete_container_def ssm_remove_def Let_def intro!: yields_intros split: sum.splits)
  show "yields (ra_netns (ssm_adapter H) cid) live_netns"
    by (auto simp: ssm_adapter_def ssm_get_container_netns_ref_def sane_def str_or_empty_def
        intro!: yields_if yields_andE_of [OF inspect_sane(2)] live_netns_of split: option.splits)
qed

section \<open>Consequences\<close>

text \<open>C14: what a container that was brought up is. With either adapter, and whatever the engine answers in
  between, a start of the container that ends without an exception reports a container with an identifier. When the network
  namespace is asked for, because the workspace is attached to the bridge of the node, the container is in the state
  running and the namespace is that of a process with a positive id. When it is not asked for, as on every node reached
  through SSH or SSM, the container has not been seen exited or dead, but it may not have been seen running, and process id
  and namespace are placeholders.\<close>

theorem brought_up_container_runs:
  assumes "run_state (ensure_running_runtime_only R looks a skip_netns) s = (Inr u, t)" "R = docker_adapter K \<or> R = ssm_adapter H"
  shows "ru_container_id u \<noteq> [] \<and>
    (if skip_netns then ru_state u \<notin> {''exited'', ''dead''} \<and> ru_pid u = 0 \<and> ru_netns_ref u = SKIP_NETNS_PLACEHOLDER_REF
     else ru_state u = ''running'' \<and> 0 < ru_pid u \<and> ru_netns_ref u = ''/proc/'' @ str_int (ru_pid u) @ ''/ns/net'')"
  using assms(2)
proof
  assume "R = docker_adapter K"
  then show ?thesis
    using yields_run [OF dk.brought_up, of K looks a] yields_run [OF dk.brought_up_unattached, of K looks a] assms(1) by (cases skip_netns) auto
next
  assume "R = ssm_adapter H"
  then show ?thesis
    using yields_run [OF ssm.brought_up, of H looks a] yields_run [OF ssm.brought_up_unattached, of H looks a] assms(1) by (cases skip_netns) auto
qed

text \<open>A container that is there is used as it is. When the container is found under its name and its bind mounts are
  those requested, ensuring it only looks: labels, environment, limits, image and security options of the
  request have no effect, on the outcome or on the engine.\<close>

theorem reused_container_ignores_request:
  assumes "run_state (find_existing K a) s = (Inr (Some attrs), t)" "py_strip (ea_name a) \<noteq> []"
    "requested_bind_signatures (ea_host_path a) (ea_extra_binds a) = Inr wanted"
    "wanted = None \<or> wanted = Some (existing_bind_signatures (ci_binds (normalize_inspection (dk_str K) attrs)))"
  shows "run_state (ensure_container K (a\<lparr>ea_labels := l, ea_env := v, ea_cpu_limit := c, ea_memory_bytes := m, ea_pids_limit := p,
       ea_image := i, ea_security := x\<rparr>)) s =
     (Inr \<lparr>en_container_id = str_or_empty (ci_container_id (normalize_inspection (dk_str K) attrs)), en_created_new = False,
           en_state = ci_state (normalize_inspection (dk_str K) attrs), en_ports = ci_ports (normalize_inspection (dk_str K) attrs)\<rparr>, t)"
proof -
  let ?b = "a\<lparr>ea_labels := l, ea_env := v, ea_cpu_limit := c, ea_memory_bytes := m, ea_pids_limit := p, ea_image := i, ea_security := x\<rparr>"
  have "find_existing K ?b = find_existing K a" by (simp add: find_existing_def)
  then have f: "run_state (find_existing K ?b) s = (Inr (Some attrs), t)" using assms(1) by simp
  have k: "keep_or_remove K ?b (Some attrs) = ret (Some attrs)" using assms(3,4) by (auto simp: keep_or_remove_def)
  show ?thesis using assms(2) f k
    by (simp add: ensure_container_def andE_def State_Monad.bind_def State_Monad.return_def ret_def Let_def)
qed

text \<open>Through SSM, an outage looks like an absent container. When the inspection command fails, for whatever reason, the
  adapter on the command line reports the container as stopped, and as deleted, with success; the adapter on the SDK
  lets an error of the engine through.\<close>

theorem ssm_outage_reports_absence:
  assumes "run_state (sh_run H [''docker'', ''inspect'', cid]) s = (Inl outage, t)" "run_state (dk_get K cid) s = (ApiError outage, t)"
  shows "run_state (ra_stop (ssm_adapter H) cid) s = (Inr (gone_result cid), t) \<and> run_state (ra_delete (ssm_adapter H) cid) s = (Inr (gone_result cid), t)
    \<and> run_state (ra_stop (docker_adapter K) cid) s = (Inl (EngineError outage), t) \<and> run_state (ra_delete (docker_adapter K) cid) s = (Inl (EngineError outage), t)"
  using assms
  by (simp add: ssm_adapter_def docker_adapter_def ssm_stop_container_def ssm_delete_container_def stop_container_def delete_container_def
      ssm_inspect_container_def inspect_container_def andE_def State_Monad.bind_def State_Monad.return_def ret_def raise_def inspection_not_found_def)

section \<open>An engine with one container\<close>

text \<open>The state of the engine is the container, if there is one.\<close>

definition ex_str :: "json \<Rightarrow> string" where
  "ex_str j = (case j of JStr x \<Rightarrow> x | _ \<Rightarrow> [])"

definition ex_running :: jobj where
  "ex_running = [(''Id'', JStr ''c1''), (''State'', JObj [(''Status'', JStr ''running''), (''Pid'', JInt 42)])]"

definition ex_exited :: jobj where
  "ex_exited = [(''Id'', JStr ''c1''), (''State'', JObj [(''Status'', JStr ''exited''), (''Pid'', JInt 0)])]"

definition ex_docker :: "jobj option docker" where
  "ex_docker = \<lparr>dk_get = (\<lambda>_. State (\<lambda>s. (case s of None \<Rightarrow> NotFound [] | Some attrs \<Rightarrow> Answer attrs, s))),
     dk_logs = (\<lambda>_ _. State_Monad.return (Answer [])), dk_create = (\<lambda>_. State (\<lambda>_. (Answer (Some ''c1''), Some ex_exited))),
     dk_pull = (\<lambda>_. State_Monad.return (Answer ())), dk_start = (\<lambda>_. State (\<lambda>_. (Answer (), Some ex_running))),
     dk_stop = (\<lambda>_. State (\<lambda>_. (Answer (), Some ex_exited))), dk_restart = (\<lambda>_. State (\<lambda>_. (Answer (), Some ex_running))),
     dk_remove = (\<lambda>_ _. State (\<lambda>_. (Answer (), None))), dk_str = ex_str, dk_repr = (\<lambda>_. []), dk_proc_visible = (\<lambda>_. True),
     dk_default_image = []\<rparr>"

definition ex_ensure :: ensure_args where
  "ex_ensure = \<lparr>ea_name = ''w'', ea_image = None, ea_cpu_limit = None, ea_memory_bytes = None, ea_pids_limit = None, ea_security = None,
     ea_env = [], ea_publish = [], ea_labels = [], ea_project_mount = None, ea_host_path = None, ea_extra_binds = [], ea_existing_id = None\<rparr>"

lemma ex_inspections:
  "normalize_inspection ex_str ex_running = \<lparr>ci_exists = True, ci_container_id = Some ''c1'', ci_state = ''running'', ci_pid = Some 42,
     ci_ports = [], ci_binds = [], ci_labels = [], ci_started_at = None, ci_finished_at = None, ci_exit_code = None\<rparr>"
  "normalize_inspection ex_str ex_exited = \<lparr>ci_exists = True, ci_container_id = Some ''c1'', ci_state = ''exited'', ci_pid = None,
     ci_ports = [], ci_binds = [], ci_labels = [], ci_started_at = None, ci_finished_at = None, ci_exit_code = None\<rparr>"
  by (simp_all add: normalize_inspection_def ex_str_def ex_running_def ex_exited_def jget_def jdict_def normalize_engine_state_def py_strip_def
      py_space_def none_if_empty_def py_lower_def lower_char_def Let_def positive_pid_def normalize_ports_def normalize_bind_mount_infos_def
      jlist_def normalize_inspection_labels_def text_field_def List.map_filter_def)

lemma ex_fields [simp]: "dk_str ex_docker = ex_str" "dk_proc_visible ex_docker p"
  "run_state (dk_get ex_docker ref) s = (case s of None \<Rightarrow> NotFound [] | Some attrs \<Rightarrow> Answer attrs, s)"
  "run_state (dk_stop ex_docker ref) s = (Answer (), Some ex_exited)" "run_state (dk_start ex_docker ref) s = (Answer (), Some ex_running)"
  "ea_name ex_ensure = ''w''" "ea_existing_id ex_ensure = None" "ea_host_path ex_ensure = None" "ea_extra_binds ex_ensure = []"
  "py_strip ''w'' = ''w''" "py_strip [] = []"
  by (simp_all add: ex_docker_def ex_ensure_def py_strip_def py_space_def)

lemma ex_inspect [simp]: "run_state (inspect_container ex_docker cid) s =
    (Inr (case s of None \<Rightarrow> inspection_not_found | Some attrs \<Rightarrow> normalize_inspection ex_str attrs), s)"
  by (cases s) (simp_all add: inspect_container_def evaluation)

lemma ex_find: "run_state (find_existing ex_docker ex_ensure) (Some attrs) = (Inr (Some attrs), Some attrs)"
  by (simp add: find_existing_def get_container_if_exists_def evaluation)

lemma ex_binds [simp]: "requested_bind_signatures None [] = Inr None"
  by (simp add: requested_bind_signatures_def)

theorem reused_container_ignores_request_witness:
  "run_state (ensure_container ex_docker (ex_ensure\<lparr>ea_labels := [(''v'', ''2'')], ea_env := [], ea_cpu_limit := Some 2, ea_memory_bytes := None,
     ea_pids_limit := None, ea_image := None, ea_security := None\<rparr>)) (Some ex_running) =
   (Inr \<lparr>en_container_id = ''c1'', en_created_new = False, en_state = ''running'', en_ports = []\<rparr>, Some ex_running)"
  using reused_container_ignores_request [OF ex_find, of None] by (simp add: ex_inspections)

theorem brought_up_container_runs_witness:
  "\<exists>u. run_state (ensure_running_runtime_only (docker_adapter ex_docker) 1 ex_ensure False) (Some ex_exited) = (Inr u, Some ex_running) \<and> 0 < ru_pid u"
proof -
  have e: "run_state (ensure_container ex_docker ex_ensure) (Some ex_exited) =
      (Inr \<lparr>en_container_id = ''c1'', en_created_new = False, en_state = ''exited'', en_ports = []\<rparr>, Some ex_exited)"
    by (simp add: ensure_container_def evaluation ex_find keep_or_remove_def ex_inspections)
  have s: "run_state (start_container ex_docker ''c1'') (Some ex_exited) = (Inr (acted ''c1'' (normalize_inspection ex_str ex_running)), Some ex_running)"
    by (simp add: start_container_def evaluation ex_inspections started_result_def)
  have n: "run_state (get_container_netns_ref ex_docker ''c1'') (Some ex_running) = (Inr (netns_of ''c1'' 42), Some ex_running)"
    by (simp add: get_container_netns_ref_def eval_nat_numeral evaluation ex_inspections)
  obtain u where u: "run_state (ensure_running_runtime_only (docker_adapter ex_docker) 1 ex_ensure False) (Some ex_exited) = (Inr u, Some ex_running)"
    by (simp add: ensure_running_runtime_only_def docker_adapter_def evaluation e s n acted_def ex_inspections container_dead_def has_pid_def Let_def)
  then show ?thesis using brought_up_container_runs [OF u disjI1 [OF refl]] by auto
qed

definition ex_shell :: "jobj option shell" where
  "ex_shell = \<lparr>sh_run = (\<lambda>_. State_Monad.return (Inl ''ssm down'')), sh_str = ex_str, sh_repr = (\<lambda>_. []), sh_str_cpus = (\<lambda>_. []),
     sh_stop_timeout = 10, sh_default_image = []\<rparr>"

theorem ssm_outage_reports_absence_witness:
  "run_state (ra_stop (ssm_adapter ex_shell) ''c1'') (Some ex_running) = (Inr (gone_result ''c1''), Some ex_running)"
  using ssm_outage_reports_absence [of ex_shell "''c1''" "Some ex_running" "''ssm down''" "Some ex_running"
      "ex_docker\<lparr>dk_get := \<lambda>_. State_Monad.return (ApiError ''ssm down'')\<rparr>"]
  by (simp add: ex_shell_def State_Monad.return_def)

end
