(* ===== verification/Attach_Correct.thy ===== *)
theory Attach_Correct
  imports Janitor_Correct
begin

text \<open>
  The constraints of the topology tables hold after every operation a bring-up or a teardown calls, whatever the
  outcome; and what is left after a detach and a release that succeed.
\<close>

section \<open>Preparing a node\<close>

lemma put_runtime_ok:
  assumes "topo_ok d" "r \<in> set (t_runtimes d)" "tr_id q = tr_id r" "tr_topology_id q = tr_topology_id r" "tr_node_id q = tr_node_id r"
    "tr_cidr q = tr_cidr r"
  shows "topo_ok (put_runtime q d)"
  using assms rt.rewrite [of "t_runtimes d" "t_runtime_seq d" r q] by (simp add: topo_ok_def put_runtime_def runtime_clash_def)

lemma sync_ok:
  assumes "topo_ok d" "r \<in> set (t_runtimes d)"
  shows "topo_ok (tstate (sync_and_report W r d))"
proof -
  have "tstate (sync_and_report W r d) = tstate (sync_linux_node_bridge W r d)"
    by (auto simp: sync_and_report_def tthen_def tstate_def split: sum.split prod.split)
  moreover have "topo_ok (put_runtime (synced W s c m r) d)" for s c m
    using put_runtime_ok [OF assms, of "synced W s c m r"] by (simp add: synced_def)
  ultimately show ?thesis using sync_state [of W r d] assms(1) by (metis empty_iff insert_iff)
qed

lemma commit_new_runtime_ok:
  assumes "topo_ok d" "fair_race W"
  shows "topo_ok (commit_state (commit_new_runtime W k r d))"
proof -
  let ?e = "tw_race W k d"
  have e: "topo_ok ?e" using assms by (simp add: fair_race_def)
  then show ?thesis using rt.add [of "t_runtimes ?e" "t_runtime_seq ?e" "r\<lparr>tr_id := t_runtime_seq ?e\<rparr>"]
    by (simp add: commit_new_runtime_def Let_def topo_ok_def add_runtime_def runtime_conflict_def split: option.split)
qed

lemma commit_runtime_ok:
  assumes "topo_ok d" "fair_race W"
  shows "topo_ok (commit_state (commit_runtime W k rid f d))"
proof -
  let ?e = "tw_race W k d"
  have e: "topo_ok ?e" using assms by (simp add: fair_race_def)
  have "topo_ok (put_runtime q ?e)" if "\<not> runtime_conflict q ?e" for q
    using e that rt.put [of "t_runtimes ?e" "t_runtime_seq ?e" q] by (simp add: topo_ok_def put_runtime_def runtime_conflict_def)
  then show ?thesis using e by (simp add: commit_runtime_def Let_def split: option.split)
qed

lemma ensure_loop_ok:
  assumes "fair_race W"
  shows "topo_ok d \<Longrightarrow> topo_ok (tstate (ensure_loop W tid nid plan k left d))"
proof (induction left arbitrary: k d)
  case (Suc left)
  obtain sc sg b where plan: "plan = (sc, sg, b)" by (cases plan)
  let ?x = "find_runtime d tid nid"
  let ?commit = "\<lambda>c g. case ?x of None \<Rightarrow> commit_new_runtime W k (new_runtime W tid nid b c g) d
    | Some r \<Rightarrow> commit_runtime W k (tr_id r) (completed W r b c g) d"
  have keep: "topo_ok (commit_state (?commit c g))" for c g
    using commit_new_runtime_ok [OF Suc.prems assms] commit_runtime_ok [OF Suc.prems assms] by (simp split: option.split)
  show ?case
  proof (cases "choose_runtime_cidr_and_gateway W d tid nid ?x sc sg k")
    case (Inl e)
    then show ?thesis using Suc.prems plan by (cases e) (simp_all add: Let_def)
  next
    case (Inr cg)
    obtain c g where cg: "cg = (c, g)" by (cases cg)
    then show ?thesis using Suc.prems plan Inr keep [of c g] Suc.IH by (cases "?commit c g") (simp_all add: Let_def)
  qed
qed simp

lemma tthen_ok:
  assumes "topo_ok (tstate m)" "\<And>a e. m = Inr (a, e) \<Longrightarrow> topo_ok e \<Longrightarrow> topo_ok (tstate (f a e))"
  shows "topo_ok (tstate (tthen m f))"
  using assms by (auto simp: tthen_def split: sum.split)

lemma ensure_ok:
  assumes "topo_ok d" "fair_race W"
  shows "topo_ok (tstate (ensure_node_topology W tid node d))"
proof -
  let ?nid = "clean_node node"
  have sync: "topo_ok (tstate (sync_and_report W r e))" if "topo_ok e" "find_runtime e tid ?nid = Some r" for r e
    using that sync_ok find_runtime_Some by blast
  have loop: "topo_ok (tstate (tthen (ensure_loop W tid ?nid plan 0 ENSURE_NODE_CIDR_MAX_ATTEMPTS d) (\<lambda>_ e.
      case find_runtime e tid ?nid of
        None \<Rightarrow> Inl (TopologyRuntimeCreateError ''failed to ensure topology runtime row'', e)
      | Some q \<Rightarrow> sync_and_report W q e)))" for plan
    by (rule tthen_ok [OF ensure_loop_ok [OF assms(2,1)]]) (auto split: option.split intro: sync)
  have "topo_ok (tstate (sync_and_report W r d))" if "complete_runtime d tid ?nid = Some r" for r
    using that sync [OF assms(1)] by (simp add: complete_runtime_def split: option.splits if_splits)
  then show ?thesis using assms(1) loop by (simp add: ensure_node_topology_def Let_def split: option.split sum.split)
qed

section \<open>Attaching\<close>

lemma put_att_ok:
  assumes "topo_ok d" "a \<in> set (t_atts d)" "at_id b = at_id a" "at_topology_id b = at_topology_id a" "at_node_id b = at_node_id a"
    "at_workspace_id b = at_workspace_id a"
  shows "topo_ok (put_att b d)" "b \<in> set (t_atts (put_att b d))"
proof -
  show "topo_ok (put_att b d)"
    using assms at.rewrite [of "t_atts d" "t_att_seq d" a b] by (simp add: topo_ok_def put_att_def att_clash_def)
  show "b \<in> set (t_atts (put_att b d))" using assms(2,3) by (force simp: put_att_def row_put_def)
qed

lemma persist_attaching_ok:
  assumes "topo_ok d" "att = find_att d tid nid wid" "persist_attaching W r tid nid wid cid ip veth att d = Inr (a, e)"
  shows "topo_ok e" "a \<in> set (t_atts e)"
proof -
  have at: "table_ok at_id att_clash (t_atts d) (t_att_seq d)" using assms(1) by (simp add: topo_ok_def)
  have "topo_ok e \<and> a \<in> set (t_atts e)"
  proof (cases att)
    case None
    let ?a = "(attaching W r cid ip veth (blank_att W tid nid wid))\<lparr>at_id := t_att_seq d\<rparr>"
    have "filter (\<lambda>q. at_topology_id q = tid \<and> at_node_id q = nid \<and> at_workspace_id q = wid) (t_atts d) = []"
      using None assms(2) by (cases "filter (\<lambda>q. at_topology_id q = tid \<and> at_node_id q = nid \<and> at_workspace_id q = wid) (t_atts d)")
        (simp_all add: find_att_def)
    then have "\<not> list_ex (\<lambda>q. at_id q \<noteq> at_id ?a \<and> att_clash q ?a) (t_atts d)"
      by (auto simp: filter_empty_conv list_ex_iff att_clash_def attaching_def blank_att_def)
    from at.add [OF at _ this] have "topo_ok (add_att ?a d)" using assms(1) by (simp add: topo_ok_def add_att_def)
    then show ?thesis using assms(3) None by (auto simp: persist_attaching_def Let_def add_att_def split: option.splits)
  next
    case (Some b)
    then have "b \<in> set (t_atts d)" using assms(2) find_att_Some by metis
    then show ?thesis using assms(1,3) Some put_att_ok [of d b "attaching W r cid ip veth b"]
      by (auto simp: persist_attaching_def Let_def attaching_def split: option.splits)
  qed
  then show "topo_ok e" "a \<in> set (t_atts e)" by simp_all
qed

lemma persist_attaching_Inl: "persist_attaching W r tid nid wid cid ip veth att d = Inl (x, e) \<Longrightarrow> e = d"
  by (auto simp: persist_attaching_def Let_def split: option.splits)

lemma row_find_in: "row_find key k rows = Some r \<Longrightarrow> r \<in> set rows"
  by (auto simp: row_find_def find_Some_iff)

lemma attach_failure_ok:
  assumes "topo_ok d"
  shows "topo_ok (attach_failure_best_effort W tid nid wid aid ip release d)"
proof -
  have mark: "topo_ok (put_att (a\<lparr>at_status := AS_FAILED, at_updated_at := tw_now W\<rparr>) d)" if "row_find at_id aid (t_atts d) = Some a" for a
    using put_att_ok(1) [OF assms row_find_in [OF that]] by simp
  have free: "topo_ok (put_lease (l\<lparr>ia_released_at := Some (tw_now W)\<rparr>) e)" if "topo_ok e" "find_active_lease e tid nid wid = Some l" for e l
    using release_effect(1) [OF that(1)] find_active_Some [OF that(2)] by blast
  show ?thesis using assms mark free by (simp add: attach_failure_best_effort_def Let_def split: option.split)
qed

lemma finish_attach_ok:
  assumes "topo_ok d" "a \<in> set (t_atts d)"
  shows "topo_ok (tstate (finish_attach W r tid nid wid ip host_if was_new a d))"
proof -
  have "topo_ok (put_att (a\<lparr>at_status := AS_ATTACHED, at_updated_at := tw_now W\<rparr>) d)" using put_att_ok(1) [OF assms] by simp
  then show ?thesis using attach_failure_ok assms(1)
    by (simp add: finish_attach_def Let_def split: option.split sum.split list.split)
qed

lemma attach_ok:
  assumes "topo_ok d" "fair_race W"
  shows "topo_ok (tstate (attach_workspace W tid node wid container netns_ref address d))"
proof -
  let ?nid = "clean_node node" and ?cid = "take 128 (py_strip container)" and ?ip = "py_strip address"
  have wire: "topo_ok (tstate (tthen (persist_attaching W r tid ?nid wid ?cid ?ip veth (find_att e tid ?nid wid) e)
      (\<lambda>a d. finish_attach W r tid ?nid wid ?ip hi nw a d)))" if "topo_ok e" for e r veth hi nw
  proof (rule tthen_ok)
    show "topo_ok (tstate (persist_attaching W r tid ?nid wid ?cid ?ip veth (find_att e tid ?nid wid) e))"
      by (cases "persist_attaching W r tid ?nid wid ?cid ?ip veth (find_att e tid ?nid wid) e")
        (use that persist_attaching_ok(1) [OF that refl] persist_attaching_Inl in \<open>metis old.prod.exhaust tstate_simps\<close>)+
  qed (use finish_attach_ok persist_attaching_ok(2) [OF that refl] in blast)
  have fast: "tstate out = e" if "attach_fast_path W r att ?cid ?ip e = Some out" for r att e out
    using that by (auto simp: attach_fast_path_def split: if_splits option.splits sum.splits list.splits)
  show ?thesis
  proof (cases "py_strip container = []")
    case False
    show ?thesis unfolding attach_workspace_def if_not_P [OF False] Let_def
    proof (rule tthen_ok)
      show "topo_ok (tstate (ensure_node_topology W tid ?nid d))" by (rule ensure_ok [OF assms])
      fix a e assume "topo_ok e"
      then show "topo_ok (tstate (case attachable_runtime e tid ?nid of
          Inl x \<Rightarrow> Inl (x, e)
        | Inr r \<Rightarrow>
            (case check_attach_address W e r tid ?nid wid ?ip of
               Some x \<Rightarrow> Inl (x, e)
             | None \<Rightarrow>
                 (case check_netns W netns_ref of
                    Some x \<Rightarrow> Inl (x, e)
                  | None \<Rightarrow>
                      (case attach_fast_path W r (find_att e tid ?nid wid) ?cid ?ip e of
                         Some out \<Rightarrow> out
                       | None \<Rightarrow>
                           (case stale_veth_error W (find_att e tid ?nid wid) of
                              Some x \<Rightarrow> Inl (x, e)
                            | None \<Rightarrow>
                                tthen (persist_attaching W r tid ?nid wid ?cid ?ip (veth_pair_names W tid ?nid wid) (find_att e tid ?nid wid) e) (\<lambda>a d.
                                finish_attach W r tid ?nid wid ?ip (fst (veth_pair_names W tid ?nid wid)) (find_att e tid ?nid wid = None) a d)))))))"
        using wire fast by (auto split: sum.split option.split)
    qed
  qed (simp add: attach_workspace_def assms(1))
qed

section \<open>Tearing down\<close>

lemma detach_outcome:
  assumes "topo_ok d"
  shows "topo_ok (tstate (detach_workspace W tid node wid d))"
    and "detach_workspace W tid node wid d = Inr (x, e) \<Longrightarrow>
      find_active_lease e = find_active_lease d \<and> (\<forall>a. find_att e tid (clean_node node) wid = Some a \<longrightarrow> at_status a = AS_DETACHED)"
proof -
  let ?nid = "clean_node node"
  have eff: "topo_ok (put_att (detached W a) d)" "find_active_lease (put_att (detached W a) d) = find_active_lease d"
    "find_att (put_att (detached W a) d) tid ?nid wid = Some (detached W a)" if "find_att d tid ?nid wid = Some a" for a
    using detach_effect [OF assms conjunct1 [OF find_att_Some [OF that]]] that by simp_all
  show "topo_ok (tstate (detach_workspace W tid node wid d))"
    using assms eff(1) by (simp add: detach_workspace_def Let_def split: option.split)
  have st: "at_status (detached W a) = AS_DETACHED" for a by (simp add: detached_def)
  assume "detach_workspace W tid node wid d = Inr (x, e)"
  then show "find_active_lease e = find_active_lease d \<and> (\<forall>a. find_att e tid ?nid wid = Some a \<longrightarrow> at_status a = AS_DETACHED)"
    using eff(2,3) st by (auto simp: detach_workspace_def Let_def split: option.splits if_splits)
qed

lemma release_outcome:
  assumes "topo_ok d"
  shows "topo_ok (tstate (release_workspace_ip_lease W tid node wid d))"
    and "find_att (tstate (release_workspace_ip_lease W tid node wid d)) = find_att d"
    and "release_workspace_ip_lease W tid node wid d = Inr (x, e) \<Longrightarrow> find_active_lease e tid (clean_node node) wid = None"
proof -
  let ?nid = "clean_node node"
  have eff: "topo_ok (put_lease (l\<lparr>ia_released_at := Some x\<rparr>) d)" "find_att (put_lease (l\<lparr>ia_released_at := Some x\<rparr>) d) = find_att d"
    "find_active_lease (put_lease (l\<lparr>ia_released_at := Some x\<rparr>) d) tid ?nid wid = None"
    if "find_active_lease d tid ?nid wid = Some l" for l x
    using release_effect [OF assms conjunct1 [OF find_active_Some [OF that]], of x] find_active_Some [OF that]
    by (simp_all add: lease_owner_def)
  show "topo_ok (tstate (release_workspace_ip_lease W tid node wid d))" "find_att (tstate (release_workspace_ip_lease W tid node wid d)) = find_att d"
    using assms eff(1,2) by (simp_all add: release_workspace_ip_lease_def split: option.split)
  assume "release_workspace_ip_lease W tid node wid d = Inr (x, e)"
  then show "find_active_lease e tid ?nid wid = None"
    using eff(3) by (auto simp: release_workspace_ip_lease_def split: option.splits)
qed

end
