(* ===== verification/Site_Samples.thy ===== *)
theory Site_Samples
  imports Runtime_Cycle Runtime_Correct Attach_Correct
begin

text \<open>
  A concrete orchestrator service, on the sample engine, host and tables, for the witnesses of its operations.
\<close>

section \<open>A sample service\<close>

text \<open>A service on the sample engine, whose host directories, network and clock answer at once.\<close>

definition ex_dirs :: "jobj option host_dirs" where
  "ex_dirs = \<lparr>hd_project_dir = (\<lambda>_ _ _. ret ''p''), hd_bind_path = (\<lambda>_ _. ret ''p''), hd_dir_exists = (\<lambda>_ _. ret True),
     hd_mounts = (\<lambda>_ _ _ _. ret (''c'', ''d'')), hd_verify = (\<lambda>_. State_Monad.return None), hd_finalize = (\<lambda>_. State_Monad.return None)\<rparr>"

definition ex_links :: "jobj option net" where
  "ex_links = \<lparr>nt_connect = (\<lambda>_ _ _. State_Monad.return Connected), nt_http = (\<lambda>_ _. ret 200), nt_runner = None,
     nt_diagnostics = (\<lambda>_ _ _. State_Monad.return []), nt_read_error = (\<lambda>_. State_Monad.return None), nt_escape = State_Monad.return None, nt_str_float = (\<lambda>_. []),
     nt_colocated = True, nt_http_enabled = False, nt_health_path = []\<rparr>"

definition ex_looks :: looks where
  "ex_looks = \<lparr>lk_start = 1, lk_alive = (\<lambda>_. 1), lk_tcp = 1, lk_http = 1, lk_health = 1, lk_per_try = (\<lambda>_. 1)\<rparr>"

definition ex_limits :: "string \<Rightarrow> workspace_settings" where
  "ex_limits mode = \<lparr>wt_cpu_limit = 1, wt_memory_limit_mb = 512, wt_pids_limit = 64, wt_auth_mode = mode, wt_password = [],
     wt_no_new_privileges = True, wt_seccomp_default = True, wt_cap_drop = [], wt_read_only_rootfs = False, wt_tcp_wait_seconds = 60\<rparr>"

definition ex_service :: "bool \<Rightarrow> string \<Rightarrow> jobj option service" where
  "ex_service fallback mode = \<lparr>sv_env = ex_env\<lparr>cfg := ex_settings\<lparr>s_allow_runtime_env_fallback := fallback\<rparr>\<rparr>, sv_settings = ex_limits mode,
     sv_runtime = docker_adapter ex_docker, sv_topo = (\<lambda>_. ex_tw), sv_net = ex_links, sv_dirs = ex_dirs, sv_looks = ex_looks,
     sv_topology_id = 1, sv_node_id = ''n1'', sv_routing_host = None, sv_workspace_image = None, sv_host_runner = False,
     sv_attach_deferred = False, sv_skip_attach = True, sv_netns_visible = (\<lambda>_. State_Monad.return None), sv_proc_visible = (\<lambda>_. True),
     sv_proc_repr = (\<lambda>_. [])\<rparr>"

definition ex_site :: "jobj option \<Rightarrow> tdb \<Rightarrow> nat \<Rightarrow> jobj option site" where
  "ex_site e d k = \<lparr>si_engine = e, si_topo = d, si_calls = k\<rparr>"

lemma ex_service_fields [simp]: "sv_settings (ex_service b m) = ex_limits m" "sv_runtime (ex_service b m) = docker_adapter ex_docker"
  "sv_topo (ex_service b m) = (\<lambda>_. ex_tw)" "sv_net (ex_service b m) = ex_links" "sv_dirs (ex_service b m) = ex_dirs"
  "sv_looks (ex_service b m) = ex_looks" "sv_topology_id (ex_service b m) = 1" "sv_node_id (ex_service b m) = ''n1''"
  "sv_routing_host (ex_service b m) = None" "sv_workspace_image (ex_service b m) = None" "\<not> sv_attach_deferred (ex_service b m)"
  "sv_skip_attach (ex_service b m)" "\<not> sv_host_runner (ex_service b m)"
  "authoritative_container_ref_required (sv_env (ex_service b m)) = (\<not> b)"
  by (simp_all add: ex_service_def authoritative_container_ref_required_def placement_strict_enforced_def
      runtime_env_fallback_allowed_def ex_env_def ex_settings_def)

lemma ex_site_fields [simp]: "si_engine (ex_site e d k) = e" "si_topo (ex_site e d k) = d" "si_calls (ex_site e d k) = k"
  "(ex_site e d k)\<lparr>si_engine := e'\<rparr> = ex_site e' d k" "(ex_site e d k)\<lparr>si_topo := d', si_calls := k'\<rparr> = ex_site e d' k'"
  "(ex_site e d k)\<lparr>si_calls := k'\<rparr> = ex_site e d k'"
  by (simp_all add: ex_site_def)

lemma ex_tables_ok: "topo_ok ex_failed_tdb"
  by (simp add: topo_ok_def table_ok_def keys_ok_def ex_failed_tdb_def ex_tdb_def ex_runtime_def)

lemma ex_wid [simp]: "py_strip ''7'' = ''7''" "parse_topology_workspace_id ''7'' = Inr 7"
  "py_strip ''c1'' = ''c1''"
  by (simp_all add: py_strip_def py_space_def parse_topology_workspace_id_def parse_int_def is_digit_def)

lemma run_engine: "run_state (engine m) s = (case run_state m (si_engine s) of (a, e) \<Rightarrow> (a, s\<lparr>si_engine := e\<rparr>))"
  by (simp add: engine_def)

lemma ex_host [simp]: "tw_commit ex_tw k n = None" "\<not> tw_apply_attach ex_tw" "\<not> tw_apply_bridge ex_tw"
  by (simp_all add: ex_tw_def)

lemma ex_failed: "\<exists>a. find_att ex_failed_tdb 1 ''n1'' 7 = Some a \<and> at_status a = AS_FAILED"
  by (simp add: find_att_def ex_failed_tdb_def blank_att_def)

lemma ex_detach: "\<exists>b ip d'. detach_workspace ex_tw 1 ''n1'' n d = Inr (\<lparr>dr_detached = b, dr_workspace_ip = ip\<rparr>, d')"
  by (auto simp: detach_workspace_def Let_def split: option.split)

lemma ex_release: "\<exists>b d'. release_workspace_ip_lease ex_tw 1 ''n1'' n d = Inr (b, d')"
  by (auto simp: release_workspace_ip_lease_def split: option.split)

lemma ex_detach_run:
  "\<exists>b d'. run_state (detach_best_effort x (ex_service f m) n) (ex_site e d k) = (Inr (Some b, []), ex_site e d' (Suc k))"
proof -
  obtain b ip d' where "detach_workspace ex_tw 1 ''n1'' n d = Inr (\<lparr>dr_detached = b, dr_workspace_ip = ip\<rparr>, d')" using ex_detach by metis
  then show ?thesis by (auto simp: detach_best_effort_def evaluation topo_call_def)
qed

lemma ex_release_run: "\<exists>d'. run_state (release_lease (ex_service f m) n) (ex_site e d k) = (Inr [], ex_site e d' (Suc k))"
proof -
  obtain b d' where "release_workspace_ip_lease ex_tw 1 ''n1'' n d = Inr (b, d')" using ex_release by metis
  then show ?thesis by (auto simp: release_lease_def evaluation topo_call_def)
qed

definition ex_states :: "jobj option \<Rightarrow> bool" where
  "ex_states e \<longleftrightarrow> e = None \<or> e = Some ex_running \<or> e = Some ex_exited"

lemma ex_stop_run: "ex_states e \<Longrightarrow> \<exists>r e'. run_state (stop_container ex_docker c) e = (Inr r, e') \<and> ac_success r \<and> ex_states e'"
  by (auto simp: ex_states_def stop_container_def evaluation inspection_not_found_def gone_result_def ex_inspections acted_def
      container_state_needs_engine_stop_def Let_def)

lemma ex_reference: "py_strip (container_reference [] ''7'') \<noteq> []" "py_strip (container_reference ''c1'' w) \<noteq> []"
  by (simp_all add: container_reference_def sanitize_container_name_def name_char_def is_digit_def Let_def)
    (simp add: py_strip_def py_space_def)

lemma ex_stop:
  assumes "ex_states e" "c = Some ''c1'' \<or> c = None \<and> f"
  shows "\<exists>res e' d'. run_state (stop_workspace_runtime (ex_service f m) ''7'' c True) (ex_site e d k) =
    (Inr res, ex_site e' d' (k + 2)) \<and> st_success res"
proof -
  let ?S = "ex_service f m"
  define ref where "ref = container_reference (py_strip (str_or_empty c)) ''7''"
  have "py_strip ref \<noteq> []" using assms(2) ex_reference by (auto simp: ref_def)
  then obtain cid where "known_container ref (case e of None \<Rightarrow> inspection_not_found | Some x \<Rightarrow> normalize_inspection ex_str x) = Some cid"
    using assms(1) by (auto simp: ex_states_def known_container_def inspection_not_found_def ex_inspections none_if_empty_def)
  then obtain before where l: "run_state (stop_load_inspection ?S ''7'' ref) (ex_site e d k) = (Inr (7, Some cid, before), ex_site e d k)"
    by (auto simp: stop_load_inspection_def evaluation run_engine docker_adapter_def)
  obtain b d1 where d: "run_state (detach_best_effort WorkspaceStopError ?S 7) (ex_site e d k) = (Inr (Some b, []), ex_site e d1 (Suc k))"
    using ex_detach_run by metis
  obtain r e' where s: "run_state (stop_container ex_docker cid) e = (Inr r, e')" "ac_success r" using ex_stop_run [OF assms(1)] by metis
  obtain d2 where rl: "run_state (release_lease ?S 7) (ex_site e' d1 (Suc k)) = (Inr [], ex_site e' d2 (Suc (Suc k)))" using ex_release_run by metis
  have "\<not> container_id_required ?S (py_strip (str_or_empty c))" using assms(2) by (auto simp: container_id_required_def)
  then show ?thesis
    by (auto simp: stop_workspace_runtime_def Let_def evaluation ref_def [symmetric] l d stop_container_best_effort_def run_engine
       docker_adapter_def s rl stop_workspace_success_roll_up_def)
qed

end
