(* ===== verification/Teardown_Correct.thy ===== *)
theory Teardown_Correct
  imports Site_Samples
begin

text \<open>
  What a stop that reports success leaves behind, and that every orchestrator operation keeps the constraints of the
  topology tables.
\<close>

section \<open>Computations on a site\<close>

lemma wp_engine [wp_rules]: "wp (engine m) Q s \<longleftrightarrow> wp m (\<lambda>a e. Q a (s\<lparr>si_engine := e\<rparr>)) (si_engine s)"
  by (simp add: engine_def wp_def split: prod.split)

lemma wp_topo_read [wp_rules]: "wp (topo_read Ws f) Q s \<longleftrightarrow> Q (f (Ws (si_calls s)) (si_topo s)) (s\<lparr>si_calls := Suc (si_calls s)\<rparr>)"
  by (simp add: topo_read_def wp_def)

lemma wp_topo_call [wp_rules]:
  "wp (topo_call Ws f) Q s \<longleftrightarrow> (case f (Ws (si_calls s)) (si_topo s) of
      Inl (e, d) \<Rightarrow> Q (Inl e) (s\<lparr>si_topo := d, si_calls := Suc (si_calls s)\<rparr>)
    | Inr (a, d) \<Rightarrow> Q (Inr a) (s\<lparr>si_topo := d, si_calls := Suc (si_calls s)\<rparr>))"
  by (simp add: topo_call_def wp_def split: sum.split prod.split)

text \<open>A call of the topology adapter, with what is known of its table state and of its result.\<close>

lemma wp_topo_callI:
  assumes "\<And>e d. f (Ws (si_calls s)) (si_topo s) = Inl (e, d) \<Longrightarrow> Q (Inl e) (s\<lparr>si_topo := d, si_calls := Suc (si_calls s)\<rparr>)"
    "\<And>a d. f (Ws (si_calls s)) (si_topo s) = Inr (a, d) \<Longrightarrow> Q (Inr a) (s\<lparr>si_topo := d, si_calls := Suc (si_calls s)\<rparr>)"
  shows "wp (topo_call Ws f) Q s"
  using assms by (auto simp: wp_topo_call split: sum.split)

text \<open>An engine step leaves the tables alone.\<close>

lemma wp_engineI:
  assumes "wp m P (si_engine s)" "\<And>a e. P a e \<Longrightarrow> Q a (s\<lparr>si_engine := e\<rparr>)"
  shows "wp (engine m) Q s"
  unfolding wp_engine by (rule wp_mono [OF assms])

lemma wp_engine_topo: "wp (engine m) (\<lambda>_ t. si_topo t = si_topo s) s"
  by (rule wp_engineI [OF wp_true]) simp

section \<open>Constraints\<close>

text \<open>Computations that keep a property of the tables.\<close>

definition tidy :: "(tdb \<Rightarrow> bool) \<Rightarrow> ('s site, 'a) state \<Rightarrow> bool" where
  "tidy I m \<longleftrightarrow> (\<forall>s. I (si_topo s) \<longrightarrow> wp m (\<lambda>_ t. I (si_topo t)) s)"

lemma tidy_return [simp]: "tidy I (State_Monad.return a)" "tidy I (ret a)" "tidy I (raise e)"
  by (simp_all add: tidy_def wp_rules)

lemma tidy_engine [simp]: "tidy I (engine m)"
  by (auto simp: tidy_def intro: wp_engineI [OF wp_true])

lemma tidy_topo_read [simp]: "tidy I (topo_read Ws f)"
  by (simp add: tidy_def wp_topo_read)

lemma tidy_topo_call:
  assumes "\<And>k d. I d \<Longrightarrow> I (tstate (f (Ws k) d))"
  shows "tidy I (topo_call Ws f :: ('s site, topo_error + 'a) state)"
  unfolding tidy_def
proof (intro allI impI)
  fix s :: "'s site" assume "I (si_topo s)"
  then have "I (tstate (f (Ws (si_calls s)) (si_topo s)))" by (rule assms)
  then show "wp (topo_call Ws f :: ('s site, topo_error + 'a) state) (\<lambda>_ t. I (si_topo t)) s" by (intro wp_topo_callI) simp_all
qed

lemma tidy_bind: "tidy I m \<Longrightarrow> (\<And>a. tidy I (f a)) \<Longrightarrow> tidy I (State_Monad.bind m f)"
  unfolding tidy_def by (blast intro: wp_bindI)

lemma tidy_andE: "tidy I m \<Longrightarrow> (\<And>a. tidy I (f a)) \<Longrightarrow> tidy I (andE m f)"
  unfolding tidy_def by (blast intro: wp_andEI)

lemma tidy_catchE: "tidy I m \<Longrightarrow> (\<And>e. tidy I (h e)) \<Longrightarrow> tidy I (catchE m h)"
  unfolding tidy_def by (blast intro: wp_catchEI)

lemma tidy_splits:
  "(x = None \<Longrightarrow> tidy I m) \<Longrightarrow> (\<And>a. x = Some a \<Longrightarrow> tidy I (f a)) \<Longrightarrow> tidy I (case x of None \<Rightarrow> m | Some a \<Rightarrow> f a)"
  "(\<And>a. y = Inl a \<Longrightarrow> tidy I (g a)) \<Longrightarrow> (\<And>a. y = Inr a \<Longrightarrow> tidy I (h a)) \<Longrightarrow> tidy I (case y of Inl a \<Rightarrow> g a | Inr a \<Rightarrow> h a)"
  "(\<And>a b. z = (a, b) \<Longrightarrow> tidy I (k a b)) \<Longrightarrow> tidy I (case z of (a, b) \<Rightarrow> k a b)"
  "(c \<Longrightarrow> tidy I p) \<Longrightarrow> (\<not> c \<Longrightarrow> tidy I q) \<Longrightarrow> tidy I (if c then p else q)"
  by (auto split: option.split sum.split prod.split)

lemmas tidy_intros = tidy_bind tidy_andE tidy_catchE tidy_splits

lemma tidy_run: "tidy I m \<Longrightarrow> run_state m s = (a, t) \<Longrightarrow> I (si_topo s) \<Longrightarrow> I (si_topo t)"
  unfolding tidy_def by (metis (no_types, lifting) wp_run)

text \<open>The hosts of a service let other workers in only between commits that keep the constraints.\<close>

definition fair_hosts :: "'s service \<Rightarrow> bool" where
  "fair_hosts S \<longleftrightarrow> (\<forall>k. fair_race (sv_topo S k))"

lemma tidy_detach: "tidy topo_ok (detach_best_effort x S n)"
  unfolding detach_best_effort_def by (intro tidy_intros tidy_topo_call detach_outcome(1)) simp_all

lemma tidy_release: "tidy topo_ok (release_lease S n)"
  unfolding release_lease_def by (intro tidy_intros tidy_topo_call release_outcome(1)) simp_all

lemma tidy_stop: "tidy topo_ok (stop_workspace_runtime S w c rel)"
  unfolding stop_workspace_runtime_def stop_load_inspection_def stop_container_best_effort_def Let_def
  by (intro tidy_intros tidy_detach tidy_release) simp_all

section \<open>Stop\<close>

text \<open>No lease and no attachment of a workspace is left on its node.\<close>

definition detached_from :: "tdb \<Rightarrow> int \<Rightarrow> string \<Rightarrow> int \<Rightarrow> bool" where
  "detached_from d tid node n \<longleftrightarrow> (\<forall>a. find_att d tid (clean_node node) n = Some a \<longrightarrow> at_status a = AS_DETACHED)"

definition without_lease :: "tdb \<Rightarrow> int \<Rightarrow> string \<Rightarrow> int \<Rightarrow> bool" where
  "without_lease d tid node n \<longleftrightarrow> find_active_lease d tid (clean_node node) n = None"

lemma dropWhile_keeps: "ys \<noteq> [] \<Longrightarrow> \<not> P (hd ys) \<Longrightarrow> \<exists>zs. dropWhile P (xs @ ys) = zs @ ys"
proof (induction xs)
  case Nil
  then have "dropWhile P ys = ys" by (cases ys) simp_all
  then show ?case by simp
next
  case (Cons x xs)
  then show ?case by (cases "P x") auto
qed

lemma strip_prefix:
  assumes "p \<noteq> []" "\<not> py_space (hd p)" "\<not> py_space (last p)"
  shows "starts_with p (py_strip (p @ m))"
proof -
  have "dropWhile py_space (p @ m) = p @ m" using assms(1,2) by (cases p) simp_all
  moreover obtain ys where "dropWhile py_space (rev m @ rev p) = ys @ rev p"
    using dropWhile_keeps [of "rev p" py_space "rev m"] assms(1,3) by (auto simp: hd_rev)
  ultimately show ?thesis by (simp add: py_strip_def)
qed

lemma detach_issue: "starts_with ''topology:detach_failed:'' (py_strip (detach_failed_issue m))"
  unfolding detach_failed_issue_def by (rule strip_prefix) (simp_all add: py_space_def)

lemma release_issue: "starts_with ''topology:ip_release_failed:'' (py_strip (release_failed_issue m))"
  unfolding release_failed_issue_def by (rule strip_prefix) (simp_all add: py_space_def)

lemma roll_up_detach: "\<not> stop_workspace_success_roll_up b (Some False) (detach_failed_issue m # issues)"
  using detach_issue [of m] by (simp add: stop_workspace_success_roll_up_def)

lemma roll_up_release: "\<not> stop_workspace_success_roll_up b x (i1 @ i2 @ [release_failed_issue m])"
  using release_issue [of m] by (simp add: stop_workspace_success_roll_up_def)

lemma roll_up_stop: "stop_workspace_success_roll_up b x issues \<Longrightarrow> b"
  by (simp add: stop_workspace_success_roll_up_def split: if_splits)

lemma detach_wp:
  assumes "topo_ok (si_topo s)"
  shows "wp (detach_best_effort x S n) (\<lambda>r t. topo_ok (si_topo t) \<and> (\<forall>det iss. r = Inr (det, iss) \<longrightarrow>
     detached_from (si_topo t) (sv_topology_id S) (sv_node_id S) n \<or> det = Some False \<and> (\<exists>m. iss = [detach_failed_issue m]))) s"
  unfolding detach_best_effort_def
proof (rule wp_bindI, rule wp_topo_callI)
  let ?f = "\<lambda>W. detach_workspace W (sv_topology_id S) (sv_node_id S) n"
  let ?P = "\<lambda>r t. topo_ok (si_topo t) \<and> (\<forall>det. r = Inr det \<longrightarrow> detached_from (si_topo t) (sv_topology_id S) (sv_node_id S) n)"
  note out = detach_outcome [OF assms, of "sv_topo S (si_calls s)" "sv_topology_id S" "sv_node_id S" n]
  show "?P (Inl e) (s\<lparr>si_topo := d, si_calls := Suc (si_calls s)\<rparr>)" if "?f (sv_topo S (si_calls s)) (si_topo s) = Inl (e, d)" for e d
    using out(1) that by simp
  show "?P (Inr a) (s\<lparr>si_topo := d, si_calls := Suc (si_calls s)\<rparr>)" if "?f (sv_topo S (si_calls s)) (si_topo s) = Inr (a, d)" for a d
    using out(1) out(2) [OF that] that by (simp add: detached_from_def)
qed (auto simp: wp_rules split: sum.split)

lemma release_wp:
  assumes "topo_ok (si_topo s)"
  shows "wp (release_lease S n) (\<lambda>r t. topo_ok (si_topo t) \<and> find_att (si_topo t) = find_att (si_topo s) \<and> (\<forall>iss. r = Inr iss \<longrightarrow>
     without_lease (si_topo t) (sv_topology_id S) (sv_node_id S) n \<or> (\<exists>m. iss = [release_failed_issue m]))) s"
  unfolding release_lease_def
proof (rule wp_bindI, rule wp_topo_callI)
  let ?f = "\<lambda>W. release_workspace_ip_lease W (sv_topology_id S) (sv_node_id S) n"
  let ?P = "\<lambda>r t. topo_ok (si_topo t) \<and> find_att (si_topo t) = find_att (si_topo s) \<and>
    (\<forall>x. r = Inr x \<longrightarrow> without_lease (si_topo t) (sv_topology_id S) (sv_node_id S) n)"
  note out = release_outcome [OF assms, of "sv_topo S (si_calls s)" "sv_topology_id S" "sv_node_id S" n]
  show "?P (Inl e) (s\<lparr>si_topo := d, si_calls := Suc (si_calls s)\<rparr>)" if "?f (sv_topo S (si_calls s)) (si_topo s) = Inl (e, d)" for e d
    using out(1,2) that by simp
  show "?P (Inr a) (s\<lparr>si_topo := d, si_calls := Suc (si_calls s)\<rparr>)" if "?f (sv_topo S (si_calls s)) (si_topo s) = Inr (a, d)" for a d
    using out(1,2) out(3) [OF that] that by (simp add: without_lease_def)
qed (auto simp: wp_rules split: sum.split)

lemma stop_container_wp:
  assumes "\<And>cid. yields (ra_stop (sv_runtime S) cid) (\<lambda>r. ac_success r \<longrightarrow> idle_state (ac_state r))"
  shows "wp (stop_container_best_effort S cid) (\<lambda>r t. si_topo t = si_topo s \<and>
     (\<forall>ok st iss. r = Inr (ok, st, iss) \<longrightarrow> ok \<longrightarrow> (\<exists>x. st = Some x \<and> idle_state x))) s"
proof (cases cid)
  case (Some c)
  let ?P = "\<lambda>r _. \<forall>a. r = Inr a \<longrightarrow> ac_success a \<longrightarrow> idle_state (ac_state a)"
  have "wp (ra_stop (sv_runtime S) c) ?P (si_engine s)" using assms by (simp add: yields_def)
  then show ?thesis unfolding stop_container_best_effort_def Some option.case
    by (intro wp_bindI [OF wp_engineI [where Q = "\<lambda>r t. ?P r t \<and> si_topo t = si_topo s"]])
      (auto simp: wp_rules idle_state_def none_if_empty_def split: sum.split)
qed (simp add: stop_container_best_effort_def wp_rules)

lemma load_wp: "wp (stop_load_inspection S w ref) (\<lambda>r t. si_topo t = si_topo s \<and> (\<forall>n c b. r = Inr (n, c, b) \<longrightarrow> parse_topology_workspace_id w = Inr n)) s"
  unfolding stop_load_inspection_def
proof (cases "parse_topology_workspace_id w", simp_all add: wp_raise, rule wp_bindI [OF wp_engine_topo])
qed (auto simp: wp_rules split: sum.split)

text \<open>The outcome of a stop, for a runtime adapter whose stop keeps its word.\<close>

definition stopped_well :: "'s service \<Rightarrow> string \<Rightarrow> bool \<Rightarrow> stop_result \<Rightarrow> tdb \<Rightarrow> bool" where
  "stopped_well S w release res d \<longleftrightarrow> (\<exists>n st. parse_topology_workspace_id (py_strip w) = Inr n \<and> st_container_state res = Some st \<and> idle_state st \<and>
     detached_from d (sv_topology_id S) (sv_node_id S) n \<and> (release \<longrightarrow> without_lease d (sv_topology_id S) (sv_node_id S) n))"

lemma stop_wp:
  assumes "\<And>cid. yields (ra_stop (sv_runtime S) cid) (\<lambda>r. ac_success r \<longrightarrow> idle_state (ac_state r))" "topo_ok (si_topo s)"
  shows "wp (stop_workspace_runtime S w c release) (\<lambda>r t. topo_ok (si_topo t) \<and>
     (\<forall>res. r = Inr res \<longrightarrow> st_success res \<longrightarrow> stopped_well S w release res (si_topo t))) s"
    (is "wp _ ?Q s")
proof -
  let ?w = "py_strip w" and ?tid = "sv_topology_id S" and ?nid = "sv_node_id S"
  have main: "wp (andE (stop_load_inspection S ?w ref) (\<lambda>(ws_int, cid, state_before).
        andE (detach_best_effort WorkspaceStopError S ws_int) (\<lambda>(detached, issues1).
        andE (stop_container_best_effort S cid) (\<lambda>(stop_success, stopped_state, issues2).
        andE (if release then release_lease S ws_int else ret []) (\<lambda>issues3.
        (let issues = issues1 @ issues2 @ issues3 in
         ret \<lparr>st_success = stop_workspace_success_roll_up stop_success detached issues, st_container_id = cid,
              st_container_state = (if stopped_state \<noteq> None then stopped_state else state_before),
              st_topology_detached = detached, st_issues = issues_or_none issues\<rparr>)))))) ?Q s" for ref
  proof (rule wp_andEI [OF load_wp], goal_cases)
    case (2 a t)
    obtain n cid before where a: "a = (n, cid, before)" by (cases a)
    have n: "parse_topology_workspace_id ?w = Inr n" and t: "topo_ok (si_topo t)" using 2 a assms(2) by simp_all
    show ?case unfolding a prod.case
    proof (rule wp_andEI [OF detach_wp], goal_cases)
      case (3 b u)
      obtain det iss where b: "b = (det, iss)" by (cases b)
      show ?case unfolding b prod.case
      proof (rule wp_andEI [OF stop_container_wp [OF assms(1)]], goal_cases)
        case (2 e v)
        obtain ok st iss2 where e: "e = (ok, st, iss2)" by (cases e)
        have v: "topo_ok (si_topo v)" using 2 3 by simp
        let ?P = "\<lambda>r t. topo_ok (si_topo t) \<and> find_att (si_topo t) = find_att (si_topo v) \<and> (\<forall>iss. r = Inr iss \<longrightarrow>
          release \<longrightarrow> without_lease (si_topo t) ?tid ?nid n \<or> (\<exists>m. iss = [release_failed_issue m]))"
        have rel: "wp (if release then release_lease S n else ret []) ?P v"
          using wp_mono [OF release_wp [OF v, of S n]] v by (auto simp: wp_rules)
        show ?case unfolding e prod.case
          by (rule wp_andEI [OF rel])
            (use 2 3 n in
              \<open>auto simp: wp_rules Let_def a b e stopped_well_def detached_from_def roll_up_detach roll_up_release dest: roll_up_stop\<close>)
      qed (use 3 in simp)
    qed (use t in simp_all)
  qed (use assms(2) in simp)
  show ?thesis unfolding stop_workspace_runtime_def Let_def
    by (intro wp_if main [unfolded Let_def]) (simp_all add: wp_ret wp_raise assms(2))
qed

text \<open>C13: what a stop that reports success has torn down. With either runtime adapter the workspace has no attachment to the
  bridge of its node, and when the release of its address was asked for, it holds none; the constraints of the
  topology tables are kept. Of the container it shows what the adapter reports, a state that needs no stop by the
  engine; through SSM that report may be wrong, see \<open>ssm_outage_reports_absence\<close>.\<close>

theorem stop_success_tears_down:
  assumes "run_state (stop_workspace_runtime S w c release) s = (Inr res, t)" "st_success res" "topo_ok (si_topo s)"
    "sv_runtime S = docker_adapter K \<or> sv_runtime S = ssm_adapter H"
  shows "topo_ok (si_topo t) \<and> (\<exists>n st. parse_topology_workspace_id (py_strip w) = Inr n \<and>
    st_container_state res = Some st \<and> \<not> container_state_needs_engine_stop st \<and>
    (\<forall>a. find_att (si_topo t) (sv_topology_id S) (clean_node (sv_node_id S)) n = Some a \<longrightarrow> at_status a = AS_DETACHED) \<and>
    (release \<longrightarrow> find_active_lease (si_topo t) (sv_topology_id S) (clean_node (sv_node_id S)) n = None))"
proof -
  have "yields (ra_stop (sv_runtime S) cid) (\<lambda>r. ac_success r \<longrightarrow> idle_state (ac_state r))" for cid
    using assms(4) dk.stop_inactive ssm.stop_inactive by metis
  from wp_run [OF stop_wp [OF this assms(3)] assms(1)] show ?thesis
    using assms(2) by (auto simp: stopped_well_def detached_from_def without_lease_def idle_state_def)
qed

section \<open>Delete\<close>

lemma detach_leases: "t_leases (tstate (detach_workspace W tid node n d)) = t_leases d"
  by (simp add: detach_workspace_def Let_def put_att_def split: option.split)

lemma delete_topology_leases: "t_leases (tstate (delete_topology W tid node d)) = t_leases d"
  by (auto simp: delete_topology_def Let_def drop_attachments_def split: option.split bool.split)

lemma tidy_delete: "tidy (\<lambda>d. t_leases d = L) (delete_workspace_runtime S w c)"
  unfolding delete_workspace_runtime_def delete_load_inspection_def detach_best_effort_def delete_container_best_effort_def
    delete_topology_best_effort_def Let_def
  by (intro tidy_intros tidy_topo_call) (simp_all add: detach_leases delete_topology_leases)

lemma delete_wp:
  assumes "parse_topology_workspace_id (py_strip w) = Inr n" "detached_from (si_topo s) (sv_topology_id S) (sv_node_id S) n"
  shows "wp (delete_workspace_runtime S w c) (\<lambda>r _. \<forall>res. r = Inr res \<longrightarrow> \<not> de_success res) s" (is "wp _ ?Q s")
proof -
  have rest: "wp (andE (delete_container_best_effort S cid) (\<lambda>(deleted, issues2). andE (delete_topology_best_effort S) (\<lambda>issues3.
       ret \<lparr>de_success = (deleted \<and> Some False \<noteq> Some False), de_issues = issues_or_none (issues1 @ issues2 @ issues3)\<rparr>))) ?Q t" for cid issues1 t
    by (rule wp_andEI [OF wp_true]) (auto intro!: wp_andEI [OF wp_true] simp: wp_ret)
  have load: "wp (delete_load_inspection S (py_strip w) ref) (\<lambda>r t. si_topo t = si_topo s \<and> (\<forall>a. r = Inr a \<longrightarrow> fst a = n)) s" for ref
    unfolding delete_load_inspection_def assms(1) sum.case by (rule wp_bindI [OF wp_engine_topo]) (auto simp: wp_rules split: sum.split)
  have detach: "wp (detach_best_effort x S n) (\<lambda>r _. \<forall>a. r = Inr a \<longrightarrow> fst a = Some False) t" if "si_topo t = si_topo s" for x t
    unfolding detach_best_effort_def
    by (rule wp_bindI [where P = "\<lambda>r _. \<forall>det. r = Inr det \<longrightarrow> \<not> dr_detached det"], rule wp_topo_callI)
      (use assms(2) that in \<open>auto simp: detach_workspace_def detached_from_def wp_rules Let_def split: option.splits sum.split\<close>)
  have main: "wp (andE (delete_load_inspection S (py_strip w) ref) (\<lambda>(ws_int, cid).
        andE (detach_best_effort WorkspaceDeleteError S ws_int) (\<lambda>(detached, issues1).
        andE (delete_container_best_effort S cid) (\<lambda>(deleted, issues2).
        andE (delete_topology_best_effort S) (\<lambda>issues3.
        ret \<lparr>de_success = (deleted \<and> detached \<noteq> Some False), de_issues = issues_or_none (issues1 @ issues2 @ issues3)\<rparr>))))) ?Q s" for ref
  proof (rule wp_andEI [OF load], goal_cases)
    case (2 a t)
    then show ?case using rest by (cases a) (auto intro!: wp_andEI [OF detach])
  qed simp
  show ?thesis unfolding delete_workspace_runtime_def Let_def by (intro wp_if main) (simp_all add: wp_ret wp_raise)
qed

text \<open>Deleting does not release the address. Whatever the outcome, the deletion of a workspace runtime leaves
  the leases of the topology as they were, and for a workspace that is detached already, as after a stop, it never reports success.\<close>

theorem delete_keeps_lease_and_fails_after_stop:
  assumes "run_state (delete_workspace_runtime S w c) s = (r, t)"
  shows "t_leases (si_topo t) = t_leases (si_topo s) \<and>
    (\<forall>n res. parse_topology_workspace_id (py_strip w) = Inr n \<longrightarrow>
       (\<forall>a. find_att (si_topo s) (sv_topology_id S) (clean_node (sv_node_id S)) n = Some a \<longrightarrow> at_status a = AS_DETACHED) \<longrightarrow>
       r = Inr res \<longrightarrow> \<not> de_success res)"
proof (intro conjI allI impI)
  show "t_leases (si_topo t) = t_leases (si_topo s)" using tidy_run [OF tidy_delete assms] by simp
  fix n res assume "parse_topology_workspace_id (py_strip w) = Inr n" "r = Inr res"
    "\<forall>a. find_att (si_topo s) (sv_topology_id S) (clean_node (sv_node_id S)) n = Some a \<longrightarrow> at_status a = AS_DETACHED"
  then show "\<not> de_success res" using wp_run [OF delete_wp assms, of n] by (simp add: detached_from_def)
qed

section \<open>Witnesses\<close>

theorem stop_success_tears_down_witness:
  "\<exists>res t. run_state (stop_workspace_runtime (ex_service False ''none'') ''7'' (Some ''c1'') True) (ex_site (Some ex_running) ex_failed_tdb 0) = (Inr res, t)
     \<and> find_active_lease ex_failed_tdb 1 ''n1'' 7 \<noteq> None \<and> find_active_lease (si_topo t) 1 ''n1'' 7 = None"
proof -
  have s: "ex_states (Some ex_running)" by (simp add: ex_states_def)
  obtain res t where r: "run_state (stop_workspace_runtime (ex_service False ''none'') ''7'' (Some ''c1'') True) (ex_site (Some ex_running) ex_failed_tdb 0) =
      (Inr res, t)" "st_success res"
    using ex_stop [OF s, of "Some ''c1''"] by blast
  have "find_active_lease (si_topo t) 1 ''n1'' 7 = None" using stop_success_tears_down [OF r, of ex_docker] ex_tables_ok by auto
  then show ?thesis using r by (auto simp: find_active_lease_def ex_failed_tdb_def new_lease_def)
qed

theorem delete_keeps_lease_and_fails_after_stop_witness:
  "\<exists>res t. run_state (delete_workspace_runtime (ex_service False ''none'') ''7'' (Some ''c1'')) (ex_site None ex_tdb 0) = (Inr res, t)
     \<and> \<not> de_success res"
proof -
  obtain b d' where d: "run_state (detach_best_effort WorkspaceDeleteError (ex_service False ''none'') 7) (ex_site None ex_tdb 0) =
      (Inr (Some b, []), ex_site None d' 1)" using ex_detach_run [of WorkspaceDeleteError] by fastforce
  have del: "(\<exists>x. delete_topology ex_tw 1 ''n1'' d' = Inr x) \<or> (\<exists>m e. delete_topology ex_tw 1 ''n1'' d' = Inl (TopologyDeleteError m, e))"
    by (auto simp: delete_topology_def attachments_remain_def Let_def split: option.split)
  obtain res t where r: "run_state (delete_workspace_runtime (ex_service False ''none'') ''7'' (Some ''c1'')) (ex_site None ex_tdb 0) = (Inr res, t)"
    using del
    by (auto simp: delete_workspace_runtime_def evaluation run_engine Let_def container_id_required_def delete_load_inspection_def
        docker_adapter_def d delete_container_best_effort_def delete_container_def inspection_not_found_def known_container_def
        container_reference_def none_if_empty_def delete_topology_best_effort_def topo_call_def)
  have "find_att ex_tdb 1 ''n1'' 7 = None" by (simp add: find_att_def ex_tdb_def)
  then show ?thesis using delete_keeps_lease_and_fails_after_stop [OF r] r by simp
qed

end
