(* ===== verification/Bring_Up_Correct.thy ===== *)
theory Bring_Up_Correct
  imports Teardown_Correct
begin

text \<open>
  What a bring-up means when it reports success, and what its rollback leaves when it does not.
\<close>

section \<open>Constraints\<close>

lemma tidy_of_runtime [simp]: "tidy I (of_runtime m)"
  unfolding of_runtime_def by (intro tidy_intros) simp_all

lemma tidy_of_topology: "(\<And>k d. I d \<Longrightarrow> I (tstate (f (sv_topo S k) d))) \<Longrightarrow> tidy I (of_topology S f)"
  unfolding of_topology_def by (intro tidy_intros tidy_topo_call) simp_all

lemma tidy_fail [simp]: "tidy I (fail_with_tail S cid k m)"
  unfolding fail_with_tail_def by (intro tidy_intros) simp_all

lemma tidy_wait_alive [simp]: "tidy I (wait_alive S cid phase waited k)"
  by (induction k) (subst wait_alive.simps, (intro tidy_intros; simp))+

lemma tidy_wait [simp]: "tidy I (wait_workspace_alive_for_topology S u phase waited)"
  by (simp add: wait_workspace_alive_for_topology_def)

lemma tidy_verify_dir [simp]: "tidy I (verify_dir S path m)"
  unfolding verify_dir_def by (intro tidy_intros) simp_all

lemma tidy_verify_mounts [simp]: "tidy I (verify_mounts S bs)"
  by (induction bs) (simp_all add: tidy_andE)

lemma tidy_start: "tidy I (bring_up_start_container S ctx limits sec env)"
  unfolding bring_up_start_container_def host_checks_def Let_def by (intro tidy_intros) simp_all

lemma tidy_netns [simp]: "tidy I (netns_for_attach S u)"
  unfolding netns_for_attach_def Let_def by (intro tidy_intros) simp_all

lemma tidy_explain [simp]: "tidy I (explain_attach_failure S u x)"
  unfolding explain_attach_failure_def explain_topology_error_def Let_def
  by (cases x) (auto intro!: tidy_intros)

lemma tidy_attach:
  assumes "fair_hosts S"
  shows "tidy topo_ok (bring_up_attach_topology S ctx u)"
proof -
  have fair: "fair_race (sv_topo S k)" for k using assms by (simp add: fair_hosts_def)
  show ?thesis unfolding bring_up_attach_topology_def attach_steps_def Let_def
    by (intro tidy_intros tidy_of_topology ensure_ok allocate_state_ok attach_ok fair) simp_all
qed

lemma tidy_health [simp]: "tidy I (probe_workspace S w cid tm)"
  unfolding probe_workspace_def check_workspace_health_def check_topology_state_def Let_def
  by (intro tidy_intros) simp_all

lemma tidy_probe [simp]: "tidy I (bring_up_run_probe S ctx u att)"
  unfolding bring_up_run_probe_def run_remote_host_port_probe_def Let_def by (intro tidy_intros) simp_all

lemma tidy_steps:
  assumes "fair_hosts S"
  shows "tidy topo_ok (bring_up_steps S ctx limits sec env)"
  unfolding bring_up_steps_def by (intro tidy_intros tidy_start tidy_attach [OF assms]) simp_all

lemma tidy_context: "tidy I (bring_up_build_context S w key ver mode)"
  unfolding bring_up_build_context_def Let_def by (intro tidy_intros) simp_all

lemma tidy_evidence [simp]: "tidy I (gather_failure_evidence S u)"
  unfolding gather_failure_evidence_def Let_def by (intro tidy_intros) simp_all

lemma context_wp:
  "wp (bring_up_build_context S w key ver mode) (\<lambda>r t. si_topo t = si_topo s \<and> (\<forall>ctx. r = Inr ctx \<longrightarrow>
     bc_wid ctx = py_strip w \<and> py_strip w \<noteq> [] \<and> parse_topology_workspace_id (py_strip w) = Inr (bc_ws_int ctx))) s"
proof -
  have topo: "wp (bring_up_build_context S w key ver mode) (\<lambda>r t. si_topo t = si_topo s) s"
    using tidy_context [of "\<lambda>d. d = si_topo s" S w key ver mode] by (simp add: tidy_def)
  have "yields (bring_up_build_context S w key ver mode) (\<lambda>ctx.
      bc_wid ctx = py_strip w \<and> py_strip w \<noteq> [] \<and> parse_topology_workspace_id (py_strip w) = Inr (bc_ws_int ctx))"
    unfolding bring_up_build_context_def Let_def
    by (rule yields_if yields_bind | simp split: sum.split | safe)+
  then show ?thesis using topo by (simp add: yields_def wp_conj)
qed

section \<open>Rollback\<close>

text \<open>Exceptions other than a bring-up error that reports a successful rollback.\<close>

definition plain :: "orch_exn \<Rightarrow> bool" where
  "plain e \<longleftrightarrow> (\<forall>m iss cid st. e \<noteq> WorkspaceBringUpError m True (Some True) iss cid st)"

lemma plain_simps [simp]: "plain (bring_up_error m)" "plain (WorkspaceStopError m)" "plain (OtherException m)"
  by (simp_all add: plain_def bring_up_error_def)

lemma parse_plain: "parse_topology_workspace_id w = Inl e \<Longrightarrow> plain e"
  by (auto simp: parse_topology_workspace_id_def split: option.splits if_splits)

lemma context_plain: "throws (bring_up_build_context S w key ver mode) plain"
  unfolding bring_up_build_context_def Let_def
  by (rule throws_if throws_bind | simp add: parse_plain split: sum.split | safe)+

lemma stop_plain: "throws (stop_workspace_runtime S w c rel) plain"
proof -
  have "throws (stop_load_inspection S v ref) plain" for v ref unfolding stop_load_inspection_def
    by (rule throws_bind | simp add: parse_plain split: sum.split | safe)+
  moreover have "throws (detach_best_effort WorkspaceStopError S n) plain" "throws (release_lease S n) plain" for n
    unfolding detach_best_effort_def release_lease_def by (rule throws_bind, simp split: sum.split)+
  moreover have "throws (stop_container_best_effort S cid) plain" for cid
    unfolding stop_container_best_effort_def by (rule throws_bind | simp split: sum.split option.split | safe)+
  ultimately show ?thesis unfolding stop_workspace_runtime_def Let_def
    by (auto intro!: throws_andE throws_if)
qed

text \<open>The workspace of a context is off its node: no attachment, no lease.\<close>

definition off_node :: "'s service \<Rightarrow> int \<Rightarrow> tdb \<Rightarrow> bool" where
  "off_node S n d \<longleftrightarrow> detached_from d (sv_topology_id S) (sv_node_id S) n \<and> without_lease d (sv_topology_id S) (sv_node_id S) n"

text \<open>A service whose adapter keeps its word, and the context of a workspace.\<close>

definition reliable :: "'s service \<Rightarrow> bool" where
  "reliable S \<longleftrightarrow> (\<forall>cid. yields (ra_stop (sv_runtime S) cid) (\<lambda>r. ac_success r \<longrightarrow> idle_state (ac_state r)))"

lemma adapters_reliable: "sv_runtime S = docker_adapter K \<or> sv_runtime S = ssm_adapter H \<Longrightarrow> reliable S"
  unfolding reliable_def using dk.stop_inactive ssm.stop_inactive by metis

definition context_of :: "string \<Rightarrow> bring_up_context \<Rightarrow> bool" where
  "context_of w ctx \<longleftrightarrow> bc_wid ctx = py_strip w \<and> py_strip w \<noteq> [] \<and> parse_topology_workspace_id (py_strip w) = Inr (bc_ws_int ctx)"

lemma attempt_wp:
  assumes "reliable S" "context_of w ctx" "topo_ok (si_topo s)"
  shows "wp (rollback_attempt S (bc_wid ctx) cid k) (\<lambda>r t. topo_ok (si_topo t) \<and> (\<forall>e. r = Inl e \<longrightarrow> plain e) \<and>
     (\<forall>iss out. r = Inr (True, iss, out) \<longrightarrow> off_node S (bc_ws_int ctx) (si_topo t))) s"
proof -
  have w: "parse_topology_workspace_id (py_strip (bc_wid ctx)) = Inr (bc_ws_int ctx)" using assms(2) by (simp add: context_of_def)
  let ?P = "\<lambda>r t. topo_ok (si_topo t) \<and> (\<forall>res. r = Inr res \<longrightarrow> st_success res \<longrightarrow> stopped_well S (bc_wid ctx) True res (si_topo t)) \<and>
    (\<forall>e. r = Inl e \<longrightarrow> plain e)"
  have "wp (stop_workspace_runtime S (bc_wid ctx) cid True) ?P s"
    using stop_wp [of S s "bc_wid ctx" cid True] stop_plain [of S "bc_wid ctx" cid True] assms(1,3)
    by (simp add: reliable_def throws_def wp_conj)
  then show ?thesis unfolding rollback_attempt_def
    by (rule wp_bindI) (use w in \<open>auto simp: wp_rules stopped_well_def off_node_def split: sum.split orch_exn.split\<close>)
qed

lemma rollback_wp:
  assumes "reliable S" "context_of w ctx" "topo_ok (si_topo s)"
  shows "wp (bring_up_compensating_rollback S ctx u) (\<lambda>r t. (\<forall>e. r = Inl e \<longrightarrow> plain e) \<and>
     (\<forall>iss out. r = Inr (True, iss, out) \<longrightarrow> off_node S (bc_ws_int ctx) (si_topo t))) s"
  unfolding bring_up_compensating_rollback_def Let_def
  by (rule wp_andEI [OF attempt_wp [OF assms]]) (auto simp: wp_ret intro!: wp_if wp_andEI [OF attempt_wp [OF assms(1,2)]])

text \<open>An outcome that claims a successful rollback.\<close>

definition rolled_back :: "orch_exn + bringup_result \<Rightarrow> bool" where
  "rolled_back r \<longleftrightarrow> (case r of Inl e \<Rightarrow> \<not> plain e | Inr res \<Rightarrow> bu_rollback_succeeded res = Some True)"

lemma tidy_wp: "tidy I m \<Longrightarrow> I (si_topo s) \<Longrightarrow> wp m (\<lambda>_ t. I (si_topo t)) s"
  by (simp add: tidy_def)

lemma abort_wp:
  assumes "reliable S" "context_of w ctx" "topo_ok (si_topo s)"
  shows "wp (abort_bring_up S ctx u x) (\<lambda>r t. rolled_back r \<longrightarrow> off_node S (bc_ws_int ctx) (si_topo t)) s"
  unfolding abort_bring_up_def
  by (rule wp_bindI [OF tidy_wp [where I = topo_ok, OF tidy_evidence assms(3)]], rule wp_andEI [OF rollback_wp [OF assms(1,2)]])
    (auto simp: rolled_back_def wp_raise plain_def)

lemma undo_wp:
  assumes "reliable S" "context_of w ctx" "topo_ok (si_topo s)"
  shows "wp (undo_unhealthy S ctx u res) (\<lambda>r t. rolled_back r \<longrightarrow> off_node S (bc_ws_int ctx) (si_topo t)) s"
  unfolding undo_unhealthy_def
  by (rule wp_bindI [OF tidy_wp [where I = topo_ok, OF tidy_evidence assms(3)]], rule wp_andEI [OF rollback_wp [OF assms(1,2)]])
    (auto simp: rolled_back_def wp_ret plain_def Let_def)

section \<open>Health\<close>

text \<open>A workspace that is attached to a ready node, holds the address of its attachment, and is reached under it.\<close>

definition serving :: "tdb \<Rightarrow> int \<Rightarrow> string \<Rightarrow> int \<Rightarrow> string option \<Rightarrow> bool" where
  "serving d tid nid n endpoint \<longleftrightarrow> (\<exists>a l r ip. find_att d tid nid n = Some a \<and> at_status a = AS_ATTACHED \<and> at_workspace_ip a = Some ip \<and>
     find_active_lease d tid nid n = Some l \<and> ia_ip l = ip \<and> find_runtime d tid nid = Some r \<and> tr_status r = TRS_READY \<and>
     endpoint = Some (py_strip ip @ '':'' @ str_int WORKSPACE_IDE_CONTAINER_PORT))"

lemma check_topology_healthy:
  "cr_healthy (check_topology W tid nid d) \<Longrightarrow> \<exists>r. find_runtime d tid (clean_node nid) = Some r \<and> tr_status r = TRS_READY"
  by (auto simp: check_topology_def Let_def split: option.splits if_splits)

lemma check_attachment_healthy:
  assumes "ca_healthy (check_attachment W tid nid n d)"
  obtains a l ip where "find_att d tid (clean_node nid) n = Some a" "at_status a = AS_ATTACHED" "at_workspace_ip a = Some ip" "py_strip ip \<noteq> []"
    "find_active_lease d tid (clean_node nid) n = Some l" "ia_ip l = ip" "ca_workspace_ip (check_attachment W tid nid n d) = Some ip"
proof -
  obtain a where a: "find_att d tid (clean_node nid) n = Some a" "ca_workspace_ip (check_attachment W tid nid n d) = at_workspace_ip a"
    "att_db_issues a (find_active_lease d tid (clean_node nid) n) = []"
    using assms by (auto simp: check_attachment_def Let_def split: option.splits)
  from a(3) obtain l where l: "find_active_lease d tid (clean_node nid) n = Some l" "at_status a = AS_ATTACHED" "filled (at_workspace_ip a)"
    "str_or_empty (at_workspace_ip a) \<noteq> [] \<Longrightarrow> ia_ip l = str_or_empty (at_workspace_ip a)"
    by (auto simp: att_db_issues_def split: option.splits if_splits)
  obtain ip where "at_workspace_ip a = Some ip" "py_strip ip \<noteq> []" using l(3) by (cases "at_workspace_ip a") (simp_all add: filled_def py_strip_def)
  moreover have "ip \<noteq> []" using calculation(2) by (auto simp: py_strip_def)
  ultimately show thesis using that [OF a(1) l(2)] a(2) l(1,4) by simp
qed

lemma verdict_serving:
  assumes "tp_healthy (topology_verdict tid nid n WORKSPACE_IDE_CONTAINER_PORT (check_topology W tid nid d) (check_attachment W' tid nid n d))"
    "clean_node nid = nid"
  shows "serving d tid nid n (tp_internal_endpoint
    (topology_verdict tid nid n WORKSPACE_IDE_CONTAINER_PORT (check_topology W tid nid d) (check_attachment W' tid nid n d)))"
proof -
  have h: "cr_healthy (check_topology W tid nid d)" "ca_healthy (check_attachment W' tid nid n d)"
    using assms(1) by (auto simp: topology_verdict_def Let_def split: if_splits)
  obtain a l ip where a: "find_att d tid nid n = Some a" "at_status a = AS_ATTACHED" "at_workspace_ip a = Some ip" "py_strip ip \<noteq> []"
    "find_active_lease d tid nid n = Some l" "ia_ip l = ip" "ca_workspace_ip (check_attachment W' tid nid n d) = Some ip"
    using check_attachment_healthy [OF h(2)] assms(2) by metis
  then show ?thesis using check_topology_healthy [OF h(1)] assms(2)
    by (simp add: serving_def topology_verdict_def Let_def strip_or_none_def none_if_empty_def endpoint_or_none_def WORKSPACE_IDE_CONTAINER_PORT_def)
qed

lemma failed_unhealthy [simp]: "\<not> tp_healthy (topology_probe_failed tid nid n m)"
  by (simp add: topology_probe_failed_def)

lemma topology_state_wp:
  assumes "clean_node nid = nid" "parse_topology_workspace_id w = Inr n"
  shows "wp (check_topology_state Ws N (str_int tid) nid w WORKSPACE_IDE_CONTAINER_PORT) (\<lambda>p t. si_topo t = si_topo s \<and>
     (tp_healthy p \<longrightarrow> serving (si_topo t) tid nid n (tp_internal_endpoint p))) s"
proof -
  have w: "parse_non_negative_int w = Some n"
    using assms(2) by (auto simp: parse_topology_workspace_id_def parse_non_negative_int_def parse_int_def split: option.splits if_splits)
  show ?thesis
  proof (cases "tid < 0")
    case True
    then show ?thesis using w by (simp add: check_topology_state_def parse_non_negative_int_def wp_return topology_probe_failed_def Let_def)
  next
    case False
    then have t: "parse_non_negative_int (str_int tid) = Some tid" by (simp add: parse_non_negative_int_def)
    have attach: "wp (engine (nt_read_error N ''check_attachment'') \<bind> (\<lambda>e2. case e2 of
         Some m \<Rightarrow> State_Monad.return (topology_probe_failed tid nid n (''check_attachment failed: '' @ m))
       | None \<Rightarrow> topo_read Ws (\<lambda>W. check_attachment W tid nid n) \<bind> (\<lambda>att.
           State_Monad.return (topology_verdict tid nid n WORKSPACE_IDE_CONTAINER_PORT (check_topology W tid nid (si_topo s)) att))))
       (\<lambda>p t. si_topo t = si_topo s \<and> (tp_healthy p \<longrightarrow> serving (si_topo t) tid nid n (tp_internal_endpoint p))) u"
      if "si_topo u = si_topo s" for u :: "'a site" and W
      by (rule wp_bindI [OF wp_engine_topo])
        (auto simp: wp_return wp_bind wp_topo_read that intro: verdict_serving [OF _ assms(1)] split: option.split)
    show ?thesis unfolding check_topology_state_def t w assms(1) Let_def prod.case option.case
    proof (rule wp_bindI [OF wp_engine_topo], goal_cases)
      case (1 e u)
      show ?case
      proof (cases e)
        case None
        then show ?thesis unfolding None option.case
          by (intro wp_bindI [where P = "\<lambda>topo t. si_topo t = si_topo s \<and> (\<exists>W. topo = check_topology W tid nid (si_topo s))"])
            (use 1 attach in \<open>auto simp: wp_topo_read\<close>)
      qed (use 1 in \<open>simp add: wp_return\<close>)
    qed
  qed
qed

definition seen_running :: "string option \<Rightarrow> bool" where
  "seen_running x \<longleftrightarrow> (\<exists>st. x = Some st \<and> py_lower (py_strip st) = ''running'')"

lemma container_wp: "wp (check_container_running R cid) (\<lambda>p _. cp_healthy p \<longrightarrow> seen_running (cp_container_state p)) e"
proof -
  have v: "cp_healthy (container_verdict i) \<longrightarrow> seen_running (cp_container_state (container_verdict i))" for i
    by (simp add: container_verdict_def seen_running_def Let_def)
  show ?thesis unfolding check_container_running_def Let_def
    by (rule wp_if) (auto simp: wp_return v intro!: wp_bindI [OF wp_true] split: sum.split)
qed

lemma health_wp:
  assumes "clean_node (sv_node_id S) = sv_node_id S" "parse_topology_workspace_id w = Inr n"
  shows "wp (probe_workspace S w cid tm) (\<lambda>h t. si_topo t = si_topo s \<and> (wh_healthy h \<longrightarrow>
     serving (si_topo t) (sv_topology_id S) (sv_node_id S) n (wh_internal_endpoint h) \<and> seen_running (wh_container_state h))) s"
  unfolding probe_workspace_def check_workspace_health_def
proof (rule wp_bindI [OF wp_engineI [OF container_wp, where Q = "\<lambda>p t. si_topo t = si_topo s \<and> (cp_healthy p \<longrightarrow> seen_running (cp_container_state p))"]], simp, goal_cases)
  case (1 ctr t)
  show ?case
  proof (rule wp_bindI [OF topology_state_wp [OF assms]], goal_cases)
    case (1 topo u)
    show ?case by (rule wp_bindI [OF wp_engine_topo]) (use 1 \<open>si_topo t = si_topo s \<and> _\<close> in \<open>auto simp: wp_return\<close>)
  qed
qed

lemma poll_topo [simp]: "wp (if b then State_Monad.return False else engine m) (\<lambda>_ t. si_topo t = si_topo s) s"
  by (simp add: wp_return wp_engine_topo)

text \<open>The probe of a bring-up: it never claims a rollback, and success means a workspace that serves.\<close>

lemma probe_wp:
  assumes "clean_node (sv_node_id S) = sv_node_id S" "parse_topology_workspace_id (bc_wid ctx) = Inr n" "\<not> sv_attach_deferred S"
  shows "wp (bring_up_run_probe S ctx u att) (\<lambda>r t. \<forall>res. r = Inr res \<longrightarrow> ro_success res \<longrightarrow>
     serving (si_topo t) (sv_topology_id S) (sv_node_id S) n (ro_internal_endpoint res) \<and> seen_running (ro_container_state res)) s"
proof -
  have run: "seen_running x \<Longrightarrow> seen_running (Some (text_or x y))" for x y
    by (auto simp: seen_running_def text_or_def py_strip_def py_lower_def split: option.split list.split)
  have ends: "serving d tid nid m x \<Longrightarrow> Some (text_or x y) = x" for d tid nid m x y
    by (auto simp: serving_def text_or_def split: list.split)
  show ?thesis unfolding bring_up_run_probe_def if_not_P [OF assms(3)] Let_def
    by (rule wp_bindI [OF wp_true], rule wp_bindI [OF wp_true])
      (use run ends in \<open>auto simp: wp_raise wp_ret bring_up_observation_def split: option.split intro!: wp_bindI [OF health_wp [OF assms(1,2)]]\<close>)
qed

text \<open>
  What the probe of a remote host has seen when it reports success: the engine showed the container running, and an
  HTTP request to the reported port of the loopback interface of the node was answered.
\<close>

definition answering :: "'s service \<Rightarrow> string option \<Rightarrow> string option \<Rightarrow> bool" where
  "answering S cid endpoint \<longleftrightarrow>
     (\<exists>c e. cid = Some c \<and> cp_healthy (fst (run_state (check_container_running (sv_runtime S) c) e))) \<and>
     (\<exists>p tm e. endpoint = Some (''127.0.0.1:'' @ str_int p) \<and>
        sp_healthy (fst (run_state (check_service_http (sv_net S) ''127.0.0.1'' p tm) e)))"

lemma wp_itself: "wp m (\<lambda>a _. \<exists>e. a = fst (run_state m e)) s"
  by (auto simp: wp_def split: prod.split intro!: exI [of _ s])

lemma poll_http_wp:
  "wp (poll_http N L p n seen) (\<lambda>r _. sp_healthy r \<longrightarrow> sp_healthy seen \<or>
     (\<exists>tm e. sp_healthy (fst (run_state (check_service_http N ''127.0.0.1'' p tm) e)))) s"
proof (induction n arbitrary: seen s)
  case (Suc n)
  show ?case unfolding poll_http.simps
    by (rule wp_bindI [OF wp_itself], rule wp_if) (auto simp: wp_return intro!: wp_mono [OF Suc])
qed (simp add: wp_return)

lemma deferred_probe_wp:
  assumes "sv_attach_deferred S"
  shows "wp (bring_up_run_probe S ctx u att) (\<lambda>r t. \<forall>res. r = Inr res \<longrightarrow> ro_success res \<longrightarrow>
     answering S (ro_container_id res) (ro_internal_endpoint res)) s"
proof -
  have "wp (run_remote_host_port_probe S u k) (\<lambda>res t. ro_success res \<longrightarrow> answering S (ro_container_id res) (ro_internal_endpoint res)) v" for k v
    unfolding run_remote_host_port_probe_def Let_def
  proof (rule wp_bindI [OF wp_engineI [OF wp_itself, where Q = "\<lambda>c _. \<exists>e. c = fst (run_state (check_container_running (sv_runtime S) (ru_container_id u)) e)"]],
      simp, goal_cases)
    case (1 ctr t)
    show ?case
    proof (cases "published_port (ru_ports u)")
      case (Some p)
      let ?up = "\<exists>tm e. sp_healthy (fst (run_state (check_service_http (sv_net S) ''127.0.0.1'' p tm) e))"
      have "wp (engine (poll_http (sv_net S) (sv_looks S) p k \<lparr>sp_healthy = False, sp_issues = []\<rparr>)) (\<lambda>r _. sp_healthy r \<longrightarrow> ?up) t"
        by (rule wp_engineI [OF poll_http_wp]) simp
      then have "wp (engine (poll_http (sv_net S) (sv_looks S) p k \<lparr>sp_healthy = False, sp_issues = []\<rparr>) \<bind>
          (\<lambda>r. State_Monad.return (sp_healthy r, map issue_line (sp_issues r)))) (\<lambda>svc _. fst svc \<longrightarrow> ?up) t"
        by (rule wp_bindI) (simp add: wp_return)
      then show ?thesis unfolding Some option.case
        by (rule wp_bindI) (use 1 in \<open>auto simp: wp_return bring_up_observation_def answering_def\<close>)
    qed (simp add: wp_bind wp_return bring_up_observation_def)
  qed
  then show ?thesis unfolding bring_up_run_probe_def if_P [OF assms]
    by (intro wp_bindI [OF wp_true]) (auto simp: wp_raise wp_ret split: option.split intro!: wp_bindI)
qed

section \<open>Bring-up\<close>

lemma no_rollback_yet: "wp (bring_up_run_probe S ctx u att) (\<lambda>r _. \<forall>res. r = Inr res \<longrightarrow> bu_rollback_succeeded res = None) s"
proof -
  have remote: "wp (run_remote_host_port_probe S u k) (\<lambda>res _. bu_rollback_succeeded res = None) v" for k v
    unfolding run_remote_host_port_probe_def Let_def
    by (intro wp_bindI [OF wp_true]) (auto simp: wp_return bring_up_observation_def)
  show ?thesis unfolding bring_up_run_probe_def Let_def
  proof (rule wp_if, goal_cases)
    case 1
    show ?case by (rule wp_bindI [OF wp_true]) (auto simp: wp_raise wp_ret split: option.split intro!: wp_bindI [OF remote])
  next
    case 2
    show ?case by (intro wp_bindI [OF wp_true])
      (auto simp: wp_raise wp_ret bring_up_observation_def split: option.split intro!: wp_bindI [OF wp_true])
  qed
qed

lemma steps_post:
  assumes "\<And>u att t. wp (bring_up_run_probe S ctx u att) (\<lambda>r t. \<forall>res. r = Inr res \<longrightarrow> P res (si_topo t)) t"
  shows "wp (bring_up_steps S ctx limits sec env) (\<lambda>out t. \<forall>u res. out = (u, Inr res) \<longrightarrow> P res (si_topo t)) s"
  unfolding bring_up_steps_def
  by (intro wp_bindI [OF wp_true]) (auto simp: wp_return split: sum.split intro!: wp_bindI [OF wp_true] wp_bindI [OF assms])

lemma with_applied_fields [simp]: "ro_success (with_applied l x res) = ro_success res" "ro_internal_endpoint (with_applied l x res) = ro_internal_endpoint res"
  "ro_container_id (with_applied l x res) = ro_container_id res"
  "ro_container_state (with_applied l x res) = ro_container_state res" "bu_rollback_succeeded (with_applied l x res) = bu_rollback_succeeded res"
  by (simp_all add: with_applied_def)

text \<open>The outcomes of a bring-up, given what holds after its guarded part.\<close>

lemma outcome_wp:
  assumes "wp (bring_up_steps S ctx limits sec env) P s"
    "\<And>u x t. P (u, Inl x) t \<Longrightarrow> wp (abort_bring_up S ctx u x) Q t"
    "\<And>u res t. P (u, Inr res) t \<Longrightarrow> ro_success res \<or> u = None \<Longrightarrow> Q (Inr (with_applied limits sec res)) t"
    "\<And>u res t. P (Some u, Inr res) t \<Longrightarrow> \<not> ro_success res \<Longrightarrow>
       wp (undo_unhealthy S ctx u res) (\<lambda>r t. case r of Inl e \<Rightarrow> Q (Inl e) t | Inr res \<Rightarrow> Q (Inr (with_applied limits sec res)) t) t"
  shows "wp (bring_up_steps S ctx limits sec env \<bind> settle_bring_up S ctx limits sec) Q s"
proof (rule wp_bindI [OF assms(1)], goal_cases)
  case (1 out t)
  obtain u r where out: "out = (u, r)" by (cases out)
  note settle_bring_up_def [simp]
  show ?case
  proof (cases r)
    case (Inl x)
    then show ?thesis using assms(2) 1 out by (cases u) simp_all
  next
    case (Inr res)
    show ?thesis
    proof (cases u)
      case None
      then show ?thesis using assms(3) 1 out Inr by (simp add: wp_ret)
    next
      case (Some v)
      show ?thesis
      proof (cases "ro_success res")
        case True
        then show ?thesis using assms(3) 1 out Inr Some by (simp add: wp_ret)
      next
        case False
        have "wp (andE (undo_unhealthy S ctx v res) (\<lambda>res. ret (with_applied limits sec res))) Q t"
          by (rule wp_andEI [OF assms(4)]) (use 1 out Inr Some False in \<open>auto simp: wp_ret\<close>)
        then show ?thesis using out Inr Some False by simp
      qed
    qed
  qed
qed

lemma bring_up_wp:
  assumes "\<And>ctx limits sec t. context_of w ctx \<Longrightarrow> si_topo t = si_topo s \<Longrightarrow>
      wp (bring_up_steps S ctx limits sec env \<bind> settle_bring_up S ctx limits sec) Q t"
    "\<And>e t. plain e \<Longrightarrow> Q (Inl e) t"
  shows "wp (bring_up_workspace_runtime S w key ver cpu mem pids env mode) Q s"
  unfolding bring_up_workspace_runtime_def
proof (rule wp_andEI [where P = "\<lambda>r t. (si_topo t = si_topo s \<and> (\<forall>ctx. r = Inr ctx \<longrightarrow> context_of w ctx)) \<and> (\<forall>e. r = Inl e \<longrightarrow> plain e)"], goal_cases)
  case 1
  show ?case unfolding wp_conj [of _ "\<lambda>r t. si_topo t = si_topo s \<and> (\<forall>ctx. r = Inr ctx \<longrightarrow> context_of w ctx)"]
    using context_wp [of S w key ver mode s] context_plain [of S w key ver mode] by (simp add: context_of_def throws_def)
next
  case (3 ctx t)
  have "plain e" if "resolve_limits (sv_settings S) cpu mem pids = Inl e" for e
    using that by (auto simp: resolve_limits_def Let_def split: if_splits)
  then show ?case using 3 assms by (auto simp: wp_raise Let_def split: sum.split)
qed (use assms(2) in simp)

text \<open>Without an attachment the guarded part of a bring-up leaves the topology tables as they are.\<close>

lemma deferred_steps_topo:
  assumes "sv_attach_deferred S"
  shows "wp (bring_up_steps S ctx limits sec env) (\<lambda>out t. si_topo t = si_topo s) s"
proof -
  have "tidy (\<lambda>d. d = si_topo s) (bring_up_steps S ctx limits sec env)"
    unfolding bring_up_steps_def bring_up_attach_topology_def if_P [OF assms] by (intro tidy_intros tidy_start) simp_all
  then show ?thesis by (simp add: tidy_def)
qed

text \<open>C11: a bring-up that reports success has a workspace that serves. On a node that attaches workspaces to its bridge, the
  container was seen running, the workspace is attached to the bridge of a ready node, it holds a lease of the address of its
  attachment, and the endpoint reported is that address with the port of the editor. Where the attachment is
  deferred, as on every node reached through SSH or SSM, no topology table changes; the engine has shown the container
  running, and an HTTP request to the endpoint reported, a port of the loopback interface of the node, was answered.\<close>

theorem bring_up_success_serves:
  assumes "run_state (bring_up_workspace_runtime S w key ver cpu mem pids env mode) s = (Inr res, t)" "ro_success res"
    "clean_node (sv_node_id S) = sv_node_id S"
  shows "if sv_attach_deferred S
    then si_topo t = si_topo s \<and> answering S (ro_container_id res) (ro_internal_endpoint res)
    else \<exists>n st. parse_topology_workspace_id (py_strip w) = Inr n \<and> ro_container_state res = Some st \<and> py_lower (py_strip st) = ''running'' \<and>
      serving (si_topo t) (sv_topology_id S) (sv_node_id S) n (ro_internal_endpoint res)"
proof -
  let ?G = "\<lambda>res t. if sv_attach_deferred S
    then si_topo t = si_topo s \<and> answering S (ro_container_id res) (ro_internal_endpoint res)
    else \<exists>n. parse_topology_workspace_id (py_strip w) = Inr n \<and> serving (si_topo t) (sv_topology_id S) (sv_node_id S) n (ro_internal_endpoint res) \<and>
      seen_running (ro_container_state res)"
  let ?Q = "\<lambda>r t. \<forall>res. r = Inr res \<longrightarrow> ro_success res \<longrightarrow> ?G res t"
  have abort: "wp (abort_bring_up S ctx u x) ?Q v" for ctx u x v
    unfolding abort_bring_up_def by (auto intro!: wp_bindI [OF wp_true] wp_andEI [OF wp_true] simp: wp_raise)
  have undo: "wp (undo_unhealthy S ctx u r) (\<lambda>r t. case r of Inl e \<Rightarrow> ?Q (Inl e) t | Inr res \<Rightarrow> ?Q (Inr (with_applied l x res)) t) v" for ctx u r l x v
    unfolding undo_unhealthy_def Let_def by (auto intro!: wp_bindI [OF wp_true] wp_andEI [OF wp_true] simp: wp_ret)
  have "wp (bring_up_workspace_runtime S w key ver cpu mem pids env mode) ?Q s"
  proof (rule bring_up_wp)
    fix ctx limits sec and v :: "'a site" assume c: "context_of w ctx" and v: "si_topo v = si_topo s"
    then have w: "parse_topology_workspace_id (bc_wid ctx) = Inr (bc_ws_int ctx)" "parse_topology_workspace_id (py_strip w) = Inr (bc_ws_int ctx)"
      by (simp_all add: context_of_def)
    show "wp (bring_up_steps S ctx limits sec env \<bind> settle_bring_up S ctx limits sec) ?Q v"
    proof (cases "sv_attach_deferred S")
      case True
      have "wp (bring_up_steps S ctx limits sec env) (\<lambda>out t. si_topo t = si_topo v \<and> (\<forall>u res. out = (u, Inr res) \<longrightarrow> ro_success res \<longrightarrow>
          answering S (ro_container_id res) (ro_internal_endpoint res))) v"
        unfolding wp_conj using deferred_steps_topo [OF True] steps_post [OF deferred_probe_wp [OF True]] by simp
      from outcome_wp [OF this abort _ undo] show ?thesis using True v by simp
    next
      case False
      then show ?thesis by (intro outcome_wp [OF steps_post [OF probe_wp [OF assms(3) w(1) False]] abort _ undo]) (use w(2) in auto)
    qed
  qed simp
  from wp_run [OF this assms(1)] show ?thesis using assms(2) by (auto simp: seen_running_def split: if_splits)
qed

text \<open>C12: a rollback that reports success leaves nothing on the node. When a bring-up fails and says that its compensating rollback
  succeeded, by the exception it raises or by its result, the workspace has neither an attachment nor a lease.\<close>

theorem rollback_success_leaves_node:
  assumes "run_state (bring_up_workspace_runtime S w key ver cpu mem pids env mode) s = (r, t)"
    "case r of Inl e \<Rightarrow> \<exists>m iss cid st. e = WorkspaceBringUpError m True (Some True) iss cid st | Inr res \<Rightarrow> bu_rollback_succeeded res = Some True"
    "topo_ok (si_topo s)" "fair_hosts S" "sv_runtime S = docker_adapter K \<or> sv_runtime S = ssm_adapter H"
  shows "\<exists>n. parse_topology_workspace_id (py_strip w) = Inr n \<and>
    (\<forall>a. find_att (si_topo t) (sv_topology_id S) (clean_node (sv_node_id S)) n = Some a \<longrightarrow> at_status a = AS_DETACHED) \<and>
    find_active_lease (si_topo t) (sv_topology_id S) (clean_node (sv_node_id S)) n = None"
proof -
  let ?Q = "\<lambda>r t. rolled_back r \<longrightarrow> (\<exists>n. parse_topology_workspace_id (py_strip w) = Inr n \<and> off_node S n (si_topo t))"
  note rel = adapters_reliable [OF assms(5)]
  have "wp (bring_up_workspace_runtime S w key ver cpu mem pids env mode) ?Q s"
  proof (rule bring_up_wp)
    fix ctx limits sec and v :: "'a site" assume c: "context_of w ctx" and v: "si_topo v = si_topo s"
    then have w: "parse_topology_workspace_id (py_strip w) = Inr (bc_ws_int ctx)" by (simp add: context_of_def)
    have start: "wp (bring_up_steps S ctx limits sec env)
        (\<lambda>out t. topo_ok (si_topo t) \<and> (\<forall>u res. out = (u, Inr res) \<longrightarrow> bu_rollback_succeeded res = None)) v"
      unfolding wp_conj using tidy_wp [OF tidy_steps [OF assms(4)], of v] steps_post [OF no_rollback_yet] v assms(3) by simp
    show "wp (bring_up_steps S ctx limits sec env \<bind> settle_bring_up S ctx limits sec) ?Q v"
      by (rule outcome_wp [OF start])
        (use w in \<open>auto simp: rolled_back_def split: sum.split intro!: wp_mono [OF abort_wp [OF rel c]] wp_mono [OF undo_wp [OF rel c]]\<close>)
  qed (simp add: rolled_back_def)
  from wp_run [OF this assms(1)] show ?thesis using assms(2)
    by (auto simp: rolled_back_def plain_def off_node_def detached_from_def without_lease_def split: sum.splits)
qed

section \<open>Rollback without a container\<close>

lemma strict_stop:
  assumes "authoritative_container_ref_required (sv_env S)" "py_strip w \<noteq> []"
  shows "stop_workspace_runtime S w None release = ret \<lparr>st_success = False, st_container_id = None, st_container_state = None,
     st_topology_detached = None, st_issues = Some [''runtime:authoritative_container_id_required'']\<rparr>"
  using assms by (simp add: stop_workspace_runtime_def container_id_required_def Let_def)

text \<open>C39: where the engine's container id is required, a start that fails is not rolled back. The rollback has no id to go by, so both its
  attempts are refused, the engine and the tables stay as the failed start left them, and the exception reports a rollback that failed.\<close>

theorem failed_start_not_rolled_back:
  assumes "authoritative_container_ref_required (sv_env S)" "resolve_limits (sv_settings S) cpu mem pids = Inr limits"
    "run_state (bring_up_build_context S w key ver mode) s = (Inr ctx, s1)"
    "run_state (bring_up_start_container S ctx limits (build_security_spec (sv_settings S)) env) s1 = (Inl x, t)"
  shows "run_state (bring_up_workspace_runtime S w key ver cpu mem pids env mode) s =
    (Inl (WorkspaceBringUpError (failure_text x) True (Some False)
       (Some [''rollback:stop_incomplete:1:runtime:authoritative_container_id_required'',
              ''rollback:stop_incomplete:2:runtime:authoritative_container_id_required'']) None None), t)"
proof -
  have "bc_wid ctx = py_strip w" "py_strip w \<noteq> []" using wp_run [OF context_wp assms(3)] by simp_all
  then have stop: "stop_workspace_runtime S (bc_wid ctx) None True = ret \<lparr>st_success = False, st_container_id = None, st_container_state = None,
     st_topology_detached = None, st_issues = Some [''runtime:authoritative_container_id_required'']\<rparr>"
    using strict_stop [OF assms(1)] by simp
  show ?thesis
    by (simp add: bring_up_workspace_runtime_def evaluation assms(2,3,4) Let_def bring_up_steps_def settle_bring_up_def abort_bring_up_def
        gather_failure_evidence_def bring_up_compensating_rollback_def rollback_attempt_def stop incomplete_text_def str_nat.simps digit_char_def char_of_def bit_0)
qed

section \<open>Witnesses\<close>

lemma ex_context: "\<exists>ctx. run_state (bring_up_build_context (ex_service f m) ''7'' None None None) (ex_site e d k) = (Inr ctx, ex_site e d k) \<and>
    bc_wid ctx = ''7'' \<and> bc_ws_int ctx = 7"
  by (simp add: bring_up_build_context_def evaluation run_engine Let_def ex_dirs_def)

lemma ex_limits_ok: "resolve_limits (ex_limits m) None None None = Inr (1, 512, 64)"
  by (simp add: resolve_limits_def ex_limits_def Let_def)

lemma ex_bad_mode: "run_state (bring_up_start_container (ex_service f ''x'') ctx limits sec env) s = (Inl (OrchExn (bring_up_error auth_mode_error)), s)"
  by (simp add: bring_up_start_container_def container_env_def code_server_env_def ex_limits_def py_strip_def py_space_def py_lower_def lower_char_def Let_def)

theorem failed_start_not_rolled_back_witness:
  "run_state (bring_up_workspace_runtime (ex_service False ''x'') ''7'' None None None None None [] None) (ex_site None ex_tdb 0) =
    (Inl (WorkspaceBringUpError auth_mode_error True (Some False)
       (Some [''rollback:stop_incomplete:1:runtime:authoritative_container_id_required'',
              ''rollback:stop_incomplete:2:runtime:authoritative_container_id_required'']) None None), ex_site None ex_tdb 0)"
proof -
  obtain ctx where "run_state (bring_up_build_context (ex_service False ''x'') ''7'' None None None) (ex_site None ex_tdb 0) = (Inr ctx, ex_site None ex_tdb 0)"
    using ex_context by metis
  from failed_start_not_rolled_back [OF _ _ this ex_bad_mode, of None None None] show ?thesis
    by (simp add: ex_limits_ok failure_text_def bring_up_error_def)
qed

theorem rollback_success_leaves_node_witness:
  "\<exists>e t. run_state (bring_up_workspace_runtime (ex_service True ''x'') ''7'' None None None None None [] None) (ex_site None ex_failed_tdb 0) = (Inl e, t)
     \<and> find_active_lease ex_failed_tdb 1 ''n1'' 7 \<noteq> None \<and> find_active_lease (si_topo t) 1 ''n1'' 7 = None"
proof -
  let ?S = "ex_service True ''x''"
  obtain ctx where c: "run_state (bring_up_build_context ?S ''7'' None None None) (ex_site None ex_failed_tdb 0) = (Inr ctx, ex_site None ex_failed_tdb 0)"
    "bc_wid ctx = ''7''" using ex_context by metis
  have "ex_states None" by (simp add: ex_states_def)
  then obtain res e' d' where st: "run_state (stop_workspace_runtime ?S ''7'' None True) (ex_site None ex_failed_tdb 0) = (Inr res, ex_site e' d' 2)" "st_success res"
    using ex_stop [of None None True "''x''" ex_failed_tdb 0] by (auto simp: numeral_2_eq_2)
  obtain iss cid x t where r: "run_state (bring_up_workspace_runtime ?S ''7'' None None None None None [] None) (ex_site None ex_failed_tdb 0) =
      (Inl (WorkspaceBringUpError auth_mode_error True (Some True) iss cid x), t)"
    by (auto simp: bring_up_workspace_runtime_def evaluation c ex_limits_ok ex_bad_mode bring_up_steps_def settle_bring_up_def abort_bring_up_def
        gather_failure_evidence_def bring_up_compensating_rollback_def rollback_attempt_def st failure_text_def bring_up_error_def Let_def)
  have "fair_hosts ?S" using ex_tables(2) by (simp add: fair_hosts_def)
  then have "find_active_lease (si_topo t) 1 ''n1'' 7 = None" using rollback_success_leaves_node [OF r, of ex_docker] ex_tables_ok by auto
  then show ?thesis using r by (auto simp: find_active_lease_def ex_failed_tdb_def new_lease_def)
qed

text \<open>A node on which workspace 7 is attached already, and an engine that has a container for every request.\<close>

definition ex_ready :: topo_runtime where
  "ex_ready = ex_runtime\<lparr>tr_last_checked_at := Some 2000000000, tr_updated_at := 2000000000\<rparr>"

definition ex_ip :: string where
  "ex_ip = ip4_text 167772171"

definition ex_att :: attachment where
  "ex_att = (blank_att ex_tw 1 ''n1'' 7)\<lparr>at_id := 1, at_status := AS_ATTACHED, at_container_id := Some ''c1'', at_workspace_ip := Some ex_ip,
     at_bridge_name := Some ''br1'', at_gateway_ip := Some ''10.0.0.1''\<rparr>"

definition ex_lease :: ip_lease where
  "ex_lease = (new_lease ex_tw 1 ''n1'' 7 ex_ip)\<lparr>ia_id := 1\<rparr>"

definition ex_attached :: tdb where
  "ex_attached = ex_tdb\<lparr>t_runtimes := [ex_ready], t_leases := [ex_lease], t_lease_seq := 2, t_atts := [ex_att], t_att_seq := 2\<rparr>"

definition ex_adapter :: "jobj option adapter" where
  "ex_adapter = (docker_adapter ex_docker)\<lparr>ra_ensure := (\<lambda>_. ret \<lparr>en_container_id = ''c1'', en_created_new = False, en_state = ''running'', en_ports = []\<rparr>)\<rparr>"

abbreviation "ex_up \<equiv> (ex_service False ''none'')\<lparr>sv_runtime := ex_adapter\<rparr>"

lemma ex_ready_fields [simp]: "tr_id ex_ready = 1" "tr_status ex_ready = TRS_READY" "tr_bridge_name ex_ready = Some ''br1''"
  "tr_cidr ex_ready = tr_cidr ex_runtime" "tr_gateway_ip ex_ready = tr_gateway_ip ex_runtime" "synced ex_tw TRS_READY None None ex_ready = ex_ready"
  by (simp_all add: ex_ready_def ex_runtime_def synced_def ex_tw_def)

lemma ex_att_fields [simp]: "at_id ex_att = 1" "at_status ex_att = AS_ATTACHED" "at_container_id ex_att = Some ''c1''" "at_workspace_ip ex_att = Some ex_ip"
  "at_bridge_name ex_att = Some ''br1''" "at_gateway_ip ex_att = Some ''10.0.0.1''" "ia_ip ex_lease = ex_ip" "ia_released_at ex_lease = None"
  by (simp_all add: ex_att_def ex_lease_def new_lease_def)

lemma ex_attached_rows [simp]: "find_runtime ex_attached 1 ''n1'' = Some ex_ready" "find_att ex_attached 1 ''n1'' 7 = Some ex_att"
  "find_active_lease ex_attached 1 ''n1'' 7 = Some ex_lease" "find_lease ex_attached 1 ''n1'' 7 = Some ex_lease"
  "put_runtime ex_ready ex_attached = ex_attached" "map_of (t_catalog ex_attached) 1 = Some (JObj [])"
  by (simp_all add: found ex_attached_def ex_ready_def ex_runtime_def ex_att_def blank_att_def ex_lease_def new_lease_def put_runtime_def row_put_def ex_tdb_def)

lemma ex_ip_text: "ex_ip = ''10.0.0.11''"
  by (simp add: ex_ip_def ip4_text_def str_nat.simps digit_char_def char_of_def bit_0)

lemma ex_strips [simp]: "py_strip ex_ip = ex_ip" "ex_ip \<noteq> []" "filled (Some ''br1'')" "filled (Some ''10.0.0.1'')" "filled (Some ''c1'')"
  "filled (Some ex_ip)" "filled (tr_cidr ex_runtime)" "filled (tr_gateway_ip ex_runtime)" "py_strip ''br1'' = ''br1''" "py_strip ''n1'' = ''n1''"
  "py_strip (str_or_empty (tr_cidr ex_runtime)) = str_or_empty (tr_cidr ex_runtime)"
  "py_strip (str_or_empty (tr_gateway_ip ex_runtime)) = str_or_empty (tr_gateway_ip ex_runtime)"
  by (simp_all add: ex_ip_text py_strip_def py_space_def filled_def ex_runtime_def str_or_empty_def)

lemma ex_ip_parse [simp]: "parse_ip4 ex_ip = Some 167772171" "in_net 167772171 ex_net"
  by (simp_all add: ex_ip_def parse_ip4_text in_net_def ex_net_def net_size_def size_of_len_def)

lemma ex_ensure_node: "\<exists>x. ensure_node_topology ex_tw 1 ''n1'' ex_attached = Inr (x, ex_attached)"
  by (simp add: ensure_node_topology_def node_bridge_plan_def spec_mode_def jget_def complete_runtime_def runtime_row_complete_def sync_and_report_def
      sync_linux_node_bridge_def tthen_def Let_def)

lemma ex_nonempty [simp]: "str_or_empty (tr_cidr ex_runtime) \<noteq> []" "str_or_empty (tr_gateway_ip ex_runtime) \<noteq> []"
  by (simp_all add: ex_runtime_def str_or_empty_def)

lemma ex_allocate: "allocate_workspace_ip ex_tw 1 ''n1'' 7 ex_attached = Inr (\<lparr>al_workspace_ip = ex_ip, al_leased_existing = True\<rparr>, ex_attached)"
  by (simp add: allocate_workspace_ip_def allocatable_runtime_def ALLOCATE_IP_MAX_ATTEMPTS_def eval_nat_numeral allocate_workspace_ip_attempt_def)

lemma ex_attach: "py_strip ns \<noteq> [] \<Longrightarrow>
    attach_workspace ex_tw 1 ''n1'' 7 ''c1'' ns ex_ip ex_attached = Inr (attach_result_of 1 ex_ip ex_ready, ex_attached)"
  using ex_ensure_node
  by (auto simp: attach_workspace_def tthen_def attachable_runtime_def check_attach_address_def ex_subnet(1) check_netns_def attach_fast_path_def
      already_attached_def Let_def)

lemma ex_checks: "cr_healthy (check_topology ex_tw 1 ''n1'' ex_attached)" "ca_healthy (check_attachment ex_tw 1 ''n1'' 7 ex_attached)"
    "ca_workspace_ip (check_attachment ex_tw 1 ''n1'' 7 ex_attached) = Some ex_ip"
proof -
  have c: "runtime_consistency_issues ex_tw (tr_cidr ex_runtime) (tr_gateway_ip ex_runtime) = []"
    using ex_subnet by (simp add: runtime_consistency_issues_def Let_def)
  show "cr_healthy (check_topology ex_tw 1 ''n1'' ex_attached)" by (simp add: check_topology_def c bridge_issues_def Let_def)
  show "ca_healthy (check_attachment ex_tw 1 ''n1'' 7 ex_attached)" using ex_subnet(1)
    by (simp add: check_attachment_def att_db_issues_def att_runtime_issues_def c att_linux_issues_def Let_def split: prod.split)
  show "ca_workspace_ip (check_attachment ex_tw 1 ''n1'' 7 ex_attached) = Some ex_ip" by (simp add: check_attachment_def Let_def)
qed

lemma ex_up_fields [simp]: "sv_runtime ex_up = ex_adapter" "run_state (ra_inspect ex_adapter c) (Some ex_running) = (Inr (normalize_inspection ex_str ex_running), Some ex_running)"
  by (simp_all add: ex_adapter_def docker_adapter_def)

lemma ex_started: "\<exists>u. run_state (bring_up_start_container ex_up ctx limits sec []) (ex_site (Some ex_running) d k) =
    (Inr u, ex_site (Some ex_running) d k) \<and> ru_container_id u = ''c1'' \<and> ru_netns_ref u = SKIP_NETNS_PLACEHOLDER_REF"
proof -
  obtain mode merged where e: "container_env (ex_limits ''none'') (bc_wid ctx) ''n1'' [] = Inr (mode, merged)"
    by (simp add: container_env_def code_server_env_def ex_limits_def Let_def env_get_def py_strip_def py_space_def py_lower_def lower_char_def)
  have start: "run_state (start_container ex_docker ''c1'') (Some ex_running) = (Inr (acted ''c1'' (normalize_inspection ex_str ex_running)), Some ex_running)"
    by (simp add: start_container_def evaluation ex_inspections)
  have en: "\<exists>u. run_state (ensure_running_runtime_only ex_adapter 1 a True) (Some ex_running) = (Inr u, Some ex_running) \<and>
     ru_container_id u = ''c1'' \<and> ru_netns_ref u = SKIP_NETNS_PLACEHOLDER_REF" for a
    using start by (simp add: ensure_running_runtime_only_def ex_adapter_def docker_adapter_def evaluation acted_def ex_inspections container_dead_def Let_def)
  obtain u where u: "run_state (ensure_running_runtime_only ex_adapter 1 (start_args ex_up ctx limits sec merged (code_server_mounts ''c'' ''d'')) True)
      (Some ex_running) = (Inr u, Some ex_running)" "ru_container_id u = ''c1''" "ru_netns_ref u = SKIP_NETNS_PLACEHOLDER_REF" using en by metis
  have checks: "run_state (host_checks ex_up p (code_server_mounts ''c'' ''d'')) (ex_site (Some ex_running) d k) = (Inr (), ex_site (Some ex_running) d k)" for p
    by (simp add: host_checks_def remote_host_def code_server_mounts_def verify_dir_def evaluation run_engine ex_dirs_def)
  show ?thesis using u
    by (simp add: bring_up_start_container_def e evaluation run_engine ex_looks_def Let_def) (simp add: ex_dirs_def evaluation run_engine checks)
qed

lemma run_topo_read: "run_state (topo_read Ws f) s = (f (Ws (si_calls s)) (si_topo s), s\<lparr>si_calls := Suc (si_calls s)\<rparr>)"
  by (simp add: topo_read_def)

lemma run_of_topology: "f (sv_topo S (si_calls s)) (si_topo s) = Inr (a, d) \<Longrightarrow>
    run_state (of_topology S f) s = (Inr a, s\<lparr>si_topo := d, si_calls := Suc (si_calls s)\<rparr>)"
  by (simp add: of_topology_def topo_call_def evaluation)

lemma ex_attach_run:
  assumes "bc_ws_int ctx = 7" "ru_container_id u = ''c1''" "ru_netns_ref u = SKIP_NETNS_PLACEHOLDER_REF"
  shows "\<exists>k'. run_state (bring_up_attach_topology ex_up ctx u) (ex_site (Some ex_running) ex_attached k) =
    (Inr (attach_result_of 1 ex_ip ex_ready), ex_site (Some ex_running) ex_attached k')"
proof -
  have ns: "py_strip SKIP_NETNS_PLACEHOLDER_REF \<noteq> []" by (simp add: SKIP_NETNS_PLACEHOLDER_REF_def py_strip_def py_space_def)
  have alive: "run_state (wait_workspace_alive_for_topology ex_up u p w) (ex_site (Some ex_running) ex_attached k) =
      (Inr (normalize_inspection ex_str ex_running), ex_site (Some ex_running) ex_attached k)" for p w k
    by (simp add: wait_workspace_alive_for_topology_def of_runtime_def evaluation run_engine)
  obtain x where x: "ensure_node_topology ex_tw 1 ''n1'' ex_attached = Inr (x, ex_attached)" using ex_ensure_node by blast
  show ?thesis using assms
    by (auto simp: bring_up_attach_topology_def attach_steps_def evaluation alive netns_for_attach_def run_of_topology x ex_allocate ex_attach [OF ns] Let_def)
qed

lemma ex_probe_run:
  assumes "bc_wid ctx = ''7''" "ru_container_id u = ''c1''" "ar_workspace_ip att = ex_ip"
  shows "\<exists>res k'. run_state (bring_up_run_probe ex_up ctx u att) (ex_site (Some ex_running) ex_attached k) =
    (Inr res, ex_site (Some ex_running) ex_attached k') \<and> ro_success res"
proof -
  have escape: "run_state (nt_escape ex_links) e = (None, e)" for e by (simp add: ex_links_def evaluation)
  have ids: "parse_non_negative_int (str_int 1) = Some 1" "parse_non_negative_int ''7'' = Some 7"
    using parse_int_str_int [of 1] by (simp_all add: parse_non_negative_int_def del: parse_int_str_int) (simp add: parse_int_def is_digit_def)
  have up: "run_state (check_service_reachable ex_links ex_ip WORKSPACE_IDE_CONTAINER_PORT tm) e = (service_up, e)" if "0 < tm" for tm e
    using that by (simp add: check_service_reachable_def WORKSPACE_IDE_CONTAINER_PORT_def ex_links_def evaluation Let_def)
  have running: "py_lower (py_strip ''running'') = ''running''" by (simp add: py_strip_def py_space_def py_lower_def lower_char_def)
  have topo: "run_state (check_topology_state (\<lambda>_. ex_tw) ex_links (str_int 1) ''n1'' ''7'' WORKSPACE_IDE_CONTAINER_PORT) (ex_site e ex_attached k) =
      (topology_verdict 1 ''n1'' 7 WORKSPACE_IDE_CONTAINER_PORT (check_topology ex_tw 1 ''n1'' ex_attached) (check_attachment ex_tw 1 ''n1'' 7 ex_attached),
       ex_site e ex_attached (Suc (Suc k)))" for e k
    by (simp add: check_topology_state_def ids evaluation run_engine run_topo_read ex_links_def Let_def)
  have verdict: "tp_healthy (topology_verdict 1 ''n1'' 7 WORKSPACE_IDE_CONTAINER_PORT (check_topology ex_tw 1 ''n1'' ex_attached) (check_attachment ex_tw 1 ''n1'' 7 ex_attached))"
    "tp_workspace_ip (topology_verdict 1 ''n1'' 7 WORKSPACE_IDE_CONTAINER_PORT (check_topology ex_tw 1 ''n1'' ex_attached) (check_attachment ex_tw 1 ''n1'' 7 ex_attached)) = Some ex_ip"
    using ex_checks by (simp_all add: topology_verdict_def Let_def strip_or_none_def none_if_empty_def endpoint_or_none_def WORKSPACE_IDE_CONTAINER_PORT_def)
  have svc: "run_state (service_part ex_links p WORKSPACE_IDE_CONTAINER_PORT tm) e = (service_up, e)" if "0 < tm" "tp_workspace_ip p = Some ex_ip" for p tm e
    using that up by (simp add: service_part_def evaluation augment_unreachable_service_probe_def service_up_def Let_def) (simp add: ex_links_def evaluation)
  have h: "\<exists>h. run_state (probe_workspace ex_up ''7'' ''c1'' tm) (ex_site (Some ex_running) ex_attached k) =
      (h, ex_site (Some ex_running) ex_attached (Suc (Suc k))) \<and> wh_healthy h" if "0 < tm" for tm k
    using that verdict by (simp add: probe_workspace_def check_workspace_health_def evaluation run_engine check_container_running_def container_verdict_def
        ex_inspections running topo svc service_up_def Let_def)
  define tm where "tm = min 45 (max 8 (clamped_wait ex_up / 6))"
  have "0 < tm" by (simp add: tm_def)
  then obtain h where "run_state (probe_workspace ex_up ''7'' ''c1'' tm) (ex_site (Some ex_running) ex_attached k) =
      (h, ex_site (Some ex_running) ex_attached (Suc (Suc k)))" "wh_healthy h" using h by metis
  then show ?thesis using assms
    by (auto simp: bring_up_run_probe_def evaluation run_engine ex_looks_def up escape service_up_def bring_up_observation_def Let_def tm_def)
qed

theorem bring_up_success_serves_witness:
  "\<exists>res t. run_state (bring_up_workspace_runtime ex_up ''7'' None None None None None [] None) (ex_site (Some ex_running) ex_attached 0) = (Inr res, t)
     \<and> serving (si_topo t) 1 ''n1'' 7 (ro_internal_endpoint res)"
proof -
  let ?s = "\<lambda>k. ex_site (Some ex_running) ex_attached k"
  obtain ctx where c: "run_state (bring_up_build_context ex_up ''7'' None None None) (?s 0) = (Inr ctx, ?s 0)" "bc_wid ctx = ''7''" "bc_ws_int ctx = 7"
    using ex_context [of False "''none''" "Some ex_running" ex_attached 0] by (auto simp: bring_up_build_context_def)
  obtain u where u: "run_state (bring_up_start_container ex_up ctx (1, 512, 64) (build_security_spec (ex_limits ''none'')) []) (?s 0) = (Inr u, ?s 0)"
    "ru_container_id u = ''c1''" "ru_netns_ref u = SKIP_NETNS_PLACEHOLDER_REF" using ex_started by metis
  obtain k where a: "run_state (bring_up_attach_topology ex_up ctx u) (?s 0) = (Inr (attach_result_of 1 ex_ip ex_ready), ?s k)"
    using ex_attach_run [OF c(3) u(2,3)] by metis
  obtain res k' where p: "run_state (bring_up_run_probe ex_up ctx u (attach_result_of 1 ex_ip ex_ready)) (?s k) = (Inr res, ?s k')" "ro_success res"
    using ex_probe_run [OF c(2) u(2)] by (metis attach_result.select_convs(2) attach_result_of_def)
  have r: "run_state (bring_up_workspace_runtime ex_up ''7'' None None None None None [] None) (?s 0) =
      (Inr (with_applied (1, 512, 64) (build_security_spec (ex_limits ''none'')) res), ?s k')"
    by (simp add: bring_up_workspace_runtime_def evaluation c ex_limits_ok bring_up_steps_def u a p settle_bring_up_def Let_def)
  show ?thesis using bring_up_success_serves [OF r] p(2) r by auto
qed

end
