(* ===== verification/Gateway_Auth.thy ===== *)
theory Gateway_Auth
  imports Intent Ipv4
begin

text \<open>
  The edge check (\<^verbatim>\<open>workspace_service/api/routers/internal_gateway_auth.py\<close>). Traefik asks it before each
  proxied request whether the caller may reach the workspace behind the host. The check finds the workspace of
  the forwarded host, then the session of the presented token, and compares.

  The keyed hash of a token is the parameter \<open>hash_token\<close> as in theory \<open>Sessions\<close>, \<^verbatim>\<open>urllib.parse\<close> the
  parameter \<open>url_path\<close> as in theory \<open>Routing\<close>, and the switch \<^verbatim>\<open>devnest_gateway_auth_enabled\<close> an argument.
  An answer is the HTTP status with the response text.
\<close>

section \<open>Which workspace a host names\<close>

text \<open>\<^verbatim>\<open>_WS_HOST_RE\<close>: the digits of \<^verbatim>\<open>ws-(\d+)(?:-[a-z0-9-]+)?\.\<close> at the start of a host. A digit is neither
  a hyphen nor a dot and a dot is not in the class of the suffix, so the greedy match is the only one.\<close>

definition ws_host_digits :: "string \<Rightarrow> string option" where
  "ws_host_digits h =
     (if \<not> starts_with ''ws-'' h then None
      else let ds = takeWhile is_digit (drop 3 h) in
        if ds = [] then None
        else case dropWhile is_digit (drop 3 h) of
            [] \<Rightarrow> None
          | c # cs \<Rightarrow>
              if c = CHR ''.'' then Some ds
              else if c = CHR ''-'' \<and> takeWhile slug_char cs \<noteq> [] \<and> starts_with ''.'' (dropWhile slug_char cs)
              then Some ds else None)"

text \<open>\<^verbatim>\<open>str.isdigit\<close> also holds for the superscripts of Latin-1, which \<^verbatim>\<open>int\<close> refuses. Nor does \<^verbatim>\<open>int\<close> take
  more than 4300 digits.\<close>

definition py_isdigit :: "string \<Rightarrow> bool" where
  "py_isdigit s = (s \<noteq> [] \<and> list_all (\<lambda>c. is_digit c \<or> (of_char c :: nat) \<in> {178, 179, 185}) s)"

definition int_of_digits :: "string \<Rightarrow> int option" where
  "int_of_digits s = (if length s > 4300 then None else parse_int s)"

definition clean_host :: "string \<Rightarrow> string" where
  "clean_host host = py_lower (hd (split_on (CHR '':'') (py_strip host)))"

definition workspace_id_from_host :: "string \<Rightarrow> string \<Rightarrow> int option" where
  "workspace_id_from_host host base_domain =
     (let h = clean_host host in
      case ws_host_digits h of
        Some ds \<Rightarrow> int_of_digits ds
      | None \<Rightarrow>
          let dom = strip_chars (CHR ''.'') (py_lower (py_strip base_domain)) in
          if dom = [] \<or> \<not> ends_with (''.'' @ dom) h then None
          else let label = take (length h - length (''.'' @ dom)) h
               in if py_isdigit label then int_of_digits label else None)"

definition resolve_workspace_id_from_gateway_request ::
  "(string \<Rightarrow> string) \<Rightarrow> settings \<Rightarrow> db \<Rightarrow> string \<Rightarrow> string \<Rightarrow> int option" where
  "resolve_workspace_id_from_gateway_request url_path s d host uri =
     (case workspace_id_from_host host (strip_chars (CHR ''.'') (py_strip (s_base_domain s))) of
        Some wid \<Rightarrow> Some wid
      | None \<Rightarrow>
          if \<not> tenant_workspace_urls_enabled s then None
          else case parse_workspace_host host (effective_public_base_domain s) of
              None \<Rightarrow> None
            | Some sub \<Rightarrow>
                (case extract_workspace_slug_from_path url_path (if uri = [] then ''/'' else uri) of
                   None \<Rightarrow> None
                 | Some slug \<Rightarrow>
                     (case first_row (filter (\<lambda>u. user_route_slug u = Some sub) (users d)) of
                        None \<Rightarrow> None
                      | Some u \<Rightarrow>
                          map_option ws_id (first_row (filter (\<lambda>w. ws_owner_user_id w = user_id u
                            \<and> py_lower (ws_url_slug w) = py_lower slug \<and> ws_status w \<noteq> WS_DELETED)
                            (workspaces d))))))"

section \<open>The check\<close>

record gateway_request =
  gr_forwarded_host :: "string option"
  gr_host_header :: string
  gr_forwarded_uri :: "string option"
  gr_url_path :: string
  gr_session_header :: "string option"
  gr_session_cookie :: "string option"

type_synonym auth_answer = "nat \<times> string"

definition request_host :: "gateway_request \<Rightarrow> string" where
  "request_host r =
     py_strip (if str_or_empty (gr_forwarded_host r) \<noteq> [] then str_or_empty (gr_forwarded_host r) else gr_host_header r)"

definition request_uri :: "gateway_request \<Rightarrow> string" where
  "request_uri r =
     py_strip (if str_or_empty (gr_forwarded_uri r) \<noteq> [] then str_or_empty (gr_forwarded_uri r) else gr_url_path r)"

definition request_token :: "gateway_request \<Rightarrow> string" where
  "request_token r =
     (let h = py_strip (str_or_empty (gr_session_header r))
      in if h \<noteq> [] then h else py_strip (str_or_empty (gr_session_cookie r)))"

definition session_by_token :: "(string \<Rightarrow> string) \<Rightarrow> db \<Rightarrow> string \<Rightarrow> ws_session option" where
  "session_by_token hash_token d token =
     first_row (filter (\<lambda>s. sess_token_hash s = hash_token token) (sessions d))"

definition gateway_forward_auth ::
  "(string \<Rightarrow> string) \<Rightarrow> (string \<Rightarrow> string) \<Rightarrow> bool \<Rightarrow> env \<Rightarrow> db \<Rightarrow> gateway_request \<Rightarrow> auth_answer" where
  "gateway_forward_auth hash_token url_path auth_enabled E d r =
     (if \<not> auth_enabled then (200, [])
      else case resolve_workspace_id_from_gateway_request url_path (cfg E) d (request_host r) (request_uri r) of
        None \<Rightarrow> (401, ''workspace host not recognized'')
      | Some wid \<Rightarrow>
          if request_token r = [] then
            (401, ''workspace session required: send X-DevNest-Workspace-Session or attach cookie ''
                  @ ''(HttpOnly devnest_ws_session from POST /workspaces/attach/{id})'')
          else case session_by_token hash_token d (request_token r) of
            None \<Rightarrow> (401, ''invalid workspace session token'')
          | Some s \<Rightarrow>
              if sess_workspace_id s \<noteq> wid then (401, ''session workspace mismatch'')
              else if sess_status s \<noteq> SS_ACTIVE then (401, ''workspace session is not active'')
              else if sess_expires_at s \<le> now E then (401, ''workspace session expired'')
              else case get_ws d wid of
                None \<Rightarrow> (401, ''workspace not found'')
              | Some w \<Rightarrow>
                  if ws_status w \<noteq> WS_RUNNING
                  then (401, ''workspace is not running ('' @ ws_status_str (ws_status w) @ '')'')
                  else (200, []))"

section \<open>What an admission means\<close>

lemma gateway_admits_iff:
  "fst (gateway_forward_auth hash_token url_path True E d r) = 200 \<longleftrightarrow>
     (\<exists>wid s w. resolve_workspace_id_from_gateway_request url_path (cfg E) d (request_host r) (request_uri r) = Some wid
        \<and> request_token r \<noteq> []
        \<and> session_by_token hash_token d (request_token r) = Some s \<and> effective_session wid (now E) s
        \<and> get_ws d wid = Some w \<and> ws_status w = WS_RUNNING)"
  by (auto simp: gateway_forward_auth_def effective_session_def not_le split: option.splits)

lemma gateway_answers: "fst (gateway_forward_auth hash_token url_path en E d r) \<in> {200, 401}"
  by (auto simp: gateway_forward_auth_def split: option.splits)

section \<open>Hosts the control plane hands out\<close>

lemma split_on_nonempty: "split_on c s \<noteq> []"
  by (induction s) (auto split: list.splits)

lemma hd_split_on: "hd (split_on c s) = takeWhile (\<lambda>x. x \<noteq> c) s"
  by (induction s) (auto simp: split_on_nonempty split: list.splits)

lemma lower_slug_char [simp]: "slug_char c \<Longrightarrow> lower_char c = c"
  by (auto simp: slug_char_def lower_char_def Let_def)

lemma lower_digit [simp]: "is_digit c \<Longrightarrow> lower_char c = c"
  by (simp add: is_digit_def lower_char_def)

lemma py_lower_id: "list_all (\<lambda>c. lower_char c = c) s \<Longrightarrow> py_lower s = s"
  by (induction s) (simp_all add: py_lower_def)

lemma py_lower_append [simp]: "py_lower (s @ t) = py_lower s @ py_lower t"
  by (simp add: py_lower_def)

lemma lower_dot [simp]: "lower_char (CHR ''.'') = CHR ''.''"
  by (simp add: lower_char_def)

lemma digit_plain:
  assumes "is_digit c"
  shows "slug_char c" "\<not> py_space c" "c \<noteq> CHR '':''" "c \<noteq> CHR ''.''" "c \<noteq> CHR ''-''"
  using assms by (auto simp: slug_char_def is_digit_def py_space_def)

lemma slug_letters: "slug_char (CHR ''w'')" "slug_char (CHR ''s'')" "slug_char (CHR ''-'')"
  by (simp_all add: slug_char_def)

lemma slug_plain:
  assumes "slug_char c"
  shows "\<not> py_space c" "c \<noteq> CHR '':''" "c \<noteq> CHR ''.''" "c \<noteq> CHR ''/''" "c \<noteq> CHR ''?''"
  using assms by (auto simp: slug_char_def py_space_def Let_def)

text \<open>A first label of slug characters survives the cleaning of the host, whatever follows the dot.\<close>

lemma py_strip_tail:
  assumes "l \<noteq> []" "\<not> py_space (hd l)" "\<not> py_space c"
  shows "py_strip (l @ c # rest) = l @ c # rev (dropWhile py_space (rev rest))"
  using assms by (cases l) (auto simp: py_strip_def dropWhile_append)

lemma clean_host_label:
  assumes "l \<noteq> []" "list_all slug_char l"
  shows "\<exists>rest'. clean_host (l @ ''.'' @ rest) = l @ ''.'' @ rest'"
proof -
  have "\<not> py_space (hd l)" using assms by (cases l) (simp_all add: slug_plain)
  then have strip: "py_strip (l @ ''.'' @ rest) = l @ ''.'' @ rev (dropWhile py_space (rev rest))"
    using py_strip_tail [of l "CHR ''.''" rest] assms by (simp add: py_space_def)
  have "takeWhile (\<lambda>x. x \<noteq> CHR '':'') (l @ y) = l @ takeWhile (\<lambda>x. x \<noteq> CHR '':'') y" for y
    using assms(2) by (intro takeWhile_append2) (auto simp: list_all_iff slug_plain)
  moreover have "py_lower l = l"
    using assms(2) by (intro py_lower_id) (auto simp: list_all_iff)
  ultimately show ?thesis
    unfolding clean_host_def hd_split_on strip by (simp add: py_lower_def)
qed

lemma ws_host_digits_label:
  assumes "list_all is_digit ds" "ds \<noteq> []" "list_all slug_char k" "sfx = (if k = [] then [] else ''-'' @ k)"
  shows "ws_host_digits (''ws-'' @ ds @ sfx @ ''.'' @ rest) = Some ds"
proof -
  have d: "takeWhile is_digit (ds @ x # y) = ds" "dropWhile is_digit (ds @ x # y) = x # y" if "\<not> is_digit x" for x y
    using assms(1) that by (simp_all add: list_all_iff takeWhile_append2 dropWhile_append2)
  have k: "takeWhile slug_char (k @ CHR ''.'' # rest) = k" "dropWhile slug_char (k @ CHR ''.'' # rest) = CHR ''.'' # rest"
    using assms(3) by (simp_all add: list_all_iff takeWhile_append2 dropWhile_append2 slug_char_def)
  show ?thesis
    using assms(2,4) by (simp add: ws_host_digits_def d k starts_with_def is_digit_def)
qed

lemma length_str_nat: "n < 10 ^ k \<Longrightarrow> 0 < k \<Longrightarrow> length (str_nat n) \<le> k"
proof (induction k arbitrary: n)
  case (Suc k)
  show ?case
  proof (cases "n < 10")
    case True
    then show ?thesis by (simp add: str_nat.simps [of n])
  next
    case False
    with Suc.prems have "0 < k" by (cases k) auto
    with Suc False show ?thesis by (simp add: str_nat.simps [of n] div_less_iff_less_mult mult.commute)
  qed
qed simp

text \<open>The identifiers the database hands out are non-negative 32-bit numbers.\<close>

definition row_id :: "int \<Rightarrow> bool" where
  "row_id i = (0 \<le> i \<and> i < 2 ^ 31)"

lemma row_id_text:
  assumes "row_id i"
  shows "list_all is_digit (str_int i)" "str_int i \<noteq> []" "int_of_digits (str_int i) = Some i"
proof -
  have "nat i < 10 ^ 10" using assms by (simp add: row_id_def nat_less_iff)
  then have "length (str_nat (nat i)) \<le> 10" by (rule length_str_nat) simp
  then show "list_all is_digit (str_int i)" "str_int i \<noteq> []" "int_of_digits (str_int i) = Some i"
    using assms parse_int_str_int [of i] by (simp_all add: row_id_def str_int_def str_nat_digits int_of_digits_def)
qed

lemma legacy_host_names_workspace:
  assumes "row_id wid" "list_all slug_char k" "sfx = (if k = [] then [] else ''-'' @ k)"
  shows "workspace_id_from_host (''ws-'' @ str_int wid @ sfx @ ''.'' @ rest) b = Some wid"
proof -
  let ?l = "''ws-'' @ str_int wid @ sfx"
  have "list_all slug_char ?l"
    using row_id_text(1) [OF assms(1)] assms(2,3) by (auto simp: list_all_iff digit_plain slug_letters)
  then obtain rest' where h: "clean_host (?l @ ''.'' @ rest) = ?l @ ''.'' @ rest'"
    using clean_host_label [of ?l rest] by auto
  have "ws_host_digits (?l @ ''.'' @ rest') = Some (str_int wid)"
    using ws_host_digits_label [OF row_id_text(1,2) [OF assms(1)] assms(2,3)] by simp
  with h show ?thesis
    using row_id_text(3) [OF assms(1)] by (simp add: workspace_id_from_host_def)
qed

lemma unique_host_names_workspace:
  assumes "row_id wid" "list_all slug_char (py_lower (py_strip (str_or_empty key)))"
  shows "workspace_id_from_host (gateway_unique_public_host wid base key) b = Some wid"
proof -
  define k where "k = py_lower (py_strip (str_or_empty key))"
  have k: "list_all slug_char k" using assms(2) by (simp add: k_def)
  show ?thesis
    unfolding gateway_unique_public_host_def Let_def k_def [symmetric]
    using legacy_host_names_workspace [OF assms(1) k refl, of "strip_chars (CHR ''.'') (py_strip (if base = [] then ''app.devnest.local'' else base))" b]
    by (cases "k = []") (simp_all del: str_or_empty_simps)
qed

text \<open>Domains as an operator writes them, and the tenant labels under them.\<close>

definition proper_domain :: "string \<Rightarrow> bool" where
  "proper_domain zone =
     (zone \<noteq> [] \<and> list_all (\<lambda>c. slug_char c \<or> c = CHR ''.'') zone \<and> hd zone \<noteq> CHR ''.'' \<and> last zone \<noteq> CHR ''.'')"

definition proper_label :: "string \<Rightarrow> bool" where
  "proper_label l = (l \<noteq> [] \<and> list_all slug_char l)"

lemma strip_chars_tidy: "hd s \<noteq> c \<Longrightarrow> last s \<noteq> c \<Longrightarrow> strip_chars c s = s"
proof (cases s rule: rev_cases)
  case (snoc ys y)
  assume "hd s \<noteq> c" "last s \<noteq> c"
  then have "dropWhile (\<lambda>x. x = c) s = s" by (cases s) simp_all
  with snoc \<open>last s \<noteq> c\<close> show ?thesis by (simp add: strip_chars_def)
qed (simp add: strip_chars_def)

lemma proper_domain_chars:
  assumes "proper_domain zone" "c \<in> set zone"
  shows "\<not> py_space c" "c \<noteq> CHR '':''" "lower_char c = c"
proof -
  have "slug_char c \<or> c = CHR ''.''" using assms by (simp add: proper_domain_def list_all_iff)
  then show "\<not> py_space c" "c \<noteq> CHR '':''" "lower_char c = c"
    using slug_plain [of c] by (auto simp: py_space_def [of "CHR ''.''"])
qed

lemma proper_domain_tidy:
  assumes "proper_domain zone"
  shows "py_strip zone = zone" "py_lower zone = zone" "strip_chars (CHR ''.'') zone = zone"
  using assms proper_domain_chars [OF assms]
  by (auto intro!: py_strip_tidy py_lower_id strip_chars_tidy simp: proper_domain_def list_all_iff)

lemma proper_label_tidy:
  assumes "proper_label l"
  shows "py_strip l = l" "py_lower l = l" "strip_chars (CHR ''.'') l = l" "CHR ''.'' \<notin> set l"
proof -
  have c: "\<not> py_space c \<and> lower_char c = c \<and> c \<noteq> CHR ''.''" if "c \<in> set l" for c
    using assms that slug_plain [of c] by (simp add: proper_label_def list_all_iff)
  have l: "l \<noteq> []" using assms by (simp add: proper_label_def)
  show "py_strip l = l" "py_lower l = l" "strip_chars (CHR ''.'') l = l" "CHR ''.'' \<notin> set l"
    using c l by (auto intro!: py_strip_tidy py_lower_id strip_chars_tidy simp: list_all_iff dest!: c)
qed

lemma clean_host_proper:
  assumes "proper_label l" "proper_domain zone"
  shows "clean_host (l @ ''.'' @ zone) = l @ ''.'' @ zone" "py_strip (l @ ''.'' @ zone) = l @ ''.'' @ zone"
proof -
  have sp: "\<not> py_space (hd (l @ ''.'' @ zone))" "\<not> py_space (last (l @ ''.'' @ zone))"
    using assms proper_domain_chars(1) [OF assms(2)] by (auto simp: proper_label_def proper_domain_def list_all_iff slug_plain)
  then show strip: "py_strip (l @ ''.'' @ zone) = l @ ''.'' @ zone" by (rule py_strip_tidy)
  have whole: "takeWhile (\<lambda>x. x \<noteq> CHR '':'') (l @ ''.'' @ zone) = l @ ''.'' @ zone"
    using assms proper_domain_chars(2) [OF assms(2)] by (auto simp: takeWhile_eq_all_conv proper_label_def list_all_iff slug_plain)
  show "clean_host (l @ ''.'' @ zone) = l @ ''.'' @ zone"
    using proper_label_tidy(2) [OF assms(1)] proper_domain_tidy(2) [OF assms(2)]
    unfolding clean_host_def hd_split_on strip whole by (simp add: py_lower_def)
qed

lemma ends_with_append [simp]: "ends_with s (l @ s)"
  by (simp add: ends_with_def)

lemma tenant_host_parses:
  assumes "proper_label l" "proper_domain zone"
  shows "parse_workspace_host (l @ ''.'' @ zone) zone = Some l"
proof -
  have "py_lower (hd (split_on (CHR '':'') (py_strip (l @ ''.'' @ zone)))) = l @ ''.'' @ zone"
    using clean_host_proper(1) [OF assms] by (simp add: clean_host_def)
  moreover have "ends_with (''.'' @ zone) (l @ ''.'' @ zone)" by (rule ends_with_append)
  ultimately show ?thesis
    using assms by (simp add: parse_workspace_host_def proper_domain_tidy proper_label_tidy Let_def)
      (simp add: proper_label_def proper_domain_def)
qed

lemma takeWhile_upto: "c \<notin> set x \<Longrightarrow> takeWhile (\<lambda>a. a \<noteq> c) (x @ c # y) = x"
  by (induction x) auto

lemma starts_ws: "starts_with ''ws-'' s \<longleftrightarrow> (\<exists>m. s = ''ws-'' @ m)"
  by (auto simp: starts_with_def) (metis append_Cons append_Nil append_take_drop_id)

lemma no_legacy_prefix:
  assumes "proper_label l" "\<not> is_legacy_workspace_hostname l"
  shows "ws_host_digits (l @ ''.'' @ rest) = None"
proof (cases "starts_with ''ws-'' l")
  case True
  then obtain m where m: "l = ''ws-'' @ m" by (auto simp: starts_ws)
  with assms show ?thesis
    by (cases m) (auto simp: is_legacy_workspace_hostname_def proper_label_tidy ws_host_digits_def starts_with_def is_digit_def)
next
  case False
  have "CHR ''.'' \<notin> set l" by (rule proper_label_tidy(4) [OF assms(1)])
  with False have "\<not> starts_with ''ws-'' (l @ ''.'' @ rest)"
    by (auto simp: starts_ws append_eq_Cons_conv)
  then show ?thesis by (simp add: ws_host_digits_def)
qed

lemma tenant_host_not_captured:
  assumes "proper_label l" "proper_domain zone" "\<not> is_legacy_workspace_hostname l" "\<not> py_isdigit l"
  shows "workspace_id_from_host (l @ ''.'' @ zone) b = None"
proof -
  let ?h = "l @ ''.'' @ zone"
  have "\<not> py_isdigit x" if e: "x @ ''.'' @ y = ?h" for x y
  proof
    assume d: "py_isdigit x"
    then have "CHR ''.'' \<notin> set x" by (auto simp: py_isdigit_def list_all_iff is_digit_def)
    moreover have "CHR ''.'' \<notin> set l" by (rule proper_label_tidy(4) [OF assms(1)])
    ultimately have "x = l" using arg_cong [OF e, of "takeWhile (\<lambda>c. c \<noteq> CHR ''.'')"] by (simp add: takeWhile_upto)
    with d assms(4) show False by simp
  qed
  then have "\<not> py_isdigit (take (length ?h - length (''.'' @ y)) ?h)" if "ends_with (''.'' @ y) ?h" for y
    using that append_take_drop_id [of "length ?h - length (''.'' @ y)" ?h] unfolding ends_with_def by simp
  then show ?thesis
    using no_legacy_prefix [OF assms(1,3)] clean_host_proper(1) [OF assms(1,2)]
    by (simp add: workspace_id_from_host_def Let_def)
qed

lemma numeric_host_names_workspace:
  assumes "row_id n" "proper_domain zone"
  shows "workspace_id_from_host (str_int n @ ''.'' @ zone) zone = Some n"
proof -
  have l: "proper_label (str_int n)" and d: "list_all is_digit (str_int n)"
    using row_id_text [OF assms(1)] by (auto simp: proper_label_def list_all_iff digit_plain)
  then have "\<not> is_legacy_workspace_hostname (str_int n)"
    using proper_label_tidy [OF l] by (auto simp: is_legacy_workspace_hostname_def starts_ws is_digit_def Let_def)
  then have "ws_host_digits (str_int n @ ''.'' @ zone) = None" by (rule no_legacy_prefix [OF l])
  moreover have "py_isdigit (str_int n)" using d l by (auto simp: py_isdigit_def proper_label_def list_all_iff)
  moreover have "ends_with (''.'' @ zone) (str_int n @ ''.'' @ zone)" by (rule ends_with_append)
  ultimately show ?thesis
    using clean_host_proper(1) [OF l assms(2)] row_id_text(3) [OF assms(1)] assms(2)
    by (simp add: workspace_id_from_host_def proper_domain_tidy Let_def) (simp add: proper_domain_def)
qed

section \<open>Resolving an assigned address\<close>

definition path_tail :: "string \<Rightarrow> bool" where
  "path_tail t = (t = [] \<or> hd t \<in> {CHR ''/'', CHR ''?''})"

lemma path_names_slug:
  assumes "proper_label slug" "path_tail t"
  shows "extract_workspace_slug_from_path f (''/workspaces/'' @ slug @ t) = Some slug"
proof -
  let ?p = "''/workspaces/'' @ slug"
  have plain: "c \<noteq> CHR ''/'' \<and> c \<noteq> CHR ''?'' \<and> \<not> py_space c" if "c \<in> set slug" for c
    using assms(1) that slug_plain [of c] by (simp add: proper_label_def list_all_iff)
  have slug: "slug \<noteq> []" "py_strip slug = slug" "py_lower slug = slug"
    using assms(1) proper_label_tidy [OF assms(1)] by (simp_all add: proper_label_def)
  obtain t' where t': "py_strip (?p @ t) = ?p @ t'" "path_tail t'"
  proof (cases t)
    case Nil
    have "py_strip ?p = ?p" using plain slug(1) by (intro py_strip_tidy) (simp_all add: py_space_def [of "CHR ''/''"])
    with Nil that [of "[]"] show ?thesis by (simp add: path_tail_def)
  next
    case (Cons c x)
    with assms(2) have c: "c = CHR ''/'' \<or> c = CHR ''?''" by (auto simp: path_tail_def)
    then have "\<not> py_space c" by (auto simp: py_space_def)
    then have "py_strip (?p @ c # x) = ?p @ c # rev (dropWhile py_space (rev x))"
      by (intro py_strip_tail) (simp_all add: py_space_def [of "CHR ''/''"])
    with Cons c that show ?thesis by (auto simp: path_tail_def)
  qed
  have q: "takeWhile (\<lambda>x. x \<noteq> CHR ''?'') (?p @ t') = ?p @ takeWhile (\<lambda>x. x \<noteq> CHR ''?'') t'"
    using plain by (intro takeWhile_append2) auto
  have "takeWhile (\<lambda>x. x \<noteq> CHR ''/'') (slug @ takeWhile (\<lambda>x. x \<noteq> CHR ''?'') t')
      = slug @ takeWhile (\<lambda>x. x \<noteq> CHR ''/'') (takeWhile (\<lambda>x. x \<noteq> CHR ''?'') t')"
    using plain by (intro takeWhile_append2) auto
  also have "\<dots> = slug" using t'(2) by (cases t') (auto simp: path_tail_def)
  finally have seg: "takeWhile (\<lambda>x. x \<noteq> CHR ''/'') (slug @ takeWhile (\<lambda>x. x \<noteq> CHR ''?'') t') = slug" .
  show ?thesis
    unfolding extract_workspace_slug_from_path_def Let_def append_assoc [symmetric] t'(1) hd_split_on q
    by (simp add: seg slug starts_with_def none_if_empty_def)
qed

lemma first_row_unique:
  assumes "r \<in> set rows" "P r" "\<And>q. q \<in> set rows \<Longrightarrow> P q \<Longrightarrow> f q = f r"
  shows "map_option f (first_row (filter P rows)) = Some (f r)"
proof -
  have "r \<in> set (filter P rows)" using assms by simp
  then obtain q qs where q: "filter P rows = q # qs" by (cases "filter P rows") auto
  then have "q \<in> set (filter P rows)" by (simp del: set_filter)
  with assms(3) have "f q = f r" by simp
  with q show ?thesis by simp
qed

text \<open>What the schema and the allocators give: the slug of a user is unique, the slugs of the live workspaces
  of a user are, and both are made of slug characters.\<close>

definition tenant_names_ok :: "db \<Rightarrow> user \<Rightarrow> workspace \<Rightarrow> string \<Rightarrow> bool" where
  "tenant_names_ok d u w sub =
     (user_route_slug u = Some sub \<and> proper_label sub \<and> proper_label (ws_url_slug w)
      \<and> list_all (\<lambda>v. user_route_slug v = Some sub \<longrightarrow> v = u) (users d)
      \<and> list_all (\<lambda>v. ws_owner_user_id v = user_id u \<and> py_lower (ws_url_slug v) = ws_url_slug w \<and> ws_status v \<noteq> WS_DELETED
          \<longrightarrow> ws_id v = ws_id w) (workspaces d))"

lemma tenant_address_resolves:
  assumes names: "tenant_names_ok d u w sub" and "u \<in> set (users d)" "w \<in> set (workspaces d)"
    and own: "ws_owner_user_id w = user_id u" "ws_status w \<noteq> WS_DELETED"
    and free: "\<not> is_legacy_workspace_hostname sub" "\<not> py_isdigit sub"
    and zone: "proper_domain (effective_public_base_domain s)" and mode: "tenant_workspace_urls_enabled s"
    and "path_tail t"
  shows "resolve_workspace_id_from_gateway_request f s d (sub @ ''.'' @ effective_public_base_domain s)
           (''/workspaces/'' @ ws_url_slug w @ t) = Some (ws_id w)"
proof -
  let ?zone = "effective_public_base_domain s" and ?slug = "ws_url_slug w"
  let ?mine = "\<lambda>v. ws_owner_user_id v = user_id u \<and> py_lower (ws_url_slug v) = ?slug \<and> ws_status v \<noteq> WS_DELETED"
  have l: "proper_label sub" "proper_label ?slug" and sub: "user_route_slug u = Some sub"
    using names by (simp_all add: tenant_names_ok_def)
  have "map_option id (first_row (filter (\<lambda>v. user_route_slug v = Some sub) (users d))) = Some (id u)"
  proof (rule first_row_unique)
    show "id v = id u" if "v \<in> set (users d)" "user_route_slug v = Some sub" for v
      using names that unfolding tenant_names_ok_def list_all_iff by simp
  qed (rule assms(2) sub)+
  then have user: "first_row (filter (\<lambda>v. user_route_slug v = Some sub) (users d)) = Some u" by simp
  have ws: "map_option ws_id (first_row (filter ?mine (workspaces d))) = Some (ws_id w)"
  proof (rule first_row_unique)
    show "?mine w" using own proper_label_tidy(2) [OF l(2)] by simp
    show "ws_id v = ws_id w" if "v \<in> set (workspaces d)" "?mine v" for v
      using names that unfolding tenant_names_ok_def list_all_iff by blast
  qed (rule assms(3))
  show ?thesis
    using tenant_host_not_captured [OF l(1) zone free] tenant_host_parses [OF l(1) zone]
      path_names_slug [OF l(2) assms(10)] user ws mode proper_label_tidy(2) [OF l(2)]
    by (simp add: resolve_workspace_id_from_gateway_request_def)
qed

lemma tenant_names_put:
  "tenant_names_ok d u w sub \<Longrightarrow> ws_id w' = ws_id w \<Longrightarrow> ws_url_slug w' = ws_url_slug w \<Longrightarrow> tenant_names_ok (put_ws w' d) u w' sub"
  unfolding tenant_names_ok_def list_all_iff put_ws_def by (auto dest: in_row_put)

text \<open>A tenant-mode control plane with one user under a chosen name, for the witnesses.\<close>

definition ex_tenant_env :: env where
  "ex_tenant_env = ex_env\<lparr>cfg := ex_settings\<lparr>s_workspace_domain_mode := ''tenant''\<rparr>\<rparr>"

definition ex_tenants :: "string \<Rightarrow> db" where
  "ex_tenants name = ex_db\<lparr>users := [ex_user\<lparr>user_route_slug := Some name\<rparr>]\<rparr>"

lemma ex_tenants_rows [simp]:
  "workspaces (ex_tenants name) = [ex_ws]" "users (ex_tenants name) = [ex_user\<lparr>user_route_slug := Some name\<rparr>]"
  "get_user (ex_tenants name) 7 = Some (ex_user\<lparr>user_route_slug := Some name\<rparr>)" "get_ws (ex_tenants name) 1 = Some ex_ws"
  by (simp_all add: ex_tenants_def ex_defs get_user_def get_ws_def)

lemma ex_tenant_settings [simp]:
  "s_gateway_enabled (cfg ex_tenant_env)" "tenant_workspace_urls_enabled (cfg ex_tenant_env)"
  "effective_public_base_domain (cfg ex_tenant_env) = ''app.devnest.local''"
  "s_public_base_domain (cfg ex_tenant_env) = []" "s_base_domain (cfg ex_tenant_env) = ''app.devnest.local''"
  by (simp_all add: ex_tenant_env_def ex_defs tenant_workspace_urls_enabled_def effective_public_base_domain_def
      py_strip_def py_space_def strip_chars_def py_lower_def lower_char_def)

lemma ex_names [simp]:
  "proper_domain ''app.devnest.local''" "proper_label ''alpha''" "proper_label ''dev''" "row_id 1"
  by (simp_all add: proper_domain_def proper_label_def slug_char_def row_id_def)

text \<open>C17: Whatever address the control plane assigns to a workspace, a request for it (with any further path or
  query) resolves back to that workspace: its own host ws-<id> whatever the domain, and in tenant mode the host
  of its owner with the path of its slug, given unique names and a name of the owner that is neither all digits
  nor of the form ws-<digit>.\<close>

theorem assigned_address_resolves:
  assumes "assign_workspace_gateway_public_identity E w owner d = (w', d')"
    and gateway: "s_gateway_enabled (cfg E)" and user: "get_user d owner = Some u"
    and row: "get_ws d (ws_id w) \<noteq> None" "row_id (ws_id w)" "ws_owner_user_id w = user_id u" "ws_status w \<noteq> WS_DELETED"
    and key: "list_all slug_char (py_lower (py_strip (str_or_empty (ws_project_storage_key w))))"
    and tenant: "\<And>sub. tenant_workspace_urls_enabled (cfg E) \<Longrightarrow> user_route_slug u = Some sub \<Longrightarrow>
      tenant_names_ok d u w sub \<and> \<not> is_legacy_workspace_hostname sub \<and> \<not> py_isdigit sub
      \<and> proper_domain (effective_public_base_domain (cfg E))"
    and t: "path_tail t"
  shows "resolve_workspace_id_from_gateway_request f (cfg E) d' (str_or_empty (ws_public_host w'))
           (str_or_empty (ws_gateway_path_prefix w') @ t) = Some (ws_id w)"
proof (cases "tenant_workspace_urls_enabled (cfg E) \<and> user_route_slug u \<noteq> None")
  case True
  then obtain sub where sub: "user_route_slug u = Some sub" and mode: "tenant_workspace_urls_enabled (cfg E)" by auto
  note ok = tenant [OF mode sub]
  then have l: "proper_label sub" "proper_label (ws_url_slug w)" by (simp_all add: tenant_names_ok_def)
  have w': "ws_public_host w' = Some (sub @ ''.'' @ effective_public_base_domain (cfg E))"
      "ws_gateway_path_prefix w' = Some (''/workspaces/'' @ ws_url_slug w')" "d' = put_ws w' d"
      "ws_id w' = ws_id w" "ws_url_slug w' = ws_url_slug w" "ws_owner_user_id w' = user_id u" "ws_status w' \<noteq> WS_DELETED"
    using assms(1) gateway user sub mode row proper_label_tidy [OF l(1)] proper_label_tidy [OF l(2)] l
    by (auto simp: assign_workspace_gateway_public_identity_def Let_def proper_label_def)
  have "u \<in> set (users d')" using user by (auto simp: w'(3) get_user_def dest: row_find_Some_in)
  moreover have "w' \<in> set (workspaces d')" using row(1) by (simp add: w'(3,4) put_ws_def get_ws_def row_put_in)
  moreover have "tenant_names_ok d' u w' sub" unfolding w'(3) using ok w'(4,5) by (intro tenant_names_put) auto
  ultimately have "resolve_workspace_id_from_gateway_request f (cfg E) d' (sub @ ''.'' @ effective_public_base_domain (cfg E))
      (''/workspaces/'' @ ws_url_slug w' @ t) = Some (ws_id w')"
    using ok mode t w'(6,7) by (intro tenant_address_resolves) auto
  then show ?thesis by (simp add: w'(1,2,4))
next
  case False
  then have w': "str_or_empty (ws_public_host w') = gateway_unique_public_host (ws_id w) (s_base_domain (cfg E)) (ws_project_storage_key w)"
    using assms(1) gateway user by (auto simp: assign_workspace_gateway_public_identity_def Let_def py_strip_def py_lower_def)
  show ?thesis using unique_host_names_workspace [OF row(2) key] by (simp add: resolve_workspace_id_from_gateway_request_def w')
qed

theorem assigned_address_resolves_witness:
  "\<exists>w' d'. assign_workspace_gateway_public_identity ex_tenant_env ex_ws 7 (ex_tenants ''dev'') = (w', d')
     \<and> ws_public_host w' = Some ''dev.app.devnest.local''
     \<and> resolve_workspace_id_from_gateway_request id (cfg ex_tenant_env) d' (str_or_empty (ws_public_host w'))
         (str_or_empty (ws_gateway_path_prefix w') @ ''/files?q=1'') = Some 1"
proof -
  obtain w' d' where a: "assign_workspace_gateway_public_identity ex_tenant_env ex_ws 7 (ex_tenants ''dev'') = (w', d')"
    by (metis surj_pair)
  have ws: "ws_id ex_ws = 1" "ws_owner_user_id ex_ws = 7" "ws_status ex_ws = WS_RUNNING" "ws_url_slug ex_ws = ''alpha''"
      "ws_project_storage_key ex_ws = Some ''k1''" "user_id ex_user = 7"
    by (simp_all add: ex_defs)
  have "ws_public_host w' = Some ''dev.app.devnest.local''"
    using a proper_label_tidy [of "''alpha''"] proper_label_tidy [of "''dev''"]
    by (auto simp: assign_workspace_gateway_public_identity_def Let_def ws)
  moreover have "resolve_workspace_id_from_gateway_request id (cfg ex_tenant_env) d' (str_or_empty (ws_public_host w'))
         (str_or_empty (ws_gateway_path_prefix w') @ ''/files?q=1'') = Some (ws_id ex_ws)"
    by (rule assigned_address_resolves [OF a])
      (auto simp: ws tenant_names_ok_def path_tail_def slug_char_def py_strip_def py_space_def py_lower_def lower_char_def
        is_legacy_workspace_hostname_def starts_with_def py_isdigit_def is_digit_def)
  ultimately show ?thesis using a by (auto simp: ws)
qed

section \<open>Sessions at the edge\<close>

text \<open>C15: The token an attach hands out opens the running workspace at the edge, by header or cookie, exactly
  until its life time (the configured one, at least a minute) is over, when the hash of the token is new.\<close>

theorem attached_session_opens_until_expiry:
  assumes "create_workspace_session hash_token rnd E wid uid meta d = ((token, sid), d')"
    and "get_ws d wid = Some w" "ws_status w = WS_RUNNING"
    and fresh: "list_all (\<lambda>s. sess_token_hash s \<noteq> hash_token token) (sessions d)"
    and "resolve_workspace_id_from_gateway_request f (cfg E') d' (request_host r) (request_uri r) = Some wid"
    and "request_token r = token"
  shows "fst (gateway_forward_auth hash_token f True E' d' r) =
           (if now E' < now E + seconds (max 60 (s_session_ttl_seconds (cfg E))) then 200 else 401)"
proof -
  let ?ttl = "seconds (max 60 (s_session_ttl_seconds (cfg E)))"
  have tok: "token = generate_workspace_session_token rnd" and sess: "\<exists>s. sessions d' = sessions d @ [s] \<and> sess_workspace_id s = wid
      \<and> sess_status s = SS_ACTIVE \<and> sess_token_hash s = hash_token token \<and> sess_expires_at s = now E + ?ttl"
    using assms(1) by (auto simp: create_workspace_session_def Let_def split_beta add_sess_def bump_def
        reconcile_workspace_active_session_count_def)
  have "get_ws (snd (add_sess x d)) k = get_ws d k" for x k by (simp add: get_ws_def)
  then have ws: "\<exists>w'. get_ws d' wid = Some w' \<and> ws_status w' = WS_RUNNING"
    using assms(1,2,3) by (auto simp: create_workspace_session_def Let_def split_beta
        reconcile_workspace_active_session_count_def get_ws_reconcile)
  have "filter (\<lambda>s. sess_token_hash s = hash_token token) (sessions d) = []"
    using fresh by (simp add: filter_empty_conv list_all_iff)
  with sess obtain s where s: "session_by_token hash_token d' token = Some s" "sess_workspace_id s = wid"
      "sess_status s = SS_ACTIVE" "sess_expires_at s = now E + ?ttl"
    by (auto simp: session_by_token_def)
  have "token \<noteq> []" by (simp add: tok generate_workspace_session_token_def WORKSPACE_SESSION_TOKEN_PREFIX_def)
  then show ?thesis
    using assms(5,6) s ws by (auto simp: gateway_forward_auth_def)
qed

definition ex_gateway_request :: "string \<Rightarrow> gateway_request" where
  "ex_gateway_request host = \<lparr>gr_forwarded_host = Some host, gr_host_header = [], gr_forwarded_uri = Some ''/workspaces/alpha'',
     gr_url_path = ''/internal/gateway/auth'', gr_session_header = None, gr_session_cookie = Some ''dnws_abc''\<rparr>"

lemma ex_gateway_token [simp]: "request_token (ex_gateway_request host) = ''dnws_abc''"
  by (simp add: request_token_def ex_gateway_request_def py_strip_def py_space_def)

lemma ex_gateway_host [simp]:
  "proper_label l \<Longrightarrow> request_host (ex_gateway_request (l @ ''.app.devnest.local'')) = l @ ''.app.devnest.local''"
  using clean_host_proper(2) [of l "''app.devnest.local''"] by (simp add: request_host_def ex_gateway_request_def)

lemma ex_gateway_resolves [simp]:
  "resolve_workspace_id_from_gateway_request f s d (request_host (ex_gateway_request ''ws-1.app.devnest.local'')) uri = Some 1"
proof -
  have "str_int 1 = ''1''" by (simp add: str_int_def str_nat.simps digit_char_def char_of_def bit_0)
  then have "workspace_id_from_host ''ws-1.app.devnest.local'' b = Some 1" for b
    using legacy_host_names_workspace [of 1 "[]" "[]" "''app.devnest.local''" b] by simp
  moreover have "request_host (ex_gateway_request ''ws-1.app.devnest.local'') = ''ws-1.app.devnest.local''"
    using ex_gateway_host [of "''ws-1''"] by (simp add: proper_label_def slug_char_def)
  ultimately show ?thesis by (simp add: resolve_workspace_id_from_gateway_request_def)
qed

theorem attached_session_opens_until_expiry_witness:
  "\<exists>token sid d'. create_workspace_session (\<lambda>t. ''h'' @ t) ''abc'' ex_env 1 7 [] ex_db = ((token, sid), d')
     \<and> fst (gateway_forward_auth (\<lambda>t. ''h'' @ t) id True (ex_env\<lparr>now := 1000000001\<rparr>) d' (ex_gateway_request ''ws-1.app.devnest.local'')) = 200
     \<and> fst (gateway_forward_auth (\<lambda>t. ''h'' @ t) id True (ex_env\<lparr>now := 4600000000\<rparr>) d' (ex_gateway_request ''ws-1.app.devnest.local'')) = 401"
proof -
  obtain token sid d' where c: "create_workspace_session (\<lambda>t. ''h'' @ t) ''abc'' ex_env 1 7 [] ex_db = ((token, sid), d')"
    by (metis surj_pair)
  then have tok: "token = ''dnws_abc''"
    by (auto simp: create_workspace_session_def Let_def split_beta generate_workspace_session_token_def WORKSPACE_SESSION_TOKEN_PREFIX_def)
  have row: "get_ws ex_db 1 = Some ex_ws" "ws_status ex_ws = WS_RUNNING" "sessions ex_db = []"
    by (simp_all add: ex_defs get_ws_def)
  have "fst (gateway_forward_auth (\<lambda>t. ''h'' @ t) id True (ex_env\<lparr>now := t\<rparr>) d' (ex_gateway_request ''ws-1.app.devnest.local'')) =
      (if t < 4600000000 then 200 else 401)" for t
    using attached_session_opens_until_expiry [OF c row(1,2), of id "ex_env\<lparr>now := t\<rparr>" "ex_gateway_request ''ws-1.app.devnest.local''"]
    by (simp add: row tok ex_env_def ex_settings_def seconds_def)
  with c show ?thesis by simp
qed

text \<open>Resolution looks at four columns of a workspace only.\<close>

definition address_columns :: "workspace \<Rightarrow> int \<times> int \<times> string \<times> ws_status" where
  "address_columns w = (ws_id w, ws_owner_user_id w, ws_url_slug w, ws_status w)"

lemma first_row_columns:
  "map_option ws_id (first_row (filter (\<lambda>w. ws_owner_user_id w = o' \<and> py_lower (ws_url_slug w) = g \<and> ws_status w \<noteq> WS_DELETED) rows)) =
     map_option fst (first_row (filter (\<lambda>(_, ow, sl, st). ow = o' \<and> py_lower sl = g \<and> st \<noteq> WS_DELETED) (map address_columns rows)))"
  by (induction rows) (auto simp: address_columns_def)

lemma resolve_columns:
  assumes "users d' = users d" "map address_columns (workspaces d') = map address_columns (workspaces d)"
  shows "resolve_workspace_id_from_gateway_request f s d' host uri = resolve_workspace_id_from_gateway_request f s d host uri"
  unfolding resolve_workspace_id_from_gateway_request_def first_row_columns assms ..

lemma map_row_put:
  assumes "distinct (map key rows)" "row_find key (key r') rows = Some r" "f r' = f r"
  shows "map f (row_put key r' rows) = map f rows"
proof -
  have "f (if key q = key r' then r' else q) = f q" if "q \<in> set rows" for q
    using assms that row_find_distinct [of key rows q] by auto
  then show ?thesis by (simp add: row_put_def)
qed

lemma revoke_all_columns:
  assumes "distinct (map ws_id (workspaces d))"
  shows "map address_columns (workspaces (snd (revoke_all_workspace_sessions E wid d))) = map address_columns (workspaces d)"
proof (cases "get_ws d wid")
  case (Some w)
  then have "row_find ws_id (ws_id w) (workspaces d) = Some w" using get_ws_key [OF Some] by (simp add: get_ws_def)
  then have "map address_columns (row_put ws_id (w\<lparr>ws_active_sessions_count := c, ws_updated_at := t\<rparr>) (workspaces d)) =
      map address_columns (workspaces d)" for c t
    using assms by (intro map_row_put) (simp_all add: address_columns_def)
  with Some show ?thesis by (simp add: revoke_all_workspace_sessions_def reconcile_count_on_def Let_def put_ws_def)
qed (simp add: revoke_all_workspace_sessions_def reconcile_count_on_def Let_def)

definition revoke_row :: "int \<Rightarrow> time \<Rightarrow> ws_session \<Rightarrow> ws_session" where
  "revoke_row wid ts s = (if sess_workspace_id s = wid \<and> sess_status s = SS_ACTIVE
                          then s\<lparr>sess_status := SS_REVOKED, sess_updated_at := ts\<rparr> else s)"

lemma first_row_of_map: "(\<And>s. P (g s) = P s) \<Longrightarrow> first_row (filter P (map g rows)) = map_option g (first_row (filter P rows))"
  by (induction rows) (auto simp: first_row_def)

lemma revoke_rows_map: "revoke_rows wid ts rows = map (revoke_row wid ts) rows"
  by (simp add: revoke_rows_def revoke_row_def)

lemma revoked_by_token:
  "session_by_token h (snd (revoke_all_workspace_sessions E wid d)) token = map_option (revoke_row wid (now E)) (session_by_token h d token)"
  unfolding session_by_token_def revoke_all_sessions revoke_rows_map by (rule first_row_of_map) (simp add: revoke_row_def)

lemma effective_revoked: "effective_session k t (revoke_row wid ts s) \<longleftrightarrow> effective_session k t s \<and> k \<noteq> wid"
  by (auto simp: effective_session_def revoke_row_def)

text \<open>C16: Revoking the sessions of a workspace locks its address at the edge, for every token and whenever it is presented, and
  changes the answer for no request to another workspace.\<close>

theorem revoked_sessions_locked_out:
  assumes "distinct (map ws_id (workspaces d))"
  shows "fst (gateway_forward_auth hash_token f True E' (snd (revoke_all_workspace_sessions E wid d)) r) = 200 \<longleftrightarrow>
           fst (gateway_forward_auth hash_token f True E' d r) = 200
           \<and> resolve_workspace_id_from_gateway_request f (cfg E') d (request_host r) (request_uri r) \<noteq> Some wid"
proof -
  have res: "resolve_workspace_id_from_gateway_request f s (snd (revoke_all_workspace_sessions E wid d)) host uri =
      resolve_workspace_id_from_gateway_request f s d host uri" for s host uri
    using revoke_all_columns [OF assms] by (intro resolve_columns) simp_all
  have "(\<exists>w. get_ws (snd (revoke_all_workspace_sessions E wid d)) k = Some w \<and> ws_status w = WS_RUNNING) \<longleftrightarrow>
      (\<exists>w. get_ws d k = Some w \<and> ws_status w = WS_RUNNING)" for k
    by (auto simp: get_ws_revoke_all)
  then show ?thesis
    unfolding gateway_admits_iff res revoked_by_token by (auto simp: effective_revoked)
qed

theorem revoked_sessions_locked_out_witness:
  "fst (gateway_forward_auth (\<lambda>t. ''h'' @ t) id True ex_env
     (snd (revoke_all_workspace_sessions ex_env 1 (snd (create_workspace_session (\<lambda>t. ''h'' @ t) ''abc'' ex_env 1 7 [] ex_db))))
     (ex_gateway_request ''ws-1.app.devnest.local'')) \<noteq> 200"
proof -
  have "distinct (map ws_id (workspaces (snd (create_workspace_session (\<lambda>t. ''h'' @ t) ''abc'' ex_env 1 7 [] ex_db))))"
    by (simp add: create_workspace_session_def Let_def split_beta reconcile_workspace_active_session_count_def) (simp add: ex_defs)
  from revoked_sessions_locked_out [OF this] show ?thesis by simp
qed

section \<open>A tenant whose name is a number\<close>

text \<open>C40: In tenant mode under one domain, a user whose name is the number n loses the workspaces to workspace
  n: the edge checks every request for their address against workspace n, so that it turns away the sessions
  of the user's own workspace and admits the sessions of workspace n.\<close>

theorem numeric_tenant_captured:
  assumes "assign_workspace_gateway_public_identity E w owner d = (w', d')"
    and "s_gateway_enabled (cfg E)" "tenant_workspace_urls_enabled (cfg E)" "get_user d owner = Some u"
    and "user_route_slug u = Some (str_int n)" "row_id n" "proper_label (ws_url_slug w)"
    and "s_public_base_domain (cfg E) = []" "proper_domain (s_base_domain (cfg E))"
    and "request_host r = str_or_empty (ws_public_host w')" "request_token r \<noteq> []"
    and "session_by_token hash_token d' (request_token r) = Some s"
    and "get_ws d' n = Some v" "ws_status v = WS_RUNNING" "ws_id w \<noteq> n"
  shows "fst (gateway_forward_auth hash_token f True E d' r) = (if effective_session n (now E) s then 200 else 401)
         \<and> (sess_workspace_id s = ws_id w' \<longrightarrow> fst (gateway_forward_auth hash_token f True E d' r) = 401)"
proof -
  have l: "proper_label (str_int n)" using row_id_text [OF assms(6)] by (auto simp: proper_label_def list_all_iff digit_plain)
  have zone: "effective_public_base_domain (cfg E) = s_base_domain (cfg E)"
    using assms(8) proper_domain_tidy [OF assms(9)] by (simp add: effective_public_base_domain_def py_strip_def strip_chars_def)
  have "request_host r = str_int n @ ''.'' @ s_base_domain (cfg E)" and id: "ws_id w' = ws_id w"
    using assms(1-5,7,10) proper_label_tidy [OF l] proper_label_tidy [OF assms(7)] l
    by (auto simp: assign_workspace_gateway_public_identity_def Let_def proper_label_def zone)
  then have "resolve_workspace_id_from_gateway_request f (cfg E) d' (request_host r) (request_uri r) = Some n"
    using numeric_host_names_workspace [OF assms(6,9)] proper_domain_tidy [OF assms(9)]
    by (simp add: resolve_workspace_id_from_gateway_request_def)
  then have "fst (gateway_forward_auth hash_token f True E d' r) = (if effective_session n (now E) s then 200 else 401)"
    using assms(11-14) by (auto simp: gateway_forward_auth_def effective_session_def)
  with id assms(15) show ?thesis by (auto simp: effective_session_def)
qed

definition ex_captured :: db where
  "ex_captured = (ex_tenants ''42'')\<lparr>workspaces := [ex_ws, ex_ws\<lparr>ws_id := 42, ws_owner_user_id := 8\<rparr>],
     sessions := [\<lparr>sess_id = 1, sess_workspace_id = 42, sess_user_id = 8, sess_status = SS_ACTIVE, sess_token_hash = ''hdnws_abc'',
       sess_issued_at = 0, sess_expires_at = 2000000000, sess_last_seen_at = 0, sess_client_metadata = [], sess_updated_at = 0\<rparr>]\<rparr>"

theorem numeric_tenant_captured_witness:
  "allocate_unique_route_subdomain_slug ex_db ''42'' = Some ''42''
     \<and> (\<exists>w' d'. assign_workspace_gateway_public_identity ex_tenant_env ex_ws 7 ex_captured = (w', d')
          \<and> ws_id w' = 1 \<and> ws_public_host w' = Some ''42.app.devnest.local''
          \<and> fst (gateway_forward_auth (\<lambda>t. ''h'' @ t) id True ex_tenant_env d' (ex_gateway_request ''42.app.devnest.local'')) = 200)"
proof (intro conjI)
  show "allocate_unique_route_subdomain_slug ex_db ''42'' = Some ''42''"
    by (simp add: allocate_unique_route_subdomain_slug_def slugify_workspace_name_def py_strip_def py_space_def py_lower_def
        lower_char_def slug_char_def strip_chars_def route_slug_taken_def ex_db_def ex_db_in_def ex_user_def)
  obtain w' d' where a: "assign_workspace_gateway_public_identity ex_tenant_env ex_ws 7 ex_captured = (w', d')"
    by (metis surj_pair)
  have num: "str_int 42 = ''42''" by (simp add: str_int_def str_nat.simps digit_char_def char_of_def bit_0)
  have l: "proper_label ''42''" by (simp add: proper_label_def slug_char_def)
  have u: "get_user ex_captured 7 = Some (ex_user\<lparr>user_route_slug := Some ''42''\<rparr>)"
    by (simp add: ex_captured_def get_user_def ex_user_def)
  have "w' = ex_ws\<lparr>ws_public_host := Some ''42.app.devnest.local'', ws_gateway_path_prefix := Some ''/workspaces/alpha''\<rparr>"
    and d': "d' = put_ws w' ex_captured"
    using a proper_label_tidy [OF l] proper_label_tidy [of "''alpha''"]
    by (auto simp: assign_workspace_gateway_public_identity_def Let_def u ex_ws_def)
  then have w': "ws_id w' = 1" "ws_public_host w' = Some ''42.app.devnest.local''"
    and v: "get_ws d' 42 = Some (ex_ws\<lparr>ws_id := 42, ws_owner_user_id := 8\<rparr>)"
    by (simp_all add: ex_ws_def ex_captured_def put_ws_def get_ws_def row_put_def)
  have s: "session_by_token (\<lambda>t. ''h'' @ t) d' ''dnws_abc'' = Some (hd (sessions ex_captured))"
    by (simp add: d' session_by_token_def put_ws_def ex_captured_def)
  have e: "effective_session 42 (now ex_tenant_env) (hd (sessions ex_captured))"
    by (simp add: effective_session_def ex_captured_def ex_tenant_env_def ex_env_def)
  have h: "request_host (ex_gateway_request ''42.app.devnest.local'') = ''42.app.devnest.local''"
    using ex_gateway_host [OF l] by simp
  have "row_id 42" "proper_label (ws_url_slug ex_ws)" "ws_status (ex_ws\<lparr>ws_id := 42, ws_owner_user_id := 8\<rparr>) = WS_RUNNING"
      "ws_id ex_ws \<noteq> 42"
    by (simp_all add: row_id_def ex_ws_def)
  then have "fst (gateway_forward_auth (\<lambda>t. ''h'' @ t) id True ex_tenant_env d' (ex_gateway_request ''42.app.devnest.local'')) = 200"
    using numeric_tenant_captured [OF a _ _ u, of 42 "ex_gateway_request ''42.app.devnest.local''" "\<lambda>t. ''h'' @ t" _ _ id] s v
    by (simp add: w' e h num)
  with a w' show "\<exists>w' d'. assign_workspace_gateway_public_identity ex_tenant_env ex_ws 7 ex_captured = (w', d')
          \<and> ws_id w' = 1 \<and> ws_public_host w' = Some ''42.app.devnest.local''
          \<and> fst (gateway_forward_auth (\<lambda>t. ''h'' @ t) id True ex_tenant_env d' (ex_gateway_request ''42.app.devnest.local'')) = 200"
    by blast
qed

end
