(* ===== verification/Rate_Limit.thy ===== *)
theory Rate_Limit
  imports Prelude
begin

text \<open>
  Request limits (\<^verbatim>\<open>libs/security/rate_limit.py\<close>): the in-memory sliding window, the limiter on Redis, the
  middleware, the per-endpoint dependencies and the registry of named limiters.

  The clock readings of a call (\<^verbatim>\<open>time.monotonic\<close>, \<^verbatim>\<open>time.time\<close>) are its arguments, in seconds. Redis is a
  parameter: a pipeline on the sorted set of a key either gives the number of entries that were inside the window
  or fails, and a range query gives the oldest score, none, or fails; \<open>'w\<close> is the state of the server.
\<close>

section \<open>The in-memory limiter\<close>

record limiter =
  lim_calls :: int
  lim_period :: rat
  lim_windows :: "string \<Rightarrow> rat list option"

definition new_limiter :: "int \<Rightarrow> int \<Rightarrow> string + limiter" where
  "new_limiter calls period =
     (if calls \<le> 0 \<or> period \<le> 0 then Inl ''calls and period must be positive integers''
      else Inr \<lparr>lim_calls = calls, lim_period = of_int period, lim_windows = (\<lambda>_. None)\<rparr>)"

definition window_of :: "limiter \<Rightarrow> string \<Rightarrow> rat list" where
  "window_of l key = (case lim_windows l key of None \<Rightarrow> [] | Some ts \<Rightarrow> ts)"

definition set_window :: "string \<Rightarrow> rat list \<Rightarrow> limiter \<Rightarrow> limiter" where
  "set_window key ts l = l\<lparr>lim_windows := (lim_windows l)(key := Some ts)\<rparr>"

definition is_allowed :: "limiter \<Rightarrow> string \<Rightarrow> rat \<Rightarrow> bool \<times> limiter" where
  "is_allowed l key t =
     (let cutoff = t - lim_period l;
          kept = dropWhile (\<lambda>u. u \<le> cutoff) (window_of l key)
      in if int (length kept) \<ge> lim_calls l then (False, set_window key kept l)
         else (True, set_window key (kept @ [t]) l))"

definition retry_after_seconds :: "limiter \<Rightarrow> string \<Rightarrow> rat \<Rightarrow> rat" where
  "retry_after_seconds l key t =
     (case window_of l key of [] \<Rightarrow> 0 | oldest # _ \<Rightarrow> max 0 (oldest + lim_period l - t))"

section \<open>The limiter on Redis\<close>

record 'w redis =
  connect :: "string \<Rightarrow> 'w \<Rightarrow> bool"
  window_pipeline :: "string \<Rightarrow> rat \<Rightarrow> rat \<Rightarrow> int \<Rightarrow> 'w \<Rightarrow> int option \<times> 'w"
  oldest_score :: "string \<Rightarrow> rat \<Rightarrow> 'w \<Rightarrow> rat option option"

record redis_limiter =
  rl_calls :: int
  rl_period :: rat
  rl_url :: string
  rl_client :: bool

definition new_redis_limiter :: "int \<Rightarrow> int \<Rightarrow> string \<Rightarrow> string + redis_limiter" where
  "new_redis_limiter calls period url =
     (if calls \<le> 0 \<or> period \<le> 0 then Inl ''calls and period must be positive integers''
      else Inr \<lparr>rl_calls = calls, rl_period = of_int period, rl_url = url, rl_client = False\<rparr>)"

definition get_client :: "'w redis \<Rightarrow> redis_limiter \<Rightarrow> 'w \<Rightarrow> redis_limiter" where
  "get_client R l w = (if rl_client l then l else l\<lparr>rl_client := connect R (rl_url l) w\<rparr>)"

definition redis_key :: "string \<Rightarrow> string" where
  "redis_key key = ''devnest:rl:'' @ key"

definition redis_is_allowed :: "'w redis \<Rightarrow> redis_limiter \<Rightarrow> string \<Rightarrow> rat \<Rightarrow> 'w \<Rightarrow> bool \<times> redis_limiter \<times> 'w" where
  "redis_is_allowed R l0 key t w =
     (let l = get_client R l0 w in
      if \<not> rl_client l then (True, l, w)
      else case window_pipeline R (redis_key key) (t - rl_period l) t (\<lfloor>rl_period l\<rfloor> + 5) w of
          (Some count_before, w') \<Rightarrow> (count_before < rl_calls l, l, w')
        | (None, w') \<Rightarrow> (True, l\<lparr>rl_client := False\<rparr>, w'))"

definition redis_retry_after_seconds :: "'w redis \<Rightarrow> redis_limiter \<Rightarrow> string \<Rightarrow> rat \<Rightarrow> 'w \<Rightarrow> rat \<times> redis_limiter" where
  "redis_retry_after_seconds R l0 key t w =
     (let l = get_client R l0 w in
      (if \<not> rl_client l then 0
       else case oldest_score R (redis_key key) (t - rl_period l) w of
           Some (Some oldest) \<Rightarrow> max 0 (oldest + rl_period l - t)
         | _ \<Rightarrow> 0, l))"

section \<open>Requests\<close>

text \<open>\<open>rq_peer\<close> is \<^verbatim>\<open>request.client\<close> with its host.\<close>

record http_request =
  rq_forwarded_for :: "string option"
  rq_peer :: "string option option"

definition client_ip :: "http_request \<Rightarrow> string" where
  "client_ip r =
     (if str_or_empty (rq_forwarded_for r) \<noteq> [] then py_strip (hd (split_on (CHR '','') (str_or_empty (rq_forwarded_for r))))
      else case rq_peer r of
          None \<Rightarrow> ''unknown''
        | Some h \<Rightarrow> if str_or_empty h = [] then ''unknown'' else str_or_empty h)"

text \<open>A call passes or is turned away with a detail and the value of \<^verbatim>\<open>Retry-After\<close>. A second clock reading
  serves the retry estimate.\<close>

datatype verdict = Pass | Too_Many string int

definition limit_request :: "string \<Rightarrow> limiter \<Rightarrow> string \<Rightarrow> rat \<Rightarrow> rat \<Rightarrow> verdict \<times> limiter" where
  "limit_request detail l key t t' =
     (case is_allowed l key t of
        (True, l') \<Rightarrow> (Pass, l')
      | (False, l') \<Rightarrow> (Too_Many detail (\<lfloor>retry_after_seconds l' key t'\<rfloor> + 1), l'))"

definition dispatch :: "bool \<Rightarrow> limiter \<Rightarrow> http_request \<Rightarrow> rat \<Rightarrow> rat \<Rightarrow> verdict \<times> limiter" where
  "dispatch enabled l r t t' =
     (if \<not> enabled then (Pass, l) else limit_request ''rate_limit_exceeded'' l (client_ip r) t t')"

definition check_rate_limit :: "bool \<Rightarrow> limiter \<Rightarrow> http_request \<Rightarrow> rat \<Rightarrow> rat \<Rightarrow> verdict \<times> limiter" where
  "check_rate_limit enabled l r t t' =
     (if \<not> enabled then (Pass, l) else limit_request ''rate_limit_exceeded'' l (client_ip r) t t')"

section \<open>Named limiters\<close>

datatype any_limiter = Memory limiter | Redis redis_limiter

record rate_settings =
  rs_enabled :: bool
  rs_backend :: string
  rs_redis_url :: string
  rs_auth_per_minute :: int
  rs_sse_per_minute :: int

type_synonym registry = "string \<Rightarrow> any_limiter option"

definition is_redis_backend :: "rate_settings \<Rightarrow> bool" where
  "is_redis_backend s =
     (py_lower (py_strip (if rs_backend s = [] then ''memory'' else rs_backend s)) = ''redis'' \<and> py_strip (rs_redis_url s) \<noteq> [])"

definition redis_url :: "rate_settings \<Rightarrow> string" where
  "redis_url s = py_strip (rs_redis_url s)"

definition get_or_create_limiter :: "rate_settings \<Rightarrow> string \<Rightarrow> int \<Rightarrow> int \<Rightarrow> registry \<Rightarrow> string + any_limiter \<times> registry" where
  "get_or_create_limiter s name calls period reg =
     (case reg name of
        Some l \<Rightarrow> Inr (l, reg)
      | None \<Rightarrow>
          if is_redis_backend s
          then map_sum id (\<lambda>l. (Redis l, reg(name \<mapsto> Redis l))) (new_redis_limiter calls period (redis_url s))
          else map_sum id (\<lambda>l. (Memory l, reg(name \<mapsto> Memory l))) (new_limiter calls period))"

definition named_guard ::
  "'w redis \<Rightarrow> string \<Rightarrow> string \<Rightarrow> any_limiter \<Rightarrow> string \<Rightarrow> rat \<Rightarrow> rat \<Rightarrow> registry \<times> 'w \<Rightarrow> verdict \<times> registry \<times> 'w" where
  "named_guard R name detail al key t t' rw =
     (case (al, rw) of
        (Memory l, (reg, w)) \<Rightarrow>
          (case limit_request detail l key t t' of (v, l') \<Rightarrow> (v, reg(name \<mapsto> Memory l'), w))
      | (Redis l, (reg, w)) \<Rightarrow>
          (case redis_is_allowed R l key t w of
             (True, l', w') \<Rightarrow> (Pass, reg(name \<mapsto> Redis l'), w')
           | (False, l', w') \<Rightarrow>
               (case redis_retry_after_seconds R l' key t' w' of
                  (retry, l'') \<Rightarrow> (Too_Many detail (\<lfloor>retry\<rfloor> + 1), reg(name \<mapsto> Redis l''), w'))))"

definition named_rate_limit ::
  "'w redis \<Rightarrow> rate_settings \<Rightarrow> string \<Rightarrow> int \<Rightarrow> string \<Rightarrow> http_request \<Rightarrow> rat \<Rightarrow> rat \<Rightarrow> registry \<times> 'w \<Rightarrow> string + verdict \<times> registry \<times> 'w" where
  "named_rate_limit R s name calls detail r t t' rw =
     (if \<not> rs_enabled s then Inr (Pass, rw)
      else map_sum id (\<lambda>(al, reg). named_guard R name detail al (client_ip r) t t' (reg, snd rw))
             (get_or_create_limiter s name calls 60 (fst rw)))"

definition auth_rate_limit ::
  "'w redis \<Rightarrow> rate_settings \<Rightarrow> http_request \<Rightarrow> rat \<Rightarrow> rat \<Rightarrow> registry \<times> 'w \<Rightarrow> string + verdict \<times> registry \<times> 'w" where
  "auth_rate_limit R s r t t' rw =
     named_rate_limit R s ''auth'' (rs_auth_per_minute s) ''auth_rate_limit_exceeded'' r t t' rw"

definition sse_rate_limit ::
  "'w redis \<Rightarrow> rate_settings \<Rightarrow> http_request \<Rightarrow> rat \<Rightarrow> rat \<Rightarrow> registry \<times> 'w \<Rightarrow> string + verdict \<times> registry \<times> 'w" where
  "sse_rate_limit R s r t t' rw =
     named_rate_limit R s ''sse'' (rs_sse_per_minute s) ''sse_rate_limit_exceeded'' r t t' rw"

definition reset_all_limiters :: "registry \<Rightarrow> registry" where
  "reset_all_limiters reg = (\<lambda>_. None)"

section \<open>The window against its specification\<close>

text \<open>A limiter at work, on calls that carry a key and the clock reading, in the order in which they take the lock.\<close>

fun run_limiter :: "limiter \<Rightarrow> (string \<times> rat) list \<Rightarrow> bool list" where
  "run_limiter l [] = []"
| "run_limiter l ((key, t) # rs) = (case is_allowed l key t of (b, l') \<Rightarrow> b # run_limiter l' rs)"

text \<open>The specification keeps every admitted call for ever: a call is admitted when fewer than \<open>calls\<close> calls of its
  key were admitted in the last \<open>period\<close> seconds.\<close>

definition admitted_since :: "(string \<times> rat) list \<Rightarrow> string \<Rightarrow> rat \<Rightarrow> rat list" where
  "admitted_since hist key c = filter (\<lambda>u. c < u) (map snd (filter (\<lambda>(k, _). k = key) hist))"

fun sliding_window_spec :: "int \<Rightarrow> rat \<Rightarrow> (string \<times> rat) list \<Rightarrow> (string \<times> rat) list \<Rightarrow> bool list" where
  "sliding_window_spec calls period hist [] = []"
| "sliding_window_spec calls period hist ((key, t) # rs) =
     (let b = int (length (admitted_since hist key (t - period))) < calls
      in b # sliding_window_spec calls period (if b then hist @ [(key, t)] else hist) rs)"

definition admitted :: "(string \<times> rat) list \<Rightarrow> bool list \<Rightarrow> (string \<times> rat) list" where
  "admitted rs bs = map fst (filter snd (zip rs bs))"

lemma admitted_since_simps [simp]:
  "admitted_since [] key c = []"
  "admitted_since (hist @ [(k, t)]) key c = admitted_since hist key c @ (if k = key \<and> c < t then [t] else [])"
  by (simp_all add: admitted_since_def)

lemma admitted_since_trim: "c \<le> c' \<Longrightarrow> filter (\<lambda>u. c' < u) (admitted_since hist key c) = admitted_since hist key c'"
  by (auto simp: admitted_since_def intro: filter_cong)

text \<open>The window of a key is sorted and agrees with the history on everything younger than the cutoff.\<close>

definition tracks :: "limiter \<Rightarrow> (string \<times> rat) list \<Rightarrow> rat \<Rightarrow> bool" where
  "tracks l hist t \<longleftrightarrow> (\<forall>key. sorted (window_of l key) \<and> (\<forall>u\<in>set (window_of l key). u \<le> t)
     \<and> filter (\<lambda>u. t - lim_period l < u) (window_of l key) = admitted_since hist key (t - lim_period l))"

lemma window_set [simp]: "window_of (set_window key ts l) k = (if k = key then ts else window_of l k)"
  by (simp add: window_of_def set_window_def)

lemma set_window_fields [simp]: "lim_calls (set_window key ts l) = lim_calls l" "lim_period (set_window key ts l) = lim_period l"
  by (simp_all add: set_window_def)

lemma evict_is_filter: "sorted ts \<Longrightarrow> dropWhile (\<lambda>u. u \<le> (c :: rat)) ts = filter (\<lambda>u. c < u) ts"
  by (induction ts) (auto intro!: filter_True [symmetric])

lemma tracks_later:
  assumes "tracks l hist t" "t \<le> t'"
  shows "tracks l hist t'"
proof -
  have "filter (\<lambda>u. t' - lim_period l < u) (window_of l key) = admitted_since hist key (t' - lim_period l)" for key
  proof -
    have "filter (\<lambda>u. t' - lim_period l < u) (window_of l key) =
        filter (\<lambda>u. t' - lim_period l < u) (filter (\<lambda>u. t - lim_period l < u) (window_of l key))"
      using assms(2) by (auto intro: filter_cong)
    also have "filter (\<lambda>u. t - lim_period l < u) (window_of l key) = admitted_since hist key (t - lim_period l)"
      using assms(1) by (simp add: tracks_def)
    finally show ?thesis using assms(2) by (simp add: admitted_since_trim)
  qed
  then show ?thesis using assms by (fastforce simp: tracks_def)
qed

lemma tracks_step:
  assumes "tracks l hist t" "0 < lim_period l" and step: "is_allowed l key t = (b, l')"
  shows "b \<longleftrightarrow> int (length (admitted_since hist key (t - lim_period l))) < lim_calls l"
    and "tracks l' (if b then hist @ [(key, t)] else hist) t"
    and "lim_calls l' = lim_calls l" "lim_period l' = lim_period l"
proof -
  have kept: "dropWhile (\<lambda>u. u \<le> t - lim_period l) (window_of l key) = admitted_since hist key (t - lim_period l)"
    using assms(1) evict_is_filter by (simp add: tracks_def)
  have tr: "sorted (window_of l k)" "\<And>u. u \<in> set (window_of l k) \<Longrightarrow> u \<le> t"
    "filter (\<lambda>u. t - lim_period l < u) (window_of l k) = admitted_since hist k (t - lim_period l)" for k
    using assms(1) by (simp_all add: tracks_def)
  have adm: "sorted (admitted_since hist k (t - lim_period l))" "\<And>u. u \<in> set (admitted_since hist k (t - lim_period l)) \<Longrightarrow> u \<le> t"
    "filter (\<lambda>u. t - lim_period l < u) (admitted_since hist k (t - lim_period l)) = admitted_since hist k (t - lim_period l)" for k
    using tr(1,2) unfolding tr(3) [symmetric] by (auto intro: sorted_wrt_filter)
  from step show "b \<longleftrightarrow> int (length (admitted_since hist key (t - lim_period l))) < lim_calls l"
    and "lim_calls l' = lim_calls l" "lim_period l' = lim_period l"
    by (auto simp: is_allowed_def kept Let_def split: if_splits)
  from step show "tracks l' (if b then hist @ [(key, t)] else hist) t"
    using tr adm assms(2) by (auto simp: is_allowed_def kept Let_def tracks_def sorted_append split: if_splits)
qed

lemma run_limiter_spec:
  assumes "tracks l hist t" "0 < lim_period l" "sorted (t # map snd rs)"
  shows "run_limiter l rs = sliding_window_spec (lim_calls l) (lim_period l) hist rs"
  using assms
proof (induction rs arbitrary: l hist t)
  case (Cons r rs)
  obtain key t' where r: "r = (key, t')" by fastforce
  obtain b l' where step: "is_allowed l key t' = (b, l')" by fastforce
  have tr: "tracks l hist t'" using tracks_later [OF Cons.prems(1)] Cons.prems(3) by (simp add: r)
  note st = tracks_step [OF tr Cons.prems(2) step]
  have "run_limiter l' rs = sliding_window_spec (lim_calls l') (lim_period l') (if b then hist @ [(key, t')] else hist) rs"
    using Cons.prems st(4) by (intro Cons.IH [OF st(2)]) (simp_all add: r)
  with st(1,3,4) step r show ?case by simp
qed simp

text \<open>The specification bounds every window.\<close>

definition calls_within :: "(string \<times> rat) list \<Rightarrow> string \<Rightarrow> rat \<Rightarrow> rat \<Rightarrow> nat" where
  "calls_within hist key c t = length (filter (\<lambda>(k, u). k = key \<and> c < u \<and> u \<le> t) hist)"

lemma calls_within_le: "calls_within hist key c t \<le> length (admitted_since hist key c')" if "c' \<le> c"
  using that by (induction hist) (auto simp: calls_within_def admitted_since_def)

lemma calls_within_append: "calls_within (h @ g) key c t = calls_within h key c t + calls_within g key c t"
  by (simp add: calls_within_def)

lemma spec_bounds_window:
  assumes "\<And>t. int (calls_within hist key (t - period) t) \<le> calls" "\<forall>x\<in>set hist. snd x \<le> t0" "sorted (t0 # map snd rs)"
  shows "int (calls_within (hist @ admitted rs (sliding_window_spec calls period hist rs)) key (t - period) t) \<le> calls"
  using assms
proof (induction rs arbitrary: hist t0)
  case Nil
  then show ?case by (simp add: admitted_def)
next
  case (Cons r rs)
  obtain k t' where r: "r = (k, t')" by fastforce
  let ?b = "int (length (admitted_since hist k (t' - period))) < calls"
  let ?h = "if ?b then hist @ [(k, t')] else hist"
  have "t0 \<le> t'" using Cons.prems(3) by (simp add: r)
  then have le: "\<forall>x\<in>set ?h. snd x \<le> t'" using Cons.prems(2) by (auto intro: order_trans)
  have one: "int (calls_within ?h key (s - period) s) \<le> calls" for s
  proof (cases "?b \<and> k = key \<and> s - period < t' \<and> t' \<le> s")
    case True
    then have "calls_within hist key (s - period) s \<le> length (admitted_since hist key (t' - period))"
      by (intro calls_within_le) simp
    with True show ?thesis by (auto simp: calls_within_append calls_within_def)
  next
    case False
    then show ?thesis using Cons.prems(1) [of s] by (auto simp: calls_within_append) (auto simp: calls_within_def)
  qed
  have "hist @ admitted (r # rs) (sliding_window_spec calls period hist (r # rs)) =
      ?h @ admitted rs (sliding_window_spec calls period ?h rs)"
    by (simp add: r admitted_def Let_def)
  then show ?case using Cons.IH [OF one le] Cons.prems(3) by (simp add: r)
qed

lemma fresh_limiter:
  assumes "new_limiter calls period = Inr l"
  shows "lim_calls l = calls" "lim_period l = of_int period" "0 < calls" "0 < period" "window_of l key = []"
  using assms by (auto simp: new_limiter_def window_of_def split: if_splits)

text \<open>C36: When the clock readings do not decrease in the order of the lock, the limiter answers exactly as the
  specification that remembers every admitted call, and so no window of period seconds ever holds more than
  calls admitted calls of one key.\<close>

theorem limiter_implements_sliding_window:
  assumes "new_limiter calls period = Inr l" "sorted (map snd rs)"
  shows "run_limiter l rs = sliding_window_spec calls (of_int period) [] rs
         \<and> int (calls_within (admitted rs (run_limiter l rs)) key (t - of_int period) t) \<le> calls"
proof -
  note l = fresh_limiter [OF assms(1)]
  obtain t0 where t0: "sorted (t0 # map snd rs)" using assms(2) by (cases rs) auto
  have run: "run_limiter l rs = sliding_window_spec calls (of_int period) [] rs"
    using run_limiter_spec [of l "[]" t0 rs] t0 l by (simp add: tracks_def)
  then show ?thesis
    using spec_bounds_window [of "[]" key "of_int period" calls t0 rs t] t0 l by (simp add: calls_within_def)
qed

theorem limiter_implements_sliding_window_witness:
  "\<exists>l. new_limiter 1 60 = Inr l \<and> run_limiter l [(''a'', 0), (''a'', 59), (''b'', 59), (''a'', 60)] = [True, False, True, True]
     \<and> calls_within (admitted [(''a'', 0), (''a'', 59), (''b'', 59), (''a'', 60)]
          (run_limiter l [(''a'', 0), (''a'', 59), (''b'', 59), (''a'', 60)])) ''a'' (59 - 60) 59 \<le> 1"
proof -
  obtain l where l: "new_limiter 1 60 = Inr l" by (simp add: new_limiter_def)
  have "sorted (map snd [(''a'', 0), (''a'', 59), (''b'', 59), (''a'', 60 :: rat)])" by simp
  from limiter_implements_sliding_window [OF l this, of "''a''" 59] l show ?thesis
    by (auto simp: admitted_since_def)
qed

section \<open>The retry estimate\<close>

definition limiter_ok :: "limiter \<Rightarrow> bool" where
  "limiter_ok l \<longleftrightarrow> 0 < lim_calls l \<and> 0 < lim_period l \<and> (\<forall>key. int (length (window_of l key)) \<le> lim_calls l)"

lemma limiter_ok_new: "new_limiter calls period = Inr l \<Longrightarrow> limiter_ok l"
  using fresh_limiter [of calls period l] by (simp add: limiter_ok_def)

lemma kept_bounded:
  assumes "limiter_ok l"
  shows "int (length (dropWhile P (window_of l key))) \<le> lim_calls l"
  using assms length_dropWhile_le [of P "window_of l key"] unfolding limiter_ok_def by (auto intro: order_trans [OF of_nat_mono])

lemma limiter_ok_step: "limiter_ok l \<Longrightarrow> limiter_ok (snd (is_allowed l key t))"
  using kept_bounded [of l "\<lambda>u. u \<le> t - lim_period l" key] by (auto simp: limiter_ok_def is_allowed_def Let_def)

text \<open>C37: A client that is turned away and waits for the seconds of the Retry-After answer is admitted, whatever
  the other clients do in the meantime.\<close>

theorem retry_after_is_honoured:
  assumes ok: "limiter_ok l" and no: "limit_request detail l key t t' = (Too_Many detail' n, l')"
    and others: "list_all (\<lambda>(k, _). k \<noteq> key) rs" "l'' = fold (\<lambda>(k, u) m. snd (is_allowed m k u)) rs l'"
    and wait: "t' + of_int n \<le> u"
  shows "fst (limit_request detail l'' key u u') = Pass"
proof -
  let ?kept = "dropWhile (\<lambda>u. u \<le> t - lim_period l) (window_of l key)"
  have full: "int (length ?kept) \<ge> lim_calls l" and l': "l' = set_window key ?kept l"
    and n: "n = \<lfloor>retry_after_seconds l' key t'\<rfloor> + 1"
    using no by (auto simp: limit_request_def is_allowed_def Let_def split: if_splits)
  have pos: "0 < lim_calls l" and len: "int (length ?kept) \<le> lim_calls l"
    using ok kept_bounded [OF ok] by (simp_all add: limiter_ok_def)
  from full pos obtain oldest rest where k: "?kept = oldest # rest" by (cases ?kept) auto
  have "oldest + lim_period l - t' \<le> retry_after_seconds l' key t'" by (simp add: retry_after_seconds_def l' k)
  also have "\<dots> < of_int n" unfolding n by linarith
  finally have gone: "oldest \<le> u - lim_period l" using wait by simp
  have same: "window_of (fold (\<lambda>(k, u) m. snd (is_allowed m k u)) rs m) key = window_of m key
      \<and> lim_period (fold (\<lambda>(k, u) m. snd (is_allowed m k u)) rs m) = lim_period m
      \<and> lim_calls (fold (\<lambda>(k, u) m. snd (is_allowed m k u)) rs m) = lim_calls m" for m
    using others(1) by (induction rs arbitrary: m) (auto simp: is_allowed_def Let_def)
  have "length (dropWhile (\<lambda>a. a \<le> u - lim_period l) (window_of l'' key)) \<le> length rest"
    using gone same [of l'] length_dropWhile_le by (simp add: others(2) l' k)
  then have "int (length (dropWhile (\<lambda>a. a \<le> u - lim_period l) (window_of l'' key))) < lim_calls l" using len k by simp
  moreover have "lim_calls l'' = lim_calls l" "lim_period l'' = lim_period l" using same [of l'] by (simp_all add: others(2) l')
  ultimately show ?thesis by (simp add: limit_request_def is_allowed_def Let_def)
qed

theorem retry_after_is_honoured_witness:
  "\<exists>l l' l''. new_limiter 1 60 = Inr l \<and> fst (limit_request ''x'' l ''a'' 0 0) = Pass \<and> l' = snd (limit_request ''x'' l ''a'' 0 0)
     \<and> limit_request ''x'' l' ''a'' 10 10 = (Too_Many ''x'' 51, l'') \<and> fst (limit_request ''x'' l'' ''a'' 61 61) = Pass"
proof -
  obtain l where l: "new_limiter 1 60 = Inr l" by (simp add: new_limiter_def)
  then have ok: "limiter_ok (snd (is_allowed l ''a'' 0))" by (intro limiter_ok_step limiter_ok_new)
  have st: "is_allowed l ''a'' 0 = (True, snd (is_allowed l ''a'' 0))"
    using l by (auto simp: new_limiter_def is_allowed_def window_of_def Let_def)
  then have l': "snd (limit_request ''x'' l ''a'' 0 0) = snd (is_allowed l ''a'' 0)" "fst (limit_request ''x'' l ''a'' 0 0) = Pass"
    by (auto simp: limit_request_def split: prod.splits bool.splits)
  obtain l'' where no: "limit_request ''x'' (snd (is_allowed l ''a'' 0)) ''a'' 10 10 = (Too_Many ''x'' 51, l'')"
    using l by (auto simp: new_limiter_def is_allowed_def window_of_def Let_def set_window_def limit_request_def retry_after_seconds_def)
  have "fst (limit_request ''x'' l'' ''a'' 61 61) = Pass"
    by (rule retry_after_is_honoured [OF ok no, of "[]"]) simp_all
  with l l' no show ?thesis by auto
qed

section \<open>What the limits do not cover\<close>

lemma fresh_keys_pass:
  "0 < lim_calls m \<Longrightarrow> distinct (map fst rs) \<Longrightarrow> (\<And>k. k \<in> fst ` set rs \<Longrightarrow> window_of m k = []) \<Longrightarrow> list_all (\<lambda>b. b) (run_limiter m rs)"
proof (induction rs arbitrary: m)
  case (Cons r rs)
  obtain k t where r: "r = (k, t)" by fastforce
  have "window_of m k = []" using Cons.prems(3) [of k] by (simp add: r)
  then have step: "is_allowed m k t = (True, set_window k [t] m)" using Cons.prems(1) by (simp add: is_allowed_def)
  have "list_all (\<lambda>b. b) (run_limiter (set_window k [t] m) rs)"
    using Cons.prems by (intro Cons.IH) (auto simp: r)
  then show ?case by (simp add: r step)
qed simp

text \<open>The key of a call is the first entry of a header the caller writes: as long as it differs from call to call
  every call of the caller passes.\<close>

theorem forged_forwarded_for_passes:
  assumes "new_limiter calls period = Inr l" "distinct (map client_ip hs)" "length ts = length hs"
  shows "list_all (\<lambda>b. b) (run_limiter l (zip (map client_ip hs) ts))"
  using fresh_limiter [OF assms(1)] assms(2,3) by (intro fresh_keys_pass) simp_all

text \<open>A limiter on Redis that cannot reach its server passes every call.\<close>

lemma redis_outage_passes:
  "(\<And>w. \<not> connect R (rl_url l) w) \<Longrightarrow> \<not> rl_client l \<Longrightarrow> fst (redis_is_allowed R l key t w)"
  "fst (window_pipeline R (redis_key key) (t - rl_period l) t (\<lfloor>rl_period l\<rfloor> + 5) w) = None \<Longrightarrow> fst (redis_is_allowed R l key t w)"
  by (auto simp: redis_is_allowed_def get_client_def Let_def split: prod.splits option.splits)

end
