(* ===== verification/Spec2Isabelle.thy ===== *)
theory Spec2Isabelle
  imports Records_Correct Placement_Correct Finalize_Correct Recovery_Correct Requests_Correct Deferral_Correct
    Janitor_Correct Readiness_Correct Bring_Up_Correct Gateway_Auth Rate_Limit
begin

text \<open>
  DevNest is a platform of browser-based development workspaces. Its control plane, the Python backend under
  \<^verbatim>\<open>src/backend/app\<close>, keeps workspaces, jobs and execution nodes in a relational database. A request handler
  checks who asks, quotas and policies, moves the workspace to a transitional state and queues a job. A worker
  claims the job, chooses a node, asks an orchestrator to bring a container up or down, and turns the answer
  into rows, route registrations and events. Around this core, a failure handler retries jobs, durable cleanup
  tasks repeat incomplete stops, a reconciler compares rows with reality, a topology adapter gives containers
  addresses on the bridge of their node, and an infrastructure service registers, drains and terminates nodes.

  \<^bold>\<open>How the model is built.\<close> The database is the record \<open>db\<close> of theory \<open>Model\<close>, one list of rows per table in
  insertion order with the primary-key sequence of the table. An operation of the code is a function from the
  database to a result and the new database; an exception is the left part of a sum (theory \<open>Faults\<close>, and
  the error datatypes of the components). The clock, the settings and the texts the standard library renders
  are the record \<open>env\<close>. Code outside the repository and everything that leaves the process is a parameter:
  route-admin, snapshot storage and advisory locks (\<open>outside\<close>), the host's network commands and the commits of
  concurrent workers (\<open>topo_world\<close>), the container engine (\<open>docker\<close>), a remote shell (\<open>shell\<close>), connections
  (\<open>net\<close>), host directories (\<open>host_dirs\<close>), AWS (\<open>aws\<close>), encryption and token hashing. Their answers are
  arbitrary unless a theorem says otherwise. The worker sees its orchestrator through the record \<open>orch\<close>, as the code
  does through an abstract class, so its theorems hold for every orchestrator; the one of the repository is
  modelled on its own, as computations of the state monad on a \<open>site\<close>: the engine, the topology tables, and a
  counter that lets the host behave differently at every call.

  \<^bold>\<open>Transactions and interleaving.\<close> A handler commits once, so its function is one transaction. A job does not: the
  topology adapter of the orchestrator has the session of the worker and commits or rolls back in the middle of a
  job. The functions of \<open>Worker\<close> describe a job as its own session sees it. Theory \<open>Flight\<close> cuts it at the orchestrator
  call: the claim may become visible or be rolled back there, any other transaction may follow, the worker may die or
  read its rows again, and in the end it writes the columns it changed over whatever is stored by then. The system is
  the transition relation \<open>sys_step\<close> on the committed database and the jobs in flight.

  \<^bold>\<open>Theories and sources.\<close> File names are relative to \<^verbatim>\<open>src/backend/app\<close>.

  \<^item> \<open>Prelude\<close>: Python strings, instants, generic table operations and the contract \<open>row_store\<close>.
  \<^item> \<open>Model\<close>, \<open>Samples\<close>: the schema (\<^verbatim>\<open>services/*/models\<close>), row access, settings; concrete rows for witnesses.
  \<^item> \<open>Ledger\<close>: events, their stream to a client, audit rows, usage records (\<^verbatim>\<open>workspace_event_service.py\<close>,
    \<^verbatim>\<open>api/routers/workspaces.py\<close>, \<^verbatim>\<open>audit_service\<close>, \<^verbatim>\<open>usage_service\<close>).
  \<^item> \<open>Faults\<close>, \<open>Quota\<close>, \<open>Policy\<close>: the guards of the request handlers (\<^verbatim>\<open>quota_service\<close>,
    \<^verbatim>\<open>policy_service\<close>) and their shared contract \<open>admission\<close>.
  \<^item> \<open>Sessions\<close>: tokens of workspace sessions (\<^verbatim>\<open>workspace_session_service.py\<close>).
  \<^item> \<open>Capacity\<close>, \<open>Placement\<close>, \<open>Binding\<close>: reservations, heartbeats, node choice and the resolution of the node
    and topology of a job (\<^verbatim>\<open>placement_service\<close>, \<^verbatim>\<open>scheduler_service\<close>).
  \<^item> \<open>Routing\<close>, \<open>Gateway\<close>: URL names, public URLs, upstreams (\<^verbatim>\<open>libs/routing\<close>, \<^verbatim>\<open>gateway_client\<close>).
  \<^item> \<open>Gateway_Auth\<close>, \<open>Rate_Limit\<close>: the check at the edge before each proxied request
    (\<^verbatim>\<open>workspace_service/api/routers/internal_gateway_auth.py\<close>) and the request limits (\<^verbatim>\<open>libs/security/rate_limit.py\<close>),
    with their theorems: an assigned address resolves to its workspace, a session opens it until it expires or is
    revoked, and the sliding window implements its specification.
  \<^item> \<open>Intent\<close>: the request handlers and the AI secrets (\<^verbatim>\<open>workspace_intent_service.py\<close>,
    \<^verbatim>\<open>workspace_secret_service.py\<close>).
  \<^item> \<open>Failure\<close>, \<open>Json_Text\<close>, \<open>Orchestrator\<close>, \<open>Cleanup\<close>, \<open>Worker_Ops\<close>, \<open>Reconcile\<close>, \<open>Snapshots\<close>, \<open>Worker\<close>:
    the job worker (\<^verbatim>\<open>workers/workspace_job_worker\<close>), the cleanup tasks (\<^verbatim>\<open>cleanup_service\<close>), reconcile
    (\<^verbatim>\<open>reconcile_service\<close>) and snapshots (\<^verbatim>\<open>snapshot_service.py\<close>).
  \<^item> \<open>Flight\<close>: jobs in flight on a session that the adapter commits (\<^verbatim>\<open>worker.py\<close>, \<^verbatim>\<open>app_factory.py\<close>,
    \<^verbatim>\<open>db_topology_adapter.py\<close>), the queuing of repository imports (\<^verbatim>\<open>integration_service\<close>,
    \<^verbatim>\<open>workspace_repos.py\<close>) and the transition system.
  \<^item> \<open>Ipv4\<close>, \<open>Topology\<close>, \<open>Attachment\<close>, \<open>Topology_Repair\<close>: the topology adapter
    (\<^verbatim>\<open>libs/topology/db_topology_adapter.py\<close>) with the part of \<^verbatim>\<open>ipaddress\<close> it uses. It has its own
    database \<open>tdb\<close>: the adapter shares no table with the rest but the topology catalog.
  \<^item> \<open>Ec2_Provider\<close>, \<open>Node_Lifecycle\<close>, \<open>Provisioning\<close>: EC2 instances and their node rows, from registration over the
    ready gate to draining and termination (\<^verbatim>\<open>providers/ec2_provider.py\<close>, \<^verbatim>\<open>infrastructure_service\<close>,
    \<^verbatim>\<open>placement_service/node_resource_monitor.py\<close>). AWS is the record \<open>aws\<close>; the shell scripts of the gate and
    of the bootstrap are texts it is asked with.
  \<^item> \<open>Autoscaler\<close>, \<open>Scaling\<close>: the decisions to grow and to shrink the fleet, their execution with the row locks and
    rechecks of the code, and the periodic loop (\<^verbatim>\<open>autoscaler_service\<close>, \<^verbatim>\<open>workers/autoscaler_loop.py\<close>).
  \<^item> \<open>Effects\<close>: computations on a state that may raise, with weakest preconditions.
  \<^item> \<open>Container_Runtime\<close>, \<open>Ssm_Runtime\<close>: containers through the Docker SDK (\<^verbatim>\<open>libs/runtime/docker_runtime.py\<close>), through
    \<^verbatim>\<open>docker\<close> on a remote host (\<^verbatim>\<open>ssm_docker_runtime.py\<close>), and the steps that bring one up (\<^verbatim>\<open>runtime_orchestrator.py\<close>).
  \<^item> \<open>Probe\<close>: the health of a workspace (\<^verbatim>\<open>libs/probes/probe_runner.py\<close>).
  \<^item> \<open>Teardown\<close>, \<open>Bring_Up\<close>, \<open>Runtime_Cycle\<close>: the orchestrator (\<^verbatim>\<open>orchestrator_service/service.py\<close>,
    \<^verbatim>\<open>libs/runtime/workspace_container_policy.py\<close>): stop and delete; bring-up with its compensating rollback; restart,
    update and the health check.

  \<^bold>\<open>What is shown.\<close>

  \<^item> \<open>Records_Correct\<close>: the event stream polls a database that others commit to; it loses and repeats nothing as
    long as events become visible in the order of their ids, and an event that becomes visible later is
    never sent; a session token works until it expires or is revoked.
  \<^item> \<open>Placement_Correct\<close>: the chosen node fits on top of what is reserved and leaves the least CPU free, then the
    least memory and disk, among the nodes that fit; a node is found whenever one qualifies.
  \<^item> \<open>Intent_Correct\<close>, \<open>Requests_Correct\<close>: lifecycle requests follow a transition table, refused requests change
    nothing but one audit row, URL names are unique and their search ends, secrets and snapshots behave.
  \<^item> \<open>Outcome\<close>, \<open>Job_Run\<close>, \<open>Worker_Correct\<close>: a job touches its own workspace only and every path through the worker
    settles it.
  \<^item> \<open>Finalize_Correct\<close>, \<open>Recovery_Correct\<close>, \<open>Deferral_Correct\<close>: what finished and failed jobs leave behind, and that
    reclaiming and cleanup make progress.
  \<^item> \<open>Topology_Correct\<close>, \<open>Janitor_Correct\<close>: addresses are exclusive and usable whatever other workers commit,
    subnets of a topology are disjoint, and the exact effect of the janitor.
  \<^item> \<open>Fleet\<close>, \<open>Fleet_Correct\<close>: one induction over everything that writes node rows, in the locale \<open>node_guarantee\<close>,
    interpreted four times: node operations touch nothing but nodes, keep the rows well formed, never add a
    node unless they provision one, and leave a terminated node terminated, except for the two that do not:
    \<open>terminated_leaves_by_key\<close> says which they are and that each is given the key of the node.
  \<^item> \<open>Scaling_Correct\<close>, \<open>Readiness_Correct\<close>: the fleet stays within its bounds, a node in use is not terminated, a
    provisioning node becomes ready through the gate only, and draining can be undone.
  \<^item> \<open>Runtime_Correct\<close>: the contract \<open>runtime_contract\<close> of an adapter (a stop that succeeds reports a state in which nothing
    runs, a network namespace is that of a live process), interpreted on both adapters; what a container brought up was
    seen to be, with and without its network namespace.
  \<^item> \<open>Attach_Correct\<close>, \<open>Teardown_Correct\<close>, \<open>Bring_Up_Correct\<close>: every operation of the orchestrator keeps the constraints of the
    topology tables; a stop that reports success has detached the workspace and seen its container reported idle, a bring-up that reports
    success serves under the address it leased or, where attaching is deferred, under the published port of the
    node, and a rollback that reports success leaves nothing on the node. \<open>Site_Samples\<close> holds a concrete
    service for the witnesses.
  \<^item> \<open>System\<close> and this theory: rule induction over the reachable states of the transition system. Every step refines the
    life-cycle automaton of a workspace, in which a job in flight counts although it was reclaimed. No workspace
    waits for a job that does not exist, provided that no worker claims a job another worker is still running;
    a job whose time limit is shorter than its run breaks that proviso, and then the late worker decides
    (\<open>overtaken_worker_decides\<close>).

  A theorem whose name speaks of something that goes wrong (\<open>janitor_breaks_bring_up\<close>,
  \<open>failing_import_blocks_queue\<close>, \<open>strict_start_after_stop_refused\<close>, \<open>reconcile_fails_busy_workspace\<close>,
  \<open>finished_task_hides_incomplete_stop\<close>, \<open>revoke_all_leaves_stale_counter\<close>, \<open>sync_readmits_without_gate\<close>,
  \<open>claimed_node_blocks_scale_in\<close>, \<open>worker_undoes_drain\<close>, \<open>reused_container_ignores_request\<close>,
  \<open>ssm_outage_reports_absence\<close>, \<open>overtaken_worker_decides\<close>, \<open>late_event_never_streamed\<close>,
  \<open>terminated_leaves_by_key\<close>, \<open>delete_keeps_lease_and_fails_after_stop\<close>, \<open>failed_start_not_rolled_back\<close>,
  \<open>numeric_tenant_captured\<close>, \<open>forged_forwarded_for_passes\<close>) records a behaviour of the code
  that its comments or documents do not intend.

  \<^bold>\<open>Bounds and fuel.\<close> The loop over URL names gets one unit of fuel more than there are workspaces, which
  \<open>alloc_loop_total\<close> shows to be enough. The JSON reader gets twice the length of the text and two, and the
  round trip is proved with it. The retries of the code itself are kept: 16 attempts to reserve a subnet, 24 to
  lease an address, \<^verbatim>\<open>limit\<close> jobs per tick, 50 looks for a process id, two attempts of a rollback. A loop that looks until a
  deadline gets the number of its looks as an argument (\<open>looks\<close>), over which the theorems quantify. Times are microseconds as integers; CPU shares are exact rationals
  where the code has floats, so the theorems about placement say nothing of ties that rounding makes or breaks; texts are
  ordered by code points where PostgreSQL has the collation of the database; integers are unbounded as in Python.

  \<^bold>\<open>Not modelled.\<close> The export and import of filesystem snapshots (tar archives, docker archives), the preparation of
  host directories and their owners, node execution over SSH and SSM and the host's network commands are work of the
  operating system; the model takes their answers as parameters. Other HTTP routers, integrations (GitHub, Google, terminal
  proxies), notifications, authentication, the parsing of settings from the environment, metrics and logs, and the sweep
  that removes orphaned AWS resources after a termination, hold no state the modelled services depend on; accounts with their
  refresh and reset tokens are tables of the auth service, of which the model has the user row. Errors of the database itself (a refused
  flush, a text too long for its column, a lost connection) are modelled where the code handles them, as in the topology
  adapter, and nowhere else. Messages keep
  their fixed phrases, with dashes and arrows outside ASCII written with hyphens.
\<close>

section \<open>Properties of the whole system\<close>

text \<open>C1: no workspace waits for a job that does not exist. In every state the system reaches by any interleaving of
  requests, transactions of workers that commit and roll back in the middle of their jobs, retries, failures, crashes,
  reclaims of stuck jobs (of jobs whose worker is still at work too) and cleanups, a workspace in a transitional state has
  a queued or running job of its life cycle. The runs considered are those in which no worker claims a job
  that another worker is still running, \<open>reachable True\<close>.\<close>

theorem transitional_workspace_has_job:
  assumes "reachable True (d, F)" "get_ws d k = Some w" "busy (ws_status w)"
  shows "\<exists>j\<in>set (jobs d). job_workspace_id j = k \<and> lifecycle_job_type (job_type j) \<and> job_status j \<in> {JS_QUEUED, JS_RUNNING}"
proof -
  have "guarded d F" "ws_state d k = Some (ws_status w)" using reachable_sound [OF assms(1)] assms(2) by (simp_all add: sound_def ws_state_def)
  then have "\<exists>i. covers d k i" using assms(3) unfolding guarded_def shields_def by blast
  then show ?thesis unfolding covers_def get_job_def by (metis row_find_Some_in)
qed

text \<open>The state after the first creation request of a new installation.\<close>

lemma ex_created_reachable:
  assumes "create_workspace id ''abcd'' ex_env 7 ex_body None ex_new_db = Inr (r, d')"
  shows "reachable sole (d', [])"
proof -
  have "reachable sole (ex_new_db, [])" by (rule reachable.start) (simp_all add: ex_new_keys, simp_all add: ex_new_db_def ex_defs)
  from reachable.more [OF this sys_step.commit [OF step.create [of ex_new_db id "''abcd''" ex_env 7 ex_body None]]] assms
  show ?thesis by (simp add: undisputed_def)
qed

theorem transitional_workspace_has_job_witness:
  "\<exists>d k w. reachable True (d, []) \<and> get_ws d k = Some w \<and> busy (ws_status w) \<and> (\<exists>j\<in>set (jobs d). job_workspace_id j = k)"
proof -
  obtain r d' where c: "create_workspace id ''abcd'' ex_env 7 ex_body None ex_new_db = Inr (r, d')" using ex_create_accepted by blast
  obtain w where w: "get_ws d' (cres_workspace_id r) = Some w" "busy (ws_status w)" using ex_created_row [OF c] by (auto simp: busy_def)
  from transitional_workspace_has_job [OF ex_created_reachable [OF c] w] ex_created_reachable [OF c] w show ?thesis by blast
qed



text \<open>C4: a settled state is only ever entered through the matching job: a workspace becomes DELETED only by a DELETE
  job, STOPPED only by a STOP or UPDATE job, and RUNNING only by a CREATE, START,
  RESTART or UPDATE job that is queued or running for it, or that a worker is still running although it was reclaimed.
  The state before is any in which the rows of the jobs in flight exist, which all reachable states are.\<close>

theorem settled_state_needs_its_job:
  assumes "tracked d F" "sys_step (d, F) c (d', F')" "ws_state d' k = Some s" "ws_state d k \<noteq> Some s"
    and "s \<in> {WS_DELETED, WS_STOPPED, WS_RUNNING}"
  shows "\<exists>t. s \<in> job_target t \<and>
    ((\<exists>j\<in>set (jobs d). job_workspace_id j = k \<and> job_type j = t \<and> job_status j \<in> {JS_QUEUED, JS_RUNNING}) \<or>
     (\<exists>f\<in>set F. job_workspace_id (fl_job f) = k \<and> job_type (fl_job f) = t))"
proof -
  have "moves d F k (ws_state d k) (Some s)" using sys_step_moves [OF assms(2), of k] assms(1,3) by simp
  moreover have "\<not> requestable s0 s" for s0 using requestable_busy assms(5) by (auto simp: busy_def)
  ultimately obtain s0 t js where o: "ws_state d k = Some s0" "engaged d F k t" "good_outcome t s0 s js"
    using assms(4,5) by (auto simp: moves_def)
  then have "s \<in> job_target t" using assms(4,5) by (cases js; cases "fst js") (auto split: if_splits)
  moreover have "active_type d k t \<Longrightarrow> \<exists>j\<in>set (jobs d). job_workspace_id j = k \<and> job_type j = t \<and> job_status j \<in> {JS_QUEUED, JS_RUNNING}"
    unfolding active_type_def get_job_def by (metis row_find_Some_in)
  ultimately show ?thesis using o(2) unfolding engaged_def by blast
qed

theorem settled_state_needs_its_job_witness:
  "\<exists>d' t. sys_step (ex_queue JT_STOP WS_STOPPING, []) (Some 1) (d', []) \<and> ws_state d' 1 = Some WS_STOPPED
     \<and> WS_STOPPED \<in> job_target t \<and> (\<exists>j\<in>set (jobs (ex_queue JT_STOP WS_STOPPING)). job_type j = t)"
proof -
  let ?d = "ex_queue JT_STOP WS_STOPPING"
  obtain d' calls where run: "process_next_queued_job_return_id ex_tick ?d = Inr (Some 1, d', calls)" "ws_state d' 1 = Some WS_STOPPED"
    using ex_queued_stop by blast
  obtain d1 where d1: "claims ex_tick True 1 ?d d1" "run_claimed ex_tick True 1 d1 = Inr (d', calls)"
    using run(1) by (auto simp: process_next_queued_job_return_id_def claims_def split: option.splits sum.splits)
  have st: "sys_step (?d, []) (Some 1) (d', [])" by (rule sys_step.work [OF ex_provision_contained d1])
  have k: "tracked ?d []" by (simp add: tracked_def db_keys_ok_def keys_ok_def ex_queue_def ex_defs)
  have "ws_state ?d 1 \<noteq> Some WS_STOPPED" using ex_rows(3) [of JT_STOP WS_STOPPING] by (simp add: ws_state_def)
  from settled_state_needs_its_job [OF k st run(2) this] st run(2) show ?thesis by auto
qed

text \<open>C30: a worker whose job was taken from it still decides. When a stuck job is reclaimed while its worker is at work, the
  worker later writes the outcome it computed from the rows in its memory: the job it found running becomes SUCCEEDED with its
  target state, FAILED with ERROR, or queued again, whatever the stored rows say by then, even if the
  job was closed as failed and the workspace is in ERROR or deleted.\<close>

theorem overtaken_worker_decides:
  assumes "tracked d (F1 @ f # F2)" "lifecycle_job_type (job_type (fl_job f))" "job_status (fl_job f) = JS_RUNNING"
    and "busy (ws_status (fl_ws f))" "land f d = Inr (d', calls)"
  shows "\<exists>w' j'. get_ws d' (ws_id (fl_ws f)) = Some w' \<and> get_job d' (fl_id f) = Some j' \<and>
    (job_status j' = JS_SUCCEEDED \<and> ws_status w' \<in> job_target (job_type (fl_job f)) \<or>
     job_status j' = JS_FAILED \<and> ws_status w' = WS_ERROR \<or> job_status j' = JS_QUEUED)"
proof -
  let ?t = "job_type (fl_job f)" and ?m = "ws_status (fl_ws f)"
  have fl: "job_ident d (fl_id f) = Some (?t, job_workspace_id (fl_job f))" "ws_id (fl_ws f) = job_workspace_id (fl_job f)"
    using assms(1) by (simp_all add: tracked_def)
  obtain w :: workspace and j j' :: job and s' js where o: "good_outcome ?t ?m s' js" "ws_state d' (ws_id (fl_ws f)) = Some (changed ?m s' (ws_status w))"
    "get_job d' (fl_id f) = Some j'" "job_status j' = changed (job_status (fl_job f)) (fst js) (job_status j)"
    using land_outcome [OF fl assms(5)] by blast
  obtain w' where w': "get_ws d' (ws_id (fl_ws f)) = Some w'" "ws_status w' = changed ?m s' (ws_status w)"
    using o(2) by (auto simp: ws_state_def)
  have js: "fst js = JS_SUCCEEDED \<and> s' \<in> job_target ?t \<or> fst js = JS_FAILED \<and> s' = WS_ERROR \<or> fst js = JS_QUEUED"
    using o(1) assms(2) by (cases js; cases "fst js") auto
  then have status: "job_status j' = fst js" using o(4) assms(3) by (auto simp: changed_def)
  have "ws_status w' = s'" if "fst js \<noteq> JS_QUEUED"
    using good_outcome_covers [OF o(1)] assms(2,4) that w'(2) by (auto simp: changed_def)
  then show ?thesis using js status w'(1) o(3) by (intro exI [of _ w'] exI [of _ j']) auto
qed

text \<open>The STOP of workspace 1 in flight, after the job was closed as failed.\<close>

definition ex_flight :: flight where
  "ex_flight = \<lparr>fl_env = ex_env, fl_out = ex_outside, fl_orch = Some ex_orch, fl_job = ex_job JT_STOP JS_RUNNING,
     fl_ws = ex_ws\<lparr>ws_status := WS_STOPPING\<rparr>\<rparr>"

definition ex_reclaimed :: db where
  "ex_reclaimed = (ex_db_in WS_ERROR)\<lparr>jobs := [ex_job JT_STOP JS_FAILED]\<rparr>"

lemma ex_reclaimed_rows:
  "get_ws ex_reclaimed 1 = Some (ex_ws\<lparr>ws_status := WS_ERROR\<rparr>)" "get_job ex_reclaimed 1 = Some (ex_job JT_STOP JS_FAILED)"
  "db_keys_ok ex_reclaimed"
  by (simp_all add: get_ws_def get_job_def ex_reclaimed_def db_keys_ok_def keys_ok_def ex_defs)

lemma ex_flight_fields: "fl_id ex_flight = 1" "ws_id (fl_ws ex_flight) = 1" "job_type (fl_job ex_flight) = JT_STOP"
  "job_workspace_id (fl_job ex_flight) = 1" "job_status (fl_job ex_flight) = JS_RUNNING" "ws_status (fl_ws ex_flight) = WS_STOPPING"
  by (simp_all add: ex_flight_def ex_ws_def)

theorem overtaken_worker_decides_witness:
  "ws_state ex_reclaimed 1 = Some WS_ERROR \<and> (\<exists>d' calls j'. land ex_flight ex_reclaimed = Inr (d', calls) \<and> get_job d' 1 = Some j' \<and>
     job_status j' \<in> {JS_SUCCEEDED, JS_FAILED, JS_QUEUED} \<and> sys_step (ex_reclaimed, [ex_flight]) None (d', []))"
proof -
  have tr: "tracked ex_reclaimed ([] @ ex_flight # [])"
    by (simp add: tracked_def ex_flight_fields ex_reclaimed_rows job_ident_def ws_state_def)
  have "\<exists>p. finish_claimed_job ex_env ex_outside (Some ex_orch) (fl_ws ex_flight) (fl_job ex_flight) d = Inr p" for d
    using execute_stop [of "fl_job ex_flight" ex_orch ex_stop_ok, OF ex_flight_fields(3) ex_orch_stops]
    by (simp add: finish_claimed_job_def Let_def split_beta)
  then obtain d2 calls where fin: "finish_claimed_job ex_env ex_outside (Some ex_orch) (fl_ws ex_flight) (fl_job ex_flight) (seen_by ex_flight ex_reclaimed) = Inr (d2, calls)"
    by (metis surj_pair)
  have "fl_env ex_flight = ex_env" "fl_out ex_flight = ex_outside" "fl_orch ex_flight = Some ex_orch" by (simp_all add: ex_flight_def)
  then obtain d' where l: "land ex_flight ex_reclaimed = Inr (d', calls)"
    using fin ex_reclaimed_rows(1,2) by (simp add: land_def ex_flight_fields)
  have "lifecycle_job_type JT_STOP" "busy WS_STOPPING" by (simp_all add: lifecycle_job_type_def busy_def)
  then obtain j' where "get_job d' 1 = Some j'" "job_status j' \<in> {JS_SUCCEEDED, JS_FAILED, JS_QUEUED}"
    using overtaken_worker_decides [OF tr _ _ _ l] by (auto simp: ex_flight_fields)
  moreover have "sys_step (ex_reclaimed, [ex_flight]) None (d', [])" using sys_step.land [OF l, of "[]" "[]"] by simp
  ultimately show ?thesis using l ex_reclaimed_rows(1) by (auto simp: ws_state_def)
qed

end
